(* ===== verification/Prelude.thy ===== *)
theory Prelude
  imports
    Main
    "HOL-Library.Word"
    "HOL-Library.Multiset"
    "HOL-Library.Char_ord"
    "HOL-Library.List_Lexorder"
    "HOL-Library.Product_Lexorder"
begin

text \<open>
  The part of Go and of its standard library that the components share: byte strings and
  their order, \<^verbatim>\<open>strings.TrimSpace\<close>, the two identifier patterns of the repository,
  \<^verbatim>\<open>sort.Slice\<close> under a strict weak order, fixed width integers, instants and durations,
  and results that carry an error.

  Go strings are byte sequences; they are HOL's \<^typ>\<open>string\<close>, whose characters are the
  256 byte values, and Go's \<^verbatim>\<open><\<close> on strings is the lexicographic order of
  \<open>List_Lexorder\<close> over the byte order of \<open>Char_ord\<close>.
  Unsigned and signed integers of a given width are words; a signed value is read by
  \<^const>\<open>sint\<close>, an unsigned one by \<^const>\<open>uint\<close> or \<^const>\<open>unat\<close>.
\<close>

named_theorems model_defs "definitions to unfold when a model function is evaluated"
named_theorems int_range "bounds of the machine integer types"

type_synonym uint32 = "32 word"
type_synonym uint64 = "64 word"
type_synonym int32 = "32 word"
type_synonym int64 = "64 word"
type_synonym 'k keyset = "'k list"


section \<open>Results\<close>

text \<open>A fallible call returns the error on the left and the value on the right.\<close>

definition res_bind :: "'e + 'a \<Rightarrow> ('a \<Rightarrow> 'e + 'b) \<Rightarrow> 'e + 'b" where
  "res_bind r f = (case r of Inl e \<Rightarrow> Inl e | Inr x \<Rightarrow> f x)"

lemma res_bind_simps [simp]:
  "res_bind (Inl e) f = Inl e"
  "res_bind (Inr x) f = f x"
  by (simp_all add: res_bind_def)

lemma res_bind_eq_Inr [simp]:
  "res_bind r f = Inr y \<longleftrightarrow> (\<exists>x. r = Inr x \<and> f x = Inr y)"
  by (cases r) auto

text \<open>A loop that stops at the first error and collects the results in order.\<close>

fun res_map :: "('a \<Rightarrow> 'e + 'b) \<Rightarrow> 'a list \<Rightarrow> 'e + 'b list" where
  "res_map f [] = Inr []"
| "res_map f (x # xs) = res_bind (f x) (\<lambda>y. res_bind (res_map f xs) (\<lambda>ys. Inr (y # ys)))"

lemma res_map_Inr_length: "res_map f xs = Inr ys \<Longrightarrow> length ys = length xs"
  by (induction xs arbitrary: ys) auto

lemma res_map_Inr_iff:
  "res_map f xs = Inr ys \<longleftrightarrow> list_all2 (\<lambda>x y. f x = Inr y) xs ys"
proof (induction xs arbitrary: ys)
  case Nil
  then show ?case by auto
next
  case (Cons x xs)
  then show ?case by (cases ys) auto
qed


lemma res_map_origin: "res_map f xs = Inr ys \<Longrightarrow> y \<in> set ys \<Longrightarrow> \<exists>x \<in> set xs. f x = Inr y"
  by (induction xs arbitrary: ys) auto

text \<open>A loop over a list that threads a state and stops at the first error.\<close>

fun res_fold :: "('s \<Rightarrow> 'a \<Rightarrow> 'e + 's) \<Rightarrow> 's \<Rightarrow> 'a list \<Rightarrow> 'e + 's" where
  "res_fold f s [] = Inr s"
| "res_fold f s (x # xs) = res_bind (f s x) (\<lambda>s'. res_fold f s' xs)"

lemma res_fold_append: "res_fold f s (xs @ ys) = res_bind (res_fold f s xs) (\<lambda>s'. res_fold f s' ys)"
  by (induction xs arbitrary: s) (auto simp: res_bind_def split: sum.split)

lemma res_fold_snoc: "res_fold f s (xs @ [x]) = Inr t \<longleftrightarrow> (\<exists>s'. res_fold f s xs = Inr s' \<and> f s' x = Inr t)"
  by (auto simp: res_fold_append)


lemma res_fold_nested:
  "res_fold (\<lambda>s x. res_fold (g x) s (h x)) s xs = res_fold (\<lambda>s (x, y). g x s y) s (concat (map (\<lambda>x. map (Pair x) (h x)) xs))"
proof -
  have "res_fold (\<lambda>s (x, y). g x s y) s (map (Pair x) ys) = res_fold (g x) s ys" for s x ys
    by (induction ys arbitrary: s) (auto simp: res_bind_def split: sum.split)
  then show ?thesis by (induction xs arbitrary: s) (auto simp: res_fold_append)
qed

text \<open>A property of the processed prefix that every step keeps holds at the end.\<close>

lemma res_fold_prefix_induct:
  assumes "res_fold f s xs = Inr t" "P [] s"
    and "\<And>ys y u v. P ys u \<Longrightarrow> f u y = Inr v \<Longrightarrow> y \<in> set xs \<Longrightarrow> P (ys @ [y]) v"
  shows "P xs t"
  using assms
proof (induction xs arbitrary: t rule: rev_induct)
  case (snoc x xs)
  then obtain u where "res_fold f s xs = Inr u" "f u x = Inr t" by (auto simp: res_fold_snoc)
  moreover have "P xs u" using snoc.IH [OF \<open>res_fold f s xs = Inr u\<close> snoc.prems(2)] snoc.prems(3) by auto
  ultimately show ?case using snoc.prems(3) by auto
qed auto


section \<open>Byte strings\<close>

text \<open>
  The UTF-8 encodings of the code points with property White\_Space, which is what
  \<^verbatim>\<open>unicode.IsSpace\<close> accepts. An encoding is a prefix of a string iff decoding the first
  rune yields that code point, because no encoding is a prefix of another one.
\<close>

definition space_encodings :: "string list" where
  "space_encodings =
     [[CHR 0x20], [CHR 0x09], [CHR 0x0A], [CHR 0x0B], [CHR 0x0C], [CHR 0x0D],
      [CHR 0xC2, CHR 0x85], [CHR 0xC2, CHR 0xA0], [CHR 0xE1, CHR 0x9A, CHR 0x80],
      [CHR 0xE2, CHR 0x80, CHR 0x80], [CHR 0xE2, CHR 0x80, CHR 0x81], [CHR 0xE2, CHR 0x80, CHR 0x82],
      [CHR 0xE2, CHR 0x80, CHR 0x83], [CHR 0xE2, CHR 0x80, CHR 0x84], [CHR 0xE2, CHR 0x80, CHR 0x85],
      [CHR 0xE2, CHR 0x80, CHR 0x86], [CHR 0xE2, CHR 0x80, CHR 0x87], [CHR 0xE2, CHR 0x80, CHR 0x88],
      [CHR 0xE2, CHR 0x80, CHR 0x89], [CHR 0xE2, CHR 0x80, CHR 0x8A], [CHR 0xE2, CHR 0x80, CHR 0xA8],
      [CHR 0xE2, CHR 0x80, CHR 0xA9], [CHR 0xE2, CHR 0x80, CHR 0xAF], [CHR 0xE2, CHR 0x81, CHR 0x9F],
      [CHR 0xE3, CHR 0x80, CHR 0x80]]"

fun starts_with :: "'a list \<Rightarrow> 'a list \<Rightarrow> bool" where
  "starts_with [] s = True"
| "starts_with (e # es) [] = False"
| "starts_with (e # es) (c # cs) = (e = c \<and> starts_with es cs)"

lemma starts_with_iff: "starts_with e s \<longleftrightarrow> (\<exists>t. s = e @ t)"
  by (induction e s rule: starts_with.induct) auto

lemma starts_with_append: "starts_with e s \<Longrightarrow> starts_with e (s @ t)"
  by (auto simp: starts_with_iff)

function trim_front :: "'a list list \<Rightarrow> 'a list \<Rightarrow> 'a list" where
  "trim_front es s =
     (case find (\<lambda>e. e \<noteq> [] \<and> starts_with e s) es of
        None \<Rightarrow> s
      | Some e \<Rightarrow> trim_front es (drop (length e) s))"
  by pat_completeness auto
termination
  by (relation "measure (\<lambda>(es, s). length s)") (auto simp: find_Some_iff starts_with_iff)

declare trim_front.simps [simp del]

definition TrimSpace :: "string \<Rightarrow> string" where
  "TrimSpace s = rev (trim_front (map rev space_encodings) (rev (trim_front space_encodings s)))"

lemma trim_front_suffix: "\<exists>p. s = p @ trim_front es s"
proof (induction es s rule: trim_front.induct)
  case (1 es s)
  show ?case
  proof (cases "find (\<lambda>e. e \<noteq> [] \<and> starts_with e s) es")
    case None
    then show ?thesis by (subst trim_front.simps) simp
  next
    case (Some e)
    then obtain p where "drop (length e) s = p @ trim_front es (drop (length e) s)"
      using 1 by blast
    then have "s = (take (length e) s @ p) @ trim_front es (drop (length e) s)"
      by (metis append.assoc append_take_drop_id)
    moreover have "trim_front es s = trim_front es (drop (length e) s)"
      using Some by (simp add: trim_front.simps [of es s])
    ultimately show ?thesis by metis
  qed
qed

lemma trim_front_clean:
  "find (\<lambda>e. e \<noteq> [] \<and> starts_with e (trim_front es s)) es = None"
proof (induction es s rule: trim_front.induct)
  case (1 es s)
  show ?case
    using 1 by (cases "find (\<lambda>e. e \<noteq> [] \<and> starts_with e s) es")
      (simp_all add: trim_front.simps [of es s])
qed

lemma trim_front_id: "find (\<lambda>e. e \<noteq> [] \<and> starts_with e s) es = None \<Longrightarrow> trim_front es s = s"
  by (simp add: trim_front.simps)

lemma trim_front_idem [simp]: "trim_front es (trim_front es s) = trim_front es s"
  by (rule trim_front_id [OF trim_front_clean])

lemma TrimSpace_idem [simp]: "TrimSpace (TrimSpace s) = TrimSpace s"
proof -
  let ?l = "trim_front space_encodings s"
  let ?r = "trim_front (map rev space_encodings) (rev ?l)"
  obtain p where p: "rev ?l = p @ ?r" using trim_front_suffix by blast
  then have "?l = rev ?r @ rev p" by (metis rev_append rev_rev_ident)
  then have "find (\<lambda>e. e \<noteq> [] \<and> starts_with e (rev ?r)) space_encodings = None"
    using trim_front_clean [of space_encodings s] starts_with_append
    unfolding find_None_iff by metis
  then show ?thesis by (simp add: TrimSpace_def trim_front_id)
qed

lemma length_TrimSpace: "length (TrimSpace s) \<le> length s"
proof -
  have "length (trim_front es t) \<le> length t" for es and t :: string
    using trim_front_suffix [of t es] by (metis length_append le_add2)
  from this [of "map rev space_encodings" "rev (trim_front space_encodings s)"]
    this [of space_encodings s]
  show ?thesis by (simp add: TrimSpace_def)
qed

text \<open>Printable ASCII text without blanks is not trimmed.\<close>

definition visible_char :: "char \<Rightarrow> bool" where
  "visible_char c \<longleftrightarrow> CHR 0x21 \<le> c \<and> c \<le> CHR 0x7E"

lemma space_encodings_invisible: "\<forall>e \<in> set space_encodings. e \<noteq> [] \<and> \<not> visible_char (hd e) \<and> \<not> visible_char (last e)"
  by code_simp

lemma trim_front_visible:
  assumes "list_all visible_char s" "\<forall>e \<in> set es. e \<noteq> [] \<and> \<not> visible_char (hd e)" shows "trim_front es s = s"
proof (rule trim_front_id)
  have "\<not> (e \<noteq> [] \<and> starts_with e s)" if "e \<in> set es" for e
  proof
    assume "e \<noteq> [] \<and> starts_with e s"
    then obtain t where "s = e @ t" "hd e \<in> set e" by (auto simp: starts_with_iff)
    then show False using assms that by (auto simp: list_all_iff)
  qed
  then show "find (\<lambda>e. e \<noteq> [] \<and> starts_with e s) es = None" unfolding find_None_iff by blast
qed

lemma TrimSpace_visible: "list_all visible_char s \<Longrightarrow> TrimSpace s = s"
  using space_encodings_invisible
  by (simp add: TrimSpace_def trim_front_visible hd_rev)

text \<open>\<^verbatim>\<open>strings.HasPrefix\<close>, \<^verbatim>\<open>strings.TrimPrefix\<close>, \<^verbatim>\<open>strings.ContainsRune(s, 0)\<close>.\<close>

definition TrimPrefix :: "string \<Rightarrow> string \<Rightarrow> string" where
  "TrimPrefix s p = (if starts_with p s then drop (length p) s else s)"

definition contains_nul :: "string \<Rightarrow> bool" where
  "contains_nul s = (CHR 0x00 \<in> set s)"

abbreviation NUL :: string where "NUL \<equiv> [CHR 0x00]"

lemma nul_separated_inject:
  assumes "\<not> contains_nul a" "\<not> contains_nul b"
  shows "a @ NUL @ x = b @ NUL @ y \<longleftrightarrow> a = b \<and> x = y"
  using assms
proof (induction a arbitrary: b)
  case Nil
  then show ?case by (cases b) (auto simp: contains_nul_def)
next
  case (Cons c a)
  then show ?case by (cases b) (auto simp: contains_nul_def)
qed

lemma inj_on_nul_separated:
  assumes "\<And>p. p \<in> A \<Longrightarrow> \<not> contains_nul (fst p)" shows "inj_on (\<lambda>(x, y). x @ NUL @ y) A"
proof (rule inj_onI)
  fix p q assume "p \<in> A" "q \<in> A" "(case p of (x, y) \<Rightarrow> x @ NUL @ y) = (case q of (x, y) \<Rightarrow> x @ NUL @ y)"
  with assms show "p = q" using nul_separated_inject [of "fst p" "fst q"] by (simp add: case_prod_beta prod_eq_iff)
qed


subsection \<open>Identifier patterns\<close>

definition is_digit_char :: "char \<Rightarrow> bool" where
  "is_digit_char c = (CHR ''0'' \<le> c \<and> c \<le> CHR ''9'')"

definition is_alnum_char :: "char \<Rightarrow> bool" where
  "is_alnum_char c = (is_digit_char c \<or> CHR ''A'' \<le> c \<and> c \<le> CHR ''Z'' \<or> CHR ''a'' \<le> c \<and> c \<le> CHR ''z'')"

definition is_token_char :: "char \<Rightarrow> bool" where
  "is_token_char c = (is_alnum_char c \<or> c = CHR ''.'' \<or> c = CHR ''_'' \<or> c = CHR '':'' \<or> c = CHR ''-'')"

definition is_hex_char :: "char \<Rightarrow> bool" where
  "is_hex_char c = (is_digit_char c \<or> CHR ''a'' \<le> c \<and> c \<le> CHR ''f'')"

text \<open>
  \<^verbatim>\<open>^[A-Za-z0-9][A-Za-z0-9._:-]{0,255}$\<close> and \<^verbatim>\<open>^[0-9a-f]{64}$\<close>; without the flag
  \<^verbatim>\<open>m\<close>, Go's \<^verbatim>\<open>$\<close> matches at the end of the text only.
\<close>

fun tokenPattern :: "string \<Rightarrow> bool" where
  "tokenPattern [] = False"
| "tokenPattern (c # cs) = (is_alnum_char c \<and> length cs \<le> 255 \<and> list_all is_token_char cs)"

definition hashPattern :: "string \<Rightarrow> bool" where
  "hashPattern s = (length s = 64 \<and> list_all is_hex_char s)"

lemma is_hex_alnum: "is_hex_char c \<Longrightarrow> is_alnum_char c"
proof -
  assume "is_hex_char c"
  moreover have "CHR ''f'' \<le> CHR ''z''" by simp
  ultimately show ?thesis
    unfolding is_hex_char_def is_alnum_char_def by (meson order_trans)
qed

lemma is_token_visible: "is_token_char c \<Longrightarrow> visible_char c"
proof -
  have "CHR 0x21 \<le> CHR ''0''" "CHR ''9'' \<le> CHR 0x7E" "CHR 0x21 \<le> CHR ''A''" "CHR ''Z'' \<le> CHR 0x7E" "CHR 0x21 \<le> CHR ''a''" "CHR ''z'' \<le> CHR 0x7E"
    "visible_char (CHR ''.'')" "visible_char (CHR ''_'')" "visible_char (CHR '':'')" "visible_char (CHR ''-'')" by code_simp+
  then show "is_token_char c \<Longrightarrow> visible_char c"
    unfolding is_token_char_def is_alnum_char_def is_digit_char_def visible_char_def by (meson order_trans)
qed

lemma list_all_hex_token: "list_all is_hex_char s \<Longrightarrow> list_all is_token_char s"
  by (auto simp: list_all_iff is_token_char_def is_hex_alnum)

lemma tokenPattern_hash_suffix:
  assumes "tokenPattern p" "hashPattern h" "length p \<le> 192"
  shows "tokenPattern (p @ h)"
  using assms by (cases p) (auto simp: hashPattern_def list_all_hex_token)

lemma tokenPattern_nonempty: "tokenPattern s \<Longrightarrow> s \<noteq> []"
  by (cases s) auto

lemma tokenPattern_length: "tokenPattern s \<Longrightarrow> length s \<le> 256"
  by (cases s) auto

lemma hashPattern_nonempty: "hashPattern s \<Longrightarrow> s \<noteq> []"
  by (auto simp: hashPattern_def)

text \<open>Strictly increasing lists: the shape every canonical list of names has.\<close>

fun strictly_sorted :: "'a::linorder list \<Rightarrow> bool" where
  "strictly_sorted [] = True"
| "strictly_sorted [x] = True"
| "strictly_sorted (x # y # zs) = (x < y \<and> strictly_sorted (y # zs))"

lemma strictly_sorted_iff: "strictly_sorted xs \<longleftrightarrow> sorted_wrt (<) xs"
  by (induction xs rule: strictly_sorted.induct) (auto dest: less_trans)

lemma strictly_sorted_sorted_distinct: "strictly_sorted xs \<longleftrightarrow> sorted xs \<and> distinct xs"
  by (simp add: strictly_sorted_iff strict_sorted_iff)

text \<open>
  The loop \<^verbatim>\<open>for i, v := range xs { if bad(v) || i > 0 && xs[i-1] >= v { fail } }\<close>, and
  the keys of a map taken out and sorted.
\<close>

definition sorted_keys :: "'a::linorder list \<Rightarrow> 'a list" where
  "sorted_keys xs = sort (remdups xs)"

lemma set_sorted_keys [simp]: "set (sorted_keys xs) = set xs"
  by (simp add: sorted_keys_def)

lemma strictly_sorted_sorted_keys [simp]: "strictly_sorted (sorted_keys xs)"
  by (simp add: sorted_keys_def strictly_sorted_sorted_distinct)

lemma sorted_keys_id: "strictly_sorted xs \<Longrightarrow> sorted_keys xs = xs"
  by (simp add: sorted_keys_def strictly_sorted_sorted_distinct distinct_remdups_id sorted_sort_id)

lemma sorted_keys_cong: "set xs = set ys \<Longrightarrow> sorted_keys xs = sorted_keys ys"
  by (metis set_sorted_keys strictly_sorted_sorted_distinct strictly_sorted_sorted_keys
      sorted_distinct_set_unique)

lemma sorted_keys_eq_Nil [simp]: "sorted_keys xs = [] \<longleftrightarrow> xs = []"
  by (metis set_empty set_sorted_keys)

text \<open>A list that is built by appending an element for every condition that holds.\<close>

fun pick :: "bool list \<Rightarrow> 'a list \<Rightarrow> 'a list" where
  "pick (c # cs) (x # xs) = (if c then [x] else []) @ pick cs xs"
| "pick cs xs = []"

lemma set_pick: "set (pick cs xs) \<subseteq> set xs"
  by (induction cs xs rule: pick.induct) auto

lemma distinct_pick: "distinct xs \<Longrightarrow> distinct (pick cs xs)"
proof (induction cs xs rule: pick.induct)
  case (1 c cs x xs)
  then show ?case using set_pick [of cs xs] by auto
qed auto

lemma list_all_pick: "list_all P xs \<Longrightarrow> list_all P (pick cs xs)"
  using set_pick [of cs xs] by (auto simp: list_all_iff)

end
