(* ===== verification/Machine.thy ===== *)
theory Machine
  imports Prelude
begin

text \<open>
  Fixed width integers as Go computes with them, and \<^verbatim>\<open>time.Time\<close>. The operators
  \<^verbatim>\<open>+\<close>, \<^verbatim>\<open>-\<close> and \<^verbatim>\<open>*\<close> of Go wrap around and are those of the word type; division of signed
  integers truncates towards zero. A \<^verbatim>\<open>time.Time\<close> is an instant, in nanoseconds since the zero
  time (January 1 of year 1, UTC), and the zone it is displayed in; a \<^verbatim>\<open>time.Duration\<close> is a
  signed 64 bit count of nanoseconds, read here as an integer.
\<close>

section \<open>Signed integers\<close>

definition quot :: "int \<Rightarrow> int \<Rightarrow> int" where
  "quot a b = sgn a * sgn b * (\<bar>a\<bar> div \<bar>b\<bar>)"

definition int64_div :: "int64 \<Rightarrow> int64 \<Rightarrow> int64" where
  "int64_div a b = word_of_int (quot (sint a) (sint b))"

definition MaxInt64 :: int64 where "MaxInt64 = 9223372036854775807"

definition MinInt64 :: int64 where "MinInt64 = 9223372036854775808"

lemma sint_MaxInt64 [simp]: "sint MaxInt64 = 9223372036854775807"
  by (simp add: MaxInt64_def)

lemma sint_MinInt64 [simp]: "sint MinInt64 = -9223372036854775808"
  by (simp add: MinInt64_def)

lemma sint32_range [int_range]:
  "-2147483648 \<le> sint (w :: int32)" "sint (w :: int32) \<le> 2147483647"
  using sint_ge [of w] sint_lt [of w] by simp_all

lemma sint64_range [int_range]:
  "-9223372036854775808 \<le> sint (w :: int64)" "sint (w :: int64) \<le> 9223372036854775807"
  using sint_ge [of w] sint_lt [of w] by simp_all

lemma uint32_range [int_range]: "0 \<le> uint (w :: uint32)" "uint (w :: uint32) \<le> 4294967295"
  using uint_lt2p [of w] by simp_all

lemma uint64_range [int_range]:
  "0 \<le> uint (w :: uint64)" "uint (w :: uint64) \<le> 18446744073709551615"
  using uint_lt2p [of w] by simp_all

definition fits64 :: "int \<Rightarrow> bool" where
  "fits64 k \<longleftrightarrow> -9223372036854775808 \<le> k \<and> k \<le> 9223372036854775807"

lemma sint_word_of_int: "fits64 k \<Longrightarrow> sint (word_of_int k :: int64) = k"
  by (simp add: fits64_def sint_sbintrunc' signed_take_bit_int_eq_self)

lemma fits64_sint [simp]: "fits64 (sint (w :: int64))"
  using sint64_range [of w] by (simp add: fits64_def)

lemma sint64_inject: "sint (a :: int64) = sint b \<longleftrightarrow> a = b"
  by (auto intro: signed_word_eqI)

lemma sint64_eq_numerals:
  "sint (a :: int64) = 0 \<longleftrightarrow> a = 0" "sint (a :: int64) = -1 \<longleftrightarrow> a = -1"
  using sint64_inject [of a 0] sint64_inject [of a "-1"] by simp_all

lemma sint64_wrap: "\<exists>k. sint (word_of_int x :: int64) = x + k * 18446744073709551616"
proof -
  have "(word_of_int (sint (word_of_int x :: int64)) :: int64) = word_of_int x" by simp
  from iffD1 [OF word_of_int_eq_iff this]
  have "sint (word_of_int x :: int64) mod 18446744073709551616 = x mod 18446744073709551616"
    by (simp only: take_bit_eq_mod) simp
  then have "18446744073709551616 dvd (sint (word_of_int x :: int64) - x)"
    by (simp add: mod_eq_dvd_iff)
  then obtain k where "sint (word_of_int x :: int64) - x = 18446744073709551616 * k" ..
  then show ?thesis by (intro exI [of _ k]) simp
qed

lemma word_of_int_sint_ops:
  "(a :: int64) + b = word_of_int (sint a + sint b)"
  "(a :: int64) - b = word_of_int (sint a - sint b)"
  "(a :: int64) * b = word_of_int (sint a * sint b)"
  by (simp_all flip: wi_hom_add wi_hom_sub wi_hom_mult)

lemma sint_add: "fits64 (sint a + sint b) \<Longrightarrow> sint (a + b) = sint a + sint (b :: int64)"
  by (simp only: word_of_int_sint_ops(1) [of a b] sint_word_of_int)

lemma sint_diff: "fits64 (sint a - sint b) \<Longrightarrow> sint (a - b) = sint a - sint (b :: int64)"
  by (simp only: word_of_int_sint_ops(2) [of a b] sint_word_of_int)

lemma sint_mult: "fits64 (sint a * sint b) \<Longrightarrow> sint (a * b) = sint a * sint (b :: int64)"
  by (simp only: word_of_int_sint_ops(3) [of a b] sint_word_of_int)

lemma abs_quot: "\<bar>quot a b\<bar> = \<bar>a\<bar> div \<bar>b\<bar>"
  by (simp add: quot_def abs_mult sgn_if pos_imp_zdiv_nonneg_iff)

lemma quot_remainder: "b \<noteq> 0 \<Longrightarrow> \<bar>a - quot a b * b\<bar> < \<bar>b\<bar>"
proof -
  assume "b \<noteq> 0"
  have "a - quot a b * b = sgn a * (\<bar>a\<bar> - \<bar>a\<bar> div \<bar>b\<bar> * \<bar>b\<bar>)"
    by (simp add: quot_def algebra_simps sgn_mult_abs) (simp add: abs_sgn mult.assoc)
  also have "\<dots> = sgn a * (\<bar>a\<bar> mod \<bar>b\<bar>)"
    by (simp add: minus_div_mult_eq_mod)
  finally show ?thesis
    using \<open>b \<noteq> 0\<close> by (simp add: abs_mult sgn_if)
qed

lemma quot_mult_cancel: "b \<noteq> 0 \<Longrightarrow> quot (a * b) b = a"
  by (simp add: quot_def abs_mult sgn_mult mult.assoc sgn_mult_self_eq)
    (simp add: mult.commute mult_sgn_abs sgn_if)

lemma quot_nonneg: "0 \<le> a \<Longrightarrow> 0 < b \<Longrightarrow> quot a b = a div b"
  by (cases "a = 0") (simp_all add: quot_def)

lemma sint_int64_div:
  assumes "sint b \<noteq> -1"
  shows "sint (int64_div a b) = quot (sint a) (sint b)"
proof -
  have "fits64 (quot (sint a) (sint b))"
  proof (cases "sint b = 0 \<or> sint b = 1")
    case True
    then show ?thesis by (auto simp: quot_def fits64_def mult_sgn_abs int_range)
  next
    case False
    with assms have "2 \<le> \<bar>sint b\<bar>" by linarith
    then have "\<bar>sint a\<bar> div \<bar>sint b\<bar> \<le> \<bar>sint a\<bar> div 2" by (intro zdiv_mono2) auto
    moreover have "\<bar>sint a\<bar> \<le> 9223372036854775808" using sint64_range [of a] by linarith
    ultimately have "\<bar>quot (sint a) (sint b)\<bar> \<le> 4611686018427387904"
      unfolding abs_quot by linarith
    then show ?thesis by (simp add: fits64_def abs_le_iff)
  qed
  then show ?thesis by (simp add: int64_div_def sint_word_of_int)
qed

section \<open>Time\<close>

record time =
  t_ns :: int
  t_zone :: int

type_synonym duration = int

definition time_IsZero :: "time \<Rightarrow> bool" where "time_IsZero t \<longleftrightarrow> t_ns t = 0"

definition time_Equal :: "time \<Rightarrow> time \<Rightarrow> bool" where "time_Equal t u \<longleftrightarrow> t_ns t = t_ns u"

definition time_Before :: "time \<Rightarrow> time \<Rightarrow> bool" where "time_Before t u \<longleftrightarrow> t_ns t < t_ns u"

definition time_After :: "time \<Rightarrow> time \<Rightarrow> bool" where "time_After t u \<longleftrightarrow> t_ns u < t_ns t"

definition time_UTC :: "time \<Rightarrow> time" where "time_UTC t = t\<lparr>t_zone := 0\<rparr>"

definition time_Add :: "time \<Rightarrow> duration \<Rightarrow> time" where "time_Add t d = t\<lparr>t_ns := t_ns t + d\<rparr>"

definition time_Truncate :: "time \<Rightarrow> duration \<Rightarrow> time" where
  "time_Truncate t d = (if d \<le> 0 then t else t\<lparr>t_ns := t_ns t - t_ns t mod d\<rparr>)"

definition zero_time :: time where "zero_time = \<lparr>t_ns = 0, t_zone = 0\<rparr>"

lemmas time_defs [model_defs] =
  time_IsZero_def time_Equal_def time_Before_def time_After_def time_UTC_def time_Add_def
  time_Truncate_def zero_time_def

text \<open>\<^verbatim>\<open>time.Duration(s) * time.Second\<close>, a product of 64 bit integers that wraps around.\<close>

definition seconds :: "uint64 \<Rightarrow> duration" where
  "seconds s = sint (s * 1000000000 :: int64)"

lemma seconds_fits:
  assumes "uint (s :: uint64) \<le> 9223372036"
  shows "fits64 (uint s)" "fits64 (uint s * 1000000000)" "fits64 (- (uint s * 1000000000))"
  using assms uint64_range(1) [of s] unfolding fits64_def by linarith+

lemma seconds_exact:
  assumes "uint s \<le> 9223372036"
  shows "seconds s = uint s * 1000000000"
proof -
  have "s * 1000000000 = (word_of_int (uint s * 1000000000) :: int64)"
    by (simp flip: wi_hom_mult)
  then show ?thesis using seconds_fits(2) [OF assms] by (simp only: seconds_def sint_word_of_int)
qed

lemma negated_seconds_exact:
  assumes "uint s \<le> 9223372036"
  shows "sint (- s * 1000000000 :: int64) = - (uint s * 1000000000)"
proof -
  have "- s * 1000000000 = (word_of_int (- (uint s * 1000000000)) :: int64)"
    by (simp flip: wi_hom_mult wi_hom_neg)
  then show ?thesis using seconds_fits(3) [OF assms] by (simp only: sint_word_of_int)
qed

end
