(* ===== verification/SortSlice.thy ===== *)
theory SortSlice
  imports Prelude
begin

text \<open>
  \<^verbatim>\<open>sort.Slice(xs, less)\<close>. Go documents the result as a permutation of the input in which no
  element is less than one before it, and leaves the order of equivalent elements open. The
  model \<open>sort_slice\<close> is one such algorithm (a stable insertion sort); \<open>is_sorting\<close> is the
  documented contract. The interface \<open>strict_weak_order\<close> is what a comparator has to promise,
  and inside it the contract determines the result wherever the comparator is total: whatever
  algorithm Go uses then computes what \<open>sort_slice\<close> computes.
\<close>

fun insert_by :: "('a \<Rightarrow> 'a \<Rightarrow> bool) \<Rightarrow> 'a \<Rightarrow> 'a list \<Rightarrow> 'a list" where
  "insert_by lt x [] = [x]"
| "insert_by lt x (y # ys) = (if lt y x then y # insert_by lt x ys else x # y # ys)"

definition sort_slice :: "('a \<Rightarrow> 'a \<Rightarrow> bool) \<Rightarrow> 'a list \<Rightarrow> 'a list" where
  "sort_slice lt xs = foldr (insert_by lt) xs []"

definition is_sorting :: "('a \<Rightarrow> 'a \<Rightarrow> bool) \<Rightarrow> 'a list \<Rightarrow> 'a list \<Rightarrow> bool" where
  "is_sorting lt xs ys \<longleftrightarrow> mset ys = mset xs \<and> sorted_wrt (\<lambda>x y. \<not> lt y x) ys"

lemma sort_slice_simps [simp]:
  "sort_slice lt [] = []"
  "sort_slice lt (x # xs) = insert_by lt x (sort_slice lt xs)"
  by (simp_all add: sort_slice_def)

lemma mset_insert_by [simp]: "mset (insert_by lt x ys) = add_mset x (mset ys)"
  by (induction ys) auto

lemma mset_sort_slice [simp]: "mset (sort_slice lt xs) = mset xs"
  by (induction xs) auto

lemma set_sort_slice [simp]: "set (sort_slice lt xs) = set xs"
  by (rule mset_eq_setD) simp

lemma set_insert_by [simp]: "set (insert_by lt x ys) = insert x (set ys)"
  by (induction ys) auto

lemma length_sort_slice [simp]: "length (sort_slice lt xs) = length xs"
  by (rule mset_eq_length) simp

lemma distinct_sort_slice [simp]: "distinct (sort_slice lt xs) = distinct xs"
  by (rule mset_eq_imp_distinct_iff) simp

lemma sort_slice_eq_Nil [simp]: "sort_slice lt xs = [] \<longleftrightarrow> xs = []"
  by (metis length_0_conv length_sort_slice)

lemma distinct_map_sort_slice [simp]:
  "distinct (map f (sort_slice lt xs)) = distinct (map f xs)"
  by (metis mset_map mset_sort_slice mset_eq_imp_distinct_iff)

locale strict_weak_order =
  fixes lt :: "'a \<Rightarrow> 'a \<Rightarrow> bool"
  assumes less_asym: "lt x y \<Longrightarrow> \<not> lt y x"
    and less_negtrans: "\<not> lt x y \<Longrightarrow> \<not> lt y z \<Longrightarrow> \<not> lt x z"
begin

lemma sorted_insert_by:
  "sorted_wrt (\<lambda>x y. \<not> lt y x) ys \<Longrightarrow> sorted_wrt (\<lambda>x y. \<not> lt y x) (insert_by lt x ys)"
proof (induction ys)
  case Nil
  then show ?case by simp
next
  case (Cons y ys)
  show ?case
  proof (cases "lt y x")
    case True
    with Cons show ?thesis by (auto dest: less_asym)
  next
    case False
    have "\<not> lt v x" if "v \<in> set ys" for v
      using less_negtrans [of v y x] False that Cons.prems by auto
    with False Cons.prems show ?thesis by simp
  qed
qed

lemma sorted_sort_slice: "sorted_wrt (\<lambda>x y. \<not> lt y x) (sort_slice lt xs)"
  by (induction xs) (simp_all add: sorted_insert_by)

lemma sort_slice_is_sorting: "is_sorting lt xs (sort_slice lt xs)"
  by (simp add: is_sorting_def sorted_sort_slice)

text \<open>Where no two different elements are equivalent, the contract has one solution.\<close>

lemma sorting_unique:
  assumes "is_sorting lt xs ys" "is_sorting lt xs zs"
    and "\<And>x y. x \<in> set xs \<Longrightarrow> y \<in> set xs \<Longrightarrow> x \<noteq> y \<Longrightarrow> lt x y \<or> lt y x"
  shows "ys = zs"
proof -
  have "mset ys = mset zs" and "set ys = set xs"
    using assms(1,2) by (auto simp: is_sorting_def dest: mset_eq_setD)
  with assms show ?thesis
  proof (induction ys arbitrary: xs zs)
    case Nil
    then show ?case by simp
  next
    case (Cons y ys)
    then obtain z zs' where z: "zs = z # zs'" by (cases zs) auto
    have sy: "\<forall>v \<in> set ys. \<not> lt v y" and sz: "\<forall>v \<in> set zs'. \<not> lt v z"
      using Cons.prems z by (auto simp: is_sorting_def)
    have "set (y # ys) = set (z # zs')" using Cons.prems(4) z by (metis set_mset_mset)
    then have "y = z" using sy sz Cons.prems(3,5) by (metis list.set_intros(1) set_ConsD)
    moreover have "ys = zs'"
    proof (rule Cons.IH)
      show "mset ys = mset zs'" using Cons.prems(4) z \<open>y = z\<close> by simp
      then show "is_sorting lt ys ys" "is_sorting lt ys zs'"
        using Cons.prems(1,2) z by (simp_all add: is_sorting_def)
      show "set ys = set ys" ..
      show "lt v w \<or> lt w v" if "v \<in> set ys" "w \<in> set ys" "v \<noteq> w" for v w
        using that Cons.prems(3,5) by auto
    qed
    ultimately show ?case using z by simp
  qed
qed

lemma sort_slice_unique:
  assumes "is_sorting lt xs ys"
    and "\<And>x y. x \<in> set xs \<Longrightarrow> y \<in> set xs \<Longrightarrow> x \<noteq> y \<Longrightarrow> lt x y \<or> lt y x"
  shows "ys = sort_slice lt xs"
  using assms(1) sort_slice_is_sorting assms(2) by (rule sorting_unique)

lemma sort_slice_cong_mset:
  assumes "mset xs = mset ys"
    and "\<And>x y. x \<in> set xs \<Longrightarrow> y \<in> set xs \<Longrightarrow> x \<noteq> y \<Longrightarrow> lt x y \<or> lt y x"
  shows "sort_slice lt xs = sort_slice lt ys"
  using sort_slice_unique [of ys "sort_slice lt xs"] assms sorted_sort_slice [of xs]
  by (metis is_sorting_def mset_sort_slice mset_eq_setD)

lemma sort_slice_id:
  assumes "sorted_wrt (\<lambda>x y. \<not> lt y x) xs"
  shows "sort_slice lt xs = xs"
  using assms
proof (induction xs)
  case (Cons x xs)
  then show ?case by (cases xs) auto
qed simp

end

text \<open>A comparator that compares a key is a strict weak order.\<close>

locale keyed_order =
  fixes lt :: "'a \<Rightarrow> 'a \<Rightarrow> bool" and key :: "'a \<Rightarrow> 'k::linorder"
  assumes less_key: "lt x y \<longleftrightarrow> key x < key y"
begin

lemma keys_sorted: "sorted (map key (sort_slice lt xs))"
proof -
  have "sorted (map key (insert_by lt x ys))" if "sorted (map key ys)" for x ys
    using that by (induction ys) (auto simp: less_key intro: less_imp_le)
  then show ?thesis by (induction xs) auto
qed

end

sublocale keyed_order \<subseteq> strict_weak_order lt
  by unfold_locales (auto simp: less_key)

context keyed_order
begin

lemma keys_strictly_sorted:
  assumes "distinct (map key xs)"
  shows "strictly_sorted (map key (sort_slice lt xs))"
  using keys_sorted [of xs] assms by (simp add: strictly_sorted_sorted_distinct)

lemma distinct_keys_total:
  assumes "distinct (map key xs)" "x \<in> set xs" "y \<in> set xs" "x \<noteq> y"
  shows "lt x y \<or> lt y x"
proof -
  have "inj_on key (set xs)" using assms(1) by (simp add: distinct_map)
  with assms(2-4) have "key x \<noteq> key y" by (auto dest: inj_onD)
  then show ?thesis by (auto simp: less_key)
qed

end

text \<open>\<^verbatim>\<open>sort.Strings\<close> and every \<^verbatim>\<open>sort.Slice\<close> by \<^verbatim>\<open><\<close> on a linear order.\<close>

interpretation plain_order: keyed_order "(<) :: 'a::linorder \<Rightarrow> 'a \<Rightarrow> bool" "\<lambda>x. x"
  by unfold_locales simp

lemma sort_slice_eq_sort: "sort_slice (<) xs = sort (xs :: 'a::linorder list)"
proof -
  have "insert_by (<) x ys = insort x ys" if "sorted ys" for x :: 'a and ys
    using that by (induction ys) auto
  then show ?thesis by (induction xs) (simp_all add: sorted_sort)
qed

end
