(* ===== verification/Canonical.thy ===== *)
theory Canonical
  imports Machine SortSlice
begin

text \<open>
  \<^verbatim>\<open>internal/canonical\<close>: content addressing. A value is encoded as JSON, brought into the
  canonical form of RFC 8785 and hashed; the identifiers of the whole system are such hashes
  behind a prefix. The Go values are translated to \<open>json\<close> trees, one field per struct tag with
  \<^verbatim>\<open>omitempty\<close> written out; what happens below that level is a parameter of the model, the
  record \<open>externals\<close>: the byte level encoder \<^verbatim>\<open>json.Marshal\<close>, \<^verbatim>\<open>jcs.Transform\<close> and
  \<^verbatim>\<open>norm.NFC\<close> of third party modules, the digest \<^verbatim>\<open>sha256.Sum256\<close> and the rendering of
  instants. Every theorem quantifies over them.
\<close>

section \<open>JSON trees and the hash\<close>

datatype json =
    JNull
  | JBool bool
  | JNum int
  | JNumber string
  | JStr string
  | JTime time
  | JArr "json list"
  | JObj "(string \<times> json) list"

text \<open>
  One call of \<^verbatim>\<open>Decode\<close> on a stream: the end of the input, an error, or a value and the rest. Numbers
  are kept as their literals, \<^verbatim>\<open>JNumber\<close>.
\<close>

datatype decoded = DecodeEOF | DecodeError | DecodeValue json string

record externals =
  json_Marshal :: "json \<Rightarrow> string option"
  jcs_Transform :: "string \<Rightarrow> string option"
  sha256_Sum256 :: "string \<Rightarrow> string"
  norm_NFC :: "string \<Rightarrow> string"
  format_RFC3339Nano :: "time \<Rightarrow> string"
  json_Decode :: "string \<Rightarrow> decoded"

text \<open>Struct tags with \<^verbatim>\<open>omitempty\<close>.\<close>

definition omit_str :: "string \<Rightarrow> string \<Rightarrow> (string \<times> json) list" where
  "omit_str name v = (if v = [] then [] else [(name, JStr v)])"

definition omit_strs :: "string \<Rightarrow> string list \<Rightarrow> (string \<times> json) list" where
  "omit_strs name v = (if v = [] then [] else [(name, JArr (map JStr v))])"

definition omit_list :: "string \<Rightarrow> ('a \<Rightarrow> json) \<Rightarrow> 'a list \<Rightarrow> (string \<times> json) list" where
  "omit_list name f v = (if v = [] then [] else [(name, JArr (map f v))])"

definition omit_opt :: "string \<Rightarrow> ('a \<Rightarrow> json) \<Rightarrow> 'a option \<Rightarrow> (string \<times> json) list" where
  "omit_opt name f v = (case v of None \<Rightarrow> [] | Some x \<Rightarrow> [(name, f x)])"

lemmas omit_defs [model_defs] = omit_str_def omit_strs_def omit_list_def omit_opt_def

definition hex_digit :: "nat \<Rightarrow> char" where
  "hex_digit n = (if n < 10 then char_of (48 + n) else char_of (87 + n))"

text \<open>\<^verbatim>\<open>hex.EncodeToString\<close>.\<close>

definition hex_EncodeToString :: "string \<Rightarrow> string" where
  "hex_EncodeToString s = concat (map (\<lambda>c. [hex_digit (of_char c div 16), hex_digit (of_char c mod 16)]) s)"

datatype canonical_error =
    ErrMarshal | ErrCanonicalize | ErrDecodeJSON | ErrTrailingValue
  | ErrTenantRequired
  | ErrViolation string string
  | ErrProtovalidate
  | ErrFieldMissing nat
  | ErrDuplicateField string
  | ErrPathNotRelative | ErrPathEscapes
  | ErrEventMissing nat
  | ErrTimestamp nat
  | ErrInvalidCanonicalBatch string

definition MarshalAndHash :: "externals \<Rightarrow> json \<Rightarrow> canonical_error + string \<times> string" where
  "MarshalAndHash ext v =
     (case json_Marshal ext v of
        None \<Rightarrow> Inl ErrMarshal
      | Some raw \<Rightarrow>
          (case jcs_Transform ext raw of
             None \<Rightarrow> Inl ErrCanonicalize
           | Some canonical \<Rightarrow> Inr (canonical, hex_EncodeToString (sha256_Sum256 ext canonical))))"

definition MarshalAndHashRaw :: "externals \<Rightarrow> string \<Rightarrow> canonical_error + string \<times> string" where
  "MarshalAndHashRaw ext raw =
     (case json_Decode ext raw of
        DecodeValue v rest \<Rightarrow>
          (case json_Decode ext rest of
             DecodeEOF \<Rightarrow> MarshalAndHash ext v
           | DecodeValue _ _ \<Rightarrow> Inl ErrTrailingValue
           | DecodeError \<Rightarrow> Inl ErrDecodeJSON)
      | _ \<Rightarrow> Inl ErrDecodeJSON)"

definition deriveID :: "externals \<Rightarrow> string \<Rightarrow> json \<Rightarrow> canonical_error + string" where
  "deriveID ext prefix v = res_bind (MarshalAndHash ext v) (\<lambda>(_, hash). Inr (prefix @ ''_'' @ hash))"

text \<open>\<^verbatim>\<open>hex.EncodeToString(sha256.Sum256(s))\<close>, the hash of a byte string.\<close>

definition hash_bytes :: "externals \<Rightarrow> string \<Rightarrow> string" where
  "hash_bytes ext s = hex_EncodeToString (sha256_Sum256 ext s)"

text \<open>
  What the code relies on: the digest has 32 bytes. A hash then always matches the pattern
  that the validators check.
\<close>

definition digest32 :: "externals \<Rightarrow> bool" where
  "digest32 ext \<longleftrightarrow> (\<forall>s. length (sha256_Sum256 ext s) = 32)"

lemma hex_digit_is_hex: "n < 16 \<Longrightarrow> is_hex_char (hex_digit n)"
  by (auto simp: hex_digit_def is_hex_char_def is_digit_char_def less_eq_char_def)

lemma hex_EncodeToString_hex: "list_all is_hex_char (hex_EncodeToString s)"
proof -
  have "of_char c div 16 < (16 :: nat)" for c :: char
  proof -
    have "(of_char c :: nat) < 256" by (metis mod_less_divisor of_char_mod_256 zero_less_numeral)
    then show ?thesis by (simp add: less_mult_imp_div_less)
  qed
  then show ?thesis
    by (induction s) (simp_all add: hex_EncodeToString_def hex_digit_is_hex)
qed

lemma length_hex_EncodeToString: "length (hex_EncodeToString s) = 2 * length s"
  by (induction s) (simp_all add: hex_EncodeToString_def)

lemma hashPattern_hash_bytes: "digest32 ext \<Longrightarrow> hashPattern (hash_bytes ext s)"
  by (simp add: hash_bytes_def hashPattern_def hex_EncodeToString_hex length_hex_EncodeToString
      digest32_def)

lemma MarshalAndHash_Inr:
  "MarshalAndHash ext v = Inr (c, h) \<Longrightarrow> h = hash_bytes ext c"
  by (auto simp: MarshalAndHash_def hash_bytes_def split: option.splits)

lemma MarshalAndHash_pattern:
  "digest32 ext \<Longrightarrow> MarshalAndHash ext v = Inr (c, h) \<Longrightarrow> hashPattern h"
  by (auto dest: MarshalAndHash_Inr simp: hashPattern_hash_bytes)


section \<open>Normalisation of text\<close>

fun replace_crlf :: "string \<Rightarrow> string" where
  "replace_crlf [] = []"
| "replace_crlf [c] = [c]"
| "replace_crlf (c # d # cs) =
     (if c = CHR 0x0D \<and> d = CHR 0x0A then CHR 0x0A # replace_crlf cs else c # replace_crlf (d # cs))"

definition normalizeToken :: "externals \<Rightarrow> string \<Rightarrow> string" where
  "normalizeToken ext v = norm_NFC ext (TrimSpace v)"

definition normalizeText :: "externals \<Rightarrow> string \<Rightarrow> string" where
  "normalizeText ext v = norm_NFC ext (TrimSpace (replace_crlf v))"

text \<open>
  \<^verbatim>\<open>path.Clean\<close>: the elements between the slashes are pushed on a stack, an empty element and
  \<^verbatim>\<open>.\<close> are dropped, \<^verbatim>\<open>..\<close> pops an element that is not itself \<^verbatim>\<open>..\<close>, and at the root it is
  dropped.
\<close>

fun split_slash :: "string \<Rightarrow> string list" where
  "split_slash [] = [[]]"
| "split_slash (c # cs) =
     (if c = CHR ''/'' then [] # split_slash cs
      else (case split_slash cs of [] \<Rightarrow> [[c]] | w # ws \<Rightarrow> (c # w) # ws))"

fun join_slash :: "string list \<Rightarrow> string" where
  "join_slash [] = []"
| "join_slash [w] = w"
| "join_slash (w # v # ws) = w @ CHR ''/'' # join_slash (v # ws)"

fun clean_stack :: "bool \<Rightarrow> string list \<Rightarrow> string list \<Rightarrow> string list" where
  "clean_stack rooted out [] = out"
| "clean_stack rooted out (w # ws) =
     (if w = [] \<or> w = ''.'' then clean_stack rooted out ws
      else if w = ''..'' then
        (if out \<noteq> [] \<and> hd out \<noteq> ''..'' then clean_stack rooted (tl out) ws
         else if rooted then clean_stack rooted out ws
         else clean_stack rooted (w # out) ws)
      else clean_stack rooted (w # out) ws)"

definition path_Clean :: "string \<Rightarrow> string" where
  "path_Clean p =
     (if p = [] then ''.''
      else let rooted = (hd p = CHR ''/'');
               out = join_slash (rev (clean_stack rooted [] (split_slash p)))
           in if rooted then CHR ''/'' # out else if out = [] then ''.'' else out)"

definition normalizePath :: "externals \<Rightarrow> string \<Rightarrow> canonical_error + string" where
  "normalizePath ext value =
     (let normalized = map (\<lambda>c. if c = CHR 0x5C then CHR ''/'' else c) (norm_NFC ext (TrimSpace value))
      in if starts_with ''/'' normalized then Inl ErrPathNotRelative
         else let cleaned = path_Clean normalized
              in if cleaned = ''..'' \<or> starts_with ''../'' cleaned then Inl ErrPathEscapes
                 else Inr cleaned)"

lemma split_slash_nonempty [simp]: "split_slash s \<noteq> []"
  by (induction s) (auto split: list.splits)

lemma split_slash_no_slash: "w \<in> set (split_slash s) \<Longrightarrow> CHR ''/'' \<notin> set w"
  by (induction s arbitrary: w) (auto split: list.splits if_splits)

lemma split_slash_word: "CHR ''/'' \<notin> set w \<Longrightarrow> split_slash w = [w]"
  by (induction w) auto

lemma split_slash_append:
  "CHR ''/'' \<notin> set w \<Longrightarrow> split_slash (w @ CHR ''/'' # s) = w # split_slash s"
  by (induction w) auto

lemma split_join_slash:
  "ws \<noteq> [] \<Longrightarrow> \<forall>w \<in> set ws. CHR ''/'' \<notin> set w \<Longrightarrow> split_slash (join_slash ws) = ws"
  by (induction ws rule: join_slash.induct) (auto simp: split_slash_word split_slash_append)

lemma join_slash_eq_Nil: "[] \<notin> set ws \<Longrightarrow> join_slash ws = [] \<longleftrightarrow> ws = []"
  by (induction ws rule: join_slash.induct) auto

text \<open>
  The stack of a relative path: proper elements above a block of \<^verbatim>\<open>..\<close>, with neither empty
  elements nor dots in it.
\<close>

definition clean_elem :: "string \<Rightarrow> bool" where
  "clean_elem w \<longleftrightarrow> w \<noteq> [] \<and> w \<noteq> ''.'' \<and> w \<noteq> ''..'' \<and> CHR ''/'' \<notin> set w"

definition clean_form :: "string list \<Rightarrow> bool" where
  "clean_form out \<longleftrightarrow> (\<exists>ups names. out = names @ ups \<and> set ups \<subseteq> {''..''} \<and> list_all clean_elem names)"

lemma clean_form_step:
  assumes "clean_form out"
  shows "clean_elem w \<Longrightarrow> clean_form (w # out)"
    and "out \<noteq> [] \<Longrightarrow> hd out \<noteq> ''..'' \<Longrightarrow> clean_form (tl out)"
    and "out = [] \<or> hd out = ''..'' \<Longrightarrow> clean_form (''..'' # out)"
proof -
  obtain ups names where o: "out = names @ ups" "set ups \<subseteq> {''..''}" "list_all clean_elem names"
    using assms by (auto simp: clean_form_def)
  show "clean_elem w \<Longrightarrow> clean_form (w # out)"
    unfolding clean_form_def using o by (intro exI [of _ ups] exI [of _ "w # names"]) auto
  show "clean_form (tl out)" if "out \<noteq> []" "hd out \<noteq> ''..''"
  proof (cases names)
    case Nil
    with o that show ?thesis by (cases ups) auto
  next
    case (Cons n ns)
    then show ?thesis unfolding clean_form_def using o
      by (intro exI [of _ ups] exI [of _ ns]) auto
  qed
  show "clean_form (''..'' # out)" if h: "out = [] \<or> hd out = ''..''"
  proof -
    have "names = []" using o h by (cases names) (auto simp: clean_elem_def)
    then show ?thesis unfolding clean_form_def using o
      by (intro exI [of _ "''..'' # ups"] exI [of _ "[]"]) auto
  qed
qed

lemma clean_stack_form:
  assumes "clean_form out" "\<forall>w \<in> set ws. CHR ''/'' \<notin> set w"
  shows "clean_form (clean_stack False out ws)"
  using assms
proof (induction ws arbitrary: out)
  case Nil
  then show ?case by simp
next
  case (Cons w ws)
  then show ?case using clean_form_step [OF Cons.prems(1)] by (simp add: clean_elem_def)
qed

lemma clean_stack_names:
  "list_all clean_elem names \<Longrightarrow> clean_stack r out names = rev names @ out"
  by (induction names arbitrary: out) (auto simp: clean_elem_def)

text \<open>A clean relative path that does not begin with \<^verbatim>\<open>..\<close> is a sequence of proper names.\<close>

lemma path_Clean_relative:
  assumes "\<not> starts_with ''/'' p" "path_Clean p \<noteq> ''..''" "\<not> starts_with ''../'' (path_Clean p)"
  shows "path_Clean p = ''.'' \<or>
    (\<exists>names. names \<noteq> [] \<and> list_all clean_elem names \<and> path_Clean p = join_slash names)"
proof (cases "p = [] \<or> clean_stack False [] (split_slash p) = []")
  case True
  with assms(1) show ?thesis by (cases p) (auto simp: path_Clean_def)
next
  case False
  let ?out = "clean_stack False [] (split_slash p)"
  have nr: "hd p \<noteq> CHR ''/''" using False assms(1) by (cases p) auto
  have "clean_form ?out"
    by (rule clean_stack_form) (auto simp: clean_form_def dest: split_slash_no_slash)
  then obtain ups names where o: "?out = names @ ups" "set ups \<subseteq> {''..''}" "list_all clean_elem names"
    by (auto simp: clean_form_def)
  have "[] \<notin> set ?out" using o by (auto simp: list_all_iff clean_elem_def)
  then have c: "path_Clean p = join_slash (rev ?out)"
    using False nr by (auto simp: path_Clean_def Let_def join_slash_eq_Nil)
  have "ups = []"
  proof (rule ccontr)
    assume "ups \<noteq> []"
    then have "rev ups = ''..'' # tl (rev ups)"
      using o(2) by (metis hd_Cons_tl hd_in_set set_rev singletonD subsetD rev_is_Nil_conv)
    then have "rev ?out = ''..'' # (tl (rev ups) @ rev names)" using o(1) by simp
    then show False using c assms(2,3) by (cases "tl (rev ups) @ rev names") simp_all
  qed
  then show ?thesis using c o False by (intro disjI2 exI [of _ "rev names"]) auto
qed


section \<open>A sample instance of the parameters\<close>

text \<open>
  Concrete functions for the parameters, used to evaluate the model on an example: a printer
  of JSON trees, the identity as canonical form, the first 32 bytes of the padded text as
  digest.
\<close>

fun sample_print :: "json \<Rightarrow> string" and sample_print_fields :: "(string \<times> json) list \<Rightarrow> string" where
  "sample_print JNull = ''null''"
| "sample_print (JBool b) = (if b then ''true'' else ''false'')"
| "sample_print (JNum n) = [char_of (nat (n mod 256))]"
| "sample_print (JNumber s) = s"
| "sample_print (JStr s) = s"
| "sample_print (JTime t) = [char_of (nat (t_ns t mod 256))]"
| "sample_print (JArr vs) = ''['' @ concat (map sample_print vs) @ '']''"
| "sample_print (JObj fs) = sample_print_fields fs"
| "sample_print_fields [] = []"
| "sample_print_fields ((n, v) # fs) = sample_print v @ sample_print_fields fs"

definition sample_externals :: externals where
  "sample_externals =
     \<lparr>json_Marshal = (\<lambda>v. Some (sample_print v)), jcs_Transform = Some,
      sha256_Sum256 = (\<lambda>s. take 32 (s @ replicate 32 CHR 0x61)), norm_NFC = (\<lambda>s. s),
      format_RFC3339Nano = (\<lambda>t. [char_of (nat (t_ns t mod 256))]),
      json_Decode = (\<lambda>s. if s = [] then DecodeEOF else DecodeValue (JStr s) [])\<rparr>"

lemma digest32_sample: "digest32 sample_externals"
  by (simp add: digest32_def sample_externals_def min_def)

lemma MarshalAndHash_sample:
  "MarshalAndHash sample_externals v = Inr (sample_print v, hash_bytes sample_externals (sample_print v))"
  by (simp add: MarshalAndHash_def hash_bytes_def sample_externals_def)

lemma norm_NFC_sample: "norm_NFC sample_externals s = s"
  by (simp add: sample_externals_def)

section \<open>Properties\<close>

text \<open>C36: a path field that is accepted never leaves its root. Whatever the normalisation
  form does to the text, an accepted path is relative, has no \<^verbatim>\<open>..\<close> element, and is a fixed
  point of \<^verbatim>\<open>path.Clean\<close>.\<close>

theorem normalizePath_contained:
  assumes "normalizePath ext value = Inr p"
  shows "\<not> starts_with ''/'' p \<and> ''..'' \<notin> set (split_slash p) \<and> path_Clean p = p"
proof -
  let ?n = "map (\<lambda>c. if c = CHR 0x5C then CHR ''/'' else c) (norm_NFC ext (TrimSpace value))"
  have p: "\<not> starts_with ''/'' ?n" "path_Clean ?n = p" "p \<noteq> ''..''" "\<not> starts_with ''../'' p"
    using assms unfolding normalizePath_def Let_def by (simp_all split: if_splits)
  consider "p = ''.''"
    | names where "names \<noteq> []" "list_all clean_elem names" "p = join_slash names"
    using path_Clean_relative [of ?n] p by blast
  then show ?thesis
  proof cases
    case 1
    then show ?thesis by (simp add: path_Clean_def)
  next
    case (2 names)
    have sp: "split_slash p = names"
      using 2 by (simp add: split_join_slash list_all_iff clean_elem_def)
    have ne: "p \<noteq> []" using 2 join_slash_eq_Nil [of names] by (auto simp: list_all_iff clean_elem_def)
    have ns: "hd p \<noteq> CHR ''/''"
    proof
      assume "hd p = CHR ''/''"
      then have "p = CHR ''/'' # tl p" using ne by (cases p) auto
      then have "[] \<in> set (split_slash p)" by (metis list.set_intros(1) split_slash.simps(2))
      then show False using sp 2(2) by (auto simp: list_all_iff clean_elem_def)
    qed
    have "path_Clean p = p"
      using ne ns 2 sp by (simp add: path_Clean_def clean_stack_names Let_def)
    moreover have "\<not> starts_with ''/'' p" using ne ns by (cases p) auto
    ultimately show ?thesis using sp 2(2) by (auto simp: list_all_iff clean_elem_def)
  qed
qed

theorem normalizePath_contained_witness:
  "normalizePath sample_externals '' src/../src/./main.go'' = Inr ''src/main.go'' \<and>
   \<not> starts_with ''/'' ''src/main.go'' \<and> ''..'' \<notin> set (split_slash ''src/main.go'') \<and>
   path_Clean ''src/main.go'' = ''src/main.go''"
proof -
  have "normalizePath sample_externals '' src/../src/./main.go'' = Inr ''src/main.go''"
    by code_simp
  then show ?thesis using normalizePath_contained by blast
qed

end
