(* ===== verification/Domain.thy ===== *)
theory Domain
  imports Canonical
begin

text \<open>
  \<^verbatim>\<open>internal/domain\<close>: the value types the components exchange, each with the JSON tree that
  \<^verbatim>\<open>json.Marshal\<close> reads off its struct tags. A string type of the source whose constants are
  compared and hashed as strings (an evidence class, an outcome state) stays a string, so that
  a value outside the constants can occur, as it can in Go. A nil slice and an empty one are
  the same list.
\<close>

section \<open>Traces\<close>

record CanonicalField =
  cf_Name :: string
  cf_Value :: string

definition json_field :: "CanonicalField \<Rightarrow> json" where
  "json_field f = JObj [(''name'', JStr (cf_Name f)), (''value'', JStr (cf_Value f))]"

record CanonicalResult =
  cr_State :: string
  cr_ExitCode :: "int32 option"
  cr_Evidence :: "CanonicalField list"

definition json_result :: "CanonicalResult \<Rightarrow> json" where
  "json_result r = JObj
     ([(''state'', JStr (cr_State r))] @
      omit_opt ''exit_code'' (\<lambda>c. JNum (sint c)) (cr_ExitCode r) @
      omit_list ''evidence'' json_field (cr_Evidence r))"

record CanonicalEvent =
  ce_ID :: string
  ce_Position :: uint32
  ce_ClientEventID :: string
  ce_OccurredAt :: string
  ce_Kind :: string
  ce_ToolName :: string
  ce_ToolVersion :: string
  ce_Fields :: "CanonicalField list"
  ce_Result :: "CanonicalResult option"

definition json_event :: "CanonicalEvent \<Rightarrow> json" where
  "json_event e = JObj
     ([(''id'', JStr (ce_ID e)), (''position'', JNum (uint (ce_Position e))),
       (''client_event_id'', JStr (ce_ClientEventID e)), (''occurred_at'', JStr (ce_OccurredAt e)),
       (''kind'', JStr (ce_Kind e)), (''tool_name'', JStr (ce_ToolName e))] @
      omit_str ''tool_version'' (ce_ToolVersion e) @
      omit_list ''fields'' json_field (ce_Fields e) @
      omit_opt ''result'' json_result (ce_Result e))"

record CanonicalTrace =
  ct_ID :: string
  ct_ClientTraceID :: string
  ct_Harness :: string
  ct_HarnessVersion :: string
  ct_Task :: string
  ct_Environment :: "CanonicalField list"

definition json_trace :: "CanonicalTrace \<Rightarrow> json" where
  "json_trace t = JObj
     ([(''id'', JStr (ct_ID t)), (''client_trace_id'', JStr (ct_ClientTraceID t)),
       (''harness'', JStr (ct_Harness t))] @
      omit_str ''harness_version'' (ct_HarnessVersion t) @
      omit_str ''task'' (ct_Task t) @
      omit_list ''environment'' json_field (ct_Environment t))"

record CanonicalBatch =
  cb_SchemaVersion :: string
  cb_TenantID :: string
  cb_Trace :: CanonicalTrace
  cb_Events :: "CanonicalEvent list"
  cb_Hash :: string
  cb_CanonicalJSON :: string

definition json_batch :: "CanonicalBatch \<Rightarrow> json" where
  "json_batch b = JObj
     [(''schema_version'', JStr (cb_SchemaVersion b)), (''tenant_id'', JStr (cb_TenantID b)),
      (''trace'', json_trace (cb_Trace b)), (''events'', JArr (map json_event (cb_Events b)))]"

section \<open>Outcomes\<close>

abbreviation "EvidenceClassIndependentVerifier \<equiv> ''independent_verifier''"
abbreviation "EvidenceClassGoalPredicate \<equiv> ''goal_predicate''"
abbreviation "EvidenceClassHarnessAssertion \<equiv> ''harness_assertion''"
abbreviation "EvidenceClassToolPostcondition \<equiv> ''tool_postcondition''"
abbreviation "EvidenceClassExitStatusOrSelfReport \<equiv> ''exit_status_or_self_report''"

abbreviation "EvidenceVerdictSatisfied \<equiv> ''satisfied''"
abbreviation "EvidenceVerdictFailed \<equiv> ''failed''"
abbreviation "EvidenceVerdictUnknown \<equiv> ''unknown''"

abbreviation "OutcomeStateVerifiedSuccess \<equiv> ''verified_success''"
abbreviation "OutcomeStateProvisionalSuccess \<equiv> ''provisional_success''"
abbreviation "OutcomeStateInconclusive \<equiv> ''inconclusive''"
abbreviation "OutcomeStateVerifiedFailure \<equiv> ''verified_failure''"

record OutcomeEvidence =
  oe_ID :: string
  oe_ClientEvidenceID :: string
  oe_Class :: string
  oe_Verdict :: string
  oe_PredicateID :: string
  oe_VerifierID :: string
  oe_VerifierVersion :: string
  oe_ObservedAt :: string
  oe_Fields :: "CanonicalField list"

definition json_evidence :: "OutcomeEvidence \<Rightarrow> json" where
  "json_evidence e = JObj
     ([(''id'', JStr (oe_ID e)), (''client_evidence_id'', JStr (oe_ClientEvidenceID e)),
       (''class'', JStr (oe_Class e)), (''verdict'', JStr (oe_Verdict e)),
       (''predicate_id'', JStr (oe_PredicateID e)), (''verifier_id'', JStr (oe_VerifierID e))] @
      omit_str ''verifier_version'' (oe_VerifierVersion e) @
      [(''observed_at'', JStr (oe_ObservedAt e))] @
      omit_list ''fields'' json_field (oe_Fields e))"

record CanonicalOutcome =
  co_SchemaVersion :: string
  co_ID :: string
  co_TenantID :: string
  co_TraceID :: string
  co_ExecutionID :: string
  co_SelectionID :: string
  co_InjectionID :: string
  co_TaskExecutionID :: string
  co_SupersedesOutcomeID :: string
  co_CorrectionReason :: string
  co_Evidence :: "OutcomeEvidence list"
  co_Hash :: string
  co_CanonicalJSON :: string

definition json_outcome :: "CanonicalOutcome \<Rightarrow> json" where
  "json_outcome c = JObj
     ([(''schema_version'', JStr (co_SchemaVersion c)), (''id'', JStr (co_ID c)),
       (''tenant_id'', JStr (co_TenantID c)), (''trace_id'', JStr (co_TraceID c))] @
      omit_str ''execution_id'' (co_ExecutionID c) @
      omit_str ''selection_id'' (co_SelectionID c) @
      omit_str ''injection_id'' (co_InjectionID c) @
      omit_str ''task_execution_id'' (co_TaskExecutionID c) @
      omit_str ''supersedes_outcome_id'' (co_SupersedesOutcomeID c) @
      omit_str ''correction_reason'' (co_CorrectionReason c) @
      [(''evidence'', JArr (map json_evidence (co_Evidence c)))])"

section \<open>Procedures\<close>

record ProcedureResource =
  pr_ID :: string
  pr_Name :: string
  pr_Type :: string
  pr_Namespace :: string
  pr_IdentityHash :: string
  pr_SchemaVersion :: string

record ProcedurePredicate =
  pp_ID :: string
  pp_ResourceName :: string

record ProcedureStep =
  ps_EventID :: string
  ps_Ordinal :: uint32
  ps_OriginalPosition :: uint32
  ps_ToolName :: string
  ps_ToolVersion :: string
  ps_ToolContractVersionID :: string
  ps_UncertainNecessity :: bool
  ps_CompensationBoundary :: bool
  ps_SideEffect :: string
  ps_Risk :: string
  ps_Effects :: "string list"
  ps_Preconditions :: "ProcedurePredicate list"
  ps_SuccessPredicates :: "string list"
  ps_VerificationMethods :: "string list"
  ps_Reads :: "ProcedureResource list"
  ps_Writes :: "ProcedureResource list"

record CompatibilityScope =
  cs_EnvironmentHash :: string
  cs_ToolHash :: string
  cs_ResourceHash :: string

definition scope_Valid :: "CompatibilityScope \<Rightarrow> bool" where
  "scope_Valid s \<longleftrightarrow> cs_EnvironmentHash s \<noteq> [] \<and> cs_ToolHash s \<noteq> [] \<and> cs_ResourceHash s \<noteq> []"

record NegativePath =
  np_ID :: string
  np_FailurePredicateID :: string
  np_EventIDs :: "string list"
  np_Scope :: CompatibilityScope

definition CompatibleWith :: "NegativePath \<Rightarrow> CompatibilityScope \<Rightarrow> bool" where
  "CompatibleWith p scope \<longleftrightarrow> scope_Valid (np_Scope p) \<and> scope_Valid scope \<and> np_Scope p = scope"

record ProcedureRequirement =
  rq_ID :: string
  rq_ResourceType :: string
  rq_Namespace :: string
  rq_IdentityHash :: string
  rq_SchemaVersion :: string
  rq_AccessMode :: string
  rq_PredicateIDs :: "string list"

record ProcedureProvision =
  pv_ID :: string
  pv_ResourceType :: string
  pv_Namespace :: string
  pv_IdentityHash :: string
  pv_SchemaVersion :: string
  pv_ProducedEffects :: "string list"
  pv_SuccessPredicateIDs :: "string list"

record ProcedureInterface =
  pi_SchemaVersion :: string
  pi_ID :: string
  pi_Requirements :: "ProcedureRequirement list"
  pi_Provisions :: "ProcedureProvision list"
  pi_ContentHash :: string

lemmas json_struct_defs [model_defs] =
  json_field_def json_result_def json_event_def json_trace_def json_batch_def json_evidence_def
  json_outcome_def

end
