(* ===== verification/Traces.thy ===== *)
theory Traces
  imports Domain
begin

text \<open>
  \<^verbatim>\<open>internal/canonical/normalize.go\<close> and \<^verbatim>\<open>verify.go\<close>, with the ingest checks of
  \<^verbatim>\<open>internal/contracts\<close>: a trace request is normalised field by field, every event gets an
  identifier derived from its content and position, and a batch read back from storage is
  accepted only if every identifier and the encoding can be derived again. A pointer of the
  request that may be nil is an \<open>option\<close>; an enum value is the name that its \<^verbatim>\<open>String\<close> method
  returns. The schema check of the third party \<^verbatim>\<open>protovalidate\<close>, the encoded size of a request
  and the validity check of a timestamp are parameters.
\<close>

section \<open>Requests\<close>

record Field =
  fd_Name :: string
  fd_StringValue :: string

record ToolResult =
  tr_State :: string
  tr_ExitCode :: "int32 option"
  tr_Evidence :: "Field option list"

record TraceEvent =
  te_ClientEventId :: string
  te_OccurredAt :: time
  te_Kind :: string
  te_ToolName :: string
  te_ToolVersion :: string
  te_Fields :: "Field option list"
  te_Result :: "ToolResult option"

record IngestTraceRequest =
  ir_ClientTraceId :: string
  ir_Harness :: string
  ir_HarnessVersion :: string
  ir_Task :: string
  ir_Events :: "TraceEvent list"
  ir_Environment :: "Field option list"

record request_checks =
  proto_Size :: "IngestTraceRequest \<Rightarrow> nat"
  protovalidate :: "IngestTraceRequest \<Rightarrow> bool"
  timestamp_valid :: "time \<Rightarrow> bool"

section \<open>The ingest contract\<close>

fun check_events :: "externals \<Rightarrow> string list \<Rightarrow> TraceEvent list \<Rightarrow> canonical_error option" where
  "check_events ext seen [] = None"
| "check_events ext seen (e # es) =
     (let id = normalizeToken ext (te_ClientEventId e)
      in if id = [] then Some (ErrViolation ''client_event_id'' ''must not be empty after normalization'')
         else if normalizeToken ext (te_ToolName e) = []
           then Some (ErrViolation ''tool_name'' ''must not be empty after normalization'')
         else if id \<in> set seen
           then Some (ErrViolation ''client_event_id'' ''must be unique within the trace'')
         else check_events ext (id # seen) es)"

definition ValidateIngest ::
  "externals \<Rightarrow> request_checks \<Rightarrow> IngestTraceRequest option \<Rightarrow> canonical_error option" where
  "ValidateIngest ext rc request =
     (case request of
        None \<Rightarrow> Some (ErrViolation ''request'' ''required'')
      | Some r \<Rightarrow>
          if proto_Size rc r > 1048576
            then Some (ErrViolation ''request_size'' ''must not exceed 1048576 bytes'')
          else if \<not> protovalidate rc r then Some ErrProtovalidate
          else if normalizeToken ext (ir_ClientTraceId r) = []
            then Some (ErrViolation ''client_trace_id'' ''must not be empty after normalization'')
          else if normalizeToken ext (ir_Harness r) = []
            then Some (ErrViolation ''harness'' ''must not be empty after normalization'')
          else check_events ext [] (ir_Events r))"

section \<open>Fields and events\<close>

definition field_less :: "CanonicalField \<Rightarrow> CanonicalField \<Rightarrow> bool" where
  "field_less a b = (if cf_Name a = cf_Name b then cf_Value a < cf_Value b else cf_Name a < cf_Name b)"

definition field_value :: "externals \<Rightarrow> string \<Rightarrow> string \<Rightarrow> canonical_error + string" where
  "field_value ext name raw =
     (let value = norm_NFC ext raw
      in if name = ''path'' then normalizePath ext value else Inr value)"

fun collect_fields ::
  "externals \<Rightarrow> nat \<Rightarrow> string list \<Rightarrow> Field option list \<Rightarrow> canonical_error + CanonicalField list" where
  "collect_fields ext i seen [] = Inr []"
| "collect_fields ext i seen (None # fs) = Inl (ErrFieldMissing i)"
| "collect_fields ext i seen (Some f # fs) =
     (let name = normalizeToken ext (fd_Name f)
      in if name \<in> set seen then Inl (ErrDuplicateField name)
         else res_bind (field_value ext name (fd_StringValue f)) (\<lambda>value.
              res_bind (collect_fields ext (Suc i) (name # seen) fs) (\<lambda>rest.
              Inr (\<lparr>cf_Name = name, cf_Value = value\<rparr> # rest))))"

definition normalizeFields :: "externals \<Rightarrow> Field option list \<Rightarrow> canonical_error + CanonicalField list" where
  "normalizeFields ext source =
     res_bind (collect_fields ext 0 [] source) (\<lambda>fields. Inr (sort_slice field_less fields))"

definition normalizeEvent ::
  "externals \<Rightarrow> request_checks \<Rightarrow> nat \<Rightarrow> TraceEvent \<Rightarrow> canonical_error + CanonicalEvent" where
  "normalizeEvent ext rc index source =
     (if \<not> timestamp_valid rc (te_OccurredAt source) then Inl (ErrTimestamp index)
      else res_bind (normalizeFields ext (te_Fields source)) (\<lambda>fields.
        let event = \<lparr>ce_ID = [], ce_Position = of_nat index,
              ce_ClientEventID = normalizeToken ext (te_ClientEventId source),
              ce_OccurredAt = format_RFC3339Nano ext (time_UTC (te_OccurredAt source)),
              ce_Kind = te_Kind source,
              ce_ToolName = normalizeToken ext (te_ToolName source),
              ce_ToolVersion = normalizeToken ext (te_ToolVersion source),
              ce_Fields = fields, ce_Result = None\<rparr>
        in case te_Result source of
             None \<Rightarrow> Inr event
           | Some result \<Rightarrow>
               res_bind (normalizeFields ext (tr_Evidence result)) (\<lambda>evidence.
                 Inr (event\<lparr>ce_Result := Some \<lparr>cr_State = tr_State result,
                   cr_ExitCode = tr_ExitCode result, cr_Evidence = evidence\<rparr>\<rparr>))))"

section \<open>Batches\<close>

definition json_traceIdentity :: "string \<Rightarrow> CanonicalTrace \<Rightarrow> json" where
  "json_traceIdentity tenant trace = JObj [(''tenant_id'', JStr tenant), (''trace'', json_trace trace)]"

definition json_eventIdentity :: "string \<Rightarrow> string \<Rightarrow> uint32 \<Rightarrow> CanonicalEvent \<Rightarrow> json" where
  "json_eventIdentity tenant traceID position event = JObj
     [(''tenant_id'', JStr tenant), (''trace_id'', JStr traceID),
      (''position'', JNum (uint position)), (''event'', json_event event)]"

fun build_events ::
  "externals \<Rightarrow> request_checks \<Rightarrow> string \<Rightarrow> string \<Rightarrow> nat \<Rightarrow> TraceEvent list
    \<Rightarrow> canonical_error + CanonicalEvent list" where
  "build_events ext rc tenant traceID index [] = Inr []"
| "build_events ext rc tenant traceID index (source # rest) =
     res_bind (normalizeEvent ext rc index source) (\<lambda>event.
     res_bind (deriveID ext ''ev'' (json_eventIdentity tenant traceID (of_nat index) event)) (\<lambda>eventID.
     res_bind (build_events ext rc tenant traceID (Suc index) rest) (\<lambda>events.
     Inr (event\<lparr>ce_ID := eventID\<rparr> # events))))"

abbreviation canonical_schemaVersion :: string where "canonical_schemaVersion \<equiv> ''canonical.v1''"

definition canonical_Build ::
  "externals \<Rightarrow> request_checks \<Rightarrow> string \<Rightarrow> IngestTraceRequest \<Rightarrow> canonical_error + CanonicalBatch" where
  "canonical_Build ext rc tenantID request =
     (if tenantID = [] then Inl ErrTenantRequired
      else case ValidateIngest ext rc (Some request) of
        Some e \<Rightarrow> Inl e
      | None \<Rightarrow>
          res_bind (normalizeFields ext (ir_Environment request)) (\<lambda>environment.
          let trace = \<lparr>ct_ID = [], ct_ClientTraceID = normalizeToken ext (ir_ClientTraceId request),
                ct_Harness = normalizeToken ext (ir_Harness request),
                ct_HarnessVersion = normalizeToken ext (ir_HarnessVersion request),
                ct_Task = normalizeText ext (ir_Task request), ct_Environment = environment\<rparr>
          in res_bind (deriveID ext ''tr'' (json_traceIdentity tenantID trace)) (\<lambda>traceID.
             res_bind (build_events ext rc tenantID traceID 0 (ir_Events request)) (\<lambda>events.
             let batch = \<lparr>cb_SchemaVersion = canonical_schemaVersion, cb_TenantID = tenantID,
                   cb_Trace = trace\<lparr>ct_ID := traceID\<rparr>, cb_Events = events,
                   cb_Hash = [], cb_CanonicalJSON = []\<rparr>
             in res_bind (MarshalAndHash ext (json_batch batch)) (\<lambda>(canonicalJSON, hash).
                Inr (batch\<lparr>cb_Hash := hash, cb_CanonicalJSON := canonicalJSON\<rparr>))))))"

fun verify_events ::
  "externals \<Rightarrow> string \<Rightarrow> string \<Rightarrow> nat \<Rightarrow> string list \<Rightarrow> CanonicalEvent list \<Rightarrow> canonical_error option" where
  "verify_events ext tenant traceID index seen [] = None"
| "verify_events ext tenant traceID index seen (source # rest) =
     (if ce_Position source \<noteq> of_nat index then Some (ErrInvalidCanonicalBatch ''event order'')
      else case deriveID ext ''ev''
                  (json_eventIdentity tenant traceID (of_nat index) (source\<lparr>ce_ID := []\<rparr>)) of
        Inl _ \<Rightarrow> Some (ErrInvalidCanonicalBatch ''event identity'')
      | Inr derived \<Rightarrow>
          if ce_ID source \<noteq> derived then Some (ErrInvalidCanonicalBatch ''event identity'')
          else if ce_ID source \<in> set seen then Some (ErrInvalidCanonicalBatch ''duplicate event'')
          else verify_events ext tenant traceID (Suc index) (ce_ID source # seen) rest)"

definition VerifyBatch :: "externals \<Rightarrow> CanonicalBatch \<Rightarrow> string \<Rightarrow> canonical_error option" where
  "VerifyBatch ext batch body =
     (if cb_SchemaVersion batch \<noteq> canonical_schemaVersion \<or> cb_TenantID batch = [] \<or>
         ct_ID (cb_Trace batch) = [] \<or> cb_Events batch = []
      then Some (ErrInvalidCanonicalBatch [])
      else case deriveID ext ''tr'' (json_traceIdentity (cb_TenantID batch) ((cb_Trace batch)\<lparr>ct_ID := []\<rparr>)) of
        Inl _ \<Rightarrow> Some (ErrInvalidCanonicalBatch ''trace identity'')
      | Inr derivedTraceID \<Rightarrow>
          if ct_ID (cb_Trace batch) \<noteq> derivedTraceID then Some (ErrInvalidCanonicalBatch ''trace identity'')
          else case verify_events ext (cb_TenantID batch) (ct_ID (cb_Trace batch)) 0 [] (cb_Events batch) of
            Some e \<Rightarrow> Some e
          | None \<Rightarrow>
              (case MarshalAndHash ext (json_batch (batch\<lparr>cb_Hash := [], cb_CanonicalJSON := []\<rparr>)) of
                 Inl _ \<Rightarrow> Some (ErrInvalidCanonicalBatch ''canonical encoding'')
               | Inr (encoded, hash) \<Rightarrow>
                   if encoded \<noteq> body then Some (ErrInvalidCanonicalBatch ''canonical encoding'')
                   else if cb_Hash batch \<noteq> [] \<and> cb_Hash batch \<noteq> hash
                     then Some (ErrInvalidCanonicalBatch ''content hash'')
                   else None))"


section \<open>Fields are canonical\<close>

interpretation field_order: keyed_order field_less "\<lambda>f. (cf_Name f, cf_Value f)"
  by unfold_locales (auto simp: field_less_def)

definition field_rel :: "externals \<Rightarrow> Field option \<Rightarrow> CanonicalField \<Rightarrow> bool" where
  "field_rel ext src f \<longleftrightarrow> (\<exists>g. src = Some g \<and> cf_Name f = normalizeToken ext (fd_Name g) \<and>
     field_value ext (cf_Name f) (fd_StringValue g) = Inr (cf_Value f))"

lemma collect_fields_iff:
  "collect_fields ext i seen src = Inr fs \<longleftrightarrow>
     list_all2 (field_rel ext) src fs \<and> distinct (map cf_Name fs) \<and> set (map cf_Name fs) \<inter> set seen = {}"
proof (induction ext i seen src arbitrary: fs rule: collect_fields.induct)
  case (1 ext i seen)
  then show ?case by auto
next
  case (2 ext i seen src)
  then show ?case by (auto simp: field_rel_def list_all2_Cons1)
next
  case (3 ext i seen f src)
  let ?name = "normalizeToken ext (fd_Name f)"
  show ?case
  proof (cases fs)
    case Nil
    then show ?thesis by (auto simp: Let_def)
  next
    case (Cons x xs)
    show ?thesis
      using 3 Cons by (cases x) (auto simp: Let_def field_rel_def)
  qed
qed

lemma normalizeFields_iff:
  "normalizeFields ext src = Inr out \<longleftrightarrow>
     (\<exists>fs. list_all2 (field_rel ext) src fs \<and> distinct (map cf_Name fs) \<and> out = sort_slice field_less fs)"
  by (auto simp: normalizeFields_def collect_fields_iff)

lemma distinct_field_names_total:
  assumes "distinct (map cf_Name fs)" "a \<in> set fs" "b \<in> set fs" "a \<noteq> b"
  shows "field_less a b \<or> field_less b a"
  using assms by (metis distinct_map inj_onD field_less_def linorder_less_linear)

lemma normalizeFields_permute:
  assumes "normalizeFields ext src = Inr out" "mset src' = mset src"
  shows "normalizeFields ext src' = Inr out"
proof -
  obtain fs where fs: "list_all2 (field_rel ext) src fs" "distinct (map cf_Name fs)"
    "out = sort_slice field_less fs"
    using assms(1) by (auto simp: normalizeFields_iff)
  obtain fs' where fs': "list_all2 (field_rel ext) src' fs'" "mset fs' = mset fs"
    using list_all2_reorder_left_invariance [OF fs(1) assms(2)] by blast
  have d: "distinct (map cf_Name fs')"
    using fs(2) fs'(2) by (metis mset_map mset_eq_imp_distinct_iff)
  have "sort_slice field_less fs' = sort_slice field_less fs"
    using fs'(2) distinct_field_names_total [OF d] by (rule field_order.sort_slice_cong_mset)
  then show ?thesis using fs' d fs(3) by (auto simp: normalizeFields_iff)
qed

lemma normalizeFields_names:
  assumes "normalizeFields ext src = Inr out"
  shows "strictly_sorted (map cf_Name out)"
proof -
  obtain fs where fs: "distinct (map cf_Name fs)" "out = sort_slice field_less fs"
    using assms by (auto simp: normalizeFields_iff)
  have "sorted (map (\<lambda>f. (cf_Name f, cf_Value f)) out)" by (simp add: fs(2) field_order.keys_sorted)
  then have "sorted (map cf_Name out)"
    by (induction out) auto
  then show ?thesis using fs by (simp add: strictly_sorted_sorted_distinct)
qed

section \<open>Batches are content addressed\<close>

lemma normalizeEvent_shape:
  assumes "normalizeEvent ext rc i src = Inr e"
  shows "ce_ID e = []" "ce_Position e = of_nat i"
  using assms by (auto simp: normalizeEvent_def Let_def split: if_splits option.splits)

lemma build_events_verified:
  assumes "build_events ext rc tenant traceID i src = Inr es"
    and "distinct (map ce_ID es)" "set (map ce_ID es) \<inter> set seen = {}"
  shows "verify_events ext tenant traceID i seen es = None"
  using assms
proof (induction src arbitrary: i seen es)
  case Nil
  then show ?case by simp
next
  case (Cons s src)
  from Cons.prems(1) obtain e eid es' where step: "normalizeEvent ext rc i s = Inr e"
      "deriveID ext ''ev'' (json_eventIdentity tenant traceID (of_nat i) e) = Inr eid"
      "build_events ext rc tenant traceID (Suc i) src = Inr es'" "es = e\<lparr>ce_ID := eid\<rparr> # es'"
    by auto
  have "e\<lparr>ce_ID := []\<rparr> = e" using normalizeEvent_shape(1) [OF step(1)] by (cases e) simp
  then show ?case
    using step Cons.IH [OF step(3)] Cons.prems(2,3) normalizeEvent_shape(2) [OF step(1)] by simp
qed

lemma build_events_length: "build_events ext rc t tid i src = Inr es \<Longrightarrow> length es = length src"
  by (induction src arbitrary: i es) auto

lemma canonical_Build_Inr:
  assumes "canonical_Build ext rc tenantID request = Inr b"
  obtains environment traceID trace where
    "tenantID \<noteq> []" "ValidateIngest ext rc (Some request) = None"
    "normalizeFields ext (ir_Environment request) = Inr environment"
    "trace = \<lparr>ct_ID = [], ct_ClientTraceID = normalizeToken ext (ir_ClientTraceId request),
       ct_Harness = normalizeToken ext (ir_Harness request),
       ct_HarnessVersion = normalizeToken ext (ir_HarnessVersion request),
       ct_Task = normalizeText ext (ir_Task request), ct_Environment = environment\<rparr>"
    "deriveID ext ''tr'' (json_traceIdentity tenantID trace) = Inr traceID"
    "build_events ext rc tenantID traceID 0 (ir_Events request) = Inr (cb_Events b)"
    "cb_SchemaVersion b = canonical_schemaVersion" "cb_TenantID b = tenantID"
    "cb_Trace b = trace\<lparr>ct_ID := traceID\<rparr>"
    "MarshalAndHash ext (json_batch (b\<lparr>cb_Hash := [], cb_CanonicalJSON := []\<rparr>)) =
       Inr (cb_CanonicalJSON b, cb_Hash b)"
  using assms by (auto simp: canonical_Build_def Let_def split: if_splits option.splits)

lemma deriveID_nonempty: "deriveID ext p v = Inr i \<Longrightarrow> p \<noteq> [] \<Longrightarrow> i \<noteq> []"
  by (auto simp: deriveID_def)


section \<open>Properties\<close>

text \<open>C35: what \<^verbatim>\<open>Build\<close> produces, \<^verbatim>\<open>VerifyBatch\<close> accepts: a batch that was built from a request
  passes the independent re-derivation of its trace identifier, of every event identifier and
  position, of its encoding and of its hash. The schema check rejects a request without events,
  and the identifiers of the events of this batch do not collide.\<close>

theorem build_then_verify:
  assumes "canonical_Build ext rc tenantID request = Inr b"
    and "protovalidate rc request \<longrightarrow> ir_Events request \<noteq> []"
    and "distinct (map ce_ID (cb_Events b))"
  shows "VerifyBatch ext b (cb_CanonicalJSON b) = None"
  using assms(1)
proof (rule canonical_Build_Inr)
  fix environment traceID trace
  assume h: "tenantID \<noteq> []" "ValidateIngest ext rc (Some request) = None"
    "trace = \<lparr>ct_ID = [], ct_ClientTraceID = normalizeToken ext (ir_ClientTraceId request),
       ct_Harness = normalizeToken ext (ir_Harness request),
       ct_HarnessVersion = normalizeToken ext (ir_HarnessVersion request),
       ct_Task = normalizeText ext (ir_Task request), ct_Environment = environment\<rparr>"
    "deriveID ext ''tr'' (json_traceIdentity tenantID trace) = Inr traceID"
    "build_events ext rc tenantID traceID 0 (ir_Events request) = Inr (cb_Events b)"
    "cb_SchemaVersion b = canonical_schemaVersion" "cb_TenantID b = tenantID"
    "cb_Trace b = trace\<lparr>ct_ID := traceID\<rparr>"
    "MarshalAndHash ext (json_batch (b\<lparr>cb_Hash := [], cb_CanonicalJSON := []\<rparr>)) =
       Inr (cb_CanonicalJSON b, cb_Hash b)"
  have "protovalidate rc request" using h(2) by (auto simp: ValidateIngest_def split: if_splits)
  then have "cb_Events b \<noteq> []"
    using assms(2) build_events_length [OF h(5)] by auto
  moreover have "traceID \<noteq> []" using deriveID_nonempty [OF h(4)] by simp
  moreover have "(cb_Trace b)\<lparr>ct_ID := []\<rparr> = trace" by (simp add: h(3,8))
  moreover have "verify_events ext tenantID traceID 0 [] (cb_Events b) = None"
    using build_events_verified [OF h(5) assms(3)] by simp
  ultimately show ?thesis using h by (simp add: VerifyBatch_def)
qed

definition sample_request :: "Field option list \<Rightarrow> IngestTraceRequest" where
  "sample_request fs = \<lparr>ir_ClientTraceId = ''t1'', ir_Harness = ''h'', ir_HarnessVersion = [],
     ir_Task = ''task'',
     ir_Events = [\<lparr>te_ClientEventId = '' e1 '', te_OccurredAt = \<lparr>t_ns = 7, t_zone = 3\<rparr>, te_Kind = ''K'',
       te_ToolName = ''sh'', te_ToolVersion = [], te_Fields = fs, te_Result = None\<rparr>],
     ir_Environment = []\<rparr>"

definition sample_checks :: request_checks where
  "sample_checks = \<lparr>proto_Size = (\<lambda>_. 10), protovalidate = (\<lambda>r. ir_Events r \<noteq> []), timestamp_valid = (\<lambda>_. True)\<rparr>"

definition sample_fields :: "Field option list" where
  "sample_fields = [Some \<lparr>fd_Name = ''z'', fd_StringValue = ''1''\<rparr>,
                    Some \<lparr>fd_Name = ''path'', fd_StringValue = ''./a/../b''\<rparr>]"

lemma sample_build:
  "\<exists>b. canonical_Build sample_externals sample_checks ''tn'' (sample_request sample_fields) = Inr b \<and>
       length (cb_Events b) = 1"
proof -
  have f: "normalizeFields sample_externals sample_fields =
      Inr [\<lparr>cf_Name = ''path'', cf_Value = ''b''\<rparr>, \<lparr>cf_Name = ''z'', cf_Value = ''1''\<rparr>]"
    by code_simp
  have e: "normalizeFields sample_externals [] = Inr []" by code_simp
  have t: "normalizeToken sample_externals '' e1 '' = ''e1''" "normalizeToken sample_externals ''sh'' = ''sh''"
    "normalizeToken sample_externals ''t1'' = ''t1''" "normalizeToken sample_externals ''h'' = ''h''"
    by code_simp+
  show ?thesis
    by (simp add: canonical_Build_def ValidateIngest_def normalizeEvent_def deriveID_def
        MarshalAndHash_sample sample_request_def sample_checks_def f e t Let_def)
qed

theorem build_then_verify_witness:
  "\<exists>b. canonical_Build sample_externals sample_checks ''tn'' (sample_request sample_fields) = Inr b \<and>
       VerifyBatch sample_externals b (cb_CanonicalJSON b) = None"
proof -
  obtain b where b: "canonical_Build sample_externals sample_checks ''tn'' (sample_request sample_fields) = Inr b"
      "length (cb_Events b) = 1"
    using sample_build by blast
  have "distinct (map ce_ID (cb_Events b))" using b(2) by (cases "cb_Events b") auto
  moreover have "protovalidate sample_checks (sample_request sample_fields) \<longrightarrow>
      ir_Events (sample_request sample_fields) \<noteq> []"
    by (simp add: sample_request_def)
  ultimately show ?thesis using build_then_verify [OF b(1)] b(1) by blast
qed

text \<open>Two requests that differ only in the order in which fields are listed.\<close>

definition permuted_event :: "TraceEvent \<Rightarrow> TraceEvent \<Rightarrow> bool" where
  "permuted_event e e' \<longleftrightarrow>
     e' = e\<lparr>te_Fields := te_Fields e', te_Result := te_Result e'\<rparr> \<and> mset (te_Fields e') = mset (te_Fields e) \<and>
     rel_option (\<lambda>r r'. r' = r\<lparr>tr_Evidence := tr_Evidence r'\<rparr> \<and> mset (tr_Evidence r') = mset (tr_Evidence r))
       (te_Result e) (te_Result e')"

definition permuted_request :: "IngestTraceRequest \<Rightarrow> IngestTraceRequest \<Rightarrow> bool" where
  "permuted_request r r' \<longleftrightarrow>
     r' = r\<lparr>ir_Events := ir_Events r', ir_Environment := ir_Environment r'\<rparr> \<and>
     mset (ir_Environment r') = mset (ir_Environment r) \<and>
     list_all2 permuted_event (ir_Events r) (ir_Events r')"

lemma permuted_event_same:
  assumes "permuted_event e e'"
  shows "te_ClientEventId e' = te_ClientEventId e" "te_ToolName e' = te_ToolName e"
    "te_OccurredAt e' = te_OccurredAt e" "te_Kind e' = te_Kind e" "te_ToolVersion e' = te_ToolVersion e"
    "mset (te_Fields e') = mset (te_Fields e)"
proof -
  have eq: "e' = e\<lparr>te_Fields := te_Fields e', te_Result := te_Result e'\<rparr>"
    using assms unfolding permuted_event_def by blast
  show "te_ClientEventId e' = te_ClientEventId e" "te_ToolName e' = te_ToolName e"
    "te_OccurredAt e' = te_OccurredAt e" "te_Kind e' = te_Kind e" "te_ToolVersion e' = te_ToolVersion e"
    by (subst eq, simp)+
  show "mset (te_Fields e') = mset (te_Fields e)" using assms unfolding permuted_event_def by blast
qed

lemma normalizeEvent_permute:
  assumes "permuted_event e e'" "normalizeEvent ext rc i e = Inr out"
  shows "normalizeEvent ext rc i e' = Inr out"
proof -
  note same = permuted_event_same [OF assms(1)]
  have fields: "normalizeFields ext (te_Fields e') = Inr fs" if "normalizeFields ext (te_Fields e) = Inr fs" for fs
    using normalizeFields_permute [OF that same(6)] .
  have rel: "rel_option (\<lambda>r r'. r' = r\<lparr>tr_Evidence := tr_Evidence r'\<rparr> \<and> mset (tr_Evidence r') = mset (tr_Evidence r))
       (te_Result e) (te_Result e')"
    using assms(1) by (simp add: permuted_event_def)
  show ?thesis
  proof (cases "te_Result e")
    case None
    with rel have "te_Result e' = None" by simp
    with None assms(2) show ?thesis
      by (auto simp: normalizeEvent_def same Let_def fields split: if_splits)
  next
    case (Some r)
    with rel obtain r' where r': "te_Result e' = Some r'" "r' = r\<lparr>tr_Evidence := tr_Evidence r'\<rparr>"
        "mset (tr_Evidence r') = mset (tr_Evidence r)"
      by (auto simp: option_rel_Some1)
    have rs: "tr_State r' = tr_State r" "tr_ExitCode r' = tr_ExitCode r" by (subst r'(2), simp)+
    have "normalizeFields ext (tr_Evidence r') = Inr fs" if "normalizeFields ext (tr_Evidence r) = Inr fs" for fs
      using normalizeFields_permute [OF that r'(3)] .
    then show ?thesis using Some r'(1) rs assms(2)
      by (auto simp: normalizeEvent_def same Let_def fields split: if_splits)
  qed
qed

lemma build_events_permute:
  assumes "list_all2 permuted_event es es'" "build_events ext rc t tid i es = Inr out"
  shows "build_events ext rc t tid i es' = Inr out"
  using assms
  by (induction arbitrary: i out rule: list_all2_induct) (auto dest: normalizeEvent_permute)

lemma check_events_permute:
  "list_all2 permuted_event es es' \<Longrightarrow> check_events ext seen es' = check_events ext seen es"
  by (induction arbitrary: seen rule: list_all2_induct) (simp_all add: permuted_event_same Let_def)

text \<open>The batch, and with it every identifier and hash, does not depend on the order in
  which a request lists the fields of its environment, of an event or of a result.\<close>

theorem build_ignores_field_order:
  assumes "canonical_Build ext rc tenantID r = Inr b" "permuted_request r r'"
    and "proto_Size rc r' = proto_Size rc r" "protovalidate rc r' = protovalidate rc r"
  shows "canonical_Build ext rc tenantID r' = Inr b"
proof -
  have eq: "r' = r\<lparr>ir_Events := ir_Events r', ir_Environment := ir_Environment r'\<rparr>"
    using assms(2) unfolding permuted_request_def by blast
  have same: "ir_ClientTraceId r' = ir_ClientTraceId r" "ir_Harness r' = ir_Harness r"
    "ir_HarnessVersion r' = ir_HarnessVersion r" "ir_Task r' = ir_Task r"
    by (subst eq, simp)+
  have ev: "list_all2 permuted_event (ir_Events r) (ir_Events r')"
    and env: "mset (ir_Environment r') = mset (ir_Environment r)"
    using assms(2) by (simp_all add: permuted_request_def)
  have "ValidateIngest ext rc (Some r') = ValidateIngest ext rc (Some r)"
    by (simp add: ValidateIngest_def same assms(3,4) check_events_permute [OF ev])
  then show ?thesis
    using assms(1) normalizeFields_permute [OF _ env, of ext] build_events_permute [OF ev]
    by (auto simp: canonical_Build_def Let_def same split: if_splits option.splits)
qed

theorem build_ignores_field_order_witness:
  "\<exists>b. canonical_Build sample_externals sample_checks ''tn'' (sample_request sample_fields) = Inr b \<and>
       canonical_Build sample_externals sample_checks ''tn'' (sample_request (rev sample_fields)) = Inr b"
proof -
  obtain b where b: "canonical_Build sample_externals sample_checks ''tn'' (sample_request sample_fields) = Inr b"
    using sample_build by blast
  have "permuted_request (sample_request sample_fields) (sample_request (rev sample_fields))"
    by (simp add: permuted_request_def permuted_event_def sample_request_def sample_fields_def)
  then have "canonical_Build sample_externals sample_checks ''tn'' (sample_request (rev sample_fields)) = Inr b"
    by (rule build_ignores_field_order [OF b]) (simp_all add: sample_checks_def sample_request_def)
  with b show ?thesis by blast
qed

end
