(* ===== verification/Ranking.thy ===== *)
theory Ranking
  imports Canonical
begin

text \<open>
  \<^verbatim>\<open>internal/ranking\<close>: a validated ranker manifest, and the fusion of reciprocal ranks and
  integer features into one score in 64 bit arithmetic with overflow checks. The two error
  values of the package carry the message the code wraps them in, so that the different failures
  stay apart. The maps from names to weights and specifications are maps; the set of missing
  features is the list of their names in manifest order.
\<close>

section \<open>Data\<close>

record ChannelWeight =
  cw_Channel :: string
  cw_WeightMicros :: int32

record FeatureSpec =
  fs_Name :: string
  fs_Minimum :: int32
  fs_Maximum :: int32
  fs_Missing :: int32
  fs_Coefficient :: int32

record RankerSpec =
  rs_Version :: string
  rs_RRFK :: uint32
  rs_RRFCoefficient :: int32
  rs_MaxCandidates :: uint32
  rs_Intercept :: int64
  rs_Channels :: "ChannelWeight list"
  rs_Features :: "FeatureSpec list"

record RankerManifest =
  rm_Spec :: RankerSpec
  rm_ID :: string
  rm_CanonicalJSON :: string

record ChannelRank =
  ck_Channel :: string
  ck_Rank :: uint32

record FeatureValue =
  fv_Name :: string
  fv_Value :: int32

record RankCandidate =
  rc_VersionID :: string
  rc_ChannelRanks :: "ChannelRank list"
  rc_Features :: "FeatureValue list"
  rc_VerificationStrength :: int32
  rc_ObservedEndToEnd :: bool

record RankResult =
  rr_VersionID :: string
  rr_Rank :: uint32
  rr_RRFScore :: int64
  rr_FinalScore :: int64
  rr_VerificationStrength :: int32
  rr_ObservedEndToEnd :: bool
  rr_MissingFeatures :: "string list"

datatype ranking_error =
    ErrInvalidManifest string
  | ErrInvalidCandidate string
  | ErrRankerEncoding canonical_error

definition json_channel :: "ChannelWeight \<Rightarrow> json" where
  "json_channel c = JObj [(''channel'', JStr (cw_Channel c)), (''weight_micros'', JNum (sint (cw_WeightMicros c)))]"

definition json_feature :: "FeatureSpec \<Rightarrow> json" where
  "json_feature f = JObj [(''name'', JStr (fs_Name f)), (''minimum'', JNum (sint (fs_Minimum f))),
     (''maximum'', JNum (sint (fs_Maximum f))), (''missing'', JNum (sint (fs_Missing f))),
     (''coefficient'', JNum (sint (fs_Coefficient f)))]"

definition json_ranker_spec :: "RankerSpec \<Rightarrow> json" where
  "json_ranker_spec s = JObj
     ([(''version'', JStr (rs_Version s)), (''rrf_k'', JNum (uint (rs_RRFK s))),
       (''rrf_coefficient'', JNum (sint (rs_RRFCoefficient s))),
       (''max_candidates'', JNum (uint (rs_MaxCandidates s))), (''intercept'', JNum (sint (rs_Intercept s))),
       (''channels'', JArr (map json_channel (rs_Channels s)))] @
      omit_list ''features'' json_feature (rs_Features s))"

section \<open>Checked arithmetic\<close>

definition rrfScale :: int64 where "rrfScale = 1000000"

definition checkedAdd :: "int64 \<Rightarrow> int64 \<Rightarrow> int64 option" where
  "checkedAdd left right =
     (if sint right > 0 \<and> sint left > sint (MaxInt64 - right) \<or>
         sint right < 0 \<and> sint left < sint (MinInt64 - right)
      then None else Some (left + right))"

definition checkedMul :: "int64 \<Rightarrow> int64 \<Rightarrow> int64 option" where
  "checkedMul left right =
     (if left = 0 \<or> right = 0 then Some 0
      else if left = -1 \<and> right = MinInt64 \<or> right = -1 \<and> left = MinInt64 then None
      else let result = left * right
           in if int64_div result right \<noteq> left then None else Some result)"

section \<open>The manifest\<close>

definition abs32 :: "int32 \<Rightarrow> int" where "abs32 v = (if sint v < 0 then - sint v else sint v)"

definition max64 :: "int \<Rightarrow> int \<Rightarrow> int" where "max64 l r = (if l > r then l else r)"

definition channel_bound :: "uint32 \<Rightarrow> ChannelWeight \<Rightarrow> int" where
  "channel_bound k c = sint (cw_WeightMicros c) * 1000000 div (uint k + 1)"

definition feature_bound :: "FeatureSpec \<Rightarrow> int" where
  "feature_bound f = max64 (abs32 (fs_Minimum f)) (abs32 (fs_Maximum f)) * abs32 (fs_Coefficient f)"

text \<open>The score bound is computed with \<^verbatim>\<open>math/big\<close>, that is in unbounded integers.\<close>

definition scoreBoundFits :: "RankerSpec \<Rightarrow> bool" where
  "scoreBoundFits spec \<longleftrightarrow>
     \<bar>sint (rs_Intercept spec)\<bar> +
     sum_list (map (channel_bound (rs_RRFK spec)) (rs_Channels spec)) * abs32 (rs_RRFCoefficient spec) +
     sum_list (map feature_bound (rs_Features spec)) \<le> 9223372036854775807"

fun check_channels :: "string option \<Rightarrow> ChannelWeight list \<Rightarrow> ranking_error + ChannelWeight list" where
  "check_channels prev [] = Inr []"
| "check_channels prev (c # cs) =
     (let name = TrimSpace (cw_Channel c)
      in if name = [] \<or> sint (cw_WeightMicros c) \<le> 0
           then Inl (ErrInvalidManifest ''channel and positive weight required'')
         else if prev = Some name then Inl (ErrInvalidManifest ''duplicate channel'')
         else res_bind (check_channels (Some name) cs) (\<lambda>rest. Inr (c\<lparr>cw_Channel := name\<rparr> # rest)))"

fun check_features :: "string option \<Rightarrow> FeatureSpec list \<Rightarrow> ranking_error + FeatureSpec list" where
  "check_features prev [] = Inr []"
| "check_features prev (f # fs) =
     (let name = TrimSpace (fs_Name f)
      in if name = [] \<or> sint (fs_Minimum f) > sint (fs_Maximum f) \<or>
            sint (fs_Missing f) < sint (fs_Minimum f) \<or> sint (fs_Missing f) > sint (fs_Maximum f)
           then Inl (ErrInvalidManifest ''invalid feature bounds'')
         else if prev = Some name then Inl (ErrInvalidManifest ''duplicate feature'')
         else res_bind (check_features (Some name) fs) (\<lambda>rest. Inr (f\<lparr>fs_Name := name\<rparr> # rest)))"

definition channel_less :: "ChannelWeight \<Rightarrow> ChannelWeight \<Rightarrow> bool" where
  "channel_less a b \<longleftrightarrow> cw_Channel a < cw_Channel b"

definition feature_less :: "FeatureSpec \<Rightarrow> FeatureSpec \<Rightarrow> bool" where
  "feature_less a b \<longleftrightarrow> fs_Name a < fs_Name b"

definition ranking_NewManifest :: "externals \<Rightarrow> RankerSpec \<Rightarrow> ranking_error + RankerManifest" where
  "ranking_NewManifest ext source =
     (let version = TrimSpace (rs_Version source)
      in if version = [] \<or> rs_RRFK source = 0 \<or> rs_RRFK source > 1000000 \<or>
            rs_MaxCandidates source = 0 \<or> rs_MaxCandidates source > 10000 \<or>
            rs_RRFCoefficient source = 0 \<or> rs_Channels source = []
         then Inl (ErrInvalidManifest ''required value missing or out of bounds'')
         else res_bind (check_channels None (sort_slice channel_less (rs_Channels source))) (\<lambda>channels.
              res_bind (check_features None (sort_slice feature_less (rs_Features source))) (\<lambda>features.
              let spec = source\<lparr>rs_Version := version, rs_Channels := channels, rs_Features := features\<rparr>
              in if \<not> scoreBoundFits spec then Inl (ErrInvalidManifest ''score can overflow int64'')
                 else case MarshalAndHash ext (json_ranker_spec spec) of
                   Inl e \<Rightarrow> Inl (ErrRankerEncoding e)
                 | Inr (canonicalJSON, hash) \<Rightarrow>
                     Inr \<lparr>rm_Spec = spec, rm_ID = ''rnk_'' @ hash, rm_CanonicalJSON = canonicalJSON\<rparr>)))"

section \<open>Scores\<close>

definition channel_weights :: "RankerSpec \<Rightarrow> string \<rightharpoonup> int32" where
  "channel_weights spec = map_of (rev (map (\<lambda>c. (cw_Channel c, cw_WeightMicros c)) (rs_Channels spec)))"

definition feature_specs :: "RankerSpec \<Rightarrow> string \<rightharpoonup> FeatureSpec" where
  "feature_specs spec = map_of (rev (map (\<lambda>f. (fs_Name f, f)) (rs_Features spec)))"

fun rrf_loop ::
  "RankerSpec \<Rightarrow> (string \<rightharpoonup> int32) \<Rightarrow> string list \<Rightarrow> int64 \<Rightarrow> ChannelRank list \<Rightarrow> ranking_error + int64" where
  "rrf_loop spec weights seen rrf [] = Inr rrf"
| "rrf_loop spec weights seen rrf (cr # crs) =
     (case weights (ck_Channel cr) of
        None \<Rightarrow> Inl (ErrInvalidCandidate ''invalid channel rank'')
      | Some weight \<Rightarrow>
          if ck_Rank cr = 0 \<or> ck_Rank cr > rs_MaxCandidates spec
            then Inl (ErrInvalidCandidate ''invalid channel rank'')
          else if ck_Channel cr \<in> set seen then Inl (ErrInvalidCandidate ''duplicate channel'')
          else case checkedMul (scast weight) rrfScale of
            None \<Rightarrow> Inl (ErrInvalidManifest ''RRF overflow'')
          | Some product \<Rightarrow>
              (case checkedAdd rrf (int64_div product (ucast (rs_RRFK spec) + ucast (ck_Rank cr))) of
                 None \<Rightarrow> Inl (ErrInvalidManifest ''RRF overflow'')
               | Some rrf' \<Rightarrow> rrf_loop spec weights (ck_Channel cr # seen) rrf' crs))"

fun provided_loop ::
  "(string \<rightharpoonup> FeatureSpec) \<Rightarrow> (string \<rightharpoonup> int32) \<Rightarrow> FeatureValue list \<Rightarrow> ranking_error + (string \<rightharpoonup> int32)" where
  "provided_loop specs provided [] = Inr provided"
| "provided_loop specs provided (f # fs) =
     (case specs (fv_Name f) of
        None \<Rightarrow> Inl (ErrInvalidCandidate ''invalid feature'')
      | Some spec \<Rightarrow>
          if sint (fv_Value f) < sint (fs_Minimum spec) \<or> sint (fv_Value f) > sint (fs_Maximum spec)
            then Inl (ErrInvalidCandidate ''invalid feature'')
          else if provided (fv_Name f) \<noteq> None then Inl (ErrInvalidCandidate ''duplicate feature'')
          else provided_loop specs (provided(fv_Name f \<mapsto> fv_Value f)) fs)"

fun feature_loop ::
  "(string \<rightharpoonup> int32) \<Rightarrow> int64 \<Rightarrow> FeatureSpec list \<Rightarrow> ranking_error + int64" where
  "feature_loop provided score [] = Inr score"
| "feature_loop provided score (spec # specs) =
     (let value = (case provided (fs_Name spec) of None \<Rightarrow> fs_Missing spec | Some v \<Rightarrow> v)
      in case checkedMul (scast value) (scast (fs_Coefficient spec)) of
           None \<Rightarrow> Inl (ErrInvalidManifest ''feature overflow'')
         | Some trm \<Rightarrow>
             (case checkedAdd score trm of
                None \<Rightarrow> Inl (ErrInvalidManifest ''score overflow'')
              | Some score' \<Rightarrow> feature_loop provided score' specs))"

definition scoreCandidate :: "RankerSpec \<Rightarrow> RankCandidate \<Rightarrow> ranking_error + RankResult" where
  "scoreCandidate spec candidate =
     res_bind (rrf_loop spec (channel_weights spec) [] 0 (rc_ChannelRanks candidate)) (\<lambda>rrfScore.
     res_bind (provided_loop (feature_specs spec) Map.empty (rc_Features candidate)) (\<lambda>provided.
     case checkedMul rrfScore (scast (rs_RRFCoefficient spec)) of
       None \<Rightarrow> Inl (ErrInvalidManifest ''score overflow'')
     | Some rrfTerm \<Rightarrow>
         (case checkedAdd (rs_Intercept spec) rrfTerm of
            None \<Rightarrow> Inl (ErrInvalidManifest ''score overflow'')
          | Some score \<Rightarrow>
              res_bind (feature_loop provided score (rs_Features spec)) (\<lambda>finalScore.
              Inr \<lparr>rr_VersionID = rc_VersionID candidate, rr_Rank = 0, rr_RRFScore = rrfScore,
                   rr_FinalScore = finalScore,
                   rr_VerificationStrength = rc_VerificationStrength candidate,
                   rr_ObservedEndToEnd = rc_ObservedEndToEnd candidate,
                   rr_MissingFeatures = filter (\<lambda>n. provided n = None) (map fs_Name (rs_Features spec))\<rparr>))))"

fun score_all :: "RankerSpec \<Rightarrow> string list \<Rightarrow> RankCandidate list \<Rightarrow> ranking_error + RankResult list" where
  "score_all spec seen [] = Inr []"
| "score_all spec seen (c # cs) =
     (if TrimSpace (rc_VersionID c) = [] then Inl (ErrInvalidCandidate ''version ID required'')
      else if rc_VersionID c \<in> set seen then Inl (ErrInvalidCandidate ''duplicate version'')
      else res_bind (scoreCandidate spec c) (\<lambda>r.
           res_bind (score_all spec (rc_VersionID c # seen) cs) (\<lambda>rs. Inr (r # rs))))"

definition result_less :: "RankResult \<Rightarrow> RankResult \<Rightarrow> bool" where
  "result_less a b =
     (if rr_FinalScore a \<noteq> rr_FinalScore b then sint (rr_FinalScore a) > sint (rr_FinalScore b)
      else if rr_VerificationStrength a \<noteq> rr_VerificationStrength b
        then sint (rr_VerificationStrength a) > sint (rr_VerificationStrength b)
      else if rr_ObservedEndToEnd a \<noteq> rr_ObservedEndToEnd b then rr_ObservedEndToEnd a
      else rr_VersionID a < rr_VersionID b)"

fun number_results :: "nat \<Rightarrow> RankResult list \<Rightarrow> RankResult list" where
  "number_results i [] = []"
| "number_results i (r # rs) = r\<lparr>rr_Rank := of_nat (i + 1)\<rparr> # number_results (Suc i) rs"

definition ranking_Rank ::
  "externals \<Rightarrow> RankerManifest \<Rightarrow> RankCandidate list \<Rightarrow> ranking_error + RankResult list" where
  "ranking_Rank ext manifest candidates =
     (case ranking_NewManifest ext (rm_Spec manifest) of
        Inl _ \<Rightarrow> Inl (ErrInvalidManifest [])
      | Inr validated \<Rightarrow>
          if rm_ID manifest \<noteq> rm_ID validated \<or> rm_CanonicalJSON manifest \<noteq> rm_CanonicalJSON validated
            then Inl (ErrInvalidManifest [])
          else res_bind (score_all (rm_Spec manifest) [] candidates) (\<lambda>results.
               Inr (number_results 0 (sort_slice result_less results))))"


section \<open>The checked operations are exact\<close>

lemma checkedAdd_exact:
  "checkedAdd a b = (if fits64 (sint a + sint b) then Some (a + b) else None)"
proof -
  have "sint (MaxInt64 - b) = 9223372036854775807 - sint b" if "sint b > 0"
    using that sint64_range [of b] by (subst sint_diff) (simp_all add: fits64_def)
  moreover have "sint (MinInt64 - b) = -9223372036854775808 - sint b" if "sint b < 0"
    using that sint64_range [of b] by (subst sint_diff) (simp_all add: fits64_def)
  ultimately show ?thesis
    using sint64_range [of a] by (auto simp: checkedAdd_def fits64_def)
qed

lemma int64_div_mult_exact:
  assumes "sint b \<noteq> 0" "\<not> (b = -1 \<and> a = MinInt64)"
  shows "int64_div (a * b) b = a \<longleftrightarrow> fits64 (sint a * sint b)"
proof (cases "b = -1")
  case True
  have "sint a \<noteq> -9223372036854775808"
    using assms True sint64_inject [of a MinInt64] by simp
  then have f: "fits64 (sint a * sint b)"
    using True sint64_range [of a] by (simp add: fits64_def)
  moreover have "int64_div (a * b) b = a"
    using True sint_mult [OF f] by (simp add: int64_div_def quot_def sgn_mult_abs mult_sgn_abs)
  ultimately show ?thesis by simp
next
  case False
  then have b1: "sint b \<noteq> -1" by (simp add: sint64_eq_numerals)
  obtain k where k: "sint (a * b) = sint a * sint b + k * 18446744073709551616"
    using sint64_wrap [of "sint a * sint b"] by (metis word_of_int_sint_ops(3))
  have div: "int64_div (a * b) b = a \<longleftrightarrow> quot (sint (a * b)) (sint b) = sint a"
    using sint_int64_div [OF b1, of "a * b"] by (metis sint64_inject)
  show ?thesis
  proof
    assume "int64_div (a * b) b = a"
    then have "\<bar>sint (a * b) - sint a * sint b\<bar> < \<bar>sint b\<bar>"
      using quot_remainder [OF assms(1), of "sint (a * b)"] div by simp
    then have "\<bar>k * 18446744073709551616\<bar> < 9223372036854775809"
      using k sint64_range [of b] by linarith
    then have "k = 0" by linarith
    then show "fits64 (sint a * sint b)" using k by (metis add_0_right fits64_sint mult_zero_left)
  next
    assume "fits64 (sint a * sint b)"
    then show "int64_div (a * b) b = a"
      unfolding div by (simp only: sint_mult quot_mult_cancel [OF assms(1)])
  qed
qed

lemma checkedMul_exact:
  "checkedMul a b = (if fits64 (sint a * sint b) then Some (a * b) else None)"
proof (cases "a = 0 \<or> b = 0")
  case True
  then show ?thesis by (auto simp: checkedMul_def fits64_def)
next
  case False
  have b0: "sint b \<noteq> 0" using False by (simp add: sint64_eq_numerals)
  have over: "\<not> fits64 (sint a * sint b)" if "a = -1 \<and> b = MinInt64 \<or> b = -1 \<and> a = MinInt64"
    using that by (auto simp: fits64_def)
  show ?thesis
    using False over int64_div_mult_exact [OF b0, of a] by (auto simp: checkedMul_def Let_def)
qed


section \<open>A validated manifest bounds every score\<close>

text \<open>
  What the validation of a manifest establishes about the specification it was given, before
  names are trimmed: this is the specification \<^verbatim>\<open>Rank\<close> goes on to use.
\<close>

definition bounded_spec :: "RankerSpec \<Rightarrow> bool" where
  "bounded_spec spec \<longleftrightarrow>
     (\<forall>c \<in> set (rs_Channels spec). 0 < sint (cw_WeightMicros c)) \<and>
     (\<forall>f \<in> set (rs_Features spec). sint (fs_Minimum f) \<le> sint (fs_Missing f) \<and>
        sint (fs_Missing f) \<le> sint (fs_Maximum f)) \<and>
     distinct (map fs_Name (rs_Features spec)) \<and>
     rs_RRFCoefficient spec \<noteq> 0 \<and> scoreBoundFits spec"

interpretation channel_order: keyed_order channel_less cw_Channel
  by unfold_locales (simp add: channel_less_def)

interpretation feature_order: keyed_order feature_less fs_Name
  by unfold_locales (simp add: feature_less_def)

lemma check_channels_Inr:
  assumes "check_channels prev cs = Inr out"
  shows "out = map (\<lambda>c. c\<lparr>cw_Channel := TrimSpace (cw_Channel c)\<rparr>) cs"
    and "\<forall>c \<in> set cs. 0 < sint (cw_WeightMicros c)"
proof -
  have "out = map (\<lambda>c. c\<lparr>cw_Channel := TrimSpace (cw_Channel c)\<rparr>) cs \<and>
      (\<forall>c \<in> set cs. 0 < sint (cw_WeightMicros c))"
    using assms by (induction cs arbitrary: prev out) (auto simp: Let_def split: if_splits)
  then show "out = map (\<lambda>c. c\<lparr>cw_Channel := TrimSpace (cw_Channel c)\<rparr>) cs"
    and "\<forall>c \<in> set cs. 0 < sint (cw_WeightMicros c)" by blast+
qed

lemma check_features_Inr:
  assumes "check_features prev fs = Inr out"
  shows "out = map (\<lambda>f. f\<lparr>fs_Name := TrimSpace (fs_Name f)\<rparr>) fs"
    and "\<forall>f \<in> set fs. sint (fs_Minimum f) \<le> sint (fs_Missing f) \<and> sint (fs_Missing f) \<le> sint (fs_Maximum f)"
proof -
  have "out = map (\<lambda>f. f\<lparr>fs_Name := TrimSpace (fs_Name f)\<rparr>) fs \<and>
      (\<forall>f \<in> set fs. sint (fs_Minimum f) \<le> sint (fs_Missing f) \<and> sint (fs_Missing f) \<le> sint (fs_Maximum f))"
    using assms by (induction fs arbitrary: prev out) (auto simp: Let_def split: if_splits)
  then show "out = map (\<lambda>f. f\<lparr>fs_Name := TrimSpace (fs_Name f)\<rparr>) fs"
    and "\<forall>f \<in> set fs. sint (fs_Minimum f) \<le> sint (fs_Missing f) \<and> sint (fs_Missing f) \<le> sint (fs_Maximum f)"
    by blast+
qed

lemma check_features_distinct:
  assumes "check_features prev fs = Inr out" "sorted (map fs_Name fs)"
  shows "distinct (map fs_Name fs)"
  using assms
proof (induction fs arbitrary: prev out)
  case Nil
  then show ?case by simp
next
  case (Cons f fs)
  then obtain rest where rest: "check_features (Some (TrimSpace (fs_Name f))) fs = Inr rest"
    by (auto simp: Let_def split: if_splits)
  have "distinct (map fs_Name fs)" using Cons.IH [OF rest] Cons.prems(2) by simp
  moreover have "fs_Name f \<notin> fs_Name ` set fs"
  proof (cases fs)
    case (Cons g gs)
    have "fs_Name g \<noteq> fs_Name f" using rest Cons by (auto simp: Let_def split: if_splits)
    moreover have "fs_Name f \<le> fs_Name g" "\<forall>n \<in> set (map fs_Name gs). fs_Name g \<le> n"
      using Cons.prems(2) Cons by auto
    ultimately show ?thesis using Cons by auto
  qed simp
  ultimately show ?case by simp
qed

lemma sum_list_map_mset: "mset xs = mset ys \<Longrightarrow> sum_list (map f xs) = sum_list (map (f :: 'a \<Rightarrow> int) ys)"
  by (metis mset_map sum_mset_sum_list)

lemma bound_ignores_name:
  "channel_bound k (c\<lparr>cw_Channel := n\<rparr>) = channel_bound k c"
  "feature_bound (f\<lparr>fs_Name := n\<rparr>) = feature_bound f"
  by (simp_all add: channel_bound_def feature_bound_def)

lemma NewManifest_bounded:
  assumes "ranking_NewManifest ext spec = Inr m"
  shows "bounded_spec spec"
proof -
  let ?cs = "sort_slice channel_less (rs_Channels spec)" and ?fs = "sort_slice feature_less (rs_Features spec)"
  obtain channels features where c: "check_channels None ?cs = Inr channels"
    and f: "check_features None ?fs = Inr features"
    and fits: "scoreBoundFits (spec\<lparr>rs_Version := TrimSpace (rs_Version spec), rs_Channels := channels,
        rs_Features := features\<rparr>)"
    and coeff: "rs_RRFCoefficient spec \<noteq> 0"
    using assms by (auto simp: ranking_NewManifest_def Let_def split: if_splits sum.splits)
  have "sum_list (map (channel_bound k) channels) = sum_list (map (channel_bound k) ?cs)" for k
    by (simp add: check_channels_Inr(1) [OF c] comp_def bound_ignores_name)
  moreover have "sum_list (map feature_bound features) = sum_list (map feature_bound ?fs)"
    by (simp add: check_features_Inr(1) [OF f] comp_def bound_ignores_name)
  ultimately have "scoreBoundFits spec"
    using fits by (simp add: scoreBoundFits_def sum_list_map_mset [OF mset_sort_slice])
  moreover have "distinct (map fs_Name (rs_Features spec))"
    using check_features_distinct [OF f] feature_order.keys_sorted [of "rs_Features spec"] by simp
  ultimately show ?thesis
    using check_channels_Inr(2) [OF c] check_features_Inr(2) [OF f] coeff by (simp add: bounded_spec_def)
qed

text \<open>The score in unbounded integers: the specification the 64 bit code is compared with.\<close>

definition rrf_sum :: "RankerSpec \<Rightarrow> ChannelRank list \<Rightarrow> int" where
  "rrf_sum spec crs = sum_list (map (\<lambda>cr. case channel_weights spec (ck_Channel cr) of
       None \<Rightarrow> 0
     | Some w \<Rightarrow> sint w * 1000000 div (uint (rs_RRFK spec) + uint (ck_Rank cr))) crs)"

definition given_value :: "FeatureValue list \<Rightarrow> FeatureSpec \<Rightarrow> int32" where
  "given_value fvs f =
     (case map_of (map (\<lambda>v. (fv_Name v, fv_Value v)) fvs) (fs_Name f) of None \<Rightarrow> fs_Missing f | Some v \<Rightarrow> v)"

definition exact_score :: "RankerSpec \<Rightarrow> RankCandidate \<Rightarrow> int" where
  "exact_score spec c =
     sint (rs_Intercept spec) + sint (rs_RRFCoefficient spec) * rrf_sum spec (rc_ChannelRanks c) +
     sum_list (map (\<lambda>f. sint (given_value (rc_Features c) f) * sint (fs_Coefficient f)) (rs_Features spec))"

lemma sint_scast32: "sint (scast (w :: int32) :: int64) = sint w"
proof -
  have "fits64 (sint w)" using sint32_range [of w] unfolding fits64_def by linarith
  then show ?thesis by (simp only: scast_eq sint_word_of_int)
qed

lemma sint_ucast_add32: "sint (ucast (k :: uint32) + ucast (r :: uint32) :: int64) = uint k + uint r"
proof -
  have "(ucast k + ucast r :: int64) = word_of_int (uint k + uint r)"
    by (simp only: ucast_eq wi_hom_add)
  moreover have "fits64 (uint k + uint r)"
    using uint32_range [of k] uint32_range [of r] unfolding fits64_def by linarith
  ultimately show ?thesis by (simp only: sint_word_of_int)
qed

definition weight_bound :: "RankerSpec \<Rightarrow> string \<Rightarrow> int" where
  "weight_bound spec n = (case channel_weights spec n of
     None \<Rightarrow> 0 | Some w \<Rightarrow> sint w * 1000000 div (uint (rs_RRFK spec) + 1))"

lemma channel_weights_channel:
  "channel_weights spec n = Some w \<Longrightarrow> \<exists>c \<in> set (rs_Channels spec). cw_Channel c = n \<and> cw_WeightMicros c = w"
  unfolding channel_weights_def by (auto dest!: map_of_SomeD)

lemma weight_bound_nonneg: "bounded_spec spec \<Longrightarrow> 0 \<le> weight_bound spec n"
proof -
  assume "bounded_spec spec"
  moreover have "0 < uint (rs_RRFK spec) + 1" using uint32_range(1) [of "rs_RRFK spec"] by linarith
  ultimately show ?thesis
    by (fastforce simp: weight_bound_def bounded_spec_def pos_imp_zdiv_nonneg_iff
        dest!: channel_weights_channel split: option.splits)
qed

lemma sum_weight_bound:
  assumes "\<forall>c \<in> set cs. 0 < sint (cw_WeightMicros c)"
  shows "(\<Sum>n \<in> set (map cw_Channel cs). case map_of (rev (map (\<lambda>c. (cw_Channel c, cw_WeightMicros c)) cs)) n of
      None \<Rightarrow> 0 | Some w \<Rightarrow> sint w * 1000000 div (uint k + 1)) \<le> sum_list (map (channel_bound k) cs)"
  using assms
proof (induction cs rule: rev_induct)
  case Nil
  then show ?case by simp
next
  case (snoc c cs)
  let ?m = "\<lambda>cs. map_of (rev (map (\<lambda>c. (cw_Channel c, cw_WeightMicros c)) cs))"
  let ?g = "\<lambda>cs n. case ?m cs n of None \<Rightarrow> 0 | Some w \<Rightarrow> sint w * 1000000 div (uint k + 1)"
  let ?N = "set (map cw_Channel cs)"
  have k1: "0 < uint k + 1" using uint32_range(1) [of k] by linarith
  have pos: "0 \<le> ?g cs n" for n
    using snoc.prems k1
    by (fastforce split: option.splits dest!: map_of_SomeD simp: pos_imp_zdiv_nonneg_iff)
  have "(\<Sum>n \<in> set (map cw_Channel (cs @ [c])). ?g (cs @ [c]) n) =
      ?g (cs @ [c]) (cw_Channel c) + (\<Sum>n \<in> ?N - {cw_Channel c}. ?g (cs @ [c]) n)"
    by (simp add: sum.insert_remove)
  also have "(\<Sum>n \<in> ?N - {cw_Channel c}. ?g (cs @ [c]) n) = (\<Sum>n \<in> ?N - {cw_Channel c}. ?g cs n)"
    by (rule sum.cong) auto
  also have "\<dots> \<le> (\<Sum>n \<in> ?N. ?g cs n)"
    using pos by (intro sum_mono2) auto
  finally show ?case using snoc by (simp add: channel_bound_def)
qed

lemma dom_channel_weights: "dom (channel_weights spec) = set (map cw_Channel (rs_Channels spec))"
  by (simp add: channel_weights_def dom_map_of_conv_image_fst image_image)

lemma rrf_total:
  assumes "bounded_spec spec"
  shows "(\<Sum>n \<in> dom (channel_weights spec). weight_bound spec n) \<le>
    sum_list (map (channel_bound (rs_RRFK spec)) (rs_Channels spec))"
  using sum_weight_bound [of "rs_Channels spec" "rs_RRFK spec"] assms
  unfolding dom_channel_weights by (simp add: weight_bound_def channel_weights_def bounded_spec_def)

lemma bounded_spec_totals:
  assumes "bounded_spec spec"
  defines "R \<equiv> sum_list (map (channel_bound (rs_RRFK spec)) (rs_Channels spec))"
  shows "0 \<le> R" "R \<le> 9223372036854775807"
    "\<bar>sint (rs_Intercept spec)\<bar> + R * \<bar>sint (rs_RRFCoefficient spec)\<bar> +
       sum_list (map feature_bound (rs_Features spec)) \<le> 9223372036854775807"
    "0 \<le> sum_list (map feature_bound (rs_Features spec))"
proof -
  have k1: "0 < uint (rs_RRFK spec) + 1" using uint32_range(1) [of "rs_RRFK spec"] by linarith
  have a: "abs32 v = \<bar>sint v\<bar>" for v by (simp add: abs32_def)
  show F: "0 \<le> sum_list (map feature_bound (rs_Features spec))"
    by (rule sum_list_nonneg) (auto simp: feature_bound_def max64_def a)
  show R: "0 \<le> R"
    unfolding R_def using assms(1) k1
    by (intro sum_list_nonneg) (auto simp: channel_bound_def bounded_spec_def pos_imp_zdiv_nonneg_iff)
  show T: "\<bar>sint (rs_Intercept spec)\<bar> + R * \<bar>sint (rs_RRFCoefficient spec)\<bar> +
       sum_list (map feature_bound (rs_Features spec)) \<le> 9223372036854775807"
    using assms(1) by (simp add: bounded_spec_def scoreBoundFits_def R_def a)
  have "sint (rs_RRFCoefficient spec) \<noteq> 0"
    using assms(1) by (metis bounded_spec_def signed_0 signed_word_eqI)
  then have "R * 1 \<le> R * \<bar>sint (rs_RRFCoefficient spec)\<bar>" using R by (intro mult_left_mono) auto
  then show "R \<le> 9223372036854775807" using T F by linarith
qed


section \<open>The loops compute the exact score\<close>

lemma contribution_exact:
  fixes k r :: uint32 and w :: int32
  assumes w: "0 < sint w" and r: "r \<noteq> 0"
  shows "\<exists>product. checkedMul (scast w) rrfScale = Some product \<and>
    sint (int64_div product (ucast k + ucast r)) = sint w * 1000000 div (uint k + uint r)"
    and "0 \<le> sint w * 1000000 div (uint k + uint r)"
    and "sint w * 1000000 div (uint k + uint r) \<le> sint w * 1000000 div (uint k + 1)"
proof -
  have r1: "1 \<le> uint r" using r uint_0_iff [of r] uint32_range(1) [of r] by linarith
  have k0: "0 \<le> uint k" by simp
  have kr: "0 < uint k + uint r" using r1 k0 by linarith
  have scale: "sint rrfScale = 1000000" by (simp add: rrfScale_def)
  have f: "fits64 (sint (scast w :: int64) * sint rrfScale)"
    using w sint32_range(2) [of w] unfolding sint_scast32 scale fits64_def by linarith
  have p: "sint (scast w * rrfScale) = sint w * 1000000"
    using sint_mult [OF f] by (simp only: sint_scast32 scale)
  have "sint (ucast k + ucast r :: int64) \<noteq> -1" unfolding sint_ucast_add32 using r1 k0 by linarith
  from sint_int64_div [OF this]
  have "sint (int64_div (scast w * rrfScale) (ucast k + ucast r)) = quot (sint w * 1000000) (uint k + uint r)"
    by (simp only: p sint_ucast_add32)
  also have "\<dots> = sint w * 1000000 div (uint k + uint r)" using w kr by (simp add: quot_nonneg)
  finally show "\<exists>product. checkedMul (scast w) rrfScale = Some product \<and>
      sint (int64_div product (ucast k + ucast r)) = sint w * 1000000 div (uint k + uint r)"
    using f by (simp add: checkedMul_exact)
  show "0 \<le> sint w * 1000000 div (uint k + uint r)"
    using w kr by (simp add: pos_imp_zdiv_nonneg_iff)
  show "sint w * 1000000 div (uint k + uint r) \<le> sint w * 1000000 div (uint k + 1)"
    using w r1 k0 by (intro zdiv_mono2) auto
qed

lemma rrf_loop_exact:
  assumes b: "bounded_spec spec" and seen: "distinct seen" "set seen \<subseteq> dom (channel_weights spec)"
    and rrf: "0 \<le> sint rrf" "sint rrf \<le> (\<Sum>n \<in> set seen. weight_bound spec n)"
  shows "case rrf_loop spec (channel_weights spec) seen rrf crs of
      Inl e \<Rightarrow> \<exists>msg. e = ErrInvalidCandidate msg
    | Inr r \<Rightarrow> sint r = sint rrf + rrf_sum spec crs \<and> 0 \<le> sint r \<and>
        sint r \<le> (\<Sum>n \<in> dom (channel_weights spec). weight_bound spec n)"
  using seen rrf
proof (induction crs arbitrary: seen rrf)
  case Nil
  have "(\<Sum>n \<in> set seen. weight_bound spec n) \<le> (\<Sum>n \<in> dom (channel_weights spec). weight_bound spec n)"
    using Nil.prems(2) weight_bound_nonneg [OF b] by (intro sum_mono2) (auto simp: dom_channel_weights)
  with Nil show ?case by (simp add: rrf_sum_def)
next
  case (Cons cr crs)
  let ?n = "ck_Channel cr"
  show ?case
  proof (cases "channel_weights spec ?n = None \<or> ck_Rank cr = 0 \<or> ck_Rank cr > rs_MaxCandidates spec \<or> ?n \<in> set seen")
    case True
    then show ?thesis by (auto split: option.splits)
  next
    case False
    then obtain w where w: "channel_weights spec ?n = Some w" by auto
    then have d: "?n \<in> dom (channel_weights spec)" by blast
    have w0: "0 < sint w" using w b by (auto simp: bounded_spec_def dest!: channel_weights_channel)
    let ?c = "sint w * 1000000 div (uint (rs_RRFK spec) + uint (ck_Rank cr))"
    obtain product where pr: "checkedMul (scast w) rrfScale = Some product"
      "sint (int64_div product (ucast (rs_RRFK spec) + ucast (ck_Rank cr))) = ?c"
      using contribution_exact(1) [OF w0, of "ck_Rank cr" "rs_RRFK spec"] False by blast
    have c: "0 \<le> ?c" "?c \<le> weight_bound spec ?n"
      using contribution_exact(2,3) [OF w0, of "ck_Rank cr" "rs_RRFK spec"] False w
      by (simp_all add: weight_bound_def)
    have sum: "sint rrf + ?c \<le> (\<Sum>n \<in> set (?n # seen). weight_bound spec n)"
      using Cons.prems False c(2) by simp
    also have "\<dots> \<le> (\<Sum>n \<in> dom (channel_weights spec). weight_bound spec n)"
      using Cons.prems(2) d weight_bound_nonneg [OF b]
      by (intro sum_mono2) (auto simp: dom_channel_weights)
    also have "\<dots> \<le> 9223372036854775807"
      using rrf_total [OF b] bounded_spec_totals(2) [OF b] by linarith
    finally have fits: "fits64 (sint rrf + ?c)" using Cons.prems(3) c(1) by (simp add: fits64_def)
    let ?rrf = "rrf + int64_div product (ucast (rs_RRFK spec) + ucast (ck_Rank cr))"
    have "checkedAdd rrf (int64_div product (ucast (rs_RRFK spec) + ucast (ck_Rank cr))) = Some ?rrf"
      using fits pr(2) by (simp add: checkedAdd_exact)
    moreover have "sint ?rrf = sint rrf + ?c" using fits pr(2) by (simp add: sint_add)
    ultimately show ?thesis
      using Cons.IH [of "?n # seen" ?rrf] Cons.prems False w d pr(1) c(1) sum
      by (auto simp: rrf_sum_def split: sum.splits)
  qed
qed

lemma provided_loop_result:
  assumes "provided_loop specs provided fs = Inr p"
  shows "p = provided ++ map_of (map (\<lambda>v. (fv_Name v, fv_Value v)) fs) \<and>
    dom provided \<inter> fv_Name ` set fs = {} \<and>
    (\<forall>v \<in> set fs. \<exists>s. specs (fv_Name v) = Some s \<and> sint (fs_Minimum s) \<le> sint (fv_Value v) \<and>
       sint (fv_Value v) \<le> sint (fs_Maximum s))"
  using assms
proof (induction fs arbitrary: provided)
  case Nil
  then show ?case by simp
next
  case (Cons f fs)
  let ?m = "map_of (map (\<lambda>v. (fv_Name v, fv_Value v)) fs)"
  from Cons.prems obtain s where s: "specs (fv_Name f) = Some s" "provided (fv_Name f) = None"
    "sint (fs_Minimum s) \<le> sint (fv_Value f)" "sint (fv_Value f) \<le> sint (fs_Maximum s)"
    "provided_loop specs (provided(fv_Name f \<mapsto> fv_Value f)) fs = Inr p"
    by (auto split: if_splits option.splits)
  note IH = Cons.IH [OF s(5)]
  have "?m (fv_Name f) = None" using IH by (force simp: map_of_eq_None_iff)
  then have "p = provided ++ map_of (map (\<lambda>v. (fv_Name v, fv_Value v)) (f # fs))"
    using IH by (auto simp: fun_eq_iff map_add_def split: option.splits)
  moreover have "dom provided \<inter> fv_Name ` set (f # fs) = {}"
  proof -
    have "insert (fv_Name f) (dom provided) \<inter> fv_Name ` set fs = {}"
      using IH by (simp only: dom_fun_upd) simp
    then show ?thesis using s(2) by (simp add: domIff)
  qed
  moreover have "\<forall>v \<in> set (f # fs). \<exists>s. specs (fv_Name v) = Some s \<and>
      sint (fs_Minimum s) \<le> sint (fv_Value v) \<and> sint (fv_Value v) \<le> sint (fs_Maximum s)"
    using IH s by simp
  ultimately show ?case by blast
qed

lemma provided_loop_error: "provided_loop specs provided fs = Inl e \<Longrightarrow> \<exists>msg. e = ErrInvalidCandidate msg"
  by (induction fs arbitrary: provided) (auto split: if_splits option.splits)

lemma feature_term_bound:
  assumes "sint (fs_Minimum f) \<le> sint v" "sint v \<le> sint (fs_Maximum f)"
  shows "\<bar>sint v * sint (fs_Coefficient f)\<bar> \<le> feature_bound f"
proof -
  have "\<bar>sint v\<bar> \<le> max64 (abs32 (fs_Minimum f)) (abs32 (fs_Maximum f))"
    using assms unfolding max64_def abs32_def by (auto split: if_splits)
  then have "\<bar>sint v\<bar> * \<bar>sint (fs_Coefficient f)\<bar> \<le>
      max64 (abs32 (fs_Minimum f)) (abs32 (fs_Maximum f)) * \<bar>sint (fs_Coefficient f)\<bar>"
    by (rule mult_right_mono) simp
  moreover have "abs32 (fs_Coefficient f) = \<bar>sint (fs_Coefficient f)\<bar>" by (simp add: abs32_def)
  ultimately show ?thesis by (simp add: feature_bound_def abs_mult)
qed

lemma feature_loop_exact:
  assumes "\<forall>f \<in> set specs. sint (fs_Minimum f) \<le> sint (val f) \<and> sint (val f) \<le> sint (fs_Maximum f)"
    and "\<forall>f \<in> set specs. val f = (case provided (fs_Name f) of None \<Rightarrow> fs_Missing f | Some v \<Rightarrow> v)"
    and "\<bar>sint score\<bar> + sum_list (map feature_bound specs) \<le> 9223372036854775807"
  shows "\<exists>r. feature_loop provided score specs = Inr r \<and>
    sint r = sint score + sum_list (map (\<lambda>f. sint (val f) * sint (fs_Coefficient f)) specs)"
  using assms
proof (induction specs arbitrary: score)
  case Nil
  then show ?case by simp
next
  case (Cons f fs)
  let ?v = "case provided (fs_Name f) of None \<Rightarrow> fs_Missing f | Some v \<Rightarrow> v"
  let ?t = "sint (val f) * sint (fs_Coefficient f)"
  have v: "?v = val f" using Cons.prems(2) by simp
  have t: "\<bar>?t\<bar> \<le> feature_bound f" using Cons.prems(1) by (intro feature_term_bound) auto
  have nn: "0 \<le> sum_list (map feature_bound fs)"
    by (rule sum_list_nonneg) (auto simp: feature_bound_def max64_def abs32_def)
  have tot: "\<bar>sint score\<bar> + \<bar>?t\<bar> + sum_list (map feature_bound fs) \<le> 9223372036854775807"
    using t Cons.prems(3) by simp
  have fm: "fits64 (sint (scast (val f) :: int64) * sint (scast (fs_Coefficient f) :: int64))"
    using tot nn unfolding sint_scast32 fits64_def by linarith
  let ?trm = "scast (val f) * scast (fs_Coefficient f) :: int64"
  have st: "sint ?trm = ?t" using sint_mult [OF fm] by (simp only: sint_scast32)
  have fa: "fits64 (sint score + sint ?trm)"
    using tot nn unfolding st fits64_def by linarith
  have sc: "sint (score + ?trm) = sint score + ?t" using sint_add [OF fa] st by simp
  have "\<bar>sint (score + ?trm)\<bar> + sum_list (map feature_bound fs) \<le> 9223372036854775807"
    using tot unfolding sc by linarith
  then obtain r where "feature_loop provided (score + ?trm) fs = Inr r"
    "sint r = sint (score + ?trm) + sum_list (map (\<lambda>f. sint (val f) * sint (fs_Coefficient f)) fs)"
    using Cons.IH [of "score + ?trm"] Cons.prems by auto
  then show ?case using fm fa sc
    by (simp add: Let_def v checkedMul_exact checkedAdd_exact)
qed

lemma feature_specs_self:
  assumes "bounded_spec spec" "f \<in> set (rs_Features spec)"
  shows "feature_specs spec (fs_Name f) = Some f"
proof -
  have "distinct (map fst (rev (map (\<lambda>f. (fs_Name f, f)) (rs_Features spec))))"
    using assms(1) by (simp add: bounded_spec_def comp_def rev_map [symmetric])
  then show ?thesis using assms(2) unfolding feature_specs_def by (intro map_of_is_SomeI) auto
qed

lemma scoreCandidate_exact:
  assumes b: "bounded_spec spec"
  shows "case scoreCandidate spec c of
      Inl e \<Rightarrow> \<exists>msg. e = ErrInvalidCandidate msg
    | Inr r \<Rightarrow> sint (rr_FinalScore r) = exact_score spec c"
proof (cases "rrf_loop spec (channel_weights spec) [] 0 (rc_ChannelRanks c)")
  case (Inl e)
  then show ?thesis
    using rrf_loop_exact [OF b, of "[]" 0 "rc_ChannelRanks c"] by (auto simp: scoreCandidate_def)
next
  case (Inr rrf)
  let ?T = "\<Sum>n \<in> dom (channel_weights spec). weight_bound spec n"
  let ?co = "sint (rs_RRFCoefficient spec)"
  have rrf: "sint rrf = rrf_sum spec (rc_ChannelRanks c)" "0 \<le> sint rrf" "sint rrf \<le> ?T"
    using rrf_loop_exact [OF b, of "[]" 0 "rc_ChannelRanks c"] Inr by auto
  show ?thesis
  proof (cases "provided_loop (feature_specs spec) Map.empty (rc_Features c)")
    case (Inl e)
    then show ?thesis using Inr provided_loop_error by (fastforce simp: scoreCandidate_def)
  next
    case (Inr p)
    note pl = provided_loop_result [OF Inr]
    let ?R = "sum_list (map (channel_bound (rs_RRFK spec)) (rs_Channels spec))"
    have "\<bar>sint rrf * ?co\<bar> \<le> ?R * \<bar>?co\<bar>"
      using rrf rrf_total [OF b] by (simp add: abs_mult mult_right_mono)
    then have bound: "\<bar>sint (rs_Intercept spec)\<bar> + \<bar>sint rrf * ?co\<bar> +
        sum_list (map feature_bound (rs_Features spec)) \<le> 9223372036854775807"
      using bounded_spec_totals(3) [OF b] by linarith
    let ?trm = "rrf * scast (rs_RRFCoefficient spec)"
    have fm: "fits64 (sint rrf * sint (scast (rs_RRFCoefficient spec) :: int64))"
      using bound bounded_spec_totals(4) [OF b] unfolding sint_scast32 fits64_def by linarith
    have st: "sint ?trm = sint rrf * ?co" using sint_mult [OF fm] by (simp only: sint_scast32)
    have fa: "fits64 (sint (rs_Intercept spec) + sint ?trm)"
      using bound bounded_spec_totals(4) [OF b] unfolding st fits64_def by linarith
    let ?score = "rs_Intercept spec + ?trm"
    have ss: "sint ?score = sint (rs_Intercept spec) + sint rrf * ?co" using sint_add [OF fa] st by simp
    have "\<exists>r. feature_loop p ?score (rs_Features spec) = Inr r \<and> sint r = sint ?score +
        sum_list (map (\<lambda>f. sint (given_value (rc_Features c) f) * sint (fs_Coefficient f)) (rs_Features spec))"
    proof (rule feature_loop_exact)
      show "\<bar>sint ?score\<bar> + sum_list (map feature_bound (rs_Features spec)) \<le> 9223372036854775807"
        using bound unfolding ss by linarith
      show "\<forall>f \<in> set (rs_Features spec). given_value (rc_Features c) f =
          (case p (fs_Name f) of None \<Rightarrow> fs_Missing f | Some v \<Rightarrow> v)"
        using pl by (simp add: given_value_def)
      show "\<forall>f \<in> set (rs_Features spec). sint (fs_Minimum f) \<le> sint (given_value (rc_Features c) f) \<and>
          sint (given_value (rc_Features c) f) \<le> sint (fs_Maximum f)"
        using b pl feature_specs_self [OF b]
        by (fastforce simp: given_value_def bounded_spec_def split: option.splits dest!: map_of_SomeD)
    qed
    then show ?thesis
      using \<open>rrf_loop _ _ _ _ _ = Inr rrf\<close> Inr fm fa ss rrf(1)
      by (auto simp: scoreCandidate_def checkedMul_exact checkedAdd_exact exact_score_def mult.commute)
  qed
qed


section \<open>The order of results\<close>

type_synonym result_key = "int \<times> int \<times> bool \<times> string"

definition result_key :: "RankResult \<Rightarrow> result_key" where
  "result_key r = (- sint (rr_FinalScore r), - sint (rr_VerificationStrength r), \<not> rr_ObservedEndToEnd r, rr_VersionID r)"

interpretation result_order: keyed_order result_less result_key
proof unfold_locales
  fix x y :: RankResult
  have "sint (rr_FinalScore x) = sint (rr_FinalScore y) \<longleftrightarrow> rr_FinalScore x = rr_FinalScore y"
    "sint (rr_VerificationStrength x) = sint (rr_VerificationStrength y) \<longleftrightarrow>
      rr_VerificationStrength x = rr_VerificationStrength y"
    by (auto intro: signed_word_eqI)
  then show "result_less x y \<longleftrightarrow> result_key x < result_key y"
    by (auto simp: result_less_def result_key_def)
qed

lemma score_all_iff:
  "score_all spec seen cs = Inr rs \<longleftrightarrow>
     list_all2 (\<lambda>c r. TrimSpace (rc_VersionID c) \<noteq> [] \<and> scoreCandidate spec c = Inr r) cs rs \<and>
     distinct (map rc_VersionID cs) \<and> set (map rc_VersionID cs) \<inter> set seen = {}"
proof (induction cs arbitrary: seen rs)
  case (Cons c cs)
  then show ?case by (cases rs) auto
qed auto

lemma score_all_error:
  assumes "bounded_spec spec" "score_all spec seen cs = Inl e"
  shows "\<exists>msg. e = ErrInvalidCandidate msg"
  using assms(2)
proof (induction cs arbitrary: seen)
  case (Cons c cs)
  then show ?case
    using scoreCandidate_exact [OF assms(1), of c]
    by (cases "scoreCandidate spec c"; cases "score_all spec (rc_VersionID c # seen) cs")
      (auto split: if_splits)
qed simp

lemma scoreCandidate_id: "scoreCandidate spec c = Inr r \<Longrightarrow> rr_VersionID r = rc_VersionID c"
  by (auto simp: scoreCandidate_def res_bind_def split: sum.splits option.splits)

lemma score_all_ids:
  assumes "score_all spec seen cs = Inr rs"
  shows "map rr_VersionID rs = map rc_VersionID cs"
proof -
  have "list_all2 (\<lambda>c r. TrimSpace (rc_VersionID c) \<noteq> [] \<and> scoreCandidate spec c = Inr r) cs rs"
    using assms by (simp add: score_all_iff)
  then show ?thesis by (induction rule: list_all2_induct) (auto dest: scoreCandidate_id)
qed

lemma distinct_ids_keys: "distinct (map rr_VersionID rs) \<Longrightarrow> distinct (map result_key rs)"
  by (auto simp: distinct_map inj_on_def result_key_def)

lemma number_results_props:
  "map rr_FinalScore (number_results i rs) = map rr_FinalScore rs"
  "map result_key (number_results i rs) = map result_key rs"
  "map rr_VersionID (number_results i rs) = map rr_VersionID rs"
  "map rr_Rank (number_results i rs) = map (\<lambda>k. of_nat (i + k + 1)) [0..<length rs]"
  "length (number_results i rs) = length rs"
proof -
  show "map rr_Rank (number_results i rs) = map (\<lambda>k. of_nat (i + k + 1)) [0..<length rs]"
    by (induction rs arbitrary: i)
      (auto simp: upt_conv_Cons map_Suc_upt [symmetric] comp_def simp del: upt_Suc)
qed (induction rs arbitrary: i; simp add: result_key_def)+

lemma Rank_Inr:
  assumes "ranking_Rank ext m cs = Inr out"
  obtains rs where "bounded_spec (rm_Spec m)" "score_all (rm_Spec m) [] cs = Inr rs"
    "out = number_results 0 (sort_slice result_less rs)"
proof -
  obtain v rs where v: "ranking_NewManifest ext (rm_Spec m) = Inr v" "score_all (rm_Spec m) [] cs = Inr rs"
    "out = number_results 0 (sort_slice result_less rs)"
    using assms by (auto simp: ranking_Rank_def split: sum.splits if_splits)
  from that [OF NewManifest_bounded [OF v(1)] v(2,3)] show thesis .
qed

section \<open>Properties\<close>

text \<open>C1: no overflow. For every manifest and every list of candidates, none of the overflow
  branches of the score computation is taken: \<^verbatim>\<open>Rank\<close> fails only by rejecting the manifest as a
  whole (the error without a message) or by rejecting a candidate.\<close>

theorem rank_never_overflows:
  "ranking_Rank ext m cs = Inl e \<Longrightarrow> e = ErrInvalidManifest [] \<or> (\<exists>msg. e = ErrInvalidCandidate msg)"
proof -
  assume r: "ranking_Rank ext m cs = Inl e"
  show ?thesis
  proof (cases "ranking_NewManifest ext (rm_Spec m)")
    case (Inl e')
    with r show ?thesis by (simp add: ranking_Rank_def)
  next
    case (Inr v)
    show ?thesis
    proof (cases "rm_ID m \<noteq> rm_ID v \<or> rm_CanonicalJSON m \<noteq> rm_CanonicalJSON v")
      case True
      with r Inr show ?thesis by (simp add: ranking_Rank_def)
    next
      case False
      with r Inr have "score_all (rm_Spec m) [] cs = Inl e"
        by (cases "score_all (rm_Spec m) [] cs") (simp_all add: ranking_Rank_def)
      then show ?thesis using score_all_error [OF NewManifest_bounded [OF Inr]] by blast
    qed
  qed
qed

definition sample_spec :: RankerSpec where
  "sample_spec = \<lparr>rs_Version = ''r1'', rs_RRFK = 60, rs_RRFCoefficient = 1, rs_MaxCandidates = 100,
     rs_Intercept = 5, rs_Channels = [\<lparr>cw_Channel = ''text'', cw_WeightMicros = 1000000\<rparr>],
     rs_Features = [\<lparr>fs_Name = ''fresh'', fs_Minimum = 0, fs_Maximum = 10, fs_Missing = 3, fs_Coefficient = 2\<rparr>]\<rparr>"

definition sample_manifest :: RankerManifest where
  "sample_manifest = \<lparr>rm_Spec = sample_spec,
     rm_ID = ''rnk_'' @ hash_bytes sample_externals (sample_print (json_ranker_spec sample_spec)),
     rm_CanonicalJSON = sample_print (json_ranker_spec sample_spec)\<rparr>"

definition sample_candidate :: "string \<Rightarrow> uint32 \<Rightarrow> RankCandidate" where
  "sample_candidate v r = \<lparr>rc_VersionID = v, rc_ChannelRanks = [\<lparr>ck_Channel = ''text'', ck_Rank = r\<rparr>],
     rc_Features = [], rc_VerificationStrength = 1, rc_ObservedEndToEnd = True\<rparr>"

lemma sample_trims:
  "TrimSpace ''r1'' = ''r1''" "TrimSpace ''text'' = ''text''" "TrimSpace ''fresh'' = ''fresh''"
  "TrimSpace ''a'' = ''a''" "TrimSpace ''b'' = ''b''"
  by code_simp+

lemma sample_NewManifest: "ranking_NewManifest sample_externals sample_spec = Inr sample_manifest"
  by (simp add: ranking_NewManifest_def sample_spec_def sample_manifest_def sample_trims Let_def
      scoreBoundFits_def channel_bound_def feature_bound_def max64_def abs32_def MarshalAndHash_sample)

theorem rank_never_overflows_witness:
  "ranking_Rank sample_externals sample_manifest [sample_candidate [] 1] =
     Inl (ErrInvalidCandidate ''version ID required'') \<and>
   ErrInvalidCandidate ''version ID required'' \<noteq> ErrInvalidManifest ''score overflow''"
proof -
  have "TrimSpace [] = []" by code_simp
  then have "ranking_Rank sample_externals sample_manifest [sample_candidate [] 1] =
     Inl (ErrInvalidCandidate ''version ID required'')"
    using sample_NewManifest by (simp add: ranking_Rank_def sample_manifest_def sample_candidate_def)
  with rank_never_overflows [OF this] show ?thesis by simp
qed

text \<open>C23: the 64 bit score is the exact score. Every result of \<^verbatim>\<open>Rank\<close> belongs to one candidate,
  and its final score, read as a signed integer, is the weighted sum of reciprocal ranks and
  features computed in unbounded integers.\<close>

theorem rank_scores_exact:
  assumes "ranking_Rank ext m cs = Inr out"
  shows "mset (map (\<lambda>r. (rr_VersionID r, sint (rr_FinalScore r))) out) =
         mset (map (\<lambda>c. (rc_VersionID c, exact_score (rm_Spec m) c)) cs)"
proof (rule Rank_Inr [OF assms])
  fix rs
  assume b: "bounded_spec (rm_Spec m)" and rs: "score_all (rm_Spec m) [] cs = Inr rs"
    and out: "out = number_results 0 (sort_slice result_less rs)"
  let ?f = "\<lambda>r. (rr_VersionID r, sint (rr_FinalScore r))"
  have "map ?f (number_results i xs) = map ?f xs" for i xs
    by (induction xs arbitrary: i) auto
  then have "mset (map ?f out) = mset (map ?f rs)" by (simp add: out)
  moreover have "map ?f rs = map (\<lambda>c. (rc_VersionID c, exact_score (rm_Spec m) c)) cs"
  proof -
    have "list_all2 (\<lambda>c r. TrimSpace (rc_VersionID c) \<noteq> [] \<and> scoreCandidate (rm_Spec m) c = Inr r) cs rs"
      using rs by (simp add: score_all_iff)
    then show ?thesis
    proof (induction rule: list_all2_induct)
      case (Cons c cs r rs)
      then show ?case using scoreCandidate_exact [OF b, of c] by (auto dest: scoreCandidate_id)
    qed simp
  qed
  ultimately show ?thesis by simp
qed

lemma sample_rank:
  "\<exists>out. ranking_Rank sample_externals sample_manifest [sample_candidate ''b'' 2, sample_candidate ''a'' 1] = Inr out"
proof -
  have "sint (1000000 :: int64) = 1000000" "uint (60::uint32) = 60" by simp_all
  have "case scoreCandidate sample_spec (sample_candidate ''b'' 2) of Inl _ \<Rightarrow> False | Inr _ \<Rightarrow> True"
    "case scoreCandidate sample_spec (sample_candidate ''a'' 1) of Inl _ \<Rightarrow> False | Inr _ \<Rightarrow> True"
    by code_simp+
  then obtain x y where "scoreCandidate sample_spec (sample_candidate ''b'' 2) = Inr x"
      "scoreCandidate sample_spec (sample_candidate ''a'' 1) = Inr y"
    by (auto split: sum.splits)
  then show ?thesis using sample_NewManifest
    by (simp add: ranking_Rank_def sample_manifest_def sample_candidate_def sample_trims)
qed

theorem rank_scores_exact_witness:
  "\<exists>out. ranking_Rank sample_externals sample_manifest [sample_candidate ''b'' 2, sample_candidate ''a'' 1] = Inr out \<and>
     mset (map (\<lambda>r. (rr_VersionID r, sint (rr_FinalScore r))) out) =
     {# (''b'', 16129032269), (''a'', 16393442633) #}"
proof -
  obtain out where out: "ranking_Rank sample_externals sample_manifest
      [sample_candidate ''b'' 2, sample_candidate ''a'' 1] = Inr out"
    using sample_rank by blast
  have "exact_score (rm_Spec sample_manifest) (sample_candidate v 2) = 16129032269"
    "exact_score (rm_Spec sample_manifest) (sample_candidate v 1) = 16393442633" for v
    by (simp_all add: exact_score_def rrf_sum_def given_value_def sample_manifest_def sample_spec_def
        sample_candidate_def channel_weights_def)
  then show ?thesis using rank_scores_exact [OF out] out by (auto simp: sample_candidate_def)
qed

text \<open>The published order. The results of \<^verbatim>\<open>Rank\<close> are strictly ordered by final score,
  then verification strength, then whether the procedure was observed end to end (all descending)
  and then by version identifier, and they carry the ranks 1 to n in that order.\<close>

theorem rank_sorted_and_numbered:
  assumes "ranking_Rank ext m cs = Inr out"
  shows "sorted_wrt (\<lambda>r r'. result_key r < result_key r') out \<and>
         map rr_Rank out = map (\<lambda>k. of_nat (k + 1)) [0..<length cs]"
proof (rule Rank_Inr [OF assms])
  fix rs
  assume rs: "score_all (rm_Spec m) [] cs = Inr rs"
    and out: "out = number_results 0 (sort_slice result_less rs)"
  have ids: "map rr_VersionID rs = map rc_VersionID cs" by (rule score_all_ids [OF rs])
  moreover have "distinct (map rc_VersionID cs)" using rs by (simp add: score_all_iff)
  ultimately have "distinct (map result_key rs)" by (simp add: distinct_ids_keys)
  then have "sorted_wrt (<) (map result_key out)"
    using result_order.keys_strictly_sorted [of rs] by (simp add: out number_results_props strictly_sorted_iff)
  moreover have "length rs = length cs" using ids by (metis length_map)
  moreover have "map rr_Rank out = map (\<lambda>k. of_nat (k + 1)) [0..<length rs]"
    by (simp add: out number_results_props)
  ultimately show ?thesis by (simp only: sorted_wrt_map)
qed

theorem rank_sorted_and_numbered_witness:
  "\<exists>out. ranking_Rank sample_externals sample_manifest [sample_candidate ''b'' 2, sample_candidate ''a'' 1] = Inr out \<and>
     map rr_Rank out = [1, 2]"
proof -
  obtain out where out: "ranking_Rank sample_externals sample_manifest
      [sample_candidate ''b'' 2, sample_candidate ''a'' 1] = Inr out"
    using sample_rank by blast
  then show ?thesis using rank_sorted_and_numbered [OF out] by (auto simp: upt_rec)
qed

lemma score_all_permuted:
  assumes "mset cs = mset cs'" "score_all spec [] cs = Inr rs"
  obtains rs' where "score_all spec [] cs' = Inr rs'" "mset rs' = mset rs"
proof -
  let ?R = "\<lambda>c r. TrimSpace (rc_VersionID c) \<noteq> [] \<and> scoreCandidate spec c = Inr r"
  have "list_all2 ?R cs rs" "distinct (map rc_VersionID cs)"
    using assms(2) by (simp_all add: score_all_iff)
  from list_all2_reorder_left_invariance [OF this(1) assms(1) [symmetric]]
  obtain rs' where "list_all2 ?R cs' rs'" "mset rs' = mset rs" by blast
  moreover have "distinct (map rc_VersionID cs')"
    using \<open>distinct (map rc_VersionID cs)\<close> assms(1) by (metis mset_map mset_eq_imp_distinct_iff)
  ultimately show thesis using that [of rs'] by (simp add: score_all_iff)
qed

text \<open>The ranking does not depend on the order in which retrieval delivered the candidates:
  permuting them gives the same results in the same order, ranks included.\<close>

theorem rank_order_independent:
  assumes "ranking_Rank ext m cs = Inr out" "mset cs = mset cs'"
  shows "ranking_Rank ext m cs' = Inr out"
proof (rule Rank_Inr [OF assms(1)])
  fix rs
  assume rs: "score_all (rm_Spec m) [] cs = Inr rs"
    and out: "out = number_results 0 (sort_slice result_less rs)"
  obtain rs' where rs': "score_all (rm_Spec m) [] cs' = Inr rs'" "mset rs' = mset rs"
    using score_all_permuted [OF assms(2) rs] .
  have "distinct (map rr_VersionID rs)"
    using score_all_ids [OF rs] rs by (simp add: score_all_iff)
  then have "sort_slice result_less rs' = sort_slice result_less rs"
    by (metis result_order.sort_slice_cong_mset result_order.distinct_keys_total distinct_ids_keys rs'(2))
  moreover obtain v where "ranking_NewManifest ext (rm_Spec m) = Inr v"
      "rm_ID m = rm_ID v" "rm_CanonicalJSON m = rm_CanonicalJSON v"
    using assms(1) by (auto simp: ranking_Rank_def split: sum.splits if_splits)
  ultimately show ?thesis using rs' by (simp add: ranking_Rank_def out)
qed

theorem rank_order_independent_witness:
  "ranking_Rank sample_externals sample_manifest [sample_candidate ''a'' 1, sample_candidate ''b'' 2] =
   ranking_Rank sample_externals sample_manifest [sample_candidate ''b'' 2, sample_candidate ''a'' 1]"
proof -
  obtain out where "ranking_Rank sample_externals sample_manifest
      [sample_candidate ''b'' 2, sample_candidate ''a'' 1] = Inr out"
    using sample_rank by blast
  from rank_order_independent [OF this, of "[sample_candidate ''a'' 1, sample_candidate ''b'' 2]"] this
  show ?thesis by simp
qed

end
