(* ===== verification/Wilson.thy ===== *)
theory Wilson
  imports Machine Complex_Main
begin

text \<open>
  The Wilson lower confidence bound of \<^verbatim>\<open>internal/lifecycle/evaluate.go\<close>: a binary search over
  parts per million, in 32 bit words, whose test compares unbounded integers. The theorems
  relate it to the bound over the real numbers, in closed form.
\<close>

definition PartsPerMillion :: uint32 where "PartsPerMillion = 1000000"

definition atOrBelowWilsonLower :: "uint32 \<Rightarrow> uint64 \<Rightarrow> uint64 \<Rightarrow> uint32 \<Rightarrow> bool" where
  "atOrBelowWilsonLower ppm successes samples zSquaredPPM \<longleftrightarrow>
     (let n = uint samples; s = uint successes; q = uint PartsPerMillion;
          z = uint zSquaredPPM; m = uint ppm;
          nqPlusZ = n * q + z;
          leftCenter = 2 * (m * nqPlusZ);
          rightCenter = q * (2 * (s * q) + z)
      in if leftCenter > rightCenter then False
         else let term1 = n * (nqPlusZ * (m * m));
                  twoSQPlusZ = 2 * (s * q) + z;
                  term2 = n * (twoSQPlusZ * (m * q));
                  term3 = (s * s) * (q * (q * q))
              in term1 - term2 + term3 \<ge> 0)"

text \<open>
  The loop computes in 32 bit words. A run that never ends is \<^const>\<open>None\<close>: for the interval from 0
  to the largest word \<^verbatim>\<open>hi-lo+1\<close> is 0 and the loop would not advance. The interval of the code
  ends at a million, where it always returns (\<open>wilson_search_returns\<close>).
\<close>

partial_function (option) wilson_search :: "(uint32 \<Rightarrow> bool) \<Rightarrow> uint32 \<Rightarrow> uint32 \<Rightarrow> uint32 option" where
  [code]: "wilson_search below lo hi =
     (if lo < hi
      then let mid = lo + (hi - lo + 1) div 2
           in if below mid then wilson_search below mid hi else wilson_search below lo (mid - 1)
      else Some lo)"

definition WilsonLowerBoundPPM :: "uint64 \<Rightarrow> uint64 \<Rightarrow> uint32 \<Rightarrow> uint32" where
  "WilsonLowerBoundPPM successes samples zSquaredPPM =
     (if samples = 0 \<or> successes > samples \<or> zSquaredPPM = 0 then 0
      else the (wilson_search (\<lambda>mid. atOrBelowWilsonLower mid successes samples zSquaredPPM)
                  0 PartsPerMillion))"

section \<open>The binary search\<close>

lemma mid_bounds:
  assumes "(lo :: uint32) < hi" "unat hi \<le> 1000000"
  shows "unat (lo + (hi - lo + 1) div 2) = unat lo + (unat hi - unat lo + 1) div 2"
    "unat (lo + (hi - lo + 1) div 2 - 1) = unat lo + (unat hi - unat lo + 1) div 2 - 1"
proof -
  have l: "unat lo < unat hi" using assms(1) by (simp add: word_less_nat_alt)
  have d: "unat (hi - lo) = unat hi - unat lo"
    using assms(1) by (simp add: unat_sub_if_size word_le_nat_alt l less_imp_le)
  have e: "unat (hi - lo + 1) = unat hi - unat lo + 1"
    using d assms(2) l by (subst unat_add_lem [THEN iffD1]) simp_all
  have h: "unat ((hi - lo + 1) div 2) = (unat hi - unat lo + 1) div 2"
    using e by (simp add: unat_div)
  show m: "unat (lo + (hi - lo + 1) div 2) = unat lo + (unat hi - unat lo + 1) div 2"
    using h assms(2) l by (subst unat_add_lem [THEN iffD1]) simp_all
  have "(1 :: uint32) \<le> lo + (hi - lo + 1) div 2"
    using m l by (simp add: word_le_nat_alt)
  then show "unat (lo + (hi - lo + 1) div 2 - 1) = unat lo + (unat hi - unat lo + 1) div 2 - 1"
    using m by (simp add: unat_sub)
qed

text \<open>
  For a test that holds up to some point, the search returns the last value of the interval for
  which it holds.
\<close>

lemma wilson_search_returns:
  assumes "unat lo \<le> unat hi" "unat hi \<le> 1000000" "below lo"
    and "\<And>m. unat m > unat hi \<Longrightarrow> unat m \<le> 1000000 \<Longrightarrow> \<not> below m"
    and down: "\<And>m m'. below m \<Longrightarrow> unat m' \<le> unat m \<Longrightarrow> below m'"
  shows "\<exists>r. wilson_search below lo hi = Some r \<and> below r \<and> unat r \<le> unat hi \<and>
             (\<forall>m. unat r < unat m \<and> unat m \<le> 1000000 \<longrightarrow> \<not> below m)"
  using assms(1-4)
proof (induction "unat hi - unat lo" arbitrary: lo hi rule: less_induct)
  case less
  show ?case
  proof (cases "lo < hi")
    case False
    with less.prems(1) have "lo = hi" by (simp add: word_less_nat_alt word_unat_eq_iff)
    then show ?thesis using less.prems by (subst wilson_search.simps) auto
  next
    case True
    let ?mid = "lo + (hi - lo + 1) div 2"
    note mb = mid_bounds [OF True less.prems(2)]
    have l: "unat lo < unat hi" using True by (simp add: word_less_nat_alt)
    then have m: "unat lo < unat ?mid" "unat ?mid \<le> unat hi" using mb(1) by simp_all
    show ?thesis
    proof (cases "below ?mid")
      case T: True
      have "wilson_search below lo hi = wilson_search below ?mid hi"
        using True T by (subst wilson_search.simps) simp
      moreover have "\<exists>r. wilson_search below ?mid hi = Some r \<and> below r \<and> unat r \<le> unat hi \<and>
             (\<forall>m. unat r < unat m \<and> unat m \<le> 1000000 \<longrightarrow> \<not> below m)"
        by (rule less.hyps) (use m l T less.prems in auto)
      ultimately show ?thesis by simp
    next
      case F: False
      have e: "wilson_search below lo hi = wilson_search below lo (?mid - 1)"
        using True F by (subst wilson_search.simps) simp
      have "\<exists>r. wilson_search below lo (?mid - 1) = Some r \<and> below r \<and> unat r \<le> unat (?mid - 1) \<and>
             (\<forall>m. unat r < unat m \<and> unat m \<le> 1000000 \<longrightarrow> \<not> below m)"
      proof (rule less.hyps)
        show "unat (?mid - 1) - unat lo < unat hi - unat lo" "unat lo \<le> unat (?mid - 1)"
          "unat (?mid - 1) \<le> 1000000"
          using mb m l less.prems(2) by linarith+
        show "below lo" by (rule less.prems(3))
        show "\<not> below x" if "unat (?mid - 1) < unat x" for x
        proof -
          have "unat ?mid \<le> unat x" using that mb m by linarith
          then show ?thesis using down F by blast
        qed
      qed
      moreover have "unat (?mid - 1) \<le> unat hi" using mb m by linarith
      ultimately show ?thesis unfolding e by (meson le_trans)
    qed
  qed
qed

section \<open>The bound over the reals\<close>

text \<open>The Wilson score interval's lower end for \<open>s\<close> successes of \<open>n\<close> and \<open>zz = z\<^sup>2\<close>.\<close>

definition wilson_lower :: "real \<Rightarrow> real \<Rightarrow> real \<Rightarrow> real" where
  "wilson_lower s n zz = (2 * s + zz - sqrt (zz * (zz + 4 * s * (1 - s / n)))) / (2 * (n + zz))"

text \<open>Being at or below the smaller root of a parabola that opens upwards.\<close>

lemma below_smaller_root:
  fixes a b c x :: real
  assumes "a > 0" "b\<^sup>2 - 4 * a * c \<ge> 0"
  shows "x \<le> (b - sqrt (b\<^sup>2 - 4 * a * c)) / (2 * a) \<longleftrightarrow> 2 * a * x \<le> b \<and> a * x\<^sup>2 - b * x + c \<ge> 0"
proof -
  let ?d = "b\<^sup>2 - 4 * a * c"
  have sq: "(b - 2 * a * x)\<^sup>2 = ?d + 4 * a * (a * x\<^sup>2 - b * x + c)"
    by (simp add: power2_eq_square algebra_simps)
  have "x \<le> (b - sqrt ?d) / (2 * a) \<longleftrightarrow> sqrt ?d \<le> b - 2 * a * x"
    using assms(1) by (simp add: pos_le_divide_eq algebra_simps)
  also have "\<dots> \<longleftrightarrow> 0 \<le> b - 2 * a * x \<and> ?d \<le> (b - 2 * a * x)\<^sup>2"
  proof
    assume h: "sqrt ?d \<le> b - 2 * a * x"
    have "0 \<le> sqrt ?d" using assms(2) by simp
    with h have "0 \<le> b - 2 * a * x" by (rule order_trans [rotated])
    moreover have "(sqrt ?d)\<^sup>2 \<le> (b - 2 * a * x)\<^sup>2" by (rule power_mono [OF h \<open>0 \<le> sqrt ?d\<close>])
    ultimately show "0 \<le> b - 2 * a * x \<and> ?d \<le> (b - 2 * a * x)\<^sup>2" using assms(2) by simp
  next
    assume "0 \<le> b - 2 * a * x \<and> ?d \<le> (b - 2 * a * x)\<^sup>2"
    then show "sqrt ?d \<le> b - 2 * a * x" by (intro real_le_lsqrt) simp_all
  qed
  also have "\<dots> \<longleftrightarrow> 2 * a * x \<le> b \<and> 0 \<le> 4 * a * (a * x\<^sup>2 - b * x + c)" using sq by auto
  also have "\<dots> \<longleftrightarrow> 2 * a * x \<le> b \<and> a * x\<^sup>2 - b * x + c \<ge> 0"
    using assms(1) by (simp add: zero_le_mult_iff)
  finally show ?thesis .
qed

lemma wilson_lower_all:
  assumes "n > 0" "0 \<le> zz"
  shows "wilson_lower n n zz = n / (n + zz)"
  using assms by (simp add: wilson_lower_def flip: power2_eq_square)
    (simp add: field_simps)

lemma wilson_discriminant:
  fixes s n zz :: real
  assumes "n > 0"
  shows "(2 * s + zz)\<^sup>2 - 4 * (n + zz) * (s\<^sup>2 / n) = zz * (zz + 4 * s * (1 - s / n))"
  using assms by (simp add: power2_eq_square field_simps)

lemma wilson_discriminant_nonneg:
  fixes s n zz :: real
  assumes "n > 0" "0 \<le> s" "s \<le> n" "0 \<le> zz"
  shows "0 \<le> zz * (zz + 4 * s * (1 - s / n))"
proof -
  have "0 \<le> 1 - s / n" using assms by simp
  then have "0 \<le> 4 * s * (1 - s / n)" using assms(2) by simp
  with assms(4) show ?thesis by (metis add_nonneg_nonneg mult_nonneg_nonneg)
qed

lemma below_wilson_lower:
  fixes s n zz x :: real
  assumes "n > 0" "0 \<le> s" "s \<le> n" "0 \<le> zz"
  shows "x \<le> wilson_lower s n zz \<longleftrightarrow>
    2 * (n + zz) * x \<le> 2 * s + zz \<and> (n + zz) * x\<^sup>2 - (2 * s + zz) * x + s\<^sup>2 / n \<ge> 0"
  unfolding wilson_lower_def wilson_discriminant [OF assms(1), symmetric]
proof (rule below_smaller_root)
  show "0 < n + zz" using assms by simp
  show "0 \<le> (2 * s + zz)\<^sup>2 - 4 * (n + zz) * (s\<^sup>2 / n)"
    unfolding wilson_discriminant [OF assms(1)] by (rule wilson_discriminant_nonneg [OF assms])
qed

lemma real_uint: "real_of_int (uint (w :: 'a::len word)) = real (unat w)"
  by simp

declare of_nat_unat [simp del] of_int_uint [simp del]

text \<open>The integer test decides the comparison with the real bound.\<close>

lemma atOrBelowWilsonLower_real:
  assumes "samples \<noteq> 0" "\<not> successes > samples"
  shows "atOrBelowWilsonLower ppm successes samples z \<longleftrightarrow>
    real_of_int (uint ppm) / 1000000 \<le>
      wilson_lower (real_of_int (uint successes)) (real_of_int (uint samples)) (real_of_int (uint z) / 1000000)"
proof -
  let ?n = "real_of_int (uint samples)" and ?s = "real_of_int (uint successes)"
  let ?z = "real_of_int (uint z)" and ?m = "real_of_int (uint ppm)"
  let ?q = "1000000 :: real"
  have n: "?n > 0" using assms(1) unfolding of_int_0_less_iff by (simp add: word_neq_0_conv word_less_def)
  have s: "?s \<le> ?n" using assms(2) unfolding of_int_le_iff by (simp add: word_less_def)
  have s0: "0 \<le> ?s" and z0: "0 \<le> ?z / ?q" by simp_all
  have "2 * (?m * (?n * ?q + ?z)) = (?q * ?q) * (2 * (?n + ?z / ?q) * (?m / ?q))"
    "?q * (2 * (?s * ?q) + ?z) = (?q * ?q) * (2 * ?s + ?z / ?q)"
    by (simp_all add: field_simps)
  then have c: "2 * (?m * (?n * ?q + ?z)) \<le> ?q * (2 * (?s * ?q) + ?z) \<longleftrightarrow>
      2 * (?n + ?z / ?q) * (?m / ?q) \<le> 2 * ?s + ?z / ?q"
    by (simp only: mult_le_cancel_left_pos)
  have e: "?n * ((?n * ?q + ?z) * (?m * ?m)) - ?n * ((2 * (?s * ?q) + ?z) * (?m * ?q)) + (?s * ?s) * (?q * (?q * ?q)) =
      (?n * ?q ^ 3) * ((?n + ?z / ?q) * (?m / ?q)\<^sup>2 - (2 * ?s + ?z / ?q) * (?m / ?q) + ?s\<^sup>2 / ?n)"
    using n by (simp add: field_simps power2_eq_square power3_eq_cube)
  have "?n * ?q ^ 3 > 0" using n by simp
  then have d: "?n * ((?n * ?q + ?z) * (?m * ?m)) - ?n * ((2 * (?s * ?q) + ?z) * (?m * ?q)) + (?s * ?s) * (?q * (?q * ?q)) \<ge> 0 \<longleftrightarrow>
      (?n + ?z / ?q) * (?m / ?q)\<^sup>2 - (2 * ?s + ?z / ?q) * (?m / ?q) + ?s\<^sup>2 / ?n \<ge> 0"
    unfolding e by (simp only: zero_le_mult_iff) auto
  have "atOrBelowWilsonLower ppm successes samples z \<longleftrightarrow>
      real_of_int (2 * (uint ppm * (uint samples * 1000000 + uint z))) \<le>
        real_of_int (1000000 * (2 * (uint successes * 1000000) + uint z)) \<and>
      real_of_int (uint samples * ((uint samples * 1000000 + uint z) * (uint ppm * uint ppm)) -
        uint samples * ((2 * (uint successes * 1000000) + uint z) * (uint ppm * 1000000)) +
        (uint successes * uint successes) * (1000000 * (1000000 * 1000000))) \<ge> 0"
    unfolding atOrBelowWilsonLower_def Let_def of_int_le_iff of_int_0_le_iff
    by (auto simp: PartsPerMillion_def)
  also have "\<dots> \<longleftrightarrow> ?m / ?q \<le> wilson_lower ?s ?n (?z / ?q)"
    unfolding below_wilson_lower [OF n s0 s z0] c [symmetric] d [symmetric] by simp
  finally show ?thesis .
qed

lemma wilson_lower_range:
  fixes s n zz :: real
  assumes "n > 0" "0 \<le> s" "s \<le> n" "0 \<le> zz"
  shows "0 \<le> wilson_lower s n zz" "wilson_lower s n zz \<le> 1"
proof -
  show "0 \<le> wilson_lower s n zz" using assms by (simp add: below_wilson_lower [OF assms])
  have "2 * s + zz - sqrt (zz * (zz + 4 * s * (1 - s / n))) \<le> 2 * s + zz"
    using wilson_discriminant_nonneg [OF assms] by simp
  also have "\<dots> \<le> 2 * (n + zz)" using assms by simp
  finally show "wilson_lower s n zz \<le> 1" unfolding wilson_lower_def using assms by simp
qed

lemma wilson_floor:
  assumes "samples \<noteq> 0" "successes \<le> samples" "z \<noteq> 0"
  shows "(\<exists>r. wilson_search (\<lambda>mid. atOrBelowWilsonLower mid successes samples z) 0 PartsPerMillion = Some r) \<and>
         int (unat (WilsonLowerBoundPPM successes samples z)) =
         \<lfloor>1000000 * wilson_lower (real (unat successes)) (real (unat samples)) (real (unat z) / 1000000)\<rfloor>"
proof -
  let ?below = "\<lambda>mid. atOrBelowWilsonLower mid successes samples z"
  let ?w = "wilson_lower (real (unat successes)) (real (unat samples)) (real (unat z) / 1000000)"
  have le: "unat successes \<le> unat samples" using assms(2) by (simp add: word_le_nat_alt)
  have pos: "0 < unat samples" using assms(1) by (simp add: unat_gt_0)
  have real: "?below m \<longleftrightarrow> real (unat m) \<le> 1000000 * ?w" for m
  proof -
    have "?below m \<longleftrightarrow> real (unat m) / 1000000 \<le> ?w"
      using atOrBelowWilsonLower_real [of samples successes m z] assms by (simp add: not_less real_uint)
    then show ?thesis by (simp only: divide_le_eq) (simp add: mult.commute)
  qed
  have range: "0 \<le> ?w" "?w \<le> 1"
    using wilson_lower_range [of "real (unat samples)" "real (unat successes)"] le pos by simp_all
  have "\<exists>r. wilson_search ?below 0 PartsPerMillion = Some r \<and> ?below r \<and>
      unat r \<le> unat PartsPerMillion \<and> (\<forall>m. unat r < unat m \<and> unat m \<le> 1000000 \<longrightarrow> \<not> ?below m)"
  proof (rule wilson_search_returns)
    show "?below m'" if "?below m" "unat m' \<le> unat m" for m m'
    proof -
      have "real (unat m') \<le> real (unat m)" using that(2) by simp
      then show ?thesis using that(1) unfolding real by linarith
    qed
  qed (simp_all add: PartsPerMillion_def real range)
  then obtain r where r: "wilson_search ?below 0 PartsPerMillion = Some r" "?below r"
      "unat r \<le> 1000000" "\<forall>m. unat r < unat m \<and> unat m \<le> 1000000 \<longrightarrow> \<not> ?below m"
    by (auto simp: PartsPerMillion_def)
  have "1000000 * ?w < real (unat r) + 1"
  proof (cases "unat r = 1000000")
    case True
    then show ?thesis using range(2) by simp
  next
    case False
    have "unat (r + 1) = unat r + 1" using r(3) by (subst unat_add_lem [THEN iffD1]) simp_all
    then have "\<not> ?below (r + 1)" using r(3,4) False by simp
    then show ?thesis using \<open>unat (r + 1) = unat r + 1\<close> by (simp add: real)
  qed
  moreover have "real (unat r) \<le> 1000000 * ?w" using r(2) by (simp add: real)
  ultimately have "\<lfloor>1000000 * ?w\<rfloor> = int (unat r)" by (intro floor_unique) simp_all
  moreover have "WilsonLowerBoundPPM successes samples z = r"
    using assms r(1) by (simp add: WilsonLowerBoundPPM_def leD)
  ultimately show ?thesis using r(1) by simp
qed

lemma wilson_bound_le: "WilsonLowerBoundPPM successes samples z \<le> PartsPerMillion"
proof (cases "samples = 0 \<or> successes > samples \<or> z = 0")
  case True
  then show ?thesis by (auto simp: WilsonLowerBoundPPM_def)
next
  case False
  let ?w = "wilson_lower (real (unat successes)) (real (unat samples)) (real (unat z) / 1000000)"
  from False have le: "successes \<le> samples" by (simp add: not_less)
  have "unat successes \<le> unat samples" "0 < unat samples"
    using le False by (simp_all add: word_le_nat_alt unat_gt_0)
  then have "?w \<le> 1" using wilson_lower_range(2) [of "real (unat samples)" "real (unat successes)"] by simp
  then have "\<lfloor>1000000 * ?w\<rfloor> \<le> 1000000" by linarith
  then have "int (unat (WilsonLowerBoundPPM successes samples z)) \<le> 1000000"
    using wilson_floor [of samples successes z] False le by simp
  then show ?thesis by (simp add: PartsPerMillion_def word_le_nat_alt)
qed

section \<open>Properties\<close>

text \<open>C24: the Wilson bound is exact. For every count of successes and samples with
  \<^verbatim>\<open>successes <= samples\<close>, the loop returns, and its result is the largest whole number of parts
  per million that does not exceed the lower end of the Wilson score interval over the real
  numbers; neither the 32 bit search nor the integer comparison introduces an error.\<close>

theorem wilson_bound_is_floor:
  assumes "samples \<noteq> 0" "successes \<le> samples" "z \<noteq> 0"
  shows "(\<exists>r. wilson_search (\<lambda>mid. atOrBelowWilsonLower mid successes samples z) 0 PartsPerMillion = Some r) \<and>
         int (unat (WilsonLowerBoundPPM successes samples z)) =
         \<lfloor>1000000 * wilson_lower (real (unat successes)) (real (unat samples)) (real (unat z) / 1000000)\<rfloor>"
  using assms by (rule wilson_floor)

theorem wilson_bound_is_floor_witness:
  "int (unat (WilsonLowerBoundPPM 9 10 3841600)) =
     \<lfloor>1000000 * wilson_lower 9 10 (3841600 / 1000000)\<rfloor>"
  using wilson_bound_is_floor [of 10 9 3841600] by simp

end
