(* ===== verification/Sealing.thy ===== *)
theory Sealing
  imports Canonical
begin

text \<open>
  The interface behind the records that carry their own hash. A lifecycle decision, an
  experiment assignment, a credit record, a plan, a schedule, each package has a function
  \<^verbatim>\<open>seal\<close> that clears the identifier, hash and encoding (and brings some lists into canonical
  order), encodes the rest, and stores the three fields again; its validator clears a copy,
  seals it and compares. The locale states what such a seal consists of, and proves once what
  the validators rely on: sealing a sealed value, or its cleared copy, gives the value back.
\<close>

locale sealed_value =
  fixes seal :: "externals \<Rightarrow> 'a \<Rightarrow> 'e + 'a"
    and prepare :: "'a \<Rightarrow> 'a"
    and tree :: "'a \<Rightarrow> json"
    and stamp :: "string \<Rightarrow> string \<Rightarrow> 'a \<Rightarrow> 'a"
    and fault :: "canonical_error \<Rightarrow> 'e"
  assumes seal_unfold: "seal ext v =
      (case MarshalAndHash ext (tree (prepare v)) of
         Inl e \<Rightarrow> Inl (fault e)
       | Inr (encoded, hash) \<Rightarrow> Inr (stamp encoded hash (prepare v)))"
    and prepare_stamp: "prepare (stamp encoded hash v) = prepare v"
    and prepare_idem: "prepare (prepare v) = prepare v"
begin

lemma seal_prepare: "seal ext (prepare v) = seal ext v"
  by (simp only: seal_unfold prepare_idem)

lemma seal_Inr:
  assumes "seal ext v = Inr w"
  obtains encoded where "w = stamp encoded (hash_bytes ext encoded) (prepare v)"
    "MarshalAndHash ext (tree (prepare v)) = Inr (encoded, hash_bytes ext encoded)"
  using assms that by (auto simp: seal_unfold dest: MarshalAndHash_Inr split: sum.splits)

lemma prepare_sealed: "seal ext v = Inr w \<Longrightarrow> prepare w = prepare v"
  by (auto elim!: seal_Inr simp: prepare_stamp prepare_idem)

text \<open>A sealed value is a fixed point, and so is what a validator rebuilds from its copy.\<close>

lemma seal_stable: "seal ext v = Inr w \<Longrightarrow> seal ext w = Inr w"
  by (metis prepare_sealed seal_prepare)

lemma seal_rebuild: "seal ext v = Inr w \<Longrightarrow> seal ext (prepare w) = Inr w"
  by (simp add: seal_prepare seal_stable)

text \<open>
  Sealing depends on the prepared value only, so two values with the same content get the same
  identifier, hash and encoding.
\<close>

lemma seal_cong: "prepare v = prepare v' \<Longrightarrow> seal ext v = seal ext v'"
  by (simp only: seal_unfold)

end

end
