(* ===== verification/Lifecycle.thy ===== *)
theory Lifecycle
  imports Wilson Sealing
begin

text \<open>
  \<^verbatim>\<open>internal/lifecycle\<close>: the policy manifest (\<^verbatim>\<open>manifest.go\<close>) and the evaluation that moves a
  procedure version between candidate, trial, active, retired and quarantined on causal evidence
  (\<^verbatim>\<open>evaluate.go\<close>). Counters are 64 bit words whose sum may wrap around; windows are durations
  in 64 bit nanoseconds. The repository interface of the package has no code of its own besides
  the checks that call these functions.
\<close>

abbreviation "Candidate \<equiv> ''candidate''"
abbreviation "Trial \<equiv> ''trial''"
abbreviation "Active \<equiv> ''active''"
abbreviation "Retired \<equiv> ''retired''"
abbreviation "Quarantined \<equiv> ''quarantined''"

datatype lifecycle_error = ErrInvalidLifecycle | ErrLifecycleEncoding canonical_error

record PolicySpec =
  lp_Version :: string
  lp_WilsonZSquaredPPM :: uint32
  lp_TrialMinimumCausalSamples :: uint64
  lp_TrialMinimumWilsonLowerBoundPPM :: uint32
  lp_ActiveMinimumCausalSamples :: uint64
  lp_ActiveMinimumWilsonLowerBoundPPM :: uint32
  lp_TrialUnsafeOutcomeCeiling :: uint64
  lp_ActiveUnsafeOutcomeCeiling :: uint64
  lp_ImmediateQuarantineUnsafeCount :: uint64
  lp_EvidenceFreshnessSeconds :: uint64
  lp_MinimumTrialSeconds :: uint64

record PolicyManifest =
  lm_SchemaVersion :: string
  lm_Spec :: PolicySpec
  lm_ID :: string
  lm_ContentHash :: string
  lm_CanonicalJSON :: string

definition json_policy :: "PolicyManifest \<Rightarrow> json" where
  "json_policy m = (let p = lm_Spec m in JObj
     [(''schema_version'', JStr (lm_SchemaVersion m)), (''version'', JStr (lp_Version p)),
      (''wilson_z_squared_ppm'', JNum (uint (lp_WilsonZSquaredPPM p))),
      (''trial_minimum_causal_samples'', JNum (uint (lp_TrialMinimumCausalSamples p))),
      (''trial_minimum_wilson_lower_bound_ppm'', JNum (uint (lp_TrialMinimumWilsonLowerBoundPPM p))),
      (''active_minimum_causal_samples'', JNum (uint (lp_ActiveMinimumCausalSamples p))),
      (''active_minimum_wilson_lower_bound_ppm'', JNum (uint (lp_ActiveMinimumWilsonLowerBoundPPM p))),
      (''trial_unsafe_outcome_ceiling'', JNum (uint (lp_TrialUnsafeOutcomeCeiling p))),
      (''active_unsafe_outcome_ceiling'', JNum (uint (lp_ActiveUnsafeOutcomeCeiling p))),
      (''immediate_quarantine_unsafe_count'', JNum (uint (lp_ImmediateQuarantineUnsafeCount p))),
      (''evidence_freshness_seconds'', JNum (uint (lp_EvidenceFreshnessSeconds p))),
      (''minimum_trial_seconds'', JNum (uint (lp_MinimumTrialSeconds p)))])"

definition maximumPolicyWindowSeconds :: uint64 where
  "maximumPolicyWindowSeconds = 10 * 366 * 24 * 60 * 60"

definition validPolicy :: "PolicyManifest \<Rightarrow> bool" where
  "validPolicy manifest \<longleftrightarrow> (let p = lm_Spec manifest in
     tokenPattern (lp_Version p) \<and>
     lp_WilsonZSquaredPPM p > 0 \<and> lp_WilsonZSquaredPPM p \<le> 25 * PartsPerMillion \<and>
     lp_TrialMinimumCausalSamples p > 0 \<and> lp_ActiveMinimumCausalSamples p \<ge> lp_TrialMinimumCausalSamples p \<and>
     lp_TrialMinimumWilsonLowerBoundPPM p \<le> PartsPerMillion \<and>
     lp_ActiveMinimumWilsonLowerBoundPPM p \<le> PartsPerMillion \<and>
     lp_ActiveMinimumWilsonLowerBoundPPM p \<ge> lp_TrialMinimumWilsonLowerBoundPPM p \<and>
     lp_ImmediateQuarantineUnsafeCount p > 0 \<and>
     lp_TrialUnsafeOutcomeCeiling p < lp_ImmediateQuarantineUnsafeCount p \<and>
     lp_ActiveUnsafeOutcomeCeiling p < lp_ImmediateQuarantineUnsafeCount p \<and>
     lp_EvidenceFreshnessSeconds p > 0 \<and> lp_EvidenceFreshnessSeconds p \<le> maximumPolicyWindowSeconds \<and>
     lp_MinimumTrialSeconds p > 0 \<and> lp_MinimumTrialSeconds p \<le> maximumPolicyWindowSeconds)"

definition validState :: "string \<Rightarrow> bool" where
  "validState v \<longleftrightarrow> v = Candidate \<or> v = Trial \<or> v = Active \<or> v = Retired \<or> v = Quarantined"

definition NewPolicyManifest :: "externals \<Rightarrow> PolicySpec \<Rightarrow> lifecycle_error + PolicyManifest" where
  "NewPolicyManifest ext spec =
     (let manifest = \<lparr>lm_SchemaVersion = ''lifecycle-policy-manifest.v1'', lm_Spec = spec, lm_ID = [],
                      lm_ContentHash = [], lm_CanonicalJSON = []\<rparr>
      in if \<not> validPolicy manifest then Inl ErrInvalidLifecycle
         else case MarshalAndHash ext (json_policy manifest) of
           Inl e \<Rightarrow> Inl (ErrLifecycleEncoding e)
         | Inr (encoded, hash) \<Rightarrow>
             Inr (manifest\<lparr>lm_ID := ''lcman_'' @ hash, lm_ContentHash := hash, lm_CanonicalJSON := encoded\<rparr>))"

definition ValidatePolicyManifest :: "externals \<Rightarrow> PolicyManifest \<Rightarrow> bool" where
  "ValidatePolicyManifest ext manifest =
     (case NewPolicyManifest ext (lm_Spec manifest) of
        Inl _ \<Rightarrow> False
      | Inr rebuilt \<Rightarrow>
          lm_SchemaVersion manifest = lm_SchemaVersion rebuilt \<and> lm_ID manifest = lm_ID rebuilt \<and>
          lm_ContentHash manifest = lm_ContentHash rebuilt \<and>
          lm_CanonicalJSON manifest = lm_CanonicalJSON rebuilt)"

section \<open>Evaluation\<close>

record Evidence =
  ev_CausalSuccessCount :: uint64
  ev_CausalFailureCount :: uint64
  ev_AssociatedSuccessCount :: uint64
  ev_AssociatedFailureCount :: uint64
  ev_UnsafeOutcomeCount :: uint64
  ev_LatestCausalAt :: time
  ev_TrialStartedAt :: time
  ev_QuarantineTriggers :: "string list"

record EvaluationRequest =
  er_TenantID :: string
  er_ProcedureID :: string
  er_ProcedureVersionID :: string
  er_PriorState :: string
  er_Manifest :: PolicyManifest
  er_Evidence :: Evidence
  er_EvidenceCutoffAt :: time
  er_EvaluatedAt :: time

record Decision =
  ld_SchemaVersion :: string
  ld_ID :: string
  ld_TenantID :: string
  ld_ProcedureID :: string
  ld_ProcedureVersionID :: string
  ld_PolicyManifestID :: string
  ld_PriorState :: string
  ld_NextState :: string
  ld_CausalSuccessCount :: uint64
  ld_CausalFailureCount :: uint64
  ld_AssociatedSuccessCount :: uint64
  ld_AssociatedFailureCount :: uint64
  ld_UnsafeOutcomeCount :: uint64
  ld_WilsonLowerBoundPPM :: uint32
  ld_ReasonCodes :: "string list"
  ld_EvidenceCutoffAt :: time
  ld_EvaluatedAt :: time
  ld_ContentHash :: string
  ld_CanonicalJSON :: string

definition json_decision :: "Decision \<Rightarrow> json" where
  "json_decision d = JObj
     ([(''schema_version'', JStr (ld_SchemaVersion d)), (''lifecycle_decision_id'', JStr (ld_ID d)),
       (''tenant_id'', JStr (ld_TenantID d)), (''procedure_id'', JStr (ld_ProcedureID d)),
       (''procedure_version_id'', JStr (ld_ProcedureVersionID d)),
       (''lifecycle_policy_manifest_id'', JStr (ld_PolicyManifestID d)),
       (''prior_state'', JStr (ld_PriorState d)), (''next_state'', JStr (ld_NextState d)),
       (''causal_success_count'', JNum (uint (ld_CausalSuccessCount d))),
       (''causal_failure_count'', JNum (uint (ld_CausalFailureCount d))),
       (''associated_success_count'', JNum (uint (ld_AssociatedSuccessCount d))),
       (''associated_failure_count'', JNum (uint (ld_AssociatedFailureCount d))),
       (''unsafe_outcome_count'', JNum (uint (ld_UnsafeOutcomeCount d))),
       (''wilson_lower_bound_ppm'', JNum (uint (ld_WilsonLowerBoundPPM d))),
       (''reason_codes'', JArr (map JStr (ld_ReasonCodes d))),
       (''evidence_cutoff_at'', JTime (ld_EvidenceCutoffAt d)),
       (''evaluated_at'', JTime (ld_EvaluatedAt d))] @
      omit_str ''content_hash'' (ld_ContentHash d))"

abbreviation "ReasonCandidatePromoted \<equiv> ''candidate_promoted_to_trial''"
abbreviation "ReasonTrialPromoted \<equiv> ''trial_promoted_to_active''"
abbreviation "ReasonInsufficientSamples \<equiv> ''insufficient_causal_samples''"
abbreviation "ReasonWilsonBelowThreshold \<equiv> ''wilson_lower_bound_below_threshold''"
abbreviation "ReasonTrialDurationIncomplete \<equiv> ''minimum_trial_duration_incomplete''"
abbreviation "ReasonEvidenceStale \<equiv> ''causal_evidence_stale''"
abbreviation "ReasonUnsafeCeilingExceeded \<equiv> ''unsafe_outcome_ceiling_exceeded''"
abbreviation "ReasonImmediateQuarantine \<equiv> ''immediate_quarantine_triggered''"
abbreviation "ReasonActiveRollback \<equiv> ''active_version_rolled_back''"
abbreviation "ReasonTerminalState \<equiv> ''terminal_state_unchanged''"
abbreviation "ReasonStateMaintained \<equiv> ''state_maintained''"

definition thresholdReasons :: "uint64 \<Rightarrow> uint64 \<Rightarrow> uint32 \<Rightarrow> uint32 \<Rightarrow> string list" where
  "thresholdReasons samples minimum bound threshold =
     (if samples < minimum then [ReasonInsufficientSamples] else []) @
     (if bound < threshold then [ReasonWilsonBelowThreshold] else [])"

text \<open>\<^verbatim>\<open>cutoff.Add(-time.Duration(seconds) * time.Second)\<close>.\<close>

definition seconds_before :: "time \<Rightarrow> uint64 \<Rightarrow> time" where
  "seconds_before t s = time_Add t (sint (- s * 1000000000 :: int64))"

definition transition :: "EvaluationRequest \<Rightarrow> uint64 \<Rightarrow> uint32 \<Rightarrow> string \<times> string list" where
  "transition request samples bound =
     (let e = er_Evidence request; p = lm_Spec (er_Manifest request); prior = er_PriorState request;
          cutoff = er_EvidenceCutoffAt request
      in if prior = Retired \<or> prior = Quarantined then (prior, [ReasonTerminalState])
         else if ev_QuarantineTriggers e \<noteq> [] \<or> ev_UnsafeOutcomeCount e \<ge> lp_ImmediateQuarantineUnsafeCount p
           then (Quarantined, ReasonImmediateQuarantine # map (\<lambda>t. ''quarantine_trigger:'' @ t) (ev_QuarantineTriggers e))
         else let fresh = (\<not> time_IsZero (ev_LatestCausalAt e) \<and>
                           \<not> time_Before (ev_LatestCausalAt e) (seconds_before cutoff (lp_EvidenceFreshnessSeconds p)))
         in if prior = Active then
              (if \<not> fresh \<or> samples < lp_ActiveMinimumCausalSamples p \<or>
                  bound < lp_ActiveMinimumWilsonLowerBoundPPM p \<or>
                  ev_UnsafeOutcomeCount e > lp_ActiveUnsafeOutcomeCeiling p
               then (Retired,
                     [ReasonActiveRollback] @
                     (if \<not> fresh then [ReasonEvidenceStale] else []) @
                     (if samples < lp_ActiveMinimumCausalSamples p then [ReasonInsufficientSamples] else []) @
                     (if bound < lp_ActiveMinimumWilsonLowerBoundPPM p then [ReasonWilsonBelowThreshold] else []) @
                     (if ev_UnsafeOutcomeCount e > lp_ActiveUnsafeOutcomeCeiling p
                      then [ReasonUnsafeCeilingExceeded] else []))
               else (Active, [ReasonStateMaintained]))
            else if \<not> fresh then (prior, [ReasonEvidenceStale])
            else if prior = Candidate then
              (let reasons = thresholdReasons samples (lp_TrialMinimumCausalSamples p) bound
                               (lp_TrialMinimumWilsonLowerBoundPPM p) @
                             (if ev_UnsafeOutcomeCount e > lp_TrialUnsafeOutcomeCeiling p
                              then [ReasonUnsafeCeilingExceeded] else [])
               in if reasons \<noteq> [] then (Candidate, reasons) else (Trial, [ReasonCandidatePromoted]))
            else
              (let reasons = thresholdReasons samples (lp_ActiveMinimumCausalSamples p) bound
                               (lp_ActiveMinimumWilsonLowerBoundPPM p)
               in if ev_UnsafeOutcomeCount e > lp_ActiveUnsafeOutcomeCeiling p
                    then (Candidate, [ReasonUnsafeCeilingExceeded])
                  else let reasons = reasons @
                         (if time_IsZero (ev_TrialStartedAt e) \<or>
                             time_After (ev_TrialStartedAt e) (seconds_before cutoff (lp_MinimumTrialSeconds p))
                          then [ReasonTrialDurationIncomplete] else [])
                  in if reasons \<noteq> [] then (Trial, reasons) else (Active, [ReasonTrialPromoted])))"

text \<open>A list whose elements all match the pattern and increase strictly.\<close>

definition ordered_tokens :: "string list \<Rightarrow> bool" where
  "ordered_tokens codes \<longleftrightarrow> list_all tokenPattern codes \<and> strictly_sorted codes"

definition validEvidence :: "Evidence \<Rightarrow> time \<Rightarrow> bool" where
  "validEvidence v cutoff \<longleftrightarrow>
     \<not> (\<not> time_IsZero (ev_LatestCausalAt v) \<and>
        (\<not> time_Equal (ev_LatestCausalAt v) (time_UTC (ev_LatestCausalAt v)) \<or>
         time_After (ev_LatestCausalAt v) cutoff)) \<and>
     \<not> (\<not> time_IsZero (ev_TrialStartedAt v) \<and>
        (\<not> time_Equal (ev_TrialStartedAt v) (time_UTC (ev_TrialStartedAt v)) \<or>
         time_After (ev_TrialStartedAt v) cutoff)) \<and>
     ordered_tokens (ev_QuarantineTriggers v)"

definition sealDecision :: "externals \<Rightarrow> Decision \<Rightarrow> lifecycle_error + Decision" where
  "sealDecision ext v =
     (let v1 = v\<lparr>ld_ID := [], ld_ContentHash := [], ld_CanonicalJSON := [],
                 ld_ReasonCodes := sort_slice (<) (ld_ReasonCodes v)\<rparr>
      in case MarshalAndHash ext (json_decision v1) of
           Inl e \<Rightarrow> Inl (ErrLifecycleEncoding e)
         | Inr (encoded, hash) \<Rightarrow>
             Inr (v1\<lparr>ld_ID := ''lcd_'' @ hash, ld_ContentHash := hash, ld_CanonicalJSON := encoded\<rparr>))"

definition lifecycle_Evaluate :: "externals \<Rightarrow> EvaluationRequest \<Rightarrow> lifecycle_error + Decision" where
  "lifecycle_Evaluate ext request =
     (if \<not> ValidatePolicyManifest ext (er_Manifest request) \<or> er_TenantID request = [] \<or>
         \<not> tokenPattern (er_ProcedureID request) \<or> \<not> tokenPattern (er_ProcedureVersionID request) \<or>
         \<not> validState (er_PriorState request) \<or> time_IsZero (er_EvidenceCutoffAt request) \<or>
         time_IsZero (er_EvaluatedAt request) \<or>
         \<not> time_Equal (er_EvidenceCutoffAt request) (time_UTC (er_EvidenceCutoffAt request)) \<or>
         \<not> time_Equal (er_EvaluatedAt request) (time_UTC (er_EvaluatedAt request)) \<or>
         time_After (er_EvidenceCutoffAt request) (er_EvaluatedAt request) \<or>
         \<not> validEvidence (er_Evidence request) (er_EvidenceCutoffAt request)
      then Inl ErrInvalidLifecycle
      else
        let e = er_Evidence request;
            samples = ev_CausalSuccessCount e + ev_CausalFailureCount e
        in if samples < ev_CausalSuccessCount e then Inl ErrInvalidLifecycle
           else
             let bound = WilsonLowerBoundPPM (ev_CausalSuccessCount e) samples
                           (lp_WilsonZSquaredPPM (lm_Spec (er_Manifest request)));
                 (next, reasons) = transition request samples bound
             in sealDecision ext
                  \<lparr>ld_SchemaVersion = ''lifecycle-decision.v1'', ld_ID = [], ld_TenantID = er_TenantID request,
                   ld_ProcedureID = er_ProcedureID request, ld_ProcedureVersionID = er_ProcedureVersionID request,
                   ld_PolicyManifestID = lm_ID (er_Manifest request), ld_PriorState = er_PriorState request,
                   ld_NextState = next, ld_CausalSuccessCount = ev_CausalSuccessCount e,
                   ld_CausalFailureCount = ev_CausalFailureCount e,
                   ld_AssociatedSuccessCount = ev_AssociatedSuccessCount e,
                   ld_AssociatedFailureCount = ev_AssociatedFailureCount e,
                   ld_UnsafeOutcomeCount = ev_UnsafeOutcomeCount e, ld_WilsonLowerBoundPPM = bound,
                   ld_ReasonCodes = reasons, ld_EvidenceCutoffAt = er_EvidenceCutoffAt request,
                   ld_EvaluatedAt = er_EvaluatedAt request, ld_ContentHash = [], ld_CanonicalJSON = []\<rparr>)"

definition ValidateDecision :: "externals \<Rightarrow> Decision \<Rightarrow> bool" where
  "ValidateDecision ext v \<longleftrightarrow>
     ld_SchemaVersion v = ''lifecycle-decision.v1'' \<and> ld_ID v = ''lcd_'' @ ld_ContentHash v \<and>
     hashPattern (ld_ContentHash v) \<and> ld_TenantID v \<noteq> [] \<and> tokenPattern (ld_ProcedureID v) \<and>
     tokenPattern (ld_ProcedureVersionID v) \<and> tokenPattern (ld_PolicyManifestID v) \<and>
     validState (ld_PriorState v) \<and> validState (ld_NextState v) \<and>
     ld_WilsonLowerBoundPPM v \<le> PartsPerMillion \<and> \<not> time_IsZero (ld_EvidenceCutoffAt v) \<and>
     \<not> time_IsZero (ld_EvaluatedAt v) \<and>
     time_Equal (ld_EvidenceCutoffAt v) (time_UTC (ld_EvidenceCutoffAt v)) \<and>
     time_Equal (ld_EvaluatedAt v) (time_UTC (ld_EvaluatedAt v)) \<and>
     \<not> time_After (ld_EvidenceCutoffAt v) (ld_EvaluatedAt v) \<and>
     ld_ReasonCodes v \<noteq> [] \<and> length (ld_ReasonCodes v) \<le> 32 \<and> ordered_tokens (ld_ReasonCodes v) \<and>
     (case sealDecision ext (v\<lparr>ld_ID := [], ld_ContentHash := [], ld_CanonicalJSON := []\<rparr>) of
        Inl _ \<Rightarrow> False
      | Inr rebuilt \<Rightarrow> ld_ID rebuilt = ld_ID v \<and> ld_CanonicalJSON rebuilt = ld_CanonicalJSON v)"

section \<open>Sealing\<close>

definition prepare_decision :: "Decision \<Rightarrow> Decision" where
  "prepare_decision v = v\<lparr>ld_ID := [], ld_ContentHash := [], ld_CanonicalJSON := [],
     ld_ReasonCodes := sort_slice (<) (ld_ReasonCodes v)\<rparr>"

definition stamp_decision :: "string \<Rightarrow> string \<Rightarrow> Decision \<Rightarrow> Decision" where
  "stamp_decision encoded hash v =
     v\<lparr>ld_ID := ''lcd_'' @ hash, ld_ContentHash := hash, ld_CanonicalJSON := encoded\<rparr>"

interpretation decision_seal: sealed_value sealDecision prepare_decision json_decision stamp_decision ErrLifecycleEncoding
proof unfold_locales
  fix ext v
  show "sealDecision ext v = (case MarshalAndHash ext (json_decision (prepare_decision v)) of
      Inl e \<Rightarrow> Inl (ErrLifecycleEncoding e)
    | Inr (encoded, hash) \<Rightarrow> Inr (stamp_decision encoded hash (prepare_decision v)))"
    unfolding sealDecision_def prepare_decision_def stamp_decision_def Let_def ..
qed (simp_all add: prepare_decision_def stamp_decision_def sort_slice_eq_sort sorted_sort_id)

section \<open>The specification over numbers\<close>

text \<open>
  What the policy means, over natural and real numbers: a version meets a threshold when it has
  enough causal samples and the Wilson lower bound of its success rate is high enough.
\<close>

definition meets :: "EvaluationRequest \<Rightarrow> uint64 \<Rightarrow> uint32 \<Rightarrow> bool" where
  "meets r minimum threshold \<longleftrightarrow>
     (let e = er_Evidence r; s = unat (ev_CausalSuccessCount e); n = s + unat (ev_CausalFailureCount e)
      in unat minimum \<le> n \<and>
         real (unat threshold) / 1000000 \<le>
           wilson_lower (real s) (real n) (real (unat (lp_WilsonZSquaredPPM (lm_Spec (er_Manifest r)))) / 1000000))"

definition evidence_fresh :: "EvaluationRequest \<Rightarrow> bool" where
  "evidence_fresh r \<longleftrightarrow>
     (let latest = t_ns (ev_LatestCausalAt (er_Evidence r)) in latest \<noteq> 0 \<and>
      t_ns (er_EvidenceCutoffAt r) \<le>
        latest + int (unat (lp_EvidenceFreshnessSeconds (lm_Spec (er_Manifest r)))) * 1000000000)"

definition trial_complete :: "EvaluationRequest \<Rightarrow> bool" where
  "trial_complete r \<longleftrightarrow>
     (let started = t_ns (ev_TrialStartedAt (er_Evidence r)) in started \<noteq> 0 \<and>
      started + int (unat (lp_MinimumTrialSeconds (lm_Spec (er_Manifest r)))) * 1000000000 \<le>
        t_ns (er_EvidenceCutoffAt r))"

definition spec_next_state :: "EvaluationRequest \<Rightarrow> string" where
  "spec_next_state r =
     (let e = er_Evidence r; p = lm_Spec (er_Manifest r); unsafe = unat (ev_UnsafeOutcomeCount e);
          prior = er_PriorState r;
          active_ok = (meets r (lp_ActiveMinimumCausalSamples p) (lp_ActiveMinimumWilsonLowerBoundPPM p) \<and>
                       unsafe \<le> unat (lp_ActiveUnsafeOutcomeCeiling p));
          trial_ok = (meets r (lp_TrialMinimumCausalSamples p) (lp_TrialMinimumWilsonLowerBoundPPM p) \<and>
                      unsafe \<le> unat (lp_TrialUnsafeOutcomeCeiling p))
      in if prior = Retired \<or> prior = Quarantined then prior
         else if ev_QuarantineTriggers e \<noteq> [] \<or> unat (lp_ImmediateQuarantineUnsafeCount p) \<le> unsafe
           then Quarantined
         else if prior = Active then (if evidence_fresh r \<and> active_ok then Active else Retired)
         else if \<not> evidence_fresh r then prior
         else if prior = Candidate then (if trial_ok then Trial else Candidate)
         else if unat (lp_ActiveUnsafeOutcomeCeiling p) < unsafe then Candidate
         else if active_ok \<and> trial_complete r then Active
         else Trial)"

section \<open>What an evaluation that succeeds has checked\<close>

lemma ValidatePolicyManifest_valid:
  assumes "ValidatePolicyManifest ext m"
  shows "validPolicy m" "digest32 ext \<Longrightarrow> tokenPattern (lm_ID m)"
proof -
  from assms obtain b where b: "NewPolicyManifest ext (lm_Spec m) = Inr b" "lm_ID m = lm_ID b"
    by (auto simp: ValidatePolicyManifest_def split: sum.splits)
  then show "validPolicy m"
    by (auto simp: NewPolicyManifest_def validPolicy_def Let_def split: if_splits)
  have "tokenPattern ''lcman_''" by code_simp
  then show "digest32 ext \<Longrightarrow> tokenPattern (lm_ID m)"
    using b tokenPattern_hash_suffix [of "''lcman_''"] MarshalAndHash_pattern [of ext]
    by (fastforce simp: NewPolicyManifest_def Let_def split: if_splits sum.splits)
qed

definition evaluation_samples :: "EvaluationRequest \<Rightarrow> uint64" where
  "evaluation_samples r = ev_CausalSuccessCount (er_Evidence r) + ev_CausalFailureCount (er_Evidence r)"

definition evaluation_bound :: "EvaluationRequest \<Rightarrow> uint32" where
  "evaluation_bound r = WilsonLowerBoundPPM (ev_CausalSuccessCount (er_Evidence r)) (evaluation_samples r)
     (lp_WilsonZSquaredPPM (lm_Spec (er_Manifest r)))"

definition unsealed_decision :: "EvaluationRequest \<Rightarrow> Decision" where
  "unsealed_decision r =
     (let e = er_Evidence r; t = transition r (evaluation_samples r) (evaluation_bound r) in
      \<lparr>ld_SchemaVersion = ''lifecycle-decision.v1'', ld_ID = [], ld_TenantID = er_TenantID r,
       ld_ProcedureID = er_ProcedureID r, ld_ProcedureVersionID = er_ProcedureVersionID r,
       ld_PolicyManifestID = lm_ID (er_Manifest r), ld_PriorState = er_PriorState r,
       ld_NextState = fst t, ld_CausalSuccessCount = ev_CausalSuccessCount e,
       ld_CausalFailureCount = ev_CausalFailureCount e,
       ld_AssociatedSuccessCount = ev_AssociatedSuccessCount e,
       ld_AssociatedFailureCount = ev_AssociatedFailureCount e,
       ld_UnsafeOutcomeCount = ev_UnsafeOutcomeCount e, ld_WilsonLowerBoundPPM = evaluation_bound r,
       ld_ReasonCodes = snd t, ld_EvidenceCutoffAt = er_EvidenceCutoffAt r,
       ld_EvaluatedAt = er_EvaluatedAt r, ld_ContentHash = [], ld_CanonicalJSON = []\<rparr>)"

definition accepted_request :: "externals \<Rightarrow> EvaluationRequest \<Rightarrow> bool" where
  "accepted_request ext r \<longleftrightarrow>
     ValidatePolicyManifest ext (er_Manifest r) \<and> er_TenantID r \<noteq> [] \<and>
     tokenPattern (er_ProcedureID r) \<and> tokenPattern (er_ProcedureVersionID r) \<and>
     validState (er_PriorState r) \<and> t_ns (er_EvidenceCutoffAt r) \<noteq> 0 \<and> t_ns (er_EvaluatedAt r) \<noteq> 0 \<and>
     t_ns (er_EvidenceCutoffAt r) \<le> t_ns (er_EvaluatedAt r) \<and>
     validEvidence (er_Evidence r) (er_EvidenceCutoffAt r) \<and>
     unat (ev_CausalSuccessCount (er_Evidence r)) + unat (ev_CausalFailureCount (er_Evidence r)) < 2 ^ 64"

lemma uint64_sum_no_wrap: "\<not> (a + b < (a :: uint64)) \<longleftrightarrow> unat a + unat b < 2 ^ 64"
proof -
  have "a \<le> a + b \<longleftrightarrow> unat a + unat b < 2 ^ 64"
    using unat_add_lem [of a b] no_olen_add_nat [of a b] by simp
  then show ?thesis by (simp add: not_less)
qed

lemma Evaluate_iff:
  "lifecycle_Evaluate ext r = Inr d \<longleftrightarrow>
     accepted_request ext r \<and> sealDecision ext (unsealed_decision r) = Inr d"
proof -
  let ?s = "ev_CausalSuccessCount (er_Evidence r)" and ?f = "ev_CausalFailureCount (er_Evidence r)"
  have "\<not> (?s + ?f < ?s) \<longleftrightarrow> unat ?s + unat ?f < 2 ^ 64" by (rule uint64_sum_no_wrap)
  then show ?thesis
    unfolding lifecycle_Evaluate_def accepted_request_def unsealed_decision_def evaluation_samples_def
      evaluation_bound_def Let_def
    by (auto simp: time_defs not_less split: prod.splits)
qed

lemma Evaluate_Inr:
  assumes "lifecycle_Evaluate ext r = Inr d"
  shows "accepted_request ext r" "sealDecision ext (unsealed_decision r) = Inr d"
    "ld_PriorState d = er_PriorState r"
    "ld_NextState d = fst (transition r (evaluation_samples r) (evaluation_bound r))"
    "ld_ReasonCodes d = sort (snd (transition r (evaluation_samples r) (evaluation_bound r)))"
proof -
  show a: "accepted_request ext r" "sealDecision ext (unsealed_decision r) = Inr d"
    using assms by (simp_all add: Evaluate_iff)
  from decision_seal.seal_Inr [OF a(2)] obtain enc where
    "d = stamp_decision enc (hash_bytes ext enc) (prepare_decision (unsealed_decision r))" by blast
  then show "ld_PriorState d = er_PriorState r"
    "ld_NextState d = fst (transition r (evaluation_samples r) (evaluation_bound r))"
    "ld_ReasonCodes d = sort (snd (transition r (evaluation_samples r) (evaluation_bound r)))"
    by (simp_all add: stamp_decision_def prepare_decision_def unsealed_decision_def Let_def sort_slice_eq_sort)
qed

lemma accepted_policy:
  assumes "accepted_request ext r"
  shows "lp_WilsonZSquaredPPM (lm_Spec (er_Manifest r)) \<noteq> 0"
    "lp_TrialMinimumCausalSamples (lm_Spec (er_Manifest r)) \<noteq> 0"
    "lp_ActiveMinimumCausalSamples (lm_Spec (er_Manifest r)) \<noteq> 0"
    "uint (lp_EvidenceFreshnessSeconds (lm_Spec (er_Manifest r))) \<le> 9223372036"
    "uint (lp_MinimumTrialSeconds (lm_Spec (er_Manifest r))) \<le> 9223372036"
proof -
  let ?p = "lm_Spec (er_Manifest r)"
  have v: "validPolicy (er_Manifest r)"
    using assms unfolding accepted_request_def by (blast dest: ValidatePolicyManifest_valid)
  then show "lp_WilsonZSquaredPPM ?p \<noteq> 0" "lp_TrialMinimumCausalSamples ?p \<noteq> 0"
    "lp_ActiveMinimumCausalSamples ?p \<noteq> 0"
    by (auto simp: validPolicy_def Let_def)
  have "lp_EvidenceFreshnessSeconds ?p \<le> maximumPolicyWindowSeconds"
    "lp_MinimumTrialSeconds ?p \<le> maximumPolicyWindowSeconds"
    using v by (simp_all add: validPolicy_def Let_def)
  then show "uint (lp_EvidenceFreshnessSeconds ?p) \<le> 9223372036" "uint (lp_MinimumTrialSeconds ?p) \<le> 9223372036"
    by (simp_all add: maximumPolicyWindowSeconds_def word_le_def)
qed

text \<open>The two threshold comparisons of the code decide the two conditions of the policy.\<close>

lemma thresholds_meet:
  assumes "accepted_request ext r" "minimum \<noteq> 0"
  shows "\<not> evaluation_samples r < minimum \<and> \<not> evaluation_bound r < threshold \<longleftrightarrow> meets r minimum threshold"
proof -
  let ?s = "ev_CausalSuccessCount (er_Evidence r)" and ?f = "ev_CausalFailureCount (er_Evidence r)"
  let ?z = "lp_WilsonZSquaredPPM (lm_Spec (er_Manifest r))"
  let ?w = "wilson_lower (real (unat ?s)) (real (unat ?s + unat ?f)) (real (unat ?z) / 1000000)"
  have n: "unat (evaluation_samples r) = unat ?s + unat ?f"
    using assms(1) unat_add_lem [of ?s ?f] by (simp add: evaluation_samples_def accepted_request_def)
  then have s: "?s \<le> evaluation_samples r" by (simp add: word_le_nat_alt)
  have m: "\<not> evaluation_samples r < minimum \<longleftrightarrow> unat minimum \<le> unat ?s + unat ?f"
    by (simp add: word_less_nat_alt not_less n)
  have "\<not> evaluation_bound r < threshold \<longleftrightarrow> real (unat threshold) / 1000000 \<le> ?w"
    if "\<not> evaluation_samples r < minimum"
  proof -
    have "evaluation_samples r \<noteq> 0" using that assms(2) by (auto simp: word_neq_0_conv)
    from wilson_floor [OF this s accepted_policy(1) [OF assms(1)]]
    have "int (unat (evaluation_bound r)) = \<lfloor>1000000 * ?w\<rfloor>" by (simp add: evaluation_bound_def n)
    then have "unat threshold \<le> unat (evaluation_bound r) \<longleftrightarrow> int (unat threshold) \<le> \<lfloor>1000000 * ?w\<rfloor>"
      by (metis of_nat_le_iff)
    then show ?thesis
      by (simp add: le_floor_iff word_less_nat_alt not_less divide_le_eq mult.commute)
  qed
  then show ?thesis using m by (auto simp: meets_def Let_def)
qed

lemma window_exact:
  assumes "uint s \<le> 9223372036"
  shows "t_ns (seconds_before t s) = t_ns t - int (unat s) * 1000000000"
  unfolding seconds_before_def time_Add_def negated_seconds_exact [OF assms] by simp

lemma thresholdReasons_Nil:
  "thresholdReasons n m b t = [] \<longleftrightarrow> \<not> n < m \<and> \<not> b < t"
  by (simp add: thresholdReasons_def)

lemma word_le_unat: "a \<le> b \<longleftrightarrow> unat a \<le> unat b" "a < b \<longleftrightarrow> unat a < unat b" for a b :: "'a::len word"
  by (simp_all add: word_le_nat_alt word_less_nat_alt)

lemma transition_refines:
  assumes "accepted_request ext r"
  shows "fst (transition r (evaluation_samples r) (evaluation_bound r)) = spec_next_state r"
proof -
  let ?p = "lm_Spec (er_Manifest r)" and ?e = "er_Evidence r"
  note a = accepted_policy [OF assms]
  have fresh: "\<not> time_IsZero (ev_LatestCausalAt ?e) \<and>
      \<not> time_Before (ev_LatestCausalAt ?e) (seconds_before (er_EvidenceCutoffAt r) (lp_EvidenceFreshnessSeconds ?p)) \<longleftrightarrow>
      evidence_fresh r"
    by (auto simp: evidence_fresh_def time_IsZero_def time_Before_def window_exact [OF a(4)] Let_def)
  have trial: "time_IsZero (ev_TrialStartedAt ?e) \<or>
      time_After (ev_TrialStartedAt ?e) (seconds_before (er_EvidenceCutoffAt r) (lp_MinimumTrialSeconds ?p)) \<longleftrightarrow>
      \<not> trial_complete r"
    by (auto simp: trial_complete_def time_IsZero_def time_After_def window_exact [OF a(5)] Let_def)
  have unsafe: "ev_UnsafeOutcomeCount ?e > c \<longleftrightarrow> \<not> unat (ev_UnsafeOutcomeCount ?e) \<le> unat c"
    "lp_ImmediateQuarantineUnsafeCount ?p \<le> ev_UnsafeOutcomeCount ?e \<longleftrightarrow>
     unat (lp_ImmediateQuarantineUnsafeCount ?p) \<le> unat (ev_UnsafeOutcomeCount ?e)" for c
    by (simp_all add: word_le_unat not_le)
  show ?thesis
    unfolding transition_def spec_next_state_def Let_def fresh trial unsafe
      thresholds_meet [OF assms a(2), symmetric] thresholds_meet [OF assms a(3), symmetric]
    by (simp add: thresholdReasons_Nil not_le)
qed

section \<open>Runs\<close>

text \<open>A history of decisions, each evaluated on the state the one before left behind.\<close>

inductive lifecycle_run :: "externals \<Rightarrow> string \<Rightarrow> Decision list \<Rightarrow> string \<Rightarrow> bool" for ext where
  start: "lifecycle_run ext s [] s"
| step: "lifecycle_run ext s ds s' \<Longrightarrow> lifecycle_Evaluate ext r = Inr d \<Longrightarrow> er_PriorState r = s' \<Longrightarrow>
    lifecycle_run ext s (ds @ [d]) (ld_NextState d)"

lemma next_state:
  "lifecycle_Evaluate ext r = Inr d \<Longrightarrow> ld_NextState d = spec_next_state r"
  using Evaluate_Inr(1,4) transition_refines by metis

lemma next_state_cases:
  assumes "lifecycle_Evaluate ext r = Inr d"
  shows "ld_NextState d = Active \<Longrightarrow> er_PriorState r = Trial \<or> er_PriorState r = Active"
    "ld_NextState d = Trial \<Longrightarrow> er_PriorState r = Candidate \<or> er_PriorState r = Trial"
    "er_PriorState r = Retired \<or> er_PriorState r = Quarantined \<Longrightarrow> ld_NextState d = er_PriorState r"
proof -
  have v: "validState (er_PriorState r)" using Evaluate_Inr(1) [OF assms] by (simp add: accepted_request_def)
  show "ld_NextState d = Active \<Longrightarrow> er_PriorState r = Trial \<or> er_PriorState r = Active"
    "ld_NextState d = Trial \<Longrightarrow> er_PriorState r = Candidate \<or> er_PriorState r = Trial"
    "er_PriorState r = Retired \<or> er_PriorState r = Quarantined \<Longrightarrow> ld_NextState d = er_PriorState r"
    using v unfolding next_state [OF assms] spec_next_state_def Let_def validState_def
    by (auto split: if_splits)
qed

lemma run_reaches_trial:
  assumes "lifecycle_run ext s ds s'" "s = Candidate" "s' = Trial"
  shows "\<exists>xs d ys. ds = xs @ d # ys \<and> ld_PriorState d = Candidate \<and> ld_NextState d = Trial"
  using assms
proof (induction rule: lifecycle_run.induct)
  case (step s ds s' r d)
  show ?case
  proof (cases "s' = Candidate")
    case True
    with step show ?thesis by (intro exI [of _ ds] exI [of _ d] exI [of _ "[]"]) (simp add: Evaluate_Inr(3))
  next
    case False
    with step next_state_cases(2) have "s' = Trial" by blast
    with step obtain xs d' ys where "ds = xs @ d' # ys" "ld_PriorState d' = Candidate" "ld_NextState d' = Trial"
      by blast
    then show ?thesis by (intro exI [of _ xs] exI [of _ d'] exI [of _ "ys @ [d]"]) simp
  qed
qed simp

section \<open>Reason codes\<close>

definition good_reasons :: "string list \<Rightarrow> bool" where
  "good_reasons rs \<longleftrightarrow> distinct rs \<and> list_all tokenPattern rs \<and> rs \<noteq> [] \<and> length rs \<le> 32"

lemma good_if:
  "(c \<Longrightarrow> good_reasons (snd x)) \<Longrightarrow> (\<not> c \<Longrightarrow> good_reasons (snd y)) \<Longrightarrow> good_reasons (snd (if c then x else y))"
  by simp

lemma good_single:
  "good_reasons [ReasonCandidatePromoted]" "good_reasons [ReasonTrialPromoted]"
  "good_reasons [ReasonEvidenceStale]" "good_reasons [ReasonUnsafeCeilingExceeded]"
  "good_reasons [ReasonStateMaintained]" "good_reasons [ReasonTerminalState]"
  "good_reasons [ReasonImmediateQuarantine]"
  by code_simp+

lemma good_rollback:
  "good_reasons ([ReasonActiveRollback] @ (if c1 then [ReasonEvidenceStale] else []) @
     (if c2 then [ReasonInsufficientSamples] else []) @ (if c3 then [ReasonWilsonBelowThreshold] else []) @
     (if c4 then [ReasonUnsafeCeilingExceeded] else []))"
proof -
  have b: "c \<in> {True, False}" for c by blast
  have "\<forall>c1 \<in> {True, False}. \<forall>c2 \<in> {True, False}. \<forall>c3 \<in> {True, False}. \<forall>c4 \<in> {True, False}.
    good_reasons ([ReasonActiveRollback] @ (if c1 then [ReasonEvidenceStale] else []) @
     (if c2 then [ReasonInsufficientSamples] else []) @ (if c3 then [ReasonWilsonBelowThreshold] else []) @
     (if c4 then [ReasonUnsafeCeilingExceeded] else []))"
    by code_simp
  from this [rule_format, OF b b b b] show ?thesis .
qed

lemma good_thresholds:
  assumes "x = ReasonUnsafeCeilingExceeded \<or> x = ReasonTrialDurationIncomplete"
    "thresholdReasons n m b t @ (if c then [x] else []) \<noteq> []"
  shows "good_reasons (thresholdReasons n m b t @ (if c then [x] else []))"
proof -
  have "\<forall>c2 \<in> {True, False}. \<forall>c3 \<in> {True, False}. \<forall>c \<in> {True, False}.
    \<forall>x \<in> {ReasonUnsafeCeilingExceeded, ReasonTrialDurationIncomplete}.
    ((if c2 then [ReasonInsufficientSamples] else []) @ (if c3 then [ReasonWilsonBelowThreshold] else [])) @
      (if c then [x] else []) = [] \<or>
    good_reasons (((if c2 then [ReasonInsufficientSamples] else []) @
      (if c3 then [ReasonWilsonBelowThreshold] else [])) @ (if c then [x] else []))"
    by code_simp
  moreover have "(n < m) \<in> {True, False}" "(b < t) \<in> {True, False}" "c \<in> {True, False}" by blast+
  moreover have "x \<in> {ReasonUnsafeCeilingExceeded, ReasonTrialDurationIncomplete}"
    using assms(1) by (simp only: insert_iff empty_iff simp_thms)
  ultimately show ?thesis using assms(2) unfolding thresholdReasons_def by metis
qed

lemma transition_reasons:
  assumes "ev_QuarantineTriggers (er_Evidence r) = [] \<or> er_PriorState r = Retired \<or> er_PriorState r = Quarantined"
  shows "good_reasons (snd (transition r n b))"
  unfolding transition_def Let_def
  by (intro good_if) (use assms in \<open>simp_all only: snd_conv good_single good_rollback good_thresholds simp_thms list.map\<close>)

lemma transition_triggers:
  assumes "ev_QuarantineTriggers (er_Evidence r) \<noteq> []" "er_PriorState r \<noteq> Retired" "er_PriorState r \<noteq> Quarantined"
  shows "snd (transition r n b) =
    ReasonImmediateQuarantine # map (\<lambda>t. ''quarantine_trigger:'' @ t) (ev_QuarantineTriggers (er_Evidence r))"
  using assms by (simp add: transition_def)

lemma ordered_tokens_sort: "ordered_tokens (sort rs) \<longleftrightarrow> list_all tokenPattern rs \<and> distinct rs"
  by (auto simp: ordered_tokens_def strictly_sorted_sorted_distinct list_all_iff)

lemma trigger_token: "tokenPattern t \<Longrightarrow> tokenPattern (''quarantine_trigger:'' @ t) \<longleftrightarrow> length t \<le> 237"
proof -
  assume t: "tokenPattern t"
  have "list_all is_token_char (tl ''quarantine_trigger:'')" "is_alnum_char (hd ''quarantine_trigger:'')" by code_simp+
  moreover have "list_all is_token_char t" using t by (cases t) (auto simp: is_token_char_def)
  ultimately show ?thesis by simp
qed

text \<open>Of the conditions of the validator only those on the reason codes can fail.\<close>

lemma ValidateDecision_reasons:
  assumes "digest32 ext" "lifecycle_Evaluate ext r = Inr d"
  shows "ValidateDecision ext d \<longleftrightarrow> good_reasons (snd (transition r (evaluation_samples r) (evaluation_bound r)))"
proof -
  note d = Evaluate_Inr [OF assms(2)]
  from d(1) have a: "ValidatePolicyManifest ext (er_Manifest r)" "er_TenantID r \<noteq> []"
    "tokenPattern (er_ProcedureID r)" "tokenPattern (er_ProcedureVersionID r)" "validState (er_PriorState r)"
    "t_ns (er_EvidenceCutoffAt r) \<noteq> 0" "t_ns (er_EvaluatedAt r) \<noteq> 0"
    "t_ns (er_EvidenceCutoffAt r) \<le> t_ns (er_EvaluatedAt r)"
    by (simp_all add: accepted_request_def)
  obtain enc where e: "d = stamp_decision enc (hash_bytes ext enc) (prepare_decision (unsealed_decision r))"
    using decision_seal.seal_Inr [OF d(2)] by blast
  have "prepare_decision (d\<lparr>ld_ID := [], ld_ContentHash := [], ld_CanonicalJSON := []\<rparr>) = prepare_decision d"
    by (simp add: prepare_decision_def)
  then have re: "sealDecision ext (d\<lparr>ld_ID := [], ld_ContentHash := [], ld_CanonicalJSON := []\<rparr>) = Inr d"
    using decision_seal.seal_cong decision_seal.seal_stable [OF d(2)] by metis
  have n: "validState (ld_NextState d)"
    using a(5) unfolding next_state [OF assms(2)] spec_next_state_def Let_def validState_def
    by (auto split: if_split)
  have c: "ld_SchemaVersion d = ''lifecycle-decision.v1''" "ld_ID d = ''lcd_'' @ ld_ContentHash d"
    "ld_ContentHash d = hash_bytes ext enc" "ld_TenantID d = er_TenantID r" "ld_ProcedureID d = er_ProcedureID r"
    "ld_ProcedureVersionID d = er_ProcedureVersionID r" "ld_PolicyManifestID d = lm_ID (er_Manifest r)"
    "ld_EvidenceCutoffAt d = er_EvidenceCutoffAt r" "ld_EvaluatedAt d = er_EvaluatedAt r"
    "ld_WilsonLowerBoundPPM d = evaluation_bound r"
    by (simp_all add: e stamp_decision_def prepare_decision_def unsealed_decision_def Let_def)
  have b: "evaluation_bound r \<le> PartsPerMillion" by (simp add: evaluation_bound_def wilson_bound_le)
  have s: "sort rs = [] \<longleftrightarrow> rs = []" for rs :: "string list" by (metis length_0_conv length_sort)
  show ?thesis
    unfolding ValidateDecision_def re c d(3,5) good_reasons_def ordered_tokens_sort time_defs
    using a n b hashPattern_hash_bytes [OF assms(1)] ValidatePolicyManifest_valid(2) [OF a(1) assms(1)]
    by (auto simp: s c)
qed

lemma trigger_reasons:
  assumes "ordered_tokens ts"
  shows "good_reasons (ReasonImmediateQuarantine # map (\<lambda>t. ''quarantine_trigger:'' @ t) ts) \<longleftrightarrow>
    length ts \<le> 31 \<and> (\<forall>t \<in> set ts. length t \<le> 237)"
proof -
  have "tokenPattern ReasonImmediateQuarantine" by code_simp
  moreover have "distinct ts" "list_all tokenPattern ts"
    using assms by (simp_all add: ordered_tokens_def strictly_sorted_sorted_distinct)
  moreover have "list_all (\<lambda>t. tokenPattern (''quarantine_trigger:'' @ t)) ts \<longleftrightarrow> (\<forall>t \<in> set ts. length t \<le> 237)"
    using trigger_token \<open>list_all tokenPattern ts\<close> unfolding list_all_iff by blast
  ultimately show ?thesis
    by (auto simp: good_reasons_def list.pred_map comp_def distinct_map inj_on_def simp del: tokenPattern.simps)
qed

section \<open>A sample evaluation\<close>

definition sample_policy_spec :: PolicySpec where
  "sample_policy_spec = \<lparr>lp_Version = ''p1'', lp_WilsonZSquaredPPM = 3841600, lp_TrialMinimumCausalSamples = 3,
     lp_TrialMinimumWilsonLowerBoundPPM = 300000, lp_ActiveMinimumCausalSamples = 10,
     lp_ActiveMinimumWilsonLowerBoundPPM = 600000, lp_TrialUnsafeOutcomeCeiling = 0,
     lp_ActiveUnsafeOutcomeCeiling = 0, lp_ImmediateQuarantineUnsafeCount = 1,
     lp_EvidenceFreshnessSeconds = 100, lp_MinimumTrialSeconds = 50\<rparr>"

definition sample_policy_blank :: PolicyManifest where
  "sample_policy_blank = \<lparr>lm_SchemaVersion = ''lifecycle-policy-manifest.v1'', lm_Spec = sample_policy_spec,
     lm_ID = [], lm_ContentHash = [], lm_CanonicalJSON = []\<rparr>"

definition sample_policy :: PolicyManifest where
  "sample_policy =
     (let enc = sample_print (json_policy sample_policy_blank); h = hash_bytes sample_externals enc
      in sample_policy_blank\<lparr>lm_ID := ''lcman_'' @ h, lm_ContentHash := h, lm_CanonicalJSON := enc\<rparr>)"

definition sample_evaluation :: "string \<Rightarrow> string list \<Rightarrow> EvaluationRequest" where
  "sample_evaluation prior triggers =
     \<lparr>er_TenantID = ''t'', er_ProcedureID = ''p'', er_ProcedureVersionID = ''v'', er_PriorState = prior,
      er_Manifest = sample_policy,
      er_Evidence = \<lparr>ev_CausalSuccessCount = 12, ev_CausalFailureCount = 0, ev_AssociatedSuccessCount = 0,
        ev_AssociatedFailureCount = 0, ev_UnsafeOutcomeCount = 0,
        ev_LatestCausalAt = \<lparr>t_ns = 950000000000, t_zone = 0\<rparr>,
        ev_TrialStartedAt = \<lparr>t_ns = 900000000000, t_zone = 0\<rparr>, ev_QuarantineTriggers = triggers\<rparr>,
      er_EvidenceCutoffAt = \<lparr>t_ns = 1000000000000, t_zone = 0\<rparr>,
      er_EvaluatedAt = \<lparr>t_ns = 1000000000001, t_zone = 0\<rparr>\<rparr>"

lemma sample_policy_valid: "ValidatePolicyManifest sample_externals sample_policy"
proof -
  have s: "lm_Spec sample_policy = sample_policy_spec" by (simp add: sample_policy_def sample_policy_blank_def Let_def)
  have "validPolicy sample_policy_blank" by code_simp
  then have "NewPolicyManifest sample_externals sample_policy_spec = Inr sample_policy"
    unfolding NewPolicyManifest_def sample_policy_blank_def [symmetric]
    by (simp add: MarshalAndHash_sample sample_policy_def Let_def)
  then show ?thesis by (simp add: ValidatePolicyManifest_def s)
qed

lemma sample_evaluation_accepted:
  assumes "validState prior" "ordered_tokens triggers"
  shows "accepted_request sample_externals (sample_evaluation prior triggers)"
proof -
  have "tokenPattern ''p''" "tokenPattern ''v''" by code_simp+
  then show ?thesis
    using assms sample_policy_valid
    by (simp add: accepted_request_def sample_evaluation_def validEvidence_def time_defs)
qed

lemma sample_Evaluate:
  assumes "validState prior" "ordered_tokens triggers"
  obtains d where "lifecycle_Evaluate sample_externals (sample_evaluation prior triggers) = Inr d"
  using sample_evaluation_accepted [OF assms]
  by (auto simp: Evaluate_iff decision_seal.seal_unfold MarshalAndHash_sample)

section \<open>Properties\<close>

text \<open>C22: the evaluation implements the policy. For every request that is accepted, the next state is
  the one that the policy prescribes over natural and real numbers: the counters do not wrap
  around, the comparison in parts per million decides the comparison with the real Wilson bound,
  and the windows in nanoseconds do not overflow.\<close>

theorem evaluate_refines_policy:
  assumes "lifecycle_Evaluate ext r = Inr d"
  shows "ld_NextState d = spec_next_state r"
  using Evaluate_Inr(1,4) [OF assms] transition_refines by simp

theorem evaluate_refines_policy_witness:
  "\<exists>d. lifecycle_Evaluate sample_externals (sample_evaluation Trial []) = Inr d \<and>
     ld_NextState d = spec_next_state (sample_evaluation Trial [])"
proof -
  have "validState Trial" "ordered_tokens []" by code_simp+
  from sample_Evaluate [OF this] obtain d
    where "lifecycle_Evaluate sample_externals (sample_evaluation Trial []) = Inr d" .
  with evaluate_refines_policy [OF this] show ?thesis by blast
qed

text \<open>C2: no short cut to active. In every history of decisions that starts in candidate and ends
  in active, some decision promoted candidate to trial, and a later one promoted trial to
  active.\<close>

theorem active_only_through_trial:
  assumes "lifecycle_run ext Candidate ds Active"
  shows "\<exists>xs d ys d' zs. ds = xs @ d # ys @ d' # zs \<and>
    ld_PriorState d = Candidate \<and> ld_NextState d = Trial \<and>
    ld_PriorState d' = Trial \<and> ld_NextState d' = Active"
proof -
  have "s = Candidate \<Longrightarrow> s' = Active \<Longrightarrow> ?thesis" if "lifecycle_run ext s ds s'" for s s'
    using that
  proof (induction rule: lifecycle_run.induct)
    case (step s ds s' r d)
    then consider "s' = Active" | "s' = Trial" using next_state_cases(1) by blast
    then show ?case
    proof cases
      case 1
      then obtain xs d1 ys d2 zs where "ds = xs @ d1 # ys @ d2 # zs" "ld_PriorState d1 = Candidate"
        "ld_NextState d1 = Trial" "ld_PriorState d2 = Trial" "ld_NextState d2 = Active"
        using step by blast
      then show ?thesis
        by (intro exI [of _ xs] exI [of _ d1] exI [of _ ys] exI [of _ d2] exI [of _ "zs @ [d]"]) simp
    next
      case 2
      then obtain xs d1 ys where "ds = xs @ d1 # ys" "ld_PriorState d1 = Candidate" "ld_NextState d1 = Trial"
        using run_reaches_trial step by blast
      then show ?thesis using step 2
        by (intro exI [of _ xs] exI [of _ d1] exI [of _ ys] exI [of _ d] exI [of _ "[]"])
          (simp add: Evaluate_Inr(3))
    qed
  qed simp
  then show ?thesis using assms by blast
qed

lemma sample_run: "\<exists>ds. lifecycle_run sample_externals Candidate ds Active"
proof -
  have v: "validState Candidate" "validState Trial" "ordered_tokens []" by code_simp+
  obtain d1 where d1: "lifecycle_Evaluate sample_externals (sample_evaluation Candidate []) = Inr d1"
    using sample_Evaluate [OF v(1,3)] .
  obtain d2 where d2: "lifecycle_Evaluate sample_externals (sample_evaluation Trial []) = Inr d2"
    using sample_Evaluate [OF v(2,3)] .
  have "spec_next_state (sample_evaluation Candidate []) = Trial" "spec_next_state (sample_evaluation Trial []) = Active"
    by (simp_all add: spec_next_state_def sample_evaluation_def meets_def evidence_fresh_def trial_complete_def
        sample_policy_def sample_policy_blank_def sample_policy_spec_def wilson_lower_all Let_def)
  then have n: "ld_NextState d1 = Trial" "ld_NextState d2 = Active"
    using next_state [OF d1] next_state [OF d2] by simp_all
  have p: "er_PriorState (sample_evaluation s []) = s" for s by (simp add: sample_evaluation_def)
  from lifecycle_run.step [OF lifecycle_run.start d1 p] n(1)
  have "lifecycle_run sample_externals Candidate ([] @ [d1]) Trial" by simp
  from lifecycle_run.step [OF this d2 p] n(2) show ?thesis by auto
qed

theorem active_only_through_trial_witness:
  "\<exists>ds d. lifecycle_run sample_externals Candidate ds Active \<and> d \<in> set ds \<and>
     ld_PriorState d = Candidate \<and> ld_NextState d = Trial"
proof -
  obtain ds where ds: "lifecycle_run sample_externals Candidate ds Active" using sample_run by blast
  from active_only_through_trial [OF this] show ?thesis using ds by fastforce
qed

text \<open>Quarantine and retirement are final. No sequence of evaluations leaves them.\<close>

theorem terminal_states_absorb:
  assumes "lifecycle_run ext s ds s'" "s = Retired \<or> s = Quarantined"
  shows "s' = s"
  using assms
proof (induction rule: lifecycle_run.induct)
  case (step s ds s' r d)
  then show ?case using next_state_cases(3) by metis
qed simp

theorem terminal_states_absorb_witness:
  "\<exists>d. lifecycle_run sample_externals Retired [d] (ld_NextState d) \<and> ld_NextState d = Retired"
proof -
  have "validState Retired" "ordered_tokens []" by code_simp+
  from sample_Evaluate [OF this] obtain d
    where d: "lifecycle_Evaluate sample_externals (sample_evaluation Retired []) = Inr d" .
  have "er_PriorState (sample_evaluation Retired []) = Retired" by (simp add: sample_evaluation_def)
  from lifecycle_run.step [OF lifecycle_run.start d this]
  have r: "lifecycle_run sample_externals Retired [d] (ld_NextState d)" by simp
  then show ?thesis using terminal_states_absorb [OF r] by blast
qed

text \<open>C37: which decisions validate. Provided the digest has 32 bytes, the decision that an
  evaluation produces passes \<^verbatim>\<open>ValidateDecision\<close> if and only if the version was already in a final
  state or there are at most 31 quarantine triggers, each of at most 237 bytes; a request with
  more or longer triggers is evaluated to a quarantine decision that the validator rejects.\<close>

theorem decision_validates_iff:
  assumes "digest32 ext" "lifecycle_Evaluate ext r = Inr d"
  shows "ValidateDecision ext d \<longleftrightarrow>
    er_PriorState r = Retired \<or> er_PriorState r = Quarantined \<or>
    length (ev_QuarantineTriggers (er_Evidence r)) \<le> 31 \<and>
    (\<forall>t \<in> set (ev_QuarantineTriggers (er_Evidence r)). length t \<le> 237)"
proof -
  have o: "ordered_tokens (ev_QuarantineTriggers (er_Evidence r))"
    using Evaluate_Inr(1) [OF assms(2)] by (simp add: accepted_request_def validEvidence_def)
  show ?thesis
  proof (cases "ev_QuarantineTriggers (er_Evidence r) = [] \<or> er_PriorState r = Retired \<or> er_PriorState r = Quarantined")
    case True
    then show ?thesis using transition_reasons [OF True] by (auto simp: ValidateDecision_reasons [OF assms])
  next
    case False
    then show ?thesis
      using ValidateDecision_reasons [OF assms] transition_triggers [of r] trigger_reasons [OF o] by simp
  qed
qed

theorem decision_validates_iff_witness:
  "\<exists>d. lifecycle_Evaluate sample_externals (sample_evaluation Active [replicate 238 CHR ''a'']) = Inr d \<and>
     ld_NextState d = Quarantined \<and> \<not> ValidateDecision sample_externals d"
proof -
  have "validState Active" "ordered_tokens [replicate 238 CHR ''a'']" by code_simp+
  from sample_Evaluate [OF this] obtain d
    where d: "lifecycle_Evaluate sample_externals (sample_evaluation Active [replicate 238 CHR ''a'']) = Inr d" .
  have "ld_NextState d = Quarantined"
    by (simp add: next_state [OF d] spec_next_state_def sample_evaluation_def)
  moreover have "\<not> ValidateDecision sample_externals d"
    using decision_validates_iff [OF digest32_sample d] by (simp add: sample_evaluation_def)
  ultimately show ?thesis using d by blast
qed

end
