(* ===== verification/Eligibility.thy ===== *)
theory Eligibility
  imports Canonical
begin

text \<open>
  \<^verbatim>\<open>internal/eligibility\<close>: the policy (\<^verbatim>\<open>policy.go\<close>) and the engine (\<^verbatim>\<open>engine.go\<close>) that decides
  whether a procedure version may be recalled in a given context, collecting a rejection for
  every gate that is not passed. The lists a request supplies are turned into maps in which a
  name that occurs with two different values is poisoned; the interface \<open>conflict_map\<close> states
  what such a map is, and its three instances are the maps of the code.
\<close>

section \<open>Policies\<close>

abbreviation "LifecycleCandidate \<equiv> ''candidate''"
abbreviation "LifecycleTrial \<equiv> ''trial''"
abbreviation "LifecycleActive \<equiv> ''active''"
abbreviation "LifecycleSuperseded \<equiv> ''superseded''"

type_synonym risk = "8 word"

abbreviation RiskLow :: risk where "RiskLow \<equiv> 1"
abbreviation RiskMedium :: risk where "RiskMedium \<equiv> 2"
abbreviation RiskHigh :: risk where "RiskHigh \<equiv> 3"
abbreviation RiskCritical :: risk where "RiskCritical \<equiv> 4"

datatype policy_error = ErrInvalidPolicy string | ErrPolicyEncoding canonical_error

record EligibilityPolicySpec =
  ep_Version :: string
  ep_AllowedLifecycle :: "string list"
  ep_AllowAdvisoryCandidates :: bool
  ep_MaximumRisk :: risk
  ep_MaximumValidationAgeSeconds :: int64
  ep_CompatibleValidationPolicies :: "string list"
  ep_AllowedResidencyRegions :: "string list"

record EligibilityPolicy =
  eg_Spec :: EligibilityPolicySpec
  eg_ID :: string
  eg_CanonicalJSON :: string

definition json_eligibility_policy :: "EligibilityPolicySpec \<Rightarrow> json" where
  "json_eligibility_policy p = JObj
     [(''version'', JStr (ep_Version p)), (''allowed_lifecycle'', JArr (map JStr (ep_AllowedLifecycle p))),
      (''allow_advisory_candidates'', JBool (ep_AllowAdvisoryCandidates p)),
      (''maximum_risk'', JNum (uint (ep_MaximumRisk p))),
      (''maximum_validation_age_seconds'', JNum (sint (ep_MaximumValidationAgeSeconds p))),
      (''compatible_validation_policies'', JArr (map JStr (ep_CompatibleValidationPolicies p))),
      (''allowed_residency_regions'', JArr (map JStr (ep_AllowedResidencyRegions p)))]"

definition eligibility_token :: "externals \<Rightarrow> string \<Rightarrow> string" where
  "eligibility_token ext v = norm_NFC ext (TrimSpace v)"

definition validRisk :: "risk \<Rightarrow> bool" where
  "validRisk v \<longleftrightarrow> v \<ge> RiskLow \<and> v \<le> RiskCritical"

definition normalizeLifecycles :: "string list \<Rightarrow> policy_error + string list" where
  "normalizeLifecycles source =
     (if list_all (\<lambda>v. \<not> (v \<noteq> LifecycleCandidate \<and> v \<noteq> LifecycleTrial \<and> v \<noteq> LifecycleActive)) source
      then Inr (sorted_keys source) else Inl (ErrInvalidPolicy ''lifecycle cannot be eligible''))"

definition normalizeStrings :: "externals \<Rightarrow> string \<Rightarrow> string list \<Rightarrow> policy_error + string list" where
  "normalizeStrings ext kind source =
     (let values = map (eligibility_token ext) source
      in if list_all (\<lambda>v. v \<noteq> []) values then Inr (sorted_keys values)
         else Inl (ErrInvalidPolicy (''empty '' @ kind)))"

definition NewPolicy :: "externals \<Rightarrow> EligibilityPolicySpec \<Rightarrow> policy_error + EligibilityPolicy" where
  "NewPolicy ext source =
     (let version = eligibility_token ext (ep_Version source)
      in res_bind (normalizeLifecycles (ep_AllowedLifecycle source)) (\<lambda>lifecycles.
         res_bind (normalizeStrings ext ''validation policy'' (ep_CompatibleValidationPolicies source)) (\<lambda>policies.
         res_bind (normalizeStrings ext ''residency region'' (ep_AllowedResidencyRegions source)) (\<lambda>regions.
         let spec = source\<lparr>ep_Version := version, ep_AllowedLifecycle := lifecycles,
                           ep_CompatibleValidationPolicies := policies, ep_AllowedResidencyRegions := regions\<rparr>
         in if version = [] \<or> \<not> validRisk (ep_MaximumRisk spec) \<or> sint (ep_MaximumValidationAgeSeconds spec) \<le> 0 \<or>
               lifecycles = [] \<or> policies = [] \<or> regions = []
            then Inl (ErrInvalidPolicy ''required field missing or invalid'')
            else case MarshalAndHash ext (json_eligibility_policy spec) of
                   Inl e \<Rightarrow> Inl (ErrPolicyEncoding e)
                 | Inr (canonicalJSON, hash) \<Rightarrow>
                     Inr \<lparr>eg_Spec = spec, eg_ID = ''egp_'' @ hash, eg_CanonicalJSON = canonicalJSON\<rparr>))))"

section \<open>The engine\<close>

record Tool =
  tl_Name :: string
  tl_ContractVersionID :: string

record Harness =
  hn_Name :: string
  hn_Version :: string

record Fact =
  fc_Name :: string
  fc_Value :: string

record Resource =
  re_Type :: string
  re_Namespace :: string
  re_IdentityHash :: string
  re_SchemaVersion :: string

record EligibilityContext =
  cx_TenantID :: string
  cx_AsOfUnix :: int64
  cx_RecallAllowed :: bool
  cx_Tools :: "Tool list"
  cx_Harness :: Harness
  cx_Environment :: "Fact list"
  cx_Resources :: "Resource list"
  cx_ForbiddenEffects :: "string list"
  cx_MaximumRisk :: risk
  cx_AllowedResidencyRegions :: "string list"

record EligibilityCandidate =
  ec_VersionID :: string
  ec_OwnerTenantID :: string
  ec_SharedTenantIDs :: "string list"
  ec_Lifecycle :: string
  ec_SupersededBy :: string
  ec_RequiredTools :: "Tool list"
  ec_RequiredHarness :: Harness
  ec_RequiredEnvironment :: "Fact list"
  ec_RequiredResources :: "Resource list"
  ec_Effects :: "string list"
  ec_Risk :: risk
  ec_ValidatedAtUnix :: int64
  ec_ValidationPolicyVersion :: string
  ec_RecallAllowed :: bool
  ec_ResidencyRegion :: string

record Rejection =
  rj_Code :: string
  rj_SubjectID :: string
  rj_Field :: string
  rj_Expected :: string
  rj_Observed :: string

record EligibilityDecision =
  el_Eligible :: bool
  el_AdvisoryOnly :: bool
  el_PolicyID :: string
  el_Rejections :: "Rejection list"

definition toolMap :: "Tool list \<Rightarrow> string \<rightharpoonup> string" where
  "toolMap source = foldl (\<lambda>result tool.
     (case result (tl_Name tool) of
        Some prior \<Rightarrow> if prior \<noteq> tl_ContractVersionID tool then result(tl_Name tool \<mapsto> [])
                      else result(tl_Name tool \<mapsto> tl_ContractVersionID tool)
      | None \<Rightarrow> result(tl_Name tool \<mapsto> tl_ContractVersionID tool))) Map.empty source"

definition factMap :: "Fact list \<Rightarrow> string \<rightharpoonup> string" where
  "factMap source = foldl (\<lambda>result fact.
     (case result (fc_Name fact) of
        Some prior \<Rightarrow> if prior \<noteq> fc_Value fact then result(fc_Name fact \<mapsto> [])
                      else result(fc_Name fact \<mapsto> fc_Value fact)
      | None \<Rightarrow> result(fc_Name fact \<mapsto> fc_Value fact))) Map.empty source"

definition resourceKey :: "Resource \<Rightarrow> string" where
  "resourceKey r = re_Type r @ NUL @ re_Namespace r @ NUL @ re_IdentityHash r"

definition resourceMap :: "Resource list \<Rightarrow> string \<rightharpoonup> Resource" where
  "resourceMap source = foldl (\<lambda>result r.
     (let r1 = (case result (resourceKey r) of
                  Some prior \<Rightarrow> if re_SchemaVersion prior \<noteq> re_SchemaVersion r then r\<lparr>re_SchemaVersion := []\<rparr> else r
                | None \<Rightarrow> r)
      in result(resourceKey r \<mapsto> r1))) Map.empty source"

definition riskName :: "risk \<Rightarrow> string" where
  "riskName v = (if v = RiskLow then ''low'' else if v = RiskMedium then ''medium''
     else if v = RiskHigh then ''high'' else if v = RiskCritical then ''critical'' else [])"

text \<open>The key that \<^verbatim>\<open>fmt.Sprintf\<close> builds for the sort of the rejections.\<close>

definition rejection_key :: "Rejection \<Rightarrow> string" where
  "rejection_key r = rj_Code r @ NUL @ rj_SubjectID r @ NUL @ rj_Field r @ NUL @ rj_Expected r @ NUL @ rj_Observed r"

definition rejection_less :: "Rejection \<Rightarrow> Rejection \<Rightarrow> bool" where
  "rejection_less a b \<longleftrightarrow> rejection_key a < rejection_key b"

abbreviation reject :: "string \<Rightarrow> string \<Rightarrow> string \<Rightarrow> string \<Rightarrow> string \<Rightarrow> Rejection" where
  "reject code subject field expected observed \<equiv>
     \<lparr>rj_Code = code, rj_SubjectID = subject, rj_Field = field, rj_Expected = expected, rj_Observed = observed\<rparr>"

text \<open>The gates, in the order of the code; each appends its rejections.\<close>

definition metadata_rejections :: "EligibilityContext \<Rightarrow> EligibilityCandidate \<Rightarrow> Rejection list" where
  "metadata_rejections cx c =
     (if cx_TenantID cx = [] \<or> sint (cx_AsOfUnix cx) \<le> 0 \<or> \<not> validRisk (cx_MaximumRisk cx)
      then [reject ''context_invalid'' ''request'' ''server_context'' ''complete'' ''invalid''] else []) @
     (if ec_VersionID c = [] \<or> ec_OwnerTenantID c = [] \<or> ec_Lifecycle c = [] \<or> \<not> validRisk (ec_Risk c) \<or>
         ec_ResidencyRegion c = []
      then [reject ''candidate_invalid'' ''candidate'' ''metadata'' ''complete'' ''invalid''] else [])"

definition scope_rejections :: "EligibilityContext \<Rightarrow> EligibilityCandidate \<Rightarrow> Rejection list" where
  "scope_rejections cx c =
     (if ec_OwnerTenantID c \<noteq> cx_TenantID cx then
        (if ec_SharedTenantIDs c = []
           then [reject ''tenant_scope_denied'' (ec_VersionID c) ''tenant_scope'' ''owner_or_explicit_share'' ''different_owner'']
         else if cx_TenantID cx \<notin> set (ec_SharedTenantIDs c)
           then [reject ''sharing_scope_denied'' (ec_VersionID c) ''sharing_scope'' ''tenant_grant'' ''grant_absent'']
         else [])
      else [])"

definition allowed_lifecycle :: "EligibilityPolicySpec \<Rightarrow> EligibilityCandidate \<Rightarrow> bool" where
  "allowed_lifecycle p c =
     (let allowed = ec_Lifecycle c \<in> set (ep_AllowedLifecycle p)
      in if ec_Lifecycle c = LifecycleCandidate then allowed \<or> ep_AllowAdvisoryCandidates p else allowed)"

definition lifecycle_rejections :: "EligibilityPolicySpec \<Rightarrow> EligibilityCandidate \<Rightarrow> Rejection list" where
  "lifecycle_rejections p c =
     (if \<not> allowed_lifecycle p c
      then [reject ''lifecycle_ineligible'' (ec_VersionID c) ''lifecycle'' ''active_or_trial'' (ec_Lifecycle c)] else []) @
     (if ec_SupersededBy c \<noteq> [] \<or> ec_Lifecycle c = LifecycleSuperseded
      then [reject ''superseded'' (ec_VersionID c) ''supersession'' ''current'' ''superseded''] else [])"

definition tool_rejections :: "EligibilityContext \<Rightarrow> EligibilityCandidate \<Rightarrow> Rejection list" where
  "tool_rejections cx c = concat (map (\<lambda>required.
     (case toolMap (cx_Tools cx) (tl_Name required) of
        None \<Rightarrow> [reject ''tool_unavailable'' (tl_Name required) ''tool'' ''available'' ''missing'']
      | Some version \<Rightarrow>
          if version \<noteq> tl_ContractVersionID required
          then [reject ''tool_contract_incompatible'' (tl_Name required) ''contract_version'' ''compatible'' ''incompatible'']
          else [])) (ec_RequiredTools c))"

definition resource_rejections :: "EligibilityContext \<Rightarrow> EligibilityCandidate \<Rightarrow> Rejection list" where
  "resource_rejections cx c = concat (map (\<lambda>required.
     (let subject = re_Type required @ '':'' @ re_Namespace required
      in case resourceMap (cx_Resources cx) (resourceKey required) of
        None \<Rightarrow> [reject ''resource_precondition_missing'' subject ''resource'' ''present'' ''missing'']
      | Some available \<Rightarrow>
          if re_SchemaVersion required \<noteq> [] \<and> re_SchemaVersion available \<noteq> re_SchemaVersion required
          then [reject ''resource_schema_incompatible'' subject ''schema_version'' ''compatible'' ''incompatible'']
          else [])) (ec_RequiredResources c))"

definition effect_rejections :: "EligibilityContext \<Rightarrow> EligibilityCandidate \<Rightarrow> Rejection list" where
  "effect_rejections cx c = concat (map (\<lambda>effect.
     (if effect \<in> set (cx_ForbiddenEffects cx)
      then [reject ''forbidden_effect'' effect ''effect'' ''allowed'' ''forbidden''] else [])) (ec_Effects c))"

definition effective_risk :: "EligibilityPolicySpec \<Rightarrow> EligibilityContext \<Rightarrow> risk" where
  "effective_risk p cx =
     (if \<not> validRisk (cx_MaximumRisk cx) \<or> ep_MaximumRisk p < cx_MaximumRisk cx then ep_MaximumRisk p
      else cx_MaximumRisk cx)"

definition risk_rejections :: "EligibilityPolicySpec \<Rightarrow> EligibilityContext \<Rightarrow> EligibilityCandidate \<Rightarrow> Rejection list" where
  "risk_rejections p cx c =
     (if \<not> validRisk (ec_Risk c) \<or> ec_Risk c > effective_risk p cx
      then [reject ''risk_budget_exceeded'' (ec_VersionID c) ''risk'' (riskName (effective_risk p cx)) (riskName (ec_Risk c))]
      else [])"

definition environment_rejections :: "EligibilityContext \<Rightarrow> EligibilityCandidate \<Rightarrow> Rejection list" where
  "environment_rejections cx c = concat (map (\<lambda>required.
     (if factMap (cx_Environment cx) (fc_Name required) \<noteq> Some (fc_Value required)
      then [reject ''environment_incompatible'' (fc_Name required) ''environment'' ''compatible'' ''missing_or_different'']
      else [])) (ec_RequiredEnvironment c))"

definition harness_rejections :: "EligibilityContext \<Rightarrow> EligibilityCandidate \<Rightarrow> Rejection list" where
  "harness_rejections cx c =
     (let required = ec_RequiredHarness c
      in if hn_Name required \<noteq> [] \<and>
            (hn_Name required \<noteq> hn_Name (cx_Harness cx) \<or>
             (hn_Version required \<noteq> [] \<and> hn_Version required \<noteq> hn_Version (cx_Harness cx)))
         then [reject ''harness_incompatible'' (hn_Name required) ''harness'' ''compatible'' ''missing_or_different'']
         else [])"

definition validation_rejections :: "EligibilityPolicySpec \<Rightarrow> EligibilityContext \<Rightarrow> EligibilityCandidate \<Rightarrow> Rejection list" where
  "validation_rejections p cx c =
     (if sint (ec_ValidatedAtUnix c) \<le> 0
        then [reject ''validation_missing'' (ec_VersionID c) ''validation'' ''present'' ''missing'']
      else if sint (cx_AsOfUnix cx) \<le> 0 \<or> sint (ec_ValidatedAtUnix c) > sint (cx_AsOfUnix cx) \<or>
              sint (cx_AsOfUnix cx - ec_ValidatedAtUnix c) > sint (ep_MaximumValidationAgeSeconds p)
        then [reject ''validation_stale'' (ec_VersionID c) ''validation_age'' ''within_policy'' ''stale_or_future'']
      else []) @
     (if ec_ValidationPolicyVersion c \<notin> set (ep_CompatibleValidationPolicies p)
      then [reject ''policy_incompatible'' (ec_VersionID c) ''validation_policy'' ''compatible'' ''incompatible''] else [])"

definition consent_rejections :: "EligibilityPolicySpec \<Rightarrow> EligibilityContext \<Rightarrow> EligibilityCandidate \<Rightarrow> Rejection list" where
  "consent_rejections p cx c =
     (if \<not> cx_RecallAllowed cx \<or> \<not> ec_RecallAllowed c
      then [reject ''consent_denied'' (ec_VersionID c) ''recall_consent'' ''allowed'' ''denied''] else []) @
     (if ec_ResidencyRegion c \<notin> set (ep_AllowedResidencyRegions p) \<or>
         ec_ResidencyRegion c \<notin> set (cx_AllowedResidencyRegions cx)
      then [reject ''residency_denied'' (ec_VersionID c) ''residency'' ''allowed_region'' ''denied_or_unknown''] else [])"

definition all_rejections :: "EligibilityPolicySpec \<Rightarrow> EligibilityContext \<Rightarrow> EligibilityCandidate \<Rightarrow> Rejection list" where
  "all_rejections p cx c =
     metadata_rejections cx c @ scope_rejections cx c @ lifecycle_rejections p c @ tool_rejections cx c @
     resource_rejections cx c @ effect_rejections cx c @ risk_rejections p cx c @ environment_rejections cx c @
     harness_rejections cx c @ validation_rejections p cx c @ consent_rejections p cx c"

definition eligibility_Evaluate ::
  "externals \<Rightarrow> EligibilityPolicySpec \<Rightarrow> EligibilityContext \<Rightarrow> EligibilityCandidate \<Rightarrow> EligibilityDecision" where
  "eligibility_Evaluate ext policySpec cx c =
     (case NewPolicy ext policySpec of
        Inl _ \<Rightarrow> \<lparr>el_Eligible = False, el_AdvisoryOnly = False, el_PolicyID = [],
                  el_Rejections = [reject ''policy_invalid'' [] ''policy'' ''valid'' ''invalid'']\<rparr>
      | Inr policy \<Rightarrow>
          let p = eg_Spec policy;
              rejections = sort_slice rejection_less (all_rejections p cx c);
              advisory = (ec_Lifecycle c = LifecycleCandidate \<and> allowed_lifecycle p c);
              eligible = (length rejections = 0)
          in \<lparr>el_Eligible = eligible, el_AdvisoryOnly = (if \<not> eligible then False else advisory),
              el_PolicyID = eg_ID policy, el_Rejections = rejections\<rparr>)"

section \<open>Maps with poisoned conflicts\<close>

text \<open>
  What a map that a loop builds from a list says about a key: nothing if no element has the key,
  the value if all elements with the key agree, and the empty string if two of them differ.
\<close>

fun agreed :: "string list \<Rightarrow> string option" where
  "agreed [] = None"
| "agreed (v # vs) = Some (if list_all (\<lambda>w. w = v) vs then v else [])"

lemma agreed_snoc:
  "agreed (vs @ [w]) = Some (case agreed vs of None \<Rightarrow> w | Some p \<Rightarrow> if p \<noteq> w then [] else w)"
  by (cases vs) (auto simp: list_all_iff)

lemma agreed_iff:
  "agreed vs = Some w \<longleftrightarrow> vs \<noteq> [] \<and> (set vs = {w} \<or> w = [] \<and> (\<exists>a \<in> set vs. \<exists>b \<in> set vs. a \<noteq> b))"
  by (cases vs) (auto simp: list_all_iff)

lemma agreed_None: "agreed vs = None \<longleftrightarrow> vs = []"
  by (cases vs) auto

lemma agreed_cong: "set vs = set ws \<Longrightarrow> agreed vs = agreed ws"
proof (cases "agreed vs")
  case (Some v)
  moreover assume "set vs = set ws"
  ultimately have "agreed ws = Some v" by (auto simp: agreed_iff)
  with Some show ?thesis by simp
next
  case None
  moreover assume "set vs = set ws"
  ultimately show ?thesis by (simp add: agreed_None)
qed

lemma agreed_nonempty:
  assumes "w \<noteq> []"
  shows "agreed vs = Some w \<longleftrightarrow> set vs = {w}"
proof (cases "vs = []")
  case False
  then show ?thesis using assms by (simp add: agreed_iff)
qed simp

locale conflict_map =
  fixes build :: "'a list \<Rightarrow> string \<rightharpoonup> 'v"
    and key :: "'a \<Rightarrow> string"
    and val :: "'a \<Rightarrow> string"
    and view :: "'v \<Rightarrow> string"
  assumes build_Nil: "build [] k = None"
    and build_snoc: "map_option view (build (xs @ [x]) k) =
      (if k = key x
       then Some (case build xs k of None \<Rightarrow> val x | Some p \<Rightarrow> if view p \<noteq> val x then [] else val x)
       else map_option view (build xs k))"
begin

lemma lookup: "map_option view (build xs k) = agreed (map val (filter (\<lambda>x. key x = k) xs))"
proof (induction xs rule: rev_induct)
  case Nil
  then show ?case by (simp add: build_Nil)
next
  case (snoc x xs)
  then show ?case by (cases "build xs k") (auto simp: build_snoc agreed_snoc dest: sym)
qed

lemma lookup_cong:
  assumes "set xs = set ys"
  shows "map_option view (build xs k) = map_option view (build ys k)"
proof -
  have "set (map val (filter (\<lambda>x. key x = k) xs)) = set (map val (filter (\<lambda>x. key x = k) ys))"
    using assms by auto
  then show ?thesis unfolding lookup by (rule agreed_cong)
qed

end

interpretation tools: conflict_map toolMap tl_Name tl_ContractVersionID "\<lambda>v. v"
proof unfold_locales
  show "toolMap [] k = None" for k by (simp add: toolMap_def)
  show "map_option (\<lambda>v. v) (toolMap (xs @ [x]) k) =
      (if k = tl_Name x
       then Some (case toolMap xs k of None \<Rightarrow> tl_ContractVersionID x
                  | Some p \<Rightarrow> if p \<noteq> tl_ContractVersionID x then [] else tl_ContractVersionID x)
       else map_option (\<lambda>v. v) (toolMap xs k))" for xs x k
    by (auto simp: toolMap_def option.map_ident split: option.split)
qed

interpretation facts: conflict_map factMap fc_Name fc_Value "\<lambda>v. v"
proof unfold_locales
  show "factMap [] k = None" for k by (simp add: factMap_def)
  show "map_option (\<lambda>v. v) (factMap (xs @ [x]) k) =
      (if k = fc_Name x
       then Some (case factMap xs k of None \<Rightarrow> fc_Value x | Some p \<Rightarrow> if p \<noteq> fc_Value x then [] else fc_Value x)
       else map_option (\<lambda>v. v) (factMap xs k))" for xs x k
    by (auto simp: factMap_def option.map_ident split: option.split)
qed

interpretation resources: conflict_map resourceMap resourceKey re_SchemaVersion re_SchemaVersion
proof unfold_locales
  show "resourceMap [] k = None" for k by (simp add: resourceMap_def)
  show "map_option re_SchemaVersion (resourceMap (xs @ [x]) k) =
      (if k = resourceKey x
       then Some (case resourceMap xs k of None \<Rightarrow> re_SchemaVersion x
                  | Some p \<Rightarrow> if re_SchemaVersion p \<noteq> re_SchemaVersion x then [] else re_SchemaVersion x)
       else map_option re_SchemaVersion (resourceMap xs k))" for xs x k
    by (auto simp: resourceMap_def Let_def split: option.split)
qed

interpretation rejection_order: keyed_order rejection_less rejection_key
  by unfold_locales (simp add: rejection_less_def)

section \<open>The specification\<close>

text \<open>What the context says about a tool, an environment fact and a resource.\<close>

definition tool_version :: "EligibilityContext \<Rightarrow> string \<Rightarrow> string option" where
  "tool_version cx n = agreed (map tl_ContractVersionID (filter (\<lambda>t. tl_Name t = n) (cx_Tools cx)))"

definition fact_value :: "EligibilityContext \<Rightarrow> string \<Rightarrow> string option" where
  "fact_value cx n = agreed (map fc_Value (filter (\<lambda>f. fc_Name f = n) (cx_Environment cx)))"

definition resource_schema :: "EligibilityContext \<Rightarrow> string \<Rightarrow> string option" where
  "resource_schema cx k = agreed (map re_SchemaVersion (filter (\<lambda>r. resourceKey r = k) (cx_Resources cx)))"

definition may_recall :: "EligibilityPolicySpec \<Rightarrow> EligibilityContext \<Rightarrow> EligibilityCandidate \<Rightarrow> bool" where
  "may_recall p cx c \<longleftrightarrow>
     \<comment> \<open>complete metadata\<close>
     cx_TenantID cx \<noteq> [] \<and> validRisk (cx_MaximumRisk cx) \<and> ec_VersionID c \<noteq> [] \<and> ec_OwnerTenantID c \<noteq> [] \<and>
     ec_Lifecycle c \<noteq> [] \<and> ec_ResidencyRegion c \<noteq> [] \<and>
     \<comment> \<open>tenant scope\<close>
     (ec_OwnerTenantID c = cx_TenantID cx \<or> cx_TenantID cx \<in> set (ec_SharedTenantIDs c)) \<and>
     \<comment> \<open>lifecycle\<close>
     (ec_Lifecycle c \<in> set (ep_AllowedLifecycle p) \<or>
      ec_Lifecycle c = LifecycleCandidate \<and> ep_AllowAdvisoryCandidates p) \<and>
     ec_SupersededBy c = [] \<and> ec_Lifecycle c \<noteq> LifecycleSuperseded \<and>
     \<comment> \<open>requirements\<close>
     (\<forall>t \<in> set (ec_RequiredTools c). tool_version cx (tl_Name t) = Some (tl_ContractVersionID t)) \<and>
     (\<forall>r \<in> set (ec_RequiredResources c). \<exists>v. resource_schema cx (resourceKey r) = Some v \<and>
        (re_SchemaVersion r \<noteq> [] \<longrightarrow> v = re_SchemaVersion r)) \<and>
     (\<forall>f \<in> set (ec_RequiredEnvironment c). fact_value cx (fc_Name f) = Some (fc_Value f)) \<and>
     (hn_Name (ec_RequiredHarness c) = [] \<or> hn_Name (ec_RequiredHarness c) = hn_Name (cx_Harness cx) \<and>
        (hn_Version (ec_RequiredHarness c) = [] \<or> hn_Version (ec_RequiredHarness c) = hn_Version (cx_Harness cx))) \<and>
     \<comment> \<open>effects and risk\<close>
     set (ec_Effects c) \<inter> set (cx_ForbiddenEffects cx) = {} \<and>
     validRisk (ec_Risk c) \<and> ec_Risk c \<le> ep_MaximumRisk p \<and> ec_Risk c \<le> cx_MaximumRisk cx \<and>
     \<comment> \<open>validation, in unbounded integers\<close>
     0 < sint (ec_ValidatedAtUnix c) \<and> sint (ec_ValidatedAtUnix c) \<le> sint (cx_AsOfUnix cx) \<and>
     sint (cx_AsOfUnix cx) - sint (ec_ValidatedAtUnix c) \<le> sint (ep_MaximumValidationAgeSeconds p) \<and>
     ec_ValidationPolicyVersion c \<in> set (ep_CompatibleValidationPolicies p) \<and>
     \<comment> \<open>consent and residency\<close>
     cx_RecallAllowed cx \<and> ec_RecallAllowed c \<and>
     ec_ResidencyRegion c \<in> set (ep_AllowedResidencyRegions p) \<and>
     ec_ResidencyRegion c \<in> set (cx_AllowedResidencyRegions cx)"

lemma toolMap_version: "toolMap (cx_Tools cx) n = tool_version cx n"
  using tools.lookup [of "cx_Tools cx" n] by (simp add: tool_version_def option.map_ident)

lemma factMap_value: "factMap (cx_Environment cx) n = fact_value cx n"
  using facts.lookup [of "cx_Environment cx" n] by (simp add: fact_value_def option.map_ident)

lemma resourceMap_schema:
  "resource_schema cx k = map_option re_SchemaVersion (resourceMap (cx_Resources cx) k)"
  by (simp add: resource_schema_def resources.lookup)

lemma gate_metadata: "metadata_rejections cx c = [] \<longleftrightarrow>
   cx_TenantID cx \<noteq> [] \<and> sint (cx_AsOfUnix cx) > 0 \<and> validRisk (cx_MaximumRisk cx) \<and>
   ec_VersionID c \<noteq> [] \<and> ec_OwnerTenantID c \<noteq> [] \<and> ec_Lifecycle c \<noteq> [] \<and> validRisk (ec_Risk c) \<and> ec_ResidencyRegion c \<noteq> []"
  by (auto simp: metadata_rejections_def)

lemma gate_scope: "scope_rejections cx c = [] \<longleftrightarrow>
   ec_OwnerTenantID c = cx_TenantID cx \<or> cx_TenantID cx \<in> set (ec_SharedTenantIDs c)"
  by (auto simp: scope_rejections_def)

lemma gate_lifecycle: "lifecycle_rejections p c = [] \<longleftrightarrow>
   (ec_Lifecycle c \<in> set (ep_AllowedLifecycle p) \<or> ec_Lifecycle c = LifecycleCandidate \<and> ep_AllowAdvisoryCandidates p) \<and>
   ec_SupersededBy c = [] \<and> ec_Lifecycle c \<noteq> LifecycleSuperseded"
  by (auto simp: lifecycle_rejections_def allowed_lifecycle_def Let_def)

lemma gate_tools: "tool_rejections cx c = [] \<longleftrightarrow>
   (\<forall>t \<in> set (ec_RequiredTools c). tool_version cx (tl_Name t) = Some (tl_ContractVersionID t))"
  unfolding tool_rejections_def concat_eq_Nil_conv toolMap_version
  by (fastforce split: option.split_asm if_split_asm option.split if_split)

lemma gate_resources: "resource_rejections cx c = [] \<longleftrightarrow>
   (\<forall>r \<in> set (ec_RequiredResources c). \<exists>v. resource_schema cx (resourceKey r) = Some v \<and>
      (re_SchemaVersion r \<noteq> [] \<longrightarrow> v = re_SchemaVersion r))"
  unfolding resource_rejections_def concat_eq_Nil_conv resourceMap_schema
  by (fastforce simp: Let_def split: option.split_asm if_split_asm option.split if_split)

lemma gate_effects: "effect_rejections cx c = [] \<longleftrightarrow> set (ec_Effects c) \<inter> set (cx_ForbiddenEffects cx) = {}"
  unfolding effect_rejections_def concat_eq_Nil_conv by auto

lemma gate_environment: "environment_rejections cx c = [] \<longleftrightarrow>
   (\<forall>f \<in> set (ec_RequiredEnvironment c). fact_value cx (fc_Name f) = Some (fc_Value f))"
  unfolding environment_rejections_def concat_eq_Nil_conv factMap_value by auto

lemma gate_risk:
  assumes "validRisk (cx_MaximumRisk cx)"
  shows "risk_rejections p cx c = [] \<longleftrightarrow>
    validRisk (ec_Risk c) \<and> ec_Risk c \<le> ep_MaximumRisk p \<and> ec_Risk c \<le> cx_MaximumRisk cx"
  using assms by (auto simp: risk_rejections_def effective_risk_def not_less intro: order_trans less_imp_le)

text \<open>The subtraction of two positive instants does not wrap around.\<close>

lemma gate_validation: "validation_rejections p cx c = [] \<longleftrightarrow>
   0 < sint (ec_ValidatedAtUnix c) \<and> sint (ec_ValidatedAtUnix c) \<le> sint (cx_AsOfUnix cx) \<and>
   sint (cx_AsOfUnix cx) - sint (ec_ValidatedAtUnix c) \<le> sint (ep_MaximumValidationAgeSeconds p) \<and>
   ec_ValidationPolicyVersion c \<in> set (ep_CompatibleValidationPolicies p)"
proof -
  have "sint (cx_AsOfUnix cx - ec_ValidatedAtUnix c) = sint (cx_AsOfUnix cx) - sint (ec_ValidatedAtUnix c)"
    if "0 < sint (ec_ValidatedAtUnix c)" "sint (ec_ValidatedAtUnix c) \<le> sint (cx_AsOfUnix cx)"
  proof (rule sint_diff)
    show "fits64 (sint (cx_AsOfUnix cx) - sint (ec_ValidatedAtUnix c))"
      using that sint64_range [of "cx_AsOfUnix cx"] unfolding fits64_def by linarith
  qed
  then show ?thesis by (auto simp: validation_rejections_def)
qed

lemma gate_consent: "consent_rejections p cx c = [] \<longleftrightarrow>
   cx_RecallAllowed cx \<and> ec_RecallAllowed c \<and> ec_ResidencyRegion c \<in> set (ep_AllowedResidencyRegions p) \<and>
   ec_ResidencyRegion c \<in> set (cx_AllowedResidencyRegions cx)"
  by (auto simp: consent_rejections_def)

lemma gate_harness: "harness_rejections cx c = [] \<longleftrightarrow>
   hn_Name (ec_RequiredHarness c) = [] \<or> hn_Name (ec_RequiredHarness c) = hn_Name (cx_Harness cx) \<and>
     (hn_Version (ec_RequiredHarness c) = [] \<or> hn_Version (ec_RequiredHarness c) = hn_Version (cx_Harness cx))"
  by (auto simp: harness_rejections_def Let_def)

lemmas gates = gate_metadata gate_scope gate_lifecycle gate_tools gate_resources gate_effects gate_environment
  gate_validation gate_consent gate_harness

lemma all_rejections_Nil: "all_rejections p cx c = [] \<longleftrightarrow> may_recall p cx c"
proof (cases "validRisk (cx_MaximumRisk cx)")
  case True
  show ?thesis unfolding all_rejections_def append_is_Nil_conv gates gate_risk [OF True] may_recall_def
    by (intro iffI; elim conjE; intro conjI; assumption?) linarith
next
  case False
  then show ?thesis unfolding all_rejections_def append_is_Nil_conv gates may_recall_def by blast
qed

lemma eligible_iff:
  "el_Eligible (eligibility_Evaluate ext ps cx c) \<longleftrightarrow>
     (case NewPolicy ext ps of Inl _ \<Rightarrow> False | Inr policy \<Rightarrow> may_recall (eg_Spec policy) cx c)"
  by (simp add: eligibility_Evaluate_def all_rejections_Nil Let_def split: sum.split)

text \<open>The lists of the context enter the gates only through their sets.\<close>

lemma all_rejections_cong:
  assumes "set (cx_Tools cx) = set ts" "set (cx_Environment cx) = set fs" "set (cx_Resources cx) = set rs"
    "set (cx_ForbiddenEffects cx) = set es" "set (cx_AllowedResidencyRegions cx) = set gs"
  shows "all_rejections p (cx\<lparr>cx_Tools := ts, cx_Environment := fs, cx_Resources := rs, cx_ForbiddenEffects := es,
      cx_AllowedResidencyRegions := gs\<rparr>) c = all_rejections p cx c"
proof -
  let ?cx = "cx\<lparr>cx_Tools := ts, cx_Environment := fs, cx_Resources := rs, cx_ForbiddenEffects := es,
      cx_AllowedResidencyRegions := gs\<rparr>"
  have t: "toolMap ts = toolMap (cx_Tools cx)" "factMap fs = factMap (cx_Environment cx)"
    using tools.lookup_cong [OF assms(1)] facts.lookup_cong [OF assms(2)] by (auto simp: option.map_ident)
  have tools: "tool_rejections ?cx c = tool_rejections cx c"
    "environment_rejections ?cx c = environment_rejections cx c"
    by (simp_all add: tool_rejections_def environment_rejections_def t)
  have "resource_rejections ?cx c = resource_rejections cx c"
    unfolding resource_rejections_def Let_def
  proof (intro arg_cong [where f = concat] map_cong refl)
    fix r assume "r \<in> set (ec_RequiredResources c)"
    show "(case resourceMap (cx_Resources ?cx) (resourceKey r) of
        None \<Rightarrow> [reject ''resource_precondition_missing'' (re_Type r @ '':'' @ re_Namespace r) ''resource'' ''present'' ''missing'']
      | Some available \<Rightarrow> if re_SchemaVersion r \<noteq> [] \<and> re_SchemaVersion available \<noteq> re_SchemaVersion r
          then [reject ''resource_schema_incompatible'' (re_Type r @ '':'' @ re_Namespace r) ''schema_version'' ''compatible'' ''incompatible'']
          else []) =
      (case resourceMap (cx_Resources cx) (resourceKey r) of
        None \<Rightarrow> [reject ''resource_precondition_missing'' (re_Type r @ '':'' @ re_Namespace r) ''resource'' ''present'' ''missing'']
      | Some available \<Rightarrow> if re_SchemaVersion r \<noteq> [] \<and> re_SchemaVersion available \<noteq> re_SchemaVersion r
          then [reject ''resource_schema_incompatible'' (re_Type r @ '':'' @ re_Namespace r) ''schema_version'' ''compatible'' ''incompatible'']
          else [])"
      using resources.lookup_cong [OF assms(3), of "resourceKey r"]
      by (cases "resourceMap rs (resourceKey r)"; cases "resourceMap (cx_Resources cx) (resourceKey r)") simp_all
  qed
  then show ?thesis
    unfolding all_rejections_def tools
    by (simp add: metadata_rejections_def scope_rejections_def effect_rejections_def risk_rejections_def
        harness_rejections_def validation_rejections_def consent_rejections_def effective_risk_def assms)
qed

section \<open>A sample decision\<close>

definition sample_eligibility_policy :: EligibilityPolicySpec where
  "sample_eligibility_policy = \<lparr>ep_Version = ''e1'', ep_AllowedLifecycle = [LifecycleActive],
     ep_AllowAdvisoryCandidates = False, ep_MaximumRisk = RiskHigh, ep_MaximumValidationAgeSeconds = 100,
     ep_CompatibleValidationPolicies = [''v1''], ep_AllowedResidencyRegions = [''eu'']\<rparr>"

definition sample_context :: "Tool list \<Rightarrow> EligibilityContext" where
  "sample_context ts = \<lparr>cx_TenantID = ''t'', cx_AsOfUnix = 1000, cx_RecallAllowed = True, cx_Tools = ts,
     cx_Harness = \<lparr>hn_Name = ''h'', hn_Version = ''1''\<rparr>, cx_Environment = [], cx_Resources = [],
     cx_ForbiddenEffects = [], cx_MaximumRisk = RiskMedium, cx_AllowedResidencyRegions = [''eu'']\<rparr>"

definition sample_version :: EligibilityCandidate where
  "sample_version = \<lparr>ec_VersionID = ''pv'', ec_OwnerTenantID = ''t'', ec_SharedTenantIDs = [], ec_Lifecycle = LifecycleActive,
     ec_SupersededBy = [], ec_RequiredTools = [\<lparr>tl_Name = ''git'', tl_ContractVersionID = ''c1''\<rparr>],
     ec_RequiredHarness = \<lparr>hn_Name = [], hn_Version = []\<rparr>, ec_RequiredEnvironment = [], ec_RequiredResources = [],
     ec_Effects = [], ec_Risk = RiskLow, ec_ValidatedAtUnix = 950, ec_ValidationPolicyVersion = ''v1'',
     ec_RecallAllowed = True, ec_ResidencyRegion = ''eu''\<rparr>"

definition git_tool :: Tool where "git_tool = \<lparr>tl_Name = ''git'', tl_ContractVersionID = ''c1''\<rparr>"
definition go_tool :: Tool where "go_tool = \<lparr>tl_Name = ''go'', tl_ContractVersionID = ''c2''\<rparr>"

lemma sample_eligible:
  "el_Eligible (eligibility_Evaluate sample_externals sample_eligibility_policy (sample_context [git_tool, go_tool]) sample_version)"
proof -
  have t: "TrimSpace ''e1'' = ''e1''" "TrimSpace ''v1'' = ''v1''" "TrimSpace ''eu'' = ''eu''" by code_simp+
  obtain policy where p: "NewPolicy sample_externals sample_eligibility_policy = Inr policy"
    "eg_Spec policy = sample_eligibility_policy"
    by (simp add: NewPolicy_def sample_eligibility_policy_def normalizeLifecycles_def normalizeStrings_def
        eligibility_token_def t MarshalAndHash_sample sorted_keys_def Let_def validRisk_def norm_NFC_sample)
  then show ?thesis
    by (simp add: eligible_iff may_recall_def sample_eligibility_policy_def sample_context_def sample_version_def
        git_tool_def go_tool_def tool_version_def validRisk_def)
qed

section \<open>Properties\<close>

text \<open>C3: eligibility is the conjunction of all gates. A version is eligible if and only if the policy
  is valid and every condition of the specification \<open>may_recall\<close> holds: tenant scope, lifecycle,
  supersession, tools, resources, environment, harness, effects, risk, validation age in exact
  integers, consent and residency. No gate can be compensated by another one.\<close>

theorem eligible_iff_all_gates:
  "el_Eligible (eligibility_Evaluate ext ps cx c) =
     (case NewPolicy ext ps of Inl _ \<Rightarrow> False | Inr policy \<Rightarrow> may_recall (eg_Spec policy) cx c)"
  by (rule eligible_iff)

text \<open>Advice is marked as such. The decision is advisory exactly when the version is eligible and
  still a candidate, so a candidate is never returned as a proven procedure.\<close>

theorem advisory_iff_eligible_candidate:
  "el_AdvisoryOnly (eligibility_Evaluate ext ps cx c) =
     (el_Eligible (eligibility_Evaluate ext ps cx c) \<and> ec_Lifecycle c = LifecycleCandidate)"
proof (cases "NewPolicy ext ps")
  case (Inr policy)
  have "allowed_lifecycle (eg_Spec policy) c" if "all_rejections (eg_Spec policy) cx c = []"
    using that by (auto simp: all_rejections_def lifecycle_rejections_def split: if_splits)
  with Inr show ?thesis by (auto simp: eligibility_Evaluate_def Let_def)
qed (simp add: eligibility_Evaluate_def)

text \<open>The decision does not depend on the order or the repetition of what the context lists:
  tools, environment facts, resources, forbidden effects and regions. The decision, its
  rejections and their order are the same for two contexts with the same sets.\<close>

theorem decision_ignores_context_order:
  assumes "set (cx_Tools cx) = set ts" "set (cx_Environment cx) = set fs" "set (cx_Resources cx) = set rs"
    "set (cx_ForbiddenEffects cx) = set es" "set (cx_AllowedResidencyRegions cx) = set gs"
  shows "eligibility_Evaluate ext ps (cx\<lparr>cx_Tools := ts, cx_Environment := fs, cx_Resources := rs,
      cx_ForbiddenEffects := es, cx_AllowedResidencyRegions := gs\<rparr>) c = eligibility_Evaluate ext ps cx c"
  unfolding eligibility_Evaluate_def all_rejections_cong [OF assms] ..

theorem decision_ignores_context_order_witness:
  "eligibility_Evaluate sample_externals sample_eligibility_policy (sample_context [go_tool, git_tool, go_tool]) sample_version =
   eligibility_Evaluate sample_externals sample_eligibility_policy (sample_context [git_tool, go_tool]) sample_version"
proof -
  have "(sample_context [git_tool, go_tool])\<lparr>cx_Tools := [go_tool, git_tool, go_tool], cx_Environment := [], cx_Resources := [],
      cx_ForbiddenEffects := [], cx_AllowedResidencyRegions := [''eu'']\<rparr> = sample_context [go_tool, git_tool, go_tool]"
    by (simp add: sample_context_def)
  moreover have "set (cx_Tools (sample_context [git_tool, go_tool])) = set [go_tool, git_tool, go_tool]"
    "cx_Environment (sample_context [git_tool, go_tool]) = []" "cx_Resources (sample_context [git_tool, go_tool]) = []"
    "cx_ForbiddenEffects (sample_context [git_tool, go_tool]) = []"
    "cx_AllowedResidencyRegions (sample_context [git_tool, go_tool]) = [''eu'']"
    by (auto simp: sample_context_def)
  ultimately show ?thesis
    using decision_ignores_context_order [of "sample_context [git_tool, go_tool]" "[go_tool, git_tool, go_tool]" "[]" "[]" "[]" "[''eu'']"]
    by simp
qed

text \<open>A contradictory context does not satisfy a requirement. If a version is eligible and requires
  a tool at a contract version, the context offers that tool, and at no other version.\<close>

theorem eligible_tools_unambiguous:
  assumes "el_Eligible (eligibility_Evaluate ext ps cx c)" "t \<in> set (ec_RequiredTools c)" "tl_ContractVersionID t \<noteq> []"
  shows "tl_ContractVersionID ` {u \<in> set (cx_Tools cx). tl_Name u = tl_Name t} = {tl_ContractVersionID t}"
proof -
  have "tool_version cx (tl_Name t) = Some (tl_ContractVersionID t)"
    using assms(1,2) unfolding eligible_iff by (auto simp: may_recall_def split: sum.splits)
  then have "set (map tl_ContractVersionID (filter (\<lambda>u. tl_Name u = tl_Name t) (cx_Tools cx))) = {tl_ContractVersionID t}"
    using agreed_nonempty [OF assms(3)] by (simp add: tool_version_def)
  then show ?thesis by simp
qed

theorem eligible_tools_unambiguous_witness:
  "tl_ContractVersionID ` {u \<in> set (cx_Tools (sample_context [git_tool, go_tool])). tl_Name u = tl_Name git_tool} = {''c1''}"
proof -
  have "git_tool \<in> set (ec_RequiredTools sample_version)" "tl_ContractVersionID git_tool = ''c1''"
    by (simp_all add: sample_version_def git_tool_def)
  with eligible_tools_unambiguous [OF sample_eligible this(1)] show ?thesis by simp
qed

end
