(* ===== verification/Evidence_Evaluation.thy ===== *)
theory Evidence_Evaluation
  imports Domain
begin

text \<open>
  \<^verbatim>\<open>internal/evidence/evaluator.go\<close>: the verdict on an outcome. Facts that are superseded are left
  out, the strongest satisfied and failed class per predicate are compared, and the outcome is
  verified, failed, provisional or inconclusive. Class 1 is the strongest.
\<close>

section \<open>The evaluator\<close>

datatype evidence_error = ErrInvalidEvidencePolicy | ErrInvalidEvidence string | ErrDuplicateEvidence string

record EvidencePolicy =
  vp_Version :: string
  vp_RequiredPredicates :: "string list"
  vp_SuccessClassCeiling :: string
  vp_FailureClassCeiling :: string
  vp_StrongConflictCeiling :: string

record EvidenceResult =
  vr_State :: string
  vr_PromotionEligible :: bool
  vr_PolicyVersion :: string
  vr_StrongestSatisfied :: string
  vr_StrongestFailed :: string
  vr_ConflictPredicates :: "string list"
  vr_MissingPredicates :: "string list"
  vr_Reasons :: "string list"

definition classRank :: "string \<Rightarrow> nat" where
  "classRank v =
     (if v = EvidenceClassIndependentVerifier then 1
      else if v = EvidenceClassGoalPredicate then 2
      else if v = EvidenceClassHarnessAssertion then 3
      else if v = EvidenceClassToolPostcondition then 4
      else if v = EvidenceClassExitStatusOrSelfReport then 5
      else 0)"

definition validVerdict :: "string \<Rightarrow> bool" where
  "validVerdict v \<longleftrightarrow> v = EvidenceVerdictSatisfied \<or> v = EvidenceVerdictFailed \<or> v = EvidenceVerdictUnknown"

definition canonicalPredicates :: "string list \<Rightarrow> string list" where
  "canonicalPredicates values = sorted_keys (filter (\<lambda>v. v \<noteq> []) (map TrimSpace values))"

definition validateEvidencePolicy :: "EvidencePolicy \<Rightarrow> bool" where
  "validateEvidencePolicy p \<longleftrightarrow>
     \<not> (TrimSpace (vp_Version p) = [] \<or> length (canonicalPredicates (vp_RequiredPredicates p)) = 0 \<or>
        classRank (vp_SuccessClassCeiling p) = 0 \<or> classRank (vp_FailureClassCeiling p) = 0 \<or>
        classRank (vp_StrongConflictCeiling p) = 0)"

definition strongest :: "OutcomeEvidence list \<Rightarrow> string \<Rightarrow> string" where
  "strongest facts verdict = snd (foldl (\<lambda>(best, class) fact.
     if oe_Verdict fact = verdict \<and> (best = 0 \<or> classRank (oe_Class fact) < best)
     then (classRank (oe_Class fact), oe_Class fact) else (best, class)) (0 :: nat, []) facts)"

definition strongestRanks :: "OutcomeEvidence list \<Rightarrow> nat \<times> nat" where
  "strongestRanks facts = foldl (\<lambda>(satisfied, failed) fact.
     let rank = classRank (oe_Class fact)
     in if oe_Verdict fact = EvidenceVerdictSatisfied
          then (if satisfied = 0 \<or> rank < satisfied then rank else satisfied, failed)
        else if oe_Verdict fact = EvidenceVerdictFailed
          then (satisfied, if failed = 0 \<or> rank < failed then rank else failed)
        else (satisfied, failed)) (0, 0) facts"

fun collect_active ::
  "string list \<Rightarrow> string list \<Rightarrow> OutcomeEvidence list \<Rightarrow> evidence_error + OutcomeEvidence list" where
  "collect_active superseded seen [] = Inr []"
| "collect_active superseded seen (f # fs) =
     (if oe_ID f = [] \<or> oe_PredicateID f = [] \<or> classRank (oe_Class f) = 0 \<or> \<not> validVerdict (oe_Verdict f)
        then Inl (ErrInvalidEvidence (oe_ID f))
      else if oe_ID f \<in> set seen then Inl (ErrDuplicateEvidence (oe_ID f))
      else res_bind (collect_active superseded (oe_ID f # seen) fs) (\<lambda>active.
           Inr (if oe_ID f \<in> set superseded then active else f # active)))"

definition byPredicate :: "OutcomeEvidence list \<Rightarrow> string \<Rightarrow> OutcomeEvidence list" where
  "byPredicate active predicate = filter (\<lambda>f. oe_PredicateID f = predicate) active"

record requirement_flags =
  rf_allVerified :: bool
  rf_anySatisfied :: bool
  rf_verifiedFailure :: bool
  rf_missing :: "string list"

definition check_requirement ::
  "EvidencePolicy \<Rightarrow> OutcomeEvidence list \<Rightarrow> requirement_flags \<Rightarrow> string \<Rightarrow> requirement_flags" where
  "check_requirement policy active flags predicate =
     (let (satisfied, failed) = strongestRanks (byPredicate active predicate);
          flags1 = (if satisfied \<noteq> 0 then flags\<lparr>rf_anySatisfied := True\<rparr> else flags);
          flags2 = (if failed \<noteq> 0 \<and> (satisfied = 0 \<or> failed < satisfied) \<and> failed \<le> classRank (vp_FailureClassCeiling policy)
                    then flags1\<lparr>rf_verifiedFailure := True\<rparr> else flags1)
      in if satisfied = 0 \<or> (failed \<noteq> 0 \<and> failed \<le> satisfied) \<or> satisfied > classRank (vp_SuccessClassCeiling policy)
         then let flags3 = flags2\<lparr>rf_allVerified := False\<rparr>
              in if satisfied = 0 \<and> failed = 0 then flags3\<lparr>rf_missing := rf_missing flags3 @ [predicate]\<rparr> else flags3
         else flags2)"

definition conflict_predicates :: "EvidencePolicy \<Rightarrow> OutcomeEvidence list \<Rightarrow> string list" where
  "conflict_predicates policy active = filter (\<lambda>predicate.
     (let (satisfied, failed) = strongestRanks (byPredicate active predicate)
      in satisfied \<noteq> 0 \<and> satisfied = failed \<and> satisfied \<le> classRank (vp_StrongConflictCeiling policy)))
     (sorted_keys (map oe_PredicateID active))"

definition evidence_Evaluate ::
  "EvidencePolicy \<Rightarrow> OutcomeEvidence list \<Rightarrow> string list \<Rightarrow> evidence_error + EvidenceResult" where
  "evidence_Evaluate policy facts superseded =
     (if \<not> validateEvidencePolicy policy then Inl ErrInvalidEvidencePolicy
      else res_bind (collect_active superseded [] facts) (\<lambda>active.
        let result = \<lparr>vr_State = [], vr_PromotionEligible = False, vr_PolicyVersion = vp_Version policy,
              vr_StrongestSatisfied = strongest active EvidenceVerdictSatisfied,
              vr_StrongestFailed = strongest active EvidenceVerdictFailed,
              vr_ConflictPredicates = conflict_predicates policy active, vr_MissingPredicates = [], vr_Reasons = []\<rparr>
        in if length (vr_ConflictPredicates result) > 0
             then Inr (result\<lparr>vr_State := OutcomeStateInconclusive, vr_Reasons := [''conflicting strong evidence'']\<rparr>)
           else
             let flags = foldl (check_requirement policy active)
                   \<lparr>rf_allVerified = True, rf_anySatisfied = False, rf_verifiedFailure = False, rf_missing = []\<rparr>
                   (canonicalPredicates (vp_RequiredPredicates policy));
                 result = result\<lparr>vr_MissingPredicates := rf_missing flags\<rparr>
             in if rf_verifiedFailure flags
                  then Inr (result\<lparr>vr_State := OutcomeStateVerifiedFailure,
                    vr_Reasons := [''required predicate failed with qualifying evidence'']\<rparr>)
                else if rf_allVerified flags
                  then Inr (result\<lparr>vr_State := OutcomeStateVerifiedSuccess, vr_PromotionEligible := True\<rparr>)
                else if rf_anySatisfied flags \<or> vr_StrongestSatisfied result \<noteq> []
                  then Inr (result\<lparr>vr_State := OutcomeStateProvisionalSuccess, vr_Reasons := [''goal proof is incomplete'']\<rparr>)
                else Inr (result\<lparr>vr_State := OutcomeStateInconclusive,
                    vr_Reasons := [''evidence is missing or below verification threshold'']\<rparr>)))"

section \<open>Ranks\<close>

text \<open>The ranks of the facts with a verdict, for one predicate.\<close>

definition ranks :: "string \<Rightarrow> OutcomeEvidence list \<Rightarrow> nat set" where
  "ranks verdict facts = {classRank (oe_Class f) | f. f \<in> set facts \<and> oe_Verdict f = verdict}"

definition least_rank :: "nat set \<Rightarrow> nat" where
  "least_rank R = (if R = {} then 0 else Min R)"

definition well_ranked :: "OutcomeEvidence list \<Rightarrow> bool" where
  "well_ranked facts \<longleftrightarrow> (\<forall>f \<in> set facts. classRank (oe_Class f) \<noteq> 0)"

lemma finite_ranks [simp]: "finite (ranks v facts)"
  by (simp add: ranks_def)

lemma ranks_snoc: "ranks v (facts @ [f]) =
    (if oe_Verdict f = v then insert (classRank (oe_Class f)) (ranks v facts) else ranks v facts)"
  by (auto simp: ranks_def)

lemma ranks_Nil [simp]: "ranks v [] = {}"
  by (simp add: ranks_def)

lemma ranks_nonzero: "well_ranked facts \<Longrightarrow> 0 \<notin> ranks v facts"
  by (auto simp: ranks_def well_ranked_def)

lemma least_rank_zero: "0 \<notin> R \<Longrightarrow> finite R \<Longrightarrow> least_rank R = 0 \<longleftrightarrow> R = {}"
  using Min_in [of R] by (auto simp: least_rank_def)

lemma least_rank_insert:
  assumes "finite R" "0 \<notin> R"
  shows "least_rank (insert r R) = (if least_rank R = 0 \<or> r < least_rank R then r else least_rank R)"
proof (cases "R = {}")
  case False
  then have n: "least_rank R \<noteq> 0" using assms by (simp add: least_rank_zero)
  have "least_rank (insert r R) = min r (least_rank R)" using False assms(1) by (simp add: least_rank_def)
  then show ?thesis using n by (simp add: min_def)
qed (simp add: least_rank_def)

lemma strongestRanks_eq:
  assumes "well_ranked facts"
  shows "strongestRanks facts =
    (least_rank (ranks EvidenceVerdictSatisfied facts), least_rank (ranks EvidenceVerdictFailed facts))"
  using assms
proof (induction facts rule: rev_induct)
  case Nil
  then show ?case by (simp add: strongestRanks_def least_rank_def)
next
  case (snoc f facts)
  then have w: "well_ranked facts" by (simp add: well_ranked_def)
  note n = ranks_nonzero [OF w]
  have "strongestRanks (facts @ [f]) =
     (let (satisfied, failed) = strongestRanks facts; rank = classRank (oe_Class f)
     in if oe_Verdict f = EvidenceVerdictSatisfied
          then (if satisfied = 0 \<or> rank < satisfied then rank else satisfied, failed)
        else if oe_Verdict f = EvidenceVerdictFailed
          then (satisfied, if failed = 0 \<or> rank < failed then rank else failed)
        else (satisfied, failed))"
    by (simp add: strongestRanks_def Let_def case_prod_unfold)
  then show ?case
    by (simp add: snoc.IH [OF w] ranks_snoc least_rank_insert n)
qed

lemma strongest_eq:
  assumes "well_ranked facts"
  shows "classRank (strongest facts v) = least_rank (ranks v facts)"
    and "strongest facts v = [] \<longleftrightarrow> ranks v facts = {}"
proof -
  let ?step = "\<lambda>(best, class) fact.
     if oe_Verdict fact = v \<and> (best = 0 \<or> classRank (oe_Class fact) < best)
     then (classRank (oe_Class fact), oe_Class fact) else (best, class)"
  have c: "classRank [] = 0" by (simp add: classRank_def)
  have "foldl ?step (0, []) facts = (least_rank (ranks v facts), strongest facts v) \<and>
      classRank (strongest facts v) = least_rank (ranks v facts)"
    using assms
  proof (induction facts rule: rev_induct)
    case Nil
    then show ?case by (simp add: strongest_def least_rank_def c)
  next
    case (snoc f facts)
    then have w: "well_ranked facts" by (simp add: well_ranked_def)
    have "strongest (facts @ [f]) v = snd (?step (foldl ?step (0, []) facts) f)" by (simp add: strongest_def)
    then show ?case using snoc.IH [OF w]
      by (simp add: ranks_snoc least_rank_insert ranks_nonzero [OF w])
  qed
  then show e: "classRank (strongest facts v) = least_rank (ranks v facts)" ..
  show "strongest facts v = [] \<longleftrightarrow> ranks v facts = {}"
  proof
    assume "strongest facts v = []"
    then show "ranks v facts = {}" using e c least_rank_zero [OF ranks_nonzero [OF assms]] by simp
  next
    assume "ranks v facts = {}"
    then have "\<forall>f \<in> set facts. oe_Verdict f \<noteq> v" by (auto simp: ranks_def)
    then have "foldl ?step (0, []) facts = (0, [])" by (induction facts) auto
    then show "strongest facts v = []" by (simp add: strongest_def)
  qed
qed

section \<open>The specification\<close>

text \<open>
  One predicate, over the facts that are not superseded. It is verified when some satisfied fact of a
  class that suffices for success is stronger than every failed one, it has failed when some failed
  fact of a class that suffices for failure is stronger than every satisfied one, and it is in
  conflict when the strongest satisfied and the strongest failed fact are of the same class and
  strong enough.
\<close>

definition speaks :: "OutcomeEvidence list \<Rightarrow> string \<Rightarrow> string \<Rightarrow> OutcomeEvidence \<Rightarrow> bool" where
  "speaks active verdict predicate f \<longleftrightarrow>
     f \<in> set active \<and> oe_Verdict f = verdict \<and> oe_PredicateID f = predicate"

definition verified :: "EvidencePolicy \<Rightarrow> OutcomeEvidence list \<Rightarrow> string \<Rightarrow> bool" where
  "verified p active predicate \<longleftrightarrow>
     (\<exists>f. speaks active EvidenceVerdictSatisfied predicate f \<and>
          classRank (oe_Class f) \<le> classRank (vp_SuccessClassCeiling p) \<and>
          (\<forall>g. speaks active EvidenceVerdictFailed predicate g \<longrightarrow> classRank (oe_Class f) < classRank (oe_Class g)))"

definition refuted :: "EvidencePolicy \<Rightarrow> OutcomeEvidence list \<Rightarrow> string \<Rightarrow> bool" where
  "refuted p active predicate \<longleftrightarrow>
     (\<exists>g. speaks active EvidenceVerdictFailed predicate g \<and>
          classRank (oe_Class g) \<le> classRank (vp_FailureClassCeiling p) \<and>
          (\<forall>f. speaks active EvidenceVerdictSatisfied predicate f \<longrightarrow> classRank (oe_Class g) < classRank (oe_Class f)))"

definition conflicting :: "EvidencePolicy \<Rightarrow> OutcomeEvidence list \<Rightarrow> string \<Rightarrow> bool" where
  "conflicting p active predicate \<longleftrightarrow>
     (\<exists>f g. speaks active EvidenceVerdictSatisfied predicate f \<and> speaks active EvidenceVerdictFailed predicate g \<and>
        classRank (oe_Class f) = classRank (oe_Class g) \<and>
        classRank (oe_Class f) \<le> classRank (vp_StrongConflictCeiling p) \<and>
        (\<forall>h. speaks active EvidenceVerdictSatisfied predicate h \<or> speaks active EvidenceVerdictFailed predicate h \<longrightarrow>
             classRank (oe_Class f) \<le> classRank (oe_Class h)))"

definition spec_outcome :: "EvidencePolicy \<Rightarrow> OutcomeEvidence list \<Rightarrow> string" where
  "spec_outcome p active =
     (let required = set (canonicalPredicates (vp_RequiredPredicates p))
      in if \<exists>f \<in> set active. conflicting p active (oe_PredicateID f) then OutcomeStateInconclusive
         else if \<exists>q \<in> required. refuted p active q then OutcomeStateVerifiedFailure
         else if \<forall>q \<in> required. verified p active q then OutcomeStateVerifiedSuccess
         else if \<exists>f \<in> set active. oe_Verdict f = EvidenceVerdictSatisfied then OutcomeStateProvisionalSuccess
         else OutcomeStateInconclusive)"

definition active_facts :: "OutcomeEvidence list \<Rightarrow> string list \<Rightarrow> OutcomeEvidence list" where
  "active_facts facts superseded = filter (\<lambda>f. oe_ID f \<notin> set superseded) facts"

lemma collect_active_iff:
  "collect_active superseded seen fs = Inr active \<longleftrightarrow>
     (\<forall>f \<in> set fs. oe_ID f \<noteq> [] \<and> oe_PredicateID f \<noteq> [] \<and> classRank (oe_Class f) \<noteq> 0 \<and> validVerdict (oe_Verdict f)) \<and>
     distinct (map oe_ID fs) \<and> set (map oe_ID fs) \<inter> set seen = {} \<and> active = active_facts fs superseded"
  by (induction superseded seen fs arbitrary: active rule: collect_active.induct)
    (auto simp: active_facts_def)

lemma ranks_by_predicate:
  "ranks v (byPredicate active q) = {classRank (oe_Class f) | f. speaks active v q f}"
  by (auto simp: ranks_def byPredicate_def speaks_def)

lemma well_ranked_by_predicate: "well_ranked active \<Longrightarrow> well_ranked (byPredicate active q)"
  by (auto simp: well_ranked_def byPredicate_def)

lemma least_rank_cases:
  assumes "finite R" "0 \<notin> R"
  obtains "R = {}" "least_rank R = 0"
  | "least_rank R \<in> R" "least_rank R \<noteq> 0" "\<And>r. r \<in> R \<Longrightarrow> least_rank R \<le> r"
proof (cases "R = {}")
  case True
  then show ?thesis using that(1) by (simp add: least_rank_def)
next
  case False
  have "least_rank R = Min R" using False by (simp add: least_rank_def)
  moreover have "Min R \<in> R" using False assms(1) by simp
  moreover have "Min R \<le> r" if "r \<in> R" for r using that assms(1) by simp
  ultimately show ?thesis using that(2) assms(2) by metis
qed

lemma stronger_than_all:
  assumes "finite A" "0 \<notin> A" "finite B" "0 \<notin> B"
  shows "(\<exists>a \<in> A. a \<le> c \<and> (\<forall>b \<in> B. a < b)) \<longleftrightarrow>
    least_rank A \<noteq> 0 \<and> least_rank A \<le> c \<and> (least_rank B = 0 \<or> least_rank A < least_rank B)"
proof (rule least_rank_cases [OF assms(1,2)]; rule least_rank_cases [OF assms(3,4)])
  assume a: "least_rank A \<in> A" "least_rank A \<noteq> 0" "\<And>r. r \<in> A \<Longrightarrow> least_rank A \<le> r"
    and b: "least_rank B \<in> B" "least_rank B \<noteq> 0" "\<And>r. r \<in> B \<Longrightarrow> least_rank B \<le> r"
  show ?thesis
  proof
    assume "\<exists>a \<in> A. a \<le> c \<and> (\<forall>b \<in> B. a < b)"
    then obtain x where "x \<in> A" "x \<le> c" "x < least_rank B" using b by blast
    then show "least_rank A \<noteq> 0 \<and> least_rank A \<le> c \<and> (least_rank B = 0 \<or> least_rank A < least_rank B)"
      using a(2) a(3) [of x] by linarith
  next
    assume h: "least_rank A \<noteq> 0 \<and> least_rank A \<le> c \<and> (least_rank B = 0 \<or> least_rank A < least_rank B)"
    have "least_rank A < r" if "r \<in> B" for r using h b(2) b(3) [OF that] by linarith
    then show "\<exists>a \<in> A. a \<le> c \<and> (\<forall>b \<in> B. a < b)" using a(1) h by blast
  qed
next
  assume "least_rank A \<in> A" "least_rank A \<noteq> 0" "\<And>r. r \<in> A \<Longrightarrow> least_rank A \<le> r" "B = {}" "least_rank B = 0"
  then show ?thesis using order_trans by auto
qed auto

lemma strongest_equal:
  assumes "finite A" "0 \<notin> A" "finite B" "0 \<notin> B"
  shows "(\<exists>a \<in> A. \<exists>b \<in> B. a = b \<and> a \<le> c \<and> (\<forall>h \<in> A \<union> B. a \<le> h)) \<longleftrightarrow>
    least_rank A \<noteq> 0 \<and> least_rank A = least_rank B \<and> least_rank A \<le> c"
proof (rule least_rank_cases [OF assms(1,2)]; rule least_rank_cases [OF assms(3,4)])
  assume a: "least_rank A \<in> A" "least_rank A \<noteq> 0" "\<And>r. r \<in> A \<Longrightarrow> least_rank A \<le> r"
    and b: "least_rank B \<in> B" "least_rank B \<noteq> 0" "\<And>r. r \<in> B \<Longrightarrow> least_rank B \<le> r"
  show ?thesis
  proof
    assume "\<exists>a \<in> A. \<exists>b \<in> B. a = b \<and> a \<le> c \<and> (\<forall>h \<in> A \<union> B. a \<le> h)"
    then obtain x where x: "x \<in> A" "x \<in> B" "x \<le> c" "\<forall>h \<in> A \<union> B. x \<le> h" by blast
    then have "least_rank A = x" "least_rank B = x" using a b by (auto intro: antisym)
    then show "least_rank A \<noteq> 0 \<and> least_rank A = least_rank B \<and> least_rank A \<le> c" using a x by simp
  next
    assume "least_rank A \<noteq> 0 \<and> least_rank A = least_rank B \<and> least_rank A \<le> c"
    then show "\<exists>a \<in> A. \<exists>b \<in> B. a = b \<and> a \<le> c \<and> (\<forall>h \<in> A \<union> B. a \<le> h)"
      using a b by (intro bexI [of _ "least_rank A"]) auto
  qed
qed auto

abbreviation "satisfied_rank active q \<equiv> fst (strongestRanks (byPredicate active q))"
abbreviation "failed_rank active q \<equiv> snd (strongestRanks (byPredicate active q))"

lemma predicate_ranks:
  assumes "well_ranked active"
  shows "verified p active q \<longleftrightarrow> satisfied_rank active q \<noteq> 0 \<and>
      satisfied_rank active q \<le> classRank (vp_SuccessClassCeiling p) \<and>
      (failed_rank active q = 0 \<or> satisfied_rank active q < failed_rank active q)"
    "refuted p active q \<longleftrightarrow> failed_rank active q \<noteq> 0 \<and>
      failed_rank active q \<le> classRank (vp_FailureClassCeiling p) \<and>
      (satisfied_rank active q = 0 \<or> failed_rank active q < satisfied_rank active q)"
    "conflicting p active q \<longleftrightarrow> satisfied_rank active q \<noteq> 0 \<and> satisfied_rank active q = failed_rank active q \<and>
      satisfied_rank active q \<le> classRank (vp_StrongConflictCeiling p)"
proof -
  let ?b = "byPredicate active q"
  let ?S = "ranks EvidenceVerdictSatisfied ?b" and ?F = "ranks EvidenceVerdictFailed ?b"
  have w: "well_ranked ?b" using assms by (rule well_ranked_by_predicate)
  note r = strongestRanks_eq [OF w] and n = ranks_nonzero [OF w]
  have "verified p active q \<longleftrightarrow> (\<exists>a \<in> ?S. a \<le> classRank (vp_SuccessClassCeiling p) \<and> (\<forall>b \<in> ?F. a < b))"
    unfolding verified_def ranks_by_predicate by blast
  then show "verified p active q \<longleftrightarrow> satisfied_rank active q \<noteq> 0 \<and>
      satisfied_rank active q \<le> classRank (vp_SuccessClassCeiling p) \<and>
      (failed_rank active q = 0 \<or> satisfied_rank active q < failed_rank active q)"
    using stronger_than_all [OF finite_ranks n finite_ranks n] by (simp add: r)
  have "refuted p active q \<longleftrightarrow> (\<exists>a \<in> ?F. a \<le> classRank (vp_FailureClassCeiling p) \<and> (\<forall>b \<in> ?S. a < b))"
    unfolding refuted_def ranks_by_predicate by blast
  then show "refuted p active q \<longleftrightarrow> failed_rank active q \<noteq> 0 \<and>
      failed_rank active q \<le> classRank (vp_FailureClassCeiling p) \<and>
      (satisfied_rank active q = 0 \<or> failed_rank active q < satisfied_rank active q)"
    using stronger_than_all [OF finite_ranks n finite_ranks n] by (simp add: r)
  have "conflicting p active q \<longleftrightarrow> (\<exists>a \<in> ?S. \<exists>b \<in> ?F. a = b \<and> a \<le> classRank (vp_StrongConflictCeiling p) \<and>
      (\<forall>h \<in> ?S \<union> ?F. a \<le> h))"
    unfolding conflicting_def ranks_by_predicate by blast
  then show "conflicting p active q \<longleftrightarrow> satisfied_rank active q \<noteq> 0 \<and> satisfied_rank active q = failed_rank active q \<and>
      satisfied_rank active q \<le> classRank (vp_StrongConflictCeiling p)"
    using strongest_equal [OF finite_ranks n finite_ranks n] by (simp add: r)
qed

lemma satisfied_somewhere:
  assumes "well_ranked active"
  shows "satisfied_rank active q \<noteq> 0 \<longleftrightarrow> (\<exists>f. speaks active EvidenceVerdictSatisfied q f)"
proof -
  have w: "well_ranked (byPredicate active q)" using assms by (rule well_ranked_by_predicate)
  show ?thesis
    using least_rank_zero [OF ranks_nonzero [OF w] finite_ranks]
    by (auto simp: strongestRanks_eq [OF w] ranks_by_predicate)
qed

text \<open>The loop over the required predicates.\<close>

lemma check_requirement_flags:
  fixes p :: EvidencePolicy
  assumes "well_ranked active"
  defines "out \<equiv> \<lambda>flags qs. foldl (check_requirement p active) flags qs"
  shows "rf_allVerified (out flags qs) \<longleftrightarrow> rf_allVerified flags \<and> (\<forall>q \<in> set qs. verified p active q)"
    "rf_verifiedFailure (out flags qs) \<longleftrightarrow> rf_verifiedFailure flags \<or> (\<exists>q \<in> set qs. refuted p active q)"
    "rf_anySatisfied (out flags qs) \<longleftrightarrow>
       rf_anySatisfied flags \<or> (\<exists>q \<in> set qs. \<exists>f. speaks active EvidenceVerdictSatisfied q f)"
    "rf_missing (out flags qs) = rf_missing flags @ filter (\<lambda>q. strongestRanks (byPredicate active q) = (0, 0)) qs"
proof -
  let ?step = "check_requirement p active"
  have 1: "rf_allVerified (?step flags q) \<longleftrightarrow> rf_allVerified flags \<and> verified p active q"
    "rf_verifiedFailure (?step flags q) \<longleftrightarrow> rf_verifiedFailure flags \<or> refuted p active q"
    "rf_anySatisfied (?step flags q) \<longleftrightarrow> rf_anySatisfied flags \<or> (\<exists>f. speaks active EvidenceVerdictSatisfied q f)"
    "rf_missing (?step flags q) = rf_missing flags @ (if strongestRanks (byPredicate active q) = (0, 0) then [q] else [])"
    for flags q
    unfolding check_requirement_def predicate_ranks [OF assms(1)] satisfied_somewhere [OF assms(1), symmetric]
    by (auto simp: Let_def split: prod.split)
  show "rf_allVerified (out flags qs) \<longleftrightarrow> rf_allVerified flags \<and> (\<forall>q \<in> set qs. verified p active q)"
    unfolding out_def by (induction qs arbitrary: flags) (auto simp: 1)
  show "rf_verifiedFailure (out flags qs) \<longleftrightarrow> rf_verifiedFailure flags \<or> (\<exists>q \<in> set qs. refuted p active q)"
    unfolding out_def by (induction qs arbitrary: flags) (auto simp: 1)
  show "rf_anySatisfied (out flags qs) \<longleftrightarrow>
       rf_anySatisfied flags \<or> (\<exists>q \<in> set qs. \<exists>f. speaks active EvidenceVerdictSatisfied q f)"
    unfolding out_def by (induction qs arbitrary: flags) (auto simp: 1)
  show "rf_missing (out flags qs) = rf_missing flags @ filter (\<lambda>q. strongestRanks (byPredicate active q) = (0, 0)) qs"
    unfolding out_def by (induction qs arbitrary: flags) (auto simp: 1)
qed

lemma conflict_predicates_eq:
  assumes "well_ranked active"
  shows "conflict_predicates p active = filter (conflicting p active) (sorted_keys (map oe_PredicateID active))"
  unfolding conflict_predicates_def by (intro filter_cong refl) (simp add: predicate_ranks [OF assms] case_prod_unfold Let_def)

lemma Evaluate_spec:
  assumes "evidence_Evaluate p facts superseded = Inr r"
  shows "well_ranked (active_facts facts superseded)" "validateEvidencePolicy p"
    "collect_active superseded [] facts = Inr (active_facts facts superseded)"
    "vr_State r = spec_outcome p (active_facts facts superseded)"
    "vr_PromotionEligible r \<longleftrightarrow> vr_State r = OutcomeStateVerifiedSuccess"
proof -
  let ?a = "active_facts facts superseded"
  show v: "validateEvidencePolicy p" using assms by (auto simp: evidence_Evaluate_def split: if_splits)
  show c: "collect_active superseded [] facts = Inr ?a"
    using assms by (auto simp: evidence_Evaluate_def collect_active_iff split: if_splits)
  then have ok: "\<forall>f \<in> set facts. classRank (oe_Class f) \<noteq> 0" by (simp add: collect_active_iff)
  then show w: "well_ranked ?a" by (auto simp: well_ranked_def active_facts_def)
  have st: "strongest ?a EvidenceVerdictSatisfied = [] \<longleftrightarrow> \<not> (\<exists>f \<in> set ?a. oe_Verdict f = EvidenceVerdictSatisfied)"
    by (auto simp: strongest_eq(2) [OF w] ranks_def)
  have cf: "conflict_predicates p ?a = [] \<longleftrightarrow> \<not> (\<exists>f \<in> set ?a. conflicting p ?a (oe_PredicateID f))"
    by (auto simp: conflict_predicates_eq [OF w] filter_empty_conv)
  have any: "speaks ?a EvidenceVerdictSatisfied q f \<Longrightarrow> f \<in> set ?a \<and> oe_Verdict f = EvidenceVerdictSatisfied" for q f
    by (simp add: speaks_def)
  show "vr_State r = spec_outcome p ?a" "vr_PromotionEligible r \<longleftrightarrow> vr_State r = OutcomeStateVerifiedSuccess"
    using assms v unfolding evidence_Evaluate_def c
    by (auto simp: Let_def check_requirement_flags [OF w] st cf spec_outcome_def dest: any split: if_splits)
qed

section \<open>Only the set of active facts matters\<close>

lemma classRank_inject: "classRank a = classRank b \<Longrightarrow> classRank a \<noteq> 0 \<Longrightarrow> a = b"
  by (auto simp: classRank_def split: if_splits)

lemma evaluation_cong:
  assumes "set a = set b" "well_ranked a"
  shows "strongest a v = strongest b v"
    "strongestRanks (byPredicate a q) = strongestRanks (byPredicate b q)"
    "check_requirement p a = check_requirement p b"
    "conflict_predicates p a = conflict_predicates p b"
proof -
  have w: "well_ranked b" using assms by (simp add: well_ranked_def)
  have r: "ranks v a = ranks v b" using assms(1) by (simp add: ranks_def)
  show "strongest a v = strongest b v"
  proof (cases "ranks v a = {}")
    case True
    then show ?thesis using strongest_eq(2) [OF assms(2)] strongest_eq(2) [OF w] r by metis
  next
    case False
    then have "least_rank (ranks v a) \<noteq> 0"
      using least_rank_zero [OF ranks_nonzero [OF assms(2)]] by simp
    then show ?thesis
      using strongest_eq(1) [OF assms(2), of v] strongest_eq(1) [OF w, of v] r classRank_inject by metis
  qed
  show s: "strongestRanks (byPredicate a q) = strongestRanks (byPredicate b q)" for q
    using assms(1) well_ranked_by_predicate [OF assms(2)] well_ranked_by_predicate [OF w]
    by (simp add: strongestRanks_eq ranks_by_predicate speaks_def)
  then show "check_requirement p a = check_requirement p b"
    by (intro ext) (simp add: check_requirement_def)
  have "sorted_keys (map oe_PredicateID a) = sorted_keys (map oe_PredicateID b)"
    using assms(1) by (intro sorted_keys_cong) simp
  then show "conflict_predicates p a = conflict_predicates p b"
    by (simp add: conflict_predicates_def s)
qed

lemma Evaluate_active_cong:
  assumes "evidence_Evaluate p facts superseded = Inr r"
    "collect_active superseded' [] facts' = Inr b" "set b = set (active_facts facts superseded)"
  shows "evidence_Evaluate p facts' superseded' = Inr r"
proof -
  note e = Evaluate_spec [OF assms(1)]
  note c = evaluation_cong [OF assms(3) [symmetric] e(1)]
  have "evidence_Evaluate p facts superseded = evidence_Evaluate p facts' superseded'"
    unfolding evidence_Evaluate_def e(3) assms(2) res_bind_simps Let_def c ..
  then show ?thesis using assms(1) by simp
qed

section \<open>Properties\<close>

text \<open>C20: the verdict is the specified one. Whenever \<^verbatim>\<open>Evaluate\<close> returns a result, its state is the one of
  the specification over the facts that are not superseded, and the outcome is eligible for
  promotion if and only if it is a verified success.\<close>

theorem outcome_matches_spec:
  assumes "evidence_Evaluate p facts superseded = Inr r"
  shows "vr_State r = spec_outcome p (active_facts facts superseded) \<and>
         (vr_PromotionEligible r \<longleftrightarrow> vr_State r = OutcomeStateVerifiedSuccess)"
  using Evaluate_spec(4,5) [OF assms] by simp

definition sample_fact :: "string \<Rightarrow> string \<Rightarrow> string \<Rightarrow> OutcomeEvidence" where
  "sample_fact i class verdict = \<lparr>oe_ID = i, oe_ClientEvidenceID = i, oe_Class = class, oe_Verdict = verdict,
     oe_PredicateID = ''goal'', oe_VerifierID = ''v'', oe_VerifierVersion = [], oe_ObservedAt = ''now'', oe_Fields = []\<rparr>"

definition sample_evidence_policy :: EvidencePolicy where
  "sample_evidence_policy = \<lparr>vp_Version = ''1'', vp_RequiredPredicates = [''goal''],
     vp_SuccessClassCeiling = EvidenceClassGoalPredicate, vp_FailureClassCeiling = EvidenceClassHarnessAssertion,
     vp_StrongConflictCeiling = EvidenceClassHarnessAssertion\<rparr>"

definition sample_facts :: "OutcomeEvidence list" where
  "sample_facts = [sample_fact ''e1'' EvidenceClassIndependentVerifier EvidenceVerdictSatisfied,
     sample_fact ''e2'' EvidenceClassHarnessAssertion EvidenceVerdictFailed,
     sample_fact ''e3'' EvidenceClassIndependentVerifier EvidenceVerdictFailed]"

definition sample_result :: EvidenceResult where
  "sample_result = \<lparr>vr_State = OutcomeStateVerifiedSuccess, vr_PromotionEligible = True, vr_PolicyVersion = ''1'',
     vr_StrongestSatisfied = EvidenceClassIndependentVerifier, vr_StrongestFailed = EvidenceClassHarnessAssertion,
     vr_ConflictPredicates = [], vr_MissingPredicates = [], vr_Reasons = []\<rparr>"

lemma sample_outcome: "evidence_Evaluate sample_evidence_policy sample_facts [''e3''] = Inr sample_result"
proof -
  have "TrimSpace ''1'' = ''1''" "TrimSpace ''goal'' = ''goal''" by code_simp+
  then show ?thesis
    by (simp add: evidence_Evaluate_def sample_evidence_policy_def sample_facts_def sample_fact_def sample_result_def
        validateEvidencePolicy_def canonicalPredicates_def sorted_keys_def classRank_def validVerdict_def strongest_def
        conflict_predicates_def strongestRanks_def byPredicate_def check_requirement_def Let_def)
qed

theorem outcome_matches_spec_witness:
  "evidence_Evaluate sample_evidence_policy sample_facts [''e3''] = Inr sample_result \<and>
   spec_outcome sample_evidence_policy (active_facts sample_facts [''e3'']) = OutcomeStateVerifiedSuccess"
  using outcome_matches_spec [OF sample_outcome] sample_outcome by (simp add: sample_result_def)

text \<open>The verdict does not depend on the order in which the facts arrived, nor on the order of the
  superseded identifiers.\<close>

theorem outcome_order_independent:
  assumes "evidence_Evaluate p facts superseded = Inr r" "mset facts' = mset facts" "set superseded' = set superseded"
  shows "evidence_Evaluate p facts' superseded' = Inr r"
proof (rule Evaluate_active_cong [OF assms(1)])
  have "set facts' = set facts" using assms(2) by (rule mset_eq_setD)
  moreover have "distinct (map oe_ID facts') \<longleftrightarrow> distinct (map oe_ID facts)"
    using assms(2) by (metis mset_map mset_eq_imp_distinct_iff)
  ultimately show "collect_active superseded' [] facts' = Inr (active_facts facts' superseded')"
    using Evaluate_spec(3) [OF assms(1)] by (simp add: collect_active_iff)
  show "set (active_facts facts' superseded') = set (active_facts facts superseded)"
    using \<open>set facts' = set facts\<close> assms(3) by (simp add: active_facts_def)
qed

theorem outcome_order_independent_witness:
  "evidence_Evaluate sample_evidence_policy (rev sample_facts) [''e3''] = Inr sample_result"
  by (rule outcome_order_independent [OF sample_outcome]) simp_all

text \<open>A superseded fact has no influence. Evaluating with a set of superseded identifiers gives the
  result of evaluating the remaining facts alone.\<close>

theorem superseded_facts_ignored:
  assumes "evidence_Evaluate p facts superseded = Inr r"
  shows "evidence_Evaluate p (filter (\<lambda>f. oe_ID f \<notin> set superseded) facts) [] = Inr r"
proof (rule Evaluate_active_cong [OF assms])
  let ?fs = "filter (\<lambda>f. oe_ID f \<notin> set superseded) facts"
  show "collect_active [] [] ?fs = Inr (active_facts ?fs [])"
    using Evaluate_spec(3) [OF assms] by (auto simp: collect_active_iff intro: distinct_map_filter)
  show "set (active_facts ?fs []) = set (active_facts facts superseded)" by (simp add: active_facts_def)
qed

theorem superseded_facts_ignored_witness:
  "evidence_Evaluate sample_evidence_policy (filter (\<lambda>f. oe_ID f \<notin> set [''e3'']) sample_facts) [] = Inr sample_result"
  by (rule superseded_facts_ignored [OF sample_outcome])

end
