(* ===== verification/Outcomes.thy ===== *)
theory Outcomes
  imports Traces
begin

text \<open>
  \<^verbatim>\<open>internal/evidence/canonical.go\<close> with \<^verbatim>\<open>contracts.ValidateOutcome\<close>: an outcome request is
  validated and normalised, every fact gets an identifier derived from its content, the facts are
  sorted by identifier, and the outcome gets an identifier and an encoding of its own. The
  verification before storage derives all of them again.
\<close>

section \<open>Requests\<close>

datatype EvidenceClassEnum =
    EVIDENCE_CLASS_UNSPECIFIED | EVIDENCE_CLASS_INDEPENDENT_VERIFIER | EVIDENCE_CLASS_GOAL_PREDICATE
  | EVIDENCE_CLASS_HARNESS_ASSERTION | EVIDENCE_CLASS_TOOL_POSTCONDITION
  | EVIDENCE_CLASS_EXIT_STATUS_OR_SELF_REPORT | EVIDENCE_CLASS_OTHER int

datatype EvidenceVerdictEnum =
    EVIDENCE_VERDICT_UNSPECIFIED | EVIDENCE_VERDICT_SATISFIED | EVIDENCE_VERDICT_FAILED
  | EVIDENCE_VERDICT_UNKNOWN | EVIDENCE_VERDICT_OTHER int

text \<open>A nil element of the list has the getters of the zero value.\<close>

record EvidenceInput =
  ei_ClientEvidenceId :: string
  ei_Class :: EvidenceClassEnum
  ei_Verdict :: EvidenceVerdictEnum
  ei_PredicateId :: string
  ei_VerifierId :: string
  ei_VerifierVersion :: string
  ei_ObservedAt :: time
  ei_Fields :: "Field option list"

record RecordOutcomeRequest =
  ro_TraceId :: string
  ro_ExecutionId :: string
  ro_SelectionId :: string
  ro_InjectionId :: string
  ro_TaskExecutionId :: string
  ro_SupersedesOutcomeId :: string
  ro_CorrectionReason :: string
  ro_Evidence :: "EvidenceInput list"

record outcome_checks =
  outcome_Size :: "RecordOutcomeRequest \<Rightarrow> nat"
  outcome_protovalidate :: "RecordOutcomeRequest \<Rightarrow> bool"
  observed_valid :: "time \<Rightarrow> bool"

datatype outcome_error =
    OutcomeTenantRequired
  | OutcomeViolation string string
  | OutcomeProtovalidate
  | OutcomeObservedAt nat
  | OutcomeField nat string
  | OutcomeEncoding canonical_error

definition canonicalToken :: "externals \<Rightarrow> string \<Rightarrow> string" where
  "canonicalToken ext v = norm_NFC ext (TrimSpace v)"

fun check_evidence :: "externals \<Rightarrow> string list \<Rightarrow> EvidenceInput list \<Rightarrow> outcome_error option" where
  "check_evidence ext seen [] = None"
| "check_evidence ext seen (e # es) =
     (let ident = canonicalToken ext (ei_ClientEvidenceId e)
      in if ident = [] then Some (OutcomeViolation ''client_evidence_id'' ''must not be empty after normalization'')
         else if ident \<in> set seen then Some (OutcomeViolation ''client_evidence_id'' ''must be unique within the outcome'')
         else if canonicalToken ext (ei_PredicateId e) = []
           then Some (OutcomeViolation ''predicate_id'' ''must not be empty after normalization'')
         else if canonicalToken ext (ei_VerifierId e) = []
           then Some (OutcomeViolation ''verifier_id'' ''must not be empty after normalization'')
         else check_evidence ext (ident # seen) es)"

definition ValidateOutcome ::
  "externals \<Rightarrow> outcome_checks \<Rightarrow> RecordOutcomeRequest option \<Rightarrow> outcome_error option" where
  "ValidateOutcome ext oc request =
     (case request of
        None \<Rightarrow> Some (OutcomeViolation ''request'' ''required'')
      | Some r \<Rightarrow>
          if outcome_Size oc r > 1048576
            then Some (OutcomeViolation ''request_size'' ''must not exceed 1048576 bytes'')
          else if \<not> outcome_protovalidate oc r then Some OutcomeProtovalidate
          else if canonicalToken ext (ro_TraceId r) = []
            then Some (OutcomeViolation ''trace_id'' ''must not be empty after normalization'')
          else if ro_SupersedesOutcomeId r \<noteq> [] \<and> canonicalToken ext (ro_CorrectionReason r) = []
            then Some (OutcomeViolation ''correction_reason'' ''required when superseding an outcome'')
          else if ro_SupersedesOutcomeId r = [] \<and> canonicalToken ext (ro_CorrectionReason r) \<noteq> []
            then Some (OutcomeViolation ''supersedes_outcome_id'' ''required when a correction reason is supplied'')
          else check_evidence ext [] (ro_Evidence r))"

section \<open>Canonical outcomes\<close>

fun evidenceClass :: "EvidenceClassEnum \<Rightarrow> string" where
  "evidenceClass EVIDENCE_CLASS_INDEPENDENT_VERIFIER = EvidenceClassIndependentVerifier"
| "evidenceClass EVIDENCE_CLASS_GOAL_PREDICATE = EvidenceClassGoalPredicate"
| "evidenceClass EVIDENCE_CLASS_HARNESS_ASSERTION = EvidenceClassHarnessAssertion"
| "evidenceClass EVIDENCE_CLASS_TOOL_POSTCONDITION = EvidenceClassToolPostcondition"
| "evidenceClass EVIDENCE_CLASS_EXIT_STATUS_OR_SELF_REPORT = EvidenceClassExitStatusOrSelfReport"
| "evidenceClass _ = []"

fun evidenceVerdict :: "EvidenceVerdictEnum \<Rightarrow> string" where
  "evidenceVerdict EVIDENCE_VERDICT_SATISFIED = EvidenceVerdictSatisfied"
| "evidenceVerdict EVIDENCE_VERDICT_FAILED = EvidenceVerdictFailed"
| "evidenceVerdict EVIDENCE_VERDICT_UNKNOWN = EvidenceVerdictUnknown"
| "evidenceVerdict _ = []"

fun collect_evidence_fields ::
  "externals \<Rightarrow> nat \<Rightarrow> string list \<Rightarrow> Field option list \<Rightarrow> outcome_error + CanonicalField list" where
  "collect_evidence_fields ext i seen [] = Inr []"
| "collect_evidence_fields ext i seen (None # fs) = Inl (OutcomeField i ''required'')"
| "collect_evidence_fields ext i seen (Some f # fs) =
     (let name = normalizeToken ext (fd_Name f)
      in if name = [] then Inl (OutcomeField i ''must not be empty after normalization'')
         else if name \<in> set seen then Inl (OutcomeField i ''duplicate canonical field'')
         else res_bind (collect_evidence_fields ext i (name # seen) fs) (\<lambda>rest.
              Inr (\<lparr>cf_Name = name, cf_Value = norm_NFC ext (fd_StringValue f)\<rparr> # rest)))"

definition normalizeEvidenceFields :: "externals \<Rightarrow> nat \<Rightarrow> Field option list \<Rightarrow> outcome_error + CanonicalField list" where
  "normalizeEvidenceFields ext i source =
     (if source = [] then Inr []
      else res_bind (collect_evidence_fields ext i [] source) (\<lambda>fs. Inr (sort_slice field_less fs)))"

definition json_evidenceIdentity :: "string \<Rightarrow> string \<Rightarrow> OutcomeEvidence \<Rightarrow> json" where
  "json_evidenceIdentity tenant traceID e = JObj
     [(''tenant_id'', JStr tenant), (''trace_id'', JStr traceID), (''evidence'', json_evidence e)]"

text \<open>The identity of an outcome: its fields other than schema version, identifier, hash and encoding.\<close>

definition json_outcomeIdentity :: "CanonicalOutcome \<Rightarrow> json" where
  "json_outcomeIdentity c = JObj
     ([(''tenant_id'', JStr (co_TenantID c)), (''trace_id'', JStr (co_TraceID c))] @
      omit_str ''execution_id'' (co_ExecutionID c) @ omit_str ''selection_id'' (co_SelectionID c) @
      omit_str ''injection_id'' (co_InjectionID c) @ omit_str ''task_execution_id'' (co_TaskExecutionID c) @
      omit_str ''supersedes_outcome_id'' (co_SupersedesOutcomeID c) @
      omit_str ''correction_reason'' (co_CorrectionReason c) @
      [(''evidence'', JArr (map json_evidence (co_Evidence c)))])"

definition evidence_less :: "OutcomeEvidence \<Rightarrow> OutcomeEvidence \<Rightarrow> bool" where
  "evidence_less a b \<longleftrightarrow> oe_ID a < oe_ID b"

definition canonical_hash :: "externals \<Rightarrow> json \<Rightarrow> outcome_error + string \<times> string" where
  "canonical_hash ext v = (case MarshalAndHash ext v of Inl e \<Rightarrow> Inl (OutcomeEncoding e) | Inr r \<Rightarrow> Inr r)"

fun build_facts ::
  "externals \<Rightarrow> outcome_checks \<Rightarrow> string \<Rightarrow> string \<Rightarrow> nat \<Rightarrow> EvidenceInput list \<Rightarrow> outcome_error + OutcomeEvidence list" where
  "build_facts ext oc tenant traceID i [] = Inr []"
| "build_facts ext oc tenant traceID i (source # rest) =
     (if \<not> observed_valid oc (ei_ObservedAt source) then Inl (OutcomeObservedAt i)
      else res_bind (normalizeEvidenceFields ext i (ei_Fields source)) (\<lambda>fields.
        let f = \<lparr>oe_ID = [], oe_ClientEvidenceID = normalizeToken ext (ei_ClientEvidenceId source),
              oe_Class = evidenceClass (ei_Class source), oe_Verdict = evidenceVerdict (ei_Verdict source),
              oe_PredicateID = normalizeToken ext (ei_PredicateId source),
              oe_VerifierID = normalizeToken ext (ei_VerifierId source),
              oe_VerifierVersion = normalizeToken ext (ei_VerifierVersion source),
              oe_ObservedAt = format_RFC3339Nano ext (time_UTC (ei_ObservedAt source)), oe_Fields = fields\<rparr>
        in res_bind (canonical_hash ext (json_evidenceIdentity tenant traceID f)) (\<lambda>(_, hash).
           res_bind (build_facts ext oc tenant traceID (Suc i) rest) (\<lambda>facts.
           Inr (f\<lparr>oe_ID := ''oe_'' @ hash\<rparr> # facts)))))"

abbreviation outcomeSchemaVersion :: string where "outcomeSchemaVersion \<equiv> ''outcome.v1''"

definition Canonicalize ::
  "externals \<Rightarrow> outcome_checks \<Rightarrow> string \<Rightarrow> RecordOutcomeRequest \<Rightarrow> outcome_error + CanonicalOutcome" where
  "Canonicalize ext oc tenantID request =
     (if tenantID = [] then Inl OutcomeTenantRequired
      else case ValidateOutcome ext oc (Some request) of
        Some e \<Rightarrow> Inl e
      | None \<Rightarrow>
          let traceID = normalizeToken ext (ro_TraceId request)
          in res_bind (build_facts ext oc tenantID traceID 0 (ro_Evidence request)) (\<lambda>facts0.
             let facts = sort_slice evidence_less facts0;
                 identity = \<lparr>co_SchemaVersion = [], co_ID = [], co_TenantID = tenantID, co_TraceID = traceID,
                   co_ExecutionID = normalizeToken ext (ro_ExecutionId request),
                   co_SelectionID = normalizeToken ext (ro_SelectionId request),
                   co_InjectionID = normalizeToken ext (ro_InjectionId request),
                   co_TaskExecutionID = normalizeToken ext (ro_TaskExecutionId request),
                   co_SupersedesOutcomeID = normalizeToken ext (ro_SupersedesOutcomeId request),
                   co_CorrectionReason = normalizeText ext (ro_CorrectionReason request),
                   co_Evidence = facts, co_Hash = [], co_CanonicalJSON = []\<rparr>
             in res_bind (canonical_hash ext (json_outcomeIdentity identity)) (\<lambda>(_, identityHash).
                let outcome = identity\<lparr>co_SchemaVersion := outcomeSchemaVersion, co_ID := ''out_'' @ identityHash\<rparr>
                in res_bind (canonical_hash ext (json_outcome outcome)) (\<lambda>(encoded, hash).
                   Inr (outcome\<lparr>co_CanonicalJSON := encoded, co_Hash := hash\<rparr>)))))"

text \<open>The check of one identifier: deriving it again succeeds and gives the same.\<close>

definition derives :: "externals \<Rightarrow> string \<Rightarrow> json \<Rightarrow> string \<Rightarrow> bool" where
  "derives ext prefix v ident =
     (case MarshalAndHash ext v of Inl _ \<Rightarrow> False | Inr (_, hash) \<Rightarrow> ident = prefix @ hash)"

definition VerifyCanonical :: "externals \<Rightarrow> CanonicalOutcome \<Rightarrow> bool" where
  "VerifyCanonical ext c \<longleftrightarrow>
     co_SchemaVersion c = outcomeSchemaVersion \<and> co_TenantID c \<noteq> [] \<and> co_TraceID c \<noteq> [] \<and> co_Evidence c \<noteq> [] \<and>
     list_all (\<lambda>source. derives ext ''oe_'' (json_evidenceIdentity (co_TenantID c) (co_TraceID c) (source\<lparr>oe_ID := []\<rparr>))
                 (oe_ID source)) (co_Evidence c) \<and>
     (let facts = sort_slice evidence_less (co_Evidence c)
      in map oe_ID facts = map oe_ID (co_Evidence c) \<and>
         derives ext ''out_'' (json_outcomeIdentity (c\<lparr>co_Evidence := facts\<rparr>)) (co_ID c)) \<and>
     (case MarshalAndHash ext (json_outcome (c\<lparr>co_Hash := [], co_CanonicalJSON := []\<rparr>)) of
        Inl _ \<Rightarrow> False
      | Inr (encoded, hash) \<Rightarrow> hash = co_Hash c \<and> encoded = co_CanonicalJSON c)"

section \<open>Lemmas\<close>

interpretation evidence_order: keyed_order evidence_less oe_ID
  by unfold_locales (simp add: evidence_less_def)

lemma canonical_hash_Inr [simp]: "canonical_hash ext v = Inr r \<longleftrightarrow> MarshalAndHash ext v = Inr r"
  by (auto simp: canonical_hash_def split: sum.splits)

definition fact_of :: "externals \<Rightarrow> string \<Rightarrow> string \<Rightarrow> OutcomeEvidence \<Rightarrow> bool" where
  "fact_of ext tenant traceID f \<longleftrightarrow>
     derives ext ''oe_'' (json_evidenceIdentity tenant traceID (f\<lparr>oe_ID := []\<rparr>)) (oe_ID f)"

lemma build_facts_derived:
  "build_facts ext oc tenant traceID i es = Inr facts \<Longrightarrow>
    list_all (fact_of ext tenant traceID) facts \<and> length facts = length es"
  by (induction es arbitrary: i facts) (auto simp: Let_def fact_of_def derives_def split: if_splits)

text \<open>One input makes one fact, whatever its position in the request.\<close>

definition input_fact ::
  "externals \<Rightarrow> outcome_checks \<Rightarrow> string \<Rightarrow> string \<Rightarrow> EvidenceInput \<Rightarrow> OutcomeEvidence \<Rightarrow> bool" where
  "input_fact ext oc tenant traceID e f \<longleftrightarrow> build_facts ext oc tenant traceID 0 [e] = Inr [f]"

lemma collect_evidence_fields_index:
  "collect_evidence_fields ext i seen fs = Inr out \<Longrightarrow> collect_evidence_fields ext j seen fs = Inr out"
  by (induction ext i seen fs arbitrary: out rule: collect_evidence_fields.induct)
    (auto simp: Let_def split: if_splits)

lemma normalizeEvidenceFields_index:
  "normalizeEvidenceFields ext i fs = Inr out \<longleftrightarrow> normalizeEvidenceFields ext j fs = Inr out"
  by (auto simp: normalizeEvidenceFields_def dest: collect_evidence_fields_index)

lemma build_facts_iff:
  "build_facts ext oc tenant traceID i es = Inr facts \<longleftrightarrow> list_all2 (input_fact ext oc tenant traceID) es facts"
proof (induction es arbitrary: i facts)
  case (Cons e es)
  show ?case
    by (cases facts) (auto simp: Cons.IH input_fact_def Let_def normalizeEvidenceFields_index [of ext i _ _ 0])
qed auto

lemma check_evidence_None:
  "check_evidence ext seen es = None \<longleftrightarrow>
     (\<forall>e \<in> set es. canonicalToken ext (ei_ClientEvidenceId e) \<noteq> [] \<and> canonicalToken ext (ei_PredicateId e) \<noteq> [] \<and>
        canonicalToken ext (ei_VerifierId e) \<noteq> []) \<and>
     distinct (map (\<lambda>e. canonicalToken ext (ei_ClientEvidenceId e)) es) \<and>
     set (map (\<lambda>e. canonicalToken ext (ei_ClientEvidenceId e)) es) \<inter> set seen = {}"
  by (induction ext seen es rule: check_evidence.induct) (auto simp: Let_def)

lemma check_evidence_permute:
  assumes "mset es = mset es'"
  shows "check_evidence ext seen es = None \<longleftrightarrow> check_evidence ext seen es' = None"
proof -
  have "distinct (map (\<lambda>e. canonicalToken ext (ei_ClientEvidenceId e)) es) \<longleftrightarrow>
      distinct (map (\<lambda>e. canonicalToken ext (ei_ClientEvidenceId e)) es')"
    using assms by (metis mset_map mset_eq_imp_distinct_iff)
  then show ?thesis using mset_eq_setD [OF assms] by (simp add: check_evidence_None)
qed

text \<open>The outcome as a function of the sorted facts.\<close>

definition identity_of :: "externals \<Rightarrow> string \<Rightarrow> RecordOutcomeRequest \<Rightarrow> OutcomeEvidence list \<Rightarrow> CanonicalOutcome" where
  "identity_of ext tenantID request facts =
     \<lparr>co_SchemaVersion = [], co_ID = [], co_TenantID = tenantID, co_TraceID = normalizeToken ext (ro_TraceId request),
      co_ExecutionID = normalizeToken ext (ro_ExecutionId request),
      co_SelectionID = normalizeToken ext (ro_SelectionId request),
      co_InjectionID = normalizeToken ext (ro_InjectionId request),
      co_TaskExecutionID = normalizeToken ext (ro_TaskExecutionId request),
      co_SupersedesOutcomeID = normalizeToken ext (ro_SupersedesOutcomeId request),
      co_CorrectionReason = normalizeText ext (ro_CorrectionReason request),
      co_Evidence = facts, co_Hash = [], co_CanonicalJSON = []\<rparr>"

definition seal_outcome :: "CanonicalOutcome \<Rightarrow> string \<Rightarrow> CanonicalOutcome" where
  "seal_outcome identity hash = identity\<lparr>co_SchemaVersion := outcomeSchemaVersion, co_ID := ''out_'' @ hash\<rparr>"

lemma Canonicalize_iff:
  "Canonicalize ext oc tenantID request = Inr c \<longleftrightarrow>
     tenantID \<noteq> [] \<and> ValidateOutcome ext oc (Some request) = None \<and>
     (\<exists>facts raw hash encoded h.
        build_facts ext oc tenantID (normalizeToken ext (ro_TraceId request)) 0 (ro_Evidence request) = Inr facts \<and>
        MarshalAndHash ext (json_outcomeIdentity (identity_of ext tenantID request (sort_slice evidence_less facts))) = Inr (raw, hash) \<and>
        MarshalAndHash ext (json_outcome (seal_outcome (identity_of ext tenantID request (sort_slice evidence_less facts)) hash)) =
          Inr (encoded, h) \<and>
        c = (seal_outcome (identity_of ext tenantID request (sort_slice evidence_less facts)) hash)
              \<lparr>co_CanonicalJSON := encoded, co_Hash := h\<rparr>)"
  unfolding Canonicalize_def identity_of_def [symmetric] seal_outcome_def [symmetric] Let_def
  by (auto split: option.splits)

section \<open>Properties\<close>

text \<open>What \<^verbatim>\<open>Canonicalize\<close> produces, \<^verbatim>\<open>VerifyCanonical\<close> accepts, so an outcome that was recorded passes
  the check before storage. The schema check rejects a request without evidence.\<close>

theorem canonicalize_then_verify:
  assumes "Canonicalize ext oc tenantID request = Inr c"
    and "outcome_protovalidate oc request \<longrightarrow> ro_Evidence request \<noteq> []"
  shows "VerifyCanonical ext c"
proof -
  obtain facts raw hash encoded h' where h: "tenantID \<noteq> []" "ValidateOutcome ext oc (Some request) = None"
    "build_facts ext oc tenantID (normalizeToken ext (ro_TraceId request)) 0 (ro_Evidence request) = Inr facts"
    "MarshalAndHash ext (json_outcomeIdentity (identity_of ext tenantID request (sort_slice evidence_less facts))) = Inr (raw, hash)"
    "MarshalAndHash ext (json_outcome (seal_outcome (identity_of ext tenantID request (sort_slice evidence_less facts)) hash)) = Inr (encoded, h')"
    and c: "c = (seal_outcome (identity_of ext tenantID request (sort_slice evidence_less facts)) hash)
        \<lparr>co_CanonicalJSON := encoded, co_Hash := h'\<rparr>"
    using assms(1) unfolding Canonicalize_iff by blast
  let ?i = "identity_of ext tenantID request (sort_slice evidence_less facts)"
  have v: "outcome_protovalidate oc request" "canonicalToken ext (ro_TraceId request) \<noteq> []"
    using h(2) by (auto simp: ValidateOutcome_def split: if_splits)
  note d = build_facts_derived [OF h(3)]
  have "c\<lparr>co_Hash := [], co_CanonicalJSON := []\<rparr> = seal_outcome ?i hash"
    by (simp add: c seal_outcome_def identity_of_def)
  moreover have "json_outcomeIdentity (c\<lparr>co_Evidence := sort_slice evidence_less facts\<rparr>) = json_outcomeIdentity ?i"
    by (simp add: c json_outcomeIdentity_def seal_outcome_def identity_of_def)
  moreover have "sort_slice evidence_less (sort_slice evidence_less facts) = sort_slice evidence_less facts"
    by (simp add: evidence_order.sort_slice_id evidence_order.sorted_sort_slice)
  moreover have "co_SchemaVersion c = outcomeSchemaVersion" "co_TenantID c = tenantID"
    "co_TraceID c = normalizeToken ext (ro_TraceId request)" "co_Evidence c = sort_slice evidence_less facts"
    "co_ID c = ''out_'' @ hash" "co_Hash c = h'" "co_CanonicalJSON c = encoded"
    by (simp_all add: c identity_of_def seal_outcome_def)
  ultimately show ?thesis
    using h(1,4,5) v assms(2) d
    by (auto simp: VerifyCanonical_def fact_of_def list_all_iff derives_def normalizeToken_def canonicalToken_def)
qed

text \<open>The outcome does not depend on the order in which the request lists the evidence: its
  identifier, encoding and hash are the same. The size and schema checks accept both orders, and
  the identifiers of the facts do not collide.\<close>

theorem canonicalize_order_independent:
  assumes "Canonicalize ext oc tenantID request = Inr c" "mset es = mset (ro_Evidence request)"
    and "outcome_Size oc (request\<lparr>ro_Evidence := es\<rparr>) \<le> 1048576" "outcome_protovalidate oc (request\<lparr>ro_Evidence := es\<rparr>)"
    and "distinct (map oe_ID (co_Evidence c))"
  shows "Canonicalize ext oc tenantID (request\<lparr>ro_Evidence := es\<rparr>) = Inr c"
proof -
  let ?t = "normalizeToken ext (ro_TraceId request)"
  obtain facts where f: "build_facts ext oc tenantID ?t 0 (ro_Evidence request) = Inr facts"
    "co_Evidence c = sort_slice evidence_less facts"
    using assms(1) unfolding Canonicalize_iff by (auto simp: seal_outcome_def identity_of_def)
  obtain facts' where f': "build_facts ext oc tenantID ?t 0 es = Inr facts'" "mset facts' = mset facts"
    using list_all2_reorder_left_invariance [OF f(1) [unfolded build_facts_iff] assms(2)]
    unfolding build_facts_iff by blast
  have "distinct (map oe_ID facts)" using assms(5) f(2) by simp
  then have s: "sort_slice evidence_less facts = sort_slice evidence_less facts'"
    using evidence_order.sort_slice_cong_mset [OF f'(2) [symmetric]] evidence_order.distinct_keys_total by blast
  have i: "identity_of ext tenantID (request\<lparr>ro_Evidence := es\<rparr>) fs = identity_of ext tenantID request fs" for fs
    by (simp add: identity_of_def)
  have "ValidateOutcome ext oc (Some request) = None" using assms(1) by (simp add: Canonicalize_iff)
  then have "ValidateOutcome ext oc (Some (request\<lparr>ro_Evidence := es\<rparr>)) = None"
    using assms(3,4) check_evidence_permute [OF assms(2), of ext "[]"] by (auto simp: ValidateOutcome_def split: if_splits)
  then show ?thesis
    using assms(1) f(1) f'(1) unfolding Canonicalize_iff i s [symmetric]
    by (simp add: s)
qed

definition sample_input :: "string \<Rightarrow> EvidenceInput" where
  "sample_input i = \<lparr>ei_ClientEvidenceId = i, ei_Class = EVIDENCE_CLASS_GOAL_PREDICATE, ei_Verdict = EVIDENCE_VERDICT_SATISFIED,
     ei_PredicateId = ''p'', ei_VerifierId = ''v'', ei_VerifierVersion = [], ei_ObservedAt = \<lparr>t_ns = 5, t_zone = 0\<rparr>,
     ei_Fields = []\<rparr>"

definition sample_outcome_request :: "EvidenceInput list \<Rightarrow> RecordOutcomeRequest" where
  "sample_outcome_request es = \<lparr>ro_TraceId = ''tr'', ro_ExecutionId = [], ro_SelectionId = [], ro_InjectionId = [],
     ro_TaskExecutionId = [], ro_SupersedesOutcomeId = [], ro_CorrectionReason = [], ro_Evidence = es\<rparr>"

definition sample_outcome_checks :: outcome_checks where
  "sample_outcome_checks = \<lparr>outcome_Size = (\<lambda>_. 10), outcome_protovalidate = (\<lambda>r. ro_Evidence r \<noteq> []),
     observed_valid = (\<lambda>_. True)\<rparr>"

lemma sample_canonicalize:
  "\<exists>c. Canonicalize sample_externals sample_outcome_checks ''tn'' (sample_outcome_request [sample_input ''b'', sample_input ''a'']) = Inr c \<and>
     distinct (map oe_ID (co_Evidence c))"
proof -
  have t: "TrimSpace ''tr'' = ''tr''" "TrimSpace ''a'' = ''a''" "TrimSpace ''b'' = ''b''" "TrimSpace ''p'' = ''p''"
    "TrimSpace ''v'' = ''v''" "TrimSpace [] = []" "replace_crlf [] = []"
    by code_simp+
  let ?f = "\<lambda>i. \<lparr>oe_ID = [], oe_ClientEvidenceID = i, oe_Class = EvidenceClassGoalPredicate, oe_Verdict = EvidenceVerdictSatisfied,
     oe_PredicateID = ''p'', oe_VerifierID = ''v'', oe_VerifierVersion = [], oe_ObservedAt = [char_of (5 :: nat)], oe_Fields = []\<rparr>"
  let ?id = "\<lambda>i. hash_bytes sample_externals (sample_print (json_evidenceIdentity ''tn'' ''tr'' (?f i)))"
  have ne: "?id ''b'' \<noteq> ?id ''a''" by code_simp
  have f: "format_RFC3339Nano sample_externals t = [char_of (nat (t_ns t mod 256))]" for t by (simp add: sample_externals_def)
  have b: "build_facts sample_externals sample_outcome_checks ''tn'' ''tr'' 0 [sample_input ''b'', sample_input ''a''] =
      Inr [(?f ''b'')\<lparr>oe_ID := ''oe_'' @ ?id ''b''\<rparr>, (?f ''a'')\<lparr>oe_ID := ''oe_'' @ ?id ''a''\<rparr>]"
    by (simp add: sample_outcome_checks_def sample_input_def normalizeEvidenceFields_def normalizeToken_def norm_NFC_sample t
        canonical_hash_def MarshalAndHash_sample Let_def f time_UTC_def)
  have v: "ValidateOutcome sample_externals sample_outcome_checks
      (Some (sample_outcome_request [sample_input ''b'', sample_input ''a''])) = None"
    by (simp add: ValidateOutcome_def sample_outcome_request_def sample_outcome_checks_def sample_input_def
        canonicalToken_def norm_NFC_sample t)
  have n: "normalizeToken sample_externals ''tr'' = ''tr''" by (simp add: normalizeToken_def norm_NFC_sample t)
  show ?thesis using v b ne
    by (simp add: Canonicalize_def canonical_hash_def MarshalAndHash_sample Let_def n sample_outcome_request_def)
qed

theorem canonicalize_then_verify_witness:
  "\<exists>c. Canonicalize sample_externals sample_outcome_checks ''tn'' (sample_outcome_request [sample_input ''b'', sample_input ''a'']) = Inr c \<and>
     VerifyCanonical sample_externals c"
proof -
  obtain c where c: "Canonicalize sample_externals sample_outcome_checks ''tn''
      (sample_outcome_request [sample_input ''b'', sample_input ''a'']) = Inr c"
    using sample_canonicalize by blast
  have "ro_Evidence (sample_outcome_request [sample_input ''b'', sample_input ''a'']) \<noteq> []"
    by (simp add: sample_outcome_request_def)
  then show ?thesis using canonicalize_then_verify [OF c] c by blast
qed

theorem canonicalize_order_independent_witness:
  "\<exists>c. Canonicalize sample_externals sample_outcome_checks ''tn'' (sample_outcome_request [sample_input ''b'', sample_input ''a'']) = Inr c \<and>
     Canonicalize sample_externals sample_outcome_checks ''tn'' (sample_outcome_request [sample_input ''a'', sample_input ''b'']) = Inr c"
proof -
  obtain c where c: "Canonicalize sample_externals sample_outcome_checks ''tn''
      (sample_outcome_request [sample_input ''b'', sample_input ''a'']) = Inr c" "distinct (map oe_ID (co_Evidence c))"
    using sample_canonicalize by blast
  have "(sample_outcome_request [sample_input ''b'', sample_input ''a''])\<lparr>ro_Evidence := [sample_input ''a'', sample_input ''b'']\<rparr> =
      sample_outcome_request [sample_input ''a'', sample_input ''b'']"
    by (simp add: sample_outcome_request_def)
  moreover have "outcome_Size sample_outcome_checks (sample_outcome_request es) \<le> 1048576"
    "outcome_protovalidate sample_outcome_checks (sample_outcome_request es) \<longleftrightarrow> es \<noteq> []"
    "ro_Evidence (sample_outcome_request es) = es" for es
    by (simp_all add: sample_outcome_checks_def sample_outcome_request_def)
  ultimately show ?thesis
    using canonicalize_order_independent [OF c(1) _ _ _ c(2), of "[sample_input ''a'', sample_input ''b'']"] c(1) by simp
qed

end
