(* ===== verification/Experiment.thy ===== *)
theory Experiment
  imports Sealing
begin

text \<open>
  \<^verbatim>\<open>internal/experiment\<close>: the manifest of a champion/challenger experiment (\<^verbatim>\<open>manifest.go\<close>) and the
  assignment of a query to one of the versions (\<^verbatim>\<open>assign.go\<close>). The bucket of a query is read off
  the hash of tenant, procedure, query bucket and epoch; exposure and safety caps can only turn
  a challenger into the champion.
\<close>

section \<open>Bytes\<close>

text \<open>\<^verbatim>\<open>hex.DecodeString\<close> and \<^verbatim>\<open>binary.BigEndian.Uint64\<close>.\<close>

definition hex_value :: "char \<Rightarrow> nat option" where
  "hex_value c =
     (if CHR ''0'' \<le> c \<and> c \<le> CHR ''9'' then Some (of_char c - 48)
      else if CHR ''a'' \<le> c \<and> c \<le> CHR ''f'' then Some (of_char c - 87)
      else if CHR ''A'' \<le> c \<and> c \<le> CHR ''F'' then Some (of_char c - 55)
      else None)"

fun hex_DecodeString :: "string \<Rightarrow> string option" where
  "hex_DecodeString [] = Some []"
| "hex_DecodeString [c] = None"
| "hex_DecodeString (c # d # cs) =
     (case (hex_value c, hex_value d, hex_DecodeString cs) of
        (Some h, Some l, Some rest) \<Rightarrow> Some (char_of (16 * h + l) # rest)
      | _ \<Rightarrow> None)"

definition BigEndian_Uint64 :: "string \<Rightarrow> uint64" where
  "BigEndian_Uint64 bytes = foldl (\<lambda>v b. v * 256 + of_nat (of_char b)) 0 (take 8 bytes)"

lemma hex_value_digit: "n < 16 \<Longrightarrow> hex_value (hex_digit n) = Some n"
  by (auto simp: hex_value_def hex_digit_def less_eq_char_def)

lemma hex_Decode_Encode: "hex_DecodeString (hex_EncodeToString s) = Some s"
proof (induction s)
  case Nil
  then show ?case by (simp add: hex_EncodeToString_def)
next
  case (Cons c s)
  have c: "(of_char c :: nat) < 256" by (metis mod_less_divisor of_char_mod_256 zero_less_numeral)
  then have "of_char c div 16 < (16 :: nat)" by (simp add: less_mult_imp_div_less)
  moreover have "char_of (16 * (of_char c div 16) + of_char c mod 16 :: nat) = c" by simp
  ultimately show ?case using Cons
    by (simp add: hex_EncodeToString_def hex_value_digit)
qed

section \<open>Manifests\<close>

definition BucketCount :: uint32 where "BucketCount = 1000000"

datatype experiment_error = ErrInvalidExperiment | ErrExperimentEncoding canonical_error

record ExperimentSpec =
  xs_Version :: string
  xs_TenantID :: string
  xs_ProcedureID :: string
  xs_ChampionVersionID :: string
  xs_ChallengerVersionIDs :: "string list"
  xs_ExperimentEpoch :: uint64
  xs_ChallengerExposurePPM :: uint32
  xs_MaximumConcurrentTrials :: uint32
  xs_TenantExposureLimit :: uint64
  xs_GlobalExposureLimit :: uint64
  xs_TenantUnsafeOutcomeCeiling :: uint64
  xs_GlobalUnsafeOutcomeCeiling :: uint64
  xs_ExposureWindowSeconds :: uint64
  xs_AssignmentTTLSeconds :: uint64
  xs_TenantHighRiskOptIn :: bool

record ExperimentManifest =
  xm_SchemaVersion :: string
  xm_Spec :: ExperimentSpec
  xm_ID :: string
  xm_ContentHash :: string
  xm_CanonicalJSON :: string

definition json_experiment :: "ExperimentManifest \<Rightarrow> json" where
  "json_experiment m = (let s = xm_Spec m in JObj
     [(''schema_version'', JStr (xm_SchemaVersion m)), (''version'', JStr (xs_Version s)),
      (''tenant_id'', JStr (xs_TenantID s)), (''procedure_id'', JStr (xs_ProcedureID s)),
      (''champion_version_id'', JStr (xs_ChampionVersionID s)),
      (''challenger_version_ids'', JArr (map JStr (xs_ChallengerVersionIDs s))),
      (''experiment_epoch'', JNum (uint (xs_ExperimentEpoch s))),
      (''challenger_exposure_ppm'', JNum (uint (xs_ChallengerExposurePPM s))),
      (''maximum_concurrent_trials'', JNum (uint (xs_MaximumConcurrentTrials s))),
      (''tenant_exposure_limit'', JNum (uint (xs_TenantExposureLimit s))),
      (''global_exposure_limit'', JNum (uint (xs_GlobalExposureLimit s))),
      (''tenant_unsafe_outcome_ceiling'', JNum (uint (xs_TenantUnsafeOutcomeCeiling s))),
      (''global_unsafe_outcome_ceiling'', JNum (uint (xs_GlobalUnsafeOutcomeCeiling s))),
      (''exposure_window_seconds'', JNum (uint (xs_ExposureWindowSeconds s))),
      (''assignment_ttl_seconds'', JNum (uint (xs_AssignmentTTLSeconds s))),
      (''tenant_high_risk_opt_in'', JBool (xs_TenantHighRiskOptIn s))])"

definition is_trimmed_char :: "char \<Rightarrow> bool" where
  "is_trimmed_char c \<longleftrightarrow> c = CHR '' '' \<or> c = CHR 0x09 \<or> c = CHR 0x0A \<or> c = CHR 0x0D"

definition experiment_token :: "string \<Rightarrow> string" where
  "experiment_token v = rev (dropWhile is_trimmed_char (rev (dropWhile is_trimmed_char v)))"

definition normalizeVersions :: "string list \<Rightarrow> string list" where
  "normalizeVersions source = sort_slice (<) (map experiment_token source)"

definition validExperiment :: "ExperimentManifest \<Rightarrow> bool" where
  "validExperiment m \<longleftrightarrow> (let v = xm_Spec m in
     tokenPattern (xs_Version v) \<and> xs_TenantID v \<noteq> [] \<and> tokenPattern (xs_ProcedureID v) \<and>
     tokenPattern (xs_ChampionVersionID v) \<and> xs_ExperimentEpoch v \<noteq> 0 \<and>
     xs_ChallengerExposurePPM v \<le> BucketCount \<and> xs_ChallengerExposurePPM v \<noteq> 0 \<and>
     xs_MaximumConcurrentTrials v \<noteq> 0 \<and> xs_ChallengerVersionIDs v \<noteq> [] \<and>
     length (xs_ChallengerVersionIDs v) \<le> unat (xs_MaximumConcurrentTrials v) \<and>
     xs_TenantExposureLimit v \<noteq> 0 \<and> xs_GlobalExposureLimit v \<ge> xs_TenantExposureLimit v \<and>
     xs_ExposureWindowSeconds v \<noteq> 0 \<and> xs_ExposureWindowSeconds v \<le> 31 * 24 * 60 * 60 \<and>
     xs_AssignmentTTLSeconds v \<noteq> 0 \<and> xs_AssignmentTTLSeconds v \<le> xs_ExposureWindowSeconds v \<and>
     list_all (\<lambda>versionID. tokenPattern versionID \<and> versionID \<noteq> xs_ChampionVersionID v) (xs_ChallengerVersionIDs v) \<and>
     strictly_sorted (xs_ChallengerVersionIDs v))"

definition normalize_spec :: "ExperimentSpec \<Rightarrow> ExperimentSpec" where
  "normalize_spec s = s\<lparr>xs_Version := experiment_token (xs_Version s), xs_ProcedureID := experiment_token (xs_ProcedureID s),
     xs_ChampionVersionID := experiment_token (xs_ChampionVersionID s),
     xs_ChallengerVersionIDs := normalizeVersions (xs_ChallengerVersionIDs s)\<rparr>"

definition experiment_NewManifest :: "externals \<Rightarrow> ExperimentSpec \<Rightarrow> experiment_error + ExperimentManifest" where
  "experiment_NewManifest ext spec =
     (let manifest = \<lparr>xm_SchemaVersion = ''experiment-manifest.v1'', xm_Spec = normalize_spec spec, xm_ID = [],
                      xm_ContentHash = [], xm_CanonicalJSON = []\<rparr>
      in if \<not> validExperiment manifest then Inl ErrInvalidExperiment
         else case MarshalAndHash ext (json_experiment manifest) of
           Inl e \<Rightarrow> Inl (ErrExperimentEncoding e)
         | Inr (encoded, hash) \<Rightarrow>
             Inr (manifest\<lparr>xm_ID := ''expman_'' @ hash, xm_ContentHash := hash, xm_CanonicalJSON := encoded\<rparr>))"

definition experiment_ValidateManifest :: "externals \<Rightarrow> ExperimentManifest \<Rightarrow> bool" where
  "experiment_ValidateManifest ext m =
     (case experiment_NewManifest ext (xm_Spec m) of
        Inl _ \<Rightarrow> False
      | Inr rebuilt \<Rightarrow> xm_SchemaVersion m = xm_SchemaVersion rebuilt \<and> xm_ID m = xm_ID rebuilt \<and>
          xm_ContentHash m = xm_ContentHash rebuilt \<and> xm_CanonicalJSON m = xm_CanonicalJSON rebuilt)"

section \<open>Assignments\<close>

abbreviation "XRiskLow \<equiv> ''low''"
abbreviation "XRiskMedium \<equiv> ''medium''"
abbreviation "XRiskHigh \<equiv> ''high''"
abbreviation "XRiskCritical \<equiv> ''critical''"

record ExposureSnapshot =
  sn_WindowStart :: time
  sn_TenantExposureCount :: uint64
  sn_GlobalExposureCount :: uint64
  sn_TenantUnsafeCount :: uint64
  sn_GlobalUnsafeCount :: uint64
  sn_ConcurrentTrialCount :: uint32

record AssignmentRequest =
  ar_Manifest :: ExperimentManifest
  ar_QueryBucketHash :: string
  ar_Risk :: string
  ar_Exposure :: ExposureSnapshot
  ar_AssignedAt :: time

record Assignment =
  as_SchemaVersion :: string
  as_ID :: string
  as_TenantID :: string
  as_ManifestID :: string
  as_AssignmentKeyHash :: string
  as_QueryBucketHash :: string
  as_AssignedProcedureVersionID :: string
  as_Bucket :: uint32
  as_Challenger :: bool
  as_Risk :: string
  as_ReasonCodes :: "string list"
  as_WindowStart :: time
  as_CreatedAt :: time
  as_ExpiresAt :: time
  as_ContentHash :: string
  as_CanonicalJSON :: string

definition json_assignment :: "Assignment \<Rightarrow> json" where
  "json_assignment a = JObj
     ([(''schema_version'', JStr (as_SchemaVersion a)), (''experiment_assignment_id'', JStr (as_ID a)),
       (''tenant_id'', JStr (as_TenantID a)), (''experiment_manifest_id'', JStr (as_ManifestID a)),
       (''assignment_key_hash'', JStr (as_AssignmentKeyHash a)), (''query_bucket_hash'', JStr (as_QueryBucketHash a)),
       (''assigned_procedure_version_id'', JStr (as_AssignedProcedureVersionID a)),
       (''bucket'', JNum (uint (as_Bucket a))), (''challenger'', JBool (as_Challenger a)),
       (''risk'', JStr (as_Risk a)), (''reason_codes'', JArr (map JStr (as_ReasonCodes a))),
       (''window_start'', JTime (as_WindowStart a)), (''created_at'', JTime (as_CreatedAt a)),
       (''expires_at'', JTime (as_ExpiresAt a))] @
      omit_str ''content_hash'' (as_ContentHash a))"

definition experiment_validRisk :: "string \<Rightarrow> bool" where
  "experiment_validRisk v \<longleftrightarrow> v = XRiskLow \<or> v = XRiskMedium \<or> v = XRiskHigh \<or> v = XRiskCritical"

definition CanonicalWindowStart :: "ExperimentManifest \<Rightarrow> time \<Rightarrow> time" where
  "CanonicalWindowStart m assignedAt =
     (if time_IsZero assignedAt \<or> xs_ExposureWindowSeconds (xm_Spec m) = 0 then zero_time
      else time_Truncate (time_UTC assignedAt) (seconds (xs_ExposureWindowSeconds (xm_Spec m))))"

definition validExposure :: "AssignmentRequest \<Rightarrow> bool" where
  "validExposure r \<longleftrightarrow>
     (let window = seconds (xs_ExposureWindowSeconds (xm_Spec (ar_Manifest r)));
          start = sn_WindowStart (ar_Exposure r); at = ar_AssignedAt r
      in \<not> time_IsZero at \<and> time_Equal at (time_UTC at) \<and> \<not> time_IsZero start \<and> time_Equal start (time_UTC start) \<and>
         \<not> time_After start at \<and> time_Before at (time_Add start window))"

definition sealAssignment :: "externals \<Rightarrow> Assignment \<Rightarrow> experiment_error + Assignment" where
  "sealAssignment ext v =
     (let v1 = v\<lparr>as_ID := [], as_ContentHash := [], as_CanonicalJSON := [],
                 as_ReasonCodes := sort_slice (<) (as_ReasonCodes v)\<rparr>
      in case MarshalAndHash ext (json_assignment v1) of
           Inl e \<Rightarrow> Inl (ErrExperimentEncoding e)
         | Inr (encoded, hash) \<Rightarrow>
             Inr (v1\<lparr>as_ID := ''expasn_'' @ hash, as_ContentHash := hash, as_CanonicalJSON := encoded\<rparr>))"

definition json_assignment_key :: "AssignmentRequest \<Rightarrow> json" where
  "json_assignment_key r = (let s = xm_Spec (ar_Manifest r) in JObj
     [(''tenant_id'', JStr (xs_TenantID s)), (''procedure_id'', JStr (xs_ProcedureID s)),
      (''query_bucket_hash'', JStr (ar_QueryBucketHash r)), (''experiment_epoch'', JNum (uint (xs_ExperimentEpoch s)))])"

text \<open>The sequence of conditions that can withdraw the challenger, with the reason each one adds.\<close>

definition withdrawals :: "AssignmentRequest \<Rightarrow> string list" where
  "withdrawals r = (let s = xm_Spec (ar_Manifest r); x = ar_Exposure r in
     (if ar_Risk r = XRiskCritical then [''critical_risk_champion_only''] else []) @
     (if ar_Risk r = XRiskHigh \<and> \<not> xs_TenantHighRiskOptIn s then [''high_risk_opt_in_required''] else []) @
     (if sn_ConcurrentTrialCount x > xs_MaximumConcurrentTrials s then [''concurrent_trial_cap_reached''] else []) @
     (if sn_TenantExposureCount x \<ge> xs_TenantExposureLimit s then [''tenant_exposure_cap_reached''] else []) @
     (if sn_GlobalExposureCount x \<ge> xs_GlobalExposureLimit s then [''global_exposure_cap_reached''] else []) @
     (if sn_TenantUnsafeCount x > xs_TenantUnsafeOutcomeCeiling s then [''tenant_unsafe_ceiling_exceeded''] else []) @
     (if sn_GlobalUnsafeCount x > xs_GlobalUnsafeOutcomeCeiling s then [''global_unsafe_ceiling_exceeded''] else []))"

definition experiment_Assign :: "externals \<Rightarrow> AssignmentRequest \<Rightarrow> experiment_error + Assignment" where
  "experiment_Assign ext request0 =
     (if \<not> experiment_ValidateManifest ext (ar_Manifest request0) \<or> \<not> hashPattern (ar_QueryBucketHash request0) \<or>
         \<not> experiment_validRisk (ar_Risk request0)
      then Inl ErrInvalidExperiment
      else
        let request = request0\<lparr>ar_Exposure := (ar_Exposure request0)
              \<lparr>sn_WindowStart := CanonicalWindowStart (ar_Manifest request0) (ar_AssignedAt request0)\<rparr>\<rparr>;
            s = xm_Spec (ar_Manifest request)
        in if \<not> validExposure request then Inl ErrInvalidExperiment
           else case MarshalAndHash ext (json_assignment_key request) of
             Inl e \<Rightarrow> Inl (ErrExperimentEncoding e)
           | Inr (_, keyHash) \<Rightarrow>
               (case hex_DecodeString keyHash of
                  None \<Rightarrow> Inl ErrInvalidExperiment
                | Some digest \<Rightarrow>
                    if length digest \<noteq> 32 then Inl ErrInvalidExperiment
                    else
                      let bucket = ucast (BigEndian_Uint64 (take 8 digest) mod ucast BucketCount) :: uint32;
                          inBucket = bucket < xs_ChallengerExposurePPM s;
                          challenger = (inBucket \<and> withdrawals request = []);
                          versionID = (if challenger
                            then xs_ChallengerVersionIDs s !
                              unat (BigEndian_Uint64 (take 8 (drop 8 digest)) mod of_nat (length (xs_ChallengerVersionIDs s)))
                            else xs_ChampionVersionID s);
                          reasons = (if inBucket then [] else [''champion_bucket'']) @ withdrawals request @
                            (if challenger then [''challenger_bucket''] else []);
                          ttlEnd = time_Add (ar_AssignedAt request) (seconds (xs_AssignmentTTLSeconds s));
                          windowEnd = time_Add (sn_WindowStart (ar_Exposure request)) (seconds (xs_ExposureWindowSeconds s));
                          expiresAt = (if time_After ttlEnd windowEnd then windowEnd else ttlEnd)
                      in sealAssignment ext
                           \<lparr>as_SchemaVersion = ''experiment-assignment.v1'', as_ID = [], as_TenantID = xs_TenantID s,
                            as_ManifestID = xm_ID (ar_Manifest request), as_AssignmentKeyHash = keyHash,
                            as_QueryBucketHash = ar_QueryBucketHash request, as_AssignedProcedureVersionID = versionID,
                            as_Bucket = bucket, as_Challenger = challenger, as_Risk = ar_Risk request,
                            as_ReasonCodes = reasons, as_WindowStart = sn_WindowStart (ar_Exposure request),
                            as_CreatedAt = ar_AssignedAt request, as_ExpiresAt = expiresAt,
                            as_ContentHash = [], as_CanonicalJSON = []\<rparr>))"

definition ValidateAssignment :: "externals \<Rightarrow> Assignment \<Rightarrow> bool" where
  "ValidateAssignment ext v \<longleftrightarrow>
     as_SchemaVersion v = ''experiment-assignment.v1'' \<and> as_ID v = ''expasn_'' @ as_ContentHash v \<and>
     hashPattern (as_ContentHash v) \<and> as_TenantID v \<noteq> [] \<and> tokenPattern (as_ManifestID v) \<and>
     hashPattern (as_AssignmentKeyHash v) \<and> hashPattern (as_QueryBucketHash v) \<and>
     tokenPattern (as_AssignedProcedureVersionID v) \<and> as_Bucket v < BucketCount \<and> experiment_validRisk (as_Risk v) \<and>
     \<not> time_IsZero (as_CreatedAt v) \<and> \<not> time_IsZero (as_ExpiresAt v) \<and>
     time_Equal (as_CreatedAt v) (time_UTC (as_CreatedAt v)) \<and> time_Equal (as_ExpiresAt v) (time_UTC (as_ExpiresAt v)) \<and>
     time_After (as_ExpiresAt v) (as_CreatedAt v) \<and> \<not> time_IsZero (as_WindowStart v) \<and>
     time_Equal (as_WindowStart v) (time_UTC (as_WindowStart v)) \<and> as_ReasonCodes v \<noteq> [] \<and>
     list_all tokenPattern (as_ReasonCodes v) \<and> strictly_sorted (as_ReasonCodes v) \<and>
     (case sealAssignment ext (v\<lparr>as_ID := [], as_ContentHash := [], as_CanonicalJSON := []\<rparr>) of
        Inl _ \<Rightarrow> False
      | Inr rebuilt \<Rightarrow> as_ID rebuilt = as_ID v \<and> as_CanonicalJSON rebuilt = as_CanonicalJSON v)"

definition EquivalentRouting :: "Assignment \<Rightarrow> Assignment \<Rightarrow> bool" where
  "EquivalentRouting l r \<longleftrightarrow>
     as_TenantID l = as_TenantID r \<and> as_ManifestID l = as_ManifestID r \<and> as_AssignmentKeyHash l = as_AssignmentKeyHash r \<and>
     as_QueryBucketHash l = as_QueryBucketHash r \<and> as_AssignedProcedureVersionID l = as_AssignedProcedureVersionID r \<and>
     as_Bucket l = as_Bucket r \<and> as_Challenger l = as_Challenger r \<and> as_Risk l = as_Risk r \<and>
     time_Equal (as_WindowStart l) (as_WindowStart r)"

section \<open>Sealing\<close>

definition prepare_assignment :: "Assignment \<Rightarrow> Assignment" where
  "prepare_assignment v = v\<lparr>as_ID := [], as_ContentHash := [], as_CanonicalJSON := [],
     as_ReasonCodes := sort_slice (<) (as_ReasonCodes v)\<rparr>"

definition stamp_assignment :: "string \<Rightarrow> string \<Rightarrow> Assignment \<Rightarrow> Assignment" where
  "stamp_assignment encoded hash v =
     v\<lparr>as_ID := ''expasn_'' @ hash, as_ContentHash := hash, as_CanonicalJSON := encoded\<rparr>"

interpretation assignment_seal:
  sealed_value sealAssignment prepare_assignment json_assignment stamp_assignment ErrExperimentEncoding
proof unfold_locales
  fix ext v
  show "sealAssignment ext v = (case MarshalAndHash ext (json_assignment (prepare_assignment v)) of
      Inl e \<Rightarrow> Inl (ErrExperimentEncoding e)
    | Inr (encoded, hash) \<Rightarrow> Inr (stamp_assignment encoded hash (prepare_assignment v)))"
    unfolding sealAssignment_def prepare_assignment_def stamp_assignment_def Let_def ..
qed (simp_all add: prepare_assignment_def stamp_assignment_def sort_slice_eq_sort sorted_sort_id)

section \<open>What an assignment consists of\<close>

definition bucket_of :: "string \<Rightarrow> uint32" where
  "bucket_of digest = ucast (BigEndian_Uint64 (take 8 digest) mod ucast BucketCount)"

definition challenger_of :: "ExperimentSpec \<Rightarrow> string \<Rightarrow> string" where
  "challenger_of s digest = xs_ChallengerVersionIDs s !
     unat (BigEndian_Uint64 (take 8 (drop 8 digest)) mod of_nat (length (xs_ChallengerVersionIDs s)))"

definition routes_to_challenger :: "AssignmentRequest \<Rightarrow> string \<Rightarrow> bool" where
  "routes_to_challenger r digest \<longleftrightarrow>
     bucket_of digest < xs_ChallengerExposurePPM (xm_Spec (ar_Manifest r)) \<and> withdrawals r = []"

definition window_start :: "AssignmentRequest \<Rightarrow> time" where
  "window_start r = CanonicalWindowStart (ar_Manifest r) (ar_AssignedAt r)"

definition window_end :: "AssignmentRequest \<Rightarrow> time" where
  "window_end r = time_Add (window_start r) (seconds (xs_ExposureWindowSeconds (xm_Spec (ar_Manifest r))))"

definition ttl_end :: "AssignmentRequest \<Rightarrow> time" where
  "ttl_end r = time_Add (ar_AssignedAt r) (seconds (xs_AssignmentTTLSeconds (xm_Spec (ar_Manifest r))))"

definition assignment_reasons :: "AssignmentRequest \<Rightarrow> string \<Rightarrow> string list" where
  "assignment_reasons r digest =
     (if bucket_of digest < xs_ChallengerExposurePPM (xm_Spec (ar_Manifest r)) then [] else [''champion_bucket'']) @
     withdrawals r @ (if routes_to_challenger r digest then [''challenger_bucket''] else [])"

definition unsealed_assignment :: "AssignmentRequest \<Rightarrow> string \<Rightarrow> string \<Rightarrow> Assignment" where
  "unsealed_assignment r keyHash digest = (let s = xm_Spec (ar_Manifest r) in
     \<lparr>as_SchemaVersion = ''experiment-assignment.v1'', as_ID = [], as_TenantID = xs_TenantID s,
      as_ManifestID = xm_ID (ar_Manifest r), as_AssignmentKeyHash = keyHash,
      as_QueryBucketHash = ar_QueryBucketHash r,
      as_AssignedProcedureVersionID =
        (if routes_to_challenger r digest then challenger_of s digest else xs_ChampionVersionID s),
      as_Bucket = bucket_of digest, as_Challenger = routes_to_challenger r digest, as_Risk = ar_Risk r,
      as_ReasonCodes = assignment_reasons r digest, as_WindowStart = window_start r,
      as_CreatedAt = ar_AssignedAt r,
      as_ExpiresAt = (if time_After (ttl_end r) (window_end r) then window_end r else ttl_end r),
      as_ContentHash = [], as_CanonicalJSON = []\<rparr>)"

definition accepted_assignment :: "externals \<Rightarrow> AssignmentRequest \<Rightarrow> bool" where
  "accepted_assignment ext r \<longleftrightarrow>
     experiment_ValidateManifest ext (ar_Manifest r) \<and> hashPattern (ar_QueryBucketHash r) \<and> experiment_validRisk (ar_Risk r) \<and>
     t_ns (ar_AssignedAt r) \<noteq> 0 \<and> t_ns (window_start r) \<noteq> 0 \<and> t_ns (window_start r) \<le> t_ns (ar_AssignedAt r) \<and>
     t_ns (ar_AssignedAt r) < t_ns (window_end r)"

lemma withdrawals_window [simp]: "withdrawals (r\<lparr>ar_Exposure := (ar_Exposure r)\<lparr>sn_WindowStart := w\<rparr>\<rparr>) = withdrawals r"
  by (simp add: withdrawals_def Let_def)

lemma Assign_iff:
  "experiment_Assign ext r = Inr a \<longleftrightarrow> accepted_assignment ext r \<and>
     (\<exists>raw. MarshalAndHash ext (json_assignment_key r) = Inr (raw, hash_bytes ext raw) \<and>
        length (sha256_Sum256 ext raw) = 32 \<and>
        sealAssignment ext (unsealed_assignment r (hash_bytes ext raw) (sha256_Sum256 ext raw)) = Inr a)"
proof -
  let ?r = "r\<lparr>ar_Exposure := (ar_Exposure r)\<lparr>sn_WindowStart := CanonicalWindowStart (ar_Manifest r) (ar_AssignedAt r)\<rparr>\<rparr>"
  have v: "validExposure ?r \<longleftrightarrow> t_ns (ar_AssignedAt r) \<noteq> 0 \<and> t_ns (window_start r) \<noteq> 0 \<and>
      t_ns (window_start r) \<le> t_ns (ar_AssignedAt r) \<and> t_ns (ar_AssignedAt r) < t_ns (window_end r)"
    by (auto simp: validExposure_def window_start_def window_end_def time_IsZero_def time_Equal_def time_UTC_def
        time_After_def time_Before_def Let_def)
  have k: "json_assignment_key ?r = json_assignment_key r" by (simp add: json_assignment_key_def)
  have acc: "accepted_assignment ext r \<longleftrightarrow> experiment_ValidateManifest ext (ar_Manifest r) \<and>
      hashPattern (ar_QueryBucketHash r) \<and> experiment_validRisk (ar_Risk r) \<and> validExposure ?r"
    unfolding accepted_assignment_def v ..
  show ?thesis
  proof (cases "accepted_assignment ext r")
    case False
    then show ?thesis unfolding acc by (auto simp: experiment_Assign_def Let_def)
  next
    case True
    then have a: "experiment_ValidateManifest ext (ar_Manifest r)" "hashPattern (ar_QueryBucketHash r)"
      "experiment_validRisk (ar_Risk r)" "validExposure ?r" unfolding acc by blast+
    show ?thesis
    proof (cases "MarshalAndHash ext (json_assignment_key r)")
      case (Inl e)
      then show ?thesis using a by (simp add: experiment_Assign_def Let_def k)
    next
      case (Inr p)
      then obtain raw h where p: "MarshalAndHash ext (json_assignment_key r) = Inr (raw, h)" by (cases p) simp
      then have h: "h = hash_bytes ext raw" by (rule MarshalAndHash_Inr)
      have d: "hex_DecodeString (hash_bytes ext raw) = Some (sha256_Sum256 ext raw)"
        by (simp add: hash_bytes_def hex_Decode_Encode)
      show ?thesis
        using a True
        by (simp add: experiment_Assign_def k p h d Let_def unsealed_assignment_def routes_to_challenger_def
            bucket_of_def challenger_of_def assignment_reasons_def window_start_def window_end_def ttl_end_def)
    qed
  qed
qed

lemma NewManifest_valid: "experiment_NewManifest ext spec = Inr m \<Longrightarrow> validExperiment m"
proof -
  assume a: "experiment_NewManifest ext spec = Inr m"
  then have "xm_Spec m = normalize_spec spec" by (auto simp: experiment_NewManifest_def Let_def split: if_splits sum.splits)
  moreover have "validExperiment \<lparr>xm_SchemaVersion = ''experiment-manifest.v1'', xm_Spec = normalize_spec spec, xm_ID = [],
      xm_ContentHash = [], xm_CanonicalJSON = []\<rparr>"
    using a by (auto simp: experiment_NewManifest_def Let_def split: if_splits)
  ultimately show ?thesis by (simp add: validExperiment_def)
qed

lemma accepted_manifest:
  assumes "experiment_ValidateManifest ext m"
  shows "validExperiment (m\<lparr>xm_Spec := normalize_spec (xm_Spec m)\<rparr>)"
    "digest32 ext \<Longrightarrow> tokenPattern (xm_ID m)"
proof -
  from assms obtain b where b: "experiment_NewManifest ext (xm_Spec m) = Inr b" "xm_ID m = xm_ID b"
    by (auto simp: experiment_ValidateManifest_def split: sum.splits)
  then show "validExperiment (m\<lparr>xm_Spec := normalize_spec (xm_Spec m)\<rparr>)"
    by (auto simp: experiment_NewManifest_def validExperiment_def Let_def split: if_splits)
  have "tokenPattern ''expman_''" by code_simp
  then show "digest32 ext \<Longrightarrow> tokenPattern (xm_ID m)"
    using b tokenPattern_hash_suffix [of "''expman_''"] MarshalAndHash_pattern [of ext]
    by (fastforce simp: experiment_NewManifest_def Let_def split: if_splits sum.splits)
qed

lemma accepted_numbers:
  assumes "experiment_ValidateManifest ext m"
  shows "0 < uint (xs_ExposureWindowSeconds (xm_Spec m))" "uint (xs_ExposureWindowSeconds (xm_Spec m)) \<le> 9223372036"
    "0 < uint (xs_AssignmentTTLSeconds (xm_Spec m))" "uint (xs_AssignmentTTLSeconds (xm_Spec m)) \<le> 9223372036"
    "xs_ChallengerVersionIDs (xm_Spec m) \<noteq> []"
    "length (xs_ChallengerVersionIDs (xm_Spec m)) \<le> unat (xs_MaximumConcurrentTrials (xm_Spec m))"
proof -
  let ?s = "xm_Spec m"
  have v: "xs_ExposureWindowSeconds ?s \<noteq> 0" "xs_ExposureWindowSeconds ?s \<le> 31 * 24 * 60 * 60"
    "xs_AssignmentTTLSeconds ?s \<noteq> 0" "xs_AssignmentTTLSeconds ?s \<le> xs_ExposureWindowSeconds ?s"
    "normalizeVersions (xs_ChallengerVersionIDs ?s) \<noteq> []"
    "length (normalizeVersions (xs_ChallengerVersionIDs ?s)) \<le> unat (xs_MaximumConcurrentTrials ?s)"
    using accepted_manifest(1) [OF assms] by (simp_all add: validExperiment_def normalize_spec_def Let_def)
  have n: "uint (xs_ExposureWindowSeconds ?s) \<le> 2678400" "uint (xs_AssignmentTTLSeconds ?s) \<le> uint (xs_ExposureWindowSeconds ?s)"
    using v(2,4) by (simp_all add: word_le_def)
  then show "uint (xs_ExposureWindowSeconds ?s) \<le> 9223372036" "uint (xs_AssignmentTTLSeconds ?s) \<le> 9223372036" by linarith+
  show "0 < uint (xs_ExposureWindowSeconds ?s)" "0 < uint (xs_AssignmentTTLSeconds ?s)"
    using v(1,3) by (simp_all add: word_neq_0_conv word_less_def)
  show "xs_ChallengerVersionIDs ?s \<noteq> []" "length (xs_ChallengerVersionIDs ?s) \<le> unat (xs_MaximumConcurrentTrials ?s)"
    using v(5,6) by (auto simp: normalizeVersions_def)
qed

lemma challenger_of_in_set:
  assumes "experiment_ValidateManifest ext m"
  shows "challenger_of (xm_Spec m) digest \<in> set (xs_ChallengerVersionIDs (xm_Spec m))"
proof -
  let ?n = "length (xs_ChallengerVersionIDs (xm_Spec m))"
  note a = accepted_numbers(5,6) [OF assms]
  have "?n < 2 ^ 32" using a(2) unsigned_less [of "xs_MaximumConcurrentTrials (xm_Spec m)", where 'a = nat] by simp
  then have u: "unat (of_nat ?n :: uint64) = ?n" by (simp add: unat_of_nat take_bit_nat_eq_self)
  have "unat (x mod of_nat ?n :: uint64) < ?n" for x
    unfolding unat_mod u using a(1) by simp
  then show ?thesis unfolding challenger_of_def by (rule nth_mem)
qed

lemma bucket_range: "bucket_of digest < BucketCount"
proof -
  let ?x = "BigEndian_Uint64 (take 8 digest) mod ucast BucketCount"
  have b: "unat (ucast BucketCount :: uint64) = 1000000" by (simp add: BucketCount_def)
  have x: "unat ?x < 1000000" unfolding unat_mod b by simp
  then have "unat (ucast ?x :: uint32) = unat ?x" by (simp add: unsigned_ucast_eq take_bit_nat_eq_self)
  then show ?thesis using x by (simp add: bucket_of_def word_less_nat_alt BucketCount_def)
qed

lemma withdrawals_Nil:
  "withdrawals r = [] \<longleftrightarrow>
     ar_Risk r \<noteq> XRiskCritical \<and> (ar_Risk r = XRiskHigh \<longrightarrow> xs_TenantHighRiskOptIn (xm_Spec (ar_Manifest r))) \<and>
     sn_ConcurrentTrialCount (ar_Exposure r) \<le> xs_MaximumConcurrentTrials (xm_Spec (ar_Manifest r)) \<and>
     sn_TenantExposureCount (ar_Exposure r) < xs_TenantExposureLimit (xm_Spec (ar_Manifest r)) \<and>
     sn_GlobalExposureCount (ar_Exposure r) < xs_GlobalExposureLimit (xm_Spec (ar_Manifest r)) \<and>
     sn_TenantUnsafeCount (ar_Exposure r) \<le> xs_TenantUnsafeOutcomeCeiling (xm_Spec (ar_Manifest r)) \<and>
     sn_GlobalUnsafeCount (ar_Exposure r) \<le> xs_GlobalUnsafeOutcomeCeiling (xm_Spec (ar_Manifest r))"
  by (auto simp: withdrawals_def Let_def not_le not_less)

lemma Assign_Inr:
  assumes "experiment_Assign ext r = Inr a"
  obtains raw encoded where "accepted_assignment ext r"
    "MarshalAndHash ext (json_assignment_key r) = Inr (raw, hash_bytes ext raw)" "length (sha256_Sum256 ext raw) = 32"
    "a = stamp_assignment encoded (hash_bytes ext encoded)
       (prepare_assignment (unsealed_assignment r (hash_bytes ext raw) (sha256_Sum256 ext raw)))"
    "sealAssignment ext (unsealed_assignment r (hash_bytes ext raw) (sha256_Sum256 ext raw)) = Inr a"
proof -
  obtain raw where r: "accepted_assignment ext r"
    "MarshalAndHash ext (json_assignment_key r) = Inr (raw, hash_bytes ext raw)" "length (sha256_Sum256 ext raw) = 32"
    "sealAssignment ext (unsealed_assignment r (hash_bytes ext raw) (sha256_Sum256 ext raw)) = Inr a"
    using assms unfolding Assign_iff by blast
  from assignment_seal.seal_Inr [OF r(4)] that r show thesis by metis
qed

lemmas assignment_fields = stamp_assignment_def prepare_assignment_def unsealed_assignment_def

section \<open>Reasons\<close>

definition reason_order :: "string list" where
  "reason_order = [''champion_bucket'', ''critical_risk_champion_only'', ''high_risk_opt_in_required'',
     ''concurrent_trial_cap_reached'', ''tenant_exposure_cap_reached'', ''global_exposure_cap_reached'',
     ''tenant_unsafe_ceiling_exceeded'', ''global_unsafe_ceiling_exceeded'', ''challenger_bucket'']"

lemma reason_order_good: "distinct reason_order \<and> list_all tokenPattern reason_order"
  by code_simp

text \<open>The reasons are a selection from a fixed list of different codes, and never empty.\<close>

lemma assignment_reasons_pick: "\<exists>cs. assignment_reasons r d = pick cs reason_order"
proof -
  let ?s = "xm_Spec (ar_Manifest r)" and ?x = "ar_Exposure r"
  let ?cs = "[\<not> bucket_of d < xs_ChallengerExposurePPM ?s, ar_Risk r = XRiskCritical,
    ar_Risk r = XRiskHigh \<and> \<not> xs_TenantHighRiskOptIn ?s, sn_ConcurrentTrialCount ?x > xs_MaximumConcurrentTrials ?s,
    sn_TenantExposureCount ?x \<ge> xs_TenantExposureLimit ?s, sn_GlobalExposureCount ?x \<ge> xs_GlobalExposureLimit ?s,
    sn_TenantUnsafeCount ?x > xs_TenantUnsafeOutcomeCeiling ?s, sn_GlobalUnsafeCount ?x > xs_GlobalUnsafeOutcomeCeiling ?s,
    routes_to_challenger r d]"
  have n: "(if c then [] else xs) = (if \<not> c then xs else [])" for c and xs :: "string list" by simp
  have "assignment_reasons r d = pick ?cs reason_order"
    by (simp only: assignment_reasons_def withdrawals_def Let_def reason_order_def n pick.simps append_assoc append_Nil2)
  then show ?thesis by blast
qed

lemma assignment_reasons_good:
  "distinct (assignment_reasons r d)" "list_all tokenPattern (assignment_reasons r d)" "assignment_reasons r d \<noteq> []"
proof -
  obtain cs where c: "assignment_reasons r d = pick cs reason_order"
    using assignment_reasons_pick by blast
  show "distinct (assignment_reasons r d)" "list_all tokenPattern (assignment_reasons r d)"
    unfolding c using reason_order_good by (simp_all add: distinct_pick list_all_pick)
  show "assignment_reasons r d \<noteq> []"
    by (auto simp: assignment_reasons_def routes_to_challenger_def)
qed

section \<open>Windows\<close>

lemma window_facts:
  assumes "accepted_assignment ext r"
  defines "w \<equiv> uint (xs_ExposureWindowSeconds (xm_Spec (ar_Manifest r))) * 1000000000"
  shows "t_ns (window_end r) = t_ns (window_start r) + w"
    "t_ns (ttl_end r) = t_ns (ar_AssignedAt r) + uint (xs_AssignmentTTLSeconds (xm_Spec (ar_Manifest r))) * 1000000000"
    "t_ns (window_start r) = t_ns (ar_AssignedAt r) - t_ns (ar_AssignedAt r) mod w" "0 < w"
proof -
  have v: "experiment_ValidateManifest ext (ar_Manifest r)" "t_ns (ar_AssignedAt r) \<noteq> 0"
    using assms(1) by (simp_all add: accepted_assignment_def)
  note n = accepted_numbers [OF v(1)]
  have nz: "xs_ExposureWindowSeconds (xm_Spec (ar_Manifest r)) \<noteq> 0" using n(1) by auto
  show "0 < w" using n(1) by (simp add: w_def)
  show "t_ns (window_end r) = t_ns (window_start r) + w"
    by (simp add: window_end_def time_Add_def seconds_exact n w_def)
  show "t_ns (ttl_end r) = t_ns (ar_AssignedAt r) + uint (xs_AssignmentTTLSeconds (xm_Spec (ar_Manifest r))) * 1000000000"
    by (simp add: ttl_end_def time_Add_def seconds_exact n)
  show "t_ns (window_start r) = t_ns (ar_AssignedAt r) - t_ns (ar_AssignedAt r) mod w"
    using v(2) nz less_imp_neq [OF n(1)] by (simp add: window_start_def CanonicalWindowStart_def time_IsZero_def time_Truncate_def
        time_UTC_def seconds_exact n w_def)
qed

section \<open>A sample experiment\<close>

definition sample_experiment_spec :: ExperimentSpec where
  "sample_experiment_spec = \<lparr>xs_Version = ''x1'', xs_TenantID = ''t'', xs_ProcedureID = ''p'', xs_ChampionVersionID = ''v0'',
     xs_ChallengerVersionIDs = [''v1'', ''v2''], xs_ExperimentEpoch = 1, xs_ChallengerExposurePPM = 1000000,
     xs_MaximumConcurrentTrials = 2, xs_TenantExposureLimit = 10, xs_GlobalExposureLimit = 20,
     xs_TenantUnsafeOutcomeCeiling = 0, xs_GlobalUnsafeOutcomeCeiling = 0, xs_ExposureWindowSeconds = 3600,
     xs_AssignmentTTLSeconds = 600, xs_TenantHighRiskOptIn = False\<rparr>"

definition sample_experiment_blank :: ExperimentManifest where
  "sample_experiment_blank = \<lparr>xm_SchemaVersion = ''experiment-manifest.v1'', xm_Spec = sample_experiment_spec, xm_ID = [],
     xm_ContentHash = [], xm_CanonicalJSON = []\<rparr>"

definition sample_experiment :: ExperimentManifest where
  "sample_experiment =
     (let enc = sample_print (json_experiment sample_experiment_blank); h = hash_bytes sample_externals enc
      in sample_experiment_blank\<lparr>xm_ID := ''expman_'' @ h, xm_ContentHash := h, xm_CanonicalJSON := enc\<rparr>)"

definition sample_assignment_request :: "string \<Rightarrow> int \<Rightarrow> AssignmentRequest" where
  "sample_assignment_request risk at = \<lparr>ar_Manifest = sample_experiment, ar_QueryBucketHash = replicate 64 CHR ''a'',
     ar_Risk = risk, ar_Exposure = \<lparr>sn_WindowStart = zero_time, sn_TenantExposureCount = 3, sn_GlobalExposureCount = 4,
       sn_TenantUnsafeCount = 0, sn_GlobalUnsafeCount = 0, sn_ConcurrentTrialCount = 1\<rparr>,
     ar_AssignedAt = \<lparr>t_ns = at, t_zone = 0\<rparr>\<rparr>"

lemma sample_spec_normal: "normalize_spec sample_experiment_spec = sample_experiment_spec"
  by (simp add: normalize_spec_def sample_experiment_spec_def experiment_token_def is_trimmed_char_def normalizeVersions_def)

lemma sample_experiment_new: "experiment_NewManifest sample_externals sample_experiment_spec = Inr sample_experiment"
proof -
  have "validExperiment sample_experiment_blank" by code_simp
  then show ?thesis
    unfolding experiment_NewManifest_def sample_spec_normal sample_experiment_blank_def [symmetric]
    by (simp add: MarshalAndHash_sample sample_experiment_def Let_def)
qed

lemma sample_assignment:
  assumes "risk = XRiskLow \<or> risk = XRiskHigh" "at = 5000000000000 \<or> at = 6000000000000"
  obtains a where "experiment_Assign sample_externals (sample_assignment_request risk at) = Inr a"
proof -
  have s: "xm_Spec sample_experiment = sample_experiment_spec"
    by (simp add: sample_experiment_def sample_experiment_blank_def Let_def)
  have v: "experiment_ValidateManifest sample_externals sample_experiment"
    by (simp add: experiment_ValidateManifest_def s sample_experiment_new)
  have h: "hashPattern (replicate 64 CHR ''a'')" by code_simp
  have "seconds 3600 = 3600000000000" by (simp add: seconds_exact)
  then have "accepted_assignment sample_externals (sample_assignment_request risk at)"
    using assms v h by (auto simp: accepted_assignment_def sample_assignment_request_def window_start_def window_end_def
        CanonicalWindowStart_def s sample_experiment_spec_def time_defs experiment_validRisk_def)
  moreover have "length (sha256_Sum256 sample_externals x) = 32" for x using digest32_sample by (simp add: digest32_def)
  ultimately show thesis
    using that by (auto simp: Assign_iff MarshalAndHash_sample assignment_seal.seal_unfold)
qed

text \<open>
  A manifest is compared with what \<^verbatim>\<open>NewManifest\<close> makes of its fields, after sorting and trimming
  them: a manifest whose challengers are listed in another order is accepted under the same
  identifier, although \<^verbatim>\<open>Assign\<close> indexes the list as it stands.
\<close>

lemma manifest_order_unchecked:
  assumes "experiment_ValidateManifest ext m" "mset cs = mset (xs_ChallengerVersionIDs (xm_Spec m))"
  shows "experiment_ValidateManifest ext (m\<lparr>xm_Spec := (xm_Spec m)\<lparr>xs_ChallengerVersionIDs := cs\<rparr>\<rparr>)"
proof -
  have "mset (map experiment_token cs) = mset (map experiment_token (xs_ChallengerVersionIDs (xm_Spec m)))"
    using assms(2) by simp
  then have "normalizeVersions cs = normalizeVersions (xs_ChallengerVersionIDs (xm_Spec m))"
    unfolding normalizeVersions_def sort_slice_eq_sort
    by (intro properties_for_sort) (simp_all add: mset_sort)
  then have "normalize_spec ((xm_Spec m)\<lparr>xs_ChallengerVersionIDs := cs\<rparr>) = normalize_spec (xm_Spec m)"
    by (simp add: normalize_spec_def)
  then have "experiment_NewManifest ext ((xm_Spec m)\<lparr>xs_ChallengerVersionIDs := cs\<rparr>) = experiment_NewManifest ext (xm_Spec m)"
    by (simp add: experiment_NewManifest_def)
  then show ?thesis using assms(1) by (auto simp: experiment_ValidateManifest_def split: sum.splits)
qed

section \<open>Properties\<close>

text \<open>C15: challengers stay inside their limits. A query is routed to a challenger if and only if its bucket
  is below the exposure share, the risk is not critical, a high risk is opted in, and every exposure,
  concurrency and safety limit holds; the version assigned is then one of the challengers and
  otherwise the champion.\<close>

theorem assign_routing:
  assumes "experiment_Assign ext r = Inr a" "s = xm_Spec (ar_Manifest r)" "x = ar_Exposure r"
  shows "as_Challenger a =
      (as_Bucket a < xs_ChallengerExposurePPM s \<and> ar_Risk r \<noteq> XRiskCritical \<and>
       (ar_Risk r = XRiskHigh \<longrightarrow> xs_TenantHighRiskOptIn s) \<and>
       sn_ConcurrentTrialCount x \<le> xs_MaximumConcurrentTrials s \<and>
       sn_TenantExposureCount x < xs_TenantExposureLimit s \<and> sn_GlobalExposureCount x < xs_GlobalExposureLimit s \<and>
       sn_TenantUnsafeCount x \<le> xs_TenantUnsafeOutcomeCeiling s \<and> sn_GlobalUnsafeCount x \<le> xs_GlobalUnsafeOutcomeCeiling s) \<and>
     (if as_Challenger a then as_AssignedProcedureVersionID a \<in> set (xs_ChallengerVersionIDs s)
      else as_AssignedProcedureVersionID a = xs_ChampionVersionID s)"
proof -
  from assms(1) obtain raw encoded where a: "accepted_assignment ext r"
    "a = stamp_assignment encoded (hash_bytes ext encoded)
       (prepare_assignment (unsealed_assignment r (hash_bytes ext raw) (sha256_Sum256 ext raw)))"
    by (rule Assign_Inr)
  have "experiment_ValidateManifest ext (ar_Manifest r)" using a(1) by (simp add: accepted_assignment_def)
  then show ?thesis
    by (auto simp: a(2) assignment_fields routes_to_challenger_def withdrawals_Nil challenger_of_in_set assms(2,3) Let_def)
qed

theorem assign_routing_witness:
  "\<exists>a. experiment_Assign sample_externals (sample_assignment_request XRiskHigh 5000000000000) = Inr a \<and>
     \<not> as_Challenger a \<and> as_AssignedProcedureVersionID a = ''v0''"
proof -
  obtain a where a: "experiment_Assign sample_externals (sample_assignment_request XRiskHigh 5000000000000) = Inr a"
    using sample_assignment by blast
  have s: "xm_Spec sample_experiment = sample_experiment_spec"
    by (simp add: sample_experiment_def sample_experiment_blank_def Let_def)
  have "\<not> as_Challenger a"
    using assign_routing [OF a refl refl] by (simp add: sample_assignment_request_def s sample_experiment_spec_def)
  then show ?thesis
    using assign_routing [OF a refl refl] a by (simp add: sample_assignment_request_def s sample_experiment_spec_def)
qed

text \<open>An assignment lives inside its exposure window. In exact nanoseconds, the window is aligned to a
  multiple of its length and contains the creation time; the assignment expires after it was
  created, no later than its time to live and no later than the end of the window.\<close>

theorem assignment_within_window:
  assumes "experiment_Assign ext r = Inr a"
  shows "let w = int (unat (xs_ExposureWindowSeconds (xm_Spec (ar_Manifest r)))) * 1000000000;
             ttl = int (unat (xs_AssignmentTTLSeconds (xm_Spec (ar_Manifest r)))) * 1000000000
         in t_ns (as_WindowStart a) mod w = 0 \<and> t_ns (as_WindowStart a) \<le> t_ns (as_CreatedAt a) \<and>
            t_ns (as_CreatedAt a) < t_ns (as_ExpiresAt a) \<and>
            t_ns (as_ExpiresAt a) = min (t_ns (as_CreatedAt a) + ttl) (t_ns (as_WindowStart a) + w)"
proof -
  from assms obtain raw encoded where a: "accepted_assignment ext r"
    "a = stamp_assignment encoded (hash_bytes ext encoded)
       (prepare_assignment (unsealed_assignment r (hash_bytes ext raw) (sha256_Sum256 ext raw)))"
    by (rule Assign_Inr)
  note w = window_facts [OF a(1)]
  have v: "experiment_ValidateManifest ext (ar_Manifest r)" "t_ns (ar_AssignedAt r) < t_ns (window_end r)"
    using a(1) by (simp_all add: accepted_assignment_def)
  have f: "as_WindowStart a = window_start r" "as_CreatedAt a = ar_AssignedAt r"
    "as_ExpiresAt a = (if time_After (ttl_end r) (window_end r) then window_end r else ttl_end r)"
    by (simp_all add: a(2) assignment_fields Let_def)
  have m: "t_ns (ar_AssignedAt r) mod k \<ge> 0" "(t_ns (ar_AssignedAt r) - t_ns (ar_AssignedAt r) mod k) mod k = 0" if "0 < k" for k
    using that by (simp_all add: minus_mod_eq_mult_div)
  show ?thesis
    using w v accepted_numbers(3) [OF v(1)] m [OF w(4)]
    by (auto simp: f time_After_def min_def Let_def)
qed

theorem assignment_within_window_witness:
  "\<exists>a. experiment_Assign sample_externals (sample_assignment_request XRiskLow 5000000000000) = Inr a \<and>
     t_ns (as_CreatedAt a) < t_ns (as_ExpiresAt a)"
proof -
  obtain a where a: "experiment_Assign sample_externals (sample_assignment_request XRiskLow 5000000000000) = Inr a"
    using sample_assignment by blast
  then show ?thesis using assignment_within_window [OF a] by (auto simp: Let_def)
qed

text \<open>Routing is sticky. Two requests under the same manifest with the same query bucket get the same
  assignment key and bucket, whatever the time, the risk and the exposure; if both go to a
  challenger it is the same one.\<close>

theorem assignment_sticky:
  assumes "experiment_Assign ext r = Inr a" "experiment_Assign ext r' = Inr a'"
    and "ar_Manifest r = ar_Manifest r'" "ar_QueryBucketHash r = ar_QueryBucketHash r'"
  shows "as_AssignmentKeyHash a = as_AssignmentKeyHash a' \<and> as_Bucket a = as_Bucket a' \<and>
    (as_Challenger a = as_Challenger a' \<longrightarrow> as_AssignedProcedureVersionID a = as_AssignedProcedureVersionID a')"
proof -
  from assms(1) obtain raw encoded where a: "MarshalAndHash ext (json_assignment_key r) = Inr (raw, hash_bytes ext raw)"
    "a = stamp_assignment encoded (hash_bytes ext encoded)
       (prepare_assignment (unsealed_assignment r (hash_bytes ext raw) (sha256_Sum256 ext raw)))"
    by (rule Assign_Inr)
  from assms(2) obtain raw' encoded' where a': "MarshalAndHash ext (json_assignment_key r') = Inr (raw', hash_bytes ext raw')"
    "a' = stamp_assignment encoded' (hash_bytes ext encoded')
       (prepare_assignment (unsealed_assignment r' (hash_bytes ext raw') (sha256_Sum256 ext raw')))"
    by (rule Assign_Inr)
  have "json_assignment_key r = json_assignment_key r'" using assms(3,4) by (simp add: json_assignment_key_def)
  then have "raw = raw'" using a(1) a'(1) by simp
  then show ?thesis using assms(3) by (simp add: a(2) a'(2) assignment_fields Let_def)
qed

theorem assignment_sticky_witness:
  "\<exists>a a'. experiment_Assign sample_externals (sample_assignment_request XRiskLow 5000000000000) = Inr a \<and>
     experiment_Assign sample_externals (sample_assignment_request XRiskHigh 6000000000000) = Inr a' \<and>
     as_Bucket a = as_Bucket a'"
proof -
  obtain a a' where a: "experiment_Assign sample_externals (sample_assignment_request XRiskLow 5000000000000) = Inr a"
    "experiment_Assign sample_externals (sample_assignment_request XRiskHigh 6000000000000) = Inr a'"
    using sample_assignment by metis
  then show ?thesis using assignment_sticky [OF a] by (auto simp: sample_assignment_request_def)
qed

text \<open>An assignment made under a manifest of \<^verbatim>\<open>NewManifest\<close> passes \<^verbatim>\<open>ValidateAssignment\<close>, provided
  the digest has 32 bytes and the clock is past year 1.\<close>

theorem assignment_validates:
  assumes "digest32 ext" "experiment_NewManifest ext spec = Inr (ar_Manifest r)" "0 < t_ns (ar_AssignedAt r)"
    and "experiment_Assign ext r = Inr a"
  shows "ValidateAssignment ext a"
proof -
  from assms(4) obtain raw encoded where a: "accepted_assignment ext r"
    "a = stamp_assignment encoded (hash_bytes ext encoded)
       (prepare_assignment (unsealed_assignment r (hash_bytes ext raw) (sha256_Sum256 ext raw)))"
    "sealAssignment ext (unsealed_assignment r (hash_bytes ext raw) (sha256_Sum256 ext raw)) = Inr a"
    by (rule Assign_Inr)
  let ?s = "xm_Spec (ar_Manifest r)" and ?d = "sha256_Sum256 ext raw"
  have v: "experiment_ValidateManifest ext (ar_Manifest r)" "hashPattern (ar_QueryBucketHash r)" "experiment_validRisk (ar_Risk r)"
    "t_ns (window_start r) \<noteq> 0" "t_ns (ar_AssignedAt r) < t_ns (window_end r)"
    using a(1) by (simp_all add: accepted_assignment_def)
  have m: "xs_TenantID ?s \<noteq> []" "tokenPattern (xs_ChampionVersionID ?s)" "list_all tokenPattern (xs_ChallengerVersionIDs ?s)"
    using NewManifest_valid [OF assms(2)] by (auto simp: validExperiment_def list_all_iff Let_def)
  have "tokenPattern (challenger_of ?s ?d)" using challenger_of_in_set [OF v(1)] m(3) by (auto simp: list_all_iff)
  moreover have "prepare_assignment (a\<lparr>as_ID := [], as_ContentHash := [], as_CanonicalJSON := []\<rparr>) = prepare_assignment a"
    by (simp add: prepare_assignment_def)
  then have "sealAssignment ext (a\<lparr>as_ID := [], as_ContentHash := [], as_CanonicalJSON := []\<rparr>) = Inr a"
    using assignment_seal.seal_cong assignment_seal.seal_stable [OF a(3)] by metis
  moreover have "t_ns (ar_AssignedAt r) < t_ns (ttl_end r)"
    using window_facts(2) [OF a(1)] accepted_numbers(3) [OF v(1)] by simp
  moreover have "as_ReasonCodes a = sort (assignment_reasons r ?d)" "as_ID a = ''expasn_'' @ as_ContentHash a"
    "as_ContentHash a = hash_bytes ext encoded" "as_SchemaVersion a = ''experiment-assignment.v1''"
    "as_TenantID a = xs_TenantID ?s" "as_ManifestID a = xm_ID (ar_Manifest r)" "as_AssignmentKeyHash a = hash_bytes ext raw"
    "as_QueryBucketHash a = ar_QueryBucketHash r" "as_Bucket a = bucket_of ?d" "as_Risk a = ar_Risk r"
    "as_AssignedProcedureVersionID a = (if routes_to_challenger r ?d then challenger_of ?s ?d else xs_ChampionVersionID ?s)"
    "as_CreatedAt a = ar_AssignedAt r" "as_WindowStart a = window_start r"
    "as_ExpiresAt a = (if time_After (ttl_end r) (window_end r) then window_end r else ttl_end r)"
    by (simp_all add: a(2) assignment_fields sort_slice_eq_sort Let_def)
  moreover have "sort (assignment_reasons r ?d) \<noteq> []" "list_all tokenPattern (sort (assignment_reasons r ?d))"
    "strictly_sorted (sort (assignment_reasons r ?d))"
    using assignment_reasons_good [of r ?d]
    by (simp_all add: strictly_sorted_sorted_distinct list_all_iff) (metis length_0_conv length_sort)
  ultimately show ?thesis
    using v m assms(3) bucket_range [of ?d] hashPattern_hash_bytes [OF assms(1)] accepted_manifest(2) [OF v(1) assms(1)]
    unfolding ValidateAssignment_def by (simp add: time_defs)
qed

theorem assignment_validates_witness:
  "\<exists>a. experiment_Assign sample_externals (sample_assignment_request XRiskLow 5000000000000) = Inr a \<and>
     ValidateAssignment sample_externals a"
proof -
  obtain a where a: "experiment_Assign sample_externals (sample_assignment_request XRiskLow 5000000000000) = Inr a"
    using sample_assignment by blast
  have "ar_Manifest (sample_assignment_request XRiskLow 5000000000000) = sample_experiment"
    "0 < t_ns (ar_AssignedAt (sample_assignment_request XRiskLow 5000000000000))"
    by (simp_all add: sample_assignment_request_def)
  with assignment_validates [OF digest32_sample _ _ a, of sample_experiment_spec] sample_experiment_new a
  show ?thesis by auto
qed

end
