(* ===== verification/Append_Only.thy ===== *)
theory Append_Only
  imports Prelude
begin

text \<open>
  The interface of the in-memory repositories that accept a call at most once per identity: every
  call runs under the mutex of its repository, so concurrent calls are a sequence of calls, and what
  one call stored is never replaced by a later one.
\<close>

definition run_calls :: "('call \<Rightarrow> 'state \<Rightarrow> 'result \<times> 'state) \<Rightarrow> 'call list \<Rightarrow> 'state \<Rightarrow> 'state" where
  "run_calls commit calls s = fold (\<lambda>c s. snd (commit c s)) calls s"

locale append_only =
  fixes commit :: "'call \<Rightarrow> 'state \<Rightarrow> 'result \<times> 'state"
    and holds :: "'item \<Rightarrow> 'state \<Rightarrow> bool"
    and separate :: "'item \<Rightarrow> 'call \<Rightarrow> bool"
  assumes keeps: "holds x s \<Longrightarrow> separate x c \<Longrightarrow> holds x (snd (commit c s))"
begin

lemma run_keeps: "holds x s \<Longrightarrow> \<forall>c \<in> set calls. separate x c \<Longrightarrow> holds x (run_calls commit calls s)"
  by (induction calls arbitrary: s) (auto simp: run_calls_def intro: keeps)

end

end
