(* ===== verification/Experiment_Reserve.thy ===== *)
theory Experiment_Reserve
  imports Experiment Append_Only "HOL-Library.AList"
begin

text \<open>
  \<^verbatim>\<open>internal/experiment/repository.go\<close> and \<^verbatim>\<open>internal/store/memory/experiment.go\<close>: assignments are reserved under a
  mutex against the exposure budgets of the tenant and of all tenants in a window. In a key, an
  epoch stands for its decimal representation and a window start for its printed form; both are
  injective on what the code prints, unsigned numbers and instants in UTC.
\<close>

section \<open>The repository\<close>

datatype reserve_error = ErrExperimentConflict | ErrExperimentNotFound | ErrAssign experiment_error

datatype experiment_disposition = DispositionReserved | DispositionDuplicate

record Reservation =
  rv_Assignment :: Assignment
  rv_Disposition :: experiment_disposition

record experimentBudget =
  eb_Exposure :: uint64
  eb_Unsafe :: uint64

record ExperimentRepository =
  er_manifests :: "(string \<times> ExperimentManifest) list"
  er_epochs :: "((string \<times> uint64) \<times> string) list"
  er_assignments :: "(string \<times> Assignment) list"
  er_tenant :: "((string \<times> time) \<times> experimentBudget) list"
  er_global :: "((string \<times> time) \<times> experimentBudget) list"

definition NewExperimentRepository :: ExperimentRepository where
  "NewExperimentRepository = \<lparr>er_manifests = [], er_epochs = [], er_assignments = [], er_tenant = [], er_global = []\<rparr>"

definition experimentAssignmentKey :: "string \<Rightarrow> string \<Rightarrow> string \<Rightarrow> string" where
  "experimentAssignmentKey tenantID manifestID keyHash = tenantID @ NUL @ manifestID @ NUL @ keyHash"

definition experimentEpochKey :: "string \<Rightarrow> string \<Rightarrow> uint64 \<Rightarrow> string \<times> uint64" where
  "experimentEpochKey tenantID procedureID epoch = (tenantID @ NUL @ procedureID, epoch)"

definition experimentBudgetKey :: "string \<Rightarrow> time \<Rightarrow> string \<times> time" where
  "experimentBudgetKey scope window = (scope, window)"

definition budget_at :: "((string \<times> time) \<times> experimentBudget) list \<Rightarrow> string \<times> time \<Rightarrow> experimentBudget" where
  "budget_at budgets key = (case map_of budgets key of Some b \<Rightarrow> b | None \<Rightarrow> \<lparr>eb_Exposure = 0, eb_Unsafe = 0\<rparr>)"

definition budgeted_request :: "AssignmentRequest \<Rightarrow> time \<Rightarrow> experimentBudget \<Rightarrow> experimentBudget \<Rightarrow> AssignmentRequest" where
  "budgeted_request request window tenantBudget globalBudget =
     (let x = ar_Exposure request in request\<lparr>ar_Exposure := x
       \<lparr>sn_WindowStart := window, sn_TenantExposureCount := max (sn_TenantExposureCount x) (eb_Exposure tenantBudget),
        sn_GlobalExposureCount := max (sn_GlobalExposureCount x) (eb_Exposure globalBudget),
        sn_TenantUnsafeCount := max (sn_TenantUnsafeCount x) (eb_Unsafe tenantBudget),
        sn_GlobalUnsafeCount := max (sn_GlobalUnsafeCount x) (eb_Unsafe globalBudget)\<rparr>\<rparr>)"

definition spend :: "bool \<Rightarrow> uint64 \<Rightarrow> experimentBudget \<Rightarrow> experimentBudget" where
  "spend challenger unsafe b = \<lparr>eb_Exposure = (if challenger then eb_Exposure b + 1 else eb_Exposure b), eb_Unsafe = unsafe\<rparr>"

definition Reserve :: "externals \<Rightarrow> AssignmentRequest \<Rightarrow> ExperimentRepository \<Rightarrow> (reserve_error + Reservation) \<times> ExperimentRepository" where
  "Reserve ext request r =
     (case experiment_Assign ext request of
        Inl e \<Rightarrow> (Inl (ErrAssign e), r)
      | Inr candidate \<Rightarrow>
          let manifest = ar_Manifest request; spec = xm_Spec manifest;
              key = experimentAssignmentKey (as_TenantID candidate) (as_ManifestID candidate) (as_AssignmentKeyHash candidate)
          in case map_of (er_assignments r) key of
               Some existing \<Rightarrow>
                 (if as_QueryBucketHash existing \<noteq> as_QueryBucketHash candidate \<or> as_Risk existing \<noteq> as_Risk candidate then Inl ErrExperimentConflict
                  else Inr \<lparr>rv_Assignment = existing, rv_Disposition = DispositionDuplicate\<rparr>, r)
             | None \<Rightarrow>
                 (let epochKey = experimentEpochKey (xs_TenantID spec) (xs_ProcedureID spec) (xs_ExperimentEpoch spec)
                  in if (case map_of (er_epochs r) epochKey of None \<Rightarrow> False | Some manifestID \<Rightarrow> manifestID \<noteq> xm_ID manifest) then (Inl ErrExperimentConflict, r)
                     else let tenantKey = experimentBudgetKey (xs_TenantID spec) (as_WindowStart candidate);
                              globalKey = experimentBudgetKey ''_global'' (as_WindowStart candidate);
                              request = budgeted_request request (as_WindowStart candidate) (budget_at (er_tenant r) tenantKey) (budget_at (er_global r) globalKey)
                       in case experiment_Assign ext request of
                            Inl e \<Rightarrow> (Inl (ErrAssign e), r)
                          | Inr assignment \<Rightarrow>
                              (Inr \<lparr>rv_Assignment = assignment, rv_Disposition = DispositionReserved\<rparr>,
                               r\<lparr>er_manifests := AList.update (xm_ID manifest) manifest (er_manifests r), er_epochs := AList.update epochKey (xm_ID manifest) (er_epochs r),
                                 er_assignments := AList.update key assignment (er_assignments r),
                                 er_tenant := AList.update tenantKey
                                   (spend (as_Challenger assignment) (sn_TenantUnsafeCount (ar_Exposure request)) (budget_at (er_tenant r) tenantKey)) (er_tenant r),
                                 er_global := AList.update globalKey
                                   (spend (as_Challenger assignment) (sn_GlobalUnsafeCount (ar_Exposure request)) (budget_at (er_global r) globalKey)) (er_global r)\<rparr>)))"

definition FindAssignment :: "string \<Rightarrow> string \<Rightarrow> string \<Rightarrow> ExperimentRepository \<Rightarrow> reserve_error + Assignment" where
  "FindAssignment tenantID manifestID assignmentKeyHash r =
     (case map_of (er_assignments r) (experimentAssignmentKey tenantID manifestID assignmentKeyHash) of
        None \<Rightarrow> Inl ErrExperimentNotFound
      | Some v \<Rightarrow> Inr v)"

section \<open>What a reservation stores\<close>

text \<open>A reserved assignment is that of the request with the budgets counted in.\<close>

definition reserves :: "externals \<Rightarrow> AssignmentRequest \<Rightarrow> ExperimentRepository \<Rightarrow> string \<Rightarrow> Assignment \<Rightarrow> ExperimentRepository \<Rightarrow> bool" where
  "reserves ext request r key a r' \<longleftrightarrow>
     (let t = (xs_TenantID (xm_Spec (ar_Manifest request)), window_start request); g = (''_global'', window_start request)
      in map_of (er_assignments r) key = None \<and>
         experiment_Assign ext (budgeted_request request (window_start request) (budget_at (er_tenant r) t) (budget_at (er_global r) g)) = Inr a \<and>
         er_assignments r' = er_assignments r @ [(key, a)] \<and>
         (\<exists>u. er_tenant r' = AList.update t (spend (as_Challenger a) u (budget_at (er_tenant r) t)) (er_tenant r)) \<and>
         (\<exists>u. er_global r' = AList.update g (spend (as_Challenger a) u (budget_at (er_global r) g)) (er_global r)))"

lemma sealAssignment_keeps:
  "sealAssignment ext v = Inr a \<Longrightarrow> as_TenantID a = as_TenantID v \<and> as_ManifestID a = as_ManifestID v \<and> as_AssignmentKeyHash a = as_AssignmentKeyHash v \<and>
     as_QueryBucketHash a = as_QueryBucketHash v \<and> as_Risk a = as_Risk v \<and> as_Challenger a = as_Challenger v \<and> as_WindowStart a = as_WindowStart v"
  by (auto simp: sealAssignment_def Let_def split: sum.splits)

lemma Assign_fields:
  assumes "experiment_Assign ext r = Inr a"
  shows "as_TenantID a = xs_TenantID (xm_Spec (ar_Manifest r))" "as_WindowStart a = window_start r" "as_Challenger a \<Longrightarrow> withdrawals r = []"
    "as_QueryBucketHash a = ar_QueryBucketHash r" "as_Risk a = ar_Risk r" "as_ManifestID a = xm_ID (ar_Manifest r)"
    "\<exists>raw. MarshalAndHash ext (json_assignment_key r) = Inr (raw, as_AssignmentKeyHash a)"
  using assms sealAssignment_keeps unfolding Assign_iff unsealed_assignment_def Let_def routes_to_challenger_def by fastforce+

lemma update_absent: "map_of xs k = None \<Longrightarrow> AList.update k v xs = xs @ [(k, v)]"
  by (induction xs) (auto split: if_splits)

lemma Reserve_cases:
  obtains (same) "snd (Reserve ext request r) = r"
  | (reserved) key a where "fst (Reserve ext request r) = Inr \<lparr>rv_Assignment = a, rv_Disposition = DispositionReserved\<rparr>"
      "reserves ext request r key a (snd (Reserve ext request r))"
proof (cases "snd (Reserve ext request r) = r")
  case False
  then obtain candidate where c: "experiment_Assign ext request = Inr candidate" by (auto simp: Reserve_def split: sum.splits)
  let ?key = "experimentAssignmentKey (as_TenantID candidate) (as_ManifestID candidate) (as_AssignmentKeyHash candidate)"
  have n: "map_of (er_assignments r) ?key = None" using False c by (auto simp: Reserve_def Let_def split: option.splits)
  note w = Assign_fields(2) [OF c]
  obtain a where a: "fst (Reserve ext request r) = Inr \<lparr>rv_Assignment = a, rv_Disposition = DispositionReserved\<rparr>" "reserves ext request r ?key a (snd (Reserve ext request r))"
    using False unfolding Reserve_def reserves_def
    by (auto simp: c n w update_absent experimentBudgetKey_def Let_def split: sum.splits if_splits)
  then show ?thesis by (rule reserved)
qed (rule same)

section \<open>Budgets count the challengers\<close>

definition challengers :: "(Assignment \<Rightarrow> bool) \<Rightarrow> ExperimentRepository \<Rightarrow> nat" where
  "challengers P r = length (filter (\<lambda>(k, a). as_Challenger a \<and> P a) (er_assignments r))"

text \<open>The budgets are the numbers of reserved challengers, per tenant and window and per window.\<close>

definition counted :: "ExperimentRepository \<Rightarrow> bool" where
  "counted r \<longleftrightarrow>
     (\<forall>t w. unat (eb_Exposure (budget_at (er_tenant r) (t, w))) = challengers (\<lambda>a. as_TenantID a = t \<and> as_WindowStart a = w) r) \<and>
     (\<forall>w. unat (eb_Exposure (budget_at (er_global r) (''_global'', w))) = challengers (\<lambda>a. as_WindowStart a = w) r)"

lemma budget_at_update: "budget_at (AList.update k b bs) k' = (if k' = k then b else budget_at bs k')"
  by (simp add: budget_at_def update_conv')

lemma budgeted_simps [simp]:
  "ar_Manifest (budgeted_request q w t g) = ar_Manifest q" "ar_Risk (budgeted_request q w t g) = ar_Risk q" "ar_AssignedAt (budgeted_request q w t g) = ar_AssignedAt q"
  "ar_QueryBucketHash (budgeted_request q w t g) = ar_QueryBucketHash q" "window_start (budgeted_request q w t g) = window_start q"
  by (simp_all add: budgeted_request_def window_start_def Let_def)

lemma unat_spend:
  assumes "c \<Longrightarrow> eb_Exposure b < limit"
  shows "unat (eb_Exposure (spend c u b)) = unat (eb_Exposure b) + of_bool c"
proof (cases c)
  case True
  then have "unat (eb_Exposure b) < unat limit" using assms by (simp add: word_less_nat_alt)
  then have "unat (eb_Exposure b) + 1 < 2 ^ 64" using unsigned_less [of limit, where 'a = nat] by simp
  then have "unat (eb_Exposure b + 1) = unat (eb_Exposure b) + 1" by (simp add: unat_word_ariths)
  then show ?thesis using True by (simp add: spend_def)
qed (simp add: spend_def)

text \<open>A challenger is assigned only below the caps, in the counts that the repository keeps.\<close>

lemma reserves_below_caps:
  assumes "reserves ext q r key a r'" "as_Challenger a"
  shows "eb_Exposure (budget_at (er_tenant r) (xs_TenantID (xm_Spec (ar_Manifest q)), window_start q)) < xs_TenantExposureLimit (xm_Spec (ar_Manifest q))"
    "eb_Exposure (budget_at (er_global r) (''_global'', window_start q)) < xs_GlobalExposureLimit (xm_Spec (ar_Manifest q))"
proof -
  let ?b = "budgeted_request q (window_start q) (budget_at (er_tenant r) (xs_TenantID (xm_Spec (ar_Manifest q)), window_start q)) (budget_at (er_global r) (''_global'', window_start q))"
  have "experiment_Assign ext ?b = Inr a" using assms(1) by (simp add: reserves_def Let_def)
  from Assign_fields(3) [OF this assms(2)]
  have "sn_TenantExposureCount (ar_Exposure ?b) < xs_TenantExposureLimit (xm_Spec (ar_Manifest q))"
    "sn_GlobalExposureCount (ar_Exposure ?b) < xs_GlobalExposureLimit (xm_Spec (ar_Manifest q))" by (simp_all add: withdrawals_Nil)
  then show "eb_Exposure (budget_at (er_tenant r) (xs_TenantID (xm_Spec (ar_Manifest q)), window_start q)) < xs_TenantExposureLimit (xm_Spec (ar_Manifest q))"
    "eb_Exposure (budget_at (er_global r) (''_global'', window_start q)) < xs_GlobalExposureLimit (xm_Spec (ar_Manifest q))"
    by (simp_all add: budgeted_request_def Let_def)
qed

lemma reserves_fields:
  assumes "reserves ext q r key a r'"
  shows "as_TenantID a = xs_TenantID (xm_Spec (ar_Manifest q))" "as_WindowStart a = window_start q"
    "challengers P r' = challengers P r + of_bool (as_Challenger a \<and> P a)"
  using assms Assign_fields(1,2) by (auto simp: reserves_def challengers_def Let_def)

lemma reserves_counted:
  assumes "counted r" "reserves ext q r key a r'"
  shows "counted r'"
proof -
  let ?t = "xs_TenantID (xm_Spec (ar_Manifest q))" and ?w = "window_start q"
  obtain u v where b: "er_tenant r' = AList.update (?t, ?w) (spend (as_Challenger a) u (budget_at (er_tenant r) (?t, ?w))) (er_tenant r)"
    "er_global r' = AList.update (''_global'', ?w) (spend (as_Challenger a) v (budget_at (er_global r) (''_global'', ?w))) (er_global r)"
    using assms(2) by (auto simp: reserves_def Let_def)
  note f = reserves_fields [OF assms(2)] and caps = reserves_below_caps [OF assms(2)]
  show ?thesis using assms(1) unfolding counted_def b budget_at_update f(3)
    by (auto simp: unat_spend [OF caps(1)] unat_spend [OF caps(2)] f(1,2))
qed

definition capped :: "nat \<Rightarrow> (string \<Rightarrow> nat) \<Rightarrow> ExperimentRepository \<Rightarrow> bool" where
  "capped G L r \<longleftrightarrow> (\<forall>w. challengers (\<lambda>a. as_WindowStart a = w) r \<le> G) \<and>
     (\<forall>t w. challengers (\<lambda>a. as_TenantID a = t \<and> as_WindowStart a = w) r \<le> L t)"

lemma reserves_capped:
  assumes "counted r" "capped G L r" "reserves ext q r key a r'"
    and "unat (xs_GlobalExposureLimit (xm_Spec (ar_Manifest q))) \<le> G"
    and "unat (xs_TenantExposureLimit (xm_Spec (ar_Manifest q))) \<le> L (xs_TenantID (xm_Spec (ar_Manifest q)))"
  shows "capped G L r'"
proof -
  note f = reserves_fields [OF assms(3)]
  have "challengers (\<lambda>x. as_WindowStart x = as_WindowStart a) r < G \<and>
      challengers (\<lambda>x. as_TenantID x = as_TenantID a \<and> as_WindowStart x = as_WindowStart a) r < L (as_TenantID a)" if "as_Challenger a"
    using reserves_below_caps [OF assms(3) that] assms(1,4,5) unfolding counted_def f(1,2) word_less_nat_alt by (metis order_less_le_trans)
  then show ?thesis using assms(2) unfolding capped_def f(3) by auto
qed

section \<open>Properties\<close>

text \<open>C14: the exposure caps hold under any sequence of reservations, whatever counts the callers report. If
  no manifest permits more than \<open>G\<close> exposures over all tenants, and none of a tenant \<open>t\<close> more than
  \<open>L t\<close>, then in every window at most \<open>G\<close> challenger assignments exist, at most \<open>L t\<close> of them
  for \<open>t\<close>; and the counters of the repository are the true numbers, they never wrap around.\<close>

theorem exposure_within_caps:
  assumes "r = run_calls (Reserve ext) calls NewExperimentRepository"
    and "\<forall>q \<in> set calls. unat (xs_GlobalExposureLimit (xm_Spec (ar_Manifest q))) \<le> G \<and>
      unat (xs_TenantExposureLimit (xm_Spec (ar_Manifest q))) \<le> L (xs_TenantID (xm_Spec (ar_Manifest q)))"
  shows "capped G L r \<and> counted r"
proof -
  have "capped G L (run_calls (Reserve ext) calls s) \<and> counted (run_calls (Reserve ext) calls s)" if "capped G L s" "counted s" for s
    using assms(2) that
  proof (induction calls arbitrary: s)
    case (Cons q calls)
    have "capped G L (snd (Reserve ext q s)) \<and> counted (snd (Reserve ext q s))"
    proof (cases rule: Reserve_cases [of ext q s])
      case (reserved key a)
      then show ?thesis using reserves_capped [OF Cons.prems(3,2) reserved(2)] reserves_counted [OF Cons.prems(3) reserved(2)] Cons.prems(1) by simp
    qed (simp add: Cons.prems)
    then show ?case using Cons.IH [of "snd (Reserve ext q s)"] Cons.prems(1) by (simp add: run_calls_def)
  qed (simp add: run_calls_def)
  moreover have "capped G L NewExperimentRepository" "counted NewExperimentRepository"
    by (simp_all add: capped_def counted_def challengers_def NewExperimentRepository_def budget_at_def)
  ultimately show ?thesis unfolding assms(1) by blast
qed

lemma sample_spec: "xm_Spec (ar_Manifest (sample_assignment_request risk at)) = sample_experiment_spec"
  by (simp add: sample_assignment_request_def sample_experiment_def sample_experiment_blank_def Let_def)

theorem exposure_within_caps_witness:
  "capped 20 (\<lambda>_. 10) (run_calls (Reserve sample_externals) [sample_assignment_request XRiskLow 5000000000000, sample_assignment_request XRiskHigh 6000000000000]
     NewExperimentRepository)"
proof -
  let ?calls = "[sample_assignment_request XRiskLow 5000000000000, sample_assignment_request XRiskHigh 6000000000000]"
  have "\<forall>q \<in> set ?calls. unat (xs_GlobalExposureLimit (xm_Spec (ar_Manifest q))) \<le> 20 \<and> unat (xs_TenantExposureLimit (xm_Spec (ar_Manifest q))) \<le> 10"
    by (simp add: sample_spec sample_experiment_spec_def)
  with exposure_within_caps [OF refl, of ?calls 20 "\<lambda>_. 10" sample_externals] show ?thesis by blast
qed

definition assignment_at :: "string \<times> Assignment \<Rightarrow> ExperimentRepository \<Rightarrow> bool" where
  "assignment_at entry r \<longleftrightarrow> map_of (er_assignments r) (fst entry) = Some (snd entry)"

interpretation experiment_store: append_only "Reserve ext" assignment_at "\<lambda>_ _. True" for ext
proof (unfold_locales)
  fix e r q assume e: "assignment_at e r"
  show "assignment_at e (snd (Reserve ext q r))"
  proof (cases rule: Reserve_cases [of ext q r])
    case (reserved key a)
    then show ?thesis using e by (auto simp: assignment_at_def reserves_def map_add_def Let_def)
  qed (simp add: e)
qed

text \<open>C39: a reservation is kept for good. After an assignment was reserved, whatever is reserved in between,
  a request under the same manifest for the same query bucket that is itself valid gets this very
  assignment as a duplicate, or a conflict if its risk class is another one, at every later time,
  also past the expiry of the assignment; nothing changes, and the lookup finds the assignment.\<close>

theorem reservation_sticky:
  assumes "Reserve ext q r = (Inr \<lparr>rv_Assignment = a, rv_Disposition = DispositionReserved\<rparr>, r')" "later = run_calls (Reserve ext) calls r'"
    and "experiment_Assign ext again = Inr b" "ar_Manifest again = ar_Manifest q" "ar_QueryBucketHash again = ar_QueryBucketHash q"
  shows "Reserve ext again later =
      (if ar_Risk again = ar_Risk q then Inr \<lparr>rv_Assignment = a, rv_Disposition = DispositionDuplicate\<rparr> else Inl ErrExperimentConflict, later) \<and>
    FindAssignment (as_TenantID a) (as_ManifestID a) (as_AssignmentKeyHash a) later = Inr a"
proof -
  obtain candidate where c: "experiment_Assign ext q = Inr candidate" using assms(1) by (auto simp: Reserve_def split: sum.splits)
  obtain t g where a: "experiment_Assign ext (budgeted_request q (as_WindowStart candidate) t g) = Inr a"
      "map_of (er_assignments r') (experimentAssignmentKey (as_TenantID candidate) (as_ManifestID candidate) (as_AssignmentKeyHash candidate)) = Some a"
    using assms(1) unfolding Reserve_def by (auto simp: c Let_def update_conv' split: sum.splits option.splits if_splits)
  have json: "json_assignment_key (budgeted_request q w t g) = json_assignment_key q" "json_assignment_key again = json_assignment_key q" for w t g
    using assms(4,5) by (simp_all add: json_assignment_key_def)
  have same: "as_TenantID x = as_TenantID candidate \<and> as_ManifestID x = as_ManifestID candidate \<and> as_AssignmentKeyHash x = as_AssignmentKeyHash candidate \<and>
      as_QueryBucketHash x = ar_QueryBucketHash q \<and> as_Risk x = ar_Risk p" if "experiment_Assign ext p = Inr x" "json_assignment_key p = json_assignment_key q"
        "ar_Manifest p = ar_Manifest q" "ar_QueryBucketHash p = ar_QueryBucketHash q" for p x
    using Assign_fields [OF that(1)] Assign_fields [OF c] that(2-4) by auto
  have "assignment_at (experimentAssignmentKey (as_TenantID candidate) (as_ManifestID candidate) (as_AssignmentKeyHash candidate), a) later"
    unfolding assms(2) by (rule experiment_store.run_keeps) (simp_all add: assignment_at_def a(2))
  then have at: "map_of (er_assignments later) (experimentAssignmentKey (as_TenantID candidate) (as_ManifestID candidate) (as_AssignmentKeyHash candidate)) = Some a"
    by (simp add: assignment_at_def)
  note sa = same [OF a(1) json(1) budgeted_simps(1,4)] and sb = same [OF assms(3) json(2) assms(4,5)]
  have "Reserve ext again later =
      (if ar_Risk again = ar_Risk q then Inr \<lparr>rv_Assignment = a, rv_Disposition = DispositionDuplicate\<rparr> else Inl ErrExperimentConflict, later)"
    using sa sb at by (auto simp: Reserve_def assms(3) Let_def)
  then show ?thesis using sa at by (simp add: FindAssignment_def)
qed

theorem reservation_sticky_witness:
  "\<exists>a r. Reserve sample_externals (sample_assignment_request XRiskLow 5000000000000) NewExperimentRepository = (Inr \<lparr>rv_Assignment = a, rv_Disposition = DispositionReserved\<rparr>, r) \<and>
     Reserve sample_externals (sample_assignment_request XRiskHigh 6000000000000) r = (Inl ErrExperimentConflict, r)"
proof -
  let ?q = "sample_assignment_request XRiskLow 5000000000000" and ?q2 = "sample_assignment_request XRiskHigh 6000000000000"
  let ?b = "budgeted_request ?q (window_start ?q) \<lparr>eb_Exposure = 0, eb_Unsafe = 0\<rparr> \<lparr>eb_Exposure = 0, eb_Unsafe = 0\<rparr>"
  obtain c where c: "experiment_Assign sample_externals ?q = Inr c" by (rule sample_assignment [of XRiskLow 5000000000000]) simp_all
  obtain b where b: "experiment_Assign sample_externals ?q2 = Inr b" by (rule sample_assignment [of XRiskHigh 6000000000000]) simp_all
  have "accepted_assignment sample_externals ?b" using c unfolding Assign_iff by (simp add: accepted_assignment_def window_end_def)
  then obtain a where a: "experiment_Assign sample_externals ?b = Inr a"
    using digest32_sample by (auto simp: Assign_iff MarshalAndHash_sample assignment_seal.seal_unfold digest32_def)
  have "\<exists>r. Reserve sample_externals ?q NewExperimentRepository = (Inr \<lparr>rv_Assignment = a, rv_Disposition = DispositionReserved\<rparr>, r)"
    using a by (simp add: Reserve_def c Assign_fields(2) [OF c] NewExperimentRepository_def budget_at_def Let_def)
  then obtain r where r: "Reserve sample_externals ?q NewExperimentRepository = (Inr \<lparr>rv_Assignment = a, rv_Disposition = DispositionReserved\<rparr>, r)" by blast
  have "r = run_calls (Reserve sample_externals) [] r" by (simp add: run_calls_def)
  from reservation_sticky [OF r this b] r show ?thesis by (auto simp: sample_assignment_request_def)
qed

end
