(* ===== verification/Interfaces.thy ===== *)
theory Interfaces
  imports Domain
begin

text \<open>
  The part of \<^verbatim>\<open>internal/retrieval/document.go\<close> that the planner relies on: the interface of a
  procedure, a list of resource requirements and a list of provisions, each with an identifier
  derived from its content. \<^verbatim>\<open>NewProcedureInterface\<close> normalises and identifies them,
  \<^verbatim>\<open>ValidateProcedureInterface\<close> checks every identifier, the order and the hash again.
\<close>

datatype document_error = ErrInvalidDocument | ErrDocumentEncoding canonical_error

definition json_requirement :: "ProcedureRequirement \<Rightarrow> json" where
  "json_requirement r = JObj
     (omit_str ''id'' (rq_ID r) @
      [(''resource_type'', JStr (rq_ResourceType r)), (''namespace'', JStr (rq_Namespace r)),
       (''identity_hash'', JStr (rq_IdentityHash r))] @
      omit_str ''schema_version'' (rq_SchemaVersion r) @ [(''access_mode'', JStr (rq_AccessMode r))] @
      omit_strs ''predicate_ids'' (rq_PredicateIDs r))"

definition json_provision :: "ProcedureProvision \<Rightarrow> json" where
  "json_provision p = JObj
     (omit_str ''id'' (pv_ID p) @
      [(''resource_type'', JStr (pv_ResourceType p)), (''namespace'', JStr (pv_Namespace p)),
       (''identity_hash'', JStr (pv_IdentityHash p))] @
      omit_str ''schema_version'' (pv_SchemaVersion p) @ omit_strs ''produced_effects'' (pv_ProducedEffects p) @
      omit_strs ''success_predicate_ids'' (pv_SuccessPredicateIDs p))"

definition json_interface :: "ProcedureInterface \<Rightarrow> json" where
  "json_interface i = JObj
     ([(''schema_version'', JStr (pi_SchemaVersion i))] @ omit_str ''id'' (pi_ID i) @
      omit_list ''requirements'' json_requirement (pi_Requirements i) @
      omit_list ''provisions'' json_provision (pi_Provisions i) @
      omit_str ''content_hash'' (pi_ContentHash i))"

text \<open>\<^verbatim>\<open>token\<close> of the package is \<^verbatim>\<open>norm.NFC.String(strings.TrimSpace(v))\<close>, as in \<open>normalizeToken\<close>.\<close>

definition strictDocumentStrings :: "externals \<Rightarrow> string list \<Rightarrow> bool" where
  "strictDocumentStrings ext values \<longleftrightarrow>
     list_all (\<lambda>v. normalizeToken ext v \<noteq> [] \<and> normalizeToken ext v = v) values \<and> strictly_sorted values"

definition normalizeSet :: "externals \<Rightarrow> string list \<Rightarrow> string list option" where
  "normalizeSet ext source =
     (let values = map (normalizeToken ext) source
      in if list_all (\<lambda>v. v \<noteq> []) values then Some (sorted_keys values) else None)"

definition requirement_key :: "ProcedureRequirement \<Rightarrow> string" where
  "requirement_key r = rq_ResourceType r @ NUL @ rq_Namespace r @ NUL @ rq_IdentityHash r @ NUL @
     rq_SchemaVersion r @ NUL @ rq_AccessMode r"

definition provision_key :: "ProcedureProvision \<Rightarrow> string" where
  "provision_key p = pv_ResourceType p @ NUL @ pv_Namespace p @ NUL @ pv_IdentityHash p @ NUL @ pv_SchemaVersion p"

text \<open>An identifier is a prefix before the hash of the record without the identifier.\<close>

definition identified :: "externals \<Rightarrow> string \<Rightarrow> json \<Rightarrow> string \<Rightarrow> bool" where
  "identified ext prefix v ident =
     (case MarshalAndHash ext v of Inl _ \<Rightarrow> False | Inr (_, hash) \<Rightarrow> ident = prefix @ hash)"

definition valid_requirement :: "externals \<Rightarrow> ProcedureRequirement \<Rightarrow> bool" where
  "valid_requirement ext r \<longleftrightarrow>
     identified ext ''req_'' (json_requirement (r\<lparr>rq_ID := []\<rparr>)) (rq_ID r) \<and> rq_ResourceType r \<noteq> [] \<and>
     rq_Namespace r \<noteq> [] \<and> hashPattern (rq_IdentityHash r) \<and> rq_AccessMode r = ''read'' \<and>
     strictDocumentStrings ext (rq_PredicateIDs r)"

definition valid_provision :: "externals \<Rightarrow> ProcedureProvision \<Rightarrow> bool" where
  "valid_provision ext p \<longleftrightarrow>
     identified ext ''prov_'' (json_provision (p\<lparr>pv_ID := []\<rparr>)) (pv_ID p) \<and> pv_ResourceType p \<noteq> [] \<and>
     pv_Namespace p \<noteq> [] \<and> hashPattern (pv_IdentityHash p) \<and>
     strictDocumentStrings ext (pv_ProducedEffects p) \<and> strictDocumentStrings ext (pv_SuccessPredicateIDs p)"

definition ValidateProcedureInterface :: "externals \<Rightarrow> ProcedureInterface \<Rightarrow> bool" where
  "ValidateProcedureInterface ext v \<longleftrightarrow>
     pi_SchemaVersion v = ''procedure-interface.v1'' \<and> pi_ID v \<noteq> [] \<and> hashPattern (pi_ContentHash v) \<and>
     pi_ID v = ''pif_'' @ pi_ContentHash v \<and>
     list_all (valid_requirement ext) (pi_Requirements v) \<and> distinct (map requirement_key (pi_Requirements v)) \<and>
     strictly_sorted (map rq_ID (pi_Requirements v)) \<and>
     list_all (valid_provision ext) (pi_Provisions v) \<and> distinct (map provision_key (pi_Provisions v)) \<and>
     strictly_sorted (map pv_ID (pi_Provisions v)) \<and>
     identified ext [] (json_interface (v\<lparr>pi_ID := [], pi_ContentHash := []\<rparr>)) (pi_ContentHash v)"

definition new_requirement :: "externals \<Rightarrow> ProcedureRequirement \<Rightarrow> document_error + ProcedureRequirement" where
  "new_requirement ext source =
     (let v = source\<lparr>rq_ID := [], rq_ResourceType := normalizeToken ext (rq_ResourceType source),
            rq_Namespace := normalizeToken ext (rq_Namespace source),
            rq_IdentityHash := normalizeToken ext (rq_IdentityHash source),
            rq_SchemaVersion := normalizeToken ext (rq_SchemaVersion source),
            rq_AccessMode := normalizeToken ext (rq_AccessMode source)\<rparr>
      in case normalizeSet ext (rq_PredicateIDs source) of
           None \<Rightarrow> Inl ErrInvalidDocument
         | Some predicates \<Rightarrow>
             let v = v\<lparr>rq_PredicateIDs := predicates\<rparr>
             in if rq_ResourceType v = [] \<or> rq_Namespace v = [] \<or> \<not> hashPattern (rq_IdentityHash v) \<or> rq_AccessMode v \<noteq> ''read''
                then Inl ErrInvalidDocument else Inr v)"

definition new_provision :: "externals \<Rightarrow> ProcedureProvision \<Rightarrow> document_error + ProcedureProvision" where
  "new_provision ext source =
     (let v = source\<lparr>pv_ID := [], pv_ResourceType := normalizeToken ext (pv_ResourceType source),
            pv_Namespace := normalizeToken ext (pv_Namespace source),
            pv_IdentityHash := normalizeToken ext (pv_IdentityHash source),
            pv_SchemaVersion := normalizeToken ext (pv_SchemaVersion source)\<rparr>
      in case (normalizeSet ext (pv_ProducedEffects source), normalizeSet ext (pv_SuccessPredicateIDs source)) of
           (Some effects, Some predicates) \<Rightarrow>
             let v = v\<lparr>pv_ProducedEffects := effects, pv_SuccessPredicateIDs := predicates\<rparr>
             in if pv_ResourceType v = [] \<or> pv_Namespace v = [] \<or> \<not> hashPattern (pv_IdentityHash v)
                then Inl ErrInvalidDocument else Inr v
         | _ \<Rightarrow> Inl ErrInvalidDocument)"

fun new_requirements ::
  "externals \<Rightarrow> string list \<Rightarrow> ProcedureRequirement list \<Rightarrow> document_error + ProcedureRequirement list" where
  "new_requirements ext seen [] = Inr []"
| "new_requirements ext seen (source # rest) =
     res_bind (new_requirement ext source) (\<lambda>v.
       if requirement_key v \<in> set seen then Inl ErrInvalidDocument
       else case MarshalAndHash ext (json_requirement v) of
         Inl e \<Rightarrow> Inl (ErrDocumentEncoding e)
       | Inr (_, hash) \<Rightarrow>
           res_bind (new_requirements ext (requirement_key v # seen) rest) (\<lambda>vs. Inr (v\<lparr>rq_ID := ''req_'' @ hash\<rparr> # vs)))"

fun new_provisions ::
  "externals \<Rightarrow> string list \<Rightarrow> ProcedureProvision list \<Rightarrow> document_error + ProcedureProvision list" where
  "new_provisions ext seen [] = Inr []"
| "new_provisions ext seen (source # rest) =
     res_bind (new_provision ext source) (\<lambda>v.
       if provision_key v \<in> set seen then Inl ErrInvalidDocument
       else case MarshalAndHash ext (json_provision v) of
         Inl e \<Rightarrow> Inl (ErrDocumentEncoding e)
       | Inr (_, hash) \<Rightarrow>
           res_bind (new_provisions ext (provision_key v # seen) rest) (\<lambda>vs. Inr (v\<lparr>pv_ID := ''prov_'' @ hash\<rparr> # vs)))"

definition requirement_less :: "ProcedureRequirement \<Rightarrow> ProcedureRequirement \<Rightarrow> bool" where
  "requirement_less a b \<longleftrightarrow> rq_ID a < rq_ID b"

definition provision_less :: "ProcedureProvision \<Rightarrow> ProcedureProvision \<Rightarrow> bool" where
  "provision_less a b \<longleftrightarrow> pv_ID a < pv_ID b"

definition NewProcedureInterface ::
  "externals \<Rightarrow> ProcedureRequirement list \<Rightarrow> ProcedureProvision list \<Rightarrow> document_error + ProcedureInterface" where
  "NewProcedureInterface ext requirements provisions =
     res_bind (new_requirements ext [] requirements) (\<lambda>rs.
     res_bind (new_provisions ext [] provisions) (\<lambda>ps.
     let result = \<lparr>pi_SchemaVersion = ''procedure-interface.v1'', pi_ID = [],
           pi_Requirements = sort_slice requirement_less rs, pi_Provisions = sort_slice provision_less ps, pi_ContentHash = []\<rparr>
     in case MarshalAndHash ext (json_interface result) of
          Inl e \<Rightarrow> Inl (ErrDocumentEncoding e)
        | Inr (_, hash) \<Rightarrow> Inr (result\<lparr>pi_ID := ''pif_'' @ hash, pi_ContentHash := hash\<rparr>)))"

section \<open>Round trip\<close>

interpretation requirement_order: keyed_order requirement_less rq_ID
  by unfold_locales (simp add: requirement_less_def)

interpretation provision_order: keyed_order provision_less pv_ID
  by unfold_locales (simp add: provision_less_def)

text \<open>What the code relies on: the normalisation form is stable, and keeps a trimmed text trimmed.\<close>

definition stable_tokens :: "externals \<Rightarrow> bool" where
  "stable_tokens ext \<longleftrightarrow> (\<forall>v. normalizeToken ext (normalizeToken ext v) = normalizeToken ext v)"

lemma stable_tokens_sample: "stable_tokens sample_externals"
  by (simp add: stable_tokens_def normalizeToken_def norm_NFC_sample)

lemma normalizeSet_strict:
  assumes "stable_tokens ext" "normalizeSet ext source = Some vs"
  shows "strictDocumentStrings ext vs"
  using assms by (auto simp: normalizeSet_def strictDocumentStrings_def stable_tokens_def list_all_iff Let_def split: if_splits)

lemma new_requirements_valid:
  assumes "stable_tokens ext" "new_requirements ext seen rs = Inr vs"
  shows "list_all (valid_requirement ext) vs \<and> distinct (map requirement_key vs) \<and> set (map requirement_key vs) \<inter> set seen = {}"
  using assms(2)
proof (induction rs arbitrary: seen vs)
  case (Cons r rs)
  from Cons.prems obtain v c h ws where v: "new_requirement ext r = Inr v" "requirement_key v \<notin> set seen"
    "MarshalAndHash ext (json_requirement v) = Inr (c, h)" "new_requirements ext (requirement_key v # seen) rs = Inr ws"
    "vs = v\<lparr>rq_ID := ''req_'' @ h\<rparr> # ws"
    by (auto split: if_split_asm sum.split_asm)
  have "rq_ID v = []" "rq_ResourceType v \<noteq> []" "rq_Namespace v \<noteq> []" "hashPattern (rq_IdentityHash v)" "rq_AccessMode v = ''read''"
    "strictDocumentStrings ext (rq_PredicateIDs v)"
    using v(1) by (auto simp: new_requirement_def Let_def normalizeSet_strict [OF assms(1)] split: option.splits if_splits)
  moreover have "requirement_key (v\<lparr>rq_ID := ''req_'' @ h\<rparr>) = requirement_key v" by (simp add: requirement_key_def)
  ultimately show ?case using Cons.IH [OF v(4)] v
    by (cases v) (auto simp: valid_requirement_def identified_def)
qed simp

lemma new_provisions_valid:
  assumes "stable_tokens ext" "new_provisions ext seen ps = Inr vs"
  shows "list_all (valid_provision ext) vs \<and> distinct (map provision_key vs) \<and> set (map provision_key vs) \<inter> set seen = {}"
  using assms(2)
proof (induction ps arbitrary: seen vs)
  case (Cons p ps)
  from Cons.prems obtain v c h ws where v: "new_provision ext p = Inr v" "provision_key v \<notin> set seen"
    "MarshalAndHash ext (json_provision v) = Inr (c, h)" "new_provisions ext (provision_key v # seen) ps = Inr ws"
    "vs = v\<lparr>pv_ID := ''prov_'' @ h\<rparr> # ws"
    by (auto split: if_split_asm sum.split_asm)
  have "pv_ID v = []" "pv_ResourceType v \<noteq> []" "pv_Namespace v \<noteq> []" "hashPattern (pv_IdentityHash v)"
    "strictDocumentStrings ext (pv_ProducedEffects v)" "strictDocumentStrings ext (pv_SuccessPredicateIDs v)"
    using v(1) by (auto simp: new_provision_def Let_def normalizeSet_strict [OF assms(1)] split: option.splits if_splits)
  moreover have "provision_key (v\<lparr>pv_ID := ''prov_'' @ h\<rparr>) = provision_key v" by (simp add: provision_key_def)
  ultimately show ?case using Cons.IH [OF v(4)] v
    by (cases v) (auto simp: valid_provision_def identified_def)
qed simp

lemma new_interface_valid:
  assumes "digest32 ext" "stable_tokens ext" "NewProcedureInterface ext rs ps = Inr i"
    and "distinct (map rq_ID (pi_Requirements i))" "distinct (map pv_ID (pi_Provisions i))"
  shows "ValidateProcedureInterface ext i"
proof -
  obtain vs ws where n: "new_requirements ext [] rs = Inr vs" "new_provisions ext [] ps = Inr ws"
    using assms(3) unfolding NewProcedureInterface_def res_bind_eq_Inr by blast
  let ?b = "\<lparr>pi_SchemaVersion = ''procedure-interface.v1'', pi_ID = [],
       pi_Requirements = sort_slice requirement_less vs, pi_Provisions = sort_slice provision_less ws, pi_ContentHash = []\<rparr>"
  obtain c h where i: "new_requirements ext [] rs = Inr vs" "new_provisions ext [] ps = Inr ws"
    "MarshalAndHash ext (json_interface ?b) = Inr (c, h)" "i = ?b\<lparr>pi_ID := ''pif_'' @ h, pi_ContentHash := h\<rparr>"
    using assms(3) n by (cases "MarshalAndHash ext (json_interface ?b)") (auto simp: NewProcedureInterface_def Let_def)
  note r = new_requirements_valid [OF assms(2) i(1)] and p = new_provisions_valid [OF assms(2) i(2)]
  have "distinct (map rq_ID vs)" "distinct (map pv_ID ws)" using assms(4,5) i(4) by simp_all
  then have "strictly_sorted (map rq_ID (sort_slice requirement_less vs))" "strictly_sorted (map pv_ID (sort_slice provision_less ws))"
    by (simp_all add: requirement_order.keys_strictly_sorted provision_order.keys_strictly_sorted)
  then show ?thesis
    using r p i(3) MarshalAndHash_pattern [OF assms(1) i(3)]
    by (auto simp: i(4) ValidateProcedureInterface_def identified_def list_all_iff)
qed

section \<open>Properties\<close>

text \<open>An interface that \<^verbatim>\<open>NewProcedureInterface\<close> builds is accepted by
  \<^verbatim>\<open>ValidateProcedureInterface\<close>: every requirement and provision identifier, the strict order, the
  uniqueness of the keys and the hash are as the validator derives them. The digest has 32 bytes,
  tokens are stable, and the identifiers in this interface do not collide.\<close>

theorem interface_roundtrip:
  assumes "digest32 ext" "stable_tokens ext" "NewProcedureInterface ext rs ps = Inr i"
    and "distinct (map rq_ID (pi_Requirements i))" "distinct (map pv_ID (pi_Provisions i))"
  shows "ValidateProcedureInterface ext i"
  using assms by (rule new_interface_valid)

theorem interface_roundtrip_witness:
  "\<exists>i. NewProcedureInterface sample_externals [] [] = Inr i \<and> ValidateProcedureInterface sample_externals i"
proof -
  obtain i where i: "NewProcedureInterface sample_externals [] [] = Inr i" "pi_Requirements i = []" "pi_Provisions i = []"
    by (simp add: NewProcedureInterface_def MarshalAndHash_sample Let_def)
  from interface_roundtrip [OF digest32_sample stable_tokens_sample i(1)] i show ?thesis by simp
qed

end
