(* ===== verification/Compatibility.thy ===== *)
theory Compatibility
  imports Interfaces Sealing
begin

text \<open>
  \<^verbatim>\<open>internal/composition\<close>, \<^verbatim>\<open>contract.go\<close> and \<^verbatim>\<open>compatibility.go\<close>: the matrix of explicitly
  compatible schemas and the graph of compatible procedure versions. An edge says that the source
  version provides a resource that the target version requires. The context of the calls is
  one that is never cancelled.
\<close>

datatype composition_error =
    ErrInvalidCompatibilityInput
  | ErrCompositionEncoding canonical_error
  | ErrInvalidPlanRequest
  | ErrInvalidParallelRequest
  | errCycle
  | errPlanLimit
  | errWorkLimit

definition MarshalAndHash_c :: "externals \<Rightarrow> json \<Rightarrow> composition_error + string \<times> string" where
  "MarshalAndHash_c ext v = (case MarshalAndHash ext v of Inl e \<Rightarrow> Inl (ErrCompositionEncoding e) | Inr r \<Rightarrow> Inr r)"

lemma MarshalAndHash_c_Inr [simp]: "MarshalAndHash_c ext v = Inr r \<longleftrightarrow> MarshalAndHash ext v = Inr r"
  by (auto simp: MarshalAndHash_c_def split: sum.splits)

section \<open>Identifiers\<close>

definition safeIdentity :: "string \<Rightarrow> bool" where
  "safeIdentity v \<longleftrightarrow> v \<noteq> [] \<and> length v \<le> 1024 \<and> \<not> contains_nul v"

definition strictSorted :: "string list \<Rightarrow> bool" where
  "strictSorted values \<longleftrightarrow> [] \<notin> set values \<and> strictly_sorted values"

definition strictPrefixed :: "string list \<Rightarrow> string \<Rightarrow> bool" where
  "strictPrefixed values prefix \<longleftrightarrow> strictSorted values \<and>
     list_all (\<lambda>v. length v = length prefix + 64 \<and> take (length prefix) v = prefix \<and>
                   hashPattern (drop (length prefix) v)) values"

definition normalizedIDs :: "string list \<Rightarrow> bool \<Rightarrow> string list option" where
  "normalizedIDs source allowEmpty =
     (let trimmed = map TrimSpace source
      in if \<not> list_all (\<lambda>v. \<not> (length v > 1024 \<or> \<not> safeIdentity v)) trimmed then None
         else let result = sort_slice (<) trimmed
              in if \<not> distinct result then None
                 else if allowEmpty \<or> result \<noteq> [] then Some result else None)"

section \<open>The matrix of compatible schemas\<close>

record SchemaCompatibility =
  sc_ResourceType :: string
  sc_Namespace :: string
  sc_ProvidedSchema :: string
  sc_RequiredSchema :: string

record CompatibilityLimits =
  cl_MaximumCandidates :: uint32
  cl_MaximumInterfaceEntries :: uint32
  cl_MaximumTotalInterfaceEntries :: uint32
  cl_MaximumProvidersPerResource :: uint32
  cl_MaximumEdges :: uint32
  cl_MaximumMatchComparisons :: uint64

record CompatibilityMatrix =
  cm_SchemaVersion :: string
  cm_ID :: string
  cm_Rules :: "SchemaCompatibility list"
  cm_Limits :: CompatibilityLimits
  cm_ContentHash :: string
  cm_CanonicalJSON :: string

definition json_rule :: "SchemaCompatibility \<Rightarrow> json" where
  "json_rule r = JObj
     [(''resource_type'', JStr (sc_ResourceType r)), (''namespace'', JStr (sc_Namespace r)),
      (''provided_schema'', JStr (sc_ProvidedSchema r)), (''required_schema'', JStr (sc_RequiredSchema r))]"

definition json_limits :: "CompatibilityLimits \<Rightarrow> json" where
  "json_limits l = JObj
     [(''maximum_candidates'', JNum (uint (cl_MaximumCandidates l))),
      (''maximum_interface_entries'', JNum (uint (cl_MaximumInterfaceEntries l))),
      (''maximum_total_interface_entries'', JNum (uint (cl_MaximumTotalInterfaceEntries l))),
      (''maximum_providers_per_resource'', JNum (uint (cl_MaximumProvidersPerResource l))),
      (''maximum_edges'', JNum (uint (cl_MaximumEdges l))),
      (''maximum_match_comparisons'', JNum (uint (cl_MaximumMatchComparisons l)))]"

definition json_matrix :: "CompatibilityMatrix \<Rightarrow> json" where
  "json_matrix m = JObj
     ([(''schema_version'', JStr (cm_SchemaVersion m))] @ omit_str ''id'' (cm_ID m) @
      omit_list ''rules'' json_rule (cm_Rules m) @ [(''limits'', json_limits (cm_Limits m))] @
      omit_str ''content_hash'' (cm_ContentHash m))"

fun compare_fields :: "(string \<times> string) list \<Rightarrow> int" where
  "compare_fields [] = 0"
| "compare_fields ((l, r) # rest) = (if l < r then -1 else if l > r then 1 else compare_fields rest)"

definition compareCompatibility :: "SchemaCompatibility \<Rightarrow> SchemaCompatibility \<Rightarrow> int" where
  "compareCompatibility l r = compare_fields
     [(sc_ResourceType l, sc_ResourceType r), (sc_Namespace l, sc_Namespace r),
      (sc_ProvidedSchema l, sc_ProvidedSchema r), (sc_RequiredSchema l, sc_RequiredSchema r)]"

definition rule_less :: "SchemaCompatibility \<Rightarrow> SchemaCompatibility \<Rightarrow> bool" where
  "rule_less a b \<longleftrightarrow> compareCompatibility a b < 0"

fun adjacent_equal :: "SchemaCompatibility list \<Rightarrow> bool" where
  "adjacent_equal (a # b # rest) = (compareCompatibility a b = 0 \<or> adjacent_equal (b # rest))"
| "adjacent_equal _ = False"

definition trim_rule :: "SchemaCompatibility \<Rightarrow> SchemaCompatibility" where
  "trim_rule r = \<lparr>sc_ResourceType = TrimSpace (sc_ResourceType r), sc_Namespace = TrimSpace (sc_Namespace r),
     sc_ProvidedSchema = TrimSpace (sc_ProvidedSchema r), sc_RequiredSchema = TrimSpace (sc_RequiredSchema r)\<rparr>"

definition bad_rule :: "SchemaCompatibility \<Rightarrow> bool" where
  "bad_rule r \<longleftrightarrow>
     sc_ResourceType r = [] \<or> sc_Namespace r = [] \<or> sc_ProvidedSchema r = [] \<or> sc_RequiredSchema r = [] \<or>
     CHR ''*'' \<in> set (sc_ResourceType r @ sc_Namespace r @ sc_ProvidedSchema r @ sc_RequiredSchema r) \<or>
     contains_nul (sc_ResourceType r) \<or> contains_nul (sc_Namespace r) \<or> contains_nul (sc_ProvidedSchema r) \<or>
     contains_nul (sc_RequiredSchema r)"

definition normalizeCompatibility ::
  "externals \<Rightarrow> SchemaCompatibility list \<Rightarrow> composition_error + SchemaCompatibility list \<times> string" where
  "normalizeCompatibility ext source =
     (if length source > 4096 then Inl ErrInvalidCompatibilityInput
      else let trimmed = map trim_rule source
      in if list_ex bad_rule trimmed then Inl ErrInvalidCompatibilityInput
         else let rules = sort_slice rule_less trimmed
         in if adjacent_equal rules then Inl ErrInvalidCompatibilityInput
            else res_bind (MarshalAndHash_c ext (JArr (map json_rule rules))) (\<lambda>(_, hash). Inr (rules, hash)))"

definition validCompatibilityLimits :: "CompatibilityLimits \<Rightarrow> bool" where
  "validCompatibilityLimits v \<longleftrightarrow>
     cl_MaximumCandidates v > 0 \<and> cl_MaximumCandidates v \<le> 10000 \<and>
     cl_MaximumInterfaceEntries v > 0 \<and> cl_MaximumInterfaceEntries v \<le> 1024 \<and>
     cl_MaximumTotalInterfaceEntries v > 0 \<and> cl_MaximumTotalInterfaceEntries v \<le> 1000000 \<and>
     cl_MaximumProvidersPerResource v > 0 \<and> cl_MaximumProvidersPerResource v \<le> 1024 \<and>
     cl_MaximumEdges v > 0 \<and> cl_MaximumEdges v \<le> 100000 \<and>
     cl_MaximumMatchComparisons v > 0 \<and> cl_MaximumMatchComparisons v \<le> 10000000"

definition BuildCompatibilityMatrixWithLimits ::
  "externals \<Rightarrow> SchemaCompatibility list \<Rightarrow> CompatibilityLimits \<Rightarrow> composition_error + CompatibilityMatrix" where
  "BuildCompatibilityMatrixWithLimits ext source limits =
     (if \<not> validCompatibilityLimits limits then Inl ErrInvalidCompatibilityInput
      else res_bind (normalizeCompatibility ext source) (\<lambda>(rules, _).
        let matrix = \<lparr>cm_SchemaVersion = ''compatibility-matrix.v1'', cm_ID = [], cm_Rules = rules, cm_Limits = limits,
              cm_ContentHash = [], cm_CanonicalJSON = []\<rparr>
        in res_bind (MarshalAndHash_c ext (json_matrix matrix)) (\<lambda>(canonicalJSON, hash).
           Inr (matrix\<lparr>cm_ID := ''cmat_'' @ hash, cm_ContentHash := hash, cm_CanonicalJSON := canonicalJSON\<rparr>))))"

definition defaultCompatibilityLimits :: CompatibilityLimits where
  "defaultCompatibilityLimits =
     \<lparr>cl_MaximumCandidates = 512, cl_MaximumInterfaceEntries = 128, cl_MaximumTotalInterfaceEntries = 16384,
      cl_MaximumProvidersPerResource = 128, cl_MaximumEdges = 65536, cl_MaximumMatchComparisons = 1000000\<rparr>"

definition BuildCompatibilityMatrix :: "externals \<Rightarrow> SchemaCompatibility list \<Rightarrow> composition_error + CompatibilityMatrix" where
  "BuildCompatibilityMatrix ext source = BuildCompatibilityMatrixWithLimits ext source defaultCompatibilityLimits"

definition ValidateCompatibilityMatrix :: "externals \<Rightarrow> CompatibilityMatrix \<Rightarrow> bool" where
  "ValidateCompatibilityMatrix ext m \<longleftrightarrow>
     cm_SchemaVersion m = ''compatibility-matrix.v1'' \<and> cm_ID m = ''cmat_'' @ cm_ContentHash m \<and>
     hashPattern (cm_ContentHash m) \<and>
     MarshalAndHash ext (json_matrix (m\<lparr>cm_ID := [], cm_ContentHash := [], cm_CanonicalJSON := []\<rparr>)) =
       Inr (cm_CanonicalJSON m, cm_ContentHash m) \<and>
     (case normalizeCompatibility ext (cm_Rules m) of
        Inl _ \<Rightarrow> False
      | Inr (normalized, normalizedHash) \<Rightarrow> normalizedHash \<noteq> [] \<and> normalized = cm_Rules m) \<and>
     validCompatibilityLimits (cm_Limits m)"

text \<open>\<^verbatim>\<open>sort.Search\<close>: the binary search for the first index at which a test holds.\<close>

function search_between :: "(nat \<Rightarrow> bool) \<Rightarrow> nat \<Rightarrow> nat \<Rightarrow> nat" where
  "search_between f i j =
     (if i < j then let h = (i + j) div 2 in if \<not> f h then search_between f (h + 1) j else search_between f i h
      else i)"
  by pat_completeness auto
termination by (relation "measure (\<lambda>(f, i, j). j - i)") auto

declare search_between.simps [simp del]

definition sort_Search :: "nat \<Rightarrow> (nat \<Rightarrow> bool) \<Rightarrow> nat" where
  "sort_Search n f = search_between f 0 n"

definition explicitlyCompatible ::
  "ProcedureProvision \<Rightarrow> ProcedureRequirement \<Rightarrow> SchemaCompatibility list \<Rightarrow> bool" where
  "explicitlyCompatible provision requirement rules =
     (let key = \<lparr>sc_ResourceType = pv_ResourceType provision, sc_Namespace = pv_Namespace provision,
            sc_ProvidedSchema = pv_SchemaVersion provision, sc_RequiredSchema = rq_SchemaVersion requirement\<rparr>;
          index = sort_Search (length rules) (\<lambda>i. compareCompatibility (rules ! i) key \<ge> 0)
      in index < length rules \<and> compareCompatibility (rules ! index) key = 0)"

text \<open>The index into the sorted list of provided predicates only moves forward.\<close>

fun predicateGuaranteesCover :: "string list \<Rightarrow> string list \<Rightarrow> bool" where
  "predicateGuaranteesCover provided [] = True"
| "predicateGuaranteesCover provided (predicate # required) =
     (let rest = dropWhile (\<lambda>p. p < predicate) provided
      in if rest = [] \<or> hd rest \<noteq> predicate then False else predicateGuaranteesCover rest required)"

section \<open>Candidates\<close>

record ParallelismFacts =
  pf_ReadResourceIDs :: "string list"
  pf_WriteResourceIDs :: "string list"
  pf_ExclusiveResourceIDs :: "string list"
  pf_PolicyMutexKeys :: "string list"
  pf_CompensationBoundary :: bool
  pf_PolicySerial :: bool

record PlanningFacts =
  fa_ProcedureVersionID :: string
  fa_InterfaceHash :: string
  fa_Lifecycle :: string
  fa_PolicyManifestID :: string
  fa_GoalPredicateIDs :: "string list"
  fa_Parallelism :: ParallelismFacts
  fa_EvidenceStrength :: int64
  fa_ObservedEndToEnd :: bool
  fa_RiskCost :: uint32
  fa_ToolCost :: uint32

definition json_parallelism :: "ParallelismFacts \<Rightarrow> json" where
  "json_parallelism p = JObj
     (omit_strs ''read_resource_ids'' (pf_ReadResourceIDs p) @ omit_strs ''write_resource_ids'' (pf_WriteResourceIDs p) @
      omit_strs ''exclusive_resource_ids'' (pf_ExclusiveResourceIDs p) @ omit_strs ''policy_mutex_keys'' (pf_PolicyMutexKeys p) @
      [(''compensation_boundary'', JBool (pf_CompensationBoundary p)), (''policy_serial'', JBool (pf_PolicySerial p))])"

definition json_planning_facts :: "PlanningFacts \<Rightarrow> json" where
  "json_planning_facts f = JObj
     ([(''procedure_version_id'', JStr (fa_ProcedureVersionID f)), (''interface_hash'', JStr (fa_InterfaceHash f)),
       (''lifecycle'', JStr (fa_Lifecycle f)), (''policy_manifest_id'', JStr (fa_PolicyManifestID f))] @
      omit_strs ''goal_predicate_ids'' (fa_GoalPredicateIDs f) @
      [(''parallelism'', json_parallelism (fa_Parallelism f)), (''evidence_strength'', JNum (sint (fa_EvidenceStrength f))),
       (''observed_end_to_end'', JBool (fa_ObservedEndToEnd f)), (''risk_cost'', JNum (uint (fa_RiskCost f))),
       (''tool_cost'', JNum (uint (fa_ToolCost f)))])"

definition parallelEntryCount :: "ParallelismFacts \<Rightarrow> nat" where
  "parallelEntryCount f = length (pf_ReadResourceIDs f) + length (pf_WriteResourceIDs f) +
     length (pf_ExclusiveResourceIDs f) + length (pf_PolicyMutexKeys f)"

definition normalizedParallelism :: "ParallelismFacts \<Rightarrow> ParallelismFacts option" where
  "normalizedParallelism source =
     (case normalizedIDs (pf_ReadResourceIDs source) True of None \<Rightarrow> None | Some reads \<Rightarrow>
     (case normalizedIDs (pf_WriteResourceIDs source) True of None \<Rightarrow> None | Some writes \<Rightarrow>
     (case normalizedIDs (pf_ExclusiveResourceIDs source) True of None \<Rightarrow> None | Some exclusive \<Rightarrow>
     (case normalizedIDs (pf_PolicyMutexKeys source) True of None \<Rightarrow> None | Some mutexes \<Rightarrow>
        if \<not> strictPrefixed reads ''res_'' \<or> \<not> strictPrefixed writes ''res_'' \<or> \<not> strictPrefixed exclusive ''res_'' then None
        else Some (source\<lparr>pf_ReadResourceIDs := reads, pf_WriteResourceIDs := writes,
               pf_ExclusiveResourceIDs := exclusive, pf_PolicyMutexKeys := mutexes\<rparr>)))))"

definition BuildPlanningFactsHash :: "externals \<Rightarrow> PlanningFacts \<Rightarrow> composition_error + string" where
  "BuildPlanningFactsHash ext facts =
     (if length (fa_GoalPredicateIDs facts) > 1024 \<or> parallelEntryCount (fa_Parallelism facts) > 16384
        then Inl ErrInvalidCompatibilityInput
      else let facts1 = facts\<lparr>fa_ProcedureVersionID := TrimSpace (fa_ProcedureVersionID facts),
                 fa_Lifecycle := TrimSpace (fa_Lifecycle facts), fa_PolicyManifestID := TrimSpace (fa_PolicyManifestID facts),
                 fa_GoalPredicateIDs := sort_slice (<) (map TrimSpace (fa_GoalPredicateIDs facts))\<rparr>
      in case normalizedParallelism (fa_Parallelism facts) of
           None \<Rightarrow> Inl ErrInvalidCompatibilityInput
         | Some parallelism \<Rightarrow>
             let facts2 = facts1\<lparr>fa_Parallelism := parallelism\<rparr>
             in if \<not> safeIdentity (fa_ProcedureVersionID facts2) \<or> \<not> hashPattern (fa_InterfaceHash facts2) \<or>
                   \<not> safeIdentity (fa_Lifecycle facts2) \<or> \<not> safeIdentity (fa_PolicyManifestID facts2) \<or>
                   sint (fa_EvidenceStrength facts2) < 0 \<or> fa_ToolCost facts2 = 0 \<or> \<not> strictSorted (fa_GoalPredicateIDs facts2)
                then Inl ErrInvalidCompatibilityInput
                else res_bind (MarshalAndHash_c ext (json_planning_facts facts2)) (\<lambda>(_, hash). Inr hash))"

record Candidate =
  ca_TenantID :: string
  ca_ProcedureVersionID :: string
  ca_Lifecycle :: string
  ca_Interface :: ProcedureInterface
  ca_PlanningFactsHash :: string

definition validCandidate :: "externals \<Rightarrow> Candidate \<Rightarrow> string \<Rightarrow> bool" where
  "validCandidate ext c tenantID \<longleftrightarrow>
     ca_TenantID c = tenantID \<and> safeIdentity (ca_TenantID c) \<and> safeIdentity (ca_ProcedureVersionID c) \<and>
     hashPattern (ca_PlanningFactsHash c) \<and>
     (ca_Lifecycle c = ''candidate'' \<or> ca_Lifecycle c = ''trial'' \<or> ca_Lifecycle c = ''active'') \<and>
     ValidateProcedureInterface ext (ca_Interface c) \<and>
     list_all (\<lambda>r. safeIdentity (rq_ResourceType r) \<and> safeIdentity (rq_Namespace r) \<and>
                   (rq_SchemaVersion r = [] \<or> safeIdentity (rq_SchemaVersion r))) (pi_Requirements (ca_Interface c)) \<and>
     list_all (\<lambda>p. safeIdentity (pv_ResourceType p) \<and> safeIdentity (pv_Namespace p) \<and>
                   (pv_SchemaVersion p = [] \<or> safeIdentity (pv_SchemaVersion p))) (pi_Provisions (ca_Interface c))"

definition candidate_less :: "Candidate \<Rightarrow> Candidate \<Rightarrow> bool" where
  "candidate_less a b \<longleftrightarrow> ca_ProcedureVersionID a < ca_ProcedureVersionID b"

definition json_candidate_identity :: "Candidate \<Rightarrow> json" where
  "json_candidate_identity c = JObj
     [(''procedure_version_id'', JStr (ca_ProcedureVersionID c)), (''interface_hash'', JStr (pi_ContentHash (ca_Interface c))),
      (''lifecycle'', JStr (ca_Lifecycle c)), (''planning_facts_hash'', JStr (ca_PlanningFactsHash c))]"

definition buildCandidateSetHash :: "externals \<Rightarrow> Candidate list \<Rightarrow> composition_error + string" where
  "buildCandidateSetHash ext candidates =
     res_bind (MarshalAndHash_c ext (JArr (map json_candidate_identity (sort_slice candidate_less candidates))))
       (\<lambda>(_, hash). Inr hash)"

section \<open>The work budget\<close>

text \<open>\<^verbatim>\<open>workBudget\<close> of \<^verbatim>\<open>planner.go\<close>; the subtraction is the one of 64-bit words.\<close>

record workBudget =
  used :: uint64
  maximum :: uint64

definition consume :: "workBudget \<Rightarrow> uint64 \<Rightarrow> workBudget option" where
  "consume b units = (if units > maximum b - used b then None else Some (b\<lparr>used := used b + units\<rparr>))"

text \<open>The callback \<^verbatim>\<open>charge\<close>, which is nil where no budget is kept.\<close>

fun charge :: "workBudget option \<Rightarrow> uint64 \<Rightarrow> composition_error + workBudget option" where
  "charge None units = Inr None"
| "charge (Some b) units = (case consume b units of None \<Rightarrow> Inl errWorkLimit | Some b' \<Rightarrow> Inr (Some b'))"

section \<open>The graph\<close>

record CompatibilityEdge =
  ce_ID :: string
  ce_TenantID :: string
  ce_ProjectionEpoch :: uint64
  ce_SourceVersionID :: string
  ce_TargetVersionID :: string
  ce_SourceInterfaceHash :: string
  ce_TargetInterfaceHash :: string
  ce_SourceProvisionIDs :: "string list"
  ce_SatisfiedRequirementIDs :: "string list"
  ce_PlannerManifestID :: string
  ce_PolicyManifestID :: string
  ce_SchemaVersion :: string
  ce_ContentHash :: string

record CompatibilityGraph =
  cg_SchemaVersion :: string
  cg_ID :: string
  cg_TenantID :: string
  cg_ProjectionEpoch :: uint64
  cg_PlannerManifestID :: string
  cg_PolicyManifestID :: string
  cg_MatrixHash :: string
  cg_CandidateSetHash :: string
  cg_Edges :: "CompatibilityEdge list"
  cg_ContentHash :: string
  cg_CanonicalJSON :: string

record GraphRequest =
  gr_TenantID :: string
  gr_ProjectionEpoch :: uint64
  gr_PlannerManifestID :: string
  gr_PolicyManifestID :: string
  gr_Matrix :: CompatibilityMatrix
  gr_Candidates :: "Candidate list"

definition json_edge :: "CompatibilityEdge \<Rightarrow> json" where
  "json_edge e = JObj
     ([(''id'', JStr (ce_ID e)), (''tenant_id'', JStr (ce_TenantID e)),
       (''projection_epoch'', JNum (uint (ce_ProjectionEpoch e))),
       (''source_procedure_version_id'', JStr (ce_SourceVersionID e)),
       (''target_procedure_version_id'', JStr (ce_TargetVersionID e)),
       (''source_interface_hash'', JStr (ce_SourceInterfaceHash e)),
       (''target_interface_hash'', JStr (ce_TargetInterfaceHash e)),
       (''source_provision_ids'', JArr (map JStr (ce_SourceProvisionIDs e))),
       (''satisfied_requirement_ids'', JArr (map JStr (ce_SatisfiedRequirementIDs e))),
       (''planner_manifest_id'', JStr (ce_PlannerManifestID e)),
       (''policy_manifest_id'', JStr (ce_PolicyManifestID e)), (''schema_version'', JStr (ce_SchemaVersion e))] @
      omit_str ''content_hash'' (ce_ContentHash e))"

definition json_graph :: "CompatibilityGraph \<Rightarrow> json" where
  "json_graph g = JObj
     ([(''schema_version'', JStr (cg_SchemaVersion g))] @ omit_str ''id'' (cg_ID g) @
      [(''tenant_id'', JStr (cg_TenantID g)), (''projection_epoch'', JNum (uint (cg_ProjectionEpoch g))),
       (''planner_manifest_id'', JStr (cg_PlannerManifestID g)), (''policy_manifest_id'', JStr (cg_PolicyManifestID g)),
       (''matrix_hash'', JStr (cg_MatrixHash g)), (''candidate_set_hash'', JStr (cg_CandidateSetHash g))] @
      omit_list ''edges'' json_edge (cg_Edges g) @ omit_str ''content_hash'' (cg_ContentHash g))"

subsection \<open>The index of matches\<close>

type_synonym provisionReference = "Candidate \<times> ProcedureProvision"
type_synonym resourceIdentity = "string \<times> string \<times> string"

record compatibilityMatch =
  mt_source :: Candidate
  mt_target :: Candidate
  mt_provisionIDs :: "string list"
  mt_requirementIDs :: "string list"

definition mt_pair :: "compatibilityMatch \<Rightarrow> string \<times> string" where
  "mt_pair m = (ca_ProcedureVersionID (mt_source m), ca_ProcedureVersionID (mt_target m))"

definition add_provider ::
  "CompatibilityLimits \<Rightarrow> Candidate \<Rightarrow> (resourceIdentity \<Rightarrow> provisionReference list) \<Rightarrow> ProcedureProvision \<Rightarrow>
   composition_error + (resourceIdentity \<Rightarrow> provisionReference list)" where
  "add_provider limits source byResource provision =
     (if pv_SchemaVersion provision = [] then Inr byResource
      else let key = (pv_ResourceType provision, pv_Namespace provision, pv_IdentityHash provision);
               references = byResource key @ [(source, provision)]
      in if length references > unat (cl_MaximumProvidersPerResource limits) then Inl ErrInvalidCompatibilityInput
         else Inr (byResource(key := references)))"

text \<open>The map of matches is the list of its entries in the order of insertion.\<close>

definition record_match ::
  "provisionReference \<Rightarrow> Candidate \<Rightarrow> ProcedureRequirement \<Rightarrow> CompatibilityLimits \<Rightarrow> compatibilityMatch list \<Rightarrow>
   composition_error + compatibilityMatch list" where
  "record_match reference target requirement limits matches =
     (let pair = (ca_ProcedureVersionID (fst reference), ca_ProcedureVersionID target);
          put = (\<lambda>m. m\<lparr>mt_provisionIDs := List.insert (pv_ID (snd reference)) (mt_provisionIDs m),
                        mt_requirementIDs := List.insert (rq_ID requirement) (mt_requirementIDs m)\<rparr>)
      in if pair \<in> set (map mt_pair matches)
         then Inr (map (\<lambda>m. if mt_pair m = pair then put m else m) matches)
         else if length matches \<ge> unat (cl_MaximumEdges limits) then Inl ErrInvalidCompatibilityInput
         else Inr (matches @ [put \<lparr>mt_source = fst reference, mt_target = target, mt_provisionIDs = [], mt_requirementIDs = []\<rparr>]))"

definition compare_reference ::
  "SchemaCompatibility list \<Rightarrow> CompatibilityLimits \<Rightarrow> Candidate \<Rightarrow> ProcedureRequirement \<Rightarrow>
   uint64 \<times> compatibilityMatch list \<Rightarrow> provisionReference \<Rightarrow> composition_error + uint64 \<times> compatibilityMatch list" where
  "compare_reference rules limits target requirement state reference =
     (let comparisons = fst state + 1; matches = snd state
      in if comparisons > cl_MaximumMatchComparisons limits then Inl ErrInvalidCompatibilityInput
         else if ca_ProcedureVersionID (fst reference) = ca_ProcedureVersionID target \<or>
                 pv_SchemaVersion (snd reference) \<noteq> rq_SchemaVersion requirement \<and>
                   \<not> explicitlyCompatible (snd reference) requirement rules \<or>
                 \<not> predicateGuaranteesCover (pv_SuccessPredicateIDs (snd reference)) (rq_PredicateIDs requirement)
              then Inr (comparisons, matches)
              else res_bind (record_match reference target requirement limits matches) (\<lambda>ms. Inr (comparisons, ms)))"

definition indexCompatibilityMatches ::
  "Candidate list \<Rightarrow> SchemaCompatibility list \<Rightarrow> CompatibilityLimits \<Rightarrow> composition_error + compatibilityMatch list" where
  "indexCompatibilityMatches candidates rules limits =
     res_bind (res_fold (\<lambda>byResource source. res_fold (add_provider limits source) byResource (pi_Provisions (ca_Interface source)))
                 (\<lambda>_. []) candidates) (\<lambda>byResource.
     res_bind (res_fold (\<lambda>state target.
         res_fold (\<lambda>state requirement.
             if rq_SchemaVersion requirement = [] then Inr state
             else res_fold (compare_reference rules limits target requirement) state
               (byResource (rq_ResourceType requirement, rq_Namespace requirement, rq_IdentityHash requirement)))
           state (pi_Requirements (ca_Interface target)))
         (0, []) candidates) (\<lambda>(_, matches). Inr matches))"

subsection \<open>Building and validating the graph\<close>

definition candidate_entries :: "Candidate \<Rightarrow> nat" where
  "candidate_entries c = length (pi_Requirements (ca_Interface c)) + length (pi_Provisions (ca_Interface c))"

definition match_less :: "compatibilityMatch \<Rightarrow> compatibilityMatch \<Rightarrow> bool" where
  "match_less a b \<longleftrightarrow> fst (mt_pair a) < fst (mt_pair b) \<or> fst (mt_pair a) = fst (mt_pair b) \<and> snd (mt_pair a) < snd (mt_pair b)"

definition edge_less :: "CompatibilityEdge \<Rightarrow> CompatibilityEdge \<Rightarrow> bool" where
  "edge_less a b \<longleftrightarrow> ce_ID a < ce_ID b"

definition edge_of_match :: "CompatibilityGraph \<Rightarrow> compatibilityMatch \<Rightarrow> CompatibilityEdge" where
  "edge_of_match graph m =
     \<lparr>ce_ID = [], ce_TenantID = cg_TenantID graph, ce_ProjectionEpoch = cg_ProjectionEpoch graph,
      ce_SourceVersionID = ca_ProcedureVersionID (mt_source m), ce_TargetVersionID = ca_ProcedureVersionID (mt_target m),
      ce_SourceInterfaceHash = pi_ContentHash (ca_Interface (mt_source m)),
      ce_TargetInterfaceHash = pi_ContentHash (ca_Interface (mt_target m)),
      ce_SourceProvisionIDs = sorted_keys (mt_provisionIDs m), ce_SatisfiedRequirementIDs = sorted_keys (mt_requirementIDs m),
      ce_PlannerManifestID = cg_PlannerManifestID graph, ce_PolicyManifestID = cg_PolicyManifestID graph,
      ce_SchemaVersion = ''compatibility-edge.v1'', ce_ContentHash = []\<rparr>"

definition identified_edge :: "externals \<Rightarrow> CompatibilityEdge \<Rightarrow> composition_error + CompatibilityEdge" where
  "identified_edge ext e =
     res_bind (MarshalAndHash_c ext (json_edge e)) (\<lambda>(_, hash). Inr (e\<lparr>ce_ID := ''cedge_'' @ hash, ce_ContentHash := hash\<rparr>))"

text \<open>The loop over the candidates: every check fails with the same error.\<close>

definition valid_candidates :: "externals \<Rightarrow> GraphRequest \<Rightarrow> bool" where
  "valid_candidates ext request \<longleftrightarrow>
     (let limits = cm_Limits (gr_Matrix request); candidates = gr_Candidates request
      in list_all (\<lambda>c. validCandidate ext c (gr_TenantID request) \<and>
             candidate_entries c \<le> unat (cl_MaximumInterfaceEntries limits)) candidates \<and>
         sum_list (map candidate_entries candidates) \<le> unat (cl_MaximumTotalInterfaceEntries limits) \<and>
         distinct (map ca_ProcedureVersionID candidates))"

definition BuildCompatibilityGraph :: "externals \<Rightarrow> GraphRequest \<Rightarrow> composition_error + CompatibilityGraph" where
  "BuildCompatibilityGraph ext request =
     (if gr_TenantID request = [] \<or> gr_ProjectionEpoch request = 0 \<or> TrimSpace (gr_PlannerManifestID request) = [] \<or>
         TrimSpace (gr_PolicyManifestID request) = [] \<or> \<not> ValidateCompatibilityMatrix ext (gr_Matrix request)
      then Inl ErrInvalidCompatibilityInput
      else if length (gr_Candidates request) > unat (cl_MaximumCandidates (cm_Limits (gr_Matrix request)))
      then Inl ErrInvalidCompatibilityInput
      else if \<not> valid_candidates ext request then Inl ErrInvalidCompatibilityInput
      else let candidates = sort_slice candidate_less (gr_Candidates request)
      in res_bind (buildCandidateSetHash ext candidates) (\<lambda>candidateSetHash.
         let graph = \<lparr>cg_SchemaVersion = ''compatibility-graph.v1'', cg_ID = [], cg_TenantID = gr_TenantID request,
               cg_ProjectionEpoch = gr_ProjectionEpoch request, cg_PlannerManifestID = TrimSpace (gr_PlannerManifestID request),
               cg_PolicyManifestID = TrimSpace (gr_PolicyManifestID request), cg_MatrixHash = cm_ContentHash (gr_Matrix request),
               cg_CandidateSetHash = candidateSetHash, cg_Edges = [], cg_ContentHash = [], cg_CanonicalJSON = []\<rparr>
         in res_bind (indexCompatibilityMatches candidates (cm_Rules (gr_Matrix request)) (cm_Limits (gr_Matrix request))) (\<lambda>matches.
            res_bind (res_map (\<lambda>m. identified_edge ext (edge_of_match graph m)) (sort_slice match_less matches)) (\<lambda>edges.
            let graph = graph\<lparr>cg_Edges := sort_slice edge_less edges\<rparr>
            in res_bind (MarshalAndHash_c ext (json_graph graph)) (\<lambda>(canonicalJSON, hash).
               Inr (graph\<lparr>cg_ID := ''cgraph_'' @ hash, cg_ContentHash := hash, cg_CanonicalJSON := canonicalJSON\<rparr>))))))"

definition validateCompatibilityEdge :: "externals \<Rightarrow> CompatibilityEdge \<Rightarrow> CompatibilityGraph \<Rightarrow> bool" where
  "validateCompatibilityEdge ext e g \<longleftrightarrow>
     ce_SchemaVersion e = ''compatibility-edge.v1'' \<and> ce_ID e = ''cedge_'' @ ce_ContentHash e \<and> hashPattern (ce_ContentHash e) \<and>
     ce_TenantID e = cg_TenantID g \<and> ce_ProjectionEpoch e = cg_ProjectionEpoch g \<and>
     ce_PlannerManifestID e = cg_PlannerManifestID g \<and> ce_PolicyManifestID e = cg_PolicyManifestID g \<and>
     ce_SourceVersionID e \<noteq> [] \<and> ce_TargetVersionID e \<noteq> [] \<and> ce_SourceVersionID e \<noteq> ce_TargetVersionID e \<and>
     hashPattern (ce_SourceInterfaceHash e) \<and> hashPattern (ce_TargetInterfaceHash e) \<and>
     ce_SourceProvisionIDs e \<noteq> [] \<and> ce_SatisfiedRequirementIDs e \<noteq> [] \<and>
     strictPrefixed (ce_SourceProvisionIDs e) ''prov_'' \<and> strictPrefixed (ce_SatisfiedRequirementIDs e) ''req_'' \<and>
     identified ext [] (json_edge (e\<lparr>ce_ID := [], ce_ContentHash := []\<rparr>)) (ce_ContentHash e)"

definition edge_pair :: "CompatibilityEdge \<Rightarrow> string" where
  "edge_pair e = ce_SourceVersionID e @ NUL @ ce_TargetVersionID e"

definition validateCompatibilityGraph ::
  "externals \<Rightarrow> CompatibilityGraph \<Rightarrow> workBudget option \<Rightarrow> composition_error + workBudget option" where
  "validateCompatibilityGraph ext g budget =
     (if cg_SchemaVersion g \<noteq> ''compatibility-graph.v1'' \<or> cg_ID g \<noteq> ''cgraph_'' @ cg_ContentHash g \<or>
         \<not> hashPattern (cg_ContentHash g) then Inl ErrInvalidCompatibilityInput
      else if length (cg_Edges g) > 100000 then Inl ErrInvalidCompatibilityInput
      else res_bind (charge budget (of_nat (length (cg_Edges g)) + 1)) (\<lambda>budget.
        if MarshalAndHash ext (json_graph (g\<lparr>cg_ID := [], cg_ContentHash := [], cg_CanonicalJSON := []\<rparr>)) \<noteq>
             Inr (cg_CanonicalJSON g, cg_ContentHash g) then Inl ErrInvalidCompatibilityInput
        else if cg_TenantID g = [] \<or> cg_ProjectionEpoch g = 0 \<or> cg_PlannerManifestID g = [] \<or> cg_PolicyManifestID g = [] \<or>
             \<not> hashPattern (cg_MatrixHash g) \<or> \<not> hashPattern (cg_CandidateSetHash g) then Inl ErrInvalidCompatibilityInput
        else res_bind (charge budget (of_nat (length (cg_Edges g)))) (\<lambda>budget.
          if distinct (map edge_pair (cg_Edges g)) \<and> list_all (\<lambda>e. validateCompatibilityEdge ext e g) (cg_Edges g) \<and>
             strictly_sorted (map ce_ID (cg_Edges g))
          then Inr budget else Inl ErrInvalidCompatibilityInput)))"

definition ValidateCompatibilityGraph :: "externals \<Rightarrow> CompatibilityGraph \<Rightarrow> composition_error option" where
  "ValidateCompatibilityGraph ext g = (case validateCompatibilityGraph ext g None of Inl e \<Rightarrow> Some e | Inr _ \<Rightarrow> None)"

end
