(* ===== verification/Topological.thy ===== *)
theory Topological
  imports Prelude
begin

text \<open>
  \<^verbatim>\<open>topologicalOrder\<close> of \<^verbatim>\<open>internal/composition/planner.go\<close>: repeatedly take the first node, in
  the order of names, that has no open predecessor. \<^verbatim>\<open>hasCycle\<close> of \<^verbatim>\<open>internal/synthesis/builder.go\<close> runs
  the same loop with a plain queue; the flag \<open>named\<close> tells the two apart. Edges are given by their two end points;
  \<open>indegree\<close> is the Go map, whose missing entries read as zero.
\<close>

type_synonym arrow = "string \<times> string"

definition adjacency :: "arrow list \<Rightarrow> string \<Rightarrow> string list" where
  "adjacency edges node = map snd (filter (\<lambda>e. fst e = node) edges)"

definition indegrees :: "arrow list \<Rightarrow> string \<Rightarrow> int" where
  "indegrees edges = foldl (\<lambda>d e. d(snd e := d (snd e) + 1)) (\<lambda>_. 0) edges"

definition queue_order :: "bool \<Rightarrow> string list \<Rightarrow> string list" where
  "queue_order named xs = (if named then sort xs else xs)"

lemma queue_order_simps [simp]:
  "set (queue_order named xs) = set xs" "length (queue_order named xs) = length xs" "distinct (queue_order named xs) = distinct xs"
  by (simp_all add: queue_order_def)

fun release :: "bool \<Rightarrow> string list \<Rightarrow> (string \<Rightarrow> int) \<Rightarrow> string list \<Rightarrow> (string \<Rightarrow> int) \<times> string list" where
  "release named [] indegree ready = (indegree, ready)"
| "release named (target # targets) indegree ready =
     (let indegree' = indegree(target := indegree target - 1)
      in release named targets indegree' (if indegree' target = 0 then queue_order named (ready @ [target]) else ready))"

text \<open>A node enters the ready list at most once after the start: when its count falls to zero.\<close>

definition open_targets :: "arrow list \<Rightarrow> (string \<Rightarrow> int) \<Rightarrow> nat" where
  "open_targets edges indegree = card {t \<in> set (map snd edges). 0 < indegree t}"

lemma release_measure:
  assumes "release named targets indegree ready = (indegree', ready')" "set targets \<subseteq> set (map snd edges)"
  shows "length ready' + open_targets edges indegree' \<le> length ready + open_targets edges indegree"
  using assms
proof (induction targets arbitrary: indegree ready)
  case (Cons t ts)
  let ?d = "indegree(t := indegree t - 1)" and ?r = "if indegree t = 1 then queue_order named (ready @ [t]) else ready"
  let ?open = "\<lambda>d. {u \<in> set (map snd edges). (0::int) < d u}"
  have "release named ts ?d ?r = (indegree', ready')" using Cons.prems(1) by (simp add: Let_def if_distrib [of "queue_order named"] cong: if_cong)
  then have "length ready' + open_targets edges indegree' \<le> length ?r + open_targets edges ?d"
    by (rule Cons.IH) (use Cons.prems(2) in auto)
  moreover have "?open ?d = (if indegree t = 1 then ?open indegree - {t} else ?open indegree)" by auto
  then have "length ?r + open_targets edges ?d \<le> length ready + open_targets edges indegree"
    using Cons.prems(2) card_Suc_Diff1 [of "?open indegree" t] by (auto simp: open_targets_def)
  ultimately show ?case by simp
qed simp

function kahn :: "bool \<Rightarrow> arrow list \<Rightarrow> (string \<Rightarrow> int) \<Rightarrow> string list \<Rightarrow> string list \<Rightarrow> string list" where
  "kahn named edges indegree [] ordered = ordered"
| "kahn named edges indegree (node # ready) ordered =
     (let next = release named (adjacency edges node) indegree ready in kahn named edges (fst next) (snd next) (ordered @ [node]))"
  by pat_completeness auto
termination
proof (relation "measure (\<lambda>(named, edges, indegree, ready, ordered). length ready + open_targets edges indegree)", goal_cases)
  case (2 named edges indegree node ready ordered x)
  have "set (adjacency edges node) \<subseteq> set (map snd edges)" by (auto simp: adjacency_def)
  from release_measure [OF _ this, of named indegree ready "fst x" "snd x"] 2 show ?case by simp
qed simp

definition topological_order :: "string list \<Rightarrow> arrow list \<Rightarrow> string list option" where
  "topological_order nodes edges =
     (let indegree = indegrees edges; ordered = kahn True edges indegree (queue_order True (filter (\<lambda>n. indegree n = 0) nodes)) []
      in if length ordered \<noteq> length nodes then None else Some ordered)"

section \<open>Correctness\<close>

text \<open>The count of a node is the number of its incoming edges whose source is not in the order yet.\<close>

definition pending :: "arrow list \<Rightarrow> string set \<Rightarrow> string \<Rightarrow> nat" where
  "pending edges done t = length (filter (\<lambda>e. snd e = t \<and> fst e \<notin> done) edges)"

lemma indegrees_pending: "indegrees edges t = int (pending edges {} t)"
proof -
  have "foldl (\<lambda>d e. d(snd e := d (snd e) + 1)) d es t = d t + int (pending es {} t)" for d :: "string \<Rightarrow> int" and es
    by (induction es arbitrary: d) (auto simp: pending_def)
  then show ?thesis by (simp add: indegrees_def)
qed

lemma pending_insert:
  assumes "node \<notin> done"
  shows "pending edges done t = pending edges (insert node done) t + count_list (adjacency edges node) t"
  using assms by (induction edges) (auto simp: pending_def adjacency_def)

lemma release_counts:
  assumes "release named targets indegree ready = (indegree', ready')"
  shows "indegree' t = indegree t - int (count_list targets t)"
    and "set ready' = set ready \<union> {t \<in> set targets. 0 < indegree t \<and> indegree t \<le> int (count_list targets t)}"
proof -
  have "indegree' t = indegree t - int (count_list targets t) \<and>
    set ready' = set ready \<union> {t \<in> set targets. 0 < indegree t \<and> indegree t \<le> int (count_list targets t)}" for t
    using assms
  proof (induction targets arbitrary: indegree ready)
    case (Cons u us)
    let ?d = "indegree(u := indegree u - 1)" and ?r = "if indegree u = 1 then queue_order named (ready @ [u]) else ready"
    have "release named us ?d ?r = (indegree', ready')" using Cons.prems(1) by (simp add: Let_def if_distrib [of "queue_order named"] cong: if_cong)
    note ih = Cons.IH [OF this]
    have "count_list us u = 0 \<longleftrightarrow> u \<notin> set us" by (simp add: count_list_0_iff)
    then show ?case using ih by (fastforce split: if_splits)
  qed simp
  then show "indegree' t = indegree t - int (count_list targets t)"
    "set ready' = set ready \<union> {t \<in> set targets. 0 < indegree t \<and> indegree t \<le> int (count_list targets t)}" by blast+
qed

lemma release_distinct:
  assumes "release named targets indegree ready = (indegree', ready')" "distinct ready" "\<forall>t \<in> set ready. indegree t \<le> 0"
  shows "distinct ready'"
  using assms
proof (induction targets arbitrary: indegree ready)
  case (Cons u us)
  let ?d = "indegree(u := indegree u - 1)" and ?r = "if indegree u = 1 then queue_order named (ready @ [u]) else ready"
  have "release named us ?d ?r = (indegree', ready')" using Cons.prems(1) by (simp add: Let_def if_distrib [of "queue_order named"] cong: if_cong)
  moreover have "distinct ?r" "\<forall>t \<in> set ?r. ?d t \<le> 0" using Cons.prems(2,3) by auto
  ultimately show ?case by (rule Cons.IH)
qed simp

text \<open>Every edge into the list starts at an element before its target.\<close>

definition forward :: "arrow list \<Rightarrow> string list \<Rightarrow> bool" where
  "forward edges xs \<longleftrightarrow> (\<forall>(s, t) \<in> set edges. \<forall>ys zs. xs = ys @ t # zs \<longrightarrow> s \<in> set ys)"

lemma forward_source:
  assumes "forward edges xs" "(s, t) \<in> set edges" "t \<in> set xs" shows "s \<in> set xs"
proof -
  obtain ys zs where "xs = ys @ t # zs" using assms(3) by (meson split_list)
  then show ?thesis using assms(1,2) by (auto simp: forward_def)
qed

definition kahn_inv :: "string list \<Rightarrow> arrow list \<Rightarrow> (string \<Rightarrow> int) \<Rightarrow> string list \<Rightarrow> string list \<Rightarrow> bool" where
  "kahn_inv nodes edges indegree ready ordered \<longleftrightarrow>
     distinct ready \<and> distinct ordered \<and> set ordered \<subseteq> set nodes \<and>
     (\<forall>t. indegree t = int (pending edges (set ordered) t)) \<and>
     set ready = {n \<in> set nodes. n \<notin> set ordered \<and> pending edges (set ordered) n = 0} \<and>
     forward edges ordered"

lemma pending_zero: "pending edges done t = 0 \<longleftrightarrow> (\<forall>(s, u) \<in> set edges. u = t \<longrightarrow> s \<in> done)"
  by (auto simp: pending_def filter_empty_conv)

lemma forward_snoc:
  assumes "forward edges xs" "pending edges (set xs) x = 0" shows "forward edges (xs @ [x])"
proof -
  have "s \<in> set ys" if "(s, t) \<in> set edges" "xs @ [x] = ys @ t # zs" for s t ys zs
  proof (cases zs rule: rev_cases)
    case Nil
    then show ?thesis using that assms(2) by (auto simp: pending_zero)
  next
    case (snoc zs' z)
    then show ?thesis using that assms(1) by (auto simp: forward_def)
  qed
  then show ?thesis by (auto simp: forward_def)
qed

lemma kahn_inv_step:
  assumes inv: "kahn_inv nodes edges indegree (node # ready) ordered"
    and targets: "set (map snd edges) \<subseteq> set nodes"
    and step: "release named (adjacency edges node) indegree ready = (indegree', ready')"
  shows "kahn_inv nodes edges indegree' ready' (ordered @ [node])"
proof -
  let ?p = "pending edges (set ordered)" and ?q = "pending edges (insert node (set ordered))"
  have i: "\<And>t. indegree t = int (?p t)" "distinct (node # ready)" "distinct ordered" "forward edges ordered" "set ordered \<subseteq> set nodes"
    "set (node # ready) = {n \<in> set nodes. n \<notin> set ordered \<and> ?p n = 0}" using inv by (simp_all only: kahn_inv_def)
  have node: "node \<notin> set ordered" "node \<in> set nodes" "?p node = 0" using i(6) by auto
  have split: "?p t = ?q t + count_list (adjacency edges node) t" for t by (rule pending_insert [OF node(1)])
  have d: "indegree' t = int (?q t)" for t using release_counts(1) [OF step, of t] i(1) split [of t] by simp
  have r: "set ready = {n \<in> set nodes. n \<notin> set (ordered @ [node]) \<and> ?p n = 0}" using i(2,6) by auto
  have adj: "t \<in> set (adjacency edges node) \<longleftrightarrow> count_list (adjacency edges node) t \<noteq> 0" for t by (simp add: count_list_0_iff)
  have inside: "n \<in> set nodes" if "n \<in> set (adjacency edges node)" for n using that targets by (auto simp: adjacency_def)
  have waits: "n \<notin> set ordered \<and> n \<noteq> node" if pos: "?p n \<noteq> 0" for n
  proof -
    obtain a b where e: "(a, b) \<in> set edges" "b = n" "a \<notin> set ordered" using pos by (auto simp: pending_zero)
    have "n \<notin> set ordered" using forward_source [OF i(4) e(1)] e(2,3) by blast
    then show ?thesis using pos node(3) by auto
  qed
  have "set ready' = {n \<in> set nodes. n \<notin> set (ordered @ [node]) \<and> ?q n = 0}"
    unfolding release_counts(2) [OF step] r
  proof (rule set_eqI, goal_cases)
    case (1 n)
    show ?case using split [of n] i(1) [of n] adj [of n] inside [of n] waits [of n] by auto
  qed
  moreover have "distinct ready'" using release_distinct [OF step] i(1,2,6) by auto
  ultimately show ?thesis using d i(3,5) node forward_snoc [OF i(4) node(3)] by (simp add: kahn_inv_def)
qed

lemma kahn_inv_end:
  assumes "kahn_inv nodes edges indegree ready ordered" "set (map snd edges) \<subseteq> set nodes"
  shows "\<exists>d. kahn_inv nodes edges d [] (kahn named edges indegree ready ordered)"
  using assms
proof (induction named edges indegree ready ordered rule: kahn.induct)
  case (2 named edges indegree node ready ordered)
  have "kahn_inv nodes edges (fst (release named (adjacency edges node) indegree ready)) (snd (release named (adjacency edges node) indegree ready)) (ordered @ [node])"
    by (rule kahn_inv_step [OF 2(2,3)]) simp
  then show ?case using 2(1) [OF refl _ 2(3)] by (simp add: Let_def)
qed auto

lemma kahn_result:
  assumes "distinct nodes" "set (map snd edges) \<subseteq> set nodes"
    and "ordered = kahn named edges (indegrees edges) (queue_order named (filter (\<lambda>n. indegrees edges n = 0) nodes)) []"
  shows "distinct ordered" "set ordered \<subseteq> set nodes" "forward edges ordered"
    "n \<in> set nodes - set ordered \<Longrightarrow> \<exists>s. (s, n) \<in> set edges \<and> s \<notin> set ordered"
proof -
  have "kahn_inv nodes edges (indegrees edges) (queue_order named (filter (\<lambda>n. indegrees edges n = 0) nodes)) []"
    using assms(1) by (auto simp: kahn_inv_def indegrees_pending forward_def)
  then obtain d where "kahn_inv nodes edges d [] ordered" using kahn_inv_end assms(2,3) by blast
  then show "distinct ordered" "set ordered \<subseteq> set nodes" "forward edges ordered"
    "n \<in> set nodes - set ordered \<Longrightarrow> \<exists>s. (s, n) \<in> set edges \<and> s \<notin> set ordered"
    by (fastforce simp: kahn_inv_def pending_zero)+
qed

lemma forward_acyclic:
  assumes "forward edges ordered" "distinct ordered" "snd ` set edges \<subseteq> set ordered"
  shows "acyclic (set edges)"
proof -
  define pos where "pos x = length (takeWhile (\<lambda>y. y \<noteq> x) ordered)" for x
  have "pos s < pos t" if e: "(s, t) \<in> set edges" for s t
  proof -
    obtain ys zs where o: "ordered = ys @ t # zs" using assms(3) e by (force simp: in_set_conv_decomp)
    then have s: "s \<in> set ys" using assms(1) e by (auto simp: forward_def)
    then obtain us vs where "ys = us @ s # vs" "s \<notin> set us" by (metis split_list_first)
    moreover have "t \<notin> set ys" using assms(2) o by auto
    ultimately show ?thesis by (auto simp: pos_def o takeWhile_append)
  qed
  then have "set edges \<subseteq> measure pos" by auto
  then show ?thesis by (meson acyclic_subset wf_acyclic wf_measure)
qed

text \<open>The loop takes every node exactly when there is no cycle.\<close>

lemma kahn_all_nodes:
  assumes "distinct nodes" "set (map snd edges) \<subseteq> set nodes" "length ordered = length nodes"
    and "ordered = kahn named edges (indegrees edges) (queue_order named (filter (\<lambda>n. indegrees edges n = 0) nodes)) []"
  shows "set ordered = set nodes"
  using kahn_result(1,2) [OF assms(1,2,4)] assms(1,3) by (metis card_subset_eq distinct_card finite_set)

lemma kahn_cycle:
  assumes "distinct nodes" "fst ` set edges \<union> snd ` set edges \<subseteq> set nodes"
    and o: "ordered = kahn named edges (indegrees edges) (queue_order named (filter (\<lambda>n. indegrees edges n = 0) nodes)) []"
  shows "length ordered \<noteq> length nodes \<longleftrightarrow> \<not> acyclic (set edges)"
proof -
  have t: "set (map snd edges) \<subseteq> set nodes" using assms(2) by auto
  note k = kahn_result [OF assms(1) t o]
  let ?R = "set nodes - set ordered"
  have "\<not> acyclic (set edges)" if "length ordered \<noteq> length nodes"
  proof -
    have "?R \<noteq> {}" using k(1,2) that assms(1) by (metis Diff_eq_empty_iff card_seteq distinct_card finite_set subset_antisym)
    moreover have "\<exists>s \<in> ?R. (s, n) \<in> set edges" if "n \<in> ?R" for n using k(4) [OF that] assms(2) by force
    ultimately have "\<not> wf (set edges)" unfolding wf_eq_minimal by (metis ex_in_conv)
    then show ?thesis using finite_acyclic_wf by blast
  qed
  moreover have "acyclic (set edges)" if "length ordered = length nodes"
    by (rule forward_acyclic [OF k(3,1)]) (use kahn_all_nodes [OF assms(1) t that o] t in simp)
  ultimately show ?thesis by blast
qed

lemma topological_order_Some:
  assumes "distinct nodes" "set (map snd edges) \<subseteq> set nodes" "topological_order nodes edges = Some ordered"
  shows "distinct ordered" "set ordered = set nodes" "forward edges ordered"
proof -
  have o: "ordered = kahn True edges (indegrees edges) (queue_order True (filter (\<lambda>n. indegrees edges n = 0) nodes)) []" "length ordered = length nodes"
    using assms(3) by (auto simp: topological_order_def Let_def split: if_splits)
  show "distinct ordered" "forward edges ordered" by (fact kahn_result [OF assms(1,2) o(1)])+
  show "set ordered = set nodes" by (rule kahn_all_nodes [OF assms(1,2) o(2,1)])
qed

lemma topological_order_None:
  assumes "distinct nodes" "fst ` set edges \<union> snd ` set edges \<subseteq> set nodes"
  shows "topological_order nodes edges = None \<longleftrightarrow> \<not> acyclic (set edges)"
  using kahn_cycle [OF assms refl, of True] by (simp add: topological_order_def Let_def)

end
