(* ===== verification/Planner.thy ===== *)
theory Planner
  imports Compatibility Topological
begin

text \<open>
  \<^verbatim>\<open>internal/composition/manifest.go\<close> and \<^verbatim>\<open>planner.go\<close>: the beam search for a composition plan.
  A state of the search is a set of procedure versions with the plan it induces; the search
  adds neighbours in the compatibility graph, keeps the best states, and stops at the limits
  of the planner manifest. All work is charged to a budget, which is a value that the functions
  return, also where they fail. Sets of names are lists without repetition.
\<close>

section \<open>Planner manifests\<close>

record PlannerManifestSpec =
  pm_Version :: string
  pm_BeamWidth :: uint32
  pm_MaximumCandidates :: uint32
  pm_MaximumGoalPredicates :: uint32
  pm_MaximumTotalCandidateGoals :: uint32
  pm_MaximumParallelEntries :: uint32
  pm_MaximumTotalParallelEntries :: uint32
  pm_MaximumSatisfiedRequirements :: uint32
  pm_MaximumDepth :: uint32
  pm_MaximumProcedures :: uint32
  pm_MaximumBridges :: uint32
  pm_MaximumTotalToolCost :: uint32
  pm_MaximumExpansions :: uint32
  pm_MaximumWorkUnits :: uint64
  pm_NoveltyPenalty :: int64
  pm_UnobservedEdgePenalty :: int64

record PlannerManifest =
  pn_SchemaVersion :: string
  pn_Spec :: PlannerManifestSpec
  pn_ID :: string
  pn_ContentHash :: string
  pn_CanonicalJSON :: string

datatype planner_manifest_error = ErrInvalidPlannerManifest | ErrPlannerManifestEncoding canonical_error

text \<open>The specification is embedded in the manifest, so its fields are fields of the JSON object.\<close>

definition json_planner_manifest :: "PlannerManifest \<Rightarrow> json" where
  "json_planner_manifest m =
     (let s = pn_Spec m in JObj
       [(''schema_version'', JStr (pn_SchemaVersion m)), (''version'', JStr (pm_Version s)),
        (''beam_width'', JNum (uint (pm_BeamWidth s))), (''maximum_candidates'', JNum (uint (pm_MaximumCandidates s))),
        (''maximum_goal_predicates'', JNum (uint (pm_MaximumGoalPredicates s))),
        (''maximum_total_candidate_goals'', JNum (uint (pm_MaximumTotalCandidateGoals s))),
        (''maximum_parallel_entries_per_candidate'', JNum (uint (pm_MaximumParallelEntries s))),
        (''maximum_total_parallel_entries'', JNum (uint (pm_MaximumTotalParallelEntries s))),
        (''maximum_satisfied_requirements'', JNum (uint (pm_MaximumSatisfiedRequirements s))),
        (''maximum_depth'', JNum (uint (pm_MaximumDepth s))), (''maximum_procedures'', JNum (uint (pm_MaximumProcedures s))),
        (''maximum_bridges'', JNum (uint (pm_MaximumBridges s))),
        (''maximum_total_tool_cost'', JNum (uint (pm_MaximumTotalToolCost s))),
        (''maximum_expansions'', JNum (uint (pm_MaximumExpansions s))),
        (''maximum_work_units'', JNum (uint (pm_MaximumWorkUnits s))),
        (''novelty_penalty'', JNum (sint (pm_NoveltyPenalty s))),
        (''unobserved_edge_penalty'', JNum (sint (pm_UnobservedEdgePenalty s)))])"

definition validPlannerSpec :: "PlannerManifestSpec \<Rightarrow> bool" where
  "validPlannerSpec s \<longleftrightarrow>
     pm_Version s \<noteq> [] \<and> \<not> contains_nul (pm_Version s) \<and>
     pm_BeamWidth s > 0 \<and> pm_BeamWidth s \<le> 1024 \<and> pm_MaximumDepth s > 0 \<and> pm_MaximumDepth s \<le> 32 \<and>
     pm_MaximumCandidates s > 0 \<and> pm_MaximumCandidates s \<le> 10000 \<and>
     pm_MaximumGoalPredicates s > 0 \<and> pm_MaximumGoalPredicates s \<le> 1024 \<and>
     pm_MaximumTotalCandidateGoals s \<ge> pm_MaximumGoalPredicates s \<and> pm_MaximumTotalCandidateGoals s \<le> 1000000 \<and>
     pm_MaximumParallelEntries s > 0 \<and> pm_MaximumParallelEntries s \<le> 16384 \<and>
     pm_MaximumTotalParallelEntries s \<ge> pm_MaximumParallelEntries s \<and> pm_MaximumTotalParallelEntries s \<le> 1000000 \<and>
     pm_MaximumSatisfiedRequirements s > 0 \<and> pm_MaximumSatisfiedRequirements s \<le> 100000 \<and>
     pm_MaximumProcedures s > 0 \<and> pm_MaximumProcedures s \<le> 32 \<and> pm_MaximumBridges s < pm_MaximumProcedures s \<and>
     pm_MaximumTotalToolCost s > 0 \<and> pm_MaximumTotalToolCost s \<le> 1000000 \<and>
     pm_MaximumExpansions s \<ge> pm_BeamWidth s \<and> pm_MaximumExpansions s \<le> 100000 \<and>
     pm_MaximumWorkUnits s \<ge> ucast (pm_MaximumExpansions s) \<and> pm_MaximumWorkUnits s \<le> 10000000 \<and>
     sint (pm_NoveltyPenalty s) \<ge> 0 \<and> sint (pm_NoveltyPenalty s) \<le> 2147483647 \<and>
     sint (pm_UnobservedEdgePenalty s) \<ge> 0 \<and> sint (pm_UnobservedEdgePenalty s) \<le> 2147483647"

definition NewPlannerManifest :: "externals \<Rightarrow> PlannerManifestSpec \<Rightarrow> planner_manifest_error + PlannerManifest" where
  "NewPlannerManifest ext source =
     (let spec = source\<lparr>pm_Version := TrimSpace (pm_Version source)\<rparr>;
          manifest = \<lparr>pn_SchemaVersion = ''planner-manifest.v1'', pn_Spec = spec, pn_ID = [], pn_ContentHash = [], pn_CanonicalJSON = []\<rparr>
      in if \<not> validPlannerSpec spec then Inl ErrInvalidPlannerManifest
         else case MarshalAndHash ext (json_planner_manifest manifest) of
           Inl e \<Rightarrow> Inl (ErrPlannerManifestEncoding e)
         | Inr (canonicalJSON, hash) \<Rightarrow>
             Inr (manifest\<lparr>pn_ID := ''pman_'' @ hash, pn_ContentHash := hash, pn_CanonicalJSON := canonicalJSON\<rparr>))"

definition ValidatePlannerManifest :: "externals \<Rightarrow> PlannerManifest \<Rightarrow> bool" where
  "ValidatePlannerManifest ext m =
     (case NewPlannerManifest ext (pn_Spec m) of
        Inl _ \<Rightarrow> False
      | Inr rebuilt \<Rightarrow> pn_SchemaVersion m = pn_SchemaVersion rebuilt \<and> pn_ID m = pn_ID rebuilt \<and>
          pn_ContentHash m = pn_ContentHash rebuilt \<and> pn_CanonicalJSON m = pn_CanonicalJSON rebuilt)"

section \<open>Requests and plans\<close>

record PlannerCandidate =
  pc_VersionID :: string
  pc_Interface :: ProcedureInterface
  pc_Lifecycle :: string
  pc_PlanningFactsHash :: string
  pc_Seed :: bool
  pc_Eligible :: bool
  pc_PolicyManifestID :: string
  pc_GoalPredicateIDs :: "string list"
  pc_Parallelism :: ParallelismFacts
  pc_EvidenceStrength :: int64
  pc_ObservedEndToEnd :: bool
  pc_RiskCost :: uint32
  pc_ToolCost :: uint32

record PlanRequest =
  rp_TenantID :: string
  rp_ProjectionEpoch :: uint64
  rp_PolicyManifestID :: string
  rp_Graph :: CompatibilityGraph
  rp_GoalPredicateIDs :: "string list"
  rp_SatisfiedRequirementIDs :: "string list"
  rp_Candidates :: "PlannerCandidate list"

record PlanNode =
  no_Ordinal :: uint32
  no_VersionID :: string
  no_InterfaceHash :: string
  no_Bridge :: bool

record PlanDependency =
  de_CompatibilityEdgeID :: string
  de_SourceVersionID :: string
  de_TargetVersionID :: string
  de_SourceProvisionIDs :: "string list"
  de_SatisfiedRequirementIDs :: "string list"

record PlanGap =
  ga_VersionID :: string
  ga_RequirementID :: string
  ga_GoalPredicateID :: string
  ga_Code :: string

record Plan =
  pl_SchemaVersion :: string
  pl_ID :: string
  pl_TenantID :: string
  pl_ProjectionEpoch :: uint64
  pl_PlannerManifestID :: string
  pl_PolicyManifestID :: string
  pl_CompatibilityGraphID :: string
  pl_CompatibilityGraphHash :: string
  pl_CompatibilityMatrixHash :: string
  pl_CandidateSetHash :: string
  pl_Nodes :: "PlanNode list"
  pl_Dependencies :: "PlanDependency list"
  pl_CompatibilityEdgeIDs :: "string list"
  pl_ExternallySatisfiedRequirementIDs :: "string list"
  pl_SatisfiedRequirementIDs :: "string list"
  pl_ProducedResourceIDs :: "string list"
  pl_CoveredGoalPredicateIDs :: "string list"
  pl_RequestedGoalPredicateIDs :: "string list"
  pl_SeedVersionIDs :: "string list"
  pl_Gaps :: "PlanGap list"
  pl_LimitCodes :: "string list"
  pl_Complete :: bool
  pl_EvidenceStrength :: int64
  pl_AllObservedEndToEnd :: bool
  pl_RiskCost :: uint64
  pl_ToolCost :: uint64
  pl_ContentHash :: string
  pl_CanonicalJSON :: string

record searchState =
  st_plan :: Plan
  st_nodeSet :: "string list"
  st_hash :: string

definition json_node :: "PlanNode \<Rightarrow> json" where
  "json_node n = JObj
     [(''ordinal'', JNum (uint (no_Ordinal n))), (''procedure_version_id'', JStr (no_VersionID n)),
      (''interface_hash'', JStr (no_InterfaceHash n)), (''bridge'', JBool (no_Bridge n))]"

definition json_dependency :: "PlanDependency \<Rightarrow> json" where
  "json_dependency d = JObj
     [(''compatibility_edge_id'', JStr (de_CompatibilityEdgeID d)),
      (''source_procedure_version_id'', JStr (de_SourceVersionID d)),
      (''target_procedure_version_id'', JStr (de_TargetVersionID d)),
      (''source_provision_ids'', JArr (map JStr (de_SourceProvisionIDs d))),
      (''satisfied_requirement_ids'', JArr (map JStr (de_SatisfiedRequirementIDs d)))]"

definition json_gap :: "PlanGap \<Rightarrow> json" where
  "json_gap g = JObj
     (omit_str ''procedure_version_id'' (ga_VersionID g) @ omit_str ''requirement_id'' (ga_RequirementID g) @
      omit_str ''goal_predicate_id'' (ga_GoalPredicateID g) @ [(''code'', JStr (ga_Code g))])"

definition json_plan :: "Plan \<Rightarrow> json" where
  "json_plan p = JObj
     ([(''schema_version'', JStr (pl_SchemaVersion p))] @ omit_str ''id'' (pl_ID p) @
      [(''tenant_id'', JStr (pl_TenantID p)), (''projection_epoch'', JNum (uint (pl_ProjectionEpoch p))),
       (''planner_manifest_id'', JStr (pl_PlannerManifestID p)), (''policy_manifest_id'', JStr (pl_PolicyManifestID p)),
       (''compatibility_graph_id'', JStr (pl_CompatibilityGraphID p)),
       (''compatibility_graph_hash'', JStr (pl_CompatibilityGraphHash p)),
       (''compatibility_matrix_hash'', JStr (pl_CompatibilityMatrixHash p)),
       (''candidate_set_hash'', JStr (pl_CandidateSetHash p)), (''nodes'', JArr (map json_node (pl_Nodes p)))] @
      omit_list ''dependencies'' json_dependency (pl_Dependencies p) @
      omit_strs ''compatibility_edge_ids'' (pl_CompatibilityEdgeIDs p) @
      omit_strs ''externally_satisfied_requirement_ids'' (pl_ExternallySatisfiedRequirementIDs p) @
      omit_strs ''satisfied_requirement_ids'' (pl_SatisfiedRequirementIDs p) @
      omit_strs ''produced_resource_ids'' (pl_ProducedResourceIDs p) @
      omit_strs ''covered_goal_predicate_ids'' (pl_CoveredGoalPredicateIDs p) @
      [(''requested_goal_predicate_ids'', JArr (map JStr (pl_RequestedGoalPredicateIDs p))),
       (''seed_version_ids'', JArr (map JStr (pl_SeedVersionIDs p)))] @
      omit_list ''gaps'' json_gap (pl_Gaps p) @ omit_strs ''limit_codes'' (pl_LimitCodes p) @
      [(''complete'', JBool (pl_Complete p)), (''evidence_strength'', JNum (sint (pl_EvidenceStrength p))),
       (''all_observed_end_to_end'', JBool (pl_AllObservedEndToEnd p)), (''risk_cost'', JNum (uint (pl_RiskCost p))),
       (''tool_cost'', JNum (uint (pl_ToolCost p)))] @
      omit_str ''content_hash'' (pl_ContentHash p))"

section \<open>Validation of a request\<close>

definition planner_candidate_less :: "PlannerCandidate \<Rightarrow> PlannerCandidate \<Rightarrow> bool" where
  "planner_candidate_less a b \<longleftrightarrow> pc_VersionID a < pc_VersionID b"

definition planning_facts :: "PlannerCandidate \<Rightarrow> PlanningFacts" where
  "planning_facts c =
     \<lparr>fa_ProcedureVersionID = pc_VersionID c, fa_InterfaceHash = pi_ContentHash (pc_Interface c), fa_Lifecycle = pc_Lifecycle c,
      fa_PolicyManifestID = pc_PolicyManifestID c, fa_GoalPredicateIDs = pc_GoalPredicateIDs c, fa_Parallelism = pc_Parallelism c,
      fa_EvidenceStrength = pc_EvidenceStrength c, fa_ObservedEndToEnd = pc_ObservedEndToEnd c, fa_RiskCost = pc_RiskCost c,
      fa_ToolCost = pc_ToolCost c\<rparr>"

definition graph_candidate :: "string \<Rightarrow> PlannerCandidate \<Rightarrow> Candidate" where
  "graph_candidate tenant c = \<lparr>ca_TenantID = tenant, ca_ProcedureVersionID = pc_VersionID c, ca_Lifecycle = pc_Lifecycle c,
     ca_Interface = pc_Interface c, ca_PlanningFactsHash = pc_PlanningFactsHash c\<rparr>"

text \<open>The variables of the loop over the candidates; the candidates are normalised in place.\<close>

record inputState =
  in_budget :: workBudget
  in_goals :: uint64
  in_entries :: uint64
  in_candidates :: "PlannerCandidate list"

definition check_candidate ::
  "externals \<Rightarrow> PlannerManifestSpec \<Rightarrow> string \<Rightarrow> inputState \<Rightarrow> PlannerCandidate \<Rightarrow> composition_error + inputState" where
  "check_candidate ext spec policy st candidate =
     (let goalCount = of_nat (length (pc_GoalPredicateIDs candidate)) :: uint64;
          parallelEntries = of_nat (parallelEntryCount (pc_Parallelism candidate)) :: uint64
      in if goalCount > ucast (pm_MaximumGoalPredicates spec) \<or> in_goals st + goalCount > ucast (pm_MaximumTotalCandidateGoals spec)
         then Inl ErrInvalidPlanRequest
         else if parallelEntries > ucast (pm_MaximumParallelEntries spec) \<or>
                 in_entries st + parallelEntries > ucast (pm_MaximumTotalParallelEntries spec)
         then Inl ErrInvalidPlanRequest
         else case consume (in_budget st) ((goalCount + parallelEntries) * 2 + 1) of
           None \<Rightarrow> Inl errWorkLimit
         | Some budget \<Rightarrow>
             (case (normalizedIDs (pc_GoalPredicateIDs candidate) True, normalizedParallelism (pc_Parallelism candidate)) of
                (Some goals, Some parallelism) \<Rightarrow>
                  let candidate = candidate\<lparr>pc_GoalPredicateIDs := goals, pc_Parallelism := parallelism\<rparr>
                  in if pc_VersionID candidate = [] \<or> contains_nul (pc_VersionID candidate) \<or> \<not> pc_Eligible candidate \<or>
                        pc_PolicyManifestID candidate \<noteq> policy \<or> \<not> ValidateProcedureInterface ext (pc_Interface candidate) \<or>
                        sint (pc_EvidenceStrength candidate) < 0 \<or> pc_ToolCost candidate = 0 \<or>
                        BuildPlanningFactsHash ext (planning_facts candidate) \<noteq> Inr (pc_PlanningFactsHash candidate)
                     then Inl ErrInvalidPlanRequest
                     else if pc_VersionID candidate \<in> set (map pc_VersionID (in_candidates st)) then Inl ErrInvalidPlanRequest
                     else Inr (st\<lparr>in_budget := budget, in_goals := in_goals st + goalCount,
                            in_entries := in_entries st + parallelEntries, in_candidates := in_candidates st @ [candidate]\<rparr>)
              | _ \<Rightarrow> Inl ErrInvalidPlanRequest))"

text \<open>A lookup in the map of candidates; a missing entry reads as the zero value.\<close>

definition zero_candidate :: PlannerCandidate where
  "zero_candidate =
     \<lparr>pc_VersionID = [],
      pc_Interface = \<lparr>pi_SchemaVersion = [], pi_ID = [], pi_Requirements = [], pi_Provisions = [], pi_ContentHash = []\<rparr>,
      pc_Lifecycle = [], pc_PlanningFactsHash = [], pc_Seed = False, pc_Eligible = False, pc_PolicyManifestID = [],
      pc_GoalPredicateIDs = [],
      pc_Parallelism = \<lparr>pf_ReadResourceIDs = [], pf_WriteResourceIDs = [], pf_ExclusiveResourceIDs = [], pf_PolicyMutexKeys = [],
        pf_CompensationBoundary = False, pf_PolicySerial = False\<rparr>,
      pc_EvidenceStrength = 0, pc_ObservedEndToEnd = False, pc_RiskCost = 0, pc_ToolCost = 0\<rparr>"

definition byVersion :: "PlannerCandidate list \<Rightarrow> string \<Rightarrow> PlannerCandidate" where
  "byVersion candidates v = (case find (\<lambda>c. pc_VersionID c = v) candidates of None \<Rightarrow> zero_candidate | Some c \<Rightarrow> c)"

definition check_edge ::
  "PlannerCandidate list \<Rightarrow> workBudget \<Rightarrow> CompatibilityEdge \<Rightarrow> composition_error + workBudget" where
  "check_edge candidates budget edge =
     (case consume budget 1 of
        None \<Rightarrow> Inl errWorkLimit
      | Some budget \<Rightarrow>
          if ce_SourceVersionID edge \<notin> set (map pc_VersionID candidates) \<or>
             ce_TargetVersionID edge \<notin> set (map pc_VersionID candidates) then Inl ErrInvalidPlanRequest
          else if pi_ContentHash (pc_Interface (byVersion candidates (ce_SourceVersionID edge))) \<noteq> ce_SourceInterfaceHash edge \<or>
                  pi_ContentHash (pc_Interface (byVersion candidates (ce_TargetVersionID edge))) \<noteq> ce_TargetInterfaceHash edge
          then Inl ErrInvalidPlanRequest else Inr budget)"

text \<open>The result is the normalised candidates, goals and satisfied requirements, and the budget left.\<close>

definition validatePlanInputs ::
  "externals \<Rightarrow> PlannerManifest \<Rightarrow> PlanRequest \<Rightarrow> workBudget \<Rightarrow>
   composition_error + PlannerCandidate list \<times> string list \<times> string list \<times> workBudget" where
  "validatePlanInputs ext manifest request budget =
     (let spec = pn_Spec manifest; graph = rp_Graph request
      in if \<not> ValidatePlannerManifest ext manifest then Inl ErrInvalidPlanRequest
      else case validateCompatibilityGraph ext graph (Some budget) of
        Inl e \<Rightarrow> if e = errWorkLimit then Inl e else Inl ErrInvalidPlanRequest
      | Inr None \<Rightarrow> Inl ErrInvalidPlanRequest
      | Inr (Some budget) \<Rightarrow>
        if rp_TenantID request = [] \<or> rp_ProjectionEpoch request = 0 \<or> cg_TenantID graph \<noteq> rp_TenantID request \<or>
           cg_ProjectionEpoch graph \<noteq> rp_ProjectionEpoch request \<or> cg_PlannerManifestID graph \<noteq> pn_ID manifest \<or>
           cg_PolicyManifestID graph \<noteq> rp_PolicyManifestID request \<or> rp_PolicyManifestID request = [] \<or> rp_Candidates request = []
        then Inl ErrInvalidPlanRequest
        else if length (rp_Candidates request) > unat (pm_MaximumCandidates spec) \<or>
                length (rp_GoalPredicateIDs request) > unat (pm_MaximumGoalPredicates spec) \<or>
                length (rp_SatisfiedRequirementIDs request) > unat (pm_MaximumSatisfiedRequirements spec)
        then Inl ErrInvalidPlanRequest
        else case normalizedIDs (rp_GoalPredicateIDs request) False of None \<Rightarrow> Inl ErrInvalidPlanRequest | Some goals \<Rightarrow>
        if goals = [] then Inl ErrInvalidPlanRequest else
        (case normalizedIDs (rp_SatisfiedRequirementIDs request) True of None \<Rightarrow> Inl ErrInvalidPlanRequest | Some satisfied \<Rightarrow>
           res_bind (res_fold (check_candidate ext spec (rp_PolicyManifestID request))
               \<lparr>in_budget = budget, in_goals = 0, in_entries = 0, in_candidates = []\<rparr>
               (sort_slice planner_candidate_less (rp_Candidates request))) (\<lambda>st.
           if \<not> list_ex pc_Seed (in_candidates st) then Inl ErrInvalidPlanRequest
           else if buildCandidateSetHash ext (map (graph_candidate (rp_TenantID request)) (in_candidates st)) \<noteq>
                   Inr (cg_CandidateSetHash graph) then Inl ErrInvalidPlanRequest
           else res_bind (res_fold (check_edge (in_candidates st)) (in_budget st) (cg_Edges graph)) (\<lambda>budget.
             Inr (in_candidates st, goals, satisfied, budget)))))"

section \<open>One state of the search\<close>

fun select_loop ::
  "string list \<Rightarrow> CompatibilityEdge list \<Rightarrow> workBudget \<Rightarrow> (composition_error + CompatibilityEdge list) \<times> workBudget" where
  "select_loop nodes [] budget = (Inr [], budget)"
| "select_loop nodes (edge # edges) budget =
     (case consume budget 1 of
        None \<Rightarrow> (Inl errWorkLimit, budget)
      | Some budget \<Rightarrow>
          (case select_loop nodes edges budget of
             (Inl e, budget) \<Rightarrow> (Inl e, budget)
           | (Inr result, budget) \<Rightarrow>
               (Inr (if ce_SourceVersionID edge \<in> set nodes \<and> ce_TargetVersionID edge \<in> set nodes then edge # result else result),
                budget)))"

definition selectedEdges ::
  "CompatibilityEdge list \<Rightarrow> string list \<Rightarrow> workBudget \<Rightarrow> (composition_error + CompatibilityEdge list) \<times> workBudget" where
  "selectedEdges edges nodes budget =
     (if length nodes < 2 then (Inr [], budget)
      else case select_loop nodes edges budget of
        (Inl e, budget) \<Rightarrow> (Inl e, budget)
      | (Inr result, budget) \<Rightarrow> (Inr (sort_slice edge_less result), budget))"

definition topologicalOrder :: "string list \<Rightarrow> CompatibilityEdge list \<Rightarrow> composition_error + string list" where
  "topologicalOrder nodes edges =
     (case topological_order nodes (map (\<lambda>e. (ce_SourceVersionID e, ce_TargetVersionID e)) edges) of
        None \<Rightarrow> Inl errCycle
      | Some ordered \<Rightarrow> Inr ordered)"

fun adjacent_loop ::
  "string list \<Rightarrow> CompatibilityEdge list \<Rightarrow> workBudget \<Rightarrow> (composition_error + string list) \<times> workBudget" where
  "adjacent_loop nodes [] budget = (Inr [], budget)"
| "adjacent_loop nodes (edge # edges) budget =
     (case consume budget 1 of
        None \<Rightarrow> (Inl errWorkLimit, budget)
      | Some budget \<Rightarrow>
          (case adjacent_loop nodes edges budget of
             (Inl e, budget) \<Rightarrow> (Inl e, budget)
           | (Inr result, budget) \<Rightarrow>
               (let source = ce_SourceVersionID edge \<in> set nodes; target = ce_TargetVersionID edge \<in> set nodes
                in (Inr (if source \<noteq> target
                         then (if source then ce_TargetVersionID edge else ce_SourceVersionID edge) # result else result), budget))))"

definition adjacentVersions ::
  "CompatibilityEdge list \<Rightarrow> string list \<Rightarrow> workBudget \<Rightarrow> (composition_error + string list) \<times> workBudget" where
  "adjacentVersions edges nodes budget =
     (case adjacent_loop nodes edges budget of
        (Inl e, budget) \<Rightarrow> (Inl e, budget)
      | (Inr result, budget) \<Rightarrow> (Inr (sorted_keys result), budget))"

definition canonicalizePlan :: "externals \<Rightarrow> Plan \<Rightarrow> composition_error + Plan" where
  "canonicalizePlan ext plan =
     (let plan = plan\<lparr>pl_ID := [], pl_ContentHash := [], pl_CanonicalJSON := []\<rparr>
      in case MarshalAndHash ext (json_plan plan) of
           Inl e \<Rightarrow> Inl (ErrCompositionEncoding e)
         | Inr (canonicalJSON, hash) \<Rightarrow>
             Inr (plan\<lparr>pl_ID := ''plan_'' @ hash, pl_ContentHash := hash, pl_CanonicalJSON := canonicalJSON\<rparr>))"

definition checkedPlannerMul :: "int64 \<Rightarrow> int64 \<Rightarrow> int64 option" where
  "checkedPlannerMul left right =
     (if left = 0 \<or> right = 0 then Some 0
      else if sint left > sint (int64_div MaxInt64 right) then None
      else Some (left * right))"

definition gapKey :: "PlanGap \<Rightarrow> string" where
  "gapKey g = ga_Code g @ NUL @ ga_VersionID g @ NUL @ ga_RequirementID g @ NUL @ ga_GoalPredicateID g"

definition gap_less :: "PlanGap \<Rightarrow> PlanGap \<Rightarrow> bool" where
  "gap_less a b \<longleftrightarrow> gapKey a < gapKey b"

definition requirement_gaps :: "string list \<Rightarrow> string \<Rightarrow> PlannerCandidate \<Rightarrow> PlanGap list" where
  "requirement_gaps satisfied versionID c =
     map (\<lambda>r. \<lparr>ga_VersionID = versionID, ga_RequirementID = rq_ID r, ga_GoalPredicateID = [], ga_Code = ''unsatisfied_requirement''\<rparr>)
       (filter (\<lambda>r. rq_ID r \<notin> set satisfied) (pi_Requirements (pc_Interface c)))"

definition goal_gap :: "string \<Rightarrow> PlanGap" where
  "goal_gap goal = \<lparr>ga_VersionID = [], ga_RequirementID = [], ga_GoalPredicateID = goal, ga_Code = ''uncovered_goal''\<rparr>"

definition dependency_of :: "CompatibilityEdge \<Rightarrow> PlanDependency" where
  "dependency_of e = \<lparr>de_CompatibilityEdgeID = ce_ID e, de_SourceVersionID = ce_SourceVersionID e, de_TargetVersionID = ce_TargetVersionID e,
     de_SourceProvisionIDs = ce_SourceProvisionIDs e, de_SatisfiedRequirementIDs = ce_SatisfiedRequirementIDs e\<rparr>"

definition node_of :: "nat \<Rightarrow> PlannerCandidate \<Rightarrow> string \<Rightarrow> PlanNode" where
  "node_of ordinal c versionID = \<lparr>no_Ordinal = of_nat ordinal, no_VersionID = versionID,
     no_InterfaceHash = pi_ContentHash (pc_Interface c), no_Bridge = \<not> pc_Seed c\<rparr>"

text \<open>The evidence of the weakest node, less the penalties, or zero where they exceed it.\<close>

definition weakest_evidence :: "PlannerCandidate list \<Rightarrow> int64" where
  "weakest_evidence cs = foldl (\<lambda>m c. if sint (pc_EvidenceStrength c) < sint m then pc_EvidenceStrength c else m) MaxInt64 cs"

definition penalized :: "int64 \<Rightarrow> int64 \<Rightarrow> int64 option \<Rightarrow> int64" where
  "penalized strength penalty edgePenalty =
     (case edgePenalty of
        None \<Rightarrow> 0
      | Some edgePenalty \<Rightarrow>
          if sint strength < sint penalty \<or> sint (strength - penalty) < sint edgePenalty then 0
          else strength - (penalty + edgePenalty))"

definition bridge_count :: "PlannerCandidate list \<Rightarrow> uint32" where
  "bridge_count cs = of_nat (length (filter (\<lambda>c. \<not> pc_Seed c) cs))"

definition total_tool_cost :: "PlannerCandidate list \<Rightarrow> uint64" where
  "total_tool_cost cs = sum_list (map (\<lambda>c. ucast (pc_ToolCost c)) cs)"

definition unobserved_count :: "PlannerCandidate list \<Rightarrow> CompatibilityEdge list \<Rightarrow> int64" where
  "unobserved_count candidates edges = of_nat (length (filter (\<lambda>e.
     \<not> pc_ObservedEndToEnd (byVersion candidates (ce_SourceVersionID e)) \<or>
     \<not> pc_ObservedEndToEnd (byVersion candidates (ce_TargetVersionID e))) edges))"

text \<open>
  The plan before its limits are checked, for the chosen edges and the nodes in their order.
  The accumulators of the loop over the nodes are given by what they collect.
\<close>

definition draft_plan ::
  "PlannerManifest \<Rightarrow> PlanRequest \<Rightarrow> PlannerCandidate list \<Rightarrow> string list \<Rightarrow> string list \<Rightarrow> string list \<Rightarrow>
   CompatibilityEdge list \<Rightarrow> string list \<Rightarrow> int64 \<Rightarrow> Plan" where
  "draft_plan manifest request candidates seedVersionIDs goals externallySatisfied edges ordered strength =
     (let members = map (byVersion candidates) ordered;
          satisfied = externallySatisfied @ concat (map ce_SatisfiedRequirementIDs edges);
          covered = filter (\<lambda>g. g \<in> set goals) (concat (map pc_GoalPredicateIDs members));
          gaps = concat (map (\<lambda>v. requirement_gaps satisfied v (byVersion candidates v)) ordered) @
            map goal_gap (filter (\<lambda>g. g \<notin> set covered) goals)
      in \<lparr>pl_SchemaVersion = ''composition-plan.v1'', pl_ID = [], pl_TenantID = rp_TenantID request,
          pl_ProjectionEpoch = rp_ProjectionEpoch request, pl_PlannerManifestID = pn_ID manifest,
          pl_PolicyManifestID = rp_PolicyManifestID request, pl_CompatibilityGraphID = cg_ID (rp_Graph request),
          pl_CompatibilityGraphHash = cg_ContentHash (rp_Graph request),
          pl_CompatibilityMatrixHash = cg_MatrixHash (rp_Graph request), pl_CandidateSetHash = cg_CandidateSetHash (rp_Graph request),
          pl_Nodes = map (\<lambda>(ordinal, v). node_of ordinal (byVersion candidates v) v) (enumerate 0 ordered),
          pl_Dependencies = map dependency_of edges, pl_CompatibilityEdgeIDs = sort (map ce_ID edges),
          pl_ExternallySatisfiedRequirementIDs = externallySatisfied, pl_SatisfiedRequirementIDs = sorted_keys satisfied,
          pl_ProducedResourceIDs = sorted_keys (concat (map (\<lambda>c. map pv_ID (pi_Provisions (pc_Interface c))) members)),
          pl_CoveredGoalPredicateIDs = sorted_keys covered, pl_RequestedGoalPredicateIDs = goals,
          pl_SeedVersionIDs = seedVersionIDs, pl_Gaps = sort_slice gap_less gaps, pl_LimitCodes = [], pl_Complete = (gaps = []),
          pl_EvidenceStrength = strength, pl_AllObservedEndToEnd = list_all pc_ObservedEndToEnd members,
          pl_RiskCost = sum_list (map (\<lambda>c. ucast (pc_RiskCost c)) members),
          pl_ToolCost = total_tool_cost members,
          pl_ContentHash = [], pl_CanonicalJSON = []\<rparr>)"

definition buildSearchState ::
  "externals \<Rightarrow> PlannerManifest \<Rightarrow> PlanRequest \<Rightarrow> PlannerCandidate list \<Rightarrow> string list \<Rightarrow> string list \<Rightarrow> string list \<Rightarrow>
   string list \<Rightarrow> workBudget \<Rightarrow> (composition_error + searchState) \<times> workBudget" where
  "buildSearchState ext manifest request candidates seedVersionIDs goals externallySatisfied nodeSet budget =
     (case selectedEdges (cg_Edges (rp_Graph request)) nodeSet budget of
        (Inl e, budget) \<Rightarrow> (Inl e, budget)
      | (Inr edges, budget) \<Rightarrow>
          (res_bind (topologicalOrder nodeSet edges) (\<lambda>ordered.
             let spec = pn_Spec manifest; members = map (byVersion candidates) ordered;
                 unobservedEdges = unobserved_count candidates edges; bridges = bridge_count members
             in if bridges > pm_MaximumBridges spec \<or> total_tool_cost members > ucast (pm_MaximumTotalToolCost spec) then Inl errPlanLimit
                else case checkedPlannerMul (ucast bridges) (pm_NoveltyPenalty spec) of
                  None \<Rightarrow> Inl ErrInvalidPlanRequest
                | Some penalty \<Rightarrow>
                    let strength = penalized (weakest_evidence members) penalty
                          (checkedPlannerMul unobservedEdges (pm_UnobservedEdgePenalty spec))
                    in res_bind (canonicalizePlan ext
                         (draft_plan manifest request candidates seedVersionIDs goals externallySatisfied edges ordered strength))
                         (\<lambda>plan. Inr \<lparr>st_plan = plan, st_nodeSet = nodeSet, st_hash = pl_ContentHash plan\<rparr>)),
           budget))"

definition betterState :: "searchState \<Rightarrow> searchState \<Rightarrow> bool" where
  "betterState left right =
     (let l = st_plan left; r = st_plan right
      in if pl_Complete l \<noteq> pl_Complete r then pl_Complete l
         else if length (pl_CoveredGoalPredicateIDs l) \<noteq> length (pl_CoveredGoalPredicateIDs r)
           then length (pl_CoveredGoalPredicateIDs l) > length (pl_CoveredGoalPredicateIDs r)
         else if pl_EvidenceStrength l \<noteq> pl_EvidenceStrength r then sint (pl_EvidenceStrength l) > sint (pl_EvidenceStrength r)
         else if pl_AllObservedEndToEnd l \<noteq> pl_AllObservedEndToEnd r then pl_AllObservedEndToEnd l
         else if length (pl_SatisfiedRequirementIDs l) \<noteq> length (pl_SatisfiedRequirementIDs r)
           then length (pl_SatisfiedRequirementIDs l) > length (pl_SatisfiedRequirementIDs r)
         else if pl_RiskCost l \<noteq> pl_RiskCost r then pl_RiskCost l < pl_RiskCost r
         else if pl_ToolCost l \<noteq> pl_ToolCost r then pl_ToolCost l < pl_ToolCost r
         else if length (pl_Nodes l) \<noteq> length (pl_Nodes r) then length (pl_Nodes l) < length (pl_Nodes r)
         else st_hash left < st_hash right)"

definition sortStates :: "searchState list \<Rightarrow> searchState list" where
  "sortStates values = sort_slice betterState values"

section \<open>The search\<close>

text \<open>
  The variables of \<^verbatim>\<open>PlanProcedures\<close>. The list \<open>bm_states\<close> is the one that is being filled: the
  first frontier from the seeds, then \<^verbatim>\<open>next\<close>.
\<close>

record beam =
  bm_states :: "searchState list"
  bm_seen :: "string list"
  bm_limits :: "string list"
  bm_best :: "searchState option"
  bm_expansions :: uint32
  bm_budget :: workBudget
  bm_exhausted :: bool

definition limit :: "string \<Rightarrow> beam \<Rightarrow> beam" where
  "limit code bm = bm\<lparr>bm_limits := List.insert code (bm_limits bm)\<rparr>"

definition keep_state :: "searchState \<Rightarrow> beam \<Rightarrow> beam" where
  "keep_state state bm =
     bm\<lparr>bm_states := bm_states bm @ [state], bm_seen := List.insert (st_hash state) (bm_seen bm),
        bm_best := (case bm_best bm of None \<Rightarrow> Some state | Some best \<Rightarrow> if betterState state best then Some state else Some best)\<rparr>"

fun seed_loop ::
  "(string list \<Rightarrow> workBudget \<Rightarrow> (composition_error + searchState) \<times> workBudget) \<Rightarrow> PlannerCandidate list \<Rightarrow> beam \<Rightarrow>
   composition_error + beam" where
  "seed_loop build [] bm = Inr bm"
| "seed_loop build (candidate # candidates) bm =
     (if \<not> pc_Seed candidate then seed_loop build candidates bm
      else case consume (bm_budget bm) 1 of
        None \<Rightarrow> Inr (limit ''work_budget_exhausted'' bm)
      | Some budget \<Rightarrow>
          (case build [pc_VersionID candidate] budget of
             (Inr state, budget) \<Rightarrow> seed_loop build candidates (keep_state state (bm\<lparr>bm_budget := budget\<rparr>))
           | (Inl e, budget) \<Rightarrow> if e = errPlanLimit then seed_loop build candidates (bm\<lparr>bm_budget := budget\<rparr>) else Inl e))"

fun expand_versions ::
  "(string list \<Rightarrow> workBudget \<Rightarrow> (composition_error + searchState) \<times> workBudget) \<Rightarrow> uint32 \<Rightarrow> searchState \<Rightarrow> string list \<Rightarrow> beam \<Rightarrow>
   composition_error + beam" where
  "expand_versions build maximumExpansions state [] bm = Inr bm"
| "expand_versions build maximumExpansions state (versionID # versions) bm =
     (if bm_expansions bm \<ge> maximumExpansions then Inr (limit ''expansion_budget_exhausted'' bm)
      else let bm = bm\<lparr>bm_expansions := bm_expansions bm + 1\<rparr>
      in case build (List.insert versionID (st_nodeSet state)) (bm_budget bm) of
           (Inr candidateState, budget) \<Rightarrow>
             expand_versions build maximumExpansions state versions
               (if st_hash candidateState \<in> set (bm_seen bm) then bm\<lparr>bm_budget := budget\<rparr>
                else keep_state candidateState (bm\<lparr>bm_budget := budget\<rparr>))
         | (Inl e, budget) \<Rightarrow>
             if e = errWorkLimit then Inr (limit ''work_budget_exhausted'' (bm\<lparr>bm_budget := budget, bm_exhausted := True\<rparr>))
             else if e = errCycle \<or> e = errPlanLimit
               then expand_versions build maximumExpansions state versions (bm\<lparr>bm_budget := budget\<rparr>)
             else Inl e)"

fun expand_frontier ::
  "(string list \<Rightarrow> workBudget \<Rightarrow> (composition_error + searchState) \<times> workBudget) \<Rightarrow> CompatibilityEdge list \<Rightarrow> PlannerManifestSpec \<Rightarrow>
   searchState list \<Rightarrow> beam \<Rightarrow> composition_error + beam" where
  "expand_frontier build edges spec [] bm = Inr bm"
| "expand_frontier build edges spec (state # states) bm =
     (if bm_expansions bm \<ge> pm_MaximumExpansions spec then Inr (limit ''expansion_budget_exhausted'' bm)
      else if pl_Complete (st_plan state) \<or> length (st_nodeSet state) \<ge> unat (pm_MaximumProcedures spec)
        then expand_frontier build edges spec states bm
      else case adjacentVersions edges (st_nodeSet state) (bm_budget bm) of
        (Inl e, budget) \<Rightarrow>
          if e = errWorkLimit then Inr (limit ''work_budget_exhausted'' (bm\<lparr>bm_budget := budget, bm_exhausted := True\<rparr>)) else Inl e
      | (Inr adjacent, budget) \<Rightarrow>
          res_bind (expand_versions build (pm_MaximumExpansions spec) state adjacent (bm\<lparr>bm_budget := budget\<rparr>)) (\<lambda>bm.
            if bm_exhausted bm then Inr bm else expand_frontier build edges spec states bm))"

definition truncate_beam :: "PlannerManifestSpec \<Rightarrow> beam \<Rightarrow> beam" where
  "truncate_beam spec bm =
     (let states = sortStates (bm_states bm)
      in if length states > unat (pm_BeamWidth spec)
         then limit ''beam_truncated'' (bm\<lparr>bm_states := take (unat (pm_BeamWidth spec)) states\<rparr>)
         else bm\<lparr>bm_states := states\<rparr>)"

text \<open>The loop over the depth, for the number of rounds that are left; the frontier is \<open>bm_states\<close>.\<close>

fun depth_loop ::
  "(string list \<Rightarrow> workBudget \<Rightarrow> (composition_error + searchState) \<times> workBudget) \<Rightarrow> CompatibilityEdge list \<Rightarrow> PlannerManifestSpec \<Rightarrow>
   nat \<Rightarrow> beam \<Rightarrow> composition_error + beam" where
  "depth_loop build edges spec 0 bm = Inr bm"
| "depth_loop build edges spec (Suc rounds) bm =
     (if bm_states bm = [] \<or> bm_exhausted bm then Inr bm
      else res_bind (expand_frontier build edges spec (bm_states bm) (bm\<lparr>bm_states := []\<rparr>)) (\<lambda>next.
        if bm_exhausted next then Inr (next\<lparr>bm_states := bm_states bm\<rparr>)
        else let next = truncate_beam spec next
          in if bm_expansions next \<ge> pm_MaximumExpansions spec then Inr (limit ''expansion_budget_exhausted'' next)
             else depth_loop build edges spec rounds next))"

definition PlanProcedures :: "externals \<Rightarrow> PlannerManifest \<Rightarrow> PlanRequest \<Rightarrow> composition_error + Plan" where
  "PlanProcedures ext manifest request =
     (let spec = pn_Spec manifest; edges = cg_Edges (rp_Graph request)
      in res_bind (validatePlanInputs ext manifest request \<lparr>used = 0, maximum = pm_MaximumWorkUnits spec\<rparr>)
        (\<lambda>(candidates, goals, satisfied, budget).
         let seedVersionIDs = sort (map pc_VersionID (filter pc_Seed candidates));
             build = buildSearchState ext manifest request candidates seedVersionIDs goals satisfied
         in res_bind (seed_loop build candidates
              \<lparr>bm_states = [], bm_seen = [], bm_limits = [], bm_best = None, bm_expansions = 0, bm_budget = budget, bm_exhausted = False\<rparr>)
            (\<lambda>bm. if bm_best bm = None then Inl ErrInvalidPlanRequest
              else let bm = truncate_beam spec bm; bm = bm\<lparr>bm_exhausted := ''work_budget_exhausted'' \<in> set (bm_limits bm)\<rparr>
              in res_bind (depth_loop build edges spec (unat (pm_MaximumDepth spec) - 1) bm) (\<lambda>bm.
                 case bm_best bm of
                   None \<Rightarrow> Inl ErrInvalidPlanRequest
                 | Some best \<Rightarrow>
                     let limits = (if bm_states bm \<noteq> [] \<and> \<not> pl_Complete (st_plan best) \<and> \<not> bm_exhausted bm \<and>
                                      bm_expansions bm < pm_MaximumExpansions spec
                                   then List.insert ''depth_exhausted'' (bm_limits bm) else bm_limits bm);
                         plan = (st_plan best)\<lparr>pl_LimitCodes := sorted_keys limits\<rparr>
                     in if limits \<noteq> [] then canonicalizePlan ext plan else Inr plan))))"

section \<open>Validation of a plan\<close>

definition gap_shape :: "PlanGap \<Rightarrow> bool" where
  "gap_shape g \<longleftrightarrow>
     (if ga_Code g = ''unsatisfied_requirement''
      then \<not> (ga_VersionID g = [] \<or> ga_RequirementID g = [] \<or> ga_GoalPredicateID g \<noteq> [])
      else if ga_Code g = ''uncovered_goal''
      then \<not> (ga_VersionID g \<noteq> [] \<or> ga_RequirementID g \<noteq> [] \<or> ga_GoalPredicateID g = [])
      else False)"

text \<open>The position of a node, \<^verbatim>\<open>positions\<close>; identifiers of nodes are checked to be distinct first.\<close>

definition node_position :: "Plan \<Rightarrow> string \<Rightarrow> nat option" where
  "node_position plan v = map_option fst (find (\<lambda>(_, n). no_VersionID n = v) (enumerate 0 (pl_Nodes plan)))"

definition dependency_ok :: "Plan \<Rightarrow> PlanDependency \<Rightarrow> string \<Rightarrow> bool" where
  "dependency_ok plan d edgeID \<longleftrightarrow>
     de_CompatibilityEdgeID d = edgeID \<and>
     (case (node_position plan (de_SourceVersionID d), node_position plan (de_TargetVersionID d)) of
        (Some source, Some target) \<Rightarrow> source < target
      | _ \<Rightarrow> False) \<and>
     strictPrefixed (de_SourceProvisionIDs d) ''prov_'' \<and> strictPrefixed (de_SatisfiedRequirementIDs d) ''req_''"

definition ValidatePlan :: "externals \<Rightarrow> Plan \<Rightarrow> bool" where
  "ValidatePlan ext p \<longleftrightarrow>
     pl_SchemaVersion p = ''composition-plan.v1'' \<and> pl_ID p = ''plan_'' @ pl_ContentHash p \<and> hashPattern (pl_ContentHash p) \<and>
     MarshalAndHash ext (json_plan (p\<lparr>pl_ID := [], pl_ContentHash := [], pl_CanonicalJSON := []\<rparr>)) =
       Inr (pl_CanonicalJSON p, pl_ContentHash p) \<and>
     pl_TenantID p \<noteq> [] \<and> pl_ProjectionEpoch p \<noteq> 0 \<and> pl_PlannerManifestID p \<noteq> [] \<and> pl_PolicyManifestID p \<noteq> [] \<and>
     pl_CompatibilityGraphID p = ''cgraph_'' @ pl_CompatibilityGraphHash p \<and> hashPattern (pl_CompatibilityGraphHash p) \<and>
     hashPattern (pl_CompatibilityMatrixHash p) \<and> hashPattern (pl_CandidateSetHash p) \<and> pl_Nodes p \<noteq> [] \<and>
     pl_RequestedGoalPredicateIDs p \<noteq> [] \<and> pl_SeedVersionIDs p \<noteq> [] \<and> pl_ToolCost p \<noteq> 0 \<and> sint (pl_EvidenceStrength p) \<ge> 0 \<and>
     strictSorted (pl_RequestedGoalPredicateIDs p) \<and> strictSorted (pl_SeedVersionIDs p) \<and>
     strictSorted (pl_ExternallySatisfiedRequirementIDs p) \<and> strictSorted (pl_SatisfiedRequirementIDs p) \<and>
     strictSorted (pl_ProducedResourceIDs p) \<and> strictSorted (pl_CoveredGoalPredicateIDs p) \<and>
     (pl_CompatibilityEdgeIDs p = [] \<or> strictPrefixed (pl_CompatibilityEdgeIDs p) ''cedge_'') \<and> strictSorted (pl_LimitCodes p) \<and>
     pl_Complete p = (pl_Gaps p = []) \<and>
     list_all (\<lambda>(ordinal, n). no_Ordinal n = of_nat ordinal \<and> safeIdentity (no_VersionID n) \<and> hashPattern (no_InterfaceHash n) \<and>
         no_Bridge n \<noteq> (no_VersionID n \<in> set (pl_SeedVersionIDs p))) (enumerate 0 (pl_Nodes p)) \<and>
     distinct (map no_VersionID (pl_Nodes p)) \<and>
     length (pl_Dependencies p) = length (pl_CompatibilityEdgeIDs p) \<and>
     list_all2 (dependency_ok p) (pl_Dependencies p) (pl_CompatibilityEdgeIDs p) \<and>
     list_all (\<lambda>g. g \<in> set (pl_RequestedGoalPredicateIDs p)) (pl_CoveredGoalPredicateIDs p) \<and>
     list_all (\<lambda>c. c = ''beam_truncated'' \<or> c = ''depth_exhausted'' \<or> c = ''expansion_budget_exhausted'' \<or>
         c = ''work_budget_exhausted'') (pl_LimitCodes p) \<and>
     list_all gap_shape (pl_Gaps p) \<and> strictly_sorted (map gapKey (pl_Gaps p))"

definition HydratePlan :: "externals \<Rightarrow> Plan \<Rightarrow> composition_error + Plan" where
  "HydratePlan ext source =
     (case MarshalAndHash ext (json_plan (source\<lparr>pl_ID := [], pl_ContentHash := [], pl_CanonicalJSON := []\<rparr>)) of
        Inl _ \<Rightarrow> Inl ErrInvalidPlanRequest
      | Inr (canonicalJSON, hash) \<Rightarrow>
          if pl_ID source \<noteq> ''plan_'' @ hash \<or> pl_ContentHash source \<noteq> hash then Inl ErrInvalidPlanRequest
          else let plan = source\<lparr>pl_CanonicalJSON := canonicalJSON\<rparr>
            in if ValidatePlan ext plan then Inr plan else Inl ErrInvalidPlanRequest)"

end
