(* ===== verification/Parallel.thy ===== *)
theory Parallel
  imports Planner
begin

text \<open>
  \<^verbatim>\<open>internal/composition/parallel.go\<close>: a complete plan is divided into groups of procedures that
  may run side by side. A node goes into the first group behind all its predecessors with whose
  members it does not conflict. Sealing, hydration and validation of schedules follow. As in the
  planner, the context is never cancelled and all comparisons are charged to a work budget.
\<close>

section \<open>Conflicts\<close>

fun intersectsBounded :: "string list \<Rightarrow> string list \<Rightarrow> workBudget \<Rightarrow> composition_error + bool \<times> workBudget" where
  "intersectsBounded (l # left) (r # right) budget =
     (case consume budget 1 of
        None \<Rightarrow> Inl errWorkLimit
      | Some budget \<Rightarrow>
          if l = r then Inr (True, budget)
          else if l < r then intersectsBounded left (r # right) budget
          else intersectsBounded (l # left) right budget)"
| "intersectsBounded _ _ budget = Inr (False, budget)"

fun conflict_loop :: "(string list \<times> string list) list \<Rightarrow> workBudget \<Rightarrow> composition_error + bool \<times> workBudget" where
  "conflict_loop [] budget = Inr (False, budget)"
| "conflict_loop ((left, right) # pairs) budget =
     res_bind (intersectsBounded left right budget) (\<lambda>(conflict, budget).
       if conflict then Inr (True, budget) else conflict_loop pairs budget)"

definition conflict_pairs :: "ParallelismFacts \<Rightarrow> ParallelismFacts \<Rightarrow> (string list \<times> string list) list" where
  "conflict_pairs left right =
     [(pf_PolicyMutexKeys left, pf_PolicyMutexKeys right),
      (pf_WriteResourceIDs left, pf_ReadResourceIDs right), (pf_WriteResourceIDs left, pf_WriteResourceIDs right),
      (pf_WriteResourceIDs right, pf_ReadResourceIDs left),
      (pf_ExclusiveResourceIDs left, pf_ReadResourceIDs right), (pf_ExclusiveResourceIDs left, pf_WriteResourceIDs right),
      (pf_ExclusiveResourceIDs left, pf_ExclusiveResourceIDs right),
      (pf_ExclusiveResourceIDs right, pf_ReadResourceIDs left), (pf_ExclusiveResourceIDs right, pf_WriteResourceIDs left)]"

definition parallelConflict :: "ParallelismFacts \<Rightarrow> ParallelismFacts \<Rightarrow> workBudget \<Rightarrow> composition_error + bool \<times> workBudget" where
  "parallelConflict left right budget =
     (case consume budget 1 of
        None \<Rightarrow> Inl errWorkLimit
      | Some budget \<Rightarrow>
          if pf_CompensationBoundary left \<or> pf_CompensationBoundary right \<or> pf_PolicySerial left \<or> pf_PolicySerial right
          then Inr (True, budget)
          else conflict_loop (conflict_pairs left right) budget)"

text \<open>A lookup in \<^verbatim>\<open>factsByVersion\<close>; a missing entry reads as the zero value.\<close>

definition facts_at :: "(string \<times> ParallelismFacts) list \<Rightarrow> string \<Rightarrow> ParallelismFacts" where
  "facts_at facts v = (case map_of facts v of Some f \<Rightarrow> f | None \<Rightarrow> pc_Parallelism zero_candidate)"

fun groupAccepts ::
  "string list \<Rightarrow> string \<Rightarrow> (string \<times> ParallelismFacts) list \<Rightarrow> workBudget \<Rightarrow> composition_error + bool \<times> workBudget" where
  "groupAccepts [] versionID facts budget = Inr (True, budget)"
| "groupAccepts (member # grp) versionID facts budget =
     res_bind (parallelConflict (facts_at facts member) (facts_at facts versionID) budget) (\<lambda>(conflict, budget).
       if conflict then Inr (False, budget) else groupAccepts grp versionID facts budget)"

section \<open>Validation of the inputs\<close>

definition maximumParallelPlanEdges :: nat where "maximumParallelPlanEdges = 32 * 31 div 2"

record parallelInput =
  px_budget :: workBudget
  px_entries :: uint64
  px_goals :: uint64
  px_facts :: "(string \<times> ParallelismFacts) list"
  px_candidates :: "Candidate list"

definition check_parallel_candidate ::
  "externals \<Rightarrow> PlannerManifestSpec \<Rightarrow> Plan \<Rightarrow> parallelInput \<Rightarrow> PlannerCandidate \<Rightarrow> composition_error + parallelInput" where
  "check_parallel_candidate ext spec plan st candidate =
     (let entries = of_nat (parallelEntryCount (pc_Parallelism candidate)) :: uint64;
          goalsCount = of_nat (length (pc_GoalPredicateIDs candidate)) :: uint64
      in if entries > ucast (pm_MaximumParallelEntries spec) \<or> px_entries st + entries > ucast (pm_MaximumTotalParallelEntries spec) \<or>
            goalsCount > ucast (pm_MaximumGoalPredicates spec) \<or> px_goals st + goalsCount > ucast (pm_MaximumTotalCandidateGoals spec)
         then Inl ErrInvalidParallelRequest
         else case consume (px_budget st) ((entries + goalsCount) * 2 + 1) of
           None \<Rightarrow> Inl errWorkLimit
         | Some budget \<Rightarrow>
             (case (normalizedIDs (pc_GoalPredicateIDs candidate) True, normalizedParallelism (pc_Parallelism candidate)) of
                (Some goals, Some parallelism) \<Rightarrow>
                  if BuildPlanningFactsHash ext
                       (planning_facts (candidate\<lparr>pc_GoalPredicateIDs := goals, pc_Parallelism := parallelism\<rparr>))
                       \<noteq> Inr (pc_PlanningFactsHash candidate) \<or> pc_PolicyManifestID candidate \<noteq> pl_PolicyManifestID plan
                  then Inl ErrInvalidParallelRequest
                  else if pc_VersionID candidate \<in> set (map fst (px_facts st)) then Inl ErrInvalidParallelRequest
                  else Inr (st\<lparr>px_budget := budget, px_entries := px_entries st + entries, px_goals := px_goals st + goalsCount,
                         px_facts := px_facts st @ [(pc_VersionID candidate, parallelism)],
                         px_candidates := px_candidates st @ [graph_candidate (pl_TenantID plan) candidate]\<rparr>)
              | _ \<Rightarrow> Inl ErrInvalidParallelRequest))"

text \<open>
  The loop over the edges of the graph: it keeps the recorded edges, in the order of the graph,
  and the recorded identifiers that it has not met yet.
\<close>

fun recorded_edges ::
  "string list \<Rightarrow> CompatibilityEdge list \<Rightarrow> string list \<Rightarrow> workBudget \<Rightarrow>
   composition_error + CompatibilityEdge list \<times> string list \<times> workBudget" where
  "recorded_edges selected [] edgeIDs budget = Inr ([], edgeIDs, budget)"
| "recorded_edges selected (edge # edges) edgeIDs budget =
     (case consume budget 1 of
        None \<Rightarrow> Inl errWorkLimit
      | Some budget \<Rightarrow>
          (let recorded = ce_ID edge \<in> set edgeIDs
           in if (ce_SourceVersionID edge \<in> set selected \<and> ce_TargetVersionID edge \<in> set selected) \<noteq> recorded
              then Inl ErrInvalidParallelRequest
              else if recorded
              then res_bind (recorded_edges selected edges (removeAll (ce_ID edge) edgeIDs) budget) (\<lambda>(selectedEdges, rest, budget).
                     Inr (edge # selectedEdges, rest, budget))
              else recorded_edges selected edges edgeIDs budget))"

definition parallel_plan_ok :: "externals \<Rightarrow> PlannerManifest \<Rightarrow> Plan \<Rightarrow> CompatibilityGraph \<Rightarrow> PlannerCandidate list \<Rightarrow> bool" where
  "parallel_plan_ok ext manifest plan graph candidates \<longleftrightarrow>
     (let spec = pn_Spec manifest
      in ValidatePlannerManifest ext manifest \<and> length (pl_Nodes plan) \<le> unat (pm_MaximumProcedures spec) \<and>
         length (pl_RequestedGoalPredicateIDs plan) \<le> unat (pm_MaximumGoalPredicates spec) \<and>
         length (pl_ExternallySatisfiedRequirementIDs plan) \<le> unat (pm_MaximumSatisfiedRequirements spec) \<and>
         length (pl_SatisfiedRequirementIDs plan) \<le> unat (pm_MaximumSatisfiedRequirements spec) + 32 * 1024 \<and>
         length (pl_ProducedResourceIDs plan) \<le> 32 * 1024 \<and>
         length (pl_CoveredGoalPredicateIDs plan) \<le> unat (pm_MaximumGoalPredicates spec) \<and>
         length (pl_SeedVersionIDs plan) \<le> unat (pm_MaximumCandidates spec) \<and>
         length (pl_CompatibilityEdgeIDs plan) \<le> maximumParallelPlanEdges \<and> pl_Gaps plan = [] \<and>
         length (pl_CanonicalJSON plan) \<le> 16777216 \<and> ValidatePlan ext plan \<and> pl_Complete plan \<and>
         pl_PlannerManifestID plan = pn_ID manifest \<and> pl_CompatibilityGraphID plan = cg_ID graph \<and>
         pl_CompatibilityGraphHash plan = cg_ContentHash graph \<and> pl_CandidateSetHash plan = cg_CandidateSetHash graph \<and>
         pl_CompatibilityMatrixHash plan = cg_MatrixHash graph \<and> pl_TenantID plan = cg_TenantID graph \<and>
         pl_ProjectionEpoch plan = cg_ProjectionEpoch graph \<and> cg_PlannerManifestID graph = pn_ID manifest \<and>
         pl_PolicyManifestID plan = cg_PolicyManifestID graph \<and> candidates \<noteq> [] \<and>
         length candidates \<le> unat (pm_MaximumCandidates spec))"

definition validateParallelInputs ::
  "externals \<Rightarrow> PlannerManifest \<Rightarrow> Plan \<Rightarrow> CompatibilityGraph \<Rightarrow> PlannerCandidate list \<Rightarrow> workBudget \<Rightarrow>
   composition_error + (string \<times> ParallelismFacts) list \<times> CompatibilityEdge list \<times> workBudget" where
  "validateParallelInputs ext manifest plan graph candidates budget =
     (if \<not> parallel_plan_ok ext manifest plan graph candidates then Inl ErrInvalidParallelRequest
      else case validateCompatibilityGraph ext graph (Some budget) of
        Inl e \<Rightarrow> if e = errWorkLimit then Inl e else Inl ErrInvalidParallelRequest
      | Inr None \<Rightarrow> Inl ErrInvalidParallelRequest
      | Inr (Some budget) \<Rightarrow>
          res_bind (res_fold (check_parallel_candidate ext (pn_Spec manifest) plan)
              \<lparr>px_budget = budget, px_entries = 0, px_goals = 0, px_facts = [], px_candidates = []\<rparr>
              (sort_slice planner_candidate_less candidates)) (\<lambda>st.
          if buildCandidateSetHash ext (px_candidates st) \<noteq> Inr (cg_CandidateSetHash graph) then Inl ErrInvalidParallelRequest
          else if \<not> list_all (\<lambda>n. no_VersionID n \<in> set (map fst (px_facts st))) (pl_Nodes plan) then Inl ErrInvalidParallelRequest
          else res_bind (recorded_edges (map no_VersionID (pl_Nodes plan)) (cg_Edges graph) (pl_CompatibilityEdgeIDs plan) (px_budget st))
            (\<lambda>(selectedEdges, rest, budget).
             if rest \<noteq> [] then Inl ErrInvalidParallelRequest else Inr (px_facts st, selectedEdges, budget))))"

section \<open>The groups\<close>

text \<open>\<^verbatim>\<open>position\<close>, with the zero value for a missing node; a later entry overwrites an earlier one.\<close>

definition position :: "PlanNode list \<Rightarrow> string \<Rightarrow> nat" where
  "position nodes v = (case map_of (rev (map (\<lambda>(index, n). (no_VersionID n, index)) (enumerate 0 nodes))) v of Some i \<Rightarrow> i | None \<Rightarrow> 0)"

definition predecessors :: "CompatibilityEdge list \<Rightarrow> string \<Rightarrow> string list" where
  "predecessors edges v = map ce_SourceVersionID (filter (\<lambda>e. ce_TargetVersionID e = v) edges)"

text \<open>The groups and \<^verbatim>\<open>groupByVersion\<close>, newest entry first.\<close>

record groupState =
  gs_groups :: "string list list"
  gs_byVersion :: "(string \<times> nat) list"
  gs_budget :: workBudget

definition group_index :: "(string \<times> nat) list \<Rightarrow> string \<Rightarrow> nat" where
  "group_index table v = (case map_of table v of Some i \<Rightarrow> i | None \<Rightarrow> 0)"

definition minimum_group :: "groupState \<Rightarrow> string list \<Rightarrow> nat" where
  "minimum_group st preds =
     foldl (\<lambda>m p. if group_index (gs_byVersion st) p + 1 > m then group_index (gs_byVersion st) p + 1 else m) 0 preds"

text \<open>The first of the groups from \<open>index\<close> on that accepts the version.\<close>

fun find_group ::
  "string \<Rightarrow> (string \<times> ParallelismFacts) list \<Rightarrow> nat \<Rightarrow> string list list \<Rightarrow> workBudget \<Rightarrow> composition_error + nat option \<times> workBudget" where
  "find_group versionID facts index [] budget = Inr (None, budget)"
| "find_group versionID facts index (grp # groups) budget =
     res_bind (groupAccepts grp versionID facts budget) (\<lambda>(accepts, budget).
       if accepts then Inr (Some index, budget) else find_group versionID facts (index + 1) groups budget)"

definition assign_group ::
  "(string \<times> ParallelismFacts) list \<Rightarrow> CompatibilityEdge list \<Rightarrow> groupState \<Rightarrow> PlanNode \<Rightarrow> composition_error + groupState" where
  "assign_group facts edges st node =
     (let v = no_VersionID node; minimumGroup = minimum_group st (predecessors edges v)
      in res_bind (find_group v facts minimumGroup (drop minimumGroup (gs_groups st)) (gs_budget st)) (\<lambda>(assigned, budget).
         case assigned of
           Some i \<Rightarrow> Inr (st\<lparr>gs_groups := (gs_groups st)[i := gs_groups st ! i @ [v]], gs_byVersion := (v, i) # gs_byVersion st,
                       gs_budget := budget\<rparr>)
         | None \<Rightarrow> Inr (st\<lparr>gs_groups := gs_groups st @ [[v]], gs_byVersion := (v, length (gs_groups st)) # gs_byVersion st,
                       gs_budget := budget\<rparr>)))"

section \<open>The schedule\<close>

record ParallelGroup =
  pg_SchemaVersion :: string
  pg_ID :: string
  pg_Ordinal :: uint32
  pg_PlanID :: string
  pg_NodeVersionIDs :: "string list"
  pg_ContentHash :: string
  pg_CanonicalJSON :: string

record ParallelSchedule =
  ps_SchemaVersion :: string
  ps_ID :: string
  ps_TenantID :: string
  ps_ProjectionEpoch :: uint64
  ps_PlanID :: string
  ps_PlanHash :: string
  ps_CompatibilityGraphID :: string
  ps_CompatibilityGraphHash :: string
  ps_PlannerManifestID :: string
  ps_PolicyManifestID :: string
  ps_Groups :: "ParallelGroup list"
  ps_ContentHash :: string
  ps_CanonicalJSON :: string

definition json_parallel_group :: "ParallelGroup \<Rightarrow> json" where
  "json_parallel_group g = JObj
     ([(''schema_version'', JStr (pg_SchemaVersion g))] @ omit_str ''id'' (pg_ID g) @
      [(''ordinal'', JNum (uint (pg_Ordinal g))), (''plan_id'', JStr (pg_PlanID g)),
       (''node_version_ids'', JArr (map JStr (pg_NodeVersionIDs g)))] @ omit_str ''content_hash'' (pg_ContentHash g))"

definition json_parallel_schedule :: "ParallelSchedule \<Rightarrow> json" where
  "json_parallel_schedule s = JObj
     ([(''schema_version'', JStr (ps_SchemaVersion s))] @ omit_str ''id'' (ps_ID s) @
      [(''tenant_id'', JStr (ps_TenantID s)), (''projection_epoch'', JNum (uint (ps_ProjectionEpoch s))),
       (''plan_id'', JStr (ps_PlanID s)), (''plan_hash'', JStr (ps_PlanHash s)),
       (''compatibility_graph_id'', JStr (ps_CompatibilityGraphID s)),
       (''compatibility_graph_hash'', JStr (ps_CompatibilityGraphHash s)),
       (''planner_manifest_id'', JStr (ps_PlannerManifestID s)), (''policy_manifest_id'', JStr (ps_PolicyManifestID s)),
       (''groups'', JArr (map json_parallel_group (ps_Groups s)))] @ omit_str ''content_hash'' (ps_ContentHash s))"

definition canonicalizeParallelGroup :: "externals \<Rightarrow> ParallelGroup \<Rightarrow> composition_error + ParallelGroup" where
  "canonicalizeParallelGroup ext grp =
     (let grp = grp\<lparr>pg_ID := [], pg_ContentHash := [], pg_CanonicalJSON := []\<rparr>
      in case MarshalAndHash ext (json_parallel_group grp) of
           Inl e \<Rightarrow> Inl (ErrCompositionEncoding e)
         | Inr (encoded, hash) \<Rightarrow>
             Inr (grp\<lparr>pg_ID := ''pgroup_'' @ hash, pg_ContentHash := hash, pg_CanonicalJSON := encoded\<rparr>))"

definition canonicalizeParallelSchedule :: "externals \<Rightarrow> ParallelSchedule \<Rightarrow> composition_error + ParallelSchedule" where
  "canonicalizeParallelSchedule ext schedule =
     (let schedule = schedule\<lparr>ps_ID := [], ps_ContentHash := [], ps_CanonicalJSON := []\<rparr>
      in case MarshalAndHash ext (json_parallel_schedule schedule) of
           Inl e \<Rightarrow> Inl (ErrCompositionEncoding e)
         | Inr (encoded, hash) \<Rightarrow>
             Inr (schedule\<lparr>ps_ID := ''psched_'' @ hash, ps_ContentHash := hash, ps_CanonicalJSON := encoded\<rparr>))"

definition group_of :: "Plan \<Rightarrow> nat \<Rightarrow> string list \<Rightarrow> ParallelGroup" where
  "group_of plan index versions = \<lparr>pg_SchemaVersion = ''parallel-group.v1'', pg_ID = [], pg_Ordinal = of_nat index, pg_PlanID = pl_ID plan,
     pg_NodeVersionIDs = versions, pg_ContentHash = [], pg_CanonicalJSON = []\<rparr>"

definition schedule_of :: "PlannerManifest \<Rightarrow> Plan \<Rightarrow> CompatibilityGraph \<Rightarrow> ParallelGroup list \<Rightarrow> ParallelSchedule" where
  "schedule_of manifest plan graph groups = \<lparr>ps_SchemaVersion = ''parallel-schedule.v1'', ps_ID = [], ps_TenantID = pl_TenantID plan,
     ps_ProjectionEpoch = pl_ProjectionEpoch plan, ps_PlanID = pl_ID plan, ps_PlanHash = pl_ContentHash plan,
     ps_CompatibilityGraphID = cg_ID graph, ps_CompatibilityGraphHash = cg_ContentHash graph, ps_PlannerManifestID = pn_ID manifest,
     ps_PolicyManifestID = pl_PolicyManifestID plan, ps_Groups = groups, ps_ContentHash = [], ps_CanonicalJSON = []\<rparr>"

definition DeriveParallelSchedule ::
  "externals \<Rightarrow> PlannerManifest \<Rightarrow> Plan \<Rightarrow> CompatibilityGraph \<Rightarrow> PlannerCandidate list \<Rightarrow> composition_error + ParallelSchedule" where
  "DeriveParallelSchedule ext manifest plan graph candidates =
     res_bind (validateParallelInputs ext manifest plan graph candidates \<lparr>used = 0, maximum = pm_MaximumWorkUnits (pn_Spec manifest)\<rparr>)
       (\<lambda>(facts, edges, budget).
        if \<not> list_all (\<lambda>e. position (pl_Nodes plan) (ce_SourceVersionID e) < position (pl_Nodes plan) (ce_TargetVersionID e)) edges
        then Inl ErrInvalidParallelRequest
        else res_bind (res_fold (assign_group facts edges) \<lparr>gs_groups = [], gs_byVersion = [], gs_budget = budget\<rparr> (pl_Nodes plan)) (\<lambda>st.
          res_bind (res_map (\<lambda>(index, versions). canonicalizeParallelGroup ext (group_of plan index versions)) (enumerate 0 (gs_groups st)))
            (\<lambda>groups. canonicalizeParallelSchedule ext (schedule_of manifest plan graph groups))))"

section \<open>Validation of a schedule\<close>

definition sealed_group :: "externals \<Rightarrow> ParallelGroup \<Rightarrow> bool" where
  "sealed_group ext g \<longleftrightarrow>
     MarshalAndHash ext (json_parallel_group (g\<lparr>pg_ID := [], pg_ContentHash := [], pg_CanonicalJSON := []\<rparr>)) =
       Inr (pg_CanonicalJSON g, pg_ContentHash g)"

text \<open>The check of one group, with the number of nodes in the groups before it.\<close>

definition group_shape :: "ParallelSchedule \<Rightarrow> nat \<Rightarrow> nat \<Rightarrow> ParallelGroup \<Rightarrow> bool" where
  "group_shape schedule index totalNodes g \<longleftrightarrow>
     pg_SchemaVersion g = ''parallel-group.v1'' \<and> pg_Ordinal g = of_nat index \<and> pg_PlanID g = ps_PlanID schedule \<and>
     pg_ID g = ''pgroup_'' @ pg_ContentHash g \<and> hashPattern (pg_ContentHash g) \<and> length (pg_CanonicalJSON g) \<le> 1048576 \<and>
     pg_NodeVersionIDs g \<noteq> [] \<and> length (pg_NodeVersionIDs g) \<le> 32 \<and> totalNodes \<le> 32 - length (pg_NodeVersionIDs g) \<and>
     list_all safeIdentity (pg_NodeVersionIDs g)"

fun group_shapes :: "ParallelSchedule \<Rightarrow> nat \<Rightarrow> nat \<Rightarrow> ParallelGroup list \<Rightarrow> bool" where
  "group_shapes schedule index totalNodes [] \<longleftrightarrow> True"
| "group_shapes schedule index totalNodes (g # groups) \<longleftrightarrow>
     group_shape schedule index totalNodes g \<and> group_shapes schedule (index + 1) (totalNodes + length (pg_NodeVersionIDs g)) groups"

definition ValidateParallelSchedule :: "externals \<Rightarrow> ParallelSchedule \<Rightarrow> bool" where
  "ValidateParallelSchedule ext s \<longleftrightarrow>
     ps_SchemaVersion s = ''parallel-schedule.v1'' \<and> ps_ID s = ''psched_'' @ ps_ContentHash s \<and> hashPattern (ps_ContentHash s) \<and>
     safeIdentity (ps_TenantID s) \<and> ps_ProjectionEpoch s \<noteq> 0 \<and> ps_PlanID s = ''plan_'' @ ps_PlanHash s \<and> hashPattern (ps_PlanHash s) \<and>
     ps_CompatibilityGraphID s = ''cgraph_'' @ ps_CompatibilityGraphHash s \<and> hashPattern (ps_CompatibilityGraphHash s) \<and>
     safeIdentity (ps_PlannerManifestID s) \<and> safeIdentity (ps_PolicyManifestID s) \<and> ps_Groups s \<noteq> [] \<and> length (ps_Groups s) \<le> 32 \<and>
     length (ps_CanonicalJSON s) \<le> 16777216 \<and> group_shapes s 0 0 (ps_Groups s) \<and>
     MarshalAndHash ext (json_parallel_schedule (s\<lparr>ps_ID := [], ps_ContentHash := [], ps_CanonicalJSON := []\<rparr>)) =
       Inr (ps_CanonicalJSON s, ps_ContentHash s) \<and>
     list_all (sealed_group ext) (ps_Groups s) \<and> distinct (concat (map pg_NodeVersionIDs (ps_Groups s)))"

definition hydrate_group :: "externals \<Rightarrow> ParallelGroup \<Rightarrow> composition_error + ParallelGroup" where
  "hydrate_group ext g =
     (case MarshalAndHash ext (json_parallel_group (g\<lparr>pg_ID := [], pg_ContentHash := [], pg_CanonicalJSON := []\<rparr>)) of
        Inl _ \<Rightarrow> Inl ErrInvalidParallelRequest
      | Inr (encoded, hash) \<Rightarrow>
          if pg_ID g \<noteq> ''pgroup_'' @ hash \<or> pg_ContentHash g \<noteq> hash then Inl ErrInvalidParallelRequest
          else Inr (g\<lparr>pg_CanonicalJSON := encoded\<rparr>))"

definition HydrateParallelSchedule :: "externals \<Rightarrow> ParallelSchedule \<Rightarrow> composition_error + ParallelSchedule" where
  "HydrateParallelSchedule ext source =
     res_bind (res_map (hydrate_group ext) (ps_Groups source)) (\<lambda>groups.
     let schedule = source\<lparr>ps_Groups := groups\<rparr>
     in case MarshalAndHash ext (json_parallel_schedule (schedule\<lparr>ps_ID := [], ps_ContentHash := [], ps_CanonicalJSON := []\<rparr>)) of
          Inl _ \<Rightarrow> Inl ErrInvalidParallelRequest
        | Inr (encoded, hash) \<Rightarrow>
            if ps_ID schedule \<noteq> ''psched_'' @ hash \<or> ps_ContentHash schedule \<noteq> hash then Inl ErrInvalidParallelRequest
            else let schedule = schedule\<lparr>ps_CanonicalJSON := encoded\<rparr>
              in if ValidateParallelSchedule ext schedule then Inr schedule else Inl ErrInvalidParallelRequest)"

end
