(* ===== verification/Beam_Search.thy ===== *)
theory Beam_Search
  imports Planner
begin

text \<open>
  The search of \<^verbatim>\<open>PlanProcedures\<close> as a client of the function that builds a state. The interface
  says what the search relies on: a state knows its set of nodes, and a set of nodes stays
  admissible when an adjacent version is added to one that is below the bound. Inside it, every
  state that the search keeps or returns was built from an admissible set, only the four limit
  codes occur, and the best state is at least as good as everything that was kept.
\<close>

definition limit_codes :: "string set" where
  "limit_codes = {''beam_truncated'', ''depth_exhausted'', ''expansion_budget_exhausted'', ''work_budget_exhausted''}"

lemma limit_codes_iff:
  "c \<in> limit_codes \<longleftrightarrow> c = ''beam_truncated'' \<or> c = ''depth_exhausted'' \<or> c = ''expansion_budget_exhausted'' \<or> c = ''work_budget_exhausted''"
  unfolding limit_codes_def insert_iff empty_iff by (simp only: simp_thms)

lemma limit_codes_members [simp]:
  "''beam_truncated'' \<in> limit_codes" "''depth_exhausted'' \<in> limit_codes" "''expansion_budget_exhausted'' \<in> limit_codes"
  "''work_budget_exhausted'' \<in> limit_codes"
  unfolding limit_codes_iff by simp_all

section \<open>The order of states\<close>

definition state_key :: "searchState \<Rightarrow> bool \<times> int \<times> int \<times> bool \<times> int \<times> uint64 \<times> uint64 \<times> nat \<times> string" where
  "state_key st = (let p = st_plan st in
     (\<not> pl_Complete p, - int (length (pl_CoveredGoalPredicateIDs p)), - sint (pl_EvidenceStrength p), \<not> pl_AllObservedEndToEnd p,
      - int (length (pl_SatisfiedRequirementIDs p)), pl_RiskCost p, pl_ToolCost p, length (pl_Nodes p), st_hash st))"

interpretation state_order: keyed_order betterState state_key
proof
  fix x y
  show "betterState x y \<longleftrightarrow> state_key x < state_key y"
    unfolding betterState_def state_key_def Let_def
    by (cases "pl_Complete (st_plan x)"; cases "pl_Complete (st_plan y)";
        cases "pl_AllObservedEndToEnd (st_plan x)"; cases "pl_AllObservedEndToEnd (st_plan y)")
       (auto simp: less_prod_def sint64_inject not_less less_le)
qed

section \<open>Invariants of the search\<close>

definition built ::
  "(string list \<Rightarrow> workBudget \<Rightarrow> (composition_error + searchState) \<times> workBudget) \<Rightarrow> (string list \<Rightarrow> bool) \<Rightarrow> searchState \<Rightarrow> bool" where
  "built build good st \<longleftrightarrow> (\<exists>ns b b'. good ns \<and> build ns b = (Inr st, b'))"

text \<open>The best state is at least as good as the states that are kept.\<close>

definition leads :: "beam \<Rightarrow> searchState \<Rightarrow> bool" where
  "leads bm st \<longleftrightarrow> (\<exists>best. bm_best bm = Some best \<and> state_key best \<le> state_key st)"

definition beam_inv ::
  "(string list \<Rightarrow> workBudget \<Rightarrow> (composition_error + searchState) \<times> workBudget) \<Rightarrow> (string list \<Rightarrow> bool) \<Rightarrow> beam \<Rightarrow> bool" where
  "beam_inv build good bm \<longleftrightarrow>
     (\<forall>st \<in> set (bm_states bm). built build good st \<and> leads bm st) \<and> (\<forall>st. bm_best bm = Some st \<longrightarrow> built build good st) \<and>
     set (bm_limits bm) \<subseteq> limit_codes"

lemma beam_inv_cong:
  assumes "beam_inv build good bm" "bm_states bm' = bm_states bm" "bm_best bm' = bm_best bm" "bm_limits bm' = bm_limits bm"
  shows "beam_inv build good bm'"
  using assms by (simp add: beam_inv_def leads_def)

lemma limit_simps [simp]:
  "bm_states (limit c bm) = bm_states bm" "bm_best (limit c bm) = bm_best bm" "bm_exhausted (limit c bm) = bm_exhausted bm"
  "bm_expansions (limit c bm) = bm_expansions bm" "set (bm_limits (limit c bm)) = insert c (set (bm_limits bm))"
  by (simp_all add: limit_def)

lemma beam_inv_limit: "beam_inv build good bm \<Longrightarrow> c \<in> limit_codes \<Longrightarrow> beam_inv build good (limit c bm)"
  by (simp add: beam_inv_def leads_def)

lemma keep_state_simps [simp]:
  "bm_states (keep_state st bm) = bm_states bm @ [st]" "bm_limits (keep_state st bm) = bm_limits bm"
  "bm_exhausted (keep_state st bm) = bm_exhausted bm"
  by (simp_all add: keep_state_def)

lemma keep_state_leads:
  "leads (keep_state st bm) st" "leads bm s \<Longrightarrow> leads (keep_state st bm) s"
  by (auto simp: leads_def keep_state_def state_order.less_key split: option.splits if_splits)

lemma keep_state_best: "bm_best (keep_state st bm) = Some s \<Longrightarrow> s = st \<or> bm_best bm = Some s"
  by (auto simp: keep_state_def split: option.splits if_splits)

lemma beam_inv_keep: "beam_inv build good bm \<Longrightarrow> built build good st \<Longrightarrow> beam_inv build good (keep_state st bm)"
  using keep_state_leads keep_state_best by (fastforce simp: beam_inv_def)

lemma truncate_beam_simps:
  "set (bm_states (truncate_beam spec bm)) \<subseteq> set (bm_states bm)" "bm_best (truncate_beam spec bm) = bm_best bm"
  "set (bm_limits (truncate_beam spec bm)) \<subseteq> insert ''beam_truncated'' (set (bm_limits bm))"
  "set (bm_limits bm) \<subseteq> set (bm_limits (truncate_beam spec bm))" "bm_exhausted (truncate_beam spec bm) = bm_exhausted bm"
  by (auto simp: truncate_beam_def sortStates_def Let_def dest: in_set_takeD)

lemma beam_inv_truncate: "beam_inv build good bm \<Longrightarrow> beam_inv build good (truncate_beam spec bm)"
  using truncate_beam_simps(1) [where spec = spec and bm = bm] truncate_beam_simps(3) [where spec = spec and bm = bm]
    limit_codes_members(1) by (fastforce simp: beam_inv_def leads_def truncate_beam_simps(2))

lemma adjacent_loop_Inr:
  assumes "adjacent_loop nodes edges b = (Inr vs, b')" "v \<in> set vs"
  shows "v \<notin> set nodes \<and> (\<exists>e \<in> set edges. v = ce_SourceVersionID e \<or> v = ce_TargetVersionID e)"
  using assms by (induction nodes edges b arbitrary: vs b' rule: adjacent_loop.induct)
    (fastforce split: option.splits prod.splits sum.splits if_splits simp: Let_def)+

locale beam_search =
  fixes build :: "string list \<Rightarrow> workBudget \<Rightarrow> (composition_error + searchState) \<times> workBudget"
    and edges :: "CompatibilityEdge list"
    and good :: "string list \<Rightarrow> bool"
    and bound :: nat
  assumes build_nodes: "build ns b = (Inr st, b') \<Longrightarrow> st_nodeSet st = ns"
    and good_insert: "good ns \<Longrightarrow> length ns < bound \<Longrightarrow> v \<notin> set ns \<Longrightarrow>
      (\<exists>e \<in> set edges. v = ce_SourceVersionID e \<or> v = ce_TargetVersionID e) \<Longrightarrow> good (List.insert v ns)"
begin

lemma seed_loop_inv:
  assumes "seed_loop build cs bm = Inr bm'" "beam_inv build good bm" "\<And>c. c \<in> set cs \<Longrightarrow> pc_Seed c \<Longrightarrow> good [pc_VersionID c]"
  shows "beam_inv build good bm' \<and> (\<forall>st. leads bm st \<longrightarrow> leads bm' st) \<and> bm_exhausted bm' = bm_exhausted bm"
  using assms
proof (induction cs arbitrary: bm)
  case (Cons c cs)
  have good: "good [pc_VersionID d]" if "d \<in> set cs" "pc_Seed d" for d using Cons.prems(3) that by simp
  show ?case
  proof (cases "pc_Seed c")
    case False
    then show ?thesis using Cons.IH [OF _ Cons.prems(2) good] Cons.prems(1) by simp
  next
    case seed: True
    show ?thesis
    proof (cases "consume (bm_budget bm) 1")
      case None
      then show ?thesis using Cons.prems(1,2) seed by (auto simp: beam_inv_limit leads_def)
    next
      case (Some b)
      obtain r b' where r: "build [pc_VersionID c] b = (r, b')" by fastforce
      let ?bm = "bm\<lparr>bm_budget := b'\<rparr>"
      have keep: "beam_inv build good ?bm" using Cons.prems(2) by (rule beam_inv_cong) simp_all
      have same: "leads ?bm st = leads bm st" for st by (simp add: leads_def)
      show ?thesis
      proof (cases r)
        case (Inr st)
        have "built build good st" using r Inr Cons.prems(3) [of c] seed by (auto simp: built_def)
        from Cons.IH [OF _ beam_inv_keep [OF keep this] good] show ?thesis
          using Cons.prems(1) seed Some r Inr keep_state_leads(2) [of ?bm] same by simp
      next
        case (Inl e)
        then show ?thesis using Cons.IH [OF _ keep good] Cons.prems(1) seed Some r same by (simp split: if_splits)
      qed
    qed
  qed
qed simp

lemma expand_versions_inv:
  assumes "expand_versions build m state vs bm = Inr bm'" "beam_inv build good bm"
    and "\<And>v. v \<in> set vs \<Longrightarrow> good (List.insert v (st_nodeSet state))"
  shows "beam_inv build good bm' \<and> (\<forall>st. leads bm st \<longrightarrow> leads bm' st)"
  using assms
proof (induction vs arbitrary: bm)
  case (Cons v vs)
  have good: "good (List.insert u (st_nodeSet state))" if "u \<in> set vs" for u using Cons.prems(3) that by simp
  show ?case
  proof (cases "bm_expansions bm \<ge> m")
    case True
    then show ?thesis using Cons.prems(1,2) by (auto simp: beam_inv_limit leads_def)
  next
    case False
    obtain r b' where r: "build (List.insert v (st_nodeSet state)) (bm_budget bm) = (r, b')" by fastforce
    let ?bm = "bm\<lparr>bm_expansions := bm_expansions bm + 1, bm_budget := b'\<rparr>"
    have keep: "beam_inv build good ?bm" using Cons.prems(2) by (rule beam_inv_cong) simp_all
    have same: "leads ?bm st = leads bm st" for st by (simp add: leads_def)
    show ?thesis
    proof (cases r)
      case (Inr st)
      have "built build good st" using r Inr Cons.prems(3) [of v] by (auto simp: built_def)
      note kept = beam_inv_keep [OF keep this]
      show ?thesis
      proof (cases "st_hash st \<in> set (bm_seen bm)")
        case True
        then show ?thesis using Cons.IH [OF _ keep good] Cons.prems(1) False r Inr same by simp
      next
        case new: False
        then show ?thesis using Cons.IH [OF _ kept good] Cons.prems(1) False r Inr keep_state_leads(2) [of ?bm] same by simp
      qed
    next
      case (Inl e)
      have stop: "beam_inv build good (limit ''work_budget_exhausted'' (?bm\<lparr>bm_exhausted := True\<rparr>))"
        by (rule beam_inv_limit [OF beam_inv_cong [OF keep]]) simp_all
      show ?thesis
      proof (cases "e = errWorkLimit")
        case True
        then have "bm' = limit ''work_budget_exhausted'' (bm\<lparr>bm_expansions := bm_expansions bm + 1, bm_budget := b', bm_exhausted := True\<rparr>)"
          using Cons.prems(1) False r Inl by simp
        then show ?thesis using stop by (simp add: leads_def)
      next
        case other: False
        then show ?thesis using Cons.IH [OF _ keep good] Cons.prems(1) False r Inl same by (simp split: if_splits)
      qed
    qed
  qed
qed simp

lemma adjacent_good:
  assumes "adjacentVersions edges (st_nodeSet state) b = (Inr vs, b')" "built build good state" "length (st_nodeSet state) < bound" "v \<in> set vs"
  shows "good (List.insert v (st_nodeSet state))"
proof -
  obtain us where "adjacent_loop (st_nodeSet state) edges b = (Inr us, b')" "vs = sorted_keys us"
    using assms(1) by (auto simp: adjacentVersions_def split: prod.splits sum.splits)
  then have "v \<notin> set (st_nodeSet state) \<and> (\<exists>e \<in> set edges. v = ce_SourceVersionID e \<or> v = ce_TargetVersionID e)"
    using adjacent_loop_Inr assms(4) by simp
  moreover have "good (st_nodeSet state)" using assms(2) build_nodes by (auto simp: built_def)
  ultimately show ?thesis using good_insert assms(3) by blast
qed

lemma expand_frontier_inv:
  assumes "expand_frontier build edges spec states bm = Inr bm'" "beam_inv build good bm" "\<forall>st \<in> set states. built build good st"
    and "unat (pm_MaximumProcedures spec) = bound"
  shows "beam_inv build good bm' \<and> (\<forall>st. leads bm st \<longrightarrow> leads bm' st)"
  using assms(1-3)
proof (induction states arbitrary: bm)
  case (Cons state states)
  show ?case
  proof (cases "bm_expansions bm \<ge> pm_MaximumExpansions spec")
    case True
    then show ?thesis using Cons.prems(1,2) by (auto simp: beam_inv_limit leads_def)
  next
    case go: False
    show ?thesis
    proof (cases "pl_Complete (st_plan state) \<or> length (st_nodeSet state) \<ge> unat (pm_MaximumProcedures spec)")
      case True
      then show ?thesis using Cons.IH [OF _ Cons.prems(2)] Cons.prems(1,3) go by simp
    next
      case False
      obtain r b' where r: "adjacentVersions edges (st_nodeSet state) (bm_budget bm) = (r, b')" by fastforce
      have keep: "beam_inv build good (bm\<lparr>bm_budget := b'\<rparr>)" using Cons.prems(2) by (rule beam_inv_cong) simp_all
      have stop: "beam_inv build good (limit ''work_budget_exhausted'' (bm\<lparr>bm_budget := b', bm_exhausted := True\<rparr>))"
        by (rule beam_inv_limit [OF beam_inv_cong [OF Cons.prems(2)]]) simp_all
      show ?thesis
      proof (cases r)
        case (Inl e)
        then have "bm' = limit ''work_budget_exhausted'' (bm\<lparr>bm_budget := b', bm_exhausted := True\<rparr>)"
          using Cons.prems(1) go False r by (simp split: if_splits)
        then show ?thesis using stop by (simp add: leads_def)
      next
        case (Inr vs)
        then obtain bm1 where 1: "expand_versions build (pm_MaximumExpansions spec) state vs (bm\<lparr>bm_budget := b'\<rparr>) = Inr bm1"
          "(if bm_exhausted bm1 then Inr bm1 else expand_frontier build edges spec states bm1) = Inr bm'"
          using Cons.prems(1) go False r by auto
        have "good (List.insert v (st_nodeSet state))" if "v \<in> set vs" for v
          using adjacent_good [OF r [unfolded Inr]] Cons.prems(3) False assms(4) that by auto
        then have inv: "beam_inv build good bm1 \<and> (\<forall>st. leads bm st \<longrightarrow> leads bm1 st)"
          using expand_versions_inv [OF 1(1) keep] by (simp add: leads_def)
        then show ?thesis using Cons.IH [of bm1] 1(2) Cons.prems(3) by (auto split: if_splits)
      qed
    qed
  qed
qed simp

lemma depth_loop_inv:
  assumes "depth_loop build edges spec rounds bm = Inr bm'" "beam_inv build good bm" "unat (pm_MaximumProcedures spec) = bound"
  shows "beam_inv build good bm' \<and> (\<forall>st. leads bm st \<longrightarrow> leads bm' st)"
  using assms(1,2)
proof (induction rounds arbitrary: bm)
  case (Suc rounds)
  show ?case
  proof (cases "bm_states bm = [] \<or> bm_exhausted bm")
    case True
    then show ?thesis using Suc.prems by auto
  next
    case False
    then obtain nx where nx: "expand_frontier build edges spec (bm_states bm) (bm\<lparr>bm_states := []\<rparr>) = Inr nx"
      "(if bm_exhausted nx then Inr (nx\<lparr>bm_states := bm_states bm\<rparr>)
        else if bm_expansions (truncate_beam spec nx) \<ge> pm_MaximumExpansions spec
          then Inr (limit ''expansion_budget_exhausted'' (truncate_beam spec nx))
        else depth_loop build edges spec rounds (truncate_beam spec nx)) = Inr bm'"
      using Suc.prems(1) False unfolding depth_loop.simps Let_def by auto
    have old: "\<forall>st \<in> set (bm_states bm). built build good st \<and> leads bm st" using Suc.prems(2) by (simp add: beam_inv_def)
    have start: "beam_inv build good (bm\<lparr>bm_states := []\<rparr>)" using Suc.prems(2) by (simp add: beam_inv_def)
    have inv: "beam_inv build good nx" "\<forall>st. leads bm st \<longrightarrow> leads nx st"
      using expand_frontier_inv [OF nx(1) start _ assms(3)] old by (simp_all add: leads_def)
    note t = beam_inv_truncate [OF inv(1), of spec]
    have lead: "leads (truncate_beam spec nx) st = leads nx st" for st by (simp add: leads_def truncate_beam_simps)
    show ?thesis
    proof (cases "bm_exhausted nx")
      case True
      then have "bm' = nx\<lparr>bm_states := bm_states bm\<rparr>" using nx(2) by simp
      then show ?thesis using inv old by (simp add: beam_inv_def leads_def)
    next
      case False
      show ?thesis
      proof (cases "bm_expansions (truncate_beam spec nx) \<ge> pm_MaximumExpansions spec")
        case True
        then have "bm' = limit ''expansion_budget_exhausted'' (truncate_beam spec nx)" using nx(2) False by simp
        then show ?thesis using beam_inv_limit [OF t] inv(2) lead by (simp add: leads_def)
      next
        case more: False
        then show ?thesis using Suc.IH [OF _ t] nx(2) False inv(2) lead by simp
      qed
    qed
  qed
qed simp

end

end
