(* ===== verification/Compatibility_Graph.thy ===== *)
theory Compatibility_Graph
  imports Compatibility
begin

text \<open>
  What the compatibility graph promises: the binary search over the rules decides membership, the
  merge over the predicates decides inclusion, a matrix and a graph that were built are accepted
  by their validators, and the edges of a graph are exactly the pairs of versions of which one
  provides what the other requires.
\<close>

section \<open>The rules\<close>

definition rule_key :: "SchemaCompatibility \<Rightarrow> string \<times> string \<times> string \<times> string" where
  "rule_key r = (sc_ResourceType r, sc_Namespace r, sc_ProvidedSchema r, sc_RequiredSchema r)"

lemma rule_key_inject: "rule_key a = rule_key b \<longleftrightarrow> a = b"
  by (cases a; cases b) (auto simp: rule_key_def)

lemma compareCompatibility_cases:
  "compareCompatibility a b < 0 \<longleftrightarrow> rule_key a < rule_key b"
  "compareCompatibility a b \<ge> 0 \<longleftrightarrow> rule_key b \<le> rule_key a"
  "compareCompatibility a b = 0 \<longleftrightarrow> a = b"
proof -
  show l: "compareCompatibility a b < 0 \<longleftrightarrow> rule_key a < rule_key b"
    by (auto simp: compareCompatibility_def rule_key_def less_prod_def')
  show "compareCompatibility a b \<ge> 0 \<longleftrightarrow> rule_key b \<le> rule_key a"
    using l by (simp add: linorder_not_less [symmetric])
  show "compareCompatibility a b = 0 \<longleftrightarrow> a = b"
    by (cases a; cases b) (auto simp: compareCompatibility_def)
qed

interpretation rule_order: keyed_order rule_less rule_key
  by unfold_locales (simp add: rule_less_def compareCompatibility_cases)

interpretation candidate_order: keyed_order candidate_less ca_ProcedureVersionID
  by unfold_locales (simp add: candidate_less_def)

interpretation match_order: keyed_order match_less mt_pair
  by unfold_locales (auto simp: match_less_def less_prod_def)

interpretation edge_order: keyed_order edge_less ce_ID
  by unfold_locales (simp add: edge_less_def)

lemma adjacent_equal_sorted:
  assumes "sorted (map rule_key rs)" "\<not> adjacent_equal rs"
  shows "strictly_sorted (map rule_key rs)"
  using assms by (induction rs rule: adjacent_equal.induct)
    (auto simp: compareCompatibility_cases order.strict_iff_order rule_key_inject)

lemma strictly_sorted_no_adjacent:
  assumes "strictly_sorted (map rule_key rs)" shows "\<not> adjacent_equal rs"
  using assms by (induction rs rule: adjacent_equal.induct) (auto simp: compareCompatibility_cases)

lemma normalizeCompatibility_Inr:
  assumes "normalizeCompatibility ext source = Inr (rules, hash)"
  shows "strictly_sorted (map rule_key rules)" "list_all (\<lambda>r. trim_rule r = r \<and> \<not> bad_rule r) rules" "length rules \<le> 4096"
    "hash \<noteq> [] \<or> \<not> digest32 ext" "rules = sort_slice rule_less (map trim_rule source)"
    "\<exists>c. MarshalAndHash ext (JArr (map json_rule rules)) = Inr (c, hash)"
proof -
  have idem: "trim_rule (trim_rule r) = trim_rule r" for r by (simp add: trim_rule_def)
  have n: "length source \<le> 4096" "\<not> list_ex bad_rule (map trim_rule source)" "\<not> adjacent_equal rules"
    and r: "rules = sort_slice rule_less (map trim_rule source)"
    and h: "\<exists>c. MarshalAndHash ext (JArr (map json_rule rules)) = Inr (c, hash)"
    using assms by (auto simp: normalizeCompatibility_def Let_def split: if_splits)
  show "rules = sort_slice rule_less (map trim_rule source)" "\<exists>c. MarshalAndHash ext (JArr (map json_rule rules)) = Inr (c, hash)"
    by (fact r, fact h)
  show "strictly_sorted (map rule_key rules)"
    using n(3) rule_order.keys_sorted by (simp add: r adjacent_equal_sorted)
  show "list_all (\<lambda>r. trim_rule r = r \<and> \<not> bad_rule r) rules" "length rules \<le> 4096"
    using n(1,2) by (auto simp: r list_all_iff list_ex_iff idem)
  show "hash \<noteq> [] \<or> \<not> digest32 ext" using h MarshalAndHash_pattern hashPattern_nonempty by blast
qed

lemma normalizeCompatibility_stable:
  assumes "normalizeCompatibility ext source = Inr (rules, hash)"
  shows "normalizeCompatibility ext rules = Inr (rules, hash)"
proof -
  note n = normalizeCompatibility_Inr [OF assms]
  have t: "map trim_rule rules = rules" using n(2) by (simp add: list_all_iff map_idI)
  have "sort_slice rule_less rules = rules"
    using n(1) by (intro rule_order.sort_slice_id) (auto simp: strictly_sorted_iff sorted_wrt_map rule_order.less_key
        elim!: sorted_wrt_mono_rel [rotated])
  moreover obtain c where "MarshalAndHash_c ext (JArr (map json_rule rules)) = Inr (c, hash)" using n(6) by auto
  moreover have "\<not> list_ex bad_rule rules" using n(2) by (auto simp: list_ex_iff list_all_iff)
  ultimately show ?thesis using n(3) strictly_sorted_no_adjacent [OF n(1)]
    by (simp add: normalizeCompatibility_def t)
qed

text \<open>\<^verbatim>\<open>sort.Search\<close> returns the first index at which a monotone test holds.\<close>

lemma search_between_first:
  assumes "i \<le> j" "j \<le> n" "\<And>h k. h \<le> k \<Longrightarrow> k < n \<Longrightarrow> f h \<Longrightarrow> f k"
    and "\<And>h. h < i \<Longrightarrow> \<not> f h" "\<And>h. j \<le> h \<Longrightarrow> h < n \<Longrightarrow> f h"
  shows "search_between f i j \<le> n \<and> (\<forall>h < search_between f i j. \<not> f h) \<and> (\<forall>h. search_between f i j \<le> h \<and> h < n \<longrightarrow> f h)"
  using assms
proof (induction f i j rule: search_between.induct)
  case (1 f i j)
  show ?case
  proof (cases "i < j")
    case False
    then have "search_between f i j = i" by (simp add: search_between.simps [of f i j])
    then show ?thesis using False 1(3-7) by auto
  next
    case True
    let ?h = "(i + j) div 2"
    have h: "?h < j" "i \<le> ?h" "?h + 1 \<le> j" "?h \<le> n" using True 1(4) by auto
    show ?thesis
    proof (cases "f ?h")
      case True
      have step: "search_between f i j = search_between f i ?h"
        using True \<open>i < j\<close> by (subst search_between.simps) (simp add: Let_def)
      have "f k" if "?h \<le> k" "k < n" for k using 1(5) [OF that] True by blast
      then show ?thesis unfolding step using True \<open>i < j\<close> h
        by (intro 1(2) [OF _ refl]) (simp_all only: not_not, rule 1(5), assumption+, rule 1(6))
    next
      case False
      have step: "search_between f i j = search_between f (?h + 1) j"
        using False \<open>i < j\<close> by (subst search_between.simps) (simp add: Let_def)
      have "\<not> f k" if "k < ?h + 1" for k using 1(5) [of k ?h] False that h(1) 1(4) by fastforce
      then show ?thesis unfolding step using False \<open>i < j\<close> h(3) 1(4)
        by (intro 1(1) [OF _ refl]) (simp_all only: not_False_eq_True, rule 1(5), assumption+, rule 1(7))
    qed
  qed
qed

lemma explicitlyCompatible_iff:
  assumes "strictly_sorted (map rule_key rules)"
  shows "explicitlyCompatible provision requirement rules \<longleftrightarrow>
    \<lparr>sc_ResourceType = pv_ResourceType provision, sc_Namespace = pv_Namespace provision,
     sc_ProvidedSchema = pv_SchemaVersion provision, sc_RequiredSchema = rq_SchemaVersion requirement\<rparr> \<in> set rules"
    (is "_ \<longleftrightarrow> ?key \<in> _")
proof -
  let ?f = "\<lambda>i. compareCompatibility (rules ! i) ?key \<ge> 0"
  define k where "k = sort_Search (length rules) ?f"
  have sorted: "sorted (map rule_key rules)" using assms by (simp add: strictly_sorted_sorted_distinct)
  have mono: "?f j" if "i \<le> j" "j < length rules" "?f i" for i j
  proof -
    have "rule_key (rules ! i) \<le> rule_key (rules ! j)" using sorted_nth_mono [OF sorted that(1)] that by simp
    with that(3) show ?thesis unfolding compareCompatibility_cases(2) by (rule order_trans)
  qed
  have "k \<le> length rules \<and> (\<forall>h<k. \<not> ?f h) \<and> (\<forall>h. k \<le> h \<and> h < length rules \<longrightarrow> ?f h)"
    unfolding k_def sort_Search_def
    by (rule search_between_first) (rule le0, rule order_refl, rule mono, assumption+, simp_all only: not_less0 linorder_not_le)
  then have k: "k \<le> length rules" "\<forall>h<k. \<not> ?f h" "\<forall>h. k \<le> h \<and> h < length rules \<longrightarrow> ?f h" by blast+
  have "?key \<in> set rules \<longleftrightarrow> k < length rules \<and> rules ! k = ?key"
  proof
    assume "?key \<in> set rules"
    then obtain i where i: "i < length rules" "rules ! i = ?key" by (auto simp: in_set_conv_nth)
    have "?f i" by (simp add: compareCompatibility_cases(2) i)
    then have "k \<le> i" using k(2) not_less by blast
    then have "k < length rules" using i(1) by simp
    moreover have "rule_key ?key \<le> rule_key (rules ! k)"
      using k(3) \<open>k < length rules\<close> by (simp only: compareCompatibility_cases(2) order_refl)
    moreover have "rule_key (rules ! k) \<le> rule_key (rules ! i)"
      using sorted_nth_mono [OF sorted, of k i] \<open>k \<le> i\<close> i(1) by simp
    ultimately show "k < length rules \<and> rules ! k = ?key"
      using i(2) by (simp only: rule_key_inject [symmetric] order_antisym)
  qed (auto simp: in_set_conv_nth)
  then show ?thesis
    by (simp add: explicitlyCompatible_def k_def [symmetric] compareCompatibility_cases(3))
qed

lemma predicateGuaranteesCover_iff:
  assumes "sorted provided" "sorted required"
  shows "predicateGuaranteesCover provided required \<longleftrightarrow> set required \<subseteq> set provided"
  using assms
proof (induction provided required rule: predicateGuaranteesCover.induct)
  case (2 provided q required)
  let ?rest = "dropWhile (\<lambda>p. p < q) provided"
  have s: "sorted ?rest" using 2(2) by (metis sorted_append takeWhile_dropWhile_id)
  have low: "p \<in> set ?rest" if "p \<in> set provided" "q \<le> p" for p
    using that by (induction provided) auto
  have first: "q \<in> set provided \<longleftrightarrow> ?rest \<noteq> [] \<and> hd ?rest = q"
  proof
    assume "q \<in> set provided"
    then have "q \<in> set ?rest" using low by simp
    moreover from this have "\<not> hd ?rest < q" by (metis hd_dropWhile list.distinct(1) list.set_cases)
    ultimately show "?rest \<noteq> [] \<and> hd ?rest = q" using s by (cases ?rest) auto
  next
    assume "?rest \<noteq> [] \<and> hd ?rest = q"
    then show "q \<in> set provided" by (metis list.set_sel(1) set_dropWhileD)
  qed
  have "set required \<subseteq> set provided \<longleftrightarrow> set required \<subseteq> set ?rest"
    using low 2(3) by (auto dest: set_dropWhileD)
  then show ?case using 2(1) [OF refl _ s] 2(3) first by (auto simp: Let_def)
qed simp

section \<open>The index\<close>

type_synonym comparison = "(Candidate \<times> ProcedureRequirement) \<times> provisionReference"

definition provision_resource :: "ProcedureProvision \<Rightarrow> resourceIdentity" where
  "provision_resource p = (pv_ResourceType p, pv_Namespace p, pv_IdentityHash p)"

definition requirement_resource :: "ProcedureRequirement \<Rightarrow> resourceIdentity" where
  "requirement_resource r = (rq_ResourceType r, rq_Namespace r, rq_IdentityHash r)"

definition all_provisions :: "Candidate list \<Rightarrow> provisionReference list" where
  "all_provisions cs = concat (map (\<lambda>c. map (Pair c) (pi_Provisions (ca_Interface c))) cs)"

definition all_requirements :: "Candidate list \<Rightarrow> (Candidate \<times> ProcedureRequirement) list" where
  "all_requirements cs = concat (map (\<lambda>c. map (Pair c) (pi_Requirements (ca_Interface c))) cs)"

lemma set_all_provisions [simp]:
  "(c, p) \<in> set (all_provisions cs) \<longleftrightarrow> c \<in> set cs \<and> p \<in> set (pi_Provisions (ca_Interface c))"
  by (auto simp: all_provisions_def)

lemma set_all_requirements [simp]:
  "(c, r) \<in> set (all_requirements cs) \<longleftrightarrow> c \<in> set cs \<and> r \<in> set (pi_Requirements (ca_Interface c))"
  by (auto simp: all_requirements_def)

lemma index_providers:
  assumes "res_fold (\<lambda>m s. res_fold (add_provider limits s) m (pi_Provisions (ca_Interface s))) (\<lambda>_. []) cs = Inr m"
  shows "m key = filter (\<lambda>(s, p). pv_SchemaVersion p \<noteq> [] \<and> provision_resource p = key) (all_provisions cs)"
proof -
  have "res_fold (\<lambda>m (s, p). add_provider limits s m p) (\<lambda>_. []) (all_provisions cs) = Inr m"
    using assms by (simp add: res_fold_nested all_provisions_def)
  then show ?thesis
  proof (rule res_fold_prefix_induct)
    fix ys y u v
    assume "u key = filter (\<lambda>(s, p). pv_SchemaVersion p \<noteq> [] \<and> provision_resource p = key) ys"
      "(case y of (s, p) \<Rightarrow> add_provider limits s u p) = Inr v"
    then show "v key = filter (\<lambda>(s, p). pv_SchemaVersion p \<noteq> [] \<and> provision_resource p = key) (ys @ [y])"
      by (cases y) (auto simp: add_provider_def provision_resource_def Let_def split: if_splits)
  qed simp
qed

text \<open>A comparison that leads to an edge.\<close>

definition accepted :: "SchemaCompatibility list \<Rightarrow> comparison \<Rightarrow> bool" where
  "accepted rules = (\<lambda>((target, r), (source, p)).
     ca_ProcedureVersionID source \<noteq> ca_ProcedureVersionID target \<and>
     (pv_SchemaVersion p = rq_SchemaVersion r \<or> explicitlyCompatible p r rules) \<and>
     predicateGuaranteesCover (pv_SuccessPredicateIDs p) (rq_PredicateIDs r))"

definition hit_pair :: "comparison \<Rightarrow> string \<times> string" where
  "hit_pair h = (ca_ProcedureVersionID (fst (snd h)), ca_ProcedureVersionID (fst (fst h)))"

definition hit_provision :: "comparison \<Rightarrow> string" where
  "hit_provision h = pv_ID (snd (snd h))"

definition hit_requirement :: "comparison \<Rightarrow> string" where
  "hit_requirement h = rq_ID (snd (fst h))"

lemmas hit_defs = hit_pair_def hit_provision_def hit_requirement_def

text \<open>The matches after the accepted comparisons \<open>hs\<close>: one entry for each pair of versions, with
  the identifiers of exactly the accepted comparisons of that pair.\<close>

definition match_of :: "comparison set \<Rightarrow> compatibilityMatch \<Rightarrow> bool" where
  "match_of H m \<longleftrightarrow>
     (\<exists>h \<in> H. mt_source m = fst (snd h) \<and> mt_target m = fst (fst h)) \<and>
     set (mt_provisionIDs m) = hit_provision ` {h \<in> H. hit_pair h = mt_pair m} \<and>
     set (mt_requirementIDs m) = hit_requirement ` {h \<in> H. hit_pair h = mt_pair m}"

definition matches_of :: "comparison set \<Rightarrow> compatibilityMatch list \<Rightarrow> bool" where
  "matches_of H ms \<longleftrightarrow> distinct (map mt_pair ms) \<and> mt_pair ` set ms = hit_pair ` H \<and> (\<forall>m \<in> set ms. match_of H m)"

lemma match_of_other:
  assumes "match_of H m" "hit_pair h \<noteq> mt_pair m" shows "match_of (insert h H) m"
proof -
  have "{g \<in> insert h H. hit_pair g = mt_pair m} = {g \<in> H. hit_pair g = mt_pair m}" using assms(2) by auto
  then show ?thesis using assms(1) by (auto simp: match_of_def)
qed

lemma match_of_put:
  assumes "match_of H m" "hit_pair h = mt_pair m"
  shows "match_of (insert h H) (m\<lparr>mt_provisionIDs := List.insert (hit_provision h) (mt_provisionIDs m),
           mt_requirementIDs := List.insert (hit_requirement h) (mt_requirementIDs m)\<rparr>)" (is "match_of _ ?m")
proof -
  have "mt_pair ?m = mt_pair m" by (simp add: mt_pair_def)
  moreover have "{g \<in> insert h H. hit_pair g = mt_pair m} = insert h {g \<in> H. hit_pair g = mt_pair m}" using assms(2) by auto
  ultimately show ?thesis using assms(1) by (auto simp: match_of_def)
qed

lemma record_match_step:
  assumes "matches_of H ms" "record_match (s, p) t r limits ms = Inr ms'"
  shows "matches_of (insert ((t, r), (s, p)) H) ms'"
proof -
  let ?h = "((t, r), (s, p)) :: comparison"
  let ?put = "\<lambda>m. m\<lparr>mt_provisionIDs := List.insert (hit_provision ?h) (mt_provisionIDs m),
                     mt_requirementIDs := List.insert (hit_requirement ?h) (mt_requirementIDs m)\<rparr>"
  have put_pair: "mt_pair (?put m) = mt_pair m" for m by (simp add: mt_pair_def)
  show ?thesis
  proof (cases "hit_pair ?h \<in> set (map mt_pair ms)")
    case True
    then have ms': "ms' = map (\<lambda>m. if mt_pair m = hit_pair ?h then ?put m else m) ms"
      using assms(2) by (auto simp: record_match_def hit_defs Let_def)
    have pairs: "map mt_pair ms' = map mt_pair ms" by (simp add: ms' put_pair)
    have "match_of (insert ?h H) m'" if m': "m' \<in> set ms'" for m'
    proof -
      obtain m where "m \<in> set ms" "m' = (if mt_pair m = hit_pair ?h then ?put m else m)" using m' by (auto simp: ms')
      then show ?thesis using assms(1) match_of_put [of H m ?h] match_of_other [of H m ?h]
        by (cases "mt_pair m = hit_pair ?h") (simp_all add: matches_of_def)
    qed
    moreover have "mt_pair ` set ms' = hit_pair ` insert ?h H"
      using True assms(1) pairs by (auto simp: matches_of_def simp flip: set_map)
    ultimately show ?thesis using assms(1) by (simp add: matches_of_def pairs)
  next
    case False
    let ?new = "\<lparr>mt_source = s, mt_target = t, mt_provisionIDs = [hit_provision ?h], mt_requirementIDs = [hit_requirement ?h]\<rparr>"
    have ms': "ms' = ms @ [?new]"
      using False assms(2) by (auto simp: record_match_def hit_defs Let_def split: if_splits)
    have new: "mt_pair ?new = hit_pair ?h" by (simp add: mt_pair_def hit_defs)
    have "hit_pair ?h \<notin> hit_pair ` H" using False assms(1) by (simp add: matches_of_def)
    then have "hit_pair g \<noteq> hit_pair ?h" if "g \<in> H" for g using that by (metis imageI)
    then have "{g \<in> insert ?h H. hit_pair g = hit_pair ?h} = {?h}" by blast
    then have "match_of (insert ?h H) ?new" by (simp add: match_of_def new)
    moreover have "match_of (insert ?h H) m" if "m \<in> set ms" for m
      using that False assms(1) by (intro match_of_other) (auto simp: matches_of_def)
    ultimately show ?thesis using False assms(1) new by (auto simp: matches_of_def ms')
  qed
qed

lemma record_match_length:
  assumes "record_match (s, p) t r limits ms = Inr ms'" "length ms \<le> unat (cl_MaximumEdges limits)"
  shows "length ms' \<le> unat (cl_MaximumEdges limits)"
  using assms by (auto simp: record_match_def Let_def split: if_splits)

text \<open>All comparisons that the nested loops make.\<close>

definition all_comparisons :: "Candidate list \<Rightarrow> comparison list" where
  "all_comparisons cs = concat (map (\<lambda>(t, r). map (Pair (t, r))
     (if rq_SchemaVersion r = [] then []
      else filter (\<lambda>(s, p). pv_SchemaVersion p \<noteq> [] \<and> provision_resource p = requirement_resource r) (all_provisions cs)))
     (all_requirements cs))"

lemma set_all_comparisons:
  "((t, r), (s, p)) \<in> set (all_comparisons cs) \<longleftrightarrow>
     t \<in> set cs \<and> r \<in> set (pi_Requirements (ca_Interface t)) \<and> s \<in> set cs \<and> p \<in> set (pi_Provisions (ca_Interface s)) \<and>
     rq_SchemaVersion r \<noteq> [] \<and> pv_SchemaVersion p \<noteq> [] \<and> provision_resource p = requirement_resource r"
  by (auto simp: all_comparisons_def intro!: bexI [where x = "(t, r)"])

lemma index_loop_flat:
  assumes "\<And>key. byResource key = filter (\<lambda>(s, p). pv_SchemaVersion p \<noteq> [] \<and> provision_resource p = key) (all_provisions cs)"
  shows "res_fold (\<lambda>state target. res_fold (\<lambda>state requirement.
             if rq_SchemaVersion requirement = [] then Inr state
             else res_fold (compare_reference rules limits target requirement) state
               (byResource (rq_ResourceType requirement, rq_Namespace requirement, rq_IdentityHash requirement)))
           state (pi_Requirements (ca_Interface target))) s0 cs =
         res_fold (\<lambda>state ((t, r), ref). compare_reference rules limits t r state ref) s0 (all_comparisons cs)"
proof -
  let ?refs = "\<lambda>r. if rq_SchemaVersion r = [] then [] else byResource (requirement_resource r)"
  have step: "(if rq_SchemaVersion r = [] then Inr state
             else res_fold (compare_reference rules limits t r) state
               (byResource (rq_ResourceType r, rq_Namespace r, rq_IdentityHash r))) =
        res_fold (compare_reference rules limits t r) state (?refs r)" for t r state
    by (simp add: requirement_resource_def)
  have "all_comparisons cs = concat (map (\<lambda>x. map (Pair x) (?refs (snd x))) (all_requirements cs))"
    by (auto simp: all_comparisons_def assms intro!: arg_cong [where f = concat] map_cong)
  then show ?thesis
    unfolding step
      res_fold_nested [where g = "\<lambda>t state r. res_fold (compare_reference rules limits t r) state (?refs r)"
        and h = "\<lambda>t. pi_Requirements (ca_Interface t)"]
      all_requirements_def [symmetric] case_prod_beta
      res_fold_nested [where g = "\<lambda>x. compare_reference rules limits (fst x) (snd x)" and h = "\<lambda>x. ?refs (snd x)"]
    by simp
qed

lemma index_matches:
  assumes "indexCompatibilityMatches cs rules limits = Inr ms"
  shows "matches_of {h \<in> set (all_comparisons cs). accepted rules h} ms" "length ms \<le> unat (cl_MaximumEdges limits)"
proof -
  let ?inv = "\<lambda>hs state. matches_of {h \<in> set hs. accepted rules h} (snd state) \<and> length (snd state) \<le> unat (cl_MaximumEdges limits)"
  obtain byResource c where b: "res_fold (\<lambda>m s. res_fold (add_provider limits s) m (pi_Provisions (ca_Interface s))) (\<lambda>_. []) cs = Inr byResource"
    and loop: "res_fold (\<lambda>state ((t, r), ref). compare_reference rules limits t r state ref) (0, []) (all_comparisons cs) = Inr (c, ms)"
  proof -
    obtain byResource where b: "res_fold (\<lambda>m s. res_fold (add_provider limits s) m (pi_Provisions (ca_Interface s))) (\<lambda>_. []) cs = Inr byResource"
      using assms unfolding indexCompatibilityMatches_def res_bind_eq_Inr by blast
    from assms obtain c where
      "res_fold (\<lambda>state ((t, r), ref). compare_reference rules limits t r state ref) (0, []) (all_comparisons cs) = Inr (c, ms)"
      unfolding indexCompatibilityMatches_def b res_bind_simps index_loop_flat [OF index_providers [OF b]] res_bind_eq_Inr by auto
    with b show thesis by (rule that)
  qed
  have "?inv (all_comparisons cs) (c, ms)" using loop
  proof (rule res_fold_prefix_induct [where P = ?inv])
    fix hs h and u v :: "uint64 \<times> compatibilityMatch list"
    assume inv: "?inv hs u" and step: "(\<lambda>((t, r), ref). compare_reference rules limits t r u ref) h = Inr v"
    obtain t r s p where h: "h = ((t, r), (s, p))" by (metis prod.exhaust)
    show "?inv (hs @ [h]) v"
    proof (cases "accepted rules h")
      case True
      then have "record_match (s, p) t r limits (snd u) = Inr (snd v)"
        using step by (auto simp: h accepted_def compare_reference_def Let_def split: if_splits)
      moreover have "{g \<in> set (hs @ [h]). accepted rules g} = insert h {g \<in> set hs. accepted rules g}" using True by auto
      moreover note inv
      ultimately show ?thesis using record_match_step [of _ "snd u" s p t r limits "snd v"]
          record_match_length [of s p t r limits "snd u" "snd v"] by (simp add: h)
    next
      case False
      then have "snd v = snd u"
        using step by (auto simp: h accepted_def compare_reference_def Let_def split: if_splits)
      moreover have "{g \<in> set (hs @ [h]). accepted rules g} = {g \<in> set hs. accepted rules g}" using False by auto
      ultimately show ?thesis using inv by simp
    qed
  qed (simp add: matches_of_def)
  then show "matches_of {h \<in> set (all_comparisons cs). accepted rules h} ms" "length ms \<le> unat (cl_MaximumEdges limits)"
    by simp_all
qed

section \<open>The graph that is built\<close>

definition graph_base :: "GraphRequest \<Rightarrow> string \<Rightarrow> CompatibilityGraph" where
  "graph_base request candidateSetHash =
     \<lparr>cg_SchemaVersion = ''compatibility-graph.v1'', cg_ID = [], cg_TenantID = gr_TenantID request,
      cg_ProjectionEpoch = gr_ProjectionEpoch request, cg_PlannerManifestID = TrimSpace (gr_PlannerManifestID request),
      cg_PolicyManifestID = TrimSpace (gr_PolicyManifestID request), cg_MatrixHash = cm_ContentHash (gr_Matrix request),
      cg_CandidateSetHash = candidateSetHash, cg_Edges = [], cg_ContentHash = [], cg_CanonicalJSON = []\<rparr>"

lemma BuildCompatibilityGraph_Inr:
  assumes "BuildCompatibilityGraph ext request = Inr g"
  obtains csh ms edges c h where
    "gr_TenantID request \<noteq> []" "gr_ProjectionEpoch request \<noteq> 0" "TrimSpace (gr_PlannerManifestID request) \<noteq> []"
    "TrimSpace (gr_PolicyManifestID request) \<noteq> []" "ValidateCompatibilityMatrix ext (gr_Matrix request)"
    "valid_candidates ext request"
    "buildCandidateSetHash ext (sort_slice candidate_less (gr_Candidates request)) = Inr csh"
    "indexCompatibilityMatches (sort_slice candidate_less (gr_Candidates request)) (cm_Rules (gr_Matrix request))
       (cm_Limits (gr_Matrix request)) = Inr ms"
    "list_all2 (\<lambda>m e. identified_edge ext (edge_of_match (graph_base request csh) m) = Inr e) (sort_slice match_less ms) edges"
    "MarshalAndHash ext (json_graph ((graph_base request csh)\<lparr>cg_Edges := sort_slice edge_less edges\<rparr>)) = Inr (c, h)"
    "g = (graph_base request csh)\<lparr>cg_Edges := sort_slice edge_less edges, cg_ID := ''cgraph_'' @ h, cg_ContentHash := h,
       cg_CanonicalJSON := c\<rparr>"
proof -
  have guards: "gr_TenantID request \<noteq> []" "gr_ProjectionEpoch request \<noteq> 0" "TrimSpace (gr_PlannerManifestID request) \<noteq> []"
    "TrimSpace (gr_PolicyManifestID request) \<noteq> []" "ValidateCompatibilityMatrix ext (gr_Matrix request)"
    "\<not> length (gr_Candidates request) > unat (cl_MaximumCandidates (cm_Limits (gr_Matrix request)))" "valid_candidates ext request"
    using assms unfolding BuildCompatibilityGraph_def by (metis sum.distinct(1))+
  then have "res_bind (buildCandidateSetHash ext (sort_slice candidate_less (gr_Candidates request))) (\<lambda>csh.
       res_bind (indexCompatibilityMatches (sort_slice candidate_less (gr_Candidates request)) (cm_Rules (gr_Matrix request))
         (cm_Limits (gr_Matrix request))) (\<lambda>matches.
       res_bind (res_map (\<lambda>m. identified_edge ext (edge_of_match (graph_base request csh) m)) (sort_slice match_less matches)) (\<lambda>edges.
       res_bind (MarshalAndHash_c ext (json_graph ((graph_base request csh)\<lparr>cg_Edges := sort_slice edge_less edges\<rparr>))) (\<lambda>(c, h).
          Inr ((graph_base request csh)\<lparr>cg_Edges := sort_slice edge_less edges, cg_ID := ''cgraph_'' @ h, cg_ContentHash := h,
            cg_CanonicalJSON := c\<rparr>))))) = Inr g"
    using assms unfolding BuildCompatibilityGraph_def Let_def graph_base_def by simp
  then show thesis
    unfolding res_bind_eq_Inr res_map_Inr_iff MarshalAndHash_c_Inr using that guards by (auto split: prod.splits)
qed

lemma identified_edge_Inr:
  assumes "identified_edge ext e = Inr e'"
  obtains c h where "MarshalAndHash ext (json_edge e) = Inr (c, h)" "e' = e\<lparr>ce_ID := ''cedge_'' @ h, ce_ContentHash := h\<rparr>"
  using assms by (auto simp: identified_edge_def split: prod.splits)

text \<open>What it means that a provision meets a requirement.\<close>

definition provides :: "SchemaCompatibility list \<Rightarrow> ProcedureProvision \<Rightarrow> ProcedureRequirement \<Rightarrow> bool" where
  "provides rules p r \<longleftrightarrow>
     pv_SchemaVersion p \<noteq> [] \<and> rq_SchemaVersion r \<noteq> [] \<and> pv_ResourceType p = rq_ResourceType r \<and>
     pv_Namespace p = rq_Namespace r \<and> pv_IdentityHash p = rq_IdentityHash r \<and>
     (pv_SchemaVersion p = rq_SchemaVersion r \<or>
      \<lparr>sc_ResourceType = pv_ResourceType p, sc_Namespace = pv_Namespace p, sc_ProvidedSchema = pv_SchemaVersion p,
       sc_RequiredSchema = rq_SchemaVersion r\<rparr> \<in> set rules) \<and>
     set (rq_PredicateIDs r) \<subseteq> set (pv_SuccessPredicateIDs p)"

lemma valid_matrix_rules:
  assumes "ValidateCompatibilityMatrix ext m" shows "strictly_sorted (map rule_key (cm_Rules m))"
  using assms by (auto simp: ValidateCompatibilityMatrix_def dest: normalizeCompatibility_Inr(1) split: sum.splits)

lemma valid_candidates_member:
  assumes "valid_candidates ext request" "c \<in> set (gr_Candidates request)"
  shows "validCandidate ext c (gr_TenantID request)"
  using assms by (auto simp: valid_candidates_def list_all_iff Let_def)

lemma validCandidate_sorted:
  assumes "validCandidate ext c tenant"
  shows "p \<in> set (pi_Provisions (ca_Interface c)) \<Longrightarrow> sorted (pv_SuccessPredicateIDs p)"
    "r \<in> set (pi_Requirements (ca_Interface c)) \<Longrightarrow> sorted (rq_PredicateIDs r)"
  using assms by (auto simp: validCandidate_def ValidateProcedureInterface_def list_all_iff valid_provision_def valid_requirement_def
      strictDocumentStrings_def strictly_sorted_sorted_distinct)

lemma accepted_comparison_iff:
  assumes "ValidateCompatibilityMatrix ext (gr_Matrix request)" "valid_candidates ext request"
    and "cs = sort_slice candidate_less (gr_Candidates request)" "rules = cm_Rules (gr_Matrix request)"
  shows "((t, r), (s, p)) \<in> {h \<in> set (all_comparisons cs). accepted rules h} \<longleftrightarrow>
     t \<in> set (gr_Candidates request) \<and> r \<in> set (pi_Requirements (ca_Interface t)) \<and>
     s \<in> set (gr_Candidates request) \<and> p \<in> set (pi_Provisions (ca_Interface s)) \<and>
     ca_ProcedureVersionID s \<noteq> ca_ProcedureVersionID t \<and> provides rules p r"
proof -
  have "explicitlyCompatible p r rules \<longleftrightarrow> \<lparr>sc_ResourceType = pv_ResourceType p, sc_Namespace = pv_Namespace p,
      sc_ProvidedSchema = pv_SchemaVersion p, sc_RequiredSchema = rq_SchemaVersion r\<rparr> \<in> set rules"
    using explicitlyCompatible_iff valid_matrix_rules [OF assms(1)] assms(4) by simp
  moreover have "predicateGuaranteesCover (pv_SuccessPredicateIDs p) (rq_PredicateIDs r) \<longleftrightarrow>
      set (rq_PredicateIDs r) \<subseteq> set (pv_SuccessPredicateIDs p)"
    if "t \<in> set (gr_Candidates request)" "r \<in> set (pi_Requirements (ca_Interface t))"
      "s \<in> set (gr_Candidates request)" "p \<in> set (pi_Provisions (ca_Interface s))"
    using that valid_candidates_member [OF assms(2)] validCandidate_sorted predicateGuaranteesCover_iff by metis
  ultimately show ?thesis
    by (auto simp: set_all_comparisons assms(3) accepted_def provides_def provision_resource_def requirement_resource_def)
qed

lemma image_fibre: "y \<in> f ` A \<longleftrightarrow> {x \<in> A. f x = y} \<noteq> {}"
  by auto

abbreviation edge_ends :: "CompatibilityEdge \<Rightarrow> string \<times> string" where
  "edge_ends e \<equiv> (ce_SourceVersionID e, ce_TargetVersionID e)"

lemma edges_of_matches:
  assumes "list_all2 (\<lambda>m e. identified_edge ext (edge_of_match b m) = Inr e) ms edges"
  shows "map edge_ends edges = map mt_pair ms"
    and "e \<in> set edges \<Longrightarrow> \<exists>m \<in> set ms. identified_edge ext (edge_of_match b m) = Inr e \<and> edge_ends e = mt_pair m \<and>
      set (ce_SourceProvisionIDs e) = set (mt_provisionIDs m) \<and> set (ce_SatisfiedRequirementIDs e) = set (mt_requirementIDs m)"
  using assms
proof (induction rule: list_all2_induct)
  case (Cons m ms e' edges)
  {
    case 1
    show ?case using Cons by (auto simp: edge_of_match_def mt_pair_def elim: identified_edge_Inr)
  next
    case 2
    then show ?case using Cons by (auto simp: edge_of_match_def mt_pair_def elim!: identified_edge_Inr)
  }
qed simp_all

lemma strictPrefixed_sorted_keys:
  assumes "vs \<noteq> []" "\<And>v. v \<in> set vs \<Longrightarrow> \<exists>h. hashPattern h \<and> v = prefix @ h" "prefix \<noteq> []"
  shows "strictPrefixed (sorted_keys vs) prefix"
  using assms by (fastforce simp: strictPrefixed_def strictSorted_def list_all_iff hashPattern_def)

lemma identified_hash:
  assumes "digest32 ext" "identified ext prefix v ident" shows "\<exists>h. hashPattern h \<and> ident = prefix @ h"
  using assms MarshalAndHash_pattern by (auto simp: identified_def split: sum.splits)

lemma validCandidate_ids:
  assumes "digest32 ext" "validCandidate ext c tenant"
  shows "p \<in> set (pi_Provisions (ca_Interface c)) \<Longrightarrow> \<exists>h. hashPattern h \<and> pv_ID p = ''prov_'' @ h"
    "r \<in> set (pi_Requirements (ca_Interface c)) \<Longrightarrow> \<exists>h. hashPattern h \<and> rq_ID r = ''req_'' @ h"
    "hashPattern (pi_ContentHash (ca_Interface c))" "ca_ProcedureVersionID c \<noteq> []" "\<not> contains_nul (ca_ProcedureVersionID c)"
proof -
  have i: "ValidateProcedureInterface ext (ca_Interface c)" "safeIdentity (ca_ProcedureVersionID c)"
    using assms(2) by (simp_all add: validCandidate_def)
  show "\<exists>h. hashPattern h \<and> pv_ID p = ''prov_'' @ h" if "p \<in> set (pi_Provisions (ca_Interface c))"
    using i(1) that by (intro identified_hash [OF assms(1)]) (auto simp: ValidateProcedureInterface_def valid_provision_def list_all_iff)
  show "\<exists>h. hashPattern h \<and> rq_ID r = ''req_'' @ h" if "r \<in> set (pi_Requirements (ca_Interface c))"
    using i(1) that by (intro identified_hash [OF assms(1)]) (auto simp: ValidateProcedureInterface_def valid_requirement_def list_all_iff)
  show "hashPattern (pi_ContentHash (ca_Interface c))" using i(1) by (simp add: ValidateProcedureInterface_def)
  show "ca_ProcedureVersionID c \<noteq> []" "\<not> contains_nul (ca_ProcedureVersionID c)" using i(2) by (simp_all add: safeIdentity_def)
qed

lemma match_ids:
  assumes "digest32 ext" "match_of H m"
    and H: "\<And>t r s p. ((t, r), (s, p)) \<in> H \<Longrightarrow> validCandidate ext t tenant \<and> validCandidate ext s tenant \<and>
      r \<in> set (pi_Requirements (ca_Interface t)) \<and> p \<in> set (pi_Provisions (ca_Interface s)) \<and>
      ca_ProcedureVersionID s \<noteq> ca_ProcedureVersionID t"
  shows "validCandidate ext (mt_source m) tenant" "validCandidate ext (mt_target m) tenant"
    "ca_ProcedureVersionID (mt_source m) \<noteq> ca_ProcedureVersionID (mt_target m)"
    "strictPrefixed (sorted_keys (mt_provisionIDs m)) ''prov_''" "mt_provisionIDs m \<noteq> []"
    "strictPrefixed (sorted_keys (mt_requirementIDs m)) ''req_''" "mt_requirementIDs m \<noteq> []"
proof -
  obtain t r s p where h: "((t, r), (s, p)) \<in> H" "mt_source m = s" "mt_target m = t"
    using assms(2) by (auto simp: match_of_def)
  then show "validCandidate ext (mt_source m) tenant" "validCandidate ext (mt_target m) tenant"
    "ca_ProcedureVersionID (mt_source m) \<noteq> ca_ProcedureVersionID (mt_target m)" using H by auto
  have "hit_pair ((t, r), (s, p)) = mt_pair m" by (simp add: hit_pair_def mt_pair_def h)
  then have "{h \<in> H. hit_pair h = mt_pair m} \<noteq> {}" using h(1) by blast
  then have "set (mt_provisionIDs m) \<noteq> {}" "set (mt_requirementIDs m) \<noteq> {}"
    using assms(2) unfolding match_of_def by (simp_all only: image_is_empty not_False_eq_True)
  then show n: "mt_provisionIDs m \<noteq> []" "mt_requirementIDs m \<noteq> []" by auto
  have "\<exists>h. hashPattern h \<and> v = ''prov_'' @ h" if on: "v \<in> set (mt_provisionIDs m)" for v
  proof -
    obtain t r s p where "((t, r), (s, p)) \<in> H" "v = hit_provision ((t, r), (s, p))"
      using on assms(2) by (auto simp: match_of_def)
    with H [of t r s p] validCandidate_ids(1) [OF assms(1), of s tenant p] show ?thesis by (simp add: hit_provision_def)
  qed
  then show "strictPrefixed (sorted_keys (mt_provisionIDs m)) ''prov_''" using n by (intro strictPrefixed_sorted_keys) auto
  have "\<exists>h. hashPattern h \<and> v = ''req_'' @ h" if on: "v \<in> set (mt_requirementIDs m)" for v
  proof -
    obtain t r s p where "((t, r), (s, p)) \<in> H" "v = hit_requirement ((t, r), (s, p))"
      using on assms(2) by (auto simp: match_of_def)
    with H [of t r s p] validCandidate_ids(2) [OF assms(1), of t tenant r] show ?thesis by (simp add: hit_requirement_def)
  qed
  then show "strictPrefixed (sorted_keys (mt_requirementIDs m)) ''req_''" using n by (intro strictPrefixed_sorted_keys) auto
qed

lemma edge_built_valid:
  assumes "digest32 ext" "identified_edge ext (edge_of_match b m) = Inr e"
    and "validCandidate ext (mt_source m) tenant" "validCandidate ext (mt_target m) tenant"
    and "ca_ProcedureVersionID (mt_source m) \<noteq> ca_ProcedureVersionID (mt_target m)"
    and "strictPrefixed (sorted_keys (mt_provisionIDs m)) ''prov_''" "mt_provisionIDs m \<noteq> []"
    and "strictPrefixed (sorted_keys (mt_requirementIDs m)) ''req_''" "mt_requirementIDs m \<noteq> []"
    and "cg_TenantID g = cg_TenantID b" "cg_ProjectionEpoch g = cg_ProjectionEpoch b"
    and "cg_PlannerManifestID g = cg_PlannerManifestID b" "cg_PolicyManifestID g = cg_PolicyManifestID b"
  shows "validateCompatibilityEdge ext e g"
proof -
  obtain c h where h: "MarshalAndHash ext (json_edge (edge_of_match b m)) = Inr (c, h)"
    "e = (edge_of_match b m)\<lparr>ce_ID := ''cedge_'' @ h, ce_ContentHash := h\<rparr>" using assms(2) by (rule identified_edge_Inr)
  have "e\<lparr>ce_ID := [], ce_ContentHash := []\<rparr> = edge_of_match b m" by (simp add: h(2) edge_of_match_def)
  then have "identified ext [] (json_edge (e\<lparr>ce_ID := [], ce_ContentHash := []\<rparr>)) h" by (simp only: identified_def h(1)) simp
  then show ?thesis
    using assms MarshalAndHash_pattern [OF assms(1) h(1)] validCandidate_ids [OF assms(1,3)] validCandidate_ids [OF assms(1,4)]
    by (simp add: validateCompatibilityEdge_def h(2) edge_of_match_def)
qed

lemma matrix_built_valid:
  assumes "digest32 ext" "BuildCompatibilityMatrixWithLimits ext source limits = Inr m"
  shows "ValidateCompatibilityMatrix ext m"
proof -
  obtain rules nh where n: "validCompatibilityLimits limits" "normalizeCompatibility ext source = Inr (rules, nh)"
    using assms(2) unfolding BuildCompatibilityMatrixWithLimits_def by (auto split: if_splits)
  let ?m = "\<lparr>cm_SchemaVersion = ''compatibility-matrix.v1'', cm_ID = [], cm_Rules = rules, cm_Limits = limits,
    cm_ContentHash = [], cm_CanonicalJSON = []\<rparr>"
  obtain c h where h: "MarshalAndHash ext (json_matrix ?m) = Inr (c, h)"
    "m = ?m\<lparr>cm_ID := ''cmat_'' @ h, cm_ContentHash := h, cm_CanonicalJSON := c\<rparr>"
    using assms(2) n unfolding BuildCompatibilityMatrixWithLimits_def by (auto simp: Let_def)
  then show ?thesis
    using n(1) normalizeCompatibility_stable [OF n(2)] normalizeCompatibility_Inr(4) [OF n(2)] assms(1)
      MarshalAndHash_pattern [OF assms(1) h(1)]
    by (simp add: ValidateCompatibilityMatrix_def)
qed

section \<open>A sample graph\<close>

definition sample_hash :: string where "sample_hash = replicate 64 CHR ''a''"

definition sample_requirement :: ProcedureRequirement where
  "sample_requirement = \<lparr>rq_ID = [], rq_ResourceType = ''t'', rq_Namespace = ''n'', rq_IdentityHash = sample_hash,
     rq_SchemaVersion = ''s'', rq_AccessMode = ''read'', rq_PredicateIDs = [''p'']\<rparr>"

definition sample_provision :: ProcedureProvision where
  "sample_provision = \<lparr>pv_ID = [], pv_ResourceType = ''t'', pv_Namespace = ''n'', pv_IdentityHash = sample_hash,
     pv_SchemaVersion = ''s'', pv_ProducedEffects = [], pv_SuccessPredicateIDs = [''p'']\<rparr>"

definition sample_interface :: "ProcedureRequirement list \<Rightarrow> ProcedureProvision list \<Rightarrow> ProcedureInterface" where
  "sample_interface rs ps = (case NewProcedureInterface sample_externals rs ps of
     Inr i \<Rightarrow> i | Inl _ \<Rightarrow> \<lparr>pi_SchemaVersion = [], pi_ID = [], pi_Requirements = [], pi_Provisions = [], pi_ContentHash = []\<rparr>)"

definition sample_candidate :: "string \<Rightarrow> ProcedureInterface \<Rightarrow> Candidate" where
  "sample_candidate v i = \<lparr>ca_TenantID = ''t'', ca_ProcedureVersionID = v, ca_Lifecycle = ''active'', ca_Interface = i,
     ca_PlanningFactsHash = sample_hash\<rparr>"

definition sample_source :: Candidate where "sample_source = sample_candidate ''a'' (sample_interface [] [sample_provision])"

definition sample_target :: Candidate where "sample_target = sample_candidate ''b'' (sample_interface [sample_requirement] [])"

definition sample_matrix :: CompatibilityMatrix where
  "sample_matrix = (case BuildCompatibilityMatrix sample_externals [] of Inr m \<Rightarrow> m |
     Inl _ \<Rightarrow> \<lparr>cm_SchemaVersion = [], cm_ID = [], cm_Rules = [], cm_Limits = defaultCompatibilityLimits, cm_ContentHash = [], cm_CanonicalJSON = []\<rparr>)"

definition sample_request :: GraphRequest where
  "sample_request = \<lparr>gr_TenantID = ''t'', gr_ProjectionEpoch = 1, gr_PlannerManifestID = ''m'', gr_PolicyManifestID = ''q'',
     gr_Matrix = sample_matrix, gr_Candidates = [sample_source, sample_target]\<rparr>"

lemma sample_fields [simp]:
  "pv_ResourceType sample_provision = ''t''" "pv_Namespace sample_provision = ''n''" "pv_IdentityHash sample_provision = sample_hash"
  "pv_SchemaVersion sample_provision = ''s''" "pv_SuccessPredicateIDs sample_provision = [''p'']"
  "rq_ResourceType sample_requirement = ''t''" "rq_Namespace sample_requirement = ''n''" "rq_IdentityHash sample_requirement = sample_hash"
  "rq_SchemaVersion sample_requirement = ''s''" "rq_PredicateIDs sample_requirement = [''p'']"
  by (simp_all add: sample_provision_def sample_requirement_def)

lemma graph_sample_trims:
  "TrimSpace ''t'' = ''t''" "TrimSpace ''n'' = ''n''" "TrimSpace ''s'' = ''s''" "TrimSpace ''p'' = ''p''" "TrimSpace ''read'' = ''read''"
  "TrimSpace ''m'' = ''m''" "TrimSpace ''q'' = ''q''" "TrimSpace sample_hash = sample_hash" "hashPattern sample_hash"
  by code_simp+

lemma sample_interfaces:
  "\<exists>h. pi_Provisions (sample_interface [] [sample_provision]) = [sample_provision\<lparr>pv_ID := ''prov_'' @ h\<rparr>]"
  "pi_Requirements (sample_interface [] [sample_provision]) = []"
  "\<exists>h. pi_Requirements (sample_interface [sample_requirement] []) = [sample_requirement\<lparr>rq_ID := ''req_'' @ h\<rparr>]"
  "pi_Provisions (sample_interface [sample_requirement] []) = []"
  "ValidateProcedureInterface sample_externals (sample_interface [] [sample_provision])"
  "ValidateProcedureInterface sample_externals (sample_interface [sample_requirement] [])"
proof -
  let ?p = "\<lambda>h. sample_provision\<lparr>pv_ID := ''prov_'' @ h\<rparr>" and ?r = "\<lambda>h. sample_requirement\<lparr>rq_ID := ''req_'' @ h\<rparr>"
  have p: "new_provision sample_externals sample_provision = Inr sample_provision"
    by (simp add: new_provision_def sample_provision_def normalizeToken_def norm_NFC_sample graph_sample_trims normalizeSet_def sorted_keys_def)
  have r: "new_requirement sample_externals sample_requirement = Inr sample_requirement"
    by (simp add: new_requirement_def sample_requirement_def normalizeToken_def norm_NFC_sample graph_sample_trims normalizeSet_def sorted_keys_def)
  obtain hp ip where ip: "NewProcedureInterface sample_externals [] [sample_provision] = Inr ip"
    "pi_Provisions ip = [?p hp]" "pi_Requirements ip = []"
    by (simp add: NewProcedureInterface_def p MarshalAndHash_sample Let_def)
  obtain hr ir where ir: "NewProcedureInterface sample_externals [sample_requirement] [] = Inr ir"
    "pi_Requirements ir = [?r hr]" "pi_Provisions ir = []"
    by (simp add: NewProcedureInterface_def r MarshalAndHash_sample Let_def)
  have i: "sample_interface [] [sample_provision] = ip" "sample_interface [sample_requirement] [] = ir"
    by (simp_all add: sample_interface_def ip ir)
  show "\<exists>h. pi_Provisions (sample_interface [] [sample_provision]) = [?p h]"
    "pi_Requirements (sample_interface [] [sample_provision]) = []"
    "\<exists>h. pi_Requirements (sample_interface [sample_requirement] []) = [?r h]"
    "pi_Provisions (sample_interface [sample_requirement] []) = []"
    using ip ir unfolding i by blast+
  show "ValidateProcedureInterface sample_externals (sample_interface [] [sample_provision])"
    "ValidateProcedureInterface sample_externals (sample_interface [sample_requirement] [])"
    using new_interface_valid [OF digest32_sample stable_tokens_sample ip(1)] new_interface_valid [OF digest32_sample stable_tokens_sample ir(1)]
    by (simp_all add: i ip ir)
qed

lemma sample_matrix_valid:
  "ValidateCompatibilityMatrix sample_externals sample_matrix" "cm_Rules sample_matrix = []" "cm_Limits sample_matrix = defaultCompatibilityLimits"
proof -
  have "validCompatibilityLimits defaultCompatibilityLimits"
    by (simp add: validCompatibilityLimits_def defaultCompatibilityLimits_def)
  then obtain m where m: "BuildCompatibilityMatrixWithLimits sample_externals [] defaultCompatibilityLimits = Inr m"
    "cm_Rules m = []" "cm_Limits m = defaultCompatibilityLimits"
    by (simp add: BuildCompatibilityMatrixWithLimits_def normalizeCompatibility_def MarshalAndHash_c_def MarshalAndHash_sample Let_def)
  then have "sample_matrix = m" by (simp add: sample_matrix_def BuildCompatibilityMatrix_def)
  with m matrix_built_valid [OF digest32_sample m(1)]
  show "ValidateCompatibilityMatrix sample_externals sample_matrix" "cm_Rules sample_matrix = []" "cm_Limits sample_matrix = defaultCompatibilityLimits"
    by simp_all
qed

lemma sample_index:
  "\<exists>m. indexCompatibilityMatches [sample_source, sample_target] [] defaultCompatibilityLimits = Inr [m] \<and> mt_pair m = (''a'', ''b'')"
proof -
  obtain hp hr where i: "pi_Provisions (sample_interface [] [sample_provision]) = [sample_provision\<lparr>pv_ID := ''prov_'' @ hp\<rparr>]"
    "pi_Requirements (sample_interface [sample_requirement] []) = [sample_requirement\<lparr>rq_ID := ''req_'' @ hr\<rparr>]"
    using sample_interfaces(1,3) by blast
  show ?thesis
    by (simp add: indexCompatibilityMatches_def sample_source_def sample_target_def sample_candidate_def i sample_interfaces(2,4)
        add_provider_def compare_reference_def record_match_def defaultCompatibilityLimits_def mt_pair_def Let_def
        del: res_bind_eq_Inr)
qed

lemma sample_graph_built: "\<exists>g. BuildCompatibilityGraph sample_externals sample_request = Inr g \<and> length (cg_Edges g) = 1"
proof -
  have v: "valid_candidates sample_externals sample_request"
    using sample_interfaces
    by (auto simp: valid_candidates_def sample_request_def sample_source_def sample_target_def sample_candidate_def validCandidate_def
        candidate_entries_def sample_matrix_valid defaultCompatibilityLimits_def graph_sample_trims safeIdentity_def contains_nul_def)
  obtain m where "indexCompatibilityMatches [sample_source, sample_target] [] defaultCompatibilityLimits = Inr [m]"
    using sample_index by blast
  moreover have "sort_slice candidate_less [sample_source, sample_target] = [sample_source, sample_target]"
    by (simp add: candidate_less_def sample_source_def sample_target_def sample_candidate_def)
  ultimately show ?thesis using v
    by (simp add: BuildCompatibilityGraph_def sample_request_def sample_matrix_valid graph_sample_trims defaultCompatibilityLimits_def
        buildCandidateSetHash_def identified_edge_def MarshalAndHash_c_def MarshalAndHash_sample Let_def
        del: res_bind_eq_Inr)
qed

section \<open>Properties\<close>

text \<open>C21: \<^verbatim>\<open>BuildCompatibilityGraph\<close> draws an edge from one candidate to another exactly when some
  provision of the first meets some requirement of the second (same resource, known schemas that
  are equal or related by a rule of the matrix, predicates covered), it draws at most one, and the
  edge lists exactly the identifiers of the provisions and requirements that match.\<close>

theorem graph_edges_exact:
  assumes "BuildCompatibilityGraph ext request = Inr g"
    and "s \<in> set (gr_Candidates request)" "t \<in> set (gr_Candidates request)"
    and "rules = cm_Rules (gr_Matrix request)"
  shows "((\<exists>e \<in> set (cg_Edges g). ce_SourceVersionID e = ca_ProcedureVersionID s \<and> ce_TargetVersionID e = ca_ProcedureVersionID t) \<longleftrightarrow>
      ca_ProcedureVersionID s \<noteq> ca_ProcedureVersionID t \<and>
      (\<exists>p \<in> set (pi_Provisions (ca_Interface s)). \<exists>r \<in> set (pi_Requirements (ca_Interface t)). provides rules p r)) \<and>
    (\<forall>e \<in> set (cg_Edges g). ce_SourceVersionID e = ca_ProcedureVersionID s \<and> ce_TargetVersionID e = ca_ProcedureVersionID t \<longrightarrow>
      set (ce_SourceProvisionIDs e) = {pv_ID p |p r. p \<in> set (pi_Provisions (ca_Interface s)) \<and>
        r \<in> set (pi_Requirements (ca_Interface t)) \<and> provides rules p r} \<and>
      set (ce_SatisfiedRequirementIDs e) = {rq_ID r |p r. p \<in> set (pi_Provisions (ca_Interface s)) \<and>
        r \<in> set (pi_Requirements (ca_Interface t)) \<and> provides rules p r}) \<and>
    distinct (map (\<lambda>e. (ce_SourceVersionID e, ce_TargetVersionID e)) (cg_Edges g))"
proof -
  define cs where "cs = sort_slice candidate_less (gr_Candidates request)"
  obtain csh ms edges c h where b: "ValidateCompatibilityMatrix ext (gr_Matrix request)" "valid_candidates ext request"
    "indexCompatibilityMatches cs rules (cm_Limits (gr_Matrix request)) = Inr ms"
    "list_all2 (\<lambda>m e. identified_edge ext (edge_of_match (graph_base request csh) m) = Inr e) (sort_slice match_less ms) edges"
    "g = (graph_base request csh)\<lparr>cg_Edges := sort_slice edge_less edges, cg_ID := ''cgraph_'' @ h, cg_ContentHash := h,
       cg_CanonicalJSON := c\<rparr>"
    unfolding cs_def assms(4) by (rule BuildCompatibilityGraph_Inr [OF assms(1)]) blast
  let ?H = "{h \<in> set (all_comparisons cs). accepted rules h}"
  have H: "((t, r), (s, p)) \<in> ?H \<longleftrightarrow>
     t \<in> set (gr_Candidates request) \<and> r \<in> set (pi_Requirements (ca_Interface t)) \<and>
     s \<in> set (gr_Candidates request) \<and> p \<in> set (pi_Provisions (ca_Interface s)) \<and>
     ca_ProcedureVersionID s \<noteq> ca_ProcedureVersionID t \<and> provides rules p r" for t r s p
    by (rule accepted_comparison_iff [OF b(1,2) cs_def assms(4)])
  have m: "matches_of ?H ms" by (rule index_matches [OF b(3)])
  have uniq: "c = c'" if "c \<in> set (gr_Candidates request)" "c' \<in> set (gr_Candidates request)"
      "ca_ProcedureVersionID c = ca_ProcedureVersionID c'" for c c'
    using that b(2) by (auto simp: valid_candidates_def Let_def distinct_map dest: inj_onD)
  note e = edges_of_matches [OF b(4)]
  have g: "set (cg_Edges g) = set edges" "distinct (map edge_ends (cg_Edges g)) = distinct (map edge_ends edges)" by (simp_all add: b(5))
  have ends: "edge_ends ` set edges = hit_pair ` ?H" "distinct (map edge_ends edges)"
    using m arg_cong [OF e(1), of set] arg_cong [OF e(1), of distinct] by (simp_all add: matches_of_def)
  have hits: "{h \<in> ?H. hit_pair h = (ca_ProcedureVersionID s, ca_ProcedureVersionID t)} =
      {((t, r), (s, p)) |p r. ca_ProcedureVersionID s \<noteq> ca_ProcedureVersionID t \<and> p \<in> set (pi_Provisions (ca_Interface s)) \<and>
         r \<in> set (pi_Requirements (ca_Interface t)) \<and> provides rules p r}" (is "?L = ?R")
  proof (intro set_eqI)
    fix x :: comparison
    obtain t' r s' p where x: "x = ((t', r), (s', p))" by (metis prod.exhaust)
    show "x \<in> ?L \<longleftrightarrow> x \<in> ?R"
      using H [of t' r s' p] uniq [of t' t] uniq [of s' s] assms(2,3) unfolding x by (auto simp: hit_pair_def)
  qed
  have drawn: "(\<exists>e \<in> set edges. edge_ends e = (ca_ProcedureVersionID s, ca_ProcedureVersionID t)) \<longleftrightarrow> ?R \<noteq> {}"
    unfolding hits [symmetric] image_fibre [symmetric] ends(1) [symmetric] by (force simp: image_iff)
  have listed: "set (ce_SourceProvisionIDs e') = hit_provision ` ?R \<and> set (ce_SatisfiedRequirementIDs e') = hit_requirement ` ?R"
    if on: "e' \<in> set edges" and at: "edge_ends e' = (ca_ProcedureVersionID s, ca_ProcedureVersionID t)" for e'
  proof -
    obtain n where "n \<in> set ms" "edge_ends e' = mt_pair n" "set (ce_SourceProvisionIDs e') = set (mt_provisionIDs n)"
      "set (ce_SatisfiedRequirementIDs e') = set (mt_requirementIDs n)" using e(2) [OF on] by auto
    then show ?thesis using m at unfolding hits [symmetric] matches_of_def match_of_def by auto
  qed
  show ?thesis unfolding g using drawn listed ends(2)
    by (auto simp: hit_provision_def hit_requirement_def image_def)
qed

theorem graph_edges_exact_witness:
  "\<exists>g. BuildCompatibilityGraph sample_externals sample_request = Inr g \<and>
     (\<exists>e \<in> set (cg_Edges g). ce_SourceVersionID e = ''a'' \<and> ce_TargetVersionID e = ''b'') \<and>
     \<not> (\<exists>e \<in> set (cg_Edges g). ce_SourceVersionID e = ''b'' \<and> ce_TargetVersionID e = ''a'')"
proof -
  obtain g where g: "BuildCompatibilityGraph sample_externals sample_request = Inr g" using sample_graph_built by blast
  have c: "sample_source \<in> set (gr_Candidates sample_request)" "sample_target \<in> set (gr_Candidates sample_request)"
    "ca_ProcedureVersionID sample_source = ''a''" "ca_ProcedureVersionID sample_target = ''b''"
    by (simp_all add: sample_request_def sample_source_def sample_target_def sample_candidate_def)
  obtain p r where "p \<in> set (pi_Provisions (ca_Interface sample_source))" "r \<in> set (pi_Requirements (ca_Interface sample_target))"
    "provides (cm_Rules (gr_Matrix sample_request)) p r"
    using sample_interfaces
    by (auto simp: sample_source_def sample_target_def sample_candidate_def provides_def)
  moreover have "pi_Provisions (ca_Interface sample_target) = []"
    using sample_interfaces by (simp add: sample_target_def sample_candidate_def)
  ultimately show ?thesis
    using g graph_edges_exact [OF g c(1) c(2) refl] graph_edges_exact [OF g c(2) c(1) refl] unfolding c(3,4) by fastforce
qed

text \<open>A graph that \<^verbatim>\<open>BuildCompatibilityGraph\<close> returns is accepted by
  \<^verbatim>\<open>ValidateCompatibilityGraph\<close>, with every edge identifier, the strict order, the uniqueness of the
  pairs and the hash derived again, and the charges of the validator are the only way in which a
  budgeted validation of it can fail. The digest has 32 bytes and the identifiers of the edges of
  this graph do not collide.\<close>

theorem graph_roundtrip:
  assumes "digest32 ext" "BuildCompatibilityGraph ext request = Inr g" "distinct (map ce_ID (cg_Edges g))"
  shows "ValidateCompatibilityGraph ext g = None \<and>
    (\<forall>b e. validateCompatibilityGraph ext g (Some b) = Inl e \<longrightarrow> e = errWorkLimit)"
proof -
  define cs where "cs = sort_slice candidate_less (gr_Candidates request)"
  obtain csh ms edges c h where b: "gr_TenantID request \<noteq> []" "gr_ProjectionEpoch request \<noteq> 0"
    "TrimSpace (gr_PlannerManifestID request) \<noteq> []" "TrimSpace (gr_PolicyManifestID request) \<noteq> []"
    "ValidateCompatibilityMatrix ext (gr_Matrix request)" "valid_candidates ext request"
    "buildCandidateSetHash ext cs = Inr csh"
    "indexCompatibilityMatches cs (cm_Rules (gr_Matrix request)) (cm_Limits (gr_Matrix request)) = Inr ms"
    "list_all2 (\<lambda>m e. identified_edge ext (edge_of_match (graph_base request csh) m) = Inr e) (sort_slice match_less ms) edges"
    "MarshalAndHash ext (json_graph ((graph_base request csh)\<lparr>cg_Edges := sort_slice edge_less edges\<rparr>)) = Inr (c, h)"
    "g = (graph_base request csh)\<lparr>cg_Edges := sort_slice edge_less edges, cg_ID := ''cgraph_'' @ h, cg_ContentHash := h,
       cg_CanonicalJSON := c\<rparr>"
    unfolding cs_def by (rule BuildCompatibilityGraph_Inr [OF assms(2)]) blast
  let ?H = "{h \<in> set (all_comparisons cs). accepted (cm_Rules (gr_Matrix request)) h}"
  note i = index_matches [OF b(8)] and ends = edges_of_matches [OF b(9)]
  have H: "validCandidate ext t (gr_TenantID request) \<and> validCandidate ext s (gr_TenantID request) \<and>
      r \<in> set (pi_Requirements (ca_Interface t)) \<and> p \<in> set (pi_Provisions (ca_Interface s)) \<and>
      ca_ProcedureVersionID s \<noteq> ca_ProcedureVersionID t" if "((t, r), (s, p)) \<in> ?H" for t r s p
    using that valid_candidates_member [OF b(6)] unfolding accepted_comparison_iff [OF b(5,6) cs_def refl] by blast
  have m: "match_of ?H m" if "m \<in> set ms" for m using i(1) that by (simp add: matches_of_def)
  have valid: "validateCompatibilityEdge ext e g" if on: "e \<in> set edges" for e
  proof -
    obtain m where "m \<in> set ms" "identified_edge ext (edge_of_match (graph_base request csh) m) = Inr e" using ends(2) [OF on] by auto
    then show ?thesis using match_ids [OF assms(1) m H]
      by (intro edge_built_valid [OF assms(1)]) (auto simp: b(11))
  qed
  have "\<not> contains_nul (fst (mt_pair m))" if on: "m \<in> set ms" for m
    using validCandidate_ids(5) [OF assms(1) match_ids(1) [OF assms(1) m [OF on] H]] by (simp add: mt_pair_def)
  then have "inj_on (\<lambda>(x, y). x @ NUL @ y) (set (map mt_pair ms))"
    by (intro inj_on_nul_separated) auto
  then have "distinct (map (\<lambda>(x, y). x @ NUL @ y) (map mt_pair ms))"
    using i(1) unfolding distinct_map matches_of_def by blast
  moreover have "mset (map edge_pair edges) = mset (map (\<lambda>(x, y). x @ NUL @ y) (map mt_pair ms))"
  proof -
    have "map edge_pair edges = map (\<lambda>(x, y). x @ NUL @ y) (map edge_ends edges)" by (simp add: edge_pair_def)
    also have "\<dots> = map (\<lambda>(x, y). x @ NUL @ y) (map mt_pair (sort_slice match_less ms))" by (simp only: ends(1))
    finally show ?thesis by (metis mset_map mset_sort_slice)
  qed
  ultimately have pairs: "distinct (map edge_pair edges)" by (metis mset_eq_imp_distinct_iff)
  have "length edges \<le> unat (cl_MaximumEdges (cm_Limits (gr_Matrix request)))" using i(2) list_all2_lengthD [OF b(9)] by simp
  also have "\<dots> \<le> 100000"
    using b(5) by (auto simp: ValidateCompatibilityMatrix_def validCompatibilityLimits_def word_le_nat_alt)
  finally have n: "length edges \<le> 100000" .
  have "hashPattern csh"
    using b(7) MarshalAndHash_pattern [OF assms(1)] by (auto simp: buildCandidateSetHash_def)
  moreover have "hashPattern (cm_ContentHash (gr_Matrix request))" using b(5) by (simp add: ValidateCompatibilityMatrix_def)
  moreover have "strictly_sorted (map ce_ID (cg_Edges g))"
    using assms(3) by (simp add: b(11) edge_order.keys_strictly_sorted)
  moreover have "g\<lparr>cg_ID := [], cg_ContentHash := [], cg_CanonicalJSON := []\<rparr> = (graph_base request csh)\<lparr>cg_Edges := sort_slice edge_less edges\<rparr>"
    by (simp add: b(11) graph_base_def)
  ultimately have "validateCompatibilityGraph ext g budget = res_bind (charge budget (of_nat (length (cg_Edges g)) + 1))
      (\<lambda>budget. charge budget (of_nat (length (cg_Edges g))))" for budget
    using n pairs valid b(1-4,10) MarshalAndHash_pattern [OF assms(1) b(10)]
    by (simp add: validateCompatibilityGraph_def b(11) graph_base_def list_all_iff res_bind_def split: sum.splits)
  moreover have "e = errWorkLimit" if "charge b u = Inl e" for b u e using that by (cases b) (auto split: option.splits)
  moreover have "e = errWorkLimit" if "res_bind (charge b u) (\<lambda>b'. charge b' v) = Inl e" for b u v e
    using that calculation(2) by (cases "charge b u") auto
  ultimately show ?thesis by (auto simp: ValidateCompatibilityGraph_def simp del: charge.simps(2))
qed

theorem graph_roundtrip_witness:
  "\<exists>g. BuildCompatibilityGraph sample_externals sample_request = Inr g \<and> ValidateCompatibilityGraph sample_externals g = None"
proof -
  obtain g where g: "BuildCompatibilityGraph sample_externals sample_request = Inr g" "length (cg_Edges g) = 1"
    using sample_graph_built by blast
  then have "distinct (map ce_ID (cg_Edges g))" by (cases "cg_Edges g") auto
  with g graph_roundtrip [OF digest32_sample g(1)] show ?thesis by blast
qed

end
