(* ===== verification/Planner_Sample.thy ===== *)
theory Planner_Sample
  imports Planner Compatibility_Graph
begin

text \<open>
  A small request on which \<^verbatim>\<open>PlanProcedures\<close> is evaluated: one eligible seed with an empty interface
  that states the only goal, the graph without edges over it, and a planner manifest with small
  limits. The witnesses of the properties of the planner and of the parallel schedule use it.
\<close>

definition sample_planner_spec :: PlannerManifestSpec where
  "sample_planner_spec = \<lparr>pm_Version = ''v'', pm_BeamWidth = 1, pm_MaximumCandidates = 4, pm_MaximumGoalPredicates = 4,
     pm_MaximumTotalCandidateGoals = 8, pm_MaximumParallelEntries = 4, pm_MaximumTotalParallelEntries = 8,
     pm_MaximumSatisfiedRequirements = 4, pm_MaximumDepth = 1, pm_MaximumProcedures = 4, pm_MaximumBridges = 1, pm_MaximumTotalToolCost = 9,
     pm_MaximumExpansions = 4, pm_MaximumWorkUnits = 100, pm_NoveltyPenalty = 2, pm_UnobservedEdgePenalty = 3\<rparr>"

definition sample_manifest :: PlannerManifest where
  "sample_manifest = (case NewPlannerManifest sample_externals sample_planner_spec of Inr m \<Rightarrow> m
     | Inl _ \<Rightarrow> \<lparr>pn_SchemaVersion = [], pn_Spec = sample_planner_spec, pn_ID = [], pn_ContentHash = [], pn_CanonicalJSON = []\<rparr>)"

definition unhashed_candidate :: PlannerCandidate where
  "unhashed_candidate = \<lparr>pc_VersionID = ''a'', pc_Interface = sample_interface [] [], pc_Lifecycle = ''active'', pc_PlanningFactsHash = [],
     pc_Seed = True, pc_Eligible = True, pc_PolicyManifestID = ''q'', pc_GoalPredicateIDs = [''p''],
     pc_Parallelism = \<lparr>pf_ReadResourceIDs = [], pf_WriteResourceIDs = [], pf_ExclusiveResourceIDs = [], pf_PolicyMutexKeys = [],
        pf_CompensationBoundary = False, pf_PolicySerial = False\<rparr>,
     pc_EvidenceStrength = 5, pc_ObservedEndToEnd = True, pc_RiskCost = 1, pc_ToolCost = 1\<rparr>"

definition planner_candidate :: PlannerCandidate where
  "planner_candidate = unhashed_candidate\<lparr>pc_PlanningFactsHash :=
     (case BuildPlanningFactsHash sample_externals (planning_facts unhashed_candidate) of Inr h \<Rightarrow> h | Inl _ \<Rightarrow> [])\<rparr>"

definition planner_graph :: CompatibilityGraph where
  "planner_graph =
     (let g = \<lparr>cg_SchemaVersion = ''compatibility-graph.v1'', cg_ID = [], cg_TenantID = ''t'', cg_ProjectionEpoch = 1,
        cg_PlannerManifestID = pn_ID sample_manifest, cg_PolicyManifestID = ''q'', cg_MatrixHash = sample_hash,
        cg_CandidateSetHash = (case buildCandidateSetHash sample_externals [graph_candidate ''t'' planner_candidate] of Inr h \<Rightarrow> h | Inl _ \<Rightarrow> []),
        cg_Edges = [], cg_ContentHash = [], cg_CanonicalJSON = []\<rparr>
      in case MarshalAndHash sample_externals (json_graph g) of
           Inr (c, h) \<Rightarrow> g\<lparr>cg_ID := ''cgraph_'' @ h, cg_ContentHash := h, cg_CanonicalJSON := c\<rparr> | Inl _ \<Rightarrow> g)"

definition planner_request :: PlanRequest where
  "planner_request = \<lparr>rp_TenantID = ''t'', rp_ProjectionEpoch = 1, rp_PolicyManifestID = ''q'', rp_Graph = planner_graph,
     rp_GoalPredicateIDs = [''p''], rp_SatisfiedRequirementIDs = [], rp_Candidates = [planner_candidate]\<rparr>"

lemma sample_manifest_valid:
  "ValidatePlannerManifest sample_externals sample_manifest" "pn_Spec sample_manifest = sample_planner_spec" "pn_ID sample_manifest \<noteq> []"
proof -
  have v: "TrimSpace ''v'' = ''v''" by code_simp
  have "validPlannerSpec sample_planner_spec"
    by (simp add: validPlannerSpec_def sample_planner_spec_def contains_nul_def)
  moreover have "sample_planner_spec\<lparr>pm_Version := TrimSpace (pm_Version sample_planner_spec)\<rparr> = sample_planner_spec"
    by (simp add: sample_planner_spec_def v)
  ultimately show "ValidatePlannerManifest sample_externals sample_manifest" "pn_Spec sample_manifest = sample_planner_spec"
    "pn_ID sample_manifest \<noteq> []"
    by (simp_all add: ValidatePlannerManifest_def sample_manifest_def NewPlannerManifest_def MarshalAndHash_sample Let_def)
qed

lemma planner_graph_valid:
  "cg_Edges planner_graph = []" "cg_TenantID planner_graph = ''t''" "cg_ProjectionEpoch planner_graph = 1"
  "cg_PlannerManifestID planner_graph = pn_ID sample_manifest" "cg_PolicyManifestID planner_graph = ''q''"
  "buildCandidateSetHash sample_externals [graph_candidate ''t'' planner_candidate] = Inr (cg_CandidateSetHash planner_graph)"
  "validateCompatibilityGraph sample_externals planner_graph (Some \<lparr>used = 0, maximum = 100\<rparr>) = Inr (Some \<lparr>used = 1, maximum = 100\<rparr>)"
proof -
  show "cg_Edges planner_graph = []" "cg_TenantID planner_graph = ''t''" "cg_ProjectionEpoch planner_graph = 1"
    "cg_PlannerManifestID planner_graph = pn_ID sample_manifest" "cg_PolicyManifestID planner_graph = ''q''"
    "buildCandidateSetHash sample_externals [graph_candidate ''t'' planner_candidate] = Inr (cg_CandidateSetHash planner_graph)"
    by (simp_all add: planner_graph_def MarshalAndHash_sample buildCandidateSetHash_def MarshalAndHash_c_def Let_def)
  show "validateCompatibilityGraph sample_externals planner_graph (Some \<lparr>used = 0, maximum = 100\<rparr>) = Inr (Some \<lparr>used = 1, maximum = 100\<rparr>)"
    using sample_manifest_valid(3)
    by (simp add: planner_graph_def MarshalAndHash_sample buildCandidateSetHash_def MarshalAndHash_c_def Let_def
        validateCompatibilityGraph_def consume_def hashPattern_hash_bytes [OF digest32_sample] graph_sample_trims del: res_bind_eq_Inr)
qed

lemma planner_candidate_fields [simp]:
  "pc_VersionID planner_candidate = ''a''" "pc_Interface planner_candidate = sample_interface [] []" "pc_Seed planner_candidate"
  "pc_Eligible planner_candidate" "pc_PolicyManifestID planner_candidate = ''q''" "pc_GoalPredicateIDs planner_candidate = [''p'']"
  "pc_Parallelism planner_candidate = pc_Parallelism unhashed_candidate" "pc_EvidenceStrength planner_candidate = 5" "pc_ToolCost planner_candidate = 1"
  "pc_ObservedEndToEnd planner_candidate" "pc_RiskCost planner_candidate = 1" "pc_Lifecycle planner_candidate = ''active''"
  "planning_facts planner_candidate = planning_facts unhashed_candidate"
  by (simp_all add: planner_candidate_def unhashed_candidate_def planning_facts_def)

lemma empty_interface:
  "pi_Requirements (sample_interface [] []) = []" "pi_Provisions (sample_interface [] []) = []"
  "ValidateProcedureInterface sample_externals (sample_interface [] [])" "hashPattern (pi_ContentHash (sample_interface [] []))"
proof -
  obtain i where i: "NewProcedureInterface sample_externals [] [] = Inr i" "pi_Requirements i = []" "pi_Provisions i = []"
    by (simp add: NewProcedureInterface_def MarshalAndHash_sample Let_def)
  then have "sample_interface [] [] = i" by (simp add: sample_interface_def)
  moreover have "ValidateProcedureInterface sample_externals i" using new_interface_valid [OF digest32_sample stable_tokens_sample i(1)] i by simp
  ultimately show "pi_Requirements (sample_interface [] []) = []" "pi_Provisions (sample_interface [] []) = []"
    "ValidateProcedureInterface sample_externals (sample_interface [] [])" "hashPattern (pi_ContentHash (sample_interface [] []))"
    using i by (simp_all add: ValidateProcedureInterface_def)
qed

lemma sample_normalized:
  "normalizedIDs [''p''] b = Some [''p'']" "normalizedIDs [] True = Some []"
  "normalizedParallelism (pc_Parallelism unhashed_candidate) = Some (pc_Parallelism unhashed_candidate)"
proof -
  show "normalizedIDs [''p''] b = Some [''p'']" and e: "normalizedIDs [] True = Some []"
    by (simp_all add: normalizedIDs_def graph_sample_trims safeIdentity_def contains_nul_def)
  show "normalizedParallelism (pc_Parallelism unhashed_candidate) = Some (pc_Parallelism unhashed_candidate)"
    by (simp add: normalizedParallelism_def unhashed_candidate_def e strictPrefixed_def strictSorted_def)
qed

lemma sample_facts_hash:
  "BuildPlanningFactsHash sample_externals (planning_facts unhashed_candidate) = Inr (pc_PlanningFactsHash planner_candidate)"
proof -
  have t: "TrimSpace ''a'' = ''a''" "TrimSpace ''active'' = ''active''" by code_simp+
  have "\<exists>h. BuildPlanningFactsHash sample_externals (planning_facts unhashed_candidate) = Inr h"
    using sample_normalized(3) empty_interface(4)
    by (simp add: BuildPlanningFactsHash_def planning_facts_def unhashed_candidate_def parallelEntryCount_def t graph_sample_trims
        safeIdentity_def contains_nul_def strictSorted_def MarshalAndHash_c_def MarshalAndHash_sample Let_def)
  then show ?thesis by (auto simp: planner_candidate_def)
qed

lemma planner_inputs:
  "validatePlanInputs sample_externals sample_manifest planner_request \<lparr>used = 0, maximum = 100\<rparr> =
     Inr ([planner_candidate], [''p''], [], \<lparr>used = 4, maximum = 100\<rparr>)"
proof -
  have none: "parallelEntryCount (pc_Parallelism unhashed_candidate) = 0" by (simp add: parallelEntryCount_def unhashed_candidate_def)
  have same: "planner_candidate\<lparr>pc_GoalPredicateIDs := [''p''], pc_Parallelism := pc_Parallelism unhashed_candidate\<rparr> = planner_candidate"
    by (simp add: planner_candidate_def unhashed_candidate_def)
  have "check_candidate sample_externals sample_planner_spec ''q'' \<lparr>in_budget = \<lparr>used = 1, maximum = 100\<rparr>, in_goals = 0, in_entries = 0, in_candidates = []\<rparr>
      planner_candidate = Inr \<lparr>in_budget = \<lparr>used = 4, maximum = 100\<rparr>, in_goals = 1, in_entries = 0, in_candidates = [planner_candidate]\<rparr>"
    using sample_facts_hash
    by (simp add: check_candidate_def sample_normalized empty_interface(3) consume_def none same sample_planner_spec_def contains_nul_def Let_def)
  then show ?thesis
    using planner_graph_valid(6)
    by (simp add: validatePlanInputs_def planner_request_def sample_manifest_valid planner_graph_valid sample_normalized
        sample_planner_spec_def Let_def del: res_bind_eq_Inr)
qed

abbreviation planner_draft :: "int64 \<Rightarrow> Plan" where
  "planner_draft \<equiv> draft_plan sample_manifest planner_request [planner_candidate] [''a''] [''p''] [] [] [''a'']"

lemma planner_runs:
  "\<exists>plan strength. PlanProcedures sample_externals sample_manifest planner_request = Inr plan \<and> map no_VersionID (pl_Nodes plan) = [''a''] \<and>
     pl_Complete plan \<and> canonicalizePlan sample_externals (planner_draft strength) = Inr plan"
proof -
  let ?build = "buildSearchState sample_externals sample_manifest planner_request [planner_candidate] [''a''] [''p''] []"
  have order: "topologicalOrder [''a''] [] = Inr [''a'']" by code_simp
  have seal: "\<exists>plan. canonicalizePlan sample_externals (planner_draft strength) = Inr plan \<and> map no_VersionID (pl_Nodes plan) = [''a''] \<and> pl_Complete plan \<and>
      pl_LimitCodes plan = []" for strength
  proof -
    have d: "map no_VersionID (pl_Nodes (planner_draft strength)) = [''a'']" "pl_Complete (planner_draft strength)" "pl_LimitCodes (planner_draft strength) = []"
      by (simp_all add: draft_plan_def node_of_def requirement_gaps_def byVersion_def empty_interface Let_def)
    then show ?thesis by (simp add: canonicalizePlan_def MarshalAndHash_sample Let_def)
  qed
  have parts: "bridge_count [planner_candidate] = 0" "total_tool_cost [planner_candidate] = 1" "checkedPlannerMul 0 p = Some 0"
    "map (byVersion [planner_candidate]) [''a''] = [planner_candidate]" for p
    by (simp_all add: bridge_count_def total_tool_cost_def checkedPlannerMul_def byVersion_def)
  define strength where "strength = penalized (weakest_evidence [planner_candidate]) 0
    (checkedPlannerMul (unobserved_count [planner_candidate] []) (pm_UnobservedEdgePenalty sample_planner_spec))"
  obtain plan where seal': "canonicalizePlan sample_externals (planner_draft strength) = Inr plan" and
    p: "map no_VersionID (pl_Nodes plan) = [''a'']" "pl_Complete plan" "pl_LimitCodes plan = []"
    using seal [of strength] by (elim exE conjE) (rule that)
  have limits: "pm_MaximumBridges sample_planner_spec = 1" "pm_MaximumTotalToolCost sample_planner_spec = 9" by (simp_all add: sample_planner_spec_def)
  have plan: "?build [''a''] \<lparr>used = 5, maximum = 100\<rparr> =
      (Inr \<lparr>st_plan = plan, st_nodeSet = [''a''], st_hash = pl_ContentHash plan\<rparr>, \<lparr>used = 5, maximum = 100\<rparr>)"
    unfolding buildSearchState_def selectedEdges_def sample_manifest_valid(2) Let_def
    by (simp add: order parts limits strength_def [symmetric] seal' del: res_bind_eq_Inr list.map)
  have "PlanProcedures sample_externals sample_manifest planner_request = Inr (plan\<lparr>pl_LimitCodes := []\<rparr>)"
    using p(2)
    by (simp add: PlanProcedures_def sample_manifest_valid(2) planner_inputs consume_def plan keep_state_def truncate_beam_def sortStates_def
        sample_planner_spec_def sorted_keys_def Let_def del: res_bind_eq_Inr)
  moreover have "plan\<lparr>pl_LimitCodes := []\<rparr> = plan" using p(3) by simp
  ultimately show ?thesis using p seal' by (intro exI [of _ plan] exI [of _ strength]) simp
qed

end
