(* ===== verification/Planning.thy ===== *)
theory Planning
  imports Beam_Search Planner_Sample
begin

text \<open>
  What the planner promises. The order of a plan is a topological order of the chosen edges and
  fails exactly on a cycle; a plan that the search returns is accepted by the validator, keeps
  the limits of the manifest, consists of eligible candidates of the request only, and is marked
  complete exactly when nothing is missing.
\<close>

section \<open>The work budget\<close>

definition budget_ok :: "workBudget \<Rightarrow> bool" where
  "budget_ok b \<longleftrightarrow> used b \<le> maximum b"

lemma consume_Some:
  assumes "consume b units = Some b'" "budget_ok b"
  shows "budget_ok b'" "maximum b' = maximum b" "unat (used b') = unat (used b) + unat units"
proof -
  have u: "units \<le> maximum b - used b" "b' = b\<lparr>used := used b + units\<rparr>" "used b \<le> maximum b"
    using assms by (auto simp: consume_def budget_ok_def split: if_splits)
  then have "unat units \<le> unat (maximum b) - unat (used b)" by (metis unat_sub word_le_nat_alt)
  then have fits: "unat (used b) + unat units \<le> unat (maximum b)" using u(3) by (simp add: word_le_nat_alt)
  then have "unat (used b) + unat units < 2 ^ LENGTH(64)" using unsigned_less [where 'a=nat, of "maximum b"] by simp
  then show "unat (used b') = unat (used b) + unat units" using u(2) by (simp add: unat_word_ariths)
  with fits show "budget_ok b'" "maximum b' = maximum b" using u(2) by (simp_all add: budget_ok_def word_le_nat_alt)
qed

lemma consume_None:
  assumes "consume b units = None" "budget_ok b"
  shows "unat (maximum b) < unat (used b) + unat units"
  using assms by (auto simp: consume_def budget_ok_def word_less_nat_alt unat_sub split: if_splits)

section \<open>Validated inputs\<close>

lemma normalizedIDs_Some:
  assumes "normalizedIDs source allowEmpty = Some vs"
  shows "strictly_sorted vs" "\<forall>v \<in> set vs. safeIdentity v" "strictSorted vs" "set vs = TrimSpace ` set source"
proof -
  have v: "vs = sort (map TrimSpace source)" "distinct vs" "\<forall>v \<in> set (map TrimSpace source). safeIdentity v"
    using assms by (auto simp: normalizedIDs_def Let_def list_all_iff sort_slice_eq_sort split: if_splits)
  then show s: "strictly_sorted vs" "\<forall>v \<in> set vs. safeIdentity v" "set vs = TrimSpace ` set source"
    by (simp_all add: strictly_sorted_sorted_distinct)
  have "[] \<notin> set vs" using s(2) by (auto simp: safeIdentity_def)
  then show "strictSorted vs" using s(1) by (simp add: strictSorted_def)
qed

definition ok_candidate :: "externals \<Rightarrow> string \<Rightarrow> PlannerCandidate \<Rightarrow> bool" where
  "ok_candidate ext policy c \<longleftrightarrow>
     pc_VersionID c \<noteq> [] \<and> \<not> contains_nul (pc_VersionID c) \<and> pc_Eligible c \<and> pc_PolicyManifestID c = policy \<and>
     ValidateProcedureInterface ext (pc_Interface c) \<and> 0 \<le> sint (pc_EvidenceStrength c) \<and> pc_ToolCost c \<noteq> 0"

text \<open>A candidate of the request, with its goals and resources brought into canonical order.\<close>

definition normalised_from :: "PlannerCandidate \<Rightarrow> PlannerCandidate \<Rightarrow> bool" where
  "normalised_from c0 c \<longleftrightarrow> (\<exists>goals parallelism. normalizedIDs (pc_GoalPredicateIDs c0) True = Some goals \<and>
     normalizedParallelism (pc_Parallelism c0) = Some parallelism \<and>
     c = c0\<lparr>pc_GoalPredicateIDs := goals, pc_Parallelism := parallelism\<rparr>)"

lemma normalised_from_fields:
  assumes "normalised_from c0 c"
  shows "pc_VersionID c = pc_VersionID c0" "pc_Interface c = pc_Interface c0" "pc_Seed c = pc_Seed c0" "pc_Eligible c = pc_Eligible c0"
    "pc_PolicyManifestID c = pc_PolicyManifestID c0" "pc_ToolCost c = pc_ToolCost c0"
    "set (pc_GoalPredicateIDs c) = TrimSpace ` set (pc_GoalPredicateIDs c0)"
    "pc_EvidenceStrength c = pc_EvidenceStrength c0" "pc_ObservedEndToEnd c = pc_ObservedEndToEnd c0"
  using assms by (auto simp: normalised_from_def dest: normalizedIDs_Some(4))

lemma check_candidate_Inr:
  assumes "check_candidate ext spec policy st c0 = Inr st'"
  obtains c where "normalised_from c0 c" "ok_candidate ext policy c" "in_candidates st' = in_candidates st @ [c]"
    "pc_VersionID c \<notin> set (map pc_VersionID (in_candidates st))"
  using assms
  by (auto simp: check_candidate_def Let_def ok_candidate_def normalised_from_def not_less split: if_splits option.splits)

lemma check_candidates_Inr:
  assumes "res_fold (check_candidate ext spec policy) st0 cs = Inr st" "in_candidates st0 = []"
  shows "list_all2 normalised_from cs (in_candidates st)" "\<forall>c \<in> set (in_candidates st). ok_candidate ext policy c"
    "distinct (map pc_VersionID (in_candidates st))"
proof -
  let ?P = "\<lambda>ys st. list_all2 normalised_from ys (in_candidates st) \<and> (\<forall>c \<in> set (in_candidates st). ok_candidate ext policy c) \<and>
    distinct (map pc_VersionID (in_candidates st))"
  have "?P cs st" using assms(1)
  proof (rule res_fold_prefix_induct [where P = ?P])
    fix ys y u v
    assume inv: "?P ys u" and step: "check_candidate ext spec policy u y = Inr v"
    from step obtain c where "normalised_from y c" "ok_candidate ext policy c" "in_candidates v = in_candidates u @ [c]"
      "pc_VersionID c \<notin> set (map pc_VersionID (in_candidates u))" by (rule check_candidate_Inr)
    with inv show "?P (ys @ [y]) v" by (auto intro: list_all2_appendI)
  qed (simp add: assms(2))
  then show "list_all2 normalised_from cs (in_candidates st)" "\<forall>c \<in> set (in_candidates st). ok_candidate ext policy c"
    "distinct (map pc_VersionID (in_candidates st))" by blast+
qed

lemma check_edges_Inr:
  assumes "res_fold (check_edge candidates) b edges = Inr b'"
  shows "\<forall>e \<in> set edges. ce_SourceVersionID e \<in> set (map pc_VersionID candidates) \<and> ce_TargetVersionID e \<in> set (map pc_VersionID candidates)"
  using assms
proof (induction edges arbitrary: b)
  case (Cons e edges)
  then obtain b1 where "check_edge candidates b e = Inr b1" "res_fold (check_edge candidates) b1 edges = Inr b'" by auto
  moreover from this(1) have "ce_SourceVersionID e \<in> set (map pc_VersionID candidates) \<and> ce_TargetVersionID e \<in> set (map pc_VersionID candidates)"
    by (auto simp: check_edge_def split: option.splits if_splits)
  ultimately show ?case using Cons.IH by simp
qed simp

lemma validateCompatibilityGraph_Inr:
  assumes "validateCompatibilityGraph ext g b = Inr b'"
  shows "cg_ID g = ''cgraph_'' @ cg_ContentHash g" "hashPattern (cg_ContentHash g)" "hashPattern (cg_MatrixHash g)"
    "hashPattern (cg_CandidateSetHash g)" "distinct (map edge_pair (cg_Edges g))" "strictly_sorted (map ce_ID (cg_Edges g))"
    "\<forall>e \<in> set (cg_Edges g). validateCompatibilityEdge ext e g" "length (cg_Edges g) \<le> 100000"
  using assms by (auto simp: validateCompatibilityGraph_def list_all_iff split: if_splits)

text \<open>Everything that the search relies on.\<close>

definition valid_inputs ::
  "externals \<Rightarrow> PlannerManifest \<Rightarrow> PlanRequest \<Rightarrow> PlannerCandidate list \<Rightarrow> string list \<Rightarrow> string list \<Rightarrow> bool" where
  "valid_inputs ext manifest request candidates goals satisfied \<longleftrightarrow>
     ValidatePlannerManifest ext manifest \<and> (\<exists>b b'. validateCompatibilityGraph ext (rp_Graph request) b = Inr b') \<and>
     rp_TenantID request \<noteq> [] \<and> rp_ProjectionEpoch request \<noteq> 0 \<and> rp_PolicyManifestID request \<noteq> [] \<and>
     normalizedIDs (rp_GoalPredicateIDs request) False = Some goals \<and> goals \<noteq> [] \<and>
     normalizedIDs (rp_SatisfiedRequirementIDs request) True = Some satisfied \<and>
     list_all2 normalised_from (sort_slice planner_candidate_less (rp_Candidates request)) candidates \<and>
     (\<forall>c \<in> set candidates. ok_candidate ext (rp_PolicyManifestID request) c) \<and> distinct (map pc_VersionID candidates) \<and>
     (\<exists>c \<in> set candidates. pc_Seed c) \<and>
     (\<forall>e \<in> set (cg_Edges (rp_Graph request)). ce_SourceVersionID e \<in> set (map pc_VersionID candidates) \<and>
        ce_TargetVersionID e \<in> set (map pc_VersionID candidates))"

lemma validatePlanInputs_Inr:
  assumes "validatePlanInputs ext manifest request b = Inr (candidates, goals, satisfied, b')"
  shows "valid_inputs ext manifest request candidates goals satisfied"
proof -
  let ?cs = "sort_slice planner_candidate_less (rp_Candidates request)"
  obtain b1 where g: "ValidatePlannerManifest ext manifest" "validateCompatibilityGraph ext (rp_Graph request) (Some b) = Inr (Some b1)"
    using assms by (auto simp: validatePlanInputs_def Let_def split: if_splits sum.splits option.splits)
  let ?st0 = "\<lparr>in_budget = b1, in_goals = 0, in_entries = 0, in_candidates = []\<rparr>"
  obtain st where st: "res_fold (check_candidate ext (pn_Spec manifest) (rp_PolicyManifestID request)) ?st0 ?cs = Inr st"
    "list_ex pc_Seed (in_candidates st)" "in_candidates st = candidates"
    "res_fold (check_edge candidates) (in_budget st) (cg_Edges (rp_Graph request)) = Inr b'"
    and r: "rp_TenantID request \<noteq> []" "rp_ProjectionEpoch request \<noteq> 0" "rp_PolicyManifestID request \<noteq> []"
    "normalizedIDs (rp_GoalPredicateIDs request) False = Some goals" "goals \<noteq> []"
    "normalizedIDs (rp_SatisfiedRequirementIDs request) True = Some satisfied"
    using assms g by (auto simp: validatePlanInputs_def Let_def split: if_splits option.splits)
  show ?thesis
    using g r st(2,3) check_candidates_Inr [OF st(1)] check_edges_Inr [OF st(4)]
    by (auto simp: valid_inputs_def list_ex_iff)
qed

section \<open>Evidence after penalties\<close>

lemma sint_nonneg_mult:
  assumes "0 \<le> sint (a :: int64)" "0 \<le> sint b" "sint a * sint b \<le> 9223372036854775807"
  shows "sint (a * b) = sint a * sint b"
proof -
  have "0 \<le> sint a * sint b" using assms(1,2) by simp
  then show ?thesis using assms(3) by (intro sint_mult) (simp add: fits64_def)
qed

lemma int_div_less_iff: "m div q < n \<longleftrightarrow> m < n * q" if "0 < q" for m n q :: int
proof -
  have m: "m = (m div q) * q + m mod q" "0 \<le> m mod q" "m mod q < q" using that by simp_all
  show ?thesis
  proof
    assume "m div q < n"
    then have "(m div q + 1) * q \<le> n * q" using that by (intro mult_right_mono) auto
    then have "(m div q) * q + q \<le> n * q" by (simp add: distrib_right)
    then show "m < n * q" using m by linarith
  next
    assume "m < n * q"
    then have "(m div q) * q < n * q" using m by linarith
    then show "m div q < n" using that by simp
  qed
qed

lemma checkedPlannerMul_exact:
  assumes "0 \<le> sint a" "0 \<le> sint b"
  shows "checkedPlannerMul a b = (if sint a * sint b \<le> 9223372036854775807 then Some (a * b) else None)"
proof (cases "a = 0 \<or> b = 0")
  case False
  then have pos: "0 < sint a" "0 < sint b" using assms by (metis less_le signed_0 sint64_inject)+
  have "sint (int64_div MaxInt64 b) = 9223372036854775807 div sint b"
    using pos(2) by (subst sint_int64_div) (auto simp: quot_nonneg)
  moreover have "sint a > 9223372036854775807 div sint b \<longleftrightarrow> sint a * sint b > 9223372036854775807"
    by (rule int_div_less_iff [OF pos(2)])
  ultimately show ?thesis using False by (auto simp: checkedPlannerMul_def)
qed (auto simp: checkedPlannerMul_def)

lemma penalized_exact:
  assumes "0 \<le> sint s" "0 \<le> sint p" "0 \<le> sint u" "0 \<le> sint q"
  shows "sint (penalized s p (checkedPlannerMul u q)) = max 0 (sint s - sint p - sint u * sint q)"
proof -
  note r = sint64_range [of s]
  define k where "k = sint u * sint q"
  have k: "0 \<le> k" using assms by (simp add: k_def)
  show ?thesis unfolding k_def [symmetric]
  proof (cases "k \<le> 9223372036854775807")
    case False
    then have "checkedPlannerMul u q = None" using assms by (simp add: checkedPlannerMul_exact k_def)
    then show "sint (penalized s p (checkedPlannerMul u q)) = max 0 (sint s - sint p - k)"
      using False r assms by (simp add: penalized_def)
  next
    case True
    then have c: "checkedPlannerMul u q = Some (u * q)" "sint (u * q) = k"
      using assms by (simp_all add: checkedPlannerMul_exact k_def sint_nonneg_mult)
    have d: "sint (s - p) = sint s - sint p" if "sint p \<le> sint s" using that r assms by (intro sint_diff) (simp add: fits64_def)
    have e: "sint (s - (p + u * q)) = sint s - (sint p + k)" if "sint p + k \<le> sint s"
    proof -
      have "sint (p + u * q) = sint p + k" using that k r assms by (subst sint_add) (simp_all add: c fits64_def)
      then show ?thesis using that k r assms by (subst sint_diff) (simp_all add: fits64_def)
    qed
    show "sint (penalized s p (checkedPlannerMul u q)) = max 0 (sint s - sint p - k)"
      using d e k by (cases "sint p \<le> sint s") (auto simp: penalized_def c)
  qed
qed

lemma weakest_evidence_min:
  "sint (weakest_evidence cs) = foldl (\<lambda>m c. min m (sint (pc_EvidenceStrength c))) (sint MaxInt64) cs"
proof -
  have "sint (foldl (\<lambda>m c. if sint (pc_EvidenceStrength c) < sint m then pc_EvidenceStrength c else m) m cs) =
      foldl (\<lambda>m c. min m (sint (pc_EvidenceStrength c))) (sint m) cs" for m :: int64
    by (induction cs arbitrary: m) (auto simp: min_def)
  then show ?thesis by (simp add: weakest_evidence_def)
qed

lemma weakest_evidence_nonneg:
  assumes "\<forall>c \<in> set cs. 0 \<le> sint (pc_EvidenceStrength c)" shows "0 \<le> sint (weakest_evidence cs)"
proof -
  have "0 \<le> foldl (\<lambda>m c. min m (sint (pc_EvidenceStrength c))) m cs" if "0 \<le> m" for m
    using assms that by (induction cs arbitrary: m) auto
  then show ?thesis by (simp add: weakest_evidence_min)
qed

section \<open>The states of the search\<close>

definition prepare_plan :: "Plan \<Rightarrow> Plan" where
  "prepare_plan p = p\<lparr>pl_ID := [], pl_ContentHash := [], pl_CanonicalJSON := []\<rparr>"

definition stamp_plan :: "string \<Rightarrow> string \<Rightarrow> Plan \<Rightarrow> Plan" where
  "stamp_plan encoded hash p = p\<lparr>pl_ID := ''plan_'' @ hash, pl_ContentHash := hash, pl_CanonicalJSON := encoded\<rparr>"

interpretation plan_seal: sealed_value canonicalizePlan prepare_plan json_plan stamp_plan ErrCompositionEncoding
  by unfold_locales (simp_all add: canonicalizePlan_def prepare_plan_def stamp_plan_def Let_def split: sum.split prod.split)

interpretation gap_order: keyed_order gap_less gapKey
  by unfold_locales (simp add: gap_less_def)

definition chosen_edges :: "CompatibilityEdge list \<Rightarrow> string list \<Rightarrow> CompatibilityEdge list" where
  "chosen_edges edges nodes = (if length nodes < 2 then []
     else sort_slice edge_less (filter (\<lambda>e. ce_SourceVersionID e \<in> set nodes \<and> ce_TargetVersionID e \<in> set nodes) edges))"

lemma select_loop_Inr:
  "select_loop nodes edges b = (Inr es, b') \<Longrightarrow>
     es = filter (\<lambda>e. ce_SourceVersionID e \<in> set nodes \<and> ce_TargetVersionID e \<in> set nodes) edges"
  by (induction nodes edges b arbitrary: es b' rule: select_loop.induct) (auto split: option.splits prod.splits sum.splits if_splits)

lemma selectedEdges_Inr: "selectedEdges edges nodes b = (Inr es, b') \<Longrightarrow> es = chosen_edges edges nodes"
  by (auto simp: selectedEdges_def chosen_edges_def dest: select_loop_Inr split: if_splits prod.splits sum.splits)

lemma buildSearchState_Inr:
  assumes "buildSearchState ext manifest request candidates seeds goals satisfied ns b = (Inr st, b')"
  obtains ordered penalty strength where
    "topologicalOrder ns (chosen_edges (cg_Edges (rp_Graph request)) ns) = Inr ordered"
    "bridge_count (map (byVersion candidates) ordered) \<le> pm_MaximumBridges (pn_Spec manifest)"
    "total_tool_cost (map (byVersion candidates) ordered) \<le> ucast (pm_MaximumTotalToolCost (pn_Spec manifest))"
    "checkedPlannerMul (ucast (bridge_count (map (byVersion candidates) ordered))) (pm_NoveltyPenalty (pn_Spec manifest)) = Some penalty"
    "strength = penalized (weakest_evidence (map (byVersion candidates) ordered)) penalty
       (checkedPlannerMul (unobserved_count candidates (chosen_edges (cg_Edges (rp_Graph request)) ns))
         (pm_UnobservedEdgePenalty (pn_Spec manifest)))"
    "canonicalizePlan ext (draft_plan manifest request candidates seeds goals satisfied
       (chosen_edges (cg_Edges (rp_Graph request)) ns) ordered strength) = Inr (st_plan st)"
    "st_nodeSet st = ns" "st_hash st = pl_ContentHash (st_plan st)"
proof -
  let ?es = "chosen_edges (cg_Edges (rp_Graph request)) ns"
  obtain b1 where e: "selectedEdges (cg_Edges (rp_Graph request)) ns b = (Inr ?es, b1)"
    using assms by (auto simp: buildSearchState_def dest: selectedEdges_Inr split: prod.splits sum.splits)
  obtain ordered where o: "topologicalOrder ns ?es = Inr ordered"
    using assms by (auto simp: buildSearchState_def e)
  show thesis
    using assms that [OF o] unfolding buildSearchState_def e
    by (auto simp: o Let_def not_less split: if_splits option.splits)
qed

section \<open>The plan of a state is valid\<close>

text \<open>Sets of nodes that the search considers.\<close>

definition node_set :: "PlannerCandidate list \<Rightarrow> nat \<Rightarrow> string list \<Rightarrow> bool" where
  "node_set candidates n ns \<longleftrightarrow> ns \<noteq> [] \<and> distinct ns \<and> set ns \<subseteq> set (map pc_VersionID candidates) \<and> length ns \<le> n"

lemma byVersion_member:
  assumes "v \<in> set (map pc_VersionID candidates)"
  shows "byVersion candidates v \<in> set candidates" "pc_VersionID (byVersion candidates v) = v"
  using assms by (auto simp: byVersion_def find_None_iff find_Some_iff split: option.splits)

lemma topologicalOrder_Inr:
  assumes "topologicalOrder ns (chosen_edges edges ns) = Inr ordered" "distinct ns"
  shows "distinct ordered" "set ordered = set ns" "forward (map edge_ends (chosen_edges edges ns)) ordered"
proof -
  have "topological_order ns (map edge_ends (chosen_edges edges ns)) = Some ordered"
    using assms(1) by (auto simp: topologicalOrder_def split: option.splits)
  moreover have "set (map snd (map edge_ends (chosen_edges edges ns))) \<subseteq> set ns"
    by (auto simp: chosen_edges_def)
  ultimately show "distinct ordered" "set ordered = set ns" "forward (map edge_ends (chosen_edges edges ns)) ordered"
    using topological_order_Some [OF assms(2)] by blast+
qed

lemma chosen_edges_sorted:
  assumes "strictly_sorted (map ce_ID edges)" shows "strictly_sorted (map ce_ID (chosen_edges edges ns))"
proof -
  have "distinct (map ce_ID (filter P edges))" for P
    using assms by (simp add: strictly_sorted_sorted_distinct distinct_map inj_on_def)
  then show ?thesis by (simp add: chosen_edges_def edge_order.keys_strictly_sorted)
qed

lemma set_chosen_edges: "set (chosen_edges edges ns) \<subseteq> set edges"
  by (auto simp: chosen_edges_def)

lemma node_position_draft:
  assumes "pl_Nodes p = map (\<lambda>(i, v). node_of i (f v) v) (enumerate 0 ordered)" "distinct ordered" "i < length ordered" "ordered ! i = v"
  shows "node_position p v = Some i"
proof -
  have "find (\<lambda>(_, n). no_VersionID n = v) (enumerate 0 (pl_Nodes p)) = Some (i, node_of i (f v) v)"
    unfolding find_Some_iff using assms
    by (intro exI [of _ i]) (auto simp: nth_enumerate_eq node_of_def nth_eq_iff_index_eq)
  then show ?thesis by (simp add: node_position_def)
qed

lemma forward_positions:
  assumes "forward arrows ordered" "distinct ordered" "(s, t) \<in> set arrows" "s \<in> set ordered" "t \<in> set ordered"
  shows "\<exists>i j. i < j \<and> j < length ordered \<and> ordered ! i = s \<and> ordered ! j = t"
proof -
  obtain ys zs where o: "ordered = ys @ t # zs" using assms(5) by (meson split_list)
  then have "s \<in> set ys" using assms(1,3) by (auto simp: forward_def)
  then obtain i where "i < length ys" "ys ! i = s" by (auto simp: in_set_conv_nth)
  then show ?thesis using o by (intro exI [of _ i] exI [of _ "length ys"]) (simp add: nth_append)
qed

text \<open>The interface of a valid candidate lists each requirement once, under an identifier without NUL.\<close>

lemma valid_interface_ids:
  assumes "digest32 ext" "ValidateProcedureInterface ext i"
  shows "distinct (map rq_ID (pi_Requirements i))"
    "r \<in> set (pi_Requirements i) \<Longrightarrow> \<exists>h. hashPattern h \<and> rq_ID r = ''req_'' @ h"
    "p \<in> set (pi_Provisions i) \<Longrightarrow> \<exists>h. hashPattern h \<and> pv_ID p = ''prov_'' @ h"
    "hashPattern (pi_ContentHash i)"
proof -
  show "distinct (map rq_ID (pi_Requirements i))" "hashPattern (pi_ContentHash i)"
    using assms(2) by (simp_all add: ValidateProcedureInterface_def strictly_sorted_sorted_distinct)
  show "\<exists>h. hashPattern h \<and> rq_ID r = ''req_'' @ h" if "r \<in> set (pi_Requirements i)"
    using assms(2) that by (intro identified_hash [OF assms(1)]) (auto simp: ValidateProcedureInterface_def valid_requirement_def list_all_iff)
  show "\<exists>h. hashPattern h \<and> pv_ID p = ''prov_'' @ h" if "p \<in> set (pi_Provisions i)"
    using assms(2) that by (intro identified_hash [OF assms(1)]) (auto simp: ValidateProcedureInterface_def valid_provision_def list_all_iff)
qed

lemma hashPattern_no_nul: "hashPattern h \<Longrightarrow> \<not> contains_nul h"
  by (auto simp: hashPattern_def contains_nul_def list_all_iff is_hex_char_def is_digit_char_def)

lemma gapKey_inject:
  assumes "gapKey a = gapKey b"
    and "\<not> contains_nul (ga_Code a)" "\<not> contains_nul (ga_VersionID a)" "\<not> contains_nul (ga_RequirementID a)"
    and "\<not> contains_nul (ga_Code b)" "\<not> contains_nul (ga_VersionID b)" "\<not> contains_nul (ga_RequirementID b)"
  shows "a = b"
proof -
  have "ga_Code a = ga_Code b \<and> ga_VersionID a = ga_VersionID b \<and> ga_RequirementID a = ga_RequirementID b \<and>
      ga_GoalPredicateID a = ga_GoalPredicateID b"
    using assms(1) unfolding gapKey_def
    by (simp only: nul_separated_inject [OF assms(2,5)] nul_separated_inject [OF assms(3,6)] nul_separated_inject [OF assms(4,7)])
  then show ?thesis by (cases a; cases b) simp
qed

lemma distinct_concat_map:
  assumes "distinct xs" "\<And>x. x \<in> set xs \<Longrightarrow> distinct (f x)"
    and "\<And>x y. x \<in> set xs \<Longrightarrow> y \<in> set xs \<Longrightarrow> x \<noteq> y \<Longrightarrow> set (f x) \<inter> set (f y) = {}"
  shows "distinct (concat (map f xs))"
  using assms
proof (induction xs)
  case (Cons x xs)
  have "set (f x) \<inter> set (f y) = {}" if "y \<in> set xs" for y using Cons.prems(1) Cons.prems(3) [of x y] that by auto
  then have "set (f x) \<inter> set (concat (map f xs)) = {}" by auto
  moreover have "distinct (concat (map f xs))" using Cons by auto
  ultimately show ?case using Cons.prems(2) by simp
qed simp

definition draft_gaps :: "PlannerCandidate list \<Rightarrow> string list \<Rightarrow> string list \<Rightarrow> string list \<Rightarrow> PlanGap list" where
  "draft_gaps candidates satisfied ordered missing =
     concat (map (\<lambda>v. requirement_gaps satisfied v (byVersion candidates v)) ordered) @ map goal_gap missing"

lemma draft_gaps_valid:
  assumes "digest32 ext" "\<forall>c \<in> set candidates. ok_candidate ext policy c" "distinct ordered"
    and "set ordered \<subseteq> set (map pc_VersionID candidates)" "distinct missing" "[] \<notin> set missing"
  shows "list_all gap_shape (draft_gaps candidates satisfied ordered missing)"
    "distinct (map gapKey (draft_gaps candidates satisfied ordered missing))"
proof -
  let ?gaps = "\<lambda>v. requirement_gaps satisfied v (byVersion candidates v)"
  have c: "ok_candidate ext policy (byVersion candidates v)" "pc_VersionID (byVersion candidates v) = v" if "v \<in> set ordered" for v
    using that assms(2,4) byVersion_member [of v candidates] by auto
  have i: "ValidateProcedureInterface ext (pc_Interface (byVersion candidates v))" "v \<noteq> []" "\<not> contains_nul v" if "v \<in> set ordered" for v
    using c [OF that] by (auto simp: ok_candidate_def)
  have r: "rq_ID r \<noteq> [] \<and> \<not> contains_nul (rq_ID r)"
    if "v \<in> set ordered" "r \<in> set (pi_Requirements (pc_Interface (byVersion candidates v)))" for v r
    using valid_interface_ids(2) [OF assms(1) i(1) [OF that(1)] that(2)] hashPattern_no_nul by (auto simp: contains_nul_def)
  have code: "\<not> contains_nul ''unsatisfied_requirement''" "\<not> contains_nul ''uncovered_goal''" "\<not> contains_nul []"
    by (simp_all add: contains_nul_def)
  have shape: "gap_shape g \<and> \<not> contains_nul (ga_Code g) \<and> \<not> contains_nul (ga_VersionID g) \<and> \<not> contains_nul (ga_RequirementID g)"
    if "g \<in> set (draft_gaps candidates satisfied ordered missing)" for g
    using that r i(2,3) code assms(6) by (auto simp: draft_gaps_def requirement_gaps_def goal_gap_def gap_shape_def)
  then show "list_all gap_shape (draft_gaps candidates satisfied ordered missing)" by (simp add: list_all_iff)
  have "distinct (?gaps v)" if "v \<in> set ordered" for v
    using valid_interface_ids(1) [OF assms(1) i(1) [OF that]]
    by (auto simp: requirement_gaps_def distinct_map inj_on_def)
  then have "distinct (concat (map ?gaps ordered))"
    using assms(3) by (intro distinct_concat_map) (auto simp: requirement_gaps_def)
  then have "distinct (draft_gaps candidates satisfied ordered missing)"
    using assms(5) by (auto simp: draft_gaps_def requirement_gaps_def goal_gap_def distinct_map inj_on_def)
  moreover have "inj_on gapKey (set (draft_gaps candidates satisfied ordered missing))"
    using shape by (intro inj_onI gapKey_inject) auto
  ultimately show "distinct (map gapKey (draft_gaps candidates satisfied ordered missing))" by (simp add: distinct_map)
qed

lemma total_tool_cost_exact:
  assumes "length cs \<le> 32" shows "unat (total_tool_cost cs) = sum_list (map (\<lambda>c. unat (pc_ToolCost c)) cs)"
proof -
  have bound: "sum_list (map (\<lambda>c. unat (pc_ToolCost c)) ds) \<le> length ds * 4294967295" for ds
  proof (induction ds)
    case (Cons d ds)
    have "unat (pc_ToolCost d) < 2 ^ LENGTH(32)" by (rule unsigned_less)
    then show ?case using Cons by simp
  qed simp
  from assms show ?thesis
  proof (induction cs)
    case (Cons c cs)
    have "unat (pc_ToolCost c) + sum_list (map (\<lambda>c. unat (pc_ToolCost c)) cs) < 2 ^ 64"
      using bound [of "c # cs"] Cons.prems by simp
    then show ?case using Cons by (simp add: total_tool_cost_def unat_word_ariths unsigned_ucast_eq take_bit_eq_mod)
  qed (simp add: total_tool_cost_def)
qed

lemma draft_fields [simp]:
  fixes manifest request candidates seeds goals ext_sat edges ordered strength
  defines "d \<equiv> draft_plan manifest request candidates seeds goals ext_sat edges ordered strength"
  shows "pl_SchemaVersion d = ''composition-plan.v1''" "pl_TenantID d = rp_TenantID request" "pl_ProjectionEpoch d = rp_ProjectionEpoch request"
    "pl_PlannerManifestID d = pn_ID manifest" "pl_PolicyManifestID d = rp_PolicyManifestID request"
    "pl_CompatibilityGraphID d = cg_ID (rp_Graph request)" "pl_CompatibilityGraphHash d = cg_ContentHash (rp_Graph request)"
    "pl_CompatibilityMatrixHash d = cg_MatrixHash (rp_Graph request)" "pl_CandidateSetHash d = cg_CandidateSetHash (rp_Graph request)"
    "pl_Nodes d = map (\<lambda>(i, v). node_of i (byVersion candidates v) v) (enumerate 0 ordered)"
    "pl_Dependencies d = map dependency_of edges" "pl_CompatibilityEdgeIDs d = sort (map ce_ID edges)"
    "pl_ExternallySatisfiedRequirementIDs d = ext_sat"
    "pl_SatisfiedRequirementIDs d = sorted_keys (ext_sat @ concat (map ce_SatisfiedRequirementIDs edges))"
    "pl_RequestedGoalPredicateIDs d = goals" "pl_SeedVersionIDs d = seeds" "pl_EvidenceStrength d = strength" "pl_LimitCodes d = []"
    "pl_ToolCost d = total_tool_cost (map (byVersion candidates) ordered)"
    "pl_ProducedResourceIDs d = sorted_keys (concat (map (\<lambda>v. map pv_ID (pi_Provisions (pc_Interface (byVersion candidates v)))) ordered))"
    "pl_CoveredGoalPredicateIDs d =
       sorted_keys (filter (\<lambda>g. g \<in> set goals) (concat (map (\<lambda>v. pc_GoalPredicateIDs (byVersion candidates v)) ordered)))"
    "pl_Gaps d = sort_slice gap_less (draft_gaps candidates (ext_sat @ concat (map ce_SatisfiedRequirementIDs edges)) ordered
       (filter (\<lambda>g. g \<notin> set (pl_CoveredGoalPredicateIDs d)) goals))"
    "pl_Complete d = (pl_Gaps d = [])"
  by (simp_all add: d_def draft_plan_def draft_gaps_def Let_def comp_def)

lemma strictSorted_sorted_keys: "[] \<notin> set vs \<Longrightarrow> strictSorted (sorted_keys vs)"
  by (simp add: strictSorted_def)

lemma valid_edge_ids:
  assumes "validateCompatibilityEdge ext e g"
  shows "strictPrefixed (ce_SourceProvisionIDs e) ''prov_''" "strictPrefixed (ce_SatisfiedRequirementIDs e) ''req_''"
    "[] \<notin> set (ce_SatisfiedRequirementIDs e)" "\<exists>h. hashPattern h \<and> ce_ID e = ''cedge_'' @ h"
    "ce_SourceVersionID e \<noteq> ce_TargetVersionID e"
  using assms by (auto simp: validateCompatibilityEdge_def strictPrefixed_def strictSorted_def)

lemma strictPrefixed_ids:
  assumes "strictly_sorted vs" "\<And>v. v \<in> set vs \<Longrightarrow> \<exists>h. hashPattern h \<and> v = prefix @ h" "prefix \<noteq> []"
  shows "strictPrefixed vs prefix"
  using assms by (fastforce simp: strictPrefixed_def strictSorted_def list_all_iff hashPattern_def)

lemma manifest_id_nonempty: "ValidatePlannerManifest ext m \<Longrightarrow> pn_ID m \<noteq> []"
  by (auto simp: ValidatePlannerManifest_def NewPlannerManifest_def Let_def split: sum.splits if_splits)

lemma manifest_spec_valid:
  "ValidatePlannerManifest ext m \<Longrightarrow> validPlannerSpec ((pn_Spec m)\<lparr>pm_Version := TrimSpace (pm_Version (pn_Spec m))\<rparr>)"
  by (auto simp: ValidatePlannerManifest_def NewPlannerManifest_def Let_def split: sum.splits if_splits)

text \<open>The parts of the validator that speak of the nodes and the dependencies.\<close>

lemma draft_nodes_valid:
  assumes "digest32 ext" "\<forall>c \<in> set candidates. ok_candidate ext policy c" "distinct (map pc_VersionID candidates)"
    and "\<forall>c \<in> set candidates. length (pc_VersionID c) \<le> 1024"
    and "set ordered \<subseteq> set (map pc_VersionID candidates)" "seeds = sort (map pc_VersionID (filter pc_Seed candidates))"
  shows "list_all (\<lambda>(ordinal, n). no_Ordinal n = of_nat ordinal \<and> safeIdentity (no_VersionID n) \<and> hashPattern (no_InterfaceHash n) \<and>
      no_Bridge n \<noteq> (no_VersionID n \<in> set seeds))
    (enumerate 0 (map (\<lambda>(i, v). node_of i (byVersion candidates v) v) (enumerate 0 ordered)))"
proof -
  have "safeIdentity v \<and> hashPattern (pi_ContentHash (pc_Interface (byVersion candidates v))) \<and>
      (v \<in> set seeds \<longleftrightarrow> pc_Seed (byVersion candidates v))" if "v \<in> set ordered" for v
  proof -
    have c: "byVersion candidates v \<in> set candidates" "pc_VersionID (byVersion candidates v) = v"
      using byVersion_member [of v candidates] that assms(5) by auto
    have "v \<in> set seeds \<longleftrightarrow> pc_Seed (byVersion candidates v)"
      using c assms(3,6) by (auto simp: distinct_map intro!: image_eqI [of _ _ "byVersion candidates v"] dest: inj_onD)
    then show ?thesis using c assms(2,4) valid_interface_ids(4) [OF assms(1)]
      by (auto simp: ok_candidate_def safeIdentity_def)
  qed
  then show ?thesis
    by (auto simp: list_all_length nth_enumerate_eq node_of_def)
qed

lemma draft_dependencies_valid:
  assumes "pl_Nodes p = map (\<lambda>(i, v). node_of i (f v) v) (enumerate 0 ordered)" "distinct ordered" "forward (map edge_ends edges) ordered"
    and "\<forall>e \<in> set edges. validateCompatibilityEdge ext e g \<and> ce_SourceVersionID e \<in> set ordered \<and> ce_TargetVersionID e \<in> set ordered"
  shows "list_all2 (dependency_ok p) (map dependency_of edges) (map ce_ID edges)"
proof -
  have "dependency_ok p (dependency_of e) (ce_ID e)" if e: "e \<in> set edges" for e
  proof -
    have v: "validateCompatibilityEdge ext e g" "ce_SourceVersionID e \<in> set ordered" "ce_TargetVersionID e \<in> set ordered"
      using assms(4) e by blast+
    have "edge_ends e \<in> set (map edge_ends edges)" using e by simp
    then obtain i j where ij: "i < j" "j < length ordered" "ordered ! i = ce_SourceVersionID e" "ordered ! j = ce_TargetVersionID e"
      using forward_positions [OF assms(3,2) _ v(2,3)] by auto
    have "node_position p (ce_SourceVersionID e) = Some i" "node_position p (ce_TargetVersionID e) = Some j"
      using node_position_draft [OF assms(1,2)] ij by auto
    then show ?thesis using ij(1) valid_edge_ids [OF v(1)] by (simp add: dependency_ok_def dependency_of_def)
  qed
  then show ?thesis by (simp add: list_all2_conv_all_nth)
qed

lemma stamped_fields:
  "pl_SchemaVersion (stamp_plan e h (prepare_plan (d\<lparr>pl_LimitCodes := codes\<rparr>))) = pl_SchemaVersion d"
  "pl_TenantID (stamp_plan e h (prepare_plan (d\<lparr>pl_LimitCodes := codes\<rparr>))) = pl_TenantID d"
  "pl_ProjectionEpoch (stamp_plan e h (prepare_plan (d\<lparr>pl_LimitCodes := codes\<rparr>))) = pl_ProjectionEpoch d"
  "pl_PlannerManifestID (stamp_plan e h (prepare_plan (d\<lparr>pl_LimitCodes := codes\<rparr>))) = pl_PlannerManifestID d"
  "pl_PolicyManifestID (stamp_plan e h (prepare_plan (d\<lparr>pl_LimitCodes := codes\<rparr>))) = pl_PolicyManifestID d"
  "pl_CompatibilityGraphID (stamp_plan e h (prepare_plan (d\<lparr>pl_LimitCodes := codes\<rparr>))) = pl_CompatibilityGraphID d"
  "pl_CompatibilityGraphHash (stamp_plan e h (prepare_plan (d\<lparr>pl_LimitCodes := codes\<rparr>))) = pl_CompatibilityGraphHash d"
  "pl_CompatibilityMatrixHash (stamp_plan e h (prepare_plan (d\<lparr>pl_LimitCodes := codes\<rparr>))) = pl_CompatibilityMatrixHash d"
  "pl_CandidateSetHash (stamp_plan e h (prepare_plan (d\<lparr>pl_LimitCodes := codes\<rparr>))) = pl_CandidateSetHash d"
  "pl_Nodes (stamp_plan e h (prepare_plan (d\<lparr>pl_LimitCodes := codes\<rparr>))) = pl_Nodes d"
  "pl_Dependencies (stamp_plan e h (prepare_plan (d\<lparr>pl_LimitCodes := codes\<rparr>))) = pl_Dependencies d"
  "pl_CompatibilityEdgeIDs (stamp_plan e h (prepare_plan (d\<lparr>pl_LimitCodes := codes\<rparr>))) = pl_CompatibilityEdgeIDs d"
  "pl_ExternallySatisfiedRequirementIDs (stamp_plan e h (prepare_plan (d\<lparr>pl_LimitCodes := codes\<rparr>))) = pl_ExternallySatisfiedRequirementIDs d"
  "pl_SatisfiedRequirementIDs (stamp_plan e h (prepare_plan (d\<lparr>pl_LimitCodes := codes\<rparr>))) = pl_SatisfiedRequirementIDs d"
  "pl_ProducedResourceIDs (stamp_plan e h (prepare_plan (d\<lparr>pl_LimitCodes := codes\<rparr>))) = pl_ProducedResourceIDs d"
  "pl_CoveredGoalPredicateIDs (stamp_plan e h (prepare_plan (d\<lparr>pl_LimitCodes := codes\<rparr>))) = pl_CoveredGoalPredicateIDs d"
  "pl_RequestedGoalPredicateIDs (stamp_plan e h (prepare_plan (d\<lparr>pl_LimitCodes := codes\<rparr>))) = pl_RequestedGoalPredicateIDs d"
  "pl_SeedVersionIDs (stamp_plan e h (prepare_plan (d\<lparr>pl_LimitCodes := codes\<rparr>))) = pl_SeedVersionIDs d"
  "pl_Gaps (stamp_plan e h (prepare_plan (d\<lparr>pl_LimitCodes := codes\<rparr>))) = pl_Gaps d"
  "pl_Complete (stamp_plan e h (prepare_plan (d\<lparr>pl_LimitCodes := codes\<rparr>))) = pl_Complete d"
  "pl_EvidenceStrength (stamp_plan e h (prepare_plan (d\<lparr>pl_LimitCodes := codes\<rparr>))) = pl_EvidenceStrength d"
  "pl_AllObservedEndToEnd (stamp_plan e h (prepare_plan (d\<lparr>pl_LimitCodes := codes\<rparr>))) = pl_AllObservedEndToEnd d"
  "pl_RiskCost (stamp_plan e h (prepare_plan (d\<lparr>pl_LimitCodes := codes\<rparr>))) = pl_RiskCost d"
  "pl_ToolCost (stamp_plan e h (prepare_plan (d\<lparr>pl_LimitCodes := codes\<rparr>))) = pl_ToolCost d"
  "pl_LimitCodes (stamp_plan e h (prepare_plan (d\<lparr>pl_LimitCodes := codes\<rparr>))) = codes"
  "pl_ID (stamp_plan e h q) = ''plan_'' @ h"
  "pl_ContentHash (stamp_plan e h q) = h"
  "pl_CanonicalJSON (stamp_plan e h q) = e"
  by (simp_all add: stamp_plan_def prepare_plan_def)

lemma draft_plan_valid:
  assumes "digest32 ext" "valid_inputs ext manifest request candidates goals satisfied"
    and short: "\<forall>c \<in> set candidates. length (pc_VersionID c) \<le> 1024"
    and ns: "node_set candidates 32 ns"
    and ord: "topologicalOrder ns (chosen_edges (cg_Edges (rp_Graph request)) ns) = Inr ordered"
    and seeds: "seeds = sort (map pc_VersionID (filter pc_Seed candidates))"
    and "0 \<le> sint strength" "strictSorted codes" "set codes \<subseteq> limit_codes"
    and plan: "canonicalizePlan ext ((draft_plan manifest request candidates seeds goals satisfied
        (chosen_edges (cg_Edges (rp_Graph request)) ns) ordered strength)\<lparr>pl_LimitCodes := codes\<rparr>) = Inr p"
  shows "ValidatePlan ext p"
proof -
  let ?edges = "chosen_edges (cg_Edges (rp_Graph request)) ns"
  let ?d = "draft_plan manifest request candidates seeds goals satisfied ?edges ordered strength"
  have v: "ValidatePlannerManifest ext manifest" "rp_TenantID request \<noteq> []" "rp_ProjectionEpoch request \<noteq> 0"
    "rp_PolicyManifestID request \<noteq> []" "normalizedIDs (rp_GoalPredicateIDs request) False = Some goals" "goals \<noteq> []"
    "normalizedIDs (rp_SatisfiedRequirementIDs request) True = Some satisfied"
    "\<forall>c \<in> set candidates. ok_candidate ext (rp_PolicyManifestID request) c" "distinct (map pc_VersionID candidates)"
    "\<exists>c \<in> set candidates. pc_Seed c" and gv: "\<exists>b b'. validateCompatibilityGraph ext (rp_Graph request) b = Inr b'"
    using assms(2) by (simp_all add: valid_inputs_def)
  obtain b b' where "validateCompatibilityGraph ext (rp_Graph request) b = Inr b'" using gv by blast
  note g = validateCompatibilityGraph_Inr [OF this]
  note goals = normalizedIDs_Some [OF v(5)] and sat = normalizedIDs_Some [OF v(7)]
  have nset: "ns \<noteq> []" "distinct ns" "set ns \<subseteq> set (map pc_VersionID candidates)" "length ns \<le> 32"
    using ns by (simp_all add: node_set_def)
  note o = topologicalOrder_Inr [OF ord nset(2)]
  have len: "length ordered \<le> 32" "ordered \<noteq> []"
    using o(1,2) nset(1,2,4) distinct_card by (metis, metis set_empty)
  have inside: "set ordered \<subseteq> set (map pc_VersionID candidates)" using o(2) nset(3) by simp
  have edges: "\<forall>e \<in> set ?edges. validateCompatibilityEdge ext e (rp_Graph request) \<and> ce_SourceVersionID e \<in> set ordered \<and>
      ce_TargetVersionID e \<in> set ordered"
    using g(7) set_chosen_edges [of "cg_Edges (rp_Graph request)" ns] o(2) by (auto simp: chosen_edges_def)
  have ids: "strictly_sorted (map ce_ID ?edges)" by (rule chosen_edges_sorted [OF g(6)])
  then have sorted_ids: "sort (map ce_ID ?edges) = map ce_ID ?edges"
    by (simp add: strictly_sorted_sorted_distinct sorted_sort_id)
  have prefixed: "strictPrefixed (map ce_ID ?edges) ''cedge_''"
    using edges valid_edge_ids(4) by (intro strictPrefixed_ids [OF ids]) auto
  have member: "ok_candidate ext (rp_PolicyManifestID request) (byVersion candidates u)" if "u \<in> set ordered" for u
    using v(8) byVersion_member(1) that inside by blast
  have produced: "pv_ID q \<noteq> []" if "u \<in> set ordered" "q \<in> set (pi_Provisions (pc_Interface (byVersion candidates u)))" for u q
    using valid_interface_ids(3) [OF assms(1) _ that(2)] member [OF that(1)] by (auto simp: ok_candidate_def)
  have goal: "[] \<notin> set goals" "[] \<notin> set satisfied" "distinct goals"
    using goals(1,3) sat(3) by (simp_all add: strictSorted_def strictly_sorted_sorted_distinct)
  have gaps: "list_all gap_shape (pl_Gaps ?d)" "distinct (map gapKey (pl_Gaps ?d))"
  proof -
    have m: "distinct (filter P goals)" "[] \<notin> set (filter P goals)" for P using goal by simp_all
    note d = draft_gaps_valid [OF assms(1) v(8) o(1) inside m]
    show "list_all gap_shape (pl_Gaps ?d)" using d(1) by (simp only: draft_fields(22) list_all_iff set_sort_slice) blast
    show "distinct (map gapKey (pl_Gaps ?d))" by (simp only: draft_fields(22) distinct_map_sort_slice d(2))
  qed
  have gap_keys: "strictly_sorted (map gapKey (pl_Gaps ?d))"
    using gaps(2) by (simp only: draft_fields(22) distinct_map_sort_slice gap_order.keys_strictly_sorted)
  have "0 < sum_list (map (\<lambda>u. unat (pc_ToolCost (byVersion candidates u))) ordered)"
    using member len(2) by (cases ordered) (auto simp: ok_candidate_def unat_gt_0)
  then have "unat (total_tool_cost (map (byVersion candidates) ordered)) \<noteq> 0"
    using total_tool_cost_exact [of "map (byVersion candidates) ordered"] len(1)
    by (simp only: length_map map_map comp_def not_gr_zero [symmetric] not_not)
  then have cost: "total_tool_cost (map (byVersion candidates) ordered) \<noteq> 0" by (metis unsigned_0)
  have "set seeds \<noteq> {}" using v(10) by (auto simp: seeds)
  then have "seeds \<noteq> []" by auto
  moreover have "strictSorted seeds"
    using v(8-10) by (auto simp: seeds strictSorted_def ok_candidate_def strictly_sorted_sorted_distinct
        distinct_map inj_on_def)
  ultimately have seed: "seeds \<noteq> []" "strictSorted seeds" .
  obtain enc where enc: "p = stamp_plan enc (hash_bytes ext enc) (prepare_plan (?d\<lparr>pl_LimitCodes := codes\<rparr>))"
    "MarshalAndHash ext (json_plan (prepare_plan (?d\<lparr>pl_LimitCodes := codes\<rparr>))) = Inr (enc, hash_bytes ext enc)"
    using plan by (rule plan_seal.seal_Inr)
  have body: "p\<lparr>pl_ID := [], pl_ContentHash := [], pl_CanonicalJSON := []\<rparr> = prepare_plan (?d\<lparr>pl_LimitCodes := codes\<rparr>)"
    by (simp add: enc(1) stamp_plan_def prepare_plan_def)
  have deps: "list_all2 (dependency_ok p) (map dependency_of ?edges) (map ce_ID ?edges)"
    by (rule draft_dependencies_valid [where f = "byVersion candidates", OF _ o(1) o(3) edges]) (simp add: enc(1) stamp_plan_def prepare_plan_def)
  have nodes: "distinct (map no_VersionID (map (\<lambda>(i, v). node_of i (byVersion candidates v) v) (enumerate 0 ordered)))"
    using o(1) by (simp add: comp_def node_of_def case_prod_beta)
  have lists: "strictSorted (pl_SatisfiedRequirementIDs ?d)" "strictSorted (pl_ProducedResourceIDs ?d)" "strictSorted (pl_CoveredGoalPredicateIDs ?d)"
  proof -
    have "[] \<notin> set (ce_SatisfiedRequirementIDs e)" if "e \<in> set ?edges" for e using that edges valid_edge_ids(3) by blast
    then show "strictSorted (pl_SatisfiedRequirementIDs ?d)" using goal(2) by (auto intro!: strictSorted_sorted_keys)
    show "strictSorted (pl_ProducedResourceIDs ?d)" using produced by (fastforce intro!: strictSorted_sorted_keys)
    show "strictSorted (pl_CoveredGoalPredicateIDs ?d)" using goal(1) by (auto intro!: strictSorted_sorted_keys)
  qed
  note f = stamped_fields
  have covered: "list_all (\<lambda>g. g \<in> set goals) (pl_CoveredGoalPredicateIDs ?d)" by (auto simp: list_all_iff)
  have known: "list_all (\<lambda>c. c = ''beam_truncated'' \<or> c = ''depth_exhausted'' \<or> c = ''expansion_budget_exhausted'' \<or>
      c = ''work_budget_exhausted'') codes"
  proof -
    have "\<forall>c \<in> set codes. c \<in> limit_codes" using assms(9) by (rule subsetD [THEN ballI])
    then show ?thesis unfolding list_all_iff limit_codes_iff .
  qed
  have base: "pl_Nodes ?d \<noteq> []" using len(2) by (cases ordered) simp_all
  show ?thesis
    unfolding ValidatePlan_def body enc(2) unfolding enc(1) f draft_fields(1-13,15-17,19,23) sorted_ids length_map
    using deps [unfolded enc(1)] v(2-4,6) g(1-4) base cost seed assms(7,8) goals(3) sat(3) lists prefixed nodes gap_keys gaps(1) covered known
      draft_nodes_valid [OF assms(1) v(8,9) short inside seeds] manifest_id_nonempty [OF v(1)] hashPattern_hash_bytes [OF assms(1), of enc]
    by (simp only: draft_fields(10) refl simp_thms)
qed

section \<open>The search on the model's states\<close>

definition search_nodes :: "PlannerCandidate list \<Rightarrow> CompatibilityEdge list \<Rightarrow> nat \<Rightarrow> string list \<Rightarrow> bool" where
  "search_nodes candidates edges bound ns \<longleftrightarrow> ns \<noteq> [] \<and> distinct ns \<and> length ns \<le> max 1 bound \<and>
     (\<forall>v \<in> set ns. v \<in> set (map pc_VersionID candidates) \<or> (\<exists>e \<in> set edges. v = ce_SourceVersionID e \<or> v = ce_TargetVersionID e))"

interpretation planner_search: beam_search
  "buildSearchState ext manifest request candidates seeds goals satisfied" "cg_Edges (rp_Graph request)"
  "search_nodes candidates (cg_Edges (rp_Graph request)) (unat (pm_MaximumProcedures (pn_Spec manifest)))"
  "unat (pm_MaximumProcedures (pn_Spec manifest))"
  for ext manifest request candidates seeds goals satisfied
proof
  show "st_nodeSet st = ns" if "buildSearchState ext manifest request candidates seeds goals satisfied ns b = (Inr st, b')" for ns b st b'
    using that by (rule buildSearchState_Inr)
qed (auto simp: search_nodes_def)

lemma valid_limits:
  assumes "ValidatePlannerManifest ext manifest"
  shows "0 < unat (pm_MaximumProcedures (pn_Spec manifest))" "unat (pm_MaximumProcedures (pn_Spec manifest)) \<le> 32"
    "0 \<le> sint (pm_NoveltyPenalty (pn_Spec manifest))" "0 \<le> sint (pm_UnobservedEdgePenalty (pn_Spec manifest))"
    "sint (pm_NoveltyPenalty (pn_Spec manifest)) \<le> 2147483647" "sint (pm_UnobservedEdgePenalty (pn_Spec manifest)) \<le> 2147483647"
  using manifest_spec_valid [OF assms] by (auto simp: validPlannerSpec_def word_le_nat_alt word_less_nat_alt unat_gt_0)

lemma search_nodes_valid:
  assumes "valid_inputs ext manifest request candidates goals satisfied"
    and "search_nodes candidates (cg_Edges (rp_Graph request)) (unat (pm_MaximumProcedures (pn_Spec manifest))) ns"
  shows "node_set candidates (unat (pm_MaximumProcedures (pn_Spec manifest))) ns" "node_set candidates 32 ns"
  using assms valid_limits(1,2) [of ext manifest] by (force simp: valid_inputs_def search_nodes_def node_set_def)+

lemma limits_resealed:
  assumes "canonicalizePlan ext d = Inr q" "pl_LimitCodes d = []"
    and "(if codes \<noteq> [] then canonicalizePlan ext (q\<lparr>pl_LimitCodes := codes\<rparr>) else Inr (q\<lparr>pl_LimitCodes := codes\<rparr>)) = Inr plan"
  shows "canonicalizePlan ext (d\<lparr>pl_LimitCodes := codes\<rparr>) = Inr plan"
proof -
  obtain e h where q: "q = stamp_plan e h (prepare_plan d)" using assms(1) by (rule plan_seal.seal_Inr)
  have d: "d\<lparr>pl_LimitCodes := []\<rparr> = d" using assms(2) by (cases d) simp
  show ?thesis
  proof (cases "codes = []")
    case True
    have "q\<lparr>pl_LimitCodes := []\<rparr> = q" using assms(2) by (cases d) (simp add: q stamp_plan_def prepare_plan_def)
    then show ?thesis using assms(1,3) True d by simp
  next
    case False
    have "prepare_plan (q\<lparr>pl_LimitCodes := codes\<rparr>) = prepare_plan (d\<lparr>pl_LimitCodes := codes\<rparr>)"
      by (simp add: q stamp_plan_def prepare_plan_def)
    then show ?thesis using plan_seal.seal_cong assms(3) False by metis
  qed
qed

text \<open>What a returned plan is.\<close>

definition planned ::
  "externals \<Rightarrow> PlannerManifest \<Rightarrow> PlanRequest \<Rightarrow> PlannerCandidate list \<Rightarrow> string list \<Rightarrow> string list \<Rightarrow> string list \<Rightarrow>
   string list \<Rightarrow> string list \<Rightarrow> string list \<Rightarrow> int64 \<Rightarrow> searchState \<Rightarrow> Plan \<Rightarrow> bool" where
  "planned ext manifest request candidates goals satisfied ns ordered seeds codes strength best plan \<longleftrightarrow>
     (let edges = chosen_edges (cg_Edges (rp_Graph request)) ns;
          draft = draft_plan manifest request candidates seeds goals satisfied edges ordered strength
      in valid_inputs ext manifest request candidates goals satisfied \<and>
         seeds = sort (map pc_VersionID (filter pc_Seed candidates)) \<and>
         node_set candidates (unat (pm_MaximumProcedures (pn_Spec manifest))) ns \<and> topologicalOrder ns edges = Inr ordered \<and>
         (\<exists>b b'. buildSearchState ext manifest request candidates seeds goals satisfied ns b = (Inr best, b')) \<and>
         canonicalizePlan ext draft = Inr (st_plan best) \<and>
         strictSorted codes \<and> set codes \<subseteq> limit_codes \<and> canonicalizePlan ext (draft\<lparr>pl_LimitCodes := codes\<rparr>) = Inr plan)"

lemma depth_loop_exhausted: "bm_exhausted bm \<Longrightarrow> depth_loop build edges spec rounds bm = Inr bm"
  by (cases rounds) simp_all

definition start_beam :: "workBudget \<Rightarrow> beam" where
  "start_beam b = \<lparr>bm_states = [], bm_seen = [], bm_limits = [], bm_best = None, bm_expansions = 0, bm_budget = b, bm_exhausted = False\<rparr>"

lemma PlanProcedures_unfold:
  assumes "PlanProcedures ext manifest request = Inr plan"
  obtains candidates goals satisfied seeds b bm1 bm2 best limits where
    "validatePlanInputs ext manifest request \<lparr>used = 0, maximum = pm_MaximumWorkUnits (pn_Spec manifest)\<rparr> = Inr (candidates, goals, satisfied, b)"
    "seeds = sort (map pc_VersionID (filter pc_Seed candidates))"
    "seed_loop (buildSearchState ext manifest request candidates seeds goals satisfied) candidates (start_beam b) = Inr bm1"
    "depth_loop (buildSearchState ext manifest request candidates seeds goals satisfied) (cg_Edges (rp_Graph request)) (pn_Spec manifest)
       (unat (pm_MaximumDepth (pn_Spec manifest)) - 1)
       ((truncate_beam (pn_Spec manifest) bm1)\<lparr>bm_exhausted := ''work_budget_exhausted'' \<in> set (bm_limits (truncate_beam (pn_Spec manifest) bm1))\<rparr>) = Inr bm2"
    "bm_best bm2 = Some best" "set limits \<subseteq> insert ''depth_exhausted'' (set (bm_limits bm2))" "set (bm_limits bm2) \<subseteq> set limits"
    "(if limits \<noteq> [] then canonicalizePlan ext ((st_plan best)\<lparr>pl_LimitCodes := sorted_keys limits\<rparr>)
      else Inr ((st_plan best)\<lparr>pl_LimitCodes := sorted_keys limits\<rparr>)) = Inr plan"
proof -
  obtain candidates goals satisfied b where i: "validatePlanInputs ext manifest request
      \<lparr>used = 0, maximum = pm_MaximumWorkUnits (pn_Spec manifest)\<rparr> = Inr (candidates, goals, satisfied, b)"
    using assms unfolding PlanProcedures_def Let_def res_bind_eq_Inr by auto
  define seeds where "seeds = sort (map pc_VersionID (filter pc_Seed candidates))"
  let ?build = "buildSearchState ext manifest request candidates seeds goals satisfied"
  obtain bm1 where bm1: "seed_loop ?build candidates (start_beam b) = Inr bm1"
    using assms unfolding PlanProcedures_def Let_def i seeds_def [symmetric] start_beam_def [symmetric] res_bind_simps prod.case res_bind_eq_Inr
    by blast
  let ?t = "truncate_beam (pn_Spec manifest) bm1"
  obtain bm2 where bm2: "depth_loop ?build (cg_Edges (rp_Graph request)) (pn_Spec manifest) (unat (pm_MaximumDepth (pn_Spec manifest)) - 1)
      (?t\<lparr>bm_exhausted := ''work_budget_exhausted'' \<in> set (bm_limits ?t)\<rparr>) = Inr bm2"
    using assms unfolding PlanProcedures_def Let_def i seeds_def [symmetric] start_beam_def [symmetric] res_bind_simps prod.case bm1
    by (cases "bm_best bm1 = None") (simp_all, blast)
  obtain best where best: "bm_best bm2 = Some best"
    using assms unfolding PlanProcedures_def Let_def i seeds_def [symmetric] start_beam_def [symmetric] res_bind_simps prod.case bm1 bm2
    by (cases "bm_best bm1 = None"; cases "bm_best bm2") simp_all
  define limits where "limits = (if bm_states bm2 \<noteq> [] \<and> \<not> pl_Complete (st_plan best) \<and> \<not> bm_exhausted bm2 \<and>
      bm_expansions bm2 < pm_MaximumExpansions (pn_Spec manifest) then List.insert ''depth_exhausted'' (bm_limits bm2) else bm_limits bm2)"
  have "(if limits \<noteq> [] then canonicalizePlan ext ((st_plan best)\<lparr>pl_LimitCodes := sorted_keys limits\<rparr>)
      else Inr ((st_plan best)\<lparr>pl_LimitCodes := sorted_keys limits\<rparr>)) = Inr plan"
    using assms unfolding PlanProcedures_def Let_def i seeds_def [symmetric] start_beam_def [symmetric] res_bind_simps prod.case bm1 bm2 best
      option.case limits_def [symmetric] by (simp only: sum.distinct split: if_split_asm)
  moreover have "set limits \<subseteq> insert ''depth_exhausted'' (set (bm_limits bm2))" "set (bm_limits bm2) \<subseteq> set limits"
    by (auto simp: limits_def)
  ultimately show thesis using that i seeds_def bm1 bm2 best by blast
qed

lemma PlanProcedures_Inr:
  assumes "PlanProcedures ext manifest request = Inr plan"
  obtains candidates goals satisfied ns ordered seeds codes strength best b bm1 bm2 where
    "planned ext manifest request candidates goals satisfied ns ordered seeds codes strength best plan"
    "validatePlanInputs ext manifest request \<lparr>used = 0, maximum = pm_MaximumWorkUnits (pn_Spec manifest)\<rparr> = Inr (candidates, goals, satisfied, b)"
    "seed_loop (buildSearchState ext manifest request candidates seeds goals satisfied) candidates (start_beam b) = Inr bm1"
    "beam_inv (buildSearchState ext manifest request candidates seeds goals satisfied)
       (search_nodes candidates (cg_Edges (rp_Graph request)) (unat (pm_MaximumProcedures (pn_Spec manifest)))) bm1"
    "\<forall>st. leads bm1 st \<longrightarrow> leads bm2 st" "bm_best bm2 = Some best"
    "''work_budget_exhausted'' \<in> set (bm_limits bm1) \<longrightarrow> ''work_budget_exhausted'' \<in> set codes"
proof -
  obtain candidates goals satisfied seeds b bm1 bm2 best limits where u:
    "validatePlanInputs ext manifest request \<lparr>used = 0, maximum = pm_MaximumWorkUnits (pn_Spec manifest)\<rparr> = Inr (candidates, goals, satisfied, b)"
    "seeds = sort (map pc_VersionID (filter pc_Seed candidates))"
    "seed_loop (buildSearchState ext manifest request candidates seeds goals satisfied) candidates (start_beam b) = Inr bm1"
    "depth_loop (buildSearchState ext manifest request candidates seeds goals satisfied) (cg_Edges (rp_Graph request)) (pn_Spec manifest)
       (unat (pm_MaximumDepth (pn_Spec manifest)) - 1)
       ((truncate_beam (pn_Spec manifest) bm1)\<lparr>bm_exhausted := ''work_budget_exhausted'' \<in> set (bm_limits (truncate_beam (pn_Spec manifest) bm1))\<rparr>) = Inr bm2"
    "bm_best bm2 = Some best" "set limits \<subseteq> insert ''depth_exhausted'' (set (bm_limits bm2))" "set (bm_limits bm2) \<subseteq> set limits"
    "(if limits \<noteq> [] then canonicalizePlan ext ((st_plan best)\<lparr>pl_LimitCodes := sorted_keys limits\<rparr>)
      else Inr ((st_plan best)\<lparr>pl_LimitCodes := sorted_keys limits\<rparr>)) = Inr plan"
    using assms by (rule PlanProcedures_unfold)
  let ?build = "buildSearchState ext manifest request candidates seeds goals satisfied"
  let ?t = "(truncate_beam (pn_Spec manifest) bm1)\<lparr>bm_exhausted := ''work_budget_exhausted'' \<in> set (bm_limits (truncate_beam (pn_Spec manifest) bm1))\<rparr>"
  let ?good = "search_nodes candidates (cg_Edges (rp_Graph request)) (unat (pm_MaximumProcedures (pn_Spec manifest)))"
  have v: "valid_inputs ext manifest request candidates goals satisfied" by (rule validatePlanInputs_Inr [OF u(1)])
  have start: "beam_inv ?build ?good (start_beam b)" by (simp add: beam_inv_def start_beam_def)
  have inv1: "beam_inv ?build ?good bm1"
    using planner_search.seed_loop_inv [OF u(3) start] by (simp add: search_nodes_def)
  then have "beam_inv ?build ?good ?t" by (rule beam_inv_cong [OF beam_inv_truncate]) simp_all
  from planner_search.depth_loop_inv [OF u(4) this refl]
  have inv2: "beam_inv ?build ?good bm2" and lead: "\<forall>st. leads bm1 st \<longrightarrow> leads bm2 st"
    by (simp_all add: leads_def truncate_beam_simps(2))
  obtain ns b0 b1 where st: "?good ns" "?build ns b0 = (Inr best, b1)" using inv2 u(5) by (auto simp: beam_inv_def built_def)
  obtain ordered strength where s: "topologicalOrder ns (chosen_edges (cg_Edges (rp_Graph request)) ns) = Inr ordered"
    "canonicalizePlan ext (draft_plan manifest request candidates seeds goals satisfied
       (chosen_edges (cg_Edges (rp_Graph request)) ns) ordered strength) = Inr (st_plan best)"
    using st(2) by (rule buildSearchState_Inr)
  have codes: "set (sorted_keys limits) \<subseteq> limit_codes" using u(6) inv2 limit_codes_members(2) by (auto simp: beam_inv_def)
  have "[] \<notin> limit_codes" unfolding limit_codes_iff by simp
  then have "strictSorted (sorted_keys limits)" using codes by (intro strictSorted_sorted_keys) auto
  then have "planned ext manifest request candidates goals satisfied ns ordered seeds (sorted_keys limits) strength best plan"
    unfolding planned_def Let_def
    using v u(2) search_nodes_valid(1) [OF v st(1)] s st(2) codes limits_resealed [OF s(2), of "sorted_keys limits" plan] u(8) by auto
  moreover have "''work_budget_exhausted'' \<in> set (sorted_keys limits)" if "''work_budget_exhausted'' \<in> set (bm_limits bm1)"
  proof -
    have w: "''work_budget_exhausted'' \<in> set (bm_limits (truncate_beam (pn_Spec manifest) bm1))" using that truncate_beam_simps(4) by blast
    then have "bm2 = ?t" using u(4) depth_loop_exhausted [of ?t] by simp
    then show ?thesis using w u(7) by auto
  qed
  ultimately show thesis using that [OF _ u(1,3) inv1 lead u(5)] by blast
qed

section \<open>Candidates of the request and members of the plan\<close>

lemma valid_inputs_origin:
  assumes "valid_inputs ext manifest request candidates goals satisfied"
  shows "c \<in> set candidates \<Longrightarrow> \<exists>c0 \<in> set (rp_Candidates request). normalised_from c0 c"
    "c0 \<in> set (rp_Candidates request) \<Longrightarrow> normalised_from c0 (byVersion candidates (pc_VersionID c0))"
    "set (map pc_VersionID candidates) = set (map pc_VersionID (rp_Candidates request))"
proof -
  have l: "list_all2 normalised_from (sort_slice planner_candidate_less (rp_Candidates request)) candidates"
    and d: "distinct (map pc_VersionID candidates)" using assms by (simp_all add: valid_inputs_def)
  show origin: "\<exists>c0 \<in> set (rp_Candidates request). normalised_from c0 c" if "c \<in> set candidates" for c
    using that l by (metis (no_types, lifting) list_all2_conv_all_nth in_set_conv_nth set_sort_slice)
  have image: "\<exists>c \<in> set candidates. normalised_from c0 c" if "c0 \<in> set (rp_Candidates request)" for c0
    using that l by (metis (no_types, lifting) list_all2_conv_all_nth in_set_conv_nth set_sort_slice)
  show "normalised_from c0 (byVersion candidates (pc_VersionID c0))" if c0: "c0 \<in> set (rp_Candidates request)" for c0
  proof -
    obtain c where c: "c \<in> set candidates" "normalised_from c0 c" using image [OF c0] by blast
    then have v: "pc_VersionID c = pc_VersionID c0" by (simp add: normalised_from_fields)
    have "pc_VersionID c0 \<in> set (map pc_VersionID candidates)" using c(1) v by (metis image_eqI set_map)
    note byVersion_member [OF this]
    then have "byVersion candidates (pc_VersionID c0) = c" using d c(1) v by (metis distinct_map inj_onD)
    then show ?thesis using c(2) by simp
  qed
  show "set (map pc_VersionID candidates) = set (map pc_VersionID (rp_Candidates request))"
    using origin image normalised_from_fields(1) by (auto, metis imageI, metis imageI)
qed

text \<open>The fields of a returned plan that the properties speak of.\<close>

lemma planned_fields:
  assumes "planned ext manifest request candidates goals satisfied ns ordered seeds codes strength best plan"
  defines "edges \<equiv> chosen_edges (cg_Edges (rp_Graph request)) ns"
    and "draft \<equiv> draft_plan manifest request candidates seeds goals satisfied (chosen_edges (cg_Edges (rp_Graph request)) ns) ordered strength"
  shows "pl_Nodes plan = map (\<lambda>(i, v). node_of i (byVersion candidates v) v) (enumerate 0 ordered)"
    "no_VersionID ` set (pl_Nodes plan) = set ns" "length (pl_Nodes plan) = length ns" "set ordered = set ns" "distinct ordered"
    "pl_Complete plan = pl_Complete draft" "pl_EvidenceStrength plan = strength"
    "pl_ToolCost plan = total_tool_cost (map (byVersion candidates) ordered)" "pl_LimitCodes plan = codes"
    "pl_Complete (st_plan best) = pl_Complete draft"
proof -
  have p: "node_set candidates (unat (pm_MaximumProcedures (pn_Spec manifest))) ns" "topologicalOrder ns edges = Inr ordered"
    "canonicalizePlan ext draft = Inr (st_plan best)" "canonicalizePlan ext (draft\<lparr>pl_LimitCodes := codes\<rparr>) = Inr plan"
    using assms(1) unfolding planned_def Let_def edges_def draft_def by blast+
  obtain e h where plan: "plan = stamp_plan e h (prepare_plan (draft\<lparr>pl_LimitCodes := codes\<rparr>))" using p(4) by (rule plan_seal.seal_Inr)
  obtain e' h' where best: "st_plan best = stamp_plan e' h' (prepare_plan draft)" using p(3) by (rule plan_seal.seal_Inr)
  have ns: "distinct ns" using p(1) by (simp add: node_set_def)
  show o: "set ordered = set ns" "distinct ordered" using topologicalOrder_Inr [OF p(2) [unfolded edges_def] ns] by simp_all
  show nodes: "pl_Nodes plan = map (\<lambda>(i, v). node_of i (byVersion candidates v) v) (enumerate 0 ordered)"
    by (simp add: plan stamped_fields draft_def)
  have "map no_VersionID (pl_Nodes plan) = ordered" by (simp add: nodes comp_def node_of_def case_prod_beta)
  then show "no_VersionID ` set (pl_Nodes plan) = set ns" using o(1) by (metis set_map)
  show "length (pl_Nodes plan) = length ns" using o ns distinct_card [of ordered] distinct_card [of ns] by (simp add: nodes)
  show "pl_Complete plan = pl_Complete draft" "pl_LimitCodes plan = codes" by (simp_all only: plan stamped_fields)
  show "pl_EvidenceStrength plan = strength" "pl_ToolCost plan = total_tool_cost (map (byVersion candidates) ordered)"
    by (simp_all add: plan stamped_fields draft_def)
  show "pl_Complete (st_plan best) = pl_Complete draft" by (simp add: best stamp_plan_def prepare_plan_def)
qed

lemma draft_complete_iff:
  "pl_Complete (draft_plan manifest request candidates seeds goals satisfied edges ordered strength) \<longleftrightarrow>
     (\<forall>g \<in> set goals. \<exists>v \<in> set ordered. g \<in> set (pc_GoalPredicateIDs (byVersion candidates v))) \<and>
     (\<forall>v \<in> set ordered. \<forall>r \<in> set (pi_Requirements (pc_Interface (byVersion candidates v))).
        rq_ID r \<in> set satisfied \<or> (\<exists>e \<in> set edges. rq_ID r \<in> set (ce_SatisfiedRequirementIDs e)))"
  by (auto simp: draft_gaps_def requirement_gaps_def filter_empty_conv)

lemma edges_within:
  assumes "\<forall>e \<in> set edges. ce_SourceVersionID e \<noteq> ce_TargetVersionID e"
  shows "set (chosen_edges edges ns) = {e \<in> set edges. ce_SourceVersionID e \<in> set ns \<and> ce_TargetVersionID e \<in> set ns}"
proof (cases "length ns < 2")
  case True
  then have "ce_SourceVersionID e = ce_TargetVersionID e" if "ce_SourceVersionID e \<in> set ns" "ce_TargetVersionID e \<in> set ns" for e
    using that by (cases ns rule: remdups_adj.cases) auto
  then show ?thesis using assms True by (auto simp: chosen_edges_def)
qed (auto simp: chosen_edges_def)

lemma planned_parts:
  assumes "planned ext manifest request candidates goals satisfied ns ordered seeds codes strength best plan"
  shows "valid_inputs ext manifest request candidates goals satisfied" "seeds = sort (map pc_VersionID (filter pc_Seed candidates))"
    "node_set candidates (unat (pm_MaximumProcedures (pn_Spec manifest))) ns" "node_set candidates 32 ns"
    "topologicalOrder ns (chosen_edges (cg_Edges (rp_Graph request)) ns) = Inr ordered"
    "\<exists>b b'. buildSearchState ext manifest request candidates seeds goals satisfied ns b = (Inr best, b')"
    "strictSorted codes" "set codes \<subseteq> limit_codes"
    "canonicalizePlan ext ((draft_plan manifest request candidates seeds goals satisfied
       (chosen_edges (cg_Edges (rp_Graph request)) ns) ordered strength)\<lparr>pl_LimitCodes := codes\<rparr>) = Inr plan"
    "canonicalizePlan ext (draft_plan manifest request candidates seeds goals satisfied
       (chosen_edges (cg_Edges (rp_Graph request)) ns) ordered strength) = Inr (st_plan best)"
proof -
  show v: "valid_inputs ext manifest request candidates goals satisfied"
    and n: "node_set candidates (unat (pm_MaximumProcedures (pn_Spec manifest))) ns"
    using assms unfolding planned_def Let_def by blast+
  show "node_set candidates 32 ns" using v n valid_limits(2) [of ext manifest] by (auto simp: node_set_def valid_inputs_def)
qed (use assms in \<open>unfold planned_def Let_def, blast\<close>)+

lemma unat_of_nat32: "n < 4294967296 \<Longrightarrow> unat (of_nat n :: uint32) = n"
  by (simp add: unat_of_nat)

lemma sint_of_nat64: "n < 9223372036854775808 \<Longrightarrow> sint (of_nat n :: int64) = int n"
  using sint_word_of_int [of "int n"] by (simp add: fits64_def)

lemma planned_strength:
  assumes "planned ext manifest request candidates goals satisfied ns ordered seeds codes strength best plan"
  defines "members \<equiv> map (byVersion candidates) ordered" and "edges \<equiv> chosen_edges (cg_Edges (rp_Graph request)) ns"
  shows "0 \<le> sint strength"
    "sint strength = max 0 (sint (weakest_evidence members)
        - int (length (filter (\<lambda>c. \<not> pc_Seed c) members)) * sint (pm_NoveltyPenalty (pn_Spec manifest))
        - int (length (filter (\<lambda>e. \<not> pc_ObservedEndToEnd (byVersion candidates (ce_SourceVersionID e)) \<or>
            \<not> pc_ObservedEndToEnd (byVersion candidates (ce_TargetVersionID e))) edges)) * sint (pm_UnobservedEdgePenalty (pn_Spec manifest)))"
    "length (filter (\<lambda>c. \<not> pc_Seed c) members) \<le> unat (pm_MaximumBridges (pn_Spec manifest))"
    "sum_list (map (\<lambda>c. unat (pc_ToolCost c)) members) \<le> unat (pm_MaximumTotalToolCost (pn_Spec manifest))"
proof -
  note p = planned_parts [OF assms(1)]
  let ?spec = "pn_Spec manifest"
  have m: "ValidatePlannerManifest ext manifest" "\<exists>b b'. validateCompatibilityGraph ext (rp_Graph request) b = Inr b'"
    "\<forall>c \<in> set candidates. ok_candidate ext (rp_PolicyManifestID request) c"
    using p(1) by (simp_all add: valid_inputs_def)
  note lim = valid_limits [OF m(1)]
  obtain b b' where "buildSearchState ext manifest request candidates seeds goals satisfied ns b = (Inr best, b')" using p(6) by blast
  then obtain ordered' penalty strength' where s: "topologicalOrder ns edges = Inr ordered'"
    "bridge_count (map (byVersion candidates) ordered') \<le> pm_MaximumBridges ?spec"
    "total_tool_cost (map (byVersion candidates) ordered') \<le> ucast (pm_MaximumTotalToolCost ?spec)"
    "checkedPlannerMul (ucast (bridge_count (map (byVersion candidates) ordered'))) (pm_NoveltyPenalty ?spec) = Some penalty"
    "strength' = penalized (weakest_evidence (map (byVersion candidates) ordered')) penalty
       (checkedPlannerMul (unobserved_count candidates edges) (pm_UnobservedEdgePenalty ?spec))"
    "canonicalizePlan ext (draft_plan manifest request candidates seeds goals satisfied edges ordered' strength') = Inr (st_plan best)"
    unfolding edges_def by (rule buildSearchState_Inr)
  have same: "ordered' = ordered" using s(1) p(5) by (simp add: edges_def)
  have st: "strength' = strength"
  proof -
    obtain e h where "st_plan best = stamp_plan e h (prepare_plan (draft_plan manifest request candidates seeds goals satisfied edges ordered' strength'))"
      using s(6) by (rule plan_seal.seal_Inr)
    moreover obtain e' h' where "st_plan best = stamp_plan e' h' (prepare_plan (draft_plan manifest request candidates seeds goals satisfied edges ordered strength))"
      using p(10) unfolding edges_def [symmetric] by (rule plan_seal.seal_Inr)
    ultimately have "pl_EvidenceStrength (stamp_plan e h (prepare_plan (draft_plan manifest request candidates seeds goals satisfied edges ordered' strength'))) =
      pl_EvidenceStrength (stamp_plan e' h' (prepare_plan (draft_plan manifest request candidates seeds goals satisfied edges ordered strength)))" by simp
    then show ?thesis by (simp add: stamp_plan_def prepare_plan_def)
  qed
  have len: "length members \<le> 32" "set ordered \<subseteq> set (map pc_VersionID candidates)"
    using planned_fields(1,3,4) [OF assms(1)] p(4) by (auto simp: members_def node_set_def)
  have nonneg: "0 \<le> sint (weakest_evidence members)"
  proof (rule weakest_evidence_nonneg)
    have "0 \<le> sint (pc_EvidenceStrength (byVersion candidates v))" if "v \<in> set ordered" for v
      using byVersion_member(1) [of v candidates] that len(2) m(3) unfolding ok_candidate_def by blast
    then show "\<forall>c \<in> set members. 0 \<le> sint (pc_EvidenceStrength c)" by (simp add: members_def)
  qed
  let ?n = "length (filter (\<lambda>c. \<not> pc_Seed c) members)"
  have n: "?n \<le> 32" using len(1) le_trans length_filter_le by blast
  have bridges: "unat (bridge_count members) = ?n" using n by (simp add: bridge_count_def unat_of_nat32)
  then show "?n \<le> unat (pm_MaximumBridges ?spec)" using s(2) by (simp add: same members_def word_le_nat_alt)
  have cast: "sint (ucast (bridge_count members) :: int64) = int ?n"
  proof -
    have "(ucast (bridge_count members) :: int64) = of_nat (unat (bridge_count members))" by simp
    then show ?thesis using n bridges sint_of_nat64 [of ?n] by simp
  qed
  have prod: "int ?n * sint (pm_NoveltyPenalty ?spec) \<le> 9223372036854775807"
  proof -
    have "int ?n * sint (pm_NoveltyPenalty ?spec) \<le> 32 * 2147483647" using n lim(3,5) by (intro mult_mono) auto
    then show ?thesis by simp
  qed
  have "penalty = ucast (bridge_count members) * pm_NoveltyPenalty ?spec"
    using s(4) checkedPlannerMul_exact [of "ucast (bridge_count members)" "pm_NoveltyPenalty ?spec"] cast lim(3) prod
    by (simp add: same members_def)
  then have pen: "sint penalty = int ?n * sint (pm_NoveltyPenalty ?spec)" "0 \<le> sint penalty"
    using sint_nonneg_mult [of "ucast (bridge_count members)" "pm_NoveltyPenalty ?spec"] cast lim(3) prod by simp_all
  obtain g g' where "validateCompatibilityGraph ext (rp_Graph request) g = Inr g'" using m(2) by blast
  note graph = validateCompatibilityGraph_Inr [OF this]
  let ?u = "length (filter (\<lambda>e. \<not> pc_ObservedEndToEnd (byVersion candidates (ce_SourceVersionID e)) \<or>
      \<not> pc_ObservedEndToEnd (byVersion candidates (ce_TargetVersionID e))) edges)"
  have "length edges \<le> 100000"
    using graph(8) by (auto simp: edges_def chosen_edges_def intro: le_trans [OF length_filter_le])
  then have "?u \<le> 100000" using le_trans length_filter_le by blast
  then have u: "sint (unobserved_count candidates edges) = int ?u" by (simp add: unobserved_count_def sint_of_nat64)
  show "sint strength = max 0 (sint (weakest_evidence members) - int ?n * sint (pm_NoveltyPenalty ?spec)
      - int ?u * sint (pm_UnobservedEdgePenalty ?spec))"
    using penalized_exact [OF nonneg pen(2), of "unobserved_count candidates edges" "pm_UnobservedEdgePenalty ?spec"] u lim(4) pen(1)
    by (simp add: st [symmetric] s(5) same members_def)
  then show "0 \<le> sint strength" by simp
  have "unat (total_tool_cost members) \<le> unat (pm_MaximumTotalToolCost ?spec)"
    using s(3) by (auto simp: same members_def word_le_nat_alt unsigned_ucast_eq intro: order_trans [OF _ take_bit_nat_less_eq_self])
  then show "sum_list (map (\<lambda>c. unat (pc_ToolCost c)) members) \<le> unat (pm_MaximumTotalToolCost ?spec)"
    using total_tool_cost_exact [OF len(1)] by simp
qed

text \<open>The chosen candidates of the request, in the order of the plan.\<close>

lemma planned_members:
  assumes "planned ext manifest request candidates goals satisfied ns ordered seeds codes strength best plan"
  obtains members where "set members \<subseteq> set (rp_Candidates request)" "map pc_VersionID members = map no_VersionID (pl_Nodes plan)"
    "list_all2 normalised_from members (map (byVersion candidates) ordered)"
    "\<forall>c \<in> set members. pc_Eligible c \<and> pc_PolicyManifestID c = rp_PolicyManifestID request"
    "list_all2 (\<lambda>c n. no_VersionID n = pc_VersionID c \<and> no_InterfaceHash n = pi_ContentHash (pc_Interface c) \<and>
      no_Bridge n = (\<not> pc_Seed c)) members (pl_Nodes plan)"
proof -
  note v = planned_parts [OF assms] and f = planned_fields [OF assms]
  have inside: "set ordered \<subseteq> set (map pc_VersionID candidates)" using v(3) f(4) by (simp add: node_set_def)
  have ok: "\<exists>c0 \<in> set (rp_Candidates request). normalised_from c0 (byVersion candidates u) \<and>
      ok_candidate ext (rp_PolicyManifestID request) (byVersion candidates u) \<and> pc_VersionID (byVersion candidates u) = u"
    if u: "u \<in> set ordered" for u
  proof -
    have "byVersion candidates u \<in> set candidates" "pc_VersionID (byVersion candidates u) = u"
      using byVersion_member [of u candidates] inside u by auto
    moreover from this(1) have "ok_candidate ext (rp_PolicyManifestID request) (byVersion candidates u)"
      using v(1) by (simp add: valid_inputs_def)
    ultimately show ?thesis using valid_inputs_origin(1) [OF v(1)] by blast
  qed
  then obtain origin where origin: "\<And>u. u \<in> set ordered \<Longrightarrow> origin u \<in> set (rp_Candidates request) \<and> normalised_from (origin u) (byVersion candidates u)"
    by metis
  have fields: "pc_VersionID (origin u) = u \<and> pc_Interface (origin u) = pc_Interface (byVersion candidates u) \<and>
      pc_Seed (origin u) = pc_Seed (byVersion candidates u) \<and> pc_Eligible (origin u) \<and>
      pc_PolicyManifestID (origin u) = rp_PolicyManifestID request" if "u \<in> set ordered" for u
    using normalised_from_fields [of "origin u" "byVersion candidates u"] origin [OF that] ok [OF that] by (auto simp: ok_candidate_def)
  have ids: "map no_VersionID (pl_Nodes plan) = ordered" by (simp add: f(1) comp_def node_of_def case_prod_beta)
  show thesis
  proof (rule that [of "map origin ordered"])
    show "set (map origin ordered) \<subseteq> set (rp_Candidates request)" using origin by auto
    show "map pc_VersionID (map origin ordered) = map no_VersionID (pl_Nodes plan)" unfolding ids using fields by (auto intro!: map_idI)
    show "list_all2 normalised_from (map origin ordered) (map (byVersion candidates) ordered)"
      using origin by (simp add: list_all2_conv_all_nth)
    show "\<forall>c \<in> set (map origin ordered). pc_Eligible c \<and> pc_PolicyManifestID c = rp_PolicyManifestID request" using fields by auto
    show "list_all2 (\<lambda>c n. no_VersionID n = pc_VersionID c \<and> no_InterfaceHash n = pi_ContentHash (pc_Interface c) \<and>
        no_Bridge n = (\<not> pc_Seed c)) (map origin ordered) (pl_Nodes plan)"
      using fields by (auto simp: f(1) list_all2_conv_all_nth nth_enumerate_eq node_of_def)
  qed
qed

lemma map_enumerate_snd: "map (\<lambda>x. f (snd x)) (enumerate n xs) = map f xs"
  by (induction xs arbitrary: n) simp_all

lemma length_filter_map_eq: "map f xs = map g ys \<Longrightarrow> length (filter f xs) = length (filter g ys)"
  by (induction xs ys rule: list_induct2') auto

lemma list_all2_pick: "list_all2 P xs ys \<Longrightarrow> y \<in> set ys \<Longrightarrow> \<exists>x \<in> set xs. P x y"
  by (induction rule: list_all2_induct) auto

lemma foldl_map_key: "foldl (\<lambda>m c. min m (f c)) z xs = foldl min z (map f xs)"
  by (simp add: foldl_map)

lemma chosen_edges_count:
  assumes "\<forall>e \<in> set edges. ce_SourceVersionID e \<noteq> ce_TargetVersionID e"
  shows "length (filter (\<lambda>e. (ce_SourceVersionID e \<in> set ns \<and> ce_TargetVersionID e \<in> set ns) \<and> P e) edges) =
    length (filter P (chosen_edges edges ns))"
proof (cases "length ns < 2")
  case True
  have "\<not> (ce_SourceVersionID e \<in> set ns \<and> ce_TargetVersionID e \<in> set ns)" if "e \<in> set edges" for e
    using edges_within [OF assms, of ns] that True by (auto simp: chosen_edges_def)
  then have "filter (\<lambda>e. (ce_SourceVersionID e \<in> set ns \<and> ce_TargetVersionID e \<in> set ns) \<and> P e) edges = []"
    by (auto simp: filter_empty_conv)
  then show ?thesis using True by (simp add: chosen_edges_def)
next
  case False
  have "mset (filter P (chosen_edges edges ns)) = mset (filter P (filter (\<lambda>e. ce_SourceVersionID e \<in> set ns \<and> ce_TargetVersionID e \<in> set ns) edges))"
    using False by (simp only: chosen_edges_def if_False mset_filter mset_sort_slice)
  then show ?thesis by (metis mset_eq_length filter_filter)
qed

lemma planned_validates:
  assumes p: "planned ext manifest request candidates goals satisfied ns ordered seeds codes strength best plan"
    and "digest32 ext" "\<forall>c \<in> set (rp_Candidates request). length (pc_VersionID c) \<le> 1024"
  shows "ValidatePlan ext plan"
proof -
  note v = planned_parts [OF p]
  have "\<forall>c \<in> set candidates. length (pc_VersionID c) \<le> 1024"
    using valid_inputs_origin(1) [OF v(1)] assms(3) normalised_from_fields(1) by metis
  then show ?thesis using draft_plan_valid [OF assms(2) v(1) _ v(4,5,2)] planned_strength(1) [OF p] v(7-9) by blast
qed

section \<open>Properties\<close>

text \<open>C38: \<^verbatim>\<open>topologicalOrder\<close> terminates on every input; for edges between distinct nodes of the set
  it fails exactly when the edges have a cycle, and otherwise returns every node once, each edge
  pointing forward.\<close>

theorem topological_order_correct:
  assumes "distinct ns" "\<forall>e \<in> set edges. ce_SourceVersionID e \<in> set ns \<and> ce_TargetVersionID e \<in> set ns"
  shows "(topologicalOrder ns edges = Inl errCycle \<longleftrightarrow> \<not> acyclic (set (map edge_ends edges))) \<and>
    (acyclic (set (map edge_ends edges)) \<longrightarrow> (\<exists>ordered. topologicalOrder ns edges = Inr ordered \<and>
       distinct ordered \<and> set ordered = set ns \<and>
       (\<forall>e \<in> set edges. \<exists>i j. i < j \<and> j < length ordered \<and> ordered ! i = ce_SourceVersionID e \<and> ordered ! j = ce_TargetVersionID e)))"
proof -
  let ?arrows = "map edge_ends edges"
  have none: "topological_order ns ?arrows = None \<longleftrightarrow> \<not> acyclic (set ?arrows)"
    using assms by (intro topological_order_None) auto
  have some: "distinct ordered \<and> set ordered = set ns \<and>
      (\<forall>e \<in> set edges. \<exists>i j. i < j \<and> j < length ordered \<and> ordered ! i = ce_SourceVersionID e \<and> ordered ! j = ce_TargetVersionID e)"
    if o: "topological_order ns ?arrows = Some ordered" for ordered
  proof -
    have "set (map snd ?arrows) \<subseteq> set ns" using assms(2) by auto
    note k = topological_order_Some [OF assms(1) this o]
    have "\<exists>i j. i < j \<and> j < length ordered \<and> ordered ! i = ce_SourceVersionID e \<and> ordered ! j = ce_TargetVersionID e" if "e \<in> set edges" for e
      by (rule forward_positions [OF k(3,1)]) (use that assms(2) k(2) in auto)
    then show ?thesis using k by blast
  qed
  show ?thesis using none some by (cases "topological_order ns ?arrows") (auto simp: topologicalOrder_def)
qed

theorem topological_order_correct_witness:
  "\<exists>edges ordered. length edges = 1 \<and> topologicalOrder [''a'', ''b''] edges = Inr ordered \<and> set ordered = {''a'', ''b''}"
proof -
  define e where "e = \<lparr>ce_ID = [], ce_TenantID = [], ce_ProjectionEpoch = 0, ce_SourceVersionID = ''b'', ce_TargetVersionID = ''a'',
    ce_SourceInterfaceHash = [], ce_TargetInterfaceHash = [], ce_SourceProvisionIDs = [], ce_SatisfiedRequirementIDs = [],
    ce_PlannerManifestID = [], ce_PolicyManifestID = [], ce_SchemaVersion = [], ce_ContentHash = []\<rparr>"
  have "acyclic (set (map edge_ends [e]))" by (simp add: e_def acyclic_insert wf_acyclic)
  then show ?thesis
    using topological_order_correct [of "[''a'', ''b'']" "[e]"] by (intro exI [of _ "[e]"]) (auto simp: e_def)
qed

text \<open>C26: every plan that \<^verbatim>\<open>PlanProcedures\<close> returns is accepted by \<^verbatim>\<open>ValidatePlan\<close>: hash and
  identifiers, strictly sorted lists, ordinals, dependencies that point forward and carry the
  identifiers of the graph, known limit codes, well-formed gaps in canonical order. The digest
  has 32 bytes and the version identifiers of the request have at most 1024 bytes.\<close>

theorem plan_validates:
  assumes "digest32 ext" "\<forall>c \<in> set (rp_Candidates request). length (pc_VersionID c) \<le> 1024"
    and "PlanProcedures ext manifest request = Inr plan"
  shows "ValidatePlan ext plan"
proof -
  obtain candidates goals satisfied ns ordered seeds codes strength best where
    p: "planned ext manifest request candidates goals satisfied ns ordered seeds codes strength best plan"
    using assms(3) by (rule PlanProcedures_Inr)
  then show ?thesis using assms(1,2) by (rule planned_validates)
qed

theorem plan_validates_witness:
  "\<exists>plan. PlanProcedures sample_externals sample_manifest planner_request = Inr plan \<and> ValidatePlan sample_externals plan"
proof -
  obtain plan where run: "PlanProcedures sample_externals sample_manifest planner_request = Inr plan" using planner_runs by (elim exE conjE) (rule that)
  have "\<forall>c \<in> set (rp_Candidates planner_request). length (pc_VersionID c) \<le> 1024" by (simp add: planner_request_def)
  from run plan_validates [OF digest32_sample this run] show ?thesis by blast
qed

text \<open>C18: the nodes of a returned plan are distinct candidates of the request that are eligible and
  judged under its policy, at most as many as the manifest permits; the bridges among them, and the sum of
  their tool costs as natural numbers, are within the limits of the manifest.\<close>

theorem plan_members_within_limits:
  assumes "PlanProcedures ext manifest request = Inr plan"
  shows "distinct (map no_VersionID (pl_Nodes plan)) \<and>
    length (pl_Nodes plan) \<le> unat (pm_MaximumProcedures (pn_Spec manifest)) \<and>
    (\<forall>n \<in> set (pl_Nodes plan). \<exists>c \<in> set (rp_Candidates request). pc_VersionID c = no_VersionID n \<and> pc_Eligible c \<and>
       pc_PolicyManifestID c = rp_PolicyManifestID request \<and> no_InterfaceHash n = pi_ContentHash (pc_Interface c) \<and> no_Bridge n = (\<not> pc_Seed c)) \<and>
    length (filter no_Bridge (pl_Nodes plan)) \<le> unat (pm_MaximumBridges (pn_Spec manifest)) \<and>
    (\<exists>members. set members \<subseteq> set (rp_Candidates request) \<and> map pc_VersionID members = map no_VersionID (pl_Nodes plan) \<and>
       sum_list (map (\<lambda>c. unat (pc_ToolCost c)) members) \<le> unat (pm_MaximumTotalToolCost (pn_Spec manifest)))"
  proof -
  obtain candidates goals satisfied ns ordered seeds codes strength best where
    p: "planned ext manifest request candidates goals satisfied ns ordered seeds codes strength best plan"
    using assms by (rule PlanProcedures_Inr)
  note v = planned_parts [OF p] and f = planned_fields [OF p] and s = planned_strength [OF p]
  obtain members where m: "set members \<subseteq> set (rp_Candidates request)" "map pc_VersionID members = map no_VersionID (pl_Nodes plan)"
    "list_all2 normalised_from members (map (byVersion candidates) ordered)"
    and ok: "\<forall>c \<in> set members. pc_Eligible c \<and> pc_PolicyManifestID c = rp_PolicyManifestID request"
    and nodes: "list_all2 (\<lambda>c n. no_VersionID n = pc_VersionID c \<and> no_InterfaceHash n = pi_ContentHash (pc_Interface c) \<and>
      no_Bridge n = (\<not> pc_Seed c)) members (pl_Nodes plan)" using p by (rule planned_members)
  have "\<exists>c \<in> set members. pc_VersionID c = no_VersionID n \<and> no_InterfaceHash n = pi_ContentHash (pc_Interface c) \<and> no_Bridge n = (\<not> pc_Seed c)"
    if "n \<in> set (pl_Nodes plan)" for n using list_all2_pick [OF nodes that] by metis
  then have each: "\<forall>n \<in> set (pl_Nodes plan). \<exists>c \<in> set (rp_Candidates request). pc_VersionID c = no_VersionID n \<and> pc_Eligible c \<and>
       pc_PolicyManifestID c = rp_PolicyManifestID request \<and> no_InterfaceHash n = pi_ContentHash (pc_Interface c) \<and> no_Bridge n = (\<not> pc_Seed c)"
    using m(1) ok by (meson subsetD)
  have eqs: "map no_Bridge (pl_Nodes plan) = map (\<lambda>c. \<not> pc_Seed c) members"
    "map (\<lambda>c. \<not> pc_Seed c) members = map (\<lambda>c. \<not> pc_Seed c) (map (byVersion candidates) ordered)"
    "map (\<lambda>c. unat (pc_ToolCost c)) members = map (\<lambda>c. unat (pc_ToolCost c)) (map (byVersion candidates) ordered)"
  proof -
    show "map no_Bridge (pl_Nodes plan) = map (\<lambda>c. \<not> pc_Seed c) members" using nodes by (induction rule: list_all2_induct) auto
    show "map (\<lambda>c. \<not> pc_Seed c) members = map (\<lambda>c. \<not> pc_Seed c) (map (byVersion candidates) ordered)"
      "map (\<lambda>c. unat (pc_ToolCost c)) members = map (\<lambda>c. unat (pc_ToolCost c)) (map (byVersion candidates) ordered)"
      using m(3) by (induction rule: list_all2_induct) (auto simp: normalised_from_fields)
  qed
  have bridges: "length (filter no_Bridge (pl_Nodes plan)) \<le> unat (pm_MaximumBridges (pn_Spec manifest))"
    using length_filter_map_eq [OF eqs(1)] length_filter_map_eq [OF eqs(2)] s(3) by simp
  have cost: "sum_list (map (\<lambda>c. unat (pc_ToolCost c)) members) \<le> unat (pm_MaximumTotalToolCost (pn_Spec manifest))"
    unfolding eqs(3) by (rule s(4))
  have distinct: "distinct (map no_VersionID (pl_Nodes plan))"
    using f(5) by (simp add: f(1) comp_def node_of_def case_prod_beta)
  have size: "length (pl_Nodes plan) \<le> unat (pm_MaximumProcedures (pn_Spec manifest))" using f(3) v(3) by (simp add: node_set_def)
  show ?thesis using distinct size each bridges m(1,2) cost by blast
qed

theorem plan_members_within_limits_witness:
  "\<exists>plan. PlanProcedures sample_externals sample_manifest planner_request = Inr plan \<and> map no_VersionID (pl_Nodes plan) = [''a''] \<and>
     length (filter no_Bridge (pl_Nodes plan)) \<le> 1"
proof -
  obtain plan where run: "PlanProcedures sample_externals sample_manifest planner_request = Inr plan" "map no_VersionID (pl_Nodes plan) = [''a'']"
    using planner_runs by (elim exE conjE) (rule that)
  have one: "unat (pm_MaximumBridges (pn_Spec sample_manifest)) = 1" by (simp add: sample_manifest_valid sample_planner_spec_def)
  from plan_members_within_limits [OF run(1)] have "length (filter no_Bridge (pl_Nodes plan)) \<le> 1" unfolding one by blast
  with run show ?thesis by (intro exI conjI)
qed

text \<open>C25: a returned plan is marked complete exactly when nothing is missing: every requested goal
  is among the goals of a chosen candidate, and every requirement of a chosen candidate is declared
  satisfied by the request or listed on an edge of the graph between two chosen versions.\<close>

theorem plan_complete_iff:
  assumes "PlanProcedures ext manifest request = Inr plan"
    and "chosen = no_VersionID ` set (pl_Nodes plan)"
  shows "pl_Complete plan \<longleftrightarrow>
    (\<forall>g \<in> set (rp_GoalPredicateIDs request). \<exists>c \<in> set (rp_Candidates request). pc_VersionID c \<in> chosen \<and>
       TrimSpace g \<in> TrimSpace ` set (pc_GoalPredicateIDs c)) \<and>
    (\<forall>c \<in> set (rp_Candidates request). pc_VersionID c \<in> chosen \<longrightarrow> (\<forall>r \<in> set (pi_Requirements (pc_Interface c)).
       rq_ID r \<in> TrimSpace ` set (rp_SatisfiedRequirementIDs request) \<or>
       (\<exists>e \<in> set (cg_Edges (rp_Graph request)). ce_SourceVersionID e \<in> chosen \<and> ce_TargetVersionID e \<in> chosen \<and>
          rq_ID r \<in> set (ce_SatisfiedRequirementIDs e))))"
proof -
  obtain candidates goals satisfied ns ordered seeds codes strength best where
    p: "planned ext manifest request candidates goals satisfied ns ordered seeds codes strength best plan"
    using assms(1) by (rule PlanProcedures_Inr)
  note v = planned_parts [OF p] and f = planned_fields [OF p]
  have chosen: "chosen = set ns" "set ordered = chosen" using f(2,4) assms(2) by simp_all
  have ids: "set goals = TrimSpace ` set (rp_GoalPredicateIDs request)" "set satisfied = TrimSpace ` set (rp_SatisfiedRequirementIDs request)"
    and gv: "\<exists>b b'. validateCompatibilityGraph ext (rp_Graph request) b = Inr b'"
    using v(1) normalizedIDs_Some(4) by (auto simp: valid_inputs_def)
  obtain b b' where "validateCompatibilityGraph ext (rp_Graph request) b = Inr b'" using gv by blast
  then have "\<forall>e \<in> set (cg_Edges (rp_Graph request)). ce_SourceVersionID e \<noteq> ce_TargetVersionID e"
    using validateCompatibilityGraph_Inr(7) valid_edge_ids(5) by blast
  note edges = edges_within [OF this]
  have look: "(\<exists>u \<in> chosen. P (byVersion candidates u)) \<longleftrightarrow> (\<exists>c \<in> set (rp_Candidates request). pc_VersionID c \<in> chosen \<and> P (byVersion candidates (pc_VersionID c)))"
    for P
  proof -
    have "chosen \<subseteq> set (map pc_VersionID (rp_Candidates request))"
      using v(3) chosen(1) valid_inputs_origin(3) [OF v(1)] by (simp add: node_set_def)
    then show ?thesis by auto
  qed
  have norm: "set (pc_GoalPredicateIDs (byVersion candidates (pc_VersionID c))) = TrimSpace ` set (pc_GoalPredicateIDs c)"
    "pc_Interface (byVersion candidates (pc_VersionID c)) = pc_Interface c" if "c \<in> set (rp_Candidates request)" for c
    using normalised_from_fields(7,2) [OF valid_inputs_origin(2) [OF v(1) that]] by simp_all
  have goal: "(\<exists>u \<in> chosen. g \<in> set (pc_GoalPredicateIDs (byVersion candidates u))) \<longleftrightarrow>
      (\<exists>c \<in> set (rp_Candidates request). pc_VersionID c \<in> chosen \<and> g \<in> TrimSpace ` set (pc_GoalPredicateIDs c))" for g
    unfolding look [of "\<lambda>c. g \<in> set (pc_GoalPredicateIDs c)"] using norm(1) by blast
  have req: "(\<forall>u \<in> chosen. \<forall>r \<in> set (pi_Requirements (pc_Interface (byVersion candidates u))). Q r) \<longleftrightarrow>
      (\<forall>c \<in> set (rp_Candidates request). pc_VersionID c \<in> chosen \<longrightarrow> (\<forall>r \<in> set (pi_Requirements (pc_Interface c)). Q r))" for Q
    using look [of "\<lambda>c. \<not> (\<forall>r \<in> set (pi_Requirements (pc_Interface c)). Q r)"] norm(2) by metis
  show ?thesis unfolding f(6) draft_complete_iff chosen(2) goal req ids edges chosen(1) [symmetric]
    by (simp add: Bex_def conj_assoc)
qed

theorem plan_complete_iff_witness:
  "\<exists>plan. PlanProcedures sample_externals sample_manifest planner_request = Inr plan \<and> pl_Complete plan \<and>
     TrimSpace ''p'' \<in> TrimSpace ` set (pc_GoalPredicateIDs planner_candidate)"
proof -
  obtain plan where run: "PlanProcedures sample_externals sample_manifest planner_request = Inr plan" "pl_Complete plan"
    using planner_runs by (elim exE conjE) (rule that)
  from plan_complete_iff [OF run(1) refl] run(2)
  have "\<forall>g \<in> set (rp_GoalPredicateIDs planner_request). \<exists>c \<in> set (rp_Candidates planner_request).
      TrimSpace g \<in> TrimSpace ` set (pc_GoalPredicateIDs c)" by meson
  then have "TrimSpace ''p'' \<in> TrimSpace ` set (pc_GoalPredicateIDs planner_candidate)" by (simp add: planner_request_def)
  with run show ?thesis by (intro exI conjI)
qed

text \<open>C19: the evidence strength of a returned plan is the strength of its weakest member, less the
  novelty penalty for each bridge and the penalty for each edge with an unobserved end, and zero
  where the penalties exceed it, all in unbounded integers; neither the products nor the differences
  of the 64 bit computation wrap around.\<close>

theorem plan_evidence_exact:
  assumes "PlanProcedures ext manifest request = Inr plan"
  shows "\<exists>members. set members \<subseteq> set (rp_Candidates request) \<and> map pc_VersionID members = map no_VersionID (pl_Nodes plan) \<and>
    sint (pl_EvidenceStrength plan) = max 0 (foldl (\<lambda>m c. min m (sint (pc_EvidenceStrength c))) 9223372036854775807 members
      - int (length (filter (\<lambda>c. \<not> pc_Seed c) members)) * sint (pm_NoveltyPenalty (pn_Spec manifest))
      - int (length (filter (\<lambda>e. \<exists>s \<in> set members. \<exists>t \<in> set members. ce_SourceVersionID e = pc_VersionID s \<and>
            ce_TargetVersionID e = pc_VersionID t \<and> \<not> (pc_ObservedEndToEnd s \<and> pc_ObservedEndToEnd t)) (cg_Edges (rp_Graph request))))
          * sint (pm_UnobservedEdgePenalty (pn_Spec manifest)))"
proof -
  obtain candidates goals satisfied ns ordered seeds codes strength best where
    p: "planned ext manifest request candidates goals satisfied ns ordered seeds codes strength best plan"
    using assms by (rule PlanProcedures_Inr)
  note v = planned_parts [OF p] and f = planned_fields [OF p] and s = planned_strength [OF p]
  obtain members where m: "set members \<subseteq> set (rp_Candidates request)" "map pc_VersionID members = map no_VersionID (pl_Nodes plan)"
    "list_all2 normalised_from members (map (byVersion candidates) ordered)" using p by (rule planned_members)
  have ids: "map pc_VersionID members = ordered" using m(2) by (simp add: f(1) comp_def node_of_def case_prod_beta)
  have look: "c \<in> set members \<Longrightarrow> pc_ObservedEndToEnd (byVersion candidates (pc_VersionID c)) = pc_ObservedEndToEnd c" for c
  proof -
    assume "c \<in> set members"
    then have "normalised_from c (byVersion candidates (pc_VersionID c))" using valid_inputs_origin(2) [OF v(1)] m(1) by blast
    then show ?thesis by (simp add: normalised_from_fields)
  qed
  obtain b b' where "validateCompatibilityGraph ext (rp_Graph request) b = Inr b'" using v(1) by (auto simp: valid_inputs_def)
  then have irr: "\<forall>e \<in> set (cg_Edges (rp_Graph request)). ce_SourceVersionID e \<noteq> ce_TargetVersionID e"
    using validateCompatibilityGraph_Inr(7) valid_edge_ids(5) by blast
  let ?un = "\<lambda>e. \<not> pc_ObservedEndToEnd (byVersion candidates (ce_SourceVersionID e)) \<or> \<not> pc_ObservedEndToEnd (byVersion candidates (ce_TargetVersionID e))"
  have un: "(\<exists>s \<in> set members. \<exists>t \<in> set members. ce_SourceVersionID e = pc_VersionID s \<and> ce_TargetVersionID e = pc_VersionID t \<and>
      \<not> (pc_ObservedEndToEnd s \<and> pc_ObservedEndToEnd t)) \<longleftrightarrow> (ce_SourceVersionID e \<in> set ns \<and> ce_TargetVersionID e \<in> set ns) \<and> ?un e" for e
    unfolding f(4) [symmetric] ids [symmetric] set_map
  proof -
    have "(\<exists>s \<in> set members. \<exists>t \<in> set members. ce_SourceVersionID e = pc_VersionID s \<and> ce_TargetVersionID e = pc_VersionID t \<and>
        \<not> (pc_ObservedEndToEnd s \<and> pc_ObservedEndToEnd t)) \<longleftrightarrow>
      (\<exists>s \<in> set members. \<exists>t \<in> set members. ce_SourceVersionID e = pc_VersionID s \<and> ce_TargetVersionID e = pc_VersionID t \<and> ?un e)"
      using look by metis
    then show "(\<exists>s \<in> set members. \<exists>t \<in> set members. ce_SourceVersionID e = pc_VersionID s \<and> ce_TargetVersionID e = pc_VersionID t \<and>
        \<not> (pc_ObservedEndToEnd s \<and> pc_ObservedEndToEnd t)) \<longleftrightarrow>
      (ce_SourceVersionID e \<in> pc_VersionID ` set members \<and> ce_TargetVersionID e \<in> pc_VersionID ` set members) \<and> ?un e" by blast
  qed
  have "length (filter (\<lambda>e. \<exists>s \<in> set members. \<exists>t \<in> set members. ce_SourceVersionID e = pc_VersionID s \<and>
      ce_TargetVersionID e = pc_VersionID t \<and> \<not> (pc_ObservedEndToEnd s \<and> pc_ObservedEndToEnd t)) (cg_Edges (rp_Graph request)))
    = length (filter ?un (chosen_edges (cg_Edges (rp_Graph request)) ns))"
    by (simp only: un chosen_edges_count [OF irr])
  moreover have same: "map (\<lambda>c. \<not> pc_Seed c) members = map (\<lambda>c. \<not> pc_Seed c) (map (byVersion candidates) ordered)"
    "map (\<lambda>c. sint (pc_EvidenceStrength c)) members = map (\<lambda>c. sint (pc_EvidenceStrength c)) (map (byVersion candidates) ordered)"
    using m(3) by (induction rule: list_all2_induct) (auto simp: normalised_from_fields)
  have "length (filter (\<lambda>c. \<not> pc_Seed c) members) = length (filter (\<lambda>c. \<not> pc_Seed c) (map (byVersion candidates) ordered))"
    using same(1) by (rule length_filter_map_eq)
  moreover have "foldl (\<lambda>m c. min m (sint (pc_EvidenceStrength c))) 9223372036854775807 members = sint (weakest_evidence (map (byVersion candidates) ordered))"
    unfolding weakest_evidence_min sint_MaxInt64 foldl_map_key [of "\<lambda>c. sint (pc_EvidenceStrength c)"] same(2) by (rule refl)
  ultimately show ?thesis using m(1,2) s(2) f(7) by (intro exI [of _ members]) (simp only: simp_thms)
qed

theorem plan_evidence_exact_witness:
  "\<exists>plan. PlanProcedures sample_externals sample_manifest planner_request = Inr plan \<and> sint (pl_EvidenceStrength plan) = 5"
proof -
  obtain plan where run: "PlanProcedures sample_externals sample_manifest planner_request = Inr plan" "map no_VersionID (pl_Nodes plan) = [''a'']"
    using planner_runs by (elim exE conjE) (rule that)
  from plan_evidence_exact [OF run(1)] obtain members where m: "set members \<subseteq> set (rp_Candidates planner_request)"
      "map pc_VersionID members = map no_VersionID (pl_Nodes plan)"
    "sint (pl_EvidenceStrength plan) = max 0 (foldl (\<lambda>m c. min m (sint (pc_EvidenceStrength c))) 9223372036854775807 members
      - int (length (filter (\<lambda>c. \<not> pc_Seed c) members)) * sint (pm_NoveltyPenalty (pn_Spec sample_manifest))
      - int (length (filter (\<lambda>e. \<exists>s \<in> set members. \<exists>t \<in> set members. ce_SourceVersionID e = pc_VersionID s \<and>
            ce_TargetVersionID e = pc_VersionID t \<and> \<not> (pc_ObservedEndToEnd s \<and> pc_ObservedEndToEnd t)) (cg_Edges (rp_Graph planner_request))))
          * sint (pm_UnobservedEdgePenalty (pn_Spec sample_manifest)))" by blast
  have "length members = 1" using m(2) run(2) by (metis length_map One_nat_def length_Cons list.size(3))
  then obtain c where "members = [c]" by (auto simp: length_Suc_conv)
  then have "members = [planner_candidate]" using m(1) by (simp add: planner_request_def)
  then have "sint (pl_EvidenceStrength plan) = 5" using m(3) by (simp add: planner_request_def planner_graph_valid)
  with run show ?thesis by (intro exI conjI)
qed

end
