(* ===== verification/Parallel_Sample.thy ===== *)
theory Parallel_Sample
  imports Parallel Planning
begin

text \<open>
  The plan of the sample request is turned into a parallel schedule, for the witnesses of the
  properties of \<^verbatim>\<open>parallel.go\<close>.
\<close>

lemma length_sample_hash: "length (hash_bytes sample_externals s) = 64"
  using hashPattern_hash_bytes [OF digest32_sample] by (simp add: hashPattern_def)

lemma sample_ids:
  "\<exists>h. pn_ID sample_manifest = ''pman_'' @ h \<and> length h = 64" "cg_ID planner_graph = ''cgraph_'' @ cg_ContentHash planner_graph"
  "length (cg_ContentHash planner_graph) = 64" "length (cg_MatrixHash planner_graph) = 64" "length (cg_CandidateSetHash planner_graph) = 64"
  "length (pi_ContentHash (sample_interface [] [])) = 64"
proof -
  have v: "TrimSpace ''v'' = ''v''" by code_simp
  have "validPlannerSpec sample_planner_spec"
    by (simp add: validPlannerSpec_def sample_planner_spec_def contains_nul_def)
  moreover have "sample_planner_spec\<lparr>pm_Version := TrimSpace (pm_Version sample_planner_spec)\<rparr> = sample_planner_spec"
    by (simp add: sample_planner_spec_def v)
  ultimately show "\<exists>h. pn_ID sample_manifest = ''pman_'' @ h \<and> length h = 64"
    by (simp add: sample_manifest_def NewPlannerManifest_def MarshalAndHash_sample length_sample_hash Let_def)
  show "cg_ID planner_graph = ''cgraph_'' @ cg_ContentHash planner_graph"
    "length (cg_ContentHash planner_graph) = 64" "length (cg_MatrixHash planner_graph) = 64" "length (cg_CandidateSetHash planner_graph) = 64"
    using validateCompatibilityGraph_Inr(1-4) [OF planner_graph_valid(7)] by (simp_all add: hashPattern_def)
  show "length (pi_ContentHash (sample_interface [] [])) = 64" using empty_interface(4) by (simp add: hashPattern_def)
qed

lemma planner_draft_json: "length (sample_print (json_plan (prepare_plan (planner_draft strength)))) \<le> 16777216"
proof -
  let ?d = "planner_draft strength"
  have covered: "pl_CoveredGoalPredicateIDs ?d = [''p'']" by (simp add: byVersion_def sorted_keys_def)
  have gaps: "pl_Gaps ?d = []" by (simp only: draft_fields(22) covered) (simp add: draft_gaps_def requirement_gaps_def byVersion_def empty_interface)
  obtain h where h: "pn_ID sample_manifest = ''pman_'' @ h" "length h = 64" using sample_ids(1) by blast
  have p: "pl_ID (prepare_plan ?d) = []" "pl_ContentHash (prepare_plan ?d) = []" "pl_Nodes (prepare_plan ?d) = pl_Nodes ?d"
    "pl_SchemaVersion (prepare_plan ?d) = ''composition-plan.v1''" "pl_TenantID (prepare_plan ?d) = ''t''"
    "pl_PlannerManifestID (prepare_plan ?d) = ''pman_'' @ h" "pl_PolicyManifestID (prepare_plan ?d) = ''q''"
    "pl_CompatibilityGraphID (prepare_plan ?d) = ''cgraph_'' @ cg_ContentHash planner_graph"
    "pl_CompatibilityGraphHash (prepare_plan ?d) = cg_ContentHash planner_graph"
    "pl_CompatibilityMatrixHash (prepare_plan ?d) = cg_MatrixHash planner_graph" "pl_CandidateSetHash (prepare_plan ?d) = cg_CandidateSetHash planner_graph"
    "pl_Dependencies (prepare_plan ?d) = []" "pl_CompatibilityEdgeIDs (prepare_plan ?d) = []" "pl_ExternallySatisfiedRequirementIDs (prepare_plan ?d) = []"
    "pl_SatisfiedRequirementIDs (prepare_plan ?d) = []" "pl_ProducedResourceIDs (prepare_plan ?d) = []"
    "pl_CoveredGoalPredicateIDs (prepare_plan ?d) = [''p'']" "pl_RequestedGoalPredicateIDs (prepare_plan ?d) = [''p'']"
    "pl_SeedVersionIDs (prepare_plan ?d) = [''a'']" "pl_Gaps (prepare_plan ?d) = []" "pl_LimitCodes (prepare_plan ?d) = []"
    by (simp_all add: prepare_plan_def planner_request_def h sample_ids(2) covered gaps byVersion_def empty_interface
        draft_gaps_def requirement_gaps_def sorted_keys_def)
  have n: "pl_Nodes ?d = [\<lparr>no_Ordinal = 0, no_VersionID = ''a'', no_InterfaceHash = pi_ContentHash (sample_interface [] []), no_Bridge = False\<rparr>]"
    by (simp add: byVersion_def node_of_def)
  show ?thesis unfolding json_plan_def p n
    by (simp add: json_node_def omit_str_def omit_strs_def omit_list_def sample_ids h)
qed

lemma planner_plan_ok:
  assumes "PlanProcedures sample_externals sample_manifest planner_request = Inr plan"
    and "canonicalizePlan sample_externals (planner_draft strength) = Inr plan"
  shows "parallel_plan_ok sample_externals sample_manifest plan planner_graph [planner_candidate]" "pl_CompatibilityEdgeIDs plan = []"
    "pl_TenantID plan = ''t''" "pl_PolicyManifestID plan = ''q''"
proof -
  let ?d = "planner_draft strength"
  obtain enc where enc: "plan = stamp_plan enc (hash_bytes sample_externals enc) (prepare_plan ?d)"
    "MarshalAndHash sample_externals (json_plan (prepare_plan ?d)) = Inr (enc, hash_bytes sample_externals enc)"
    using assms(2) by (rule plan_seal.seal_Inr)
  obtain candidates goals satisfied ns ordered seeds codes st best where
    "planned sample_externals sample_manifest planner_request candidates goals satisfied ns ordered seeds codes st best plan"
    using assms(1) by (rule PlanProcedures_Inr)
  then have valid: "ValidatePlan sample_externals plan" using digest32_sample by (rule planned_validates) (simp add: planner_request_def)
  have json: "length enc \<le> 16777216" using planner_draft_json [of strength] enc(2) by (simp add: MarshalAndHash_sample)
  have f: "pl_Nodes plan = pl_Nodes ?d" "pl_RequestedGoalPredicateIDs plan = [''p'']" "pl_ExternallySatisfiedRequirementIDs plan = []"
    "pl_SatisfiedRequirementIDs plan = []" "pl_ProducedResourceIDs plan = []" "pl_CoveredGoalPredicateIDs plan = [''p'']"
    "pl_SeedVersionIDs plan = [''a'']" "pl_CompatibilityEdgeIDs plan = []" "pl_Gaps plan = []" "pl_CanonicalJSON plan = enc"
    "pl_Complete plan" "pl_PlannerManifestID plan = pn_ID sample_manifest" "pl_CompatibilityGraphID plan = cg_ID planner_graph"
    "pl_CompatibilityGraphHash plan = cg_ContentHash planner_graph" "pl_CandidateSetHash plan = cg_CandidateSetHash planner_graph"
    "pl_CompatibilityMatrixHash plan = cg_MatrixHash planner_graph" "pl_TenantID plan = ''t''" "pl_ProjectionEpoch plan = 1"
    "pl_PolicyManifestID plan = ''q''"
    unfolding enc(1) by (simp_all add: stamp_plan_def prepare_plan_def planner_request_def byVersion_def empty_interface
        draft_gaps_def requirement_gaps_def sorted_keys_def)
  have nodes: "length (pl_Nodes plan) = 1" unfolding f(1) by simp
  show "parallel_plan_ok sample_externals sample_manifest plan planner_graph [planner_candidate]"
    unfolding parallel_plan_ok_def Let_def f nodes
    using valid json sample_manifest_valid(1) f(11) by (simp add: planner_graph_valid sample_manifest_valid(2) sample_planner_spec_def maximumParallelPlanEdges_def)
  show "pl_CompatibilityEdgeIDs plan = []" "pl_TenantID plan = ''t''" "pl_PolicyManifestID plan = ''q''" by (rule f)+
qed

lemma sample_parallel_candidate:
  assumes "pl_TenantID plan = ''t''" "pl_PolicyManifestID plan = ''q''"
  shows "check_parallel_candidate sample_externals sample_planner_spec plan
     \<lparr>px_budget = \<lparr>used = 1, maximum = 100\<rparr>, px_entries = 0, px_goals = 0, px_facts = [], px_candidates = []\<rparr> planner_candidate =
    Inr \<lparr>px_budget = \<lparr>used = 4, maximum = 100\<rparr>, px_entries = 0, px_goals = 1, px_facts = [(''a'', pc_Parallelism unhashed_candidate)],
      px_candidates = [graph_candidate ''t'' planner_candidate]\<rparr>"
proof -
  have none: "parallelEntryCount (pc_Parallelism unhashed_candidate) = 0" by (simp add: parallelEntryCount_def unhashed_candidate_def)
  have same: "planner_candidate\<lparr>pc_GoalPredicateIDs := [''p''], pc_Parallelism := pc_Parallelism unhashed_candidate\<rparr> = planner_candidate"
    by (simp add: planner_candidate_def unhashed_candidate_def)
  show ?thesis using sample_facts_hash assms
    by (simp add: check_parallel_candidate_def sample_normalized consume_def none same sample_planner_spec_def Let_def)
qed

lemma sample_schedule:
  "\<exists>plan schedule. PlanProcedures sample_externals sample_manifest planner_request = Inr plan \<and> map no_VersionID (pl_Nodes plan) = [''a''] \<and>
     DeriveParallelSchedule sample_externals sample_manifest plan planner_graph [planner_candidate] = Inr schedule \<and>
     map pg_NodeVersionIDs (ps_Groups schedule) = [[''a'']] \<and> pl_TenantID plan = ''t'' \<and> pl_PolicyManifestID plan = ''q'' \<and>
     length (ps_CanonicalJSON schedule) \<le> 16777216 \<and> (\<forall>g \<in> set (ps_Groups schedule). length (pg_CanonicalJSON g) \<le> 1048576)"
proof -
  obtain plan strength where run: "PlanProcedures sample_externals sample_manifest planner_request = Inr plan"
    "map no_VersionID (pl_Nodes plan) = [''a'']" "canonicalizePlan sample_externals (planner_draft strength) = Inr plan"
    using planner_runs by (elim exE conjE) (rule that)
  note ok = planner_plan_ok [OF run(1,3)]
  obtain n where n: "pl_Nodes plan = [n]" "no_VersionID n = ''a''" using run(2) by auto
  have "ValidatePlan sample_externals plan" using ok(1) by (simp add: parallel_plan_ok_def Let_def)
  then have "pl_ID plan = ''plan_'' @ pl_ContentHash plan" "hashPattern (pl_ContentHash plan)" unfolding ValidatePlan_def by simp_all
  then have ids: "length (pl_ID plan) = 69" "length (pl_ContentHash plan) = 64" by (simp_all add: hashPattern_def)
  let ?b = "\<lparr>used = 4, maximum = 100\<rparr>"
  have "validateParallelInputs sample_externals sample_manifest plan planner_graph [planner_candidate] \<lparr>used = 0, maximum = 100\<rparr> =
      Inr ([(''a'', pc_Parallelism unhashed_candidate)], [], ?b)"
    by (simp add: validateParallelInputs_def ok planner_graph_valid sample_manifest_valid(2) sample_parallel_candidate n del: res_bind_eq_Inr)
  moreover have "assign_group [(''a'', pc_Parallelism unhashed_candidate)] [] \<lparr>gs_groups = [], gs_byVersion = [], gs_budget = ?b\<rparr> n =
      Inr \<lparr>gs_groups = [[''a'']], gs_byVersion = [(''a'', 0)], gs_budget = ?b\<rparr>"
    by (simp add: assign_group_def predecessors_def minimum_group_def n Let_def del: res_bind_eq_Inr)
  moreover obtain g where g: "canonicalizeParallelGroup sample_externals (group_of plan 0 [''a'']) = Inr g" "pg_NodeVersionIDs g = [''a'']"
    "length (pg_CanonicalJSON g) \<le> 1048576" "length (sample_print (json_parallel_group g)) \<le> 1000"
    using ids by (simp add: canonicalizeParallelGroup_def MarshalAndHash_sample group_of_def json_parallel_group_def omit_str_def length_sample_hash Let_def)
  moreover obtain s where s: "canonicalizeParallelSchedule sample_externals (schedule_of sample_manifest plan planner_graph [g]) = Inr s" "ps_Groups s = [g]"
    "length (ps_CanonicalJSON s) \<le> 16777216"
    using ids g(4) sample_ids
    by (auto simp: canonicalizeParallelSchedule_def MarshalAndHash_sample schedule_of_def json_parallel_schedule_def omit_str_def ok(3,4) Let_def)
  moreover have "pm_MaximumWorkUnits (pn_Spec sample_manifest) = 100" by (simp add: sample_manifest_valid(2) sample_planner_spec_def)
  ultimately have "DeriveParallelSchedule sample_externals sample_manifest plan planner_graph [planner_candidate] = Inr s"
    "map pg_NodeVersionIDs (ps_Groups s) = [[''a'']]"
    by (simp_all add: DeriveParallelSchedule_def n del: res_bind_eq_Inr)
  moreover have "\<forall>x \<in> set (ps_Groups s). length (pg_CanonicalJSON x) \<le> 1048576" using g(3) unfolding s(2) by simp
  ultimately show ?thesis using run(1,2) ok(3,4) s(3) by (intro exI conjI)
qed

end
