(* ===== verification/Parallel_Schedule.thy ===== *)
theory Parallel_Schedule
  imports Parallel_Sample
begin

text \<open>
  What the parallel schedules of \<^verbatim>\<open>parallel.go\<close> promise: every node of the plan is in exactly one
  group, behind its predecessors, the members of a group do not conflict, no node could have been
  placed earlier by first fit, and the schedule passes its own validator.
\<close>

lemma distinct_concat_index:
  "distinct (concat gs) \<Longrightarrow> i < length gs \<Longrightarrow> j < length gs \<Longrightarrow> v \<in> set (gs ! i) \<Longrightarrow> v \<in> set (gs ! j) \<Longrightarrow> i = j"
proof (induction gs arbitrary: i j)
  case (Cons g gs)
  have "v \<in> set (concat gs)" if "k < length gs" "v \<in> set (gs ! k)" for k using that by auto
  then show ?case using Cons by (cases i; cases j) (auto 0 3)
qed simp

section \<open>First fit into groups, abstractly\<close>

text \<open>
  A version that joins group \<open>i\<close> (or opens it), behind the groups of its predecessors, without a
  conflict there, and with a conflict in every permitted group before it, keeps the invariant.
\<close>

locale first_fit =
  fixes conflict :: "'v \<Rightarrow> 'v \<Rightarrow> bool" and preds :: "'v \<Rightarrow> 'v list"
  assumes conflict_sym: "conflict a b \<Longrightarrow> conflict b a"
begin

definition fits :: "'v list \<Rightarrow> 'v list list \<Rightarrow> ('v \<Rightarrow> nat) \<Rightarrow> bool" where
  "fits placed groups at \<longleftrightarrow> mset (concat groups) = mset placed \<and> [] \<notin> set groups \<and>
     (\<forall>v \<in> set placed. at v < length groups \<and> v \<in> set (groups ! at v)) \<and>
     (\<forall>v \<in> set placed. \<forall>p \<in> set (preds v). p \<in> set placed \<and> at p < at v) \<and>
     (\<forall>a \<in> set placed. \<forall>b \<in> set placed. a \<noteq> b \<longrightarrow> at a = at b \<longrightarrow> \<not> conflict a b) \<and>
     (\<forall>v \<in> set placed. \<forall>j < at v. (\<forall>p \<in> set (preds v). at p < j) \<longrightarrow> (\<exists>m \<in> set placed. at m = j \<and> conflict m v))"

lemma fits_empty: "fits [] [] at"
  by (simp add: fits_def)

lemma mset_concat_add:
  "i < length groups \<Longrightarrow> mset (concat (groups[i := groups ! i @ [v]])) = add_mset v (mset (concat groups))"
proof (induction groups arbitrary: i)
  case (Cons g groups)
  then show ?case by (cases i) auto
qed simp

lemma fits_step:
  assumes inv: "fits placed groups at" and new: "v \<notin> set placed" "set (preds v) \<subseteq> set placed"
    and i: "i \<le> length groups" "\<forall>p \<in> set (preds v). at p < i"
    and free: "\<forall>m \<in> set placed. at m = i \<longrightarrow> \<not> conflict m v"
    and busy: "\<forall>j < i. (\<forall>p \<in> set (preds v). at p < j) \<longrightarrow> (\<exists>m \<in> set placed. at m = j \<and> conflict m v)"
    and groups': "groups' = (if i < length groups then groups[i := groups ! i @ [v]] else groups @ [[v]])"
  shows "fits (placed @ [v]) groups' (at(v := i))"
proof -
  note parts = inv [unfolded fits_def]
  have mset: "mset (concat groups') = mset (placed @ [v])"
    using parts by (auto simp: groups' mset_concat_add simp del: mset_concat)
  have nonempty: "[] \<notin> set groups'"
    using parts set_update_subset_insert [of groups i "groups ! i @ [v]"] by (auto simp: groups')
  have grow: "k < length groups \<Longrightarrow> set (groups ! k) \<subseteq> set (groups' ! k)" "k < length groups \<Longrightarrow> k < length groups'" for k
    by (auto simp: groups' nth_append nth_list_update)
  have here: "i < length groups' \<and> v \<in> set (groups' ! i)" using i(1) by (auto simp: groups')
  have same: "at' = at(v := i) \<Longrightarrow> w \<in> set placed \<Longrightarrow> at' w = at w" for w at' using new(1) by auto
  have where_all: "\<forall>w \<in> set (placed @ [v]). (at(v := i)) w < length groups' \<and> w \<in> set (groups' ! (at(v := i)) w)"
    using parts grow here new(1) by (auto simp: subset_iff)
  have before: "\<forall>w \<in> set (placed @ [v]). \<forall>p \<in> set (preds w). p \<in> set (placed @ [v]) \<and> (at(v := i)) p < (at(v := i)) w"
    using parts new i(2) by (auto simp: subset_iff)
  have apart: "\<forall>a \<in> set (placed @ [v]). \<forall>b \<in> set (placed @ [v]). a \<noteq> b \<longrightarrow> (at(v := i)) a = (at(v := i)) b \<longrightarrow> \<not> conflict a b"
    using parts free conflict_sym new(1) by auto
  have minimal: "\<exists>m \<in> set (placed @ [v]). (at(v := i)) m = j \<and> conflict m w"
    if w: "w \<in> set (placed @ [v])" "j < (at(v := i)) w" "\<forall>p \<in> set (preds w). (at(v := i)) p < j" for w j
  proof (cases "w = v")
    case True
    then have "\<forall>p \<in> set (preds v). at p < j" using w(3) new by (metis fun_upd_other subsetD)
    then obtain m where "m \<in> set placed" "at m = j" "conflict m v" using busy w(2) True by auto
    then show ?thesis using True new(1) by auto
  next
    case False
    then have wp: "w \<in> set placed" "j < at w" using w by auto
    then have "\<forall>p \<in> set (preds w). at p < j" using w(3) parts new(1) by (metis fun_upd_other)
    then obtain m where "m \<in> set placed" "at m = j" "conflict m w" using parts wp by blast
    then show ?thesis using new(1) by auto
  qed
  show ?thesis unfolding fits_def using mset nonempty where_all before apart minimal by blast
qed

lemma fits_members:
  assumes "fits placed groups at" "distinct placed" "i < length groups" "v \<in> set (groups ! i)"
  shows "v \<in> set placed" "at v = i"
proof -
  have m: "mset (concat groups) = mset placed" and w: "\<forall>v \<in> set placed. at v < length groups \<and> v \<in> set (groups ! at v)"
    using assms(1) by (simp_all add: fits_def)
  have "v \<in> set (concat groups)" using assms(3,4) by auto
  then show "v \<in> set placed" using mset_eq_setD [OF m] by auto
  then have at: "at v < length groups" "v \<in> set (groups ! at v)" using w by simp_all
  have "distinct (concat groups)" using m assms(2) by (metis mset_eq_imp_distinct_iff)
  then show "at v = i" using at assms(3,4) distinct_concat_index by metis
qed

end

section \<open>Conflicts\<close>

definition modifies :: "ParallelismFacts \<Rightarrow> string set" where
  "modifies f = TrimSpace ` (set (pf_WriteResourceIDs f) \<union> set (pf_ExclusiveResourceIDs f))"

definition uses :: "ParallelismFacts \<Rightarrow> string set" where
  "uses f = TrimSpace ` set (pf_ReadResourceIDs f) \<union> modifies f"

text \<open>Two procedures conflict when one must run alone, they share a mutex, or one changes what the other uses.\<close>

definition conflicting :: "ParallelismFacts \<Rightarrow> ParallelismFacts \<Rightarrow> bool" where
  "conflicting f g \<longleftrightarrow> pf_CompensationBoundary f \<or> pf_CompensationBoundary g \<or> pf_PolicySerial f \<or> pf_PolicySerial g \<or>
     TrimSpace ` set (pf_PolicyMutexKeys f) \<inter> TrimSpace ` set (pf_PolicyMutexKeys g) \<noteq> {} \<or>
     modifies f \<inter> uses g \<noteq> {} \<or> modifies g \<inter> uses f \<noteq> {}"

lemma conflicting_sym: "conflicting f g \<Longrightarrow> conflicting g f"
  by (auto simp: conflicting_def)

lemma intersectsBounded_exact:
  "intersectsBounded left right b = Inr (found, b') \<Longrightarrow> sorted left \<Longrightarrow> sorted right \<Longrightarrow> found \<longleftrightarrow> set left \<inter> set right \<noteq> {}"
proof (induction left right b rule: intersectsBounded.induct)
  case (1 l left r right b)
  then show ?case
    by (auto split: option.splits if_splits dest!: meta_spec)
qed auto

lemma conflict_loop_exact:
  "conflict_loop pairs b = Inr (found, b') \<Longrightarrow> \<forall>(l, r) \<in> set pairs. sorted l \<and> sorted r \<Longrightarrow>
   found \<longleftrightarrow> (\<exists>(l, r) \<in> set pairs. set l \<inter> set r \<noteq> {})"
proof (induction pairs arbitrary: b)
  case (Cons p pairs)
  obtain l r where p: "p = (l, r)" by (cases p)
  from Cons.prems(1) obtain hit b1 where i: "intersectsBounded l r b = Inr (hit, b1)"
    "(if hit then Inr (True, b1) else conflict_loop pairs b1) = Inr (found, b')" by (auto simp: p)
  have "hit \<longleftrightarrow> set l \<inter> set r \<noteq> {}" using intersectsBounded_exact [OF i(1)] Cons.prems(2) p by auto
  then show ?case using Cons.IH [of b1] i(2) Cons.prems(2) by (cases hit) (auto simp: p)
qed auto

text \<open>Normalised facts: sorted lists of trimmed identifiers.\<close>

definition normal_facts :: "ParallelismFacts \<Rightarrow> bool" where
  "normal_facts f \<longleftrightarrow> list_all (\<lambda>ids. sorted ids \<and> TrimSpace ` set ids = set ids)
     [pf_ReadResourceIDs f, pf_WriteResourceIDs f, pf_ExclusiveResourceIDs f, pf_PolicyMutexKeys f]"

lemma normalizedParallelism_normal:
  assumes "normalizedParallelism f = Some f'"
  shows "normal_facts f'" "conflicting f' g = conflicting f g" "conflicting g f' = conflicting g f"
proof -
  have ids: "sorted vs \<and> set vs = TrimSpace ` set src"
    if "normalizedIDs src e = Some vs" for src e vs
    using that by (auto simp: normalizedIDs_def image_image sort_slice_eq_sort Let_def split: if_splits)
  obtain r w x m where n: "normalizedIDs (pf_ReadResourceIDs f) True = Some r" "normalizedIDs (pf_WriteResourceIDs f) True = Some w"
    "normalizedIDs (pf_ExclusiveResourceIDs f) True = Some x" "normalizedIDs (pf_PolicyMutexKeys f) True = Some m"
    "f' = f\<lparr>pf_ReadResourceIDs := r, pf_WriteResourceIDs := w, pf_ExclusiveResourceIDs := x, pf_PolicyMutexKeys := m\<rparr>"
    using assms by (auto simp: normalizedParallelism_def split: option.splits if_splits)
  note i = ids [OF n(1)] ids [OF n(2)] ids [OF n(3)] ids [OF n(4)]
  show "normal_facts f'" using i by (simp add: n(5) normal_facts_def image_image)
  have "modifies f' = modifies f" "uses f' = uses f" using i by (simp_all add: n(5) modifies_def uses_def image_Un image_image)
  then show "conflicting f' g = conflicting f g" "conflicting g f' = conflicting g f"
    using i by (simp_all add: conflicting_def n(5) image_image)
qed

lemma parallelConflict_exact:
  assumes "parallelConflict f g b = Inr (found, b')" "normal_facts f" "normal_facts g"
  shows "found \<longleftrightarrow> conflicting f g"
proof (cases "pf_CompensationBoundary f \<or> pf_CompensationBoundary g \<or> pf_PolicySerial f \<or> pf_PolicySerial g")
  case True
  then show ?thesis using assms(1) by (auto simp: parallelConflict_def conflicting_def split: option.splits)
next
  case False
  then obtain b1 where l: "conflict_loop (conflict_pairs f g) b1 = Inr (found, b')"
    using assms(1) by (auto simp: parallelConflict_def split: option.splits)
  have "\<forall>(l, r) \<in> set (conflict_pairs f g). sorted l \<and> sorted r" using assms(2,3) by (simp add: conflict_pairs_def normal_facts_def)
  from conflict_loop_exact [OF l this] have hit: "found \<longleftrightarrow> (\<exists>(l, r) \<in> set (conflict_pairs f g). set l \<inter> set r \<noteq> {})" .
  have "conflicting f g \<longleftrightarrow> set (pf_PolicyMutexKeys f) \<inter> set (pf_PolicyMutexKeys g) \<noteq> {} \<or>
      modifies f \<inter> uses g \<noteq> {} \<or> modifies g \<inter> uses f \<noteq> {}"
    using False assms(2,3) by (simp add: conflicting_def normal_facts_def)
  then show ?thesis unfolding hit using assms(2,3)
    by (simp add: conflict_pairs_def normal_facts_def modifies_def uses_def image_Un Int_Un_distrib Int_Un_distrib2 Int_commute) blast
qed

section \<open>The assignment of groups\<close>

definition all_normal :: "(string \<times> ParallelismFacts) list \<Rightarrow> bool" where
  "all_normal facts \<longleftrightarrow> list_all (normal_facts \<circ> snd) facts"

lemma facts_at_normal: "all_normal facts \<Longrightarrow> normal_facts (facts_at facts v)"
proof -
  assume "all_normal facts"
  then have "map_of facts v = Some f \<Longrightarrow> normal_facts f" for f by (auto simp: all_normal_def list_all_iff dest!: map_of_SomeD)
  moreover have "normal_facts (pc_Parallelism zero_candidate)" by (simp add: normal_facts_def zero_candidate_def)
  ultimately show ?thesis by (simp add: facts_at_def split: option.split)
qed

abbreviation clash :: "(string \<times> ParallelismFacts) list \<Rightarrow> string \<Rightarrow> string \<Rightarrow> bool" where
  "clash facts a b \<equiv> conflicting (facts_at facts a) (facts_at facts b)"

interpretation grouping: first_fit "clash facts" "predecessors edges" for facts edges
  by unfold_locales (rule conflicting_sym)

lemma groupAccepts_exact:
  "groupAccepts g v facts b = Inr (ok, b') \<Longrightarrow> all_normal facts \<Longrightarrow> ok \<longleftrightarrow> (\<forall>m \<in> set g. \<not> clash facts m v)"
proof (induction g arbitrary: b)
  case (Cons m g)
  from Cons.prems(1) obtain hit b1 where i: "parallelConflict (facts_at facts m) (facts_at facts v) b = Inr (hit, b1)"
    "(if hit then Inr (False, b1) else groupAccepts g v facts b1) = Inr (ok, b')" by auto
  have "hit \<longleftrightarrow> clash facts m v" by (rule parallelConflict_exact [OF i(1)]) (rule facts_at_normal [OF Cons.prems(2)])+
  then show ?case using Cons.IH [of b1] Cons.prems(2) i(2) by (cases hit) auto
qed simp

lemma find_group_exact:
  assumes "find_group v facts k gs b = Inr (res, b')" "all_normal facts"
  defines "i \<equiv> (case res of Some i \<Rightarrow> i | None \<Rightarrow> k + length gs)"
  shows "k \<le> i" "i \<le> k + length gs" "res = None \<longleftrightarrow> i = k + length gs"
    "i < k + length gs \<Longrightarrow> \<forall>m \<in> set (gs ! (i - k)). \<not> clash facts m v"
    "\<forall>j. k \<le> j \<and> j < i \<longrightarrow> (\<exists>m \<in> set (gs ! (j - k)). clash facts m v)"
proof -
  have "k \<le> i \<and> i \<le> k + length gs \<and> (res = None \<longleftrightarrow> i = k + length gs) \<and>
      (i < k + length gs \<longrightarrow> (\<forall>m \<in> set (gs ! (i - k)). \<not> clash facts m v)) \<and>
      (\<forall>j. k \<le> j \<and> j < i \<longrightarrow> (\<exists>m \<in> set (gs ! (j - k)). clash facts m v))"
    using assms(1) unfolding i_def
  proof (induction gs arbitrary: k b)
    case (Cons g gs)
    from Cons.prems obtain ok b1 where g: "groupAccepts g v facts b = Inr (ok, b1)"
      "(if ok then Inr (Some k, b1) else find_group v facts (k + 1) gs b1) = Inr (res, b')" by auto
    note ok = groupAccepts_exact [OF g(1) assms(2)]
    show ?case
    proof (cases ok)
      case True
      then show ?thesis using g(2) ok by auto
    next
      case False
      then have rest: "find_group v facts (k + 1) gs b1 = Inr (res, b')" using g(2) by simp
      note ih = Cons.IH [OF rest]
      let ?i = "case res of None \<Rightarrow> k + 1 + length gs | Some i \<Rightarrow> i"
      have i: "(case res of None \<Rightarrow> k + length (g # gs) | Some i \<Rightarrow> i) = ?i" by (cases res) simp_all
      have at: "(g # gs) ! (j - k) = gs ! (j - (k + 1))" if "k + 1 \<le> j" for j using that by (simp add: nth_Cons')
      have hit: "\<exists>m \<in> set ((g # gs) ! (j - k)). clash facts m v" if "k \<le> j" "j < ?i" for j
        using that ih ok False by (cases "j = k") (auto simp: at)
      show ?thesis unfolding i using ih hit at [of ?i] by auto
    qed
  qed auto
  then show "k \<le> i" "i \<le> k + length gs" "res = None \<longleftrightarrow> i = k + length gs"
    "i < k + length gs \<Longrightarrow> \<forall>m \<in> set (gs ! (i - k)). \<not> clash facts m v"
    "\<forall>j. k \<le> j \<and> j < i \<longrightarrow> (\<exists>m \<in> set (gs ! (j - k)). clash facts m v)" by blast+
qed

lemma minimum_group_least: "minimum_group st ps \<le> j \<longleftrightarrow> (\<forall>p \<in> set ps. group_index (gs_byVersion st) p < j)"
proof -
  have "foldl (\<lambda>m p. if group_index (gs_byVersion st) p + 1 > m then group_index (gs_byVersion st) p + 1 else m) m ps \<le> j \<longleftrightarrow>
      m \<le> j \<and> (\<forall>p \<in> set ps. group_index (gs_byVersion st) p < j)" for m
    by (induction ps arbitrary: m) auto
  then show ?thesis by (simp add: minimum_group_def)
qed

lemma group_index_Cons: "group_index ((v, i) # table) = (group_index table)(v := i)"
  by (auto simp: group_index_def)

lemma assign_group_fits:
  assumes "assign_group facts edges st node = Inr st'" "all_normal facts"
    and inv: "grouping.fits facts edges placed (gs_groups st) (group_index (gs_byVersion st))" and "distinct placed"
    and new: "no_VersionID node \<notin> set placed" "set (predecessors edges (no_VersionID node)) \<subseteq> set placed"
  shows "grouping.fits facts edges (placed @ [no_VersionID node]) (gs_groups st') (group_index (gs_byVersion st'))"
proof -
  let ?v = "no_VersionID node" and ?at = "group_index (gs_byVersion st)" and ?gs = "gs_groups st"
  let ?k = "minimum_group st (predecessors edges ?v)"
  from assms(1) obtain res b where f: "find_group ?v facts ?k (drop ?k ?gs) (gs_budget st) = Inr (res, b)"
    by (auto simp: assign_group_def Let_def)
  define i where "i = (case res of Some i \<Rightarrow> i | None \<Rightarrow> ?k + length (drop ?k ?gs))"
  note g = find_group_exact [OF f assms(2), folded i_def]
  have "\<forall>p \<in> set placed. ?at p < length ?gs" using inv by (simp add: grouping.fits_def)
  then have k: "?k \<le> length ?gs" using new(2) minimum_group_least [of st _ "length ?gs"] by blast
  then have len: "?k + length (drop ?k ?gs) = length ?gs" by simp
  have nth: "?k \<le> j \<Longrightarrow> j < length ?gs \<Longrightarrow> drop ?k ?gs ! (j - ?k) = ?gs ! j" for j by simp
  have placed_at: "m \<in> set placed \<and> ?at m = j" if "j < length ?gs" "m \<in> set (?gs ! j)" for m j
    using grouping.fits_members [OF inv assms(4) that] by simp
  have at: "m \<in> set (?gs ! ?at m)" if "m \<in> set placed" for m using inv that by (simp add: grouping.fits_def)
  have st': "gs_groups st' = (if i < length ?gs then ?gs[i := ?gs ! i @ [?v]] else ?gs @ [[?v]])" "gs_byVersion st' = (?v, i) # gs_byVersion st"
  proof -
    have st': "(case res of Some i \<Rightarrow> Inr (st\<lparr>gs_groups := ?gs[i := ?gs ! i @ [?v]], gs_byVersion := (?v, i) # gs_byVersion st, gs_budget := b\<rparr>)
        | None \<Rightarrow> Inr (st\<lparr>gs_groups := ?gs @ [[?v]], gs_byVersion := (?v, length ?gs) # gs_byVersion st, gs_budget := b\<rparr>)) = (Inr st' :: composition_error + groupState)"
      using assms(1) unfolding assign_group_def Let_def f by simp
    have none: "res = None \<longleftrightarrow> i = length ?gs" using g(3) len by simp
    show "gs_groups st' = (if i < length ?gs then ?gs[i := ?gs ! i @ [?v]] else ?gs @ [[?v]])" "gs_byVersion st' = (?v, i) # gs_byVersion st"
      using st' none g(2) len by (cases res; auto simp: i_def)+
  qed
  show ?thesis unfolding st'(2) group_index_Cons
  proof (rule grouping.fits_step [OF inv new])
    show "i \<le> length ?gs" "\<forall>p \<in> set (predecessors edges ?v). ?at p < i"
      using g(1,2) len minimum_group_least [of st _ i] by auto
    show "\<forall>m \<in> set placed. ?at m = i \<longrightarrow> \<not> clash facts m ?v"
      using g(1,4) len nth at inv unfolding grouping.fits_def by metis
    show "\<forall>j < i. (\<forall>p \<in> set (predecessors edges ?v). ?at p < j) \<longrightarrow> (\<exists>m \<in> set placed. ?at m = j \<and> clash facts m ?v)"
    proof (intro allI impI)
      fix j assume j: "j < i" "\<forall>p \<in> set (predecessors edges ?v). ?at p < j"
      then have "?k \<le> j" "j < length ?gs" using minimum_group_least [of st _ j] g(2) len by auto
      then show "\<exists>m \<in> set placed. ?at m = j \<and> clash facts m ?v" using g(5) j(1) nth placed_at by metis
    qed
    show "gs_groups st' = (if i < length ?gs then ?gs[i := ?gs ! i @ [?v]] else ?gs @ [[?v]])" by (rule st'(1))
  qed
qed

lemma assign_groups_fits:
  assumes "res_fold (assign_group facts edges) st nodes = Inr st'" "all_normal facts"
    and "grouping.fits facts edges placed (gs_groups st) (group_index (gs_byVersion st))"
    and "distinct (placed @ map no_VersionID nodes)"
    and "\<forall>k < length nodes. set (predecessors edges (no_VersionID (nodes ! k))) \<subseteq> set placed \<union> set (map no_VersionID (take k nodes))"
  shows "grouping.fits facts edges (placed @ map no_VersionID nodes) (gs_groups st') (group_index (gs_byVersion st'))"
  using assms
proof (induction nodes arbitrary: st placed)
  case (Cons n nodes)
  then obtain st1 where st1: "assign_group facts edges st n = Inr st1" "res_fold (assign_group facts edges) st1 nodes = Inr st'" by auto
  have new: "no_VersionID n \<notin> set placed" "set (predecessors edges (no_VersionID n)) \<subseteq> set placed" "distinct placed"
    using Cons.prems(4) Cons.prems(5) [rule_format, of 0] by auto
  have fits: "grouping.fits facts edges (placed @ [no_VersionID n]) (gs_groups st1) (group_index (gs_byVersion st1))"
    by (rule assign_group_fits [OF st1(1) Cons.prems(2,3) new(3,1,2)])
  have back_edges: "set (predecessors edges (no_VersionID (nodes ! k))) \<subseteq> set (placed @ [no_VersionID n]) \<union> set (map no_VersionID (take k nodes))"
    if "k < length nodes" for k using Cons.prems(5) [rule_format, of "Suc k"] that by auto
  have "distinct ((placed @ [no_VersionID n]) @ map no_VersionID nodes)" using Cons.prems(4) by simp
  from Cons.IH [OF st1(2) Cons.prems(2) fits this] back_edges
  have "grouping.fits facts edges ((placed @ [no_VersionID n]) @ map no_VersionID nodes) (gs_groups st') (group_index (gs_byVersion st'))" by blast
  then show ?case by simp
qed simp

section \<open>What a derivation has checked\<close>

lemma position_nth:
  assumes "distinct (map no_VersionID nodes)" "k < length nodes"
  shows "position nodes (no_VersionID (nodes ! k)) = k"
proof -
  let ?l = "map (\<lambda>(index, n). (no_VersionID n, index)) (enumerate 0 nodes)"
  have d: "distinct (map fst ?l)"
  proof -
    have "map fst ?l = map no_VersionID nodes" by (simp add: case_prod_beta comp_def map_enumerate_snd)
    then show ?thesis using assms(1) by simp
  qed
  have "(no_VersionID (nodes ! k), k) \<in> set ?l"
    using assms(2) nth_mem [of k ?l] by (simp add: nth_enumerate_eq)
  then have "map_of (rev ?l) (no_VersionID (nodes ! k)) = Some k" using d by (intro map_of_is_SomeI) (simp_all add: rev_map [symmetric])
  then show ?thesis by (simp add: position_def)
qed

lemma recorded_edges_Inr:
  "recorded_edges selected edges edgeIDs b = Inr (es, rest, b') \<Longrightarrow>
   es = filter (\<lambda>e. ce_SourceVersionID e \<in> set selected \<and> ce_TargetVersionID e \<in> set selected) edges"
proof (induction edges arbitrary: edgeIDs b es)
  case (Cons e edges)
  then show ?case by (fastforce simp: Let_def split: option.splits if_splits)
qed simp

lemma check_parallel_candidates_Inr:
  assumes "res_fold (check_parallel_candidate ext spec plan) st0 cs = Inr st" "px_facts st0 = []"
  shows "list_all2 (\<lambda>c (v, f). v = pc_VersionID c \<and> normalizedParallelism (pc_Parallelism c) = Some f) cs (px_facts st)"
    "distinct (map fst (px_facts st))"
proof -
  let ?P = "\<lambda>(ys :: PlannerCandidate list) st. list_all2 (\<lambda>c (v, f). v = pc_VersionID c \<and> normalizedParallelism (pc_Parallelism c) = Some f) ys (px_facts st) \<and>
    distinct (map fst (px_facts st))"
  have "?P cs st" using assms(1)
  proof (rule res_fold_prefix_induct [where P = ?P])
    fix ys y u v
    assume inv: "?P ys u" and step: "check_parallel_candidate ext spec plan u y = Inr v"
    from step obtain f where "normalizedParallelism (pc_Parallelism y) = Some f" "px_facts v = px_facts u @ [(pc_VersionID y, f)]"
      "pc_VersionID y \<notin> set (map fst (px_facts u))"
      unfolding check_parallel_candidate_def Let_def by (auto split: option.splits if_splits)
    with inv show "?P (ys @ [y]) v" by (auto intro: list_all2_appendI)
  qed (simp add: assms(2))
  then show "list_all2 (\<lambda>c (v, f). v = pc_VersionID c \<and> normalizedParallelism (pc_Parallelism c) = Some f) cs (px_facts st)"
    "distinct (map fst (px_facts st))" by blast+
qed

text \<open>The outcome of a successful derivation: the groups fit, and the sealed values are built from them.\<close>

definition scheduled ::
  "externals \<Rightarrow> PlannerManifest \<Rightarrow> Plan \<Rightarrow> CompatibilityGraph \<Rightarrow> PlannerCandidate list \<Rightarrow> (string \<times> ParallelismFacts) list \<Rightarrow>
   CompatibilityEdge list \<Rightarrow> string list list \<Rightarrow> (string \<Rightarrow> nat) \<Rightarrow> ParallelGroup list \<Rightarrow> ParallelSchedule \<Rightarrow> bool" where
  "scheduled ext manifest plan graph candidates facts edges groups at sealed schedule \<longleftrightarrow>
     (let nodes = map no_VersionID (pl_Nodes plan)
      in parallel_plan_ok ext manifest plan graph candidates \<and> distinct nodes \<and>
         (\<exists>b b'. validateCompatibilityGraph ext graph b = Inr b') \<and>
         edges = filter (\<lambda>e. ce_SourceVersionID e \<in> set nodes \<and> ce_TargetVersionID e \<in> set nodes) (cg_Edges graph) \<and>
         set nodes \<subseteq> set (map pc_VersionID candidates) \<and>
         (\<forall>c \<in> set candidates. \<exists>f. normalizedParallelism (pc_Parallelism c) = Some f \<and> facts_at facts (pc_VersionID c) = f) \<and>
         grouping.fits facts edges nodes groups at \<and>
         list_all2 (\<lambda>x g. (case x of (index, versions) \<Rightarrow> canonicalizeParallelGroup ext (group_of plan index versions)) = Inr g) (enumerate 0 groups) sealed \<and>
         canonicalizeParallelSchedule ext (schedule_of manifest plan graph sealed) = Inr schedule)"

lemma list_all2_pick_left: "list_all2 P xs ys \<Longrightarrow> x \<in> set xs \<Longrightarrow> \<exists>y \<in> set ys. P x y"
  by (induction rule: list_all2_induct) auto

lemma validateParallelInputs_Inr:
  assumes "validateParallelInputs ext manifest plan graph candidates b0 = Inr (facts, edges, b)"
  obtains b1 input where "parallel_plan_ok ext manifest plan graph candidates" "validateCompatibilityGraph ext graph (Some b0) = Inr (Some b1)"
    "res_fold (check_parallel_candidate ext (pn_Spec manifest) plan)
      \<lparr>px_budget = b1, px_entries = 0, px_goals = 0, px_facts = [], px_candidates = []\<rparr> (sort_slice planner_candidate_less candidates) = Inr input"
    "list_all (\<lambda>n. no_VersionID n \<in> set (map fst (px_facts input))) (pl_Nodes plan)" "facts = px_facts input"
    "\<exists>ids b2. recorded_edges (map no_VersionID (pl_Nodes plan)) (cg_Edges graph) (pl_CompatibilityEdgeIDs plan) (px_budget input) = Inr (edges, ids, b2)"
proof -
  have ok: "parallel_plan_ok ext manifest plan graph candidates"
    by (rule ccontr) (use assms in \<open>simp add: validateParallelInputs_def\<close>)
  obtain b1 where g: "validateCompatibilityGraph ext graph (Some b0) = Inr (Some b1)"
  proof (cases "validateCompatibilityGraph ext graph (Some b0)")
    case (Inl e)
    then show ?thesis using assms by (simp add: validateParallelInputs_def ok split: if_splits)
  next
    case (Inr o1)
    then show ?thesis using assms that by (cases o1) (simp_all add: validateParallelInputs_def ok)
  qed
  let ?st0 = "\<lparr>px_budget = b1, px_entries = 0, px_goals = 0, px_facts = [], px_candidates = []\<rparr>"
  obtain input where input: "res_fold (check_parallel_candidate ext (pn_Spec manifest) plan) ?st0 (sort_slice planner_candidate_less candidates) = Inr input"
    using assms unfolding validateParallelInputs_def g sum.case option.case by (auto simp: ok)
  have run: "(if buildCandidateSetHash ext (px_candidates input) \<noteq> Inr (cg_CandidateSetHash graph) then Inl ErrInvalidParallelRequest
      else if \<not> list_all (\<lambda>n. no_VersionID n \<in> set (map fst (px_facts input))) (pl_Nodes plan) then Inl ErrInvalidParallelRequest
      else res_bind (recorded_edges (map no_VersionID (pl_Nodes plan)) (cg_Edges graph) (pl_CompatibilityEdgeIDs plan) (px_budget input))
        (\<lambda>(selectedEdges, rest, budget). if rest \<noteq> [] then Inl ErrInvalidParallelRequest else Inr (px_facts input, selectedEdges, budget)))
      = Inr (facts, edges, b)"
    using assms unfolding validateParallelInputs_def g input sum.case option.case res_bind_simps by (simp only: ok not_True_eq_False if_False)
  have nodes: "list_all (\<lambda>n. no_VersionID n \<in> set (map fst (px_facts input))) (pl_Nodes plan)"
    by (rule ccontr) (use run in \<open>simp split: if_split_asm\<close>)
  have "facts = px_facts input \<and> (\<exists>ids b2. recorded_edges (map no_VersionID (pl_Nodes plan)) (cg_Edges graph) (pl_CompatibilityEdgeIDs plan) (px_budget input) =
      Inr (edges, ids, b2))"
    using run by (simp only: nodes not_True_eq_False if_False res_bind_eq_Inr split: if_split_asm) (auto split: if_split_asm)
  then show thesis using that ok g input nodes by blast
qed

lemma DeriveParallelSchedule_Inr:
  assumes "DeriveParallelSchedule ext manifest plan graph candidates = Inr schedule"
  obtains facts edges groups at sealed where "scheduled ext manifest plan graph candidates facts edges groups at sealed schedule"
proof -
  let ?b0 = "\<lparr>used = 0, maximum = pm_MaximumWorkUnits (pn_Spec manifest)\<rparr>" and ?nodes = "map no_VersionID (pl_Nodes plan)"
  obtain facts edges b where v: "validateParallelInputs ext manifest plan graph candidates ?b0 = Inr (facts, edges, b)"
    using assms unfolding DeriveParallelSchedule_def res_bind_eq_Inr by auto
  have checked: "list_all (\<lambda>e. position (pl_Nodes plan) (ce_SourceVersionID e) < position (pl_Nodes plan) (ce_TargetVersionID e)) edges"
    by (rule ccontr) (use assms in \<open>simp add: DeriveParallelSchedule_def v\<close>)
  then have order: "\<forall>e \<in> set edges. position (pl_Nodes plan) (ce_SourceVersionID e) < position (pl_Nodes plan) (ce_TargetVersionID e)"
    by (simp add: list_all_iff)
  obtain st sealed where st: "res_fold (assign_group facts edges) \<lparr>gs_groups = [], gs_byVersion = [], gs_budget = b\<rparr> (pl_Nodes plan) = Inr st"
    and sealed: "res_map (\<lambda>(index, versions). canonicalizeParallelGroup ext (group_of plan index versions)) (enumerate 0 (gs_groups st)) = Inr sealed"
    and schedule: "canonicalizeParallelSchedule ext (schedule_of manifest plan graph sealed) = Inr schedule"
    using assms unfolding DeriveParallelSchedule_def v res_bind_simps prod.case
    by (simp only: checked not_True_eq_False if_False res_bind_eq_Inr) blast
  obtain b1 input where ok: "parallel_plan_ok ext manifest plan graph candidates"
    and g: "validateCompatibilityGraph ext graph (Some ?b0) = Inr (Some b1)"
    and input: "res_fold (check_parallel_candidate ext (pn_Spec manifest) plan)
      \<lparr>px_budget = b1, px_entries = 0, px_goals = 0, px_facts = [], px_candidates = []\<rparr> (sort_slice planner_candidate_less candidates) = Inr input"
    and rest: "list_all (\<lambda>n. no_VersionID n \<in> set (map fst (px_facts input))) (pl_Nodes plan)" "facts = px_facts input"
      "\<exists>ids b2. recorded_edges ?nodes (cg_Edges graph) (pl_CompatibilityEdgeIDs plan) (px_budget input) = Inr (edges, ids, b2)"
    using v by (rule validateParallelInputs_Inr)
  note c = check_parallel_candidates_Inr [OF input, simplified]
  have edges: "edges = filter (\<lambda>e. ce_SourceVersionID e \<in> set ?nodes \<and> ce_TargetVersionID e \<in> set ?nodes) (cg_Edges graph)"
    using rest(3) recorded_edges_Inr by blast
  have nodes: "distinct ?nodes" using ok by (simp add: parallel_plan_ok_def ValidatePlan_def Let_def)
  have looked: "\<exists>f. normalizedParallelism (pc_Parallelism c) = Some f \<and> facts_at facts (pc_VersionID c) = f" if "c \<in> set candidates" for c
  proof -
    have "c \<in> set (sort_slice planner_candidate_less candidates)" using that by simp
    then obtain v f where "(v, f) \<in> set (px_facts input)" "v = pc_VersionID c" "normalizedParallelism (pc_Parallelism c) = Some f"
      using list_all2_pick_left [OF c(1)] by fastforce
    then show ?thesis using c(2) by (auto simp: facts_at_def rest(2))
  qed
  have known: "set (map fst (px_facts input)) = set (map pc_VersionID candidates)"
  proof -
    have "map fst (px_facts input) = map pc_VersionID (sort_slice planner_candidate_less candidates)"
      using c(1) by (induction rule: list_all2_induct) auto
    then show ?thesis by simp
  qed
  have normal: "all_normal facts"
    using c(1) normalizedParallelism_normal(1) unfolding rest(2) by (induction rule: list_all2_induct) (auto simp: all_normal_def)
  have preds: "set (predecessors edges (no_VersionID (pl_Nodes plan ! k))) \<subseteq> set (map no_VersionID (take k (pl_Nodes plan)))"
    if "k < length (pl_Nodes plan)" for k
  proof
    fix p assume "p \<in> set (predecessors edges (no_VersionID (pl_Nodes plan ! k)))"
    then obtain e where e: "e \<in> set edges" "ce_SourceVersionID e = p" "ce_TargetVersionID e = no_VersionID (pl_Nodes plan ! k)"
      by (auto simp: predecessors_def)
    then have "p \<in> set ?nodes" by (simp add: edges)
    then obtain i where i: "i < length (pl_Nodes plan)" "p = no_VersionID (pl_Nodes plan ! i)" by (auto simp: in_set_conv_nth)
    then have "i < k" using order [rule_format, OF e(1)] e position_nth [OF nodes] that by simp
    then have "pl_Nodes plan ! i \<in> set (take k (pl_Nodes plan))" using i(1) by (auto simp: in_set_conv_nth intro!: exI [of _ i])
    then show "p \<in> set (map no_VersionID (take k (pl_Nodes plan)))" using i(2) by simp
  qed
  have "grouping.fits facts edges ([] @ ?nodes) (gs_groups st) (group_index (gs_byVersion st))"
    by (rule assign_groups_fits [OF st normal]) (use nodes preds in \<open>simp_all add: grouping.fits_empty\<close>)
  then have "scheduled ext manifest plan graph candidates facts edges (gs_groups st) (group_index (gs_byVersion st)) sealed schedule"
    using ok nodes g edges rest(1) looked known sealed schedule
    unfolding scheduled_def Let_def res_map_Inr_iff by (auto simp: list_all_iff)
  then show thesis by (rule that)
qed

lemma canonicalizeParallelGroup_fields:
  assumes "canonicalizeParallelGroup ext g = Inr g'"
  shows "pg_NodeVersionIDs g' = pg_NodeVersionIDs g" "pg_SchemaVersion g' = pg_SchemaVersion g" "pg_Ordinal g' = pg_Ordinal g"
    "pg_PlanID g' = pg_PlanID g" "pg_ID g' = ''pgroup_'' @ pg_ContentHash g'" "sealed_group ext g'"
    "digest32 ext \<Longrightarrow> hashPattern (pg_ContentHash g')"
  using assms MarshalAndHash_pattern
  by (auto simp: canonicalizeParallelGroup_def sealed_group_def Let_def split: sum.splits)

lemma canonicalizeParallelSchedule_fields:
  assumes "canonicalizeParallelSchedule ext s = Inr s'"
  shows "ps_Groups s' = ps_Groups s"
    "\<exists>c h. s' = s\<lparr>ps_ID := ''psched_'' @ h, ps_ContentHash := h, ps_CanonicalJSON := c\<rparr> \<and>
      MarshalAndHash ext (json_parallel_schedule (s\<lparr>ps_ID := [], ps_ContentHash := [], ps_CanonicalJSON := []\<rparr>)) = Inr (c, h)"
  using assms by (auto simp: canonicalizeParallelSchedule_def Let_def split: sum.splits)

lemma scheduled_parts:
  assumes "scheduled ext manifest plan graph candidates facts edges groups at sealed schedule"
  defines "nodes \<equiv> map no_VersionID (pl_Nodes plan)"
  shows "distinct nodes" "grouping.fits facts edges nodes groups at"
    "edges = filter (\<lambda>e. ce_SourceVersionID e \<in> set nodes \<and> ce_TargetVersionID e \<in> set nodes) (cg_Edges graph)"
    "set nodes \<subseteq> set (map pc_VersionID candidates)"
    "\<forall>c \<in> set candidates. \<exists>f. normalizedParallelism (pc_Parallelism c) = Some f \<and> facts_at facts (pc_VersionID c) = f"
    "parallel_plan_ok ext manifest plan graph candidates" "\<exists>b b'. validateCompatibilityGraph ext graph b = Inr b'"
    "canonicalizeParallelSchedule ext (schedule_of manifest plan graph sealed) = Inr schedule"
    "list_all2 (\<lambda>x g. (case x of (index, versions) \<Rightarrow> canonicalizeParallelGroup ext (group_of plan index versions)) = Inr g) (enumerate 0 groups) sealed"
  using assms(1) unfolding scheduled_def Let_def nodes_def by blast+

lemma scheduled_groups:
  assumes "scheduled ext manifest plan graph candidates facts edges groups at sealed schedule"
  shows "ps_Groups schedule = sealed" "map pg_NodeVersionIDs (ps_Groups schedule) = groups" "length sealed = length groups"
proof -
  have s: "list_all2 (\<lambda>x g. (case x of (index, versions) \<Rightarrow> canonicalizeParallelGroup ext (group_of plan index versions)) = Inr g) (enumerate 0 groups) sealed"
    "canonicalizeParallelSchedule ext (schedule_of manifest plan graph sealed) = Inr schedule"
    using assms by (simp_all add: scheduled_def Let_def)
  show e: "ps_Groups schedule = sealed" using canonicalizeParallelSchedule_fields(1) [OF s(2)] by (simp add: schedule_of_def)
  show "length sealed = length groups" using list_all2_lengthD [OF s(1)] by simp
  have "map pg_NodeVersionIDs sealed = map snd (enumerate 0 groups)"
    using s(1) by (induction rule: list_all2_induct) (auto simp: canonicalizeParallelGroup_fields(1) group_of_def)
  then show "map pg_NodeVersionIDs (ps_Groups schedule) = groups" unfolding e by simp
qed

lemma group_shapes_nth:
  "group_shapes s k t gs \<longleftrightarrow>
   (\<forall>i < length gs. group_shape s (k + i) (t + sum_list (map (length \<circ> pg_NodeVersionIDs) (take i gs))) (gs ! i))"
proof (induction gs arbitrary: k t)
  case (Cons g gs)
  show ?case unfolding group_shapes.simps Cons.IH by (simp add: All_less_Suc2 add.assoc comp_def)
qed simp

lemma length_le_concat: "[] \<notin> set gs \<Longrightarrow> length gs \<le> length (concat gs)"
proof (induction gs)
  case (Cons g gs)
  then show ?case by (cases g) auto
qed simp

lemma sum_take_nth_le: "i < length ns \<Longrightarrow> sum_list (take i ns) + ns ! i \<le> sum_list (ns :: nat list)"
proof -
  assume "i < length ns"
  then have "sum_list (take (Suc i) ns) = sum_list (take i ns) + ns ! i" by (simp add: take_Suc_conv_app_nth)
  moreover have "sum_list (take (Suc i) ns) \<le> sum_list ns" by (metis append_take_drop_id le_add1 sum_list_append)
  ultimately show ?thesis by simp
qed

lemma manifest_id_safe:
  assumes "digest32 ext" "ValidatePlannerManifest ext manifest"
  shows "safeIdentity (pn_ID manifest)"
proof -
  obtain c h where h: "MarshalAndHash ext c = Inr h" "pn_ID manifest = ''pman_'' @ snd h"
    using assms(2) by (auto simp: ValidatePlannerManifest_def NewPlannerManifest_def Let_def split: sum.splits if_splits)
  then have "hashPattern (snd h)" using MarshalAndHash_pattern [OF assms(1), of c "fst h" "snd h"] by simp
  then show ?thesis using hashPattern_no_nul [of "snd h"] by (simp add: h(2) safeIdentity_def hashPattern_def contains_nul_def)
qed

lemma validated_nodes_safe:
  assumes "ValidatePlan ext plan" "n \<in> set (pl_Nodes plan)"
  shows "safeIdentity (no_VersionID n)"
proof -
  have "list_all (\<lambda>(ordinal, n). no_Ordinal n = of_nat ordinal \<and> safeIdentity (no_VersionID n) \<and> hashPattern (no_InterfaceHash n) \<and>
      no_Bridge n \<noteq> (no_VersionID n \<in> set (pl_SeedVersionIDs plan))) (enumerate 0 (pl_Nodes plan))"
    using assms(1) unfolding ValidatePlan_def by (elim conjE)
  moreover obtain i where "i < length (pl_Nodes plan)" "n = pl_Nodes plan ! i" using assms(2) by (auto simp: in_set_conv_nth)
  ultimately show ?thesis by (auto simp: list_all_length nth_enumerate_eq)
qed

lemma scheduled_bounds:
  assumes "scheduled ext manifest plan graph candidates facts edges groups at sealed schedule"
  shows "length groups \<le> 32" "groups \<noteq> []" "[] \<notin> set groups" "length (concat groups) \<le> 32" "list_all safeIdentity (concat groups)"
    "distinct (concat groups)"
proof -
  note p = scheduled_parts [OF assms]
  have fits: "mset (concat groups) = mset (map no_VersionID (pl_Nodes plan))" "[] \<notin> set groups" using p(2) by (simp_all add: grouping.fits_def)
  have ok: "ValidatePlan ext plan" "ValidatePlannerManifest ext manifest" "length (pl_Nodes plan) \<le> unat (pm_MaximumProcedures (pn_Spec manifest))"
    using p(6) by (simp_all add: parallel_plan_ok_def Let_def)
  have "unat (pm_MaximumProcedures (pn_Spec manifest)) \<le> 32" by (rule valid_limits(2) [OF ok(2)])
  moreover have len: "length (concat groups) = length (pl_Nodes plan)" using mset_eq_length [OF fits(1)] by simp
  ultimately show total: "length (concat groups) \<le> 32" using ok(3) by linarith
  show "[] \<notin> set groups" by (rule fits(2))
  then show "length groups \<le> 32" using length_le_concat total by (meson le_trans)
  have "pl_Nodes plan \<noteq> []" using ok(1) unfolding ValidatePlan_def by blast
  then show "groups \<noteq> []" using len by auto
  have "set (concat groups) = no_VersionID ` set (pl_Nodes plan)" using mset_eq_setD [OF fits(1)] by simp
  then show "list_all safeIdentity (concat groups)"
    using validated_nodes_safe [OF ok(1)] by (auto simp: list_all_iff)
  show "distinct (concat groups)" using fits(1) p(1) by (metis mset_eq_imp_distinct_iff)
qed

section \<open>Properties\<close>

text \<open>C16: a derived schedule holds every node of the plan exactly once, and whenever the graph has an
  edge between two nodes of the plan, the source is in a strictly earlier group than the target.\<close>

theorem parallel_groups_respect_plan:
  assumes "DeriveParallelSchedule ext manifest plan graph candidates = Inr schedule"
    and "groups = map pg_NodeVersionIDs (ps_Groups schedule)" "nodes = map no_VersionID (pl_Nodes plan)"
  shows "mset (concat groups) = mset nodes \<and> distinct nodes \<and>
    (\<forall>e \<in> set (cg_Edges graph). ce_SourceVersionID e \<in> set nodes \<and> ce_TargetVersionID e \<in> set nodes \<longrightarrow>
       (\<exists>i j. i < j \<and> j < length groups \<and> ce_SourceVersionID e \<in> set (groups ! i) \<and> ce_TargetVersionID e \<in> set (groups ! j)))"
proof -
  obtain facts edges gs at sealed where s: "scheduled ext manifest plan graph candidates facts edges gs at sealed schedule"
    using assms(1) by (rule DeriveParallelSchedule_Inr)
  have g: "groups = gs" using scheduled_groups(2) [OF s] assms(2) by simp
  have p: "distinct nodes" "grouping.fits facts edges nodes groups at"
    "edges = filter (\<lambda>e. ce_SourceVersionID e \<in> set nodes \<and> ce_TargetVersionID e \<in> set nodes) (cg_Edges graph)"
    using scheduled_parts [OF s] unfolding assms(3) g by blast+
  have "\<exists>i j. i < j \<and> j < length groups \<and> ce_SourceVersionID e \<in> set (groups ! i) \<and> ce_TargetVersionID e \<in> set (groups ! j)"
    if "e \<in> set (cg_Edges graph)" "ce_SourceVersionID e \<in> set nodes" "ce_TargetVersionID e \<in> set nodes" for e
  proof -
    have "ce_SourceVersionID e \<in> set (predecessors edges (ce_TargetVersionID e))" using that by (auto simp: predecessors_def p(3))
    then show ?thesis using p(2) that(2,3) unfolding grouping.fits_def by metis
  qed
  then show ?thesis using p(1,2) by (simp add: grouping.fits_def)
qed

theorem parallel_groups_respect_plan_witness:
  "\<exists>plan schedule. DeriveParallelSchedule sample_externals sample_manifest plan planner_graph [planner_candidate] = Inr schedule \<and>
     mset (concat (map pg_NodeVersionIDs (ps_Groups schedule))) = mset [''a'']"
proof -
  obtain plan schedule where s: "map no_VersionID (pl_Nodes plan) = [''a'']"
    "DeriveParallelSchedule sample_externals sample_manifest plan planner_graph [planner_candidate] = Inr schedule"
    using sample_schedule by (elim exE conjE) (rule that)
  have "mset (concat (map pg_NodeVersionIDs (ps_Groups schedule))) = mset (map no_VersionID (pl_Nodes plan))"
    using parallel_groups_respect_plan [OF s(2) refl refl] by (elim conjE)
  then show ?thesis unfolding s(1) using s(2) by (intro exI conjI)
qed

text \<open>C17: two candidates in one group of a derived schedule never conflict (neither has to run alone,
  no mutex is shared, neither changes a resource that the other uses), and first fit is tight: a
  candidate of a group has, for every earlier group, a predecessor in that or a later group or
  a conflict with a member of it.\<close>

theorem parallel_groups_first_fit:
  assumes "DeriveParallelSchedule ext manifest plan graph candidates = Inr schedule"
    and "groups = map pg_NodeVersionIDs (ps_Groups schedule)"
    and "i < length groups" "c \<in> set candidates" "pc_VersionID c \<in> set (groups ! i)"
  shows "(\<forall>d \<in> set candidates. pc_VersionID d \<in> set (groups ! i) \<and> pc_VersionID d \<noteq> pc_VersionID c \<longrightarrow>
       \<not> conflicting (pc_Parallelism c) (pc_Parallelism d)) \<and>
    (\<forall>j < i. (\<exists>e \<in> set (cg_Edges graph). ce_TargetVersionID e = pc_VersionID c \<and> (\<exists>k \<ge> j. k < length groups \<and> ce_SourceVersionID e \<in> set (groups ! k))) \<or>
       (\<exists>d \<in> set candidates. pc_VersionID d \<in> set (groups ! j) \<and> conflicting (pc_Parallelism d) (pc_Parallelism c)))"
proof -
  obtain facts edges gs at sealed where s: "scheduled ext manifest plan graph candidates facts edges gs at sealed schedule"
    using assms(1) by (rule DeriveParallelSchedule_Inr)
  define nodes where "nodes = map no_VersionID (pl_Nodes plan)"
  have g: "groups = gs" using scheduled_groups(2) [OF s] assms(2) by simp
  have p: "distinct nodes" "grouping.fits facts edges nodes groups at"
    "edges = filter (\<lambda>e. ce_SourceVersionID e \<in> set nodes \<and> ce_TargetVersionID e \<in> set nodes) (cg_Edges graph)"
    "set nodes \<subseteq> set (map pc_VersionID candidates)"
    "\<forall>c \<in> set candidates. \<exists>f. normalizedParallelism (pc_Parallelism c) = Some f \<and> facts_at facts (pc_VersionID c) = f"
    using scheduled_parts [OF s] unfolding nodes_def g by blast+
  have clash: "clash facts (pc_VersionID a) (pc_VersionID b) \<longleftrightarrow> conflicting (pc_Parallelism a) (pc_Parallelism b)"
    if "a \<in> set candidates" "b \<in> set candidates" for a b
    using p(5) that normalizedParallelism_normal(2,3) by metis
  note at = grouping.fits_members [OF p(2,1)]
  note fits = p(2) [unfolded grouping.fits_def]
  have c: "pc_VersionID c \<in> set nodes" "at (pc_VersionID c) = i" using at [OF assms(3,5)] by simp_all
  have apart: "\<not> conflicting (pc_Parallelism c) (pc_Parallelism d)"
    if "d \<in> set candidates" "pc_VersionID d \<in> set (groups ! i)" "pc_VersionID d \<noteq> pc_VersionID c" for d
  proof -
    have "\<not> clash facts (pc_VersionID c) (pc_VersionID d)" using fits c at [OF assms(3) that(2)] that(3) by metis
    then show ?thesis using clash assms(4) that(1) by blast
  qed
  have tight: "\<exists>d \<in> set candidates. pc_VersionID d \<in> set (groups ! j) \<and> conflicting (pc_Parallelism d) (pc_Parallelism c)"
    if j: "j < i" and free: "\<not> (\<exists>e \<in> set (cg_Edges graph). ce_TargetVersionID e = pc_VersionID c \<and> (\<exists>k \<ge> j. k < length groups \<and> ce_SourceVersionID e \<in> set (groups ! k)))" for j
  proof -
    have "\<forall>q \<in> set (predecessors edges (pc_VersionID c)). at q < j"
    proof
      fix q assume q: "q \<in> set (predecessors edges (pc_VersionID c))"
      then obtain e where e: "e \<in> set (cg_Edges graph)" "ce_TargetVersionID e = pc_VersionID c" "ce_SourceVersionID e = q"
        by (auto simp: predecessors_def p(3))
      have "q \<in> set nodes" using fits c(1) q by blast
      then have "at q < length groups" "q \<in> set (groups ! at q)" using fits by blast+
      then show "at q < j" using free e by (meson not_le)
    qed
    then obtain m where m: "m \<in> set nodes" "at m = j" "clash facts m (pc_VersionID c)" using fits c j by blast
    obtain d where d: "d \<in> set candidates" "pc_VersionID d = m" using m(1) p(4) by auto
    have "m \<in> set (groups ! j)" using fits m(1,2) by blast
    then show ?thesis using d m(3) clash [OF d(1) assms(4)] by blast
  qed
  show ?thesis using apart tight by blast
qed

theorem parallel_groups_first_fit_witness:
  "\<exists>plan schedule. DeriveParallelSchedule sample_externals sample_manifest plan planner_graph [planner_candidate] = Inr schedule \<and>
     (\<forall>d \<in> {planner_candidate}. pc_VersionID d \<noteq> ''a'' \<longrightarrow> \<not> conflicting (pc_Parallelism planner_candidate) (pc_Parallelism d))"
proof -
  obtain plan schedule where s: "DeriveParallelSchedule sample_externals sample_manifest plan planner_graph [planner_candidate] = Inr schedule"
    "map pg_NodeVersionIDs (ps_Groups schedule) = [[''a'']]" using sample_schedule by (elim exE conjE) (rule that)
  from parallel_groups_first_fit [OF s(1) s(2) [symmetric], of 0 planner_candidate]
  have "\<forall>d \<in> {planner_candidate}. pc_VersionID d \<noteq> ''a'' \<longrightarrow> \<not> conflicting (pc_Parallelism planner_candidate) (pc_Parallelism d)" by simp
  then show ?thesis using s(1) by (intro exI conjI)
qed

text \<open>A derived schedule is accepted by \<^verbatim>\<open>ValidateParallelSchedule\<close> and comes back unchanged from
  \<^verbatim>\<open>HydrateParallelSchedule\<close>: identifiers and hashes of the groups and of the schedule, ordinals,
  the limits of 32 groups and nodes, no node twice. The digest has 32 bytes, tenant and policy
  are safe identities, and the encodings are within the size limits.\<close>

theorem parallel_schedule_validates:
  assumes "digest32 ext" "DeriveParallelSchedule ext manifest plan graph candidates = Inr schedule"
    and "safeIdentity (pl_TenantID plan)" "safeIdentity (pl_PolicyManifestID plan)"
    and "length (ps_CanonicalJSON schedule) \<le> 16777216" "\<forall>g \<in> set (ps_Groups schedule). length (pg_CanonicalJSON g) \<le> 1048576"
  shows "ValidateParallelSchedule ext schedule \<and> HydrateParallelSchedule ext schedule = Inr schedule"
proof -
  obtain facts edges groups at sealed where s: "scheduled ext manifest plan graph candidates facts edges groups at sealed schedule"
    using assms(2) by (rule DeriveParallelSchedule_Inr)
  note p = scheduled_parts [OF s] and g = scheduled_groups [OF s] and b = scheduled_bounds [OF s]
  obtain c h where seal: "schedule = (schedule_of manifest plan graph sealed)\<lparr>ps_ID := ''psched_'' @ h, ps_ContentHash := h, ps_CanonicalJSON := c\<rparr>"
    "MarshalAndHash ext (json_parallel_schedule ((schedule_of manifest plan graph sealed)\<lparr>ps_ID := [], ps_ContentHash := [], ps_CanonicalJSON := []\<rparr>)) = Inr (c, h)"
    using canonicalizeParallelSchedule_fields(2) [OF p(8)] by blast
  have ok: "ValidatePlan ext plan" "ValidatePlannerManifest ext manifest" "pl_CompatibilityGraphID plan = cg_ID graph"
    "pl_CompatibilityGraphHash plan = cg_ContentHash graph" using p(6) by (simp_all add: parallel_plan_ok_def Let_def)
  have plan: "pl_ID plan = ''plan_'' @ pl_ContentHash plan" "hashPattern (pl_ContentHash plan)" "pl_ProjectionEpoch plan \<noteq> 0"
    "cg_ID graph = ''cgraph_'' @ cg_ContentHash graph" "hashPattern (cg_ContentHash graph)"
    using ok unfolding ValidatePlan_def by simp_all
  have nth: "canonicalizeParallelGroup ext (group_of plan i (groups ! i)) = Inr (sealed ! i)" if "i < length groups" for i
    using list_all2_nthD [OF p(9), of i] that by (simp add: nth_enumerate_eq)
  have lens: "map (length \<circ> pg_NodeVersionIDs) sealed = map length groups" using g(1,2) by (metis map_map)
  have sealed: "list_all (sealed_group ext) sealed"
    using nth g(3) canonicalizeParallelGroup_fields(6) by (auto simp: list_all_length)
  have shape: "group_shape schedule i (sum_list (map (length \<circ> pg_NodeVersionIDs) (take i sealed))) (sealed ! i)" if "i < length sealed" for i
  proof -
    have i: "i < length groups" using that g(3) by simp
    note f = canonicalizeParallelGroup_fields [OF nth [OF i]]
    have mem: "groups ! i \<in> set groups" using i by simp
    have "sum_list (take i (map length groups)) + map length groups ! i \<le> sum_list (map length groups)"
      by (rule sum_take_nth_le) (use i in simp)
    then have sum: "sum_list (map (length \<circ> pg_NodeVersionIDs) (take i sealed)) + length (groups ! i) \<le> 32"
      using b(4) lens i by (simp add: take_map [symmetric] length_concat)
    have "groups ! i \<noteq> []" "list_all safeIdentity (groups ! i)" using b(3,5) mem by (auto simp: list_all_iff)
    moreover have "length (pg_CanonicalJSON (sealed ! i)) \<le> 1048576" using assms(6) g(1) that by simp
    moreover have "ps_PlanID schedule = pl_ID plan" by (simp add: seal(1) schedule_of_def)
    ultimately show ?thesis using f sum assms(1) by (simp add: group_shape_def group_of_def)
  qed
  have body: "schedule\<lparr>ps_ID := [], ps_ContentHash := [], ps_CanonicalJSON := []\<rparr> =
      (schedule_of manifest plan graph sealed)\<lparr>ps_ID := [], ps_ContentHash := [], ps_CanonicalJSON := []\<rparr>" by (simp add: seal(1))
  have enc: "MarshalAndHash ext (json_parallel_schedule (schedule\<lparr>ps_ID := [], ps_ContentHash := [], ps_CanonicalJSON := []\<rparr>)) =
      Inr (ps_CanonicalJSON schedule, ps_ContentHash schedule)" unfolding body seal(2) by (simp add: seal(1))
  have flds: "ps_SchemaVersion schedule = ''parallel-schedule.v1''" "ps_ID schedule = ''psched_'' @ h" "ps_ContentHash schedule = h"
    "ps_TenantID schedule = pl_TenantID plan" "ps_ProjectionEpoch schedule = pl_ProjectionEpoch plan" "ps_PlanID schedule = pl_ID plan"
    "ps_PlanHash schedule = pl_ContentHash plan" "ps_CompatibilityGraphID schedule = cg_ID graph"
    "ps_CompatibilityGraphHash schedule = cg_ContentHash graph" "ps_PlannerManifestID schedule = pn_ID manifest"
    "ps_PolicyManifestID schedule = pl_PolicyManifestID plan"
    by (simp_all add: seal(1) schedule_of_def)
  have count: "sealed \<noteq> []" "length sealed \<le> 32" using b(1,2) g(3) by auto
  have valid: "ValidateParallelSchedule ext schedule"
    unfolding ValidateParallelSchedule_def enc g(1) group_shapes_nth flds
    using plan assms(3-5) count b(6) g(2) shape sealed manifest_id_safe [OF assms(1) ok(2)] MarshalAndHash_pattern [OF assms(1) seal(2)]
    unfolding g(1) flds by (simp only: add_0 simp_thms) blast
  have "hydrate_group ext x = Inr x" if x: "x \<in> set sealed" for x
  proof -
    obtain i where "i < length groups" "x = sealed ! i" using x g(3) by (auto simp: in_set_conv_nth)
    then show ?thesis using canonicalizeParallelGroup_fields(5,6) [OF nth] by (simp add: hydrate_group_def sealed_group_def)
  qed
  then have "res_map (hydrate_group ext) (ps_Groups schedule) = Inr (ps_Groups schedule)"
    unfolding res_map_Inr_iff g(1) by (simp add: list_all2_same)
  then have "HydrateParallelSchedule ext schedule = Inr schedule"
    using enc valid by (simp add: HydrateParallelSchedule_def seal(1) Let_def)
  then show ?thesis using valid by blast
qed

theorem parallel_schedule_validates_witness:
  "\<exists>plan schedule. DeriveParallelSchedule sample_externals sample_manifest plan planner_graph [planner_candidate] = Inr schedule \<and>
     ValidateParallelSchedule sample_externals schedule"
proof -
  obtain plan schedule where s: "DeriveParallelSchedule sample_externals sample_manifest plan planner_graph [planner_candidate] = Inr schedule"
    "pl_TenantID plan = ''t''" "pl_PolicyManifestID plan = ''q''"
    "length (ps_CanonicalJSON schedule) \<le> 16777216" "\<forall>g \<in> set (ps_Groups schedule). length (pg_CanonicalJSON g) \<le> 1048576"
    using sample_schedule by (elim exE conjE) (rule that)
  have "safeIdentity (pl_TenantID plan)" "safeIdentity (pl_PolicyManifestID plan)"
    by (simp_all add: s(2,3) safeIdentity_def contains_nul_def)
  from parallel_schedule_validates [OF digest32_sample s(1) this s(4,5)] show ?thesis using s(1) by blast
qed

end
