(* ===== verification/Maintenance.thy ===== *)
theory Maintenance
  imports Canonical "HOL-Library.AList"
begin

text \<open>
  The queue of maintenance jobs. \<^verbatim>\<open>internal/maintenance/model.go\<close> defines sealed job descriptions,
  \<^verbatim>\<open>internal/store/memory/maintenance.go\<close> keeps them in a repository with leases and fencing tokens,
  \<^verbatim>\<open>internal/maintenance/runner.go\<close> claims batches, runs handlers and reports the results.

  Every method of the repository runs under its mutex, so concurrent callers are sequences of
  calls; each call gets the instant that its clock returns as an argument. A call returns its
  result together with the new repository, also when it fails.
\<close>

datatype maintenance_error =
    ErrInvalidJob | ErrJobConflict | ErrJobNotFound | ErrStaleMaintenanceLease | ErrMaintenanceEncoding canonical_error

section \<open>Job descriptions\<close>

definition validKind :: "string \<Rightarrow> bool" where
  "validKind kind \<longleftrightarrow> kind = ''compatibility_projection'' \<or> kind = ''lifecycle_evaluation'' \<or> kind = ''exposure_aggregation'' \<or>
     kind = ''transient_expiry'' \<or> kind = ''lifecycle_rollback'' \<or> kind = ''projection_rebuild''"

definition ValidateKinds :: "string list \<Rightarrow> bool" where
  "ValidateKinds kinds \<longleftrightarrow> kinds \<noteq> [] \<and> list_all validKind kinds \<and> distinct kinds"

datatype job_state = Pending | Leased | Completed | DeadLetter

record Spec =
  js_SchemaVersion :: string
  js_ID :: string
  js_TenantID :: string
  js_Kind :: string
  js_IdempotencyKeyHash :: string
  js_CanonicalPayload :: string
  js_CreatedAt :: time
  js_ContentHash :: string
  js_CanonicalJSON :: string

text \<open>\<^verbatim>\<open>json.Marshal\<close> writes a byte slice in standard base64 with padding.\<close>

definition base64_digit :: "nat \<Rightarrow> char" where
  "base64_digit n =
     (if n < 26 then char_of (65 + n) else if n < 52 then char_of (71 + n) else if n < 62 then char_of (n - 4)
      else if n = 62 then CHR ''+'' else CHR ''/'')"

fun base64 :: "string \<Rightarrow> string" where
  "base64 [] = []"
| "base64 [a] = (let x = of_char a * 16 in [base64_digit (x div 64), base64_digit (x mod 64), CHR ''='', CHR ''=''])"
| "base64 [a, b] = (let x = (of_char a * 256 + of_char b) * 4
     in [base64_digit (x div 4096), base64_digit (x div 64 mod 64), base64_digit (x mod 64), CHR ''=''])"
| "base64 (a # b # c # rest) = (let x = of_char a * 65536 + of_char b * 256 + of_char c
     in [base64_digit (x div 262144), base64_digit (x div 4096 mod 64), base64_digit (x div 64 mod 64), base64_digit (x mod 64)] @ base64 rest)"

definition json_job :: "Spec \<Rightarrow> json" where
  "json_job s = JObj
     ([(''schema_version'', JStr (js_SchemaVersion s)), (''maintenance_job_id'', JStr (js_ID s)), (''tenant_id'', JStr (js_TenantID s)),
       (''job_kind'', JStr (js_Kind s)), (''idempotency_key_hash'', JStr (js_IdempotencyKeyHash s)),
       (''canonical_payload'', JStr (base64 (js_CanonicalPayload s))), (''created_at'', JTime (js_CreatedAt s))] @
      omit_str ''content_hash'' (js_ContentHash s))"

definition NewSpec :: "externals \<Rightarrow> string \<Rightarrow> string \<Rightarrow> string \<Rightarrow> string \<Rightarrow> time \<Rightarrow> maintenance_error + Spec" where
  "NewSpec ext tenantID kind idempotencyKeyHash canonicalPayload createdAt =
     (let v = \<lparr>js_SchemaVersion = ''maintenance-job.v1'', js_ID = [], js_TenantID = tenantID, js_Kind = kind,
            js_IdempotencyKeyHash = idempotencyKeyHash, js_CanonicalPayload = canonicalPayload, js_CreatedAt = createdAt,
            js_ContentHash = [], js_CanonicalJSON = []\<rparr>
      in if (case MarshalAndHashRaw ext canonicalPayload of Inl _ \<Rightarrow> True | Inr (normalized, _) \<Rightarrow> normalized \<noteq> canonicalPayload) \<or>
            tenantID = [] \<or> \<not> validKind kind \<or> \<not> hashPattern idempotencyKeyHash \<or> canonicalPayload = [] \<or>
            length canonicalPayload > 16777216 \<or> time_IsZero createdAt \<or> \<not> time_Equal createdAt (time_UTC createdAt)
         then Inl ErrInvalidJob
         else case MarshalAndHash ext (json_job v) of
           Inl e \<Rightarrow> Inl (ErrMaintenanceEncoding e)
         | Inr (encoded, hash) \<Rightarrow> Inr (v\<lparr>js_ID := ''mjob_'' @ hash, js_ContentHash := hash, js_CanonicalJSON := encoded\<rparr>))"

definition ValidateSpec :: "externals \<Rightarrow> Spec \<Rightarrow> bool" where
  "ValidateSpec ext s =
     (case NewSpec ext (js_TenantID s) (js_Kind s) (js_IdempotencyKeyHash s) (js_CanonicalPayload s) (js_CreatedAt s) of
        Inl _ \<Rightarrow> False
      | Inr rebuilt \<Rightarrow> js_ID rebuilt = js_ID s \<and> js_ContentHash rebuilt = js_ContentHash s \<and> js_CanonicalJSON rebuilt = js_CanonicalJSON s)"

section \<open>Requests and leases\<close>

record Lease =
  le_Spec :: Spec
  le_AttemptCount :: uint32
  le_FencingToken :: uint64
  le_LeaseOwner :: string
  le_LeaseExpiresAt :: time

record ClaimRequest =
  cl_WorkerID :: string
  cl_Kinds :: "string list"
  cl_Limit :: int
  cl_LeaseDuration :: duration

record FinishRequest =
  fi_TenantID :: string
  fi_JobID :: string
  fi_WorkerID :: string
  fi_FencingToken :: uint64

record FailRequest =
  fl_Finish :: FinishRequest
  fl_ErrorCode :: string
  fl_RetryAt :: time
  fl_DeadLetter :: bool

record QueueStats =
  qs_Kind :: string
  qs_Pending :: int
  qs_OldestPendingAge :: duration

section \<open>The repository in memory\<close>

record maintenanceRow =
  mr_spec :: Spec
  mr_state :: job_state
  mr_attempt :: uint32
  mr_fencing :: uint64
  mr_owner :: string
  mr_leaseExpires :: time
  mr_available :: time
  mr_errorCode :: string

record MaintenanceRepository =
  mq_jobs :: "(string \<times> maintenanceRow) list"
  mq_idempotency :: "(string \<times> string) list"

definition newMaintenanceRepository :: MaintenanceRepository where
  "newMaintenanceRepository = \<lparr>mq_jobs = [], mq_idempotency = []\<rparr>"

definition job_key :: "Spec \<Rightarrow> string" where
  "job_key s = js_TenantID s @ NUL @ js_Kind s @ NUL @ js_IdempotencyKeyHash s"

text \<open>The hash of the job with an identifier; a missing row reads as the zero value.\<close>

definition stored_hash :: "MaintenanceRepository \<Rightarrow> string \<Rightarrow> string" where
  "stored_hash r job = (case map_of (mq_jobs r) job of Some row \<Rightarrow> js_ContentHash (mr_spec row) | None \<Rightarrow> [])"

definition new_row :: "Spec \<Rightarrow> maintenanceRow" where
  "new_row spec = \<lparr>mr_spec = spec, mr_state = Pending, mr_attempt = 0, mr_fencing = 0, mr_owner = [], mr_leaseExpires = zero_time,
     mr_available = js_CreatedAt spec, mr_errorCode = []\<rparr>"

definition Enqueue :: "externals \<Rightarrow> Spec \<Rightarrow> MaintenanceRepository \<Rightarrow> (maintenance_error + unit) \<times> MaintenanceRepository" where
  "Enqueue ext spec r =
     (if \<not> ValidateSpec ext spec then (Inl ErrInvalidJob, r)
      else case map_of (mq_idempotency r) (job_key spec) of
        Some job \<Rightarrow> (if stored_hash r job \<noteq> js_ContentHash spec then Inl ErrJobConflict else Inr (), r)
      | None \<Rightarrow> (Inr (), r\<lparr>mq_jobs := AList.update (js_ID spec) (new_row spec) (mq_jobs r),
                    mq_idempotency := AList.update (job_key spec) (js_ID spec) (mq_idempotency r)\<rparr>))"

definition claimable :: "string list \<Rightarrow> time \<Rightarrow> maintenanceRow \<Rightarrow> bool" where
  "claimable kinds now row \<longleftrightarrow> js_Kind (mr_spec row) \<in> set kinds \<and>
     (mr_state row = Pending \<and> \<not> time_After (mr_available row) now \<or> mr_state row = Leased \<and> \<not> time_After (mr_leaseExpires row) now)"

text \<open>The order of the claimable jobs, on pairs of an identifier and its row.\<close>

definition claim_less :: "string \<times> maintenanceRow \<Rightarrow> string \<times> maintenanceRow \<Rightarrow> bool" where
  "claim_less left right =
     (if \<not> time_Equal (mr_available (snd left)) (mr_available (snd right))
      then time_Before (mr_available (snd left)) (mr_available (snd right)) else fst left < fst right)"

definition claimed_row :: "ClaimRequest \<Rightarrow> time \<Rightarrow> maintenanceRow \<Rightarrow> maintenanceRow" where
  "claimed_row request now row =
     row\<lparr>mr_state := Leased, mr_attempt := mr_attempt row + 1, mr_fencing := mr_fencing row + 1, mr_owner := cl_WorkerID request,
         mr_leaseExpires := time_Add now (cl_LeaseDuration request)\<rparr>"

definition lease_of :: "maintenanceRow \<Rightarrow> Lease" where
  "lease_of row = \<lparr>le_Spec = mr_spec row, le_AttemptCount = mr_attempt row, le_FencingToken = mr_fencing row, le_LeaseOwner = mr_owner row,
     le_LeaseExpiresAt = mr_leaseExpires row\<rparr>"

fun claim_rows ::
  "ClaimRequest \<Rightarrow> time \<Rightarrow> (string \<times> maintenanceRow) list \<Rightarrow> (string \<times> maintenanceRow) list \<Rightarrow> Lease list \<times> (string \<times> maintenanceRow) list" where
  "claim_rows request now [] jobs = ([], jobs)"
| "claim_rows request now ((job, row) # chosen) jobs =
     (let row = claimed_row request now row; rest = claim_rows request now chosen (AList.update job row jobs)
      in (lease_of row # fst rest, snd rest))"

definition chosen_rows :: "ClaimRequest \<Rightarrow> time \<Rightarrow> MaintenanceRepository \<Rightarrow> (string \<times> maintenanceRow) list" where
  "chosen_rows request now r =
     take (nat (cl_Limit request)) (sort_slice claim_less (filter (\<lambda>(_, row). claimable (cl_Kinds request) now row) (mq_jobs r)))"

definition Claim :: "time \<Rightarrow> ClaimRequest \<Rightarrow> MaintenanceRepository \<Rightarrow> (maintenance_error + Lease list) \<times> MaintenanceRepository" where
  "Claim clock request r =
     (if cl_WorkerID request = [] \<or> cl_Limit request < 1 \<or> cl_Limit request > 100 \<or> cl_LeaseDuration request < 1000000000 \<or>
         \<not> ValidateKinds (cl_Kinds request) then (Inl ErrInvalidJob, r)
      else let now = time_UTC clock; claimed = claim_rows request now (chosen_rows request now r) (mq_jobs r)
        in (Inr (fst claimed), r\<lparr>mq_jobs := snd claimed\<rparr>))"

definition validMaintenanceLease :: "maintenanceRow \<Rightarrow> FinishRequest \<Rightarrow> time \<Rightarrow> bool" where
  "validMaintenanceLease row request now \<longleftrightarrow>
     fi_WorkerID request \<noteq> [] \<and> fi_FencingToken request > 0 \<and> mr_state row = Leased \<and> mr_owner row = fi_WorkerID request \<and>
     mr_fencing row = fi_FencingToken request \<and> time_After (mr_leaseExpires row) now"

definition Complete :: "time \<Rightarrow> FinishRequest \<Rightarrow> MaintenanceRepository \<Rightarrow> (maintenance_error + unit) \<times> MaintenanceRepository" where
  "Complete clock request r =
     (case map_of (mq_jobs r) (fi_JobID request) of
        None \<Rightarrow> (Inl ErrJobNotFound, r)
      | Some row \<Rightarrow>
          if js_TenantID (mr_spec row) \<noteq> fi_TenantID request then (Inl ErrJobNotFound, r)
          else if \<not> validMaintenanceLease row request (time_UTC clock) then (Inl ErrStaleMaintenanceLease, r)
          else (Inr (), r\<lparr>mq_jobs := AList.update (fi_JobID request)
                 (row\<lparr>mr_state := Completed, mr_owner := [], mr_leaseExpires := zero_time\<rparr>) (mq_jobs r)\<rparr>))"

definition Fail :: "time \<Rightarrow> FailRequest \<Rightarrow> MaintenanceRepository \<Rightarrow> (maintenance_error + unit) \<times> MaintenanceRepository" where
  "Fail clock request r =
     (if fl_ErrorCode request = [] \<or> time_IsZero (fl_RetryAt request) \<or> \<not> time_Equal (fl_RetryAt request) (time_UTC (fl_RetryAt request))
      then (Inl ErrInvalidJob, r)
      else case map_of (mq_jobs r) (fi_JobID (fl_Finish request)) of
        None \<Rightarrow> (Inl ErrJobNotFound, r)
      | Some row \<Rightarrow>
          if js_TenantID (mr_spec row) \<noteq> fi_TenantID (fl_Finish request) then (Inl ErrJobNotFound, r)
          else if \<not> validMaintenanceLease row (fl_Finish request) (time_UTC clock) then (Inl ErrStaleMaintenanceLease, r)
          else let row = (if fl_DeadLetter request then row\<lparr>mr_state := DeadLetter\<rparr>
                          else row\<lparr>mr_state := Pending, mr_available := fl_RetryAt request\<rparr>)
            in (Inr (), r\<lparr>mq_jobs := AList.update (fi_JobID (fl_Finish request))
                 (row\<lparr>mr_owner := [], mr_leaseExpires := zero_time, mr_errorCode := fl_ErrorCode request\<rparr>) (mq_jobs r)\<rparr>))"

text \<open>\<^verbatim>\<open>now.Sub\<close> saturates at the bounds of a duration.\<close>

definition time_Sub :: "time \<Rightarrow> time \<Rightarrow> duration" where
  "time_Sub t u = max (sint MinInt64) (min (sint MaxInt64) (t_ns t - t_ns u))"

definition waiting :: "time \<Rightarrow> maintenanceRow \<Rightarrow> bool" where
  "waiting now row \<longleftrightarrow> \<not> (mr_state row \<noteq> Pending \<and> (mr_state row \<noteq> Leased \<or> time_After (mr_leaseExpires row) now))"

definition kind_stats :: "time \<Rightarrow> maintenanceRow list \<Rightarrow> string \<Rightarrow> QueueStats" where
  "kind_stats now rows kind =
     (let ours = filter (\<lambda>row. js_Kind (mr_spec row) = kind) rows
      in \<lparr>qs_Kind = kind, qs_Pending = int (length ours),
          qs_OldestPendingAge = foldl (\<lambda>oldest row. let age = time_Sub now (mr_available row); age = (if age < 0 then 0 else age)
             in if age > oldest then age else oldest) 0 ours\<rparr>)"

definition Stats :: "time \<Rightarrow> MaintenanceRepository \<Rightarrow> QueueStats list" where
  "Stats clock r =
     (let now = time_UTC clock; rows = filter (waiting now) (map snd (mq_jobs r))
      in map (kind_stats now rows) (sorted_keys (map (js_Kind \<circ> mr_spec) rows)))"

section \<open>The runner\<close>

text \<open>The interface \<^verbatim>\<open>Repository\<close>, with the clock of the repository as an argument.\<close>

record 'r Repository =
  ri_Claim :: "time \<Rightarrow> ClaimRequest \<Rightarrow> 'r \<Rightarrow> (maintenance_error + Lease list) \<times> 'r"
  ri_Complete :: "time \<Rightarrow> FinishRequest \<Rightarrow> 'r \<Rightarrow> (maintenance_error + unit) \<times> 'r"
  ri_Fail :: "time \<Rightarrow> FailRequest \<Rightarrow> 'r \<Rightarrow> (maintenance_error + unit) \<times> 'r"

record RunnerConfig =
  rc_WorkerID :: string
  rc_BatchSize :: int
  rc_LeaseDuration :: duration
  rc_PollInterval :: duration
  rc_MaximumBackoff :: duration
  rc_MaximumAttempts :: uint32

definition valid_runner :: "string list \<Rightarrow> RunnerConfig \<Rightarrow> bool" where
  "valid_runner handlerKinds config \<longleftrightarrow>
     rc_WorkerID config \<noteq> [] \<and> rc_BatchSize config \<ge> 1 \<and> rc_BatchSize config \<le> 100 \<and> rc_LeaseDuration config \<ge> 1000000000 \<and>
     rc_PollInterval config > 0 \<and> rc_MaximumBackoff config \<ge> 1000000000 \<and> rc_MaximumAttempts config \<noteq> 0 \<and>
     list_all validKind handlerKinds \<and> handlerKinds \<noteq> []"

text \<open>
  \<^verbatim>\<open>min(time.Second<<min(lease.AttemptCount-1, 20), r.config.MaximumBackoff)\<close>; the subtraction is the
  one of 32 bit words, the shift the one of 64 bit integers.
\<close>

definition backoff :: "RunnerConfig \<Rightarrow> uint32 \<Rightarrow> duration" where
  "backoff config attempt =
     min (sint (push_bit (unat (min (attempt - 1) 20)) 1000000000 :: int64)) (rc_MaximumBackoff config)"

text \<open>
  One lease: \<open>handle\<close> says whether the handler succeeds, \<open>clock\<close> is the instant the runner reads,
  \<open>storeClock\<close> the one the repository reads.
\<close>

definition processLease ::
  "'r Repository \<Rightarrow> RunnerConfig \<Rightarrow> (Lease \<Rightarrow> bool) \<Rightarrow> time \<Rightarrow> time \<Rightarrow> Lease \<Rightarrow> 'r \<Rightarrow> (maintenance_error + bool) \<times> 'r" where
  "processLease repository config handle clock storeClock lease r =
     (let finish = \<lparr>fi_TenantID = js_TenantID (le_Spec lease), fi_JobID = js_ID (le_Spec lease), fi_WorkerID = le_LeaseOwner lease,
            fi_FencingToken = le_FencingToken lease\<rparr>
      in if handle lease
         then (case ri_Complete repository storeClock finish r of (Inr _, r) \<Rightarrow> (Inr True, r) | (Inl e, r) \<Rightarrow> (Inl e, r))
         else let dead = le_AttemptCount lease \<ge> rc_MaximumAttempts config;
                  delay = (if \<not> dead then backoff config (le_AttemptCount lease) else 0)
           in case ri_Fail repository storeClock \<lparr>fl_Finish = finish, fl_ErrorCode = ''handler_failed'',
                     fl_RetryAt = time_Add (time_UTC clock) delay, fl_DeadLetter = dead\<rparr> r of
                (Inr _, r) \<Rightarrow> (Inr False, r) | (Inl e, r) \<Rightarrow> (Inl e, r))"

text \<open>
  The goroutines of a batch, in the order in which they reach the repository; \<open>order\<close> below chooses
  one. The result is the number of completed jobs and the errors, \<open>clocks\<close> gives the two instants
  of each lease. The gauges that \<^verbatim>\<open>RunOnce\<close> publishes first do not affect the queue.
\<close>

fun process_leases ::
  "'r Repository \<Rightarrow> RunnerConfig \<Rightarrow> (Lease \<Rightarrow> bool) \<Rightarrow> (Lease \<Rightarrow> time \<times> time) \<Rightarrow> Lease list \<Rightarrow> 'r \<Rightarrow> (nat \<times> maintenance_error list) \<times> 'r" where
  "process_leases repository config handle clocks [] r = ((0, []), r)"
| "process_leases repository config handle clocks (lease # leases) r =
     (case processLease repository config handle (fst (clocks lease)) (snd (clocks lease)) lease r of
        (Inl e, r) \<Rightarrow> (case process_leases repository config handle clocks leases r of ((n, es), r) \<Rightarrow> ((n, e # es), r))
      | (Inr completed, r) \<Rightarrow> (case process_leases repository config handle clocks leases r of
            ((n, es), r) \<Rightarrow> ((if completed then n + 1 else n, es), r)))"

definition RunOnce ::
  "'r Repository \<Rightarrow> RunnerConfig \<Rightarrow> string list \<Rightarrow> (Lease \<Rightarrow> bool) \<Rightarrow> time \<Rightarrow> (Lease \<Rightarrow> time \<times> time) \<Rightarrow> (Lease list \<Rightarrow> Lease list) \<Rightarrow> 'r \<Rightarrow>
   (nat \<times> maintenance_error list) \<times> 'r" where
  "RunOnce repository config handlerKinds handle claimClock clocks order r =
     (case ri_Claim repository claimClock \<lparr>cl_WorkerID = rc_WorkerID config, cl_Kinds = sorted_keys handlerKinds,
            cl_Limit = rc_BatchSize config, cl_LeaseDuration = rc_LeaseDuration config\<rparr> r of
        (Inl e, r) \<Rightarrow> ((0, [e]), r)
      | (Inr leases, r) \<Rightarrow> process_leases repository config handle clocks (order leases) r)"

definition memory_repository :: "MaintenanceRepository Repository" where
  "memory_repository = \<lparr>ri_Claim = Claim, ri_Complete = Complete, ri_Fail = Fail\<rparr>"

end
