(* ===== verification/Maintenance_Queue.thy ===== *)
theory Maintenance_Queue
  imports Maintenance
begin

text \<open>
  The repository of maintenance jobs under arbitrary sequences of calls. A history records the
  calls and their replies. Each job goes through its own state machine, the relation
  \<open>job_step\<close>; the repository is the product of these machines, and what holds of one job's
  history is proved by rule induction over it.
\<close>

section \<open>Histories\<close>

datatype queue_op = OpEnqueue Spec | OpClaim ClaimRequest | OpComplete FinishRequest | OpFail FailRequest

datatype queue_reply = RErr maintenance_error | RUnit | RLeases "Lease list"

type_synonym queue_event = "time \<times> queue_op \<times> queue_reply"

fun unit_reply :: "maintenance_error + unit \<Rightarrow> queue_reply" where
  "unit_reply (Inl e) = RErr e"
| "unit_reply (Inr _) = RUnit"

fun lease_reply :: "maintenance_error + Lease list \<Rightarrow> queue_reply" where
  "lease_reply (Inl e) = RErr e"
| "lease_reply (Inr ls) = RLeases ls"

fun perform :: "externals \<Rightarrow> time \<Rightarrow> queue_op \<Rightarrow> MaintenanceRepository \<Rightarrow> queue_reply \<times> MaintenanceRepository" where
  "perform ext clock (OpEnqueue spec) r = (unit_reply (fst (Enqueue ext spec r)), snd (Enqueue ext spec r))"
| "perform ext clock (OpClaim request) r = (lease_reply (fst (Claim clock request r)), snd (Claim clock request r))"
| "perform ext clock (OpComplete request) r = (unit_reply (fst (Complete clock request r)), snd (Complete clock request r))"
| "perform ext clock (OpFail request) r = (unit_reply (fst (Fail clock request r)), snd (Fail clock request r))"

inductive history :: "externals \<Rightarrow> queue_event list \<Rightarrow> MaintenanceRepository \<Rightarrow> bool" for ext where
  start: "history ext [] newMaintenanceRepository"
| call: "history ext h r \<Longrightarrow> perform ext clock op r = (reply, r') \<Longrightarrow> history ext (h @ [(clock, op, reply)]) r'"

definition lease_job :: "Lease \<Rightarrow> string" where "lease_job l = js_ID (le_Spec l)"

text \<open>The event hands out the job, or ends a lease of it.\<close>

fun touches :: "string \<Rightarrow> queue_event \<Rightarrow> bool" where
  "touches job (_, OpClaim _, RLeases ls) \<longleftrightarrow> job \<in> lease_job ` set ls"
| "touches job (_, OpComplete request, RUnit) \<longleftrightarrow> fi_JobID request = job"
| "touches job (_, OpFail request, RUnit) \<longleftrightarrow> fi_JobID (fl_Finish request) = job"
| "touches job _ \<longleftrightarrow> False"

text \<open>The event ends the job: it completes it or puts it among the dead letters.\<close>

fun finishes :: "string \<Rightarrow> queue_event \<Rightarrow> bool" where
  "finishes job (_, OpComplete request, RUnit) \<longleftrightarrow> fi_JobID request = job"
| "finishes job (_, OpFail request, RUnit) \<longleftrightarrow> fi_JobID (fl_Finish request) = job \<and> fl_DeadLetter request"
| "finishes job _ \<longleftrightarrow> False"

definition enqueued :: "queue_event list \<Rightarrow> Spec set" where
  "enqueued h = {s. \<exists>clock reply. (clock, OpEnqueue s, reply) \<in> set h}"

text \<open>No two jobs of the history have one identifier, that is, their hashes do not collide.\<close>

definition no_collision :: "queue_event list \<Rightarrow> bool" where
  "no_collision h \<longleftrightarrow> (\<forall>s \<in> enqueued h. \<forall>s' \<in> enqueued h. js_ID s = js_ID s' \<longrightarrow> job_key s = job_key s')"

definition leases_for :: "string \<Rightarrow> queue_event list \<Rightarrow> Lease set" where
  "leases_for job h = {l. lease_job l = job \<and> (\<exists>clock request ls. (clock, OpClaim request, RLeases ls) \<in> set h \<and> l \<in> set ls)}"

section \<open>The life of one job\<close>

definition failed_row :: "FailRequest \<Rightarrow> maintenanceRow \<Rightarrow> maintenanceRow" where
  "failed_row request row =
     (if fl_DeadLetter request then row\<lparr>mr_state := DeadLetter\<rparr> else row\<lparr>mr_state := Pending, mr_available := fl_RetryAt request\<rparr>)
       \<lparr>mr_owner := [], mr_leaseExpires := zero_time, mr_errorCode := fl_ErrorCode request\<rparr>"

definition completed_row :: "maintenanceRow \<Rightarrow> maintenanceRow" where
  "completed_row row = row\<lparr>mr_state := Completed, mr_owner := [], mr_leaseExpires := zero_time\<rparr>"

inductive job_step :: "string \<Rightarrow> queue_event \<Rightarrow> maintenanceRow option \<Rightarrow> maintenanceRow option \<Rightarrow> bool" for job where
  idle: "\<not> touches job ev \<Longrightarrow> job_step job ev x x"
| admit: "js_ID s = job \<Longrightarrow> job_step job (clock, OpEnqueue s, RUnit) None (Some (new_row s))"
| claim: "claimable (cl_Kinds request) (time_UTC clock) row \<Longrightarrow> {l \<in> set ls. lease_job l = job} = {lease_of (claimed_row request (time_UTC clock) row)} \<Longrightarrow>
    job_step job (clock, OpClaim request, RLeases ls) (Some row) (Some (claimed_row request (time_UTC clock) row))"
| complete: "fi_JobID request = job \<Longrightarrow> validMaintenanceLease row request (time_UTC clock) \<Longrightarrow>
    job_step job (clock, OpComplete request, RUnit) (Some row) (Some (completed_row row))"
| fail: "fi_JobID (fl_Finish request) = job \<Longrightarrow> validMaintenanceLease row (fl_Finish request) (time_UTC clock) \<Longrightarrow>
    job_step job (clock, OpFail request, RUnit) (Some row) (Some (failed_row request row))"

inductive job_history :: "string \<Rightarrow> queue_event list \<Rightarrow> maintenanceRow option \<Rightarrow> bool" for job where
  unborn: "job_history job [] None"
| event: "job_history job h x \<Longrightarrow> job_step job ev x y \<Longrightarrow> job_history job (h @ [ev]) y"

inductive_cases job_stepE: "job_step job ev x y"

section \<open>The rows behind a call\<close>

lemma claim_rows_leases: "fst (claim_rows request now chosen jobs) = map (\<lambda>(_, row). lease_of (claimed_row request now row)) chosen"
  by (induction chosen arbitrary: jobs) (auto simp: Let_def)

lemma claim_rows_jobs:
  "distinct (map fst chosen) \<Longrightarrow>
   map_of (snd (claim_rows request now chosen jobs)) job =
     (case map_of chosen job of Some row \<Rightarrow> Some (claimed_row request now row) | None \<Rightarrow> map_of jobs job)"
proof (induction chosen arbitrary: jobs)
  case (Cons c chosen)
  obtain j row where c: "c = (j, row)" by (cases c)
  have "map_of chosen j = None" using Cons.prems by (simp add: c map_of_eq_None_iff)
  then show ?case using Cons by (auto simp: c update_conv' Let_def split: option.split)
qed simp

lemma claim_rows_keys: "distinct (map fst jobs) \<Longrightarrow> distinct (map fst (snd (claim_rows request now chosen jobs)))"
  by (induction chosen arbitrary: jobs) (auto simp: Let_def distinct_update split: prod.splits)

lemma chosen_rows_sub: "set (chosen_rows request now r) \<subseteq> {x \<in> set (mq_jobs r). claimable (cl_Kinds request) now (snd x)}"
  unfolding chosen_rows_def by (auto dest!: in_set_takeD)

lemma chosen_rows_distinct: "distinct (map fst (mq_jobs r)) \<Longrightarrow> distinct (map fst (chosen_rows request now r))"
  unfolding chosen_rows_def by (simp add: take_map [symmetric] distinct_map_filter)

text \<open>The table of jobs: one row per identifier, each under the key of its description.\<close>

definition queue_inv :: "queue_event list \<Rightarrow> MaintenanceRepository \<Rightarrow> bool" where
  "queue_inv h r \<longleftrightarrow> distinct (map fst (mq_jobs r)) \<and>
     (\<forall>job row. map_of (mq_jobs r) job = Some row \<longrightarrow> js_ID (mr_spec row) = job \<and> mr_spec row \<in> enqueued h \<and>
        map_of (mq_idempotency r) (job_key (mr_spec row)) = Some job)"

lemma enqueued_snoc: "enqueued (h @ [(clock, op, reply)]) = (case op of OpEnqueue s \<Rightarrow> insert s (enqueued h) | _ \<Rightarrow> enqueued h)"
  by (auto simp: enqueued_def split: queue_op.split)

lemma queue_inv_same_spec:
  assumes "queue_inv h r" "enqueued h \<subseteq> enqueued h'" "mq_idempotency r' = mq_idempotency r" "distinct (map fst (mq_jobs r'))"
    and "\<And>job row. map_of (mq_jobs r') job = Some row \<Longrightarrow> \<exists>row0. map_of (mq_jobs r) job = Some row0 \<and> mr_spec row = mr_spec row0"
  shows "queue_inv h' r'"
  using assms unfolding queue_inv_def by (metis subsetD)

lemma enqueue_step:
  assumes "queue_inv h r" "Enqueue ext spec r = (res, r')" "no_collision (h @ [(clock, OpEnqueue spec, unit_reply res)])"
  shows "queue_inv (h @ [(clock, OpEnqueue spec, unit_reply res)]) r'"
    "job_step job (clock, OpEnqueue spec, unit_reply res) (map_of (mq_jobs r) job) (map_of (mq_jobs r') job)"
proof -
  let ?h = "h @ [(clock, OpEnqueue spec, unit_reply res)]"
  have sub: "enqueued h \<subseteq> enqueued ?h" "spec \<in> enqueued ?h" by (auto simp: enqueued_snoc)
  have "queue_inv ?h r' \<and> job_step job (clock, OpEnqueue spec, unit_reply res) (map_of (mq_jobs r) job) (map_of (mq_jobs r') job)"
  proof (cases "ValidateSpec ext spec \<and> map_of (mq_idempotency r) (job_key spec) = None")
    case False
    then have "r' = r" using assms(2) by (auto simp: Enqueue_def split: if_splits option.splits)
    moreover have "queue_inv ?h r" by (rule queue_inv_same_spec [OF assms(1) sub(1)]) (use assms(1) in \<open>auto simp: queue_inv_def\<close>)
    ultimately show ?thesis by (auto intro: idle)
  next
    case True
    then have r': "res = Inr ()" "r' = r\<lparr>mq_jobs := AList.update (js_ID spec) (new_row spec) (mq_jobs r),
        mq_idempotency := AList.update (job_key spec) (js_ID spec) (mq_idempotency r)\<rparr>"
      using assms(2) by (auto simp: Enqueue_def)
    have fresh: "map_of (mq_jobs r) (js_ID spec) = None"
    proof (rule ccontr)
      assume "map_of (mq_jobs r) (js_ID spec) \<noteq> None"
      then obtain row where row: "map_of (mq_jobs r) (js_ID spec) = Some row" by auto
      then have "js_ID (mr_spec row) = js_ID spec" "mr_spec row \<in> enqueued ?h" "map_of (mq_idempotency r) (job_key (mr_spec row)) = Some (js_ID spec)"
        using assms(1) sub(1) unfolding queue_inv_def by blast+
      moreover from this have "job_key (mr_spec row) = job_key spec" using assms(3) sub(2) unfolding no_collision_def by blast
      ultimately show False using True by simp
    qed
    have "queue_inv ?h r'"
      unfolding queue_inv_def
    proof (intro conjI allI impI)
      show "distinct (map fst (mq_jobs r'))" using assms(1) by (simp add: r'(2) queue_inv_def distinct_update)
      fix j row assume j: "map_of (mq_jobs r') j = Some row"
      have "js_ID (mr_spec row) = j \<and> mr_spec row \<in> enqueued ?h \<and> map_of (mq_idempotency r') (job_key (mr_spec row)) = Some j"
      proof (cases "j = js_ID spec")
        case True
        then have "row = new_row spec" using j by (simp add: r'(2) update_conv')
        then show ?thesis using True sub(2) by (simp add: r'(2) update_conv' new_row_def)
      next
        case other: False
        then have "map_of (mq_jobs r) j = Some row" using j by (simp add: r'(2) update_conv')
        then have o: "js_ID (mr_spec row) = j" "mr_spec row \<in> enqueued ?h" "map_of (mq_idempotency r) (job_key (mr_spec row)) = Some j"
          using assms(1) sub(1) unfolding queue_inv_def by blast+
        then have "job_key (mr_spec row) \<noteq> job_key spec" using True by auto
        then show ?thesis using o by (simp add: r'(2) update_conv')
      qed
      then show "js_ID (mr_spec row) = j" "mr_spec row \<in> enqueued ?h" "map_of (mq_idempotency r') (job_key (mr_spec row)) = Some j" by blast+
    qed
    moreover have "job_step job (clock, OpEnqueue spec, RUnit) (map_of (mq_jobs r) job) (map_of (mq_jobs r') job)"
      using fresh by (cases "job = js_ID spec") (auto simp: r'(2) update_conv' intro: idle admit)
    ultimately show ?thesis by (simp add: r'(1))
  qed
  then show "queue_inv ?h r'" "job_step job (clock, OpEnqueue spec, unit_reply res) (map_of (mq_jobs r) job) (map_of (mq_jobs r') job)" by simp_all
qed

lemma Claim_Inr:
  assumes "Claim clock request r = (Inr ls, r')"
  shows "ls = map (\<lambda>(_, row). lease_of (claimed_row request (time_UTC clock) row)) (chosen_rows request (time_UTC clock) r)"
    "mq_jobs r' = snd (claim_rows request (time_UTC clock) (chosen_rows request (time_UTC clock) r) (mq_jobs r))"
    "mq_idempotency r' = mq_idempotency r"
  using assms by (auto simp: Claim_def claim_rows_leases Let_def split: if_splits)

lemma claim_step:
  assumes "queue_inv h r" "Claim clock request r = (res, r')"
  shows "queue_inv (h @ [(clock, OpClaim request, lease_reply res)]) r'"
    "job_step job (clock, OpClaim request, lease_reply res) (map_of (mq_jobs r) job) (map_of (mq_jobs r') job)"
proof -
  let ?h = "h @ [(clock, OpClaim request, lease_reply res)]" and ?now = "time_UTC clock" and ?chosen = "chosen_rows request (time_UTC clock) r"
  have sub: "enqueued h \<subseteq> enqueued ?h" by (simp add: enqueued_snoc)
  have d: "distinct (map fst (mq_jobs r))" using assms(1) by (simp add: queue_inv_def)
  have "queue_inv ?h r' \<and> job_step job (clock, OpClaim request, lease_reply res) (map_of (mq_jobs r) job) (map_of (mq_jobs r') job)"
  proof (cases res)
    case (Inl e)
    then have "r' = r" using assms(2) by (auto simp: Claim_def Let_def split: if_splits)
    moreover have "queue_inv ?h r" by (rule queue_inv_same_spec [OF assms(1) sub]) (use d in auto)
    ultimately show ?thesis by (auto simp: Inl intro: idle)
  next
    case (Inr ls)
    note c = Claim_Inr [OF assms(2) [unfolded Inr]]
    note dc = chosen_rows_distinct [OF d, of request ?now]
    have at: "map_of (mq_jobs r') j = (case map_of ?chosen j of Some row \<Rightarrow> Some (claimed_row request ?now row) | None \<Rightarrow> map_of (mq_jobs r) j)" for j
      unfolding c(2) by (rule claim_rows_jobs [OF dc])
    have old: "map_of (mq_jobs r) j = Some row \<and> claimable (cl_Kinds request) ?now row" if "map_of ?chosen j = Some row" for j row
      using that chosen_rows_sub [of request ?now r] d by (fastforce dest: map_of_SomeD)
    have id: "lease_job (lease_of (claimed_row request ?now row)) = j" if "map_of ?chosen j = Some row" for j row
      using old [OF that] assms(1) by (simp add: lease_job_def lease_of_def claimed_row_def queue_inv_def)
    have mem: "l \<in> set ls \<longleftrightarrow> (\<exists>j row. map_of ?chosen j = Some row \<and> l = lease_of (claimed_row request ?now row))" for l
      using dc by (fastforce simp: c(1))
    have "queue_inv ?h r'"
    proof (rule queue_inv_same_spec [OF assms(1) sub c(3)])
      show "distinct (map fst (mq_jobs r'))" unfolding c(2) by (rule claim_rows_keys [OF d])
    next
      fix j row assume "map_of (mq_jobs r') j = Some row"
      then show "\<exists>row0. map_of (mq_jobs r) j = Some row0 \<and> mr_spec row = mr_spec row0"
        using at [of j] old [of j] by (auto simp: claimed_row_def split: option.splits)
    qed
    moreover have "job_step job (clock, OpClaim request, RLeases ls) (map_of (mq_jobs r) job) (map_of (mq_jobs r') job)"
    proof (cases "map_of ?chosen job")
      case None
      then have "\<not> touches job (clock, OpClaim request, RLeases ls)" using mem id by fastforce
      then show ?thesis using at [of job] None by (auto intro: idle)
    next
      case (Some row)
      have "{l \<in> set ls. lease_job l = job} = {lease_of (claimed_row request ?now row)}" using mem id Some by fastforce
      then show ?thesis using at [of job] old [OF Some] Some by (auto intro: claim)
    qed
    ultimately show ?thesis by (simp add: Inr)
  qed
  then show "queue_inv ?h r'" "job_step job (clock, OpClaim request, lease_reply res) (map_of (mq_jobs r) job) (map_of (mq_jobs r') job)" by simp_all
qed

text \<open>Both ways of ending a lease replace one row, or fail and change nothing.\<close>

lemma finish_step:
  fixes h' :: "queue_event list"
  assumes "queue_inv h r" "enqueued h' = enqueued h"
    and "r' = r \<and> \<not> touches job ev \<or>
      (\<exists>row new. map_of (mq_jobs r) target = Some row \<and> mr_spec new = mr_spec row \<and>
         r' = r\<lparr>mq_jobs := AList.update target new (mq_jobs r)\<rparr> \<and> (touches job ev \<longrightarrow> job = target) \<and>
         (job = target \<longrightarrow> job_step job ev (Some row) (Some new)))"
  shows "queue_inv h' r'" "job_step job ev (map_of (mq_jobs r) job) (map_of (mq_jobs r') job)"
proof -
  have "queue_inv h' r' \<and> job_step job ev (map_of (mq_jobs r) job) (map_of (mq_jobs r') job)" using assms(3)
  proof (elim disjE exE conjE)
    assume "r' = r" "\<not> touches job ev"
    moreover have "queue_inv h' r" using assms(1) unfolding queue_inv_def assms(2) .
    ultimately show ?thesis by (simp add: idle)
  next
    fix row new assume n: "map_of (mq_jobs r) target = Some row" "mr_spec new = mr_spec row"
      "r' = r\<lparr>mq_jobs := AList.update target new (mq_jobs r)\<rparr>" "touches job ev \<longrightarrow> job = target"
      "job = target \<longrightarrow> job_step job ev (Some row) (Some new)"
    have "queue_inv h' r'"
    proof (rule queue_inv_same_spec [OF assms(1)])
      show "enqueued h \<subseteq> enqueued h'" using assms(2) by simp
      show "mq_idempotency r' = mq_idempotency r" "distinct (map fst (mq_jobs r'))"
        using assms(1) by (simp_all add: n(3) queue_inv_def distinct_update)
      show "\<exists>row0. map_of (mq_jobs r) j = Some row0 \<and> mr_spec x = mr_spec row0" if "map_of (mq_jobs r') j = Some x" for j x
        using that n(1,2) by (cases "j = target") (auto simp: n(3) update_conv')
    qed
    moreover have "job_step job ev (map_of (mq_jobs r) job) (map_of (mq_jobs r') job)"
      using n by (cases "job = target") (auto simp: update_conv' intro: idle)
    ultimately show ?thesis by simp
  qed
  then show "queue_inv h' r'" "job_step job ev (map_of (mq_jobs r) job) (map_of (mq_jobs r') job)" by simp_all
qed

lemma Complete_cases:
  assumes "Complete clock request r = (res, r')"
  shows "(\<exists>e. res = Inl e) \<and> r' = r \<or>
    (\<exists>row. res = Inr () \<and> map_of (mq_jobs r) (fi_JobID request) = Some row \<and> validMaintenanceLease row request (time_UTC clock) \<and>
       r' = r\<lparr>mq_jobs := AList.update (fi_JobID request) (completed_row row) (mq_jobs r)\<rparr>)"
  using assms by (auto simp: Complete_def completed_row_def split: option.splits if_splits)

lemma Fail_cases:
  assumes "Fail clock request r = (res, r')"
  shows "(\<exists>e. res = Inl e) \<and> r' = r \<or>
    (\<exists>row. res = Inr () \<and> map_of (mq_jobs r) (fi_JobID (fl_Finish request)) = Some row \<and>
       validMaintenanceLease row (fl_Finish request) (time_UTC clock) \<and>
       r' = r\<lparr>mq_jobs := AList.update (fi_JobID (fl_Finish request)) (failed_row request row) (mq_jobs r)\<rparr>)"
proof (cases "map_of (mq_jobs r) (fi_JobID (fl_Finish request))")
  case None
  then show ?thesis using assms by (auto simp: Fail_def split: if_splits)
next
  case (Some row)
  then show ?thesis using assms unfolding Fail_def failed_row_def Let_def by (auto split: if_splits)
qed

lemma perform_step:
  assumes "queue_inv h r" "perform ext clock op r = (reply, r')" "no_collision (h @ [(clock, op, reply)])"
  shows "queue_inv (h @ [(clock, op, reply)]) r' \<and>
    job_step job (clock, op, reply) (map_of (mq_jobs r) job) (map_of (mq_jobs r') job)"
proof (cases op)
  case (OpEnqueue spec)
  then obtain res where "Enqueue ext spec r = (res, r')" "reply = unit_reply res" using assms(2) by (cases "Enqueue ext spec r") auto
  then show ?thesis using enqueue_step [OF assms(1)] assms(3) OpEnqueue by blast
next
  case (OpClaim request)
  then obtain res where "Claim clock request r = (res, r')" "reply = lease_reply res" using assms(2) by (cases "Claim clock request r") auto
  then show ?thesis using claim_step [OF assms(1)] OpClaim by blast
next
  case (OpComplete request)
  then obtain res where res: "Complete clock request r = (res, r')" "reply = unit_reply res" using assms(2) by (cases "Complete clock request r") auto
  have same: "enqueued (h @ [(clock, op, reply)]) = enqueued h" by (simp add: enqueued_snoc OpComplete)
  have effect: "r' = r \<and> \<not> touches job (clock, op, reply) \<or> (\<exists>row new. map_of (mq_jobs r) (fi_JobID request) = Some row \<and> mr_spec new = mr_spec row \<and>
       r' = r\<lparr>mq_jobs := AList.update (fi_JobID request) new (mq_jobs r)\<rparr> \<and> (touches job (clock, op, reply) \<longrightarrow> job = fi_JobID request) \<and>
       (job = fi_JobID request \<longrightarrow> job_step job (clock, op, reply) (Some row) (Some new)))"
    using Complete_cases [OF res(1)]
  proof (elim disjE exE conjE)
    fix row assume "res = Inr ()" "map_of (mq_jobs r) (fi_JobID request) = Some row" "validMaintenanceLease row request (time_UTC clock)"
      "r' = r\<lparr>mq_jobs := AList.update (fi_JobID request) (completed_row row) (mq_jobs r)\<rparr>"
    then show ?thesis
      by (intro disjI2 exI [of _ row] exI [of _ "completed_row row"]) (auto simp: res(2) OpComplete completed_row_def intro: complete [unfolded completed_row_def])
  qed (auto simp: res(2) OpComplete)
  show ?thesis using finish_step [OF assms(1) same effect] by (rule conjI)
next
  case (OpFail request)
  then obtain res where res: "Fail clock request r = (res, r')" "reply = unit_reply res" using assms(2) by (cases "Fail clock request r") auto
  have same: "enqueued (h @ [(clock, op, reply)]) = enqueued h" by (simp add: enqueued_snoc OpFail)
  have effect: "r' = r \<and> \<not> touches job (clock, op, reply) \<or> (\<exists>row new. map_of (mq_jobs r) (fi_JobID (fl_Finish request)) = Some row \<and> mr_spec new = mr_spec row \<and>
       r' = r\<lparr>mq_jobs := AList.update (fi_JobID (fl_Finish request)) new (mq_jobs r)\<rparr> \<and> (touches job (clock, op, reply) \<longrightarrow> job = fi_JobID (fl_Finish request)) \<and>
       (job = fi_JobID (fl_Finish request) \<longrightarrow> job_step job (clock, op, reply) (Some row) (Some new)))"
    using Fail_cases [OF res(1)]
  proof (elim disjE exE conjE)
    fix row assume f: "res = Inr ()" "map_of (mq_jobs r) (fi_JobID (fl_Finish request)) = Some row"
      "validMaintenanceLease row (fl_Finish request) (time_UTC clock)"
      "r' = r\<lparr>mq_jobs := AList.update (fi_JobID (fl_Finish request)) (failed_row request row) (mq_jobs r)\<rparr>"
    have "mr_spec (failed_row request row) = mr_spec row" by (simp add: failed_row_def)
    then show ?thesis using f
      by (intro disjI2 exI [of _ row] exI [of _ "failed_row request row"]) (auto simp: res(2) OpFail intro: fail)
  qed (auto simp: res(2) OpFail)
  show ?thesis using finish_step [OF assms(1) same effect] by (rule conjI)
qed

text \<open>The repository is the product of the jobs' state machines.\<close>

lemma history_jobs:
  assumes "history ext h r" "no_collision h"
  shows "queue_inv h r" "job_history job h (map_of (mq_jobs r) job)"
proof -
  have "no_collision h \<Longrightarrow> queue_inv h r \<and> (\<forall>job. job_history job h (map_of (mq_jobs r) job))" using assms(1)
  proof (induction rule: history.induct)
    case start
    show ?case by (simp add: queue_inv_def newMaintenanceRepository_def unborn)
  next
    case (call h r clock op reply r')
    have "enqueued h \<subseteq> enqueued (h @ [(clock, op, reply)])" by (auto simp: enqueued_def)
    then have "no_collision h" using call.prems unfolding no_collision_def by blast
    then show ?case using call.IH perform_step [OF _ call.hyps(2) call.prems] by (blast intro: event)
  qed
  then show "queue_inv h r" "job_history job h (map_of (mq_jobs r) job)" using assms(2) by blast+
qed

section \<open>Tokens and finished jobs\<close>

lemma leases_for_snoc: "leases_for job (h @ [ev]) = leases_for job h \<union> leases_for job [ev]"
  by (auto simp: leases_for_def)

lemma leases_for_idle: "\<not> touches job ev \<Longrightarrow> leases_for job [ev] = {}"
  by (induction job ev rule: touches.induct) (auto simp: leases_for_def)

lemma leases_for_claim: "leases_for job [(clock, OpClaim request, RLeases ls)] = {l \<in> set ls. lease_job l = job}"
  by (auto simp: leases_for_def)

lemma unat_next64: "unat (w :: uint64) < 18446744073709551615 \<Longrightarrow> unat (w + 1) = unat w + 1"
  by (simp add: unat_word_ariths)

lemma job_tokens:
  assumes "job_history job h x" "length h < 18446744073709551616"
  shows "case x of None \<Rightarrow> leases_for job h = {}
    | Some row \<Rightarrow> unat (mr_fencing row) \<le> length h \<and> (\<forall>l \<in> leases_for job h. unat (le_FencingToken l) \<le> unat (mr_fencing row))"
  using assms
proof (induction rule: job_history.induct)
  case unborn
  show ?case by (simp add: leases_for_def)
next
  case (event h x ev y)
  then have ih: "case x of None \<Rightarrow> leases_for job h = {}
    | Some row \<Rightarrow> unat (mr_fencing row) \<le> length h \<and> (\<forall>l \<in> leases_for job h. unat (le_FencingToken l) \<le> unat (mr_fencing row))"
    by simp
  from event.hyps(2) show ?case
  proof (cases rule: job_step.cases)
    case idle
    then show ?thesis using ih by (auto simp: leases_for_snoc leases_for_idle split: option.splits)
  next
    case (admit s clock)
    then show ?thesis using ih leases_for_idle [of job ev] by (simp add: leases_for_snoc new_row_def)
  next
    case (claim request clock row ls)
    have "unat (mr_fencing row) < 18446744073709551615" using ih event.prems claim(2) by simp
    then have "unat (mr_fencing row + 1) = unat (mr_fencing row) + 1" by (rule unat_next64)
    then show ?thesis using ih claim by (fastforce simp: leases_for_snoc leases_for_claim claimed_row_def lease_of_def)
  next
    case (complete request row clock)
    then show ?thesis using ih by (simp add: leases_for_snoc completed_row_def) (simp add: leases_for_def)
  next
    case (fail request row clock)
    then show ?thesis using ih by (simp add: leases_for_snoc failed_row_def) (simp add: leases_for_def)
  qed
qed

lemma job_lease_origin:
  assumes "job_history job h x" "length h < 18446744073709551616" "x = Some row" "mr_state row = Leased"
  shows "\<exists>h1 clock request ls h2. h = h1 @ (clock, OpClaim request, RLeases ls) # h2 \<and> lease_of row \<in> set ls \<and> lease_job (lease_of row) = job \<and>
    (\<forall>ev \<in> set h2. \<not> touches job ev) \<and> (\<forall>l \<in> leases_for job h1. unat (le_FencingToken l) < unat (mr_fencing row))"
  using assms
proof (induction arbitrary: row rule: job_history.induct)
  case (event h x ev y)
  from event.hyps(2) show ?case
  proof (cases rule: job_step.cases)
    case idle
    then obtain h1 clock request ls h2 where "h = h1 @ (clock, OpClaim request, RLeases ls) # h2" "lease_of row \<in> set ls" "lease_job (lease_of row) = job"
      "\<forall>ev \<in> set h2. \<not> touches job ev" "\<forall>l \<in> leases_for job h1. unat (le_FencingToken l) < unat (mr_fencing row)"
      using event.IH [of row] event.prems by auto
    then have "h @ [ev] = h1 @ (clock, OpClaim request, RLeases ls) # (h2 @ [ev]) \<and> lease_of row \<in> set ls \<and> lease_job (lease_of row) = job \<and>
      (\<forall>e \<in> set (h2 @ [ev]). \<not> touches job e) \<and> (\<forall>l \<in> leases_for job h1. unat (le_FencingToken l) < unat (mr_fencing row))"
      using idle by simp
    then show ?thesis by blast
  next
    case (admit s clock)
    then show ?thesis using event.prems by (simp add: new_row_def)
  next
    case (claim request clock old ls)
    have t: "unat (mr_fencing old) \<le> length h" "\<forall>l \<in> leases_for job h. unat (le_FencingToken l) \<le> unat (mr_fencing old)"
      using job_tokens [OF event.hyps(1)] event.prems(1) claim(2) by auto
    then have "unat (mr_fencing old) < 18446744073709551615" using event.prems(1) by simp
    then have "unat (mr_fencing row) = unat (mr_fencing old) + 1"
      using event.prems(2) claim(3) unat_next64 [of "mr_fencing old"] by (auto simp: claimed_row_def)
    moreover have "lease_of row \<in> set ls \<and> lease_job (lease_of row) = job" using claim event.prems(2) by auto
    ultimately have "h @ [ev] = h @ (clock, OpClaim request, RLeases ls) # [] \<and> lease_of row \<in> set ls \<and> lease_job (lease_of row) = job \<and>
      (\<forall>e \<in> set ([] :: queue_event list). \<not> touches job e) \<and> (\<forall>l \<in> leases_for job h. unat (le_FencingToken l) < unat (mr_fencing row))"
      using t(2) claim(1) by fastforce
    then show ?thesis by blast
  next
    case (complete request old clock)
    then show ?thesis using event.prems by (auto simp: completed_row_def)
  next
    case (fail request old clock)
    then show ?thesis using event.prems by (auto simp: failed_row_def split: if_splits)
  qed
qed simp

definition final_row :: "maintenanceRow \<Rightarrow> bool" where
  "final_row row \<longleftrightarrow> mr_state row = Completed \<or> mr_state row = DeadLetter"

lemma job_step_final:
  assumes "job_step job ev (Some row) y" "final_row row"
  shows "y = Some row \<and> \<not> touches job ev"
  using assms by (cases rule: job_step.cases) (auto simp: final_row_def claimable_def validMaintenanceLease_def)

lemma job_step_finishes:
  assumes "job_step job ev x y" "finishes job ev"
  shows "\<exists>row. y = Some row \<and> final_row row"
proof -
  have "finishes job ev \<Longrightarrow> touches job ev" by (induction job ev rule: finishes.induct) auto
  with assms show ?thesis
    by (cases rule: job_step.cases) (auto simp: final_row_def completed_row_def failed_row_def)
qed

lemma job_finished:
  assumes "job_history job h x" "h = h1 @ ev # h2" "finishes job ev"
  shows "(\<exists>row. x = Some row \<and> final_row row) \<and> (\<forall>e \<in> set h2. \<not> touches job e)"
  using assms
proof (induction arbitrary: h2 rule: job_history.induct)
  case (event h x e y)
  show ?case
  proof (cases h2 rule: rev_cases)
    case Nil
    then show ?thesis using event job_step_finishes [OF event.hyps(2)] by simp
  next
    case (snoc h3 e')
    then have "h = h1 @ ev # h3" "e' = e" using event.prems by simp_all
    then show ?thesis using event.IH event.prems(2) job_step_final [of job e _ y] event.hyps(2) snoc by auto
  qed
qed simp

section \<open>A sample history\<close>

definition sample_instant :: "int \<Rightarrow> time" where "sample_instant n = \<lparr>t_ns = n, t_zone = 0\<rparr>"

definition sample_job :: Spec where
  "sample_job = (case NewSpec sample_externals ''t'' ''lifecycle_evaluation'' (replicate 64 CHR ''a'') ''p'' (sample_instant 1) of
     Inr s \<Rightarrow> s | Inl _ \<Rightarrow> \<lparr>js_SchemaVersion = [], js_ID = [], js_TenantID = [], js_Kind = [], js_IdempotencyKeyHash = [],
       js_CanonicalPayload = [], js_CreatedAt = zero_time, js_ContentHash = [], js_CanonicalJSON = []\<rparr>)"

definition sample_claim :: ClaimRequest where
  "sample_claim = \<lparr>cl_WorkerID = ''w'', cl_Kinds = [''lifecycle_evaluation''], cl_Limit = 1, cl_LeaseDuration = 1000000000\<rparr>"

definition sample_finish :: FinishRequest where
  "sample_finish = \<lparr>fi_TenantID = ''t'', fi_JobID = js_ID sample_job, fi_WorkerID = ''w'', fi_FencingToken = 1\<rparr>"

definition sample_row :: maintenanceRow where "sample_row = claimed_row sample_claim (sample_instant 2) (new_row sample_job)"

lemma sample_job_valid:
  "ValidateSpec sample_externals sample_job" "js_Kind sample_job = ''lifecycle_evaluation''" "js_TenantID sample_job = ''t''"
  "js_CreatedAt sample_job = sample_instant 1"
proof -
  have k: "hashPattern (replicate 64 CHR ''a'')" by code_simp
  have raw: "MarshalAndHashRaw sample_externals ''p'' = Inr (''p'', hash_bytes sample_externals ''p'')"
  proof -
    have "json_Decode sample_externals ''p'' = DecodeValue (JStr ''p'') []" "json_Decode sample_externals [] = DecodeEOF"
      by (simp_all add: sample_externals_def)
    then show ?thesis by (simp add: MarshalAndHashRaw_def MarshalAndHash_sample)
  qed
  obtain j where j: "NewSpec sample_externals ''t'' ''lifecycle_evaluation'' (replicate 64 CHR ''a'') ''p'' (sample_instant 1) = Inr j"
    "js_Kind j = ''lifecycle_evaluation''" "js_TenantID j = ''t''" "js_CreatedAt j = sample_instant 1" "js_IdempotencyKeyHash j = replicate 64 CHR ''a''"
    "js_CanonicalPayload j = ''p''"
    by (simp add: NewSpec_def raw MarshalAndHash_sample k validKind_def time_defs sample_instant_def Let_def)
  then have "sample_job = j" by (simp add: sample_job_def)
  then show "ValidateSpec sample_externals sample_job" "js_Kind sample_job = ''lifecycle_evaluation''" "js_TenantID sample_job = ''t''"
    "js_CreatedAt sample_job = sample_instant 1" using j by (simp_all add: ValidateSpec_def)
qed

lemma sample_history:
  fixes h r defines "h \<equiv> [(sample_instant 1, OpEnqueue sample_job, RUnit), (sample_instant 2, OpClaim sample_claim, RLeases [lease_of sample_row])]"
    and "r \<equiv> \<lparr>mq_jobs = [(js_ID sample_job, sample_row)], mq_idempotency = [(job_key sample_job, js_ID sample_job)]\<rparr>"
  shows "history sample_externals h r" "no_collision h" "fst (Complete (sample_instant 3) sample_finish r) = Inr ()"
proof -
  let ?r1 = "\<lparr>mq_jobs = [(js_ID sample_job, new_row sample_job)], mq_idempotency = [(job_key sample_job, js_ID sample_job)]\<rparr>"
  have "perform sample_externals (sample_instant 1) (OpEnqueue sample_job) newMaintenanceRepository = (RUnit, ?r1)"
    by (simp add: Enqueue_def sample_job_valid newMaintenanceRepository_def)
  from call [OF start this] have h1: "history sample_externals [(sample_instant 1, OpEnqueue sample_job, RUnit)] ?r1" by simp
  have c: "claimable [''lifecycle_evaluation''] (sample_instant 2) (new_row sample_job)"
    by (simp add: claimable_def new_row_def sample_job_valid time_After_def sample_instant_def)
  have k: "ValidateKinds [''lifecycle_evaluation'']" by (simp add: ValidateKinds_def validKind_def)
  have u: "time_UTC (sample_instant n) = sample_instant n" for n by (simp add: time_UTC_def sample_instant_def)
  have "perform sample_externals (sample_instant 2) (OpClaim sample_claim) ?r1 = (RLeases [lease_of sample_row], r)"
    using c by (simp add: Claim_def chosen_rows_def sample_claim_def sample_row_def r_def k u Let_def)
  from call [OF h1 this] show "history sample_externals h r" by (simp add: h_def)
  show "no_collision h" by (simp add: no_collision_def enqueued_def h_def)
  show "fst (Complete (sample_instant 3) sample_finish r) = Inr ()"
    by (simp add: Complete_def sample_finish_def r_def validMaintenanceLease_def sample_row_def claimed_row_def new_row_def sample_job_valid sample_claim_def u
        time_After_def time_Add_def) (simp add: sample_instant_def)
qed

section \<open>Properties\<close>

text \<open>C4: under arbitrary interleavings of enqueues, claims, completions and failures by any number of
  workers, a completion or failure is accepted only from the holder of the latest lease: an
  earlier claim handed out this job to this worker with this token, the lease has not expired,
  nobody claimed or ended the job since, and all leases before that one have smaller tokens. The
  history is shorter than \<open>2^64\<close> calls and the identifiers of its jobs do not collide.\<close>

theorem finish_needs_latest_lease:
  assumes "history ext h r" "no_collision h" "length h < 18446744073709551616"
    and "fst (Complete clock request r) = Inr () \<or> fst (Fail clock failure r) = Inr () \<and> fl_Finish failure = request"
  shows "\<exists>h1 at claim ls h2 l. h = h1 @ (at, OpClaim claim, RLeases ls) # h2 \<and> l \<in> set ls \<and> lease_job l = fi_JobID request \<and>
    le_LeaseOwner l = fi_WorkerID request \<and> le_FencingToken l = fi_FencingToken request \<and> time_Before (time_UTC clock) (le_LeaseExpiresAt l) \<and>
    (\<forall>ev \<in> set h2. \<not> touches (fi_JobID request) ev) \<and>
    (\<forall>l' \<in> leases_for (fi_JobID request) h1. le_FencingToken l' < le_FencingToken l)"
proof -
  obtain row where row: "map_of (mq_jobs r) (fi_JobID request) = Some row" "validMaintenanceLease row request (time_UTC clock)"
    using assms(4) Complete_cases [of clock request r] Fail_cases [of clock failure r] by (metis Inl_Inr_False prod.collapse)
  then have v: "mr_state row = Leased" "mr_owner row = fi_WorkerID request" "mr_fencing row = fi_FencingToken request"
    "time_After (mr_leaseExpires row) (time_UTC clock)" by (simp_all add: validMaintenanceLease_def)
  from job_lease_origin [OF history_jobs(2) [OF assms(1,2)] assms(3) row(1) v(1)]
  obtain h1 at claim ls h2 where o: "h = h1 @ (at, OpClaim claim, RLeases ls) # h2" "lease_of row \<in> set ls" "lease_job (lease_of row) = fi_JobID request"
    "\<forall>ev \<in> set h2. \<not> touches (fi_JobID request) ev" "\<forall>l \<in> leases_for (fi_JobID request) h1. unat (le_FencingToken l) < unat (mr_fencing row)"
    by blast
  have l: "le_LeaseOwner (lease_of row) = fi_WorkerID request" "le_FencingToken (lease_of row) = fi_FencingToken request"
    "time_Before (time_UTC clock) (le_LeaseExpiresAt (lease_of row))" "mr_fencing row = le_FencingToken (lease_of row)"
    using v by (simp_all add: lease_of_def time_Before_def time_After_def)
  show ?thesis using o(1-4) l(1-3) o(5) [unfolded l(4) word_less_nat_alt [symmetric]] by blast
qed

theorem finish_needs_latest_lease_witness:
  "\<exists>l. lease_job l = js_ID sample_job \<and> le_LeaseOwner l = ''w'' \<and> le_FencingToken l = 1"
proof -
  from finish_needs_latest_lease [OF sample_history(1,2) _ disjI1 [OF sample_history(3)]] obtain l where
    "lease_job l = fi_JobID sample_finish" "le_LeaseOwner l = fi_WorkerID sample_finish" "le_FencingToken l = fi_FencingToken sample_finish" by auto
  then show ?thesis by (auto simp: sample_finish_def)
qed

text \<open>C27: a job that was completed or put among the dead letters stays so: no later call in the history,
  also no repeated enqueue, hands it out or ends it again. The identifiers of the jobs do not collide.\<close>

theorem jobs_finish_once:
  assumes "history ext h r" "no_collision h" "h = h1 @ ev # h2" "finishes job ev"
  shows "(\<forall>e \<in> set h2. \<not> touches job e) \<and> (\<exists>row. map_of (mq_jobs r) job = Some row \<and> mr_state row \<in> {Completed, DeadLetter})"
  using job_finished [OF history_jobs(2) [OF assms(1,2)] assms(3,4)] by (auto simp: final_row_def)

theorem jobs_finish_once_witness:
  "\<exists>h r row. history sample_externals h r \<and> map_of (mq_jobs r) (js_ID sample_job) = Some row \<and> mr_state row \<in> {Completed, DeadLetter}"
proof -
  let ?r = "\<lparr>mq_jobs = [(js_ID sample_job, sample_row)], mq_idempotency = [(job_key sample_job, js_ID sample_job)]\<rparr>"
    and ?h = "[(sample_instant 1, OpEnqueue sample_job, RUnit), (sample_instant 2, OpClaim sample_claim, RLeases [lease_of sample_row])]"
    and ?ev = "(sample_instant 3, OpComplete sample_finish, RUnit)"
  obtain r' where "perform sample_externals (sample_instant 3) (OpComplete sample_finish) ?r = (RUnit, r')" using sample_history(3) by simp
  from call [OF sample_history(1) this] have h: "history sample_externals (?h @ [?ev]) r'" .
  have "no_collision (?h @ [?ev])" by (simp add: no_collision_def enqueued_def)
  from jobs_finish_once [OF h this, of ?h ?ev "[]" "js_ID sample_job"] h show ?thesis by (auto simp: sample_finish_def)
qed

end
