(* ===== verification/Maintenance_Runner.thy ===== *)
theory Maintenance_Runner
  imports Maintenance_Queue
begin

text \<open>
  The runner as a client of the interface \<^verbatim>\<open>Repository\<close>. The locale \<open>job_store\<close> states what the runner
  relies on: what claiming, completing and failing do to the rows. That a batch worker drains the
  queue is proved from these laws alone, and the repository in memory is shown to obey them.
\<close>

section \<open>Rounds\<close>

text \<open>What the outside contributes to one round: the outcome of the handlers, the clocks, the order of the goroutines.\<close>

record round =
  rd_handle :: "Lease \<Rightarrow> bool"
  rd_claim :: time
  rd_clocks :: "Lease \<Rightarrow> time \<times> time"
  rd_order :: "Lease list \<Rightarrow> Lease list"

text \<open>The loop of \<^verbatim>\<open>Run\<close> for a given number of rounds; it ends at the first error.\<close>

fun Run_rounds :: "'r Repository \<Rightarrow> RunnerConfig \<Rightarrow> string list \<Rightarrow> round list \<Rightarrow> 'r \<Rightarrow> maintenance_error list \<times> 'r" where
  "Run_rounds repository config kinds [] r = ([], r)"
| "Run_rounds repository config kinds (x # xs) r =
     (case RunOnce repository config kinds (rd_handle x) (rd_claim x) (rd_clocks x) (rd_order x) r of
        ((_, es), r) \<Rightarrow> if es \<noteq> [] then (es, r) else Run_rounds repository config kinds xs r)"

text \<open>
  Each round starts when the leases and delays of the one before have run out, and its handlers
  end before the lease does.
\<close>

fun timely :: "RunnerConfig \<Rightarrow> int \<Rightarrow> round list \<Rightarrow> bool" where
  "timely config earliest [] \<longleftrightarrow> True"
| "timely config earliest (x # xs) \<longleftrightarrow>
     earliest \<le> t_ns (rd_claim x) \<and>
     (\<forall>l. 0 < t_ns (fst (rd_clocks x l)) \<and> t_ns (fst (rd_clocks x l)) \<le> t_ns (rd_claim x) + rc_LeaseDuration config \<and>
          t_ns (snd (rd_clocks x l)) < t_ns (rd_claim x) + rc_LeaseDuration config) \<and>
     (\<forall>ls. mset (rd_order x ls) = mset ls) \<and>
     timely config (t_ns (rd_claim x) + rc_LeaseDuration config + rc_MaximumBackoff config) xs"

section \<open>The delay\<close>

lemma backoff_bounds:
  assumes "0 \<le> rc_MaximumBackoff config"
  shows "0 \<le> backoff config attempt" "backoff config attempt \<le> rc_MaximumBackoff config"
proof -
  define n where "n = unat (min (attempt - 1) 20)"
  have "n \<le> 20" unfolding n_def by (simp flip: word_le_nat_alt [of _ "20 :: uint32", simplified])
  then have "(2 :: int) ^ n \<le> 2 ^ 20" by (intro power_increasing) auto
  then have small: "(2 :: int) ^ n \<le> 1048576" by simp
  have "0 \<le> (2 :: int) ^ n" by simp
  then have "fits64 (1000000000 * 2 ^ n)" unfolding fits64_def using small by linarith
  moreover have "(push_bit n 1000000000 :: int64) = word_of_int (1000000000 * 2 ^ n)" by (simp add: push_bit_eq_mult)
  ultimately have "sint (push_bit n 1000000000 :: int64) = 1000000000 * 2 ^ n" by (simp only: sint_word_of_int)
  then show "0 \<le> backoff config attempt" "backoff config attempt \<le> rc_MaximumBackoff config"
    using assms by (simp_all add: backoff_def n_def)
qed

section \<open>The contract of a repository\<close>

definition valid_claim :: "ClaimRequest \<Rightarrow> bool" where
  "valid_claim request \<longleftrightarrow> cl_WorkerID request \<noteq> [] \<and> 1 \<le> cl_Limit request \<and> cl_Limit request \<le> 100 \<and>
     1000000000 \<le> cl_LeaseDuration request \<and> ValidateKinds (cl_Kinds request)"

definition claimable_jobs :: "(string \<rightharpoonup> maintenanceRow) \<Rightarrow> string list \<Rightarrow> time \<Rightarrow> string set" where
  "claimable_jobs rows kinds now = {job. \<exists>row. rows job = Some row \<and> claimable kinds now row}"

text \<open>The jobs of the given kinds that have not ended.\<close>

definition open_jobs :: "(string \<rightharpoonup> maintenanceRow) \<Rightarrow> string list \<Rightarrow> string set" where
  "open_jobs rows kinds = {job. \<exists>row. rows job = Some row \<and> js_Kind (mr_spec row) \<in> set kinds \<and> \<not> final_row row}"

locale job_store =
  fixes repository :: "'r Repository" and rows :: "'r \<Rightarrow> string \<rightharpoonup> maintenanceRow" and invar :: "'r \<Rightarrow> bool"
  assumes finite_rows: "invar r \<Longrightarrow> finite (dom (rows r))"
    and claim_law: "invar r \<Longrightarrow> valid_claim request \<Longrightarrow>
      \<exists>ls r'. ri_Claim repository clock request r = (Inr ls, r') \<and> invar r' \<and> distinct (map lease_job ls) \<and>
        (\<forall>job. job \<notin> lease_job ` set ls \<longrightarrow> rows r' job = rows r job) \<and>
        (\<forall>l \<in> set ls. \<exists>row. rows r (lease_job l) = Some row \<and> claimable (cl_Kinds request) (time_UTC clock) row \<and>
           rows r' (lease_job l) = Some (claimed_row request (time_UTC clock) row) \<and> l = lease_of (claimed_row request (time_UTC clock) row)) \<and>
        (card (claimable_jobs (rows r) (cl_Kinds request) (time_UTC clock)) \<le> nat (cl_Limit request) \<longrightarrow>
           lease_job ` set ls = claimable_jobs (rows r) (cl_Kinds request) (time_UTC clock))"
    and complete_law: "invar r \<Longrightarrow> rows r (fi_JobID finish) = Some row \<Longrightarrow> js_TenantID (mr_spec row) = fi_TenantID finish \<Longrightarrow>
      validMaintenanceLease row finish (time_UTC clock) \<Longrightarrow>
      \<exists>r'. ri_Complete repository clock finish r = (Inr (), r') \<and> invar r' \<and> rows r' = (rows r)(fi_JobID finish \<mapsto> completed_row row)"
    and fail_law: "invar r \<Longrightarrow> rows r (fi_JobID (fl_Finish failure)) = Some row \<Longrightarrow> js_TenantID (mr_spec row) = fi_TenantID (fl_Finish failure) \<Longrightarrow>
      validMaintenanceLease row (fl_Finish failure) (time_UTC clock) \<Longrightarrow> fl_ErrorCode failure \<noteq> [] \<Longrightarrow> \<not> time_IsZero (fl_RetryAt failure) \<Longrightarrow>
      \<exists>r'. ri_Fail repository clock failure r = (Inr (), r') \<and> invar r' \<and> rows r' = (rows r)(fi_JobID (fl_Finish failure) \<mapsto> failed_row failure row)"
begin

definition after_lease :: "RunnerConfig \<Rightarrow> int \<Rightarrow> maintenanceRow \<Rightarrow> maintenanceRow \<Rightarrow> bool" where
  "after_lease config latest row row' \<longleftrightarrow> mr_spec row' = mr_spec row \<and> (final_row row' \<or>
     mr_state row' = Pending \<and> t_ns (mr_available row') \<le> latest \<and> mr_attempt row' = mr_attempt row \<and> mr_fencing row' = mr_fencing row \<and>
     mr_attempt row < rc_MaximumAttempts config)"

lemma processLease_ok:
  assumes "invar r" "rows r (lease_job l) = Some row" "l = lease_of row" "mr_state row = Leased" "mr_owner row \<noteq> []" "mr_fencing row \<noteq> 0"
    and "0 < t_ns clock" "t_ns clock + rc_MaximumBackoff config \<le> latest" "t_ns storeClock < t_ns (mr_leaseExpires row)" "0 \<le> rc_MaximumBackoff config"
  shows "\<exists>b r' row'. processLease repository config handle clock storeClock l r = (Inr b, r') \<and> invar r' \<and>
    rows r' = (rows r)(lease_job l \<mapsto> row') \<and> after_lease config latest row row'"
proof -
  define finish where "finish = \<lparr>fi_TenantID = js_TenantID (le_Spec l), fi_JobID = js_ID (le_Spec l), fi_WorkerID = le_LeaseOwner l, fi_FencingToken = le_FencingToken l\<rparr>"
  have f: "fi_JobID finish = lease_job l" "js_TenantID (mr_spec row) = fi_TenantID finish" "rows r (fi_JobID finish) = Some row"
    "validMaintenanceLease row finish (time_UTC storeClock)"
    using assms by (simp_all add: finish_def lease_job_def lease_of_def validMaintenanceLease_def time_After_def time_UTC_def word_gt_0)
  show ?thesis
  proof (cases "handle l")
    case True
    obtain r' where r': "ri_Complete repository storeClock finish r = (Inr (), r')" "invar r'" "rows r' = (rows r)(lease_job l \<mapsto> completed_row row)"
      using complete_law [OF assms(1) f(3,2,4)] unfolding f(1) by blast
    have "processLease repository config handle clock storeClock l r = (Inr True, r')"
      unfolding processLease_def Let_def finish_def [symmetric] by (simp add: True r'(1))
    moreover have "after_lease config latest row (completed_row row)" by (simp add: after_lease_def completed_row_def final_row_def)
    ultimately show ?thesis using r' by blast
  next
    case False
    define dead where "dead \<longleftrightarrow> rc_MaximumAttempts config \<le> le_AttemptCount l"
    define failure where "failure = \<lparr>fl_Finish = finish, fl_ErrorCode = ''handler_failed'',
      fl_RetryAt = time_Add (time_UTC clock) (if \<not> dead then backoff config (le_AttemptCount l) else 0), fl_DeadLetter = dead\<rparr>"
    note delay = backoff_bounds [OF assms(10), of "le_AttemptCount l"]
    have retry: "0 < t_ns (fl_RetryAt failure)" "t_ns (fl_RetryAt failure) \<le> latest"
      using delay assms(7,8,10) by (simp_all add: failure_def time_Add_def time_UTC_def)
    have g: "fl_Finish failure = finish" "fl_ErrorCode failure \<noteq> []" "\<not> time_IsZero (fl_RetryAt failure)"
      using retry(1) by (simp_all add: failure_def time_IsZero_def)
    obtain r' where r': "ri_Fail repository storeClock failure r = (Inr (), r')" "invar r'" "rows r' = (rows r)(lease_job l \<mapsto> failed_row failure row)"
      using fail_law [of r failure row storeClock, unfolded g(1) f(1)] assms(1,2) f(2,4) g(2,3) by blast
    have "processLease repository config handle clock storeClock l r = (Inr False, r')"
      unfolding processLease_def Let_def finish_def [symmetric] dead_def [symmetric] failure_def [symmetric] by (simp add: False r'(1))
    moreover have "after_lease config latest row (failed_row failure row)"
      using retry(2) assms(3) by (auto simp: after_lease_def failed_row_def final_row_def failure_def dead_def lease_of_def)
    ultimately show ?thesis using r' by blast
  qed
qed

lemma process_leases_ok:
  assumes "invar r" "distinct (map lease_job ls)"
    and "\<forall>l \<in> set ls. \<exists>row. rows r (lease_job l) = Some row \<and> l = lease_of row \<and> mr_state row = Leased \<and> mr_owner row \<noteq> [] \<and> mr_fencing row \<noteq> 0 \<and>
      t_ns (snd (clocks l)) < t_ns (mr_leaseExpires row)"
    and "\<forall>l. 0 < t_ns (fst (clocks l)) \<and> t_ns (fst (clocks l)) + rc_MaximumBackoff config \<le> latest" "0 \<le> rc_MaximumBackoff config"
  shows "\<exists>n r'. process_leases repository config handle clocks ls r = ((n, []), r') \<and> invar r' \<and>
    (\<forall>job. job \<notin> lease_job ` set ls \<longrightarrow> rows r' job = rows r job) \<and>
    (\<forall>l \<in> set ls. \<exists>row row'. rows r (lease_job l) = Some row \<and> rows r' (lease_job l) = Some row' \<and> after_lease config latest row row')"
  using assms(1-3)
proof (induction ls arbitrary: r)
  case (Cons l ls)
  obtain row where row: "rows r (lease_job l) = Some row" "l = lease_of row" "mr_state row = Leased" "mr_owner row \<noteq> []" "mr_fencing row \<noteq> 0"
    "t_ns (snd (clocks l)) < t_ns (mr_leaseExpires row)" using Cons.prems(3) by auto
  obtain b r1 row' where r1: "processLease repository config handle (fst (clocks l)) (snd (clocks l)) l r = (Inr b, r1)" "invar r1"
    "rows r1 = (rows r)(lease_job l \<mapsto> row')" "after_lease config latest row row'"
    using processLease_ok [OF Cons.prems(1) row(1-5), of "fst (clocks l)" config latest "snd (clocks l)" handle] row(6) assms(4,5) by blast
  have other: "lease_job m \<noteq> lease_job l" if "m \<in> set ls" for m using Cons.prems(2) that by (auto simp: image_iff)
  obtain n r2 where r2: "process_leases repository config handle clocks ls r1 = ((n, []), r2)" "invar r2"
    "\<forall>job. job \<notin> lease_job ` set ls \<longrightarrow> rows r2 job = rows r1 job"
    "\<forall>l \<in> set ls. \<exists>row row'. rows r1 (lease_job l) = Some row \<and> rows r2 (lease_job l) = Some row' \<and> after_lease config latest row row'"
    using Cons.IH [OF r1(2)] Cons.prems(2,3) other by (auto simp: r1(3))
  have "process_leases repository config handle clocks (l # ls) r = ((if b then n + 1 else n, []), r2)" by (simp add: r1(1) r2(1))
  moreover have "rows r2 (lease_job l) = Some row'" using r2(3) other r1(3) by (metis imageE map_upd_Some_unfold)
  ultimately show ?case using r2 r1(3,4) row(1) other by (auto simp: fun_upd_other)
qed simp

text \<open>
  Open jobs wait for a round after the instant \<open>earliest\<close>, have been tried at least \<open>tries\<close> times
  and less often than permitted.
\<close>

definition ready :: "RunnerConfig \<Rightarrow> string list \<Rightarrow> int \<Rightarrow> nat \<Rightarrow> 'r \<Rightarrow> bool" where
  "ready config kinds earliest tries r \<longleftrightarrow> (\<forall>job row. rows r job = Some row \<and> js_Kind (mr_spec row) \<in> set kinds \<and> \<not> final_row row \<longrightarrow>
     (mr_state row = Pending \<longrightarrow> t_ns (mr_available row) \<le> earliest) \<and> (mr_state row = Leased \<longrightarrow> t_ns (mr_leaseExpires row) \<le> earliest) \<and>
     tries \<le> unat (mr_attempt row) \<and> mr_attempt row < rc_MaximumAttempts config \<and> unat (mr_fencing row) = unat (mr_attempt row))"

lemma ready_claimable:
  assumes "ready config kinds earliest tries r" "earliest \<le> t_ns now"
  shows "claimable_jobs (rows r) (sorted_keys kinds) now = open_jobs (rows r) kinds"
proof (intro set_eqI iffI)
  fix job assume "job \<in> open_jobs (rows r) kinds"
  then obtain row where row: "rows r job = Some row" "js_Kind (mr_spec row) \<in> set kinds" "\<not> final_row row" by (auto simp: open_jobs_def)
  then have "mr_state row = Pending \<and> t_ns (mr_available row) \<le> t_ns now \<or> mr_state row = Leased \<and> t_ns (mr_leaseExpires row) \<le> t_ns now"
    using assms unfolding ready_def by (cases "mr_state row") (force simp: final_row_def)+
  then show "job \<in> claimable_jobs (rows r) (sorted_keys kinds) now"
    using row by (auto simp: claimable_jobs_def claimable_def time_After_def)
qed (auto simp: claimable_jobs_def open_jobs_def claimable_def final_row_def)

lemma unat_next32: "w < (m :: uint32) \<Longrightarrow> unat (w + 1) = unat w + 1 \<and> w + 1 \<le> m"
proof -
  assume "w < m"
  then have "unat w < unat m" by (simp add: word_less_nat_alt)
  moreover have "unat m < 4294967296" using unsigned_less [of m] by simp
  ultimately show ?thesis by (simp add: unat_word_ariths word_le_nat_alt)
qed

lemma RunOnce_ok:
  assumes "invar r" "valid_runner kinds config" "ready config kinds earliest tries r" "timely config earliest (x # xs)"
    and "card (open_jobs (rows r) kinds) \<le> nat (rc_BatchSize config)"
  shows "\<exists>n r'. RunOnce repository config kinds (rd_handle x) (rd_claim x) (rd_clocks x) (rd_order x) r = ((n, []), r') \<and> invar r' \<and>
    ready config kinds (t_ns (rd_claim x) + rc_LeaseDuration config + rc_MaximumBackoff config) (tries + 1) r' \<and>
    open_jobs (rows r') kinds \<subseteq> open_jobs (rows r) kinds"
proof -
  let ?request = "\<lparr>cl_WorkerID = rc_WorkerID config, cl_Kinds = sorted_keys kinds, cl_Limit = rc_BatchSize config, cl_LeaseDuration = rc_LeaseDuration config\<rparr>"
  let ?now = "time_UTC (rd_claim x)" and ?latest = "t_ns (rd_claim x) + rc_LeaseDuration config + rc_MaximumBackoff config"
  have v: "rc_WorkerID config \<noteq> []" "0 \<le> rc_MaximumBackoff config" "valid_claim ?request"
    using assms(2) strictly_sorted_sorted_keys [of kinds]
    by (auto simp: valid_runner_def valid_claim_def ValidateKinds_def list_all_iff strictly_sorted_sorted_distinct simp del: strictly_sorted_sorted_keys)
  have t: "earliest \<le> t_ns ?now" "\<forall>l. 0 < t_ns (fst (rd_clocks x l)) \<and> t_ns (fst (rd_clocks x l)) + rc_MaximumBackoff config \<le> ?latest"
    "\<forall>l. t_ns (snd (rd_clocks x l)) < t_ns (rd_claim x) + rc_LeaseDuration config" "\<forall>ls. mset (rd_order x ls) = mset ls"
    using assms(4) by (auto simp: time_UTC_def)
  note open_eq = ready_claimable [OF assms(3) t(1)]
  obtain ls r1 where c: "ri_Claim repository (rd_claim x) ?request r = (Inr ls, r1)" "invar r1" "distinct (map lease_job ls)"
    "\<forall>job. job \<notin> lease_job ` set ls \<longrightarrow> rows r1 job = rows r job"
    "\<forall>l \<in> set ls. \<exists>row. rows r (lease_job l) = Some row \<and> claimable (sorted_keys kinds) ?now row \<and>
       rows r1 (lease_job l) = Some (claimed_row ?request ?now row) \<and> l = lease_of (claimed_row ?request ?now row)"
    "lease_job ` set ls = open_jobs (rows r) kinds"
    using claim_law [OF assms(1) v(3), of "rd_claim x"] assms(5) open_eq by auto
  have set: "set (rd_order x ls) = set ls" "distinct (map lease_job (rd_order x ls))"
    using t(4) c(3) by (metis mset_eq_setD, metis mset_eq_imp_distinct_iff mset_map)
  have old: "mr_attempt row < rc_MaximumAttempts config \<and> tries \<le> unat (mr_attempt row) \<and> unat (mr_fencing row) = unat (mr_attempt row)"
    if "rows r job = Some row" "claimable (sorted_keys kinds) ?now row" for job row
    using that assms(3) unfolding ready_def claimable_def final_row_def by auto
  have bumped: "unat (mr_attempt row + 1) = unat (mr_attempt row) + 1 \<and> unat (mr_fencing row + 1) = unat (mr_attempt row) + 1"
    if "rows r job = Some row" "claimable (sorted_keys kinds) ?now row" for job row
  proof -
    note o = old [OF that]
    have "unat (mr_attempt row) < 4294967296" using unsigned_less [of "mr_attempt row"] by simp
    then have "unat (mr_fencing row) < 18446744073709551615" using o by simp
    then show ?thesis using o unat_next32 unat_next64 by auto
  qed
  have leased: "\<forall>l \<in> set (rd_order x ls). \<exists>row. rows r1 (lease_job l) = Some row \<and> l = lease_of row \<and> mr_state row = Leased \<and> mr_owner row \<noteq> [] \<and> mr_fencing row \<noteq> 0 \<and>
      t_ns (snd (rd_clocks x l)) < t_ns (mr_leaseExpires row)"
  proof
    fix l assume "l \<in> set (rd_order x ls)"
    then obtain row where row: "rows r (lease_job l) = Some row" "claimable (sorted_keys kinds) ?now row"
      "rows r1 (lease_job l) = Some (claimed_row ?request ?now row)" "l = lease_of (claimed_row ?request ?now row)" using c(5) set(1) by blast
    have "mr_fencing row + 1 \<noteq> 0" using bumped [OF row(1,2)] by auto
    then show "\<exists>row. rows r1 (lease_job l) = Some row \<and> l = lease_of row \<and> mr_state row = Leased \<and> mr_owner row \<noteq> [] \<and> mr_fencing row \<noteq> 0 \<and>
        t_ns (snd (rd_clocks x l)) < t_ns (mr_leaseExpires row)"
      using row(3,4) v(1) t(3) by (intro exI [of _ "claimed_row ?request ?now row"]) (simp add: claimed_row_def time_Add_def time_UTC_def)
  qed
  obtain n r2 where p: "process_leases repository config (rd_handle x) (rd_clocks x) (rd_order x ls) r1 = ((n, []), r2)" "invar r2"
    "\<forall>job. job \<notin> lease_job ` set ls \<longrightarrow> rows r2 job = rows r1 job"
    "\<forall>l \<in> set ls. \<exists>row row'. rows r1 (lease_job l) = Some row \<and> rows r2 (lease_job l) = Some row' \<and> after_lease config ?latest row row'"
    using process_leases_ok [OF c(2) set(2) leased t(2) v(2), of "rd_handle x"] unfolding set(1) by blast
  have same: "rows r2 job = rows r job" if "job \<notin> open_jobs (rows r) kinds" for job using that c(4,6) p(3) by simp
  have worked: "\<exists>row row'. rows r job = Some row \<and> claimable (sorted_keys kinds) ?now row \<and> rows r2 job = Some row' \<and>
      after_lease config ?latest (claimed_row ?request ?now row) row'" if "job \<in> open_jobs (rows r) kinds" for job
  proof -
    have "job \<in> lease_job ` set ls" using that c(6) by simp
    then obtain l where l: "l \<in> set ls" "job = lease_job l" by blast
    obtain row where row: "rows r job = Some row" "claimable (sorted_keys kinds) ?now row" "rows r1 job = Some (claimed_row ?request ?now row)"
      using c(5) l by blast
    obtain row1 row' where "rows r1 job = Some row1" "rows r2 job = Some row'" "after_lease config ?latest row1 row'" using p(4) l by blast
    then show ?thesis using row by auto
  qed
  have "ready config kinds ?latest (tries + 1) r2"
    unfolding ready_def
  proof (intro allI impI, elim conjE)
    fix job row' assume row': "rows r2 job = Some row'" "js_Kind (mr_spec row') \<in> set kinds" "\<not> final_row row'"
    have "job \<in> open_jobs (rows r) kinds"
    proof (rule ccontr)
      assume "job \<notin> open_jobs (rows r) kinds"
      then show False using same row' by (auto simp: open_jobs_def)
    qed
    then obtain row where row: "rows r job = Some row" "claimable (sorted_keys kinds) ?now row" "after_lease config ?latest (claimed_row ?request ?now row) row'"
      using worked [of job] row'(1) by auto
    then have a: "mr_state row' = Pending" "t_ns (mr_available row') \<le> ?latest" "mr_attempt row' = mr_attempt row + 1" "mr_fencing row' = mr_fencing row + 1"
      "mr_attempt row + 1 < rc_MaximumAttempts config" using row'(3) by (auto simp: after_lease_def claimed_row_def)
    then show "(mr_state row' = Pending \<longrightarrow> t_ns (mr_available row') \<le> ?latest) \<and> (mr_state row' = Leased \<longrightarrow> t_ns (mr_leaseExpires row') \<le> ?latest) \<and>
        tries + 1 \<le> unat (mr_attempt row') \<and> mr_attempt row' < rc_MaximumAttempts config \<and> unat (mr_fencing row') = unat (mr_attempt row')"
      using old [OF row(1,2)] bumped [OF row(1,2)] by simp
  qed
  moreover have "open_jobs (rows r2) kinds \<subseteq> open_jobs (rows r) kinds"
  proof (intro subsetI, rule ccontr)
    fix job assume "job \<in> open_jobs (rows r2) kinds" "job \<notin> open_jobs (rows r) kinds"
    then show False using same [of job] by (auto simp: open_jobs_def)
  qed
  moreover have "RunOnce repository config kinds (rd_handle x) (rd_claim x) (rd_clocks x) (rd_order x) r = ((n, []), r2)"
    by (simp add: RunOnce_def c(1) p(1))
  ultimately show ?thesis using p(2) by blast
qed

lemma rounds_drain:
  assumes "invar r" "valid_runner kinds config" "ready config kinds earliest tries r" "timely config earliest xs"
    and "card (open_jobs (rows r) kinds) \<le> nat (rc_BatchSize config)" "unat (rc_MaximumAttempts config) \<le> tries + length xs"
  shows "\<exists>r'. Run_rounds repository config kinds xs r = ([], r') \<and> invar r' \<and> open_jobs (rows r') kinds = {}"
  using assms
proof (induction xs arbitrary: earliest tries r)
  case Nil
  then have "open_jobs (rows r) kinds = {}" by (force simp: open_jobs_def ready_def word_less_nat_alt)
  then show ?case using Nil(1) by simp
next
  case (Cons x xs)
  obtain n r1 where r1: "RunOnce repository config kinds (rd_handle x) (rd_claim x) (rd_clocks x) (rd_order x) r = ((n, []), r1)" "invar r1"
    "ready config kinds (t_ns (rd_claim x) + rc_LeaseDuration config + rc_MaximumBackoff config) (tries + 1) r1"
    "open_jobs (rows r1) kinds \<subseteq> open_jobs (rows r) kinds"
    using RunOnce_ok [OF Cons.prems(1-5)] by blast
  have "finite (open_jobs (rows r) kinds)" by (rule finite_subset [OF _ finite_rows [OF Cons.prems(1)]]) (auto simp: open_jobs_def)
  then have "card (open_jobs (rows r1) kinds) \<le> nat (rc_BatchSize config)" using card_mono [OF _ r1(4)] Cons.prems(5) by simp
  then show ?case using Cons.IH [OF r1(2) Cons.prems(2) r1(3)] Cons.prems(4,6) r1(1) by simp
qed

end

section \<open>The repository in memory\<close>

definition job_rows :: "MaintenanceRepository \<Rightarrow> string \<rightharpoonup> maintenanceRow" where
  "job_rows r = map_of (mq_jobs r)"

definition job_table :: "MaintenanceRepository \<Rightarrow> bool" where
  "job_table r \<longleftrightarrow> distinct (map fst (mq_jobs r)) \<and> (\<forall>job row. job_rows r job = Some row \<longrightarrow> js_ID (mr_spec row) = job)"

lemma job_table_update:
  assumes "job_table r" "job_rows r job = Some row" "mr_spec new = mr_spec row"
  shows "job_table (r\<lparr>mq_jobs := AList.update job new (mq_jobs r)\<rparr>)"
    "job_rows (r\<lparr>mq_jobs := AList.update job new (mq_jobs r)\<rparr>) = (job_rows r)(job \<mapsto> new)"
  using assms by (auto simp: job_table_def job_rows_def distinct_update update_conv')

lemma chosen_rows_all:
  assumes "distinct (map fst (mq_jobs r))" "card (claimable_jobs (job_rows r) (cl_Kinds request) now) \<le> nat (cl_Limit request)"
  shows "fst ` set (chosen_rows request now r) = claimable_jobs (job_rows r) (cl_Kinds request) now"
proof -
  let ?rows = "filter (\<lambda>(_, row). claimable (cl_Kinds request) now row) (mq_jobs r)"
  have all: "claimable_jobs (job_rows r) (cl_Kinds request) now = fst ` set ?rows"
    using assms(1) by (force simp: claimable_jobs_def job_rows_def)
  moreover have "distinct (map fst ?rows)" using assms(1) by (rule distinct_map_filter)
  ultimately have "length ?rows \<le> nat (cl_Limit request)" using assms(2) distinct_card [of "map fst ?rows"] by simp
  then show ?thesis unfolding all by (simp add: chosen_rows_def)
qed

lemma memory_claim:
  assumes "job_table r" "valid_claim request"
  shows "\<exists>ls r'. Claim clock request r = (Inr ls, r') \<and> job_table r' \<and> distinct (map lease_job ls) \<and>
    (\<forall>job. job \<notin> lease_job ` set ls \<longrightarrow> job_rows r' job = job_rows r job) \<and>
    (\<forall>l \<in> set ls. \<exists>row. job_rows r (lease_job l) = Some row \<and> claimable (cl_Kinds request) (time_UTC clock) row \<and>
       job_rows r' (lease_job l) = Some (claimed_row request (time_UTC clock) row) \<and> l = lease_of (claimed_row request (time_UTC clock) row)) \<and>
    (card (claimable_jobs (job_rows r) (cl_Kinds request) (time_UTC clock)) \<le> nat (cl_Limit request) \<longrightarrow>
       lease_job ` set ls = claimable_jobs (job_rows r) (cl_Kinds request) (time_UTC clock))"
proof -
  let ?now = "time_UTC clock" and ?chosen = "chosen_rows request (time_UTC clock) r"
  obtain ls r' where c0: "Claim clock request r = (Inr ls, r')"
    using assms(2) by (auto simp: Claim_def valid_claim_def Let_def)
  note c = Claim_Inr [OF c0]
  have d: "distinct (map fst (mq_jobs r))" using assms(1) by (simp add: job_table_def)
  note dc = chosen_rows_distinct [OF d, of request ?now]
  have at: "job_rows r' j = (case map_of ?chosen j of Some row \<Rightarrow> Some (claimed_row request ?now row) | None \<Rightarrow> job_rows r j)" for j
    unfolding job_rows_def c(2) by (rule claim_rows_jobs [OF dc])
  have old: "job_rows r j = Some row \<and> claimable (cl_Kinds request) ?now row \<and> lease_job (lease_of (claimed_row request ?now row)) = j"
    if "(j, row) \<in> set ?chosen" for j row
  proof -
    have "(j, row) \<in> set (mq_jobs r)" "claimable (cl_Kinds request) ?now row" using that chosen_rows_sub [of request ?now r] by auto
    moreover from this have "job_rows r j = Some row" using d by (simp add: job_rows_def)
    ultimately show ?thesis using assms(1) by (simp add: job_table_def lease_job_def lease_of_def claimed_row_def)
  qed
  have jobs: "map lease_job ls = map fst ?chosen" using old by (auto simp: c(1) comp_def)
  have "job_table r'"
    unfolding job_table_def
  proof (intro conjI allI impI)
    show "distinct (map fst (mq_jobs r'))" unfolding c(2) by (rule claim_rows_keys [OF d])
    fix j row assume "job_rows r' j = Some row"
    then show "js_ID (mr_spec row) = j"
      using at [of j] old assms(1) by (auto simp: job_table_def claimed_row_def split: option.splits dest!: map_of_SomeD)
  qed
  moreover have "job_rows r' job = job_rows r job" if "job \<notin> lease_job ` set ls" for job
  proof -
    have "job \<notin> fst ` set ?chosen" using that jobs by (metis set_map)
    then show ?thesis using at [of job] by (simp add: map_of_eq_None_iff [symmetric])
  qed
  moreover have "\<exists>row. job_rows r (lease_job l) = Some row \<and> claimable (cl_Kinds request) ?now row \<and>
      job_rows r' (lease_job l) = Some (claimed_row request ?now row) \<and> l = lease_of (claimed_row request ?now row)" if l: "l \<in> set ls" for l
  proof -
    obtain j row where row: "(j, row) \<in> set ?chosen" "l = lease_of (claimed_row request ?now row)" using l by (auto simp: c(1))
    then have "map_of ?chosen j = Some row" using dc by simp
    then show ?thesis using row old [OF row(1)] at [of j] by auto
  qed
  moreover have "lease_job ` set ls = fst ` set ?chosen" using jobs by (metis set_map)
  ultimately show ?thesis using c0 dc jobs chosen_rows_all [OF d, of request ?now] by (intro exI [of _ ls] exI [of _ r']) auto
qed

interpretation memory_queue: job_store memory_repository job_rows job_table
proof unfold_locales
  show "finite (dom (job_rows r))" for r by (simp add: job_rows_def finite_dom_map_of)
next
  fix r clock and request :: ClaimRequest assume "job_table r" "valid_claim request"
  from memory_claim [OF this, of clock]
  show "\<exists>ls r'. ri_Claim memory_repository clock request r = (Inr ls, r') \<and> job_table r' \<and> distinct (map lease_job ls) \<and>
        (\<forall>job. job \<notin> lease_job ` set ls \<longrightarrow> job_rows r' job = job_rows r job) \<and>
        (\<forall>l \<in> set ls. \<exists>row. job_rows r (lease_job l) = Some row \<and> claimable (cl_Kinds request) (time_UTC clock) row \<and>
           job_rows r' (lease_job l) = Some (claimed_row request (time_UTC clock) row) \<and> l = lease_of (claimed_row request (time_UTC clock) row)) \<and>
        (card (claimable_jobs (job_rows r) (cl_Kinds request) (time_UTC clock)) \<le> nat (cl_Limit request) \<longrightarrow>
           lease_job ` set ls = claimable_jobs (job_rows r) (cl_Kinds request) (time_UTC clock))"
    unfolding memory_repository_def by simp
next
  fix r row clock and finish :: FinishRequest
  assume a: "job_table r" "job_rows r (fi_JobID finish) = Some row" "js_TenantID (mr_spec row) = fi_TenantID finish"
    "validMaintenanceLease row finish (time_UTC clock)"
  let ?r = "r\<lparr>mq_jobs := AList.update (fi_JobID finish) (completed_row row) (mq_jobs r)\<rparr>"
  have "Complete clock finish r = (Inr (), ?r)" using a by (simp add: Complete_def job_rows_def completed_row_def)
  then show "\<exists>r'. ri_Complete memory_repository clock finish r = (Inr (), r') \<and> job_table r' \<and> job_rows r' = (job_rows r)(fi_JobID finish \<mapsto> completed_row row)"
    using job_table_update [OF a(1,2), of "completed_row row"] by (simp add: memory_repository_def completed_row_def)
next
  fix r row clock and failure :: FailRequest
  assume a: "job_table r" "job_rows r (fi_JobID (fl_Finish failure)) = Some row" "js_TenantID (mr_spec row) = fi_TenantID (fl_Finish failure)"
    "validMaintenanceLease row (fl_Finish failure) (time_UTC clock)" "fl_ErrorCode failure \<noteq> []" "\<not> time_IsZero (fl_RetryAt failure)"
  let ?r = "r\<lparr>mq_jobs := AList.update (fi_JobID (fl_Finish failure)) (failed_row failure row) (mq_jobs r)\<rparr>"
  have "Fail clock failure r = (Inr (), ?r)"
    using a by (simp add: Fail_def job_rows_def failed_row_def time_Equal_def time_UTC_def Let_def)
  moreover have "mr_spec (failed_row failure row) = mr_spec row" by (simp add: failed_row_def)
  ultimately show "\<exists>r'. ri_Fail memory_repository clock failure r = (Inr (), r') \<and> job_table r' \<and>
      job_rows r' = (job_rows r)(fi_JobID (fl_Finish failure) \<mapsto> failed_row failure row)"
    using job_table_update [OF a(1,2), of "failed_row failure row"] by (simp add: memory_repository_def)
qed

section \<open>Properties\<close>



end
