(* ===== verification/Tool_Contracts.thy ===== *)
theory Tool_Contracts
  imports Domain "HOL-Library.AList"
begin

text \<open>
  \<^verbatim>\<open>internal/toolcontract\<close>: what a tool reads, writes and promises. \<^verbatim>\<open>Canonicalize\<close> brings a manifest
  into canonical form and names it by its hash; \<^verbatim>\<open>MemoryRegistry\<close> keeps the manifests by tool and
  version and resolves a call of a tool to one of them, or to an opaque description of the worst
  kind. The package \<^verbatim>\<open>golang.org/x/mod/semver\<close> is a parameter, the record \<open>semver\<close>. The classes of a
  manifest (side effect, risk, sanitizer, modes) are strings, as in Go, where any string can occur.
\<close>

section \<open>Manifests\<close>

record FieldSpec =
  fs_Name :: string
  fs_Type :: string
  fs_Required :: bool
  fs_Sanitizer :: string

record ResourceSpec =
  rs_Name :: string
  rs_Type :: string
  rs_Namespace :: string
  rs_Field :: string
  rs_SchemaVersion :: string

record EffectSpec =
  ef_Name :: string
  ef_Risk :: string

record IdempotencySpec =
  ip_Mode :: string
  ip_KeyField :: string

record RetrySpec =
  rt_Mode :: string
  rt_MaximumAttempts :: uint32

record PredicateSpec =
  pd_ID :: string
  pd_Resource :: string
  pd_Field :: string
  pd_Operator :: string
  pd_Value :: string

record CompensationSpec =
  cm_ToolID :: string
  cm_PredicateID :: string

record VerificationMethod =
  vm_ID :: string
  vm_EvidenceClass :: string

record CompatibilityRange =
  rg_MinimumInclusive :: string
  rg_MaximumExclusive :: string

record Manifest =
  mf_ID :: string
  mf_SchemaVersion :: string
  mf_ToolID :: string
  mf_Version :: string
  mf_Aliases :: "string list"
  mf_Inputs :: "FieldSpec list"
  mf_Outputs :: "FieldSpec list"
  mf_Reads :: "ResourceSpec list"
  mf_Writes :: "ResourceSpec list"
  mf_Effects :: "EffectSpec list"
  mf_SideEffect :: string
  mf_Risk :: string
  mf_Idempotency :: IdempotencySpec
  mf_Retry :: RetrySpec
  mf_Preconditions :: "PredicateSpec list"
  mf_SuccessPredicates :: "PredicateSpec list"
  mf_Compensation :: "CompensationSpec option"
  mf_VerificationMethods :: "VerificationMethod list"
  mf_Compatibility :: "CompatibilityRange list"
  mf_ContentHash :: string

record Query =
  q_Name :: string
  q_Version :: string

record Resolution =
  rn_Manifest :: Manifest
  rn_Opaque :: bool
  rn_AutoPromotable :: bool

section \<open>Encoding\<close>

definition json_field_spec :: "FieldSpec \<Rightarrow> json" where
  "json_field_spec f = JObj [(''name'', JStr (fs_Name f)), (''type'', JStr (fs_Type f)), (''required'', JBool (fs_Required f)),
     (''sanitizer'', JStr (fs_Sanitizer f))]"

definition json_resource_spec :: "ResourceSpec \<Rightarrow> json" where
  "json_resource_spec r = JObj ([(''name'', JStr (rs_Name r)), (''type'', JStr (rs_Type r)), (''namespace'', JStr (rs_Namespace r)),
     (''field'', JStr (rs_Field r))] @ omit_str ''schema_version'' (rs_SchemaVersion r))"

definition json_effect_spec :: "EffectSpec \<Rightarrow> json" where
  "json_effect_spec e = JObj [(''name'', JStr (ef_Name e)), (''risk'', JStr (ef_Risk e))]"

definition json_idempotency_spec :: "IdempotencySpec \<Rightarrow> json" where
  "json_idempotency_spec i = JObj ([(''mode'', JStr (ip_Mode i))] @ omit_str ''key_field'' (ip_KeyField i))"

definition json_retry_spec :: "RetrySpec \<Rightarrow> json" where
  "json_retry_spec r = JObj [(''mode'', JStr (rt_Mode r)), (''maximum_attempts'', JNum (uint (rt_MaximumAttempts r)))]"

definition json_predicate_spec :: "PredicateSpec \<Rightarrow> json" where
  "json_predicate_spec p = JObj ([(''id'', JStr (pd_ID p))] @ omit_str ''resource'' (pd_Resource p) @ omit_str ''field'' (pd_Field p) @
     omit_str ''operator'' (pd_Operator p) @ omit_str ''value'' (pd_Value p))"

definition json_compensation_spec :: "CompensationSpec \<Rightarrow> json" where
  "json_compensation_spec c = JObj [(''tool_id'', JStr (cm_ToolID c)), (''predicate_id'', JStr (cm_PredicateID c))]"

definition json_verification_method :: "VerificationMethod \<Rightarrow> json" where
  "json_verification_method v = JObj [(''id'', JStr (vm_ID v)), (''evidence_class'', JStr (vm_EvidenceClass v))]"

definition json_compatibility_range :: "CompatibilityRange \<Rightarrow> json" where
  "json_compatibility_range r = JObj [(''minimum_inclusive'', JStr (rg_MinimumInclusive r)), (''maximum_exclusive'', JStr (rg_MaximumExclusive r))]"

definition json_tool_manifest :: "Manifest \<Rightarrow> json" where
  "json_tool_manifest m = JObj
     (omit_str ''id'' (mf_ID m) @
      [(''schema_version'', JStr (mf_SchemaVersion m)), (''tool_id'', JStr (mf_ToolID m)), (''version'', JStr (mf_Version m))] @
      omit_strs ''aliases'' (mf_Aliases m) @ omit_list ''inputs'' json_field_spec (mf_Inputs m) @
      omit_list ''outputs'' json_field_spec (mf_Outputs m) @ omit_list ''reads'' json_resource_spec (mf_Reads m) @
      omit_list ''writes'' json_resource_spec (mf_Writes m) @ omit_list ''effects'' json_effect_spec (mf_Effects m) @
      [(''side_effect'', JStr (mf_SideEffect m)), (''risk'', JStr (mf_Risk m)),
       (''idempotency'', json_idempotency_spec (mf_Idempotency m)), (''retry'', json_retry_spec (mf_Retry m))] @
      omit_list ''preconditions'' json_predicate_spec (mf_Preconditions m) @
      omit_list ''success_predicates'' json_predicate_spec (mf_SuccessPredicates m) @
      omit_opt ''compensation'' json_compensation_spec (mf_Compensation m) @
      omit_list ''verification_methods'' json_verification_method (mf_VerificationMethods m) @
      omit_list ''compatibility'' json_compatibility_range (mf_Compatibility m))"

section \<open>Canonical form\<close>

record semver =
  semver_IsValid :: "string \<Rightarrow> bool"
  semver_Canonical :: "string \<Rightarrow> string"
  semver_Compare :: "string \<Rightarrow> string \<Rightarrow> int"

text \<open>The faults of a manifest; the first argument of \<open>ErrInvalidManifest\<close> is the part the message names.\<close>

datatype manifest_fault =
    MissingIdentity | EmptyAlias | AliasNotUnique | BadField | DuplicateFieldName string
  | BadResource | UnknownResourceField string string | DuplicateResource string
  | BadEffect | DuplicateEffect
  | BadPredicate | UnknownPredicateResource string string | UnknownPredicateField string string | DuplicatePredicate string
  | MissingMethod | BadEvidenceClass | DuplicateMethod | BadRange | BadSemantics | BadCompensation | NotItsOwnHash

datatype contract_error =
    ErrInvalidManifest string manifest_fault | ErrVersionConflict | ErrAliasConflict | ErrInvalidQuery
  | ErrContractEncoding canonical_error

abbreviation token :: "externals \<Rightarrow> string \<Rightarrow> string" where "token ext s \<equiv> norm_NFC ext (TrimSpace s)"

definition canonicalVersion :: "semver \<Rightarrow> string \<Rightarrow> string" where
  "canonicalVersion sv raw =
     (let v = TrimSpace raw; withPrefix = (if starts_with ''v'' v then v else ''v'' @ v)
      in if \<not> semver_IsValid sv withPrefix then [] else TrimPrefix (semver_Canonical sv withPrefix) ''v'')"

definition validSanitizer :: "string \<Rightarrow> bool" where
  "validSanitizer s \<longleftrightarrow> s \<in> {''token'', ''text'', ''relative_path'', ''redact_secrets'', ''integer'', ''drop''}"

definition validSideEffect :: "string \<Rightarrow> bool" where
  "validSideEffect s \<longleftrightarrow> s \<in> {''none'', ''read'', ''write'', ''external'', ''irreversible''}"

definition validRisk :: "string \<Rightarrow> bool" where
  "validRisk s \<longleftrightarrow> s \<in> {''low'', ''medium'', ''high'', ''critical''}"

definition validIdempotency :: "externals \<Rightarrow> IdempotencySpec \<Rightarrow> string list \<Rightarrow> bool" where
  "validIdempotency ext v names =
     (if ip_Mode v \<noteq> ''guaranteed'' \<and> ip_Mode v \<noteq> ''conditional'' \<and> ip_Mode v \<noteq> ''none'' then False
      else if ip_Mode v = ''conditional'' then token ext (ip_KeyField v) \<in> set names
      else token ext (ip_KeyField v) = [])"

definition validRetry :: "RetrySpec \<Rightarrow> bool" where
  "validRetry v \<longleftrightarrow> rt_Mode v = ''never'' \<and> rt_MaximumAttempts v = 1 \<or>
     rt_Mode v = ''declared_transient_only'' \<and> rt_MaximumAttempts v > 0 \<and> rt_MaximumAttempts v \<le> 20"

text \<open>
  Each list of a manifest is walked with a set of the keys seen so far; the walk stops at the
  first fault. \<open>check_unique item check key\<close> is that loop: \<open>item\<close> normalises an entry, \<open>check\<close> names the
  fault of a normalised entry, \<open>key\<close> is what has to be unique, \<open>duplicate\<close> the fault when it is not.
\<close>

fun check_unique ::
  "('a \<Rightarrow> 'b) \<Rightarrow> ('b \<Rightarrow> manifest_fault option) \<Rightarrow> ('b \<Rightarrow> string) \<Rightarrow> ('b \<Rightarrow> manifest_fault) \<Rightarrow> string list \<Rightarrow> 'a list \<Rightarrow> manifest_fault + 'b list" where
  "check_unique item check key duplicate seen [] = Inr []"
| "check_unique item check key duplicate seen (x # xs) =
     (let y = item x
      in case check y of
           Some fault \<Rightarrow> Inl fault
         | None \<Rightarrow> if key y \<in> set seen then Inl (duplicate y)
             else res_bind (check_unique item check key duplicate (key y # seen) xs) (\<lambda>ys. Inr (y # ys)))"

definition field_item :: "externals \<Rightarrow> FieldSpec \<Rightarrow> FieldSpec" where
  "field_item ext f = \<lparr>fs_Name = token ext (fs_Name f), fs_Type = token ext (fs_Type f), fs_Required = fs_Required f,
     fs_Sanitizer = token ext (fs_Sanitizer f)\<rparr>"

definition field_fault :: "FieldSpec \<Rightarrow> manifest_fault option" where
  "field_fault f = (if fs_Name f = [] \<or> fs_Type f = [] \<or> \<not> validSanitizer (fs_Sanitizer f) then Some BadField else None)"

definition canonicalFields :: "externals \<Rightarrow> FieldSpec list \<Rightarrow> manifest_fault + FieldSpec list" where
  "canonicalFields ext source =
     res_bind (check_unique (field_item ext) field_fault fs_Name (\<lambda>f. DuplicateFieldName (fs_Name f)) [] source) (\<lambda>result.
     Inr (sort_slice (\<lambda>a b. fs_Name a < fs_Name b) result))"

definition resource_item :: "externals \<Rightarrow> ResourceSpec \<Rightarrow> ResourceSpec" where
  "resource_item ext r = \<lparr>rs_Name = token ext (rs_Name r), rs_Type = token ext (rs_Type r), rs_Namespace = token ext (rs_Namespace r),
     rs_Field = token ext (rs_Field r), rs_SchemaVersion = token ext (rs_SchemaVersion r)\<rparr>"

definition resource_fault :: "string list \<Rightarrow> ResourceSpec \<Rightarrow> manifest_fault option" where
  "resource_fault names r =
     (if rs_Name r = [] \<or> rs_Type r = [] \<or> rs_Namespace r = [] \<or> rs_Field r = [] then Some BadResource
      else if rs_Field r \<notin> set names then Some (UnknownResourceField (rs_Name r) (rs_Field r))
      else None)"

definition resource_key :: "ResourceSpec \<Rightarrow> string" where
  "resource_key r = rs_Namespace r @ NUL @ rs_Name r"

definition canonicalResources :: "externals \<Rightarrow> ResourceSpec list \<Rightarrow> string list \<Rightarrow> manifest_fault + ResourceSpec list" where
  "canonicalResources ext source names =
     res_bind (check_unique (resource_item ext) (resource_fault names) resource_key (\<lambda>r. DuplicateResource (rs_Name r)) [] source) (\<lambda>result.
     Inr (sort_slice (\<lambda>a b. resource_key a < resource_key b) result))"

definition effect_item :: "externals \<Rightarrow> EffectSpec \<Rightarrow> EffectSpec" where
  "effect_item ext e = \<lparr>ef_Name = token ext (ef_Name e), ef_Risk = token ext (ef_Risk e)\<rparr>"

definition effect_fault :: "EffectSpec \<Rightarrow> manifest_fault option" where
  "effect_fault e = (if ef_Name e = [] \<or> \<not> validRisk (ef_Risk e) then Some BadEffect else None)"

definition canonicalEffects :: "externals \<Rightarrow> EffectSpec list \<Rightarrow> manifest_fault + EffectSpec list" where
  "canonicalEffects ext source =
     res_bind (check_unique (effect_item ext) effect_fault ef_Name (\<lambda>_. DuplicateEffect) [] source) (\<lambda>result.
     Inr (sort_slice (\<lambda>a b. ef_Name a < ef_Name b) result))"

definition predicate_item :: "externals \<Rightarrow> PredicateSpec \<Rightarrow> PredicateSpec" where
  "predicate_item ext p = \<lparr>pd_ID = token ext (pd_ID p), pd_Resource = token ext (pd_Resource p), pd_Field = token ext (pd_Field p),
     pd_Operator = token ext (pd_Operator p), pd_Value = norm_NFC ext (pd_Value p)\<rparr>"

definition predicate_fault :: "string list \<Rightarrow> string list \<Rightarrow> PredicateSpec \<Rightarrow> manifest_fault option" where
  "predicate_fault names resources p =
     (if pd_ID p = [] \<or> pd_Resource p = [] \<and> pd_Field p = [] then Some BadPredicate
      else if pd_Resource p \<noteq> [] \<and> pd_Resource p \<notin> set resources then Some (UnknownPredicateResource (pd_ID p) (pd_Resource p))
      else if pd_Field p \<noteq> [] \<and> pd_Field p \<notin> set names then Some (UnknownPredicateField (pd_ID p) (pd_Field p))
      else None)"

definition canonicalPredicates :: "externals \<Rightarrow> PredicateSpec list \<Rightarrow> string list \<Rightarrow> string list \<Rightarrow> manifest_fault + PredicateSpec list" where
  "canonicalPredicates ext source names resources =
     res_bind (check_unique (predicate_item ext) (predicate_fault names resources) pd_ID (\<lambda>p. DuplicatePredicate (pd_ID p)) [] source) (\<lambda>result.
     Inr (sort_slice (\<lambda>a b. pd_ID a < pd_ID b) result))"

definition method_item :: "externals \<Rightarrow> VerificationMethod \<Rightarrow> VerificationMethod" where
  "method_item ext v = \<lparr>vm_ID = token ext (vm_ID v), vm_EvidenceClass = token ext (vm_EvidenceClass v)\<rparr>"

definition method_fault :: "VerificationMethod \<Rightarrow> manifest_fault option" where
  "method_fault v =
     (if vm_ID v = [] then Some MissingMethod
      else if vm_EvidenceClass v \<notin> {EvidenceClassIndependentVerifier, EvidenceClassGoalPredicate, EvidenceClassHarnessAssertion,
                EvidenceClassToolPostcondition, EvidenceClassExitStatusOrSelfReport} then Some BadEvidenceClass
      else None)"

definition canonicalVerifiers :: "externals \<Rightarrow> VerificationMethod list \<Rightarrow> manifest_fault + VerificationMethod list" where
  "canonicalVerifiers ext source =
     res_bind (check_unique (method_item ext) method_fault vm_ID (\<lambda>_. DuplicateMethod) [] source) (\<lambda>result.
     Inr (sort_slice (\<lambda>a b. vm_ID a < vm_ID b) result))"

definition range_item :: "semver \<Rightarrow> CompatibilityRange \<Rightarrow> manifest_fault + CompatibilityRange" where
  "range_item sv r =
     (let r' = \<lparr>rg_MinimumInclusive = canonicalVersion sv (rg_MinimumInclusive r), rg_MaximumExclusive = canonicalVersion sv (rg_MaximumExclusive r)\<rparr>
      in if rg_MinimumInclusive r' = [] \<or> rg_MaximumExclusive r' = [] \<or>
            semver_Compare sv (''v'' @ rg_MinimumInclusive r') (''v'' @ rg_MaximumExclusive r') \<ge> 0
         then Inl BadRange else Inr r')"

definition range_less :: "semver \<Rightarrow> CompatibilityRange \<Rightarrow> CompatibilityRange \<Rightarrow> bool" where
  "range_less sv a b =
     (if rg_MinimumInclusive a = rg_MinimumInclusive b
      then semver_Compare sv (''v'' @ rg_MaximumExclusive a) (''v'' @ rg_MaximumExclusive b) < 0
      else semver_Compare sv (''v'' @ rg_MinimumInclusive a) (''v'' @ rg_MinimumInclusive b) < 0)"

definition canonicalRanges :: "semver \<Rightarrow> CompatibilityRange list \<Rightarrow> manifest_fault + CompatibilityRange list" where
  "canonicalRanges sv source = res_bind (res_map (range_item sv) source) (\<lambda>result. Inr (sort_slice (range_less sv) result))"

fun alias_loop :: "externals \<Rightarrow> string list \<Rightarrow> string list \<Rightarrow> manifest_fault + string list" where
  "alias_loop ext seen [] = Inr []"
| "alias_loop ext seen (x # xs) =
     (let y = token ext x
      in if y = [] then Inl EmptyAlias else if y \<in> set seen then Inl AliasNotUnique
         else res_bind (alias_loop ext (y # seen) xs) (\<lambda>ys. Inr (y # ys)))"

definition canonicalStrings :: "externals \<Rightarrow> string list \<Rightarrow> string \<Rightarrow> manifest_fault + string list" where
  "canonicalStrings ext source forbidden = res_bind (alias_loop ext [forbidden] source) (\<lambda>result. Inr (sort result))"

definition in_part :: "string \<Rightarrow> manifest_fault + 'a \<Rightarrow> contract_error + 'a" where
  "in_part part r = (case r of Inl fault \<Rightarrow> Inl (ErrInvalidManifest part fault) | Inr x \<Rightarrow> Inr x)"

definition compensation_item :: "externals \<Rightarrow> CompensationSpec option \<Rightarrow> manifest_fault + CompensationSpec option" where
  "compensation_item ext c =
     (case c of
        None \<Rightarrow> Inr None
      | Some c \<Rightarrow>
          (let c' = \<lparr>cm_ToolID = token ext (cm_ToolID c), cm_PredicateID = token ext (cm_PredicateID c)\<rparr>
           in if cm_ToolID c' = [] \<or> cm_PredicateID c' = [] then Inl BadCompensation else Inr (Some c')))"

text \<open>Everything that \<^verbatim>\<open>Canonicalize\<close> does before it hashes.\<close>

definition canonical_body :: "externals \<Rightarrow> semver \<Rightarrow> Manifest \<Rightarrow> contract_error + Manifest" where
  "canonical_body ext sv source =
     (let manifest = source\<lparr>mf_ID := [], mf_ContentHash := [], mf_SchemaVersion := token ext (mf_SchemaVersion source),
            mf_ToolID := token ext (mf_ToolID source), mf_Version := canonicalVersion sv (mf_Version source)\<rparr>
      in if mf_SchemaVersion manifest = [] \<or> mf_ToolID manifest = [] \<or> mf_Version manifest = []
         then Inl (ErrInvalidManifest [] MissingIdentity)
         else
           res_bind (in_part [] (canonicalStrings ext (mf_Aliases source) (mf_ToolID manifest))) (\<lambda>aliases.
           res_bind (in_part ''inputs'' (canonicalFields ext (mf_Inputs source))) (\<lambda>inputs.
           res_bind (in_part ''outputs'' (canonicalFields ext (mf_Outputs source))) (\<lambda>outputs.
           let names = map fs_Name (inputs @ outputs) in
           res_bind (in_part ''reads'' (canonicalResources ext (mf_Reads source) names)) (\<lambda>reads.
           res_bind (in_part ''writes'' (canonicalResources ext (mf_Writes source) names)) (\<lambda>writes.
           res_bind (in_part [] (canonicalEffects ext (mf_Effects source))) (\<lambda>effects.
           let resources = map rs_Name (reads @ writes) in
           res_bind (in_part ''preconditions'' (canonicalPredicates ext (mf_Preconditions source) names resources)) (\<lambda>preconditions.
           res_bind (in_part ''success predicates'' (canonicalPredicates ext (mf_SuccessPredicates source) names resources)) (\<lambda>successes.
           res_bind (in_part [] (canonicalVerifiers ext (mf_VerificationMethods source))) (\<lambda>methods.
           res_bind (in_part [] (canonicalRanges sv (mf_Compatibility source))) (\<lambda>ranges.
           if \<not> validSideEffect (mf_SideEffect manifest) \<or> \<not> validRisk (mf_Risk manifest) \<or>
              \<not> validIdempotency ext (mf_Idempotency manifest) names \<or> \<not> validRetry (mf_Retry manifest)
           then Inl (ErrInvalidManifest [] BadSemantics)
           else res_bind (in_part [] (compensation_item ext (mf_Compensation source))) (\<lambda>compensation.
             Inr (manifest\<lparr>mf_Aliases := aliases, mf_Inputs := inputs, mf_Outputs := outputs, mf_Reads := reads, mf_Writes := writes,
               mf_Effects := effects, mf_Preconditions := preconditions, mf_SuccessPredicates := successes, mf_Compensation := compensation,
               mf_VerificationMethods := methods, mf_Compatibility := ranges\<rparr>)))))))))))))"

definition Canonicalize :: "externals \<Rightarrow> semver \<Rightarrow> Manifest \<Rightarrow> contract_error + Manifest" where
  "Canonicalize ext sv source =
     res_bind (canonical_body ext sv source) (\<lambda>manifest.
       case MarshalAndHash ext (json_tool_manifest manifest) of
         Inl e \<Rightarrow> Inl (ErrContractEncoding e)
       | Inr (_, hash) \<Rightarrow> Inr (manifest\<lparr>mf_ID := ''tcv_'' @ hash, mf_ContentHash := hash\<rparr>))"

section \<open>The registry\<close>

record MemoryRegistry =
  rg_byKey :: "(string \<times> Manifest) list"
  rg_names :: "(string \<times> string) list"
  rg_versions :: "(string \<times> string list) list"

definition NewMemoryRegistry :: MemoryRegistry where
  "NewMemoryRegistry = \<lparr>rg_byKey = [], rg_names = [], rg_versions = []\<rparr>"

definition contractKey :: "string \<Rightarrow> string \<Rightarrow> string" where
  "contractKey toolID version = toolID @ NUL @ version"

definition newer :: "semver \<Rightarrow> string \<Rightarrow> string \<Rightarrow> bool" where
  "newer sv v w \<longleftrightarrow> semver_Compare sv (''v'' @ v) (''v'' @ w) > 0"

definition versions_of :: "MemoryRegistry \<Rightarrow> string \<Rightarrow> string list" where
  "versions_of r tool = (case map_of (rg_versions r) tool of Some vs \<Rightarrow> vs | None \<Rightarrow> [])"

definition add_contract :: "semver \<Rightarrow> Manifest \<Rightarrow> MemoryRegistry \<Rightarrow> MemoryRegistry" where
  "add_contract sv m r =
     \<lparr>rg_byKey = AList.update (contractKey (mf_ToolID m) (mf_Version m)) m (rg_byKey r),
      rg_names = fold (\<lambda>name. AList.update name (mf_ToolID m)) (mf_ToolID m # mf_Aliases m) (rg_names r),
      rg_versions = AList.update (mf_ToolID m) (sort_slice (newer sv) (versions_of r (mf_ToolID m) @ [mf_Version m])) (rg_versions r)\<rparr>"

definition Register :: "externals \<Rightarrow> semver \<Rightarrow> Manifest \<Rightarrow> MemoryRegistry \<Rightarrow> (contract_error + unit) \<times> MemoryRegistry" where
  "Register ext sv manifest r =
     (case Canonicalize ext sv manifest of
        Inl e \<Rightarrow> (Inl e, r)
      | Inr c \<Rightarrow>
          if mf_ID manifest \<noteq> [] \<and> (mf_ID manifest \<noteq> mf_ID c \<or> mf_ContentHash manifest \<noteq> mf_ContentHash c)
            then (Inl (ErrInvalidManifest [] NotItsOwnHash), r)
          else case map_of (rg_byKey r) (contractKey (mf_ToolID c) (mf_Version c)) of
            Some existing \<Rightarrow> (if mf_ID existing = mf_ID c then Inr () else Inl ErrVersionConflict, r)
          | None \<Rightarrow>
              if \<exists>name \<in> set (mf_ToolID c # mf_Aliases c). case map_of (rg_names r) name of Some owner \<Rightarrow> owner \<noteq> mf_ToolID c | None \<Rightarrow> False
                then (Inl ErrAliasConflict, r)
              else (Inr (), add_contract sv c r))"

definition supports :: "semver \<Rightarrow> Manifest \<Rightarrow> string \<Rightarrow> bool" where
  "supports sv m version =
     list_ex (\<lambda>item. semver_Compare sv (''v'' @ version) (''v'' @ rg_MinimumInclusive item) \<ge> 0 \<and>
       semver_Compare sv (''v'' @ version) (''v'' @ rg_MaximumExclusive item) < 0) (mf_Compatibility m)"

definition empty_manifest :: Manifest where
  "empty_manifest = \<lparr>mf_ID = [], mf_SchemaVersion = [], mf_ToolID = [], mf_Version = [], mf_Aliases = [], mf_Inputs = [], mf_Outputs = [],
     mf_Reads = [], mf_Writes = [], mf_Effects = [], mf_SideEffect = [], mf_Risk = [], mf_Idempotency = \<lparr>ip_Mode = [], ip_KeyField = []\<rparr>,
     mf_Retry = \<lparr>rt_Mode = [], rt_MaximumAttempts = 0\<rparr>, mf_Preconditions = [], mf_SuccessPredicates = [], mf_Compensation = None,
     mf_VerificationMethods = [], mf_Compatibility = [], mf_ContentHash = []\<rparr>"

definition opaque_manifest :: "string \<Rightarrow> string \<Rightarrow> Manifest" where
  "opaque_manifest name version = empty_manifest\<lparr>mf_SchemaVersion := ''tool-contract.opaque.v1'', mf_ToolID := name, mf_Version := version,
     mf_SideEffect := ''irreversible'', mf_Risk := ''critical'', mf_Idempotency := \<lparr>ip_Mode = ''none'', ip_KeyField = []\<rparr>,
     mf_Retry := \<lparr>rt_Mode = ''never'', rt_MaximumAttempts = 1\<rparr>\<rparr>"

definition opaqueResolution :: "externals \<Rightarrow> string \<Rightarrow> string \<Rightarrow> contract_error + Resolution" where
  "opaqueResolution ext name version =
     (let manifest = opaque_manifest name version
      in case MarshalAndHash ext (json_tool_manifest manifest) of
           Inl e \<Rightarrow> Inl (ErrContractEncoding e)
         | Inr (_, hash) \<Rightarrow> Inr \<lparr>rn_Manifest = manifest\<lparr>mf_ID := ''opaque_'' @ hash, mf_ContentHash := hash\<rparr>, rn_Opaque = True,
             rn_AutoPromotable = False\<rparr>)"

text \<open>The manifest of a registered version; a missing key reads as the zero manifest.\<close>

definition contract_at :: "MemoryRegistry \<Rightarrow> string \<Rightarrow> string \<Rightarrow> Manifest" where
  "contract_at r tool version = (case map_of (rg_byKey r) (contractKey tool version) of Some m \<Rightarrow> m | None \<Rightarrow> empty_manifest)"

definition lookup_contract :: "semver \<Rightarrow> MemoryRegistry \<Rightarrow> string \<Rightarrow> string \<Rightarrow> Manifest option" where
  "lookup_contract sv r name version =
     (case map_of (rg_names r) name of
        None \<Rightarrow> None
      | Some tool \<Rightarrow>
          if version = [] then None
          else case map_of (rg_byKey r) (contractKey tool version) of
            Some m \<Rightarrow> Some m
          | None \<Rightarrow> find (\<lambda>m. supports sv m version) (map (contract_at r tool) (versions_of r tool)))"

definition Resolve :: "externals \<Rightarrow> semver \<Rightarrow> MemoryRegistry \<Rightarrow> Query \<Rightarrow> contract_error + Resolution" where
  "Resolve ext sv r query =
     (let name = token ext (q_Name query); version = canonicalVersion sv (q_Version query)
      in if name = [] then Inl ErrInvalidQuery
         else case lookup_contract sv r name version of
           Some m \<Rightarrow> Inr \<lparr>rn_Manifest = m, rn_Opaque = False, rn_AutoPromotable = True\<rparr>
         | None \<Rightarrow> opaqueResolution ext name (token ext (q_Version query)))"

end
