(* ===== verification/Causal_Graph.thy ===== *)
theory Causal_Graph
  imports Tool_Contracts Topological
begin

text \<open>
  \<^verbatim>\<open>internal/synthesis/graph.go\<close> and \<^verbatim>\<open>builder.go\<close>: the causal graph of a trace. Every event becomes a node
  with the resources its tool contract declares; a read of a resource is linked to the last
  event before it that wrote the resource, and the caller declares control and verifier
  dependencies. The registry of contracts is the interface \<^verbatim>\<open>toolcontract.Registry\<close>, here the function
  \<open>resolve\<close>.
\<close>

section \<open>Graphs\<close>

abbreviation "EdgeResourceFlow \<equiv> ''resource_flow''"
abbreviation "EdgeControl \<equiv> ''control''"
abbreviation "EdgeVerifier \<equiv> ''verifier''"

record Resource =
  re_ID :: string
  re_Name :: string
  re_Type :: string
  re_Namespace :: string
  re_IdentityHash :: string
  re_SchemaVersion :: string

record PredicateReference =
  pn_ID :: string
  pn_ResourceName :: string

record Node =
  nd_ID :: string
  nd_Position :: uint32
  nd_ToolName :: string
  nd_ToolVersion :: string
  nd_ToolContractVersionID :: string
  nd_Opaque :: bool
  nd_Succeeded :: bool
  nd_SideEffect :: string
  nd_Risk :: string
  nd_Effects :: "string list"
  nd_CompensationBoundary :: bool
  nd_Preconditions :: "PredicateReference list"
  nd_SuccessPredicates :: "string list"
  nd_VerificationMethods :: "string list"
  nd_Reads :: "Resource list"
  nd_Writes :: "Resource list"

record Edge =
  eg_From :: string
  eg_To :: string
  eg_Type :: string
  eg_ResourceID :: string
  eg_ResourceName :: string
  eg_ResourceType :: string
  eg_ResourceNamespace :: string

record Graph =
  gr_SchemaVersion :: string
  gr_TraceID :: string
  gr_Nodes :: "Node list"
  gr_Edges :: "Edge list"
  gr_AutoPromotable :: bool
  gr_Hash :: string

record DeclaredDependency =
  dd_Prerequisite :: string
  dd_Dependent :: string

record BuildRequest =
  br_Batch :: CanonicalBatch
  br_ControlDependencies :: "DeclaredDependency list"
  br_VerifierDependencies :: "DeclaredDependency list"

datatype graph_error =
    ErrInvalidBuildRequest | ErrMissingResource string | ErrUnknownDependency | ErrCausalCycle
  | ErrResolveContract contract_error | ErrHashGraph canonical_error

definition json_resource :: "Resource \<Rightarrow> json" where
  "json_resource r = JObj ([(''id'', JStr (re_ID r)), (''name'', JStr (re_Name r)), (''type'', JStr (re_Type r)),
     (''namespace'', JStr (re_Namespace r)), (''identity_hash'', JStr (re_IdentityHash r))] @ omit_str ''schema_version'' (re_SchemaVersion r))"

definition json_predicate_reference :: "PredicateReference \<Rightarrow> json" where
  "json_predicate_reference p = JObj ([(''id'', JStr (pn_ID p))] @ omit_str ''resource_name'' (pn_ResourceName p))"

definition json_node :: "Node \<Rightarrow> json" where
  "json_node n = JObj
     ([(''id'', JStr (nd_ID n)), (''position'', JNum (uint (nd_Position n))), (''tool_name'', JStr (nd_ToolName n)),
       (''tool_version'', JStr (nd_ToolVersion n)), (''tool_contract_version_id'', JStr (nd_ToolContractVersionID n)),
       (''opaque'', JBool (nd_Opaque n)), (''succeeded'', JBool (nd_Succeeded n)), (''side_effect'', JStr (nd_SideEffect n)),
       (''risk'', JStr (nd_Risk n))] @ omit_strs ''effects'' (nd_Effects n) @ [(''compensation_boundary'', JBool (nd_CompensationBoundary n))] @
      omit_list ''preconditions'' json_predicate_reference (nd_Preconditions n) @ omit_strs ''success_predicates'' (nd_SuccessPredicates n) @
      omit_strs ''verification_methods'' (nd_VerificationMethods n) @ omit_list ''reads'' json_resource (nd_Reads n) @
      omit_list ''writes'' json_resource (nd_Writes n))"

definition json_edge :: "Edge \<Rightarrow> json" where
  "json_edge e = JObj ([(''from'', JStr (eg_From e)), (''to'', JStr (eg_To e)), (''type'', JStr (eg_Type e))] @
     omit_str ''resource_id'' (eg_ResourceID e) @ omit_str ''resource_name'' (eg_ResourceName e) @
     omit_str ''resource_type'' (eg_ResourceType e) @ omit_str ''resource_namespace'' (eg_ResourceNamespace e))"

definition json_graph :: "Graph \<Rightarrow> json" where
  "json_graph g = JObj ([(''schema_version'', JStr (gr_SchemaVersion g)), (''trace_id'', JStr (gr_TraceID g)),
     (''nodes'', JArr (map json_node (gr_Nodes g)))] @ omit_list ''edges'' json_edge (gr_Edges g) @
     [(''auto_promotable'', JBool (gr_AutoPromotable g))])"

section \<open>Nodes\<close>

text \<open>\<^verbatim>\<open>values\<close>, a Go map: a later field, and any field of the evidence, overrides an earlier one of the same name.\<close>

definition event_values :: "CanonicalEvent \<Rightarrow> string \<rightharpoonup> string" where
  "event_values event = map_of (rev (map (\<lambda>f. (cf_Name f, cf_Value f))
     (ce_Fields event @ (case ce_Result event of None \<Rightarrow> [] | Some result \<Rightarrow> cr_Evidence result))))"

definition resource_for :: "externals \<Rightarrow> string \<Rightarrow> (string \<rightharpoonup> string) \<Rightarrow> ResourceSpec \<Rightarrow> graph_error + Resource" where
  "resource_for ext tenantID values spec =
     (case values (rs_Field spec) of
        None \<Rightarrow> Inl (ErrMissingResource (rs_Name spec))
      | Some v \<Rightarrow>
          if v = [] then Inl (ErrMissingResource (rs_Name spec))
          else let identityHash = hash_bytes ext (tenantID @ NUL @ rs_Namespace spec @ NUL @ rs_Type spec @ NUL @ v)
            in Inr \<lparr>re_ID = ''res_'' @ identityHash, re_Name = rs_Name spec, re_Type = rs_Type spec, re_Namespace = rs_Namespace spec,
                 re_IdentityHash = identityHash, re_SchemaVersion = rs_SchemaVersion spec\<rparr>)"

definition resourcesFor :: "externals \<Rightarrow> string \<Rightarrow> ResourceSpec list \<Rightarrow> (string \<rightharpoonup> string) \<Rightarrow> graph_error + Resource list" where
  "resourcesFor ext tenantID specs values =
     res_bind (res_map (resource_for ext tenantID values) specs) (\<lambda>result. Inr (sort_slice (\<lambda>a b. re_ID a < re_ID b) result))"

definition reference_less :: "PredicateReference \<Rightarrow> PredicateReference \<Rightarrow> bool" where
  "reference_less a b = (if pn_ID a \<noteq> pn_ID b then pn_ID a < pn_ID b else pn_ResourceName a < pn_ResourceName b)"

definition node_of_event :: "CanonicalEvent \<Rightarrow> Resolution \<Rightarrow> Node" where
  "node_of_event event resolved =
     (let m = rn_Manifest resolved
      in \<lparr>nd_ID = ce_ID event, nd_Position = ce_Position event, nd_ToolName = ce_ToolName event, nd_ToolVersion = ce_ToolVersion event,
          nd_ToolContractVersionID = mf_ID m, nd_Opaque = rn_Opaque resolved,
          nd_Succeeded = (case ce_Result event of None \<Rightarrow> False | Some result \<Rightarrow> cr_State result = ''TOOL_RESULT_STATE_SUCCESS''),
          nd_SideEffect = mf_SideEffect m, nd_Risk = mf_Risk m, nd_Effects = sort (map ef_Name (mf_Effects m)),
          nd_CompensationBoundary = (mf_Compensation m \<noteq> None),
          nd_Preconditions = sort_slice reference_less (map (\<lambda>p. \<lparr>pn_ID = pd_ID p, pn_ResourceName = pd_Resource p\<rparr>) (mf_Preconditions m)),
          nd_SuccessPredicates = sort (map pd_ID (mf_SuccessPredicates m)), nd_VerificationMethods = sort (map vm_ID (mf_VerificationMethods m)),
          nd_Reads = [], nd_Writes = []\<rparr>)"

definition buildNode :: "externals \<Rightarrow> string \<Rightarrow> CanonicalEvent \<Rightarrow> Resolution \<Rightarrow> graph_error + Node" where
  "buildNode ext tenantID event resolved =
     (let node = node_of_event event resolved
      in if rn_Opaque resolved then Inr node
         else let values = event_values event in
           res_bind (resourcesFor ext tenantID (mf_Reads (rn_Manifest resolved)) values) (\<lambda>reads.
           res_bind (resourcesFor ext tenantID (mf_Writes (rn_Manifest resolved)) values) (\<lambda>writes.
           Inr (node\<lparr>nd_Reads := reads, nd_Writes := writes\<rparr>))))"

section \<open>Edges\<close>

definition edge_key :: "Edge \<Rightarrow> string" where
  "edge_key e = eg_From e @ NUL @ eg_To e @ NUL @ eg_Type e @ NUL @ eg_ResourceID e @ NUL @ eg_ResourceNamespace e @ NUL @
     eg_ResourceType e @ NUL @ eg_ResourceName e"

definition addEdge :: "Edge \<Rightarrow> (string \<times> Edge) list \<Rightarrow> (string \<times> Edge) list" where
  "addEdge e edges = AList.update (edge_key e) e edges"

definition declared_edge :: "string \<Rightarrow> DeclaredDependency \<Rightarrow> Edge" where
  "declared_edge edgeType d = \<lparr>eg_From = dd_Prerequisite d, eg_To = dd_Dependent d, eg_Type = edgeType, eg_ResourceID = [], eg_ResourceName = [],
     eg_ResourceType = [], eg_ResourceNamespace = []\<rparr>"

fun addDeclaredEdges ::
  "(string \<times> Edge) list \<Rightarrow> (string \<times> nat) list \<Rightarrow> DeclaredDependency list \<Rightarrow> string \<Rightarrow> graph_error + (string \<times> Edge) list" where
  "addDeclaredEdges edges positions [] edgeType = Inr edges"
| "addDeclaredEdges edges positions (d # ds) edgeType =
     (if dd_Prerequisite d = dd_Dependent d then Inl ErrCausalCycle
      else if map_of positions (dd_Prerequisite d) = None then Inl ErrUnknownDependency
      else if map_of positions (dd_Dependent d) = None then Inl ErrUnknownDependency
      else addDeclaredEdges (addEdge (declared_edge edgeType d) edges) positions ds edgeType)"

text \<open>A missing key of \<^verbatim>\<open>positions\<close> reads as zero.\<close>

definition position_in :: "(string \<times> nat) list \<Rightarrow> string \<Rightarrow> nat" where
  "position_in positions event = (case map_of positions event of Some i \<Rightarrow> i | None \<Rightarrow> 0)"

definition edge_less :: "(string \<times> nat) list \<Rightarrow> Edge \<Rightarrow> Edge \<Rightarrow> bool" where
  "edge_less positions a b =
     (if position_in positions (eg_From a) \<noteq> position_in positions (eg_From b) then position_in positions (eg_From a) < position_in positions (eg_From b)
      else if position_in positions (eg_To a) \<noteq> position_in positions (eg_To b) then position_in positions (eg_To a) < position_in positions (eg_To b)
      else edge_key a < edge_key b)"

definition sortEdges :: "(string \<times> nat) list \<Rightarrow> Edge list \<Rightarrow> Edge list" where
  "sortEdges positions edges = sort_slice (edge_less positions) edges"

definition edge_ends :: "Edge \<Rightarrow> arrow" where "edge_ends e = (eg_From e, eg_To e)"

definition hasCycle :: "Node list \<Rightarrow> Edge list \<Rightarrow> bool" where
  "hasCycle nodes edges =
     (let arrows = map edge_ends edges; ids = map nd_ID nodes; indegree = indegrees arrows;
          visited = length (kahn False arrows indegree (queue_order False (filter (\<lambda>n. indegree n = 0) ids)) [])
      in visited \<noteq> length nodes)"

section \<open>The builder\<close>

record build_state =
  bs_nodes :: "Node list"
  bs_positions :: "(string \<times> nat) list"
  bs_lastWriter :: "(string \<times> string) list"
  bs_edges :: "(string \<times> Edge) list"
  bs_auto :: bool

definition flow_edge :: "string \<Rightarrow> string \<Rightarrow> Resource \<Rightarrow> Edge" where
  "flow_edge producer consumer r = \<lparr>eg_From = producer, eg_To = consumer, eg_Type = EdgeResourceFlow, eg_ResourceID = re_ID r,
     eg_ResourceName = re_Name r, eg_ResourceType = re_Type r, eg_ResourceNamespace = re_Namespace r\<rparr>"

definition link_read :: "(string \<times> string) list \<Rightarrow> string \<Rightarrow> Resource \<Rightarrow> (string \<times> Edge) list \<Rightarrow> (string \<times> Edge) list" where
  "link_read lastWriter consumer r edges =
     (case map_of lastWriter (re_ID r) of None \<Rightarrow> edges | Some producer \<Rightarrow> addEdge (flow_edge producer consumer r) edges)"

definition add_node :: "Node \<Rightarrow> build_state \<Rightarrow> build_state" where
  "add_node node s =
     s\<lparr>bs_nodes := bs_nodes s @ [node],
       bs_positions := (nd_ID node, length (bs_nodes s)) # bs_positions s,
       bs_edges := fold (link_read (bs_lastWriter s) (nd_ID node)) (nd_Reads node) (bs_edges s),
       bs_lastWriter := fold (\<lambda>r. AList.update (re_ID r) (nd_ID node)) (nd_Writes node) (bs_lastWriter s),
       bs_auto := bs_auto s \<and> \<not> nd_Opaque node\<rparr>"

definition add_event ::
  "externals \<Rightarrow> (Query \<Rightarrow> contract_error + Resolution) \<Rightarrow> string \<Rightarrow> build_state \<Rightarrow> CanonicalEvent \<Rightarrow> graph_error + build_state" where
  "add_event ext resolve tenantID s event =
     (if ce_ID event = [] \<or> ce_Position event \<noteq> of_nat (length (bs_nodes s)) then Inl ErrInvalidBuildRequest
      else if map_of (bs_positions s) (ce_ID event) \<noteq> None then Inl ErrInvalidBuildRequest
      else case resolve \<lparr>q_Name = ce_ToolName event, q_Version = ce_ToolVersion event\<rparr> of
        Inl e \<Rightarrow> Inl (ErrResolveContract e)
      | Inr resolved \<Rightarrow> res_bind (buildNode ext tenantID event resolved) (\<lambda>node. Inr (add_node node s)))"

definition empty_build :: build_state where
  "empty_build = \<lparr>bs_nodes = [], bs_positions = [], bs_lastWriter = [], bs_edges = [], bs_auto = True\<rparr>"

definition finish_graph :: "externals \<Rightarrow> Graph \<Rightarrow> graph_error + Graph" where
  "finish_graph ext graph =
     (if hasCycle (gr_Nodes graph) (gr_Edges graph) then Inl ErrCausalCycle
      else case MarshalAndHash ext (json_graph graph) of
        Inl e \<Rightarrow> Inl (ErrHashGraph e)
      | Inr (_, hash) \<Rightarrow> Inr (graph\<lparr>gr_Hash := hash\<rparr>))"

definition Build :: "externals \<Rightarrow> (Query \<Rightarrow> contract_error + Resolution) \<Rightarrow> BuildRequest \<Rightarrow> graph_error + Graph" where
  "Build ext resolve request =
     (let batch = br_Batch request
      in if cb_TenantID batch = [] \<or> ct_ID (cb_Trace batch) = [] \<or> cb_Events batch = [] then Inl ErrInvalidBuildRequest
         else
           res_bind (res_fold (add_event ext resolve (cb_TenantID batch)) empty_build (cb_Events batch)) (\<lambda>s.
           res_bind (addDeclaredEdges (bs_edges s) (bs_positions s) (br_ControlDependencies request) EdgeControl) (\<lambda>edges.
           res_bind (addDeclaredEdges edges (bs_positions s) (br_VerifierDependencies request) EdgeVerifier) (\<lambda>edges.
           let graph = \<lparr>gr_SchemaVersion = ''causal-graph.v3'', gr_TraceID = ct_ID (cb_Trace batch), gr_Nodes = bs_nodes s,
                 gr_Edges = sortEdges (bs_positions s) (map snd edges), gr_AutoPromotable = bs_auto s, gr_Hash = []\<rparr>
           in finish_graph ext graph))))"

end
