(* ===== verification/Synthesis.thy ===== *)
theory Synthesis
  imports Causal_Graph
begin

text \<open>
  \<^verbatim>\<open>internal/synthesis/synthesizer.go\<close>: from a causal graph and a verified outcome to the steps of a
  procedure. The events that prove the goals, and everything they depend on, are kept; other
  successful events are kept as uncertain unless they are known to be irrelevant; failed branches
  become negative paths. Where the code cannot justify a procedure it abstains with a code.
\<close>

section \<open>Requests and results\<close>

record GoalRequirement =
  gq_PredicateID :: string
  gq_VerifierNodes :: "string list"

record FailedBranch =
  fb_FailurePredicateID :: string
  fb_EventIDs :: "string list"
  fb_Scope :: CompatibilityScope

record Versions =
  vs_Sanitizer :: string
  vs_Registry :: string
  vs_Policy :: string
  vs_GraphBuilder :: string
  vs_Synthesizer :: string

definition versions_valid :: "Versions \<Rightarrow> bool" where
  "versions_valid v \<longleftrightarrow> vs_Sanitizer v \<noteq> [] \<and> vs_Registry v \<noteq> [] \<and> vs_Policy v \<noteq> [] \<and> vs_GraphBuilder v \<noteq> [] \<and> vs_Synthesizer v \<noteq> []"

record Request =
  sq_Graph :: Graph
  sq_OutcomeState :: string
  sq_Goals :: "GoalRequirement list"
  sq_RequiredEffects :: "string list"
  sq_IrrelevantNodes :: "string list"
  sq_FailedBranches :: "FailedBranch list"
  sq_Versions :: Versions

record Result =
  sr_SchemaVersion :: string
  sr_Status :: string
  sr_AbstentionCode :: string
  sr_TraceID :: string
  sr_CausalGraphHash :: string
  sr_Steps :: "ProcedureStep list"
  sr_Edges :: "Edge list"
  sr_NegativePaths :: "NegativePath list"
  sr_GoalPredicates :: "string list"
  sr_Versions :: Versions
  sr_ObservedEndToEnd :: bool
  sr_Hash :: string

abbreviation "StatusSynthesized \<equiv> ''synthesized''"
abbreviation "StatusAbstained \<equiv> ''abstained''"

datatype synthesis_error = ErrInvalidSynthesisRequest | ErrHashSynthesis canonical_error

definition json_procedure_resource :: "ProcedureResource \<Rightarrow> json" where
  "json_procedure_resource r = JObj ([(''id'', JStr (pr_ID r)), (''name'', JStr (pr_Name r)), (''type'', JStr (pr_Type r)),
     (''namespace'', JStr (pr_Namespace r)), (''identity_hash'', JStr (pr_IdentityHash r))] @ omit_str ''schema_version'' (pr_SchemaVersion r))"

definition json_procedure_predicate :: "ProcedurePredicate \<Rightarrow> json" where
  "json_procedure_predicate p = JObj ([(''id'', JStr (pp_ID p))] @ omit_str ''resource_name'' (pp_ResourceName p))"

definition json_procedure_step :: "ProcedureStep \<Rightarrow> json" where
  "json_procedure_step s = JObj
     ([(''event_id'', JStr (ps_EventID s)), (''ordinal'', JNum (uint (ps_Ordinal s))), (''original_position'', JNum (uint (ps_OriginalPosition s))),
       (''tool_name'', JStr (ps_ToolName s))] @ omit_str ''tool_version'' (ps_ToolVersion s) @
      [(''tool_contract_version_id'', JStr (ps_ToolContractVersionID s)), (''uncertain_necessity'', JBool (ps_UncertainNecessity s)),
       (''compensation_boundary'', JBool (ps_CompensationBoundary s)), (''side_effect'', JStr (ps_SideEffect s)), (''risk'', JStr (ps_Risk s))] @
      omit_strs ''effects'' (ps_Effects s) @ omit_list ''preconditions'' json_procedure_predicate (ps_Preconditions s) @
      omit_strs ''success_predicates'' (ps_SuccessPredicates s) @ omit_strs ''verification_methods'' (ps_VerificationMethods s) @
      omit_list ''reads'' json_procedure_resource (ps_Reads s) @ omit_list ''writes'' json_procedure_resource (ps_Writes s))"

definition json_scope :: "CompatibilityScope \<Rightarrow> json" where
  "json_scope s = JObj [(''environment_hash'', JStr (cs_EnvironmentHash s)), (''tool_hash'', JStr (cs_ToolHash s)), (''resource_hash'', JStr (cs_ResourceHash s))]"

definition json_negative_path :: "NegativePath \<Rightarrow> json" where
  "json_negative_path p = JObj [(''id'', JStr (np_ID p)), (''failure_predicate_id'', JStr (np_FailurePredicateID p)),
     (''event_ids'', JArr (map JStr (np_EventIDs p))), (''scope'', json_scope (np_Scope p))]"

definition json_versions :: "Versions \<Rightarrow> json" where
  "json_versions v = JObj [(''sanitizer'', JStr (vs_Sanitizer v)), (''registry'', JStr (vs_Registry v)), (''policy'', JStr (vs_Policy v)),
     (''graph_builder'', JStr (vs_GraphBuilder v)), (''synthesizer'', JStr (vs_Synthesizer v))]"

definition json_synthesis :: "Result \<Rightarrow> json" where
  "json_synthesis r = JObj
     ([(''schema_version'', JStr (sr_SchemaVersion r)), (''status'', JStr (sr_Status r))] @ omit_str ''abstention_code'' (sr_AbstentionCode r) @
      [(''trace_id'', JStr (sr_TraceID r)), (''causal_graph_hash'', JStr (sr_CausalGraphHash r))] @
      omit_list ''steps'' json_procedure_step (sr_Steps r) @ omit_list ''edges'' json_edge (sr_Edges r) @
      omit_list ''negative_paths'' json_negative_path (sr_NegativePaths r) @ omit_strs ''goal_predicates'' (sr_GoalPredicates r) @
      [(''versions'', json_versions (sr_Versions r)), (''observed_end_to_end'', JBool (sr_ObservedEndToEnd r))])"

section \<open>Canonical metadata of a step\<close>

definition lowerHex :: "string \<Rightarrow> bool" where "lowerHex s = list_all is_hex_char s"

fun string_set_loop :: "string list \<Rightarrow> synthesis_error + string list" where
  "string_set_loop [] = Inr []"
| "string_set_loop (x # xs) =
     (let item = TrimSpace x
      in if item = [] \<or> length item > 256 then Inl ErrInvalidSynthesisRequest
         else res_bind (string_set_loop xs) (\<lambda>seen. Inr (item # seen)))"

definition canonicalStringSet :: "string list \<Rightarrow> synthesis_error + string list" where
  "canonicalStringSet source = res_bind (string_set_loop source) (\<lambda>seen. Inr (sorted_keys seen))"

definition procedure_resource :: "Resource \<Rightarrow> ProcedureResource" where
  "procedure_resource r = \<lparr>pr_ID = TrimSpace (re_ID r), pr_Name = TrimSpace (re_Name r), pr_Type = TrimSpace (re_Type r),
     pr_Namespace = TrimSpace (re_Namespace r), pr_IdentityHash = TrimSpace (re_IdentityHash r), pr_SchemaVersion = TrimSpace (re_SchemaVersion r)\<rparr>"

definition conflicting :: "('k \<times> 'v) list \<Rightarrow> 'k \<Rightarrow> 'v \<Rightarrow> bool" where
  "conflicting m k v = (case map_of m k of None \<Rightarrow> False | Some prior \<Rightarrow> prior \<noteq> v)"

type_synonym catalog = "(string \<times> ProcedureResource) list"

definition resource_step :: "catalog \<times> catalog \<Rightarrow> Resource \<Rightarrow> synthesis_error + catalog \<times> catalog" where
  "resource_step s item =
     (let v = procedure_resource item; byID = fst s; catalog = snd s
      in if pr_ID v \<noteq> ''res_'' @ pr_IdentityHash v \<or> pr_Name v = [] \<or> pr_Type v = [] \<or> pr_Namespace v = [] \<or> length (pr_IdentityHash v) \<noteq> 64 \<or>
            \<not> lowerHex (pr_IdentityHash v) then Inl ErrInvalidSynthesisRequest
         else if conflicting byID (pr_ID v) v then Inl ErrInvalidSynthesisRequest
         else if conflicting catalog (pr_ID v) v then Inl ErrInvalidSynthesisRequest
         else Inr (AList.update (pr_ID v) v byID, AList.update (pr_ID v) v catalog))"

definition canonicalProcedureResources :: "Resource list \<Rightarrow> catalog \<Rightarrow> synthesis_error + ProcedureResource list \<times> catalog" where
  "canonicalProcedureResources source catalog =
     res_bind (res_fold resource_step ([], catalog) source) (\<lambda>(byID, catalog).
     Inr (sort_slice (\<lambda>a b. pr_ID a < pr_ID b) (map snd byID), catalog))"

definition predicate_step :: "string list \<Rightarrow> (string \<times> ProcedurePredicate) list \<Rightarrow> PredicateReference \<Rightarrow> synthesis_error + (string \<times> ProcedurePredicate) list" where
  "predicate_step resources seen item =
     (let v = \<lparr>pp_ID = TrimSpace (pn_ID item), pp_ResourceName = TrimSpace (pn_ResourceName item)\<rparr>
      in if pp_ID v = [] \<or> length (pp_ID v) > 256 then Inl ErrInvalidSynthesisRequest
         else if pp_ResourceName v \<noteq> [] \<and> pp_ResourceName v \<notin> set resources then Inl ErrInvalidSynthesisRequest
         else if conflicting seen (pp_ID v) v then Inl ErrInvalidSynthesisRequest
         else Inr (AList.update (pp_ID v) v seen))"

definition step_predicates ::
  "PredicateReference list \<Rightarrow> ProcedureResource list \<Rightarrow> ProcedureResource list \<Rightarrow> synthesis_error + ProcedurePredicate list" where
  "step_predicates source reads writes =
     res_bind (res_fold (predicate_step (map pr_Name (reads @ writes))) [] source) (\<lambda>seen.
     Inr (sort_slice (\<lambda>a b. pp_ID a < pp_ID b) (map snd seen)))"

text \<open>The canonical metadata as a step that has only these fields set.\<close>

definition canonicalStepMetadata :: "Node \<Rightarrow> catalog \<Rightarrow> synthesis_error + (ProcedureResource list \<times> ProcedureResource list \<times> string list \<times>
    ProcedurePredicate list \<times> string list \<times> string list) \<times> catalog" where
  "canonicalStepMetadata node catalog =
     (if \<not> validSideEffect (nd_SideEffect node) \<or> \<not> validRisk (nd_Risk node) then Inl ErrInvalidSynthesisRequest
      else
        res_bind (canonicalProcedureResources (nd_Reads node) catalog) (\<lambda>(reads, catalog).
        res_bind (canonicalProcedureResources (nd_Writes node) catalog) (\<lambda>(writes, catalog).
        res_bind (canonicalStringSet (nd_Effects node)) (\<lambda>effects.
        res_bind (step_predicates (nd_Preconditions node) reads writes) (\<lambda>preconditions.
        res_bind (canonicalStringSet (nd_SuccessPredicates node)) (\<lambda>predicates.
        res_bind (canonicalStringSet (nd_VerificationMethods node)) (\<lambda>methods.
        Inr ((reads, writes, effects, preconditions, predicates, methods), catalog))))))))"

section \<open>The synthesizer\<close>

definition hash_result :: "externals \<Rightarrow> Result \<Rightarrow> synthesis_error + Result" where
  "hash_result ext base =
     (case MarshalAndHash ext (json_synthesis base) of
        Inl e \<Rightarrow> Inl (ErrHashSynthesis e)
      | Inr (_, hash) \<Rightarrow> Inr (base\<lparr>sr_Hash := hash\<rparr>))"

definition abstain :: "externals \<Rightarrow> Result \<Rightarrow> string \<Rightarrow> synthesis_error + Result" where
  "abstain ext base code =
     (let base = base\<lparr>sr_Status := StatusAbstained, sr_AbstentionCode := code, sr_ObservedEndToEnd := False\<rparr>
      in hash_result ext base)"

definition canonicalGoals :: "GoalRequirement list \<Rightarrow> GoalRequirement list" where
  "canonicalGoals source =
     map (\<lambda>predicate. \<lparr>gq_PredicateID = predicate,
        gq_VerifierNodes = sorted_keys (concat (map gq_VerifierNodes (filter (\<lambda>g. gq_PredicateID g = predicate) source)))\<rparr>)
       (sorted_keys (map gq_PredicateID source))"

text \<open>
  A phase of \<^verbatim>\<open>Synthesize\<close> either ends the call, with an error or an abstention, or goes on: the left
  side of the sum is what the call returns.
\<close>

type_synonym 'a phase = "(synthesis_error + Result) + 'a"

abbreviation invalid_request :: "'a phase" where "invalid_request \<equiv> Inl (Inl ErrInvalidSynthesisRequest)"

text \<open>\<^verbatim>\<open>nodes\<close>, a Go map: of two nodes with one identifier the later one is stored.\<close>

definition node_map :: "Node list \<Rightarrow> string \<rightharpoonup> Node" where
  "node_map ns = map_of (rev (map (\<lambda>n. (nd_ID n, n)) ns))"

definition succeeded :: "(string \<rightharpoonup> Node) \<Rightarrow> string \<Rightarrow> bool" where
  "succeeded nodes event = (case nodes event of None \<Rightarrow> False | Some n \<Rightarrow> nd_Succeeded n)"

fun verifier_loop :: "(string \<rightharpoonup> Node) \<Rightarrow> string list \<Rightarrow> string list \<Rightarrow> (string list) phase" where
  "verifier_loop nodes retained [] = Inr retained"
| "verifier_loop nodes retained (v # vs) =
     (if nodes v = None then invalid_request
      else verifier_loop nodes (if succeeded nodes v then v # retained else retained) vs)"

fun goal_loop :: "externals \<Rightarrow> (string \<rightharpoonup> Node) \<Rightarrow> nat \<Rightarrow> Result \<Rightarrow> string list \<Rightarrow> GoalRequirement list \<Rightarrow> (Result \<times> string list) phase" where
  "goal_loop ext nodes index base retained [] = Inr (base, retained)"
| "goal_loop ext nodes index base retained (goal # goals) =
     (let base = base\<lparr>sr_GoalPredicates := (sr_GoalPredicates base)[index := gq_PredicateID goal]\<rparr>
      in if gq_PredicateID goal = [] \<or> gq_VerifierNodes goal = [] then Inl (abstain ext base ''uncovered_goal'')
         else res_bind (verifier_loop nodes retained (gq_VerifierNodes goal)) (\<lambda>retained'.
           if \<not> list_ex (succeeded nodes) (gq_VerifierNodes goal) then Inl (abstain ext base ''uncovered_goal'')
           else goal_loop ext nodes (Suc index) base retained' goals))"

fun effect_loop :: "externals \<Rightarrow> (string \<rightharpoonup> Node) \<Rightarrow> Result \<Rightarrow> string list \<Rightarrow> string list \<Rightarrow> (string list) phase" where
  "effect_loop ext nodes base retained [] = Inr retained"
| "effect_loop ext nodes base retained (event # events) =
     (if nodes event = None then invalid_request
      else if \<not> succeeded nodes event then Inl (abstain ext base ''failed_required_effect'')
      else effect_loop ext nodes base (event # retained) events)"

definition prerequisites :: "Edge list \<Rightarrow> string \<Rightarrow> string list" where
  "prerequisites edges event = map eg_From (filter (\<lambda>e. eg_To e = event) edges)"

text \<open>
  The closure over prerequisites; the head of the list is the top of the stack. \<open>visit\<close> is the
  inner loop.
\<close>

fun visit :: "string list \<Rightarrow> string list \<Rightarrow> string list \<Rightarrow> string list \<times> string list" where
  "visit [] stack retained = (stack, retained)"
| "visit (p # ps) stack retained =
     (if p \<in> set retained then visit ps stack retained else visit ps (p # stack) (p # retained))"

lemma visit_spec:
  assumes "visit ps stack retained = (stack', retained')"
  shows "set retained' = set retained \<union> set ps" "\<exists>new. stack' = new @ stack \<and> retained' = new @ retained \<and> set new = set ps - set retained \<and> distinct new"
proof -
  have "\<exists>new. stack' = new @ stack \<and> retained' = new @ retained \<and> set new = set ps - set retained \<and> distinct new"
    using assms
  proof (induction ps arbitrary: stack retained)
    case (Cons p ps)
    show ?case
    proof (cases "p \<in> set retained")
      case True
      then show ?thesis using Cons by auto
    next
      case False
      then obtain new where "stack' = new @ p # stack" "retained' = new @ p # retained" "set new = set ps - set (p # retained)" "distinct new"
        using Cons.IH [of "p # stack" "p # retained"] Cons.prems by auto
      then show ?thesis using False by (intro exI [of _ "new @ [p]"]) auto
    qed
  qed simp
  then obtain new where new: "stack' = new @ stack" "retained' = new @ retained" "set new = set ps - set retained" "distinct new" by blast
  then show "\<exists>new. stack' = new @ stack \<and> retained' = new @ retained \<and> set new = set ps - set retained \<and> distinct new" by blast
  show "set retained' = set retained \<union> set ps" unfolding new(2) set_append new(3) by blast
qed

function ancestors :: "Edge list \<Rightarrow> string list \<Rightarrow> string list \<Rightarrow> string list" where
  "ancestors edges [] retained = retained"
| "ancestors edges (event # stack) retained =
     (let visited = visit (prerequisites edges event) stack retained in ancestors edges (fst visited) (snd visited))"
  by pat_completeness auto
termination
proof (relation "measure (\<lambda>(edges, stack, retained). length stack + 2 * card (eg_From ` set edges - set retained))", goal_cases)
  case (2 edges event stack retained x)
  obtain new where new: "fst x = new @ stack" "snd x = new @ retained" "set new = set (prerequisites edges event) - set retained" "distinct new"
    using visit_spec(2) [of "prerequisites edges event" stack retained "fst x" "snd x"] 2 by auto
  let ?A = "eg_From ` set edges - set retained"
  have sub: "set new \<subseteq> ?A" using new(3) by (auto simp: prerequisites_def)
  have "card (?A - set new) = card ?A - length new" using card_Diff_subset [OF finite_set sub] distinct_card [OF new(4)] by simp
  moreover have "length new \<le> card ?A" using card_mono [OF _ sub] distinct_card [OF new(4)] by simp
  moreover have "eg_From ` set edges - set (snd x) = ?A - set new" using new(2) by auto
  ultimately show ?case using new(1) by simp
qed simp

definition branch_path :: "externals \<Rightarrow> (string \<rightharpoonup> Node) \<Rightarrow> FailedBranch \<Rightarrow> synthesis_error + NegativePath" where
  "branch_path ext nodes branch =
     (if fb_FailurePredicateID branch = [] \<or> \<not> scope_Valid (fb_Scope branch) \<or> fb_EventIDs branch = [] then Inl ErrInvalidSynthesisRequest
      else let position = (\<lambda>event. case nodes event of None \<Rightarrow> 0 | Some n \<Rightarrow> nd_Position n);
               eventIDs = sort_slice (\<lambda>a b. position a < position b) (fb_EventIDs branch)
        in if list_ex (\<lambda>event. nodes event = None) eventIDs then Inl ErrInvalidSynthesisRequest
           else let path = \<lparr>np_ID = [], np_FailurePredicateID = fb_FailurePredicateID branch, np_EventIDs = eventIDs, np_Scope = fb_Scope branch\<rparr>
             in case MarshalAndHash ext (json_negative_path path) of
                  Inl e \<Rightarrow> Inl (ErrHashSynthesis e)
                | Inr (_, hash) \<Rightarrow> Inr (path\<lparr>np_ID := ''neg_'' @ hash\<rparr>))"

text \<open>The paths, and the events on them.\<close>

definition buildNegativePaths :: "externals \<Rightarrow> FailedBranch list \<Rightarrow> (string \<rightharpoonup> Node) \<Rightarrow> synthesis_error + NegativePath list \<times> string list" where
  "buildNegativePaths ext source nodes =
     res_bind (res_map (branch_path ext nodes) source) (\<lambda>result.
     Inr (sort_slice (\<lambda>a b. np_ID a < np_ID b) result, concat (map fb_EventIDs source)))"

definition eventSet :: "string list \<Rightarrow> (string \<rightharpoonup> Node) \<Rightarrow> synthesis_error + string list" where
  "eventSet source nodes = (if list_ex (\<lambda>event. nodes event = None) source then Inl ErrInvalidSynthesisRequest else Inr source)"

definition procedure_step :: "bool \<Rightarrow> uint32 \<Rightarrow> Node \<Rightarrow> ProcedureResource list \<times> ProcedureResource list \<times> string list \<times>
    ProcedurePredicate list \<times> string list \<times> string list \<Rightarrow> ProcedureStep" where
  "procedure_step proven ordinal node =
     (\<lambda>(reads, writes, effects, preconditions, predicates, methods).
       \<lparr>ps_EventID = nd_ID node, ps_Ordinal = ordinal, ps_OriginalPosition = nd_Position node, ps_ToolName = nd_ToolName node,
        ps_ToolVersion = nd_ToolVersion node, ps_ToolContractVersionID = nd_ToolContractVersionID node, ps_UncertainNecessity = (\<not> proven),
        ps_CompensationBoundary = nd_CompensationBoundary node, ps_SideEffect = nd_SideEffect node, ps_Risk = nd_Risk node,
        ps_Effects = effects, ps_Preconditions = preconditions, ps_SuccessPredicates = predicates, ps_VerificationMethods = methods,
        ps_Reads = reads, ps_Writes = writes\<rparr>)"

definition keeps :: "string list \<Rightarrow> string list \<Rightarrow> string list \<Rightarrow> Node \<Rightarrow> bool" where
  "keeps retained irrelevant failed node =
     (let proven = nd_ID node \<in> set retained
      in \<not> (nd_ID node \<in> set failed \<or> \<not> proven \<and> nd_ID node \<in> set irrelevant \<or> \<not> proven \<and> \<not> nd_Succeeded node))"

definition step_loop ::
  "string list \<Rightarrow> string list \<Rightarrow> string list \<Rightarrow> ProcedureStep list \<times> catalog \<Rightarrow> Node \<Rightarrow> synthesis_error + ProcedureStep list \<times> catalog" where
  "step_loop retained irrelevant failed s node =
     (if \<not> keeps retained irrelevant failed node then Inr s
      else res_bind (canonicalStepMetadata node (snd s)) (\<lambda>(metadata, catalog).
        Inr (fst s @ [procedure_step (nd_ID node \<in> set retained) (of_nat (length (fst s))) node metadata], catalog)))"

text \<open>The last phase: the steps, the edges between them, the hash.\<close>

definition assemble :: "externals \<Rightarrow> Graph \<Rightarrow> Result \<Rightarrow> string list \<Rightarrow> string list \<Rightarrow> string list \<Rightarrow> synthesis_error + Result" where
  "assemble ext graph base retained irrelevant failed =
     res_bind (res_fold (step_loop retained irrelevant failed) ([], []) (gr_Nodes graph)) (\<lambda>(steps, _).
       let selected = map ps_EventID steps;
           edges = filter (\<lambda>e. eg_From e \<in> set selected \<and> eg_To e \<in> set selected) (gr_Edges graph);
           positions = rev (zip (map nd_ID (gr_Nodes graph)) [0..<length (gr_Nodes graph)]);
           base = base\<lparr>sr_Steps := steps, sr_Edges := sortEdges positions edges, sr_Status := StatusSynthesized\<rparr>
       in hash_result ext base)"

definition finish_phase :: "(synthesis_error + Result) phase \<Rightarrow> synthesis_error + Result" where
  "finish_phase p = (case p of Inl out \<Rightarrow> out | Inr out \<Rightarrow> out)"

definition empty_result :: "Request \<Rightarrow> Result" where
  "empty_result request = \<lparr>sr_SchemaVersion = ''synthesis.v2'', sr_Status = [], sr_AbstentionCode = [], sr_TraceID = gr_TraceID (sq_Graph request),
     sr_CausalGraphHash = gr_Hash (sq_Graph request), sr_Steps = [], sr_Edges = [], sr_NegativePaths = [], sr_GoalPredicates = [],
     sr_Versions = sq_Versions request, sr_ObservedEndToEnd = True, sr_Hash = []\<rparr>"

definition ordered_nodes :: "Node list \<Rightarrow> bool" where
  "ordered_nodes ns = list_all (\<lambda>(i, n). nd_ID n \<noteq> [] \<and> nd_Position n = of_nat i) (zip [0..<length ns] ns)"

text \<open>From the goals to the closed set of retained events.\<close>

definition retain :: "externals \<Rightarrow> Request \<Rightarrow> (string \<rightharpoonup> Node) \<Rightarrow> (Result \<times> string list) phase" where
  "retain ext request nodes =
     (let goals = canonicalGoals (sq_Goals request); edges = gr_Edges (sq_Graph request);
          base = (empty_result request)\<lparr>sr_GoalPredicates := replicate (length goals) []\<rparr>
      in res_bind (goal_loop ext nodes 0 base [] goals) (\<lambda>(base, retained).
         res_bind (effect_loop ext nodes base retained (sq_RequiredEffects request)) (\<lambda>retained.
         if list_ex (\<lambda>e. nodes (eg_From e) = None \<or> nodes (eg_To e) = None) edges then invalid_request
         else let retained = ancestors edges retained retained
           in if list_ex (\<lambda>event. \<not> succeeded nodes event) retained then Inl (abstain ext base ''failed_prerequisite'')
              else Inr (base, retained))))"

definition Synthesize :: "externals \<Rightarrow> Request \<Rightarrow> synthesis_error + Result" where
  "Synthesize ext request =
     (let graph = sq_Graph request; base = empty_result request; nodes = node_map (gr_Nodes graph)
      in if gr_TraceID graph = [] \<or> gr_Nodes graph = [] \<or> gr_Hash graph = [] \<or> \<not> versions_valid (sq_Versions request) \<or> sq_Goals request = []
           then Inl ErrInvalidSynthesisRequest
         else if sq_OutcomeState request \<noteq> OutcomeStateVerifiedSuccess then abstain ext base ''outcome_not_verified''
         else if \<not> gr_AutoPromotable graph then abstain ext base ''opaque_tool''
         else if \<not> ordered_nodes (gr_Nodes graph) then Inl ErrInvalidSynthesisRequest
         else finish_phase (res_bind (retain ext request nodes) (\<lambda>(base, retained). Inr
           (res_bind (eventSet (sq_IrrelevantNodes request) nodes) (\<lambda>irrelevant.
            res_bind (buildNegativePaths ext (sq_FailedBranches request) nodes) (\<lambda>(paths, failed).
            assemble ext graph (base\<lparr>sr_NegativePaths := paths\<rparr>) retained irrelevant failed))))))"

end
