(* ===== verification/Tool_Registry.thy ===== *)
theory Tool_Registry
  imports Tool_Contracts
begin

text \<open>
  The registry of tool contracts, abstractly: a set of canonical manifests, at most one for each
  tool and version. The relation \<open>registry_run\<close> follows any sequence of \<^verbatim>\<open>Register\<close> calls on both
  sides; \<^verbatim>\<open>Resolve\<close> is then determined by the set alone.
\<close>

section \<open>What is assumed of the version library\<close>

text \<open>
  A canonical version is printable text, so it contains no zero byte, and \<^verbatim>\<open>Compare\<close> orders versions.
\<close>

definition version_laws :: "semver \<Rightarrow> bool" where
  "version_laws sv \<longleftrightarrow>
     (\<forall>v. semver_IsValid sv v \<longrightarrow> \<not> contains_nul (semver_Canonical sv v)) \<and>
     (\<forall>u v. semver_Compare sv u v > 0 \<longrightarrow> \<not> semver_Compare sv v u > 0) \<and>
     (\<forall>u v w. \<not> semver_Compare sv u v > 0 \<longrightarrow> \<not> semver_Compare sv v w > 0 \<longrightarrow> \<not> semver_Compare sv u w > 0)"

lemma version_lawsD:
  assumes "version_laws sv"
  shows "semver_IsValid sv v \<Longrightarrow> \<not> contains_nul (semver_Canonical sv v)"
    "semver_Compare sv u v > 0 \<Longrightarrow> \<not> semver_Compare sv v u > 0"
    "\<not> semver_Compare sv u v > 0 \<Longrightarrow> \<not> semver_Compare sv v w > 0 \<Longrightarrow> \<not> semver_Compare sv u w > 0"
  using assms unfolding version_laws_def by blast+

lemma canonicalVersion_no_nul:
  assumes "version_laws sv" shows "\<not> contains_nul (canonicalVersion sv v)"
proof -
  have "\<not> contains_nul (TrimPrefix s p)" if "\<not> contains_nul s" for s p
    using that by (auto simp: TrimPrefix_def contains_nul_def dest: in_set_dropD)
  moreover have "\<not> contains_nul []" by (simp add: contains_nul_def)
  ultimately show ?thesis using version_lawsD(1) [OF assms] by (simp add: canonicalVersion_def Let_def)
qed

lemma contractKey_inject:
  assumes "\<not> contains_nul v" "\<not> contains_nul w"
  shows "contractKey t v = contractKey u w \<longleftrightarrow> t = u \<and> v = w"
proof -
  have "contractKey t v = contractKey u w \<longleftrightarrow> rev v @ NUL @ rev t = rev w @ NUL @ rev u"
    unfolding contractKey_def by (metis append.assoc rev.simps rev_append rev_rev_ident append_Nil)
  then show ?thesis using assms nul_separated_inject [of "rev v" "rev w"] by (auto simp: contains_nul_def)
qed

lemma newer_order: "version_laws sv \<Longrightarrow> strict_weak_order (newer sv)"
  unfolding newer_def by unfold_locales (fact version_lawsD)+

section \<open>The abstract registry\<close>

abbreviation contract_names :: "Manifest \<Rightarrow> string set" where
  "contract_names m \<equiv> set (mf_ToolID m # mf_Aliases m)"

definition same_release :: "Manifest \<Rightarrow> Manifest \<Rightarrow> bool" where
  "same_release m n \<longleftrightarrow> mf_ToolID m = mf_ToolID n \<and> mf_Version m = mf_Version n"

inductive registry_run :: "externals \<Rightarrow> semver \<Rightarrow> Manifest set \<Rightarrow> MemoryRegistry \<Rightarrow> bool" for ext sv where
  start: "registry_run ext sv {} NewMemoryRegistry"
| known: "registry_run ext sv C r \<Longrightarrow> Register ext sv m r = (Inr (), r') \<Longrightarrow> Canonicalize ext sv m = Inr c \<Longrightarrow>
    \<exists>n \<in> C. same_release n c \<Longrightarrow> registry_run ext sv C r'"
| added: "registry_run ext sv C r \<Longrightarrow> Register ext sv m r = (Inr (), r') \<Longrightarrow> Canonicalize ext sv m = Inr c \<Longrightarrow>
    \<forall>n \<in> C. \<not> same_release n c \<Longrightarrow> registry_run ext sv (insert c C) r'"
| refused: "registry_run ext sv C r \<Longrightarrow> Register ext sv m r = (Inl e, r') \<Longrightarrow> registry_run ext sv C r'"

text \<open>The name belongs to a tool of the set.\<close>

definition names_tool :: "Manifest set \<Rightarrow> string \<Rightarrow> string \<Rightarrow> bool" where
  "names_tool C name tool \<longleftrightarrow> (\<exists>n \<in> C. mf_ToolID n = tool \<and> name \<in> contract_names n)"

text \<open>The contract a call of a tool stands for: the one of that very version, else the newest that supports it.\<close>

definition best_contract :: "semver \<Rightarrow> Manifest set \<Rightarrow> string \<Rightarrow> string \<Rightarrow> Manifest \<Rightarrow> bool" where
  "best_contract sv C name version m \<longleftrightarrow>
     m \<in> C \<and> names_tool C name (mf_ToolID m) \<and> version \<noteq> [] \<and>
     (mf_Version m = version \<or>
      supports sv m version \<and> (\<forall>n \<in> C. mf_ToolID n = mf_ToolID m \<longrightarrow> mf_Version n \<noteq> version) \<and>
      (\<forall>n \<in> C. mf_ToolID n = mf_ToolID m \<longrightarrow> supports sv n version \<longrightarrow> \<not> newer sv (mf_Version n) (mf_Version m)))"

section \<open>The representation invariant\<close>

definition registry_rep :: "semver \<Rightarrow> Manifest set \<Rightarrow> MemoryRegistry \<Rightarrow> bool" where
  "registry_rep sv C r \<longleftrightarrow>
     (\<forall>m \<in> C. mf_Version m \<noteq> [] \<and> \<not> contains_nul (mf_Version m)) \<and>
     (\<forall>k m. map_of (rg_byKey r) k = Some m \<longleftrightarrow> m \<in> C \<and> k = contractKey (mf_ToolID m) (mf_Version m)) \<and>
     (\<forall>name tool. map_of (rg_names r) name = Some tool \<longleftrightarrow> names_tool C name tool) \<and>
     (\<forall>tool. set (versions_of r tool) = {mf_Version m |m. m \<in> C \<and> mf_ToolID m = tool} \<and>
        sorted_wrt (\<lambda>v w. \<not> newer sv w v) (versions_of r tool))"

lemma registry_repD:
  assumes "registry_rep sv C r"
  shows "m \<in> C \<Longrightarrow> mf_Version m \<noteq> []" "m \<in> C \<Longrightarrow> \<not> contains_nul (mf_Version m)"
    "map_of (rg_byKey r) k = Some m \<longleftrightarrow> m \<in> C \<and> k = contractKey (mf_ToolID m) (mf_Version m)"
    "map_of (rg_names r) name = Some tool \<longleftrightarrow> names_tool C name tool"
    "set (versions_of r tool) = {mf_Version m |m. m \<in> C \<and> mf_ToolID m = tool}"
    "sorted_wrt (\<lambda>v w. \<not> newer sv w v) (versions_of r tool)"
  using assms by (simp_all add: registry_rep_def)

text \<open>Two contracts of the set never describe the same release.\<close>

lemma registry_rep_unique:
  assumes "registry_rep sv C r" "m \<in> C" "n \<in> C" "same_release m n" shows "m = n"
  using registry_repD(3) [OF assms(1), of "contractKey (mf_ToolID m) (mf_Version m)"] assms(2-4)
  by (metis option.inject same_release_def)

lemma contract_lookup:
  assumes "registry_rep sv C r" "\<not> contains_nul version"
  shows "map_of (rg_byKey r) (contractKey tool version) = Some m \<longleftrightarrow> m \<in> C \<and> mf_ToolID m = tool \<and> mf_Version m = version"
  using registry_repD(2) [OF assms(1), of m] registry_repD(3) [OF assms(1), of "contractKey tool version" m]
    contractKey_inject [OF assms(2), of "mf_Version m" tool "mf_ToolID m"] by auto

lemma contract_at_member:
  assumes "registry_rep sv C r" "m \<in> C"
  shows "contract_at r (mf_ToolID m) (mf_Version m) = m"
  using registry_repD(3) [OF assms(1), of "contractKey (mf_ToolID m) (mf_Version m)" m] assms(2) by (simp add: contract_at_def)

lemma map_of_fold_update:
  "map_of (fold (\<lambda>name. AList.update name t) names xs) k = (if k \<in> set names then Some t else map_of xs k)"
  by (induction names arbitrary: xs) (auto simp: update_conv')

lemma registry_rep_add:
  assumes rep: "registry_rep sv C r" and sv: "version_laws sv"
    and c: "mf_Version c \<noteq> []" "\<not> contains_nul (mf_Version c)"
    and fresh: "map_of (rg_byKey r) (contractKey (mf_ToolID c) (mf_Version c)) = None"
    and owner: "\<And>name tool. name \<in> contract_names c \<Longrightarrow> map_of (rg_names r) name = Some tool \<Longrightarrow> tool = mf_ToolID c"
  shows "registry_rep sv (insert c C) (add_contract sv c r)"
proof -
  note d = registry_repD [OF rep]
  have k: "map_of (rg_byKey (add_contract sv c r)) k = Some m \<longleftrightarrow> m \<in> insert c C \<and> k = contractKey (mf_ToolID m) (mf_Version m)" for k m
    using d(3) [of k m] d(3) [of k c] fresh d(3) [of "contractKey (mf_ToolID c) (mf_Version c)" m] by (auto simp: add_contract_def update_conv')
  have n: "map_of (rg_names (add_contract sv c r)) name = Some tool \<longleftrightarrow> names_tool (insert c C) name tool" for name tool
  proof -
    have "map_of (rg_names (add_contract sv c r)) name = (if name \<in> contract_names c then Some (mf_ToolID c) else map_of (rg_names r) name)"
      by (simp only: add_contract_def map_of_fold_update MemoryRegistry.simps)
    moreover have "names_tool (insert c C) name tool \<longleftrightarrow> name \<in> contract_names c \<and> tool = mf_ToolID c \<or> names_tool C name tool"
      by (auto simp: names_tool_def)
    ultimately show ?thesis using d(4) [of name tool] owner [of name tool] by auto
  qed
  have v: "versions_of (add_contract sv c r) tool =
      (if tool = mf_ToolID c then sort_slice (newer sv) (versions_of r tool @ [mf_Version c]) else versions_of r tool)" for tool
    by (simp add: versions_of_def add_contract_def update_conv')
  have s: "set (versions_of (add_contract sv c r) tool) = {mf_Version m |m. m \<in> insert c C \<and> mf_ToolID m = tool}" for tool
    using d(5) [of tool] by (auto simp: v)
  have o: "sorted_wrt (\<lambda>v w. \<not> newer sv w v) (versions_of (add_contract sv c r) tool)" for tool
    using d(6) [of tool] strict_weak_order.sorted_sort_slice [OF newer_order [OF sv]] by (simp add: v)
  have m: "mf_Version m \<noteq> [] \<and> \<not> contains_nul (mf_Version m)" if "m \<in> insert c C" for m using that c d(1,2) by auto
  show ?thesis unfolding registry_rep_def by (intro conjI allI ballI m k n s o)
qed

section \<open>Runs keep the representation\<close>

lemma Canonicalize_Inr:
  assumes "Canonicalize ext sv m = Inr c"
  obtains b hash where "canonical_body ext sv m = Inr b" "c = b\<lparr>mf_ID := ''tcv_'' @ hash, mf_ContentHash := hash\<rparr>"
    "hash = snd (projr (MarshalAndHash ext (json_tool_manifest b)))"
proof -
  from assms obtain b where b: "canonical_body ext sv m = Inr b"
    "(case MarshalAndHash ext (json_tool_manifest b) of Inl e \<Rightarrow> Inl (ErrContractEncoding e)
      | Inr (_, hash) \<Rightarrow> Inr (b\<lparr>mf_ID := ''tcv_'' @ hash, mf_ContentHash := hash\<rparr>)) = Inr c" by (auto simp: Canonicalize_def)
  then show ?thesis using that [OF b(1)] by (cases "MarshalAndHash ext (json_tool_manifest b)") auto
qed

lemma Canonicalize_version:
  assumes "Canonicalize ext sv m = Inr c" "version_laws sv"
  shows "mf_Version c \<noteq> []" "\<not> contains_nul (mf_Version c)"
proof -
  obtain b hash where b: "canonical_body ext sv m = Inr b" "c = b\<lparr>mf_ID := ''tcv_'' @ hash, mf_ContentHash := hash\<rparr>"
    using assms(1) by (rule Canonicalize_Inr)
  have "mf_Version b = canonicalVersion sv (mf_Version m)" "canonicalVersion sv (mf_Version m) \<noteq> []"
    using b(1) by (auto simp: canonical_body_def Let_def split: if_splits)
  then show "mf_Version c \<noteq> []" "\<not> contains_nul (mf_Version c)" using b(2) canonicalVersion_no_nul [OF assms(2)] by simp_all
qed

text \<open>The effect of an accepted registration, without its checks.\<close>

lemma Register_Inr:
  assumes "Register ext sv m r = (Inr (), r')" "Canonicalize ext sv m = Inr c"
  shows "(\<exists>n. map_of (rg_byKey r) (contractKey (mf_ToolID c) (mf_Version c)) = Some n \<and> mf_ID n = mf_ID c \<and> r' = r) \<or>
    (map_of (rg_byKey r) (contractKey (mf_ToolID c) (mf_Version c)) = None \<and> r' = add_contract sv c r \<and>
     (\<forall>name \<in> contract_names c. \<forall>tool. map_of (rg_names r) name = Some tool \<longrightarrow> tool = mf_ToolID c))"
  using assms by (auto simp: Register_def split: option.splits if_splits)

lemma Register_Inl: "Register ext sv m r = (Inl e, r') \<Longrightarrow> r' = r"
  by (auto simp: Register_def split: sum.splits option.splits if_splits)

lemma registry_run_rep:
  assumes "registry_run ext sv C r" "version_laws sv" shows "registry_rep sv C r"
  using assms(1)
proof induction
  case start
  then show ?case by (simp add: registry_rep_def NewMemoryRegistry_def names_tool_def versions_of_def)
next
  case (known C r m r' c)
  obtain n where n: "n \<in> C" "same_release n c" using known(4) by blast
  then have "map_of (rg_byKey r) (contractKey (mf_ToolID c) (mf_Version c)) = Some n"
    using registry_repD(3) [OF known.IH] by (simp add: same_release_def)
  then show ?case using Register_Inr [OF known(2,3)] known.IH by auto
next
  case (added C r m r' c)
  note v = Canonicalize_version [OF added(3) assms(2)]
  have "map_of (rg_byKey r) (contractKey (mf_ToolID c) (mf_Version c)) = None"
    using contract_lookup [OF added.IH v(2)] added(4) by (auto simp: same_release_def intro: ccontr)
  then show ?case using Register_Inr [OF added(2,3)] registry_rep_add [OF added.IH assms(2) v] by auto
next
  case (refused C r m e r')
  then show ?case using Register_Inl by blast
qed

section \<open>Resolution\<close>

lemma find_sorted:
  assumes "find P (map f xs) = Some y" "sorted_wrt R xs" "\<And>x. R x x"
  shows "P y \<and> (\<exists>x \<in> set xs. y = f x \<and> (\<forall>z \<in> set xs. P (f z) \<longrightarrow> R x z))"
  using assms by (induction xs) (auto split: if_splits)

lemma lookup_contract_Some:
  assumes rep: "registry_rep sv C r" and nul: "\<not> contains_nul version" and "version_laws sv" "lookup_contract sv r name version = Some m"
  shows "best_contract sv C name version m"
proof -
  obtain tool where tool: "names_tool C name tool" "version \<noteq> []"
    "(case map_of (rg_byKey r) (contractKey tool version) of Some m \<Rightarrow> Some m
      | None \<Rightarrow> find (\<lambda>m. supports sv m version) (map (contract_at r tool) (versions_of r tool))) = Some m"
    using assms(4) registry_repD(4) [OF rep] by (auto simp: lookup_contract_def split: option.splits if_splits)
  note l = contract_lookup [OF rep nul, of tool]
  show ?thesis
  proof (cases "map_of (rg_byKey r) (contractKey tool version)")
    case (Some n)
    then show ?thesis using tool l [of m] by (simp add: best_contract_def)
  next
    case None
    then have f: "find (\<lambda>m. supports sv m version) (map (contract_at r tool) (versions_of r tool)) = Some m" using tool(3) by simp
    have "\<not> newer sv v v" for v using version_lawsD(2) [OF assms(3)] by (auto simp: newer_def)
    from find_sorted [OF f registry_repD(6) [OF rep] this] obtain v where v: "supports sv m version" "v \<in> set (versions_of r tool)"
      "m = contract_at r tool v" "\<forall>w \<in> set (versions_of r tool). supports sv (contract_at r tool w) version \<longrightarrow> \<not> newer sv w v" by blast
    obtain n where n: "n \<in> C" "mf_ToolID n = tool" "mf_Version n = v" using v(2) registry_repD(5) [OF rep] by auto
    then have m: "m = n" using contract_at_member [OF rep n(1)] v(3) by simp
    have "\<not> newer sv (mf_Version n') (mf_Version m)" if "n' \<in> C" "mf_ToolID n' = tool" "supports sv n' version" for n'
      using v(4) that contract_at_member [OF rep that(1)] registry_repD(5) [OF rep, of tool] n m by auto
    moreover have "mf_Version n' \<noteq> version" if "n' \<in> C" "mf_ToolID n' = tool" for n' using None l [of n'] that by auto
    ultimately show ?thesis using tool n m v(1) by (auto simp: best_contract_def)
  qed
qed

lemma lookup_contract_None:
  assumes rep: "registry_rep sv C r" and nul: "\<not> contains_nul version" and "lookup_contract sv r name version = None"
  shows "version = [] \<or> (\<forall>m \<in> C. names_tool C name (mf_ToolID m) \<longrightarrow> mf_Version m \<noteq> version \<and> \<not> supports sv m version)"
proof (cases "version = []")
  case ne: False
  have "\<forall>m \<in> C. names_tool C name (mf_ToolID m) \<longrightarrow> mf_Version m \<noteq> version \<and> \<not> supports sv m version"
  proof (intro ballI impI)
    fix m assume m: "m \<in> C" "names_tool C name (mf_ToolID m)"
    then have n: "map_of (rg_names r) name = Some (mf_ToolID m)" using registry_repD(4) [OF rep] by simp
    have k: "map_of (rg_byKey r) (contractKey (mf_ToolID m) version) = None"
      "find (\<lambda>m. supports sv m version) (map (contract_at r (mf_ToolID m)) (versions_of r (mf_ToolID m))) = None"
      using assms(3) n ne by (auto simp: lookup_contract_def split: option.splits)
    have "mf_Version m \<in> set (versions_of r (mf_ToolID m))" using registry_repD(5) [OF rep] m(1) by auto
    then have "m \<in> set (map (contract_at r (mf_ToolID m)) (versions_of r (mf_ToolID m)))" using contract_at_member [OF rep m(1)] by (auto intro: rev_image_eqI)
    then show "mf_Version m \<noteq> version \<and> \<not> supports sv m version"
      using k contract_lookup [OF rep nul, of "mf_ToolID m" m] m(1) unfolding find_None_iff by auto
  qed
  then show ?thesis by blast
qed simp

section \<open>Later registrations\<close>

definition register_all :: "externals \<Rightarrow> semver \<Rightarrow> Manifest list \<Rightarrow> MemoryRegistry \<Rightarrow> MemoryRegistry" where
  "register_all ext sv ms r = fold (\<lambda>m r. snd (Register ext sv m r)) ms r"

lemma registry_run_step:
  assumes "registry_run ext sv C r"
  shows "\<exists>C'. C \<subseteq> C' \<and> registry_run ext sv C' (snd (Register ext sv m r))"
proof (cases "Register ext sv m r")
  case (Pair res r')
  show ?thesis
  proof (cases res)
    case (Inl e)
    then show ?thesis using refused [OF assms] Pair by auto
  next
    case (Inr u)
    then obtain c where "Canonicalize ext sv m = Inr c" using Pair by (auto simp: Register_def split: sum.splits)
    then show ?thesis using known [OF assms] added [OF assms] Pair Inr by (metis snd_conv subset_insertI subset_refl unit.exhaust)
  qed
qed

lemma registry_run_all:
  assumes "registry_run ext sv C r" shows "\<exists>C'. C \<subseteq> C' \<and> registry_run ext sv C' (register_all ext sv ms r)"
  using assms
proof (induction ms arbitrary: C r)
  case Nil
  then show ?case by (auto simp: register_all_def)
next
  case (Cons m ms)
  from registry_run_step [OF Cons.prems, of m] obtain C1 where "C \<subseteq> C1" "registry_run ext sv C1 (snd (Register ext sv m r))" by blast
  moreover from this(2) Cons.IH obtain C' where "C1 \<subseteq> C'" "registry_run ext sv C' (register_all ext sv ms (snd (Register ext sv m r)))" by blast
  ultimately show ?case by (metis register_all_def fold_simps(2) order_trans)
qed

section \<open>A sample of the version library and of a manifest\<close>

definition sample_semver :: semver where
  "sample_semver = \<lparr>semver_IsValid = (\<lambda>v. length v > 1 \<and> hd v = CHR ''v'' \<and> is_digit_char (v ! 1) \<and> list_all is_token_char v),
     semver_Canonical = (\<lambda>v. v), semver_Compare = (\<lambda>v w. if v < w then - 1 else if v = w then 0 else 1)\<rparr>"

definition sample_contract :: Manifest where
  "sample_contract = empty_manifest\<lparr>mf_SchemaVersion := ''tool-contract.v1'', mf_ToolID := ''writer'', mf_Version := ''1.0.0'',
     mf_Aliases := [''scribe''], mf_Inputs := [\<lparr>fs_Name = ''path'', fs_Type = ''string'', fs_Required = True, fs_Sanitizer = ''token''\<rparr>],
     mf_Writes := [\<lparr>rs_Name = ''workspace'', rs_Type = ''repository'', rs_Namespace = ''repo'', rs_Field = ''path'', rs_SchemaVersion = []\<rparr>],
     mf_Reads := [\<lparr>rs_Name = ''workspace'', rs_Type = ''repository'', rs_Namespace = ''repo'', rs_Field = ''path'', rs_SchemaVersion = []\<rparr>],
     mf_SideEffect := ''write'', mf_Risk := ''low'', mf_Idempotency := \<lparr>ip_Mode = ''guaranteed'', ip_KeyField = []\<rparr>,
     mf_Retry := \<lparr>rt_Mode = ''never'', rt_MaximumAttempts = 1\<rparr>\<rparr>"

definition sample_canonical :: Manifest where
  "sample_canonical = (let hash = hash_bytes sample_externals (sample_print (json_tool_manifest sample_contract))
     in sample_contract\<lparr>mf_ID := ''tcv_'' @ hash, mf_ContentHash := hash\<rparr>)"

definition sample_registry :: MemoryRegistry where
  "sample_registry = add_contract sample_semver sample_canonical NewMemoryRegistry"

lemma version_laws_sample: "version_laws sample_semver"
proof -
  have "\<not> contains_nul v" if "list_all is_token_char v" for v
    using that by (auto simp: contains_nul_def list_all_iff is_token_char_def is_alnum_char_def is_digit_char_def)
  then show ?thesis by (auto simp: version_laws_def sample_semver_def)
qed

lemma sample_contract_fields:
  "mf_ID sample_contract = []" "mf_ToolID sample_contract = ''writer''" "mf_Version sample_contract = ''1.0.0''" "mf_Aliases sample_contract = [''scribe'']"
  by (simp_all add: sample_contract_def empty_manifest_def)

lemma sample_body: "canonical_body sample_externals sample_semver sample_contract = Inr sample_contract"
proof -
  have t: "TrimSpace ''tool-contract.v1'' = ''tool-contract.v1''" "TrimSpace ''writer'' = ''writer''" "TrimSpace ''scribe'' = ''scribe''"
    "TrimSpace ''path'' = ''path''" "TrimSpace ''string'' = ''string''" "TrimSpace ''token'' = ''token''" "TrimSpace ''workspace'' = ''workspace''"
    "TrimSpace ''repository'' = ''repository''" "TrimSpace ''repo'' = ''repo''" "TrimSpace [] = []" by code_simp+
  have v: "canonicalVersion sample_semver ''1.0.0'' = ''1.0.0''" by code_simp
  show ?thesis
    by (simp add: canonical_body_def sample_contract_def empty_manifest_def t v norm_NFC_sample canonicalStrings_def in_part_def
        canonicalFields_def field_item_def field_fault_def validSanitizer_def canonicalResources_def resource_item_def resource_fault_def
        canonicalEffects_def canonicalPredicates_def canonicalVerifiers_def canonicalRanges_def validSideEffect_def validRisk_def
        validIdempotency_def validRetry_def compensation_item_def Let_def del: res_bind_eq_Inr)
qed

lemma sample_registered:
  "Canonicalize sample_externals sample_semver sample_contract = Inr sample_canonical"
  "Register sample_externals sample_semver sample_contract NewMemoryRegistry = (Inr (), sample_registry)"
  "Resolve sample_externals sample_semver sample_registry \<lparr>q_Name = ''scribe'', q_Version = ''1.0.0''\<rparr> =
     Inr \<lparr>rn_Manifest = sample_canonical, rn_Opaque = False, rn_AutoPromotable = True\<rparr>"
proof -
  show c: "Canonicalize sample_externals sample_semver sample_contract = Inr sample_canonical"
    by (simp add: Canonicalize_def sample_body MarshalAndHash_sample sample_canonical_def Let_def)
  show "Register sample_externals sample_semver sample_contract NewMemoryRegistry = (Inr (), sample_registry)"
    by (simp add: Register_def c sample_contract_fields NewMemoryRegistry_def sample_registry_def)
  have "TrimSpace ''scribe'' = ''scribe''" "canonicalVersion sample_semver ''1.0.0'' = ''1.0.0''" by code_simp+
  moreover have "mf_ToolID sample_canonical = ''writer''" "mf_Version sample_canonical = ''1.0.0''" "mf_Aliases sample_canonical = [''scribe'']"
    by (simp_all add: sample_canonical_def sample_contract_fields Let_def)
  ultimately show "Resolve sample_externals sample_semver sample_registry \<lparr>q_Name = ''scribe'', q_Version = ''1.0.0''\<rparr> =
     Inr \<lparr>rn_Manifest = sample_canonical, rn_Opaque = False, rn_AutoPromotable = True\<rparr>"
    by (simp add: Resolve_def norm_NFC_sample sample_registry_def add_contract_def NewMemoryRegistry_def lookup_contract_def Let_def)
qed

lemma sample_registry_run: "registry_run sample_externals sample_semver {sample_canonical} sample_registry"
  by (rule added [OF start sample_registered(2,1)]) simp

section \<open>Properties\<close>

text \<open>C9: resolution refines the abstract registry. After any sequence of registrations, a call of a tool
  resolves to the contract of that very version if one is registered under the name or an alias,
  else to the newest registered version that declares to support it; only if there is neither, or
  the version is not a semantic version, the result is opaque: irreversible, critical and never
  promoted automatically.\<close>

theorem resolution_is_best:
  assumes "version_laws sv" "registry_run ext sv C r" "Resolve ext sv r q = Inr res"
    and "name = norm_NFC ext (TrimSpace (q_Name q))" "version = canonicalVersion sv (q_Version q)"
  shows "(\<not> rn_Opaque res \<longrightarrow> rn_AutoPromotable res \<and> best_contract sv C name version (rn_Manifest res)) \<and>
    (rn_Opaque res \<longrightarrow> \<not> rn_AutoPromotable res \<and> mf_SideEffect (rn_Manifest res) = ''irreversible'' \<and> mf_Risk (rn_Manifest res) = ''critical'' \<and>
      (version = [] \<or> (\<forall>m \<in> C. names_tool C name (mf_ToolID m) \<longrightarrow> mf_Version m \<noteq> version \<and> \<not> supports sv m version)))"
proof (cases "lookup_contract sv r name version")
  case None
  note n = lookup_contract_None [OF registry_run_rep [OF assms(2,1)] canonicalVersion_no_nul [OF assms(1), of "q_Version q", folded assms(5)] None]
  have "opaqueResolution ext name (token ext (q_Version q)) = Inr res"
    using assms(3-5) None by (auto simp: Resolve_def Let_def split: if_splits)
  then have "rn_Opaque res \<and> \<not> rn_AutoPromotable res \<and> mf_SideEffect (rn_Manifest res) = ''irreversible'' \<and> mf_Risk (rn_Manifest res) = ''critical''"
    by (auto simp: opaqueResolution_def opaque_manifest_def Let_def split: sum.splits)
  then show ?thesis using n by blast
next
  case (Some m)
  note b = lookup_contract_Some [OF registry_run_rep [OF assms(2,1)] canonicalVersion_no_nul [OF assms(1), of "q_Version q", folded assms(5)] assms(1) Some]
  have "res = \<lparr>rn_Manifest = m, rn_Opaque = False, rn_AutoPromotable = True\<rparr>"
    using assms(3-5) Some by (auto simp: Resolve_def Let_def split: if_splits)
  then show ?thesis using b by simp
qed

theorem resolution_is_best_witness:
  "best_contract sample_semver {sample_canonical} ''scribe'' ''1.0.0'' sample_canonical"
proof -
  have "TrimSpace ''scribe'' = ''scribe''" "canonicalVersion sample_semver ''1.0.0'' = ''1.0.0''" by code_simp+
  then show ?thesis using norm_NFC_sample resolution_is_best [OF version_laws_sample sample_registry_run sample_registered(3), of "''scribe''" "''1.0.0''"] by simp
qed

text \<open>A resolution to the very version asked for is final: no later registration, of whatever
  manifests, changes what the same query resolves to.\<close>

theorem exact_resolution_stable:
  assumes "version_laws sv" "registry_run ext sv C r"
    and "Resolve ext sv r q = Inr res" "\<not> rn_Opaque res" "mf_Version (rn_Manifest res) = canonicalVersion sv (q_Version q)"
  shows "Resolve ext sv (register_all ext sv ms r) q = Inr res"
proof -
  define name version where nv: "name = token ext (q_Name q)" "version = canonicalVersion sv (q_Version q)"
  note nul = canonicalVersion_no_nul [OF assms(1), of "q_Version q", folded nv(2)]
  have m: "lookup_contract sv r name version = Some (rn_Manifest res)" "name \<noteq> []" "res = \<lparr>rn_Manifest = rn_Manifest res, rn_Opaque = False, rn_AutoPromotable = True\<rparr>"
    using assms(3,4) by (auto simp: Resolve_def nv [symmetric] Let_def opaqueResolution_def split: if_splits option.splits sum.splits)
  note b = lookup_contract_Some [OF registry_run_rep [OF assms(2,1)] nul assms(1) m(1)]
  obtain C' where C': "C \<subseteq> C'" "registry_run ext sv C' (register_all ext sv ms r)" using registry_run_all [OF assms(2)] by blast
  note rep = registry_run_rep [OF C'(2) assms(1)]
  have "map_of (rg_byKey (register_all ext sv ms r)) (contractKey (mf_ToolID (rn_Manifest res)) version) = Some (rn_Manifest res)"
    using contract_lookup [OF rep nul] b assms(5) C'(1) by (auto simp: best_contract_def nv)
  moreover have "map_of (rg_names (register_all ext sv ms r)) name = Some (mf_ToolID (rn_Manifest res))"
    using b C'(1) registry_repD(4) [OF rep] by (auto simp: best_contract_def names_tool_def)
  ultimately have "lookup_contract sv (register_all ext sv ms r) name version = Some (rn_Manifest res)"
    using b by (simp add: lookup_contract_def best_contract_def)
  then show ?thesis using m(2,3) by (simp add: Resolve_def nv [symmetric] Let_def)
qed

theorem exact_resolution_stable_witness:
  "Resolve sample_externals sample_semver (register_all sample_externals sample_semver [sample_contract\<lparr>mf_Version := ''2.0.0''\<rparr>] sample_registry)
     \<lparr>q_Name = ''scribe'', q_Version = ''1.0.0''\<rparr> = Inr \<lparr>rn_Manifest = sample_canonical, rn_Opaque = False, rn_AutoPromotable = True\<rparr>"
proof -
  have "canonicalVersion sample_semver ''1.0.0'' = ''1.0.0''" by code_simp
  then have "mf_Version sample_canonical = canonicalVersion sample_semver ''1.0.0''" by (simp add: sample_canonical_def sample_contract_fields Let_def)
  then show ?thesis using exact_resolution_stable [OF version_laws_sample sample_registry_run sample_registered(3)] by simp
qed

end
