(* ===== verification/Causal_Edges.thy ===== *)
theory Causal_Edges
  imports Causal_Graph Tool_Registry
begin

text \<open>
  The builder draws exactly the edges that the contracts and the caller justify. A read depends on
  the last writer before it and on no other event; nothing follows from the order of events alone.
\<close>

section \<open>What the graph should contain\<close>

text \<open>The node at \<open>j\<close> reads the resource and the one at \<open>i\<close> is the last before it that wrote it.\<close>

definition writes_resource :: "Node \<Rightarrow> Resource \<Rightarrow> bool" where
  "writes_resource n r \<longleftrightarrow> re_ID r \<in> re_ID ` set (nd_Writes n)"

definition flows_from :: "Node list \<Rightarrow> nat \<Rightarrow> nat \<Rightarrow> Resource \<Rightarrow> bool" where
  "flows_from ns i j r \<longleftrightarrow> i < j \<and> j < length ns \<and> r \<in> set (nd_Reads (ns ! j)) \<and> writes_resource (ns ! i) r \<and>
     (\<forall>k. i < k \<and> k < j \<longrightarrow> \<not> writes_resource (ns ! k) r)"

text \<open>The names that enter the keys of the edges contain no zero byte.\<close>

definition plain_node :: "Node \<Rightarrow> bool" where
  "plain_node n \<longleftrightarrow> \<not> contains_nul (nd_ID n) \<and> (\<forall>r \<in> set (nd_Reads n). \<not> contains_nul (re_Namespace r) \<and> \<not> contains_nul (re_Type r))"

definition plain_edge :: "Edge \<Rightarrow> bool" where
  "plain_edge e \<longleftrightarrow> \<not> contains_nul (eg_From e) \<and> \<not> contains_nul (eg_To e) \<and> \<not> contains_nul (eg_Type e) \<and>
     \<not> contains_nul (eg_ResourceID e) \<and> \<not> contains_nul (eg_ResourceNamespace e) \<and> \<not> contains_nul (eg_ResourceType e)"

lemma edge_key_inject: "plain_edge e \<Longrightarrow> plain_edge f \<Longrightarrow> edge_key e = edge_key f \<longleftrightarrow> e = f"
  by (simp only: plain_edge_def edge_key_def nul_separated_inject not_False_eq_True) (auto intro: Edge.equality)

section \<open>Maps of edges\<close>

lemma map_of_addEdges:
  assumes "inj_on edge_key (set es)"
  shows "map_of (fold addEdge es []) k = Some e \<longleftrightarrow> e \<in> set es \<and> k = edge_key e"
  using assms
proof (induction es arbitrary: k e rule: rev_induct)
  case (snoc x es)
  have "inj_on edge_key (set es)" "\<And>y. y \<in> set es \<Longrightarrow> edge_key y = edge_key x \<Longrightarrow> y = x"
    using snoc.prems by (auto simp: inj_on_def)
  then show ?case using snoc.IH by (auto simp: addEdge_def update_conv')
qed simp

lemma distinct_addEdges: "distinct (map fst xs) \<Longrightarrow> distinct (map fst (fold addEdge es xs))"
  by (induction es arbitrary: xs) (auto simp: addEdge_def distinct_update)

lemma edges_of_map:
  assumes "inj_on edge_key (set es)"
  shows "set (map snd (fold addEdge es [])) = set es" "distinct (map snd (fold addEdge es []))"
proof -
  let ?m = "fold addEdge es []"
  have d: "distinct (map fst ?m)" by (rule distinct_addEdges) simp
  have m: "(k, e) \<in> set ?m \<longleftrightarrow> e \<in> set es \<and> k = edge_key e" for k e
    using map_of_addEdges [OF assms, of k e] map_of_eq_Some_iff [OF d] by simp
  have k: "\<forall>x \<in> set ?m. fst x = edge_key (snd x)" using m by (metis prod.collapse)
  show "set (map snd ?m) = set es"
  proof (rule set_eqI)
    fix e show "e \<in> set (map snd ?m) \<longleftrightarrow> e \<in> set es" using m [of "edge_key e" e] m [of _ e] by (metis (no_types, lifting) in_set_zip image_iff list.set_map prod.collapse snd_conv)
  qed
  from k have "map fst ?m = map edge_key (map snd ?m)" by simp
  then show "distinct (map snd ?m)" using d by (metis distinct_map)
qed

section \<open>The loop over the events\<close>

fun last_writer :: "Node list \<Rightarrow> string \<Rightarrow> string option" where
  "last_writer ns resource = map_option nd_ID (find (\<lambda>n. resource \<in> re_ID ` set (nd_Writes n)) (rev ns))"

definition reads_linked :: "Node list \<Rightarrow> Node \<Rightarrow> Edge list" where
  "reads_linked ns n = concat (map (\<lambda>r. case last_writer ns (re_ID r) of None \<Rightarrow> [] | Some p \<Rightarrow> [flow_edge p (nd_ID n) r]) (nd_Reads n))"

definition flows :: "Node list \<Rightarrow> Edge list" where
  "flows ns = concat (map (\<lambda>j. reads_linked (take j ns) (ns ! j)) [0..<length ns])"

lemma flows_snoc: "flows (ns @ [n]) = flows ns @ reads_linked ns n"
proof -
  have eq: "map (\<lambda>j. reads_linked (take j (ns @ [n])) ((ns @ [n]) ! j)) [0..<length ns] = map (\<lambda>j. reads_linked (take j ns) (ns ! j)) [0..<length ns]"
    by (rule map_cong) (auto simp: nth_append)
  have "flows (ns @ [n]) = concat (map (\<lambda>j. reads_linked (take j (ns @ [n])) ((ns @ [n]) ! j)) [0..<length ns]) @ reads_linked ns n"
    unfolding flows_def by simp
  also note eq
  finally show ?thesis by (simp only: flows_def)
qed

definition built :: "externals \<Rightarrow> build_state \<Rightarrow> bool" where
  "built ext s \<longleftrightarrow>
     bs_positions s = rev (zip (map nd_ID (bs_nodes s)) [0..<length (bs_nodes s)]) \<and> distinct (map nd_ID (bs_nodes s)) \<and>
     (\<forall>r. map_of (bs_lastWriter s) r = last_writer (bs_nodes s) r) \<and>
     bs_edges s = fold addEdge (flows (bs_nodes s)) [] \<and>
     (bs_auto s \<longleftrightarrow> (\<forall>n \<in> set (bs_nodes s). \<not> nd_Opaque n)) \<and>
     (\<forall>n \<in> set (bs_nodes s). \<forall>r \<in> set (nd_Reads n). \<not> contains_nul (re_ID r))"

lemma fold_link_read:
  "fold (link_read lw consumer) rs edges =
     fold addEdge (concat (map (\<lambda>r. case map_of lw (re_ID r) of None \<Rightarrow> [] | Some p \<Rightarrow> [flow_edge p consumer r]) rs)) edges"
  by (induction rs arbitrary: edges) (auto simp: link_read_def split: option.splits)

lemma map_of_fold_writes:
  "map_of (fold (\<lambda>r. AList.update (re_ID r) w) rs xs) k = (if k \<in> re_ID ` set rs then Some w else map_of xs k)"
  by (induction rs arbitrary: xs) (auto simp: update_conv')

lemma hash_bytes_no_nul: "\<not> contains_nul (''res_'' @ hash_bytes ext s)"
proof -
  have "\<not> is_hex_char (CHR 0x00)" by code_simp
  then have "CHR 0x00 \<notin> set (hash_bytes ext s)"
    using hex_EncodeToString_hex [of "sha256_Sum256 ext s"] unfolding hash_bytes_def list_all_iff by blast
  then show ?thesis by (simp add: contains_nul_def)
qed

lemma resource_for_ID:
  assumes "resource_for ext tenant values spec = Inr r" shows "\<not> contains_nul (re_ID r)"
proof -
  have "\<exists>s. re_ID r = ''res_'' @ hash_bytes ext s"
    using assms by (auto simp: resource_for_def Let_def split: option.splits if_splits)
  then show ?thesis using hash_bytes_no_nul by metis
qed

lemma resourcesFor_IDs:
  assumes "resourcesFor ext tenant specs values = Inr rs" "r \<in> set rs" shows "\<not> contains_nul (re_ID r)"
proof -
  obtain ys where ys: "res_map (resource_for ext tenant values) specs = Inr ys" "set rs = set ys" using assms(1) by (auto simp: resourcesFor_def)
  have "r \<in> set ys" using assms(2) ys(2) by simp
  from res_map_origin [OF ys(1) this] show ?thesis using resource_for_ID by blast
qed

lemma buildNode_Inr:
  assumes "buildNode ext tenant event resolved = Inr n"
  shows "nd_ID n = ce_ID event" "nd_Opaque n = rn_Opaque resolved" "r \<in> set (nd_Reads n) \<Longrightarrow> \<not> contains_nul (re_ID r)"
  using assms resourcesFor_IDs [of ext tenant "mf_Reads (rn_Manifest resolved)" "event_values event" _ r]
  by (auto simp: buildNode_def node_of_event_def Let_def split: if_splits)

lemma built_empty: "built ext empty_build"
  by (simp add: built_def empty_build_def flows_def)

lemma built_add_node:
  assumes "built ext s" "nd_ID n \<notin> nd_ID ` set (bs_nodes s)" "\<forall>r \<in> set (nd_Reads n). \<not> contains_nul (re_ID r)"
  shows "built ext (add_node n s)"
proof -
  let ?ns = "bs_nodes s"
  have lw: "map_of (bs_lastWriter s) r = last_writer ?ns r" for r using assms(1) by (simp add: built_def)
  have e: "fold (link_read (bs_lastWriter s) (nd_ID n)) (nd_Reads n) (bs_edges s) = fold addEdge (flows (?ns @ [n])) []"
    using assms(1) by (simp add: fold_link_read lw flows_snoc reads_linked_def built_def)
  have w: "map_of (fold (\<lambda>r. AList.update (re_ID r) (nd_ID n)) (nd_Writes n) (bs_lastWriter s)) r = last_writer (?ns @ [n]) r" for r
    using lw [of r] by (simp add: map_of_fold_writes)
  have p: "(nd_ID n, length ?ns) # bs_positions s = rev (zip (map nd_ID (?ns @ [n])) [0..<length (?ns @ [n])])"
    using assms(1) by (simp add: built_def)
  show ?thesis using assms e w p unfolding built_def add_node_def by auto
qed

lemma add_event_built:
  assumes "built ext s" "add_event ext resolve tenant s event = Inr t"
  shows "built ext t" "\<exists>n resolved. bs_nodes t = bs_nodes s @ [n] \<and> nd_ID n = ce_ID event \<and> ce_ID event \<noteq> [] \<and> nd_Opaque n = rn_Opaque resolved \<and>
    resolve \<lparr>q_Name = ce_ToolName event, q_Version = ce_ToolVersion event\<rparr> = Inr resolved"
proof -
  obtain resolved n where r: "resolve \<lparr>q_Name = ce_ToolName event, q_Version = ce_ToolVersion event\<rparr> = Inr resolved"
    "buildNode ext tenant event resolved = Inr n" "t = add_node n s" "map_of (bs_positions s) (ce_ID event) = None" "ce_ID event \<noteq> []"
    using assms(2) by (auto simp: add_event_def split: if_splits sum.splits)
  have "ce_ID event \<notin> nd_ID ` set (bs_nodes s)"
  proof -
    have "fst ` set (bs_positions s) = nd_ID ` set (bs_nodes s)"
      using assms(1) by (simp add: built_def) (metis length_map length_upt list.set_map map_fst_zip minus_nat.diff_0)
    then show ?thesis using r(4) by (simp add: map_of_eq_None_iff)
  qed
  then show "built ext t" using built_add_node [OF assms(1)] buildNode_Inr [OF r(2)] r(3) by simp
  show "\<exists>n resolved. bs_nodes t = bs_nodes s @ [n] \<and> nd_ID n = ce_ID event \<and> ce_ID event \<noteq> [] \<and> nd_Opaque n = rn_Opaque resolved \<and>
    resolve \<lparr>q_Name = ce_ToolName event, q_Version = ce_ToolVersion event\<rparr> = Inr resolved"
    using r buildNode_Inr [OF r(2)] by (auto simp: add_node_def)
qed

section \<open>The last writer\<close>

lemma last_writer_Some:
  assumes "j \<le> length ns"
  shows "last_writer (take j ns) (re_ID r) = Some p \<longleftrightarrow>
    (\<exists>i<j. p = nd_ID (ns ! i) \<and> writes_resource (ns ! i) r \<and> (\<forall>k. i < k \<and> k < j \<longrightarrow> \<not> writes_resource (ns ! k) r))"
  using assms
proof (induction j)
  case (Suc j)
  have "take (Suc j) ns = take j ns @ [ns ! j]" using Suc.prems by (simp add: take_Suc_conv_app_nth)
  then have l: "last_writer (take (Suc j) ns) (re_ID r) = (if writes_resource (ns ! j) r then Some (nd_ID (ns ! j)) else last_writer (take j ns) (re_ID r))"
    by (simp add: writes_resource_def)
  show ?case
  proof (cases "writes_resource (ns ! j) r")
    case True
    then show ?thesis unfolding l by (auto simp: less_Suc_eq)
  next
    case False
    then show ?thesis unfolding l using Suc by (auto simp: less_Suc_eq)
  qed
qed simp

lemma set_flows: "e \<in> set (flows ns) \<longleftrightarrow> (\<exists>i j r. flows_from ns i j r \<and> e = flow_edge (nd_ID (ns ! i)) (nd_ID (ns ! j)) r)"
proof -
  have step: "(\<exists>p. last_writer (take j ns) (re_ID r) = Some p \<and> e = flow_edge p c r) \<longleftrightarrow>
      (\<exists>i<j. writes_resource (ns ! i) r \<and> (\<forall>k. i < k \<and> k < j \<longrightarrow> \<not> writes_resource (ns ! k) r) \<and> e = flow_edge (nd_ID (ns ! i)) c r)"
    if "j < length ns" for j r c using last_writer_Some [OF less_imp_le [OF that], of r] by (auto simp del: last_writer.simps)
  have "e \<in> set (flows ns) \<longleftrightarrow> (\<exists>j<length ns. \<exists>r \<in> set (nd_Reads (ns ! j)). \<exists>p. last_writer (take j ns) (re_ID r) = Some p \<and> e = flow_edge p (nd_ID (ns ! j)) r)"
    by (force simp del: last_writer.simps simp: flows_def reads_linked_def split: option.splits)
  also have "\<dots> \<longleftrightarrow> (\<exists>j<length ns. \<exists>r \<in> set (nd_Reads (ns ! j)). \<exists>i. i < j \<and> writes_resource (ns ! i) r \<and>
      (\<forall>k. i < k \<and> k < j \<longrightarrow> \<not> writes_resource (ns ! k) r) \<and> e = flow_edge (nd_ID (ns ! i)) (nd_ID (ns ! j)) r)"
    by (simp add: step del: last_writer.simps cong: conj_cong)
  finally show ?thesis unfolding flows_from_def by blast
qed

lemma set_flows_eq: "set (flows ns) = {flow_edge (nd_ID (ns ! i)) (nd_ID (ns ! j)) r |i j r. flows_from ns i j r}"
  by (rule set_eqI) (simp only: set_flows mem_Collect_eq, blast)

section \<open>The whole build\<close>

lemma addDeclaredEdges_Inr:
  assumes "addDeclaredEdges edges positions ds edgeType = Inr edges'"
  shows "edges' = fold addEdge (map (declared_edge edgeType) ds) edges"
    "d \<in> set ds \<Longrightarrow> {dd_Prerequisite d, dd_Dependent d} \<subseteq> fst ` set positions"
proof -
  have "edges' = fold addEdge (map (declared_edge edgeType) ds) edges \<and> (\<forall>d \<in> set ds. {dd_Prerequisite d, dd_Dependent d} \<subseteq> fst ` set positions)"
    using assms
  proof (induction ds arbitrary: edges)
    case (Cons d ds)
    then have "addDeclaredEdges (addEdge (declared_edge edgeType d) edges) positions ds edgeType = Inr edges'"
      "map_of positions (dd_Prerequisite d) \<noteq> None" "map_of positions (dd_Dependent d) \<noteq> None" by (auto split: if_splits)
    then show ?case using Cons.IH by (simp add: map_of_eq_None_iff)
  qed simp
  then show "edges' = fold addEdge (map (declared_edge edgeType) ds) edges"
    "d \<in> set ds \<Longrightarrow> {dd_Prerequisite d, dd_Dependent d} \<subseteq> fst ` set positions" by blast+
qed

text \<open>All edges the builder adds, in the order in which it adds them.\<close>

definition added_edges :: "BuildRequest \<Rightarrow> Node list \<Rightarrow> Edge list" where
  "added_edges request ns = flows ns @ map (declared_edge EdgeControl) (br_ControlDependencies request) @
     map (declared_edge EdgeVerifier) (br_VerifierDependencies request)"

lemma built_positions: "built ext s \<Longrightarrow> fst ` set (bs_positions s) = nd_ID ` set (bs_nodes s)"
  by (simp add: built_def) (metis length_map length_upt list.set_map map_fst_zip minus_nat.diff_0)

lemma events_built:
  assumes "res_fold (add_event ext resolve tenant) empty_build events = Inr s"
  shows "built ext s" "list_all2 (\<lambda>event n. nd_ID n = ce_ID event \<and> ce_ID event \<noteq> [] \<and> (\<exists>resolved. nd_Opaque n = rn_Opaque resolved \<and>
    resolve \<lparr>q_Name = ce_ToolName event, q_Version = ce_ToolVersion event\<rparr> = Inr resolved)) events (bs_nodes s)"
proof -
  let ?R = "\<lambda>(event :: CanonicalEvent) n. nd_ID n = ce_ID event \<and> ce_ID event \<noteq> [] \<and> (\<exists>resolved. nd_Opaque n = rn_Opaque resolved \<and>
    resolve \<lparr>q_Name = ce_ToolName event, q_Version = ce_ToolVersion event\<rparr> = Inr resolved)"
  have "built ext s \<and> list_all2 ?R events (bs_nodes s)"
  proof (rule res_fold_prefix_induct [OF assms, where P = "\<lambda>es s. built ext s \<and> list_all2 ?R es (bs_nodes s)"])
    show "built ext empty_build \<and> list_all2 ?R [] (bs_nodes empty_build)" by (simp add: built_empty) (simp add: empty_build_def)
  next
    fix es event u v assume u: "built ext u \<and> list_all2 ?R es (bs_nodes u)" and v: "add_event ext resolve tenant u event = Inr v"
    obtain n where "bs_nodes v = bs_nodes u @ [n]" "?R event n" using add_event_built(2) [OF conjunct1 [OF u] v] by blast
    then show "built ext v \<and> list_all2 ?R (es @ [event]) (bs_nodes v)"
      using u add_event_built(1) [OF conjunct1 [OF u] v] list_all2_appendI [of ?R es "bs_nodes u" "[event]" "[n]"] by simp
  qed
  then show "built ext s" "list_all2 ?R events (bs_nodes s)" by blast+
qed

lemma finish_graph_Inr:
  "finish_graph ext graph = Inr g \<Longrightarrow> \<not> hasCycle (gr_Nodes graph) (gr_Edges graph) \<and> (\<exists>hash. g = graph\<lparr>gr_Hash := hash\<rparr>)"
  by (auto simp: finish_graph_def split: if_splits sum.splits)

lemma Build_steps:
  assumes "Build ext resolve request = Inr g"
  shows "\<exists>s e1 e2. res_fold (add_event ext resolve (cb_TenantID (br_Batch request))) empty_build (cb_Events (br_Batch request)) = Inr s \<and>
    addDeclaredEdges (bs_edges s) (bs_positions s) (br_ControlDependencies request) EdgeControl = Inr e1 \<and>
    addDeclaredEdges e1 (bs_positions s) (br_VerifierDependencies request) EdgeVerifier = Inr e2 \<and>
    gr_Nodes g = bs_nodes s \<and> gr_AutoPromotable g = bs_auto s \<and> gr_Edges g = sortEdges (bs_positions s) (map snd e2) \<and>
    \<not> hasCycle (gr_Nodes g) (gr_Edges g)"
  using assms by (auto simp: Build_def Let_def dest!: finish_graph_Inr split: if_splits)

lemma Build_Inr:
  assumes "Build ext resolve request = Inr g"
  obtains s where "res_fold (add_event ext resolve (cb_TenantID (br_Batch request))) empty_build (cb_Events (br_Batch request)) = Inr s"
    "gr_Nodes g = bs_nodes s" "gr_AutoPromotable g = bs_auto s"
    "gr_Edges g = sortEdges (bs_positions s) (map snd (fold addEdge (added_edges request (bs_nodes s)) []))"
    "\<not> hasCycle (gr_Nodes g) (gr_Edges g)"
    "\<forall>d \<in> set (br_ControlDependencies request) \<union> set (br_VerifierDependencies request). {dd_Prerequisite d, dd_Dependent d} \<subseteq> nd_ID ` set (gr_Nodes g)"
proof -
  obtain s e1 e2 where b: "res_fold (add_event ext resolve (cb_TenantID (br_Batch request))) empty_build (cb_Events (br_Batch request)) = Inr s"
    "addDeclaredEdges (bs_edges s) (bs_positions s) (br_ControlDependencies request) EdgeControl = Inr e1"
    "addDeclaredEdges e1 (bs_positions s) (br_VerifierDependencies request) EdgeVerifier = Inr e2"
    and g: "gr_Nodes g = bs_nodes s \<and> gr_AutoPromotable g = bs_auto s \<and> gr_Edges g = sortEdges (bs_positions s) (map snd e2) \<and>
      \<not> hasCycle (gr_Nodes g) (gr_Edges g)"
    using Build_steps [OF assms] by (elim exE conjE) (rule that, assumption+, simp)
  note built = events_built(1) [OF b(1)]
  have "bs_edges s = fold addEdge (flows (bs_nodes s)) []" using built by (simp add: built_def)
  then have e2: "e2 = fold addEdge (added_edges request (bs_nodes s)) []"
    using addDeclaredEdges_Inr(1) [OF b(2)] addDeclaredEdges_Inr(1) [OF b(3)] by (simp add: added_edges_def)
  have k: "fst ` set (bs_positions s) = nd_ID ` set (gr_Nodes g)" using built_positions [OF built] g by simp
  have c: "{dd_Prerequisite d, dd_Dependent d} \<subseteq> nd_ID ` set (gr_Nodes g)" if "d \<in> set (br_ControlDependencies request)" for d
    using addDeclaredEdges_Inr(2) [OF b(2) that] k by simp
  have v: "{dd_Prerequisite d, dd_Dependent d} \<subseteq> nd_ID ` set (gr_Nodes g)" if "d \<in> set (br_VerifierDependencies request)" for d
    using addDeclaredEdges_Inr(2) [OF b(3) that] k by simp
  show ?thesis
  proof (rule that [OF b(1)])
    show "\<forall>d \<in> set (br_ControlDependencies request) \<union> set (br_VerifierDependencies request). {dd_Prerequisite d, dd_Dependent d} \<subseteq> nd_ID ` set (gr_Nodes g)"
      by (intro ballI, elim UnE) (erule c, erule v)
    show "gr_Nodes g = bs_nodes s" "gr_AutoPromotable g = bs_auto s" "\<not> hasCycle (gr_Nodes g) (gr_Edges g)" using g by blast+
    show "gr_Edges g = sortEdges (bs_positions s) (map snd (fold addEdge (added_edges request (bs_nodes s)) []))" using g e2 by simp
  qed
qed

lemma edge_less_ends: "(\<lambda>e. (eg_From e, eg_To e)) ` set (sortEdges positions es) = edge_ends ` set es"
  by (simp add: sortEdges_def edge_ends_def)

lemma added_edge_cases:
  assumes "e \<in> set (added_edges request ns)"
  obtains (flow) i j r where "flows_from ns i j r" "e = flow_edge (nd_ID (ns ! i)) (nd_ID (ns ! j)) r"
    | (control) d where "d \<in> set (br_ControlDependencies request)" "e = declared_edge EdgeControl d"
    | (verifier) d where "d \<in> set (br_VerifierDependencies request)" "e = declared_edge EdgeVerifier d"
proof -
  from assms have "e \<in> set (flows ns) \<union> (declared_edge EdgeControl ` set (br_ControlDependencies request) \<union>
      declared_edge EdgeVerifier ` set (br_VerifierDependencies request))" by (simp only: added_edges_def set_append list.set_map)
  then show ?thesis unfolding Un_iff set_flows
    by (elim disjE exE conjE imageE) (rule flow, assumption+, rule control, assumption+, rule verifier, assumption+)
qed

text \<open>The edges that are added connect nodes of the graph and have plain keys.\<close>

lemma added_edges_ends:
  assumes "e \<in> set (added_edges request ns)"
    and "\<forall>d \<in> set (br_ControlDependencies request) \<union> set (br_VerifierDependencies request). {dd_Prerequisite d, dd_Dependent d} \<subseteq> nd_ID ` set ns"
  shows "{eg_From e, eg_To e} \<subseteq> nd_ID ` set ns"
proof -
  have d: "{dd_Prerequisite d, dd_Dependent d} \<subseteq> nd_ID ` set ns"
    if "d \<in> set (br_ControlDependencies request) \<or> d \<in> set (br_VerifierDependencies request)" for d
    using bspec [OF assms(2)] that unfolding Un_iff .
  from assms(1) show ?thesis
  proof (cases rule: added_edge_cases)
    case flow
    then show ?thesis by (simp add: flows_from_def flow_edge_def)
  qed (use d in \<open>simp_all add: declared_edge_def\<close>)
qed

lemma added_edges_plain:
  assumes "e \<in> set (added_edges request ns)" "\<forall>n \<in> set ns. plain_node n" "\<forall>n \<in> set ns. \<forall>r \<in> set (nd_Reads n). \<not> contains_nul (re_ID r)"
    and "\<forall>d \<in> set (br_ControlDependencies request) \<union> set (br_VerifierDependencies request). {dd_Prerequisite d, dd_Dependent d} \<subseteq> nd_ID ` set ns"
  shows "plain_edge e"
proof -
  have ends: "\<not> contains_nul (eg_From e)" "\<not> contains_nul (eg_To e)"
    using added_edges_ends [OF assms(1,4)] assms(2) by (auto simp: plain_node_def)
  have strings: "\<not> contains_nul EdgeResourceFlow" "\<not> contains_nul EdgeControl" "\<not> contains_nul EdgeVerifier" "\<not> contains_nul []" by code_simp+
  from assms(1) show ?thesis
  proof (cases rule: added_edge_cases)
    case (flow i j r)
    then have r: "r \<in> set (nd_Reads (ns ! j))" "ns ! j \<in> set ns" by (simp_all add: flows_from_def)
    then have "\<not> contains_nul (re_ID r)" "\<not> contains_nul (re_Namespace r)" "\<not> contains_nul (re_Type r)"
      using assms(2,3) unfolding plain_node_def by blast+
    then show ?thesis using ends strings flow(2) by (simp add: plain_edge_def flow_edge_def)
  qed (use ends strings in \<open>simp_all add: plain_edge_def declared_edge_def\<close>)
qed

section \<open>A sample trace\<close>

text \<open>Two events of one tool that reads and writes the same resource.\<close>

definition sample_event :: "string \<Rightarrow> uint32 \<Rightarrow> CanonicalEvent" where
  "sample_event event position = \<lparr>ce_ID = event, ce_Position = position, ce_ClientEventID = event, ce_OccurredAt = [], ce_Kind = ''tool'',
     ce_ToolName = ''scribe'', ce_ToolVersion = ''1.0.0'', ce_Fields = [\<lparr>cf_Name = ''path'', cf_Value = ''p''\<rparr>],
     ce_Result = Some \<lparr>cr_State = ''TOOL_RESULT_STATE_SUCCESS'', cr_ExitCode = None, cr_Evidence = []\<rparr>\<rparr>"

definition sample_build :: BuildRequest where
  "sample_build = \<lparr>br_Batch = \<lparr>cb_SchemaVersion = ''canonical.v1'', cb_TenantID = ''t'',
       cb_Trace = \<lparr>ct_ID = ''tr'', ct_ClientTraceID = ''c'', ct_Harness = ''h'', ct_HarnessVersion = [], ct_Task = [], ct_Environment = []\<rparr>,
       cb_Events = [sample_event ''a'' 0, sample_event ''b'' 1], cb_Hash = [], cb_CanonicalJSON = []\<rparr>,
     br_ControlDependencies = [\<lparr>dd_Prerequisite = ''a'', dd_Dependent = ''b''\<rparr>], br_VerifierDependencies = []\<rparr>"

definition sample_resource :: Resource where
  "sample_resource = (let h = hash_bytes sample_externals (''t'' @ NUL @ ''repo'' @ NUL @ ''repository'' @ NUL @ ''p'')
     in \<lparr>re_ID = ''res_'' @ h, re_Name = ''workspace'', re_Type = ''repository'', re_Namespace = ''repo'', re_IdentityHash = h, re_SchemaVersion = []\<rparr>)"

definition sample_node :: "string \<Rightarrow> uint32 \<Rightarrow> Node" where
  "sample_node event position = (node_of_event (sample_event event position) \<lparr>rn_Manifest = sample_canonical, rn_Opaque = False, rn_AutoPromotable = True\<rparr>)
     \<lparr>nd_Reads := [sample_resource], nd_Writes := [sample_resource]\<rparr>"

abbreviation sample_resolve :: "Query \<Rightarrow> contract_error + Resolution" where
  "sample_resolve \<equiv> Resolve sample_externals sample_semver sample_registry"

lemma sample_node_fields [simp]:
  "nd_ID (sample_node e p) = e" "nd_Position (sample_node e p) = p" "nd_Reads (sample_node e p) = [sample_resource]"
  "nd_Writes (sample_node e p) = [sample_resource]" "nd_Opaque (sample_node e p) = False" "nd_Succeeded (sample_node e p) = True"
  "nd_SideEffect (sample_node e p) = ''write''" "nd_Risk (sample_node e p) = ''low''" "nd_Effects (sample_node e p) = []"
  "nd_Preconditions (sample_node e p) = []" "nd_SuccessPredicates (sample_node e p) = []" "nd_VerificationMethods (sample_node e p) = []"
  by (simp_all add: sample_node_def node_of_event_def sample_event_def sample_canonical_def sample_contract_def empty_manifest_def Let_def)

lemma sample_buildNode:
  "buildNode sample_externals ''t'' (sample_event e p) \<lparr>rn_Manifest = sample_canonical, rn_Opaque = False, rn_AutoPromotable = True\<rparr> = Inr (sample_node e p)"
proof -
  have "event_values (sample_event e p) ''path'' = Some ''p''" by (simp add: event_values_def sample_event_def)
  then show ?thesis
    by (simp add: buildNode_def resourcesFor_def resource_for_def sample_node_def sample_resource_def sample_canonical_def sample_contract_def
        empty_manifest_def Let_def del: res_bind_eq_Inr)
qed

lemma sample_add_event:
  assumes "e \<noteq> []" "p = of_nat (length (bs_nodes s))" "map_of (bs_positions s) e = None"
  shows "add_event sample_externals sample_resolve ''t'' s (sample_event e p) = Inr (add_node (sample_node e p) s)"
proof -
  have f: "ce_ID (sample_event e p) = e" "ce_Position (sample_event e p) = p" "ce_ToolName (sample_event e p) = ''scribe''"
    "ce_ToolVersion (sample_event e p) = ''1.0.0''" by (simp_all add: sample_event_def)
  show ?thesis unfolding add_event_def f using assms
    by (simp add: sample_registered(3) sample_buildNode del: res_bind_eq_Inr)
qed

lemma sample_acyclic:
  assumes "\<forall>e \<in> set es. edge_ends e = (''a'', ''b'')" "length es = 2"
  shows "\<not> hasCycle [sample_node ''a'' 0, sample_node ''b'' 1] es"
proof -
  have "map edge_ends es = [(''a'', ''b''), (''a'', ''b'')]"
    using assms by (auto simp: numeral_2_eq_2 length_Suc_conv)
  moreover have "length (kahn False [(''a'', ''b''), (''a'', ''b'')] (indegrees [(''a'', ''b''), (''a'', ''b'')])
      (queue_order False (filter (\<lambda>n. indegrees [(''a'', ''b''), (''a'', ''b'')] n = 0) [''a'', ''b''])) []) = 2" by code_simp
  ultimately show ?thesis by (simp add: hasCycle_def Let_def)
qed

lemma sample_finish: "\<not> hasCycle (gr_Nodes g) (gr_Edges g) \<Longrightarrow> \<exists>hash. finish_graph sample_externals g = Inr (g\<lparr>gr_Hash := hash\<rparr>) \<and> hash \<noteq> []"
  using MarshalAndHash_pattern [OF digest32_sample MarshalAndHash_sample, of "json_graph g"] hashPattern_nonempty
  by (auto simp: finish_graph_def MarshalAndHash_sample)

lemma sample_build_graph:
  "\<exists>g. Build sample_externals sample_resolve sample_build = Inr g \<and> gr_Nodes g = [sample_node ''a'' 0, sample_node ''b'' 1] \<and> gr_TraceID g = ''tr'' \<and>
     gr_AutoPromotable g \<and> gr_Hash g \<noteq> [] \<and> edge_ends ` set (gr_Edges g) = {(''a'', ''b'')}"
proof -
  let ?s = "add_node (sample_node ''b'' 1) (add_node (sample_node ''a'' 0) empty_build)"
    and ?d = "\<lparr>dd_Prerequisite = ''a'', dd_Dependent = ''b''\<rparr>"
  have f: "res_fold (add_event sample_externals sample_resolve ''t'') empty_build [sample_event ''a'' 0, sample_event ''b'' 1] = Inr ?s"
    by (simp add: sample_add_event empty_build_def add_node_def del: res_bind_eq_Inr)
  have s: "bs_nodes ?s = [sample_node ''a'' 0, sample_node ''b'' 1]" "bs_auto ?s" "bs_positions ?s = [(''b'', 1), (''a'', 0)]"
    "bs_edges ?s = [(edge_key (flow_edge ''a'' ''b'' sample_resource), flow_edge ''a'' ''b'' sample_resource)]"
    by (simp_all add: add_node_def empty_build_def link_read_def addEdge_def)
  let ?es = "map snd (addEdge (declared_edge EdgeControl ?d) (bs_edges ?s))"
  have "edge_key (flow_edge ''a'' ''b'' sample_resource) \<noteq> edge_key (declared_edge EdgeControl ?d)"
    by (simp add: edge_key_def flow_edge_def declared_edge_def)
  then have es: "?es = [flow_edge ''a'' ''b'' sample_resource, declared_edge EdgeControl ?d]" by (simp add: s(4) addEdge_def)
  define g where "g = \<lparr>gr_SchemaVersion = ''causal-graph.v3'', gr_TraceID = ''tr'', gr_Nodes = bs_nodes ?s,
    gr_Edges = sortEdges (bs_positions ?s) ?es, gr_AutoPromotable = bs_auto ?s, gr_Hash = []\<rparr>"
  have "\<not> hasCycle (gr_Nodes g) (gr_Edges g)"
    unfolding g_def Graph.select_convs s(1) es
    by (rule sample_acyclic) (auto simp: sortEdges_def edge_ends_def flow_edge_def declared_edge_def)
  from sample_finish [OF this] obtain hash where h: "finish_graph sample_externals g = Inr (g\<lparr>gr_Hash := hash\<rparr>)" "hash \<noteq> []" by blast
  have "Build sample_externals sample_resolve sample_build = finish_graph sample_externals g"
    by (simp add: Build_def sample_build_def f s(3) g_def Let_def del: res_bind_eq_Inr res_fold.simps)
  moreover have "edge_ends ` set (gr_Edges g) = {(''a'', ''b'')}"
    unfolding g_def Graph.select_convs es by (simp add: sortEdges_def edge_ends_def flow_edge_def declared_edge_def)
  ultimately show ?thesis using h s(1,2) by (simp add: g_def)
qed

section \<open>Properties\<close>

text \<open>C7: the causal graph of a trace is exact. It has an edge from one event to another exactly when
  the second reads a resource that the first was the last to write before it, or when the caller
  declared the dependency; each edge occurs once, and the edges form no cycle. The identifiers of
  the events and the namespaces and types of the resources contain no zero byte.\<close>

theorem causal_edges_exact:
  assumes "Build ext resolve request = Inr g" "\<forall>n \<in> set (gr_Nodes g). plain_node n"
  shows "set (gr_Edges g) =
      {flow_edge (nd_ID (gr_Nodes g ! i)) (nd_ID (gr_Nodes g ! j)) r |i j r. flows_from (gr_Nodes g) i j r} \<union>
      declared_edge EdgeControl ` set (br_ControlDependencies request) \<union> declared_edge EdgeVerifier ` set (br_VerifierDependencies request) \<and>
    distinct (gr_Edges g) \<and> acyclic ((\<lambda>e. (eg_From e, eg_To e)) ` set (gr_Edges g))"
proof -
  from assms(1) obtain s where s: "res_fold (add_event ext resolve (cb_TenantID (br_Batch request))) empty_build (cb_Events (br_Batch request)) = Inr s"
    "gr_Nodes g = bs_nodes s" "gr_Edges g = sortEdges (bs_positions s) (map snd (fold addEdge (added_edges request (bs_nodes s)) []))"
    "\<not> hasCycle (gr_Nodes g) (gr_Edges g)"
    "\<forall>d \<in> set (br_ControlDependencies request) \<union> set (br_VerifierDependencies request). {dd_Prerequisite d, dd_Dependent d} \<subseteq> nd_ID ` set (gr_Nodes g)"
    by (rule Build_Inr)
  let ?es = "added_edges request (gr_Nodes g)"
  have b: "distinct (map nd_ID (gr_Nodes g))" "\<forall>n \<in> set (gr_Nodes g). \<forall>r \<in> set (nd_Reads n). \<not> contains_nul (re_ID r)"
    using events_built(1) [OF s(1)] s(2) by (simp_all add: built_def)
  have "inj_on edge_key (set ?es)"
    using edge_key_inject added_edges_plain [OF _ assms(2) b(2) s(5)] by (metis inj_onI)
  note m = edges_of_map [OF this]
  have e: "set (gr_Edges g) = set ?es" "distinct (gr_Edges g)"
    using m by (simp_all only: s(2,3) sortEdges_def set_sort_slice distinct_sort_slice)
  have "set ?es = {flow_edge (nd_ID (gr_Nodes g ! i)) (nd_ID (gr_Nodes g ! j)) r |i j r. flows_from (gr_Nodes g) i j r} \<union>
      declared_edge EdgeControl ` set (br_ControlDependencies request) \<union> declared_edge EdgeVerifier ` set (br_VerifierDependencies request)"
    unfolding added_edges_def set_append list.set_map Un_assoc [symmetric] by (simp only: set_flows_eq)
  moreover have "acyclic (set (map edge_ends (gr_Edges g)))"
  proof -
    have "fst ` set (map edge_ends (gr_Edges g)) \<union> snd ` set (map edge_ends (gr_Edges g)) \<subseteq> set (map nd_ID (gr_Nodes g))"
      using added_edges_ends [OF _ s(5)] e(1) by (auto simp: edge_ends_def)
    from kahn_cycle [OF b(1) this refl, of False] s(4) show ?thesis by (simp add: hasCycle_def Let_def)
  qed
  ultimately show ?thesis using e by (simp add: edge_ends_def)
qed

theorem causal_edges_exact_witness:
  "\<exists>g. Build sample_externals sample_resolve sample_build = Inr g \<and>
     flow_edge ''a'' ''b'' sample_resource \<in> set (gr_Edges g) \<and> acyclic ((\<lambda>e. (eg_From e, eg_To e)) ` set (gr_Edges g))"
proof -
  obtain g where g: "Build sample_externals sample_resolve sample_build = Inr g" "gr_Nodes g = [sample_node ''a'' 0, sample_node ''b'' 1]"
    using sample_build_graph by blast
  have "\<not> contains_nul ''a''" "\<not> contains_nul ''b''" "\<not> contains_nul ''repo''" "\<not> contains_nul ''repository''" by code_simp+
  then have "\<forall>n \<in> set (gr_Nodes g). plain_node n" by (simp add: g(2) plain_node_def sample_resource_def Let_def)
  note e = causal_edges_exact [OF g(1) this]
  have "flows_from (gr_Nodes g) 0 1 sample_resource" by (auto simp: flows_from_def g(2) writes_resource_def)
  then have "flow_edge (nd_ID (gr_Nodes g ! 0)) (nd_ID (gr_Nodes g ! 1)) sample_resource \<in> set (gr_Edges g)"
    unfolding conjunct1 [OF e] by blast
  then show ?thesis using e g by auto
qed

end
