(* ===== verification/Synthesis_Steps.thy ===== *)
theory Synthesis_Steps
  imports Synthesis Causal_Edges
begin

text \<open>
  What the synthesizer keeps. The closure over prerequisites is the set of ancestors of the proving
  events; the steps of a procedure are determined by it, and without a verified outcome, with an
  opaque tool or with a failed prerequisite there is no procedure.
\<close>

section \<open>The closure is the set of ancestors\<close>

abbreviation ends :: "Edge list \<Rightarrow> arrow set" where "ends edges \<equiv> edge_ends ` set edges"

definition ancestors_of :: "Edge list \<Rightarrow> string set \<Rightarrow> string set" where
  "ancestors_of edges S = {x. \<exists>y \<in> S. (x, y) \<in> (ends edges)\<^sup>*}"

lemma prerequisites_iff: "x \<in> set (prerequisites edges y) \<longleftrightarrow> (x, y) \<in> ends edges"
  by (auto simp: prerequisites_def edge_ends_def)

lemma ancestors_of_closed:
  assumes "\<And>x y. y \<in> S \<Longrightarrow> (x, y) \<in> ends edges \<Longrightarrow> x \<in> S" shows "ancestors_of edges S = S"
proof -
  have "x \<in> S" if "(x, y) \<in> (ends edges)\<^sup>*" "y \<in> S" for x y using that by (induction rule: converse_rtrancl_induct) (auto intro: assms)
  then show ?thesis by (auto simp: ancestors_of_def)
qed

lemma ancestors_of_extend:
  assumes "y \<in> S" shows "ancestors_of edges (S \<union> set (prerequisites edges y)) = ancestors_of edges S"
proof
  show "ancestors_of edges (S \<union> set (prerequisites edges y)) \<subseteq> ancestors_of edges S"
  proof
    fix x assume "x \<in> ancestors_of edges (S \<union> set (prerequisites edges y))"
    then obtain z where z: "z \<in> S \<or> (z, y) \<in> ends edges" "(x, z) \<in> (ends edges)\<^sup>*" unfolding ancestors_of_def Un_iff Bex_def mem_Collect_eq prerequisites_iff by blast
    then show "x \<in> ancestors_of edges S" using assms rtrancl_into_rtrancl [OF z(2)] unfolding ancestors_of_def by blast
  qed
qed (auto simp: ancestors_of_def)

lemma set_ancestors:
  assumes "set stack \<subseteq> set retained" "\<forall>y \<in> set retained - set stack. \<forall>x. (x, y) \<in> ends edges \<longrightarrow> x \<in> set retained"
  shows "set (ancestors edges stack retained) = ancestors_of edges (set retained)"
  using assms
proof (induction edges stack retained rule: ancestors.induct)
  case (1 edges retained)
  then show ?case using ancestors_of_closed [of "set retained" edges] by auto
next
  case (2 edges event stack retained)
  obtain stack' retained' where v: "visit (prerequisites edges event) stack retained = (stack', retained')" by fastforce
  obtain new where new: "stack' = new @ stack" "retained' = new @ retained" using visit_spec(2) [OF v] by blast
  note r = visit_spec(1) [OF v]
  have closed: "x \<in> set retained'" if "y \<in> set retained'" "y \<notin> set stack'" "(x, y) \<in> ends edges" for x y
  proof (cases "y = event")
    case True
    then show ?thesis using that(3) r prerequisites_iff [of x edges event] by simp
  next
    case False
    have "y \<in> set retained - set (event # stack)" using that(1,2) False new by simp
    then show ?thesis using 2(3) that(3) r by blast
  qed
  have "set (ancestors edges stack' retained') = ancestors_of edges (set retained')"
  proof (rule 2(1) [OF refl, unfolded v fst_conv snd_conv])
    show "set stack' \<subseteq> set retained'" using new 2(2) by auto
    show "\<forall>y \<in> set retained' - set stack'. \<forall>x. (x, y) \<in> ends edges \<longrightarrow> x \<in> set retained'" using closed by blast
  qed
  moreover have "ancestors_of edges (set retained') = ancestors_of edges (set retained)"
    unfolding r by (rule ancestors_of_extend) (use 2(2) in simp)
  ultimately show ?case by (simp add: v)
qed

section \<open>The phases\<close>

lemma verifier_loop_Inr:
  "verifier_loop nodes retained vs = Inr retained' \<Longrightarrow> set retained' = set retained \<union> {v \<in> set vs. succeeded nodes v} \<and> (\<forall>v \<in> set vs. nodes v \<noteq> None)"
  by (induction vs arbitrary: retained) (auto split: if_splits)

lemma goal_loop_Inr:
  assumes "goal_loop ext nodes index base retained goals = Inr (base', retained')"
  shows "set retained' = set retained \<union> {v. \<exists>g \<in> set goals. v \<in> set (gq_VerifierNodes g) \<and> succeeded nodes v}"
    "\<forall>g \<in> set goals. list_ex (succeeded nodes) (gq_VerifierNodes g)" "\<exists>predicates. base' = base\<lparr>sr_GoalPredicates := predicates\<rparr>"
proof -
  have "set retained' = set retained \<union> {v. \<exists>g \<in> set goals. v \<in> set (gq_VerifierNodes g) \<and> succeeded nodes v} \<and>
    (\<forall>g \<in> set goals. list_ex (succeeded nodes) (gq_VerifierNodes g)) \<and> (\<exists>predicates. base' = base\<lparr>sr_GoalPredicates := predicates\<rparr>)"
    using assms
  proof (induction goals arbitrary: index base retained)
    case Nil
    then show ?case by (auto intro: exI [of _ "sr_GoalPredicates base"])
  next
    case (Cons g goals)
    let ?base = "base\<lparr>sr_GoalPredicates := (sr_GoalPredicates base)[index := gq_PredicateID g]\<rparr>"
    obtain r where r: "verifier_loop nodes retained (gq_VerifierNodes g) = Inr r" "list_ex (succeeded nodes) (gq_VerifierNodes g)"
      "goal_loop ext nodes (Suc index) ?base r goals = Inr (base', retained')" using Cons.prems by (auto simp: Let_def split: if_splits)
    from Cons.IH [OF r(3)] obtain predicates where i: "set retained' = set r \<union> {v. \<exists>g \<in> set goals. v \<in> set (gq_VerifierNodes g) \<and> succeeded nodes v}"
      "\<forall>g \<in> set goals. list_ex (succeeded nodes) (gq_VerifierNodes g)" "base' = ?base\<lparr>sr_GoalPredicates := predicates\<rparr>" by blast
    have "base' = base\<lparr>sr_GoalPredicates := predicates\<rparr>" using i(3) by simp
    moreover have "set retained' = set retained \<union> {v. \<exists>g \<in> set (g # goals). v \<in> set (gq_VerifierNodes g) \<and> succeeded nodes v}"
      unfolding i(1) conjunct1 [OF verifier_loop_Inr [OF r(1)]] by auto
    ultimately show ?case using r(2) i(2) by auto
  qed
  then show "set retained' = set retained \<union> {v. \<exists>g \<in> set goals. v \<in> set (gq_VerifierNodes g) \<and> succeeded nodes v}"
    "\<forall>g \<in> set goals. list_ex (succeeded nodes) (gq_VerifierNodes g)" "\<exists>predicates. base' = base\<lparr>sr_GoalPredicates := predicates\<rparr>" by blast+
qed

lemma effect_loop_Inr:
  "effect_loop ext nodes base retained events = Inr retained' \<Longrightarrow> set retained' = set retained \<union> set events \<and> (\<forall>e \<in> set events. succeeded nodes e)"
  by (induction events arbitrary: retained) (auto split: if_splits)

text \<open>Where a phase ends the call with a result, that is an abstention without steps.\<close>

definition abstention :: "Result \<Rightarrow> bool" where
  "abstention r \<longleftrightarrow> sr_Status r = StatusAbstained \<and> sr_AbstentionCode r \<noteq> [] \<and> sr_Steps r = [] \<and> sr_Edges r = [] \<and> \<not> sr_ObservedEndToEnd r"

definition blank :: "Result \<Rightarrow> bool" where "blank base \<longleftrightarrow> sr_Steps base = [] \<and> sr_Edges base = []"

lemma hash_result_Inr: "hash_result ext base = Inr r \<Longrightarrow> \<exists>hash. r = base\<lparr>sr_Hash := hash\<rparr>"
  by (auto simp: hash_result_def split: sum.splits)

lemma abstain_abstention: "abstain ext base code = Inr r \<Longrightarrow> blank base \<Longrightarrow> code \<noteq> [] \<Longrightarrow> abstention r \<and> sr_AbstentionCode r = code"
  by (auto simp: abstain_def abstention_def blank_def Let_def dest!: hash_result_Inr)

lemma verifier_loop_Inl: "verifier_loop nodes retained vs = Inl out \<Longrightarrow> out = Inl ErrInvalidSynthesisRequest"
  by (induction vs arbitrary: retained) (auto split: if_splits)

lemma goal_loop_Inl:
  "goal_loop ext nodes index base retained goals = Inl (Inr r) \<Longrightarrow> blank base \<Longrightarrow> abstention r"
proof (induction goals arbitrary: index base retained)
  case (Cons g goals)
  let ?base = "base\<lparr>sr_GoalPredicates := (sr_GoalPredicates base)[index := gq_PredicateID g]\<rparr>"
  have b: "blank ?base" using Cons.prems(2) by (simp add: blank_def)
  consider "abstain ext ?base ''uncovered_goal'' = Inr r" | "verifier_loop nodes retained (gq_VerifierNodes g) = Inl (Inr r)"
    | s where "goal_loop ext nodes (Suc index) ?base s goals = Inl (Inr r)"
    using Cons.prems(1) by (auto simp: Let_def res_bind_def split: if_splits sum.splits)
  then show ?case
  proof cases
    case 1
    then show ?thesis using abstain_abstention [OF 1 b] by simp
  next
    case 2
    then show ?thesis by (auto dest: verifier_loop_Inl)
  next
    case 3
    then show ?thesis using Cons.IH b by blast
  qed
qed simp

lemma effect_loop_Inl: "effect_loop ext nodes base retained events = Inl (Inr r) \<Longrightarrow> blank base \<Longrightarrow> abstention r"
  by (induction events arbitrary: retained) (auto split: if_splits dest: abstain_abstention)

section \<open>The retained events\<close>

text \<open>The events that prove a goal or an effect, and what they depend on.\<close>

definition proving :: "Request \<Rightarrow> string set" where
  "proving request =
     {v. (\<exists>g \<in> set (sq_Goals request). v \<in> set (gq_VerifierNodes g)) \<and> succeeded (node_map (gr_Nodes (sq_Graph request))) v} \<union> set (sq_RequiredEffects request)"

definition needed :: "Request \<Rightarrow> string set" where
  "needed request = ancestors_of (gr_Edges (sq_Graph request)) (proving request)"

lemma canonicalGoals_verifiers:
  "(\<exists>g \<in> set (canonicalGoals goals). v \<in> set (gq_VerifierNodes g)) \<longleftrightarrow> (\<exists>g \<in> set goals. v \<in> set (gq_VerifierNodes g))"
  by (auto simp: canonicalGoals_def)

lemma retain_Inr:
  assumes "retain ext request (node_map (gr_Nodes (sq_Graph request))) = Inr (base, retained)"
  shows "set retained = needed request" "\<forall>e \<in> needed request. succeeded (node_map (gr_Nodes (sq_Graph request))) e"
    "\<exists>predicates. base = (empty_result request)\<lparr>sr_GoalPredicates := predicates\<rparr>"
proof -
  define nodes where "nodes = node_map (gr_Nodes (sq_Graph request))"
  let ?goals = "canonicalGoals (sq_Goals request)" and ?edges = "gr_Edges (sq_Graph request)"
  obtain b r0 r1 where g: "goal_loop ext nodes 0 ((empty_result request)\<lparr>sr_GoalPredicates := replicate (length ?goals) []\<rparr>) [] ?goals = Inr (b, r0)"
    "effect_loop ext nodes b r0 (sq_RequiredEffects request) = Inr r1"
    and r: "base = b \<and> retained = ancestors ?edges r1 r1 \<and> (\<forall>e \<in> set retained. succeeded nodes e)"
    using assms unfolding retain_def Let_def nodes_def [symmetric] by (auto simp: list_ex_iff split: if_splits)
  have "set r1 = proving request"
    using goal_loop_Inr(1) [OF g(1)] effect_loop_Inr [OF g(2)] canonicalGoals_verifiers [of "sq_Goals request"]
    by (auto simp: proving_def nodes_def)
  then show n: "set retained = needed request" using set_ancestors [of r1 r1 ?edges] r by (simp add: needed_def)
  show "\<forall>e \<in> needed request. succeeded (node_map (gr_Nodes (sq_Graph request))) e" using r n by (simp add: nodes_def)
  show "\<exists>predicates. base = (empty_result request)\<lparr>sr_GoalPredicates := predicates\<rparr>" using goal_loop_Inr(3) [OF g(1)] r by auto
qed

lemma retain_Inl:
  assumes "retain ext request nodes = Inl (Inr r)" shows "abstention r"
proof -
  let ?goals = "canonicalGoals (sq_Goals request)"
  let ?base = "(empty_result request)\<lparr>sr_GoalPredicates := replicate (length ?goals) []\<rparr>"
  have b: "blank ?base" by (simp add: blank_def empty_result_def)
  show ?thesis
  proof (cases "goal_loop ext nodes 0 ?base [] ?goals")
    case (Inl out)
    then show ?thesis using assms goal_loop_Inl [OF _ b] by (simp add: retain_def Let_def)
  next
    case (Inr x)
    obtain base r0 where x: "x = (base, r0)" by fastforce
    have "blank base" using goal_loop_Inr(3) [OF Inr [unfolded x]] b by (auto simp: blank_def)
    then show ?thesis using assms Inr x
      by (cases "effect_loop ext nodes base r0 (sq_RequiredEffects request)")
        (auto simp: retain_def Let_def split: if_splits dest: effect_loop_Inl abstain_abstention)
  qed
qed

section \<open>The steps\<close>

lemma step_loop_steps:
  assumes "res_fold (step_loop retained irrelevant failed) ([], []) ns = Inr (steps, catalog)"
  shows "map ps_EventID steps = map nd_ID (filter (keeps retained irrelevant failed) ns) \<and>
    (\<forall>s \<in> set steps. ps_UncertainNecessity s \<longleftrightarrow> ps_EventID s \<notin> set retained) \<and> map ps_Ordinal steps = map of_nat [0..<length steps]"
proof -
  let ?P = "\<lambda>ns s. map ps_EventID (fst s) = map nd_ID (filter (keeps retained irrelevant failed) ns) \<and>
    (\<forall>x \<in> set (fst s). ps_UncertainNecessity x \<longleftrightarrow> ps_EventID x \<notin> set retained) \<and> map ps_Ordinal (fst s) = map of_nat [0..<length (fst s)]"
  have "?P ns (steps, catalog)"
  proof (rule res_fold_prefix_induct [OF assms, where P = ?P])
    fix ys n u v assume u: "?P ys u" and v: "step_loop retained irrelevant failed u n = Inr v"
    show "?P (ys @ [n]) v"
    proof (cases "keeps retained irrelevant failed n")
      case True
      then obtain metadata where "fst v = fst u @ [procedure_step (nd_ID n \<in> set retained) (of_nat (length (fst u))) n metadata]"
        using v by (auto simp: step_loop_def)
      then show ?thesis using u True by (cases metadata) (auto simp: procedure_step_def)
    next
      case False
      then show ?thesis using u v by (simp add: step_loop_def)
    qed
  qed simp
  then show ?thesis by simp
qed

lemma assemble_Inr:
  assumes "assemble ext graph base retained irrelevant failed = Inr res"
  shows "\<exists>catalog. res_fold (step_loop retained irrelevant failed) ([], []) (gr_Nodes graph) = Inr (sr_Steps res, catalog)"
    "set (sr_Edges res) = {e \<in> set (gr_Edges graph). {eg_From e, eg_To e} \<subseteq> ps_EventID ` set (sr_Steps res)}" "sr_Status res = StatusSynthesized"
  using assms by (auto simp: assemble_def sortEdges_def Let_def dest!: hash_result_Inr)

text \<open>A call either fails, abstains, or goes through all phases.\<close>

lemma Synthesize_cases:
  assumes "Synthesize ext request = Inr res"
  obtains (abstained) "abstention res"
    | (synthesized) base retained paths where "sq_OutcomeState request = OutcomeStateVerifiedSuccess" "gr_AutoPromotable (sq_Graph request)"
      "retain ext request (node_map (gr_Nodes (sq_Graph request))) = Inr (base, retained)"
      "assemble ext (sq_Graph request) (base\<lparr>sr_NegativePaths := paths\<rparr>) retained (sq_IrrelevantNodes request)
        (concat (map fb_EventIDs (sq_FailedBranches request))) = Inr res"
proof -
  let ?base = "empty_result request" and ?nodes = "node_map (gr_Nodes (sq_Graph request))"
  have b: "blank ?base" by (simp add: blank_def empty_result_def)
  consider (a) "abstain ext ?base ''outcome_not_verified'' = Inr res" | (o) "abstain ext ?base ''opaque_tool'' = Inr res"
    | (l) "retain ext request ?nodes = Inl (Inr res)"
    | (r) base retained where "sq_OutcomeState request = OutcomeStateVerifiedSuccess" "gr_AutoPromotable (sq_Graph request)"
      "retain ext request ?nodes = Inr (base, retained)"
      "res_bind (eventSet (sq_IrrelevantNodes request) ?nodes) (\<lambda>irrelevant.
            res_bind (buildNegativePaths ext (sq_FailedBranches request) ?nodes) (\<lambda>(paths, failed).
            assemble ext (sq_Graph request) (base\<lparr>sr_NegativePaths := paths\<rparr>) retained irrelevant failed)) = Inr res"
    using assms unfolding Synthesize_def Let_def finish_phase_def
    by (cases "retain ext request ?nodes") (simp_all split: if_splits prod.splits del: res_bind_eq_Inr)
  then show ?thesis
  proof cases
    case a
    then show ?thesis using abstain_abstention [OF a b] abstained by simp
  next
    case o
    then show ?thesis using abstain_abstention [OF o b] abstained by simp
  next
    case l
    then show ?thesis using retain_Inl abstained by blast
  next
    case (r base retained)
    from r(4) obtain paths where "assemble ext (sq_Graph request) (base\<lparr>sr_NegativePaths := paths\<rparr>) retained (sq_IrrelevantNodes request)
        (concat (map fb_EventIDs (sq_FailedBranches request))) = Inr res"
      by (auto simp: eventSet_def buildNegativePaths_def split: if_splits)
    then show ?thesis by (rule synthesized [OF r(1-3)])
  qed
qed

section \<open>A sample request\<close>

definition sample_request :: "Graph \<Rightarrow> Request" where
  "sample_request g = \<lparr>sq_Graph = g, sq_OutcomeState = OutcomeStateVerifiedSuccess,
     sq_Goals = [\<lparr>gq_PredicateID = ''goal'', gq_VerifierNodes = [''b'']\<rparr>], sq_RequiredEffects = [], sq_IrrelevantNodes = [''a''], sq_FailedBranches = [],
     sq_Versions = \<lparr>vs_Sanitizer = ''1'', vs_Registry = ''1'', vs_Policy = ''1'', vs_GraphBuilder = ''1'', vs_Synthesizer = ''1''\<rparr>\<rparr>"

lemma sample_procedure_resource:
  fixes v defines "v \<equiv> procedure_resource sample_resource"
  shows "pr_ID v = ''res_'' @ pr_IdentityHash v" "pr_Name v \<noteq> []" "pr_Type v \<noteq> []" "pr_Namespace v \<noteq> []" "length (pr_IdentityHash v) = 64"
    "lowerHex (pr_IdentityHash v)"
proof -
  have t: "TrimSpace ''workspace'' = ''workspace''" "TrimSpace ''repository'' = ''repository''" "TrimSpace ''repo'' = ''repo''" by code_simp+
  let ?h = "hash_bytes sample_externals (''t'' @ NUL @ ''repo'' @ NUL @ ''repository'' @ NUL @ ''p'')"
  have h: "hashPattern ?h" by (rule hashPattern_hash_bytes [OF digest32_sample])
  then have "list_all is_token_char (''res_'' @ ?h)" by (simp add: hashPattern_def list_all_hex_token) code_simp
  then have "list_all visible_char (''res_'' @ ?h)" "list_all visible_char ?h" by (auto simp: list_all_iff is_token_visible)
  note TrimSpace_visible [OF this(1)] TrimSpace_visible [OF this(2)]
  then show "pr_ID v = ''res_'' @ pr_IdentityHash v" "pr_Name v \<noteq> []" "pr_Type v \<noteq> []" "pr_Namespace v \<noteq> []" "length (pr_IdentityHash v) = 64"
    "lowerHex (pr_IdentityHash v)"
    using h t by (simp_all add: v_def procedure_resource_def sample_resource_def hashPattern_def lowerHex_def Let_def)
qed

lemma sample_resources:
  fixes v defines "v \<equiv> procedure_resource sample_resource"
  assumes "catalog \<in> {[], [(pr_ID v, v)]}"
  shows "canonicalProcedureResources [sample_resource] catalog = Inr ([v], [(pr_ID v, v)])"
  using assms sample_procedure_resource
  by (auto simp: canonicalProcedureResources_def resource_step_def conflicting_def Let_def simp del: res_bind_eq_Inr)

lemma sample_metadata:
  fixes v defines "v \<equiv> procedure_resource sample_resource"
  assumes "catalog \<in> {[], [(pr_ID v, v)]}"
  shows "canonicalStepMetadata (sample_node e p) catalog = Inr (([v], [v], [], [], [], []), [(pr_ID v, v)])"
  using assms sample_resources
  by (simp add: canonicalStepMetadata_def validSideEffect_def validRisk_def canonicalStringSet_def step_predicates_def sorted_keys_def del: res_bind_eq_Inr)

lemma sample_assemble:
  assumes "gr_Nodes g = [sample_node ''a'' 0, sample_node ''b'' 1]" "set retained = {''a'', ''b''}"
  shows "\<exists>res. assemble sample_externals g base retained [''a''] [] = Inr res"
proof -
  have "\<exists>s. res_fold (step_loop retained [''a''] []) ([], []) (gr_Nodes g) = Inr s"
    by (simp add: assms step_loop_def keeps_def sample_metadata del: res_bind_eq_Inr)
  then show ?thesis by (auto simp: assemble_def hash_result_def MarshalAndHash_sample Let_def simp del: res_fold.simps res_bind_eq_Inr)
qed

lemma sample_retain:
  assumes "gr_Nodes g = [sample_node ''a'' 0, sample_node ''b'' 1]" "ends (gr_Edges g) = {(''a'', ''b'')}"
  shows "\<exists>base retained. retain sample_externals (sample_request g) (node_map (gr_Nodes g)) = Inr (base, retained) \<and> set retained = {''a'', ''b''}"
proof -
  let ?nodes = "node_map (gr_Nodes g)"
  have n: "?nodes ''a'' = Some (sample_node ''a'' 0)" "?nodes ''b'' = Some (sample_node ''b'' 1)" by (simp_all add: assms(1) node_map_def)
  then have s: "succeeded ?nodes ''a''" "succeeded ?nodes ''b''" by (simp_all add: succeeded_def)
  have g: "canonicalGoals (sq_Goals (sample_request g)) = [\<lparr>gq_PredicateID = ''goal'', gq_VerifierNodes = [''b'']\<rparr>]"
    by (simp add: canonicalGoals_def sample_request_def sorted_keys_def)
  have "ancestors_of (gr_Edges g) {''b''} = {''a'', ''b''}"
  proof -
    have "(x, ''b'') \<in> {(''a'', ''b'')}\<^sup>* \<longleftrightarrow> x = ''a'' \<or> x = ''b''" for x
      by (auto elim: converse_rtranclE)
    then show ?thesis by (auto simp: ancestors_of_def assms(2))
  qed
  then have a: "set (ancestors (gr_Edges g) [''b''] [''b'']) = {''a'', ''b''}" using set_ancestors [of "[''b'']" "[''b'']" "gr_Edges g"] by simp
  have e: "\<not> list_ex (\<lambda>e. ?nodes (eg_From e) = None \<or> ?nodes (eg_To e) = None) (gr_Edges g)"
  proof -
    have "eg_From e = ''a'' \<and> eg_To e = ''b''" if "e \<in> set (gr_Edges g)" for e
      using imageI [OF that, of edge_ends] unfolding assms(2) by (simp add: edge_ends_def)
    then show ?thesis using n by (auto simp: list_ex_iff)
  qed
  have f: "\<not> list_ex (\<lambda>event. \<not> succeeded ?nodes event) (ancestors (gr_Edges g) [''b''] [''b''])" using a s by (auto simp: list_ex_iff)
  show ?thesis unfolding retain_def Let_def g
    using a e f n(2) s(2) by (simp add: sample_request_def del: res_bind_eq_Inr ancestors.simps)
qed

lemma sample_synthesis:
  "\<exists>g res. Build sample_externals sample_resolve sample_build = Inr g \<and> gr_Nodes g = [sample_node ''a'' 0, sample_node ''b'' 1] \<and>
     ends (gr_Edges g) = {(''a'', ''b'')} \<and> Synthesize sample_externals (sample_request g) = Inr res \<and> sr_Status res = StatusSynthesized"
proof -
  obtain g where g: "Build sample_externals sample_resolve sample_build = Inr g" "gr_Nodes g = [sample_node ''a'' 0, sample_node ''b'' 1]"
    "gr_TraceID g = ''tr''" "gr_AutoPromotable g" "gr_Hash g \<noteq> []" "ends (gr_Edges g) = {(''a'', ''b'')}" using sample_build_graph by blast
  obtain base retained where r: "retain sample_externals (sample_request g) (node_map (gr_Nodes g)) = Inr (base, retained)" "set retained = {''a'', ''b''}"
    using sample_retain [OF g(2,6)] by blast
  obtain res where res: "assemble sample_externals g (base\<lparr>sr_NegativePaths := []\<rparr>) retained [''a''] [] = Inr res"
    using sample_assemble [OF g(2) r(2)] by blast
  have o: "ordered_nodes (gr_Nodes g)" by (simp add: ordered_nodes_def g(2))
  have i: "eventSet [''a''] (node_map (gr_Nodes g)) = Inr [''a'']" by (simp add: eventSet_def node_map_def g(2))
  have f: "sq_Graph (sample_request g) = g" "sq_OutcomeState (sample_request g) = OutcomeStateVerifiedSuccess" "sq_Goals (sample_request g) \<noteq> []"
    "versions_valid (sq_Versions (sample_request g))" "sq_IrrelevantNodes (sample_request g) = [''a'']" "sq_FailedBranches (sample_request g) = []"
    by (simp_all add: sample_request_def versions_valid_def)
  have "Synthesize sample_externals (sample_request g) = Inr res"
    unfolding Synthesize_def f Let_def finish_phase_def using g(2-5) f o r(1) i res
    by (simp add: buildNegativePaths_def del: res_bind_eq_Inr)
  then show ?thesis using g(1,2,6) assemble_Inr(3) [OF res] by blast
qed

section \<open>Properties\<close>

text \<open>C6: a synthesized procedure contains exactly the justified steps. Its steps are, in the order of
  the trace, the events that are not on a failed branch and that either are ancestors of an event
  proving a goal or a required effect, or succeeded and are not known to be irrelevant; a step is
  marked uncertain exactly when it is no such ancestor; every ancestor succeeded; the steps are
  numbered from zero, and the edges are those of the graph between steps.\<close>

theorem synthesized_steps_exact:
  assumes "Synthesize ext request = Inr res" "sr_Status res = StatusSynthesized" "distinct (map nd_ID (gr_Nodes (sq_Graph request)))"
  shows "map ps_EventID (sr_Steps res) = map nd_ID (filter (\<lambda>n. (\<forall>b \<in> set (sq_FailedBranches request). nd_ID n \<notin> set (fb_EventIDs b)) \<and>
      (nd_ID n \<in> needed request \<or> nd_Succeeded n \<and> nd_ID n \<notin> set (sq_IrrelevantNodes request))) (gr_Nodes (sq_Graph request))) \<and>
    (\<forall>s \<in> set (sr_Steps res). ps_UncertainNecessity s \<longleftrightarrow> ps_EventID s \<notin> needed request) \<and>
    (\<forall>n \<in> set (gr_Nodes (sq_Graph request)). nd_ID n \<in> needed request \<longrightarrow> nd_Succeeded n) \<and>
    map ps_Ordinal (sr_Steps res) = map of_nat [0..<length (sr_Steps res)] \<and>
    set (sr_Edges res) = {e \<in> set (gr_Edges (sq_Graph request)). {eg_From e, eg_To e} \<subseteq> ps_EventID ` set (sr_Steps res)}"
  using assms(1)
proof (cases rule: Synthesize_cases)
  case abstained
  then show ?thesis using assms(2) by (simp add: abstention_def)
next
  case (synthesized base retained paths)
  let ?ns = "gr_Nodes (sq_Graph request)"
  note r = retain_Inr [OF synthesized(3)] and a = assemble_Inr [OF synthesized(4)]
  from a(1) obtain catalog where "res_fold (step_loop retained (sq_IrrelevantNodes request) (concat (map fb_EventIDs (sq_FailedBranches request)))) ([], []) ?ns = Inr (sr_Steps res, catalog)" by blast
  note s = step_loop_steps [OF this]
  have n: "node_map ?ns (nd_ID n) = Some n" if "n \<in> set ?ns" for n
    using that assms(3) by (auto simp: node_map_def rev_map [symmetric] comp_def intro!: map_of_is_SomeI)
  have ok: "\<forall>n \<in> set ?ns. nd_ID n \<in> needed request \<longrightarrow> nd_Succeeded n" using r(2) n by (auto simp: succeeded_def)
  have "keeps retained (sq_IrrelevantNodes request) (concat (map fb_EventIDs (sq_FailedBranches request))) = (\<lambda>n.
      (\<forall>b \<in> set (sq_FailedBranches request). nd_ID n \<notin> set (fb_EventIDs b)) \<and>
      (nd_ID n \<in> needed request \<or> nd_Succeeded n \<and> nd_ID n \<notin> set (sq_IrrelevantNodes request)))"
    by (intro HOL.ext) (auto simp: keeps_def r(1) Let_def)
  then show ?thesis using s ok a(2) r(1) by simp
qed

theorem synthesized_steps_exact_witness:
  "\<exists>g res. Build sample_externals sample_resolve sample_build = Inr g \<and> Synthesize sample_externals (sample_request g) = Inr res \<and>
     map ps_EventID (sr_Steps res) = [''a'', ''b'']"
proof -
  obtain g res where g: "Build sample_externals sample_resolve sample_build = Inr g" "gr_Nodes g = [sample_node ''a'' 0, sample_node ''b'' 1]"
    "ends (gr_Edges g) = {(''a'', ''b'')}" "Synthesize sample_externals (sample_request g) = Inr res" "sr_Status res = StatusSynthesized"
    using sample_synthesis by blast
  have f: "sq_Graph (sample_request g) = g" "sq_FailedBranches (sample_request g) = []" by (simp_all add: sample_request_def)
  have "''b'' \<in> proving (sample_request g)" by (simp add: proving_def f g(2) sample_request_def node_map_def succeeded_def)
  then have "{''a'', ''b''} \<subseteq> needed (sample_request g)" by (auto simp: needed_def ancestors_of_def f(1) g(3))
  then show ?thesis using synthesized_steps_exact [OF g(4,5)] g(1,2,4) unfolding f by auto
qed

end
