(* ===== verification/Procedure_Pipeline.thy ===== *)
theory Procedure_Pipeline
  imports Synthesis_Steps
begin

text \<open>
  The registry, the graph builder and the synthesizer together. The builder relies on the registry
  through the interface \<^verbatim>\<open>toolcontract.Registry\<close>; the locale \<open>tool_registry\<close> states what it needs of it:
  a resolution is opaque exactly when the registry knows no contract for the query. That a trace
  with an unknown tool never becomes a procedure is then a property of the whole chain.
\<close>

locale tool_registry =
  fixes resolve :: "Query \<Rightarrow> contract_error + Resolution" and known_tool :: "Query \<Rightarrow> bool"
  assumes opaque_iff_unknown: "resolve q = Inr res \<Longrightarrow> rn_Opaque res \<longleftrightarrow> \<not> known_tool q"
begin

lemma promotable_iff_known:
  assumes "Build ext resolve request = Inr g"
  shows "gr_AutoPromotable g \<longleftrightarrow>
    (\<forall>event \<in> set (cb_Events (br_Batch request)). known_tool \<lparr>q_Name = ce_ToolName event, q_Version = ce_ToolVersion event\<rparr>)"
proof -
  from assms obtain s where s: "res_fold (add_event ext resolve (cb_TenantID (br_Batch request))) empty_build (cb_Events (br_Batch request)) = Inr s"
    "gr_AutoPromotable g = bs_auto s" by (rule Build_Inr)
  let ?known = "\<lambda>event :: CanonicalEvent. known_tool \<lparr>q_Name = ce_ToolName event, q_Version = ce_ToolVersion event\<rparr>"
  have "list_all2 (\<lambda>event n. nd_Opaque n \<longleftrightarrow> \<not> ?known event) (cb_Events (br_Batch request)) (bs_nodes s)"
    by (rule list_all2_mono [OF events_built(2) [OF s(1)]]) (auto dest: opaque_iff_unknown)
  then have "(\<forall>n \<in> set (bs_nodes s). \<not> nd_Opaque n) \<longleftrightarrow> (\<forall>event \<in> set (cb_Events (br_Batch request)). ?known event)"
    by (induction rule: list_all2_induct) auto
  then show ?thesis using events_built(1) [OF s(1)] s(2) by (simp add: built_def)
qed

lemma unknown_tool_abstains:
  assumes "Build ext resolve request = Inr (sq_Graph synthesis)" "Synthesize ext synthesis = Inr res"
    and "event \<in> set (cb_Events (br_Batch request))" "\<not> known_tool \<lparr>q_Name = ce_ToolName event, q_Version = ce_ToolVersion event\<rparr>"
  shows "abstention res"
  using assms(2)
proof (cases rule: Synthesize_cases)
  case synthesized
  then show ?thesis using promotable_iff_known [OF assms(1)] assms(3,4) by blast
qed

end

definition memory_knows :: "externals \<Rightarrow> semver \<Rightarrow> MemoryRegistry \<Rightarrow> Query \<Rightarrow> bool" where
  "memory_knows ext sv r q \<longleftrightarrow> lookup_contract sv r (token ext (q_Name q)) (canonicalVersion sv (q_Version q)) \<noteq> None"

interpretation memory_registry: tool_registry "Resolve ext sv r" "memory_knows ext sv r" for ext sv r
  by unfold_locales
    (auto simp: Resolve_def memory_knows_def opaqueResolution_def Let_def split: if_splits option.splits sum.splits)

section \<open>Properties\<close>

text \<open>C8: a trace with an unknown tool never becomes a procedure. If no contract that was ever registered,
  under the name or an alias of the tool of some event, has the event's version or supports it, or
  if that is no semantic version, then whatever the outcome, the goals and the other events,
  synthesis over the graph of the trace abstains: it returns no step and no edge.\<close>

theorem unknown_tool_never_synthesized:
  assumes "version_laws sv" "registry_run ext sv C r" "Build ext (Resolve ext sv r) request = Inr (sq_Graph synthesis)" "Synthesize ext synthesis = Inr res"
    and "event \<in> set (cb_Events (br_Batch request))" "version = canonicalVersion sv (ce_ToolVersion event)"
    and "version = [] \<or> (\<forall>m \<in> C. names_tool C (norm_NFC ext (TrimSpace (ce_ToolName event))) (mf_ToolID m) \<longrightarrow> mf_Version m \<noteq> version \<and> \<not> supports sv m version)"
  shows "sr_Status res = StatusAbstained \<and> sr_AbstentionCode res \<noteq> [] \<and> sr_Steps res = [] \<and> sr_Edges res = [] \<and> \<not> sr_ObservedEndToEnd res"
proof -
  have "\<not> memory_knows ext sv r \<lparr>q_Name = ce_ToolName event, q_Version = ce_ToolVersion event\<rparr>"
  proof
    assume "memory_knows ext sv r \<lparr>q_Name = ce_ToolName event, q_Version = ce_ToolVersion event\<rparr>"
    then obtain m where m: "lookup_contract sv r (token ext (ce_ToolName event)) version = Some m" by (auto simp: memory_knows_def assms(6))
    have "\<not> contains_nul version" using canonicalVersion_no_nul [OF assms(1)] assms(6) by simp
    from lookup_contract_Some [OF registry_run_rep [OF assms(2,1)] this assms(1) m] show False using assms(7) unfolding best_contract_def by blast
  qed
  from memory_registry.unknown_tool_abstains [OF assms(3-5) this] show ?thesis by (simp add: abstention_def)
qed

lemma sample_opaque_build:
  fixes request defines "request \<equiv> sample_build\<lparr>br_Batch := (br_Batch sample_build)\<lparr>cb_Events := [sample_event ''a'' 0]\<rparr>, br_ControlDependencies := []\<rparr>"
  shows "\<exists>g. Build sample_externals (Resolve sample_externals sample_semver NewMemoryRegistry) request = Inr g \<and> gr_Nodes g \<noteq> [] \<and> gr_TraceID g = ''tr'' \<and>
    gr_Hash g \<noteq> [] \<and> \<not> gr_AutoPromotable g"
proof -
  let ?resolve = "Resolve sample_externals sample_semver NewMemoryRegistry"
  have "TrimSpace ''scribe'' = ''scribe''" by code_simp
  then obtain res where res: "?resolve \<lparr>q_Name = ''scribe'', q_Version = ''1.0.0''\<rparr> = Inr res" "rn_Opaque res"
    by (simp add: Resolve_def lookup_contract_def NewMemoryRegistry_def opaqueResolution_def norm_NFC_sample MarshalAndHash_sample Let_def)
  let ?n = "node_of_event (sample_event ''a'' 0) res"
  have n: "nd_ID ?n = ''a''" "nd_Reads ?n = []" "nd_Writes ?n = []" "nd_Opaque ?n" using res(2) by (simp_all add: node_of_event_def sample_event_def Let_def)
  have s: "res_fold (add_event sample_externals ?resolve ''t'') empty_build [sample_event ''a'' 0] = Inr (add_node ?n empty_build)"
    using res by (simp add: add_event_def buildNode_def sample_event_def empty_build_def Let_def del: res_bind_eq_Inr)
  define g where "g = \<lparr>gr_SchemaVersion = ''causal-graph.v3'', gr_TraceID = ''tr'', gr_Nodes = [?n], gr_Edges = [], gr_AutoPromotable = False, gr_Hash = []\<rparr>"
  have "length (kahn False [] (indegrees []) (queue_order False (filter (\<lambda>n. indegrees [] n = 0) [''a''])) []) = 1" by code_simp
  then have "\<not> hasCycle (gr_Nodes g) (gr_Edges g)" by (simp add: hasCycle_def g_def n(1) Let_def)
  from sample_finish [OF this] obtain hash where h: "finish_graph sample_externals g = Inr (g\<lparr>gr_Hash := hash\<rparr>)" "hash \<noteq> []" by blast
  have "Build sample_externals ?resolve request = finish_graph sample_externals g"
    using n by (simp add: Build_def request_def sample_build_def s g_def Let_def sortEdges_def del: res_bind_eq_Inr res_fold.simps) (simp add: add_node_def empty_build_def)
  then show ?thesis using h by (auto simp: g_def)
qed

theorem unknown_tool_never_synthesized_witness:
  "\<exists>g res. Synthesize sample_externals (sample_request g) = Inr res \<and> sr_Status res = StatusAbstained \<and> sr_Steps res = []"
proof -
  let ?request = "sample_build\<lparr>br_Batch := (br_Batch sample_build)\<lparr>cb_Events := [sample_event ''a'' 0]\<rparr>, br_ControlDependencies := []\<rparr>"
  obtain g where g: "Build sample_externals (Resolve sample_externals sample_semver NewMemoryRegistry) ?request = Inr g" "gr_Nodes g \<noteq> []"
    "gr_TraceID g = ''tr''" "gr_Hash g \<noteq> []" "\<not> gr_AutoPromotable g" using sample_opaque_build by blast
  have b: "Build sample_externals (Resolve sample_externals sample_semver NewMemoryRegistry) ?request = Inr (sq_Graph (sample_request g))"
    using g(1) by (simp add: sample_request_def)
  obtain res where res: "Synthesize sample_externals (sample_request g) = Inr res"
    using g by (simp add: Synthesize_def sample_request_def versions_valid_def abstain_def hash_result_def MarshalAndHash_sample Let_def)
  have "sample_event ''a'' 0 \<in> set (cb_Events (br_Batch ?request))" by simp
  from unknown_tool_never_synthesized [OF version_laws_sample start b res this refl] res show ?thesis by auto
qed

end
