(* ===== verification/Archive.thy ===== *)
theory Archive
  imports Domain Append_Only "HOL-Library.AList"
begin

text \<open>
  \<^verbatim>\<open>internal/archive\<close>: objects are stored under a key made of the tenant, the schema version and the hash
  of the content, and read back under a size limit; here the store in memory.
\<close>

section \<open>Keys\<close>

datatype archive_error = ErrInvalidRequest | ErrHashMismatch | ErrNotFound | ErrTooLarge

definition is_schema_char :: "char \<Rightarrow> bool" where
  "is_schema_char c \<longleftrightarrow> is_alnum_char c \<or> c = CHR ''.'' \<or> c = CHR ''_'' \<or> c = CHR ''-''"

definition schemaVersionPattern :: "string \<Rightarrow> bool" where
  "schemaVersionPattern s \<longleftrightarrow> s \<noteq> [] \<and> is_alnum_char (hd s) \<and> list_all is_schema_char (tl s) \<and> length (tl s) \<le> 63"

definition KeyFor :: "externals \<Rightarrow> string \<Rightarrow> string \<Rightarrow> string \<Rightarrow> archive_error + string" where
  "KeyFor ext tenantID schemaVersion contentHash =
     (if TrimSpace tenantID = [] \<or> \<not> schemaVersionPattern schemaVersion \<or> \<not> hashPattern contentHash then Inl ErrInvalidRequest
      else Inr (''canonical/'' @ hex_EncodeToString (take 8 (sha256_Sum256 ext tenantID)) @ ''/'' @ schemaVersion @ ''/'' @ contentHash @ ''.json''))"

definition HasSuffix :: "string \<Rightarrow> string \<Rightarrow> bool" where
  "HasSuffix s suffix \<longleftrightarrow> length suffix \<le> length s \<and> drop (length s - length suffix) s = suffix"

definition TrimSuffix :: "string \<Rightarrow> string \<Rightarrow> string" where
  "TrimSuffix s suffix = (if HasSuffix s suffix then take (length s - length suffix) s else s)"

definition metadataFromKey :: "string \<Rightarrow> archive_error + string \<times> string" where
  "metadataFromKey key =
     (if \<not> starts_with ''canonical/'' key \<or> \<not> HasSuffix key ''.json'' then Inl ErrInvalidRequest
      else let parts = split_slash key
        in if length parts \<noteq> 4 \<or> \<not> schemaVersionPattern (parts ! 2) then Inl ErrInvalidRequest
           else let hash = TrimSuffix (parts ! 3) ''.json''
             in if \<not> hashPattern hash then Inl ErrInvalidRequest else Inr (parts ! 2, hash))"

definition hashFromKey :: "string \<Rightarrow> archive_error + string" where
  "hashFromKey key = (case metadataFromKey key of Inl e \<Rightarrow> Inl e | Inr (_, hash) \<Rightarrow> Inr hash)"

section \<open>The store in memory\<close>

record PutRequest =
  pu_TenantID :: string
  pu_SchemaVersion :: string
  pu_Hash :: string
  pu_Body :: string

record archive_Object =
  ao_Key :: string
  ao_Hash :: string
  ao_Size :: int
  ao_Reused :: bool

record MemoryStore =
  me_objects :: "(string \<times> string) list"
  me_puts :: int

definition NewMemoryStore :: MemoryStore where
  "NewMemoryStore = \<lparr>me_objects = [], me_puts = 0\<rparr>"

definition validatePutRequest :: "externals \<Rightarrow> PutRequest \<Rightarrow> archive_error + string" where
  "validatePutRequest ext req =
     res_bind (KeyFor ext (pu_TenantID req) (pu_SchemaVersion req) (pu_Hash req)) (\<lambda>key.
     if hash_bytes ext (pu_Body req) \<noteq> pu_Hash req then Inl ErrHashMismatch else Inr key)"

definition PutCanonical :: "externals \<Rightarrow> PutRequest \<Rightarrow> MemoryStore \<Rightarrow> (archive_error + archive_Object) \<times> MemoryStore" where
  "PutCanonical ext req s =
     (case validatePutRequest ext req of
        Inl e \<Rightarrow> (Inl e, s)
      | Inr key \<Rightarrow>
          (case map_of (me_objects s) key of
             Some existing \<Rightarrow> (Inr \<lparr>ao_Key = key, ao_Hash = pu_Hash req, ao_Size = int (length existing), ao_Reused = True\<rparr>, s)
           | None \<Rightarrow> (Inr \<lparr>ao_Key = key, ao_Hash = pu_Hash req, ao_Size = int (length (pu_Body req)), ao_Reused = False\<rparr>,
               s\<lparr>me_objects := AList.update key (pu_Body req) (me_objects s), me_puts := me_puts s + 1\<rparr>)))"

definition GetBounded :: "MemoryStore \<Rightarrow> string \<Rightarrow> int \<Rightarrow> archive_error + string" where
  "GetBounded s key maximumBytes =
     res_bind (hashFromKey key) (\<lambda>_.
       case map_of (me_objects s) key of
         None \<Rightarrow> Inl ErrNotFound
       | Some body \<Rightarrow> if maximumBytes \<le> 0 \<or> int (length body) > maximumBytes then Inl ErrTooLarge else Inr body)"

definition archive_Get :: "MemoryStore \<Rightarrow> string \<Rightarrow> archive_error + string" where
  "archive_Get s key = GetBounded s key 67108864"

section \<open>Lemmas\<close>

lemma split_slash_single: "CHR ''/'' \<notin> set w \<Longrightarrow> split_slash w = [w]"
  by (induction w) auto

lemma split_slash_part: "CHR ''/'' \<notin> set w \<Longrightarrow> split_slash (w @ CHR ''/'' # s) = w # split_slash s"
  by (induction w) auto

lemma no_slash:
  "is_alnum_char c \<Longrightarrow> c \<noteq> CHR ''/''" "is_schema_char c \<Longrightarrow> c \<noteq> CHR ''/''"
  by (auto simp: is_schema_char_def is_alnum_char_def is_digit_char_def)

lemma schemaVersion_no_slash: "schemaVersionPattern s \<Longrightarrow> CHR ''/'' \<notin> set s"
  by (cases s) (auto simp: schemaVersionPattern_def list_all_iff dest: no_slash)

lemma hex_no_slash: "list_all is_hex_char s \<Longrightarrow> CHR ''/'' \<notin> set s"
  by (auto simp: list_all_iff dest: is_hex_alnum no_slash(1))

lemma HasSuffix_append: "HasSuffix (s @ suffix) suffix" "TrimSuffix (s @ suffix) suffix = s"
  by (simp_all add: HasSuffix_def TrimSuffix_def)

text \<open>The metadata of a key is what the key was made of.\<close>

lemma metadataFromKey_KeyFor:
  assumes "KeyFor ext tenant schema hash = Inr key"
  shows "metadataFromKey key = Inr (schema, hash)"
proof -
  let ?t = "hex_EncodeToString (take 8 (sha256_Sum256 ext tenant))"
  have key: "key = ''canonical'' @ CHR ''/'' # ?t @ CHR ''/'' # schema @ CHR ''/'' # hash @ ''.json''" "schemaVersionPattern schema" "hashPattern hash"
    using assms by (auto simp: KeyFor_def split: if_splits)
  have n: "CHR ''/'' \<notin> set ''canonical''" "CHR ''/'' \<notin> set ?t" "CHR ''/'' \<notin> set (hash @ ''.json'')"
    using hex_no_slash [OF hex_EncodeToString_hex] hex_no_slash [of hash] key(3) by (simp_all add: hashPattern_def)
  have parts: "split_slash key = [''canonical'', ?t, schema, hash @ ''.json'']"
    unfolding key(1) split_slash_part [OF n(1)] split_slash_part [OF n(2)] split_slash_part [OF schemaVersion_no_slash [OF key(2)]]
      split_slash_single [OF n(3)] ..
  have "HasSuffix key ''.json''" using HasSuffix_append(1) [of "''canonical'' @ CHR ''/'' # ?t @ CHR ''/'' # schema @ CHR ''/'' # hash"] unfolding key(1) by simp
  moreover have "starts_with ''canonical/'' key" unfolding key(1) by simp
  ultimately show ?thesis using key(2,3) by (simp add: metadataFromKey_def parts HasSuffix_append Let_def)
qed

definition object_at :: "string \<times> string \<Rightarrow> MemoryStore \<Rightarrow> bool" where
  "object_at entry s \<longleftrightarrow> map_of (me_objects s) (fst entry) = Some (snd entry)"

interpretation archive_store: append_only "PutCanonical ext" object_at "\<lambda>_ _. True" for ext
  by unfold_locales (auto simp: object_at_def PutCanonical_def update_conv' split: sum.splits option.splits)

text \<open>Every object is stored under a key that names its hash.\<close>

definition addressed :: "externals \<Rightarrow> MemoryStore \<Rightarrow> bool" where
  "addressed ext s \<longleftrightarrow> (\<forall>key body. map_of (me_objects s) key = Some body \<longrightarrow> hashFromKey key = Inr (hash_bytes ext body))"

lemma validatePutRequest_Inr:
  "validatePutRequest ext req = Inr key \<Longrightarrow> hashFromKey key = Inr (pu_Hash req) \<and> pu_Hash req = hash_bytes ext (pu_Body req)"
  by (auto simp: validatePutRequest_def hashFromKey_def metadataFromKey_KeyFor split: if_splits)

lemma addressed_put: "addressed ext s \<Longrightarrow> addressed ext (snd (PutCanonical ext req s))"
  using validatePutRequest_Inr by (auto simp: addressed_def PutCanonical_def update_conv' split: sum.splits option.splits)

lemma addressed_run: "addressed ext s \<Longrightarrow> addressed ext (run_calls (PutCanonical ext) puts s)"
  by (induction puts arbitrary: s) (auto simp: run_calls_def addressed_put)

section \<open>Properties\<close>

text \<open>C34: the archive gives back what was put. After any history of the store and an accepted put, through
  all later puts of anyone, the key leads to an object of the hash of the request, in full or as
  too large for the reader, to the very body if it was stored now or if no other content has this
  hash; and the key names the schema version and the hash.\<close>

theorem archive_roundtrip:
  assumes "s = run_calls (PutCanonical ext) puts NewMemoryStore" "PutCanonical ext req s = (Inr obj, s')"
    and "later = run_calls (PutCanonical ext) others s'" "0 < maximum"
  shows "\<exists>body. GetBounded later (ao_Key obj) maximum = (if int (length body) > maximum then Inl ErrTooLarge else Inr body) \<and>
    hash_bytes ext body = pu_Hash req \<and> ao_Size obj = int (length body) \<and>
    (\<not> ao_Reused obj \<or> (\<forall>b. hash_bytes ext b = pu_Hash req \<longrightarrow> b = pu_Body req) \<longrightarrow> body = pu_Body req) \<and>
    metadataFromKey (ao_Key obj) = Inr (pu_SchemaVersion req, pu_Hash req)"
proof -
  have "addressed ext NewMemoryStore" by (simp add: addressed_def NewMemoryStore_def)
  then have addr: "addressed ext s'" using addressed_put [OF addressed_run, of ext NewMemoryStore req puts] assms(1,2) by simp
  obtain body where body: "map_of (me_objects s') (ao_Key obj) = Some body" "ao_Size obj = int (length body)" "\<not> ao_Reused obj \<longrightarrow> body = pu_Body req"
    using assms(2) by (auto simp: PutCanonical_def update_conv' split: sum.splits option.splits)
  have key: "validatePutRequest ext req = Inr (ao_Key obj)" using assms(2) by (auto simp: PutCanonical_def split: sum.splits option.splits)
  note hash = validatePutRequest_Inr [OF key]
  have h: "hash_bytes ext body = pu_Hash req" using addr body(1) hash unfolding addressed_def by fastforce
  have "object_at (ao_Key obj, body) s'" using body(1) by (simp add: object_at_def)
  then have "object_at (ao_Key obj, body) later" unfolding assms(3) by (rule archive_store.run_keeps) simp
  then have "GetBounded later (ao_Key obj) maximum = (if int (length body) > maximum then Inl ErrTooLarge else Inr body)"
    using hash assms(4) by (simp add: GetBounded_def object_at_def)
  moreover have "metadataFromKey (ao_Key obj) = Inr (pu_SchemaVersion req, pu_Hash req)"
    using key by (auto simp: validatePutRequest_def metadataFromKey_KeyFor split: if_splits)
  ultimately show ?thesis using h body(2,3) by blast
qed

definition archive_put :: PutRequest where
  "archive_put = \<lparr>pu_TenantID = ''t'', pu_SchemaVersion = ''v1'', pu_Hash = hash_bytes sample_externals ''body'', pu_Body = ''body''\<rparr>"

theorem archive_roundtrip_witness:
  "\<exists>obj s'. PutCanonical sample_externals archive_put NewMemoryStore = (Inr obj, s') \<and> GetBounded s' (ao_Key obj) 4 = Inr ''body''"
proof -
  have "TrimSpace ''t'' = ''t''" by code_simp
  then have put: "\<exists>obj s'. PutCanonical sample_externals archive_put NewMemoryStore = (Inr obj, s') \<and> \<not> ao_Reused obj"
    using hashPattern_hash_bytes [OF digest32_sample, of "''body''"]
    by (simp add: PutCanonical_def validatePutRequest_def KeyFor_def archive_put_def NewMemoryStore_def schemaVersionPattern_def is_schema_char_def
        is_alnum_char_def is_digit_char_def del: res_bind_eq_Inr)
  then obtain obj s' where put: "PutCanonical sample_externals archive_put NewMemoryStore = (Inr obj, s')" "\<not> ao_Reused obj" by blast
  have "NewMemoryStore = run_calls (PutCanonical sample_externals) [] NewMemoryStore" "s' = run_calls (PutCanonical sample_externals) [] s'"
    by (simp_all add: run_calls_def)
  from archive_roundtrip [OF this(1) put(1) this(2), of 4] put show ?thesis by (auto simp: archive_put_def)
qed

end
