(* ===== verification/Selection.thy ===== *)
theory Selection
  imports Parallel "HOL-Library.AList"
begin

text \<open>
  \<^verbatim>\<open>internal/selection\<close> and \<^verbatim>\<open>internal/store/memory/selection.go\<close>: the plan that was chosen for a request is
  sealed as a draft, committed under an idempotency identity as a record with a lifetime, and
  found again by its injection identifier or its retrieval run. The methods of the repository run
  under its mutex; each call gets the instant its clock returns. Copies that only guard against
  aliasing are the identity here.
\<close>

section \<open>Drafts and records\<close>

record Draft =
  sd_SchemaVersion :: string
  sd_TenantID :: string
  sd_QueryHash :: string
  sd_RequestContextHash :: string
  sd_RetrievalRunID :: string
  sd_ProjectionEpoch :: uint64
  sd_DocumentSetHash :: string
  sd_ServingConfigID :: string
  sd_PolicyManifestID :: string
  sd_RankerManifestID :: string
  sd_PlannerManifestID :: string
  sd_LifecyclePolicyManifestID :: string
  sd_ExperimentManifestID :: string
  sd_ExperimentAssignmentID :: string
  sd_NoveltyClass :: string
  sd_Plan :: Plan
  sd_ParallelSchedule :: "ParallelSchedule option"
  sd_ContentHash :: string
  sd_CanonicalJSON :: string

record SelectionRecord =
  sl_SchemaVersion :: string
  sl_InjectionID :: string
  sl_IdempotencyIdentityHash :: string
  sl_TenantID :: string
  sl_QueryHash :: string
  sl_RequestContextHash :: string
  sl_RetrievalRunID :: string
  sl_ProjectionEpoch :: uint64
  sl_DocumentSetHash :: string
  sl_ServingConfigID :: string
  sl_PolicyManifestID :: string
  sl_RankerManifestID :: string
  sl_PlannerManifestID :: string
  sl_LifecyclePolicyManifestID :: string
  sl_ExperimentManifestID :: string
  sl_ExperimentAssignmentID :: string
  sl_NoveltyClass :: string
  sl_Plan :: Plan
  sl_ParallelSchedule :: "ParallelSchedule option"
  sl_DraftHash :: string
  sl_CreatedAt :: time
  sl_ExpiresAt :: time
  sl_ContentHash :: string
  sl_CanonicalJSON :: string

datatype selection_error =
    ErrInvalidSelection | ErrSelectionIdempotencyConflict | ErrRetrievalRunConflict | ErrSelectionNotFound | ErrSelectionExpired
  | ErrSelectionEncoding canonical_error

definition json_draft :: "Draft \<Rightarrow> json" where
  "json_draft d = JObj
     ([(''schema_version'', JStr (sd_SchemaVersion d)), (''tenant_id'', JStr (sd_TenantID d)), (''query_hash'', JStr (sd_QueryHash d)),
       (''request_context_hash'', JStr (sd_RequestContextHash d)), (''retrieval_run_id'', JStr (sd_RetrievalRunID d)),
       (''projection_epoch'', JNum (uint (sd_ProjectionEpoch d))), (''document_set_hash'', JStr (sd_DocumentSetHash d)),
       (''serving_config_id'', JStr (sd_ServingConfigID d)), (''policy_manifest_id'', JStr (sd_PolicyManifestID d)),
       (''ranker_manifest_id'', JStr (sd_RankerManifestID d)), (''planner_manifest_id'', JStr (sd_PlannerManifestID d)),
       (''lifecycle_policy_manifest_id'', JStr (sd_LifecyclePolicyManifestID d))] @
      omit_str ''experiment_manifest_id'' (sd_ExperimentManifestID d) @ omit_str ''experiment_assignment_id'' (sd_ExperimentAssignmentID d) @
      [(''novelty_class'', JStr (sd_NoveltyClass d)), (''plan'', json_plan (sd_Plan d))] @
      omit_opt ''parallel_schedule'' json_parallel_schedule (sd_ParallelSchedule d) @ omit_str ''content_hash'' (sd_ContentHash d))"

definition json_selection :: "SelectionRecord \<Rightarrow> json" where
  "json_selection r = JObj
     ([(''schema_version'', JStr (sl_SchemaVersion r)), (''injection_id'', JStr (sl_InjectionID r)),
       (''idempotency_identity_hash'', JStr (sl_IdempotencyIdentityHash r)), (''tenant_id'', JStr (sl_TenantID r)), (''query_hash'', JStr (sl_QueryHash r)),
       (''request_context_hash'', JStr (sl_RequestContextHash r)), (''retrieval_run_id'', JStr (sl_RetrievalRunID r)),
       (''projection_epoch'', JNum (uint (sl_ProjectionEpoch r))), (''document_set_hash'', JStr (sl_DocumentSetHash r)),
       (''serving_config_id'', JStr (sl_ServingConfigID r)), (''policy_manifest_id'', JStr (sl_PolicyManifestID r)),
       (''ranker_manifest_id'', JStr (sl_RankerManifestID r)), (''planner_manifest_id'', JStr (sl_PlannerManifestID r)),
       (''lifecycle_policy_manifest_id'', JStr (sl_LifecyclePolicyManifestID r))] @
      omit_str ''experiment_manifest_id'' (sl_ExperimentManifestID r) @ omit_str ''experiment_assignment_id'' (sl_ExperimentAssignmentID r) @
      [(''novelty_class'', JStr (sl_NoveltyClass r)), (''plan'', json_plan (sl_Plan r))] @
      omit_opt ''parallel_schedule'' json_parallel_schedule (sl_ParallelSchedule r) @
      [(''draft_hash'', JStr (sl_DraftHash r)), (''created_at'', JTime (sl_CreatedAt r)), (''expires_at'', JTime (sl_ExpiresAt r))] @
      omit_str ''content_hash'' (sl_ContentHash r))"

definition bounded :: "string \<Rightarrow> bool" where
  "bounded s \<longleftrightarrow> s \<noteq> [] \<and> length s \<le> 1024 \<and> \<not> contains_nul s"

definition validNovelty :: "string \<Rightarrow> bool" where
  "validNovelty n \<longleftrightarrow> n \<in> {''exact'', ''known_shape'', ''bridged'', ''partial'', ''unseen''}"

text \<open>
  The loop over the groups: \<open>wanted\<close> loses each version that a group names, so a version named
  twice is no longer wanted.
\<close>

fun cover_loop :: "string list \<Rightarrow> (string \<times> uint32) list \<Rightarrow> nat \<Rightarrow> (string \<times> uint32) list \<Rightarrow> (string list \<times> (string \<times> uint32) list \<times> nat) option" where
  "cover_loop wanted groupOf seen [] = Some (wanted, groupOf, seen)"
| "cover_loop wanted groupOf seen ((version, ordinal) # rest) =
     (if version \<notin> set wanted then None
      else cover_loop (filter (\<lambda>v. v \<noteq> version) wanted) ((version, ordinal) # groupOf) (Suc seen) rest)"

definition group_ordinal :: "(string \<times> uint32) list \<Rightarrow> string \<Rightarrow> uint32" where
  "group_ordinal groupOf version = (case map_of groupOf version of Some ordinal \<Rightarrow> ordinal | None \<Rightarrow> 0)"

definition scheduleCoversPlan :: "ParallelSchedule \<Rightarrow> Plan \<Rightarrow> bool" where
  "scheduleCoversPlan schedule plan =
     (case cover_loop (remdups (map no_VersionID (pl_Nodes plan))) [] 0
         (concat (map (\<lambda>g. map (\<lambda>v. (v, pg_Ordinal g)) (pg_NodeVersionIDs g)) (ps_Groups schedule))) of
        None \<Rightarrow> False
      | Some (wanted, groupOf, seen) \<Rightarrow>
          seen = length (pl_Nodes plan) \<and> wanted = [] \<and>
          list_all (\<lambda>d. group_ordinal groupOf (de_SourceVersionID d) < group_ordinal groupOf (de_TargetVersionID d)) (pl_Dependencies plan))"

definition validateDraftFields :: "externals \<Rightarrow> Draft \<Rightarrow> bool" where
  "validateDraftFields ext v \<longleftrightarrow>
     bounded (sd_TenantID v) \<and> sd_ProjectionEpoch v \<noteq> 0 \<and> hashPattern (sd_QueryHash v) \<and> hashPattern (sd_RequestContextHash v) \<and>
     hashPattern (sd_DocumentSetHash v) \<and> bounded (sd_RetrievalRunID v) \<and> bounded (sd_ServingConfigID v) \<and> bounded (sd_PolicyManifestID v) \<and>
     bounded (sd_RankerManifestID v) \<and> bounded (sd_PlannerManifestID v) \<and> bounded (sd_LifecyclePolicyManifestID v) \<and>
     pl_TenantID (sd_Plan v) = sd_TenantID v \<and> pl_ProjectionEpoch (sd_Plan v) = sd_ProjectionEpoch v \<and>
     pl_PolicyManifestID (sd_Plan v) = sd_PolicyManifestID v \<and> pl_PlannerManifestID (sd_Plan v) = sd_PlannerManifestID v \<and>
     ValidatePlan ext (sd_Plan v) \<and> validNovelty (sd_NoveltyClass v) \<and>
     (sd_ExperimentManifestID v = []) = (sd_ExperimentAssignmentID v = []) \<and>
     (sd_ExperimentManifestID v \<noteq> [] \<longrightarrow> bounded (sd_ExperimentManifestID v) \<and> bounded (sd_ExperimentAssignmentID v)) \<and>
     (if pl_Complete (sd_Plan v) then
        sd_NoveltyClass v \<noteq> ''partial'' \<and> list_ex no_Bridge (pl_Nodes (sd_Plan v)) = (sd_NoveltyClass v = ''bridged'') \<and>
        (case sd_ParallelSchedule v of
           None \<Rightarrow> False
         | Some s \<Rightarrow> ValidateParallelSchedule ext s \<and> ps_PlanID s = pl_ID (sd_Plan v) \<and> ps_PlanHash s = pl_ContentHash (sd_Plan v) \<and>
             ps_TenantID s = sd_TenantID v \<and> ps_ProjectionEpoch s = sd_ProjectionEpoch v \<and>
             ps_CompatibilityGraphID s = pl_CompatibilityGraphID (sd_Plan v) \<and> ps_CompatibilityGraphHash s = pl_CompatibilityGraphHash (sd_Plan v) \<and>
             ps_PlannerManifestID s = pl_PlannerManifestID (sd_Plan v) \<and> ps_PolicyManifestID s = pl_PolicyManifestID (sd_Plan v) \<and>
             scheduleCoversPlan s (sd_Plan v))
      else sd_ParallelSchedule v = None \<and> sd_NoveltyClass v = ''partial'' \<and> pl_Gaps (sd_Plan v) \<noteq> [])"

definition NewDraft :: "externals \<Rightarrow> Draft \<Rightarrow> selection_error + Draft" where
  "NewDraft ext source =
     (let v = source\<lparr>sd_SchemaVersion := ''selection-draft.v1'', sd_ContentHash := [], sd_CanonicalJSON := []\<rparr>
      in if \<not> validateDraftFields ext v then Inl ErrInvalidSelection
         else case MarshalAndHash ext (json_draft v) of
           Inl e \<Rightarrow> Inl (ErrSelectionEncoding e)
         | Inr (encoded, hash) \<Rightarrow> Inr (v\<lparr>sd_ContentHash := hash, sd_CanonicalJSON := encoded\<rparr>))"

definition ValidateDraft :: "externals \<Rightarrow> Draft \<Rightarrow> bool" where
  "ValidateDraft ext v \<longleftrightarrow>
     sd_SchemaVersion v = ''selection-draft.v1'' \<and> hashPattern (sd_ContentHash v) \<and> sd_CanonicalJSON v \<noteq> [] \<and>
     length (sd_CanonicalJSON v) \<le> 16777216 \<and> validateDraftFields ext v \<and>
     MarshalAndHash ext (json_draft (v\<lparr>sd_ContentHash := [], sd_CanonicalJSON := []\<rparr>)) = Inr (sd_CanonicalJSON v, sd_ContentHash v)"

definition InjectionID :: "externals \<Rightarrow> string \<Rightarrow> string \<Rightarrow> string" where
  "InjectionID ext tenantID idempotencyHash = ''inj_'' @ hash_bytes ext (tenantID @ NUL @ idempotencyHash)"

definition TaskExecutionID :: "externals \<Rightarrow> string \<Rightarrow> string" where
  "TaskExecutionID ext injectionID = ''texec_'' @ hash_bytes ext (''task-execution.v1'' @ NUL @ injectionID)"

definition record_of :: "externals \<Rightarrow> Draft \<Rightarrow> string \<Rightarrow> time \<Rightarrow> time \<Rightarrow> SelectionRecord" where
  "record_of ext draft idempotencyHash createdAt expiresAt =
     \<lparr>sl_SchemaVersion = ''selection-record.v1'', sl_InjectionID = InjectionID ext (sd_TenantID draft) idempotencyHash,
      sl_IdempotencyIdentityHash = idempotencyHash, sl_TenantID = sd_TenantID draft, sl_QueryHash = sd_QueryHash draft,
      sl_RequestContextHash = sd_RequestContextHash draft, sl_RetrievalRunID = sd_RetrievalRunID draft, sl_ProjectionEpoch = sd_ProjectionEpoch draft,
      sl_DocumentSetHash = sd_DocumentSetHash draft, sl_ServingConfigID = sd_ServingConfigID draft, sl_PolicyManifestID = sd_PolicyManifestID draft,
      sl_RankerManifestID = sd_RankerManifestID draft, sl_PlannerManifestID = sd_PlannerManifestID draft,
      sl_LifecyclePolicyManifestID = sd_LifecyclePolicyManifestID draft, sl_ExperimentManifestID = sd_ExperimentManifestID draft,
      sl_ExperimentAssignmentID = sd_ExperimentAssignmentID draft, sl_NoveltyClass = sd_NoveltyClass draft, sl_Plan = sd_Plan draft,
      sl_ParallelSchedule = sd_ParallelSchedule draft, sl_DraftHash = sd_ContentHash draft, sl_CreatedAt = createdAt, sl_ExpiresAt = expiresAt,
      sl_ContentHash = [], sl_CanonicalJSON = []\<rparr>"

definition NewRecord :: "externals \<Rightarrow> Draft \<Rightarrow> string \<Rightarrow> time \<Rightarrow> time \<Rightarrow> selection_error + SelectionRecord" where
  "NewRecord ext draft idempotencyHash createdAt expiresAt =
     (if \<not> ValidateDraft ext draft \<or> \<not> hashPattern idempotencyHash \<or> time_IsZero createdAt \<or> \<not> time_Equal createdAt (time_UTC createdAt) \<or>
         \<not> time_Equal expiresAt (time_UTC expiresAt) \<or> \<not> time_After expiresAt createdAt then Inl ErrInvalidSelection
      else let record = record_of ext draft idempotencyHash createdAt expiresAt
        in case MarshalAndHash ext (json_selection record) of
             Inl e \<Rightarrow> Inl (ErrSelectionEncoding e)
           | Inr (encoded, hash) \<Rightarrow> Inr (record\<lparr>sl_ContentHash := hash, sl_CanonicalJSON := encoded\<rparr>))"

definition draft_of :: "SelectionRecord \<Rightarrow> Draft" where
  "draft_of r =
     \<lparr>sd_SchemaVersion = ''selection-draft.v1'', sd_TenantID = sl_TenantID r, sd_QueryHash = sl_QueryHash r,
      sd_RequestContextHash = sl_RequestContextHash r, sd_RetrievalRunID = sl_RetrievalRunID r, sd_ProjectionEpoch = sl_ProjectionEpoch r,
      sd_DocumentSetHash = sl_DocumentSetHash r, sd_ServingConfigID = sl_ServingConfigID r, sd_PolicyManifestID = sl_PolicyManifestID r,
      sd_RankerManifestID = sl_RankerManifestID r, sd_PlannerManifestID = sl_PlannerManifestID r,
      sd_LifecyclePolicyManifestID = sl_LifecyclePolicyManifestID r, sd_ExperimentManifestID = sl_ExperimentManifestID r,
      sd_ExperimentAssignmentID = sl_ExperimentAssignmentID r, sd_NoveltyClass = sl_NoveltyClass r, sd_Plan = sl_Plan r,
      sd_ParallelSchedule = sl_ParallelSchedule r, sd_ContentHash = [], sd_CanonicalJSON = []\<rparr>"

definition ValidateRecord :: "externals \<Rightarrow> SelectionRecord \<Rightarrow> bool" where
  "ValidateRecord ext r \<longleftrightarrow>
     sl_SchemaVersion r = ''selection-record.v1'' \<and> sl_InjectionID r = InjectionID ext (sl_TenantID r) (sl_IdempotencyIdentityHash r) \<and>
     hashPattern (sl_IdempotencyIdentityHash r) \<and> hashPattern (sl_DraftHash r) \<and> hashPattern (sl_ContentHash r) \<and> sl_CanonicalJSON r \<noteq> [] \<and>
     length (sl_CanonicalJSON r) \<le> 16777216 \<and> \<not> time_IsZero (sl_CreatedAt r) \<and> time_Equal (sl_CreatedAt r) (time_UTC (sl_CreatedAt r)) \<and>
     time_Equal (sl_ExpiresAt r) (time_UTC (sl_ExpiresAt r)) \<and> time_After (sl_ExpiresAt r) (sl_CreatedAt r) \<and>
     (case NewDraft ext (draft_of r) of Inl _ \<Rightarrow> False | Inr draft \<Rightarrow> sd_ContentHash draft = sl_DraftHash r) \<and>
     MarshalAndHash ext (json_selection (r\<lparr>sl_ContentHash := [], sl_CanonicalJSON := []\<rparr>)) = Inr (sl_CanonicalJSON r, sl_ContentHash r)"

text \<open>\<open>unmarshal\<close> is \<^verbatim>\<open>json.Unmarshal\<close> into a record.\<close>

definition DecodeRecord :: "externals \<Rightarrow> (string \<Rightarrow> SelectionRecord option) \<Rightarrow> string \<Rightarrow> string \<Rightarrow> selection_error + SelectionRecord" where
  "DecodeRecord ext unmarshal canonicalJSON contentHash =
     (if canonicalJSON = [] \<or> length canonicalJSON > 16777216 \<or> \<not> hashPattern contentHash then Inl ErrInvalidSelection
      else case unmarshal canonicalJSON of
        None \<Rightarrow> Inl ErrInvalidSelection
      | Some record \<Rightarrow>
          (case HydratePlan ext (sl_Plan record) of
             Inl _ \<Rightarrow> Inl ErrInvalidSelection
           | Inr plan \<Rightarrow>
               res_bind (case sl_ParallelSchedule record of
                   None \<Rightarrow> Inr None
                 | Some s \<Rightarrow> (case HydrateParallelSchedule ext s of Inl _ \<Rightarrow> Inl ErrInvalidSelection | Inr s' \<Rightarrow> Inr (Some s'))) (\<lambda>schedule.
               let record = record\<lparr>sl_Plan := plan, sl_ParallelSchedule := schedule, sl_ContentHash := contentHash, sl_CanonicalJSON := canonicalJSON\<rparr>
               in if \<not> ValidateRecord ext record then Inl ErrInvalidSelection else Inr record)))"

section \<open>The repository\<close>

record CommitRequest =
  cq_TenantID :: string
  cq_IdempotencyIdentityHash :: string
  cq_Draft :: Draft

datatype selection_disposition = SelectionCommitted | SelectionDuplicate

record Receipt =
  rc_Record :: SelectionRecord
  rc_Disposition :: selection_disposition

definition retention_valid :: "duration \<Rightarrow> bool" where
  "retention_valid ttl \<longleftrightarrow> 60000000000 \<le> ttl \<and> ttl \<le> 2592000000000000"

definition ValidateCommitRequest :: "externals \<Rightarrow> CommitRequest \<Rightarrow> bool" where
  "ValidateCommitRequest ext q \<longleftrightarrow>
     cq_TenantID q \<noteq> [] \<and> sd_TenantID (cq_Draft q) = cq_TenantID q \<and> hashPattern (cq_IdempotencyIdentityHash q) \<and> ValidateDraft ext (cq_Draft q)"

record SelectionRepository =
  sp_TTL :: duration
  sp_byIdempotency :: "((string \<times> string) \<times> SelectionRecord) list"
  sp_byInjection :: "((string \<times> string) \<times> SelectionRecord) list"
  sp_byRun :: "((string \<times> string) \<times> SelectionRecord) list"

definition NewSelectionRepository :: "duration \<Rightarrow> selection_error + SelectionRepository" where
  "NewSelectionRepository ttl =
     (if \<not> retention_valid ttl then Inl ErrInvalidSelection
      else Inr \<lparr>sp_TTL = ttl, sp_byIdempotency = [], sp_byInjection = [], sp_byRun = []\<rparr>)"

definition CommitSelection :: "externals \<Rightarrow> time \<Rightarrow> CommitRequest \<Rightarrow> SelectionRepository \<Rightarrow> (selection_error + Receipt) \<times> SelectionRepository" where
  "CommitSelection ext clock q r =
     (if \<not> ValidateCommitRequest ext q then (Inl ErrInvalidSelection, r)
      else let now = time_UTC clock; idempotencyKey = (cq_TenantID q, cq_IdempotencyIdentityHash q); runKey = (cq_TenantID q, sd_RetrievalRunID (cq_Draft q))
        in case map_of (sp_byIdempotency r) idempotencyKey of
             Some existing \<Rightarrow>
               (if \<not> time_Before now (sl_ExpiresAt existing) then Inl ErrSelectionExpired
                else if sl_DraftHash existing \<noteq> sd_ContentHash (cq_Draft q) then Inl ErrSelectionIdempotencyConflict
                else Inr \<lparr>rc_Record = existing, rc_Disposition = SelectionDuplicate\<rparr>, r)
           | None \<Rightarrow>
               (case map_of (sp_byRun r) runKey of
                  Some existing \<Rightarrow>
                    (if \<not> time_Before now (sl_ExpiresAt existing) then Inl ErrSelectionExpired
                     else if sl_DraftHash existing \<noteq> sd_ContentHash (cq_Draft q) \<or> sl_IdempotencyIdentityHash existing \<noteq> cq_IdempotencyIdentityHash q
                       then Inl ErrRetrievalRunConflict
                     else Inr \<lparr>rc_Record = existing, rc_Disposition = SelectionDuplicate\<rparr>, r)
                | None \<Rightarrow>
                    (case NewRecord ext (cq_Draft q) (cq_IdempotencyIdentityHash q) now (time_Add now (sp_TTL r)) of
                       Inl e \<Rightarrow> (Inl e, r)
                     | Inr record \<Rightarrow>
                         (Inr \<lparr>rc_Record = record, rc_Disposition = SelectionCommitted\<rparr>,
                          r\<lparr>sp_byIdempotency := AList.update idempotencyKey record (sp_byIdempotency r),
                            sp_byInjection := AList.update (cq_TenantID q, sl_InjectionID record) record (sp_byInjection r),
                            sp_byRun := AList.update runKey record (sp_byRun r)\<rparr>))))"

definition FindByInjectionID :: "externals \<Rightarrow> time \<Rightarrow> string \<Rightarrow> string \<Rightarrow> SelectionRepository \<Rightarrow> selection_error + SelectionRecord" where
  "FindByInjectionID ext clock tenantID injectionID r =
     (if tenantID = [] \<or> injectionID = [] then Inl ErrInvalidSelection
      else case map_of (sp_byInjection r) (tenantID, injectionID) of
        None \<Rightarrow> Inl ErrSelectionNotFound
      | Some record \<Rightarrow>
          if \<not> time_Before (time_UTC clock) (sl_ExpiresAt record) then Inl ErrSelectionNotFound
          else if \<not> ValidateRecord ext record then Inl ErrInvalidSelection
          else Inr record)"

definition FindByRetrievalRunID :: "externals \<Rightarrow> time \<Rightarrow> string \<Rightarrow> string \<Rightarrow> SelectionRepository \<Rightarrow> selection_error + SelectionRecord" where
  "FindByRetrievalRunID ext clock tenantID runID r =
     (if tenantID = [] \<or> runID = [] then Inl ErrInvalidSelection
      else case map_of (sp_byRun r) (tenantID, runID) of
        None \<Rightarrow> Inl ErrSelectionNotFound
      | Some record \<Rightarrow>
          if \<not> time_Before (time_UTC clock) (sl_ExpiresAt record) then Inl ErrSelectionNotFound
          else if \<not> ValidateRecord ext record then Inl ErrInvalidSelection
          else Inr record)"

end
