(* ===== verification/Credit.thy ===== *)
theory Credit
  imports Selection Evidence_Evaluation
begin

text \<open>
  \<^verbatim>\<open>internal/credit\<close>: which share of an outcome the plan that was injected gets. A verified outcome is
  causal only for a complete plan, with evidence on its goals inside the attribution window;
  everything else is associated or unattributable. The parser of RFC 3339 instants,
  \<^verbatim>\<open>time.Parse\<close>, is an argument.
\<close>

section \<open>Rules\<close>

datatype credit_error = ErrInvalidCredit | ErrCreditEncoding canonical_error

abbreviation "CausalSuccess \<equiv> ''causal_success''"
abbreviation "AssociatedSuccess \<equiv> ''associated_success''"
abbreviation "CausalFailure \<equiv> ''causal_failure''"
abbreviation "AssociatedFailure \<equiv> ''associated_failure''"
abbreviation "Unattributable \<equiv> ''unattributable''"

record RuleManifest =
  rm_SchemaVersion :: string
  rm_Version :: string
  rm_MaximumClockSkewSeconds :: uint32
  rm_RequireCompleteCausalPlan :: bool
  rm_RequireGoalEvidence :: bool
  rm_ID :: string
  rm_ContentHash :: string
  rm_CanonicalJSON :: string

definition json_rule_manifest :: "RuleManifest \<Rightarrow> json" where
  "json_rule_manifest m = JObj
     [(''schema_version'', JStr (rm_SchemaVersion m)), (''version'', JStr (rm_Version m)),
      (''maximum_clock_skew_seconds'', JNum (uint (rm_MaximumClockSkewSeconds m))),
      (''require_complete_causal_plan'', JBool (rm_RequireCompleteCausalPlan m)), (''require_goal_evidence'', JBool (rm_RequireGoalEvidence m))]"

definition NewRuleManifest :: "externals \<Rightarrow> string \<Rightarrow> duration \<Rightarrow> credit_error + RuleManifest" where
  "NewRuleManifest ext version maximumClockSkew =
     (if version = [] \<or> maximumClockSkew < 0 \<or> maximumClockSkew > 300000000000 then Inl ErrInvalidCredit
      else let manifest = \<lparr>rm_SchemaVersion = ''credit-rule-manifest.v1'', rm_Version = version,
             rm_MaximumClockSkewSeconds = word_of_int (maximumClockSkew div 1000000000), rm_RequireCompleteCausalPlan = True,
             rm_RequireGoalEvidence = True, rm_ID = [], rm_ContentHash = [], rm_CanonicalJSON = []\<rparr>
        in case MarshalAndHash ext (json_rule_manifest manifest) of
             Inl e \<Rightarrow> Inl (ErrCreditEncoding e)
           | Inr (encoded, hash) \<Rightarrow> Inr (manifest\<lparr>rm_ID := ''crman_'' @ hash, rm_ContentHash := hash, rm_CanonicalJSON := encoded\<rparr>))"

definition skew :: "RuleManifest \<Rightarrow> duration" where
  "skew m = seconds (ucast (rm_MaximumClockSkewSeconds m))"

definition ValidateRuleManifest :: "externals \<Rightarrow> RuleManifest \<Rightarrow> bool" where
  "ValidateRuleManifest ext m =
     (case NewRuleManifest ext (rm_Version m) (skew m) of
        Inl _ \<Rightarrow> False
      | Inr rebuilt \<Rightarrow> rm_SchemaVersion m = rm_SchemaVersion rebuilt \<and> rm_ID m = rm_ID rebuilt \<and> rm_ContentHash m = rm_ContentHash rebuilt \<and>
          rm_CanonicalJSON m = rm_CanonicalJSON rebuilt \<and> rm_RequireCompleteCausalPlan m \<and> rm_RequireGoalEvidence m)"

section \<open>Records\<close>

record CreditRecord =
  cr_SchemaVersion :: string
  cr_ID :: string
  cr_TenantID :: string
  cr_OutcomeID :: string
  cr_InjectionID :: string
  cr_TaskExecutionID :: string
  cr_ProcedureVersionID :: string
  cr_Class :: string
  cr_RuleManifestID :: string
  cr_SelectionHash :: string
  cr_ReasonCodes :: "string list"
  cr_CreatedAt :: time
  cr_ExpiresAt :: time
  cr_ContentHash :: string
  cr_CanonicalJSON :: string

definition json_credit :: "CreditRecord \<Rightarrow> json" where
  "json_credit r = JObj
     ([(''schema_version'', JStr (cr_SchemaVersion r)), (''outcome_credit_id'', JStr (cr_ID r)), (''tenant_id'', JStr (cr_TenantID r)),
       (''outcome_id'', JStr (cr_OutcomeID r)), (''injection_id'', JStr (cr_InjectionID r)), (''task_execution_id'', JStr (cr_TaskExecutionID r))] @
      omit_str ''procedure_version_id'' (cr_ProcedureVersionID r) @
      [(''credit_class'', JStr (cr_Class r)), (''rule_manifest_id'', JStr (cr_RuleManifestID r)), (''selection_hash'', JStr (cr_SelectionHash r)),
       (''reason_codes'', JArr (map JStr (cr_ReasonCodes r))), (''created_at'', JTime (cr_CreatedAt r)), (''expires_at'', JTime (cr_ExpiresAt r))] @
      omit_str ''content_hash'' (cr_ContentHash r))"

definition validClass :: "string \<Rightarrow> bool" where
  "validClass c \<longleftrightarrow> c = CausalSuccess \<or> c = AssociatedSuccess \<or> c = CausalFailure \<or> c = AssociatedFailure \<or> c = Unattributable"

definition credit_newRecord :: "externals \<Rightarrow> CreditRecord \<Rightarrow> credit_error + CreditRecord" where
  "credit_newRecord ext source =
     (let v = source\<lparr>cr_SchemaVersion := ''outcome-credit.v1'', cr_ID := [], cr_ContentHash := [], cr_CanonicalJSON := [], cr_ReasonCodes := sort (cr_ReasonCodes source)\<rparr>
      in if cr_TenantID v = [] \<or> cr_OutcomeID v = [] \<or> cr_InjectionID v = [] \<or> cr_TaskExecutionID v = [] \<or> cr_RuleManifestID v = [] \<or>
            \<not> hashPattern (cr_SelectionHash v) \<or> \<not> validClass (cr_Class v) \<or> time_IsZero (cr_CreatedAt v) \<or>
            \<not> time_Equal (cr_CreatedAt v) (time_UTC (cr_CreatedAt v)) \<or> \<not> time_After (cr_ExpiresAt v) (cr_CreatedAt v) then Inl ErrInvalidCredit
         else if [] \<in> set (cr_ReasonCodes v) \<or> \<not> strictly_sorted (cr_ReasonCodes v) then Inl ErrInvalidCredit
         else let v = v\<lparr>cr_ID := ''ocred_'' @ hash_bytes ext (cr_TenantID v @ NUL @ cr_OutcomeID v)\<rparr>
           in case MarshalAndHash ext (json_credit v) of
                Inl e \<Rightarrow> Inl (ErrCreditEncoding e)
              | Inr (encoded, hash) \<Rightarrow> Inr (v\<lparr>cr_ContentHash := hash, cr_CanonicalJSON := encoded\<rparr>))"

definition credit_Validate :: "externals \<Rightarrow> CreditRecord \<Rightarrow> bool" where
  "credit_Validate ext record =
     (case credit_newRecord ext (record\<lparr>cr_ID := [], cr_ContentHash := [], cr_CanonicalJSON := []\<rparr>) of
        Inl _ \<Rightarrow> False
      | Inr rebuilt \<Rightarrow> cr_ID rebuilt = cr_ID record \<and> cr_ContentHash rebuilt = cr_ContentHash record \<and> cr_CanonicalJSON rebuilt = cr_CanonicalJSON record)"

section \<open>Assignment\<close>

record CreditRequest =
  ar_Manifest :: RuleManifest
  ar_Selection :: SelectionRecord
  ar_Outcome :: CanonicalOutcome
  ar_Evaluation :: EvidenceResult
  ar_InjectionID :: string
  ar_TaskExecutionID :: string
  ar_Now :: time

fun temporal_loop :: "(string \<Rightarrow> time option) \<Rightarrow> CreditRequest \<Rightarrow> OutcomeEvidence list \<Rightarrow> bool" where
  "temporal_loop parse q [] = True"
| "temporal_loop parse q (f # facts) =
     (case parse (oe_ObservedAt f) of
        None \<Rightarrow> False
      | Some observed \<Rightarrow>
          if time_Before observed (time_Add (sl_CreatedAt (ar_Selection q)) (- skew (ar_Manifest q))) \<or>
             time_After observed (time_Add (ar_Now q) (skew (ar_Manifest q))) \<or> \<not> time_Before observed (sl_ExpiresAt (ar_Selection q)) then False
          else temporal_loop parse q facts)"

definition temporalEvidence :: "(string \<Rightarrow> time option) \<Rightarrow> CreditRequest \<Rightarrow> bool" where
  "temporalEvidence parse q = temporal_loop parse q (co_Evidence (ar_Outcome q))"

text \<open>The map of verdicts: a later fact on a predicate replaces an earlier one; a missing key reads as the empty string.\<close>

fun verdict_loop :: "OutcomeEvidence list \<Rightarrow> (string \<times> string) list \<Rightarrow> (string \<times> string) list" where
  "verdict_loop [] verdicts = verdicts"
| "verdict_loop (f # facts) verdicts =
     verdict_loop facts (if oe_Class f = EvidenceClassGoalPredicate \<or> oe_Class f = EvidenceClassIndependentVerifier
       then (oe_PredicateID f, oe_Verdict f) # verdicts else verdicts)"

definition verdict_at :: "(string \<times> string) list \<Rightarrow> string \<Rightarrow> string" where
  "verdict_at verdicts goal = (case map_of verdicts goal of Some v \<Rightarrow> v | None \<Rightarrow> [])"

definition goalEvidence :: "SelectionRecord \<Rightarrow> CanonicalOutcome \<Rightarrow> bool \<times> bool" where
  "goalEvidence record outcome =
     (let verdicts = verdict_loop (co_Evidence outcome) []; goals = pl_RequestedGoalPredicateIDs (sl_Plan record)
      in foldl (\<lambda>(allSatisfied, anyFailed) goal.
           (allSatisfied \<and> verdict_at verdicts goal = EvidenceVerdictSatisfied, anyFailed \<or> verdict_at verdicts goal = EvidenceVerdictFailed))
         (length goals > 0, False) goals)"

definition credit_class :: "string \<Rightarrow> bool \<Rightarrow> bool \<Rightarrow> bool \<Rightarrow> bool \<Rightarrow> string" where
  "credit_class state temporal complete goalSatisfied goalFailed =
     (if state = OutcomeStateVerifiedSuccess then (if temporal \<and> complete \<and> goalSatisfied then CausalSuccess else AssociatedSuccess)
      else if state = OutcomeStateProvisionalSuccess then AssociatedSuccess
      else if state = OutcomeStateVerifiedFailure then (if temporal \<and> complete \<and> goalFailed then CausalFailure else AssociatedFailure)
      else Unattributable)"

definition credit_reasons :: "string \<Rightarrow> bool \<Rightarrow> bool \<Rightarrow> bool \<Rightarrow> bool \<Rightarrow> string list" where
  "credit_reasons state temporal complete goalSatisfied goalFailed =
     (if state = OutcomeStateVerifiedSuccess then [] else if state = OutcomeStateProvisionalSuccess then [''provisional_evidence'']
      else if state = OutcomeStateVerifiedFailure then [] else [''inconclusive_outcome'']) @
     (if \<not> temporal then [''outside_attribution_window''] else []) @
     (if \<not> complete then [''partial_plan''] else []) @
     (if state = OutcomeStateVerifiedSuccess \<and> \<not> goalSatisfied \<or> state = OutcomeStateVerifiedFailure \<and> \<not> goalFailed
      then [''goal_evidence_missing''] else [])"

definition valid_credit_request :: "externals \<Rightarrow> CreditRequest \<Rightarrow> bool" where
  "valid_credit_request ext q \<longleftrightarrow>
     ValidateRecord ext (ar_Selection q) \<and> ValidateRuleManifest ext (ar_Manifest q) \<and> \<not> time_IsZero (ar_Now q) \<and>
     co_TenantID (ar_Outcome q) = sl_TenantID (ar_Selection q) \<and> ar_InjectionID q = sl_InjectionID (ar_Selection q) \<and>
     ar_TaskExecutionID q = TaskExecutionID ext (sl_InjectionID (ar_Selection q)) \<and> time_Before (ar_Now q) (sl_ExpiresAt (ar_Selection q))"

definition credit_Assign :: "externals \<Rightarrow> (string \<Rightarrow> time option) \<Rightarrow> CreditRequest \<Rightarrow> credit_error + CreditRecord" where
  "credit_Assign ext parse q =
     (if \<not> valid_credit_request ext q then Inl ErrInvalidCredit
      else let state = vr_State (ar_Evaluation q); plan = sl_Plan (ar_Selection q); temporal = temporalEvidence parse q;
               (goalSatisfied, goalFailed) = goalEvidence (ar_Selection q) (ar_Outcome q);
               class = credit_class state temporal (pl_Complete plan) goalSatisfied goalFailed;
               reasons = credit_reasons state temporal (pl_Complete plan) goalSatisfied goalFailed;
               procedureVersionID = (if (class = CausalSuccess \<or> class = CausalFailure) \<and> length (pl_Nodes plan) = 1 then no_VersionID (pl_Nodes plan ! 0) else [])
        in credit_newRecord ext
             \<lparr>cr_SchemaVersion = [], cr_ID = [], cr_TenantID = co_TenantID (ar_Outcome q), cr_OutcomeID = co_ID (ar_Outcome q), cr_InjectionID = ar_InjectionID q,
              cr_TaskExecutionID = ar_TaskExecutionID q, cr_ProcedureVersionID = procedureVersionID, cr_Class = class, cr_RuleManifestID = rm_ID (ar_Manifest q),
              cr_SelectionHash = sl_ContentHash (ar_Selection q), cr_ReasonCodes = reasons, cr_CreatedAt = time_UTC (ar_Now q),
              cr_ExpiresAt = sl_ExpiresAt (ar_Selection q), cr_ContentHash = [], cr_CanonicalJSON = []\<rparr>)"

end
