(* ===== verification/Ledger.thy ===== *)
theory Ledger
  imports Archive Credit Outcomes
begin

text \<open>
  \<^verbatim>\<open>internal/store/ingest.go\<close>, \<^verbatim>\<open>outcome.go\<close> and \<^verbatim>\<open>memory/ingest.go\<close>: the ledger of traces and outcomes. A commit
  is accepted at most once per idempotency key; it refuses a trace that changes its content, an
  outcome of an unknown trace, a correction of an unknown outcome, and a second outcome for an
  injected plan. The methods run under one mutex, so concurrent calls are a sequence of calls.
\<close>

section \<open>Requests and receipts\<close>

datatype ledger_error =
    ErrInvalidCommit | ErrIdempotencyConflict | ErrTraceConflict | ErrInvalidOutcomeCommit | ErrOutcomeTraceNotFound
  | ErrOutcomeSelectionNotFound | ErrOutcomeSupersessionInvalid | ErrOutcomeCreditClaimed | errInjectedFailure

datatype ledger_disposition = DispositionAccepted | DispositionDuplicate

record CommitIngestRequest =
  ci_TenantID :: string
  ci_IdempotencyKeyHash :: string
  ci_Batch :: CanonicalBatch
  ci_Archive :: archive_Object

record IngestReceipt =
  ir_ID :: string
  ir_TenantID :: string
  ir_TraceID :: string
  ir_ContentHash :: string
  ir_WorkflowID :: string
  ir_Disposition :: ledger_disposition
  ir_CreatedAt :: time

record CommitOutcomeRequest =
  cu_TenantID :: string
  cu_IdempotencyKeyHash :: string
  cu_Outcome :: CanonicalOutcome
  cu_Evaluation :: EvidenceResult
  cu_Credit :: "CreditRecord option"

record OutcomeReceipt =
  or_ID :: string
  or_TenantID :: string
  or_OutcomeID :: string
  or_TraceID :: string
  or_ContentHash :: string
  or_WorkflowID :: string
  or_State :: string
  or_PromotionEligible :: bool
  or_PolicyVersion :: string
  or_Disposition :: ledger_disposition
  or_CreatedAt :: time
  or_OutcomeCreditID :: string
  or_CreditClass :: string

definition validDerivedID :: "string \<Rightarrow> string \<Rightarrow> bool" where
  "validDerivedID v prefix \<longleftrightarrow> starts_with prefix v \<and> hashPattern (TrimPrefix v prefix)"

fun valid_events :: "nat \<Rightarrow> string list \<Rightarrow> CanonicalEvent list \<Rightarrow> bool" where
  "valid_events index seen [] = True"
| "valid_events index seen (event # events) =
     (if ce_Position event \<noteq> of_nat index \<or> \<not> validDerivedID (CanonicalEvent.ce_ID event) ''ev_'' then False
      else if CanonicalEvent.ce_ID event \<in> set seen then False
      else valid_events (Suc index) (CanonicalEvent.ce_ID event # seen) events)"

definition ValidateIngestCommit :: "externals \<Rightarrow> CommitIngestRequest \<Rightarrow> bool" where
  "ValidateIngestCommit ext q =
     (let batch = ci_Batch q; object = ci_Archive q
      in if ci_TenantID q = [] \<or> cb_TenantID batch \<noteq> ci_TenantID q \<or> cb_SchemaVersion batch = [] \<or> ct_ID (cb_Trace batch) = [] \<or>
            \<not> hashPattern (ci_IdempotencyKeyHash q) \<or> \<not> hashPattern (cb_Hash batch) \<or> length (cb_CanonicalJSON batch) = 0 \<or>
            length (cb_Events batch) = 0 \<or> length (cb_Events batch) > 5000 then False
         else if hash_bytes ext (cb_CanonicalJSON batch) \<noteq> cb_Hash batch \<or> ao_Hash object \<noteq> cb_Hash batch \<or>
                 ao_Size object \<noteq> int (length (cb_CanonicalJSON batch)) then False
         else if KeyFor ext (ci_TenantID q) (cb_SchemaVersion batch) (cb_Hash batch) \<noteq> Inr (ao_Key object) then False
         else if \<not> validDerivedID (ct_ID (cb_Trace batch)) ''tr_'' then False
         else valid_events 0 [] (cb_Events batch))"

definition ReceiptID :: "externals \<Rightarrow> string \<Rightarrow> string \<Rightarrow> string" where
  "ReceiptID ext tenantID idempotencyKeyHash = ''rcpt_'' @ hash_bytes ext (tenantID @ NUL @ idempotencyKeyHash)"

definition WorkflowID :: "externals \<Rightarrow> string \<Rightarrow> string \<Rightarrow> string" where
  "WorkflowID ext tenantID traceID = ''synthesize/'' @ take 16 (hash_bytes ext tenantID) @ ''/'' @ traceID @ ''/v1''"

definition OutcomeReceiptID :: "externals \<Rightarrow> string \<Rightarrow> string \<Rightarrow> string" where
  "OutcomeReceiptID ext tenantID idempotencyKeyHash = ''orcpt_'' @ hash_bytes ext (tenantID @ NUL @ idempotencyKeyHash)"

definition OutcomeWorkflowID :: "externals \<Rightarrow> string \<Rightarrow> string \<Rightarrow> string \<Rightarrow> string" where
  "OutcomeWorkflowID ext tenantID traceID outcomeID =
     ''synthesize/'' @ take 16 (hash_bytes ext tenantID) @ ''/'' @ traceID @ ''/'' @ outcomeID @ ''/v1''"

definition OutcomeAuditEventID :: "externals \<Rightarrow> string \<Rightarrow> string \<Rightarrow> string" where
  "OutcomeAuditEventID ext tenantID outcomeID =
     ''audit_'' @ hash_bytes ext (tenantID @ NUL @ outcomeID @ NUL @ ''evidence_conflict'' @ NUL @ ''v1'')"

definition EventContentHash :: "string \<Rightarrow> string" where "EventContentHash eventID = TrimPrefix eventID ''ev_''"

definition TraceContentHash :: "string \<Rightarrow> string" where "TraceContentHash traceID = TrimPrefix traceID ''tr_''"

definition credit_matches :: "externals \<Rightarrow> CommitOutcomeRequest \<Rightarrow> CreditRecord \<Rightarrow> bool" where
  "credit_matches ext q c \<longleftrightarrow>
     credit_Validate ext c \<and> cr_TenantID c = cu_TenantID q \<and> cr_OutcomeID c = co_ID (cu_Outcome q) \<and>
     cr_InjectionID c = co_InjectionID (cu_Outcome q) \<and> cr_TaskExecutionID c = co_TaskExecutionID (cu_Outcome q)"

definition ValidateOutcomeCommit :: "externals \<Rightarrow> CommitOutcomeRequest \<Rightarrow> bool" where
  "ValidateOutcomeCommit ext q =
     (let o' = cu_Outcome q; e = cu_Evaluation q
      in if cu_TenantID q = [] \<or> co_TenantID o' \<noteq> cu_TenantID q \<or> \<not> hashPattern (cu_IdempotencyKeyHash q) \<or> vr_PolicyVersion e = [] \<or>
            vr_State e = [] \<or> co_TraceID o' = [] \<or> co_Hash o' = [] then False
         else if \<not> VerifyCanonical ext o' then False
         else if vr_PromotionEligible e \<noteq> (vr_State e = OutcomeStateVerifiedSuccess) then False
         else if vr_State e \<noteq> OutcomeStateVerifiedSuccess \<and> vr_State e \<noteq> OutcomeStateProvisionalSuccess \<and>
                 vr_State e \<noteq> OutcomeStateInconclusive \<and> vr_State e \<noteq> OutcomeStateVerifiedFailure then False
         else if co_SupersedesOutcomeID o' = co_ID o' then False
         else if (co_InjectionID o' = []) \<noteq> (co_TaskExecutionID o' = []) \<or> (cu_Credit q = None) \<noteq> (co_InjectionID o' = []) then False
         else if (case cu_Credit q of None \<Rightarrow> False | Some c \<Rightarrow> \<not> credit_matches ext q c) then False
         else sort (vr_ConflictPredicates e) = vr_ConflictPredicates e)"

section \<open>The ledger in memory\<close>

text \<open>A map of presence flags is the list of its keys. \<open>lg_failure\<close> is the injected failure of the tests.\<close>

record IngestRepository =
  lg_failure :: bool
  lg_receipts :: "(string \<times> IngestReceipt) list"
  lg_traces :: "(string \<times> string) list"
  lg_events :: "string list"
  lg_archives :: "string list"
  lg_outbox :: "string list"
  lg_outcomeReceipts :: "(string \<times> OutcomeReceipt) list"
  lg_outcomes :: "(string \<times> CanonicalOutcome) list"
  lg_verificationResults :: "string list"
  lg_auditEvents :: "string list"
  lg_outcomeOutbox :: "string list"
  lg_outcomeCredits :: "(string \<times> CreditRecord) list"
  lg_creditClaims :: "(string \<times> string) list"

definition newIngestRepository :: "bool \<Rightarrow> IngestRepository" where
  "newIngestRepository failure =
     \<lparr>lg_failure = failure, lg_receipts = [], lg_traces = [], lg_events = [], lg_archives = [], lg_outbox = [], lg_outcomeReceipts = [], lg_outcomes = [],
      lg_verificationResults = [], lg_auditEvents = [], lg_outcomeOutbox = [], lg_outcomeCredits = [], lg_creditClaims = []\<rparr>"

definition NewIngestRepository :: IngestRepository where
  "NewIngestRepository = newIngestRepository False"

definition tenantKey :: "string \<Rightarrow> string \<Rightarrow> string" where
  "tenantKey tenantID v = tenantID @ NUL @ v"

definition ingest_receipt :: "externals \<Rightarrow> time \<Rightarrow> CommitIngestRequest \<Rightarrow> IngestReceipt" where
  "ingest_receipt ext clock q =
     \<lparr>ir_ID = ReceiptID ext (ci_TenantID q) (ci_IdempotencyKeyHash q), ir_TenantID = ci_TenantID q, ir_TraceID = ct_ID (cb_Trace (ci_Batch q)),
      ir_ContentHash = cb_Hash (ci_Batch q), ir_WorkflowID = WorkflowID ext (ci_TenantID q) (ct_ID (cb_Trace (ci_Batch q))),
      ir_Disposition = DispositionAccepted, ir_CreatedAt = time_UTC clock\<rparr>"

definition store_ingest :: "externals \<Rightarrow> CommitIngestRequest \<Rightarrow> IngestReceipt \<Rightarrow> IngestRepository \<Rightarrow> IngestRepository" where
  "store_ingest ext q receipt r =
     r\<lparr>lg_receipts := AList.update (tenantKey (ci_TenantID q) (ci_IdempotencyKeyHash q)) receipt (lg_receipts r),
       lg_traces := AList.update (tenantKey (ci_TenantID q) (ct_ID (cb_Trace (ci_Batch q)))) (cb_Hash (ci_Batch q)) (lg_traces r),
       lg_events := fold (\<lambda>event. List.insert (tenantKey (ci_TenantID q) (CanonicalEvent.ce_ID event))) (cb_Events (ci_Batch q)) (lg_events r),
       lg_archives := List.insert (tenantKey (ci_TenantID q) (ao_Key (ci_Archive q))) (lg_archives r),
       lg_outbox := List.insert (tenantKey (ci_TenantID q) (ir_WorkflowID receipt)) (lg_outbox r)\<rparr>"

definition CommitIngest :: "externals \<Rightarrow> time \<Rightarrow> CommitIngestRequest \<Rightarrow> IngestRepository \<Rightarrow> (ledger_error + IngestReceipt) \<times> IngestRepository" where
  "CommitIngest ext clock q r =
     (if \<not> ValidateIngestCommit ext q then (Inl ErrInvalidCommit, r)
      else case map_of (lg_receipts r) (tenantKey (ci_TenantID q) (ci_IdempotencyKeyHash q)) of
        Some existing \<Rightarrow>
          (if ir_ContentHash existing \<noteq> cb_Hash (ci_Batch q) then Inl ErrIdempotencyConflict
           else Inr (existing\<lparr>ir_Disposition := DispositionDuplicate\<rparr>), r)
      | None \<Rightarrow>
          (if (case map_of (lg_traces r) (tenantKey (ci_TenantID q) (ct_ID (cb_Trace (ci_Batch q)))) of
                 None \<Rightarrow> False | Some contentHash \<Rightarrow> contentHash \<noteq> cb_Hash (ci_Batch q)) then (Inl ErrTraceConflict, r)
           else if lg_failure r then (Inl errInjectedFailure, r)
           else let receipt = ingest_receipt ext clock q in (Inr receipt, store_ingest ext q receipt r)))"

definition outcome_receipt :: "externals \<Rightarrow> time \<Rightarrow> CommitOutcomeRequest \<Rightarrow> OutcomeReceipt" where
  "outcome_receipt ext clock q =
     (let o' = cu_Outcome q; e = cu_Evaluation q in
     \<lparr>or_ID = OutcomeReceiptID ext (cu_TenantID q) (cu_IdempotencyKeyHash q), or_TenantID = cu_TenantID q, or_OutcomeID = co_ID o',
      or_TraceID = co_TraceID o', or_ContentHash = co_Hash o', or_WorkflowID = OutcomeWorkflowID ext (cu_TenantID q) (co_TraceID o') (co_ID o'),
      or_State = vr_State e, or_PromotionEligible = vr_PromotionEligible e, or_PolicyVersion = vr_PolicyVersion e,
      or_Disposition = DispositionAccepted, or_CreatedAt = time_UTC clock,
      or_OutcomeCreditID = (case cu_Credit q of None \<Rightarrow> [] | Some c \<Rightarrow> cr_ID c), or_CreditClass = (case cu_Credit q of None \<Rightarrow> [] | Some c \<Rightarrow> cr_Class c)\<rparr>)"

definition store_credit :: "CommitOutcomeRequest \<Rightarrow> IngestRepository \<Rightarrow> IngestRepository" where
  "store_credit q r =
     (case cu_Credit q of
        None \<Rightarrow> r
      | Some c \<Rightarrow> r\<lparr>lg_outcomeCredits := AList.update (tenantKey (cu_TenantID q) (cr_ID c)) c (lg_outcomeCredits r),
          lg_creditClaims := AList.update (tenantKey (cu_TenantID q) (cr_InjectionID c)) (co_ID (cu_Outcome q)) (lg_creditClaims r)\<rparr>)"

definition store_outcome :: "externals \<Rightarrow> CommitOutcomeRequest \<Rightarrow> OutcomeReceipt \<Rightarrow> IngestRepository \<Rightarrow> IngestRepository" where
  "store_outcome ext q receipt r =
     (let o' = cu_Outcome q; tenant = cu_TenantID q; r = store_credit q r in
     r\<lparr>lg_outcomeReceipts := AList.update (tenantKey tenant (cu_IdempotencyKeyHash q)) receipt (lg_outcomeReceipts r),
       lg_outcomes := AList.update (tenantKey tenant (co_ID o')) o' (lg_outcomes r),
       lg_verificationResults := fold (\<lambda>f. List.insert (tenantKey tenant (oe_ID f))) (co_Evidence o') (lg_verificationResults r),
       lg_auditEvents := (if length (vr_ConflictPredicates (cu_Evaluation q)) > 0
         then List.insert (tenantKey tenant (OutcomeAuditEventID ext tenant (co_ID o'))) (lg_auditEvents r) else lg_auditEvents r),
       lg_outcomeOutbox := List.insert (tenantKey tenant (or_WorkflowID receipt)) (lg_outcomeOutbox r)\<rparr>)"

definition supersession_invalid :: "CommitOutcomeRequest \<Rightarrow> IngestRepository \<Rightarrow> bool" where
  "supersession_invalid q r \<longleftrightarrow> co_SupersedesOutcomeID (cu_Outcome q) \<noteq> [] \<and>
     (case map_of (lg_outcomes r) (tenantKey (cu_TenantID q) (co_SupersedesOutcomeID (cu_Outcome q))) of
        None \<Rightarrow> True | Some previous \<Rightarrow> co_TraceID previous \<noteq> co_TraceID (cu_Outcome q))"

definition credit_claimed :: "CommitOutcomeRequest \<Rightarrow> IngestRepository \<Rightarrow> bool" where
  "credit_claimed q r =
     (case cu_Credit q of
        None \<Rightarrow> False
      | Some c \<Rightarrow> (case map_of (lg_creditClaims r) (tenantKey (cu_TenantID q) (cr_InjectionID c)) of
          None \<Rightarrow> False | Some existing \<Rightarrow> existing \<noteq> co_ID (cu_Outcome q)))"

definition CommitOutcome :: "externals \<Rightarrow> time \<Rightarrow> CommitOutcomeRequest \<Rightarrow> IngestRepository \<Rightarrow> (ledger_error + OutcomeReceipt) \<times> IngestRepository" where
  "CommitOutcome ext clock q r =
     (if \<not> ValidateOutcomeCommit ext q then (Inl ErrInvalidOutcomeCommit, r)
      else case map_of (lg_outcomeReceipts r) (tenantKey (cu_TenantID q) (cu_IdempotencyKeyHash q)) of
        Some existing \<Rightarrow>
          (if or_ContentHash existing \<noteq> co_Hash (cu_Outcome q) then Inl ErrIdempotencyConflict
           else Inr (existing\<lparr>or_Disposition := DispositionDuplicate\<rparr>), r)
      | None \<Rightarrow>
          (if map_of (lg_traces r) (tenantKey (cu_TenantID q) (co_TraceID (cu_Outcome q))) = None then (Inl ErrOutcomeTraceNotFound, r)
           else if co_SelectionID (cu_Outcome q) \<noteq> [] then (Inl ErrOutcomeSelectionNotFound, r)
           else if supersession_invalid q r then (Inl ErrOutcomeSupersessionInvalid, r)
           else if credit_claimed q r then (Inl ErrOutcomeCreditClaimed, r)
           else if (case map_of (lg_outcomes r) (tenantKey (cu_TenantID q) (co_ID (cu_Outcome q))) of
                      None \<Rightarrow> False | Some existing \<Rightarrow> co_Hash existing \<noteq> co_Hash (cu_Outcome q)) then (Inl ErrInvalidOutcomeCommit, r)
           else let receipt = outcome_receipt ext clock q in (Inr receipt, store_outcome ext q receipt r)))"

record OutcomeCounts =
  oc_Receipts :: nat
  oc_Outcomes :: nat
  oc_VerificationResults :: nat
  oc_AuditEvents :: nat
  oc_OutboxJobs :: nat

definition OutcomeCounts_of :: "IngestRepository \<Rightarrow> OutcomeCounts" where
  "OutcomeCounts_of r =
     \<lparr>oc_Receipts = length (lg_outcomeReceipts r), oc_Outcomes = length (lg_outcomes r), oc_VerificationResults = length (lg_verificationResults r),
      oc_AuditEvents = length (lg_auditEvents r), oc_OutboxJobs = length (lg_outcomeOutbox r)\<rparr>"

record AggregateCounts =
  ac_Receipts :: nat
  ac_Traces :: nat
  ac_Events :: nat
  ac_Archives :: nat
  ac_OutboxJobs :: nat

definition Counts :: "IngestRepository \<Rightarrow> AggregateCounts" where
  "Counts r =
     \<lparr>ac_Receipts = length (lg_receipts r), ac_Traces = length (lg_traces r), ac_Events = length (lg_events r),
      ac_Archives = length (lg_archives r), ac_OutboxJobs = length (lg_outbox r)\<rparr>"

end
