(* ===== verification/Ledger_Integrity.thy ===== *)
theory Ledger_Integrity
  imports Ledger
begin

text \<open>
  The ledger over all sequences of calls: nothing that was accepted is ever replaced, references
  between its tables never dangle, and an injected plan is credited to one outcome.
\<close>

section \<open>Calls\<close>

datatype ledger_call = IngestCall time CommitIngestRequest | OutcomeCall time CommitOutcomeRequest

fun ledger_step :: "externals \<Rightarrow> ledger_call \<Rightarrow> IngestRepository \<Rightarrow>
  ((ledger_error + IngestReceipt) + (ledger_error + OutcomeReceipt)) \<times> IngestRepository" where
  "ledger_step ext (IngestCall clock q) r = map_prod Inl (\<lambda>x. x) (CommitIngest ext clock q r)"
| "ledger_step ext (OutcomeCall clock q) r = map_prod Inr (\<lambda>x. x) (CommitOutcome ext clock q r)"

text \<open>A step either changes nothing or stores one accepted request.\<close>

lemma CommitIngest_cases:
  obtains (same) "snd (CommitIngest ext clock q r) = r"
  | (stored) "CommitIngest ext clock q r = (Inr (ingest_receipt ext clock q), store_ingest ext q (ingest_receipt ext clock q) r)" "ValidateIngestCommit ext q"
      "map_of (lg_receipts r) (tenantKey (ci_TenantID q) (ci_IdempotencyKeyHash q)) = None"
      "map_of (lg_traces r) (tenantKey (ci_TenantID q) (ct_ID (cb_Trace (ci_Batch q)))) \<in> {None, Some (cb_Hash (ci_Batch q))}"
proof (cases "snd (CommitIngest ext clock q r) = r")
  case False
  then show ?thesis by (intro stored) (auto simp: CommitIngest_def Let_def split: if_splits option.splits)
qed (rule same)

lemma CommitOutcome_cases:
  obtains (same) "snd (CommitOutcome ext clock q r) = r"
  | (stored) "CommitOutcome ext clock q r = (Inr (outcome_receipt ext clock q), store_outcome ext q (outcome_receipt ext clock q) r)"
      "ValidateOutcomeCommit ext q" "map_of (lg_outcomeReceipts r) (tenantKey (cu_TenantID q) (cu_IdempotencyKeyHash q)) = None"
      "map_of (lg_traces r) (tenantKey (cu_TenantID q) (co_TraceID (cu_Outcome q))) \<noteq> None" "\<not> supersession_invalid q r" "\<not> credit_claimed q r"
      "\<forall>x. map_of (lg_outcomes r) (tenantKey (cu_TenantID q) (co_ID (cu_Outcome q))) = Some x \<longrightarrow> co_Hash x = co_Hash (cu_Outcome q)"
proof (cases "snd (CommitOutcome ext clock q r) = r")
  case False
  then show ?thesis by (intro stored) (auto simp: CommitOutcome_def Let_def split: if_splits option.splits)
qed (rule same)

lemma store_ingest_fields [simp]:
  "lg_receipts (store_ingest ext q rc r) = AList.update (tenantKey (ci_TenantID q) (ci_IdempotencyKeyHash q)) rc (lg_receipts r)"
  "lg_traces (store_ingest ext q rc r) = AList.update (tenantKey (ci_TenantID q) (ct_ID (cb_Trace (ci_Batch q)))) (cb_Hash (ci_Batch q)) (lg_traces r)"
  "lg_outcomeReceipts (store_ingest ext q rc r) = lg_outcomeReceipts r" "lg_outcomes (store_ingest ext q rc r) = lg_outcomes r"
  "lg_verificationResults (store_ingest ext q rc r) = lg_verificationResults r" "lg_auditEvents (store_ingest ext q rc r) = lg_auditEvents r"
  "lg_outcomeOutbox (store_ingest ext q rc r) = lg_outcomeOutbox r" "lg_outcomeCredits (store_ingest ext q rc r) = lg_outcomeCredits r"
  "lg_creditClaims (store_ingest ext q rc r) = lg_creditClaims r"
  "lg_archives (store_ingest ext q rc r) = List.insert (tenantKey (ci_TenantID q) (ao_Key (ci_Archive q))) (lg_archives r)"
  "lg_outbox (store_ingest ext q rc r) = List.insert (tenantKey (ci_TenantID q) (ir_WorkflowID rc)) (lg_outbox r)"
  "lg_events (store_ingest ext q rc r) = fold (\<lambda>event. List.insert (tenantKey (ci_TenantID q) (CanonicalEvent.ce_ID event))) (cb_Events (ci_Batch q)) (lg_events r)"
  by (simp_all add: store_ingest_def)

lemma store_outcome_fields [simp]:
  "lg_receipts (store_outcome ext q rc r) = lg_receipts r" "lg_traces (store_outcome ext q rc r) = lg_traces r"
  "lg_events (store_outcome ext q rc r) = lg_events r" "lg_archives (store_outcome ext q rc r) = lg_archives r" "lg_outbox (store_outcome ext q rc r) = lg_outbox r"
  "lg_outcomeReceipts (store_outcome ext q rc r) = AList.update (tenantKey (cu_TenantID q) (cu_IdempotencyKeyHash q)) rc (lg_outcomeReceipts r)"
  "lg_outcomes (store_outcome ext q rc r) = AList.update (tenantKey (cu_TenantID q) (co_ID (cu_Outcome q))) (cu_Outcome q) (lg_outcomes r)"
  "lg_verificationResults (store_outcome ext q rc r) = fold (\<lambda>f. List.insert (tenantKey (cu_TenantID q) (oe_ID f))) (co_Evidence (cu_Outcome q)) (lg_verificationResults r)"
  "lg_auditEvents (store_outcome ext q rc r) = (if length (vr_ConflictPredicates (cu_Evaluation q)) > 0
     then List.insert (tenantKey (cu_TenantID q) (OutcomeAuditEventID ext (cu_TenantID q) (co_ID (cu_Outcome q)))) (lg_auditEvents r) else lg_auditEvents r)"
  "lg_outcomeOutbox (store_outcome ext q rc r) = List.insert (tenantKey (cu_TenantID q) (or_WorkflowID rc)) (lg_outcomeOutbox r)"
  "lg_outcomeCredits (store_outcome ext q rc r) = (case cu_Credit q of None \<Rightarrow> lg_outcomeCredits r
     | Some c \<Rightarrow> AList.update (tenantKey (cu_TenantID q) (cr_ID c)) c (lg_outcomeCredits r))"
  "lg_creditClaims (store_outcome ext q rc r) = (case cu_Credit q of None \<Rightarrow> lg_creditClaims r
     | Some c \<Rightarrow> AList.update (tenantKey (cu_TenantID q) (cr_InjectionID c)) (co_ID (cu_Outcome q)) (lg_creditClaims r))"
  by (simp_all add: store_outcome_def store_credit_def Let_def split: option.splits)

section \<open>Accepted facts stay\<close>

datatype ledger_fact =
    Receipt_at string IngestReceipt | Trace_at string string | Outcome_receipt_at string OutcomeReceipt | Outcome_hash_at string string | Claim_at string string
  | In_outbox string | In_outcome_outbox string | In_results string | Credit_at string

fun ledger_holds :: "ledger_fact \<Rightarrow> IngestRepository \<Rightarrow> bool" where
  "ledger_holds (Receipt_at k v) r = (map_of (lg_receipts r) k = Some v)"
| "ledger_holds (Trace_at k v) r = (map_of (lg_traces r) k = Some v)"
| "ledger_holds (Outcome_receipt_at k v) r = (map_of (lg_outcomeReceipts r) k = Some v)"
| "ledger_holds (Outcome_hash_at k v) r = (map_option co_Hash (map_of (lg_outcomes r) k) = Some v)"
| "ledger_holds (Claim_at k v) r = (map_of (lg_creditClaims r) k = Some v)"
| "ledger_holds (In_outbox k) r = (k \<in> set (lg_outbox r))"
| "ledger_holds (In_outcome_outbox k) r = (k \<in> set (lg_outcomeOutbox r))"
| "ledger_holds (In_results k) r = (k \<in> set (lg_verificationResults r))"
| "ledger_holds (Credit_at k) r = (map_of (lg_outcomeCredits r) k \<noteq> None)"

lemma set_fold_insert: "set (fold (\<lambda>x. List.insert (f x)) xs ys) = f ` set xs \<union> set ys"
  by (induction xs arbitrary: ys) auto

lemma distinct_fold_insert: "distinct ys \<Longrightarrow> distinct (fold (\<lambda>x. List.insert (f x)) xs ys)"
  by (induction xs arbitrary: ys) auto

lemma CommitIngest_keeps: "ledger_holds f r \<Longrightarrow> ledger_holds f (snd (CommitIngest ext clock q r))"
  by (cases rule: CommitIngest_cases [of ext clock q r]; cases f) (auto simp: update_conv')

lemma CommitOutcome_keeps: "ledger_holds f r \<Longrightarrow> ledger_holds f (snd (CommitOutcome ext clock q r))"
  by (cases rule: CommitOutcome_cases [of ext clock q r]; cases f)
    (auto simp: update_conv' set_fold_insert credit_claimed_def split: option.splits)

interpretation ledger: append_only "ledger_step ext" ledger_holds "\<lambda>_ _. True" for ext
proof (unfold_locales)
  fix f r c assume "ledger_holds f r"
  then show "ledger_holds f (snd (ledger_step ext c r))" by (cases c) (simp_all add: CommitIngest_keeps CommitOutcome_keeps)
qed

section \<open>Well-formed ledgers\<close>

definition keys_distinct :: "IngestRepository \<Rightarrow> bool" where
  "keys_distinct r \<longleftrightarrow> distinct (map fst (lg_receipts r)) \<and> distinct (map fst (lg_traces r)) \<and> distinct (lg_events r) \<and> distinct (lg_archives r) \<and>
     distinct (lg_outbox r) \<and> distinct (map fst (lg_outcomeReceipts r)) \<and> distinct (map fst (lg_outcomes r)) \<and> distinct (lg_verificationResults r) \<and>
     distinct (lg_auditEvents r) \<and> distinct (lg_outcomeOutbox r)"

text \<open>The trace of a receipt is stored with its content, and its workflow is queued.\<close>

definition receipt_ok :: "IngestRepository \<Rightarrow> IngestReceipt \<Rightarrow> bool" where
  "receipt_ok r v \<longleftrightarrow> map_of (lg_traces r) (tenantKey (ir_TenantID v) (ir_TraceID v)) = Some (ir_ContentHash v) \<and>
     tenantKey (ir_TenantID v) (ir_WorkflowID v) \<in> set (lg_outbox r)"

text \<open>The outcome of a receipt is stored with its content, its trace is known, its workflow is queued, and it may promote only if verified.\<close>

definition outcome_receipt_ok :: "IngestRepository \<Rightarrow> OutcomeReceipt \<Rightarrow> bool" where
  "outcome_receipt_ok r v \<longleftrightarrow>
     map_option co_Hash (map_of (lg_outcomes r) (tenantKey (or_TenantID v) (or_OutcomeID v))) = Some (or_ContentHash v) \<and>
     map_of (lg_traces r) (tenantKey (or_TenantID v) (or_TraceID v)) \<noteq> None \<and> tenantKey (or_TenantID v) (or_WorkflowID v) \<in> set (lg_outcomeOutbox r) \<and>
     (or_PromotionEligible v \<longleftrightarrow> or_State v = OutcomeStateVerifiedSuccess)"

text \<open>An outcome is canonical and stored under its own identity; its trace, its facts and the outcome that it corrects are stored.\<close>

definition outcome_ok :: "externals \<Rightarrow> IngestRepository \<Rightarrow> string \<Rightarrow> CanonicalOutcome \<Rightarrow> bool" where
  "outcome_ok ext r k v \<longleftrightarrow> k = tenantKey (co_TenantID v) (co_ID v) \<and> VerifyCanonical ext v \<and>
     map_of (lg_traces r) (tenantKey (co_TenantID v) (co_TraceID v)) \<noteq> None \<and>
     (\<forall>f \<in> set (co_Evidence v). tenantKey (co_TenantID v) (oe_ID f) \<in> set (lg_verificationResults r)) \<and>
     (co_SupersedesOutcomeID v \<noteq> [] \<longrightarrow> co_SupersedesOutcomeID v \<noteq> co_ID v \<and>
        map_of (lg_outcomes r) (tenantKey (co_TenantID v) (co_SupersedesOutcomeID v)) \<noteq> None)"

text \<open>A claim is that of a valid credit record for the outcome that is stored.\<close>

definition claim_ok :: "externals \<Rightarrow> IngestRepository \<Rightarrow> string \<Rightarrow> string \<Rightarrow> bool" where
  "claim_ok ext r k v \<longleftrightarrow>
     (\<exists>c. credit_Validate ext c \<and> k = tenantKey (cr_TenantID c) (cr_InjectionID c) \<and> v = cr_OutcomeID c \<and>
        map_of (lg_outcomes r) (tenantKey (cr_TenantID c) v) \<noteq> None \<and> map_of (lg_outcomeCredits r) (tenantKey (cr_TenantID c) (cr_ID c)) \<noteq> None)"

definition ledger_ok :: "externals \<Rightarrow> IngestRepository \<Rightarrow> bool" where
  "ledger_ok ext r \<longleftrightarrow> keys_distinct r \<and> (\<forall>k v. map_of (lg_receipts r) k = Some v \<longrightarrow> receipt_ok r v) \<and>
     (\<forall>k v. map_of (lg_outcomeReceipts r) k = Some v \<longrightarrow> outcome_receipt_ok r v) \<and>
     (\<forall>k v. map_of (lg_outcomes r) k = Some v \<longrightarrow> outcome_ok ext r k v) \<and> (\<forall>k v. map_of (lg_creditClaims r) k = Some v \<longrightarrow> claim_ok ext r k v)"

text \<open>What is well-formed stays so when facts are only added.\<close>

definition grows :: "IngestRepository \<Rightarrow> IngestRepository \<Rightarrow> bool" where
  "grows r r' \<longleftrightarrow> (\<forall>f. ledger_holds f r \<longrightarrow> ledger_holds f r')"

lemma grows_facts:
  assumes "grows r r'"
  shows "map_of (lg_traces r) k = Some h \<Longrightarrow> map_of (lg_traces r') k = Some h" "k \<in> set (lg_outbox r) \<Longrightarrow> k \<in> set (lg_outbox r')"
    "map_option co_Hash (map_of (lg_outcomes r) k) = Some h \<Longrightarrow> map_option co_Hash (map_of (lg_outcomes r') k) = Some h"
    "k \<in> set (lg_outcomeOutbox r) \<Longrightarrow> k \<in> set (lg_outcomeOutbox r')" "k \<in> set (lg_verificationResults r) \<Longrightarrow> k \<in> set (lg_verificationResults r')"
    "map_of (lg_outcomeCredits r) k \<noteq> None \<Longrightarrow> map_of (lg_outcomeCredits r') k \<noteq> None"
  using assms [unfolded grows_def, rule_format, of "Trace_at k h"] assms [unfolded grows_def, rule_format, of "In_outbox k"]
    assms [unfolded grows_def, rule_format, of "Outcome_hash_at k h"] assms [unfolded grows_def, rule_format, of "In_outcome_outbox k"]
    assms [unfolded grows_def, rule_format, of "In_results k"] assms [unfolded grows_def, rule_format, of "Credit_at k"] by simp_all

lemma grows_dom:
  assumes "grows r r'"
  shows "map_of (lg_traces r) k \<noteq> None \<Longrightarrow> map_of (lg_traces r') k \<noteq> None" "map_of (lg_outcomes r) k \<noteq> None \<Longrightarrow> map_of (lg_outcomes r') k \<noteq> None"
proof -
  show "map_of (lg_traces r) k \<noteq> None \<Longrightarrow> map_of (lg_traces r') k \<noteq> None" using grows_facts(1) [OF assms] by auto
  assume "map_of (lg_outcomes r) k \<noteq> None"
  then obtain h where "map_option co_Hash (map_of (lg_outcomes r) k) = Some h" by auto
  from grows_facts(3) [OF assms this] show "map_of (lg_outcomes r') k \<noteq> None" by auto
qed

lemma grows_ok:
  assumes "grows r r'"
  shows "receipt_ok r v \<Longrightarrow> receipt_ok r' v" "outcome_receipt_ok r w \<Longrightarrow> outcome_receipt_ok r' w" "outcome_ok ext r k x \<Longrightarrow> outcome_ok ext r' k x"
    "claim_ok ext r k y \<Longrightarrow> claim_ok ext r' k y"
  using grows_facts [OF assms] grows_dom [OF assms]
  unfolding receipt_ok_def outcome_receipt_ok_def outcome_ok_def claim_ok_def by blast+

lemma ValidateOutcomeCommit_parts:
  assumes "ValidateOutcomeCommit ext q"
  shows "co_TenantID (cu_Outcome q) = cu_TenantID q" "VerifyCanonical ext (cu_Outcome q)" "co_SupersedesOutcomeID (cu_Outcome q) \<noteq> co_ID (cu_Outcome q)"
    "vr_PromotionEligible (cu_Evaluation q) \<longleftrightarrow> vr_State (cu_Evaluation q) = OutcomeStateVerifiedSuccess"
    "cu_Credit q = Some c \<Longrightarrow> credit_matches ext q c"
  using assms by (auto simp: ValidateOutcomeCommit_def Let_def split: if_splits)

lemma CommitIngest_ok:
  assumes "ledger_ok ext r"
  shows "ledger_ok ext (snd (CommitIngest ext clock q r))"
proof (cases rule: CommitIngest_cases [of ext clock q r])
  case stored
  let ?rc = "ingest_receipt ext clock q" and ?r = "store_ingest ext q (ingest_receipt ext clock q) r"
  have r: "snd (CommitIngest ext clock q r) = ?r" by (simp add: stored(1))
  have g: "grows r ?r" unfolding grows_def r [symmetric] using CommitIngest_keeps by blast
  have "keys_distinct ?r" using assms by (simp add: ledger_ok_def keys_distinct_def distinct_update distinct_fold_insert)
  moreover have "receipt_ok ?r v" if "map_of (lg_receipts ?r) k = Some v" for k v
  proof (cases "k = tenantKey (ci_TenantID q) (ci_IdempotencyKeyHash q)")
    case True
    then have "v = ?rc" using that by (simp add: update_conv')
    then show ?thesis by (simp add: receipt_ok_def ingest_receipt_def update_conv')
  next
    case False
    then have "map_of (lg_receipts r) k = Some v" using that by (simp add: update_conv')
    then show ?thesis using grows_ok(1) [OF g] assms unfolding ledger_ok_def by blast
  qed
  ultimately show ?thesis using assms grows_ok(2-4) [OF g] unfolding r ledger_ok_def by simp
qed (simp add: assms)

lemma CommitOutcome_ok:
  assumes "ledger_ok ext r"
  shows "ledger_ok ext (snd (CommitOutcome ext clock q r))"
proof (cases rule: CommitOutcome_cases [of ext clock q r])
  case stored
  let ?rc = "outcome_receipt ext clock q" and ?r = "store_outcome ext q (outcome_receipt ext clock q) r" and ?t = "cu_TenantID q"
  have r: "snd (CommitOutcome ext clock q r) = ?r" by (simp add: stored(1))
  have g: "grows r ?r" unfolding grows_def r [symmetric] using CommitOutcome_keeps by blast
  note v = ValidateOutcomeCommit_parts [OF stored(2)]
  have "keys_distinct ?r" using assms by (simp add: ledger_ok_def keys_distinct_def distinct_update distinct_fold_insert)
  moreover have "outcome_receipt_ok ?r w" if "map_of (lg_outcomeReceipts ?r) k = Some w" for k w
  proof (cases "k = tenantKey ?t (cu_IdempotencyKeyHash q)")
    case True
    then have "w = ?rc" using that by (simp add: update_conv')
    then show ?thesis using stored(4) v(4) by (simp add: outcome_receipt_ok_def outcome_receipt_def update_conv' Let_def)
  next
    case False
    then have "map_of (lg_outcomeReceipts r) k = Some w" using that by (simp add: update_conv')
    then show ?thesis using grows_ok(2) [OF g] assms unfolding ledger_ok_def by blast
  qed
  moreover have "outcome_ok ext ?r k w" if "map_of (lg_outcomes ?r) k = Some w" for k w
  proof (cases "k = tenantKey ?t (co_ID (cu_Outcome q))")
    case True
    then have w: "w = cu_Outcome q" using that by (simp add: update_conv')
    have "map_of (lg_outcomes r) (tenantKey ?t (co_SupersedesOutcomeID w)) \<noteq> None" if "co_SupersedesOutcomeID w \<noteq> []"
      using stored(5) that unfolding supersession_invalid_def w by (auto split: option.splits)
    then show ?thesis using stored(4) v(1-3) grows_dom(2) [OF g] unfolding outcome_ok_def True w v(1) by (auto simp: set_fold_insert)
  next
    case False
    then have "map_of (lg_outcomes r) k = Some w" using that by (simp add: update_conv')
    then show ?thesis using grows_ok(3) [OF g] assms unfolding ledger_ok_def by blast
  qed
  moreover have "claim_ok ext ?r k w" if "map_of (lg_creditClaims ?r) k = Some w" for k w
  proof (cases "\<exists>c. cu_Credit q = Some c \<and> k = tenantKey ?t (cr_InjectionID c)")
    case True
    then obtain c where c: "cu_Credit q = Some c" "k = tenantKey ?t (cr_InjectionID c)" by blast
    then have "w = co_ID (cu_Outcome q)" using that by (simp add: update_conv')
    then show ?thesis using c v(5) [OF c(1)] unfolding claim_ok_def credit_matches_def by (auto simp: update_conv')
  next
    case False
    then have "map_of (lg_creditClaims r) k = Some w" using that by (auto simp: update_conv' split: option.splits if_splits)
    then show ?thesis using grows_ok(4) [OF g] assms unfolding ledger_ok_def by blast
  qed
  moreover have "receipt_ok ?r w" if "map_of (lg_receipts ?r) k = Some w" for k w using that grows_ok(1) [OF g] assms unfolding ledger_ok_def by simp
  ultimately show ?thesis unfolding r ledger_ok_def by blast
qed (simp add: assms)

section \<open>Properties\<close>


text \<open>C29: an injected plan is credited to one outcome. After an outcome with credit was accepted, whatever
  is committed in between, an outcome with credit for the same injection of the same tenant is
  accepted only if it is the same outcome.\<close>

theorem credit_claimed_once:
  assumes "CommitOutcome ext clock q r = (Inr receipt, r')" "or_Disposition receipt = DispositionAccepted" "cu_Credit q = Some c"
    and "later = run_calls (ledger_step ext) calls r'"
    and "CommitOutcome ext now q2 later = (Inr receipt2, r2)" "or_Disposition receipt2 = DispositionAccepted" "cu_Credit q2 = Some c2"
    and "cu_TenantID q2 = cu_TenantID q" "cr_InjectionID c2 = cr_InjectionID c"
  shows "or_OutcomeID receipt2 = or_OutcomeID receipt \<and> co_ID (cu_Outcome q2) = co_ID (cu_Outcome q)"
proof -
  have new: "ledger_holds (Claim_at (tenantKey (cu_TenantID q) (cr_InjectionID c)) (co_ID (cu_Outcome q))) (store_outcome ext q rc r)" if "cu_Credit q = Some c" for q c rc r
    using that by (simp add: update_conv')
  have one: "receipt = outcome_receipt ext clock q" "r' = store_outcome ext q receipt r"
    using assms(1,2) by (auto simp: CommitOutcome_def Let_def split: if_splits option.splits)
  have two: "receipt2 = outcome_receipt ext now q2" "\<not> credit_claimed q2 later"
    using assms(5,6) by (auto simp: CommitOutcome_def Let_def split: if_splits option.splits)
  have "ledger_holds (Claim_at (tenantKey (cu_TenantID q) (cr_InjectionID c)) (co_ID (cu_Outcome q))) later"
    unfolding assms(4) using new [OF assms(3)] unfolding one(2) by (rule ledger.run_keeps) simp
  then have "co_ID (cu_Outcome q2) = co_ID (cu_Outcome q)" using two(2) assms(7-9) by (simp add: credit_claimed_def)
  then show ?thesis using one(1) two(1) by (simp add: outcome_receipt_def Let_def)
qed

definition sample_fact :: OutcomeEvidence where
  "sample_fact =
     (let f = \<lparr>oe_ID = [], oe_ClientEvidenceID = ''c'', oe_Class = EvidenceClassGoalPredicate, oe_Verdict = EvidenceVerdictSatisfied,
            oe_PredicateID = ''p'', oe_VerifierID = ''v'', oe_VerifierVersion = [], oe_ObservedAt = ''d'', oe_Fields = []\<rparr>
      in f\<lparr>oe_ID := ''oe_'' @ hash_bytes sample_externals (sample_print (json_evidenceIdentity ''t'' ''tr'' f))\<rparr>)"

definition sample_outcome :: CanonicalOutcome where
  "sample_outcome =
     (let c = \<lparr>co_SchemaVersion = outcomeSchemaVersion, co_ID = [], co_TenantID = ''t'', co_TraceID = ''tr'', co_ExecutionID = [], co_SelectionID = [],
            co_InjectionID = ''i'', co_TaskExecutionID = ''x'', co_SupersedesOutcomeID = [], co_CorrectionReason = [], co_Evidence = [sample_fact],
            co_Hash = [], co_CanonicalJSON = []\<rparr>;
          c = c\<lparr>co_ID := ''out_'' @ hash_bytes sample_externals (sample_print (json_outcomeIdentity c))\<rparr>;
          json = sample_print (json_outcome c)
      in c\<lparr>co_Hash := hash_bytes sample_externals json, co_CanonicalJSON := json\<rparr>)"

definition sample_credit_value :: CreditRecord where
  "sample_credit_value =
     \<lparr>cr_SchemaVersion = ''outcome-credit.v1'', cr_ID = [], cr_TenantID = ''t'', cr_OutcomeID = co_ID sample_outcome, cr_InjectionID = ''i'', cr_TaskExecutionID = ''x'',
      cr_ProcedureVersionID = [], cr_Class = Unattributable, cr_RuleManifestID = ''m'', cr_SelectionHash = hash_bytes sample_externals [],
      cr_ReasonCodes = [], cr_CreatedAt = \<lparr>t_ns = 1, t_zone = 0\<rparr>, cr_ExpiresAt = \<lparr>t_ns = 2, t_zone = 0\<rparr>, cr_ContentHash = [], cr_CanonicalJSON = []\<rparr>"

definition sample_credit :: CreditRecord where
  "sample_credit =
     (let v = sample_credit_value\<lparr>cr_ID := ''ocred_'' @ hash_bytes sample_externals (''t'' @ NUL @ co_ID sample_outcome)\<rparr>; json = sample_print (json_credit v)
      in v\<lparr>cr_ContentHash := hash_bytes sample_externals json, cr_CanonicalJSON := json\<rparr>)"

definition sample_commit :: "string \<Rightarrow> CommitOutcomeRequest" where
  "sample_commit key =
     \<lparr>cu_TenantID = ''t'', cu_IdempotencyKeyHash = key, cu_Outcome = sample_outcome,
      cu_Evaluation = \<lparr>vr_State = OutcomeStateInconclusive, vr_PromotionEligible = False, vr_PolicyVersion = ''v'', vr_StrongestSatisfied = [],
        vr_StrongestFailed = [], vr_ConflictPredicates = [], vr_MissingPredicates = [], vr_Reasons = []\<rparr>,
      cu_Credit = Some sample_credit\<rparr>"

definition sample_ledger :: IngestRepository where
  "sample_ledger = NewIngestRepository\<lparr>lg_traces := [(tenantKey ''t'' ''tr'', ''h'')]\<rparr>"

lemma sample_outcome_fields:
  "co_TenantID sample_outcome = ''t''" "co_TraceID sample_outcome = ''tr''" "co_SelectionID sample_outcome = []" "co_InjectionID sample_outcome = ''i''"
  "co_TaskExecutionID sample_outcome = ''x''" "co_SupersedesOutcomeID sample_outcome = []" "co_Evidence sample_outcome = [sample_fact]"
  "co_Hash sample_outcome \<noteq> []" "\<exists>h. co_ID sample_outcome = ''out_'' @ h"
  using hashPattern_nonempty [OF hashPattern_hash_bytes [OF digest32_sample]] by (simp_all add: sample_outcome_def Let_def)

lemma sample_outcome_canonical: "VerifyCanonical sample_externals sample_outcome"
proof -
  have fact: "derives sample_externals ''oe_'' (json_evidenceIdentity ''t'' ''tr'' (sample_fact\<lparr>oe_ID := []\<rparr>)) (oe_ID sample_fact)"
    by (simp add: derives_def sample_fact_def MarshalAndHash_sample Let_def)
  then show ?thesis
    unfolding VerifyCanonical_def by (simp add: sample_outcome_def derives_def MarshalAndHash_sample json_outcomeIdentity_def Let_def)
qed

lemma sample_credit_valid: "credit_newRecord sample_externals sample_credit_value = Inr sample_credit"
  using sample_outcome_fields(9) hashPattern_hash_bytes [OF digest32_sample]
  by (auto simp: credit_newRecord_def sample_credit_def sample_credit_value_def MarshalAndHash_sample validClass_def time_defs Let_def)

lemma sample_commit_valid: "hashPattern key \<Longrightarrow> ValidateOutcomeCommit sample_externals (sample_commit key)"
proof -
  have "sample_credit\<lparr>cr_ID := [], cr_ContentHash := [], cr_CanonicalJSON := []\<rparr> = sample_credit_value"
    by (simp add: sample_credit_def sample_credit_value_def Let_def)
  then have "credit_Validate sample_externals sample_credit" using sample_credit_valid by (simp add: credit_Validate_def)
  then have credit: "credit_matches sample_externals (sample_commit key) sample_credit"
    by (simp add: credit_matches_def sample_commit_def sample_credit_def sample_credit_value_def sample_outcome_fields Let_def)
  assume "hashPattern key"
  then show ?thesis using credit sample_outcome_canonical sample_outcome_fields
    unfolding ValidateOutcomeCommit_def by (auto simp: sample_commit_def Let_def)
qed

lemma sample_commit_accepted:
  assumes "hashPattern key" "map_of (lg_outcomeReceipts r) (tenantKey ''t'' key) = None" "map_of (lg_traces r) (tenantKey ''t'' ''tr'') \<noteq> None"
    and "\<not> credit_claimed (sample_commit key) r" "map_of (lg_outcomes r) (tenantKey ''t'' (co_ID sample_outcome)) \<in> {None, Some sample_outcome}"
  shows "CommitOutcome sample_externals clock (sample_commit key) r =
    (Inr (outcome_receipt sample_externals clock (sample_commit key)), store_outcome sample_externals (sample_commit key) (outcome_receipt sample_externals clock (sample_commit key)) r)"
  using assms sample_commit_valid [OF assms(1)] by (auto simp: CommitOutcome_def sample_commit_def supersession_invalid_def sample_outcome_fields Let_def)

theorem credit_claimed_once_witness:
  "\<exists>receipt r receipt2. CommitOutcome sample_externals zero_time (sample_commit (hash_bytes sample_externals ''a'')) sample_ledger = (Inr receipt, r) \<and>
     fst (CommitOutcome sample_externals zero_time (sample_commit (hash_bytes sample_externals ''b'')) r) = Inr receipt2 \<and>
     or_OutcomeID receipt2 = or_OutcomeID receipt"
proof -
  let ?a = "hash_bytes sample_externals ''a''" and ?b = "hash_bytes sample_externals ''b''"
  let ?r = "store_outcome sample_externals (sample_commit ?a) (outcome_receipt sample_externals zero_time (sample_commit ?a)) sample_ledger"
  have h: "hashPattern ?a" "hashPattern ?b" by (rule hashPattern_hash_bytes [OF digest32_sample])+
  have ne: "?a \<noteq> ?b" by code_simp
  have one: "CommitOutcome sample_externals zero_time (sample_commit ?a) sample_ledger = (Inr (outcome_receipt sample_externals zero_time (sample_commit ?a)), ?r)"
    by (rule sample_commit_accepted [OF h(1)]) (simp_all add: sample_ledger_def NewIngestRepository_def newIngestRepository_def credit_claimed_def sample_commit_def)
  have two: "CommitOutcome sample_externals zero_time (sample_commit ?b) ?r =
      (Inr (outcome_receipt sample_externals zero_time (sample_commit ?b)),
       store_outcome sample_externals (sample_commit ?b) (outcome_receipt sample_externals zero_time (sample_commit ?b)) ?r)"
    using ne by (intro sample_commit_accepted [OF h(2)])
      (simp_all add: sample_ledger_def NewIngestRepository_def newIngestRepository_def credit_claimed_def sample_commit_def tenantKey_def)
  have acc: "or_Disposition (outcome_receipt sample_externals zero_time (sample_commit k)) = DispositionAccepted" for k
    by (simp add: outcome_receipt_def Let_def)
  have credit: "cu_Credit (sample_commit k) = Some sample_credit" "cu_TenantID (sample_commit k) = ''t''" for k by (simp_all add: sample_commit_def)
  have run: "?r = run_calls (ledger_step sample_externals) [] ?r" by (simp add: run_calls_def)
  from credit_claimed_once [OF one acc credit(1) run two acc credit(1) _ refl] one two credit(2) show ?thesis by simp
qed

text \<open>An accepted trace can be resubmitted safely and never changes. Whatever is committed in between, a
  request of the same tenant with the same idempotency key gets the stored receipt as a duplicate,
  or a conflict if its content differs; one for the same trace with other content is never accepted;
  neither changes the ledger, and the content of the trace stays as it was.\<close>

theorem ingest_retry_safe:
  assumes "CommitIngest ext clock q r = (Inr receipt, r')" "ir_Disposition receipt = DispositionAccepted"
    and "later = run_calls (ledger_step ext) calls r'" "ValidateIngestCommit ext other" "ci_TenantID other = ci_TenantID q"
  shows "(ci_IdempotencyKeyHash other = ci_IdempotencyKeyHash q \<longrightarrow> CommitIngest ext now other later =
      (if cb_Hash (ci_Batch other) = cb_Hash (ci_Batch q) then Inr (receipt\<lparr>ir_Disposition := DispositionDuplicate\<rparr>) else Inl ErrIdempotencyConflict, later)) \<and>
    (ct_ID (cb_Trace (ci_Batch other)) = ct_ID (cb_Trace (ci_Batch q)) \<and> cb_Hash (ci_Batch other) \<noteq> cb_Hash (ci_Batch q) \<longrightarrow>
      snd (CommitIngest ext now other later) = later \<and> (\<forall>rc. fst (CommitIngest ext now other later) = Inr rc \<longrightarrow> ir_Disposition rc = DispositionDuplicate)) \<and>
    map_of (lg_traces later) (tenantKey (ci_TenantID q) (ct_ID (cb_Trace (ci_Batch q)))) = Some (cb_Hash (ci_Batch q))"
proof -
  have new: "receipt = ingest_receipt ext clock q" "r' = store_ingest ext q receipt r"
    using assms(1,2) by (auto simp: CommitIngest_def Let_def split: if_splits option.splits)
  have "ledger_holds (Receipt_at (tenantKey (ci_TenantID q) (ci_IdempotencyKeyHash q)) receipt) r'"
    "ledger_holds (Trace_at (tenantKey (ci_TenantID q) (ct_ID (cb_Trace (ci_Batch q)))) (cb_Hash (ci_Batch q))) r'"
    unfolding new(2) by (simp_all add: update_conv')
  then have later: "ledger_holds (Receipt_at (tenantKey (ci_TenantID q) (ci_IdempotencyKeyHash q)) receipt) later"
    "ledger_holds (Trace_at (tenantKey (ci_TenantID q) (ct_ID (cb_Trace (ci_Batch q)))) (cb_Hash (ci_Batch q))) later"
    unfolding assms(3) by (blast intro: ledger.run_keeps)+
  have h: "ir_ContentHash receipt = cb_Hash (ci_Batch q)" by (simp add: new(1) ingest_receipt_def)
  show ?thesis
  proof (intro conjI impI)
    assume "ci_IdempotencyKeyHash other = ci_IdempotencyKeyHash q"
    then show "CommitIngest ext now other later = (if cb_Hash (ci_Batch other) = cb_Hash (ci_Batch q) then Inr (receipt\<lparr>ir_Disposition := DispositionDuplicate\<rparr>) else Inl ErrIdempotencyConflict, later)"
      using later(1) assms(4,5) by (simp add: CommitIngest_def h)
  qed (use later(2) assms(4,5) in \<open>auto simp: CommitIngest_def split: option.splits\<close>)
qed

definition sample_ingest :: "string \<Rightarrow> CommitIngestRequest" where
  "sample_ingest json =
     (let h = hash_bytes sample_externals json; x = hash_bytes sample_externals [] in
     \<lparr>ci_TenantID = ''t'', ci_IdempotencyKeyHash = x,
      ci_Batch = \<lparr>cb_SchemaVersion = ''v1'', cb_TenantID = ''t'',
        cb_Trace = \<lparr>ct_ID = ''tr_'' @ x, ct_ClientTraceID = [], ct_Harness = [], ct_HarnessVersion = [], ct_Task = [], ct_Environment = []\<rparr>,
        cb_Events = [\<lparr>CanonicalEvent.ce_ID = ''ev_'' @ x, ce_Position = 0, ce_ClientEventID = [], ce_OccurredAt = [], ce_Kind = [], ce_ToolName = [], ce_ToolVersion = [],
          ce_Fields = [], ce_Result = None\<rparr>], cb_Hash = h, cb_CanonicalJSON = json\<rparr>,
      ci_Archive = \<lparr>ao_Key = ''canonical/'' @ hex_EncodeToString (take 8 (sha256_Sum256 sample_externals ''t'')) @ ''/v1/'' @ h @ ''.json'',
        ao_Hash = h, ao_Size = int (length json), ao_Reused = False\<rparr>\<rparr>)"

lemma sample_ingest_valid:
  assumes "json \<noteq> []"
  shows "ValidateIngestCommit sample_externals (sample_ingest json)"
proof -
  have "TrimSpace ''t'' = ''t''" by code_simp
  moreover have "hashPattern (hash_bytes sample_externals s)" for s by (rule hashPattern_hash_bytes [OF digest32_sample])
  moreover have "schemaVersionPattern ''v1''" by (simp add: schemaVersionPattern_def is_schema_char_def is_alnum_char_def is_digit_char_def)
  ultimately show ?thesis using assms
    by (simp add: ValidateIngestCommit_def sample_ingest_def KeyFor_def validDerivedID_def TrimPrefix_def Let_def)
qed

theorem ingest_retry_safe_witness:
  "\<exists>receipt r. CommitIngest sample_externals zero_time (sample_ingest ''j'') NewIngestRepository = (Inr receipt, r) \<and>
     CommitIngest sample_externals zero_time (sample_ingest ''j'') r = (Inr (receipt\<lparr>ir_Disposition := DispositionDuplicate\<rparr>), r)"
proof -
  let ?q = "sample_ingest ''j''"
  let ?rc = "ingest_receipt sample_externals zero_time ?q"
  have v: "ValidateIngestCommit sample_externals ?q" by (rule sample_ingest_valid) simp
  then have one: "CommitIngest sample_externals zero_time ?q NewIngestRepository = (Inr ?rc, store_ingest sample_externals ?q ?rc NewIngestRepository)"
    by (simp add: CommitIngest_def NewIngestRepository_def newIngestRepository_def Let_def)
  have acc: "ir_Disposition ?rc = DispositionAccepted" by (simp add: ingest_receipt_def)
  have run: "store_ingest sample_externals ?q ?rc NewIngestRepository =
      run_calls (ledger_step sample_externals) [] (store_ingest sample_externals ?q ?rc NewIngestRepository)" by (simp add: run_calls_def)
  from ingest_retry_safe [OF one acc run v refl, of zero_time] one show ?thesis by simp
qed

end
