(* ===== verification/Selection_Commit.thy ===== *)
theory Selection_Commit
  imports Selection Append_Only
begin

text \<open>
  Commits of selections are safe to retry: what a commit stored is what every later retry and every
  lookup returns until it expires, whatever else is committed in between.
\<close>

section \<open>Records validate\<close>

lemma validateDraftFields_seal: "validateDraftFields ext (d\<lparr>sd_ContentHash := y, sd_CanonicalJSON := z\<rparr>) = validateDraftFields ext d"
proof -
  let ?v = "d\<lparr>sd_ContentHash := y, sd_CanonicalJSON := z\<rparr>"
  have f: "sd_TenantID ?v = sd_TenantID d" "sd_QueryHash ?v = sd_QueryHash d" "sd_RequestContextHash ?v = sd_RequestContextHash d" "sd_RetrievalRunID ?v = sd_RetrievalRunID d"
    "sd_ProjectionEpoch ?v = sd_ProjectionEpoch d" "sd_DocumentSetHash ?v = sd_DocumentSetHash d" "sd_ServingConfigID ?v = sd_ServingConfigID d" "sd_PolicyManifestID ?v = sd_PolicyManifestID d"
    "sd_RankerManifestID ?v = sd_RankerManifestID d" "sd_PlannerManifestID ?v = sd_PlannerManifestID d" "sd_LifecyclePolicyManifestID ?v = sd_LifecyclePolicyManifestID d" "sd_ExperimentManifestID ?v = sd_ExperimentManifestID d"
    "sd_ExperimentAssignmentID ?v = sd_ExperimentAssignmentID d" "sd_NoveltyClass ?v = sd_NoveltyClass d" "sd_Plan ?v = sd_Plan d" "sd_ParallelSchedule ?v = sd_ParallelSchedule d"
    by simp_all
  show ?thesis unfolding validateDraftFields_def f ..
qed

lemma NewDraft_rebuild:
  assumes "ValidateDraft ext d"
  shows "NewDraft ext (d\<lparr>sd_ContentHash := [], sd_CanonicalJSON := []\<rparr>) = Inr d"
proof -
  let ?v = "d\<lparr>sd_ContentHash := [], sd_CanonicalJSON := []\<rparr>"
  have d: "?v\<lparr>sd_SchemaVersion := ''selection-draft.v1'', sd_ContentHash := [], sd_CanonicalJSON := []\<rparr> = ?v"
    using assms by (cases d) (simp add: ValidateDraft_def)
  have "validateDraftFields ext ?v" unfolding validateDraftFields_seal using assms by (simp add: ValidateDraft_def)
  moreover have "MarshalAndHash ext (json_draft ?v) = Inr (sd_CanonicalJSON d, sd_ContentHash d)" using assms unfolding ValidateDraft_def by blast
  moreover have "?v\<lparr>sd_ContentHash := sd_ContentHash d, sd_CanonicalJSON := sd_CanonicalJSON d\<rparr> = d" by simp
  ultimately show ?thesis unfolding NewDraft_def Let_def d by simp
qed

lemma draft_of_record: "sd_SchemaVersion d = ''selection-draft.v1'' \<Longrightarrow> draft_of (record_of ext d k t u) = d\<lparr>sd_ContentHash := [], sd_CanonicalJSON := []\<rparr>"
  by (cases d) (simp add: draft_of_def record_of_def)

lemma NewRecord_Inr:
  assumes "NewRecord ext d k created expires = Inr rec"
  obtains encoded hash where "ValidateDraft ext d" "hashPattern k" "\<not> time_IsZero created" "time_After expires created"
    "MarshalAndHash ext (json_selection (record_of ext d k created expires)) = Inr (encoded, hash)"
    "rec = (record_of ext d k created expires)\<lparr>sl_ContentHash := hash, sl_CanonicalJSON := encoded\<rparr>"
  using assms by (auto simp: NewRecord_def Let_def split: if_splits sum.splits prod.splits)

lemma NewRecord_fields:
  assumes "NewRecord ext d k created expires = Inr rec"
  shows "sl_InjectionID rec = InjectionID ext (sd_TenantID d) k" "sl_IdempotencyIdentityHash rec = k" "sl_TenantID rec = sd_TenantID d"
    "sl_DraftHash rec = sd_ContentHash d" "sl_ExpiresAt rec = expires" "sl_RetrievalRunID rec = sd_RetrievalRunID d"
  by (rule NewRecord_Inr [OF assms], simp add: record_of_def)+

text \<open>A record validates if its encoding is within the bound that the validation checks.\<close>

lemma NewRecord_validates:
  assumes "digest32 ext" "NewRecord ext d k created expires = Inr rec" "sl_CanonicalJSON rec \<noteq> []" "length (sl_CanonicalJSON rec) \<le> 16777216"
  shows "ValidateRecord ext rec"
proof -
  let ?r = "record_of ext d k created expires"
  obtain encoded hash where r: "ValidateDraft ext d" "hashPattern k" "\<not> time_IsZero created" "time_After expires created"
    "MarshalAndHash ext (json_selection ?r) = Inr (encoded, hash)" "rec = ?r\<lparr>sl_ContentHash := hash, sl_CanonicalJSON := encoded\<rparr>"
    using assms(2) by (rule NewRecord_Inr)
  have s: "rec\<lparr>sl_ContentHash := [], sl_CanonicalJSON := []\<rparr> = ?r" unfolding r(6) by (simp add: record_of_def)
  have d: "sd_SchemaVersion d = ''selection-draft.v1''" "hashPattern (sd_ContentHash d)" using r(1) by (simp_all add: ValidateDraft_def)
  have "draft_of rec = draft_of ?r" unfolding r(6) by (simp add: draft_of_def)
  then have n: "NewDraft ext (draft_of rec) = Inr d" by (simp only: draft_of_record [OF d(1)] NewDraft_rebuild [OF r(1)])
  have f: "sl_SchemaVersion rec = ''selection-record.v1''" "sl_CreatedAt rec = created" "sl_ContentHash rec = hash" "sl_CanonicalJSON rec = encoded"
    unfolding r(6) by (simp_all add: record_of_def)
  have "hashPattern hash" using MarshalAndHash_pattern [OF assms(1) r(5)] .
  then show ?thesis unfolding ValidateRecord_def s n NewRecord_fields [OF assms(2)] f using r(2-5) d(2) assms(3,4)
    by (simp add: f time_Equal_def time_UTC_def)
qed

lemma ValidateRecord_tenant: "ValidateRecord ext r \<Longrightarrow> sl_TenantID r \<noteq> []"
  by (auto simp: ValidateRecord_def NewDraft_def validateDraftFields_def bounded_def draft_of_def Let_def split: if_splits sum.splits)

section \<open>The repository\<close>

text \<open>The record \<open>rec\<close> is stored under its idempotency identity, its injection and its retrieval run.\<close>

definition stored :: "SelectionRecord \<Rightarrow> SelectionRepository \<Rightarrow> bool" where
  "stored rec r \<longleftrightarrow>
     map_of (sp_byIdempotency r) (sl_TenantID rec, sl_IdempotencyIdentityHash rec) = Some rec \<and>
     map_of (sp_byInjection r) (sl_TenantID rec, sl_InjectionID rec) = Some rec \<and>
     map_of (sp_byRun r) (sl_TenantID rec, sl_RetrievalRunID rec) = Some rec"

text \<open>A call whose injection identifier is that of \<open>rec\<close> has its idempotency identity: no collision of the digest.\<close>

definition no_collision :: "externals \<Rightarrow> SelectionRecord \<Rightarrow> time \<times> CommitRequest \<Rightarrow> bool" where
  "no_collision ext rec call \<longleftrightarrow>
     (cq_TenantID (snd call) = sl_TenantID rec \<and> InjectionID ext (sl_TenantID rec) (cq_IdempotencyIdentityHash (snd call)) = sl_InjectionID rec \<longrightarrow>
       cq_IdempotencyIdentityHash (snd call) = sl_IdempotencyIdentityHash rec)"

lemma CommitSelection_new:
  assumes "CommitSelection ext clock q r = (Inr \<lparr>rc_Record = rec, rc_Disposition = SelectionCommitted\<rparr>, r')"
  shows "ValidateCommitRequest ext q" "stored rec r'" "NewRecord ext (cq_Draft q) (cq_IdempotencyIdentityHash q) (time_UTC clock) (time_Add (time_UTC clock) (sp_TTL r)) = Inr rec"
proof -
  show v: "ValidateCommitRequest ext q" using assms by (auto simp: CommitSelection_def split: if_splits)
  show n: "NewRecord ext (cq_Draft q) (cq_IdempotencyIdentityHash q) (time_UTC clock) (time_Add (time_UTC clock) (sp_TTL r)) = Inr rec"
    using assms by (auto simp: CommitSelection_def Let_def split: if_splits option.splits sum.splits)
  have t: "cq_TenantID q = sd_TenantID (cq_Draft q)" using v by (simp add: ValidateCommitRequest_def)
  have "r' = r\<lparr>sp_byIdempotency := AList.update (cq_TenantID q, cq_IdempotencyIdentityHash q) rec (sp_byIdempotency r),
      sp_byInjection := AList.update (cq_TenantID q, sl_InjectionID rec) rec (sp_byInjection r),
      sp_byRun := AList.update (cq_TenantID q, sd_RetrievalRunID (cq_Draft q)) rec (sp_byRun r)\<rparr>"
    using assms by (auto simp: CommitSelection_def Let_def split: if_splits option.splits sum.splits)
  then show "stored rec r'" by (simp add: stored_def NewRecord_fields [OF n] t update_conv')
qed

lemma CommitSelection_keeps:
  assumes "stored rec r" "no_collision ext rec (clock, q)"
  shows "stored rec (snd (CommitSelection ext clock q r))"
proof (cases "snd (CommitSelection ext clock q r) = r")
  case False
  then obtain new where new: "map_of (sp_byIdempotency r) (cq_TenantID q, cq_IdempotencyIdentityHash q) = None"
    "map_of (sp_byRun r) (cq_TenantID q, sd_RetrievalRunID (cq_Draft q)) = None" "ValidateCommitRequest ext q"
    "NewRecord ext (cq_Draft q) (cq_IdempotencyIdentityHash q) (time_UTC clock) (time_Add (time_UTC clock) (sp_TTL r)) = Inr new"
    "snd (CommitSelection ext clock q r) = r\<lparr>sp_byIdempotency := AList.update (cq_TenantID q, cq_IdempotencyIdentityHash q) new (sp_byIdempotency r),
      sp_byInjection := AList.update (cq_TenantID q, sl_InjectionID new) new (sp_byInjection r),
      sp_byRun := AList.update (cq_TenantID q, sd_RetrievalRunID (cq_Draft q)) new (sp_byRun r)\<rparr>"
    by (auto simp: CommitSelection_def Let_def split: if_splits option.splits sum.splits)
  have t: "sd_TenantID (cq_Draft q) = cq_TenantID q" using new(3) by (simp add: ValidateCommitRequest_def)
  have "(sl_TenantID rec, sl_IdempotencyIdentityHash rec) \<noteq> (cq_TenantID q, cq_IdempotencyIdentityHash q)"
    "(sl_TenantID rec, sl_RetrievalRunID rec) \<noteq> (cq_TenantID q, sd_RetrievalRunID (cq_Draft q))"
    using assms(1) new(1,2) unfolding stored_def by auto
  moreover from this(1) have "(sl_TenantID rec, sl_InjectionID rec) \<noteq> (cq_TenantID q, sl_InjectionID new)"
    using assms(2) unfolding no_collision_def NewRecord_fields [OF new(4)] t by auto
  ultimately show ?thesis using assms(1) unfolding new(5) stored_def by (auto simp: update_conv')
qed (simp add: assms(1))

interpretation selection_store: append_only "\<lambda>call. CommitSelection ext (fst call) (snd call)" stored "no_collision ext" for ext
  by unfold_locales (simp add: CommitSelection_keeps)

section \<open>Properties\<close>

text \<open>C32: a committed selection can be retried and found again until it expires. After a commit,
  whatever is committed by whom in between, at every instant before the expiry the same request
  returns the record as a duplicate, a request with the same identity and another draft is refused,
  both lookups return the record, and none of them changes the repository; from the expiry on, the
  retry reports the expiry and the lookups find nothing. The encoding is not empty and within the
  bound of 16 MiB, and no request in between has another identity with the same injection identifier.\<close>

theorem selection_retry_safe:
  assumes "digest32 ext" "CommitSelection ext clock q r = (Inr \<lparr>rc_Record = rec, rc_Disposition = SelectionCommitted\<rparr>, r')"
    and "sl_CanonicalJSON rec \<noteq> []" "length (sl_CanonicalJSON rec) \<le> 16777216"
    and "\<forall>call \<in> set calls. no_collision ext rec call" "later = run_calls (\<lambda>call. CommitSelection ext (fst call) (snd call)) calls r'"
    and "ValidateCommitRequest ext other" "cq_TenantID other = cq_TenantID q" "cq_IdempotencyIdentityHash other = cq_IdempotencyIdentityHash q"
    and "expires = time_Add (time_UTC clock) (sp_TTL r)"
  shows "CommitSelection ext now other later =
      (if \<not> time_Before (time_UTC now) expires then Inl ErrSelectionExpired
       else if sd_ContentHash (cq_Draft other) = sd_ContentHash (cq_Draft q) then Inr \<lparr>rc_Record = rec, rc_Disposition = SelectionDuplicate\<rparr>
       else Inl ErrSelectionIdempotencyConflict, later) \<and>
    FindByInjectionID ext now (cq_TenantID q) (sl_InjectionID rec) later =
      (if time_Before (time_UTC now) expires then Inr rec else Inl ErrSelectionNotFound) \<and>
    FindByRetrievalRunID ext now (cq_TenantID q) (sd_RetrievalRunID (cq_Draft q)) later =
      (if time_Before (time_UTC now) expires then Inr rec else Inl ErrSelectionNotFound)"
proof -
  note new = CommitSelection_new [OF assms(2)]
  note rec = NewRecord_fields [OF new(3), folded assms(10)]
  have s: "stored rec later" using selection_store.run_keeps [OF new(2) assms(5)] assms(6) by simp
  have valid: "ValidateRecord ext rec" using assms(1) new(3) assms(3,4) by (rule NewRecord_validates)
  have t: "sd_TenantID (cq_Draft q) = cq_TenantID q" "cq_TenantID q \<noteq> []" "ValidateDraft ext (cq_Draft q)"
    using new(1) unfolding ValidateCommitRequest_def by blast+
  have run: "sd_RetrievalRunID (cq_Draft q) \<noteq> []" using t(3) unfolding ValidateDraft_def validateDraftFields_def bounded_def by blast
  have inj: "sl_InjectionID rec \<noteq> []" unfolding rec InjectionID_def by simp
  note at = s [unfolded stored_def rec t(1)]
  show ?thesis
  proof (intro conjI)
    show "FindByInjectionID ext now (cq_TenantID q) (sl_InjectionID rec) later = (if time_Before (time_UTC now) expires then Inr rec else Inl ErrSelectionNotFound)"
      using at inj t(2) valid unfolding FindByInjectionID_def rec t(1) by (simp add: rec)
    show "FindByRetrievalRunID ext now (cq_TenantID q) (sd_RetrievalRunID (cq_Draft q)) later = (if time_Before (time_UTC now) expires then Inr rec else Inl ErrSelectionNotFound)"
      using at run t(2) valid unfolding FindByRetrievalRunID_def by (simp add: rec)
  qed (use at assms(7) in \<open>simp add: CommitSelection_def assms(8,9) rec Let_def\<close>)
qed

definition selection_plan :: Plan where
  "selection_plan =
     (let h = hash_bytes sample_externals [];
          p = \<lparr>pl_SchemaVersion = ''composition-plan.v1'', pl_ID = [], pl_TenantID = ''t'', pl_ProjectionEpoch = 1, pl_PlannerManifestID = ''m'',
               pl_PolicyManifestID = ''q'', pl_CompatibilityGraphID = ''cgraph_'' @ h, pl_CompatibilityGraphHash = h, pl_CompatibilityMatrixHash = h,
               pl_CandidateSetHash = h, pl_Nodes = [\<lparr>no_Ordinal = 0, no_VersionID = ''a'', no_InterfaceHash = h, no_Bridge = False\<rparr>],
               pl_Dependencies = [], pl_CompatibilityEdgeIDs = [], pl_ExternallySatisfiedRequirementIDs = [], pl_SatisfiedRequirementIDs = [],
               pl_ProducedResourceIDs = [], pl_CoveredGoalPredicateIDs = [], pl_RequestedGoalPredicateIDs = [''p''], pl_SeedVersionIDs = [''a''],
               pl_Gaps = [\<lparr>ga_VersionID = [], ga_RequirementID = [], ga_GoalPredicateID = ''p'', ga_Code = ''uncovered_goal''\<rparr>],
               pl_LimitCodes = [], pl_Complete = False, pl_EvidenceStrength = 0, pl_AllObservedEndToEnd = False, pl_RiskCost = 0, pl_ToolCost = 1,
               pl_ContentHash = [], pl_CanonicalJSON = []\<rparr>;
          json = sample_print (json_plan p); hash = hash_bytes sample_externals json
      in p\<lparr>pl_ID := ''plan_'' @ hash, pl_ContentHash := hash, pl_CanonicalJSON := json\<rparr>)"

definition selection_draft :: Draft where
  "selection_draft =
     (let h = hash_bytes sample_externals [];
          d = \<lparr>sd_SchemaVersion = ''selection-draft.v1'', sd_TenantID = ''t'', sd_QueryHash = h, sd_RequestContextHash = h, sd_RetrievalRunID = ''r'',
               sd_ProjectionEpoch = 1, sd_DocumentSetHash = h, sd_ServingConfigID = ''c'', sd_PolicyManifestID = ''q'', sd_RankerManifestID = ''k'',
               sd_PlannerManifestID = ''m'', sd_LifecyclePolicyManifestID = ''l'', sd_ExperimentManifestID = [], sd_ExperimentAssignmentID = [],
               sd_NoveltyClass = ''partial'', sd_Plan = selection_plan, sd_ParallelSchedule = None, sd_ContentHash = [], sd_CanonicalJSON = []\<rparr>;
          json = sample_print (json_draft d)
      in d\<lparr>sd_ContentHash := hash_bytes sample_externals json, sd_CanonicalJSON := json\<rparr>)"

definition selection_request :: CommitRequest where
  "selection_request = \<lparr>cq_TenantID = ''t'', cq_IdempotencyIdentityHash = hash_bytes sample_externals [], cq_Draft = selection_draft\<rparr>"

lemma sample_pattern: "hashPattern (hash_bytes sample_externals s)" by (rule hashPattern_hash_bytes [OF digest32_sample])

lemma sample_length: "length (hash_bytes sample_externals s) = 64" using sample_pattern by (simp add: hashPattern_def)

lemma selection_plan_json: "length (sample_print (json_plan selection_plan)) \<le> 5000"
  by (simp add: selection_plan_def Let_def json_plan_def json_node_def json_gap_def omit_str_def omit_strs_def omit_list_def sample_length)

lemma selection_plan_valid: "ValidatePlan sample_externals selection_plan"
  unfolding ValidatePlan_def MarshalAndHash_sample
  by (simp add: selection_plan_def Let_def sample_pattern strictSorted_def gap_shape_def gapKey_def
      safeIdentity_def contains_nul_def)

lemma selection_plan_fields:
  "pl_TenantID selection_plan = ''t''" "pl_ProjectionEpoch selection_plan = 1" "pl_PolicyManifestID selection_plan = ''q''"
  "pl_PlannerManifestID selection_plan = ''m''" "pl_Gaps selection_plan \<noteq> []" "\<not> pl_Complete selection_plan"
  by (simp_all add: selection_plan_def Let_def)

lemma selection_draft_valid: "ValidateDraft sample_externals selection_draft"
proof -
  have "sd_CanonicalJSON selection_draft \<noteq> []" "length (sd_CanonicalJSON selection_draft) \<le> 16777216"
    using selection_plan_json by (simp_all add: selection_draft_def Let_def json_draft_def omit_str_def omit_opt_def sample_length)
  then show ?thesis
    unfolding ValidateDraft_def validateDraftFields_def MarshalAndHash_sample
    using selection_plan_valid selection_plan_fields
    by (simp add: selection_draft_def Let_def sample_pattern bounded_def contains_nul_def validNovelty_def)
qed

definition selection_epoch :: time where "selection_epoch = \<lparr>t_ns = 1, t_zone = 0\<rparr>"

definition empty_repository :: SelectionRepository where
  "empty_repository = \<lparr>sp_TTL = 60000000000, sp_byIdempotency = [], sp_byInjection = [], sp_byRun = []\<rparr>"

lemma selection_committed:
  "\<exists>rec r'. CommitSelection sample_externals selection_epoch selection_request empty_repository =
     (Inr \<lparr>rc_Record = rec, rc_Disposition = SelectionCommitted\<rparr>, r') \<and> sl_CanonicalJSON rec \<noteq> [] \<and> length (sl_CanonicalJSON rec) \<le> 16777216"
proof -
  let ?r = "record_of sample_externals selection_draft (hash_bytes sample_externals []) selection_epoch (time_Add selection_epoch 60000000000)"
  let ?json = "sample_print (json_selection ?r)"
  have u: "time_UTC selection_epoch = selection_epoch" by (simp add: selection_epoch_def time_UTC_def)
  have n: "NewRecord sample_externals selection_draft (hash_bytes sample_externals []) selection_epoch (time_Add selection_epoch 60000000000) =
      Inr (?r\<lparr>sl_ContentHash := hash_bytes sample_externals ?json, sl_CanonicalJSON := ?json\<rparr>)"
    by (simp add: NewRecord_def selection_draft_valid sample_pattern MarshalAndHash_sample Let_def) (simp add: time_defs selection_epoch_def)
  have "ValidateCommitRequest sample_externals selection_request"
    using selection_draft_valid by (simp add: ValidateCommitRequest_def selection_request_def sample_pattern) (simp add: selection_draft_def Let_def)
  then obtain r' where "CommitSelection sample_externals selection_epoch selection_request empty_repository =
      (Inr \<lparr>rc_Record = ?r\<lparr>sl_ContentHash := hash_bytes sample_externals ?json, sl_CanonicalJSON := ?json\<rparr>, rc_Disposition = SelectionCommitted\<rparr>, r')"
    by (simp add: CommitSelection_def selection_request_def empty_repository_def u n Let_def)
  moreover have "?json \<noteq> []" "length ?json \<le> 16777216"
    using selection_plan_json
    by (simp_all add: json_selection_def record_of_def selection_draft_def InjectionID_def Let_def omit_str_def omit_opt_def sample_length)
  ultimately show ?thesis by (intro exI [of _ "?r\<lparr>sl_ContentHash := hash_bytes sample_externals ?json, sl_CanonicalJSON := ?json\<rparr>"] exI [of _ r'] conjI) simp_all
qed

theorem selection_retry_safe_witness:
  "\<exists>rec r'. CommitSelection sample_externals selection_epoch selection_request empty_repository =
      (Inr \<lparr>rc_Record = rec, rc_Disposition = SelectionCommitted\<rparr>, r') \<and>
    FindByInjectionID sample_externals selection_epoch ''t'' (sl_InjectionID rec) r' = Inr rec"
proof -
  obtain rec r' where c: "CommitSelection sample_externals selection_epoch selection_request empty_repository =
      (Inr \<lparr>rc_Record = rec, rc_Disposition = SelectionCommitted\<rparr>, r')" "sl_CanonicalJSON rec \<noteq> []" "length (sl_CanonicalJSON rec) \<le> 16777216"
    using selection_committed by (elim exE conjE) (rule that)
  have "time_Before (time_UTC selection_epoch) (time_Add (time_UTC selection_epoch) (sp_TTL empty_repository))"
    by (simp add: time_defs selection_epoch_def empty_repository_def)
  with selection_retry_safe [OF digest32_sample c, of "[]" r' selection_request _ selection_epoch] CommitSelection_new(1) [OF c(1)]
  have "FindByInjectionID sample_externals selection_epoch ''t'' (sl_InjectionID rec) r' = Inr rec"
    by (simp add: run_calls_def) (simp add: selection_request_def)
  with c(1) show ?thesis by (intro exI conjI)
qed

end
