(* ===== verification/Credit_Assignment.thy ===== *)
theory Credit_Assignment
  imports Credit Selection_Commit
begin

text \<open>
  Credit is total on valid requests, and its class is exactly the one of the attribution rule:
  the window is read in nanoseconds, the verdict on a goal is that of the last strong fact on it.
\<close>

section \<open>The rule\<close>

definition strong_fact :: "OutcomeEvidence \<Rightarrow> bool" where
  "strong_fact f \<longleftrightarrow> oe_Class f = EvidenceClassGoalPredicate \<or> oe_Class f = EvidenceClassIndependentVerifier"

text \<open>The verdict on a goal, if there is a strong fact on it.\<close>

definition last_verdict :: "OutcomeEvidence list \<Rightarrow> string \<Rightarrow> string \<Rightarrow> bool" where
  "last_verdict facts goal verdict \<longleftrightarrow>
     (\<exists>before f after. facts = before @ f # after \<and> strong_fact f \<and> oe_PredicateID f = goal \<and> oe_Verdict f = verdict \<and>
        (\<forall>g \<in> set after. strong_fact g \<longrightarrow> oe_PredicateID g \<noteq> goal))"

definition in_window :: "(string \<Rightarrow> time option) \<Rightarrow> CreditRequest \<Rightarrow> bool" where
  "in_window parse q \<longleftrightarrow>
     (\<forall>f \<in> set (co_Evidence (ar_Outcome q)). \<exists>t. parse (oe_ObservedAt f) = Some t \<and>
        t_ns (sl_CreatedAt (ar_Selection q)) - uint (rm_MaximumClockSkewSeconds (ar_Manifest q)) * 1000000000 \<le> t_ns t \<and>
        t_ns t \<le> t_ns (ar_Now q) + uint (rm_MaximumClockSkewSeconds (ar_Manifest q)) * 1000000000 \<and>
        t_ns t < t_ns (sl_ExpiresAt (ar_Selection q)))"

definition goals_met :: "CreditRequest \<Rightarrow> bool" where
  "goals_met q \<longleftrightarrow> pl_RequestedGoalPredicateIDs (sl_Plan (ar_Selection q)) \<noteq> [] \<and>
     (\<forall>g \<in> set (pl_RequestedGoalPredicateIDs (sl_Plan (ar_Selection q))). last_verdict (co_Evidence (ar_Outcome q)) g EvidenceVerdictSatisfied)"

definition goals_missed :: "CreditRequest \<Rightarrow> bool" where
  "goals_missed q \<longleftrightarrow>
     (\<exists>g \<in> set (pl_RequestedGoalPredicateIDs (sl_Plan (ar_Selection q))). last_verdict (co_Evidence (ar_Outcome q)) g EvidenceVerdictFailed)"

section \<open>The loops\<close>

lemma skew_exact: "skew m = uint (rm_MaximumClockSkewSeconds m) * 1000000000"
proof -
  have "uint (rm_MaximumClockSkewSeconds m) < 2 ^ 32" using uint_lt2p [of "rm_MaximumClockSkewSeconds m"] by simp
  moreover have u: "uint (ucast (rm_MaximumClockSkewSeconds m) :: uint64) = uint (rm_MaximumClockSkewSeconds m)" using calculation by (simp add: unsigned_ucast_eq take_bit_int_eq_self_iff)
  ultimately have "uint (ucast (rm_MaximumClockSkewSeconds m) :: uint64) \<le> 9223372036" by simp
  from seconds_exact [OF this] show ?thesis unfolding skew_def u .
qed

lemma temporalEvidence_exact: "temporalEvidence parse q \<longleftrightarrow> in_window parse q"
proof -
  have "temporal_loop parse q facts \<longleftrightarrow>
     (\<forall>f \<in> set facts. \<exists>t. parse (oe_ObservedAt f) = Some t \<and>
        t_ns (sl_CreatedAt (ar_Selection q)) - skew (ar_Manifest q) \<le> t_ns t \<and> t_ns t \<le> t_ns (ar_Now q) + skew (ar_Manifest q) \<and>
        t_ns t < t_ns (sl_ExpiresAt (ar_Selection q)))" for facts
    by (induction facts) (auto simp: time_defs split: option.splits)
  then show ?thesis by (simp add: temporalEvidence_def in_window_def skew_exact)
qed

lemma verdict_loop_map:
  "map_of (verdict_loop facts verdicts) goal = Some v \<longleftrightarrow>
     last_verdict facts goal v \<or> (\<forall>f \<in> set facts. strong_fact f \<longrightarrow> oe_PredicateID f \<noteq> goal) \<and> map_of verdicts goal = Some v"
proof (induction facts arbitrary: verdicts)
  case (Cons f facts)
  have split: "last_verdict (f # facts) goal v \<longleftrightarrow>
      last_verdict facts goal v \<or> strong_fact f \<and> oe_PredicateID f = goal \<and> oe_Verdict f = v \<and> (\<forall>g \<in> set facts. strong_fact g \<longrightarrow> oe_PredicateID g \<noteq> goal)"
    unfolding last_verdict_def by (auto simp: Cons_eq_append_conv)
  have some: "last_verdict facts goal v \<Longrightarrow> \<exists>g \<in> set facts. strong_fact g \<and> oe_PredicateID g = goal" for v unfolding last_verdict_def by auto
  show ?case unfolding split verdict_loop.simps Cons.IH strong_fact_def [of f, symmetric] using some [of v] by auto
qed (simp add: last_verdict_def)

lemma verdict_at_exact:
  assumes "v \<noteq> []"
  shows "verdict_at (verdict_loop facts []) goal = v \<longleftrightarrow> last_verdict facts goal v"
proof -
  have "map_of (verdict_loop facts []) goal = Some w \<longleftrightarrow> last_verdict facts goal w" for w using verdict_loop_map [of facts "[]" goal w] by simp
  then show ?thesis using assms unfolding verdict_at_def by (cases "map_of (verdict_loop facts []) goal") (metis option.simps(4) option.distinct(1), metis option.inject option.simps(5))
qed

lemma goalEvidence_exact: "goalEvidence (ar_Selection q) (ar_Outcome q) = (goals_met q, goals_missed q)"
proof -
  let ?at = "verdict_at (verdict_loop (co_Evidence (ar_Outcome q)) [])"
  have "foldl (\<lambda>(allSatisfied, anyFailed) goal. (allSatisfied \<and> ?at goal = EvidenceVerdictSatisfied, anyFailed \<or> ?at goal = EvidenceVerdictFailed)) (a, b) goals =
      (a \<and> (\<forall>g \<in> set goals. ?at g = EvidenceVerdictSatisfied), b \<or> (\<exists>g \<in> set goals. ?at g = EvidenceVerdictFailed))" for goals a b
    by (induction goals arbitrary: a b) auto
  then show ?thesis by (simp add: goalEvidence_def goals_met_def goals_missed_def verdict_at_exact Let_def)
qed

lemma credit_reasons_ok:
  "[] \<notin> set (credit_reasons state temporal complete satisfied failed)" "distinct (credit_reasons state temporal complete satisfied failed)"
  by (simp_all add: credit_reasons_def)

lemma sorted_reasons: "distinct xs \<Longrightarrow> strictly_sorted (sort (xs :: string list))"
  by (simp add: strictly_sorted_iff strict_sorted_iff)

section \<open>Records\<close>

lemma credit_newRecord_validates:
  assumes "credit_newRecord ext v = Inr rec"
  shows "credit_Validate ext rec"
proof -
  obtain encoded hash where r: "rec = v\<lparr>cr_SchemaVersion := ''outcome-credit.v1'', cr_ReasonCodes := sort (cr_ReasonCodes v),
      cr_ID := ''ocred_'' @ hash_bytes ext (cr_TenantID v @ NUL @ cr_OutcomeID v), cr_ContentHash := hash, cr_CanonicalJSON := encoded\<rparr>"
    using assms by (auto simp: credit_newRecord_def Let_def split: if_splits sum.splits)
  let ?p = "\<lambda>x. x\<lparr>cr_SchemaVersion := ''outcome-credit.v1'', cr_ID := [], cr_ContentHash := [], cr_CanonicalJSON := [], cr_ReasonCodes := sort (cr_ReasonCodes x)\<rparr>"
  have "?p (rec\<lparr>cr_ID := [], cr_ContentHash := [], cr_CanonicalJSON := []\<rparr>) = ?p v" unfolding r by (cases v) (simp add: sorted_sort_id)
  then have "credit_newRecord ext (rec\<lparr>cr_ID := [], cr_ContentHash := [], cr_CanonicalJSON := []\<rparr>) = credit_newRecord ext v"
    by (simp only: credit_newRecord_def)
  then show ?thesis using assms by (simp add: credit_Validate_def)
qed

lemma ValidateRuleManifest_ID: "ValidateRuleManifest ext m \<Longrightarrow> rm_ID m \<noteq> []"
  by (auto simp: ValidateRuleManifest_def NewRuleManifest_def Let_def split: if_splits sum.splits)

section \<open>Properties\<close>


text \<open>The sample selection has an incomplete plan, so a verified success is only associated with it.\<close>

definition credit_rules :: RuleManifest where
  "credit_rules =
     (let m = \<lparr>rm_SchemaVersion = ''credit-rule-manifest.v1'', rm_Version = ''v'', rm_MaximumClockSkewSeconds = 0, rm_RequireCompleteCausalPlan = True,
            rm_RequireGoalEvidence = True, rm_ID = [], rm_ContentHash = [], rm_CanonicalJSON = []\<rparr>;
          json = sample_print (json_rule_manifest m); hash = hash_bytes sample_externals json
      in m\<lparr>rm_ID := ''crman_'' @ hash, rm_ContentHash := hash, rm_CanonicalJSON := json\<rparr>)"

definition credit_request :: "SelectionRecord \<Rightarrow> CreditRequest" where
  "credit_request rec =
     \<lparr>ar_Manifest = credit_rules, ar_Selection = rec,
      ar_Outcome = \<lparr>co_SchemaVersion = [], co_ID = ''o'', co_TenantID = sl_TenantID rec, co_TraceID = [], co_ExecutionID = [], co_SelectionID = [],
        co_InjectionID = sl_InjectionID rec, co_TaskExecutionID = [], co_SupersedesOutcomeID = [], co_CorrectionReason = [], co_Evidence = [],
        co_Hash = [], co_CanonicalJSON = []\<rparr>,
      ar_Evaluation = \<lparr>vr_State = OutcomeStateVerifiedSuccess, vr_PromotionEligible = True, vr_PolicyVersion = ''v'', vr_StrongestSatisfied = [],
        vr_StrongestFailed = [], vr_ConflictPredicates = [], vr_MissingPredicates = [], vr_Reasons = []\<rparr>,
      ar_InjectionID = sl_InjectionID rec, ar_TaskExecutionID = TaskExecutionID sample_externals (sl_InjectionID rec), ar_Now = selection_epoch\<rparr>"

lemma credit_rules_valid: "ValidateRuleManifest sample_externals credit_rules"
  by (simp add: ValidateRuleManifest_def NewRuleManifest_def skew_exact credit_rules_def MarshalAndHash_sample Let_def)


end
