(* ===== verification/Credentials.thy ===== *)
theory Credentials
  imports Prelude
begin

text \<open>
  \<^verbatim>\<open>internal/security/sensitive.go\<close>: texts that look like credentials. A pattern is matched on bytes: its
  classes that contain characters beyond ASCII contain all of them, so that a text matches in
  bytes exactly when it matches in characters. Ignoring case, \<open>k\<close> also stands for the
  Kelvin sign and \<open>s\<close> for the long s, as in the regular expressions of Go.
\<close>

section \<open>Regular expressions\<close>

datatype regexp =
    One "char \<Rightarrow> bool"
  | Empty
  | Boundary
  | Then regexp regexp
  | Or regexp regexp
  | Star regexp

definition is_word_char :: "char \<Rightarrow> bool" where
  "is_word_char c \<longleftrightarrow> is_alnum_char c \<or> c = CHR ''_''"

definition word_at :: "string \<Rightarrow> nat \<Rightarrow> bool" where
  "word_at s i \<longleftrightarrow> i < length s \<and> is_word_char (s ! i)"

definition boundary_at :: "string \<Rightarrow> nat \<Rightarrow> bool" where
  "boundary_at s i \<longleftrightarrow> (0 < i \<and> word_at s (i - 1)) \<noteq> word_at s i"

text \<open>All positions that are reached in at most \<open>n\<close> rounds.\<close>

fun rounds :: "nat \<Rightarrow> (nat \<Rightarrow> nat list) \<Rightarrow> nat list \<Rightarrow> nat list" where
  "rounds 0 f front = front"
| "rounds (Suc n) f front = (if front = [] then [] else front @ rounds n f (remdups (concat (map f front))))"

text \<open>The positions where a match that begins at \<open>i\<close> can end. A round of an iteration that consumes nothing
  reaches nothing new, so there are never more rounds than characters.\<close>

primrec ends :: "regexp \<Rightarrow> string \<Rightarrow> nat \<Rightarrow> nat list" where
  "ends (One p) s i = (if i < length s \<and> p (s ! i) then [Suc i] else [])"
| "ends Empty s i = [i]"
| "ends Boundary s i = (if boundary_at s i then [i] else [])"
| "ends (Then a b) s i = concat (map (ends b s) (ends a s i))"
| "ends (Or a b) s i = ends a s i @ ends b s i"
| "ends (Star a) s i = rounds (length s) (ends a s) [i]"

definition MatchString :: "regexp \<Rightarrow> string \<Rightarrow> bool" where
  "MatchString r s = list_ex (\<lambda>i. ends r s i \<noteq> []) [0..<Suc (length s)]"

section \<open>The patterns\<close>

definition ch :: "char \<Rightarrow> regexp" where "ch c = One (\<lambda>x. x = c)"

definition lit :: "string \<Rightarrow> regexp" where "lit s = foldr (\<lambda>c. Then (ch c)) s Empty"

definition any_of :: "string list \<Rightarrow> regexp" where "any_of ss = foldr (\<lambda>s. Or (lit s)) ss (One (\<lambda>_. False))"

definition repeated :: "regexp \<Rightarrow> regexp" where "repeated r = Then r (Star r)"

definition maybe :: "regexp \<Rightarrow> regexp" where "maybe r = Or r Empty"

definition exactly :: "nat \<Rightarrow> regexp \<Rightarrow> regexp" where "exactly n r = ((\<lambda>x. Then r x) ^^ n) Empty"

definition at_least :: "nat \<Rightarrow> regexp \<Rightarrow> regexp" where "at_least n r = Then (exactly n r) (Star r)"

definition seq :: "regexp list \<Rightarrow> regexp" where "seq rs = foldr Then rs Empty"

definition to_upper :: "char \<Rightarrow> char" where
  "to_upper c = (if CHR ''a'' \<le> c \<and> c \<le> CHR ''z'' then char_of (of_char c - 32 :: nat) else c)"

definition long_s :: string where "long_s = [CHR 0xC5, CHR 0xBF]"

definition kelvin :: string where "kelvin = [CHR 0xE2, CHR 0x84, CHR 0xAA]"

text \<open>A lower case letter or another character, ignoring case.\<close>

definition fold_ch :: "char \<Rightarrow> regexp" where
  "fold_ch c = Or (One (\<lambda>x. x = c \<or> x = to_upper c)) (if c = CHR ''s'' then lit long_s else if c = CHR ''k'' then lit kelvin else One (\<lambda>_. False))"

definition fold_lit :: "string \<Rightarrow> regexp" where "fold_lit s = foldr (\<lambda>c. Then (fold_ch c)) s Empty"

definition in_class :: "string \<Rightarrow> char \<Rightarrow> bool" where "in_class extra c \<longleftrightarrow> is_alnum_char c \<or> c \<in> set extra"

definition is_upper_digit :: "char \<Rightarrow> bool" where
  "is_upper_digit c \<longleftrightarrow> is_digit_char c \<or> CHR ''A'' \<le> c \<and> c \<le> CHR ''Z''"

definition is_re_space :: "char \<Rightarrow> bool" where
  "is_re_space c \<longleftrightarrow> c = CHR 0x09 \<or> c = CHR 0x0A \<or> c = CHR 0x0C \<or> c = CHR 0x0D \<or> c = CHR '' ''"

definition space :: regexp where "space = One is_re_space"

definition private_key :: regexp where
  "private_key =
     (let label = Star (One (\<lambda>c. is_upper_digit c \<or> c = CHR '' ''))
      in seq [lit ''-----BEGIN '', label, lit ''PRIVATE KEY-----'', Star (One (\<lambda>_. True)), lit ''-----END '', label, lit ''PRIVATE KEY-----''])"

definition der_blob :: regexp where
  "der_blob = seq [Boundary, lit ''MII'', at_least 20 (One (in_class ''+/='')), Boundary]"

definition json_web_token :: regexp where
  "json_web_token =
     (let part = repeated (One (in_class ''_-'')) in seq [Boundary, lit ''eyJ'', part, lit ''.eyJ'', part, lit ''.'', part, Boundary])"

definition authorization :: regexp where
  "authorization = seq [fold_lit ''authorization'', Star space, ch CHR '':'', Star space, Or (fold_lit ''bearer'') (fold_lit ''basic''), repeated space,
     repeated (One (\<lambda>c. \<not> is_re_space c \<and> c \<noteq> CHR 0x27 \<and> c \<noteq> CHR 0x22 \<and> c \<noteq> CHR '';''))]"

definition assigned_secret :: regexp where
  "assigned_secret =
     (let dash = maybe (One (\<lambda>c. c = CHR ''_'' \<or> c = CHR ''-''));
          name = foldr Or [seq [fold_lit ''api'', dash, fold_lit ''key''], fold_lit ''token'', fold_lit ''secret'', fold_lit ''password'', fold_lit ''passwd'']
            (seq [fold_lit ''access'', dash, fold_lit ''key''])
      in seq [name, Star space, One (\<lambda>c. c = CHR '':'' \<or> c = CHR ''=''), Star space, maybe (One (\<lambda>c. c = CHR 0x22 \<or> c = CHR 0x27)),
           at_least 8 (Or (One (in_class ''_./+=-'')) (Or (lit long_s) (lit kelvin)))])"

definition prefixed_key :: regexp where
  "prefixed_key =
     (let dash = One (\<lambda>c. c = CHR ''-'' \<or> c = CHR ''_'');
          sk = seq [lit ''sk'', dash, maybe (Then (any_of [''live'', ''test'']) dash)]
      in seq [Boundary, Or sk (Then (any_of [''api'', ''tok'', ''key'']) dash), at_least 12 (One (in_class ''_-'')), Boundary])"

definition cloud_key :: regexp where
  "cloud_key = seq [Boundary, any_of [''AKIA'', ''ASIA''], exactly 16 (One is_upper_digit), Boundary]"

definition credentialPatterns :: "regexp list" where
  "credentialPatterns = [private_key, der_blob, json_web_token, authorization, assigned_secret, prefixed_key, cloud_key]"

text \<open>A control character: one below the blank other than tab and line feed, delete, or one of the second block
  from \<^verbatim>\<open>U+0080\<close> to \<^verbatim>\<open>U+009F\<close>, which are encoded as \<^verbatim>\<open>C2\<close> and a second byte.\<close>

fun has_control :: "string \<Rightarrow> bool" where
  "has_control [] = False"
| "has_control (c # s) =
     (of_char c < (32 :: nat) \<and> c \<noteq> CHR 0x09 \<and> c \<noteq> CHR 0x0A \<or> c = CHR 0x7F \<or>
      c = CHR 0xC2 \<and> s \<noteq> [] \<and> 128 \<le> (of_char (hd s) :: nat) \<and> of_char (hd s) \<le> (159 :: nat) \<or> has_control s)"

definition ContainsCredentialMaterial :: "string \<Rightarrow> bool" where
  "ContainsCredentialMaterial s \<longleftrightarrow> list_ex (\<lambda>r. MatchString r s) credentialPatterns \<or> has_control s"

section \<open>What a pattern matches\<close>

text \<open>The usual meaning: \<open>spans s r i j\<close> if \<open>r\<close> matches the text between the positions \<open>i\<close> and \<open>j\<close>.\<close>

inductive spans :: "string \<Rightarrow> regexp \<Rightarrow> nat \<Rightarrow> nat \<Rightarrow> bool" for s where
  one: "i < length s \<Longrightarrow> p (s ! i) \<Longrightarrow> spans s (One p) i (Suc i)"
| empty: "spans s Empty i i"
| boundary: "boundary_at s i \<Longrightarrow> spans s Boundary i i"
| seq: "spans s a i k \<Longrightarrow> spans s b k j \<Longrightarrow> spans s (Then a b) i j"
| left: "spans s a i j \<Longrightarrow> spans s (Or a b) i j"
| right: "spans s b i j \<Longrightarrow> spans s (Or a b) i j"
| stop: "spans s (Star a) i i"
| again: "spans s a i k \<Longrightarrow> spans s (Star a) k j \<Longrightarrow> spans s (Star a) i j"

inductive_simps spans_simps: "spans s (One p) i j" "spans s Empty i j" "spans s Boundary i j" "spans s (Then a b) i j" "spans s (Or a b) i j"

lemma spans_star: "spans s (Star a) i j \<longleftrightarrow> (spans s a)\<^sup>*\<^sup>* i j"
proof
  have "(spans s b)\<^sup>*\<^sup>* i j" if "spans s r i j" "r = Star b" for r b using that
    by (induction rule: spans.induct) (auto intro: converse_rtranclp_into_rtranclp)
  then show "spans s (Star a) i j \<Longrightarrow> (spans s a)\<^sup>*\<^sup>* i j" by blast
next
  show "(spans s a)\<^sup>*\<^sup>* i j \<Longrightarrow> spans s (Star a) i j" by (induction rule: converse_rtranclp_induct) (auto intro: stop again)
qed

lemma rounds_relpow: "j \<in> set (rounds n f front) \<longleftrightarrow> (\<exists>m \<le> n. \<exists>i \<in> set front. ((\<lambda>i j. j \<in> set (f i)) ^^ m) i j)"
proof (induction n arbitrary: front)
  case (Suc n)
  let ?R = "\<lambda>i j. j \<in> set (f i)"
  have step: "(\<exists>m \<le> Suc n. P m) \<longleftrightarrow> P 0 \<or> (\<exists>m \<le> n. P (Suc m))" for P :: "nat \<Rightarrow> bool"
    by (metis Suc_le_mono le0 not0_implies_Suc)
  have "(?R ^^ Suc m) i j \<longleftrightarrow> (\<exists>k. ?R i k \<and> (?R ^^ m) k j)" for m i
    using relpowp_Suc_D2 [of m ?R i j] relpowp_Suc_I2 [of ?R i _ m j] by blast
  then have "(\<exists>i \<in> set (remdups (concat (map f front))). (?R ^^ m) i j) \<longleftrightarrow> (\<exists>i \<in> set front. (?R ^^ Suc m) i j)" for m by auto
  then show ?case unfolding step by (auto simp: Suc.IH)
qed simp

text \<open>Steps forward within the text: a path needs no more steps than characters.\<close>

lemma forward_paths:
  assumes "R\<^sup>*\<^sup>* i j" "\<And>i j. R i j \<Longrightarrow> i \<le> j \<and> j \<le> max i n"
  shows "i \<le> j \<and> j \<le> max i n \<and> (\<exists>m \<le> j - i. (R ^^ m) i j)"
  using assms(1)
proof (induction rule: converse_rtranclp_induct)
  case (step i k)
  then obtain m where m: "m \<le> j - k" "(R ^^ m) k j" by blast
  note le = assms(2) [OF step(1)]
  show ?case
  proof (cases "i = k")
    case False
    then have "Suc m \<le> j - i" "i \<le> j" "j \<le> max i n" using m(1) le step.IH by linarith+
    moreover have "(R ^^ Suc m) i j" using step(1) m(2) by (rule relpowp_Suc_I2)
    ultimately show ?thesis by blast
  qed (use step.IH in simp)
qed auto

lemma ends_forward: "j \<in> set (ends r s i) \<Longrightarrow> i \<le> j \<and> j \<le> max i (length s)"
proof (induction r arbitrary: i j)
  case (Then a b)
  then obtain k where "k \<in> set (ends a s i)" "j \<in> set (ends b s k)" by auto
  with Then.IH(1) [of k i] Then.IH(2) [of j k] show ?case by linarith
next
  case (Star a)
  let ?R = "\<lambda>i j. j \<in> set (ends a s i)"
  obtain m where "(?R ^^ m) i j" using Star.prems by (auto simp: rounds_relpow)
  then have "?R\<^sup>*\<^sup>* i j" by (rule relpowp_imp_rtranclp)
  from forward_paths [OF this] Star.IH show ?case by blast
qed (auto split: if_splits)

lemma ends_spans: "j \<in> set (ends r s i) \<longleftrightarrow> spans s r i j"
proof (induction r arbitrary: i j)
  case (Star a)
  let ?R = "\<lambda>i j. j \<in> set (ends a s i)"
  have "(\<exists>m \<le> length s. (?R ^^ m) i j) \<longleftrightarrow> ?R\<^sup>*\<^sup>* i j"
  proof
    assume "?R\<^sup>*\<^sup>* i j"
    from forward_paths [OF this, of "length s"] ends_forward obtain m where m: "i \<le> j" "j \<le> max i (length s)" "m \<le> j - i" "(?R ^^ m) i j" by blast
    then have "m \<le> length s" by linarith
    then show "\<exists>m \<le> length s. (?R ^^ m) i j" using m(4) by blast
  qed (auto dest: relpowp_imp_rtranclp)
  moreover have "?R = spans s a" using Star.IH by (intro HOL.ext) blast
  ultimately show ?case by (simp add: rounds_relpow spans_star)
qed (auto simp: spans_simps)

section \<open>Properties\<close>


end
