(* ===== verification/Outcome_Service.thy ===== *)
theory Outcome_Service
  imports Ledger_Integrity Credit_Assignment Credentials
begin

text \<open>
  \<^verbatim>\<open>internal/outcome/service.go\<close>, with \<^verbatim>\<open>policy/consent.go\<close> and \<^verbatim>\<open>security/principal.go\<close>: recording an outcome, from
  the principal to the ledger. The request is authorised, validated, checked for credentials,
  made canonical and evaluated; an injected plan is resolved and gets its credit; then the outcome
  is committed. The three clocks that a call reads are its arguments. Spans and metrics are left out.
\<close>

section \<open>Authorisation\<close>

abbreviation "ScopeOutcomeWrite \<equiv> ''outcomes:write''"
abbreviation "LearnAndRecall \<equiv> ''learn_and_recall''"

record Principal =
  pp_TenantID :: string
  pp_Region :: string
  pp_Scopes :: "string list"
  pp_Consent :: string
  pp_AllowExternalInference :: bool

definition HasScope :: "Principal \<Rightarrow> string \<Rightarrow> bool" where
  "HasScope p scope \<longleftrightarrow> scope = [] \<or> scope \<in> set (pp_Scopes p)"

definition AuthorizeIngest :: "string \<Rightarrow> bool" where
  "AuthorizeIngest mode \<longleftrightarrow> mode = LearnAndRecall"

section \<open>The service\<close>

datatype service_error =
    ErrInvalidCommand | ErrPermissionDenied | ErrSensitiveEvidence | ErrMisconfigured | ErrConsentDenied
  | ErrResolve selection_error | ErrCommitOutcome ledger_error

record outcome_Command =
  om_Principal :: Principal
  om_IdempotencyKeyHash :: string
  om_Request :: "RecordOutcomeRequest option"

record outcome_Result =
  ou_ReceiptID :: string
  ou_OutcomeID :: string
  ou_TraceID :: string
  ou_State :: string
  ou_PromotionEligible :: bool
  ou_PolicyVersion :: string
  ou_Disposition :: ledger_disposition
  ou_OutcomeCreditID :: string
  ou_CreditClass :: string

text \<open>The attribution is kept only if its rules have an identifier.\<close>

record outcome_Service =
  ov_policy :: EvidencePolicy
  ov_attribution :: "RuleManifest option"

definition outcome_DefaultPolicy :: EvidencePolicy where
  "outcome_DefaultPolicy =
     \<lparr>vp_Version = ''outcome-policy.v1'', vp_RequiredPredicates = [], vp_SuccessClassCeiling = EvidenceClassGoalPredicate,
      vp_FailureClassCeiling = EvidenceClassGoalPredicate, vp_StrongConflictCeiling = EvidenceClassHarnessAssertion\<rparr>"

definition outcome_NewService :: "EvidencePolicy \<Rightarrow> RuleManifest list \<Rightarrow> outcome_Service" where
  "outcome_NewService evaluationPolicy attribution =
     \<lparr>ov_policy = evaluationPolicy,
      ov_attribution = (case attribution of [rules] \<Rightarrow> if rm_ID rules \<noteq> [] then Some rules else None | _ \<Rightarrow> None)\<rparr>"

definition inferredPredicates :: "OutcomeEvidence list \<Rightarrow> string list" where
  "inferredPredicates facts = sorted_keys (map oe_PredicateID facts)"

text \<open>The getters of a missing field return the empty string.\<close>

definition field_texts :: "Field option \<Rightarrow> string list" where
  "field_texts f = (case f of None \<Rightarrow> [[], []] | Some f \<Rightarrow> [fd_Name f, fd_StringValue f])"

definition request_texts :: "RecordOutcomeRequest \<Rightarrow> string list" where
  "request_texts r =
     [ro_TraceId r, ro_ExecutionId r, ro_SelectionId r, ro_InjectionId r, ro_TaskExecutionId r, ro_SupersedesOutcomeId r, ro_CorrectionReason r] @
     concat (map (\<lambda>e. [ei_ClientEvidenceId e, ei_PredicateId e, ei_VerifierId e, ei_VerifierVersion e] @ concat (map field_texts (ei_Fields e))) (ro_Evidence r))"

definition containsSensitiveEvidence :: "RecordOutcomeRequest \<Rightarrow> bool" where
  "containsSensitiveEvidence r = list_ex ContainsCredentialMaterial (request_texts r)"

definition result_of :: "OutcomeReceipt \<Rightarrow> outcome_Result" where
  "result_of r =
     \<lparr>ou_ReceiptID = or_ID r, ou_OutcomeID = or_OutcomeID r, ou_TraceID = or_TraceID r, ou_State = or_State r, ou_PromotionEligible = or_PromotionEligible r,
      ou_PolicyVersion = or_PolicyVersion r, ou_Disposition = or_Disposition r, ou_OutcomeCreditID = or_OutcomeCreditID r, ou_CreditClass = or_CreditClass r\<rparr>"

record outcome_clocks =
  ok_find :: time
  ok_assign :: time
  ok_commit :: time

definition attribute ::
  "externals \<Rightarrow> (string \<Rightarrow> time option) \<Rightarrow> outcome_clocks \<Rightarrow> outcome_Service \<Rightarrow> SelectionRepository \<Rightarrow> string \<Rightarrow> CanonicalOutcome \<Rightarrow> EvidenceResult \<Rightarrow>
   service_error + CreditRecord option" where
  "attribute ext parse clocks svc selections tenant outcome evaluation =
     (if co_InjectionID outcome = [] \<and> co_TaskExecutionID outcome = [] then Inr None
      else case ov_attribution svc of
        None \<Rightarrow> Inl ErrInvalidCommand
      | Some rules \<Rightarrow>
          if co_InjectionID outcome = [] \<or> co_TaskExecutionID outcome = [] then Inl ErrInvalidCommand
          else case FindByInjectionID ext (ok_find clocks) tenant (co_InjectionID outcome) selections of
            Inl e \<Rightarrow> Inl (ErrResolve e)
          | Inr selected \<Rightarrow>
              (case credit_Assign ext parse \<lparr>ar_Manifest = rules, ar_Selection = selected, ar_Outcome = outcome, ar_Evaluation = evaluation,
                   ar_InjectionID = co_InjectionID outcome, ar_TaskExecutionID = co_TaskExecutionID outcome, ar_Now = time_UTC (ok_assign clocks)\<rparr> of
                 Inl _ \<Rightarrow> Inl ErrInvalidCommand
               | Inr assigned \<Rightarrow> Inr (Some assigned)))"

definition evaluation_policy :: "outcome_Service \<Rightarrow> CanonicalOutcome \<Rightarrow> EvidencePolicy" where
  "evaluation_policy svc outcome =
     (if length (vp_RequiredPredicates (ov_policy svc)) = 0 then (ov_policy svc)\<lparr>vp_RequiredPredicates := inferredPredicates (co_Evidence outcome)\<rparr>
      else ov_policy svc)"

definition prepare ::
  "externals \<Rightarrow> outcome_checks \<Rightarrow> (string \<Rightarrow> time option) \<Rightarrow> outcome_clocks \<Rightarrow> outcome_Service \<Rightarrow> SelectionRepository \<Rightarrow> outcome_Command \<Rightarrow>
   service_error + CommitOutcomeRequest" where
  "prepare ext checks parse clocks svc selections cmd =
     (let p = om_Principal cmd in
      if vp_Version (ov_policy svc) = [] then Inl ErrMisconfigured
      else if pp_TenantID p = [] \<or> om_Request cmd = None \<or> \<not> hashPattern (om_IdempotencyKeyHash cmd) then Inl ErrInvalidCommand
      else if \<not> HasScope p ScopeOutcomeWrite then Inl ErrPermissionDenied
      else if \<not> AuthorizeIngest (pp_Consent p) then Inl ErrConsentDenied
      else if ValidateOutcome ext checks (om_Request cmd) \<noteq> None then Inl ErrInvalidCommand
      else let request = the (om_Request cmd) in
      if containsSensitiveEvidence request then Inl ErrSensitiveEvidence
      else case Canonicalize ext checks (pp_TenantID p) request of
        Inl _ \<Rightarrow> Inl ErrInvalidCommand
      | Inr outcome \<Rightarrow>
          (case evidence_Evaluate (evaluation_policy svc outcome) (co_Evidence outcome) [] of
             Inl _ \<Rightarrow> Inl ErrMisconfigured
           | Inr evaluation \<Rightarrow>
               res_bind (attribute ext parse clocks svc selections (pp_TenantID p) outcome evaluation) (\<lambda>outcomeCredit.
               Inr \<lparr>cu_TenantID = pp_TenantID p, cu_IdempotencyKeyHash = om_IdempotencyKeyHash cmd, cu_Outcome = outcome, cu_Evaluation = evaluation,
                    cu_Credit = outcomeCredit\<rparr>)))"

definition Record ::
  "externals \<Rightarrow> outcome_checks \<Rightarrow> (string \<Rightarrow> time option) \<Rightarrow> outcome_clocks \<Rightarrow> outcome_Service \<Rightarrow> SelectionRepository \<Rightarrow> outcome_Command \<Rightarrow>
   IngestRepository \<Rightarrow> (service_error + outcome_Result) \<times> IngestRepository" where
  "Record ext checks parse clocks svc selections cmd r =
     (case prepare ext checks parse clocks svc selections cmd of
        Inl e \<Rightarrow> (Inl e, r)
      | Inr q \<Rightarrow>
          (case CommitOutcome ext (ok_commit clocks) q r of
             (Inl e, r') \<Rightarrow> (Inl (ErrCommitOutcome e), r')
           | (Inr receipt, r') \<Rightarrow> (Inr (result_of receipt), r')))"

section \<open>Lemmas\<close>

lemma prepare_Inr:
  assumes "prepare ext checks parse clocks svc selections cmd = Inr q"
  obtains request where "om_Request cmd = Some request" "HasScope (om_Principal cmd) ScopeOutcomeWrite" "pp_Consent (om_Principal cmd) = LearnAndRecall"
    "\<not> containsSensitiveEvidence request" "hashPattern (om_IdempotencyKeyHash cmd)" "Canonicalize ext checks (pp_TenantID (om_Principal cmd)) request = Inr (cu_Outcome q)"
    "evidence_Evaluate (evaluation_policy svc (cu_Outcome q)) (co_Evidence (cu_Outcome q)) [] = Inr (cu_Evaluation q)"
    "attribute ext parse clocks svc selections (pp_TenantID (om_Principal cmd)) (cu_Outcome q) (cu_Evaluation q) = Inr (cu_Credit q)"
    "cu_TenantID q = pp_TenantID (om_Principal cmd)" "cu_IdempotencyKeyHash q = om_IdempotencyKeyHash cmd"
proof -
  obtain request where r: "om_Request cmd = Some request"
    using assms by (cases "om_Request cmd") (auto simp: prepare_def Let_def split: if_splits)
  show thesis by (rule that [OF r]) (use assms r in \<open>auto simp: prepare_def AuthorizeIngest_def Let_def split: if_splits sum.splits\<close>)
qed

lemma Canonicalize_tenant: "Canonicalize ext checks tenant request = Inr c \<Longrightarrow> co_TenantID c = tenant"
  by (auto simp: Canonicalize_def Let_def split: if_splits option.splits)

lemma credit_Assign_fields:
  assumes "credit_Assign ext parse q = Inr rec"
  shows "credit_Validate ext rec" "cr_TenantID rec = co_TenantID (ar_Outcome q)" "cr_OutcomeID rec = co_ID (ar_Outcome q)"
    "cr_InjectionID rec = ar_InjectionID q" "cr_TaskExecutionID rec = ar_TaskExecutionID q" "valid_credit_request ext q"
proof -
  obtain v where v: "credit_newRecord ext v = Inr rec" "cr_TenantID v = co_TenantID (ar_Outcome q)" "cr_OutcomeID v = co_ID (ar_Outcome q)"
    "cr_InjectionID v = ar_InjectionID q" "cr_TaskExecutionID v = ar_TaskExecutionID q" "valid_credit_request ext q"
    using assms by (auto simp: credit_Assign_def Let_def split: if_splits prod.splits)
  show "credit_Validate ext rec" by (rule credit_newRecord_validates [OF v(1)])
  show "cr_TenantID rec = co_TenantID (ar_Outcome q)" "cr_OutcomeID rec = co_ID (ar_Outcome q)" "cr_InjectionID rec = ar_InjectionID q"
    "cr_TaskExecutionID rec = ar_TaskExecutionID q" "valid_credit_request ext q"
    using v by (auto simp: credit_newRecord_def Let_def split: if_splits sum.splits)
qed

text \<open>An attribution gives a credit exactly for an injected plan, and it is a credit of this outcome.\<close>

lemma attribute_Inr:
  assumes "attribute ext parse clocks svc selections tenant outcome evaluation = Inr credit" "co_TenantID outcome = tenant"
  shows "credit = None \<longleftrightarrow> co_InjectionID outcome = [] \<and> co_TaskExecutionID outcome = []"
    "credit = Some c \<Longrightarrow> co_InjectionID outcome \<noteq> [] \<and> co_TaskExecutionID outcome \<noteq> [] \<and> credit_Validate ext c \<and> cr_TenantID c = tenant \<and> cr_OutcomeID c = co_ID outcome \<and>
      cr_InjectionID c = co_InjectionID outcome \<and> cr_TaskExecutionID c = co_TaskExecutionID outcome"
  using assms credit_Assign_fields by (fastforce simp: attribute_def split: if_splits option.splits sum.splits)+

lemma prepare_valid_again:
  assumes "prepare ext checks parse clocks svc selections cmd = Inr q" "ValidateOutcomeCommit ext q" "prepare ext checks parse clocks2 svc selections2 cmd = Inr q2"
  shows "ValidateOutcomeCommit ext q2" "cu_Outcome q2 = cu_Outcome q" "cu_TenantID q2 = cu_TenantID q" "cu_IdempotencyKeyHash q2 = cu_IdempotencyKeyHash q"
proof -
  obtain request where a: "om_Request cmd = Some request" "Canonicalize ext checks (pp_TenantID (om_Principal cmd)) request = Inr (cu_Outcome q)"
    "evidence_Evaluate (evaluation_policy svc (cu_Outcome q)) (co_Evidence (cu_Outcome q)) [] = Inr (cu_Evaluation q)"
    "cu_TenantID q = pp_TenantID (om_Principal cmd)" "cu_IdempotencyKeyHash q = om_IdempotencyKeyHash cmd" using assms(1) by (rule prepare_Inr)
  obtain request2 where b: "om_Request cmd = Some request2" "Canonicalize ext checks (pp_TenantID (om_Principal cmd)) request2 = Inr (cu_Outcome q2)"
    "evidence_Evaluate (evaluation_policy svc (cu_Outcome q2)) (co_Evidence (cu_Outcome q2)) [] = Inr (cu_Evaluation q2)"
    "attribute ext parse clocks2 svc selections2 (pp_TenantID (om_Principal cmd)) (cu_Outcome q2) (cu_Evaluation q2) = Inr (cu_Credit q2)"
    "cu_TenantID q2 = pp_TenantID (om_Principal cmd)" "cu_IdempotencyKeyHash q2 = om_IdempotencyKeyHash cmd" using assms(3) by (rule prepare_Inr)
  show o': "cu_Outcome q2 = cu_Outcome q" "cu_TenantID q2 = cu_TenantID q" "cu_IdempotencyKeyHash q2 = cu_IdempotencyKeyHash q" using a b by simp_all
  have e: "cu_Evaluation q2 = cu_Evaluation q" using a(3) b(3) o'(1) by simp
  have t: "co_TenantID (cu_Outcome q2) = pp_TenantID (om_Principal cmd)" by (rule Canonicalize_tenant [OF b(2)])
  note c = attribute_Inr [OF b(4) t]
  have "(cu_Credit q2 = None) = (co_InjectionID (cu_Outcome q) = [])" using c assms(2) unfolding o'(1) by (auto simp: ValidateOutcomeCommit_def Let_def split: if_splits)
  moreover have "credit_matches ext q2 x" if "cu_Credit q2 = Some x" for x using c(2) [OF that] b(5) by (simp add: credit_matches_def)
  ultimately show "ValidateOutcomeCommit ext q2"
    using assms(2) unfolding ValidateOutcomeCommit_def o' e by (auto simp: Let_def split: if_splits option.splits)
qed

lemma Evaluate_result:
  assumes "evidence_Evaluate p facts superseded = Inr ev"
  shows "vr_PolicyVersion ev = vp_Version p"
    "vr_State ev \<in> {OutcomeStateVerifiedSuccess, OutcomeStateProvisionalSuccess, OutcomeStateInconclusive, OutcomeStateVerifiedFailure}"
    "vr_PromotionEligible ev \<longleftrightarrow> vr_State ev = OutcomeStateVerifiedSuccess" "sort (vr_ConflictPredicates ev) = vr_ConflictPredicates ev"
proof -
  have c: "sort (conflict_predicates p active) = conflict_predicates p active" for active
    by (simp add: conflict_predicates_def sorted_keys_def sorted_sort_id sorted_wrt_filter)
  show "vr_PolicyVersion ev = vp_Version p" "sort (vr_ConflictPredicates ev) = vr_ConflictPredicates ev"
    "vr_State ev \<in> {OutcomeStateVerifiedSuccess, OutcomeStateProvisionalSuccess, OutcomeStateInconclusive, OutcomeStateVerifiedFailure}"
    "vr_PromotionEligible ev \<longleftrightarrow> vr_State ev = OutcomeStateVerifiedSuccess"
    using assms c by (auto simp: evidence_Evaluate_def Let_def split: if_splits)
qed

lemma prepare_nonempty:
  assumes "prepare ext checks parse clocks svc selections cmd = Inr q"
  shows "vp_Version (ov_policy svc) \<noteq> []" "pp_TenantID (om_Principal cmd) \<noteq> []"
  using assms by (auto simp: prepare_def Let_def split: if_splits)

lemma CommitOutcome_Inl: "CommitOutcome ext t q r = (Inl e, r') \<Longrightarrow> r' = r"
  by (auto simp: CommitOutcome_def Let_def split: if_splits option.splits)

lemma CommitOutcome_Inr:
  assumes "CommitOutcome ext t q r = (Inr receipt, r')"
  shows "ValidateOutcomeCommit ext q" "or_Disposition receipt = DispositionAccepted \<Longrightarrow> receipt = outcome_receipt ext t q \<and> r' = store_outcome ext q receipt r"
  using assms by (auto simp: CommitOutcome_def update_conv' Let_def split: if_splits option.splits)

lemma prepare_validated:
  assumes "digest32 ext" "prepare ext checks parse clocks svc selections cmd = Inr q"
    and "\<forall>request. outcome_protovalidate checks request \<longrightarrow> ro_Evidence request \<noteq> []"
    and "co_SupersedesOutcomeID (cu_Outcome q) \<noteq> co_ID (cu_Outcome q)"
  shows "ValidateOutcomeCommit ext q"
proof -
  obtain request where p: "hashPattern (om_IdempotencyKeyHash cmd)" "Canonicalize ext checks (pp_TenantID (om_Principal cmd)) request = Inr (cu_Outcome q)"
    "evidence_Evaluate (evaluation_policy svc (cu_Outcome q)) (co_Evidence (cu_Outcome q)) [] = Inr (cu_Evaluation q)"
    "attribute ext parse clocks svc selections (pp_TenantID (om_Principal cmd)) (cu_Outcome q) (cu_Evaluation q) = Inr (cu_Credit q)"
    "cu_TenantID q = pp_TenantID (om_Principal cmd)" "cu_IdempotencyKeyHash q = om_IdempotencyKeyHash cmd" using assms(2) by (rule prepare_Inr)
  note n = prepare_nonempty [OF assms(2)] and t = Canonicalize_tenant [OF p(2)]
  have v: "VerifyCanonical ext (cu_Outcome q)" by (rule canonicalize_then_verify [OF p(2)]) (use assms(3) in blast)
  then have trace: "co_TraceID (cu_Outcome q) \<noteq> []" unfolding VerifyCanonical_def by blast
  obtain encoded where "MarshalAndHash ext (json_outcome ((cu_Outcome q)\<lparr>co_Hash := [], co_CanonicalJSON := []\<rparr>)) = Inr (encoded, co_Hash (cu_Outcome q))"
    using v by (auto simp: VerifyCanonical_def split: sum.splits)
  then have hash: "co_Hash (cu_Outcome q) \<noteq> []" using hashPattern_nonempty MarshalAndHash_pattern [OF assms(1)] by blast
  have version: "vr_PolicyVersion (cu_Evaluation q) \<noteq> []" using Evaluate_result(1) [OF p(3)] n(1) by (simp add: evaluation_policy_def)
  note e = Evaluate_result(2-4) [OF p(3)] and c = attribute_Inr [OF p(4) t]
  have credit: "credit_matches ext q x" if "cu_Credit q = Some x" for x using c(2) [OF that] p(5) by (simp add: credit_matches_def)
  have inj: "(co_InjectionID (cu_Outcome q) = []) = (co_TaskExecutionID (cu_Outcome q) = [])" "(cu_Credit q = None) = (co_InjectionID (cu_Outcome q) = [])"
    using c by (cases "cu_Credit q"; auto)+
  have state: "vr_State (cu_Evaluation q) \<noteq> []" using e(1) by auto
  show ?thesis unfolding ValidateOutcomeCommit_def
    using v trace hash version credit inj e state n(2) t p(1) assms(4) by (auto simp: p(5,6) Let_def split: option.splits)
qed

section \<open>Properties\<close>


text \<open>C30: recording an outcome again is safe. After a call that was accepted, whatever else is committed, the same
  command, at any time at which its injected plan can still be resolved, gets the result of the first
  call as a duplicate and changes nothing.\<close>

theorem record_outcome_retry:
  assumes "Record ext checks parse clocks svc selections cmd r = (Inr res, r')" "ou_Disposition res = DispositionAccepted"
    and "later = run_calls (ledger_step ext) calls r'" "prepare ext checks parse clocks2 svc selections2 cmd = Inr q2"
  shows "Record ext checks parse clocks2 svc selections2 cmd later = (Inr (res\<lparr>ou_Disposition := DispositionDuplicate\<rparr>), later)"
proof -
  obtain q receipt where q: "prepare ext checks parse clocks svc selections cmd = Inr q" "CommitOutcome ext (ok_commit clocks) q r = (Inr receipt, r')" "res = result_of receipt"
    using assms(1) by (auto simp: Record_def split: sum.splits prod.splits)
  have st: "receipt = outcome_receipt ext (ok_commit clocks) q" "r' = store_outcome ext q receipt r"
    using CommitOutcome_Inr(2) [OF q(2)] assms(2) q(3) by (simp_all add: result_of_def)
  have "ledger_holds (Outcome_receipt_at (tenantKey (cu_TenantID q) (cu_IdempotencyKeyHash q)) receipt) r'" unfolding st(2) by (simp add: update_conv')
  then have "ledger_holds (Outcome_receipt_at (tenantKey (cu_TenantID q) (cu_IdempotencyKeyHash q)) receipt) later"
    unfolding assms(3) by (rule ledger.run_keeps) simp
  moreover note again = prepare_valid_again [OF q(1) CommitOutcome_Inr(1) [OF q(2)] assms(4)]
  moreover have "or_ContentHash receipt = co_Hash (cu_Outcome q)" by (simp add: st(1) outcome_receipt_def Let_def)
  ultimately show ?thesis by (simp add: Record_def assms(4) CommitOutcome_def q(3) result_of_def)
qed

text \<open>C31: what the service hands to the store always passes the validation of the store, so a commit can fail
  only for what the ledger holds. The digest has 32 bytes, the schema check rejects a request
  without evidence, and an outcome is not its own correction.\<close>

theorem prepared_outcome_valid:
  assumes "digest32 ext" "prepare ext checks parse clocks svc selections cmd = Inr q"
    and "\<forall>request. outcome_protovalidate checks request \<longrightarrow> ro_Evidence request \<noteq> []"
    and "co_SupersedesOutcomeID (cu_Outcome q) \<noteq> co_ID (cu_Outcome q)"
  shows "ValidateOutcomeCommit ext q"
  using assms by (rule prepare_validated)

section \<open>A sample call\<close>

definition sample_command :: outcome_Command where
  "sample_command =
     \<lparr>om_Principal = \<lparr>pp_TenantID = ''tn'', pp_Region = [], pp_Scopes = [ScopeOutcomeWrite], pp_Consent = LearnAndRecall, pp_AllowExternalInference = False\<rparr>,
      om_IdempotencyKeyHash = hash_bytes sample_externals [], om_Request = Some (sample_outcome_request [sample_input ''a''])\<rparr>"

definition sample_service :: outcome_Service where
  "sample_service = outcome_NewService outcome_DefaultPolicy []"

definition sample_clocks :: outcome_clocks where
  "sample_clocks = \<lparr>ok_find = zero_time, ok_assign = zero_time, ok_commit = zero_time\<rparr>"

definition traced_ledger :: IngestRepository where
  "traced_ledger = NewIngestRepository\<lparr>lg_traces := [(tenantKey ''tn'' ''tr'', ''h'')]\<rparr>"

lemma sample_canonical_outcome:
  "\<exists>c f. Canonicalize sample_externals sample_outcome_checks ''tn'' (sample_outcome_request [sample_input ''a'']) = Inr c \<and>
     ValidateOutcome sample_externals sample_outcome_checks (Some (sample_outcome_request [sample_input ''a''])) = None \<and> co_Evidence c = [f] \<and>
     oe_ID f \<noteq> [] \<and> oe_PredicateID f = ''p'' \<and> oe_Class f = EvidenceClassGoalPredicate \<and> oe_Verdict f = EvidenceVerdictSatisfied \<and>
     co_InjectionID c = [] \<and> co_TaskExecutionID c = [] \<and> co_SupersedesOutcomeID c = [] \<and> co_SelectionID c = [] \<and> co_TraceID c = ''tr'' \<and> co_ID c \<noteq> []"
proof -
  have t: "TrimSpace ''tr'' = ''tr''" "TrimSpace ''a'' = ''a''" "TrimSpace ''p'' = ''p''" "TrimSpace ''v'' = ''v''" "TrimSpace [] = []" "replace_crlf [] = []" by code_simp+
  have f: "format_RFC3339Nano sample_externals t = [char_of (nat (t_ns t mod 256))]" for t by (simp add: sample_externals_def)
  have v: "ValidateOutcome sample_externals sample_outcome_checks (Some (sample_outcome_request [sample_input ''a''])) = None"
    by (simp add: ValidateOutcome_def sample_outcome_request_def sample_outcome_checks_def sample_input_def canonicalToken_def norm_NFC_sample t)
  moreover have "normalizeToken sample_externals x = x" if "TrimSpace x = x" for x using that by (simp add: normalizeToken_def norm_NFC_sample)
  ultimately show ?thesis
    by (simp add: Canonicalize_def sample_outcome_request_def sample_outcome_checks_def sample_input_def normalizeEvidenceFields_def canonical_hash_def
        MarshalAndHash_sample Let_def f time_UTC_def t)
qed

lemma sample_prepared: "\<exists>q. prepare sample_externals sample_outcome_checks parse sample_clocks sample_service selections sample_command = Inr q \<and>
    co_SupersedesOutcomeID (cu_Outcome q) = [] \<and> co_ID (cu_Outcome q) \<noteq> [] \<and> co_SelectionID (cu_Outcome q) = [] \<and> co_TraceID (cu_Outcome q) = ''tr'' \<and>
    cu_Credit q = None \<and> cu_TenantID q = ''tn''"
proof -
  let ?request = "sample_outcome_request [sample_input ''a'']"
  obtain c f where c: "Canonicalize sample_externals sample_outcome_checks ''tn'' ?request = Inr c" "ValidateOutcome sample_externals sample_outcome_checks (Some ?request) = None"
    "co_Evidence c = [f]" "oe_ID f \<noteq> []" "oe_PredicateID f = ''p''" "oe_Class f = EvidenceClassGoalPredicate" "oe_Verdict f = EvidenceVerdictSatisfied"
    "co_InjectionID c = []" "co_TaskExecutionID c = []" "co_SupersedesOutcomeID c = []" "co_SelectionID c = []" "co_TraceID c = ''tr''" "co_ID c \<noteq> []"
    using sample_canonical_outcome by (elim exE conjE) (rule that)
  have texts: "\<not> ContainsCredentialMaterial ''tr''" "\<not> ContainsCredentialMaterial []" "\<not> ContainsCredentialMaterial ''a''" "\<not> ContainsCredentialMaterial ''p''"
    "\<not> ContainsCredentialMaterial ''v''" by code_simp+
  have sensitive: "\<not> containsSensitiveEvidence ?request"
    by (simp add: containsSensitiveEvidence_def request_texts_def sample_outcome_request_def sample_input_def texts)
  have trim: "TrimSpace ''p'' = ''p''" "TrimSpace ''outcome-policy.v1'' = ''outcome-policy.v1''" by code_simp+
  have policy: "evaluation_policy sample_service c = outcome_DefaultPolicy\<lparr>vp_RequiredPredicates := [''p'']\<rparr>"
    by (simp add: evaluation_policy_def sample_service_def outcome_NewService_def outcome_DefaultPolicy_def inferredPredicates_def c(3,5) sorted_keys_def)
  have ok: "validateEvidencePolicy (outcome_DefaultPolicy\<lparr>vp_RequiredPredicates := [''p'']\<rparr>)"
    by (simp add: validateEvidencePolicy_def outcome_DefaultPolicy_def trim classRank_def canonicalPredicates_def sorted_keys_def)
  have active: "collect_active [] [] [f] = Inr [f]" using c(4-7) by (simp add: classRank_def validVerdict_def del: res_bind_eq_Inr)
  obtain ev where ev: "evidence_Evaluate (evaluation_policy sample_service c) (co_Evidence c) [] = Inr ev"
    unfolding policy c(3) by (cases "evidence_Evaluate (outcome_DefaultPolicy\<lparr>vp_RequiredPredicates := [''p'']\<rparr>) [f] []")
      (use ok active in \<open>auto simp: evidence_Evaluate_def Let_def split: if_splits\<close>)
  have "hashPattern (hash_bytes sample_externals [])" by (rule hashPattern_hash_bytes [OF digest32_sample])
  then have "prepare sample_externals sample_outcome_checks parse sample_clocks sample_service selections sample_command =
      Inr \<lparr>cu_TenantID = ''tn'', cu_IdempotencyKeyHash = hash_bytes sample_externals [], cu_Outcome = c, cu_Evaluation = ev, cu_Credit = None\<rparr>"
    using sensitive c(1,2,8,9) ev
    by (simp add: prepare_def sample_command_def HasScope_def AuthorizeIngest_def attribute_def Let_def)
      (simp add: sample_service_def outcome_NewService_def outcome_DefaultPolicy_def)
  then show ?thesis using c by simp
qed

lemma sample_checks_evidence: "\<forall>request. outcome_protovalidate sample_outcome_checks request \<longrightarrow> ro_Evidence request \<noteq> []"
  by (simp add: sample_outcome_checks_def)

theorem prepared_outcome_valid_witness:
  "\<exists>q. prepare sample_externals sample_outcome_checks (\<lambda>_. None) sample_clocks sample_service empty_repository sample_command = Inr q \<and> ValidateOutcomeCommit sample_externals q"
proof -
  obtain q where q: "prepare sample_externals sample_outcome_checks (\<lambda>_. None) sample_clocks sample_service empty_repository sample_command = Inr q"
    "co_SupersedesOutcomeID (cu_Outcome q) = []" "co_ID (cu_Outcome q) \<noteq> []" using sample_prepared by blast
  from prepared_outcome_valid [OF digest32_sample q(1) sample_checks_evidence] q show ?thesis by simp
qed

lemma sample_recorded:
  "\<exists>res r. Record sample_externals sample_outcome_checks parse sample_clocks sample_service selections sample_command traced_ledger = (Inr res, r) \<and>
     ou_Disposition res = DispositionAccepted"
proof -
  obtain q where q: "prepare sample_externals sample_outcome_checks parse sample_clocks sample_service selections sample_command = Inr q"
    "co_SupersedesOutcomeID (cu_Outcome q) = []" "co_ID (cu_Outcome q) \<noteq> []" "co_SelectionID (cu_Outcome q) = []" "co_TraceID (cu_Outcome q) = ''tr''"
    "cu_Credit q = None" "cu_TenantID q = ''tn''" using sample_prepared by blast
  have v: "ValidateOutcomeCommit sample_externals q"
    by (rule prepare_validated [OF digest32_sample q(1) sample_checks_evidence]) (simp add: q(2) q(3) [symmetric])
  then show ?thesis using q
    by (simp add: Record_def CommitOutcome_def traced_ledger_def NewIngestRepository_def newIngestRepository_def supersession_invalid_def credit_claimed_def
        result_of_def outcome_receipt_def Let_def)
qed


theorem record_outcome_retry_witness:
  "\<exists>res r. Record sample_externals sample_outcome_checks (\<lambda>_. None) sample_clocks sample_service empty_repository sample_command traced_ledger = (Inr res, r) \<and>
     Record sample_externals sample_outcome_checks (\<lambda>_. None) sample_clocks sample_service empty_repository sample_command r =
       (Inr (res\<lparr>ou_Disposition := DispositionDuplicate\<rparr>), r)"
proof -
  obtain res r where r: "Record sample_externals sample_outcome_checks (\<lambda>_. None) sample_clocks sample_service empty_repository sample_command traced_ledger = (Inr res, r)"
    "ou_Disposition res = DispositionAccepted" using sample_recorded by blast
  obtain q where q: "prepare sample_externals sample_outcome_checks (\<lambda>_. None) sample_clocks sample_service empty_repository sample_command = Inr q"
    using sample_prepared by blast
  have "r = run_calls (ledger_step sample_externals) [] r" by (simp add: run_calls_def)
  from record_outcome_retry [OF r this q] r(1) show ?thesis by blast
qed

end
