(* ===== verification/Queries.thy ===== *)
theory Queries
  imports Interfaces Sealing "HOL-Library.AList"
begin

text \<open>
  \<^verbatim>\<open>internal/retrieval/query.go\<close>: a retrieval request becomes a canonical query. Tools, facts,
  resources and effects are normalised, aliases are replaced, duplicates are merged and conflicts
  are refused; the query carries the hash of its canonical encoding. The merging goes through Go
  maps, whose iteration order is open, so that the hash is only useful if neither this order nor
  the order of the request matters, which is what is proved here. The messages of an error are
  left out; \<^verbatim>\<open>InputFromProto\<close>, which copies a generated message, is too.
\<close>

section \<open>Maps that refuse conflicting entries\<close>

text \<open>
  The loop \<^verbatim>\<open>if prior, exists := m[k]; exists && prior differs { fail }; m[k] = v\<close>.
\<close>

fun merge_keyed :: "('v \<Rightarrow> 'v \<Rightarrow> bool) \<Rightarrow> ('k \<times> 'v) list \<Rightarrow> ('k \<times> 'v) list \<Rightarrow> ('k \<times> 'v) list option" where
  "merge_keyed agree m [] = Some m"
| "merge_keyed agree m ((k, v) # rest) =
     (case map_of m k of
        Some prior \<Rightarrow> if agree prior v then merge_keyed agree (AList.update k v m) rest else None
      | None \<Rightarrow> merge_keyed agree (AList.update k v m) rest)"

lemma set_update_distinct:
  "distinct (map fst m) \<Longrightarrow> set (AList.update k v m) = {p \<in> set m. fst p \<noteq> k} \<union> {(k, v)}"
  by (induction m) (auto split: if_splits simp: image_iff)

lemma merge_keyed_functional:
  assumes "distinct (map fst m)" "single_valued (set m \<union> set xs)" "\<And>v. agree v v"
  shows "\<exists>m'. merge_keyed agree m xs = Some m' \<and> set m' = set m \<union> set xs \<and> distinct (map fst m')"
  using assms(1,2)
proof (induction xs arbitrary: m)
  case (Cons p xs)
  obtain k v where p: "p = (k, v)" by (cases p)
  have same: "w = v" if "(k, w) \<in> set m" for w
    using Cons.prems(2) that p by (auto simp: single_valued_def)
  have u: "set (AList.update k v m) = insert (k, v) (set m)"
    using same by (auto simp: set_update_distinct [OF Cons.prems(1)])
  have d: "distinct (map fst (AList.update k v m))" by (simp add: distinct_update Cons.prems(1))
  obtain m' where m': "merge_keyed agree (AList.update k v m) xs = Some m'"
      "set m' = set (AList.update k v m) \<union> set xs" "distinct (map fst m')"
    using Cons.IH [OF d] Cons.prems(2) by (auto simp: u p)
  have "merge_keyed agree m (p # xs) = Some m'"
    using m'(1) same by (auto simp: p assms(3) dest: map_of_SomeD split: option.splits)
  then show ?case using m' by (auto simp: u p)
qed auto

lemma merge_keyed_conflict:
  assumes "merge_keyed (=) m xs = Some m'" "distinct (map fst m)" "single_valued (set m)"
  shows "single_valued (set m \<union> set xs)"
  using assms
proof (induction xs arbitrary: m)
  case (Cons p xs)
  obtain k v where p: "p = (k, v)" by (cases p)
  have old: "w = v" if "(k, w) \<in> set m" for w
    using Cons.prems(1,2) that by (auto simp: p map_of_eq_Some_iff split: option.splits if_splits)
  have u: "set (AList.update k v m) = insert (k, v) (set m)"
    using old by (auto simp: set_update_distinct [OF Cons.prems(2)])
  have "single_valued (insert (k, v) (set m))"
    using Cons.prems(3) old by (auto simp: single_valued_def)
  moreover have "merge_keyed (=) (AList.update k v m) xs = Some m'"
    using Cons.prems(1) by (auto simp: p split: option.splits if_splits)
  ultimately show ?case using Cons.IH [of "AList.update k v m"] Cons.prems(2)
    by (simp add: u p distinct_update)
qed auto

text \<open>The outcome depends on the set of the entries only, up to the order of the map.\<close>

lemma merge_keyed_exact:
  "merge_keyed (=) [] xs = Some m \<Longrightarrow> set m = set xs \<and> distinct (map fst m)"
  using merge_keyed_functional [of "[]" xs "(=)"] merge_keyed_conflict [of "[]" xs m] by auto

lemma merge_keyed_cases:
  obtains "merge_keyed (=) [] xs = None" "\<not> single_valued (set xs)"
  | m where "merge_keyed (=) [] xs = Some m" "set m = set xs" "distinct (map fst m)" "single_valued (set xs)"
  using merge_keyed_functional [of "[]" xs "(=)"] merge_keyed_conflict [of "[]" xs]
  by (cases "merge_keyed (=) [] xs") auto

lemma distinct_keys_mset:
  "distinct (map fst m) \<Longrightarrow> distinct (map fst n) \<Longrightarrow> set m = set n \<Longrightarrow> mset m = mset n"
  by (simp add: distinct_map set_eq_iff_mset_eq_distinct)

text \<open>A map taken out entry by entry and sorted by its key does not depend on the iteration order.\<close>

definition entries_by :: "('k::linorder \<times> 'v) list \<Rightarrow> ('k \<times> 'v) list" where
  "entries_by m = sort_slice (\<lambda>a b. fst a < fst b) m"

interpretation entry_order: keyed_order "\<lambda>a b :: 'k::linorder \<times> 'v. fst a < fst b" fst
  by unfold_locales simp

lemma entries_by_unique:
  assumes "distinct (map fst m)" "distinct (map fst n)" "set m = set n"
  shows "entries_by m = entries_by n"
  unfolding entries_by_def using assms
  by (intro entry_order.sort_slice_cong_mset distinct_keys_mset)
    (auto dest: entry_order.distinct_keys_total)

lemma map_of_unique:
  assumes "distinct (map fst m)" "distinct (map fst n)" "set m = set n"
  shows "map_of m = map_of n"
  using assms by (metis map_of_eqI image_set map_of_eq_Some_iff map_of_inject_set)

text \<open>The two facts the normalisers need: both merges fail, or both give the same map.\<close>

lemma merge_keyed_same:
  fixes xs ys :: "('k::linorder \<times> 'v) list"
  assumes "set xs = set ys"
  obtains "merge_keyed (=) [] xs = None" "merge_keyed (=) [] ys = None"
  | m n where "merge_keyed (=) [] xs = Some m" "merge_keyed (=) [] ys = Some n" "entries_by m = entries_by n" "map_of m = map_of n"
proof (cases rule: merge_keyed_cases [of xs]; cases rule: merge_keyed_cases [of ys])
  fix m n assume "merge_keyed (=) [] xs = Some m" "merge_keyed (=) [] ys = Some n" "distinct (map fst m)" "distinct (map fst n)"
    "set m = set xs" "set n = set ys"
  then show thesis using that(2) assms entries_by_unique [of m n] map_of_unique [of m n] by simp
qed (use that(1) assms in auto)

section \<open>Queries\<close>

datatype query_error = ErrInvalidQuery | ErrQueryEncoding canonical_error

record query_Tool =
  qt_Name :: string
  qt_ContractVersionID :: string

record query_Harness =
  qh_Name :: string
  qh_Version :: string

record query_Fact =
  qf_Name :: string
  qf_Value :: string

record query_Resource =
  qr_Type :: string
  qr_Namespace :: string
  qr_Identity :: string
  qr_SchemaVersion :: string

record query_Input =
  qi_Task :: string
  qi_Tools :: "query_Tool list"
  qi_Harness :: query_Harness
  qi_Environment :: "query_Fact list"
  qi_Resources :: "query_Resource list"
  qi_Constraints :: "query_Fact list"
  qi_ForbiddenEffects :: "string list"
  qi_RiskClass :: string
  qi_LatencyClass :: string
  qi_MaxCandidates :: uint32

text \<open>The two alias maps, as lists of their entries in the order of the iteration.\<close>

record AliasSet =
  al_Tools :: "(string \<times> string) list"
  al_Resources :: "(string \<times> string) list"

record retrieval_Query =
  qu_SchemaVersion :: string
  qu_TenantID :: string
  qu_PolicyVersion :: string
  qu_Task :: string
  qu_IntentHash :: string
  qu_EffectSignatureHash :: string
  qu_Tools :: "query_Tool list"
  qu_Harness :: query_Harness
  qu_Environment :: "query_Fact list"
  qu_EnvironmentHash :: string
  qu_Resources :: "query_Resource list"
  qu_Constraints :: "query_Fact list"
  qu_ForbiddenEffects :: "string list"
  qu_RiskClass :: string
  qu_LatencyClass :: string
  qu_MaxCandidates :: uint32
  qu_Hash :: string
  qu_CanonicalJSON :: string

definition json_query_tool :: "query_Tool \<Rightarrow> json" where
  "json_query_tool t = JObj [(''name'', JStr (qt_Name t)), (''contract_version_id'', JStr (qt_ContractVersionID t))]"

definition json_query_harness :: "query_Harness \<Rightarrow> json" where
  "json_query_harness h = JObj ([(''name'', JStr (qh_Name h))] @ omit_str ''version'' (qh_Version h))"

definition json_query_fact :: "query_Fact \<Rightarrow> json" where
  "json_query_fact f = JObj [(''name'', JStr (qf_Name f)), (''value'', JStr (qf_Value f))]"

definition json_query_resource :: "query_Resource \<Rightarrow> json" where
  "json_query_resource r = JObj
     ([(''type'', JStr (qr_Type r))] @ omit_str ''namespace'' (qr_Namespace r) @ [(''identity'', JStr (qr_Identity r))] @
      omit_str ''schema_version'' (qr_SchemaVersion r))"

definition json_query :: "retrieval_Query \<Rightarrow> json" where
  "json_query q = JObj
     ([(''schema_version'', JStr (qu_SchemaVersion q)), (''tenant_id'', JStr (qu_TenantID q)),
       (''policy_version'', JStr (qu_PolicyVersion q)), (''task'', JStr (qu_Task q)), (''intent_hash'', JStr (qu_IntentHash q))] @
      omit_str ''effect_signature_hash'' (qu_EffectSignatureHash q) @
      [(''tools'', JArr (map json_query_tool (qu_Tools q))), (''harness'', json_query_harness (qu_Harness q))] @
      omit_list ''environment'' json_query_fact (qu_Environment q) @ [(''environment_hash'', JStr (qu_EnvironmentHash q))] @
      omit_list ''resources'' json_query_resource (qu_Resources q) @
      omit_list ''constraints'' json_query_fact (qu_Constraints q) @
      omit_strs ''forbidden_effects'' (qu_ForbiddenEffects q) @
      [(''risk_class'', JStr (qu_RiskClass q)), (''latency_class'', JStr (qu_LatencyClass q)),
       (''max_candidates'', JNum (uint (qu_MaxCandidates q)))])"

text \<open>
  \<^verbatim>\<open>text\<close> normalises first and trims afterwards, unlike \<open>normalizeText\<close> of the canonical builder.
\<close>

definition retrieval_text :: "externals \<Rightarrow> string \<Rightarrow> string" where
  "retrieval_text ext v = TrimSpace (norm_NFC ext (replace_crlf v))"

definition validRiskClass :: "string \<Rightarrow> bool" where
  "validRiskClass v \<longleftrightarrow> v = ''low'' \<or> v = ''medium'' \<or> v = ''high'' \<or> v = ''critical''"

definition validLatency :: "string \<Rightarrow> bool" where
  "validLatency v \<longleftrightarrow> v = ''interactive'' \<or> v = ''standard'' \<or> v = ''batch''"

definition normalizeAliases :: "externals \<Rightarrow> (string \<times> string) list \<Rightarrow> query_error + (string \<times> string) list" where
  "normalizeAliases ext source =
     (let entries = map (\<lambda>(raw, target). (normalizeToken ext raw, normalizeToken ext target)) source
      in if \<not> list_all (\<lambda>(key, v). key \<noteq> [] \<and> v \<noteq> []) entries then Inl ErrInvalidQuery
         else case merge_keyed (=) [] entries of None \<Rightarrow> Inl ErrInvalidQuery | Some m \<Rightarrow> Inr m)"

definition aliased :: "(string \<times> string) list \<Rightarrow> string \<Rightarrow> string" where
  "aliased aliases name = (case map_of aliases name of Some alias \<Rightarrow> alias | None \<Rightarrow> name)"

definition normalizeTools :: "externals \<Rightarrow> query_Tool list \<Rightarrow> (string \<times> string) list \<Rightarrow> query_error + query_Tool list" where
  "normalizeTools ext source aliases =
     (let entries = map (\<lambda>t. (aliased aliases (normalizeToken ext (qt_Name t)), normalizeToken ext (qt_ContractVersionID t))) source
      in if source = [] \<or> \<not> list_all (\<lambda>(name, version). name \<noteq> [] \<and> version \<noteq> []) entries then Inl ErrInvalidQuery
         else case merge_keyed (=) [] entries of
           None \<Rightarrow> Inl ErrInvalidQuery
         | Some byName \<Rightarrow> Inr (map (\<lambda>(name, version). \<lparr>qt_Name = name, qt_ContractVersionID = version\<rparr>) (entries_by byName)))"

definition normalizeFacts :: "externals \<Rightarrow> query_Fact list \<Rightarrow> query_error + query_Fact list" where
  "normalizeFacts ext source =
     (let entries = map (\<lambda>f. (normalizeToken ext (qf_Name f), retrieval_text ext (qf_Value f))) source
      in if \<not> list_all (\<lambda>(name, v). name \<noteq> []) entries then Inl ErrInvalidQuery
         else case merge_keyed (=) [] entries of
           None \<Rightarrow> Inl ErrInvalidQuery
         | Some byName \<Rightarrow> Inr (map (\<lambda>(name, v). \<lparr>qf_Name = name, qf_Value = v\<rparr>) (entries_by byName)))"

definition query_resourceIdentity :: "externals \<Rightarrow> string \<Rightarrow> query_error + string" where
  "query_resourceIdentity ext source =
     (let v = map (\<lambda>c. if c = CHR 0x5C then CHR ''/'' else c) (normalizeToken ext source)
      in if v = [] \<or> starts_with ''/'' v \<or> (length v > 1 \<and> v ! 1 = CHR '':'') then Inl ErrInvalidQuery
         else let cleaned = path_Clean v
              in if cleaned = ''..'' \<or> starts_with ''../'' cleaned then Inl ErrInvalidQuery else Inr cleaned)"

definition query_resource_key :: "query_Resource \<Rightarrow> string" where
  "query_resource_key r = qr_Type r @ NUL @ qr_Namespace r @ NUL @ qr_Identity r @ NUL @ qr_SchemaVersion r"

definition normalizeResource :: "externals \<Rightarrow> (string \<times> string) list \<Rightarrow> query_Resource \<Rightarrow> query_error + query_Resource" where
  "normalizeResource ext aliases r =
     res_bind (query_resourceIdentity ext (qr_Identity r)) (\<lambda>identity.
       let item = \<lparr>qr_Type = aliased aliases (normalizeToken ext (qr_Type r)), qr_Namespace = normalizeToken ext (qr_Namespace r),
                   qr_Identity = identity, qr_SchemaVersion = normalizeToken ext (qr_SchemaVersion r)\<rparr>
       in if qr_Type item = [] \<or> qr_Identity item = [] then Inl ErrInvalidQuery else Inr item)"

definition normalizeResources ::
  "externals \<Rightarrow> query_Resource list \<Rightarrow> (string \<times> string) list \<Rightarrow> query_error + query_Resource list" where
  "normalizeResources ext source aliases =
     res_bind (res_map (normalizeResource ext aliases) source) (\<lambda>items.
       case merge_keyed (\<lambda>prior item. True) [] (map (\<lambda>item. (query_resource_key item, item)) items) of
         None \<Rightarrow> Inl ErrInvalidQuery
       | Some seen \<Rightarrow> Inr (map snd (entries_by seen)))"

definition query_set :: "externals \<Rightarrow> string list \<Rightarrow> query_error + string list" where
  "query_set ext source = (case normalizeSet ext source of None \<Rightarrow> Inl ErrInvalidQuery | Some v \<Rightarrow> Inr v)"

definition query_hash :: "externals \<Rightarrow> json \<Rightarrow> query_error + string \<times> string" where
  "query_hash ext v = (case MarshalAndHash ext v of Inl e \<Rightarrow> Inl (ErrQueryEncoding e) | Inr r \<Rightarrow> Inr r)"

definition CanonicalIntentHash :: "externals \<Rightarrow> string \<Rightarrow> query_Harness \<Rightarrow> query_error + string" where
  "CanonicalIntentHash ext task harness =
     res_bind (query_hash ext (JObj
        ([(''task'', JStr (retrieval_text ext task)), (''harness'', JStr (normalizeToken ext (qh_Name harness)))] @
         omit_str ''harness_version'' (normalizeToken ext (qh_Version harness))))) (\<lambda>(_, hash). Inr hash)"

text \<open>Hashing of a query whose hash and encoding are empty.\<close>

definition seal_query :: "externals \<Rightarrow> retrieval_Query \<Rightarrow> query_error + retrieval_Query" where
  "seal_query ext query =
     (let cleared = query\<lparr>qu_Hash := [], qu_CanonicalJSON := []\<rparr>
      in case MarshalAndHash ext (json_query cleared) of
           Inl e \<Rightarrow> Inl (ErrQueryEncoding e)
         | Inr (canonicalJSON, hash) \<Rightarrow> Inr (cleared\<lparr>qu_Hash := hash, qu_CanonicalJSON := canonicalJSON\<rparr>))"

definition BuildQuery :: "externals \<Rightarrow> string \<Rightarrow> string \<Rightarrow> AliasSet \<Rightarrow> query_Input \<Rightarrow> query_error + retrieval_Query" where
  "BuildQuery ext tenantID policyVersion aliases input =
     res_bind (normalizeAliases ext (al_Tools aliases)) (\<lambda>toolAliases.
     res_bind (normalizeAliases ext (al_Resources aliases)) (\<lambda>resourceAliases.
     let policy = normalizeToken ext policyVersion; task = retrieval_text ext (qi_Task input);
         harness = \<lparr>qh_Name = normalizeToken ext (qh_Name (qi_Harness input)), qh_Version = normalizeToken ext (qh_Version (qi_Harness input))\<rparr>
     in if tenantID = [] \<or> policy = [] \<or> task = [] \<or> qh_Name harness = [] \<or> qi_MaxCandidates input < 1 \<or> qi_MaxCandidates input > 100 \<or>
           \<not> validRiskClass (qi_RiskClass input) \<or> \<not> validLatency (qi_LatencyClass input)
        then Inl ErrInvalidQuery
        else
          res_bind (normalizeTools ext (qi_Tools input) toolAliases) (\<lambda>tools.
          res_bind (normalizeFacts ext (qi_Environment input)) (\<lambda>environment.
          res_bind (query_hash ext (JArr (map json_query_fact environment))) (\<lambda>(_, environmentHash).
          res_bind (normalizeFacts ext (qi_Constraints input)) (\<lambda>constraints.
          res_bind (normalizeResources ext (qi_Resources input) resourceAliases) (\<lambda>resources.
          res_bind (query_set ext (qi_ForbiddenEffects input)) (\<lambda>forbidden.
          res_bind (CanonicalIntentHash ext task harness) (\<lambda>intentHash.
          seal_query ext
            \<lparr>qu_SchemaVersion = ''retrieval-query.v1'', qu_TenantID = tenantID, qu_PolicyVersion = policy, qu_Task = task,
             qu_IntentHash = intentHash, qu_EffectSignatureHash = [], qu_Tools = tools, qu_Harness = harness,
             qu_Environment = environment, qu_EnvironmentHash = environmentHash, qu_Resources = resources,
             qu_Constraints = constraints, qu_ForbiddenEffects = forbidden, qu_RiskClass = qi_RiskClass input,
             qu_LatencyClass = qi_LatencyClass input, qu_MaxCandidates = qi_MaxCandidates input,
             qu_Hash = [], qu_CanonicalJSON = []\<rparr>)))))))))"

definition ValidateQuery :: "externals \<Rightarrow> retrieval_Query \<Rightarrow> bool" where
  "ValidateQuery ext query =
     (case MarshalAndHash ext (json_query (query\<lparr>qu_Hash := [], qu_CanonicalJSON := []\<rparr>)) of
        Inl _ \<Rightarrow> False
      | Inr (canonicalJSON, hash) \<Rightarrow> qu_Hash query = hash \<and> qu_CanonicalJSON query = canonicalJSON)"

definition BindEffectSignature :: "externals \<Rightarrow> retrieval_Query \<Rightarrow> string \<Rightarrow> query_error + retrieval_Query" where
  "BindEffectSignature ext query effectSignatureHash =
     (if \<not> ValidateQuery ext query \<or> \<not> hashPattern (TrimSpace effectSignatureHash) then Inl ErrInvalidQuery
      else seal_query ext (query\<lparr>qu_EffectSignatureHash := TrimSpace effectSignatureHash\<rparr>))"

section \<open>Sealing\<close>

interpretation query_seal: sealed_value seal_query "\<lambda>q. q\<lparr>qu_Hash := [], qu_CanonicalJSON := []\<rparr>" json_query
  "\<lambda>encoded hash q. q\<lparr>qu_Hash := hash, qu_CanonicalJSON := encoded\<rparr>" ErrQueryEncoding
  by unfold_locales (simp_all add: seal_query_def Let_def)

lemma ValidateQuery_iff: "ValidateQuery ext q \<longleftrightarrow> seal_query ext q = Inr q"
  by (cases q) (auto simp: ValidateQuery_def seal_query_def Let_def split: sum.split prod.split)

lemma BuildQuery_valid: "BuildQuery ext t p al inp = Inr q \<Longrightarrow> ValidateQuery ext q"
  unfolding ValidateQuery_iff BuildQuery_def Let_def
  by (auto split: if_splits intro: query_seal.seal_stable)

lemma BindEffectSignature_valid: "BindEffectSignature ext q h = Inr q' \<Longrightarrow> ValidateQuery ext q'"
  unfolding ValidateQuery_iff BindEffectSignature_def
  by (auto split: if_splits intro: query_seal.seal_stable)

section \<open>Order and repetition\<close>

lemma normalizeAliases_order_free:
  assumes "set al = set al'"
  shows "(\<exists>e. normalizeAliases ext al = Inl e \<and> normalizeAliases ext al' = Inl e) \<or>
    (\<exists>m m'. normalizeAliases ext al = Inr m \<and> normalizeAliases ext al' = Inr m' \<and> map_of m = map_of m')"
proof -
  let ?f = "\<lambda>(raw, target). (normalizeToken ext raw, normalizeToken ext target)"
  have s: "set (map ?f al) = set (map ?f al')" using assms by simp
  have c: "list_all P (map ?f al) = list_all P (map ?f al')" for P using s by (simp add: list_all_iff)
  show ?thesis
    using s by (rule merge_keyed_same) (simp_all add: normalizeAliases_def c)
qed

lemma normalizeTools_order_free:
  assumes "set ts = set ts'" "map_of al = map_of al'"
  shows "normalizeTools ext ts al = normalizeTools ext ts' al'"
proof -
  let ?f = "\<lambda>t. (aliased al (normalizeToken ext (qt_Name t)), normalizeToken ext (qt_ContractVersionID t))"
  have a: "aliased al' = aliased al" using assms(2) by (auto simp: aliased_def fun_eq_iff)
  have s: "set (map ?f ts) = set (map ?f ts')" and e: "ts = [] \<longleftrightarrow> ts' = []" using assms(1) by auto
  have c: "list_all P (map ?f ts) = list_all P (map ?f ts')" for P using s by (simp add: list_all_iff)
  show ?thesis
    using s by (rule merge_keyed_same) (simp_all add: normalizeTools_def a e c)
qed

lemma normalizeFacts_order_free:
  assumes "set fs = set fs'" shows "normalizeFacts ext fs = normalizeFacts ext fs'"
proof -
  let ?f = "\<lambda>f. (normalizeToken ext (qf_Name f), retrieval_text ext (qf_Value f))"
  have s: "set (map ?f fs) = set (map ?f fs')" using assms by simp
  have c: "list_all P (map ?f fs) = list_all P (map ?f fs')" for P using s by (simp add: list_all_iff)
  show ?thesis
    using s by (rule merge_keyed_same) (simp_all add: normalizeFacts_def c)
qed

lemma query_set_order_free: "set vs = set vs' \<Longrightarrow> query_set ext vs = query_set ext vs'"
proof -
  assume "set vs = set vs'"
  then have "set (map (normalizeToken ext) vs) = set (map (normalizeToken ext) vs')" by simp
  then have "normalizeSet ext vs = normalizeSet ext vs'"
    unfolding normalizeSet_def Let_def list_all_iff using sorted_keys_cong by metis
  then show ?thesis by (simp add: query_set_def)
qed

text \<open>
  Resources are keyed by their four fields behind NUL bytes: without such a byte in the first three
  the key determines the resource. The normalisation form is relied upon not to introduce one.
\<close>

definition keeps_nul_free :: "externals \<Rightarrow> bool" where
  "keeps_nul_free ext \<longleftrightarrow> (\<forall>s. \<not> contains_nul s \<longrightarrow> \<not> contains_nul (norm_NFC ext s))"

definition nul_free_resource :: "query_Resource \<Rightarrow> bool" where
  "nul_free_resource r \<longleftrightarrow> \<not> contains_nul (qr_Type r) \<and> \<not> contains_nul (qr_Namespace r) \<and> \<not> contains_nul (qr_Identity r)"

definition nul_free_aliases :: "(string \<times> string) list \<Rightarrow> bool" where
  "nul_free_aliases al \<longleftrightarrow> list_all (\<lambda>(raw, target). \<not> contains_nul target) al"

lemma TrimSpace_nul_free: "\<not> contains_nul s \<Longrightarrow> \<not> contains_nul (TrimSpace s)"
proof -
  have sub: "set (trim_front es t) \<subseteq> set t" for es and t :: string
    using trim_front_suffix [of t es] by (metis Un_upper2 set_append)
  have "set (TrimSpace s) \<subseteq> set s"
    using sub [of "map rev space_encodings" "rev (trim_front space_encodings s)"] sub [of space_encodings s]
    by (auto simp: TrimSpace_def)
  then show "\<not> contains_nul s \<Longrightarrow> \<not> contains_nul (TrimSpace s)" by (auto simp: contains_nul_def)
qed

lemma normalizeToken_nul_free:
  "keeps_nul_free ext \<Longrightarrow> \<not> contains_nul s \<Longrightarrow> \<not> contains_nul (normalizeToken ext s)"
  by (simp add: keeps_nul_free_def normalizeToken_def TrimSpace_nul_free)

lemma join_slash_chars: "set (join_slash ws) \<subseteq> insert (CHR ''/'') (\<Union> (set ` set ws))"
  by (induction ws rule: join_slash.induct) auto

lemma clean_stack_words: "set (clean_stack r out ws) \<subseteq> set out \<union> set ws"
proof (induction ws arbitrary: out)
  case (Cons w ws)
  have "set (tl out) \<subseteq> set out" by (cases out) auto
  with Cons.IH [of "tl out"] Cons.IH [of out] Cons.IH [of "w # out"] show ?case by auto
qed simp

lemma split_slash_chars: "w \<in> set (split_slash s) \<Longrightarrow> set w \<subseteq> set s"
  by (induction s arbitrary: w) (auto split: list.splits if_splits, blast+)

lemma path_Clean_nul_free: "\<not> contains_nul p \<Longrightarrow> \<not> contains_nul (path_Clean p)"
proof -
  assume p: "\<not> contains_nul p"
  have "\<not> contains_nul (join_slash (rev (clean_stack r [] (split_slash p))))" for r
    using p join_slash_chars [of "rev (clean_stack r [] (split_slash p))"] clean_stack_words [of r "[]" "split_slash p"]
      split_slash_chars [of _ p] by (fastforce simp: contains_nul_def)
  then show ?thesis by (auto simp: path_Clean_def Let_def contains_nul_def)
qed

lemma query_resourceIdentity_nul_free:
  assumes "keeps_nul_free ext" "\<not> contains_nul v" "query_resourceIdentity ext v = Inr w"
  shows "\<not> contains_nul w"
proof -
  have "\<not> contains_nul (map (\<lambda>c. if c = CHR 0x5C then CHR ''/'' else c) (normalizeToken ext v))"
    using normalizeToken_nul_free [OF assms(1,2)] by (auto simp: contains_nul_def)
  from path_Clean_nul_free [OF this] show ?thesis
    using assms(3) by (auto simp: query_resourceIdentity_def Let_def split: if_splits)
qed

lemma normalizeAliases_nul_free:
  assumes "keeps_nul_free ext" "nul_free_aliases al" "normalizeAliases ext al = Inr m"
  shows "nul_free_aliases m"
  using assms merge_keyed_exact [of "map (\<lambda>(raw, target). (normalizeToken ext raw, normalizeToken ext target)) al" m]
  by (auto simp: normalizeAliases_def Let_def nul_free_aliases_def list_all_iff normalizeToken_nul_free split: if_splits option.splits)

lemma normalizeResource_nul_free:
  assumes "keeps_nul_free ext" "nul_free_aliases al" "nul_free_resource r" "normalizeResource ext al r = Inr q"
  shows "nul_free_resource q"
proof -
  have "\<not> contains_nul (aliased al n)" if "\<not> contains_nul n" for n
    using assms(2) that
    by (auto simp: aliased_def nul_free_aliases_def list_all_iff dest!: map_of_SomeD split: option.splits)
  then show ?thesis using assms query_resourceIdentity_nul_free [OF assms(1)]
    by (auto simp: normalizeResource_def nul_free_resource_def Let_def normalizeToken_nul_free split: if_splits)
qed

lemma query_resource_key_inject:
  assumes "nul_free_resource a" "nul_free_resource b" "query_resource_key a = query_resource_key b"
  shows "a = b"
proof -
  have "qr_Type a = qr_Type b \<and> qr_Namespace a = qr_Namespace b \<and> qr_Identity a = qr_Identity b \<and> qr_SchemaVersion a = qr_SchemaVersion b"
    using assms nul_separated_inject by (auto simp: nul_free_resource_def query_resource_key_def)
  then show ?thesis by (cases a; cases b) simp
qed

lemma res_map_same_set:
  fixes f :: "'a \<Rightarrow> query_error + 'b"
  assumes "set xs = set ys" "\<And>x e. f x = Inl e \<Longrightarrow> e = ErrInvalidQuery"
  shows "(res_map f xs = Inl ErrInvalidQuery \<and> res_map f ys = Inl ErrInvalidQuery) \<or>
    (\<exists>us vs. res_map f xs = Inr us \<and> res_map f ys = Inr vs \<and> set us = set vs)"
proof -
  have total: "(res_map f zs = Inl ErrInvalidQuery \<and> (\<exists>x \<in> set zs. \<exists>e. f x = Inl e)) \<or>
    (\<exists>us. res_map f zs = Inr us \<and> (\<forall>x \<in> set zs. \<exists>u. f x = Inr u) \<and> set us = {u. \<exists>x \<in> set zs. f x = Inr u})" for zs
  proof (induction zs)
    case (Cons z zs)
    show ?case
    proof (cases "f z")
      case (Inl e)
      then show ?thesis using assms(2) by auto
    next
      case (Inr u)
      then show ?thesis using Cons.IH by auto
    qed
  qed simp
  from total [of xs] total [of ys] show ?thesis using assms(1) by auto
qed

lemma normalizeResources_order_free:
  assumes "set rs = set rs'" "map_of al = map_of al'" "keeps_nul_free ext" "nul_free_aliases al" "list_all nul_free_resource rs"
  shows "normalizeResources ext rs al = normalizeResources ext rs' al'"
proof -
  have f: "normalizeResource ext al' = normalizeResource ext al"
    using assms(2) by (auto simp: normalizeResource_def aliased_def fun_eq_iff)
  have e: "e = ErrInvalidQuery" if "normalizeResource ext al r = Inl e" for r e
    using that by (auto simp: normalizeResource_def query_resourceIdentity_def Let_def res_bind_def split: if_splits sum.splits)
  have "(res_map (normalizeResource ext al) rs = Inl ErrInvalidQuery \<and> res_map (normalizeResource ext al) rs' = Inl ErrInvalidQuery) \<or>
    (\<exists>us vs. res_map (normalizeResource ext al) rs = Inr us \<and> res_map (normalizeResource ext al) rs' = Inr vs \<and> set us = set vs)"
    using assms(1) e by (rule res_map_same_set)
  then consider
    "normalizeResources ext rs al = Inl ErrInvalidQuery" "normalizeResources ext rs' al' = Inl ErrInvalidQuery"
    | us vs where "res_map (normalizeResource ext al) rs = Inr us" "res_map (normalizeResource ext al) rs' = Inr vs" "set us = set vs"
    by (auto simp: normalizeResources_def f)
  then show ?thesis
  proof cases
    case (2 us vs)
    let ?e = "map (\<lambda>item. (query_resource_key item, item))"
    have "nul_free_resource u" if "u \<in> set us" for u
      using res_map_origin [OF 2(1) that] normalizeResource_nul_free [OF assms(3,4)] assms(5) by (auto simp: list_all_iff)
    then have "single_valued (set (?e us))" "single_valued (set (?e vs))"
      using query_resource_key_inject 2(3) by (auto simp: single_valued_def)
    with merge_keyed_functional [of "[]" "?e us" "\<lambda>p i. True"] merge_keyed_functional [of "[]" "?e vs" "\<lambda>p i. True"]
    obtain m n where mn: "merge_keyed (\<lambda>p i. True) [] (?e us) = Some m" "set m = set (?e us)" "distinct (map fst m)"
        "merge_keyed (\<lambda>p i. True) [] (?e vs) = Some n" "set n = set (?e vs)" "distinct (map fst n)"
      by auto
    then have "entries_by m = entries_by n" using 2(3) by (intro entries_by_unique) auto
    then show ?thesis using 2 mn by (simp add: normalizeResources_def f)
  qed simp
qed

text \<open>Two requests with the same scalar fields that list the same entries, in any order and number.\<close>

definition same_entries :: "query_Input \<Rightarrow> query_Input \<Rightarrow> bool" where
  "same_entries a b \<longleftrightarrow>
     qi_Task a = qi_Task b \<and> qi_Harness a = qi_Harness b \<and> qi_RiskClass a = qi_RiskClass b \<and>
     qi_LatencyClass a = qi_LatencyClass b \<and> qi_MaxCandidates a = qi_MaxCandidates b \<and>
     set (qi_Tools a) = set (qi_Tools b) \<and> set (qi_Environment a) = set (qi_Environment b) \<and>
     set (qi_Resources a) = set (qi_Resources b) \<and> set (qi_Constraints a) = set (qi_Constraints b) \<and>
     set (qi_ForbiddenEffects a) = set (qi_ForbiddenEffects b)"

text \<open>C12: the canonical query does not depend on how the request is written down. Two requests that
  list the same tools, facts, resources and effects in any order and any number of times, under
  alias maps with the same entries in any iteration order, yield the same result: the same error,
  or the same query with the same hash. The resources and the resource aliases are free of NUL
  bytes, which the keys of the resource map are joined with.\<close>

theorem query_order_free:
  assumes "same_entries a b" "set (al_Tools s) = set (al_Tools t)" "set (al_Resources s) = set (al_Resources t)"
    and "keeps_nul_free ext" "nul_free_aliases (al_Resources s)" "list_all nul_free_resource (qi_Resources a)"
  shows "BuildQuery ext tenant policy s a = BuildQuery ext tenant policy t b"
proof -
  have eqs: "qi_Task b = qi_Task a" "qi_Harness b = qi_Harness a" "qi_RiskClass b = qi_RiskClass a"
      "qi_LatencyClass b = qi_LatencyClass a" "qi_MaxCandidates b = qi_MaxCandidates a"
    and facts: "normalizeFacts ext (qi_Environment b) = normalizeFacts ext (qi_Environment a)"
      "normalizeFacts ext (qi_Constraints b) = normalizeFacts ext (qi_Constraints a)"
      "query_set ext (qi_ForbiddenEffects b) = query_set ext (qi_ForbiddenEffects a)"
    using assms(1) by (auto simp: same_entries_def intro!: normalizeFacts_order_free query_set_order_free)
  have tools: "normalizeTools ext (qi_Tools b) m' = normalizeTools ext (qi_Tools a) m" if "map_of m = map_of m'" for m m'
    using normalizeTools_order_free [of "qi_Tools b" "qi_Tools a" m' m] that assms(1) by (auto simp: same_entries_def)
  have res: "normalizeResources ext (qi_Resources b) m' = normalizeResources ext (qi_Resources a) m"
    if "map_of m = map_of m'" "normalizeAliases ext (al_Resources s) = Inr m" for m m'
    using normalizeResources_order_free [of "qi_Resources a" "qi_Resources b" m m' ext] that assms
      normalizeAliases_nul_free [OF assms(4,5)] by (auto simp: same_entries_def)
  consider e where "normalizeAliases ext (al_Tools s) = Inl e" "normalizeAliases ext (al_Tools t) = Inl e"
    | m m' where "normalizeAliases ext (al_Tools s) = Inr m" "normalizeAliases ext (al_Tools t) = Inr m'" "map_of m = map_of m'"
    using normalizeAliases_order_free [OF assms(2), of ext] by blast
  then show ?thesis
  proof cases
    case (2 m m')
    consider e where "normalizeAliases ext (al_Resources s) = Inl e" "normalizeAliases ext (al_Resources t) = Inl e"
      | n n' where "normalizeAliases ext (al_Resources s) = Inr n" "normalizeAliases ext (al_Resources t) = Inr n'" "map_of n = map_of n'"
      using normalizeAliases_order_free [OF assms(3), of ext] by blast
    then show ?thesis
    proof cases
      case (2 n n')
      show ?thesis unfolding BuildQuery_def eqs facts 2(1,2) \<open>normalizeAliases ext (al_Tools s) = Inr m\<close>
          \<open>normalizeAliases ext (al_Tools t) = Inr m'\<close> res_bind_simps tools [OF \<open>map_of m = map_of m'\<close>] res [OF 2(3,1)] ..
    qed (simp add: BuildQuery_def 2)
  qed (simp add: BuildQuery_def)
qed

definition sample_query :: "query_Tool list \<Rightarrow> string list \<Rightarrow> query_Input" where
  "sample_query tools effects = \<lparr>qi_Task = '' deploy'', qi_Tools = tools, qi_Harness = \<lparr>qh_Name = ''h'', qh_Version = []\<rparr>, qi_Environment = [],
     qi_Resources = [\<lparr>qr_Type = ''file'', qr_Namespace = ''repo'', qr_Identity = ''src/./a'', qr_SchemaVersion = []\<rparr>], qi_Constraints = [],
     qi_ForbiddenEffects = effects, qi_RiskClass = ''low'', qi_LatencyClass = ''batch'', qi_MaxCandidates = 5\<rparr>"

theorem query_order_free_witness:
  "\<exists>q. BuildQuery sample_externals ''t'' ''p'' \<lparr>al_Tools = [(''sh'', ''bash'')], al_Resources = []\<rparr>
         (sample_query [\<lparr>qt_Name = ''sh'', qt_ContractVersionID = ''1''\<rparr>, \<lparr>qt_Name = ''git'', qt_ContractVersionID = ''2''\<rparr>] [''net'', ''fs'']) = Inr q \<and>
       BuildQuery sample_externals ''t'' ''p'' \<lparr>al_Tools = [(''sh'', ''bash'')], al_Resources = []\<rparr>
         (sample_query [\<lparr>qt_Name = ''git'', qt_ContractVersionID = ''2''\<rparr>, \<lparr>qt_Name = ''sh'', qt_ContractVersionID = ''1''\<rparr>] [''fs'', ''net'', ''fs'']) = Inr q \<and>
       qu_Tools q = [\<lparr>qt_Name = ''bash'', qt_ContractVersionID = ''1''\<rparr>, \<lparr>qt_Name = ''git'', qt_ContractVersionID = ''2''\<rparr>] \<and>
       qu_ForbiddenEffects q = [''fs'', ''net''] \<and> map qr_Identity (qu_Resources q) = [''src/a'']"
proof -
  let ?al = "\<lparr>al_Tools = [(''sh'', ''bash'')], al_Resources = []\<rparr>"
  let ?a = "sample_query [\<lparr>qt_Name = ''sh'', qt_ContractVersionID = ''1''\<rparr>, \<lparr>qt_Name = ''git'', qt_ContractVersionID = ''2''\<rparr>] [''net'', ''fs'']"
  let ?b = "sample_query [\<lparr>qt_Name = ''git'', qt_ContractVersionID = ''2''\<rparr>, \<lparr>qt_Name = ''sh'', qt_ContractVersionID = ''1''\<rparr>] [''fs'', ''net'', ''fs'']"
  have h: "same_entries ?a ?b" "nul_free_aliases (al_Resources ?al)" "list_all nul_free_resource (qi_Resources ?a)" by code_simp+
  have k: "keeps_nul_free sample_externals" by (simp add: keeps_nul_free_def norm_NFC_sample)
  have "case BuildQuery sample_externals ''t'' ''p'' ?al ?a of Inl _ \<Rightarrow> False
    | Inr q \<Rightarrow> qu_Tools q = [\<lparr>qt_Name = ''bash'', qt_ContractVersionID = ''1''\<rparr>, \<lparr>qt_Name = ''git'', qt_ContractVersionID = ''2''\<rparr>] \<and>
       qu_ForbiddenEffects q = [''fs'', ''net''] \<and> map qr_Identity (qu_Resources q) = [''src/a'']" by code_simp
  then show ?thesis using query_order_free [OF h(1) refl refl k h(2,3), of "''t''" "''p''"] by (auto split: sum.splits)
qed

end
