(* ===== verification/Documents.thy ===== *)
theory Documents
  imports Queries
begin

text \<open>
  \<^verbatim>\<open>internal/retrieval/document.go\<close>: the document under which a procedure version can be found. It
  is built once from a projection and revised when evidence arrives or the lifecycle moves on; every
  revision gets a new identifier, the hash of its content. The interface of the procedure is
  modelled in \<open>Interfaces\<close>. The messages of an error are left out, the sentinel it wraps is kept:
  the shared normalisers report \<^verbatim>\<open>ErrInvalidQuery\<close> also for a document.
\<close>

datatype retrieval_error = DocumentError document_error | QueryError query_error

record ToolRequirement =
  tr_Name :: string
  tr_ContractVersionID :: string

record ResourceRequirement =
  rr_Type :: string
  rr_Namespace :: string
  rr_IdentityHash :: string
  rr_SchemaVersion :: string

record DocumentInput =
  di_TenantID :: string
  di_ProcedureVersionID :: string
  di_ProcedureID :: string
  di_TaskText :: string
  di_IntentHash :: string
  di_EffectSignatureHash :: string
  di_Tools :: "ToolRequirement list"
  di_OrderedStepContractIDs :: "string list"
  di_Resources :: "ResourceRequirement list"
  di_Effects :: "string list"
  di_EnvironmentScopeHash :: string
  di_Harness :: query_Harness
  di_Environment :: "query_Fact list"
  di_Lifecycle :: string
  di_ObservedEndToEnd :: bool
  di_VerificationStrength :: "8 word"
  di_VerifiedSuccessCount :: uint64
  di_UnsafeOutcomeCount :: uint64
  di_ValidatedAt :: time
  di_ValidationPolicyVersion :: string
  di_LearnedWithRecallConsent :: bool
  di_ResidencyRegion :: string
  di_RiskClass :: string
  di_Interface :: "ProcedureInterface option"

record Document =
  dc_SchemaVersion :: string
  dc_TenantID :: string
  dc_ProcedureVersionID :: string
  dc_ProcedureID :: string
  dc_TaskText :: string
  dc_IntentHash :: string
  dc_EffectSignatureHash :: string
  dc_Tools :: "ToolRequirement list"
  dc_Resources :: "ResourceRequirement list"
  dc_Effects :: "string list"
  dc_EnvironmentScopeHash :: string
  dc_Harness :: query_Harness
  dc_Environment :: "query_Fact list"
  dc_Lifecycle :: string
  dc_ObservedEndToEnd :: bool
  dc_VerificationStrength :: "8 word"
  dc_VerifiedSuccessCount :: uint64
  dc_UnsafeOutcomeCount :: uint64
  dc_ValidatedAt :: string
  dc_ValidationPolicyVersion :: string
  dc_LearnedWithRecallConsent :: bool
  dc_ResidencyRegion :: string
  dc_RiskClass :: string
  dc_Interface :: "ProcedureInterface option"
  dc_PrefixHashes :: "string list"
  dc_ID :: string
  dc_ContentHash :: string
  dc_CanonicalJSON :: string

definition json_tool_requirement :: "ToolRequirement \<Rightarrow> json" where
  "json_tool_requirement t = JObj [(''name'', JStr (tr_Name t)), (''contract_version_id'', JStr (tr_ContractVersionID t))]"

definition json_resource_requirement :: "ResourceRequirement \<Rightarrow> json" where
  "json_resource_requirement r = JObj
     ([(''type'', JStr (rr_Type r))] @ omit_str ''namespace'' (rr_Namespace r) @
      [(''identity_hash'', JStr (rr_IdentityHash r))] @ omit_str ''schema_version'' (rr_SchemaVersion r))"

definition json_document :: "Document \<Rightarrow> json" where
  "json_document d = JObj
     ([(''schema_version'', JStr (dc_SchemaVersion d)), (''tenant_id'', JStr (dc_TenantID d)),
       (''procedure_version_id'', JStr (dc_ProcedureVersionID d)), (''procedure_id'', JStr (dc_ProcedureID d)),
       (''task_text'', JStr (dc_TaskText d)), (''intent_hash'', JStr (dc_IntentHash d)),
       (''effect_signature_hash'', JStr (dc_EffectSignatureHash d)),
       (''tools'', JArr (map json_tool_requirement (dc_Tools d)))] @
      omit_list ''resources'' json_resource_requirement (dc_Resources d) @ omit_strs ''effects'' (dc_Effects d) @
      [(''environment_scope_hash'', JStr (dc_EnvironmentScopeHash d)), (''harness'', json_query_harness (dc_Harness d))] @
      omit_list ''environment'' json_query_fact (dc_Environment d) @
      [(''lifecycle'', JStr (dc_Lifecycle d)), (''observed_end_to_end'', JBool (dc_ObservedEndToEnd d)),
       (''verification_strength'', JNum (uint (dc_VerificationStrength d))),
       (''verified_success_count'', JNum (uint (dc_VerifiedSuccessCount d))),
       (''unsafe_outcome_count'', JNum (uint (dc_UnsafeOutcomeCount d))), (''validated_at'', JStr (dc_ValidatedAt d)),
       (''validation_policy_version'', JStr (dc_ValidationPolicyVersion d)),
       (''learned_with_recall_consent'', JBool (dc_LearnedWithRecallConsent d)),
       (''residency_region'', JStr (dc_ResidencyRegion d)), (''risk_class'', JStr (dc_RiskClass d))] @
      omit_opt ''interface'' json_interface (dc_Interface d) @
      [(''prefix_hashes'', JArr (map JStr (dc_PrefixHashes d)))])"

definition validLifecycle :: "string \<Rightarrow> bool" where
  "validLifecycle v \<longleftrightarrow> v = ''candidate'' \<or> v = ''trial'' \<or> v = ''active'' \<or> v = ''retired'' \<or> v = ''quarantined''"

definition validInitialLifecycle :: "string \<Rightarrow> bool" where
  "validInitialLifecycle v \<longleftrightarrow> v = ''candidate'' \<or> v = ''trial'' \<or> v = ''active''"

definition normalizeToolRequirements :: "externals \<Rightarrow> ToolRequirement list \<Rightarrow> retrieval_error + ToolRequirement list" where
  "normalizeToolRequirements ext source =
     (let entries = map (\<lambda>t. (normalizeToken ext (tr_Name t), normalizeToken ext (tr_ContractVersionID t))) source
      in if source = [] \<or> \<not> list_all (\<lambda>(name, version). name \<noteq> [] \<and> version \<noteq> []) entries
         then Inl (DocumentError ErrInvalidDocument)
         else case merge_keyed (=) [] entries of
           None \<Rightarrow> Inl (DocumentError ErrInvalidDocument)
         | Some byName \<Rightarrow> Inr (map (\<lambda>(name, version). \<lparr>tr_Name = name, tr_ContractVersionID = version\<rparr>) (entries_by byName)))"

definition resource_requirement_key :: "ResourceRequirement \<Rightarrow> string" where
  "resource_requirement_key r = rr_Type r @ NUL @ rr_Namespace r @ NUL @ rr_IdentityHash r"

definition normalizeResourceRequirement :: "externals \<Rightarrow> ResourceRequirement \<Rightarrow> ResourceRequirement" where
  "normalizeResourceRequirement ext r =
     \<lparr>rr_Type = normalizeToken ext (rr_Type r), rr_Namespace = normalizeToken ext (rr_Namespace r),
      rr_IdentityHash = normalizeToken ext (rr_IdentityHash r), rr_SchemaVersion = normalizeToken ext (rr_SchemaVersion r)\<rparr>"

definition normalizeResourceRequirements ::
  "externals \<Rightarrow> ResourceRequirement list \<Rightarrow> retrieval_error + ResourceRequirement list" where
  "normalizeResourceRequirements ext source =
     (let items = map (normalizeResourceRequirement ext) source
      in if \<not> list_all (\<lambda>r. rr_Type r \<noteq> [] \<and> hashPattern (rr_IdentityHash r)) items
         then Inl (DocumentError ErrInvalidDocument)
         else case merge_keyed (\<lambda>prior item. rr_SchemaVersion prior = rr_SchemaVersion item) []
                     (map (\<lambda>r. (resource_requirement_key r, r)) items) of
           None \<Rightarrow> Inl (DocumentError ErrInvalidDocument)
         | Some seen \<Rightarrow> Inr (map snd (entries_by seen)))"

definition document_hash :: "externals \<Rightarrow> json \<Rightarrow> retrieval_error + string \<times> string" where
  "document_hash ext v =
     (case MarshalAndHash ext v of Inl e \<Rightarrow> Inl (DocumentError (ErrDocumentEncoding e)) | Inr r \<Rightarrow> Inr r)"

definition prefixHashes :: "externals \<Rightarrow> string list \<Rightarrow> retrieval_error + string list" where
  "prefixHashes ext source =
     (if source = [] then Inl (DocumentError ErrInvalidDocument)
      else let canonicalIDs = map (normalizeToken ext) (take 8 source)
           in res_map (\<lambda>index. if canonicalIDs ! index = [] then Inl (DocumentError ErrInvalidDocument)
                else res_bind (document_hash ext (JArr (map JStr (take (index + 1) canonicalIDs)))) (\<lambda>(_, hash). Inr hash))
              [0..<length canonicalIDs])"

definition seal_document :: "externals \<Rightarrow> Document \<Rightarrow> retrieval_error + Document" where
  "seal_document ext d =
     (let cleared = d\<lparr>dc_ID := [], dc_ContentHash := [], dc_CanonicalJSON := []\<rparr>
      in case MarshalAndHash ext (json_document cleared) of
           Inl e \<Rightarrow> Inl (DocumentError (ErrDocumentEncoding e))
         | Inr (canonicalJSON, hash) \<Rightarrow>
             Inr (cleared\<lparr>dc_ID := ''rdoc_'' @ hash, dc_ContentHash := hash, dc_CanonicalJSON := canonicalJSON\<rparr>))"

text \<open>The checks of \<^verbatim>\<open>BuildDocument\<close> on the fields that are not lists.\<close>

definition document_fields_ok :: "externals \<Rightarrow> DocumentInput \<Rightarrow> bool" where
  "document_fields_ok ext inp \<longleftrightarrow>
     di_TenantID inp \<noteq> [] \<and> normalizeToken ext (di_ProcedureVersionID inp) \<noteq> [] \<and> normalizeToken ext (di_ProcedureID inp) \<noteq> [] \<and>
     retrieval_text ext (di_TaskText inp) \<noteq> [] \<and> hashPattern (normalizeToken ext (di_IntentHash inp)) \<and>
     hashPattern (normalizeToken ext (di_EffectSignatureHash inp)) \<and> hashPattern (normalizeToken ext (di_EnvironmentScopeHash inp)) \<and>
     normalizeToken ext (qh_Name (di_Harness inp)) \<noteq> [] \<and> di_VerificationStrength inp \<noteq> 0 \<and> di_VerifiedSuccessCount inp \<noteq> 0 \<and>
     normalizeToken ext (di_ValidationPolicyVersion inp) \<noteq> [] \<and> di_LearnedWithRecallConsent inp \<and>
     normalizeToken ext (di_ResidencyRegion inp) \<noteq> [] \<and> validRiskClass (normalizeToken ext (di_RiskClass inp)) \<and>
     validInitialLifecycle (normalizeToken ext (di_Lifecycle inp)) \<and>
     (case di_Interface inp of None \<Rightarrow> False | Some i \<Rightarrow> ValidateProcedureInterface ext i)"

definition document_of ::
  "externals \<Rightarrow> DocumentInput \<Rightarrow> ToolRequirement list \<Rightarrow> ResourceRequirement list \<Rightarrow> string list \<Rightarrow> query_Fact list \<Rightarrow> string list \<Rightarrow> Document" where
  "document_of ext inp tools resources effects environment prefixes =
     \<lparr>dc_SchemaVersion = ''retrieval-document.v2'', dc_TenantID = di_TenantID inp,
      dc_ProcedureVersionID = normalizeToken ext (di_ProcedureVersionID inp), dc_ProcedureID = normalizeToken ext (di_ProcedureID inp),
      dc_TaskText = retrieval_text ext (di_TaskText inp), dc_IntentHash = normalizeToken ext (di_IntentHash inp),
      dc_EffectSignatureHash = normalizeToken ext (di_EffectSignatureHash inp), dc_Tools = tools, dc_Resources = resources,
      dc_Effects = effects, dc_EnvironmentScopeHash = normalizeToken ext (di_EnvironmentScopeHash inp),
      dc_Harness = \<lparr>qh_Name = normalizeToken ext (qh_Name (di_Harness inp)), qh_Version = normalizeToken ext (qh_Version (di_Harness inp))\<rparr>,
      dc_Environment = environment, dc_Lifecycle = normalizeToken ext (di_Lifecycle inp),
      dc_ObservedEndToEnd = di_ObservedEndToEnd inp, dc_VerificationStrength = di_VerificationStrength inp,
      dc_VerifiedSuccessCount = di_VerifiedSuccessCount inp, dc_UnsafeOutcomeCount = di_UnsafeOutcomeCount inp,
      dc_ValidatedAt = format_RFC3339Nano ext (time_UTC (di_ValidatedAt inp)),
      dc_ValidationPolicyVersion = normalizeToken ext (di_ValidationPolicyVersion inp),
      dc_LearnedWithRecallConsent = di_LearnedWithRecallConsent inp, dc_ResidencyRegion = normalizeToken ext (di_ResidencyRegion inp),
      dc_RiskClass = normalizeToken ext (di_RiskClass inp), dc_Interface = di_Interface inp, dc_PrefixHashes = prefixes,
      dc_ID = [], dc_ContentHash = [], dc_CanonicalJSON = []\<rparr>"

definition BuildDocument :: "externals \<Rightarrow> DocumentInput \<Rightarrow> retrieval_error + Document" where
  "BuildDocument ext inp =
     (if time_IsZero (di_ValidatedAt inp) \<or> \<not> document_fields_ok ext inp then Inl (DocumentError ErrInvalidDocument)
      else
        res_bind (normalizeToolRequirements ext (di_Tools inp)) (\<lambda>tools.
        res_bind (normalizeResourceRequirements ext (di_Resources inp)) (\<lambda>resources.
        case query_set ext (di_Effects inp) of Inl e \<Rightarrow> Inl (QueryError e) | Inr effects \<Rightarrow>
        (case normalizeFacts ext (di_Environment inp) of Inl e \<Rightarrow> Inl (QueryError e) | Inr environment \<Rightarrow>
        res_bind (prefixHashes ext (di_OrderedStepContractIDs inp)) (\<lambda>prefixes.
        seal_document ext (document_of ext inp tools resources effects environment prefixes))))))"

definition ValidateDocument :: "externals \<Rightarrow> Document \<Rightarrow> bool" where
  "ValidateDocument ext d \<longleftrightarrow>
     (dc_SchemaVersion d = ''retrieval-document.v2'' \<and> (case dc_Interface d of None \<Rightarrow> False | Some i \<Rightarrow> ValidateProcedureInterface ext i) \<or>
      dc_SchemaVersion d = ''retrieval-document.v1'' \<and> dc_Interface d = None) \<and>
     (case MarshalAndHash ext (json_document (d\<lparr>dc_ID := [], dc_ContentHash := [], dc_CanonicalJSON := []\<rparr>)) of
        Inl _ \<Rightarrow> False
      | Inr (canonicalJSON, hash) \<Rightarrow> dc_ID d = ''rdoc_'' @ hash \<and> dc_ContentHash d = hash \<and> dc_CanonicalJSON d = canonicalJSON)"

definition ReviseEvidence :: "externals \<Rightarrow> Document \<Rightarrow> uint64 \<Rightarrow> uint64 \<Rightarrow> time \<Rightarrow> retrieval_error + Document" where
  "ReviseEvidence ext d verifiedSuccessCount unsafeOutcomeCount validatedAt =
     (if \<not> ValidateDocument ext d \<or> dc_SchemaVersion d \<noteq> ''retrieval-document.v2'' \<or> verifiedSuccessCount = 0 \<or> time_IsZero validatedAt
      then Inl (DocumentError ErrInvalidDocument)
      else seal_document ext (d\<lparr>dc_VerifiedSuccessCount := verifiedSuccessCount, dc_UnsafeOutcomeCount := unsafeOutcomeCount,
             dc_ValidatedAt := format_RFC3339Nano ext (time_UTC validatedAt)\<rparr>))"

definition ReviseLifecycle ::
  "externals \<Rightarrow> Document \<Rightarrow> string \<Rightarrow> uint64 \<Rightarrow> uint64 \<Rightarrow> time \<Rightarrow> string \<Rightarrow> retrieval_error + Document" where
  "ReviseLifecycle ext d lifecycle verifiedSuccessCount unsafeOutcomeCount validatedAt validationPolicyVersion =
     (if \<not> ValidateDocument ext d \<or> dc_SchemaVersion d \<noteq> ''retrieval-document.v2'' \<or> time_IsZero validatedAt \<or>
         \<not> validLifecycle (normalizeToken ext lifecycle) \<or> normalizeToken ext validationPolicyVersion = []
      then Inl (DocumentError ErrInvalidDocument)
      else seal_document ext (d\<lparr>dc_Lifecycle := normalizeToken ext lifecycle, dc_VerifiedSuccessCount := verifiedSuccessCount,
             dc_UnsafeOutcomeCount := unsafeOutcomeCount, dc_ValidatedAt := format_RFC3339Nano ext (time_UTC validatedAt),
             dc_ValidationPolicyVersion := normalizeToken ext validationPolicyVersion\<rparr>))"

section \<open>Sealing and revisions\<close>

interpretation document_seal: sealed_value seal_document "\<lambda>d. d\<lparr>dc_ID := [], dc_ContentHash := [], dc_CanonicalJSON := []\<rparr>" json_document
  "\<lambda>encoded hash d. d\<lparr>dc_ID := ''rdoc_'' @ hash, dc_ContentHash := hash, dc_CanonicalJSON := encoded\<rparr>" "\<lambda>e. DocumentError (ErrDocumentEncoding e)"
  by unfold_locales (simp_all add: seal_document_def Let_def)

definition interface_present :: "externals \<Rightarrow> Document \<Rightarrow> bool" where
  "interface_present ext d \<longleftrightarrow> dc_SchemaVersion d = ''retrieval-document.v2'' \<and>
     (case dc_Interface d of None \<Rightarrow> False | Some i \<Rightarrow> ValidateProcedureInterface ext i)"

lemma ValidateDocument_iff:
  "ValidateDocument ext d \<longleftrightarrow>
     (interface_present ext d \<or> dc_SchemaVersion d = ''retrieval-document.v1'' \<and> dc_Interface d = None) \<and> seal_document ext d = Inr d"
  by (cases d) (auto simp: ValidateDocument_def interface_present_def seal_document_def Let_def split: sum.split prod.split)

text \<open>What no revision touches: everything but the lifecycle, the evidence and the seal.\<close>

definition serving_identity :: "Document \<Rightarrow> Document" where
  "serving_identity d = d\<lparr>dc_Lifecycle := [], dc_VerifiedSuccessCount := 0, dc_UnsafeOutcomeCount := 0, dc_ValidatedAt := [],
     dc_ValidationPolicyVersion := [], dc_ID := [], dc_ContentHash := [], dc_CanonicalJSON := []\<rparr>"

lemma serving_identity_sel:
  "dc_SchemaVersion (serving_identity d) = dc_SchemaVersion d" "dc_TenantID (serving_identity d) = dc_TenantID d"
  "dc_ProcedureVersionID (serving_identity d) = dc_ProcedureVersionID d" "dc_ProcedureID (serving_identity d) = dc_ProcedureID d"
  "dc_Interface (serving_identity d) = dc_Interface d" "dc_Tools (serving_identity d) = dc_Tools d"
  "dc_PrefixHashes (serving_identity d) = dc_PrefixHashes d"
  by (simp_all add: serving_identity_def)

lemma serving_identity_fields:
  assumes "serving_identity d = serving_identity d'"
  shows "dc_SchemaVersion d = dc_SchemaVersion d'" "dc_TenantID d = dc_TenantID d'" "dc_ProcedureVersionID d = dc_ProcedureVersionID d'"
    "dc_ProcedureID d = dc_ProcedureID d'" "dc_Interface d = dc_Interface d'" "dc_Tools d = dc_Tools d'" "dc_PrefixHashes d = dc_PrefixHashes d'"
  using assms by (metis serving_identity_sel)+

lemma interface_present_cong: "serving_identity d = serving_identity d' \<Longrightarrow> interface_present ext d = interface_present ext d'"
  using serving_identity_fields [of d d'] by (simp add: interface_present_def)

lemma seal_document_fields:
  assumes "seal_document ext d = Inr e"
  shows "serving_identity e = serving_identity d" "dc_Lifecycle e = dc_Lifecycle d"
    "dc_VerifiedSuccessCount e = dc_VerifiedSuccessCount d" "dc_UnsafeOutcomeCount e = dc_UnsafeOutcomeCount d" "dc_Tools e = dc_Tools d"
    "dc_PrefixHashes e = dc_PrefixHashes d" "dc_Interface e = dc_Interface d" "dc_SchemaVersion e = dc_SchemaVersion d"
    "dc_TenantID e = dc_TenantID d" "dc_ProcedureVersionID e = dc_ProcedureVersionID d" "dc_ProcedureID e = dc_ProcedureID d"
    "dc_ValidationPolicyVersion e = dc_ValidationPolicyVersion d" "dc_Effects e = dc_Effects d"
proof -
  from assms obtain i h c where e: "e = d\<lparr>dc_ID := i, dc_ContentHash := h, dc_CanonicalJSON := c\<rparr>"
    by (auto simp: seal_document_def Let_def split: sum.splits)
  show "serving_identity e = serving_identity d" by (cases d) (simp add: e serving_identity_def)
qed (use assms in \<open>auto simp: seal_document_def Let_def split: sum.splits\<close>)

lemma ReviseEvidence_Inr:
  assumes "ReviseEvidence ext d n u t = Inr e"
  shows "ValidateDocument ext d" "ValidateDocument ext e" "interface_present ext e" "serving_identity e = serving_identity d"
    "dc_Lifecycle e = dc_Lifecycle d" "dc_VerifiedSuccessCount e = n" "dc_UnsafeOutcomeCount e = u" "n \<noteq> 0"
    "dc_ValidationPolicyVersion e = dc_ValidationPolicyVersion d"
proof -
  let ?d = "d\<lparr>dc_VerifiedSuccessCount := n, dc_UnsafeOutcomeCount := u, dc_ValidatedAt := format_RFC3339Nano ext (time_UTC t)\<rparr>"
  have e: "ValidateDocument ext d" "dc_SchemaVersion d = ''retrieval-document.v2''" "n \<noteq> 0" "seal_document ext ?d = Inr e"
    using assms by (simp_all add: ReviseEvidence_def split: if_splits)
  then show i: "serving_identity e = serving_identity d" by (simp add: seal_document_fields) (simp add: serving_identity_def)
  have "interface_present ext d" using e by (auto simp: ValidateDocument_iff)
  then show p: "interface_present ext e" by (simp add: interface_present_cong [OF i])
  then show "ValidateDocument ext e" using document_seal.seal_stable [OF e(4)] by (simp add: ValidateDocument_iff)
qed (use assms in \<open>auto simp: ReviseEvidence_def seal_document_fields split: if_splits\<close>)

lemma ReviseLifecycle_Inr:
  assumes "ReviseLifecycle ext d l n u t p = Inr e"
  shows "ValidateDocument ext d" "ValidateDocument ext e" "interface_present ext e" "serving_identity e = serving_identity d"
    "dc_Lifecycle e = normalizeToken ext l" "dc_VerifiedSuccessCount e = n" "dc_UnsafeOutcomeCount e = u" "validLifecycle (normalizeToken ext l)"
    "dc_ValidationPolicyVersion e = normalizeToken ext p"
proof -
  let ?d = "d\<lparr>dc_Lifecycle := normalizeToken ext l, dc_VerifiedSuccessCount := n, dc_UnsafeOutcomeCount := u,
    dc_ValidatedAt := format_RFC3339Nano ext (time_UTC t), dc_ValidationPolicyVersion := normalizeToken ext p\<rparr>"
  have e: "ValidateDocument ext d" "dc_SchemaVersion d = ''retrieval-document.v2''" "seal_document ext ?d = Inr e"
    using assms by (simp_all add: ReviseLifecycle_def split: if_splits)
  then show i: "serving_identity e = serving_identity d" by (simp add: seal_document_fields) (simp add: serving_identity_def)
  have "interface_present ext d" using e by (auto simp: ValidateDocument_iff)
  then show p: "interface_present ext e" by (simp add: interface_present_cong [OF i])
  then show "ValidateDocument ext e" using document_seal.seal_stable [OF e(3)] by (simp add: ValidateDocument_iff)
qed (use assms in \<open>auto simp: ReviseLifecycle_def seal_document_fields split: if_splits\<close>)

datatype revision =
    EvidenceRevision uint64 uint64 time
  | LifecycleRevision string uint64 uint64 time string

fun revise :: "externals \<Rightarrow> Document \<Rightarrow> revision \<Rightarrow> retrieval_error + Document" where
  "revise ext d (EvidenceRevision n u t) = ReviseEvidence ext d n u t"
| "revise ext d (LifecycleRevision l n u t p) = ReviseLifecycle ext d l n u t p"

lemma revise_Inr:
  assumes "revise ext d r = Inr e" "validLifecycle (dc_Lifecycle d)"
  shows "ValidateDocument ext e \<and> serving_identity e = serving_identity d \<and> validLifecycle (dc_Lifecycle e)"
  using assms by (cases r) (auto simp: ReviseEvidence_Inr ReviseLifecycle_Inr)

lemma revisions_Inr:
  assumes "res_fold (revise ext) d rs = Inr e" "ValidateDocument ext d" "validLifecycle (dc_Lifecycle d)"
  shows "ValidateDocument ext e \<and> serving_identity e = serving_identity d \<and> validLifecycle (dc_Lifecycle e)"
  using assms
proof (induction rs arbitrary: d)
  case (Cons r rs)
  then obtain d1 where d1: "revise ext d r = Inr d1" "res_fold (revise ext) d1 rs = Inr e" by auto
  from revise_Inr [OF d1(1) Cons.prems(3)] Cons.IH [OF d1(2)] show ?case by auto
qed auto

lemma prefixHashes_exact:
  assumes "prefixHashes ext source = Inr hs"
  shows "length hs = min 8 (length source) \<and> (\<forall>i < length hs.
    normalizeToken ext (source ! i) \<noteq> [] \<and> identified ext [] (JArr (map (\<lambda>c. JStr (normalizeToken ext c)) (take (i + 1) source))) (hs ! i))"
proof -
  let ?ids = "map (normalizeToken ext) (take 8 source)"
  have l: "list_all2 (\<lambda>i h. (if ?ids ! i = [] then Inl (DocumentError ErrInvalidDocument)
      else res_bind (document_hash ext (JArr (map JStr (take (i + 1) ?ids)))) (\<lambda>(_, hash). Inr hash)) = Inr h) [0..<length ?ids] hs"
    using assms by (simp add: prefixHashes_def res_map_Inr_iff Let_def split: if_splits)
  then have len: "length hs = min 8 (length source)" by (auto dest: list_all2_lengthD)
  have "normalizeToken ext (source ! i) \<noteq> [] \<and> identified ext [] (JArr (map (\<lambda>c. JStr (normalizeToken ext c)) (take (i + 1) source))) (hs ! i)"
    if "i < length hs" for i
  proof -
    have i: "i < length ?ids" "i < 8" using that len by auto
    then have "take (i + 1) ?ids = map (normalizeToken ext) (take (i + 1) source)" by (simp add: take_map min_def)
    then show ?thesis using list_all2_nthD2 [OF l that] i
      by (auto simp: identified_def document_hash_def comp_def split: if_splits sum.splits prod.splits)
  qed
  with len show ?thesis by blast
qed

lemma normalizeToolRequirements_exact:
  assumes "normalizeToolRequirements ext source = Inr ts"
  shows "strictly_sorted (map tr_Name ts) \<and>
    set ts = (\<lambda>t. \<lparr>tr_Name = normalizeToken ext (tr_Name t), tr_ContractVersionID = normalizeToken ext (tr_ContractVersionID t)\<rparr>) ` set source"
proof -
  let ?es = "map (\<lambda>t. (normalizeToken ext (tr_Name t), normalizeToken ext (tr_ContractVersionID t))) source"
  obtain m where m: "merge_keyed (=) [] ?es = Some m" "ts = map (\<lambda>(n, v). \<lparr>tr_Name = n, tr_ContractVersionID = v\<rparr>) (entries_by m)"
    using assms by (auto simp: normalizeToolRequirements_def Let_def split: if_splits option.splits)
  from merge_keyed_exact [OF m(1)] have s: "set m = set ?es" "distinct (map fst m)" by auto
  have "map tr_Name ts = map fst (entries_by m)" by (simp add: m(2) case_prod_beta)
  moreover have "set ts = (\<lambda>(n, v). \<lparr>tr_Name = n, tr_ContractVersionID = v\<rparr>) ` set ?es" by (simp add: m(2) entries_by_def s(1))
  ultimately show ?thesis using entry_order.keys_strictly_sorted [OF s(2)] by (auto simp: entries_by_def image_image)
qed

lemma BuildDocument_Inr:
  assumes "BuildDocument ext inp = Inr d"
  shows "ValidateDocument ext d" "interface_present ext d" "validLifecycle (dc_Lifecycle d)" "prefixHashes ext (di_OrderedStepContractIDs inp) = Inr (dc_PrefixHashes d)"
    "normalizeToolRequirements ext (di_Tools inp) = Inr (dc_Tools d)" "dc_TenantID d = di_TenantID inp"
    "dc_ProcedureVersionID d = normalizeToken ext (di_ProcedureVersionID inp)" "dc_ProcedureID d = normalizeToken ext (di_ProcedureID inp)"
    "dc_Lifecycle d = normalizeToken ext (di_Lifecycle inp)"
proof -
  obtain tools resources effects env prefixes where t: "document_fields_ok ext inp" "normalizeToolRequirements ext (di_Tools inp) = Inr tools"
      "prefixHashes ext (di_OrderedStepContractIDs inp) = Inr prefixes"
      "seal_document ext (document_of ext inp tools resources effects env prefixes) = Inr d"
    using assms unfolding BuildDocument_def
    by (cases "query_set ext (di_Effects inp)"; cases "normalizeFacts ext (di_Environment inp)") (auto split: if_splits)
  then obtain v where v: "seal_document ext v = Inr d" "interface_present ext v" "validInitialLifecycle (dc_Lifecycle v)"
    "prefixHashes ext (di_OrderedStepContractIDs inp) = Inr (dc_PrefixHashes v)" "normalizeToolRequirements ext (di_Tools inp) = Inr (dc_Tools v)"
    "dc_TenantID v = di_TenantID inp" "dc_ProcedureVersionID v = normalizeToken ext (di_ProcedureVersionID inp)"
    "dc_ProcedureID v = normalizeToken ext (di_ProcedureID inp)" "dc_Lifecycle v = normalizeToken ext (di_Lifecycle inp)"
    using that [of "document_of ext inp tools resources effects env prefixes"]
    by (simp add: document_fields_ok_def interface_present_def document_of_def)
  note f = seal_document_fields [OF v(1)]
  show "interface_present ext d" using v(2) by (simp add: interface_present_def f)
  then show "ValidateDocument ext d" using document_seal.seal_stable [OF v(1)] by (simp add: ValidateDocument_iff)
  show "validLifecycle (dc_Lifecycle d)" using v(3) f by (auto simp: validLifecycle_def validInitialLifecycle_def)
  show "prefixHashes ext (di_OrderedStepContractIDs inp) = Inr (dc_PrefixHashes d)" "normalizeToolRequirements ext (di_Tools inp) = Inr (dc_Tools d)"
    "dc_TenantID d = di_TenantID inp" "dc_ProcedureVersionID d = normalizeToken ext (di_ProcedureVersionID inp)"
    "dc_ProcedureID d = normalizeToken ext (di_ProcedureID inp)" "dc_Lifecycle d = normalizeToken ext (di_Lifecycle inp)"
    by (simp_all add: v f)
qed

text \<open>C11: a retrieval document stays a faithful description of its procedure. Whatever evidence and
  lifecycle revisions a built document goes through, the result passes its own validation (identifier
  and hash are those of its content), has a proper lifecycle state and says the same about the
  procedure; the tools are exactly the normalised ones, each name once, and the prefix hashes are the
  hashes of the first one to eight step contracts in order.\<close>

theorem document_revisions_faithful:
  assumes "BuildDocument ext inp = Inr d" "res_fold (revise ext) d rs = Inr d'"
  shows "ValidateDocument ext d' \<and> validLifecycle (dc_Lifecycle d') \<and> serving_identity d' = serving_identity d \<and>
    strictly_sorted (map tr_Name (dc_Tools d')) \<and>
    set (dc_Tools d') = (\<lambda>t. \<lparr>tr_Name = normalizeToken ext (tr_Name t), tr_ContractVersionID = normalizeToken ext (tr_ContractVersionID t)\<rparr>) ` set (di_Tools inp) \<and>
    length (dc_PrefixHashes d') = min 8 (length (di_OrderedStepContractIDs inp)) \<and>
    (\<forall>i < length (dc_PrefixHashes d'). identified ext []
       (JArr (map (\<lambda>c. JStr (normalizeToken ext c)) (take (i + 1) (di_OrderedStepContractIDs inp)))) (dc_PrefixHashes d' ! i))"
proof -
  note b = BuildDocument_Inr [OF assms(1)]
  from revisions_Inr [OF assms(2) b(1,3)]
  have r: "ValidateDocument ext d'" "serving_identity d' = serving_identity d" "validLifecycle (dc_Lifecycle d')" by auto
  then have "dc_Tools d' = dc_Tools d" "dc_PrefixHashes d' = dc_PrefixHashes d"
    using serving_identity_fields [OF r(2)] by simp_all
  then show ?thesis using r normalizeToolRequirements_exact [OF b(5)] prefixHashes_exact [OF b(4)] by simp
qed

definition sample_interface :: ProcedureInterface where
  "sample_interface = (case NewProcedureInterface sample_externals [] [] of Inr i \<Rightarrow> i
     | Inl _ \<Rightarrow> \<lparr>pi_SchemaVersion = [], pi_ID = [], pi_Requirements = [], pi_Provisions = [], pi_ContentHash = []\<rparr>)"

definition sample_document_input :: "string \<Rightarrow> DocumentInput" where
  "sample_document_input version =
     \<lparr>di_TenantID = ''t'', di_ProcedureVersionID = version, di_ProcedureID = ''proc'', di_TaskText = '' deploy '',
      di_IntentHash = replicate 64 CHR ''0'', di_EffectSignatureHash = replicate 64 CHR ''1'',
      di_Tools = [\<lparr>tr_Name = ''sh'', tr_ContractVersionID = ''2''\<rparr>, \<lparr>tr_Name = ''git'', tr_ContractVersionID = ''1''\<rparr>, \<lparr>tr_Name = '' sh'', tr_ContractVersionID = ''2''\<rparr>],
      di_OrderedStepContractIDs = [''2'', ''1''], di_Resources = [], di_Effects = [''net''], di_EnvironmentScopeHash = replicate 64 CHR ''2'',
      di_Harness = \<lparr>qh_Name = ''h'', qh_Version = []\<rparr>, di_Environment = [], di_Lifecycle = ''candidate'', di_ObservedEndToEnd = True,
      di_VerificationStrength = 3, di_VerifiedSuccessCount = 1, di_UnsafeOutcomeCount = 0, di_ValidatedAt = \<lparr>t_ns = 5, t_zone = 0\<rparr>,
      di_ValidationPolicyVersion = ''p'', di_LearnedWithRecallConsent = True, di_ResidencyRegion = ''eu'', di_RiskClass = ''low'',
      di_Interface = Some sample_interface\<rparr>"

definition sample_document :: "string \<Rightarrow> Document" where
  "sample_document version = (case BuildDocument sample_externals (sample_document_input version) of Inr d \<Rightarrow> d
     | Inl _ \<Rightarrow> document_of sample_externals (sample_document_input []) [] [] [] [] [])"

lemma sample_interface_valid: "ValidateProcedureInterface sample_externals sample_interface"
proof -
  obtain i where i: "NewProcedureInterface sample_externals [] [] = Inr i" "pi_Requirements i = []" "pi_Provisions i = []"
    by (simp add: NewProcedureInterface_def MarshalAndHash_sample Let_def)
  with new_interface_valid [OF digest32_sample stable_tokens_sample i(1)] show ?thesis by (simp add: sample_interface_def)
qed

lemma sample_document_built:
  assumes "normalizeToken sample_externals version \<noteq> []"
  shows "BuildDocument sample_externals (sample_document_input version) = Inr (sample_document version)"
proof -
  let ?i = "sample_document_input []" and ?in = "sample_document_input version"
  have "document_fields_ok sample_externals ?in"
    unfolding document_fields_ok_def sample_document_input_def by (simp add: assms sample_interface_valid, code_simp)
  moreover have "case (normalizeToolRequirements sample_externals (di_Tools ?i), normalizeResourceRequirements sample_externals (di_Resources ?i),
      query_set sample_externals (di_Effects ?i), normalizeFacts sample_externals (di_Environment ?i)) of
    (Inr _, Inr _, Inr _, Inr _) \<Rightarrow> True | _ \<Rightarrow> False"
    unfolding sample_document_input_def DocumentInput.simps by code_simp
  moreover have "normalizeToken sample_externals ''2'' \<noteq> []" "normalizeToken sample_externals ''1'' \<noteq> []" by code_simp+
  then have "\<exists>hs. prefixHashes sample_externals (di_OrderedStepContractIDs ?i) = Inr hs"
    by (simp add: sample_document_input_def prefixHashes_def document_hash_def MarshalAndHash_sample upt_rec)
  moreover have "di_Tools ?in = di_Tools ?i" "di_Resources ?in = di_Resources ?i" "di_Effects ?in = di_Effects ?i"
    "di_Environment ?in = di_Environment ?i" "di_OrderedStepContractIDs ?in = di_OrderedStepContractIDs ?i" "\<not> time_IsZero (di_ValidatedAt ?in)"
    by (simp_all add: sample_document_input_def time_IsZero_def)
  ultimately have "\<exists>d. BuildDocument sample_externals ?in = Inr d"
    by (auto simp: BuildDocument_def seal_document_def MarshalAndHash_sample Let_def split: sum.splits)
  then show ?thesis by (auto simp: sample_document_def)
qed

lemma sample_document: "BuildDocument sample_externals (sample_document_input ''pv'') = Inr (sample_document ''pv'')"
  by (rule sample_document_built) code_simp

lemma revise_sample:
  assumes "ValidateDocument sample_externals d" "interface_present sample_externals d" "\<not> time_IsZero t"
  shows "n \<noteq> 0 \<Longrightarrow> \<exists>e. ReviseEvidence sample_externals d n u t = Inr e"
    and "validLifecycle (normalizeToken sample_externals l) \<Longrightarrow> normalizeToken sample_externals p \<noteq> [] \<Longrightarrow>
      \<exists>e. ReviseLifecycle sample_externals d l n u t p = Inr e"
  using assms
  by (auto simp: ReviseEvidence_def ReviseLifecycle_def interface_present_def seal_document_def MarshalAndHash_sample Let_def)

theorem document_revisions_faithful_witness:
  "\<exists>d'. res_fold (revise sample_externals) (sample_document ''pv'')
       [EvidenceRevision 4 0 \<lparr>t_ns = 7, t_zone = 0\<rparr>, LifecycleRevision ''trial'' 5 1 \<lparr>t_ns = 9, t_zone = 0\<rparr> ''q''] = Inr d' \<and>
     ValidateDocument sample_externals d' \<and> dc_Lifecycle d' = ''trial'' \<and>
     tr_Name ` set (dc_Tools d') = {''git'', ''sh''} \<and> length (dc_PrefixHashes d') = 2"
proof -
  let ?rs = "[EvidenceRevision 4 0 \<lparr>t_ns = 7, t_zone = 0\<rparr>, LifecycleRevision ''trial'' 5 1 \<lparr>t_ns = 9, t_zone = 0\<rparr> ''q'']"
  have c: "normalizeToken sample_externals ''trial'' = ''trial''" "normalizeToken sample_externals ''q'' \<noteq> []" by code_simp+
  note b = BuildDocument_Inr [OF sample_document]
  obtain d1 where d1: "ReviseEvidence sample_externals (sample_document ''pv'') 4 0 \<lparr>t_ns = 7, t_zone = 0\<rparr> = Inr d1"
    using revise_sample(1) [OF b(1,2), of "\<lparr>t_ns = 7, t_zone = 0\<rparr>" 4 0] by (auto simp: time_IsZero_def)
  obtain d' where d': "ReviseLifecycle sample_externals d1 ''trial'' 5 1 \<lparr>t_ns = 9, t_zone = 0\<rparr> ''q'' = Inr d'"
    using revise_sample(2) [OF ReviseEvidence_Inr(2,3) [OF d1], of "\<lparr>t_ns = 9, t_zone = 0\<rparr>" "''trial''" "''q''" 5 1] c
    by (auto simp: time_IsZero_def validLifecycle_def)
  have r: "res_fold (revise sample_externals) (sample_document ''pv'') ?rs = Inr d'" using d1 d' by simp
  have "(\<lambda>t. normalizeToken sample_externals (tr_Name t)) ` set (di_Tools (sample_document_input ''pv'')) = {''git'', ''sh''}" by code_simp
  moreover have "dc_Lifecycle d' = ''trial''" using ReviseLifecycle_Inr(5) [OF d'] c by simp
  ultimately show ?thesis using r document_revisions_faithful [OF sample_document r]
    by (intro exI [of _ d']) (auto simp: image_image sample_document_input_def)
qed

end
