(* ===== verification/Projections.thy ===== *)
theory Projections
  imports Documents Synthesis
begin

text \<open>
  \<^verbatim>\<open>internal/projection\<close>: a synthesis result becomes a projection, the immutable description of a
  procedure family, one of its versions with steps and edges, its interface, a manifest of where it
  came from and the retrieval document it is served under (\<^verbatim>\<open>model.go\<close>). Every identifier is a
  hash of content. \<^verbatim>\<open>Validate\<close> in \<^verbatim>\<open>repository.go\<close> derives all of them again before a repository
  stores a projection.
\<close>

datatype projection_error =
    ErrInvalidBuildRequest
  | ErrInvalidProjection
  | ErrProjectionConflict
  | ErrProjectionNotFound
  | ErrProjectionEncoding canonical_error
  | ErrProjectionQuery query_error
  | ErrProjectionDocument retrieval_error

record ServingMetadata =
  sm_TaskText :: string
  sm_Harness :: query_Harness
  sm_Environment :: "query_Fact list"
  sm_Resources :: "ResourceRequirement list"
  sm_Effects :: "string list"
  sm_RiskClass :: string
  sm_VerificationStrength :: "8 word"
  sm_LearnedWithRecallConsent :: bool
  sm_ResidencyRegion :: string

record projection_BuildRequest =
  br_TenantID :: string
  br_OutcomeID :: string
  br_IntentHash :: string
  br_EffectSignatureHash :: string
  br_EnvironmentScopeHash :: string
  br_ArchiveHash :: string
  br_CanonicalEventStart :: uint32
  br_CanonicalEventEnd :: uint32
  br_CreatedAt :: time
  br_Synthesis :: Result
  br_Serving :: ServingMetadata

record Family =
  fm_ID :: string
  fm_IntentHash :: string
  fm_EffectSignatureHash :: string
  fm_ContentHash :: string

record Version =
  ve_ID :: string
  ve_ProcedureID :: string
  ve_GraphHash :: string
  ve_EnvironmentScopeHash :: string
  ve_PolicyVersion :: string
  ve_ObservedEndToEnd :: bool
  ve_InterfaceHash :: string
  ve_ContentHash :: string

record logicalStep =
  lo_Ordinal :: uint32
  lo_ToolName :: string
  lo_ToolVersion :: string
  lo_ToolContractVersionID :: string
  lo_UncertainNecessity :: bool
  lo_CompensationBoundary :: bool
  lo_SideEffect :: string
  lo_Risk :: string
  lo_Effects :: "string list"
  lo_Preconditions :: "ProcedurePredicate list"
  lo_SuccessPredicates :: "string list"
  lo_VerificationMethods :: "string list"
  lo_Reads :: "ProcedureResource list"
  lo_Writes :: "ProcedureResource list"

text \<open>A stored step is a logical step with an identifier and a hash; a stored edge likewise.\<close>

record projection_Step = logicalStep +
  st_ID :: string
  st_ContentHash :: string

record logicalEdge =
  le_FromOrdinal :: uint32
  le_ToOrdinal :: uint32
  le_Type :: string
  le_ResourceID :: string
  le_ResourceName :: string
  le_ResourceType :: string
  le_ResourceNamespace :: string

record projection_Edge = logicalEdge +
  ee_ID :: string
  ee_ContentHash :: string

record projection_Manifest =
  pt_ID :: string
  pt_TenantID :: string
  pt_OutcomeID :: string
  pt_TraceID :: string
  pt_ProcedureVersionID :: string
  pt_ArchiveHash :: string
  pt_CanonicalEventStart :: uint32
  pt_CanonicalEventEnd :: uint32
  pt_Versions :: Versions
  pt_Status :: string
  pt_AbstentionCode :: string
  pt_SynthesisHash :: string
  pt_ContentHash :: string

text \<open>A projection that abstains has the zero document; the pointer to it is an option here.\<close>

record Projection =
  pj_TenantID :: string
  pj_Family :: Family
  pj_Version :: Version
  pj_Steps :: "projection_Step list"
  pj_Edges :: "projection_Edge list"
  pj_NegativePaths :: "NegativePath list"
  pj_GoalPredicates :: "string list"
  pj_Interface :: ProcedureInterface
  pj_Manifest :: projection_Manifest
  pj_CreatedAt :: time
  pj_CanonicalProjectionJSON :: string
  pj_RetrievalDocument :: "Document option"

section \<open>JSON\<close>

definition json_logical_fields :: "'a logicalStep_scheme \<Rightarrow> (string \<times> json) list" where
  "json_logical_fields s =
     [(''ordinal'', JNum (uint (lo_Ordinal s))), (''tool_name'', JStr (lo_ToolName s))] @ omit_str ''tool_version'' (lo_ToolVersion s) @
     [(''tool_contract_version_id'', JStr (lo_ToolContractVersionID s)), (''uncertain_necessity'', JBool (lo_UncertainNecessity s)),
      (''compensation_boundary'', JBool (lo_CompensationBoundary s)), (''side_effect'', JStr (lo_SideEffect s)), (''risk'', JStr (lo_Risk s))] @
     omit_strs ''effects'' (lo_Effects s) @ omit_list ''preconditions'' json_procedure_predicate (lo_Preconditions s) @
     omit_strs ''success_predicates'' (lo_SuccessPredicates s) @ omit_strs ''verification_methods'' (lo_VerificationMethods s) @
     omit_list ''reads'' json_procedure_resource (lo_Reads s) @ omit_list ''writes'' json_procedure_resource (lo_Writes s)"

definition json_logical_step :: "logicalStep \<Rightarrow> json" where
  "json_logical_step s = JObj (json_logical_fields s)"

definition json_projection_step :: "projection_Step \<Rightarrow> json" where
  "json_projection_step s = JObj ([(''id'', JStr (st_ID s))] @ json_logical_fields s @ [(''content_hash'', JStr (st_ContentHash s))])"

definition json_edge_fields :: "'a logicalEdge_scheme \<Rightarrow> (string \<times> json) list" where
  "json_edge_fields e =
     [(''from_ordinal'', JNum (uint (le_FromOrdinal e))), (''to_ordinal'', JNum (uint (le_ToOrdinal e))), (''type'', JStr (le_Type e))] @
     omit_str ''resource_id'' (le_ResourceID e) @ omit_str ''resource_name'' (le_ResourceName e) @
     omit_str ''resource_type'' (le_ResourceType e) @ omit_str ''resource_namespace'' (le_ResourceNamespace e)"

definition json_logical_edge :: "logicalEdge \<Rightarrow> json" where
  "json_logical_edge e = JObj (json_edge_fields e)"

definition json_projection_edge :: "projection_Edge \<Rightarrow> json" where
  "json_projection_edge e = JObj ([(''id'', JStr (ee_ID e))] @ json_edge_fields e @ [(''content_hash'', JStr (ee_ContentHash e))])"

definition json_family :: "Family \<Rightarrow> json" where
  "json_family f = JObj [(''id'', JStr (fm_ID f)), (''intent_hash'', JStr (fm_IntentHash f)),
     (''effect_signature_hash'', JStr (fm_EffectSignatureHash f)), (''content_hash'', JStr (fm_ContentHash f))]"

definition json_version :: "Version \<Rightarrow> json" where
  "json_version v = JObj [(''id'', JStr (ve_ID v)), (''procedure_id'', JStr (ve_ProcedureID v)), (''graph_hash'', JStr (ve_GraphHash v)),
     (''environment_scope_hash'', JStr (ve_EnvironmentScopeHash v)), (''policy_version'', JStr (ve_PolicyVersion v)),
     (''observed_end_to_end'', JBool (ve_ObservedEndToEnd v)), (''interface_hash'', JStr (ve_InterfaceHash v)),
     (''content_hash'', JStr (ve_ContentHash v))]"

definition json_manifest :: "projection_Manifest \<Rightarrow> json" where
  "json_manifest m = JObj
     ([(''id'', JStr (pt_ID m)), (''tenant_id'', JStr (pt_TenantID m)), (''outcome_id'', JStr (pt_OutcomeID m)), (''trace_id'', JStr (pt_TraceID m))] @
      omit_str ''procedure_version_id'' (pt_ProcedureVersionID m) @
      [(''archive_hash'', JStr (pt_ArchiveHash m)), (''canonical_event_start'', JNum (uint (pt_CanonicalEventStart m))),
       (''canonical_event_end'', JNum (uint (pt_CanonicalEventEnd m))), (''versions'', json_versions (pt_Versions m)), (''status'', JStr (pt_Status m))] @
      omit_str ''abstention_code'' (pt_AbstentionCode m) @
      [(''synthesis_hash'', JStr (pt_SynthesisHash m)), (''content_hash'', JStr (pt_ContentHash m))])"

text \<open>The anonymous structs that are hashed: the identity of a family, of a version, of a step and of an edge, the logical graph, the projection.\<close>

definition json_family_identity :: "string \<Rightarrow> string \<Rightarrow> string \<Rightarrow> json" where
  "json_family_identity tenantID intentHash effectSignatureHash = JObj
     [(''tenant_id'', JStr tenantID), (''intent_hash'', JStr intentHash), (''effect_signature_hash'', JStr effectSignatureHash)]"

definition json_version_identity :: "string \<Rightarrow> string \<Rightarrow> string \<Rightarrow> string \<Rightarrow> bool \<Rightarrow> string \<Rightarrow> json" where
  "json_version_identity tenantID procedureID graphHash policyVersion observedEndToEnd interfaceHash = JObj
     [(''tenant_id'', JStr tenantID), (''procedure_id'', JStr procedureID), (''graph_hash'', JStr graphHash),
      (''policy_version'', JStr policyVersion), (''observed_end_to_end'', JBool observedEndToEnd), (''interface_hash'', JStr interfaceHash)]"

definition json_step_identity :: "string \<Rightarrow> logicalStep \<Rightarrow> json" where
  "json_step_identity versionID s = JObj [(''version_id'', JStr versionID), (''step'', json_logical_step s)]"

definition json_edge_identity :: "string \<Rightarrow> logicalEdge \<Rightarrow> json" where
  "json_edge_identity versionID e = JObj [(''version_id'', JStr versionID), (''edge'', json_logical_edge e)]"

definition json_logical_graph :: "logicalStep list \<Rightarrow> logicalEdge list \<Rightarrow> string list \<Rightarrow> string \<Rightarrow> json" where
  "json_logical_graph steps edges goals environmentScopeHash = JObj
     ([(''steps'', JArr (map json_logical_step steps))] @ omit_list ''edges'' json_logical_edge edges @
      [(''goal_predicates'', JArr (map JStr goals)), (''environment_scope_hash'', JStr environmentScopeHash)])"

definition json_canonical_projection ::
  "Family \<Rightarrow> Version \<Rightarrow> projection_Step list \<Rightarrow> projection_Edge list \<Rightarrow> ProcedureInterface \<Rightarrow> json" where
  "json_canonical_projection family version steps edges i = JObj
     ([(''family'', json_family family), (''version'', json_version version), (''steps'', JArr (map json_projection_step steps))] @
      omit_list ''edges'' json_projection_edge edges @ [(''interface'', json_interface i)])"

section \<open>The interface of a procedure\<close>

definition stepHasResource :: "ProcedureResource list \<Rightarrow> string \<Rightarrow> bool" where
  "stepHasResource resources ident \<longleftrightarrow> list_ex (\<lambda>r. pr_ID r = ident) resources"

definition procedureResourceKey :: "ProcedureResource \<Rightarrow> string" where
  "procedureResourceKey r = pr_Type r @ NUL @ pr_Namespace r @ NUL @ pr_IdentityHash r @ NUL @ pr_SchemaVersion r"

definition canonicalProjectionStrings :: "string list \<Rightarrow> string list" where
  "canonicalProjectionStrings source = sorted_keys (filter (\<lambda>item. item \<noteq> []) source)"

text \<open>\<^verbatim>\<open>byEvent\<close> and \<^verbatim>\<open>ordinals\<close>: the last entry for a key stays.\<close>

definition by_event :: "ProcedureStep list \<Rightarrow> string \<rightharpoonup> ProcedureStep" where
  "by_event steps = map_of (rev (map (\<lambda>s. (ps_EventID s, s)) steps))"

text \<open>The keys that the resource flow edges put into \<^verbatim>\<open>internalRead\<close> and \<^verbatim>\<open>consumedWrite\<close>.\<close>

definition flow_keys :: "ProcedureStep list \<Rightarrow> Edge list \<Rightarrow> projection_error + (string \<times> string) list" where
  "flow_keys steps edges =
     res_map (\<lambda>e. case (by_event steps (eg_From e), by_event steps (eg_To e)) of
         (Some source, Some target) \<Rightarrow>
           if \<not> stepHasResource (ps_Writes source) (eg_ResourceID e) \<or> \<not> stepHasResource (ps_Reads target) (eg_ResourceID e)
           then Inl ErrInvalidBuildRequest
           else Inr (eg_To e @ NUL @ eg_ResourceID e, eg_From e @ NUL @ eg_ResourceID e)
       | _ \<Rightarrow> Inl ErrInvalidBuildRequest)
       (filter (\<lambda>e. eg_Type e = EdgeResourceFlow \<and> eg_ResourceID e \<noteq> []) edges)"

definition zero_requirement :: ProcedureRequirement where
  "zero_requirement = \<lparr>rq_ID = [], rq_ResourceType = [], rq_Namespace = [], rq_IdentityHash = [], rq_SchemaVersion = [],
     rq_AccessMode = [], rq_PredicateIDs = []\<rparr>"

definition add_requirement ::
  "string list \<Rightarrow> ProcedureStep \<Rightarrow> ProcedureResource \<Rightarrow> (string \<times> ProcedureRequirement) list \<Rightarrow> (string \<times> ProcedureRequirement) list" where
  "add_requirement internalRead step resource requirements =
     (if ps_EventID step @ NUL @ pr_ID resource \<in> set internalRead then requirements
      else let key = procedureResourceKey resource;
               prior = (case map_of requirements key of None \<Rightarrow> zero_requirement | Some r \<Rightarrow> r);
               predicates = filter (\<lambda>p. pp_ResourceName p = [] \<or> pp_ResourceName p = pr_Name resource) (ps_Preconditions step)
        in AList.update key
             (prior\<lparr>rq_ResourceType := pr_Type resource, rq_Namespace := pr_Namespace resource, rq_IdentityHash := pr_IdentityHash resource,
                rq_SchemaVersion := pr_SchemaVersion resource, rq_AccessMode := ''read'',
                rq_PredicateIDs := canonicalProjectionStrings (rq_PredicateIDs prior @ map pp_ID predicates)\<rparr>) requirements)"

type_synonym provisions = "(string \<times> string \<times> ProcedureProvision) list"

text \<open>\<^verbatim>\<open>provisionOwner\<close> and \<^verbatim>\<open>provisions\<close> have the same keys and are one map here.\<close>

definition add_provision ::
  "string list \<Rightarrow> ProcedureStep \<Rightarrow> provisions \<Rightarrow> ProcedureResource \<Rightarrow> projection_error + provisions" where
  "add_provision consumedWrite step provisions resource =
     (if ps_EventID step @ NUL @ pr_ID resource \<in> set consumedWrite then Inr provisions
      else let key = procedureResourceKey resource
        in if (case map_of provisions key of None \<Rightarrow> False | Some (owner, _) \<Rightarrow> owner \<noteq> ps_EventID step) then Inl ErrInvalidBuildRequest
           else Inr (AList.update key (ps_EventID step,
             \<lparr>pv_ID = [], pv_ResourceType = pr_Type resource, pv_Namespace = pr_Namespace resource, pv_IdentityHash = pr_IdentityHash resource,
              pv_SchemaVersion = pr_SchemaVersion resource, pv_ProducedEffects = canonicalProjectionStrings (ps_Effects step),
              pv_SuccessPredicateIDs = canonicalProjectionStrings (ps_SuccessPredicates step)\<rparr>) provisions))"

definition interface_step ::
  "string list \<Rightarrow> string list \<Rightarrow> (string \<times> ProcedureRequirement) list \<times> provisions \<Rightarrow> ProcedureStep \<Rightarrow>
   projection_error + (string \<times> ProcedureRequirement) list \<times> provisions" where
  "interface_step internalRead consumedWrite s step =
     res_bind (res_fold (add_provision consumedWrite step) (snd s) (ps_Writes step)) (\<lambda>provisions.
       Inr (fold (add_requirement internalRead step) (ps_Reads step) (fst s), provisions))"

definition buildProcedureInterface :: "externals \<Rightarrow> ProcedureStep list \<Rightarrow> Edge list \<Rightarrow> projection_error + ProcedureInterface" where
  "buildProcedureInterface ext steps edges =
     res_bind (flow_keys steps edges) (\<lambda>keys.
     res_bind (res_fold (interface_step (map fst keys) (map snd keys)) ([], []) steps) (\<lambda>(requirements, provisions).
     case NewProcedureInterface ext (map snd requirements) (map (\<lambda>(_, _, p). p) provisions) of
       Inl e \<Rightarrow> Inl (ErrProjectionDocument (DocumentError e))
     | Inr i \<Rightarrow> Inr i))"

section \<open>Building\<close>

text \<open>\<^verbatim>\<open>%0wd\<close> of a number with at most \<^verbatim>\<open>w\<close> digits.\<close>

fun padded :: "nat \<Rightarrow> nat \<Rightarrow> string" where
  "padded 0 n = []"
| "padded (Suc w) n = padded w (n div 10) @ [char_of (48 + n mod 10)]"

definition logical_edge_key :: "logicalEdge \<Rightarrow> string" where
  "logical_edge_key e =
     padded 10 (unat (le_FromOrdinal e)) @ NUL @ padded 10 (unat (le_ToOrdinal e)) @ NUL @ le_Type e @ NUL @ le_ResourceID e @ NUL @
     le_ResourceNamespace e @ NUL @ le_ResourceType e @ NUL @ le_ResourceName e"

definition sort_logical_edges :: "logicalEdge list \<Rightarrow> logicalEdge list" where
  "sort_logical_edges es = sort_slice (\<lambda>a b. logical_edge_key a < logical_edge_key b) es"

definition logical_step :: "ProcedureStep \<Rightarrow> logicalStep" where
  "logical_step source =
     \<lparr>lo_Ordinal = ps_Ordinal source, lo_ToolName = ps_ToolName source, lo_ToolVersion = ps_ToolVersion source,
      lo_ToolContractVersionID = ps_ToolContractVersionID source, lo_UncertainNecessity = ps_UncertainNecessity source,
      lo_CompensationBoundary = ps_CompensationBoundary source, lo_SideEffect = ps_SideEffect source, lo_Risk = ps_Risk source,
      lo_Effects = ps_Effects source, lo_Preconditions = ps_Preconditions source, lo_SuccessPredicates = ps_SuccessPredicates source,
      lo_VerificationMethods = ps_VerificationMethods source, lo_Reads = ps_Reads source, lo_Writes = ps_Writes source\<rparr>"

definition logical_steps :: "ProcedureStep list \<Rightarrow> projection_error + logicalStep list" where
  "logical_steps steps =
     (if list_all (\<lambda>(index, s). ps_Ordinal s = of_nat index \<and> ps_EventID s \<noteq> [] \<and> ps_ToolContractVersionID s \<noteq> []) (enumerate 0 steps)
      then Inr (map logical_step steps) else Inl ErrInvalidBuildRequest)"

definition logical_edge :: "ProcedureStep list \<Rightarrow> Edge \<Rightarrow> projection_error + logicalEdge" where
  "logical_edge steps source =
     (case (by_event steps (eg_From source), by_event steps (eg_To source)) of
        (Some a, Some b) \<Rightarrow>
          if ps_Ordinal a \<ge> ps_Ordinal b then Inl ErrInvalidBuildRequest
          else Inr \<lparr>le_FromOrdinal = ps_Ordinal a, le_ToOrdinal = ps_Ordinal b, le_Type = eg_Type source, le_ResourceID = eg_ResourceID source,
                    le_ResourceName = eg_ResourceName source, le_ResourceType = eg_ResourceType source,
                    le_ResourceNamespace = eg_ResourceNamespace source\<rparr>
      | _ \<Rightarrow> Inl ErrInvalidBuildRequest)"

definition projection_hash :: "externals \<Rightarrow> json \<Rightarrow> projection_error + string \<times> string" where
  "projection_hash ext v = (case MarshalAndHash ext v of Inl e \<Rightarrow> Inl (ErrProjectionEncoding e) | Inr r \<Rightarrow> Inr r)"

definition seal_step :: "externals \<Rightarrow> string \<Rightarrow> logicalStep \<Rightarrow> projection_error + projection_Step" where
  "seal_step ext versionID logical =
     res_bind (projection_hash ext (json_step_identity versionID logical)) (\<lambda>(_, hash).
       Inr (logicalStep.extend logical (projection_Step.fields (''step_'' @ hash) hash)))"

definition seal_edge :: "externals \<Rightarrow> string \<Rightarrow> logicalEdge \<Rightarrow> projection_error + projection_Edge" where
  "seal_edge ext versionID logical =
     res_bind (projection_hash ext (json_edge_identity versionID logical)) (\<lambda>(_, hash).
       Inr (logicalEdge.extend logical (projection_Edge.fields (''edge_'' @ hash) hash)))"

definition buildProcedure ::
  "externals \<Rightarrow> projection_BuildRequest \<Rightarrow> projection_error + Family \<times> Version \<times> projection_Step list \<times> projection_Edge list \<times> ProcedureInterface \<times> string" where
  "buildProcedure ext request =
     (let synthesis = br_Synthesis request in
      res_bind (projection_hash ext (json_family_identity (br_TenantID request) (br_IntentHash request) (br_EffectSignatureHash request))) (\<lambda>(_, familyHash).
      let family = \<lparr>fm_ID = ''proc_'' @ familyHash, fm_IntentHash = br_IntentHash request,
                    fm_EffectSignatureHash = br_EffectSignatureHash request, fm_ContentHash = familyHash\<rparr> in
      res_bind (logical_steps (sr_Steps synthesis)) (\<lambda>logicalSteps.
      res_bind (res_map (logical_edge (sr_Steps synthesis)) (sr_Edges synthesis)) (\<lambda>unsorted.
      let logicalEdges = sort_logical_edges unsorted in
      res_bind (buildProcedureInterface ext (sr_Steps synthesis) (sr_Edges synthesis)) (\<lambda>procedureInterface.
      let goals = sort_slice (<) (sr_GoalPredicates synthesis) in
      res_bind (projection_hash ext (json_logical_graph logicalSteps logicalEdges goals (br_EnvironmentScopeHash request))) (\<lambda>(_, graphHash).
      res_bind (projection_hash ext (json_version_identity (br_TenantID request) (fm_ID family) graphHash (vs_Policy (sr_Versions synthesis))
                  (sr_ObservedEndToEnd synthesis) (pi_ContentHash procedureInterface))) (\<lambda>(_, versionHash).
      let version = \<lparr>ve_ID = ''pv_'' @ versionHash, ve_ProcedureID = fm_ID family, ve_GraphHash = graphHash,
                     ve_EnvironmentScopeHash = br_EnvironmentScopeHash request, ve_PolicyVersion = vs_Policy (sr_Versions synthesis),
                     ve_ObservedEndToEnd = sr_ObservedEndToEnd synthesis, ve_InterfaceHash = pi_ContentHash procedureInterface,
                     ve_ContentHash = versionHash\<rparr> in
      res_bind (res_map (seal_step ext (ve_ID version)) logicalSteps) (\<lambda>steps.
      res_bind (res_map (seal_edge ext (ve_ID version)) logicalEdges) (\<lambda>edges.
      res_bind (projection_hash ext (json_canonical_projection family version steps edges procedureInterface)) (\<lambda>(encoded, _).
      Inr (family, version, steps, edges, procedureInterface, encoded)))))))))))"

definition cloneNegativePaths :: "NegativePath list \<Rightarrow> NegativePath list" where
  "cloneNegativePaths source = sort_slice (\<lambda>a b. np_ID a < np_ID b) source"

definition request_ok :: "projection_BuildRequest \<Rightarrow> bool" where
  "request_ok r \<longleftrightarrow>
     br_TenantID r \<noteq> [] \<and> br_OutcomeID r \<noteq> [] \<and> hashPattern (br_ArchiveHash r) \<and> hashPattern (br_IntentHash r) \<and>
     hashPattern (br_EffectSignatureHash r) \<and> hashPattern (br_EnvironmentScopeHash r) \<and> sr_Hash (br_Synthesis r) \<noteq> [] \<and>
     sr_TraceID (br_Synthesis r) \<noteq> [] \<and> \<not> br_CanonicalEventEnd r < br_CanonicalEventStart r \<and> \<not> time_IsZero (br_CreatedAt r)"

definition serving_input :: "projection_BuildRequest \<Rightarrow> Family \<Rightarrow> Version \<Rightarrow> projection_Step list \<Rightarrow> ProcedureInterface \<Rightarrow> DocumentInput" where
  "serving_input request family version steps procedureInterface =
     (let serving = br_Serving request in
      \<lparr>di_TenantID = br_TenantID request, di_ProcedureVersionID = ve_ID version, di_ProcedureID = fm_ID family,
       di_TaskText = sm_TaskText serving, di_IntentHash = fm_IntentHash family, di_EffectSignatureHash = fm_EffectSignatureHash family,
       di_Tools = map (\<lambda>s. \<lparr>tr_Name = lo_ToolName s, tr_ContractVersionID = lo_ToolContractVersionID s\<rparr>) steps,
       di_OrderedStepContractIDs = map lo_ToolContractVersionID steps, di_Resources = sm_Resources serving, di_Effects = sm_Effects serving,
       di_EnvironmentScopeHash = ve_EnvironmentScopeHash version, di_Harness = sm_Harness serving, di_Environment = sm_Environment serving,
       di_Lifecycle = ''candidate'', di_ObservedEndToEnd = ve_ObservedEndToEnd version,
       di_VerificationStrength = sm_VerificationStrength serving, di_VerifiedSuccessCount = 1, di_UnsafeOutcomeCount = 0,
       di_ValidatedAt = br_CreatedAt request, di_ValidationPolicyVersion = ve_PolicyVersion version,
       di_LearnedWithRecallConsent = sm_LearnedWithRecallConsent serving, di_ResidencyRegion = sm_ResidencyRegion serving,
       di_RiskClass = sm_RiskClass serving, di_Interface = Some procedureInterface\<rparr>)"

definition zero_projection :: "projection_BuildRequest \<Rightarrow> Projection" where
  "zero_projection request =
     \<lparr>pj_TenantID = br_TenantID request,
      pj_Family = \<lparr>fm_ID = [], fm_IntentHash = [], fm_EffectSignatureHash = [], fm_ContentHash = []\<rparr>,
      pj_Version = \<lparr>ve_ID = [], ve_ProcedureID = [], ve_GraphHash = [], ve_EnvironmentScopeHash = [], ve_PolicyVersion = [],
                    ve_ObservedEndToEnd = False, ve_InterfaceHash = [], ve_ContentHash = []\<rparr>,
      pj_Steps = [], pj_Edges = [], pj_NegativePaths = cloneNegativePaths (sr_NegativePaths (br_Synthesis request)), pj_GoalPredicates = [],
      pj_Interface = \<lparr>pi_SchemaVersion = [], pi_ID = [], pi_Requirements = [], pi_Provisions = [], pi_ContentHash = []\<rparr>,
      pj_Manifest = \<lparr>pt_ID = [], pt_TenantID = [], pt_OutcomeID = [], pt_TraceID = [], pt_ProcedureVersionID = [], pt_ArchiveHash = [],
                     pt_CanonicalEventStart = 0, pt_CanonicalEventEnd = 0, pt_Versions = sr_Versions (br_Synthesis request), pt_Status = [],
                     pt_AbstentionCode = [], pt_SynthesisHash = [], pt_ContentHash = []\<rparr>,
      pj_CreatedAt = time_UTC (br_CreatedAt request), pj_CanonicalProjectionJSON = [], pj_RetrievalDocument = None\<rparr>"

definition build_manifest :: "externals \<Rightarrow> projection_BuildRequest \<Rightarrow> Projection \<Rightarrow> projection_error + Projection" where
  "build_manifest ext request projection =
     (let synthesis = br_Synthesis request;
          manifest = \<lparr>pt_ID = [], pt_TenantID = br_TenantID request, pt_OutcomeID = br_OutcomeID request, pt_TraceID = sr_TraceID synthesis,
            pt_ProcedureVersionID = ve_ID (pj_Version projection), pt_ArchiveHash = br_ArchiveHash request,
            pt_CanonicalEventStart = br_CanonicalEventStart request, pt_CanonicalEventEnd = br_CanonicalEventEnd request,
            pt_Versions = sr_Versions synthesis, pt_Status = sr_Status synthesis, pt_AbstentionCode = sr_AbstentionCode synthesis,
            pt_SynthesisHash = sr_Hash synthesis, pt_ContentHash = []\<rparr>
      in res_bind (projection_hash ext (json_manifest manifest)) (\<lambda>(_, hash).
           Inr (projection\<lparr>pj_Manifest := manifest\<lparr>pt_ID := ''syn_'' @ hash, pt_ContentHash := hash\<rparr>\<rparr>)))"

definition projection_Build :: "externals \<Rightarrow> projection_BuildRequest \<Rightarrow> projection_error + Projection" where
  "projection_Build ext request =
     (let synthesis = br_Synthesis request in
      if \<not> request_ok request then Inl ErrInvalidBuildRequest
      else if sr_Status synthesis = StatusSynthesized then
        (if sr_Steps synthesis = [] then Inl ErrInvalidBuildRequest
         else case CanonicalIntentHash ext (sm_TaskText (br_Serving request)) (sm_Harness (br_Serving request)) of
           Inl _ \<Rightarrow> Inl ErrInvalidBuildRequest
         | Inr servingIntentHash \<Rightarrow>
             if servingIntentHash \<noteq> br_IntentHash request then Inl ErrInvalidBuildRequest
             else res_bind (buildProcedure ext request) (\<lambda>(family, version, steps, edges, procedureInterface, canonicalJSON).
               case BuildDocument ext (serving_input request family version steps procedureInterface) of
                 Inl e \<Rightarrow> Inl (ErrProjectionDocument e)
               | Inr document \<Rightarrow> build_manifest ext request
                   ((zero_projection request)\<lparr>pj_Family := family, pj_Version := version, pj_Steps := steps, pj_Edges := edges,
                      pj_GoalPredicates := sort_slice (<) (sr_GoalPredicates synthesis), pj_Interface := procedureInterface,
                      pj_CanonicalProjectionJSON := canonicalJSON, pj_RetrievalDocument := Some document\<rparr>)))
      else if sr_Status synthesis \<noteq> StatusAbstained \<or> sr_AbstentionCode synthesis = [] then Inl ErrInvalidBuildRequest
      else build_manifest ext request (zero_projection request))"

section \<open>Validation\<close>

definition validateManifest :: "externals \<Rightarrow> projection_Manifest \<Rightarrow> bool" where
  "validateManifest ext manifest =
     (case MarshalAndHash ext (json_manifest (manifest\<lparr>pt_ID := [], pt_ContentHash := []\<rparr>)) of
        Inl _ \<Rightarrow> False
      | Inr (_, hash) \<Rightarrow> pt_ID manifest = ''syn_'' @ hash \<and> pt_ContentHash manifest = hash)"

definition valid_negative_path :: "externals \<Rightarrow> NegativePath \<Rightarrow> bool" where
  "valid_negative_path ext path \<longleftrightarrow>
     np_ID path \<noteq> [] \<and> np_FailurePredicateID path \<noteq> [] \<and> np_EventIDs path \<noteq> [] \<and> scope_Valid (np_Scope path) \<and>
     identified ext ''neg_'' (json_negative_path (path\<lparr>np_ID := []\<rparr>)) (np_ID path) \<and> list_all (\<lambda>e. e \<noteq> []) (np_EventIDs path)"

definition valid_step :: "externals \<Rightarrow> string \<Rightarrow> projection_Step \<Rightarrow> bool" where
  "valid_step ext versionID s =
     (case MarshalAndHash ext (json_step_identity versionID (logicalStep.truncate s)) of
        Inl _ \<Rightarrow> False | Inr (_, hash) \<Rightarrow> st_ID s = ''step_'' @ hash \<and> st_ContentHash s = hash)"

definition valid_edge :: "externals \<Rightarrow> string \<Rightarrow> logicalEdge \<Rightarrow> projection_Edge \<Rightarrow> bool" where
  "valid_edge ext versionID logical e =
     (case MarshalAndHash ext (json_edge_identity versionID logical) of
        Inl _ \<Rightarrow> False | Inr (_, hash) \<Rightarrow> ee_ID e = ''edge_'' @ hash \<and> ee_ContentHash e = hash)"

definition validateProcedureProjection :: "externals \<Rightarrow> Projection \<Rightarrow> bool" where
  "validateProcedureProjection ext v \<longleftrightarrow>
     (let family = pj_Family v; version = pj_Version v; steps = map logicalStep.truncate (pj_Steps v);
          edges = sort_logical_edges (map logicalEdge.truncate (pj_Edges v)); goals = sort_slice (<) (pj_GoalPredicates v)
      in (case MarshalAndHash ext (json_family_identity (pj_TenantID v) (fm_IntentHash family) (fm_EffectSignatureHash family)) of
            Inl _ \<Rightarrow> False | Inr (_, hash) \<Rightarrow> fm_ID family = ''proc_'' @ hash \<and> fm_ContentHash family = hash) \<and>
         list_all (valid_step ext (ve_ID version)) (pj_Steps v) \<and>
         list_all2 (valid_edge ext (ve_ID version)) edges (pj_Edges v) \<and>
         (case MarshalAndHash ext (json_logical_graph steps edges goals (ve_EnvironmentScopeHash version)) of
            Inl _ \<Rightarrow> False
          | Inr (_, graphHash) \<Rightarrow>
              ve_GraphHash version = graphHash \<and>
              (case MarshalAndHash ext (json_version_identity (pj_TenantID v) (fm_ID family) graphHash (ve_PolicyVersion version)
                      (ve_ObservedEndToEnd version) (ve_InterfaceHash version)) of
                 Inl _ \<Rightarrow> False
               | Inr (_, hash) \<Rightarrow> ve_ID version = ''pv_'' @ hash \<and> ve_ContentHash version = hash)) \<and>
         ve_InterfaceHash version = pi_ContentHash (pj_Interface v) \<and> ValidateProcedureInterface ext (pj_Interface v) \<and>
         (case MarshalAndHash ext (json_canonical_projection family version (pj_Steps v) (pj_Edges v) (pj_Interface v)) of
            Inl _ \<Rightarrow> False | Inr (encoded, _) \<Rightarrow> encoded = pj_CanonicalProjectionJSON v))"

definition valid_document_of :: "externals \<Rightarrow> Projection \<Rightarrow> bool" where
  "valid_document_of ext v =
     (case pj_RetrievalDocument v of
        None \<Rightarrow> False
      | Some d \<Rightarrow> ValidateDocument ext d \<and> dc_TenantID d = pj_TenantID v \<and> dc_ProcedureVersionID d = ve_ID (pj_Version v) \<and>
          dc_ProcedureID d = fm_ID (pj_Family v))"

definition projection_Validate :: "externals \<Rightarrow> Projection \<Rightarrow> bool" where
  "projection_Validate ext v \<longleftrightarrow>
     (let manifest = pj_Manifest v; count = (of_nat (length (pj_Steps v)) :: uint32) in
      pj_TenantID v \<noteq> [] \<and> pt_ID manifest \<noteq> [] \<and> pt_TenantID manifest = pj_TenantID v \<and> pt_ContentHash manifest \<noteq> [] \<and>
      \<not> time_IsZero (pj_CreatedAt v) \<and>
      (if pt_Status manifest = ''abstained'' then
         pt_AbstentionCode manifest \<noteq> [] \<and> ve_ID (pj_Version v) = [] \<and> pj_Steps v = [] \<and> pj_CanonicalProjectionJSON v = [] \<and>
         validateManifest ext manifest
       else
         pt_Status manifest = ''synthesized'' \<and> fm_ID (pj_Family v) \<noteq> [] \<and> ve_ID (pj_Version v) \<noteq> [] \<and>
         ve_ProcedureID (pj_Version v) = fm_ID (pj_Family v) \<and> pt_ProcedureVersionID manifest = ve_ID (pj_Version v) \<and>
         pj_Steps v \<noteq> [] \<and> pj_CanonicalProjectionJSON v \<noteq> [] \<and> valid_document_of ext v \<and>
         list_all (\<lambda>(index, s). st_ID s \<noteq> [] \<and> lo_Ordinal s = of_nat index \<and> st_ContentHash s \<noteq> []) (enumerate 0 (pj_Steps v)) \<and>
         list_all (\<lambda>e. ee_ID e \<noteq> [] \<and> le_FromOrdinal e < count \<and> le_ToOrdinal e < count \<and> le_FromOrdinal e < le_ToOrdinal e) (pj_Edges v) \<and>
         list_all (valid_negative_path ext) (pj_NegativePaths v) \<and>
         validateManifest ext manifest \<and> validateProcedureProjection ext v))"

end
