(* ===== verification/Projection_Roundtrip.thy ===== *)
theory Projection_Roundtrip
  imports Projections
begin

text \<open>
  What \<^verbatim>\<open>Build\<close> produces, \<^verbatim>\<open>Validate\<close> accepts: both sides derive the same identifiers for family,
  version, steps, edges, manifest and document.
\<close>

section \<open>What the code relies on\<close>

text \<open>Visible ASCII text is in normal form, and the canonical encoding of a value is not empty.\<close>

definition ascii_normal :: "externals \<Rightarrow> bool" where
  "ascii_normal ext \<longleftrightarrow> (\<forall>s. list_all visible_char s \<longrightarrow> norm_NFC ext s = s)"

definition nonempty_encoding :: "externals \<Rightarrow> bool" where
  "nonempty_encoding ext \<longleftrightarrow> (\<forall>v c h. MarshalAndHash ext v = Inr (c, h) \<longrightarrow> c \<noteq> [])"

lemma normalizeToken_hash_suffix:
  assumes "ascii_normal ext" "list_all visible_char p" "hashPattern h"
  shows "normalizeToken ext (p @ h) = p @ h"
proof -
  have "list_all visible_char h"
    using assms(3) list_all_hex_token [of h] by (auto simp: hashPattern_def list_all_iff intro!: is_token_visible)
  then show ?thesis using assms(1,2) by (simp add: normalizeToken_def TrimSpace_visible ascii_normal_def)
qed

lemma projection_hash_Inr [simp]: "projection_hash ext v = Inr r \<longleftrightarrow> MarshalAndHash ext v = Inr r"
  by (auto simp: projection_hash_def split: sum.splits)

section \<open>Steps and edges\<close>

lemma seal_step_Inr:
  assumes "seal_step ext ver l = Inr s" "digest32 ext"
  shows "logicalStep.truncate s = l" "valid_step ext ver s" "st_ID s \<noteq> []" "st_ContentHash s \<noteq> []" "lo_Ordinal s = lo_Ordinal l"
    "lo_ToolName s = lo_ToolName l" "lo_ToolContractVersionID s = lo_ToolContractVersionID l"
proof -
  obtain c h where h: "MarshalAndHash ext (json_step_identity ver l) = Inr (c, h)"
      "s = logicalStep.extend l (projection_Step.fields (''step_'' @ h) h)"
    using assms(1) by (auto simp: seal_step_def)
  then show t: "logicalStep.truncate s = l" by (cases l) (simp add: logicalStep.defs projection_Step.defs)
  have s: "st_ID s = ''step_'' @ h" "st_ContentHash s = h" "lo_Ordinal s = lo_Ordinal l" "lo_ToolName s = lo_ToolName l"
    "lo_ToolContractVersionID s = lo_ToolContractVersionID l"
    by (simp_all add: h(2) logicalStep.defs projection_Step.defs)
  then show "valid_step ext ver s" "st_ID s \<noteq> []" "lo_Ordinal s = lo_Ordinal l" "lo_ToolName s = lo_ToolName l"
    "lo_ToolContractVersionID s = lo_ToolContractVersionID l" by (simp_all add: valid_step_def t h(1))
  show "st_ContentHash s \<noteq> []" using s(2) MarshalAndHash_pattern [OF assms(2) h(1)] hashPattern_nonempty by simp
qed

lemma seal_edge_Inr:
  assumes "seal_edge ext ver l = Inr e"
  shows "logicalEdge.truncate e = l" "valid_edge ext ver l e" "ee_ID e \<noteq> []" "le_FromOrdinal e = le_FromOrdinal l" "le_ToOrdinal e = le_ToOrdinal l"
proof -
  obtain c h where h: "MarshalAndHash ext (json_edge_identity ver l) = Inr (c, h)"
      "e = logicalEdge.extend l (projection_Edge.fields (''edge_'' @ h) h)"
    using assms by (auto simp: seal_edge_def)
  then show "logicalEdge.truncate e = l" by (cases l) (simp add: logicalEdge.defs projection_Edge.defs)
  have "ee_ID e = ''edge_'' @ h" "ee_ContentHash e = h" by (simp_all add: h(2) logicalEdge.defs projection_Edge.defs)
  then show "valid_edge ext ver l e" "ee_ID e \<noteq> []" by (simp_all add: valid_edge_def h(1))
  show "le_FromOrdinal e = le_FromOrdinal l" "le_ToOrdinal e = le_ToOrdinal l" by (simp_all add: h(2) logicalEdge.defs)
qed

lemma sealed_steps:
  assumes "res_map (seal_step ext ver) ls = Inr ss" "digest32 ext"
  shows "map logicalStep.truncate ss = ls" "list_all (valid_step ext ver) ss" "length ss = length ls"
    "map lo_Ordinal ss = map lo_Ordinal ls" "list_all (\<lambda>s. st_ID s \<noteq> [] \<and> st_ContentHash s \<noteq> []) ss"
proof -
  have "list_all2 (\<lambda>l s. seal_step ext ver l = Inr s) ls ss" using assms(1) by (simp add: res_map_Inr_iff)
  then show "map logicalStep.truncate ss = ls" "list_all (valid_step ext ver) ss" "length ss = length ls"
    "map lo_Ordinal ss = map lo_Ordinal ls" "list_all (\<lambda>s. st_ID s \<noteq> [] \<and> st_ContentHash s \<noteq> []) ss"
    by (induction rule: list_all2_induct) (use seal_step_Inr [OF _ assms(2)] in auto)
qed

lemma sealed_edges:
  assumes "res_map (seal_edge ext ver) ls = Inr es"
  shows "map logicalEdge.truncate es = ls" "list_all2 (valid_edge ext ver) ls es"
    "list_all2 (\<lambda>l e. ee_ID e \<noteq> [] \<and> le_FromOrdinal e = le_FromOrdinal l \<and> le_ToOrdinal e = le_ToOrdinal l) ls es"
proof -
  have "list_all2 (\<lambda>l e. seal_edge ext ver l = Inr e) ls es" using assms by (simp add: res_map_Inr_iff)
  then show "map logicalEdge.truncate es = ls" "list_all2 (valid_edge ext ver) ls es"
    "list_all2 (\<lambda>l e. ee_ID e \<noteq> [] \<and> le_FromOrdinal e = le_FromOrdinal l \<and> le_ToOrdinal e = le_ToOrdinal l) ls es"
    by (induction rule: list_all2_induct) (use seal_edge_Inr in auto)
qed

interpretation logical_edge_order: keyed_order "\<lambda>a b. logical_edge_key a < logical_edge_key b" logical_edge_key
  by unfold_locales simp

lemma sort_logical_edges_idem: "sort_logical_edges (sort_logical_edges es) = sort_logical_edges es"
  unfolding sort_logical_edges_def by (rule logical_edge_order.sort_slice_id) (rule logical_edge_order.sorted_sort_slice)

lemma logical_steps_ordinals:
  assumes "logical_steps ss = Inr ls" "length ss < 2 ^ 32"
  shows "ls = map logical_step ss" "\<forall>i < length ss. ps_Ordinal (ss ! i) = of_nat i"
    "s \<in> set ss \<Longrightarrow> ps_Ordinal s < of_nat (length ss)"
proof -
  show ls: "ls = map logical_step ss" and o: "\<forall>i < length ss. ps_Ordinal (ss ! i) = of_nat i"
    using assms(1) by (auto simp: logical_steps_def list_all_iff in_set_enumerate_eq split: if_splits)
  have lt: "(of_nat i :: uint32) < of_nat (length ss)" if "i < length ss" for i
    using that assms(2) by (simp add: word_less_nat_alt unat_of_nat take_bit_nat_eq_self)
  show "s \<in> set ss \<Longrightarrow> ps_Ordinal s < of_nat (length ss)" using o lt by (auto simp: in_set_conv_nth)
qed

lemma by_event_member: "by_event ss k = Some s \<Longrightarrow> s \<in> set ss"
  by (auto simp: by_event_def dest!: map_of_SomeD)

lemma logical_edges_bounded:
  assumes "res_map (logical_edge ss) es = Inr ls" "logical_steps ss = Inr xs" "length ss < 2 ^ 32" "l \<in> set (sort_logical_edges ls)"
  shows "le_FromOrdinal l < of_nat (length ss) \<and> le_ToOrdinal l < of_nat (length ss) \<and> le_FromOrdinal l < le_ToOrdinal l"
proof -
  have "l \<in> set ls" using assms(4) by (simp add: sort_logical_edges_def)
  from res_map_origin [OF assms(1) this] obtain e where "logical_edge ss e = Inr l" by blast
  then show ?thesis using logical_steps_ordinals(3) [OF assms(2,3)] by_event_member
    by (fastforce simp: logical_edge_def split: option.splits if_splits)
qed

section \<open>The whole projection\<close>

lemma buildProcedure_Inr:
  assumes "buildProcedure ext r = Inr (family, version, steps, edges, i, encoded)"
  obtains c1 fh ls us c2 gh c3 vh h where
    "MarshalAndHash ext (json_family_identity (br_TenantID r) (br_IntentHash r) (br_EffectSignatureHash r)) = Inr (c1, fh)"
    "family = \<lparr>fm_ID = ''proc_'' @ fh, fm_IntentHash = br_IntentHash r, fm_EffectSignatureHash = br_EffectSignatureHash r, fm_ContentHash = fh\<rparr>"
    "logical_steps (sr_Steps (br_Synthesis r)) = Inr ls"
    "res_map (logical_edge (sr_Steps (br_Synthesis r))) (sr_Edges (br_Synthesis r)) = Inr us"
    "MarshalAndHash ext (json_logical_graph ls (sort_logical_edges us) (sort_slice (<) (sr_GoalPredicates (br_Synthesis r))) (br_EnvironmentScopeHash r)) = Inr (c2, gh)"
    "MarshalAndHash ext (json_version_identity (br_TenantID r) (''proc_'' @ fh) gh (vs_Policy (sr_Versions (br_Synthesis r)))
       (sr_ObservedEndToEnd (br_Synthesis r)) (pi_ContentHash i)) = Inr (c3, vh)"
    "version = \<lparr>ve_ID = ''pv_'' @ vh, ve_ProcedureID = ''proc_'' @ fh, ve_GraphHash = gh, ve_EnvironmentScopeHash = br_EnvironmentScopeHash r,
       ve_PolicyVersion = vs_Policy (sr_Versions (br_Synthesis r)), ve_ObservedEndToEnd = sr_ObservedEndToEnd (br_Synthesis r),
       ve_InterfaceHash = pi_ContentHash i, ve_ContentHash = vh\<rparr>"
    "res_map (seal_step ext (''pv_'' @ vh)) ls = Inr steps" "res_map (seal_edge ext (''pv_'' @ vh)) (sort_logical_edges us) = Inr edges"
    "MarshalAndHash ext (json_canonical_projection family version steps edges i) = Inr (encoded, h)"
  using assms unfolding buildProcedure_def Let_def
  by (auto simp del: append.simps append_Cons)

lemma build_manifest_Inr:
  assumes "build_manifest ext r p = Inr q" "digest32 ext"
  obtains m where "q = p\<lparr>pj_Manifest := m\<rparr>" "validateManifest ext m" "pt_ID m \<noteq> []" "pt_ContentHash m \<noteq> []"
    "pt_TenantID m = br_TenantID r" "pt_Status m = sr_Status (br_Synthesis r)" "pt_AbstentionCode m = sr_AbstentionCode (br_Synthesis r)"
    "pt_ProcedureVersionID m = ve_ID (pj_Version p)" "pt_OutcomeID m = br_OutcomeID r"
proof -
  from assms(1) obtain m c h where "MarshalAndHash ext (json_manifest m) = Inr (c, h)" "pt_ID m = []" "pt_ContentHash m = []"
      "q = p\<lparr>pj_Manifest := m\<lparr>pt_ID := ''syn_'' @ h, pt_ContentHash := h\<rparr>\<rparr>" "pt_TenantID m = br_TenantID r"
      "pt_Status m = sr_Status (br_Synthesis r)" "pt_AbstentionCode m = sr_AbstentionCode (br_Synthesis r)"
      "pt_ProcedureVersionID m = ve_ID (pj_Version p)" "pt_OutcomeID m = br_OutcomeID r"
    by (auto simp: build_manifest_def Let_def)
  moreover have same: "m\<lparr>pt_ID := [], pt_ContentHash := []\<rparr> = m" using calculation(2,3) by (cases m) simp
  have "validateManifest ext (m\<lparr>pt_ID := ''syn_'' @ h, pt_ContentHash := h\<rparr>)"
    using calculation(1) by (simp add: validateManifest_def same)
  ultimately show thesis using MarshalAndHash_pattern [OF assms(2)] hashPattern_nonempty
    by (intro that [of "m\<lparr>pt_ID := ''syn_'' @ h, pt_ContentHash := h\<rparr>"]) auto
qed

lemma procedure_validates:
  assumes "buildProcedure ext r = Inr (family, version, steps, edges, i, encoded)" "digest32 ext" "ValidateProcedureInterface ext i"
  shows "validateProcedureProjection ext (p\<lparr>pj_TenantID := br_TenantID r, pj_Family := family, pj_Version := version, pj_Steps := steps,
    pj_Edges := edges, pj_GoalPredicates := sort_slice (<) (sr_GoalPredicates (br_Synthesis r)), pj_Interface := i, pj_CanonicalProjectionJSON := encoded\<rparr>)"
  using assms(1)
proof (rule buildProcedure_Inr)
  fix c1 fh ls us c2 gh c3 vh h
  assume b: "MarshalAndHash ext (json_family_identity (br_TenantID r) (br_IntentHash r) (br_EffectSignatureHash r)) = Inr (c1, fh)"
    "family = \<lparr>fm_ID = ''proc_'' @ fh, fm_IntentHash = br_IntentHash r, fm_EffectSignatureHash = br_EffectSignatureHash r, fm_ContentHash = fh\<rparr>"
    "MarshalAndHash ext (json_logical_graph ls (sort_logical_edges us) (sort_slice (<) (sr_GoalPredicates (br_Synthesis r))) (br_EnvironmentScopeHash r)) = Inr (c2, gh)"
    "MarshalAndHash ext (json_version_identity (br_TenantID r) (''proc_'' @ fh) gh (vs_Policy (sr_Versions (br_Synthesis r)))
       (sr_ObservedEndToEnd (br_Synthesis r)) (pi_ContentHash i)) = Inr (c3, vh)"
    "version = \<lparr>ve_ID = ''pv_'' @ vh, ve_ProcedureID = ''proc_'' @ fh, ve_GraphHash = gh, ve_EnvironmentScopeHash = br_EnvironmentScopeHash r,
       ve_PolicyVersion = vs_Policy (sr_Versions (br_Synthesis r)), ve_ObservedEndToEnd = sr_ObservedEndToEnd (br_Synthesis r),
       ve_InterfaceHash = pi_ContentHash i, ve_ContentHash = vh\<rparr>"
    "res_map (seal_step ext (''pv_'' @ vh)) ls = Inr steps" "res_map (seal_edge ext (''pv_'' @ vh)) (sort_logical_edges us) = Inr edges"
    "MarshalAndHash ext (json_canonical_projection family version steps edges i) = Inr (encoded, h)"
  note s = sealed_steps [OF b(6) assms(2)] and e = sealed_edges [OF b(7)]
  have g: "sort_slice (<) (sort_slice (<) xs) = sort_slice (<) xs" for xs :: "string list"
    by (simp add: sort_slice_eq_sort sorted_sort_id)
  have f: "ve_ID version = ''pv_'' @ vh" "ve_ContentHash version = vh" "ve_GraphHash version = gh" "ve_InterfaceHash version = pi_ContentHash i"
    "ve_EnvironmentScopeHash version = br_EnvironmentScopeHash r" "ve_PolicyVersion version = vs_Policy (sr_Versions (br_Synthesis r))"
    "ve_ObservedEndToEnd version = sr_ObservedEndToEnd (br_Synthesis r)" "fm_ID family = ''proc_'' @ fh" "fm_ContentHash family = fh"
    "fm_IntentHash family = br_IntentHash r" "fm_EffectSignatureHash family = br_EffectSignatureHash r"
    by (simp_all add: b(2,5))
  show ?thesis
    unfolding validateProcedureProjection_def Let_def
    by (simp add: f s(1,2) e(1,2) sort_logical_edges_idem g b(1,3,4,8) assms(3) del: append.simps append_Cons)
qed

lemma procedure_shape:
  assumes "buildProcedure ext r = Inr (family, version, steps, edges, i, encoded)" "digest32 ext" "length (sr_Steps (br_Synthesis r)) < 2 ^ 32"
  shows "\<exists>h. hashPattern h \<and> ve_ID version = ''pv_'' @ h" "\<exists>h. hashPattern h \<and> fm_ID family = ''proc_'' @ h" "ve_ProcedureID version = fm_ID family"
    "length steps = length (sr_Steps (br_Synthesis r))" "\<exists>v h. MarshalAndHash ext v = Inr (encoded, h)"
    "list_all (\<lambda>(index, s). st_ID s \<noteq> [] \<and> lo_Ordinal s = of_nat index \<and> st_ContentHash s \<noteq> []) (enumerate 0 steps)"
    "list_all (\<lambda>e. ee_ID e \<noteq> [] \<and> le_FromOrdinal e < of_nat (length steps) \<and> le_ToOrdinal e < of_nat (length steps) \<and>
       le_FromOrdinal e < le_ToOrdinal e) edges"
proof -
  from assms(1) obtain c1 fh ls us gh c3 vh h where b:
    "MarshalAndHash ext (json_family_identity (br_TenantID r) (br_IntentHash r) (br_EffectSignatureHash r)) = Inr (c1, fh)" "fm_ID family = ''proc_'' @ fh"
    "logical_steps (sr_Steps (br_Synthesis r)) = Inr ls" "res_map (logical_edge (sr_Steps (br_Synthesis r))) (sr_Edges (br_Synthesis r)) = Inr us"
    "MarshalAndHash ext (json_version_identity (br_TenantID r) (''proc_'' @ fh) gh (vs_Policy (sr_Versions (br_Synthesis r)))
       (sr_ObservedEndToEnd (br_Synthesis r)) (pi_ContentHash i)) = Inr (c3, vh)" "ve_ID version = ''pv_'' @ vh" "ve_ProcedureID version = ''proc_'' @ fh"
    "res_map (seal_step ext (''pv_'' @ vh)) ls = Inr steps" "res_map (seal_edge ext (''pv_'' @ vh)) (sort_logical_edges us) = Inr edges"
    "MarshalAndHash ext (json_canonical_projection family version steps edges i) = Inr (encoded, h)"
    by (rule buildProcedure_Inr) simp
  show "\<exists>h. hashPattern h \<and> ve_ID version = ''pv_'' @ h" "\<exists>h. hashPattern h \<and> fm_ID family = ''proc_'' @ h" "ve_ProcedureID version = fm_ID family"
    "\<exists>v h. MarshalAndHash ext v = Inr (encoded, h)"
    using b(2,6,7,10) MarshalAndHash_pattern [OF assms(2) b(1)] MarshalAndHash_pattern [OF assms(2) b(5)] by auto
  note s = sealed_steps [OF b(8) assms(2)] and o = logical_steps_ordinals [OF b(3) assms(3)]
  show len: "length steps = length (sr_Steps (br_Synthesis r))" using s(3) o(1) by simp
  have "lo_Ordinal (steps ! k) = of_nat k" if "k < length steps" for k
  proof -
    have "map lo_Ordinal steps ! k = map ps_Ordinal (sr_Steps (br_Synthesis r)) ! k" using s(4) o(1) by (simp add: logical_step_def comp_def)
    then show ?thesis using o(2) that len by simp
  qed
  then show "list_all (\<lambda>(index, s). st_ID s \<noteq> [] \<and> lo_Ordinal s = of_nat index \<and> st_ContentHash s \<noteq> []) (enumerate 0 steps)"
    using s(5) by (auto simp: list_all_iff in_set_enumerate_eq)
  show "list_all (\<lambda>e. ee_ID e \<noteq> [] \<and> le_FromOrdinal e < of_nat (length steps) \<and> le_ToOrdinal e < of_nat (length steps) \<and>
      le_FromOrdinal e < le_ToOrdinal e) edges"
    using sealed_edges(3) [OF b(9)] logical_edges_bounded [OF b(4,3) assms(3)] len
    by (auto simp: list_all_length list_all2_conv_all_nth)
qed

lemma projection_Build_cases:
  assumes "projection_Build ext r = Inr p"
  obtains (abstained) "sr_Status (br_Synthesis r) = StatusAbstained" "sr_AbstentionCode (br_Synthesis r) \<noteq> []"
      "build_manifest ext r (zero_projection r) = Inr p"
    | (synthesized) family version steps edges i encoded document where "sr_Status (br_Synthesis r) = StatusSynthesized"
      "sr_Steps (br_Synthesis r) \<noteq> []" "buildProcedure ext r = Inr (family, version, steps, edges, i, encoded)"
      "BuildDocument ext (serving_input r family version steps i) = Inr document"
      "build_manifest ext r ((zero_projection r)\<lparr>pj_Family := family, pj_Version := version, pj_Steps := steps, pj_Edges := edges,
         pj_GoalPredicates := sort_slice (<) (sr_GoalPredicates (br_Synthesis r)), pj_Interface := i,
         pj_CanonicalProjectionJSON := encoded, pj_RetrievalDocument := Some document\<rparr>) = Inr p"
  using assms unfolding projection_Build_def Let_def
  by (cases "buildProcedure ext r") (auto split: if_split_asm sum.split_asm)

lemma serving_document:
  assumes "BuildDocument ext (serving_input r family version steps i) = Inr d" "ascii_normal ext"
    and "hashPattern h" "ve_ID version = ''pv_'' @ h" "hashPattern h'" "fm_ID family = ''proc_'' @ h'"
  shows "ValidateDocument ext d" "ValidateProcedureInterface ext i" "dc_TenantID d = br_TenantID r" "dc_ProcedureVersionID d = ve_ID version"
    "dc_ProcedureID d = fm_ID family"
proof -
  have "document_fields_ok ext (serving_input r family version steps i)"
    using assms(1) by (auto simp: BuildDocument_def split: if_splits)
  then show "ValidateProcedureInterface ext i" by (simp add: document_fields_ok_def serving_input_def Let_def)
  have v: "list_all visible_char ''pv_''" "list_all visible_char ''proc_''" by code_simp+
  note b = BuildDocument_Inr [OF assms(1)]
  show "ValidateDocument ext d" by (rule b(1))
  show "dc_TenantID d = br_TenantID r" using b(6) by (simp add: serving_input_def Let_def)
  show "dc_ProcedureVersionID d = ve_ID version" "dc_ProcedureID d = fm_ID family"
    using b(7,8) normalizeToken_hash_suffix [OF assms(2) v(1) assms(3)] normalizeToken_hash_suffix [OF assms(2) v(2) assms(5)] assms(4,6)
    by (simp_all add: serving_input_def Let_def)
qed

lemma build_validates:
  assumes "projection_Build ext r = Inr p" "digest32 ext" "nonempty_encoding ext" "ascii_normal ext"
    and "list_all (valid_negative_path ext) (sr_NegativePaths (br_Synthesis r))" "length (sr_Steps (br_Synthesis r)) < 2 ^ 32"
  shows "projection_Validate ext p"
proof -
  have "request_ok r" using assms(1) by (auto simp: projection_Build_def Let_def split: if_splits)
  then have base: "br_TenantID r \<noteq> []" "\<not> time_IsZero (time_UTC (br_CreatedAt r))"
    by (auto simp: request_ok_def time_IsZero_def time_UTC_def)
  from assms(1) show ?thesis
  proof (cases rule: projection_Build_cases)
    case abstained
    from abstained(3) assms(2) obtain m where m: "p = (zero_projection r)\<lparr>pj_Manifest := m\<rparr>" "validateManifest ext m" "pt_ID m \<noteq> []"
        "pt_ContentHash m \<noteq> []" "pt_TenantID m = br_TenantID r" "pt_Status m = ''abstained''" "pt_AbstentionCode m \<noteq> []"
      by (rule build_manifest_Inr) (simp add: abstained)
    then show ?thesis using base by (simp add: projection_Validate_def zero_projection_def)
  next
    case (synthesized family version steps edges i encoded document)
    let ?p = "(zero_projection r)\<lparr>pj_Family := family, pj_Version := version, pj_Steps := steps, pj_Edges := edges,
         pj_GoalPredicates := sort_slice (<) (sr_GoalPredicates (br_Synthesis r)), pj_Interface := i,
         pj_CanonicalProjectionJSON := encoded, pj_RetrievalDocument := Some document\<rparr>"
    note shape = procedure_shape [OF synthesized(3) assms(2,6)]
    obtain h h' where ids: "hashPattern h" "ve_ID version = ''pv_'' @ h" "hashPattern h'" "fm_ID family = ''proc_'' @ h'"
      using shape(1,2) by blast
    note doc = serving_document [OF synthesized(4) assms(4) ids]
    from synthesized(5) assms(2) obtain m where m: "p = ?p\<lparr>pj_Manifest := m\<rparr>" "validateManifest ext m" "pt_ID m \<noteq> []" "pt_ContentHash m \<noteq> []"
        "pt_TenantID m = br_TenantID r" "pt_Status m = ''synthesized''" "pt_ProcedureVersionID m = ve_ID version"
      by (rule build_manifest_Inr) (simp add: synthesized(1))
    have "validateProcedureProjection ext p"
      using procedure_validates [OF synthesized(3) assms(2) doc(2), of p] by (simp add: m(1) zero_projection_def)
    moreover have "valid_document_of ext p" by (simp add: valid_document_of_def m(1) doc zero_projection_def)
    moreover have "steps \<noteq> []" "encoded \<noteq> []" using shape(4,5) synthesized(2) assms(3) by (auto simp: nonempty_encoding_def)
    moreover have "list_all (valid_negative_path ext) (pj_NegativePaths p)"
      using assms(5) by (simp add: m(1) zero_projection_def cloneNegativePaths_def list_all_iff)
    ultimately show ?thesis
      using shape(6,7) base m(2-7) shape(3) ids by (simp add: projection_Validate_def Let_def) (simp add: m(1) zero_projection_def)
  qed
qed


section \<open>A sample\<close>

text \<open>The sample parameters with an encoder that never returns the empty string.\<close>

definition braced_externals :: externals where
  "braced_externals = sample_externals\<lparr>json_Marshal := (\<lambda>v. Some (CHR 0x7B # sample_print v))\<rparr>"

lemma MarshalAndHash_braced:
  "MarshalAndHash braced_externals v = Inr (CHR 0x7B # sample_print v, hash_bytes braced_externals (CHR 0x7B # sample_print v))"
  by (simp add: MarshalAndHash_def hash_bytes_def braced_externals_def sample_externals_def)

lemma braced_ok: "digest32 braced_externals" "nonempty_encoding braced_externals" "ascii_normal braced_externals" "stable_tokens braced_externals"
  using digest32_sample stable_tokens_sample
  by (auto simp: digest32_def braced_externals_def nonempty_encoding_def ascii_normal_def sample_externals_def stable_tokens_def
      normalizeToken_def MarshalAndHash_def)

definition sample_synthesis :: Result where
  "sample_synthesis = \<lparr>sr_SchemaVersion = ''v1'', sr_Status = ''synthesized'', sr_AbstentionCode = [], sr_TraceID = ''tr'', sr_CausalGraphHash = ''g'',
     sr_Steps = [\<lparr>ps_EventID = ''e'', ps_Ordinal = 0, ps_OriginalPosition = 0, ps_ToolName = ''sh'', ps_ToolVersion = [], ps_ToolContractVersionID = ''1'',
        ps_UncertainNecessity = False, ps_CompensationBoundary = False, ps_SideEffect = ''none'', ps_Risk = ''low'', ps_Effects = [], ps_Preconditions = [],
        ps_SuccessPredicates = [], ps_VerificationMethods = [], ps_Reads = [], ps_Writes = []\<rparr>],
     sr_Edges = [], sr_NegativePaths = [], sr_GoalPredicates = [''goal''],
     sr_Versions = \<lparr>vs_Sanitizer = ''1'', vs_Registry = ''1'', vs_Policy = ''1'', vs_GraphBuilder = ''1'', vs_Synthesizer = ''1''\<rparr>,
     sr_ObservedEndToEnd = True, sr_Hash = ''h''\<rparr>"

definition sample_serving :: ServingMetadata where
  "sample_serving = \<lparr>sm_TaskText = ''deploy'', sm_Harness = \<lparr>qh_Name = ''h'', qh_Version = []\<rparr>, sm_Environment = [], sm_Resources = [], sm_Effects = [],
     sm_RiskClass = ''low'', sm_VerificationStrength = 2, sm_LearnedWithRecallConsent = True, sm_ResidencyRegion = ''eu''\<rparr>"

definition sample_build_request :: projection_BuildRequest where
  "sample_build_request = \<lparr>br_TenantID = ''t'', br_OutcomeID = ''o'',
     br_IntentHash = (case CanonicalIntentHash braced_externals ''deploy'' \<lparr>qh_Name = ''h'', qh_Version = []\<rparr> of Inr h \<Rightarrow> h | Inl _ \<Rightarrow> []),
     br_EffectSignatureHash = replicate 64 CHR ''1'', br_EnvironmentScopeHash = replicate 64 CHR ''2'', br_ArchiveHash = replicate 64 CHR ''3'',
     br_CanonicalEventStart = 0, br_CanonicalEventEnd = 4, br_CreatedAt = \<lparr>t_ns = 5, t_zone = 0\<rparr>, br_Synthesis = sample_synthesis, br_Serving = sample_serving\<rparr>"

lemma sample_intent:
  "CanonicalIntentHash braced_externals ''deploy'' \<lparr>qh_Name = ''h'', qh_Version = []\<rparr> = Inr (br_IntentHash sample_build_request)"
  "hashPattern (br_IntentHash sample_build_request)"
  by (simp_all add: sample_build_request_def CanonicalIntentHash_def query_hash_def MarshalAndHash_braced hashPattern_hash_bytes braced_ok(1))

lemma sample_procedure:
  obtains family version steps edges i encoded where
    "buildProcedure braced_externals sample_build_request = Inr (family, version, steps, edges, i, encoded)"
    "ValidateProcedureInterface braced_externals i" "map lo_ToolName steps = [''sh'']" "map lo_ToolContractVersionID steps = [''1'']"
    "fm_IntentHash family = br_IntentHash sample_build_request" "fm_EffectSignatureHash family = replicate 64 CHR ''1''"
    "ve_EnvironmentScopeHash version = replicate 64 CHR ''2''" "ve_PolicyVersion version = ''1''"
proof -
  obtain i where i: "NewProcedureInterface braced_externals [] [] = Inr i" "pi_Requirements i = []" "pi_Provisions i = []"
    by (simp add: NewProcedureInterface_def MarshalAndHash_braced Let_def)
  have "buildProcedureInterface braced_externals (sr_Steps sample_synthesis) (sr_Edges sample_synthesis) = Inr i"
    by (simp add: buildProcedureInterface_def flow_keys_def interface_step_def sample_synthesis_def i(1))
  moreover have "ValidateProcedureInterface braced_externals i"
    using new_interface_valid [OF braced_ok(1,4) i(1)] i(2,3) by simp
  moreover have "logical_steps (sr_Steps sample_synthesis) = Inr (map logical_step (sr_Steps sample_synthesis))" by code_simp
  ultimately show thesis
    using that by (auto simp: buildProcedure_def MarshalAndHash_braced projection_hash_def Let_def sample_build_request_def seal_step_def seal_edge_def
        sample_synthesis_def logical_step_def logicalStep.defs projection_Step.defs sort_logical_edges_def)
qed

lemma sample_serving_document:
  assumes "ValidateProcedureInterface braced_externals i" "map lo_ToolName steps = [''sh'']" "map lo_ToolContractVersionID steps = [''1'']"
    and "fm_IntentHash family = br_IntentHash sample_build_request" "fm_EffectSignatureHash family = replicate 64 CHR ''1''"
    and "ve_EnvironmentScopeHash version = replicate 64 CHR ''2''" "ve_PolicyVersion version = ''1''"
    and "hashPattern h" "ve_ID version = ''pv_'' @ h" "hashPattern h'" "fm_ID family = ''proc_'' @ h'"
  shows "\<exists>d. BuildDocument braced_externals (serving_input sample_build_request family version steps i) = Inr d"
proof -
  let ?e = braced_externals
  let ?in = "serving_input sample_build_request family version steps i"
  note tok = normalizeToken_hash_suffix [OF braced_ok(3)]
  have lit: "normalizeToken ?e ''h'' = ''h''" "normalizeToken ?e ''1'' = ''1''" "normalizeToken ?e ''eu'' = ''eu''" "normalizeToken ?e ''low'' = ''low''"
    "normalizeToken ?e ''candidate'' = ''candidate''" "normalizeToken ?e ''sh'' = ''sh''" "retrieval_text ?e ''deploy'' = ''deploy''"
    "hashPattern (replicate 64 CHR ''1'')" "hashPattern (replicate 64 CHR ''2'')" by code_simp+
  have v: "list_all visible_char ''pv_''" "list_all visible_char ''proc_''" by code_simp+
  note ids = tok [OF v(1) assms(8)] tok [OF v(2) assms(10)] tok [of "[]", simplified]
  have steps: "di_Tools ?in = [\<lparr>tr_Name = ''sh'', tr_ContractVersionID = ''1''\<rparr>]" "di_OrderedStepContractIDs ?in = [''1'']"
    using assms(2,3) by (auto simp: serving_input_def Let_def)
  have ok: "document_fields_ok ?e ?in"
    using assms(1) by (simp add: document_fields_ok_def serving_input_def Let_def assms(4-7,9,11) ids(1,2) [unfolded append.simps] ids(3) sample_intent(2) lit
        sample_build_request_def [THEN arg_cong [of _ _ br_TenantID]] sample_build_request_def [THEN arg_cong [of _ _ br_Serving]] sample_serving_def
        validRiskClass_def validInitialLifecycle_def)
  have "\<exists>ts. normalizeToolRequirements ?e (di_Tools ?in) = Inr ts" "\<exists>hs. prefixHashes ?e (di_OrderedStepContractIDs ?in) = Inr hs"
    by (simp_all add: steps normalizeToolRequirements_def lit prefixHashes_def document_hash_def MarshalAndHash_braced)
  moreover have "normalizeResourceRequirements ?e (di_Resources ?in) = Inr []" "query_set ?e (di_Effects ?in) = Inr []"
    "normalizeFacts ?e (di_Environment ?in) = Inr []" "\<not> time_IsZero (di_ValidatedAt ?in)"
    by (simp_all add: serving_input_def Let_def sample_build_request_def sample_serving_def normalizeResourceRequirements_def query_set_def
        normalizeSet_def normalizeFacts_def entries_by_def sorted_keys_def time_IsZero_def)
  ultimately show ?thesis using ok by (auto simp: BuildDocument_def seal_document_def MarshalAndHash_braced Let_def)
qed


end
