(* ===== verification/Projection_Store.thy ===== *)
theory Projection_Store
  imports Projections Lifecycle Append_Only
begin

text \<open>
  The repositories in memory for projections and lifecycle decisions
  (\<^verbatim>\<open>internal/store/memory/projection.go\<close>, \<^verbatim>\<open>internal/store/memory/lifecycle.go\<close>, with
  \<^verbatim>\<open>internal/lifecycle/repository.go\<close>). Both write the retrieval documents of a tenant, each under a
  new epoch of the tenant whose hash covers the hash of the epoch before. Publishing a projection
  adds the document with the count of its evidence; committing a lifecycle decision adds the
  document with the new state and moves the heads. A Go map is an association list in the order
  of insertion; every call runs under one mutex. A key that \<^verbatim>\<open>fmt.Sprintf\<close> ends with an epoch in
  twenty digits is the pair of its front and the epoch, which it determines. An error keeps what the
  call has written so far, as the code does.
\<close>

section \<open>Projections\<close>

datatype publish_disposition = ProjectionPublished | ProjectionDuplicate

record PublishReceipt =
  pb_ManifestID :: string
  pb_ProcedureID :: string
  pb_ProcedureVersionID :: string
  pb_Disposition :: publish_disposition
  pb_NewFamily :: bool
  pb_NewVersion :: bool
  pb_EvidenceAdded :: bool
  pb_ProjectionEpoch :: uint64
  pb_RetrievalDocumentID :: string

record ProjectionRepository =
  ry_families :: "(string \<times> Family) list"
  ry_versions :: "(string \<times> Version) list"
  ry_steps :: "(string \<times> projection_Step) list"
  ry_edges :: "(string \<times> projection_Edge) list"
  ry_negative :: "string list"
  ry_manifests :: "(string \<times> projection_Manifest) list"
  ry_evidence :: "string list"
  ry_canonical :: "(string \<times> string) list"
  ry_documents :: "((string \<times> uint64) \<times> Document) list"
  ry_documentEpoch :: "((string \<times> uint64) \<times> uint64) list"
  ry_epochs :: "(string \<times> uint64) list"
  ry_epochHashes :: "(string \<times> string) list"
  ry_epochHistory :: "((string \<times> uint64) \<times> string) list"
  ry_epochCreated :: "((string \<times> uint64) \<times> time) list"

definition NewProjectionRepository :: ProjectionRepository where
  "NewProjectionRepository = \<lparr>ry_families = [], ry_versions = [], ry_steps = [], ry_edges = [], ry_negative = [], ry_manifests = [],
     ry_evidence = [], ry_canonical = [], ry_documents = [], ry_documentEpoch = [], ry_epochs = [], ry_epochHashes = [],
     ry_epochHistory = [], ry_epochCreated = []\<rparr>"

definition documentKey :: "string \<Rightarrow> string \<Rightarrow> uint64 \<Rightarrow> string \<times> uint64" where
  "documentKey tenantID versionID epoch = (tenantID @ NUL @ versionID, epoch)"

definition epochKey :: "string \<Rightarrow> uint64 \<Rightarrow> string \<times> uint64" where
  "epochKey tenantID epoch = (tenantID, epoch)"

text \<open>Reading a map of numbers or strings gives the zero value for an absent key.\<close>

definition epoch_at :: "('k \<times> uint64) list \<Rightarrow> 'k \<Rightarrow> uint64" where
  "epoch_at m k = (case map_of m k of None \<Rightarrow> 0 | Some e \<Rightarrow> e)"

definition hash_at :: "('k \<times> string) list \<Rightarrow> 'k \<Rightarrow> string" where
  "hash_at m k = (case map_of m k of None \<Rightarrow> [] | Some h \<Rightarrow> h)"

definition add_key :: "string \<Rightarrow> string list \<Rightarrow> string list" where
  "add_key k ks = (if k \<in> set ks then ks else ks @ [k])"

definition previous_hash :: "ProjectionRepository \<Rightarrow> string \<Rightarrow> string" where
  "previous_hash r tenantID = (let h = hash_at (ry_epochHashes r) tenantID in if h = [] then replicate 64 CHR ''0'' else h)"

definition json_document_set :: "string \<Rightarrow> uint64 \<Rightarrow> string \<Rightarrow> string \<Rightarrow> string \<Rightarrow> json" where
  "json_document_set tenantID epoch previousHash versionID documentHash = JObj
     [(''tenant_id'', JStr tenantID), (''epoch'', JNum (uint epoch)), (''previous_hash'', JStr previousHash),
      (''procedure_version_id'', JStr versionID), (''document_hash'', JStr documentHash)]"

text \<open>The new head of the chain, its history and the document under it.\<close>

definition store_document :: "string \<Rightarrow> string \<Rightarrow> uint64 \<Rightarrow> string \<Rightarrow> time \<Rightarrow> Document \<Rightarrow> ProjectionRepository \<Rightarrow> ProjectionRepository" where
  "store_document tenantID versionID epoch setHash createdAt document r =
     r\<lparr>ry_epochs := AList.update tenantID epoch (ry_epochs r),
       ry_epochHashes := AList.update tenantID setHash (ry_epochHashes r),
       ry_epochHistory := AList.update (epochKey tenantID epoch) setHash (ry_epochHistory r),
       ry_epochCreated := AList.update (epochKey tenantID epoch) createdAt (ry_epochCreated r),
       ry_documents := AList.update (documentKey tenantID versionID epoch) document (ry_documents r),
       ry_documentEpoch := AList.update (documentKey tenantID versionID epoch) epoch (ry_documentEpoch r)\<rparr>"

definition publish_family :: "Projection \<Rightarrow> ProjectionRepository \<Rightarrow> (ProjectionRepository \<times> bool) option" where
  "publish_family v r =
     (case map_of (ry_families r) (fm_ID (pj_Family v)) of
        Some existing \<Rightarrow> if fm_ContentHash existing \<noteq> fm_ContentHash (pj_Family v) then None else Some (r, False)
      | None \<Rightarrow> Some (r\<lparr>ry_families := AList.update (fm_ID (pj_Family v)) (pj_Family v) (ry_families r)\<rparr>, True))"

definition publish_version :: "Projection \<Rightarrow> ProjectionRepository \<Rightarrow> (ProjectionRepository \<times> bool) option" where
  "publish_version v r =
     (let ident = ve_ID (pj_Version v) in
      case map_of (ry_versions r) ident of
        Some existing \<Rightarrow>
          if ve_ContentHash existing \<noteq> ve_ContentHash (pj_Version v) \<or> hash_at (ry_canonical r) ident \<noteq> pj_CanonicalProjectionJSON v then None
          else Some (r, False)
      | None \<Rightarrow>
          Some (r\<lparr>ry_versions := AList.update ident (pj_Version v) (ry_versions r),
                  ry_canonical := AList.update ident (pj_CanonicalProjectionJSON v) (ry_canonical r),
                  ry_steps := fold (\<lambda>s. AList.update (st_ID s) s) (pj_Steps v) (ry_steps r),
                  ry_edges := fold (\<lambda>e. AList.update (ee_ID e) e) (pj_Edges v) (ry_edges r)\<rparr>, True))"

definition evidence_key :: "Projection \<Rightarrow> string" where
  "evidence_key v = ve_ID (pj_Version v) @ NUL @ pt_OutcomeID (pj_Manifest v)"

definition publish_evidence :: "Projection \<Rightarrow> ProjectionRepository \<Rightarrow> ProjectionRepository" where
  "publish_evidence v r =
     r\<lparr>ry_negative := fold (\<lambda>p. add_key (pj_TenantID v @ NUL @ ve_ID (pj_Version v) @ NUL @ np_ID p)) (pj_NegativePaths v) (ry_negative r),
       ry_evidence := add_key (evidence_key v) (ry_evidence r),
       ry_manifests := AList.update (pt_ID (pj_Manifest v)) (pj_Manifest v) (ry_manifests r)\<rparr>"

definition evidence_count :: "ProjectionRepository \<Rightarrow> string \<Rightarrow> uint64" where
  "evidence_count r versionID = of_nat (length (filter (starts_with (versionID @ NUL)) (ry_evidence r)))"

definition publish_receipt :: "Projection \<Rightarrow> publish_disposition \<Rightarrow> PublishReceipt" where
  "publish_receipt v d =
     \<lparr>pb_ManifestID = pt_ID (pj_Manifest v), pb_ProcedureID = fm_ID (pj_Family v), pb_ProcedureVersionID = ve_ID (pj_Version v),
      pb_Disposition = d, pb_NewFamily = False, pb_NewVersion = False, pb_EvidenceAdded = False, pb_ProjectionEpoch = 0, pb_RetrievalDocumentID = []\<rparr>"

text \<open>The end of \<^verbatim>\<open>Publish\<close>: the document with its evidence under the next epoch.\<close>

definition publish_document ::
  "externals \<Rightarrow> Projection \<Rightarrow> PublishReceipt \<Rightarrow> ProjectionRepository \<Rightarrow> (projection_error + PublishReceipt) \<times> ProjectionRepository" where
  "publish_document ext v receipt r =
     (case pj_RetrievalDocument v of
        None \<Rightarrow> (Inl (ErrProjectionDocument (DocumentError ErrInvalidDocument)), r)
      | Some source \<Rightarrow>
        (case ReviseEvidence ext source (evidence_count r (ve_ID (pj_Version v))) 0 (pj_CreatedAt v) of
           Inl e \<Rightarrow> (Inl (ErrProjectionDocument e), r)
         | Inr document \<Rightarrow>
             let tenantID = pj_TenantID v; versionID = ve_ID (pj_Version v); epoch = epoch_at (ry_epochs r) tenantID + 1
             in case MarshalAndHash ext (json_document_set tenantID epoch (previous_hash r tenantID) versionID (dc_ContentHash document)) of
                  Inl e \<Rightarrow> (Inl (ErrProjectionEncoding e), r\<lparr>ry_epochs := AList.update tenantID epoch (ry_epochs r)\<rparr>)
                | Inr (_, setHash) \<Rightarrow>
                    (Inr (receipt\<lparr>pb_ProjectionEpoch := epoch, pb_RetrievalDocumentID := dc_ID document\<rparr>),
                     store_document tenantID versionID epoch setHash (time_UTC (pj_CreatedAt v)) document r)))"

definition Publish ::
  "externals \<Rightarrow> Projection \<Rightarrow> ProjectionRepository \<Rightarrow> (projection_error + PublishReceipt) \<times> ProjectionRepository" where
  "Publish ext v r =
     (let manifest = pj_Manifest v in
      if \<not> projection_Validate ext v then (Inl ErrInvalidProjection, r)
      else case map_of (ry_manifests r) (pt_ID manifest) of
        Some existing \<Rightarrow>
          if pt_ContentHash existing \<noteq> pt_ContentHash manifest then (Inl ErrProjectionConflict, r)
          else (Inr (publish_receipt v ProjectionDuplicate), r)
      | None \<Rightarrow>
          if pt_Status manifest = ''abstained''
          then (Inr (publish_receipt v ProjectionPublished), r\<lparr>ry_manifests := AList.update (pt_ID manifest) manifest (ry_manifests r)\<rparr>)
          else case publish_family v r of
            None \<Rightarrow> (Inl ErrProjectionConflict, r)
          | Some (r1, newFamily) \<Rightarrow>
            (case publish_version v r1 of
               None \<Rightarrow> (Inl ErrProjectionConflict, r1)
             | Some (r2, newVersion) \<Rightarrow>
                 publish_document ext v
                   ((publish_receipt v ProjectionPublished)\<lparr>pb_NewFamily := newFamily, pb_NewVersion := newVersion,
                      pb_EvidenceAdded := (evidence_key v \<notin> set (ry_evidence r2))\<rparr>)
                   (publish_evidence v r2)))"

definition RetrievalDocument :: "string \<Rightarrow> string \<Rightarrow> uint64 \<Rightarrow> ProjectionRepository \<Rightarrow> projection_error + Document" where
  "RetrievalDocument tenantID versionID epoch r =
     (case map_of (ry_documents r) (documentKey tenantID versionID epoch) of None \<Rightarrow> Inl ErrProjectionNotFound | Some d \<Rightarrow> Inr d)"

text \<open>The loop of \<^verbatim>\<open>RetrievalDocuments\<close> over the documents, with the two maps that it fills as one.\<close>

definition latest_step ::
  "ProjectionRepository \<Rightarrow> string \<Rightarrow> string list \<Rightarrow> uint64 \<Rightarrow> (string \<times> uint64) \<times> Document \<Rightarrow> (string \<times> uint64 \<times> Document) list \<Rightarrow>
   (string \<times> uint64 \<times> Document) list" where
  "latest_step r tenantID wanted epoch = (\<lambda>(key, document) latest.
     let documentEpoch = epoch_at (ry_documentEpoch r) key; ident = dc_ProcedureVersionID document;
         seen = (case map_of latest ident of None \<Rightarrow> 0 | Some (e, _) \<Rightarrow> e)
     in if dc_TenantID document \<noteq> tenantID \<or> documentEpoch > epoch then latest
        else if ident \<notin> set wanted \<or> documentEpoch \<le> seen then latest
        else AList.update ident (documentEpoch, document) latest)"

definition RetrievalDocuments :: "string \<Rightarrow> string list \<Rightarrow> uint64 \<Rightarrow> ProjectionRepository \<Rightarrow> projection_error + Document list" where
  "RetrievalDocuments tenantID versionIDs epoch r =
     (if tenantID = [] \<or> epoch = 0 \<or> versionIDs = [] \<or> length versionIDs > 1000 \<or> [] \<in> set versionIDs then Inl ErrProjectionNotFound
      else let latest = fold (latest_step r tenantID versionIDs epoch) (ry_documents r) []
           in Inr (map (\<lambda>ident. snd (the (map_of latest ident))) (sort (map fst latest))))"

definition valueFamilyID :: "externals \<Rightarrow> string \<Rightarrow> Family \<Rightarrow> string" where
  "valueFamilyID ext tenantID family =
     (case MarshalAndHash ext (json_family_identity tenantID (fm_IntentHash family) (fm_EffectSignatureHash family)) of
        Inl _ \<Rightarrow> [] | Inr (_, hash) \<Rightarrow> ''proc_'' @ hash)"

definition projection_Canonical :: "externals \<Rightarrow> string \<Rightarrow> string \<Rightarrow> ProjectionRepository \<Rightarrow> projection_error + string" where
  "projection_Canonical ext tenantID versionID r =
     (case map_of (ry_versions r) versionID of
        None \<Rightarrow> Inl ErrProjectionNotFound
      | Some version \<Rightarrow>
          (case map_of (ry_families r) (ve_ProcedureID version) of
             None \<Rightarrow> Inl ErrProjectionNotFound
           | Some family \<Rightarrow>
               if fm_ID family = [] \<or> valueFamilyID ext tenantID family \<noteq> fm_ID family then Inl ErrProjectionNotFound
               else Inr (hash_at (ry_canonical r) versionID)))"

record ProjectionCounts =
  pk_Families :: nat
  pk_Versions :: nat
  pk_Steps :: nat
  pk_Edges :: nat
  pk_NegativePaths :: nat
  pk_Manifests :: nat
  pk_EvidenceLinks :: nat
  pk_RetrievalDocuments :: nat
  pk_ProjectionEpochs :: nat

definition ProjectionCounts_of :: "ProjectionRepository \<Rightarrow> ProjectionCounts" where
  "ProjectionCounts_of r =
     \<lparr>pk_Families = length (ry_families r), pk_Versions = length (ry_versions r), pk_Steps = length (ry_steps r), pk_Edges = length (ry_edges r),
      pk_NegativePaths = length (ry_negative r), pk_Manifests = length (ry_manifests r), pk_EvidenceLinks = length (ry_evidence r),
      pk_RetrievalDocuments = length (ry_documents r), pk_ProjectionEpochs = sum_list (map (\<lambda>(_, e). unat e) (ry_epochs r))\<rparr>"

section \<open>Lifecycle decisions\<close>

record Publication =
  pu_Manifest :: PolicyManifest
  pu_Decision :: Decision
  pu_SourceDocument :: Document
  pu_SourceEpoch :: uint64

text \<open>\<open>ErrInvalidPublication\<close> is the \<^verbatim>\<open>ErrInvalidLifecycle\<close> that a commit returns for a publication.\<close>

datatype publication_error =
    ErrInvalidPublication
  | ErrLifecycleConflict
  | ErrChampionConflict
  | ErrLifecycleNotFound
  | ErrPublicationDocument retrieval_error
  | ErrPublicationEncoding canonical_error

record lifecycle_Receipt =
  rl_DecisionID :: string
  rl_RetrievalDocumentID :: string
  rl_ProjectionEpoch :: uint64
  rl_Disposition :: publish_disposition

record VersionHead =
  vh_TenantID :: string
  vh_ProcedureID :: string
  vh_ProcedureVersionID :: string
  vh_PolicyManifestID :: string
  vh_State :: string
  vh_DecisionID :: string
  vh_ProjectionEpoch :: uint64
  vh_UpdatedAt :: time

record ChampionHead =
  ch_TenantID :: string
  ch_ProcedureID :: string
  ch_PolicyManifestID :: string
  ch_ProcedureVersionID :: string
  ch_DecisionID :: string
  ch_ProjectionEpoch :: uint64
  ch_UpdatedAt :: time

record LifecycleRepository =
  lr_projection :: ProjectionRepository
  lr_manifests :: "(string \<times> PolicyManifest) list"
  lr_decisions :: "(string \<times> Decision) list"
  lr_receipts :: "(string \<times> lifecycle_Receipt) list"
  lr_versions :: "(string \<times> VersionHead) list"
  lr_champions :: "(string \<times> ChampionHead) list"

definition NewLifecycleRepository :: "ProjectionRepository \<Rightarrow> LifecycleRepository" where
  "NewLifecycleRepository projection =
     \<lparr>lr_projection = projection, lr_manifests = [], lr_decisions = [], lr_receipts = [], lr_versions = [], lr_champions = []\<rparr>"

definition ValidatePublication :: "externals \<Rightarrow> Publication \<Rightarrow> bool" where
  "ValidatePublication ext v \<longleftrightarrow>
     (let d = pu_Decision v; s = pu_SourceDocument v in
      ValidatePolicyManifest ext (pu_Manifest v) \<and> ValidateDecision ext d \<and> ValidateDocument ext s \<and> pu_SourceEpoch v \<noteq> 0 \<and>
      ld_TenantID d = dc_TenantID s \<and> ld_TenantID d \<noteq> [] \<and> ld_ProcedureID d = dc_ProcedureID s \<and>
      ld_ProcedureVersionID d = dc_ProcedureVersionID s \<and> ld_PolicyManifestID d = lm_ID (pu_Manifest v) \<and> ld_PriorState d = dc_Lifecycle s)"

definition lifecycleVersionKey :: "string \<Rightarrow> string \<Rightarrow> string \<Rightarrow> string" where
  "lifecycleVersionKey tenantID versionID policyID = tenantID @ NUL @ versionID @ NUL @ policyID"

definition lifecycleChampionKey :: "string \<Rightarrow> string \<Rightarrow> string \<Rightarrow> string" where
  "lifecycleChampionKey tenantID procedureID policyID = tenantID @ NUL @ procedureID @ NUL @ policyID"

definition newer_document ::
  "ProjectionRepository \<Rightarrow> string \<Rightarrow> string \<Rightarrow> (string \<times> uint64) \<times> Document \<Rightarrow> uint64 \<times> Document option \<Rightarrow> uint64 \<times> Document option" where
  "newer_document r tenantID versionID = (\<lambda>(key, document) (epoch, result).
     let current = epoch_at (ry_documentEpoch r) key
     in if dc_TenantID document = tenantID \<and> dc_ProcedureVersionID document = versionID \<and> current > epoch
        then (current, Some document) else (epoch, result))"

definition latestDocument :: "ProjectionRepository \<Rightarrow> string \<Rightarrow> string \<Rightarrow> uint64 \<times> Document option" where
  "latestDocument r tenantID versionID = fold (newer_document r tenantID versionID) (ry_documents r) (0, None)"

text \<open>The part of \<^verbatim>\<open>Commit\<close> that publishes the document of the new state, if the state changes.\<close>

definition commit_document ::
  "externals \<Rightarrow> Publication \<Rightarrow> ProjectionRepository \<Rightarrow> publication_error + (lifecycle_Receipt \<times> ProjectionRepository)" where
  "commit_document ext v r =
     (let d = pu_Decision v; tenantID = ld_TenantID d; versionID = ld_ProcedureVersionID d;
          receipt = \<lparr>rl_DecisionID = ld_ID d, rl_RetrievalDocumentID = dc_ID (pu_SourceDocument v), rl_ProjectionEpoch = pu_SourceEpoch v,
                     rl_Disposition = ProjectionPublished\<rparr>
      in if ld_NextState d = ld_PriorState d then Inr (receipt, r)
         else case ReviseLifecycle ext (pu_SourceDocument v) (ld_NextState d) (ld_CausalSuccessCount d) (ld_UnsafeOutcomeCount d)
                     (ld_EvaluatedAt d) (lm_ID (pu_Manifest v)) of
           Inl e \<Rightarrow> Inl (ErrPublicationDocument e)
         | Inr document \<Rightarrow>
             let epoch = epoch_at (ry_epochs r) tenantID + 1
             in case MarshalAndHash ext (json_document_set tenantID epoch (previous_hash r tenantID) versionID (dc_ContentHash document)) of
                  Inl e \<Rightarrow> Inl (ErrPublicationEncoding e)
                | Inr (_, setHash) \<Rightarrow>
                    Inr (receipt\<lparr>rl_RetrievalDocumentID := dc_ID document, rl_ProjectionEpoch := epoch\<rparr>,
                         store_document tenantID versionID epoch setHash (ld_EvaluatedAt d) document r))"

definition version_head :: "Decision \<Rightarrow> string \<Rightarrow> uint64 \<Rightarrow> VersionHead" where
  "version_head d policyID epoch =
     \<lparr>vh_TenantID = ld_TenantID d, vh_ProcedureID = ld_ProcedureID d, vh_ProcedureVersionID = ld_ProcedureVersionID d,
      vh_PolicyManifestID = policyID, vh_State = ld_NextState d, vh_DecisionID = ld_ID d, vh_ProjectionEpoch = epoch, vh_UpdatedAt = ld_EvaluatedAt d\<rparr>"

definition champion_head :: "Decision \<Rightarrow> string \<Rightarrow> uint64 \<Rightarrow> ChampionHead" where
  "champion_head d policyID epoch =
     \<lparr>ch_TenantID = ld_TenantID d, ch_ProcedureID = ld_ProcedureID d, ch_PolicyManifestID = policyID,
      ch_ProcedureVersionID = ld_ProcedureVersionID d, ch_DecisionID = ld_ID d, ch_ProjectionEpoch = epoch, ch_UpdatedAt = ld_EvaluatedAt d\<rparr>"

definition store_decision :: "Publication \<Rightarrow> lifecycle_Receipt \<Rightarrow> ProjectionRepository \<Rightarrow> LifecycleRepository \<Rightarrow> LifecycleRepository" where
  "store_decision v receipt projection s =
     (let d = pu_Decision v; policyID = lm_ID (pu_Manifest v); epoch = rl_ProjectionEpoch receipt;
          championKey = lifecycleChampionKey (ld_TenantID d) (ld_ProcedureID d) policyID in
      s\<lparr>lr_projection := projection,
        lr_manifests := AList.update policyID (pu_Manifest v) (lr_manifests s),
        lr_decisions := AList.update (ld_ID d) d (lr_decisions s),
        lr_receipts := AList.update (ld_ID d) receipt (lr_receipts s),
        lr_versions := AList.update (lifecycleVersionKey (ld_TenantID d) (ld_ProcedureVersionID d) policyID) (version_head d policyID epoch) (lr_versions s),
        lr_champions := (if ld_NextState d = Active then AList.update championKey (champion_head d policyID epoch) (lr_champions s)
                         else if ld_PriorState d = Active then AList.delete championKey (lr_champions s) else lr_champions s)\<rparr>)"

text \<open>The conflicts that \<^verbatim>\<open>Commit\<close> looks for before it writes.\<close>

definition stale_source :: "Publication \<Rightarrow> LifecycleRepository \<Rightarrow> bool" where
  "stale_source v s =
     (case latestDocument (lr_projection s) (ld_TenantID (pu_Decision v)) (ld_ProcedureVersionID (pu_Decision v)) of
        (epoch, None) \<Rightarrow> True
      | (epoch, Some document) \<Rightarrow> epoch \<noteq> pu_SourceEpoch v \<or> dc_ContentHash document \<noteq> dc_ContentHash (pu_SourceDocument v))"

definition stale_head :: "Publication \<Rightarrow> LifecycleRepository \<Rightarrow> bool" where
  "stale_head v s =
     (let d = pu_Decision v in
      case map_of (lr_versions s) (lifecycleVersionKey (ld_TenantID d) (ld_ProcedureVersionID d) (lm_ID (pu_Manifest v))) of
        None \<Rightarrow> False
      | Some head \<Rightarrow> vh_State head \<noteq> ld_PriorState d \<or> vh_ProjectionEpoch head \<noteq> pu_SourceEpoch v)"

definition other_champion :: "Publication \<Rightarrow> LifecycleRepository \<Rightarrow> bool" where
  "other_champion v s =
     (let d = pu_Decision v in
      ld_NextState d = Active \<and>
      (case map_of (lr_champions s) (lifecycleChampionKey (ld_TenantID d) (ld_ProcedureID d) (lm_ID (pu_Manifest v))) of
         None \<Rightarrow> False | Some champion \<Rightarrow> ch_ProcedureVersionID champion \<noteq> ld_ProcedureVersionID d))"

definition CommitPublication ::
  "externals \<Rightarrow> Publication \<Rightarrow> LifecycleRepository \<Rightarrow> (publication_error + lifecycle_Receipt) \<times> LifecycleRepository" where
  "CommitPublication ext v s =
     (if \<not> ValidatePublication ext v then (Inl ErrInvalidPublication, s)
      else case map_of (lr_receipts s) (ld_ID (pu_Decision v)) of
        Some existing \<Rightarrow> (Inr (existing\<lparr>rl_Disposition := ProjectionDuplicate\<rparr>), s)
      | None \<Rightarrow>
          if (case map_of (lr_manifests s) (lm_ID (pu_Manifest v)) of
                None \<Rightarrow> False | Some existing \<Rightarrow> lm_ContentHash existing \<noteq> lm_ContentHash (pu_Manifest v)) \<or>
             stale_source v s \<or> stale_head v s
          then (Inl ErrLifecycleConflict, s)
          else if other_champion v s then (Inl ErrChampionConflict, s)
          else case commit_document ext v (lr_projection s) of
            Inl e \<Rightarrow> (Inl e, s)
          | Inr (receipt, projection) \<Rightarrow> (Inr receipt, store_decision v receipt projection s))"

definition VersionHead_of :: "string \<Rightarrow> string \<Rightarrow> string \<Rightarrow> LifecycleRepository \<Rightarrow> publication_error + VersionHead" where
  "VersionHead_of tenantID versionID policyID s =
     (case map_of (lr_versions s) (lifecycleVersionKey tenantID versionID policyID) of None \<Rightarrow> Inl ErrLifecycleNotFound | Some h \<Rightarrow> Inr h)"

definition Champion_of :: "string \<Rightarrow> string \<Rightarrow> string \<Rightarrow> LifecycleRepository \<Rightarrow> publication_error + ChampionHead" where
  "Champion_of tenantID procedureID policyID s =
     (case map_of (lr_champions s) (lifecycleChampionKey tenantID procedureID policyID) of None \<Rightarrow> Inl ErrLifecycleNotFound | Some c \<Rightarrow> Inr c)"

text \<open>The calls on the two repositories over one projection, in the order in which they get the mutex.\<close>

datatype repository_call = PublishCall Projection | CommitCall Publication

datatype repository_result = PublishResult "projection_error + PublishReceipt" | CommitResult "publication_error + lifecycle_Receipt"

fun repository_step :: "externals \<Rightarrow> repository_call \<Rightarrow> LifecycleRepository \<Rightarrow> repository_result \<times> LifecycleRepository" where
  "repository_step ext (PublishCall v) s =
     (case Publish ext v (lr_projection s) of (result, r) \<Rightarrow> (PublishResult result, s\<lparr>lr_projection := r\<rparr>))"
| "repository_step ext (CommitCall v) s =
     (case CommitPublication ext v s of (result, s') \<Rightarrow> (CommitResult result, s'))"

end
