(* ===== verification/Projection_Log.thy ===== *)
theory Projection_Log
  imports Projection_Store Queries
begin

text \<open>
  The documents of a tenant as a log. The repositories keep documents, epochs and hashes in six maps;
  the specification is one list per tenant, to which every accepted publication or change of state
  appends one document. The relation \<open>represents\<close> says how the maps follow from the lists; every call
  keeps it.
\<close>

section \<open>The specification\<close>

type_synonym document_log = "string \<Rightarrow> (string \<times> Document) list"

definition set_hash :: "externals \<Rightarrow> string \<Rightarrow> uint64 \<Rightarrow> string \<Rightarrow> string \<Rightarrow> Document \<Rightarrow> string" where
  "set_hash ext tenantID epoch previousHash versionID d =
     (case MarshalAndHash ext (json_document_set tenantID epoch (if previousHash = [] then replicate 64 CHR ''0'' else previousHash) versionID (dc_ContentHash d)) of
        Inl _ \<Rightarrow> [] | Inr (_, hash) \<Rightarrow> hash)"

fun chain_from :: "externals \<Rightarrow> string \<Rightarrow> nat \<Rightarrow> string \<Rightarrow> (string \<times> Document) list \<Rightarrow> string" where
  "chain_from ext t n prev [] = prev"
| "chain_from ext t n prev ((v, d) # rest) = chain_from ext t (Suc n) (set_hash ext t (of_nat (Suc n)) prev v d) rest"

definition chain_hash :: "externals \<Rightarrow> string \<Rightarrow> (string \<times> Document) list \<Rightarrow> string" where
  "chain_hash ext t xs = chain_from ext t 0 [] xs"

lemma chain_from_snoc:
  "chain_from ext t n prev (xs @ [(v, d)]) = set_hash ext t (of_nat (Suc (n + length xs))) (chain_from ext t n prev xs) v d"
  by (induction ext t n prev xs rule: chain_from.induct) simp_all

lemma chain_hash_snoc: "chain_hash ext t (xs @ [(v, d)]) = set_hash ext t (of_nat (Suc (length xs))) (chain_hash ext t xs) v d"
  by (simp add: chain_hash_def chain_from_snoc)

text \<open>What the code relies on: a struct of strings and numbers can always be encoded.\<close>

definition encodes_sets :: "externals \<Rightarrow> bool" where
  "encodes_sets ext \<longleftrightarrow> (\<forall>t e p v h. \<exists>r. MarshalAndHash ext (json_document_set t e p v h) = Inr r)"

definition entry_ok :: "externals \<Rightarrow> string \<Rightarrow> string \<times> Document \<Rightarrow> bool" where
  "entry_ok ext t = (\<lambda>(v, d). dc_TenantID d = t \<and> dc_ProcedureVersionID d = v \<and> ValidateDocument ext d \<and> \<not> contains_nul v)"

definition logged :: "document_log \<Rightarrow> string \<times> uint64 \<Rightarrow> Document \<Rightarrow> bool" where
  "logged journal k d \<longleftrightarrow> (\<exists>t i v. i < length (journal t) \<and> journal t ! i = (v, d) \<and> k = documentKey t v (of_nat (Suc i)))"

definition represents :: "externals \<Rightarrow> document_log \<Rightarrow> ProjectionRepository \<Rightarrow> bool" where
  "represents ext journal r \<longleftrightarrow>
     (\<forall>t. epoch_at (ry_epochs r) t = of_nat (length (journal t)) \<and> hash_at (ry_epochHashes r) t = chain_hash ext t (journal t) \<and>
          list_all (entry_ok ext t) (journal t)) \<and>
     (\<forall>t i. i < length (journal t) \<longrightarrow> map_of (ry_epochHistory r) (epochKey t (of_nat (Suc i))) = Some (chain_hash ext t (take (Suc i) (journal t)))) \<and>
     distinct (map fst (ry_documents r)) \<and>
     (\<forall>k d. (k, d) \<in> set (ry_documents r) \<longleftrightarrow> logged journal k d) \<and>
     (\<forall>(k, d) \<in> set (ry_documents r). map_of (ry_documentEpoch r) k = Some (snd k))"

lemma represents_member:
  assumes "represents ext journal r" "(k, d) \<in> set (ry_documents r)"
  shows "logged journal k d" "map_of (ry_documentEpoch r) k = Some (snd k)"
  using assms unfolding represents_def by blast+

section \<open>One document more\<close>

lemma nul_suffix_inject:
  assumes "\<not> contains_nul b" "\<not> contains_nul b'"
  shows "a @ NUL @ b = a' @ NUL @ b' \<longleftrightarrow> a = a' \<and> b = b'"
proof -
  have "a @ NUL @ b = a' @ NUL @ b' \<longleftrightarrow> rev b @ NUL @ rev a = rev b' @ NUL @ rev a'"
    by (metis append.assoc rev_append rev_rev_ident rev_singleton_conv)
  also have "\<dots> \<longleftrightarrow> rev b = rev b' \<and> rev a = rev a'"
    using assms by (intro nul_separated_inject) (simp_all add: contains_nul_def)
  finally show ?thesis by auto
qed

lemma of_nat64_inject: "i < 2 ^ 64 \<Longrightarrow> j < 2 ^ 64 \<Longrightarrow> (of_nat i :: uint64) = of_nat j \<longleftrightarrow> i = j"
  by (simp add: word_of_nat_eq_iff take_bit_nat_eq_self)

lemma documentKey_inject:
  assumes "\<not> contains_nul v" "\<not> contains_nul v'" "i < 2 ^ 64" "j < 2 ^ 64"
  shows "documentKey t v (of_nat i) = documentKey t' v' (of_nat j) \<longleftrightarrow> t = t' \<and> v = v' \<and> i = j"
  using nul_suffix_inject [OF assms(1,2)] of_nat64_inject [OF assms(3,4)] by (auto simp: documentKey_def)

lemma represents_fresh:
  assumes "represents ext journal r" "\<not> contains_nul v" "length (journal t) + 1 < 2 ^ 64" "\<forall>t. length (journal t) < 2 ^ 64"
  shows "documentKey t v (epoch_at (ry_epochs r) t + 1) \<notin> fst ` set (ry_documents r)"
proof
  assume "documentKey t v (epoch_at (ry_epochs r) t + 1) \<in> fst ` set (ry_documents r)"
  then obtain t' i v' d where l: "i < length (journal t')" "journal t' ! i = (v', d)"
      "documentKey t v (of_nat (Suc (length (journal t)))) = documentKey t' v' (of_nat (Suc i))"
    using assms(1) by (auto simp: represents_def logged_def add.commute)
  then have "\<not> contains_nul v'" using assms(1) nth_mem [OF l(1)] by (auto simp: represents_def list_all_iff entry_ok_def)
  moreover have "Suc i < 2 ^ 64" using l(1) assms(4) by (meson Suc_leI le_less_trans)
  ultimately show False using documentKey_inject [of v v' "Suc (length (journal t))" "Suc i" t t'] assms(2,3) l by auto
qed

lemma logged_snoc:
  "logged (journal(t := journal t @ [(v, d)])) k e \<longleftrightarrow>
    logged journal k e \<or> k = documentKey t v (of_nat (Suc (length (journal t)))) \<and> e = d"
proof
  assume "logged (journal(t := journal t @ [(v, d)])) k e"
  then obtain t' i v' where l: "i < length ((journal(t := journal t @ [(v, d)])) t')" "(journal(t := journal t @ [(v, d)])) t' ! i = (v', e)"
      "k = documentKey t' v' (of_nat (Suc i))" unfolding logged_def by blast
  show "logged journal k e \<or> k = documentKey t v (of_nat (Suc (length (journal t)))) \<and> e = d"
  proof (cases "t' = t \<and> i = length (journal t)")
    case False
    then have "i < length (journal t')" "journal t' ! i = (v', e)" using l(1,2) by (auto simp: nth_append split: if_splits)
    then show ?thesis unfolding logged_def using l(3) by blast
  qed (use l in auto)
next
  assume "logged journal k e \<or> k = documentKey t v (of_nat (Suc (length (journal t)))) \<and> e = d"
  then show "logged (journal(t := journal t @ [(v, d)])) k e"
  proof
    assume "logged journal k e"
    then obtain t' i v' where l: "i < length (journal t')" "journal t' ! i = (v', e)" "k = documentKey t' v' (of_nat (Suc i))"
      unfolding logged_def by blast
    then show ?thesis unfolding logged_def by (intro exI [of _ t'] exI [of _ i] exI [of _ v']) (auto simp: nth_append)
  next
    assume "k = documentKey t v (of_nat (Suc (length (journal t)))) \<and> e = d"
    then show ?thesis unfolding logged_def by (intro exI [of _ t] exI [of _ "length (journal t)"] exI [of _ v]) simp
  qed
qed

lemma epoch_at_update: "epoch_at (AList.update k v m) k' = (if k' = k then v else epoch_at m k')"
  by (simp add: epoch_at_def update_conv')

lemma hash_at_update: "hash_at (AList.update k v m) k' = (if k' = k then v else hash_at m k')"
  by (simp add: hash_at_def update_conv')

text \<open>Appending a document to the log of its tenant is what \<open>store_document\<close> does to the maps.\<close>

lemma store_document_represents:
  assumes "represents ext journal r" "\<forall>t. length (journal t) \<le> n" "Suc n < 2 ^ 64" "entry_ok ext t (v, d)"
    and "MarshalAndHash ext (json_document_set t (epoch_at (ry_epochs r) t + 1) (previous_hash r t) v (dc_ContentHash d)) = Inr (c, h)"
  shows "represents ext (journal(t := journal t @ [(v, d)])) (store_document t v (epoch_at (ry_epochs r) t + 1) h created d r)"
proof -
  let ?j = "journal(t := journal t @ [(v, d)])" and ?e = "epoch_at (ry_epochs r) t + 1"
  let ?r = "store_document t v ?e h created d r"
  have small: "\<forall>t. length (journal t) < 2 ^ 64" "length (journal t) + 1 < 2 ^ 64" using assms(2,3) by (auto intro: le_less_trans)
  have e: "?e = of_nat (Suc (length (journal t)))" using assms(1) by (simp add: represents_def add.commute)
  have nul: "\<not> contains_nul v" using assms(4) by (simp add: entry_ok_def)
  note fresh = represents_fresh [OF assms(1) nul small(2,1)]
  have hash: "h = chain_hash ext t (journal t @ [(v, d)])"
    using assms(1,5) by (simp add: chain_hash_snoc set_hash_def e [symmetric] represents_def previous_hash_def Let_def del: of_nat_Suc)
  have docs: "set (ry_documents ?r) = insert (documentKey t v ?e, d) (set (ry_documents r))"
    using assms(1) fresh by (auto simp: store_document_def represents_def set_update_distinct image_iff)
  have "epoch_at (ry_epochs ?r) t' = of_nat (length (?j t')) \<and> hash_at (ry_epochHashes ?r) t' = chain_hash ext t' (?j t') \<and>
      list_all (entry_ok ext t') (?j t')" for t'
    using assms(1,4) hash e by (auto simp: store_document_def represents_def epoch_at_update hash_at_update)
  moreover have "map_of (ry_epochHistory ?r) (epochKey t' (of_nat (Suc i))) = Some (chain_hash ext t' (take (Suc i) (?j t')))"
    if "i < length (?j t')" for t' i
  proof (cases "t' = t \<and> i = length (journal t)")
    case True
    then show ?thesis using hash by (simp add: store_document_def e update_conv' del: of_nat_Suc)
  next
    case False
    then have i: "i < length (journal t')" using that by (auto split: if_splits)
    then have "Suc i < 2 ^ 64" "Suc (length (journal t)) < 2 ^ 64"
      using small le_less_trans [OF Suc_leI [OF i], of "2 ^ 64"] by auto
    then have "epochKey t' (of_nat (Suc i)) \<noteq> epochKey t ?e"
      using i of_nat64_inject [of "Suc i" "Suc (length (journal t))"] by (auto simp: epochKey_def e simp del: of_nat_Suc)
    then have "map_of (ry_epochHistory ?r) (epochKey t' (of_nat (Suc i))) = Some (chain_hash ext t' (take (Suc i) (journal t')))"
      using assms(1) i by (simp add: store_document_def represents_def update_conv' del: of_nat_Suc)
    then show ?thesis using i by (cases "t' = t") (simp_all del: of_nat_Suc)
  qed
  moreover have "distinct (map fst (ry_documents ?r))" using assms(1) by (simp add: store_document_def represents_def distinct_update)
  moreover have "(k, x) \<in> set (ry_documents ?r) \<longleftrightarrow> logged ?j k x" for k x
  proof -
    have "(k, x) \<in> set (ry_documents r) \<longleftrightarrow> logged journal k x" using assms(1) unfolding represents_def by blast
    then show ?thesis unfolding docs unfolding logged_snoc e by blast
  qed
  moreover have "map_of (ry_documentEpoch ?r) k = Some (snd k)" if "(k, x) \<in> set (ry_documents ?r)" for k x
    using that assms(1) unfolding docs by (auto simp: store_document_def represents_def update_conv' documentKey_def)
  ultimately show ?thesis unfolding represents_def by blast
qed

section \<open>Every call keeps the log\<close>

text \<open>The maps that the relation reads.\<close>

definition log_view :: "ProjectionRepository \<Rightarrow> ProjectionRepository" where
  "log_view r = NewProjectionRepository\<lparr>ry_documents := ry_documents r, ry_documentEpoch := ry_documentEpoch r, ry_epochs := ry_epochs r,
     ry_epochHashes := ry_epochHashes r, ry_epochHistory := ry_epochHistory r, ry_epochCreated := ry_epochCreated r\<rparr>"

lemma log_view_sel:
  "ry_documents (log_view r) = ry_documents r" "ry_documentEpoch (log_view r) = ry_documentEpoch r" "ry_epochs (log_view r) = ry_epochs r"
  "ry_epochHashes (log_view r) = ry_epochHashes r" "ry_epochHistory (log_view r) = ry_epochHistory r"
  by (simp_all add: log_view_def)

lemma log_view_fields:
  assumes "log_view r' = log_view r"
  shows "ry_documents r' = ry_documents r" "ry_documentEpoch r' = ry_documentEpoch r" "ry_epochs r' = ry_epochs r"
    "ry_epochHashes r' = ry_epochHashes r" "ry_epochHistory r' = ry_epochHistory r"
  using assms by (metis log_view_sel)+

lemma represents_view:
  assumes "log_view r' = log_view r" shows "represents ext journal r' = represents ext journal r"
  unfolding represents_def log_view_fields [OF assms] ..

lemma publish_view:
  "publish_family v r = Some (r1, b) \<Longrightarrow> log_view r1 = log_view r"
  "publish_version v r1 = Some (r2, b') \<Longrightarrow> log_view r2 = log_view r1"
  "log_view (publish_evidence v r2) = log_view r2"
  by (auto simp: publish_family_def publish_version_def publish_evidence_def log_view_def Let_def split: option.splits if_splits)

text \<open>A call of either repository appends at most one document, to the log of one tenant.\<close>

inductive extends :: "externals \<Rightarrow> ProjectionRepository \<Rightarrow> ProjectionRepository \<Rightarrow> bool" for ext where
  unchanged: "log_view r' = log_view r \<Longrightarrow> extends ext r r'"
| appended: "entry_ok ext t (v, d) \<Longrightarrow> log_view r1 = log_view r \<Longrightarrow>
    MarshalAndHash ext (json_document_set t (epoch_at (ry_epochs r1) t + 1) (previous_hash r1 t) v (dc_ContentHash d)) = Inr (c, h) \<Longrightarrow>
    extends ext r (store_document t v (epoch_at (ry_epochs r1) t + 1) h created d r1)"

text \<open>The step of the specification: nothing, or one entry more for one tenant.\<close>

definition log_step :: "document_log \<Rightarrow> document_log \<Rightarrow> bool" where
  "log_step journal journal' \<longleftrightarrow> journal' = journal \<or> (\<exists>t e. journal' = journal(t := journal t @ [e]))"

lemma extends_represents:
  assumes "extends ext r r'" "represents ext journal r" "\<forall>t. length (journal t) \<le> n" "Suc n < 2 ^ 64"
  shows "\<exists>journal'. represents ext journal' r' \<and> log_step journal journal'"
  using assms(1)
proof cases
  case unchanged
  have "represents ext journal r'" using assms(2) represents_view [OF unchanged] by simp
  then show ?thesis by (auto simp: log_step_def)
next
  case (appended t v d r1 c h created)
  have "represents ext journal r1" using assms(2) represents_view [OF appended(3)] by simp
  from store_document_represents [OF this assms(3,4) appended(2,4)] show ?thesis
    using appended(1) by (auto simp: log_step_def)
qed

lemma log_step_length: "log_step journal journal' \<Longrightarrow> \<forall>t. length (journal t) \<le> n \<Longrightarrow> \<forall>t. length (journal' t) \<le> Suc n"
  by (auto simp: log_step_def le_SucI)

lemma hash_case:
  "(case MarshalAndHash ext x of Inl _ \<Rightarrow> False | Inr (c, h) \<Rightarrow> P c h) \<longleftrightarrow> (\<exists>c h. MarshalAndHash ext x = Inr (c, h) \<and> P c h)"
  by (auto split: sum.splits)

lemma version_id_nul_free:
  assumes "digest32 ext" "projection_Validate ext v" "pt_Status (pj_Manifest v) \<noteq> ''abstained''"
  shows "\<not> contains_nul (ve_ID (pj_Version v))"
proof -
  have "\<exists>h. hashPattern h \<and> ve_ID (pj_Version v) = ''pv_'' @ h"
  proof -
    have "validateProcedureProjection ext v" using assms(2,3) by (simp add: projection_Validate_def Let_def)
    then obtain x c h where "MarshalAndHash ext x = Inr (c, h)" "ve_ID (pj_Version v) = ''pv_'' @ h"
      unfolding validateProcedureProjection_def Let_def hash_case by blast
    then show ?thesis using MarshalAndHash_pattern [OF assms(1)] by blast
  qed
  then obtain h where h: "hashPattern h" "ve_ID (pj_Version v) = ''pv_'' @ h" by blast
  have "list_all visible_char h" using h(1) list_all_hex_token [of h] by (auto simp: hashPattern_def list_all_iff intro: is_token_visible)
  moreover have "\<not> visible_char CHR 0x00" by code_simp
  ultimately show ?thesis using h(2) by (auto simp: contains_nul_def list_all_iff)
qed

lemma publish_extends:
  assumes "digest32 ext" "encodes_sets ext"
  shows "extends ext r (snd (Publish ext v r))"
proof -
  have same: "extends ext r r" by (simp add: unchanged)
  show ?thesis
  proof (cases "projection_Validate ext v \<and> map_of (ry_manifests r) (pt_ID (pj_Manifest v)) = None \<and> pt_Status (pj_Manifest v) \<noteq> ''abstained''")
    case False
    then show ?thesis using same unchanged [of "r\<lparr>ry_manifests := AList.update (pt_ID (pj_Manifest v)) (pj_Manifest v) (ry_manifests r)\<rparr>" r]
      by (auto simp: Publish_def Let_def log_view_def split: option.splits)
  next
    case True
    note nul = version_id_nul_free [OF assms(1), of v]
    have doc: "extends ext r (snd (publish_document ext v rc r1))" if "log_view r1 = log_view r" for r1 rc
    proof (cases "pj_RetrievalDocument v")
      case None
      then show ?thesis using that by (simp add: publish_document_def unchanged)
    next
      case (Some source)
      let ?rev = "ReviseEvidence ext source (evidence_count r1 (ve_ID (pj_Version v))) 0 (pj_CreatedAt v)"
      show ?thesis
      proof (cases ?rev)
        case (Inl e)
        then show ?thesis using that Some by (simp add: publish_document_def unchanged)
      next
        case (Inr d)
        obtain c h where h: "MarshalAndHash ext (json_document_set (pj_TenantID v) (epoch_at (ry_epochs r1) (pj_TenantID v) + 1)
            (previous_hash r1 (pj_TenantID v)) (ve_ID (pj_Version v)) (dc_ContentHash d)) = Inr (c, h)"
          using assms(2) unfolding encodes_sets_def by (metis surj_pair)
        have "entry_ok ext (pj_TenantID v) (ve_ID (pj_Version v), d)"
          using True nul Some ReviseEvidence_Inr(2,4) [OF Inr] serving_identity_fields [of d source]
          by (auto simp: entry_ok_def projection_Validate_def valid_document_of_def Let_def)
        from appended [OF this that h] show ?thesis using Some Inr h by (simp add: publish_document_def Let_def)
      qed
    qed
    have "snd (Publish ext v r) = (case publish_family v r of None \<Rightarrow> r | Some (r1, b) \<Rightarrow> (case publish_version v r1 of None \<Rightarrow> r1
        | Some (r2, b') \<Rightarrow> snd (publish_document ext v ((publish_receipt v ProjectionPublished)\<lparr>pb_NewFamily := b, pb_NewVersion := b',
            pb_EvidenceAdded := (evidence_key v \<notin> set (ry_evidence r2))\<rparr>) (publish_evidence v r2))))"
      using True by (simp add: Publish_def Let_def split: option.splits)
    then show ?thesis using same unchanged publish_view doc by (auto split: option.splits)
  qed
qed

lemma tokenPattern_nul_free: "tokenPattern s \<Longrightarrow> \<not> contains_nul s"
proof -
  have "\<not> is_token_char CHR 0x00" "\<not> is_alnum_char CHR 0x00" by code_simp+
  then show "tokenPattern s \<Longrightarrow> \<not> contains_nul s" by (cases s) (auto simp: contains_nul_def list_all_iff)
qed

lemma commit_document_extends:
  assumes "commit_document ext v r = Inr (receipt, r')" "ValidatePublication ext v"
  shows "extends ext r r'"
proof (cases "ld_NextState (pu_Decision v) = ld_PriorState (pu_Decision v)")
  case True
  then show ?thesis using assms(1) by (simp add: commit_document_def unchanged)
next
  case False
  let ?d = "pu_Decision v"
  obtain document c h where d: "ReviseLifecycle ext (pu_SourceDocument v) (ld_NextState ?d) (ld_CausalSuccessCount ?d) (ld_UnsafeOutcomeCount ?d)
        (ld_EvaluatedAt ?d) (lm_ID (pu_Manifest v)) = Inr document"
      "MarshalAndHash ext (json_document_set (ld_TenantID ?d) (epoch_at (ry_epochs r) (ld_TenantID ?d) + 1) (previous_hash r (ld_TenantID ?d))
        (ld_ProcedureVersionID ?d) (dc_ContentHash document)) = Inr (c, h)"
      "r' = store_document (ld_TenantID ?d) (ld_ProcedureVersionID ?d) (epoch_at (ry_epochs r) (ld_TenantID ?d) + 1) h (ld_EvaluatedAt ?d) document r"
    using assms(1) False by (auto simp: commit_document_def Let_def split: sum.split_asm)
  have "entry_ok ext (ld_TenantID ?d) (ld_ProcedureVersionID ?d, document)"
    using assms(2) ReviseLifecycle_Inr(2,4) [OF d(1)] serving_identity_fields [of document "pu_SourceDocument v"]
    by (auto simp: entry_ok_def ValidatePublication_def ValidateDecision_def Let_def dest: tokenPattern_nul_free)
  from appended [OF this refl d(2)] show ?thesis by (simp add: d(3))
qed

text \<open>The two outcomes of a commit.\<close>

lemma CommitPublication_cases:
  obtains (refused) "snd (CommitPublication ext v s) = s"
  | (stored) receipt r where "ValidatePublication ext v" "map_of (lr_receipts s) (ld_ID (pu_Decision v)) = None" "\<not> stale_source v s" "\<not> stale_head v s"
    "\<not> other_champion v s" "commit_document ext v (lr_projection s) = Inr (receipt, r)"
    "CommitPublication ext v s = (Inr receipt, store_decision v receipt r s)"
proof (cases "snd (CommitPublication ext v s) = s")
  case False
  let ?m = "case map_of (lr_manifests s) (lm_ID (pu_Manifest v)) of None \<Rightarrow> False | Some existing \<Rightarrow> lm_ContentHash existing \<noteq> lm_ContentHash (pu_Manifest v)"
  have g: "ValidatePublication ext v" "map_of (lr_receipts s) (ld_ID (pu_Decision v)) = None" "\<not> ?m" "\<not> stale_source v s" "\<not> stale_head v s" "\<not> other_champion v s"
    using False unfolding CommitPublication_def by (auto split: if_split_asm option.split_asm)
  then obtain receipt r where c: "commit_document ext v (lr_projection s) = Inr (receipt, r)"
    using False by (cases "commit_document ext v (lr_projection s)") (auto simp: CommitPublication_def)
  with g have "CommitPublication ext v s = (Inr receipt, store_decision v receipt r s)" by (simp add: CommitPublication_def)
  with g c show thesis by (intro that(2))
qed (rule that(1))

lemma step_extends:
  assumes "digest32 ext" "encodes_sets ext"
  shows "extends ext (lr_projection s) (lr_projection (snd (repository_step ext c s)))"
proof (cases c)
  case (PublishCall v)
  then show ?thesis using publish_extends [OF assms, of "lr_projection s" v] by (simp add: case_prod_beta)
next
  case (CommitCall v)
  show ?thesis
  proof (cases rule: CommitPublication_cases [of ext v s])
    case refused
    then show ?thesis using CommitCall by (simp add: case_prod_beta unchanged)
  next
    case (stored receipt r)
    then show ?thesis using CommitCall commit_document_extends [OF stored(6,1)] by (simp add: store_decision_def Let_def)
  qed
qed

abbreviation empty_repository :: LifecycleRepository where
  "empty_repository \<equiv> NewLifecycleRepository NewProjectionRepository"

lemma represents_empty: "represents ext (\<lambda>t. []) NewProjectionRepository"
  by (auto simp: represents_def NewProjectionRepository_def epoch_at_def hash_at_def chain_hash_def logged_def)

lemma run_represents:
  assumes "digest32 ext" "encodes_sets ext" "length calls < 2 ^ 64"
  shows "\<exists>journal. represents ext journal (lr_projection (run_calls (repository_step ext) calls empty_repository)) \<and>
    (\<forall>t. length (journal t) \<le> length calls)"
  using assms(3)
proof (induction calls rule: rev_induct)
  case Nil
  show ?case using represents_empty by (intro exI [of _ "\<lambda>t. []"]) (simp add: run_calls_def NewLifecycleRepository_def)
next
  case (snoc c calls)
  let ?s = "run_calls (repository_step ext) calls empty_repository"
  obtain journal where j: "represents ext journal (lr_projection ?s)" "\<forall>t. length (journal t) \<le> length calls" using snoc by auto
  have "run_calls (repository_step ext) (calls @ [c]) empty_repository = snd (repository_step ext c ?s)" by (simp add: run_calls_def)
  then show ?case using extends_represents [OF step_extends [OF assms(1,2), of ?s c] j] snoc.prems log_step_length j(2) by fastforce
qed

text \<open>The documents of every tenant form one log. Whatever is published and committed, in any
  order and with any errors, the six maps of the projection repository are those of a list of documents
  per tenant: the epoch is the length of the list, the document of an epoch is the one at its position,
  valid and stored under its own tenant and version, and the hash of an epoch is the hash over the
  hash of the epoch before. One more call leaves all lists or appends one document to one of them.
  The digest has 32 bytes, the entries of the chain can be encoded, and there are fewer than two to
  the 64 calls.\<close>

theorem epochs_form_log:
  assumes "digest32 ext" "encodes_sets ext" "length calls + 1 < 2 ^ 64"
  shows "\<exists>journal. represents ext journal (lr_projection (run_calls (repository_step ext) calls empty_repository)) \<and>
    (\<forall>c. \<exists>journal'. represents ext journal' (lr_projection (run_calls (repository_step ext) (calls @ [c]) empty_repository)) \<and>
       log_step journal journal')"
proof -
  let ?s = "run_calls (repository_step ext) calls empty_repository"
  obtain journal where j: "represents ext journal (lr_projection ?s)" "\<forall>t. length (journal t) \<le> length calls"
    using run_represents [OF assms(1,2), of calls] assms(3) by auto
  have "run_calls (repository_step ext) (calls @ [c]) empty_repository = snd (repository_step ext c ?s)" for c by (simp add: run_calls_def)
  then show ?thesis using j extends_represents [OF step_extends [OF assms(1,2), of ?s] j] assms(3) by (intro exI [of _ journal]) simp
qed

end
