(* ===== verification/Lifecycle_Heads.thy ===== *)
theory Lifecycle_Heads
  imports Projection_Log
begin

text \<open>
  The heads that lifecycle decisions move: one per procedure version and policy, and the champion of a
  procedure family under a policy.
\<close>

section \<open>Keys\<close>

lemma version_key_inject:
  assumes "\<not> contains_nul v" "\<not> contains_nul m" "\<not> contains_nul v'" "\<not> contains_nul m'"
  shows "lifecycleVersionKey t v m = lifecycleVersionKey t' v' m' \<longleftrightarrow> t = t' \<and> v = v' \<and> m = m'"
  using nul_suffix_inject [OF assms(2,4), of "t @ NUL @ v" "t' @ NUL @ v'"] nul_suffix_inject [OF assms(1,3), of t t']
  by (simp add: lifecycleVersionKey_def)

lemma champion_key_inject:
  assumes "\<not> contains_nul v" "\<not> contains_nul m" "\<not> contains_nul v'" "\<not> contains_nul m'"
  shows "lifecycleChampionKey t v m = lifecycleChampionKey t' v' m' \<longleftrightarrow> t = t' \<and> v = v' \<and> m = m'"
  using version_key_inject [OF assms, of t t'] by (simp add: lifecycleVersionKey_def lifecycleChampionKey_def)

lemma publication_tokens:
  assumes "ValidatePublication ext q"
  shows "\<not> contains_nul (ld_ProcedureVersionID (pu_Decision q))" "\<not> contains_nul (ld_ProcedureID (pu_Decision q))" "\<not> contains_nul (lm_ID (pu_Manifest q))"
  using assms tokenPattern_nul_free by (auto simp: ValidatePublication_def ValidateDecision_def Let_def)

section \<open>The latest document\<close>

lemma newer_document_fold:
  "fst start \<le> fst (fold (newer_document r t v) docs start) \<and>
   (\<forall>(k, d) \<in> set docs. dc_TenantID d = t \<and> dc_ProcedureVersionID d = v \<longrightarrow>
      epoch_at (ry_documentEpoch r) k \<le> fst (fold (newer_document r t v) docs start)) \<and>
   (fold (newer_document r t v) docs start = start \<or>
    (\<exists>(k, d) \<in> set docs. dc_TenantID d = t \<and> dc_ProcedureVersionID d = v \<and>
       fold (newer_document r t v) docs start = (epoch_at (ry_documentEpoch r) k, Some d)))"
proof (induction docs arbitrary: start)
  case (Cons x docs)
  obtain k d where x: "x = (k, d)" by (cases x)
  obtain e res where st: "start = (e, res)" by (cases start)
  show ?case using Cons.IH [of "newer_document r t v x start"] by (auto simp: x st newer_document_def Let_def split: if_splits)
qed auto

lemma latestDocument_bound:
  assumes "(k, d) \<in> set (ry_documents r)" "dc_TenantID d = t" "dc_ProcedureVersionID d = v"
  shows "epoch_at (ry_documentEpoch r) k \<le> fst (latestDocument r t v)"
  using newer_document_fold [of "(0, None)" r t v "ry_documents r"] assms by (auto simp: latestDocument_def)

lemma latestDocument_Some:
  assumes "latestDocument r t v = (e, Some d)"
  obtains k where "(k, d) \<in> set (ry_documents r)" "dc_TenantID d = t" "dc_ProcedureVersionID d = v" "e = epoch_at (ry_documentEpoch r) k"
  using newer_document_fold [of "(0, None)" r t v "ry_documents r"] assms that by (auto simp: latestDocument_def)

text \<open>No document is ahead of the epoch of its tenant.\<close>

lemma represents_epoch_bound:
  assumes "represents ext journal r" "\<forall>t. length (journal t) \<le> n" "n < 2 ^ 64" "(k, d) \<in> set (ry_documents r)"
  shows "epoch_at (ry_documentEpoch r) k = snd k \<and> snd k \<le> epoch_at (ry_epochs r) (dc_TenantID d)"
proof -
  obtain t i v where l: "i < length (journal t)" "journal t ! i = (v, d)" "k = documentKey t v (of_nat (Suc i))"
    using represents_member(1) [OF assms(1,4)] unfolding logged_def by blast
  have "dc_TenantID d = t" using assms(1) nth_mem [OF l(1)] l(2) by (auto simp: represents_def list_all_iff entry_ok_def)
  moreover have "(of_nat (Suc i) :: uint64) \<le> of_nat (length (journal t))"
    using l(1) le_less_trans [OF assms(2) [rule_format] assms(3)]
    by (simp add: word_le_nat_alt unat_of_nat take_bit_nat_eq_self le_less_trans [OF Suc_leI] del: of_nat_Suc)
  moreover have "epoch_at (ry_epochs r) t = of_nat (length (journal t))" using assms(1) by (simp add: represents_def)
  ultimately show ?thesis using represents_member(2) [OF assms(1,4)] l(3) by (simp add: epoch_at_def documentKey_def del: of_nat_Suc)
qed

section \<open>Heads never run ahead\<close>

definition head_ok :: "LifecycleRepository \<Rightarrow> string \<times> VersionHead \<Rightarrow> bool" where
  "head_ok s = (\<lambda>(k, h). k = lifecycleVersionKey (vh_TenantID h) (vh_ProcedureVersionID h) (vh_PolicyManifestID h) \<and>
     \<not> contains_nul (vh_ProcedureVersionID h) \<and> \<not> contains_nul (vh_PolicyManifestID h) \<and>
     vh_ProjectionEpoch h \<le> epoch_at (ry_epochs (lr_projection s)) (vh_TenantID h))"

text \<open>The epoch of every tenant only grows, and a head that is written has the epoch of a document.\<close>

lemma log_step_epoch:
  assumes "represents ext journal r" "represents ext journal' r'" "log_step journal journal'" "\<forall>t. length (journal t) \<le> n" "Suc n < 2 ^ 64"
  shows "epoch_at (ry_epochs r) t \<le> epoch_at (ry_epochs r') t"
proof -
  have "length (journal t) \<le> length (journal' t)" "length (journal' t) < 2 ^ 64" "length (journal t) < 2 ^ 64"
    using assms(3-5) log_step_length [OF assms(3,4)] by (auto simp: log_step_def intro: le_less_trans)
  moreover have "epoch_at (ry_epochs r) t = of_nat (length (journal t))" "epoch_at (ry_epochs r') t = of_nat (length (journal' t))"
    using assms(1,2) by (simp_all add: represents_def)
  ultimately show ?thesis by (simp add: word_le_nat_alt unat_of_nat take_bit_nat_eq_self)
qed

lemma commit_document_epoch:
  assumes "commit_document ext q r = Inr (receipt, r')"
  shows "rl_ProjectionEpoch receipt = pu_SourceEpoch q \<or> rl_ProjectionEpoch receipt = epoch_at (ry_epochs r') (ld_TenantID (pu_Decision q))"
    "rl_Disposition receipt = ProjectionPublished"
  using assms by (auto simp: commit_document_def store_document_def epoch_at_update Let_def split: if_split_asm sum.split_asm)

lemma stored_head_bound:
  assumes "represents ext journal r" "represents ext journal' r'" "log_step journal journal'" "\<forall>t. length (journal t) \<le> n" "Suc n < 2 ^ 64"
    and "commit_document ext q r = Inr (receipt, r')" "\<not> stale_source q s" "lr_projection s = r"
  shows "rl_ProjectionEpoch receipt \<le> epoch_at (ry_epochs r') (ld_TenantID (pu_Decision q))"
proof -
  let ?t = "ld_TenantID (pu_Decision q)" and ?v = "ld_ProcedureVersionID (pu_Decision q)"
  obtain d where "latestDocument r ?t ?v = (pu_SourceEpoch q, Some d)"
    using assms(7,8) by (auto simp: stale_source_def split: prod.splits option.splits)
  then obtain k where "(k, d) \<in> set (ry_documents r)" "dc_TenantID d = ?t" "pu_SourceEpoch q = epoch_at (ry_documentEpoch r) k"
    by (rule latestDocument_Some)
  then have "pu_SourceEpoch q \<le> epoch_at (ry_epochs r) ?t"
    using represents_epoch_bound [OF assms(1,4)] assms(5) by fastforce
  then show ?thesis using commit_document_epoch(1) [OF assms(6)] log_step_epoch [OF assms(1-5), of ?t] by auto
qed

lemma step_heads:
  fixes ext :: externals and s :: LifecycleRepository and c :: repository_call
  assumes "digest32 ext" "encodes_sets ext" "represents ext journal (lr_projection s)" "\<forall>t. length (journal t) \<le> n" "Suc n < 2 ^ 64"
    and "\<forall>x \<in> set (lr_versions s). head_ok s x" "distinct (map fst (lr_versions s))"
  defines "s' \<equiv> snd (repository_step ext c s)"
  shows "(\<forall>x \<in> set (lr_versions s'). head_ok s' x) \<and> distinct (map fst (lr_versions s'))"
proof -
  obtain journal' where j: "represents ext journal' (lr_projection s')" "log_step journal journal'"
    using extends_represents [OF step_extends [OF assms(1,2), of s c] assms(3-5)] unfolding s'_def by blast
  have old: "head_ok s' x" if "head_ok s x" for x
    using that log_step_epoch [OF assms(3) j assms(4,5)] order_trans by (fastforce simp: head_ok_def)
  show ?thesis
  proof (cases c)
    case (PublishCall p)
    then have "lr_versions s' = lr_versions s" by (simp add: s'_def case_prod_beta)
    then show ?thesis using old assms(6,7) by simp
  next
    case (CommitCall q)
    show ?thesis
    proof (cases rule: CommitPublication_cases [of ext q s])
      case refused
      then show ?thesis using CommitCall assms(6,7) by (simp add: s'_def case_prod_beta)
    next
      case (stored receipt r)
      let ?d = "pu_Decision q" and ?m = "lm_ID (pu_Manifest q)"
      have s': "s' = store_decision q receipt r s" using stored(7) CommitCall by (simp add: s'_def)
      then have r: "lr_projection s' = r" by (simp add: store_decision_def Let_def)
      have vs: "lr_versions s' = AList.update (lifecycleVersionKey (ld_TenantID ?d) (ld_ProcedureVersionID ?d) ?m)
          (version_head ?d ?m (rl_ProjectionEpoch receipt)) (lr_versions s)" by (simp add: s' store_decision_def Let_def)
      have "head_ok s' (lifecycleVersionKey (ld_TenantID ?d) (ld_ProcedureVersionID ?d) ?m, version_head ?d ?m (rl_ProjectionEpoch receipt))"
        using publication_tokens [OF stored(1)] stored_head_bound [OF assms(3) j(1) [unfolded r] j(2) assms(4,5) stored(6,3) refl] r
        by (simp add: head_ok_def version_head_def)
      then show ?thesis using old assms(6,7) by (auto simp: vs set_update_distinct distinct_update)
    qed
  qed
qed

lemma run_heads:
  assumes "digest32 ext" "encodes_sets ext" "length calls < 2 ^ 64"
  shows "(\<forall>x \<in> set (lr_versions (run_calls (repository_step ext) calls empty_repository)).
      head_ok (run_calls (repository_step ext) calls empty_repository) x) \<and>
    distinct (map fst (lr_versions (run_calls (repository_step ext) calls empty_repository)))"
  using assms(3)
proof (induction calls rule: rev_induct)
  case Nil
  show ?case by (simp add: run_calls_def NewLifecycleRepository_def)
next
  case (snoc c calls)
  let ?s = "run_calls (repository_step ext) calls empty_repository"
  have "run_calls (repository_step ext) (calls @ [c]) empty_repository = snd (repository_step ext c ?s)" by (simp add: run_calls_def)
  moreover obtain journal where "represents ext journal (lr_projection ?s)" "\<forall>t. length (journal t) \<le> length calls"
    using run_represents [OF assms(1,2), of calls] snoc.prems by auto
  ultimately show ?case using step_heads [OF assms(1,2), of journal ?s "length calls" c] snoc by simp
qed

section \<open>Champions\<close>

text \<open>A version belongs to one family: its identifier is a hash over the identifier of the family.\<close>

definition one_family :: "repository_call list \<Rightarrow> bool" where
  "one_family calls \<longleftrightarrow> (\<forall>x \<in> set calls. \<forall>y \<in> set calls. case (x, y) of
     (CommitCall a, CommitCall b) \<Rightarrow> ld_TenantID (pu_Decision a) = ld_TenantID (pu_Decision b) \<and>
        ld_ProcedureVersionID (pu_Decision a) = ld_ProcedureVersionID (pu_Decision b) \<longrightarrow> ld_ProcedureID (pu_Decision a) = ld_ProcedureID (pu_Decision b)
   | _ \<Rightarrow> True)"

lemma one_family_same:
  "one_family calls \<Longrightarrow> CommitCall a \<in> set calls \<Longrightarrow> CommitCall b \<in> set calls \<Longrightarrow> ld_TenantID (pu_Decision a) = ld_TenantID (pu_Decision b) \<Longrightarrow>
   ld_ProcedureVersionID (pu_Decision a) = ld_ProcedureVersionID (pu_Decision b) \<Longrightarrow> ld_ProcedureID (pu_Decision a) = ld_ProcedureID (pu_Decision b)"
  unfolding one_family_def by fastforce

definition head_of_champion :: "LifecycleRepository \<Rightarrow> ChampionHead \<Rightarrow> VersionHead option" where
  "head_of_champion s c = map_of (lr_versions s) (lifecycleVersionKey (ch_TenantID c) (ch_ProcedureVersionID c) (ch_PolicyManifestID c))"

definition champion_ok :: "repository_call list \<Rightarrow> LifecycleRepository \<Rightarrow> string \<times> ChampionHead \<Rightarrow> bool" where
  "champion_ok calls s = (\<lambda>(k, c). k = lifecycleChampionKey (ch_TenantID c) (ch_ProcedureID c) (ch_PolicyManifestID c) \<and>
     \<not> contains_nul (ch_ProcedureVersionID c) \<and> \<not> contains_nul (ch_PolicyManifestID c) \<and>
     (\<exists>q. CommitCall q \<in> set calls \<and> ld_TenantID (pu_Decision q) = ch_TenantID c \<and> ld_ProcedureID (pu_Decision q) = ch_ProcedureID c \<and>
        ld_ProcedureVersionID (pu_Decision q) = ch_ProcedureVersionID c) \<and>
     (\<exists>h. head_of_champion s c = Some h \<and> vh_State h = Active \<and> vh_DecisionID h = ch_DecisionID c \<and> vh_ProcedureID h = ch_ProcedureID c))"

lemma commit_champions:
  fixes q :: Publication and s :: LifecycleRepository and receipt :: lifecycle_Receipt and r :: ProjectionRepository
  assumes "one_family calls" "CommitCall q \<in> set calls" "\<forall>x \<in> set (lr_champions s). champion_ok calls s x" "distinct (map fst (lr_champions s))"
    and "ValidatePublication ext q" "\<not> stale_head q s"
  defines "s' \<equiv> store_decision q receipt r s"
  shows "\<forall>x \<in> set (lr_champions s'). champion_ok calls s' x"
proof
  let ?d = "pu_Decision q" and ?m = "lm_ID (pu_Manifest q)"
  let ?ck = "lifecycleChampionKey (ld_TenantID ?d) (ld_ProcedureID ?d) ?m" and ?vk = "lifecycleVersionKey (ld_TenantID ?d) (ld_ProcedureVersionID ?d) ?m"
  note nul = publication_tokens [OF assms(5)]
  have vs: "map_of (lr_versions s') k = (if k = ?vk then Some (version_head ?d ?m (rl_ProjectionEpoch receipt)) else map_of (lr_versions s) k)" for k
    by (simp add: s'_def store_decision_def Let_def update_conv')
  fix x assume x: "x \<in> set (lr_champions s')"
  obtain k c where kc: "x = (k, c)" by (cases x)
  show "champion_ok calls s' x"
  proof (cases "ld_NextState ?d = Active \<and> x = (?ck, champion_head ?d ?m (rl_ProjectionEpoch receipt))")
    case True
    then show ?thesis using nul assms(2) by (auto simp: champion_ok_def head_of_champion_def vs champion_head_def version_head_def)
  next
    case False
    have old: "x \<in> set (lr_champions s)" "ld_NextState ?d = Active \<or> ld_PriorState ?d = Active \<Longrightarrow> k \<noteq> ?ck"
      using x False assms(4) by (auto simp: kc s'_def store_decision_def Let_def set_update_distinct AList.delete_eq split: if_split_asm)
    then have c: "champion_ok calls s x" using assms(3) by blast
    have "lifecycleVersionKey (ch_TenantID c) (ch_ProcedureVersionID c) (ch_PolicyManifestID c) \<noteq> ?vk"
    proof
      assume same: "lifecycleVersionKey (ch_TenantID c) (ch_ProcedureVersionID c) (ch_PolicyManifestID c) = ?vk"
      then have eq: "ch_TenantID c = ld_TenantID ?d" "ch_ProcedureVersionID c = ld_ProcedureVersionID ?d" "ch_PolicyManifestID c = ?m"
        using version_key_inject nul c by (auto simp: champion_ok_def kc)
      then have "ch_ProcedureID c = ld_ProcedureID ?d" using c one_family_same [OF assms(1) _ assms(2)] by (auto simp: champion_ok_def kc)
      then have "k = ?ck" using c eq by (simp add: champion_ok_def kc)
      moreover have "ld_PriorState ?d = Active"
        using assms(6) c eq by (auto simp: champion_ok_def kc head_of_champion_def stale_head_def Let_def)
      ultimately show False using old(2) by blast
    qed
    then show ?thesis using c by (auto simp: champion_ok_def kc head_of_champion_def vs)
  qed
qed

lemma run_champions:
  assumes "one_family calls"
  shows "(\<forall>x \<in> set (lr_champions (run_calls (repository_step ext) calls empty_repository)).
      champion_ok calls (run_calls (repository_step ext) calls empty_repository) x) \<and>
    distinct (map fst (lr_champions (run_calls (repository_step ext) calls empty_repository)))"
  using assms
proof (induction calls rule: rev_induct)
  case Nil
  show ?case by (simp add: run_calls_def NewLifecycleRepository_def)
next
  case (snoc c calls)
  let ?s = "run_calls (repository_step ext) calls empty_repository"
  have run: "run_calls (repository_step ext) (calls @ [c]) empty_repository = snd (repository_step ext c ?s)" by (simp add: run_calls_def)
  have "one_family calls" using snoc.prems by (auto simp: one_family_def)
  then have ih: "\<forall>x \<in> set (lr_champions ?s). champion_ok (calls @ [c]) ?s x" "distinct (map fst (lr_champions ?s))"
    using snoc.IH by (auto simp: champion_ok_def)
  show ?case
  proof (cases c)
    case (PublishCall p)
    then show ?thesis unfolding run using ih by (auto simp: case_prod_beta champion_ok_def head_of_champion_def)
  next
    case (CommitCall q)
    show ?thesis
    proof (cases rule: CommitPublication_cases [of ext q ?s])
      case refused
      then show ?thesis unfolding run using ih CommitCall by (simp add: case_prod_beta)
    next
      case (stored receipt r)
      have s': "snd (repository_step ext c ?s) = store_decision q receipt r ?s" using stored(7) CommitCall by simp
      have "distinct (map fst (lr_champions (store_decision q receipt r ?s)))"
        using ih(2) by (simp add: store_decision_def Let_def distinct_update AList.distinct_delete)
      then show ?thesis unfolding run s'
        using commit_champions [OF snoc.prems _ ih stored(1,4), of receipt r] CommitCall by simp
    qed
  qed
qed

text \<open>A champion is an active version, and there is no second one. Whatever was published and
  committed before, the champion of a family under a policy is a version whose own head under this
  policy is active and was written by the same decision; and as long as it is the champion, every new
  decision that would activate another version of the family under the policy is refused and changes
  nothing. A version belongs to one family.\<close>

theorem champion_unique_active:
  assumes "one_family calls" "(k, c) \<in> set (lr_champions (run_calls (repository_step ext) calls empty_repository))"
  shows "let s = run_calls (repository_step ext) calls empty_repository in
    Champion_of (ch_TenantID c) (ch_ProcedureID c) (ch_PolicyManifestID c) s = Inr c \<and>
    (\<exists>h. VersionHead_of (ch_TenantID c) (ch_ProcedureVersionID c) (ch_PolicyManifestID c) s = Inr h \<and> vh_State h = Active \<and>
       vh_DecisionID h = ch_DecisionID c \<and> vh_ProcedureID h = ch_ProcedureID c) \<and>
    (\<forall>q. ld_NextState (pu_Decision q) = Active \<and> ld_TenantID (pu_Decision q) = ch_TenantID c \<and> ld_ProcedureID (pu_Decision q) = ch_ProcedureID c \<and>
       lm_ID (pu_Manifest q) = ch_PolicyManifestID c \<and> ld_ProcedureVersionID (pu_Decision q) \<noteq> ch_ProcedureVersionID c \<and>
       map_of (lr_receipts s) (ld_ID (pu_Decision q)) = None \<longrightarrow> (\<exists>e. CommitPublication ext q s = (Inl e, s)))"
proof -
  let ?s = "run_calls (repository_step ext) calls empty_repository"
  have ok: "champion_ok calls ?s (k, c)" "distinct (map fst (lr_champions ?s))" using run_champions [OF assms(1), of ext] assms(2) by auto
  have key: "map_of (lr_champions ?s) (lifecycleChampionKey (ch_TenantID c) (ch_ProcedureID c) (ch_PolicyManifestID c)) = Some c"
    using ok assms(2) by (simp add: champion_ok_def)
  have "\<exists>e. CommitPublication ext q ?s = (Inl e, ?s)"
    if "ld_NextState (pu_Decision q) = Active" "ld_TenantID (pu_Decision q) = ch_TenantID c" "ld_ProcedureID (pu_Decision q) = ch_ProcedureID c"
      "lm_ID (pu_Manifest q) = ch_PolicyManifestID c" "ld_ProcedureVersionID (pu_Decision q) \<noteq> ch_ProcedureVersionID c"
      "map_of (lr_receipts ?s) (ld_ID (pu_Decision q)) = None" for q
  proof -
    have "other_champion q ?s" using key that by (simp add: other_champion_def)
    then show ?thesis using that(6) by (simp add: CommitPublication_def)
  qed
  then show ?thesis using key ok by (auto simp: Let_def Champion_of_def VersionHead_of_def champion_ok_def head_of_champion_def)
qed

end
