(* ===== verification/Spec2Isabelle.thy ===== *)
theory Spec2Isabelle
  imports Traces Ranking Lifecycle Eligibility Evidence_Evaluation Outcomes Experiment_Reserve Parallel_Schedule Maintenance_Runner Procedure_Pipeline Outcome_Service Projection_Roundtrip Lifecycle_Heads
begin

text \<open>
  A verification development for memJev, a procedural memory for agents, written in Go. Traces of
  agent runs are ingested and archived, their outcomes are recorded and evaluated, procedures are
  synthesized from them, promoted through a lifecycle, recalled and ranked, composed into plans, and
  the outcome of an injected plan is credited back to it. All file names are below
  \<^verbatim>\<open>src/internal\<close>.

  \<^bold>\<open>How the parts interact.\<close> A trace becomes a canonical batch (\<^verbatim>\<open>canonical\<close>), is stored in the archive
  (\<^verbatim>\<open>archive\<close>) and committed to the ledger (\<^verbatim>\<open>store\<close>). An outcome of the trace becomes a canonical outcome
  and gets a verdict (\<^verbatim>\<open>evidence\<close>); the service (\<^verbatim>\<open>outcome\<close>) resolves an injected plan in the selections
  (\<^verbatim>\<open>selection\<close>), credits it (\<^verbatim>\<open>credit\<close>) and commits everything to the same ledger. Tool contracts
  (\<^verbatim>\<open>toolcontract\<close>) turn a batch into a causal graph, from which a verified outcome synthesizes a
  procedure (\<^verbatim>\<open>synthesis\<close>). The procedure becomes a projection with a retrieval document (\<^verbatim>\<open>projection\<close>,
  \<^verbatim>\<open>retrieval\<close>) and is published under a new epoch of its tenant (\<^verbatim>\<open>store\<close>). Evidence moves a version through its lifecycle (\<^verbatim>\<open>lifecycle\<close>); recall is gated
  (\<^verbatim>\<open>eligibility\<close>), ranked (\<^verbatim>\<open>ranking\<close>) and routed between champion and challengers (\<^verbatim>\<open>experiment\<close>). The
  planner (\<^verbatim>\<open>composition\<close>) composes procedures into a plan and divides it into parallel groups; the plan
  is selected and committed (\<^verbatim>\<open>selection\<close>). Background jobs run from a queue with leases (\<^verbatim>\<open>maintenance\<close>).

  \<^bold>\<open>Conventions.\<close> A Go string or byte slice is a \<^typ>\<open>string\<close> of bytes; an integer of fixed width is a word,
  with the wrap around of Go; \<^verbatim>\<open>time.Time\<close> is an instant in nanoseconds with a zone, \<^verbatim>\<open>time.Duration\<close> an
  integer. A struct is a record whose fields carry a short prefix, an error is the left side of a
  sum. A map is an association list, a map that is iterated and then sorted is its sorted list of
  keys. \<^verbatim>\<open>sort.Slice\<close> is any sorted permutation (\<^verbatim>\<open>SortSlice\<close>); where the order is total, it is unique. A
  method under a mutex is an atomic step with the reading of its clock as an argument, so a
  concurrent run is a sequence of steps. The context is never cancelled, nil and empty slices are
  the same, and copies that only guard against aliasing are the identity. Code that is not in the
  repository or that computes on text in ways the components do not depend on is a parameter: the
  record \<^verbatim>\<open>externals\<close> (JSON encoding and its canonical form, SHA-256, NFC, RFC 3339), the semantic version
  library, the schema validator of protocol buffers. What is relied on is stated as a hypothesis
  where it is used: a digest has 32 bytes, versions are ordered. \<^verbatim>\<open>sample_externals\<close> is a concrete instance
  for the witnesses.

  \<^bold>\<open>The library.\<close> \<^verbatim>\<open>Prelude\<close> holds strings, results and sorted lists, \<^verbatim>\<open>SortSlice\<close> sorting, \<^verbatim>\<open>Machine\<close> words and
  time, \<^verbatim>\<open>Domain\<close> the exchanged values with their JSON. Interfaces are locales, each interpreted on the
  model of the code: \<^verbatim>\<open>keyed_order\<close> (sorting by a key), \<^verbatim>\<open>sealed_value\<close> in \<^verbatim>\<open>Sealing\<close> (records that carry their
  own hash), \<^verbatim>\<open>append_only\<close> in \<^verbatim>\<open>Append_Only\<close> (repositories that never replace what they accepted; selections,
  archive, ledger and reservations interpret it), the search of \<^verbatim>\<open>Beam_Search\<close> over the function that
  builds a state, the grouping of \<^verbatim>\<open>Parallel_Schedule\<close>, \<^verbatim>\<open>job_store\<close> in \<^verbatim>\<open>Maintenance_Runner\<close> (what the runner needs
  of a queue), \<^verbatim>\<open>tool_registry\<close> in \<^verbatim>\<open>Procedure_Pipeline\<close> (what the graph builder needs of a registry).

  \<^bold>\<open>The components.\<close>
  \<^item> \<^verbatim>\<open>Canonical\<close>, \<^verbatim>\<open>Traces\<close> (\<^verbatim>\<open>canonical/*.go\<close>, \<^verbatim>\<open>contracts\<close>): encoding and hashing, normalisation of paths and
    fields, \<^verbatim>\<open>Build\<close> and \<^verbatim>\<open>VerifyBatch\<close>. Accepted paths stay below their root; a built batch verifies.
  \<^item> \<^verbatim>\<open>Outcomes\<close>, \<^verbatim>\<open>Evidence_Evaluation\<close> (\<^verbatim>\<open>evidence/*.go\<close>): canonical outcomes, and the verdict, which is that of a
    specification over the facts that are not superseded.
  \<^item> \<^verbatim>\<open>Credentials\<close>, \<^verbatim>\<open>Outcome_Service\<close> (\<^verbatim>\<open>security/sensitive.go\<close>, \<^verbatim>\<open>security/principal.go\<close>, \<^verbatim>\<open>policy/consent.go\<close>,
    \<^verbatim>\<open>outcome/service.go\<close>): credential patterns over an executable matcher that decides the usual meaning of
    regular expressions; the whole call that records an outcome. What is recorded was permitted and
    is canonical, what is prepared passes the store, retries are safe.
  \<^item> \<^verbatim>\<open>Archive\<close> (\<^verbatim>\<open>archive/archive.go\<close>, \<^verbatim>\<open>memory.go\<close>): content addressed objects; reads return what was put.
  \<^item> \<^verbatim>\<open>Ledger\<close>, \<^verbatim>\<open>Ledger_Integrity\<close> (\<^verbatim>\<open>store/ingest.go\<close>, \<^verbatim>\<open>store/outcome.go\<close>, \<^verbatim>\<open>store/memory/ingest.go\<close>): the ledger of traces
    and outcomes. References never dangle, accepted content never changes, an injected plan is
    credited to one outcome.
  \<^item> \<^verbatim>\<open>Credit\<close>, \<^verbatim>\<open>Credit_Assignment\<close> (\<^verbatim>\<open>credit/*.go\<close>): the class of a credit is exactly that of the attribution rule.
  \<^item> \<^verbatim>\<open>Selection\<close>, \<^verbatim>\<open>Selection_Commit\<close> (\<^verbatim>\<open>selection/*.go\<close>, \<^verbatim>\<open>store/memory/selection.go\<close>): sealed drafts and records;
    a committed selection is returned by retries and lookups until it expires.
  \<^item> \<^verbatim>\<open>Tool_Contracts\<close>, \<^verbatim>\<open>Tool_Registry\<close> (\<^verbatim>\<open>toolcontract/*.go\<close>): canonical manifests; resolution returns the best
    registered contract.
  \<^item> \<^verbatim>\<open>Causal_Graph\<close>, \<^verbatim>\<open>Causal_Edges\<close>, \<^verbatim>\<open>Synthesis\<close>, \<^verbatim>\<open>Synthesis_Steps\<close>, \<^verbatim>\<open>Procedure_Pipeline\<close> (\<^verbatim>\<open>synthesis/*.go\<close>): the edges of
    the graph are exactly the justified ones, the steps of a procedure exactly the proven or
    relevant events, and an unknown tool never becomes part of a procedure.
  \<^item> \<^verbatim>\<open>Wilson\<close>, \<^verbatim>\<open>Lifecycle\<close> (\<^verbatim>\<open>lifecycle/manifest.go\<close>, \<^verbatim>\<open>evaluate.go\<close>): the confidence bound is the floor of the exact
    one; decisions refine the policy, and active is reached only through a trial.
  \<^item> \<^verbatim>\<open>Queries\<close>, \<^verbatim>\<open>Documents\<close> (\<^verbatim>\<open>retrieval/query.go\<close>, \<^verbatim>\<open>document.go\<close>): the canonical query of a request does not depend on
    order, repetition or the iteration of maps; a retrieval document stays faithful through its revisions.
  \<^item> \<^verbatim>\<open>Projections\<close>, \<^verbatim>\<open>Projection_Roundtrip\<close> (\<^verbatim>\<open>projection/model.go\<close>, \<^verbatim>\<open>repository.go\<close>): what \<^verbatim>\<open>Build\<close> makes of a synthesis
    result, \<^verbatim>\<open>Validate\<close> accepts.
  \<^item> \<^verbatim>\<open>Projection_Store\<close>, \<^verbatim>\<open>Projection_Log\<close>, \<^verbatim>\<open>Lifecycle_Heads\<close> (\<^verbatim>\<open>store/memory/projection.go\<close>, \<^verbatim>\<open>store/memory/lifecycle.go\<close>,
    \<^verbatim>\<open>lifecycle/repository.go\<close>): published documents form one hash chained log per tenant; a champion is an
    active version and the only one of its family under a policy.
  \<^item> \<^verbatim>\<open>Eligibility\<close> (\<^verbatim>\<open>eligibility/*.go\<close>): a version is eligible exactly if it passes every gate.
  \<^item> \<^verbatim>\<open>Ranking\<close> (\<^verbatim>\<open>ranking/*.go\<close>): no accepted manifest overflows, the scores are exact, the order is total.
  \<^item> \<^verbatim>\<open>Experiment\<close>, \<^verbatim>\<open>Experiment_Reserve\<close> (\<^verbatim>\<open>experiment/*.go\<close>, \<^verbatim>\<open>store/memory/experiment.go\<close>): routing to challengers,
    and reservations that keep the exposure caps under any sequence of calls.
  \<^item> \<^verbatim>\<open>Interfaces\<close>, \<^verbatim>\<open>Compatibility\<close>, \<^verbatim>\<open>Compatibility_Graph\<close>, \<^verbatim>\<open>Topological\<close>, \<^verbatim>\<open>Planner\<close>, \<^verbatim>\<open>Beam_Search\<close>, \<^verbatim>\<open>Planning\<close>
    (\<^verbatim>\<open>composition/contract.go\<close>, \<^verbatim>\<open>compatibility.go\<close>, \<^verbatim>\<open>manifest.go\<close>, \<^verbatim>\<open>planner.go\<close> and the interfaces of
    \<^verbatim>\<open>retrieval/document.go\<close>): the graph has exactly the edges of the matrix, the order of a plan is
    topological, a returned plan keeps all limits, validates, and states its strength and gaps exactly.
  \<^item> \<^verbatim>\<open>Parallel\<close>, \<^verbatim>\<open>Parallel_Schedule\<close> (\<^verbatim>\<open>composition/parallel.go\<close>): groups respect the plan and have no conflict.
  \<^item> \<^verbatim>\<open>Maintenance\<close>, \<^verbatim>\<open>Maintenance_Queue\<close>, \<^verbatim>\<open>Maintenance_Runner\<close> (\<^verbatim>\<open>maintenance/*.go\<close>, \<^verbatim>\<open>store/memory/maintenance.go\<close>): only
    the holder of the latest lease ends a job, a job ends once, and a runner drains the queue.

  \<^verbatim>\<open>Planner_Sample\<close> and \<^verbatim>\<open>Parallel_Sample\<close> hold a concrete request for the witnesses.

  \<^bold>\<open>Loops and bounds.\<close> Loops over data are structural recursions. The search of the planner runs for the
  number of rounds of its manifest, as in the code. The binary search of the Wilson bound is a
  partial function with values in \<^verbatim>\<open>option\<close> that is proved to return. The topological order recurses on
  the nodes left, the runner on rounds, and that it ends the jobs is proved. The matcher of the
  credential patterns iterates as often as the text has characters, which is proved to be enough.

  \<^bold>\<open>Not modelled.\<close> The SurrealDB store (\<^verbatim>\<open>store/surreal\<close>, \<^verbatim>\<open>db\<close>) is queries in another language sent to a
  server; the object store of \<^verbatim>\<open>archive/s3.go\<close>, the \<^verbatim>\<open>api\<close>, the commands, \<^verbatim>\<open>config\<close>, \<^verbatim>\<open>embedding\<close> and the client of
  \<^verbatim>\<open>jev\<close> are input and output; \<^verbatim>\<open>workflow\<close> runs on the Temporal service; \<^verbatim>\<open>gen\<close> is generated; \<^verbatim>\<open>observability\<close>
  has no effect on results. The sanitizer of \<^verbatim>\<open>ingest\<close> rests on an entropy in floating point, so the
  ingest service above the ledger is left out with it. The recall service over the channels, which
  runs them concurrently under a deadline, its stored runs, rebuild, erasure, the issuer of plans and
  the repositories of these parts are left out.
\<close>

end
